(* ===== verification/Prelude.thy ===== *)
theory Prelude
  imports Main "HOL-Library.Word" "HOL-Library.Monad_Syntax"
begin

text \<open>
  What every component of the development shares: the machine integer types of the C code,
  the error numbers it returns, and checked access to byte buffers.

  An operation that can abort the process (a failed \<^verbatim>\<open>OSMO_ASSERT\<close>, a NULL pointer
  dereference, a read or write past the end of an array, a division by zero) returns
  an option: \<^term>\<open>None\<close> is the abort, \<^term>\<open>Some r\<close> a normal return with the
  results \<^term>\<open>r\<close>. Error codes the C function returns are ordinary results: negative
  integers, as in the source.
\<close>

unbundle bit_operations_syntax

section \<open>Machine integers and error numbers\<close>

type_synonym u8 = "8 word"
type_synonym u16 = "16 word"
type_synonym u32 = "32 word"
type_synonym u64 = "64 word"

text \<open>The values of \<^verbatim>\<open>errno.h\<close> (Linux).\<close>

abbreviation (input) ENOENT :: int where "ENOENT \<equiv> 2"
abbreviation (input) EIO :: int where "EIO \<equiv> 5"
abbreviation (input) EAGAIN :: int where "EAGAIN \<equiv> 11"
abbreviation (input) EBUSY :: int where "EBUSY \<equiv> 16"
abbreviation (input) ENODEV :: int where "ENODEV \<equiv> 19"
abbreviation (input) EINVAL :: int where "EINVAL \<equiv> 22"
abbreviation (input) ERANGE :: int where "ERANGE \<equiv> 34"
abbreviation (input) ENOTSUP :: int where "ENOTSUP \<equiv> 95"
abbreviation (input) EALREADY :: int where "EALREADY \<equiv> 114"

section \<open>Buffers\<close>

text \<open>
  \<^term>\<open>chunk off n xs\<close> is the \<^verbatim>\<open>n\<close> octets at offset \<^verbatim>\<open>off\<close>;
  \<open>read_at\<close>, \<open>write_at\<close> and \<open>index_at\<close> are the accesses of
  \<^verbatim>\<open>memcpy\<close> and of array indexing, \<^term>\<open>None\<close> when they leave the array.
\<close>

definition chunk :: "nat \<Rightarrow> nat \<Rightarrow> 'a list \<Rightarrow> 'a list" where
  "chunk off n xs = take n (drop off xs)"

definition read_at :: "nat \<Rightarrow> nat \<Rightarrow> 'a list \<Rightarrow> 'a list option" where
  "read_at off n xs = (if off + n \<le> length xs then Some (chunk off n xs) else None)"

definition write_at :: "nat \<Rightarrow> 'a list \<Rightarrow> 'a list \<Rightarrow> 'a list option" where
  "write_at off src dst =
     (if off + length src \<le> length dst
      then Some (take off dst @ src @ drop (off + length src) dst) else None)"

definition index_at :: "'a list \<Rightarrow> nat \<Rightarrow> 'a option" where
  "index_at xs i = (if i < length xs then Some (xs ! i) else None)"

named_theorems buf_simps "checked buffer accesses that succeed, and what they leave"

lemma length_chunk [buf_simps]: "length (chunk off n xs) = min n (length xs - off)"
  by (simp add: chunk_def)

lemma chunk_all [buf_simps]: "length xs = n \<Longrightarrow> chunk 0 n xs = xs"
  by (simp add: chunk_def)

lemma nth_chunk [buf_simps]: "i < n \<Longrightarrow> off + n \<le> length xs \<Longrightarrow> chunk off n xs ! i = xs ! (off + i)"
  by (simp add: chunk_def)

lemma chunk_map [buf_simps]: "chunk off n (map f xs) = map f (chunk off n xs)"
  by (simp add: chunk_def take_map drop_map)

lemma chunk_append_left [buf_simps]:
  "off + n \<le> length xs \<Longrightarrow> chunk off n (xs @ ys) = chunk off n xs"
  by (simp add: chunk_def)

lemma chunk_append_right [buf_simps]:
  "length xs \<le> off \<Longrightarrow> chunk off n (xs @ ys) = chunk (off - length xs) n ys"
  by (simp add: chunk_def)

lemma chunk_join: "chunk off m xs @ chunk (off + m) n xs = chunk off (m + n) xs"
  by (simp add: chunk_def take_add add.commute)

lemma read_at_Some [buf_simps]: "off + n \<le> length xs \<Longrightarrow> read_at off n xs = Some (chunk off n xs)"
  by (simp add: read_at_def)

lemma write_at_Some [buf_simps]:
  "off + length src \<le> length dst \<Longrightarrow>
   write_at off src dst = Some (take off dst @ src @ drop (off + length src) dst)"
  by (simp add: write_at_def)

lemma index_at_Some [buf_simps]: "i < length xs \<Longrightarrow> index_at xs i = Some (xs ! i)"
  by (simp add: index_at_def)

lemma read_at_eq_Some: "read_at off n xs = Some ys \<longleftrightarrow> off + n \<le> length xs \<and> ys = chunk off n xs"
  by (auto simp: read_at_def)

lemma write_at_eq_Some:
  "write_at off src dst = Some ys \<longleftrightarrow>
     off + length src \<le> length dst \<and> ys = take off dst @ src @ drop (off + length src) dst"
  by (auto simp: write_at_def)

lemma index_at_eq_Some: "index_at xs i = Some x \<longleftrightarrow> i < length xs \<and> x = xs ! i"
  by (auto simp: index_at_def)

lemma length_write_at: "write_at off src dst = Some ys \<Longrightarrow> length ys = length dst"
  by (auto simp: write_at_eq_Some)

lemma chunk_write_at_same:
  "write_at off src dst = Some ys \<Longrightarrow> chunk off (length src) ys = src"
  by (auto simp: write_at_eq_Some chunk_def)

lemma chunk_write_at_before:
  "write_at off src dst = Some ys \<Longrightarrow> o2 + n \<le> off \<Longrightarrow> chunk o2 n ys = chunk o2 n dst"
  by (auto simp: write_at_eq_Some chunk_def min_def drop_take)

lemma chunk_write_at_after:
  "write_at off src dst = Some ys \<Longrightarrow> off + length src \<le> o2 \<Longrightarrow> chunk o2 n ys = chunk o2 n dst"
  by (auto simp: write_at_eq_Some chunk_def)

section \<open>The option monad\<close>

lemma bind_Some_iff [simp]: "(Option.bind m f = Some r) \<longleftrightarrow> (\<exists>x. m = Some x \<and> f x = Some r)"
  by (cases m) auto

lemma bind_None_iff: "(Option.bind m f = None) \<longleftrightarrow> (m = None \<or> (\<exists>x. m = Some x \<and> f x = None))"
  by (cases m) auto

lemma not_None_SomeI: "m = Some x \<Longrightarrow> m \<noteq> None"
  by simp

section \<open>Words\<close>

lemma bit_word_or_push_bit: "n < LENGTH('a) \<Longrightarrow> bit ((m :: 'a::len word) OR push_bit n 1) n"
  by (simp add: bit_simps)

lemma word_or_bit_nonzero:
  fixes m :: "'a::len word"
  shows "n < LENGTH('a) \<Longrightarrow> m OR push_bit n 1 \<noteq> 0"
proof
  assume n: "n < LENGTH('a)" and z: "m OR push_bit n 1 = 0"
  have "bit (m OR push_bit n 1) n" using n by (rule bit_word_or_push_bit)
  then show False unfolding z by simp
qed

section \<open>Octets on the wire\<close>

text \<open>
  \<open>octet i xs\<close> is the octet at offset \<open>i\<close> of a message in a zeroed buffer: a read past its end yields
  0. \<open>be16\<close>, \<open>be32\<close> read a field in network order (\<^verbatim>\<open>ntohs\<close>, \<^verbatim>\<open>ntohl\<close>); \<open>be16_octets\<close>,
  \<open>be32_octets\<close> are what \<^verbatim>\<open>htons\<close>, \<^verbatim>\<open>htonl\<close> store.
\<close>

definition octet :: "nat \<Rightarrow> u8 list \<Rightarrow> u8" where
  "octet i xs = (if i < length xs then xs ! i else 0)"

definition be16 :: "nat \<Rightarrow> u8 list \<Rightarrow> u16" where
  "be16 i xs = push_bit 8 (ucast (octet i xs)) OR ucast (octet (i + 1) xs)"

definition be32 :: "nat \<Rightarrow> u8 list \<Rightarrow> u32" where
  "be32 i xs = push_bit 24 (ucast (octet i xs)) OR push_bit 16 (ucast (octet (i + 1) xs)) OR
     push_bit 8 (ucast (octet (i + 2) xs)) OR ucast (octet (i + 3) xs)"

definition be16_octets :: "u16 \<Rightarrow> u8 list" where
  "be16_octets w = [ucast (drop_bit 8 w), ucast w]"

definition be32_octets :: "u32 \<Rightarrow> u8 list" where
  "be32_octets w = [ucast (drop_bit 24 w), ucast (drop_bit 16 w), ucast (drop_bit 8 w), ucast w]"

lemma octet_append: "octet i (xs @ ys) = (if i < length xs then octet i xs else octet (i - length xs) ys)"
  by (auto simp: octet_def nth_append)

lemma be16_be16_octets: "be16 0 (be16_octets w @ r) = w"
  by (rule bit_word_eqI) (auto simp: be16_def be16_octets_def octet_def bit_simps)

lemma be32_be32_octets: "be32 0 (be32_octets w @ r) = w"
proof (rule bit_word_eqI)
  fix n assume "n < LENGTH(32)"
  then consider "n < 8" | "8 \<le> n" "n < 16" | "16 \<le> n" "n < 24" | "24 \<le> n" "n < 32" by force
  then show "bit (be32 0 (be32_octets w @ r)) n = bit w n"
    by cases (simp_all add: be32_def be32_octets_def octet_def bit_simps, auto)
qed

lemma be_append: "be16 (length h + i) (h @ xs) = be16 i xs" "be32 (length h + i) (h @ xs) = be32 i xs"
  by (simp_all add: be16_def be32_def octet_append add.assoc)

lemma length_be_octets [simp]: "length (be16_octets w) = 2" "length (be32_octets d) = 4"
  by (simp_all add: be16_octets_def be32_octets_def)

end
