(* ===== verification/Lib_Osmo.thy ===== *)
theory Lib_Osmo
  imports Prelude
begin

text \<open>
  The code outside the repository that trxcon calls: libosmocore, libosmogsm and
  libosmocoding of the system (\<^verbatim>\<open>README.building\<close> forbids the copy under
  \<^verbatim>\<open>src/shared\<close> for the host programs), and \<^verbatim>\<open>rand\<close> of the C library.
  It is a parameter of the model: a value of \<open>libosmo\<close> gives one function or
  constant per external symbol, and every definition that calls one takes that value as its
  first argument. What the code relies on is stated by the predicates below, one group of
  documented facts each.
\<close>

section \<open>The external functions as a parameter\<close>

text \<open>The channel codecs of libosmocoding that the traffic channels use for data and FACCH.\<close>

datatype tch_codec =
  TCH_FR144 | TCH_FR96 | TCH_FR48 | TCH_FR24 | TCH_HR48 | TCH_HR24 | TCH_FR_FACCH | TCH_HR_FACCH

text \<open>
  An encoder takes the part of the burst buffer it writes to and the L2 payload and returns
  its return code and the new contents; a decoder takes soft bits and returns its return
  code, the L2 octets, the number of bit errors and the number of bits. A NULL payload
  (the encoders of speech take one) is \<^term>\<open>None\<close>.
\<close>

text \<open>The GPRS coding schemes (\<^verbatim>\<open>enum osmo_gprs_cs\<close>); the ones after CS-4 are not told apart.\<close>

datatype gprs_cs = OSMO_GPRS_CS_NONE | OSMO_GPRS_CS1 | OSMO_GPRS_CS2 | OSMO_GPRS_CS3 | OSMO_GPRS_CS4 | OSMO_GPRS_MCS

record libosmo =
  RSL_CHAN_OSMO_PDCH :: u8
  RSL_CHAN_OSMO_CBCH4 :: u8
  RSL_CHAN_OSMO_CBCH8 :: u8
  AMR_OTHER :: u8
  AMR_SID :: u8
  gsm0502_fncmp :: "u32 \<Rightarrow> u32 \<Rightarrow> int"
  GSM_TDMA_FN_INC :: "u32 \<Rightarrow> u32"
  GSM_TDMA_FN_SUB :: "u32 \<Rightarrow> u32 \<Rightarrow> u32"
  osmo_a5_dl :: "u8 \<Rightarrow> u8 list \<Rightarrow> u32 \<Rightarrow> u8 list"
  osmo_a5_ul :: "u8 \<Rightarrow> u8 list \<Rightarrow> u32 \<Rightarrow> u8 list"
  gsm0503_xcch_decode :: "u8 list \<Rightarrow> int \<times> u8 list \<times> int \<times> int"
  gsm0503_xcch_encode :: "u8 list \<Rightarrow> u8 list \<Rightarrow> int \<times> u8 list"
  gsm0503_pdtch_decode :: "u8 list \<Rightarrow> int \<times> u8 list \<times> int \<times> int"
  gsm0503_pdtch_encode :: "u8 list \<Rightarrow> u8 list \<Rightarrow> int \<times> u8 list"
  gsm0503_rach_ext_encode :: "u16 \<Rightarrow> u8 \<Rightarrow> bool \<Rightarrow> int \<times> u8 list"
  gsm0503_sch_decode :: "u8 list \<Rightarrow> int \<times> u8 list"
  gsm0503_tch_fr_decode :: "u8 list \<Rightarrow> bool \<Rightarrow> int \<times> u8 list \<times> int \<times> int"
  gsm0503_tch_fr_encode :: "u8 list \<Rightarrow> u8 list option \<Rightarrow> int \<times> u8 list"
  gsm0503_tch_hr_decode :: "u8 list \<Rightarrow> bool \<Rightarrow> int \<times> u8 list \<times> int \<times> int"
  gsm0503_tch_hr_encode :: "u8 list \<Rightarrow> u8 list option \<Rightarrow> int \<times> u8 list"
  gsm0503_tch_decode :: "tch_codec \<Rightarrow> u8 list \<Rightarrow> int \<times> u8 list \<times> int \<times> int"
  gsm0503_tch_encode :: "tch_codec \<Rightarrow> u8 list \<Rightarrow> u8 list \<Rightarrow> u8 list"
  gsm0503_tch_afs_decode_dtx :: "u8 list \<Rightarrow> bool \<Rightarrow> u8 list \<Rightarrow> u8 \<Rightarrow> u8 \<Rightarrow> u8 \<Rightarrow> u8 \<Rightarrow>
    int \<times> u8 list \<times> int \<times> int \<times> u8 \<times> u8 \<times> u8"
  gsm0503_tch_ahs_decode_dtx :: "u8 list \<Rightarrow> bool \<Rightarrow> bool \<Rightarrow> u8 list \<Rightarrow> u8 \<Rightarrow> u8 \<Rightarrow> u8 \<Rightarrow> u8 \<Rightarrow>
    int \<times> u8 list \<times> int \<times> int \<times> u8 \<times> u8 \<times> u8"
  gsm0503_tch_afs_encode :: "u8 list \<Rightarrow> u8 list option \<Rightarrow> bool \<Rightarrow> u8 list \<Rightarrow> u8 \<Rightarrow> u8 \<Rightarrow> u8 \<Rightarrow>
    int \<times> u8 list"
  gsm0503_tch_ahs_encode :: "u8 list \<Rightarrow> u8 list option \<Rightarrow> bool \<Rightarrow> u8 list \<Rightarrow> u8 \<Rightarrow> u8 \<Rightarrow> u8 \<Rightarrow>
    int \<times> u8 list"
  osmo_amr_rtp_dec :: "u8 list \<Rightarrow> int \<times> u8 \<times> u8"
  osmo_amr_rtp_enc :: "u8 \<Rightarrow> u8 \<Rightarrow> int \<times> u8 list"
  GSM_TDMA_FN_SUM :: "u32 \<Rightarrow> u32 \<Rightarrow> u32"
  dbm2rxlev :: "int \<Rightarrow> u8"
  gsm_arfcn2band_rc :: "u16 \<Rightarrow> nat option"
  osmo_gprs_dl_cs_by_block_bytes :: "nat \<Rightarrow> gprs_cs"
  gsm_arfcn2freq10 :: "u16 \<Rightarrow> bool \<Rightarrow> u16"
  gsm_freq102arfcn :: "u16 \<Rightarrow> bool \<Rightarrow> u16"
  rand_fill :: "nat \<Rightarrow> u8"
  prim_to_user_rc :: int

text \<open>
  \<open>rand_fill i\<close> is the value of \<^verbatim>\<open>rand()\<close> stored at octet \<open>i\<close> of a
  fill frame. \<open>prim_to_user_rc\<close> is the return code of the user's
  \<^verbatim>\<open>l1sched_prim_to_user()\<close>, which no caller looks at.
\<close>

section \<open>Documented facts\<close>

definition GSM_TDMA_HYPERFRAME :: nat where
  "GSM_TDMA_HYPERFRAME = 26 * 51 * 2048"

text \<open>The channel numbers libosmogsm reserves for its own extensions (C-bits 24, 25 and 26).\<close>

definition rsl_osmo_ok :: "libosmo \<Rightarrow> bool" where
  "rsl_osmo_ok L \<longleftrightarrow> RSL_CHAN_OSMO_PDCH L = 0xc0 \<and> RSL_CHAN_OSMO_CBCH4 L = 0xc8 \<and>
     RSL_CHAN_OSMO_CBCH8 L = 0xd0"

text \<open>TDMA frame number arithmetic is modulo the hyperframe.\<close>

definition fn_arith_ok :: "libosmo \<Rightarrow> bool" where
  "fn_arith_ok L \<longleftrightarrow>
     (\<forall>fn. unat (GSM_TDMA_FN_INC L fn) = (unat fn + 1) mod GSM_TDMA_HYPERFRAME) \<and>
     (\<forall>a b. unat a < GSM_TDMA_HYPERFRAME \<and> unat b < GSM_TDMA_HYPERFRAME \<longrightarrow>
        unat (GSM_TDMA_FN_SUB L a b)
          = (unat a + GSM_TDMA_HYPERFRAME - unat b) mod GSM_TDMA_HYPERFRAME)"

text \<open>A5 produces 114 keystream bits for each direction.\<close>

definition a5_ok :: "libosmo \<Rightarrow> bool" where
  "a5_ok L \<longleftrightarrow> (\<forall>algo key fn. length (osmo_a5_dl L algo key fn) = 114 \<and>
     length (osmo_a5_ul L algo key fn) = 114)"

text \<open>
  An encoder never changes the length of the buffer it writes to, and writes hard bits; the
  synchronisation channel decoder fills its four octets.
\<close>

definition codec_len_ok :: "libosmo \<Rightarrow> bool" where
  "codec_len_ok L \<longleftrightarrow>
     (\<forall>b d. length (snd (gsm0503_xcch_encode L b d)) = length b) \<and>
     (\<forall>b d. length (snd (gsm0503_pdtch_encode L b d)) = length b) \<and>
     (\<forall>ra bsic x. length (snd (gsm0503_rach_ext_encode L ra bsic x)) = 36) \<and>
     (\<forall>b. length (snd (gsm0503_sch_decode L b)) = 4) \<and>
     (\<forall>b p. length (snd (gsm0503_tch_fr_encode L b p)) = length b) \<and>
     (\<forall>b p. length (snd (gsm0503_tch_hr_encode L b p)) = length b) \<and>
     (\<forall>k b d. length (gsm0503_tch_encode L k b d) = length b) \<and>
     (\<forall>b p m cs n ft cmr. length (snd (gsm0503_tch_afs_encode L b p m cs n ft cmr)) = length b) \<and>
     (\<forall>b p m cs n ft cmr. length (snd (gsm0503_tch_ahs_encode L b p m cs n ft cmr)) = length b)"

text \<open>
  A decoder's return code is the number of L2 octets it has written (0 for the xCCH decoder,
  which writes a whole block), or negative. The AMR decoders leave the codec indices within the
  set of four; the RTP encoder writes a two-octet header and returns at most 33, the length of a
  12.2 kbit/s frame.
\<close>

definition dec_ok :: "int \<times> u8 list \<times> 'a \<Rightarrow> bool" where
  "dec_ok r \<longleftrightarrow> fst r \<le> int (length (fst (snd r))) \<and> fst r \<le> 290"

definition amr_dec_ok :: "int \<times> u8 list \<times> int \<times> int \<times> u8 \<times> u8 \<times> u8 \<Rightarrow> bool" where
  "amr_dec_ok r \<longleftrightarrow> (case r of (rc, d, _, _, ft, cmr, _) \<Rightarrow>
     rc = 23 \<and> 23 \<le> length d \<or> rc < 4 \<or> 31 \<le> length d \<and> unat ft < 4 \<and> unat cmr < 4)"

definition decode_ok :: "libosmo \<Rightarrow> bool" where
  "decode_ok L \<longleftrightarrow>
     (\<forall>b. fst (gsm0503_xcch_decode L b) = 0 \<longrightarrow> length (fst (snd (gsm0503_xcch_decode L b))) = 23) \<and>
     (\<forall>b. dec_ok (gsm0503_pdtch_decode L b)) \<and>
     (\<forall>b x. dec_ok (gsm0503_tch_fr_decode L b x)) \<and>
     (\<forall>b x. dec_ok (gsm0503_tch_hr_decode L b x)) \<and>
     (\<forall>k b. dec_ok (gsm0503_tch_decode L k b)) \<and>
     (\<forall>b x cs n ft cmr dtx. amr_dec_ok (gsm0503_tch_afs_decode_dtx L b x cs n ft cmr dtx)) \<and>
     (\<forall>b y x cs n ft cmr dtx. amr_dec_ok (gsm0503_tch_ahs_decode_dtx L b y x cs n ft cmr dtx)) \<and>
     (\<forall>c f. fst (osmo_amr_rtp_enc L c f) \<le> 33 \<and> length (snd (osmo_amr_rtp_enc L c f)) = 2)"

lemma decode_okD:
  assumes "decode_ok L"
  shows "fst (gsm0503_xcch_decode L b) = 0 \<Longrightarrow> length (fst (snd (gsm0503_xcch_decode L b))) = 23"
    and "dec_ok (gsm0503_pdtch_decode L b)"
    and "dec_ok (gsm0503_tch_fr_decode L b x)"
    and "dec_ok (gsm0503_tch_hr_decode L b x)"
    and "dec_ok (gsm0503_tch_decode L k b)"
    and "amr_dec_ok (gsm0503_tch_afs_decode_dtx L b x cs n ft cmr dtx)"
    and "amr_dec_ok (gsm0503_tch_ahs_decode_dtx L b y x cs n ft cmr dtx)"
    and "fst (osmo_amr_rtp_enc L c f) \<le> 33" "length (snd (osmo_amr_rtp_enc L c f)) = 2"
  using assms by (simp_all add: decode_ok_def)

text \<open>
  The soft bit a receiver sees for a transmitted hard bit without channel errors
  (\<^verbatim>\<open>sbit_t\<close>: 127 is a sure 0, -127 a sure 1), and the fact that libosmocoding's
  xCCH decoder inverts its encoder on such bits.
\<close>

definition ubit2sbit :: "u8 \<Rightarrow> u8" where
  "ubit2sbit b = (if b = 0 then 127 else - 127)"

definition xcch_codec_ok :: "libosmo \<Rightarrow> bool" where
  "xcch_codec_ok L \<longleftrightarrow> (\<forall>buf l2. length buf = 4 * 116 \<and> length l2 = 23 \<longrightarrow>
     fst (gsm0503_xcch_encode L buf l2) = 0 \<and>
     fst (gsm0503_xcch_decode L (map ubit2sbit (snd (gsm0503_xcch_encode L buf l2)))) = 0 \<and>
     fst (snd (gsm0503_xcch_decode L (map ubit2sbit (snd (gsm0503_xcch_encode L buf l2))))) = l2)"

lemma codec_len_okD:
  assumes "codec_len_ok L"
  shows "length (snd (gsm0503_xcch_encode L b d)) = length b"
    and "length (snd (gsm0503_pdtch_encode L b d)) = length b"
    and "length (snd (gsm0503_rach_ext_encode L ra bsic x)) = 36"
    and "length (snd (gsm0503_sch_decode L b)) = 4"
    and "length (snd (gsm0503_tch_fr_encode L b p)) = length b"
    and "length (snd (gsm0503_tch_hr_encode L b p)) = length b"
    and "length (gsm0503_tch_encode L k b d) = length b"
    and "length (snd (gsm0503_tch_afs_encode L b p m cs n ft cmr)) = length b"
    and "length (snd (gsm0503_tch_ahs_encode L b p m cs n ft cmr)) = length b"
  using assms by (auto simp: codec_len_ok_def)

section \<open>A concrete library for the witnesses\<close>

text \<open>
  A toy library that satisfies every fact above: its xCCH code writes the 23 octets of L2 as
  bits to the front of the block, its keystream is constant.
\<close>

definition octet_bits :: "u8 \<Rightarrow> u8 list" where
  "octet_bits x = map (\<lambda>i. if bit x i then 1 else 0) [0..<8]"

definition bits_octet :: "u8 list \<Rightarrow> u8" where
  "bits_octet bs = horner_sum of_bool 2 (map (\<lambda>b. b \<noteq> 127) bs)"

fun toy_octets :: "nat \<Rightarrow> u8 list \<Rightarrow> u8 list" where
  "toy_octets 0 bs = []"
| "toy_octets (Suc n) bs = bits_octet (take 8 bs) # toy_octets n (drop 8 bs)"

definition toy_fill :: "u8 list \<Rightarrow> u8 list \<Rightarrow> u8 list" where
  "toy_fill buf bs = take (length buf) bs @ drop (length bs) buf"

definition toy_lib :: libosmo where
  "toy_lib = \<lparr>
     RSL_CHAN_OSMO_PDCH = 0xc0, RSL_CHAN_OSMO_CBCH4 = 0xc8, RSL_CHAN_OSMO_CBCH8 = 0xd0,
     AMR_OTHER = 0, AMR_SID = 8,
     gsm0502_fncmp = (\<lambda>a b. if a = b then 0
       else if (unat a + GSM_TDMA_HYPERFRAME - unat b) mod GSM_TDMA_HYPERFRAME
                 < GSM_TDMA_HYPERFRAME div 2 then 1 else - 1),
     GSM_TDMA_FN_INC = (\<lambda>fn. word_of_nat ((unat fn + 1) mod GSM_TDMA_HYPERFRAME)),
     GSM_TDMA_FN_SUB = (\<lambda>a b. word_of_nat
       ((unat a + GSM_TDMA_HYPERFRAME - unat b) mod GSM_TDMA_HYPERFRAME)),
     osmo_a5_dl = (\<lambda>_ _ _. replicate 114 1),
     osmo_a5_ul = (\<lambda>_ _ _. replicate 114 1),
     gsm0503_xcch_decode = (\<lambda>b. (0, toy_octets 23 b, 0, 456)),
     gsm0503_xcch_encode = (\<lambda>b d. (0, toy_fill b (concat (map octet_bits d)))),
     gsm0503_pdtch_decode = (\<lambda>b. (23, replicate 23 0, 0, 456)),
     gsm0503_pdtch_encode = (\<lambda>b d. (0, b)),
     gsm0503_rach_ext_encode = (\<lambda>_ _ _. (0, replicate 36 1)),
     gsm0503_sch_decode = (\<lambda>_. (0, replicate 4 0)),
     gsm0503_tch_fr_decode = (\<lambda>_ _. (33, replicate 33 0, 0, 456)),
     gsm0503_tch_fr_encode = (\<lambda>b _. (0, b)),
     gsm0503_tch_hr_decode = (\<lambda>_ _. (15, replicate 15 0, 0, 228)),
     gsm0503_tch_hr_encode = (\<lambda>b _. (0, b)),
     gsm0503_tch_decode = (\<lambda>_ _. (- 1, [], 0, 0)),
     gsm0503_tch_encode = (\<lambda>_ b _. b),
     gsm0503_tch_afs_decode_dtx = (\<lambda>_ _ _ _ ft cmr dtx. (- 1, [], 0, 0, ft, cmr, dtx)),
     gsm0503_tch_ahs_decode_dtx = (\<lambda>_ _ _ _ _ ft cmr dtx. (- 1, [], 0, 0, ft, cmr, dtx)),
     gsm0503_tch_afs_encode = (\<lambda>b _ _ _ _ _ _. (0, b)),
     gsm0503_tch_ahs_encode = (\<lambda>b _ _ _ _ _ _. (0, b)),
     osmo_amr_rtp_dec = (\<lambda>_. (0, 0, 0)),
     osmo_amr_rtp_enc = (\<lambda>_ _. (0, [0, 0])),
     GSM_TDMA_FN_SUM = (\<lambda>a b. word_of_nat ((unat a + unat b) mod GSM_TDMA_HYPERFRAME)),
     dbm2rxlev = (\<lambda>d. if d < - 110 then 0 else if d > - 47 then 63 else word_of_int (d + 110)),
     gsm_arfcn2band_rc = (\<lambda>a. Some (if a < 125 then 0 else if 512 \<le> a \<and> a < 886 then 1 else 2)),
     osmo_gprs_dl_cs_by_block_bytes = (\<lambda>n. if n = 23 then OSMO_GPRS_CS1 else if n = 34 then OSMO_GPRS_CS2
       else if n = 40 then OSMO_GPRS_CS3 else if n = 54 then OSMO_GPRS_CS4 else OSMO_GPRS_CS_NONE),
     gsm_arfcn2freq10 = (\<lambda>a up. if a < 125 then (if up then 8900 else 9350) + 2 * a else 0xffff),
     gsm_freq102arfcn = (\<lambda>f up. let b = (if up then 8900 else 9350) in
       if b \<le> f \<and> f < b + 250 then word_of_nat (unat (f - b) div 2) else 0xffff),
     rand_fill = (\<lambda>_. 0x2b),
     prim_to_user_rc = 0\<rparr>"

lemma rsl_osmo_ok_toy: "rsl_osmo_ok toy_lib"
  by (simp add: rsl_osmo_ok_def toy_lib_def)

lemma a5_ok_toy: "a5_ok toy_lib"
  by (simp add: a5_ok_def toy_lib_def)

lemma fn_arith_ok_toy: "fn_arith_ok toy_lib"
  by (simp add: fn_arith_ok_def toy_lib_def GSM_TDMA_HYPERFRAME_def unat_of_nat)

lemma length_toy_fill: "length (toy_fill buf bs) = length buf"
  by (simp add: toy_fill_def)

lemma codec_len_ok_toy: "codec_len_ok toy_lib"
  by (simp add: codec_len_ok_def toy_lib_def length_toy_fill)

lemma length_octet_bits: "length (octet_bits x) = 8"
  by (simp add: octet_bits_def)

lemma bits_octet_octet_bits: "bits_octet (map ubit2sbit (octet_bits x)) = x"
proof -
  have "map (\<lambda>b. b \<noteq> 127) (map ubit2sbit (octet_bits x)) = map (bit x) [0..<8]"
    by (simp add: octet_bits_def ubit2sbit_def)
  then show ?thesis
    by (simp add: bits_octet_def horner_sum_bit_eq_take_bit take_bit_word_eq_self del: map_map)
qed

lemma toy_octets_bits:
  "toy_octets (length l2) (map ubit2sbit (concat (map octet_bits l2)) @ rest) = l2"
  by (induction l2) (simp_all add: length_octet_bits bits_octet_octet_bits)

lemma length_concat_octet_bits: "length (concat (map octet_bits l2)) = 8 * length l2"
  by (induction l2) (simp_all add: length_octet_bits)

lemma toy_octets_23:
  "length l2 = 23 \<Longrightarrow> toy_octets 23 (map ubit2sbit (concat (map octet_bits l2)) @ rest) = l2"
  using toy_octets_bits [of l2 rest] by simp

lemma length_toy_octets: "length (toy_octets n bs) = n"
  by (induction n arbitrary: bs) simp_all

lemma decode_ok_toy: "decode_ok toy_lib"
  by (simp add: decode_ok_def dec_ok_def amr_dec_ok_def toy_lib_def length_toy_octets)

lemma xcch_codec_ok_toy: "xcch_codec_ok toy_lib"
  by (simp add: xcch_codec_ok_def toy_lib_def toy_fill_def length_concat_octet_bits toy_octets_23)

end
