(* ===== verification/Sched_Types.thy ===== *)
theory Sched_Types
  imports Lib_Osmo
begin

text \<open>
  The data of trxcon's TDMA scheduler (\<^verbatim>\<open>l1sched.h\<close>, \<^verbatim>\<open>prim.h\<close>,
  \<^verbatim>\<open>sched_lchan_desc.c\<close>): logical channel types and their descriptors, primitives
  and the message buffers that carry them, the state of a logical channel, bursts, and the
  view a burst handler has of the scheduler through its channel pointer.
  Pointers between structures become containment; a NULL pointer is \<^term>\<open>None\<close>; a
  pointer to a handler function is the function's name.
\<close>

section \<open>Logical channels\<close>

datatype lchan_type =
    L1SCHED_IDLE | L1SCHED_FCCH | L1SCHED_SCH | L1SCHED_BCCH
  | L1SCHED_RACH | L1SCHED_CCCH | L1SCHED_TCHF | L1SCHED_TCHH_0
  | L1SCHED_TCHH_1 | L1SCHED_SDCCH4_0 | L1SCHED_SDCCH4_1 | L1SCHED_SDCCH4_2
  | L1SCHED_SDCCH4_3 | L1SCHED_SDCCH8_0 | L1SCHED_SDCCH8_1 | L1SCHED_SDCCH8_2
  | L1SCHED_SDCCH8_3 | L1SCHED_SDCCH8_4 | L1SCHED_SDCCH8_5 | L1SCHED_SDCCH8_6
  | L1SCHED_SDCCH8_7 | L1SCHED_SACCHTF | L1SCHED_SACCHTH_0 | L1SCHED_SACCHTH_1
  | L1SCHED_SACCH4_0 | L1SCHED_SACCH4_1 | L1SCHED_SACCH4_2 | L1SCHED_SACCH4_3
  | L1SCHED_SACCH8_0 | L1SCHED_SACCH8_1 | L1SCHED_SACCH8_2 | L1SCHED_SACCH8_3
  | L1SCHED_SACCH8_4 | L1SCHED_SACCH8_5 | L1SCHED_SACCH8_6 | L1SCHED_SACCH8_7
  | L1SCHED_PDTCH | L1SCHED_PTCCH | L1SCHED_SDCCH4_CBCH | L1SCHED_SDCCH8_CBCH

text \<open>The numeric values of the enumeration, and the order a loop from 0 to
  \<^verbatim>\<open>_L1SCHED_CHAN_MAX\<close> visits.\<close>

primrec lchan_index :: "lchan_type \<Rightarrow> nat" where
  "lchan_index L1SCHED_IDLE = 0"
| "lchan_index L1SCHED_FCCH = 1"
| "lchan_index L1SCHED_SCH = 2"
| "lchan_index L1SCHED_BCCH = 3"
| "lchan_index L1SCHED_RACH = 4"
| "lchan_index L1SCHED_CCCH = 5"
| "lchan_index L1SCHED_TCHF = 6"
| "lchan_index L1SCHED_TCHH_0 = 7"
| "lchan_index L1SCHED_TCHH_1 = 8"
| "lchan_index L1SCHED_SDCCH4_0 = 9"
| "lchan_index L1SCHED_SDCCH4_1 = 10"
| "lchan_index L1SCHED_SDCCH4_2 = 11"
| "lchan_index L1SCHED_SDCCH4_3 = 12"
| "lchan_index L1SCHED_SDCCH8_0 = 13"
| "lchan_index L1SCHED_SDCCH8_1 = 14"
| "lchan_index L1SCHED_SDCCH8_2 = 15"
| "lchan_index L1SCHED_SDCCH8_3 = 16"
| "lchan_index L1SCHED_SDCCH8_4 = 17"
| "lchan_index L1SCHED_SDCCH8_5 = 18"
| "lchan_index L1SCHED_SDCCH8_6 = 19"
| "lchan_index L1SCHED_SDCCH8_7 = 20"
| "lchan_index L1SCHED_SACCHTF = 21"
| "lchan_index L1SCHED_SACCHTH_0 = 22"
| "lchan_index L1SCHED_SACCHTH_1 = 23"
| "lchan_index L1SCHED_SACCH4_0 = 24"
| "lchan_index L1SCHED_SACCH4_1 = 25"
| "lchan_index L1SCHED_SACCH4_2 = 26"
| "lchan_index L1SCHED_SACCH4_3 = 27"
| "lchan_index L1SCHED_SACCH8_0 = 28"
| "lchan_index L1SCHED_SACCH8_1 = 29"
| "lchan_index L1SCHED_SACCH8_2 = 30"
| "lchan_index L1SCHED_SACCH8_3 = 31"
| "lchan_index L1SCHED_SACCH8_4 = 32"
| "lchan_index L1SCHED_SACCH8_5 = 33"
| "lchan_index L1SCHED_SACCH8_6 = 34"
| "lchan_index L1SCHED_SACCH8_7 = 35"
| "lchan_index L1SCHED_PDTCH = 36"
| "lchan_index L1SCHED_PTCCH = 37"
| "lchan_index L1SCHED_SDCCH4_CBCH = 38"
| "lchan_index L1SCHED_SDCCH8_CBCH = 39"

definition lchan_types :: "lchan_type list" where
  "lchan_types =
    [L1SCHED_IDLE, L1SCHED_FCCH, L1SCHED_SCH, L1SCHED_BCCH,
     L1SCHED_RACH, L1SCHED_CCCH, L1SCHED_TCHF, L1SCHED_TCHH_0,
     L1SCHED_TCHH_1, L1SCHED_SDCCH4_0, L1SCHED_SDCCH4_1, L1SCHED_SDCCH4_2,
     L1SCHED_SDCCH4_3, L1SCHED_SDCCH8_0, L1SCHED_SDCCH8_1, L1SCHED_SDCCH8_2,
     L1SCHED_SDCCH8_3, L1SCHED_SDCCH8_4, L1SCHED_SDCCH8_5, L1SCHED_SDCCH8_6,
     L1SCHED_SDCCH8_7, L1SCHED_SACCHTF, L1SCHED_SACCHTH_0, L1SCHED_SACCHTH_1,
     L1SCHED_SACCH4_0, L1SCHED_SACCH4_1, L1SCHED_SACCH4_2, L1SCHED_SACCH4_3,
     L1SCHED_SACCH8_0, L1SCHED_SACCH8_1, L1SCHED_SACCH8_2, L1SCHED_SACCH8_3,
     L1SCHED_SACCH8_4, L1SCHED_SACCH8_5, L1SCHED_SACCH8_6, L1SCHED_SACCH8_7,
     L1SCHED_PDTCH, L1SCHED_PTCCH, L1SCHED_SDCCH4_CBCH, L1SCHED_SDCCH8_CBCH]"

instantiation lchan_type :: linorder
begin

definition less_eq_lchan_type :: "lchan_type \<Rightarrow> lchan_type \<Rightarrow> bool" where
  "less_eq_lchan_type a b \<longleftrightarrow> lchan_index a \<le> lchan_index b"

definition less_lchan_type :: "lchan_type \<Rightarrow> lchan_type \<Rightarrow> bool" where
  "less_lchan_type a b \<longleftrightarrow> lchan_index a < lchan_index b"

lemma lchan_types_nth_index: "lchan_types ! lchan_index t = t"
  by (cases t) (simp_all add: lchan_types_def)

lemma lchan_index_inj: "lchan_index a = lchan_index b \<Longrightarrow> a = b"
  by (metis lchan_types_nth_index)

instance
  by standard (auto simp: less_eq_lchan_type_def less_lchan_type_def intro: lchan_index_inj)

end

lemma lchan_index_less: "lchan_index t < length lchan_types"
  by (cases t) (simp_all add: lchan_types_def)

lemma map_lchan_index: "map lchan_index lchan_types = [0..<length lchan_types]"
  by (simp add: lchan_types_def upt_rec)

lemma set_lchan_types: "t \<in> set lchan_types"
  by (metis lchan_types_nth_index lchan_index_less nth_mem)

lemma distinct_lchan_types: "distinct lchan_types"
  by (metis map_lchan_index distinct_map distinct_upt)

text \<open>The handlers a descriptor points to.\<close>

datatype rx_func = RX_DATA_FN | RX_SCH_FN | RX_PDTCH_FN | RX_TCHF_FN | RX_TCHH_FN

datatype tx_func = TX_DATA_FN | TX_RACH_FN | TX_PDTCH_FN | TX_TCHF_FN | TX_TCHH_FN

text \<open>
  Burst geometry: a normal burst is 3 tail bits, 58 payload bits, 26 training bits, 58
  payload bits, 3 tail bits; an 8-PSK burst has three bits for each.
\<close>

definition GSM_NBITS_NB_GMSK_BURST :: nat where "GSM_NBITS_NB_GMSK_BURST = 148"
definition GSM_NBITS_NB_8PSK_BURST :: nat where "GSM_NBITS_NB_8PSK_BURST = 444"
definition GSM_NBITS_NB_GMSK_PAYLOAD :: nat where "GSM_NBITS_NB_GMSK_PAYLOAD = 116"
definition GSM_NBITS_NB_8PSK_PAYLOAD :: nat where "GSM_NBITS_NB_8PSK_PAYLOAD = 348"
definition GSM_MACBLOCK_LEN :: nat where "GSM_MACBLOCK_LEN = 23"

lemmas gsm_nbits = GSM_NBITS_NB_GMSK_BURST_def GSM_NBITS_NB_8PSK_BURST_def
  GSM_NBITS_NB_GMSK_PAYLOAD_def GSM_NBITS_NB_8PSK_PAYLOAD_def GSM_MACBLOCK_LEN_def

abbreviation (input) L1SCHED_CH_LID_DEDIC :: u8 where "L1SCHED_CH_LID_DEDIC \<equiv> 0x00"
abbreviation (input) L1SCHED_CH_LID_SACCH :: u8 where "L1SCHED_CH_LID_SACCH \<equiv> 0x40"
abbreviation (input) L1SCHED_CH_LID_PTCCH :: u8 where "L1SCHED_CH_LID_PTCCH \<equiv> 0x80"
abbreviation (input) L1SCHED_CH_FLAG_PDCH :: u8 where "L1SCHED_CH_FLAG_PDCH \<equiv> 1"
abbreviation (input) L1SCHED_CH_FLAG_AUTO :: u8 where "L1SCHED_CH_FLAG_AUTO \<equiv> 2"

abbreviation (input) RSL_CHAN_NR_MASK :: u8 where "RSL_CHAN_NR_MASK \<equiv> 0xf8"
abbreviation (input) RSL_CHAN_Bm_ACCHs :: u8 where "RSL_CHAN_Bm_ACCHs \<equiv> 0x08"
abbreviation (input) RSL_CHAN_Lm_ACCHs :: u8 where "RSL_CHAN_Lm_ACCHs \<equiv> 0x10"
abbreviation (input) RSL_CHAN_SDCCH4_ACCH :: u8 where "RSL_CHAN_SDCCH4_ACCH \<equiv> 0x20"
abbreviation (input) RSL_CHAN_SDCCH8_ACCH :: u8 where "RSL_CHAN_SDCCH8_ACCH \<equiv> 0x40"
abbreviation (input) RSL_CHAN_BCCH :: u8 where "RSL_CHAN_BCCH \<equiv> 0x80"
abbreviation (input) RSL_CHAN_RACH :: u8 where "RSL_CHAN_RACH \<equiv> 0x88"
abbreviation (input) RSL_CHAN_PCH_AGCH :: u8 where "RSL_CHAN_PCH_AGCH \<equiv> 0x90"

text \<open>The descriptor table, less the two human-readable strings.\<close>

record lchan_desc =
  ld_chan_nr :: u8
  ld_link_id :: u8
  ld_burst_buf_size :: nat
  ld_flags :: u8
  ld_rx_fn :: "rx_func option"
  ld_tx_fn :: "tx_func option"

primrec l1sched_lchan_desc :: "libosmo \<Rightarrow> lchan_type \<Rightarrow> lchan_desc" where
  "l1sched_lchan_desc L L1SCHED_IDLE = \<lparr>ld_chan_nr = 0, ld_link_id = 0,
     ld_burst_buf_size = 0, ld_flags = 0, ld_rx_fn = None, ld_tx_fn = None\<rparr>"
| "l1sched_lchan_desc L L1SCHED_FCCH = \<lparr>ld_chan_nr = 0, ld_link_id = 0,
     ld_burst_buf_size = 0, ld_flags = 0, ld_rx_fn = None, ld_tx_fn = None\<rparr>"
| "l1sched_lchan_desc L L1SCHED_SCH = \<lparr>ld_chan_nr = 0, ld_link_id = 0,
     ld_burst_buf_size = 0, ld_flags = L1SCHED_CH_FLAG_AUTO, ld_rx_fn = Some RX_SCH_FN, ld_tx_fn = None\<rparr>"
| "l1sched_lchan_desc L L1SCHED_BCCH = \<lparr>ld_chan_nr = RSL_CHAN_BCCH, ld_link_id = 0,
     ld_burst_buf_size = 4 * GSM_NBITS_NB_GMSK_PAYLOAD, ld_flags = L1SCHED_CH_FLAG_AUTO, ld_rx_fn = Some RX_DATA_FN, ld_tx_fn = None\<rparr>"
| "l1sched_lchan_desc L L1SCHED_RACH = \<lparr>ld_chan_nr = RSL_CHAN_RACH, ld_link_id = 0,
     ld_burst_buf_size = 0, ld_flags = L1SCHED_CH_FLAG_AUTO, ld_rx_fn = None, ld_tx_fn = Some TX_RACH_FN\<rparr>"
| "l1sched_lchan_desc L L1SCHED_CCCH = \<lparr>ld_chan_nr = RSL_CHAN_PCH_AGCH, ld_link_id = 0,
     ld_burst_buf_size = 4 * GSM_NBITS_NB_GMSK_PAYLOAD, ld_flags = L1SCHED_CH_FLAG_AUTO, ld_rx_fn = Some RX_DATA_FN, ld_tx_fn = None\<rparr>"
| "l1sched_lchan_desc L L1SCHED_TCHF = \<lparr>ld_chan_nr = RSL_CHAN_Bm_ACCHs, ld_link_id = L1SCHED_CH_LID_DEDIC,
     ld_burst_buf_size = 24 * GSM_NBITS_NB_GMSK_PAYLOAD, ld_flags = 0, ld_rx_fn = Some RX_TCHF_FN, ld_tx_fn = Some TX_TCHF_FN\<rparr>"
| "l1sched_lchan_desc L L1SCHED_TCHH_0 = \<lparr>ld_chan_nr = RSL_CHAN_Lm_ACCHs + push_bit 3 0, ld_link_id = L1SCHED_CH_LID_DEDIC,
     ld_burst_buf_size = 24 * GSM_NBITS_NB_GMSK_PAYLOAD, ld_flags = 0, ld_rx_fn = Some RX_TCHH_FN, ld_tx_fn = Some TX_TCHH_FN\<rparr>"
| "l1sched_lchan_desc L L1SCHED_TCHH_1 = \<lparr>ld_chan_nr = RSL_CHAN_Lm_ACCHs + push_bit 3 1, ld_link_id = L1SCHED_CH_LID_DEDIC,
     ld_burst_buf_size = 24 * GSM_NBITS_NB_GMSK_PAYLOAD, ld_flags = 0, ld_rx_fn = Some RX_TCHH_FN, ld_tx_fn = Some TX_TCHH_FN\<rparr>"
| "l1sched_lchan_desc L L1SCHED_SDCCH4_0 = \<lparr>ld_chan_nr = RSL_CHAN_SDCCH4_ACCH + push_bit 3 0, ld_link_id = L1SCHED_CH_LID_DEDIC,
     ld_burst_buf_size = 4 * GSM_NBITS_NB_GMSK_PAYLOAD, ld_flags = 0, ld_rx_fn = Some RX_DATA_FN, ld_tx_fn = Some TX_DATA_FN\<rparr>"
| "l1sched_lchan_desc L L1SCHED_SDCCH4_1 = \<lparr>ld_chan_nr = RSL_CHAN_SDCCH4_ACCH + push_bit 3 1, ld_link_id = L1SCHED_CH_LID_DEDIC,
     ld_burst_buf_size = 4 * GSM_NBITS_NB_GMSK_PAYLOAD, ld_flags = 0, ld_rx_fn = Some RX_DATA_FN, ld_tx_fn = Some TX_DATA_FN\<rparr>"
| "l1sched_lchan_desc L L1SCHED_SDCCH4_2 = \<lparr>ld_chan_nr = RSL_CHAN_SDCCH4_ACCH + push_bit 3 2, ld_link_id = L1SCHED_CH_LID_DEDIC,
     ld_burst_buf_size = 4 * GSM_NBITS_NB_GMSK_PAYLOAD, ld_flags = 0, ld_rx_fn = Some RX_DATA_FN, ld_tx_fn = Some TX_DATA_FN\<rparr>"
| "l1sched_lchan_desc L L1SCHED_SDCCH4_3 = \<lparr>ld_chan_nr = RSL_CHAN_SDCCH4_ACCH + push_bit 3 3, ld_link_id = L1SCHED_CH_LID_DEDIC,
     ld_burst_buf_size = 4 * GSM_NBITS_NB_GMSK_PAYLOAD, ld_flags = 0, ld_rx_fn = Some RX_DATA_FN, ld_tx_fn = Some TX_DATA_FN\<rparr>"
| "l1sched_lchan_desc L L1SCHED_SDCCH8_0 = \<lparr>ld_chan_nr = RSL_CHAN_SDCCH8_ACCH + push_bit 3 0, ld_link_id = L1SCHED_CH_LID_DEDIC,
     ld_burst_buf_size = 4 * GSM_NBITS_NB_GMSK_PAYLOAD, ld_flags = 0, ld_rx_fn = Some RX_DATA_FN, ld_tx_fn = Some TX_DATA_FN\<rparr>"
| "l1sched_lchan_desc L L1SCHED_SDCCH8_1 = \<lparr>ld_chan_nr = RSL_CHAN_SDCCH8_ACCH + push_bit 3 1, ld_link_id = L1SCHED_CH_LID_DEDIC,
     ld_burst_buf_size = 4 * GSM_NBITS_NB_GMSK_PAYLOAD, ld_flags = 0, ld_rx_fn = Some RX_DATA_FN, ld_tx_fn = Some TX_DATA_FN\<rparr>"
| "l1sched_lchan_desc L L1SCHED_SDCCH8_2 = \<lparr>ld_chan_nr = RSL_CHAN_SDCCH8_ACCH + push_bit 3 2, ld_link_id = L1SCHED_CH_LID_DEDIC,
     ld_burst_buf_size = 4 * GSM_NBITS_NB_GMSK_PAYLOAD, ld_flags = 0, ld_rx_fn = Some RX_DATA_FN, ld_tx_fn = Some TX_DATA_FN\<rparr>"
| "l1sched_lchan_desc L L1SCHED_SDCCH8_3 = \<lparr>ld_chan_nr = RSL_CHAN_SDCCH8_ACCH + push_bit 3 3, ld_link_id = L1SCHED_CH_LID_DEDIC,
     ld_burst_buf_size = 4 * GSM_NBITS_NB_GMSK_PAYLOAD, ld_flags = 0, ld_rx_fn = Some RX_DATA_FN, ld_tx_fn = Some TX_DATA_FN\<rparr>"
| "l1sched_lchan_desc L L1SCHED_SDCCH8_4 = \<lparr>ld_chan_nr = RSL_CHAN_SDCCH8_ACCH + push_bit 3 4, ld_link_id = L1SCHED_CH_LID_DEDIC,
     ld_burst_buf_size = 4 * GSM_NBITS_NB_GMSK_PAYLOAD, ld_flags = 0, ld_rx_fn = Some RX_DATA_FN, ld_tx_fn = Some TX_DATA_FN\<rparr>"
| "l1sched_lchan_desc L L1SCHED_SDCCH8_5 = \<lparr>ld_chan_nr = RSL_CHAN_SDCCH8_ACCH + push_bit 3 5, ld_link_id = L1SCHED_CH_LID_DEDIC,
     ld_burst_buf_size = 4 * GSM_NBITS_NB_GMSK_PAYLOAD, ld_flags = 0, ld_rx_fn = Some RX_DATA_FN, ld_tx_fn = Some TX_DATA_FN\<rparr>"
| "l1sched_lchan_desc L L1SCHED_SDCCH8_6 = \<lparr>ld_chan_nr = RSL_CHAN_SDCCH8_ACCH + push_bit 3 6, ld_link_id = L1SCHED_CH_LID_DEDIC,
     ld_burst_buf_size = 4 * GSM_NBITS_NB_GMSK_PAYLOAD, ld_flags = 0, ld_rx_fn = Some RX_DATA_FN, ld_tx_fn = Some TX_DATA_FN\<rparr>"
| "l1sched_lchan_desc L L1SCHED_SDCCH8_7 = \<lparr>ld_chan_nr = RSL_CHAN_SDCCH8_ACCH + push_bit 3 7, ld_link_id = L1SCHED_CH_LID_DEDIC,
     ld_burst_buf_size = 4 * GSM_NBITS_NB_GMSK_PAYLOAD, ld_flags = 0, ld_rx_fn = Some RX_DATA_FN, ld_tx_fn = Some TX_DATA_FN\<rparr>"
| "l1sched_lchan_desc L L1SCHED_SACCHTF = \<lparr>ld_chan_nr = RSL_CHAN_Bm_ACCHs, ld_link_id = L1SCHED_CH_LID_SACCH,
     ld_burst_buf_size = 4 * GSM_NBITS_NB_GMSK_PAYLOAD, ld_flags = 0, ld_rx_fn = Some RX_DATA_FN, ld_tx_fn = Some TX_DATA_FN\<rparr>"
| "l1sched_lchan_desc L L1SCHED_SACCHTH_0 = \<lparr>ld_chan_nr = RSL_CHAN_Lm_ACCHs + push_bit 3 0, ld_link_id = L1SCHED_CH_LID_SACCH,
     ld_burst_buf_size = 4 * GSM_NBITS_NB_GMSK_PAYLOAD, ld_flags = 0, ld_rx_fn = Some RX_DATA_FN, ld_tx_fn = Some TX_DATA_FN\<rparr>"
| "l1sched_lchan_desc L L1SCHED_SACCHTH_1 = \<lparr>ld_chan_nr = RSL_CHAN_Lm_ACCHs + push_bit 3 1, ld_link_id = L1SCHED_CH_LID_SACCH,
     ld_burst_buf_size = 4 * GSM_NBITS_NB_GMSK_PAYLOAD, ld_flags = 0, ld_rx_fn = Some RX_DATA_FN, ld_tx_fn = Some TX_DATA_FN\<rparr>"
| "l1sched_lchan_desc L L1SCHED_SACCH4_0 = \<lparr>ld_chan_nr = RSL_CHAN_SDCCH4_ACCH + push_bit 3 0, ld_link_id = L1SCHED_CH_LID_SACCH,
     ld_burst_buf_size = 4 * GSM_NBITS_NB_GMSK_PAYLOAD, ld_flags = 0, ld_rx_fn = Some RX_DATA_FN, ld_tx_fn = Some TX_DATA_FN\<rparr>"
| "l1sched_lchan_desc L L1SCHED_SACCH4_1 = \<lparr>ld_chan_nr = RSL_CHAN_SDCCH4_ACCH + push_bit 3 1, ld_link_id = L1SCHED_CH_LID_SACCH,
     ld_burst_buf_size = 4 * GSM_NBITS_NB_GMSK_PAYLOAD, ld_flags = 0, ld_rx_fn = Some RX_DATA_FN, ld_tx_fn = Some TX_DATA_FN\<rparr>"
| "l1sched_lchan_desc L L1SCHED_SACCH4_2 = \<lparr>ld_chan_nr = RSL_CHAN_SDCCH4_ACCH + push_bit 3 2, ld_link_id = L1SCHED_CH_LID_SACCH,
     ld_burst_buf_size = 4 * GSM_NBITS_NB_GMSK_PAYLOAD, ld_flags = 0, ld_rx_fn = Some RX_DATA_FN, ld_tx_fn = Some TX_DATA_FN\<rparr>"
| "l1sched_lchan_desc L L1SCHED_SACCH4_3 = \<lparr>ld_chan_nr = RSL_CHAN_SDCCH4_ACCH + push_bit 3 3, ld_link_id = L1SCHED_CH_LID_SACCH,
     ld_burst_buf_size = 4 * GSM_NBITS_NB_GMSK_PAYLOAD, ld_flags = 0, ld_rx_fn = Some RX_DATA_FN, ld_tx_fn = Some TX_DATA_FN\<rparr>"
| "l1sched_lchan_desc L L1SCHED_SACCH8_0 = \<lparr>ld_chan_nr = RSL_CHAN_SDCCH8_ACCH + push_bit 3 0, ld_link_id = L1SCHED_CH_LID_SACCH,
     ld_burst_buf_size = 4 * GSM_NBITS_NB_GMSK_PAYLOAD, ld_flags = 0, ld_rx_fn = Some RX_DATA_FN, ld_tx_fn = Some TX_DATA_FN\<rparr>"
| "l1sched_lchan_desc L L1SCHED_SACCH8_1 = \<lparr>ld_chan_nr = RSL_CHAN_SDCCH8_ACCH + push_bit 3 1, ld_link_id = L1SCHED_CH_LID_SACCH,
     ld_burst_buf_size = 4 * GSM_NBITS_NB_GMSK_PAYLOAD, ld_flags = 0, ld_rx_fn = Some RX_DATA_FN, ld_tx_fn = Some TX_DATA_FN\<rparr>"
| "l1sched_lchan_desc L L1SCHED_SACCH8_2 = \<lparr>ld_chan_nr = RSL_CHAN_SDCCH8_ACCH + push_bit 3 2, ld_link_id = L1SCHED_CH_LID_SACCH,
     ld_burst_buf_size = 4 * GSM_NBITS_NB_GMSK_PAYLOAD, ld_flags = 0, ld_rx_fn = Some RX_DATA_FN, ld_tx_fn = Some TX_DATA_FN\<rparr>"
| "l1sched_lchan_desc L L1SCHED_SACCH8_3 = \<lparr>ld_chan_nr = RSL_CHAN_SDCCH8_ACCH + push_bit 3 3, ld_link_id = L1SCHED_CH_LID_SACCH,
     ld_burst_buf_size = 4 * GSM_NBITS_NB_GMSK_PAYLOAD, ld_flags = 0, ld_rx_fn = Some RX_DATA_FN, ld_tx_fn = Some TX_DATA_FN\<rparr>"
| "l1sched_lchan_desc L L1SCHED_SACCH8_4 = \<lparr>ld_chan_nr = RSL_CHAN_SDCCH8_ACCH + push_bit 3 4, ld_link_id = L1SCHED_CH_LID_SACCH,
     ld_burst_buf_size = 4 * GSM_NBITS_NB_GMSK_PAYLOAD, ld_flags = 0, ld_rx_fn = Some RX_DATA_FN, ld_tx_fn = Some TX_DATA_FN\<rparr>"
| "l1sched_lchan_desc L L1SCHED_SACCH8_5 = \<lparr>ld_chan_nr = RSL_CHAN_SDCCH8_ACCH + push_bit 3 5, ld_link_id = L1SCHED_CH_LID_SACCH,
     ld_burst_buf_size = 4 * GSM_NBITS_NB_GMSK_PAYLOAD, ld_flags = 0, ld_rx_fn = Some RX_DATA_FN, ld_tx_fn = Some TX_DATA_FN\<rparr>"
| "l1sched_lchan_desc L L1SCHED_SACCH8_6 = \<lparr>ld_chan_nr = RSL_CHAN_SDCCH8_ACCH + push_bit 3 6, ld_link_id = L1SCHED_CH_LID_SACCH,
     ld_burst_buf_size = 4 * GSM_NBITS_NB_GMSK_PAYLOAD, ld_flags = 0, ld_rx_fn = Some RX_DATA_FN, ld_tx_fn = Some TX_DATA_FN\<rparr>"
| "l1sched_lchan_desc L L1SCHED_SACCH8_7 = \<lparr>ld_chan_nr = RSL_CHAN_SDCCH8_ACCH + push_bit 3 7, ld_link_id = L1SCHED_CH_LID_SACCH,
     ld_burst_buf_size = 4 * GSM_NBITS_NB_GMSK_PAYLOAD, ld_flags = 0, ld_rx_fn = Some RX_DATA_FN, ld_tx_fn = Some TX_DATA_FN\<rparr>"
| "l1sched_lchan_desc L L1SCHED_PDTCH = \<lparr>ld_chan_nr = RSL_CHAN_OSMO_PDCH L, ld_link_id = 0,
     ld_burst_buf_size = 4 * GSM_NBITS_NB_8PSK_PAYLOAD, ld_flags = L1SCHED_CH_FLAG_PDCH, ld_rx_fn = Some RX_PDTCH_FN, ld_tx_fn = Some TX_PDTCH_FN\<rparr>"
| "l1sched_lchan_desc L L1SCHED_PTCCH = \<lparr>ld_chan_nr = RSL_CHAN_OSMO_PDCH L, ld_link_id = L1SCHED_CH_LID_PTCCH,
     ld_burst_buf_size = 4 * GSM_NBITS_NB_GMSK_PAYLOAD, ld_flags = L1SCHED_CH_FLAG_PDCH, ld_rx_fn = Some RX_PDTCH_FN, ld_tx_fn = Some TX_RACH_FN\<rparr>"
| "l1sched_lchan_desc L L1SCHED_SDCCH4_CBCH = \<lparr>ld_chan_nr = RSL_CHAN_OSMO_CBCH4 L, ld_link_id = 0,
     ld_burst_buf_size = 4 * GSM_NBITS_NB_GMSK_PAYLOAD, ld_flags = L1SCHED_CH_FLAG_AUTO, ld_rx_fn = Some RX_DATA_FN, ld_tx_fn = None\<rparr>"
| "l1sched_lchan_desc L L1SCHED_SDCCH8_CBCH = \<lparr>ld_chan_nr = RSL_CHAN_OSMO_CBCH8 L, ld_link_id = 0,
     ld_burst_buf_size = 4 * GSM_NBITS_NB_GMSK_PAYLOAD, ld_flags = 0, ld_rx_fn = Some RX_DATA_FN, ld_tx_fn = None\<rparr>"

definition L1SCHED_CHAN_IS_TCH :: "lchan_type \<Rightarrow> bool" where
  "L1SCHED_CHAN_IS_TCH c \<longleftrightarrow> c = L1SCHED_TCHF \<or> c = L1SCHED_TCHH_0 \<or> c = L1SCHED_TCHH_1"

definition L1SCHED_CHAN_IS_SACCH :: "libosmo \<Rightarrow> lchan_type \<Rightarrow> bool" where
  "L1SCHED_CHAN_IS_SACCH L c \<longleftrightarrow> ld_link_id (l1sched_lchan_desc L c) AND L1SCHED_CH_LID_SACCH \<noteq> 0"

text \<open>Channel modes (\<^verbatim>\<open>gsm_04_08.h\<close>).\<close>

abbreviation (input) GSM48_CMODE_SIGN :: u8 where "GSM48_CMODE_SIGN \<equiv> 0x00"
abbreviation (input) GSM48_CMODE_SPEECH_V1 :: u8 where "GSM48_CMODE_SPEECH_V1 \<equiv> 0x01"
abbreviation (input) GSM48_CMODE_SPEECH_EFR :: u8 where "GSM48_CMODE_SPEECH_EFR \<equiv> 0x21"
abbreviation (input) GSM48_CMODE_SPEECH_AMR :: u8 where "GSM48_CMODE_SPEECH_AMR \<equiv> 0x41"
abbreviation (input) GSM48_CMODE_DATA_14k5 :: u8 where "GSM48_CMODE_DATA_14k5 \<equiv> 0x0f"
abbreviation (input) GSM48_CMODE_DATA_12k0 :: u8 where "GSM48_CMODE_DATA_12k0 \<equiv> 0x03"
abbreviation (input) GSM48_CMODE_DATA_6k0 :: u8 where "GSM48_CMODE_DATA_6k0 \<equiv> 0x0b"
abbreviation (input) GSM48_CMODE_DATA_3k6 :: u8 where "GSM48_CMODE_DATA_3k6 \<equiv> 0x13"

section \<open>Primitives and message buffers\<close>

text \<open>The physical channel configurations (\<^verbatim>\<open>enum gsm_phys_chan_config\<close>) trxcon names.\<close>

datatype pchan =
    GSM_PCHAN_NONE | GSM_PCHAN_CCCH | GSM_PCHAN_CCCH_SDCCH4 | GSM_PCHAN_TCH_F | GSM_PCHAN_TCH_H
  | GSM_PCHAN_SDCCH8_SACCH8C | GSM_PCHAN_PDCH | GSM_PCHAN_TCH_F_PDCH | GSM_PCHAN_UNKNOWN
  | GSM_PCHAN_CCCH_SDCCH4_CBCH | GSM_PCHAN_SDCCH8_SACCH8C_CBCH

record prim_chdr =
  ch_frame_nr :: u32
  ch_chan_nr :: u8
  ch_link_id :: u8
  ch_traffic :: bool

record prim_rach =
  ra_chdr :: prim_chdr
  ra_synch_seq :: u8
  ra_offset :: u8
  ra_is_11bit :: bool
  ra_ra :: u16

record prim_data_ind =
  di_chdr :: prim_chdr
  di_toa256 :: u16
  di_rssi :: u8
  di_n_errors :: int
  di_n_bits_total :: int

text \<open>
  \<^verbatim>\<open>struct l1sched_prim\<close>: the type and the operation of the header select the
  member of the union, so each combination the code builds is a constructor.
\<close>

datatype prim =
    DATA_REQ prim_chdr | DATA_CNF prim_chdr | DATA_IND prim_data_ind
  | RACH_REQ prim_rach | RACH_CNF prim_rach
  | SCH_IND u32 u8
  | PCHAN_COMB_IND u8 pchan

text \<open>
  A message buffer holds a primitive at \<^verbatim>\<open>l1h\<close> and the L2 payload at
  \<^verbatim>\<open>l2h\<close>. The buffer is allocated zeroed and has 512 octets of payload room, so a
  read past the end of a shorter payload yields 0: \<open>l2_octet\<close> and \<open>l2_octets\<close>.
\<close>

record msgb =
  mb_prim :: prim
  mb_l2 :: "u8 list"

definition l2_octet :: "msgb \<Rightarrow> nat \<Rightarrow> u8" where
  "l2_octet m i = (if i < length (mb_l2 m) then mb_l2 m ! i else 0)"

definition l2_octets :: "msgb \<Rightarrow> nat \<Rightarrow> u8 list" where
  "l2_octets m n = take n (mb_l2 m) @ replicate (n - length (mb_l2 m)) 0"

lemma length_l2_octets: "length (l2_octets m n) = n"
  by (simp add: l2_octets_def)

lemma nth_l2_octets: "i < n \<Longrightarrow> l2_octets m n ! i = l2_octet m i"
  by (auto simp: l2_octets_def l2_octet_def nth_append)

lemma l2_octets_full: "length (mb_l2 m) = n \<Longrightarrow> l2_octets m n = mb_l2 m"
  by (simp add: l2_octets_def)

text \<open>
  The common sub-header, which is the first member of both request types. The view of a
  DATA request as a RACH request reads the octets of the union after the sub-header, which
  are zero in a message from \<^verbatim>\<open>l1sched_prim_alloc()\<close>.
\<close>

fun prim_chdr_of :: "prim \<Rightarrow> prim_chdr" where
  "prim_chdr_of (DATA_REQ h) = h"
| "prim_chdr_of (DATA_CNF h) = h"
| "prim_chdr_of (DATA_IND i) = di_chdr i"
| "prim_chdr_of (RACH_REQ r) = ra_chdr r"
| "prim_chdr_of (RACH_CNF r) = ra_chdr r"
| "prim_chdr_of (SCH_IND fn bsic) =
     \<lparr>ch_frame_nr = fn, ch_chan_nr = bsic, ch_link_id = 0, ch_traffic = False\<rparr>"
| "prim_chdr_of (PCHAN_COMB_IND tn p) =
     \<lparr>ch_frame_nr = ucast tn, ch_chan_nr = 0, ch_link_id = 0, ch_traffic = False\<rparr>"

fun prim_rach_of :: "prim \<Rightarrow> prim_rach" where
  "prim_rach_of (RACH_REQ r) = r"
| "prim_rach_of (RACH_CNF r) = r"
| "prim_rach_of p = \<lparr>ra_chdr = prim_chdr_of p, ra_synch_seq = 0, ra_offset = 0,
     ra_is_11bit = False, ra_ra = 0\<rparr>"

fun prim_is_rach :: "prim \<Rightarrow> bool" where
  "prim_is_rach (RACH_REQ r) = True"
| "prim_is_rach (RACH_CNF r) = True"
| "prim_is_rach p = False"

section \<open>The state of a logical channel\<close>

text \<open>
  Signed members (\<^verbatim>\<open>int16_t toa256\<close>, \<^verbatim>\<open>int8_t rssi\<close>, soft bits) are
  words read with \<^const>\<open>sint\<close>. \<^verbatim>\<open>mh_head\<close> is the index of the ring buffer
  element \<^verbatim>\<open>head\<close> points to.
\<close>

record meas_set =
  ms_fn :: u32
  ms_toa256 :: u16
  ms_rssi :: u8

record meas_hist =
  mh_buf :: "meas_set list"
  mh_head :: "nat option"

record tdma_stat =
  td_last_proc :: u32
  td_num_proc :: u64
  td_num_lost :: u64

record sacch_state =
  sa_mr_cache :: "u8 list"
  sa_mr_cache_usage :: u8
  sa_mr_tx_last :: bool

record amr_state =
  am_codec :: "u8 list"
  am_codecs :: u8
  am_ul_ft :: u8
  am_dl_ft :: u8
  am_ul_cmr :: u8
  am_dl_cmr :: u8
  am_last_dtx :: u8

record a5_state =
  a5_key :: "u8 list"
  a5_key_len :: u8
  a5_algo :: u8

record lchan_state =
  lc_type :: lchan_type
  lc_active :: bool
  lc_rx_burst_mask :: u32
  lc_tx_burst_mask :: u32
  lc_rx_bursts :: "u8 list option"
  lc_tx_bursts :: "u8 list option"
  lc_tx_prims :: "msgb list"
  lc_prim :: "msgb option"
  lc_tch_mode :: u8
  lc_tsc :: u8
  lc_dl_ongoing_facch :: bool
  lc_ul_facch_blocks :: u8
  lc_meas_hist :: meas_hist
  lc_meas_avg :: meas_set
  lc_tdma :: tdma_stat
  lc_sacch :: sacch_state
  lc_amr :: amr_state
  lc_a5 :: a5_state

text \<open>What \<^verbatim>\<open>talloc_zero\<close> and the \<^verbatim>\<open>memset\<close> calls of the scheduler store.\<close>

definition zero_meas_set :: meas_set where
  "zero_meas_set = \<lparr>ms_fn = 0, ms_toa256 = 0, ms_rssi = 0\<rparr>"

definition zero_tdma :: tdma_stat where
  "zero_tdma = \<lparr>td_last_proc = 0, td_num_proc = 0, td_num_lost = 0\<rparr>"

definition zero_sacch :: sacch_state where
  "zero_sacch = \<lparr>sa_mr_cache = replicate GSM_MACBLOCK_LEN 0, sa_mr_cache_usage = 0,
     sa_mr_tx_last = False\<rparr>"

definition zero_amr :: amr_state where
  "zero_amr = \<lparr>am_codec = replicate 4 0, am_codecs = 0, am_ul_ft = 0, am_dl_ft = 0,
     am_ul_cmr = 0, am_dl_cmr = 0, am_last_dtx = 0\<rparr>"

definition MAX_A5_KEY_LEN :: nat where
  "MAX_A5_KEY_LEN = 128 div 8"

definition zero_a5 :: a5_state where
  "zero_a5 = \<lparr>a5_key = replicate MAX_A5_KEY_LEN 0, a5_key_len = 0, a5_algo = 0\<rparr>"

definition zero_lchan :: "lchan_type \<Rightarrow> lchan_state" where
  "zero_lchan t = \<lparr>lc_type = t, lc_active = False, lc_rx_burst_mask = 0, lc_tx_burst_mask = 0,
     lc_rx_bursts = None, lc_tx_bursts = None, lc_tx_prims = [], lc_prim = None,
     lc_tch_mode = GSM48_CMODE_SIGN, lc_tsc = 0, lc_dl_ongoing_facch = False,
     lc_ul_facch_blocks = 0,
     lc_meas_hist = \<lparr>mh_buf = replicate 24 zero_meas_set, mh_head = None\<rparr>,
     lc_meas_avg = zero_meas_set, lc_tdma = zero_tdma, lc_sacch = zero_sacch,
     lc_amr = zero_amr, lc_a5 = zero_a5\<rparr>"

section \<open>Bursts and the view of a burst handler\<close>

text \<open>Both burst structures hold an array of \<^const>\<open>GSM_NBITS_NB_8PSK_BURST\<close> bits.\<close>

record burst_req =
  br_fn :: u32
  br_tn :: nat
  br_bid :: nat
  br_burst :: "u8 list"
  br_burst_len :: nat

record burst_ind =
  bi_fn :: u32
  bi_tn :: nat
  bi_toa256 :: u16
  bi_rssi :: u8
  bi_bid :: nat
  bi_burst :: "u8 list"
  bi_burst_len :: nat

text \<open>
  A handler gets a pointer to its channel. From there it reaches the timeslot number and the
  BSIC and SACCH cache of the scheduler. \<open>lv_out\<close> collects what it passes to
  \<^verbatim>\<open>l1sched_prim_to_user()\<close>, oldest first.
\<close>

record lchan_view =
  lv_lchan :: lchan_state
  lv_tn :: nat
  lv_bsic :: u8
  lv_sacch_cache :: "u8 list"
  lv_out :: "msgb list"

definition upd_lchan :: "(lchan_state \<Rightarrow> lchan_state) \<Rightarrow> lchan_view \<Rightarrow> lchan_view" where
  "upd_lchan f v = v\<lparr>lv_lchan := f (lv_lchan v)\<rparr>"

lemma upd_lchan_simps [simp]:
  "lv_lchan (upd_lchan f v) = f (lv_lchan v)"
  "lv_tn (upd_lchan f v) = lv_tn v"
  "lv_bsic (upd_lchan f v) = lv_bsic v"
  "lv_sacch_cache (upd_lchan f v) = lv_sacch_cache v"
  "lv_out (upd_lchan f v) = lv_out v"
  by (simp_all add: upd_lchan_def)

end
