(* ===== verification/Sched_Meas.thy ===== *)
theory Sched_Meas
  imports Sched_Types
begin

text \<open>
  The measurement history of a logical channel (end of \<^verbatim>\<open>sched_trx.c\<close>): a ring of
  24 sets, written by \<^verbatim>\<open>l1sched_lchan_meas_push()\<close> for every burst and averaged
  backwards from the newest set by \<^verbatim>\<open>l1sched_lchan_meas_avg()\<close>. The interface the
  handlers use is the locale \<open>meas_log\<close>: a log whose newest entries can be read back.
\<close>

section \<open>The operations\<close>

definition meas_set_of :: "burst_ind \<Rightarrow> meas_set" where
  "meas_set_of bi = \<lparr>ms_fn = bi_fn bi, ms_toa256 = bi_toa256 bi, ms_rssi = bi_rssi bi\<rparr>"

definition MEAS_HIST_LAST :: nat where
  "MEAS_HIST_LAST = 24 - 1"

definition meas_hist_push :: "meas_set \<Rightarrow> meas_hist \<Rightarrow> meas_hist" where
  "meas_hist_push m hist =
     (let head = (case mh_head hist of
                    None \<Rightarrow> 0
                  | Some h \<Rightarrow> if h = MEAS_HIST_LAST then 0 else h + 1)
      in hist\<lparr>mh_buf := (mh_buf hist)[head := m], mh_head := Some head\<rparr>)"

definition l1sched_lchan_meas_push :: "burst_ind \<Rightarrow> lchan_state \<Rightarrow> lchan_state" where
  "l1sched_lchan_meas_push bi lchan =
     lchan\<lparr>lc_meas_hist := meas_hist_push (meas_set_of bi) (lc_meas_hist lchan)\<rparr>"

text \<open>The loop of the average: the two sums and the position it stops at.\<close>

fun meas_sum :: "meas_set list \<Rightarrow> nat \<Rightarrow> int \<Rightarrow> int \<Rightarrow> nat \<Rightarrow> int \<times> int \<times> nat" where
  "meas_sum buf meas toa rssi 0 = (toa, rssi, meas)"
| "meas_sum buf meas toa rssi (Suc k) =
     (let toa = toa + sint (ms_toa256 (buf ! meas));
          rssi = rssi + sint (ms_rssi (buf ! meas))
      in if k = 0 then (toa, rssi, meas)
         else meas_sum buf (if meas = 0 then MEAS_HIST_LAST else meas - 1) toa rssi k)"

text \<open>
  \<^verbatim>\<open>n\<close> is unsigned, so the division converts the sum to an unsigned 32 bit integer
  and the assignment truncates the quotient.
\<close>

definition l1sched_lchan_meas_avg :: "nat \<Rightarrow> lchan_state \<Rightarrow> lchan_state option" where
  "l1sched_lchan_meas_avg n lchan =
     (if n > 0 \<and> n \<le> 24 then
        (case mh_head (lc_meas_hist lchan) of
           None \<Rightarrow> None
         | Some meas \<Rightarrow>
             (let buf = mh_buf (lc_meas_hist lchan);
                  (toa, rssi, meas) = meas_sum buf meas 0 0 n
              in Some (lchan\<lparr>lc_meas_avg :=
                   \<lparr>ms_fn = ms_fn (buf ! meas),
                    ms_toa256 = ucast ((word_of_int toa :: u32) div word_of_nat n),
                    ms_rssi = ucast ((word_of_int rssi :: u32) div word_of_nat n)\<rparr>\<rparr>)))
      else None)"

section \<open>The ring as a log\<close>

text \<open>The interface: \<open>recent k h\<close> is the last \<open>k\<close> entries, newest first.\<close>

locale meas_log =
  fixes push :: "'a \<Rightarrow> 'h \<Rightarrow> 'h"
    and recent :: "nat \<Rightarrow> 'h \<Rightarrow> 'a list"
    and log_ok :: "'h \<Rightarrow> bool"
    and cap :: nat
  assumes log_ok_push: "log_ok h \<Longrightarrow> log_ok (push x h)"
    and recent_push: "log_ok h \<Longrightarrow> k < cap \<Longrightarrow> recent (Suc k) (push x h) = x # recent k h"
    and recent_0: "recent 0 h = []"
begin

lemma log_ok_fold: "log_ok h \<Longrightarrow> log_ok (fold push xs h)"
  by (induction xs arbitrary: h) (simp_all add: log_ok_push)

lemma recent_fold:
  "log_ok h \<Longrightarrow> n \<le> length xs \<Longrightarrow> n \<le> cap \<Longrightarrow> recent n (fold push xs h) = take n (rev xs)"
proof (induction xs arbitrary: n rule: rev_induct)
  case Nil
  then show ?case by (simp add: recent_0)
next
  case (snoc x xs)
  then show ?case
    by (cases n) (simp_all add: recent_0 recent_push log_ok_fold)
qed

end

definition ring_back :: "meas_set list \<Rightarrow> nat \<Rightarrow> nat \<Rightarrow> meas_set list" where
  "ring_back buf meas k = map (\<lambda>i. buf ! ((meas + 24 - i) mod 24)) [0..<k]"

definition meas_recent :: "nat \<Rightarrow> meas_hist \<Rightarrow> meas_set list" where
  "meas_recent k hist =
     (case mh_head hist of None \<Rightarrow> take k (mh_buf hist) | Some h \<Rightarrow> ring_back (mh_buf hist) h k)"

definition meas_hist_wf :: "meas_hist \<Rightarrow> bool" where
  "meas_hist_wf hist \<longleftrightarrow> length (mh_buf hist) = 24 \<and>
     (case mh_head hist of None \<Rightarrow> mh_buf hist = replicate 24 zero_meas_set | Some h \<Rightarrow> h < 24)"

lemma ring_mod: "m < 24 \<Longrightarrow> i < 24 \<Longrightarrow> (m + 24 - i) mod 24 = (if i \<le> m then m - i else m + 24 - i)"
  for m :: nat
  by (cases "i \<le> m") (simp_all add: mod_if)

lemma ring_back_step:
  assumes "meas < 24" "k < 24"
  shows "ring_back buf meas (Suc k) =
     buf ! meas # ring_back buf (if meas = 0 then 23 else meas - 1) k"
proof -
  have "(meas + 24 - Suc i) mod 24 = ((if meas = 0 then 23 else meas - 1) + 24 - i) mod 24"
    if "i < k" for i
    using that assms ring_mod [of meas "Suc i"]
      ring_mod [of "if meas = 0 then 23 else meas - 1" i] by (auto split: if_splits)
  then show ?thesis
    using assms(1)
    by (simp add: ring_back_def upt_conv_Cons map_Suc_upt [symmetric] comp_def del: upt_Suc)
qed

lemma ring_back_update_ahead:
  assumes "h < 24" "k < 24" "length buf = 24"
  shows "ring_back (buf[(if h = 23 then 0 else h + 1) := m]) h k = ring_back buf h k"
proof -
  have "(if h = 23 then 0 else h + 1) \<noteq> (h + 24 - i) mod 24" if "i < k" for i
    using assms(1,2) that by (auto simp: ring_mod)
  then show ?thesis by (auto simp: ring_back_def)
qed

lemma meas_hist_wf_push: "meas_hist_wf hist \<Longrightarrow> meas_hist_wf (meas_hist_push m hist)"
  by (auto simp: meas_hist_wf_def meas_hist_push_def MEAS_HIST_LAST_def Let_def
           split: option.splits)

lemma meas_recent_push:
  assumes "meas_hist_wf hist" "k < 24"
  shows "meas_recent (Suc k) (meas_hist_push m hist) = m # meas_recent k hist"
proof (cases "mh_head hist")
  case None
  then have "ring_back ((replicate 24 zero_meas_set)[0 := m]) 23 k = replicate k zero_meas_set"
    using assms(2) by (auto simp: ring_back_def mod_if nth_list_update intro!: nth_equalityI)
  then show ?thesis
    using None assms
    by (simp add: meas_hist_push_def meas_recent_def meas_hist_wf_def ring_back_step)
next
  case (Some h)
  let ?h' = "if h = 23 then 0 else h + 1"
  have "h < 24" "length (mh_buf hist) = 24"
    using Some assms(1) by (auto simp: meas_hist_wf_def)
  moreover from this have "ring_back ((mh_buf hist)[?h' := m]) ?h' (Suc k)
      = m # ring_back ((mh_buf hist)[?h' := m]) h k"
    using assms(2) by (subst ring_back_step) auto
  ultimately show ?thesis
    using Some assms(2)
    by (simp add: meas_hist_push_def meas_recent_def MEAS_HIST_LAST_def Let_def
        ring_back_update_ahead del: One_nat_def)
qed

lemma meas_recent_0: "meas_recent 0 hist = []"
  by (simp add: meas_recent_def ring_back_def split: option.split)

interpretation mlog: meas_log meas_hist_push meas_recent meas_hist_wf 24
  by unfold_locales (simp_all add: meas_hist_wf_push meas_recent_push meas_recent_0)

section \<open>What the average is\<close>

lemma meas_sum_ring:
  "h < 24 \<Longrightarrow> n < 24 \<Longrightarrow> \<exists>p. buf ! p = last (ring_back buf h (Suc n)) \<and>
     meas_sum buf h t r (Suc n) =
       (t + (\<Sum>m\<leftarrow>ring_back buf h (Suc n). sint (ms_toa256 m)),
        r + (\<Sum>m\<leftarrow>ring_back buf h (Suc n). sint (ms_rssi m)), p)"
proof (induction n arbitrary: h t r)
  case 0
  then show ?case by (simp add: ring_back_def)
next
  case (Suc n)
  define h' where "h' = (if h = 0 then 23 else h - 1)"
  let ?t = "t + sint (ms_toa256 (buf ! h))" and ?r = "r + sint (ms_rssi (buf ! h))"
  have "h' < 24" "n < 24" using Suc.prems by (auto simp: h'_def)
  from Suc.IH [OF this, of ?t ?r] obtain p where
    "buf ! p = last (ring_back buf h' (Suc n))" and
    "meas_sum buf h' ?t ?r (Suc n) =
       (?t + (\<Sum>m\<leftarrow>ring_back buf h' (Suc n). sint (ms_toa256 m)),
        ?r + (\<Sum>m\<leftarrow>ring_back buf h' (Suc n). sint (ms_rssi m)), p)"
    by blast
  moreover have "meas_sum buf h t r (Suc (Suc n)) = meas_sum buf h' ?t ?r (Suc n)"
    by (subst meas_sum.simps) (simp add: Let_def MEAS_HIST_LAST_def h'_def del: meas_sum.simps)
  moreover have "ring_back buf h' (Suc n) \<noteq> []"
    by (simp add: ring_back_def)
  moreover have "ring_back buf h (Suc (Suc n)) = buf ! h # ring_back buf h' (Suc n)"
    using Suc.prems by (simp add: ring_back_step h'_def del: One_nat_def)
  ultimately show ?case
    by (intro exI [of _ p]) (simp del: meas_sum.simps)
qed

text \<open>The value of the C division, for a window of sets listed oldest first.\<close>

definition meas_avg_of :: "meas_set list \<Rightarrow> meas_set" where
  "meas_avg_of ms =
     \<lparr>ms_fn = ms_fn (hd ms),
      ms_toa256 = ucast ((word_of_int (\<Sum>m\<leftarrow>ms. sint (ms_toa256 m)) :: u32) div word_of_nat (length ms)),
      ms_rssi = ucast ((word_of_int (\<Sum>m\<leftarrow>ms. sint (ms_rssi m)) :: u32) div word_of_nat (length ms))\<rparr>"

lemma meas_push_fold:
  "fold l1sched_lchan_meas_push bis lchan =
     lchan\<lparr>lc_meas_hist := fold meas_hist_push (map meas_set_of bis) (lc_meas_hist lchan)\<rparr>"
  by (induction bis arbitrary: lchan) (simp_all add: l1sched_lchan_meas_push_def)

lemma meas_avg_recent:
  assumes "meas_hist_wf (lc_meas_hist lchan)" "mh_head (lc_meas_hist lchan) \<noteq> None"
    and "0 < n" "n \<le> 24"
  shows "l1sched_lchan_meas_avg n lchan =
    Some (lchan\<lparr>lc_meas_avg := meas_avg_of (rev (meas_recent n (lc_meas_hist lchan)))\<rparr>)"
proof -
  from assms obtain h k where h: "mh_head (lc_meas_hist lchan) = Some h" "h < 24"
    and n: "n = Suc k" "k < 24"
    by (cases n) (auto simp: meas_hist_wf_def)
  let ?ws = "ring_back (mh_buf (lc_meas_hist lchan)) h n"
  have "length ?ws = n" "?ws \<noteq> []"
    using n by (simp_all add: ring_back_def)
  with h n meas_sum_ring [of h k "mh_buf (lc_meas_hist lchan)" 0 0] show ?thesis
    by (auto simp: l1sched_lchan_meas_avg_def meas_avg_of_def meas_recent_def Let_def hd_rev
        rev_map [symmetric] simp del: meas_sum.simps of_nat_Suc)
qed

text \<open>Whatever was recorded before, once at least \<open>n\<close> bursts (at most 24)
  were pushed to a well-formed history, averaging \<open>n\<close> measurements does not abort and
  looks at exactly the last \<open>n\<close> bursts: the frame number is the one of the first burst of
  that window and the averages are the C quotients of the sums over it, however often the ring
  wrapped around.\<close>

theorem meas_avg_window:
  assumes "meas_hist_wf (lc_meas_hist lchan)" and "0 < n" and "n \<le> 24" and "n \<le> length bis"
  shows "l1sched_lchan_meas_avg n (fold l1sched_lchan_meas_push bis lchan) =
    Some ((fold l1sched_lchan_meas_push bis lchan)
      \<lparr>lc_meas_avg := meas_avg_of (map meas_set_of (drop (length bis - n) bis))\<rparr>)"
proof -
  let ?hist = "fold meas_hist_push (map meas_set_of bis) (lc_meas_hist lchan)"
  have rec: "meas_recent n ?hist = take n (rev (map meas_set_of bis))"
    using assms by (intro mlog.recent_fold) simp_all
  then have "rev (meas_recent n ?hist) = map meas_set_of (drop (length bis - n) bis)"
    by (simp add: rev_take rev_map [symmetric] drop_map)
  moreover have "mh_head ?hist \<noteq> None"
    using assms(2,4) by (cases bis rule: rev_cases) (simp_all add: meas_hist_push_def Let_def)
  ultimately show ?thesis
    using assms meas_avg_recent [of "fold l1sched_lchan_meas_push bis lchan" n]
    by (simp add: meas_push_fold mlog.log_ok_fold)
qed

definition demo_burst :: "u32 \<Rightarrow> u16 \<Rightarrow> u8 \<Rightarrow> burst_ind" where
  "demo_burst fn toa rssi = \<lparr>bi_fn = fn, bi_tn = 0, bi_toa256 = toa, bi_rssi = rssi, bi_bid = 0,
     bi_burst = replicate GSM_NBITS_NB_8PSK_BURST 0, bi_burst_len = GSM_NBITS_NB_GMSK_BURST\<rparr>"

lemma meas_hist_wf_zero_lchan: "meas_hist_wf (lc_meas_hist (zero_lchan t))"
  by (simp add: meas_hist_wf_def zero_lchan_def)

theorem meas_avg_window_witness:
  "\<exists>lc. l1sched_lchan_meas_avg 4
     (fold l1sched_lchan_meas_push (map (\<lambda>i. demo_burst (word_of_nat i) 8 (- 70)) [0..<30])
        (zero_lchan L1SCHED_BCCH)) = Some lc \<and>
     ms_fn (lc_meas_avg lc) = 26 \<and> ms_toa256 (lc_meas_avg lc) = 8 \<and>
     ms_rssi (lc_meas_avg lc) = - 70"
proof -
  let ?bis = "map (\<lambda>i. demo_burst (word_of_nat i) 8 (- 70)) [0..<30]"
  have "map meas_set_of (drop (length ?bis - 4) ?bis) =
      map (\<lambda>fn. \<lparr>ms_fn = fn, ms_toa256 = 8, ms_rssi = - 70\<rparr>) [26, 27, 28, 29]"
    by (simp add: drop_map meas_set_of_def demo_burst_def upt_rec_numeral)
  then have "meas_avg_of (map meas_set_of (drop (length ?bis - 4) ?bis)) =
      \<lparr>ms_fn = 26, ms_toa256 = 8, ms_rssi = - 70\<rparr>"
    by (simp add: meas_avg_of_def)
  then show ?thesis
    using meas_avg_window [OF meas_hist_wf_zero_lchan, of 4 ?bis L1SCHED_BCCH] by simp
qed

lemma uint_word_of_int_neg:
  "- (2 ^ 31) \<le> s \<Longrightarrow> s < 2 ^ 31 \<Longrightarrow> uint (word_of_int s :: u32) = (if s < 0 then s + 2 ^ 32 else s)"
  using mod_add_self2 [of s "2 ^ 32"] mod_pos_pos_trivial [of "s + 2 ^ 32" "2 ^ 32"]
  by (simp add: uint_word_of_int mod_pos_pos_trivial)

lemma avg_pow2:
  assumes "n = 4 \<or> n = 8" and "- (2 ^ 31) \<le> s" "s < 2 ^ 31" and len: "LENGTH('a::len) \<le> 16"
  shows "(ucast ((word_of_int s :: u32) div word_of_nat n) :: 'a word) = word_of_int (s div int n)"
proof -
  have "\<exists>k. uint ((word_of_int s :: u32) div word_of_nat n) = s div int n + 2 ^ 29 * k"
  proof (cases "s < 0")
    case True
    have "(s + 2 ^ 32) div int n = s div int n + 2 ^ 29 * (if n = 4 then 2 else 1)"
      using assms(1) by auto
    then show ?thesis
      using True assms uint_word_of_int_neg [of s] by (auto simp: uint_div)
  next
    case False
    then show ?thesis
      using assms uint_word_of_int_neg [of s] by (auto simp: uint_div intro!: exI [of _ 0])
  qed
  then obtain k where k: "uint ((word_of_int s :: u32) div word_of_nat n) = s div int n + 2 ^ 29 * k" ..
  have "(2::int) ^ LENGTH('a) dvd 2 ^ 29 * k"
    using len by (intro dvd_mult2 le_imp_power_dvd) simp
  then have "(word_of_int (2 ^ 29 * k) :: 'a word) = word_of_int 0"
    unfolding word_of_int_eq_iff by (simp only: take_bit_of_0 take_bit_eq_0_iff)
  moreover have "(ucast ((word_of_int s :: u32) div word_of_nat n) :: 'a word) =
      word_of_int (s div int n) + word_of_int (2 ^ 29 * k)"
    by (simp only: ucast_eq k of_int_add)
  ultimately show ?thesis by simp
qed

lemma sum_list_sint_bounds:
  fixes f :: "'b \<Rightarrow> 'a::len word"
  assumes "LENGTH('a) \<le> 16"
  shows "- (2 ^ (LENGTH('a) - 1)) * int (length xs) \<le> (\<Sum>x\<leftarrow>xs. sint (f x)) \<and>
    (\<Sum>x\<leftarrow>xs. sint (f x)) \<le> (2 ^ (LENGTH('a) - 1) - 1) * int (length xs)"
proof (induction xs)
  case (Cons x xs)
  then show ?case
    using sint_ge [of "f x"] sint_lt [of "f x"] by (simp add: algebra_simps)
qed simp

lemma avg_floor:
  fixes f :: "'b \<Rightarrow> 'a::len word"
  assumes "LENGTH('a) = 8 \<or> LENGTH('a) = 16" and "length xs = 4 \<or> length xs = 8"
  shows "sint (ucast ((word_of_int (\<Sum>x\<leftarrow>xs. sint (f x)) :: u32) div word_of_nat (length xs)) :: 'a word)
    = (\<Sum>x\<leftarrow>xs. sint (f x)) div int (length xs)"
proof -
  let ?s = "\<Sum>x\<leftarrow>xs. sint (f x)"
  have b: "- (2 ^ (LENGTH('a) - 1)) * int (length xs) \<le> ?s"
    "?s \<le> (2 ^ (LENGTH('a) - 1) - 1) * int (length xs)"
    using sum_list_sint_bounds [of xs f] assms(1) by auto
  then have "- (2 ^ 31) \<le> ?s" "?s < 2 ^ 31"
    using assms by auto
  moreover have "- (2 ^ (LENGTH('a) - 1)) \<le> ?s div int (length xs)"
    "?s div int (length xs) < 2 ^ (LENGTH('a) - 1)"
    using b assms(2) by auto
  moreover from calculation have
    "(ucast ((word_of_int ?s :: u32) div word_of_nat (length xs)) :: 'a word)
      = word_of_int (?s div int (length xs))"
    using assms by (intro avg_pow2) auto
  ultimately show ?thesis
    by (simp add: sint_sbintrunc' signed_take_bit_int_eq_self)
qed

text \<open>For the block lengths the control channels and TCH/F use, 4 and 8
  bursts, the stored averages are the true ones, rounded towards minus infinity: the unsigned
  division does no harm, because the divisor is a power of two and the assignment keeps only
  the low bits.\<close>

theorem meas_avg_floor:
  assumes "meas_hist_wf (lc_meas_hist lchan)" and "n = 4 \<or> n = 8" and "n \<le> length bis"
  shows "\<exists>lc. l1sched_lchan_meas_avg n (fold l1sched_lchan_meas_push bis lchan) = Some lc \<and>
    ms_fn (lc_meas_avg lc) = bi_fn (bis ! (length bis - n)) \<and>
    sint (ms_rssi (lc_meas_avg lc)) =
      (\<Sum>bi\<leftarrow>drop (length bis - n) bis. sint (bi_rssi bi)) div int n \<and>
    sint (ms_toa256 (lc_meas_avg lc)) =
      (\<Sum>bi\<leftarrow>drop (length bis - n) bis. sint (bi_toa256 bi)) div int n"
proof -
  have n: "0 < n" "n \<le> 24" using assms(2) by auto
  let ?ws = "drop (length bis - n) bis"
  have len: "length ?ws = n" using assms(3) by simp
  have "ms_fn (hd (map meas_set_of ?ws)) = bi_fn (bis ! (length bis - n))"
    using n assms(3) by (simp add: hd_map hd_drop_conv_nth meas_set_of_def)
  then show ?thesis
    using meas_avg_window [OF assms(1) n assms(3)] avg_floor [of ?ws bi_rssi]
      avg_floor [of ?ws bi_toa256] assms(2) len
    by (simp add: meas_avg_of_def comp_def meas_set_of_def)
qed

theorem meas_avg_floor_witness:
  "\<exists>lc. l1sched_lchan_meas_avg 4 (fold l1sched_lchan_meas_push
      [demo_burst 0 0 (- 60), demo_burst 1 2 (- 61), demo_burst 2 0 (- 61), demo_burst 3 0 (- 63)]
      (zero_lchan L1SCHED_BCCH)) = Some lc \<and>
    ms_fn (lc_meas_avg lc) = 0 \<and> sint (ms_rssi (lc_meas_avg lc)) = - 62 \<and>
    sint (ms_toa256 (lc_meas_avg lc)) = 0"
  using meas_avg_floor [OF meas_hist_wf_zero_lchan, of 4
      "[demo_burst 0 0 (- 60), demo_burst 1 2 (- 61), demo_burst 2 0 (- 61), demo_burst 3 0 (- 63)]"
      L1SCHED_BCCH]
  by (simp add: demo_burst_def)

text \<open>Over six bursts, the length the code uses for FACCH/H, the conversion to
  unsigned does show: six bursts received at -60 dBm average to +110 dBm.\<close>

theorem meas_avg_six:
  "map_option (\<lambda>lc. (ms_fn (lc_meas_avg lc), sint (ms_rssi (lc_meas_avg lc))))
     (l1sched_lchan_meas_avg 6 (fold l1sched_lchan_meas_push
        (map (\<lambda>fn. demo_burst fn 0 (- 60)) [4, 6, 8, 10, 13, 15]) (zero_lchan L1SCHED_TCHH_0)))
   = Some (4, 110)"
  by code_simp

end
