(* ===== verification/Sched_Prim.thy ===== *)
theory Sched_Prim
  imports Sched_Types "HOL-Library.Multiset" "HOL-Library.Sublist"
begin

text \<open>
  The management of primitives (\<^verbatim>\<open>sched_prim.c\<close>): composing them, taking the next one
  to transmit from the queue of a channel, and handing indications and confirmations to the
  user. What every way of dequeuing promises is the locale \<open>prim_source\<close>; the two
  dequeue functions of this file are interpretations of it, those of the xCCH and PDTCH handlers
  follow in their theories.
\<close>

section \<open>Composing primitives\<close>

definition l1sched_prim_alloc :: "prim \<Rightarrow> msgb" where
  "l1sched_prim_alloc p = \<lparr>mb_prim = p, mb_l2 = []\<rparr>"

abbreviation (input) GSM48_PDISC_RR :: u8 where "GSM48_PDISC_RR \<equiv> 0x06"
abbreviation (input) GSM48_MT_RR_MEAS_REP :: u8 where "GSM48_MT_RR_MEAS_REP \<equiv> 0x15"

definition PRIM_MSGB_IS_MR :: "msgb \<Rightarrow> bool" where
  "PRIM_MSGB_IS_MR msg \<longleftrightarrow>
     l2_octet msg 5 = GSM48_PDISC_RR \<and> l2_octet msg 6 = GSM48_MT_RR_MEAS_REP"

definition data_req_chdr :: "u8 \<Rightarrow> nat \<Rightarrow> u8 \<Rightarrow> prim_chdr" where
  "data_req_chdr chan_nr tn link_id =
     \<lparr>ch_frame_nr = 0, ch_chan_nr = chan_nr OR word_of_nat tn, ch_link_id = link_id,
      ch_traffic = False\<rparr>"

definition mr_cached :: "sacch_state \<Rightarrow> bool" where
  "mr_cached sacch \<longleftrightarrow> sa_mr_cache sacch ! 2 \<noteq> 0 \<and> sa_mr_cache sacch ! 3 \<noteq> 0 \<and>
     sa_mr_cache sacch ! 4 \<noteq> 0"

definition prim_compose_mr :: "libosmo \<Rightarrow> lchan_view \<Rightarrow> msgb \<times> lchan_view" where
  "prim_compose_mr L v =
     (let lchan = lv_lchan v;
          chdr = data_req_chdr (ld_chan_nr (l1sched_lchan_desc L (lc_type lchan))) (lv_tn v)
                   L1SCHED_CH_LID_SACCH;
          cache = (if mr_cached (lc_sacch lchan) then sa_mr_cache (lc_sacch lchan)
                   else lv_sacch_cache v);
          msg = (l1sched_prim_alloc (DATA_REQ chdr))\<lparr>mb_l2 := take GSM_MACBLOCK_LEN cache\<rparr>;
          sacch = (lc_sacch lchan)\<lparr>sa_mr_cache := cache,
                     sa_mr_cache_usage := sa_mr_cache_usage (lc_sacch lchan) + 1\<rparr>
      in (msg, upd_lchan (\<lambda>lc. lc\<lparr>lc_sacch := sacch\<rparr>) v))"

definition l1sched_lchan_prim_dummy_lapdm :: "libosmo \<Rightarrow> lchan_view \<Rightarrow> msgb option" where
  "l1sched_lchan_prim_dummy_lapdm L v =
     (if L1SCHED_CHAN_IS_SACCH L (lc_type (lv_lchan v)) then None
      else let desc = l1sched_lchan_desc L (lc_type (lv_lchan v));
               chdr = data_req_chdr (ld_chan_nr desc) (lv_tn v) (ld_link_id desc)
           in Some ((l1sched_prim_alloc (DATA_REQ chdr))\<lparr>mb_l2 :=
                [0x01, 0x03, 0x01, 0x2b] @ map (rand_fill L) [4..<GSM_MACBLOCK_LEN]\<rparr>))"

section \<open>Dequeuing\<close>

definition list_del_at :: "nat \<Rightarrow> 'a list \<Rightarrow> 'a list" where
  "list_del_at i xs = take i xs @ drop (Suc i) xs"

text \<open>The loop of the SACCH dequeue: the positions of \<^verbatim>\<open>msg_mr\<close> and
  \<^verbatim>\<open>msg_nmr\<close> when it stops.\<close>

fun sacch_scan :: "bool \<Rightarrow> nat \<Rightarrow> msgb list \<Rightarrow> nat option \<Rightarrow> nat option \<Rightarrow> nat option \<times> nat option" where
  "sacch_scan mr_now i [] msg_mr msg_nmr = (msg_mr, msg_nmr)"
| "sacch_scan mr_now i (msg # msgs) msg_mr msg_nmr =
     (let msg_mr = (if msg_mr = None \<and> PRIM_MSGB_IS_MR msg then Some i else msg_mr);
          msg_nmr = (if msg_nmr = None \<and> \<not> PRIM_MSGB_IS_MR msg then Some i else msg_nmr)
      in if mr_now \<and> msg_mr \<noteq> None then (msg_mr, msg_nmr)
         else if \<not> mr_now \<and> msg_nmr \<noteq> None then (msg_mr, msg_nmr)
         else sacch_scan mr_now (Suc i) msgs msg_mr msg_nmr)"

definition l1sched_lchan_prim_dequeue_sacch :: "libosmo \<Rightarrow> lchan_view \<Rightarrow> msgb \<times> lchan_view" where
  "l1sched_lchan_prim_dequeue_sacch L v =
     (let lchan = lv_lchan v;
          mr_now = (\<not> sa_mr_tx_last (lc_sacch lchan));
          (msg_mr, msg_nmr) = sacch_scan mr_now 0 (lc_tx_prims lchan) None None;
          found = (if mr_now \<and> msg_mr \<noteq> None then msg_mr
                   else if \<not> mr_now \<and> msg_nmr \<noteq> None then msg_nmr
                   else if \<not> mr_now \<and> msg_mr \<noteq> None then msg_mr
                   else None);
          (msg, v) = (case found of
              Some i \<Rightarrow> (lc_tx_prims lchan ! i,
                upd_lchan (\<lambda>lc. lc\<lparr>lc_tx_prims := list_del_at i (lc_tx_prims lc)\<rparr>) v)
            | None \<Rightarrow> prim_compose_mr L v);
          v = (if found \<noteq> None \<and> found = msg_mr
               then upd_lchan (\<lambda>lc. lc\<lparr>lc_sacch := (lc_sacch lc)
                      \<lparr>sa_mr_cache := l2_octets msg GSM_MACBLOCK_LEN, sa_mr_cache_usage := 0\<rparr>\<rparr>) v
               else v)
      in (msg, upd_lchan (\<lambda>lc. lc\<lparr>lc_sacch := (lc_sacch lc)
                 \<lparr>sa_mr_tx_last := PRIM_MSGB_IS_MR msg\<rparr>\<rparr>) v))"

fun queue_take :: "('a \<Rightarrow> bool) \<Rightarrow> 'a list \<Rightarrow> 'a option \<times> 'a list" where
  "queue_take P [] = (None, [])"
| "queue_take P (x # xs) =
     (if P x then (Some x, xs) else (let (r, ys) = queue_take P xs in (r, x # ys)))"

definition l1sched_lchan_prim_dequeue_tch :: "bool \<Rightarrow> lchan_view \<Rightarrow> msgb option \<times> lchan_view" where
  "l1sched_lchan_prim_dequeue_tch facch v =
     (let (r, q) = queue_take (\<lambda>msg. (length (mb_l2 msg) = GSM_MACBLOCK_LEN) = facch)
                     (lc_tx_prims (lv_lchan v))
      in (r, upd_lchan (\<lambda>lc. lc\<lparr>lc_tx_prims := q\<rparr>) v))"

section \<open>Indications and confirmations\<close>

text \<open>
  Everything the scheduler hands up goes through \<^verbatim>\<open>l1sched_prim_to_user()\<close> of the
  user. An indication copies \<^verbatim>\<open>data_len\<close> octets of the handler's buffer;
  \<^verbatim>\<open>msgb_put()\<close> aborts when they do not fit the 512 octets of tail room.
\<close>

abbreviation (input) L1SCHED_PRIM_TAILROOM :: nat where "L1SCHED_PRIM_TAILROOM \<equiv> 512"

definition l1sched_prim_to_user :: "libosmo \<Rightarrow> msgb \<Rightarrow> lchan_view \<Rightarrow> int \<times> lchan_view" where
  "l1sched_prim_to_user L msg v = (prim_to_user_rc L, v\<lparr>lv_out := lv_out v @ [msg]\<rparr>)"

definition l1sched_lchan_emit_data_ind ::
  "libosmo \<Rightarrow> u8 list \<Rightarrow> nat \<Rightarrow> int \<Rightarrow> int \<Rightarrow> bool \<Rightarrow> lchan_view \<Rightarrow> (int \<times> lchan_view) option" where
  "l1sched_lchan_emit_data_ind L data data_len n_errors n_bits_total traffic v =
     (let lchan = lv_lchan v;
          meas = lc_meas_avg lchan;
          lchan_desc = l1sched_lchan_desc L (lc_type lchan);
          ind = \<lparr>di_chdr = \<lparr>ch_frame_nr = ms_fn meas,
                            ch_chan_nr = ld_chan_nr lchan_desc OR word_of_nat (lv_tn v),
                            ch_link_id = ld_link_id lchan_desc, ch_traffic = traffic\<rparr>,
                 di_toa256 = ms_toa256 meas, di_rssi = ms_rssi meas,
                 di_n_errors = n_errors, di_n_bits_total = n_bits_total\<rparr>
      in if data_len \<le> L1SCHED_PRIM_TAILROOM then
           do { l2 \<leftarrow> read_at 0 data_len data;
                Some (l1sched_prim_to_user L ((l1sched_prim_alloc (DATA_IND ind))\<lparr>mb_l2 := l2\<rparr>) v) }
         else None)"

fun prim_to_cnf :: "u32 \<Rightarrow> prim \<Rightarrow> prim option" where
  "prim_to_cnf fn (DATA_REQ h) = Some (DATA_CNF (h\<lparr>ch_frame_nr := fn\<rparr>))"
| "prim_to_cnf fn (DATA_CNF h) = Some (DATA_CNF (h\<lparr>ch_frame_nr := fn\<rparr>))"
| "prim_to_cnf fn (DATA_IND i) = Some (DATA_CNF ((di_chdr i)\<lparr>ch_frame_nr := fn\<rparr>))"
| "prim_to_cnf fn (RACH_REQ r) = Some (RACH_CNF (r\<lparr>ra_chdr := (ra_chdr r)\<lparr>ch_frame_nr := fn\<rparr>\<rparr>))"
| "prim_to_cnf fn (RACH_CNF r) = Some (RACH_CNF (r\<lparr>ra_chdr := (ra_chdr r)\<lparr>ch_frame_nr := fn\<rparr>\<rparr>))"
| "prim_to_cnf fn (SCH_IND f b) = None"
| "prim_to_cnf fn (PCHAN_COMB_IND tn p) = None"

definition l1sched_lchan_emit_data_cnf ::
  "libosmo \<Rightarrow> msgb option \<Rightarrow> u32 \<Rightarrow> lchan_view \<Rightarrow> (int \<times> lchan_view) option" where
  "l1sched_lchan_emit_data_cnf L msg fn v =
     (case msg of
        None \<Rightarrow> Some (- ENODEV, v)
      | Some m \<Rightarrow> do { p \<leftarrow> prim_to_cnf fn (mb_prim m);
                       Some (l1sched_prim_to_user L (m\<lparr>mb_prim := p\<rparr>) v) })"

section \<open>The contract of a dequeue operation\<close>

text \<open>
  Whatever decides what is sent next, a primitive it returns is taken from the queue, once, or
  is a frame composed on the spot; the rest of the queue keeps its order.
\<close>

fun deq_times :: "('s \<Rightarrow> msgb option \<times> 's) \<Rightarrow> nat \<Rightarrow> 's \<Rightarrow> msgb list \<times> 's" where
  "deq_times deq 0 s = ([], s)"
| "deq_times deq (Suc n) s =
     (let (r, s) = deq s;
          (ms, s) = deq_times deq n s
      in ((case r of None \<Rightarrow> ms | Some m \<Rightarrow> m # ms), s))"

lemma subseq_mset: "subseq xs ys \<Longrightarrow> mset xs \<subseteq># mset ys"
proof (induction rule: list_emb.induct)
  case (list_emb_Cons xs ys y)
  then show ?case
    by (metis mset.simps(2) subset_mset.order_trans mset_subset_eq_add_right union_mset_add_mset_right
        add_mset_add_single mset_subset_eq_add_left)
qed simp_all

locale prim_source =
  fixes deq :: "'s \<Rightarrow> msgb option \<times> 's"
    and queue :: "'s \<Rightarrow> msgb list"
    and src_ok :: "'s \<Rightarrow> bool"
    and fill :: "msgb \<Rightarrow> bool"
  assumes src_ok_deq: "src_ok s \<Longrightarrow> deq s = (r, s') \<Longrightarrow> src_ok s'"
    and deq_order: "src_ok s \<Longrightarrow> deq s = (r, s') \<Longrightarrow> subseq (queue s') (queue s)"
    and deq_src: "src_ok s \<Longrightarrow> deq s = (Some m, s') \<Longrightarrow>
      add_mset m (mset (queue s')) \<subseteq># mset (queue s) \<or> fill m"
begin

lemma deq_times_ok: "src_ok s \<Longrightarrow> deq_times deq n s = (ms, s') \<Longrightarrow> src_ok s'"
  by (induction n arbitrary: s ms) (auto split: prod.splits dest: src_ok_deq)

lemma deq_times_order:
  "src_ok s \<Longrightarrow> deq_times deq n s = (ms, s') \<Longrightarrow> subseq (queue s') (queue s)"
proof (induction n arbitrary: s ms)
  case (Suc n)
  obtain r t where r: "deq s = (r, t)" by (cases "deq s")
  obtain ns where "deq_times deq n t = (ns, s')"
    using Suc.prems(2) r by (auto split: prod.splits)
  then have "subseq (queue s') (queue t)"
    using Suc.IH src_ok_deq [OF Suc.prems(1) r] by blast
  then show ?case
    using deq_order [OF Suc.prems(1) r] subseq_order.trans by blast
qed simp

lemma deq_times_conserve:
  "src_ok s \<Longrightarrow> deq_times deq n s = (ms, s') \<Longrightarrow>
   mset (filter (\<lambda>m. \<not> fill m) ms) + mset (queue s') \<subseteq># mset (queue s)"
proof (induction n arbitrary: s ms)
  case (Suc n)
  obtain r t where r: "deq s = (r, t)" by (cases "deq s")
  obtain ns where ns: "deq_times deq n t = (ns, s')" and ms: "ms = (case r of None \<Rightarrow> ns | Some m \<Rightarrow> m # ns)"
    using Suc.prems(2) r by (auto split: prod.splits)
  have IH: "mset (filter (\<lambda>m. \<not> fill m) ns) + mset (queue s') \<subseteq># mset (queue t)"
    using Suc.IH src_ok_deq [OF Suc.prems(1) r] ns by blast
  have "mset (queue t) \<subseteq># mset (queue s)"
    using deq_order [OF Suc.prems(1) r] by (rule subseq_mset)
  with IH have "mset (filter (\<lambda>m. \<not> fill m) ns) + mset (queue s') \<subseteq># mset (queue s)"
    by (rule subset_mset.order_trans)
  moreover have "add_mset m (mset (filter (\<lambda>m. \<not> fill m) ns) + mset (queue s')) \<subseteq># mset (queue s)"
    if "r = Some m" "\<not> fill m" for m
  proof -
    have "add_mset m (mset (queue t)) \<subseteq># mset (queue s)"
      using deq_src [OF Suc.prems(1)] r that by blast
    with IH show ?thesis
      by (meson mset_subset_eq_add_mset_cancel subset_mset.order_trans)
  qed
  ultimately show ?case
    using ms by (cases r) simp_all
qed simp

end

section \<open>What the dequeue operations choose\<close>

fun first_idx :: "('a \<Rightarrow> bool) \<Rightarrow> 'a list \<Rightarrow> nat option" where
  "first_idx P [] = None"
| "first_idx P (x # xs) = (if P x then Some 0 else map_option Suc (first_idx P xs))"

lemma first_idx_None_iff: "first_idx P xs = None \<longleftrightarrow> (\<forall>x \<in> set xs. \<not> P x)"
  by (induction xs) auto

lemma first_idx_SomeD: "first_idx P xs = Some i \<Longrightarrow> i < length xs \<and> P (xs ! i) \<and> (\<forall>j < i. \<not> P (xs ! j))"
  by (induction xs arbitrary: i) (auto split: if_splits simp: less_Suc_eq_0_disj)

lemma map_option_add_Suc:
  "map_option ((+) i) (map_option Suc x) = map_option ((+) (Suc i)) x"
  by (cases x) simp_all

lemma sacch_scan_mr_now:
  "fst (sacch_scan True i q None nmr) = map_option ((+) i) (first_idx PRIM_MSGB_IS_MR q)"
  by (induction q arbitrary: i nmr) (simp_all add: map_option_add_Suc Let_def del: option.map_comp)

lemma sacch_scan_other:
  "(\<forall>k. mr = Some k \<longrightarrow> k < i) \<Longrightarrow>
   (let (a, b) = sacch_scan False i q mr None; c = first_idx (Not \<circ> PRIM_MSGB_IS_MR) q
    in b = map_option ((+) i) c \<and>
       (if c = None then a = (if mr = None then map_option ((+) i) (first_idx PRIM_MSGB_IS_MR q) else mr)
        else a \<noteq> b))"
proof (induction q arbitrary: i mr)
  case (Cons m q)
  let ?mr = "if mr = None \<and> PRIM_MSGB_IS_MR m then Some i else mr"
  have "\<forall>k. ?mr = Some k \<longrightarrow> k < Suc i" using Cons.prems by (auto split: if_splits dest: less_SucI)
  note IH = Cons.IH [OF this]
  show ?case
  proof (cases "PRIM_MSGB_IS_MR m")
    case True
    then show ?thesis
      using IH by (auto simp: Let_def map_option_add_Suc split: prod.splits if_splits)
  next
    case False
    then show ?thesis
      using Cons.prems by (auto simp: Let_def)
  qed
qed simp

text \<open>The position the SACCH dequeue takes, as a specification.\<close>

definition sacch_choice :: "bool \<Rightarrow> msgb list \<Rightarrow> nat option" where
  "sacch_choice mr_tx_last q =
     (if mr_tx_last \<and> first_idx (Not \<circ> PRIM_MSGB_IS_MR) q \<noteq> None
      then first_idx (Not \<circ> PRIM_MSGB_IS_MR) q else first_idx PRIM_MSGB_IS_MR q)"

lemma dequeue_sacch_eq:
  "l1sched_lchan_prim_dequeue_sacch L v =
    (let q = lc_tx_prims (lv_lchan v); sa = lc_sacch (lv_lchan v) in
     case sacch_choice (sa_mr_tx_last sa) q of
       Some i \<Rightarrow> (q ! i, upd_lchan (\<lambda>lc. lc\<lparr>lc_tx_prims := list_del_at i q, lc_sacch :=
         (if PRIM_MSGB_IS_MR (q ! i)
          then sa\<lparr>sa_mr_cache := l2_octets (q ! i) GSM_MACBLOCK_LEN, sa_mr_cache_usage := 0,
                  sa_mr_tx_last := True\<rparr>
          else sa\<lparr>sa_mr_tx_last := False\<rparr>)\<rparr>) v)
     | None \<Rightarrow> (let (msg, v) = prim_compose_mr L v
                 in (msg, upd_lchan (\<lambda>lc. lc\<lparr>lc_sacch := (lc_sacch lc)
                      \<lparr>sa_mr_tx_last := PRIM_MSGB_IS_MR msg\<rparr>\<rparr>) v)))"
proof -
  let ?q = "lc_tx_prims (lv_lchan v)" and ?last = "sa_mr_tx_last (lc_sacch (lv_lchan v))"
  let ?MR = "first_idx PRIM_MSGB_IS_MR ?q" and ?NMR = "first_idx (Not \<circ> PRIM_MSGB_IS_MR) ?q"
  have id: "map_option ((+) 0) x = x" for x :: "nat option" by (cases x) simp_all
  obtain a b where ab: "sacch_scan (\<not> ?last) 0 ?q None None = (a, b)" by (cases "sacch_scan (\<not> ?last) 0 ?q None None")
  show ?thesis
  proof (cases ?last)
    case False
    have "a = ?MR" using ab False sacch_scan_mr_now [of 0 ?q None] by (simp add: id)
    then show ?thesis
      using ab False first_idx_SomeD [of PRIM_MSGB_IS_MR ?q]
      by (cases ?MR) (simp_all add: l1sched_lchan_prim_dequeue_sacch_def sacch_choice_def Let_def upd_lchan_def)
  next
    case True
    have b: "b = ?NMR" "if ?NMR = None then a = ?MR else a \<noteq> b"
      using ab True sacch_scan_other [of None 0 ?q] by (auto simp: id Let_def split: if_splits)
    show ?thesis
    proof (cases ?NMR)
      case None
      then show ?thesis
        using ab True b first_idx_SomeD [of PRIM_MSGB_IS_MR ?q]
        by (cases ?MR) (simp_all add: l1sched_lchan_prim_dequeue_sacch_def sacch_choice_def Let_def upd_lchan_def)
    next
      case (Some i)
      then show ?thesis
        using ab True b first_idx_SomeD [of "Not \<circ> PRIM_MSGB_IS_MR" ?q]
        by (auto simp: l1sched_lchan_prim_dequeue_sacch_def sacch_choice_def Let_def upd_lchan_def)
    qed
  qed
qed

text \<open>
  The SACCH invariant: the common cache of the scheduler holds a Measurement Report, and the
  cache of the channel holds one too, unless it does not look populated.
\<close>

definition is_mr_frame :: "u8 list \<Rightarrow> bool" where
  "is_mr_frame l2 \<longleftrightarrow> l2 ! 5 = GSM48_PDISC_RR \<and> l2 ! 6 = GSM48_MT_RR_MEAS_REP"

definition sacch_wf :: "lchan_view \<Rightarrow> bool" where
  "sacch_wf v \<longleftrightarrow> length (lv_sacch_cache v) = GSM_MACBLOCK_LEN \<and> is_mr_frame (lv_sacch_cache v) \<and>
     length (sa_mr_cache (lc_sacch (lv_lchan v))) = GSM_MACBLOCK_LEN \<and>
     (mr_cached (lc_sacch (lv_lchan v)) \<longrightarrow> is_mr_frame (sa_mr_cache (lc_sacch (lv_lchan v))))"

lemma PRIM_MSGB_IS_MR_full:
  "length (mb_l2 m) = GSM_MACBLOCK_LEN \<Longrightarrow> PRIM_MSGB_IS_MR m \<longleftrightarrow> is_mr_frame (mb_l2 m)"
  by (simp add: PRIM_MSGB_IS_MR_def is_mr_frame_def l2_octet_def gsm_nbits)

lemma PRIM_MSGB_IS_MR_octets: "PRIM_MSGB_IS_MR m \<longleftrightarrow> is_mr_frame (l2_octets m GSM_MACBLOCK_LEN)"
  by (simp add: PRIM_MSGB_IS_MR_def is_mr_frame_def nth_l2_octets gsm_nbits)

lemma compose_mr_wf:
  assumes "sacch_wf v" "prim_compose_mr L v = (m, v')"
  shows "PRIM_MSGB_IS_MR m" and "length (mb_l2 m) = GSM_MACBLOCK_LEN" and "sacch_wf v'"
    and "lc_tx_prims (lv_lchan v') = lc_tx_prims (lv_lchan v)"
proof -
  show len: "length (mb_l2 m) = GSM_MACBLOCK_LEN"
    using assms by (auto simp: prim_compose_mr_def sacch_wf_def Let_def)
  show "PRIM_MSGB_IS_MR m"
    unfolding PRIM_MSGB_IS_MR_full [OF len]
    using assms by (auto simp: prim_compose_mr_def sacch_wf_def Let_def)
  show "sacch_wf v'" "lc_tx_prims (lv_lchan v') = lc_tx_prims (lv_lchan v)"
    using assms by (auto simp: prim_compose_mr_def sacch_wf_def Let_def)
qed

lemma subseq_list_del_at: "subseq (list_del_at i q) q"
proof (induction q arbitrary: i)
  case (Cons x q)
  then show ?case by (cases i) (auto simp: list_del_at_def intro: list_emb_Cons)
qed (simp add: list_del_at_def)

lemma mset_list_del_at: "i < length q \<Longrightarrow> add_mset (q ! i) (mset (list_del_at i q)) = mset q"
  using arg_cong [OF append_take_drop_id [of i q], of mset]
  by (simp add: list_del_at_def Cons_nth_drop_Suc [symmetric])

lemma sacch_choice_bound: "sacch_choice b q = Some i \<Longrightarrow> i < length q"
  by (auto simp: sacch_choice_def split: if_splits dest: first_idx_SomeD)

text \<open>C13. Dequeuing from the SACCH, in a well-formed state: when the last
  block was a Measurement Report and something else is queued, the first such primitive is
  taken; otherwise the first queued Measurement Report; and when there is neither, a
  Measurement Report is composed from the cache. The chosen primitive, and only it, leaves the
  queue, the state stays well-formed, and the flag says whether a report was sent.\<close>

theorem sacch_dequeue_choice:
  assumes "sacch_wf v" and "l1sched_lchan_prim_dequeue_sacch L v = (m, v')"
  shows "(case sacch_choice (sa_mr_tx_last (lc_sacch (lv_lchan v))) (lc_tx_prims (lv_lchan v)) of
       Some i \<Rightarrow> m = lc_tx_prims (lv_lchan v) ! i \<and>
         lc_tx_prims (lv_lchan v') = list_del_at i (lc_tx_prims (lv_lchan v))
     | None \<Rightarrow> lc_tx_prims (lv_lchan v') = lc_tx_prims (lv_lchan v) \<and> PRIM_MSGB_IS_MR m \<and>
         mb_l2 m = (if mr_cached (lc_sacch (lv_lchan v)) then sa_mr_cache (lc_sacch (lv_lchan v))
                    else lv_sacch_cache v)) \<and>
     sa_mr_tx_last (lc_sacch (lv_lchan v')) = PRIM_MSGB_IS_MR m \<and> sacch_wf v'"
proof (cases "sacch_choice (sa_mr_tx_last (lc_sacch (lv_lchan v))) (lc_tx_prims (lv_lchan v))")
  case None
  obtain m0 v0 where c: "prim_compose_mr L v = (m0, v0)" by (cases "prim_compose_mr L v")
  have "mb_l2 m0 = (if mr_cached (lc_sacch (lv_lchan v)) then sa_mr_cache (lc_sacch (lv_lchan v))
                    else lv_sacch_cache v)"
    using c assms(1) by (auto simp: prim_compose_mr_def sacch_wf_def Let_def)
  then show ?thesis
    using None assms(2) c compose_mr_wf [OF assms(1) c]
    by (auto simp: dequeue_sacch_eq sacch_wf_def mr_cached_def)
next
  case (Some i)
  then show ?thesis
    using assms PRIM_MSGB_IS_MR_octets [of m]
    by (auto simp: dequeue_sacch_eq sacch_wf_def Let_def length_l2_octets mr_cached_def split: if_splits)
qed

lemma sacch_dequeue_step:
  assumes "sacch_wf v" and "l1sched_lchan_prim_dequeue_sacch L v = (m, v')"
  shows "sacch_wf v'" and "sa_mr_tx_last (lc_sacch (lv_lchan v')) = PRIM_MSGB_IS_MR m"
    and "sa_mr_tx_last (lc_sacch (lv_lchan v)) \<or> PRIM_MSGB_IS_MR m"
    and "subseq (lc_tx_prims (lv_lchan v')) (lc_tx_prims (lv_lchan v))"
    and "add_mset m (mset (lc_tx_prims (lv_lchan v'))) = mset (lc_tx_prims (lv_lchan v)) \<or>
      PRIM_MSGB_IS_MR m \<and> lc_tx_prims (lv_lchan v') = lc_tx_prims (lv_lchan v)"
proof -
  let ?q = "lc_tx_prims (lv_lchan v)" and ?last = "sa_mr_tx_last (lc_sacch (lv_lchan v))"
  have "sacch_wf v' \<and> sa_mr_tx_last (lc_sacch (lv_lchan v')) = PRIM_MSGB_IS_MR m \<and>
    (?last \<or> PRIM_MSGB_IS_MR m) \<and> subseq (lc_tx_prims (lv_lchan v')) ?q \<and>
    (add_mset m (mset (lc_tx_prims (lv_lchan v'))) = mset ?q \<or>
     PRIM_MSGB_IS_MR m \<and> lc_tx_prims (lv_lchan v') = ?q)"
  proof (cases "sacch_choice ?last ?q")
    case None
    obtain m0 v0 where c: "prim_compose_mr L v = (m0, v0)" by (cases "prim_compose_mr L v")
    show ?thesis
      using None assms(2) c compose_mr_wf [OF assms(1) c]
      by (auto simp: dequeue_sacch_eq sacch_wf_def mr_cached_def)
  next
    case (Some i)
    have "?last \<or> PRIM_MSGB_IS_MR (?q ! i)"
      using Some by (cases ?last) (auto simp: sacch_choice_def dest: first_idx_SomeD)
    then show ?thesis
      using Some assms PRIM_MSGB_IS_MR_octets [of m] mset_list_del_at [of i ?q]
        sacch_choice_bound [OF Some] subseq_list_del_at [of i ?q]
      by (auto simp: dequeue_sacch_eq sacch_wf_def Let_def length_l2_octets mr_cached_def split: if_splits)
  qed
  then show "sacch_wf v'" "sa_mr_tx_last (lc_sacch (lv_lchan v')) = PRIM_MSGB_IS_MR m"
    "?last \<or> PRIM_MSGB_IS_MR m" "subseq (lc_tx_prims (lv_lchan v')) ?q"
    "add_mset m (mset (lc_tx_prims (lv_lchan v'))) = mset ?q \<or>
      PRIM_MSGB_IS_MR m \<and> lc_tx_prims (lv_lchan v') = ?q"
    by blast+
qed

text \<open>A run of the channel: primitives enqueued at any time, one block dequeued per event.
\<close>

datatype sacch_event = Enqueue msgb | Dequeue

fun sacch_run :: "libosmo \<Rightarrow> sacch_event list \<Rightarrow> lchan_view \<Rightarrow> msgb list" where
  "sacch_run L [] v = []"
| "sacch_run L (Enqueue m # es) v =
     sacch_run L es (upd_lchan (\<lambda>lc. lc\<lparr>lc_tx_prims := lc_tx_prims lc @ [m]\<rparr>) v)"
| "sacch_run L (Dequeue # es) v =
     (let (m, v) = l1sched_lchan_prim_dequeue_sacch L v in m # sacch_run L es v)"

lemma sacch_wf_enqueue:
  "sacch_wf v \<Longrightarrow> sacch_wf (upd_lchan (\<lambda>lc. lc\<lparr>lc_tx_prims := lc_tx_prims lc @ [m]\<rparr>) v)"
  by (simp add: sacch_wf_def)

lemma sacch_run_alternates_aux:
  assumes "sacch_wf v"
  shows "successively (\<lambda>a b. PRIM_MSGB_IS_MR a \<or> PRIM_MSGB_IS_MR b) (sacch_run L es v) \<and>
    (sa_mr_tx_last (lc_sacch (lv_lchan v)) \<or> sacch_run L es v = [] \<or>
     PRIM_MSGB_IS_MR (hd (sacch_run L es v)))"
  using assms
proof (induction L es v rule: sacch_run.induct)
  case (2 L m es v)
  then show ?case using sacch_wf_enqueue [of v m] by simp
next
  case (3 L es v)
  obtain m v' where d: "l1sched_lchan_prim_dequeue_sacch L v = (m, v')"
    by (cases "l1sched_lchan_prim_dequeue_sacch L v")
  note step = sacch_dequeue_step [OF 3(2) d]
  note IH = 3(1) [OF d [symmetric] refl step(1)]
  show ?case
    using IH step(2,3) d by (auto simp: successively_Cons)
qed simp

text \<open>C12. However primitives are enqueued between the blocks of a SACCH, two
  successive blocks are never both something else than a Measurement Report: the interval
  between two reports does not exceed one L2 frame.\<close>

theorem sacch_no_two_data:
  assumes "sacch_wf v"
  shows "successively (\<lambda>a b. PRIM_MSGB_IS_MR a \<or> PRIM_MSGB_IS_MR b) (sacch_run L es v)"
  using sacch_run_alternates_aux [OF assms] by blast

definition demo_prim :: "u8 list \<Rightarrow> msgb" where
  "demo_prim l2 = \<lparr>mb_prim = DATA_REQ \<lparr>ch_frame_nr = 0, ch_chan_nr = 0x20, ch_link_id = 0x40,
     ch_traffic = False\<rparr>, mb_l2 = l2\<rparr>"

definition demo_mr :: "u8 list" where
  "demo_mr = [0x0f, 0x00, 0x01, 0x03, 0x49, 0x06, 0x15, 0x36, 0x76, 0x01, 0xc0] @ replicate 12 0"

definition demo_view :: "lchan_type \<Rightarrow> msgb list \<Rightarrow> lchan_view" where
  "demo_view t q = \<lparr>lv_lchan = (zero_lchan t)\<lparr>lc_active := True, lc_tx_prims := q\<rparr>, lv_tn = 0,
     lv_bsic = 0, lv_sacch_cache = demo_mr, lv_out = []\<rparr>"

lemma sacch_wf_demo: "sacch_wf (demo_view t q)"
  by (simp add: sacch_wf_def demo_view_def demo_mr_def is_mr_frame_def gsm_nbits zero_lchan_def
      zero_sacch_def mr_cached_def)

theorem sacch_no_two_data_witness:
  "successively (\<lambda>a b. PRIM_MSGB_IS_MR a \<or> PRIM_MSGB_IS_MR b)
     (sacch_run toy_lib [Enqueue (demo_prim (replicate 23 0x2b)), Enqueue (demo_prim (replicate 23 1)),
        Dequeue, Dequeue, Dequeue, Dequeue] (demo_view L1SCHED_SACCH4_0 []))"
  by (rule sacch_no_two_data [OF sacch_wf_demo])

theorem sacch_dequeue_choice_witness:
  "\<exists>m v'. l1sched_lchan_prim_dequeue_sacch toy_lib
      (demo_view L1SCHED_SACCH4_0 [demo_prim (replicate 23 0x2b), demo_prim demo_mr]) = (m, v') \<and>
    m = demo_prim demo_mr \<and> lc_tx_prims (lv_lchan v') = [demo_prim (replicate 23 0x2b)]"
proof -
  let ?v = "demo_view L1SCHED_SACCH4_0 [demo_prim (replicate 23 0x2b), demo_prim demo_mr]"
  obtain m v' where d: "l1sched_lchan_prim_dequeue_sacch toy_lib ?v = (m, v')"
    by (cases "l1sched_lchan_prim_dequeue_sacch toy_lib ?v")
  have "sacch_choice (sa_mr_tx_last (lc_sacch (lv_lchan ?v))) (lc_tx_prims (lv_lchan ?v)) = Some 1"
    by code_simp
  then show ?thesis
    using sacch_dequeue_choice [OF sacch_wf_demo d] d by (simp add: demo_view_def list_del_at_def)
qed

section \<open>The dequeue operations as sources\<close>

definition deq_sacch :: "libosmo \<Rightarrow> lchan_view \<Rightarrow> msgb option \<times> lchan_view" where
  "deq_sacch L v = (let (m, v) = l1sched_lchan_prim_dequeue_sacch L v in (Some m, v))"

interpretation sacch_src: prim_source "deq_sacch L" "\<lambda>v. lc_tx_prims (lv_lchan v)" sacch_wf
    PRIM_MSGB_IS_MR for L
proof
  fix s s' :: lchan_view and r assume "sacch_wf s" and "deq_sacch L s = (r, s')"
  then show "sacch_wf s'" and "subseq (lc_tx_prims (lv_lchan s')) (lc_tx_prims (lv_lchan s))"
    using sacch_dequeue_step [of s L] by (auto simp: deq_sacch_def split: prod.splits)
next
  fix s s' :: lchan_view and m assume "sacch_wf s" and "deq_sacch L s = (Some m, s')"
  then show "add_mset m (mset (lc_tx_prims (lv_lchan s'))) \<subseteq># mset (lc_tx_prims (lv_lchan s)) \<or>
      PRIM_MSGB_IS_MR m"
    using sacch_dequeue_step(5) [of s L m s'] by (auto simp: deq_sacch_def split: prod.splits)
qed

text \<open>Over any number of SACCH blocks, no queued primitive is sent twice or
  made up: the blocks sent that are not Measurement Reports, together with what is still queued,
  are contained, with multiplicities, in what was queued.\<close>

theorem sacch_conserves:
  assumes "sacch_wf v" and "deq_times (deq_sacch L) n v = (ms, v')"
  shows "mset (filter (\<lambda>m. \<not> PRIM_MSGB_IS_MR m) ms) + mset (lc_tx_prims (lv_lchan v'))
    \<subseteq># mset (lc_tx_prims (lv_lchan v))"
  by (rule sacch_src.deq_times_conserve [OF assms])

theorem sacch_conserves_witness:
  "mset (filter (\<lambda>m. \<not> PRIM_MSGB_IS_MR m)
      (fst (deq_times (deq_sacch toy_lib) 3 (demo_view L1SCHED_SACCH4_0 [demo_prim (replicate 23 1)]))))
   \<subseteq># {#demo_prim (replicate 23 1)#}"
proof -
  let ?v = "demo_view L1SCHED_SACCH4_0 [demo_prim (replicate 23 1)]"
  obtain ms v' where d: "deq_times (deq_sacch toy_lib) 3 ?v = (ms, v')"
    by (cases "deq_times (deq_sacch toy_lib) 3 ?v")
  have "lc_tx_prims (lv_lchan ?v) = [demo_prim (replicate 23 1)]"
    by (simp add: demo_view_def)
  with sacch_conserves [OF sacch_wf_demo d] d show ?thesis
    by (simp add: mset_subset_eq_add_left subset_mset.order_trans [rotated])
qed

lemma queue_take_spec:
  "queue_take P q = (case first_idx P q of None \<Rightarrow> (None, q) | Some i \<Rightarrow> (Some (q ! i), list_del_at i q))"
  by (induction q) (auto simp: list_del_at_def split: option.splits prod.splits)

lemma queue_take_mset: "queue_take P q = (Some m, q') \<Longrightarrow> add_mset m (mset q') = mset q"
  by (auto simp: queue_take_spec mset_list_del_at split: option.splits dest!: first_idx_SomeD)

lemma queue_take_subseq: "queue_take P q = (r, q') \<Longrightarrow> subseq q' q"
  by (auto simp: queue_take_spec subseq_list_del_at split: option.splits)

lemma queue_take_SomeD: "queue_take P q = (Some m, q') \<Longrightarrow> P m \<and> m \<in> set q"
  by (auto simp: queue_take_spec split: option.splits dest!: first_idx_SomeD)

lemma queue_take_NoneD: "queue_take P q = (None, q') \<Longrightarrow> q' = q \<and> (\<forall>m \<in> set q. \<not> P m)"
  by (auto simp: queue_take_spec first_idx_None_iff split: option.splits)

interpretation tch_src: prim_source "l1sched_lchan_prim_dequeue_tch facch"
    "\<lambda>v. lc_tx_prims (lv_lchan v)" "\<lambda>_. True" "\<lambda>_. False" for facch
  by unfold_locales
    (auto simp: l1sched_lchan_prim_dequeue_tch_def queue_take_mset split: prod.splits dest: queue_take_subseq)

text \<open>Dequeuing from a traffic channel takes the oldest queued primitive of
  the requested kind, FACCH (23 octets of L2) or traffic (any other length), and leaves the
  others in their order; it returns nothing only when none of that kind is queued.\<close>

theorem tch_dequeue_fifo:
  "case l1sched_lchan_prim_dequeue_tch facch v of
     (None, v') \<Rightarrow> v' = v \<and>
       list_all (\<lambda>m. (length (mb_l2 m) = GSM_MACBLOCK_LEN) \<noteq> facch) (lc_tx_prims (lv_lchan v))
   | (Some m, v') \<Rightarrow> (length (mb_l2 m) = GSM_MACBLOCK_LEN) = facch \<and>
       (\<exists>xs ys. lc_tx_prims (lv_lchan v) = xs @ m # ys \<and> lc_tx_prims (lv_lchan v') = xs @ ys \<and>
          list_all (\<lambda>m. (length (mb_l2 m) = GSM_MACBLOCK_LEN) \<noteq> facch) xs)"
proof -
  let ?P = "\<lambda>m. (length (mb_l2 m) = GSM_MACBLOCK_LEN) = facch" and ?q = "lc_tx_prims (lv_lchan v)"
  show ?thesis
  proof (cases "first_idx ?P ?q")
    case None
    then have "queue_take ?P ?q = (None, ?q)"
      by (simp only: queue_take_spec option.case)
    moreover from None have "list_all (\<lambda>m. \<not> ?P m) ?q"
      by (simp only: first_idx_None_iff list_all_iff)
    ultimately show ?thesis
      by (simp add: l1sched_lchan_prim_dequeue_tch_def upd_lchan_def)
  next
    case (Some i)
    note i = first_idx_SomeD [OF this]
    from Some have "queue_take ?P ?q = (Some (?q ! i), list_del_at i ?q)"
      by (simp only: queue_take_spec option.case)
    moreover have "?q = take i ?q @ ?q ! i # drop (Suc i) ?q"
      using i by (simp add: id_take_nth_drop [symmetric])
    moreover have "list_all (\<lambda>m. \<not> ?P m) (take i ?q)"
      using i by (simp add: list_all_length)
    ultimately show ?thesis
      using i by (auto simp: l1sched_lchan_prim_dequeue_tch_def list_del_at_def)
  qed
qed

end
