(* ===== verification/Sched_Burst.thy ===== *)
theory Sched_Burst
  imports Sched_Meas Sched_Prim
begin

text \<open>
  What the burst handlers share: the training sequences and the AMR check of
  \<^verbatim>\<open>sched_lchan_common.c\<close>, the completeness mask, the composition of a normal burst
  from a slot of the transmit buffer, the copy of a received burst into a slot of the receive
  buffer, and the contracts of transmit and receive handlers as locales.
\<close>

section \<open>Training sequences\<close>

definition l1sched_nb_training_bits :: "u8 list list" where
  "l1sched_nb_training_bits =
    [[0, 0, 1, 0, 0, 1, 0, 1, 1, 1, 0, 0, 0, 0, 1, 0, 0, 0, 1, 0, 0, 1, 0, 1, 1, 1],
     [0, 0, 1, 0, 1, 1, 0, 1, 1, 1, 0, 1, 1, 1, 1, 0, 0, 0, 1, 0, 1, 1, 0, 1, 1, 1],
     [0, 1, 0, 0, 0, 0, 1, 1, 1, 0, 1, 1, 1, 0, 1, 0, 0, 1, 0, 0, 0, 0, 1, 1, 1, 0],
     [0, 1, 0, 0, 0, 1, 1, 1, 1, 0, 1, 1, 0, 1, 0, 0, 0, 1, 0, 0, 0, 1, 1, 1, 1, 0],
     [0, 0, 0, 1, 1, 0, 1, 0, 1, 1, 1, 0, 0, 1, 0, 0, 0, 0, 0, 1, 1, 0, 1, 0, 1, 1],
     [0, 1, 0, 0, 1, 1, 1, 0, 1, 0, 1, 1, 0, 0, 0, 0, 0, 1, 0, 0, 1, 1, 1, 0, 1, 0],
     [1, 0, 1, 0, 0, 1, 1, 1, 1, 1, 0, 1, 1, 0, 0, 0, 1, 0, 1, 0, 0, 1, 1, 1, 1, 1],
     [1, 1, 1, 0, 1, 1, 1, 1, 0, 0, 0, 1, 0, 0, 1, 0, 1, 1, 1, 0, 1, 1, 1, 1, 0, 0]]"

lemma length_training_bits: "length l1sched_nb_training_bits = 8"
  by (simp add: l1sched_nb_training_bits_def)

lemma length_training_seq: "i < 8 \<Longrightarrow> length (l1sched_nb_training_bits ! i) = 26"
proof -
  assume "i < 8"
  moreover have "list_all (\<lambda>s. length s = 26) l1sched_nb_training_bits"
    by (simp add: l1sched_nb_training_bits_def)
  ultimately show ?thesis
    by (simp add: list_all_length length_training_bits)
qed

text \<open>The eight training sequences are pairwise different, each has 26
  bits, and each starts and ends with the same ten bits as its cyclic core demands: bits 0 to 4
  equal bits 16 to 20, and bits 21 to 25 equal bits 5 to 9.\<close>

theorem training_sequences:
  "distinct l1sched_nb_training_bits \<and>
   list_all (\<lambda>s. length s = 26 \<and> list_all (\<lambda>b. b = 0 \<or> b = 1) s \<and>
     chunk 0 5 s = chunk 16 5 s \<and> chunk 21 5 s = chunk 5 5 s) l1sched_nb_training_bits"
  by code_simp

definition l1sched_burst_mask2str :: "u32 \<Rightarrow> int \<Rightarrow> string option" where
  "l1sched_burst_mask2str mk bits =
     (if bits \<le> 32 \<and> bits > 0
      then Some (map (\<lambda>i. if bit mk i then CHR ''*'' else CHR ''.'') (rev [0..<nat bits]))
      else None)"

section \<open>Transmitting: the normal burst\<close>

definition nb_set_bit :: "nat \<Rightarrow> u32 \<Rightarrow> u32" where
  "nb_set_bit bid mk = mk OR push_bit bid 1"

definition compose_nb :: "u8 list \<Rightarrow> u8 list \<Rightarrow> u8 list \<Rightarrow> u8 list" where
  "compose_nb tsc payload burst =
     replicate 3 0 @ take 58 payload @ tsc @ drop 58 payload @ replicate 3 0 @
     drop GSM_NBITS_NB_GMSK_BURST burst"

text \<open>The code after the label \<^verbatim>\<open>send_burst\<close>, which every handler of normal
  bursts repeats.\<close>

definition send_burst :: "lchan_view \<Rightarrow> burst_req \<Rightarrow> (burst_req \<times> lchan_view) option" where
  "send_burst v br =
     do { bursts \<leftarrow> lc_tx_bursts (lv_lchan v);
          payload \<leftarrow> read_at (br_bid br * 116) 116 bursts;
          tsc \<leftarrow> index_at l1sched_nb_training_bits (unat (lc_tsc (lv_lchan v)));
          Some (br\<lparr>br_burst := compose_nb tsc payload (br_burst br),
                   br_burst_len := GSM_NBITS_NB_GMSK_BURST\<rparr>,
                upd_lchan (\<lambda>lc. lc\<lparr>lc_tx_burst_mask := nb_set_bit (br_bid br) (lc_tx_burst_mask lc)\<rparr>) v) }"

section \<open>Receiving: storing a burst\<close>

definition nb_payload :: "u8 list \<Rightarrow> u8 list" where
  "nb_payload burst = chunk 3 58 burst @ chunk 87 58 burst"

definition store_burst :: "nat \<Rightarrow> burst_ind \<Rightarrow> lchan_view \<Rightarrow> lchan_view option" where
  "store_burst pos bi v =
     do { bursts \<leftarrow> lc_rx_bursts (lv_lchan v);
          p1 \<leftarrow> read_at 3 58 (bi_burst bi);
          p2 \<leftarrow> read_at 87 58 (bi_burst bi);
          bursts \<leftarrow> write_at (pos * 116) (p1 @ p2) bursts;
          Some (upd_lchan (\<lambda>lc. lc\<lparr>lc_rx_bursts := Some bursts\<rparr>) v) }"

text \<open>Setting the bit of the burst and recording its measurements.\<close>

definition note_burst :: "burst_ind \<Rightarrow> lchan_view \<Rightarrow> lchan_view" where
  "note_burst bi v = upd_lchan (\<lambda>lc. l1sched_lchan_meas_push bi
     (lc\<lparr>lc_rx_burst_mask := nb_set_bit (bi_bid bi) (lc_rx_burst_mask lc)\<rparr>)) v"

definition meas_avg_view :: "nat \<Rightarrow> lchan_view \<Rightarrow> lchan_view option" where
  "meas_avg_view n v =
     do { lc \<leftarrow> l1sched_lchan_meas_avg n (lv_lchan v); Some (v\<lparr>lv_lchan := lc\<rparr>) }"

section \<open>AMR\<close>

fun amr_find :: "u8 list \<Rightarrow> u8 \<Rightarrow> nat \<Rightarrow> nat \<Rightarrow> int \<Rightarrow> int option" where
  "amr_find codec want i 0 r = Some r"
| "amr_find codec want i (Suc k) r =
     do { c \<leftarrow> index_at codec i;
          amr_find codec want (Suc i) k (if c = want then int i else r) }"

definition l1sched_lchan_amr_prim_is_valid ::
  "libosmo \<Rightarrow> msgb \<Rightarrow> bool \<Rightarrow> lchan_view \<Rightarrow> (bool \<times> lchan_view) option" where
  "l1sched_lchan_amr_prim_is_valid L msg is_cmr v =
     (let (len, cmr_codec, ft_codec) = osmo_amr_rtp_dec L (mb_l2 msg);
          amr = lc_amr (lv_lchan v)
      in if len < 0 then Some (False, v)
         else do {
           ft \<leftarrow> amr_find (am_codec amr) ft_codec 0 (unat (am_codecs amr)) (- 1);
           cmr \<leftarrow> amr_find (am_codec amr) cmr_codec 0 (unat (am_codecs amr)) (- 1);
           if ft < 0 then Some (False, v)
           else if is_cmr \<and> uint (am_ul_ft amr) \<noteq> ft then Some (False, v)
           else Some (True, upd_lchan (\<lambda>lc. lc\<lparr>lc_amr := (lc_amr lc)
                  \<lparr>am_ul_ft := word_of_int ft,
                   am_ul_cmr := (if cmr < 0 then am_ul_cmr amr else word_of_int cmr)\<rparr>\<rparr>) v) })"

section \<open>Lemmas\<close>

lemma length_compose_nb:
  "length tsc = 26 \<Longrightarrow> length payload = 116 \<Longrightarrow> length burst = GSM_NBITS_NB_8PSK_BURST \<Longrightarrow>
   length (compose_nb tsc payload burst) = GSM_NBITS_NB_8PSK_BURST"
  by (simp add: compose_nb_def gsm_nbits)

lemma length_nb_payload: "145 \<le> length burst \<Longrightarrow> length (nb_payload burst) = 116"
  by (simp add: nb_payload_def length_chunk)

lemma nb_payload_compose:
  "length tsc = 26 \<Longrightarrow> length payload = 116 \<Longrightarrow> nb_payload (compose_nb tsc payload burst) = payload"
  by (simp add: nb_payload_def compose_nb_def chunk_def)

lemma nb_payload_map: "nb_payload (map f burst) = map f (nb_payload burst)"
  by (simp add: nb_payload_def chunk_map)

lemma send_burst_Some:
  assumes "lc_tx_bursts (lv_lchan v) = Some bursts" and "br_bid br * 116 + 116 \<le> length bursts"
    and "unat (lc_tsc (lv_lchan v)) < 8"
  shows "send_burst v br = Some
    (br\<lparr>br_burst := compose_nb (l1sched_nb_training_bits ! unat (lc_tsc (lv_lchan v)))
          (chunk (br_bid br * 116) 116 bursts) (br_burst br),
        br_burst_len := GSM_NBITS_NB_GMSK_BURST\<rparr>,
     upd_lchan (\<lambda>lc. lc\<lparr>lc_tx_burst_mask := nb_set_bit (br_bid br) (lc_tx_burst_mask lc)\<rparr>) v)"
  using assms by (simp add: send_burst_def buf_simps length_training_bits)

lemma store_burst_Some:
  assumes "lc_rx_bursts (lv_lchan v) = Some bursts" and "pos * 116 + 116 \<le> length bursts"
    and "148 \<le> length (bi_burst bi)"
  shows "store_burst pos bi v = Some (upd_lchan (\<lambda>lc. lc\<lparr>lc_rx_bursts :=
    Some (take (pos * 116) bursts @ nb_payload (bi_burst bi) @ drop (pos * 116 + 116) bursts)\<rparr>) v)"
  using assms by (simp add: store_burst_def buf_simps nb_payload_def)

section \<open>The channel invariant\<close>

text \<open>
  An active channel has the burst buffers its descriptor asks for; the history is a ring; the
  training sequence exists; the queue holds requests only; the fixed-size arrays have their
  size.
\<close>

fun prim_is_req :: "prim \<Rightarrow> bool" where
  "prim_is_req (DATA_REQ h) = True"
| "prim_is_req (RACH_REQ r) = True"
| "prim_is_req p = False"

definition buf_ok :: "bool \<Rightarrow> nat \<Rightarrow> u8 list option \<Rightarrow> bool" where
  "buf_ok has_fn sz b \<longleftrightarrow> (case b of
     None \<Rightarrow> \<not> (has_fn \<and> 0 < sz) | Some bs \<Rightarrow> length bs = sz)"

definition lchan_bufs_wf :: "libosmo \<Rightarrow> lchan_state \<Rightarrow> bool" where
  "lchan_bufs_wf L lc \<longleftrightarrow> (lc_active lc \<longrightarrow>
     (let d = l1sched_lchan_desc L (lc_type lc) in
        buf_ok (ld_rx_fn d \<noteq> None) (ld_burst_buf_size d) (lc_rx_bursts lc) \<and>
        buf_ok (ld_tx_fn d \<noteq> None) (ld_burst_buf_size d) (lc_tx_bursts lc)))"

definition lchan_wf :: "libosmo \<Rightarrow> lchan_state \<Rightarrow> bool" where
  "lchan_wf L lc \<longleftrightarrow> lchan_bufs_wf L lc \<and> meas_hist_wf (lc_meas_hist lc) \<and>
     unat (lc_tsc lc) < 8 \<and> length (a5_key (lc_a5 lc)) = MAX_A5_KEY_LEN \<and>
     list_all (prim_is_req \<circ> mb_prim) (lc_tx_prims lc) \<and>
     (case lc_prim lc of None \<Rightarrow> True | Some m \<Rightarrow> prim_is_req (mb_prim m)) \<and>
     length (am_codec (lc_amr lc)) = 4 \<and> unat (am_codecs (lc_amr lc)) \<le> 4"

definition view_wf :: "libosmo \<Rightarrow> lchan_view \<Rightarrow> bool" where
  "view_wf L v \<longleftrightarrow> lchan_wf L (lv_lchan v) \<and> sacch_wf v \<and> lv_tn v < 8"

text \<open>What a burst handler never changes.\<close>

definition same_chan :: "lchan_view \<Rightarrow> lchan_view \<Rightarrow> bool" where
  "same_chan v v' \<longleftrightarrow> lc_type (lv_lchan v') = lc_type (lv_lchan v) \<and>
     lc_active (lv_lchan v') = lc_active (lv_lchan v) \<and> lc_tsc (lv_lchan v') = lc_tsc (lv_lchan v) \<and>
     lc_a5 (lv_lchan v') = lc_a5 (lv_lchan v) \<and> lc_tch_mode (lv_lchan v') = lc_tch_mode (lv_lchan v) \<and>
     lc_tdma (lv_lchan v') = lc_tdma (lv_lchan v) \<and>
     lv_tn v' = lv_tn v \<and> lv_sacch_cache v' = lv_sacch_cache v \<and> prefix (lv_out v) (lv_out v')"

lemma same_chan_refl [simp]: "same_chan v v"
  by (simp add: same_chan_def)

lemma same_chan_trans: "same_chan u v \<Longrightarrow> same_chan v w \<Longrightarrow> same_chan u w"
  by (auto simp: same_chan_def intro: prefix_order.trans)

definition br_wf :: "burst_req \<Rightarrow> bool" where
  "br_wf br \<longleftrightarrow> length (br_burst br) = GSM_NBITS_NB_8PSK_BURST"

definition bi_wf :: "burst_ind \<Rightarrow> bool" where
  "bi_wf bi \<longleftrightarrow> length (bi_burst bi) = GSM_NBITS_NB_8PSK_BURST"

definition same_req :: "burst_req \<Rightarrow> burst_req \<Rightarrow> bool" where
  "same_req br br' \<longleftrightarrow> br_fn br' = br_fn br \<and> br_tn br' = br_tn br \<and> br_bid br' = br_bid br \<and>
     (br' = br \<or> br_burst_len br' = GSM_NBITS_NB_GMSK_BURST)"

section \<open>The contracts of the burst handlers\<close>

text \<open>
  A transmit handler, called under its precondition, returns; it leaves a well-formed channel of
  the same identity and either no burst or a complete one.
\<close>

definition tx_post :: "libosmo \<Rightarrow> lchan_view \<Rightarrow> burst_req \<Rightarrow> (int \<times> burst_req \<times> lchan_view) option \<Rightarrow> bool"
  where "tx_post L v br r \<longleftrightarrow> (case r of None \<Rightarrow> False
     | Some (rc, br', v') \<Rightarrow> view_wf L v' \<and> same_chan v v' \<and> br_wf br' \<and> same_req br br')"

definition rx_post :: "libosmo \<Rightarrow> lchan_view \<Rightarrow> (int \<times> lchan_view) option \<Rightarrow> bool"
  where "rx_post L v r \<longleftrightarrow> (case r of None \<Rightarrow> False | Some (rc, v') \<Rightarrow> view_wf L v' \<and> same_chan v v')"

locale tx_handler =
  fixes tx :: "libosmo \<Rightarrow> lchan_view \<Rightarrow> burst_req \<Rightarrow> (int \<times> burst_req \<times> lchan_view) option"
    and tx_pre :: "libosmo \<Rightarrow> lchan_view \<Rightarrow> burst_req \<Rightarrow> bool"
  assumes tx_ok: "tx_pre L v br \<Longrightarrow> view_wf L v \<Longrightarrow> br_wf br \<Longrightarrow> tx_post L v br (tx L v br)"
begin

lemma tx_returns:
  assumes "tx_pre L v br" "view_wf L v" "br_wf br"
  obtains rc br' v' where "tx L v br = Some (rc, br', v')" and "view_wf L v'" and "same_chan v v'"
    and "br_wf br'" and "same_req br br'"
  using tx_ok [OF assms] by (auto simp: tx_post_def split: option.splits)

end

locale rx_handler =
  fixes rx :: "libosmo \<Rightarrow> lchan_view \<Rightarrow> burst_ind \<Rightarrow> (int \<times> lchan_view) option"
    and rx_pre :: "libosmo \<Rightarrow> lchan_state \<Rightarrow> burst_ind \<Rightarrow> bool"
  assumes rx_ok: "rx_pre L (lv_lchan v) bi \<Longrightarrow> view_wf L v \<Longrightarrow> bi_wf bi \<Longrightarrow> rx_post L v (rx L v bi)"
begin

lemma rx_returns:
  assumes "rx_pre L (lv_lchan v) bi" "view_wf L v" "bi_wf bi"
  obtains rc v' where "rx L v bi = Some (rc, v')" and "view_wf L v'" and "same_chan v v'"
  using rx_ok [OF assms] by (auto simp: rx_post_def split: option.splits)

end

section \<open>The shared steps keep the invariant\<close>

text \<open>\<open>keeps\<close> is the relation every step of a handler satisfies.\<close>

definition keeps :: "libosmo \<Rightarrow> lchan_view \<Rightarrow> lchan_view \<Rightarrow> bool" where
  "keeps L v v' \<longleftrightarrow> (view_wf L v \<longrightarrow> view_wf L v') \<and> same_chan v v'"

named_theorems keeps_intros "steps of a handler that keep the channel well-formed"

lemma keeps_refl [keeps_intros]: "keeps L v v"
  by (simp add: keeps_def)

lemma keeps_trans: "keeps L u v \<Longrightarrow> keeps L v w \<Longrightarrow> keeps L u w"
  by (auto simp: keeps_def intro: same_chan_trans)

lemma keepsD: "keeps L v v' \<Longrightarrow> view_wf L v \<Longrightarrow> view_wf L v' \<and> same_chan v v'"
  by (simp add: keeps_def)

lemma keeps_type: "keeps L v v' \<Longrightarrow> lc_type (lv_lchan v') = lc_type (lv_lchan v)"
  by (simp add: keeps_def same_chan_def)

lemma keeps_active: "keeps L v v' \<Longrightarrow> lc_active (lv_lchan v') = lc_active (lv_lchan v)"
  by (simp add: keeps_def same_chan_def)

lemma keeps_upd:
  assumes "lchan_wf L (lv_lchan v) \<Longrightarrow> lchan_wf L (f (lv_lchan v))"
    and "lc_sacch (f (lv_lchan v)) = lc_sacch (lv_lchan v)"
    and "same_chan v (upd_lchan f v)"
  shows "keeps L v (upd_lchan f v)"
  using assms by (simp add: keeps_def view_wf_def sacch_wf_def)

lemma keeps_masks [keeps_intros]:
  "keeps L v (upd_lchan (\<lambda>lc. lc\<lparr>lc_tx_burst_mask := f lc\<rparr>) v)"
  "keeps L v (upd_lchan (\<lambda>lc. lc\<lparr>lc_rx_burst_mask := f lc\<rparr>) v)"
  by (rule keeps_upd; simp add: lchan_wf_def lchan_bufs_wf_def same_chan_def)+

lemma keeps_note_burst [keeps_intros]: "keeps L v (note_burst bi v)"
  unfolding note_burst_def
  by (rule keeps_upd)
    (simp_all add: lchan_wf_def lchan_bufs_wf_def l1sched_lchan_meas_push_def meas_hist_wf_push same_chan_def)

lemma note_burst_head: "mh_head (lc_meas_hist (lv_lchan (note_burst bi v))) \<noteq> None"
  by (simp add: note_burst_def l1sched_lchan_meas_push_def meas_hist_push_def Let_def)

lemma keeps_rx_bursts [keeps_intros]:
  "(\<And>bs. lc_rx_bursts (lv_lchan v) = Some bs \<Longrightarrow> length bursts = length bs) \<Longrightarrow>
   lc_rx_bursts (lv_lchan v) \<noteq> None \<Longrightarrow>
   keeps L v (upd_lchan (\<lambda>lc. lc\<lparr>lc_rx_bursts := Some bursts\<rparr>) v)"
  by (rule keeps_upd)
    (auto simp: lchan_wf_def lchan_bufs_wf_def buf_ok_def Let_def same_chan_def split: option.splits)

lemma keeps_tx_bursts [keeps_intros]:
  "(\<And>bs. lc_tx_bursts (lv_lchan v) = Some bs \<Longrightarrow> length bursts = length bs) \<Longrightarrow>
   lc_tx_bursts (lv_lchan v) \<noteq> None \<Longrightarrow>
   keeps L v (upd_lchan (\<lambda>lc. lc\<lparr>lc_tx_bursts := Some bursts\<rparr>) v)"
  by (rule keeps_upd)
    (auto simp: lchan_wf_def lchan_bufs_wf_def buf_ok_def Let_def same_chan_def split: option.splits)

lemma keeps_store_burst [keeps_intros]: "store_burst pos bi v = Some v' \<Longrightarrow> keeps L v v'"
  by (auto simp: store_burst_def dest: length_write_at intro!: keeps_rx_bursts)

lemma keeps_meas_avg [keeps_intros]: "meas_avg_view n v = Some v' \<Longrightarrow> keeps L v v'"
  by (auto simp: meas_avg_view_def l1sched_lchan_meas_avg_def keeps_def view_wf_def lchan_wf_def
      lchan_bufs_wf_def sacch_wf_def same_chan_def Let_def split: if_splits option.splits prod.splits)

lemma keeps_out [keeps_intros]: "keeps L v (v\<lparr>lv_out := lv_out v @ ms\<rparr>)"
  by (simp add: keeps_def same_chan_def view_wf_def sacch_wf_def)

lemma keeps_emit_ind [keeps_intros]:
  "l1sched_lchan_emit_data_ind L d n e b t v = Some (rc, v') \<Longrightarrow> keeps L v v'"
  by (auto simp: l1sched_lchan_emit_data_ind_def l1sched_prim_to_user_def Let_def keeps_out split: if_splits)

lemma keeps_emit_cnf [keeps_intros]:
  "l1sched_lchan_emit_data_cnf L m fn v = Some (rc, v') \<Longrightarrow> keeps L v v'"
  by (auto simp: l1sched_lchan_emit_data_cnf_def l1sched_prim_to_user_def keeps_out keeps_refl
      split: option.splits)

lemma keeps_send_burst [keeps_intros]: "send_burst v br = Some (br', v') \<Longrightarrow> keeps L v v'"
  by (auto simp: send_burst_def intro: keeps_masks)

lemma keeps_dequeue [keeps_intros]:
  assumes "set q \<subseteq> set (lc_tx_prims (lv_lchan v))"
  shows "keeps L v (upd_lchan (\<lambda>lc. lc\<lparr>lc_tx_prims := q\<rparr>) v)"
  using assms by (intro keeps_upd)
    (auto simp: lchan_wf_def lchan_bufs_wf_def list_all_iff same_chan_def)

lemma send_burst_wf:
  "send_burst v br = Some (br', v') \<Longrightarrow> br_wf br \<Longrightarrow> br_wf br' \<and> same_req br br'"
  by (auto simp: send_burst_def br_wf_def same_req_def read_at_eq_Some index_at_eq_Some
      length_training_bits length_training_seq length_chunk intro!: length_compose_nb)

text \<open>When the steps return.\<close>

lemma store_burst_returns:
  assumes "lc_rx_bursts (lv_lchan v) = Some bursts" "pos * 116 + 116 \<le> length bursts" "bi_wf bi"
  obtains v' where "store_burst pos bi v = Some v'"
    and "lc_rx_bursts (lv_lchan v') = Some (take (pos * 116) bursts @ nb_payload (bi_burst bi) @
           drop (pos * 116 + 116) bursts)"
    and "v' = upd_lchan (\<lambda>lc. lc\<lparr>lc_rx_bursts := lc_rx_bursts (lv_lchan v')\<rparr>) v"
  using assms by (simp add: store_burst_Some bi_wf_def gsm_nbits)

lemma meas_avg_view_returns:
  assumes "mh_head (lc_meas_hist (lv_lchan v)) \<noteq> None" "0 < n" "n \<le> 24"
  shows "\<exists>a. meas_avg_view n v = Some (upd_lchan (\<lambda>lc. lc\<lparr>lc_meas_avg := a\<rparr>) v)"
  using assms by (auto simp: meas_avg_view_def l1sched_lchan_meas_avg_def upd_lchan_def Let_def
      split: prod.splits)

lemma emit_ind_returns:
  "n \<le> length d \<Longrightarrow> n \<le> 512 \<Longrightarrow>
   \<exists>m. l1sched_lchan_emit_data_ind L d n e b t v = Some (prim_to_user_rc L, v\<lparr>lv_out := lv_out v @ [m]\<rparr>) \<and>
       mb_l2 m = take n d"
  by (simp add: l1sched_lchan_emit_data_ind_def l1sched_prim_to_user_def read_at_Some chunk_def Let_def)
    (rule exI, rule conjI, rule refl, simp)

lemma emit_cnf_returns:
  "prim_is_req (mb_prim m) \<Longrightarrow> \<exists>p. prim_to_cnf fn (mb_prim m) = Some p \<and>
     l1sched_lchan_emit_data_cnf L (Some m) fn v =
       Some (prim_to_user_rc L, v\<lparr>lv_out := lv_out v @ [m\<lparr>mb_prim := p\<rparr>]\<rparr>)"
  by (cases "mb_prim m") (simp_all add: l1sched_lchan_emit_data_cnf_def l1sched_prim_to_user_def)

lemma send_burst_returns:
  assumes "view_wf L v" "lc_tx_bursts (lv_lchan v) = Some bursts" "br_bid br * 116 + 116 \<le> length bursts"
  shows "\<exists>br' v'. send_burst v br = Some (br', v')"
  using assms send_burst_Some [of v bursts br] by (auto simp: view_wf_def lchan_wf_def)

lemma dummy_lapdm_returns:
  "\<not> L1SCHED_CHAN_IS_SACCH L (lc_type (lv_lchan v)) \<Longrightarrow>
   \<exists>m. l1sched_lchan_prim_dummy_lapdm L v = Some m \<and> prim_is_req (mb_prim m) \<and>
       length (mb_l2 m) = GSM_MACBLOCK_LEN"
  by (simp add: l1sched_lchan_prim_dummy_lapdm_def l1sched_prim_alloc_def Let_def gsm_nbits)

lemma send_burst_post:
  assumes "view_wf L v" "br_wf br" "lc_tx_bursts (lv_lchan v) = Some bs"
    and "br_bid br * 116 + 116 \<le> length bs"
  obtains br' v' where "send_burst v br = Some (br', v')" "view_wf L v'" "same_chan v v'"
    "br_wf br'" "same_req br br'" "lc_tx_bursts (lv_lchan v') = Some bs"
proof -
  obtain br' v' where s: "send_burst v br = Some (br', v')"
    using send_burst_returns [OF assms(1,3,4)] by blast
  moreover have "lc_tx_bursts (lv_lchan v') = Some bs"
    using s assms(3) by (auto simp: send_burst_def)
  ultimately show ?thesis
    using that send_burst_wf [OF s assms(2)] keepsD [OF keeps_send_burst [OF s] assms(1)] by blast
qed

text \<open>The common start of the receive handlers.\<close>

lemma store_burst_post:
  assumes "lc_rx_bursts (lv_lchan v) = Some bs" "pos * 116 + 116 \<le> length bs" "bi_wf bi"
  obtains v' where "store_burst pos bi (note_burst bi v) = Some v'" and "keeps L v v'"
    and "lc_rx_bursts (lv_lchan v') = Some (take (pos * 116) bs @ nb_payload (bi_burst bi) @
           drop (pos * 116 + 116) bs)"
    and "length (take (pos * 116) bs @ nb_payload (bi_burst bi) @ drop (pos * 116 + 116) bs) = length bs"
    and "mh_head (lc_meas_hist (lv_lchan v')) \<noteq> None"
    and "lc_rx_burst_mask (lv_lchan v') = nb_set_bit (bi_bid bi) (lc_rx_burst_mask (lv_lchan v))"
    and "lc_meas_hist (lv_lchan v') = meas_hist_push (meas_set_of bi) (lc_meas_hist (lv_lchan v))"
    and "lc_amr (lv_lchan v') = lc_amr (lv_lchan v)" and "lv_out v' = lv_out v"
proof -
  have "lc_rx_bursts (lv_lchan (note_burst bi v)) = Some bs"
    using assms(1) by (simp add: note_burst_def l1sched_lchan_meas_push_def)
  from store_burst_returns [OF this assms(2,3)] obtain v' where
    v': "store_burst pos bi (note_burst bi v) = Some v'"
    "lc_rx_bursts (lv_lchan v') = Some (take (pos * 116) bs @ nb_payload (bi_burst bi) @
           drop (pos * 116 + 116) bs)"
    "v' = upd_lchan (\<lambda>lc. lc\<lparr>lc_rx_bursts := lc_rx_bursts (lv_lchan v')\<rparr>) (note_burst bi v)"
    by blast
  moreover have "keeps L v v'"
    using keeps_trans [OF keeps_note_burst keeps_store_burst [OF v'(1)]] .
  moreover have "mh_head (lc_meas_hist (lv_lchan v')) \<noteq> None"
    using note_burst_head [of bi v] by (subst v'(3)) simp
  moreover have "lc_rx_burst_mask (lv_lchan v') = nb_set_bit (bi_bid bi) (lc_rx_burst_mask (lv_lchan v))"
    "lc_meas_hist (lv_lchan v') = meas_hist_push (meas_set_of bi) (lc_meas_hist (lv_lchan v))"
    "lc_amr (lv_lchan v') = lc_amr (lv_lchan v)" "lv_out v' = lv_out v"
    by (subst v'(3), simp add: note_burst_def l1sched_lchan_meas_push_def)+
  moreover have "length (take (pos * 116) bs @ nb_payload (bi_burst bi) @ drop (pos * 116 + 116) bs) = length bs"
    using assms(2,3) by (simp add: length_nb_payload bi_wf_def gsm_nbits)
  ultimately show ?thesis using that by blast
qed

lemma meas_avg_view_post:
  assumes "mh_head (lc_meas_hist (lv_lchan v)) \<noteq> None" "0 < n" "n \<le> 24"
  obtains a where "meas_avg_view n v = Some (upd_lchan (\<lambda>lc. lc\<lparr>lc_meas_avg := a\<rparr>) v)"
    and "keeps L v (upd_lchan (\<lambda>lc. lc\<lparr>lc_meas_avg := a\<rparr>) v)"
  using meas_avg_view_returns [OF assms] keeps_meas_avg by blast

end
