(* ===== verification/Sched_Xcch.thy ===== *)
theory Sched_Xcch
  imports Sched_Burst
begin

text \<open>
  The handlers of the control channels (\<^verbatim>\<open>sched_lchan_xcch.c\<close>): a block of 23
  octets is coded into four bursts; the transmit handler takes the next primitive at the first
  burst of a block, the receive handler decodes at the last. The handlers are interpretations
  of the contracts of Sched\_Burst, the dequeue operation one of \<open>prim_source\<close>, and the
  last section shows that what one side sends the other side receives.
\<close>

section \<open>The handlers\<close>

definition rx_data_fn :: "libosmo \<Rightarrow> lchan_view \<Rightarrow> burst_ind \<Rightarrow> (int \<times> lchan_view) option" where
  "rx_data_fn L v bi =
     (if lc_rx_burst_mask (lv_lchan v) = 0 \<and> bi_bid bi \<noteq> 0 then Some (0, v)
      else do {
        v \<leftarrow> store_burst (bi_bid bi) bi (note_burst bi v);
        if bi_bid bi \<noteq> 3 then Some (0, v)
        else do {
          v \<leftarrow> meas_avg_view 4 v;
          v \<leftarrow> Some (upd_lchan (\<lambda>lc. lc\<lparr>lc_rx_burst_mask := push_bit 4 (lc_rx_burst_mask lc)\<rparr>) v);
          bursts \<leftarrow> lc_rx_bursts (lv_lchan v);
          coded \<leftarrow> read_at 0 (4 * 116) bursts;
          let (rc, l2, n_errors, n_bits_total) = gsm0503_xcch_decode L coded
          in l1sched_lchan_emit_data_ind L l2 (if rc \<noteq> 0 then 0 else GSM_MACBLOCK_LEN)
               n_errors n_bits_total False v } })"

definition prim_dequeue_xcch :: "libosmo \<Rightarrow> lchan_view \<Rightarrow> msgb option \<times> lchan_view" where
  "prim_dequeue_xcch L v =
     (if L1SCHED_CHAN_IS_SACCH L (lc_type (lv_lchan v)) then deq_sacch L v
      else case lc_tx_prims (lv_lchan v) of
             [] \<Rightarrow> (None, v)
           | msg # q \<Rightarrow>
               (let v = upd_lchan (\<lambda>lc. lc\<lparr>lc_tx_prims := q\<rparr>) v
                in if length (mb_l2 msg) \<noteq> GSM_MACBLOCK_LEN then (None, v) else (Some msg, v)))"

definition tx_data_fn :: "libosmo \<Rightarrow> lchan_view \<Rightarrow> burst_req \<Rightarrow> (int \<times> burst_req \<times> lchan_view) option" where
  "tx_data_fn L v br =
     (if br_bid br > 0 then
        if \<not> bit (lc_tx_burst_mask (lv_lchan v)) 0 then Some (- ENOENT, br, v)
        else do { (br, v) \<leftarrow> send_burst v br; Some (0, br, v) }
      else
        (let v = upd_lchan (\<lambda>lc. lc\<lparr>lc_tx_burst_mask := push_bit 4 (lc_tx_burst_mask lc)\<rparr>) v;
             (msg, v) = prim_dequeue_xcch L v
         in do {
           msg \<leftarrow> (case msg of Some m \<Rightarrow> Some m | None \<Rightarrow> l1sched_lchan_prim_dummy_lapdm L v);
           bursts \<leftarrow> lc_tx_bursts (lv_lchan v);
           block \<leftarrow> read_at 0 (4 * 116) bursts;
           let (rc, coded) = gsm0503_xcch_encode L block (l2_octets msg GSM_MACBLOCK_LEN);
               v = upd_lchan (\<lambda>lc. lc\<lparr>lc_tx_bursts := Some (coded @ drop (4 * 116) bursts)\<rparr>) v
           in if rc \<noteq> 0 then Some (- EINVAL, br, v)
              else do {
                (_, v) \<leftarrow> l1sched_lchan_emit_data_cnf L (Some msg) (br_fn br) v;
                (br, v) \<leftarrow> send_burst v br;
                Some (0, br, v) } }))"

section \<open>The handlers meet their contracts\<close>

lemma deq_sacch_keeps:
  assumes "view_wf L v" "deq_sacch L v = (r, v')"
  shows "view_wf L v' \<and> same_chan v v' \<and> lc_tx_bursts (lv_lchan v') = lc_tx_bursts (lv_lchan v) \<and>
    (\<exists>m. r = Some m \<and> prim_is_req (mb_prim m))"
proof -
  obtain m where r: "r = Some m" and d: "l1sched_lchan_prim_dequeue_sacch L v = (m, v')"
    using assms(2) by (auto simp: deq_sacch_def split: prod.splits)
  have wf: "sacch_wf v" using assms(1) by (simp add: view_wf_def)
  note step = sacch_dequeue_step [OF wf d]
  let ?q = "lc_tx_prims (lv_lchan v)"
  show ?thesis
  proof (cases "sacch_choice (sa_mr_tx_last (lc_sacch (lv_lchan v))) ?q")
    case None
    obtain m0 v0 where c: "prim_compose_mr L v = (m0, v0)" by (cases "prim_compose_mr L v")
    then show ?thesis
      using None d r assms(1) step(1)
      by (auto simp: dequeue_sacch_eq prim_compose_mr_def l1sched_prim_alloc_def Let_def view_wf_def
          lchan_wf_def lchan_bufs_wf_def same_chan_def)
  next
    case (Some i)
    have "set (list_del_at i ?q) \<subseteq> set ?q"
      using set_mset_mono [OF subseq_mset [OF subseq_list_del_at [of i ?q]]] by simp
    moreover have "?q ! i \<in> set ?q"
      using sacch_choice_bound [OF Some] by simp
    ultimately show ?thesis
      using Some d r assms(1) step(1)
      by (auto simp: dequeue_sacch_eq Let_def view_wf_def lchan_wf_def lchan_bufs_wf_def same_chan_def
          list_all_iff)
  qed
qed

lemma xcch_dequeue_keeps:
  assumes "view_wf L v" "prim_dequeue_xcch L v = (r, v')"
  shows "view_wf L v' \<and> same_chan v v' \<and> lc_tx_bursts (lv_lchan v') = lc_tx_bursts (lv_lchan v) \<and>
    (case r of None \<Rightarrow> \<not> L1SCHED_CHAN_IS_SACCH L (lc_type (lv_lchan v)) | Some m \<Rightarrow> prim_is_req (mb_prim m))"
proof (cases "L1SCHED_CHAN_IS_SACCH L (lc_type (lv_lchan v))")
  case True
  then show ?thesis
    using assms deq_sacch_keeps [of L v r v'] by (auto simp: prim_dequeue_xcch_def)
next
  case False
  show ?thesis
  proof (cases "lc_tx_prims (lv_lchan v)")
    case Nil
    then show ?thesis using assms False by (auto simp: prim_dequeue_xcch_def)
  next
    case (Cons m q)
    have "prim_is_req (mb_prim m)"
      using assms(1) Cons by (simp add: view_wf_def lchan_wf_def)
    moreover have "keeps L v (upd_lchan (\<lambda>lc. lc\<lparr>lc_tx_prims := q\<rparr>) v)"
      using Cons by (intro keeps_dequeue) auto
    ultimately show ?thesis
      using assms False Cons by (auto simp: prim_dequeue_xcch_def keeps_def Let_def split: if_splits)
  qed
qed

interpretation xcch_src: prim_source "prim_dequeue_xcch L" "\<lambda>v. lc_tx_prims (lv_lchan v)" sacch_wf
    PRIM_MSGB_IS_MR for L
proof
  fix s s' :: lchan_view and r assume wf: "sacch_wf s" and d: "prim_dequeue_xcch L s = (r, s')"
  show "sacch_wf s'"
    using wf d sacch_src.src_ok_deq [of s L]
    by (auto simp: prim_dequeue_xcch_def sacch_wf_def Let_def split: if_splits list.splits)
  show "subseq (lc_tx_prims (lv_lchan s')) (lc_tx_prims (lv_lchan s))"
    using d sacch_src.deq_order [OF wf, of L]
    by (auto simp: prim_dequeue_xcch_def Let_def split: if_splits list.splits)
next
  fix s s' :: lchan_view and m assume wf: "sacch_wf s" and d: "prim_dequeue_xcch L s = (Some m, s')"
  then show "add_mset m (mset (lc_tx_prims (lv_lchan s'))) \<subseteq># mset (lc_tx_prims (lv_lchan s)) \<or>
      PRIM_MSGB_IS_MR m"
    using sacch_src.deq_src [OF wf, of L]
    by (auto simp: prim_dequeue_xcch_def Let_def split: if_splits list.splits)
qed

text \<open>The precondition of both handlers: a channel with burst buffers for one coded block, and a
  burst position within it.\<close>

definition xcch_tx_pre :: "libosmo \<Rightarrow> lchan_view \<Rightarrow> burst_req \<Rightarrow> bool" where
  "xcch_tx_pre L v br \<longleftrightarrow> codec_len_ok L \<and> br_bid br < 4 \<and>
     (\<exists>bs. lc_tx_bursts (lv_lchan v) = Some bs \<and> 4 * 116 \<le> length bs)"

definition xcch_rx_pre :: "libosmo \<Rightarrow> lchan_state \<Rightarrow> burst_ind \<Rightarrow> bool" where
  "xcch_rx_pre L lc bi \<longleftrightarrow> decode_ok L \<and> bi_bid bi < 4 \<and>
     (\<exists>bs. lc_rx_bursts lc = Some bs \<and> 4 * 116 \<le> length bs)"

lemma tx_data_fn_ok:
  assumes "xcch_tx_pre L v br" "view_wf L v" "br_wf br"
  shows "tx_post L v br (tx_data_fn L v br)"
proof -
  obtain bs where bs: "lc_tx_bursts (lv_lchan v) = Some bs" "4 * 116 \<le> length bs" and bid: "br_bid br < 4"
    and cl: "codec_len_ok L"
    using assms(1) by (auto simp: xcch_tx_pre_def)
  have pos: "br_bid br * 116 + 116 \<le> length bs" using bs(2) bid by simp
  show ?thesis
  proof (cases "br_bid br > 0")
    case True
    obtain br' v' where "send_burst v br = Some (br', v')" "view_wf L v'" "same_chan v v'"
      "br_wf br'" "same_req br br'"
      using send_burst_post [OF assms(2,3) bs(1) pos] by blast
    then show ?thesis
      using True assms by (auto simp: tx_data_fn_def tx_post_def same_req_def)
  next
    case False
    define v0 where "v0 = upd_lchan (\<lambda>lc. lc\<lparr>lc_tx_burst_mask := push_bit 4 (lc_tx_burst_mask lc)\<rparr>) v"
    have v0: "keeps L v v0" "lc_tx_bursts (lv_lchan v0) = Some bs"
      using bs(1) by (auto simp: v0_def intro: keeps_masks)
    obtain r v1 where d: "prim_dequeue_xcch L v0 = (r, v1)" by (cases "prim_dequeue_xcch L v0")
    note dq = xcch_dequeue_keeps [OF conjunct1 [OF keepsD [OF v0(1) assms(2)]] d]
    then have v1: "keeps L v v1" "lc_tx_bursts (lv_lchan v1) = Some bs" "view_wf L v1"
      using v0 keeps_trans [OF v0(1), of v1] by (auto simp: keeps_def)
    obtain m where m: "(case r of Some m \<Rightarrow> Some m | None \<Rightarrow> l1sched_lchan_prim_dummy_lapdm L v1) = Some m"
      "prim_is_req (mb_prim m)"
      using dq v1(1) dummy_lapdm_returns [of L v1] keeps_type [OF v0(1)] keeps_type [OF v1(1)]
      by (cases r) auto
    obtain rc coded where e: "gsm0503_xcch_encode L (chunk 0 464 bs) (l2_octets m GSM_MACBLOCK_LEN) = (rc, coded)"
      by (cases "gsm0503_xcch_encode L (chunk 0 464 bs) (l2_octets m GSM_MACBLOCK_LEN)")
    then have len: "length coded = 464"
      using codec_len_okD(1) [OF cl, of "chunk 0 464 bs" "l2_octets m GSM_MACBLOCK_LEN"] bs(2)
      by (simp add: length_chunk)
    define v2 where "v2 = upd_lchan (\<lambda>lc. lc\<lparr>lc_tx_bursts := Some (coded @ drop 464 bs)\<rparr>) v1"
    have v2: "keeps L v v2" "lc_tx_bursts (lv_lchan v2) = Some (coded @ drop 464 bs)" "view_wf L v2"
    proof -
      have "keeps L v1 v2"
        unfolding v2_def using v1(2) len bs(2) by (intro keeps_tx_bursts) auto
      then show "keeps L v v2" "view_wf L v2"
        using v1 keeps_trans keepsD by blast+
    qed (simp add: v2_def)
    obtain p where p: "l1sched_lchan_emit_data_cnf L (Some m) (br_fn br) v2 =
        Some (prim_to_user_rc L, v2\<lparr>lv_out := lv_out v2 @ [m\<lparr>mb_prim := p\<rparr>]\<rparr>)"
      using emit_cnf_returns [OF m(2)] by blast
    define v3 where "v3 = v2\<lparr>lv_out := lv_out v2 @ [m\<lparr>mb_prim := p\<rparr>]\<rparr>"
    have v3: "keeps L v v3" "view_wf L v3" "lc_tx_bursts (lv_lchan v3) = Some (coded @ drop 464 bs)"
      using keeps_trans [OF v2(1) keeps_out] v2(2,3) by (auto simp: v3_def view_wf_def sacch_wf_def)
    have pos3: "br_bid br * 116 + 116 \<le> length (coded @ drop 464 bs)"
      using pos bs(2) len by simp
    obtain br' v' where s: "send_burst v3 br = Some (br', v')" "view_wf L v'" "same_chan v3 v'"
      "br_wf br'" "same_req br br'"
      using send_burst_post [OF v3(2) assms(3) v3(3)] pos3 by blast
    have "tx_data_fn L v br = (if rc \<noteq> 0 then Some (- EINVAL, br, v2) else Some (0, br', v'))"
      using False d m(1) v1(2) e s(1) p bs(2)
      by (simp add: tx_data_fn_def v0_def [symmetric] v2_def [symmetric] v3_def [symmetric] read_at_Some)
    then show ?thesis
      using s v2 v3 assms by (auto simp: tx_post_def keeps_def same_req_def intro: same_chan_trans)
  qed
qed

interpretation xcch_tx: tx_handler tx_data_fn xcch_tx_pre
  by unfold_locales (rule tx_data_fn_ok)

lemma rx_data_fn_ok:
  assumes "xcch_rx_pre L (lv_lchan v) bi" "view_wf L v" "bi_wf bi"
  shows "rx_post L v (rx_data_fn L v bi)"
proof (cases "lc_rx_burst_mask (lv_lchan v) = 0 \<and> bi_bid bi \<noteq> 0")
  case True
  then show ?thesis using assms by (simp add: rx_data_fn_def rx_post_def)
next
  case False
  obtain bs where bs: "lc_rx_bursts (lv_lchan v) = Some bs" "464 \<le> length bs" and bid: "bi_bid bi < 4"
    and dec: "decode_ok L"
    using assms(1) by (auto simp: xcch_rx_pre_def)
  have "bi_bid bi * 116 + 116 \<le> length bs" using bs(2) bid by simp
  from store_burst_post [OF bs(1) this assms(3)] obtain v1 bs1 where
    v1: "store_burst (bi_bid bi) bi (note_burst bi v) = Some v1" "keeps L v v1"
    "mh_head (lc_meas_hist (lv_lchan v1)) \<noteq> None" "lc_rx_bursts (lv_lchan v1) = Some bs1"
    and "length bs1 = length bs"
    by metis
  then have len1: "464 \<le> length bs1" using bs(2) by simp
  show ?thesis
  proof (cases "bi_bid bi = 3")
    case False
    then show ?thesis
      using \<open>\<not> (_ \<and> _)\<close> v1 keepsD [OF v1(2) assms(2)] by (auto simp: rx_data_fn_def rx_post_def)
  next
    case True
    obtain a where v2: "meas_avg_view 4 v1 = Some (upd_lchan (\<lambda>lc. lc\<lparr>lc_meas_avg := a\<rparr>) v1)"
      "keeps L v1 (upd_lchan (\<lambda>lc. lc\<lparr>lc_meas_avg := a\<rparr>) v1)"
      using meas_avg_view_post [OF v1(3), of 4] by auto
    define v3 where "v3 = upd_lchan (\<lambda>lc. lc\<lparr>lc_rx_burst_mask := push_bit 4 (lc_rx_burst_mask lc)\<rparr>)
      (upd_lchan (\<lambda>lc. lc\<lparr>lc_meas_avg := a\<rparr>) v1)"
    have v3: "keeps L v v3" "lc_rx_bursts (lv_lchan v3) = Some bs1"
      using keeps_trans [OF keeps_trans [OF v1(2) v2(2)] keeps_masks(2)] v1(4) by (auto simp: v3_def)
    obtain rc l2 e n where d: "gsm0503_xcch_decode L (chunk 0 464 bs1) = (rc, l2, e, n)"
      by (cases "gsm0503_xcch_decode L (chunk 0 464 bs1)")
    then have k: "(if rc \<noteq> 0 then 0 else GSM_MACBLOCK_LEN) \<le> length l2"
      using decode_okD(1) [OF dec, of "chunk 0 464 bs1"] by (auto simp: gsm_nbits)
    have "(if rc \<noteq> 0 then 0 else GSM_MACBLOCK_LEN) \<le> 512"
      by (simp add: gsm_nbits)
    from emit_ind_returns [OF k this] obtain m where
      em: "l1sched_lchan_emit_data_ind L l2 (if rc \<noteq> 0 then 0 else GSM_MACBLOCK_LEN) e n False v3
        = Some (prim_to_user_rc L, v3\<lparr>lv_out := lv_out v3 @ [m]\<rparr>)"
      by blast
    have "rx_data_fn L v bi = Some (prim_to_user_rc L, v3\<lparr>lv_out := lv_out v3 @ [m]\<rparr>)"
      using False True v1 v2(1) v3 d em len1 by (simp add: rx_data_fn_def v3_def [symmetric] read_at_Some)
    then show ?thesis
      using keepsD [OF keeps_trans [OF v3(1) keeps_out] assms(2)] by (simp add: rx_post_def)
  qed
qed

interpretation xcch_rx: rx_handler rx_data_fn xcch_rx_pre
  by unfold_locales (rule rx_data_fn_ok)

section \<open>From one side to the other\<close>

text \<open>A handler run over a list of bursts, and the channel between the two sides: every hard bit
  of a burst becomes a soft bit of full confidence.\<close>

fun tx_run :: "(lchan_view \<Rightarrow> burst_req \<Rightarrow> (int \<times> burst_req \<times> lchan_view) option) \<Rightarrow>
    lchan_view \<Rightarrow> burst_req list \<Rightarrow> (burst_req list \<times> lchan_view) option" where
  "tx_run tx v [] = Some ([], v)"
| "tx_run tx v (br # brs) =
     do { (_, br, v) \<leftarrow> tx v br;
          (brs, v) \<leftarrow> tx_run tx v brs;
          Some (br # brs, v) }"

fun rx_run :: "(lchan_view \<Rightarrow> burst_ind \<Rightarrow> (int \<times> lchan_view) option) \<Rightarrow>
    lchan_view \<Rightarrow> burst_ind list \<Rightarrow> lchan_view option" where
  "rx_run rx v [] = Some v"
| "rx_run rx v (bi # bis) = do { (_, v) \<leftarrow> rx v bi; rx_run rx v bis }"

definition air :: "u16 \<Rightarrow> u8 \<Rightarrow> burst_req \<Rightarrow> burst_ind" where
  "air toa rssi br = \<lparr>bi_fn = br_fn br, bi_tn = br_tn br, bi_toa256 = toa, bi_rssi = rssi,
     bi_bid = br_bid br, bi_burst = map ubit2sbit (br_burst br), bi_burst_len = br_burst_len br\<rparr>"

definition empty_req :: "nat \<Rightarrow> u32 \<Rightarrow> nat \<Rightarrow> burst_req" where
  "empty_req tn fn bid = \<lparr>br_fn = fn, br_tn = tn, br_bid = bid,
     br_burst = replicate GSM_NBITS_NB_8PSK_BURST 0, br_burst_len = 0\<rparr>"

lemma br_wf_empty: "br_wf (empty_req tn fn bid)"
  by (simp add: br_wf_def empty_req_def)

lemma tx_data_next:
  assumes "lc_tx_bursts (lv_lchan v) = Some coded" "length coded = 464" "0 < br_bid br" "br_bid br < 4"
    and "bit (lc_tx_burst_mask (lv_lchan v)) 0" "unat (lc_tsc (lv_lchan v)) < 8"
  obtains v' where "tx_data_fn L v br = Some (0, br\<lparr>br_burst :=
      compose_nb (l1sched_nb_training_bits ! unat (lc_tsc (lv_lchan v)))
        (chunk (br_bid br * 116) 116 coded) (br_burst br), br_burst_len := GSM_NBITS_NB_GMSK_BURST\<rparr>, v')"
    and "lc_tx_bursts (lv_lchan v') = Some coded" and "bit (lc_tx_burst_mask (lv_lchan v')) 0"
    and "lc_tsc (lv_lchan v') = lc_tsc (lv_lchan v)" and "lc_tx_prims (lv_lchan v') = lc_tx_prims (lv_lchan v)"
    and "lv_out v' = lv_out v"
proof -
  define v' where "v' = upd_lchan (\<lambda>lc. lc\<lparr>lc_tx_burst_mask := nb_set_bit (br_bid br) (lc_tx_burst_mask lc)\<rparr>) v"
  have "send_burst v br = Some (br\<lparr>br_burst :=
      compose_nb (l1sched_nb_training_bits ! unat (lc_tsc (lv_lchan v)))
        (chunk (br_bid br * 116) 116 coded) (br_burst br), br_burst_len := GSM_NBITS_NB_GMSK_BURST\<rparr>, v')"
    unfolding v'_def using assms by (intro send_burst_Some) auto
  then have t: "tx_data_fn L v br = Some (0, br\<lparr>br_burst :=
      compose_nb (l1sched_nb_training_bits ! unat (lc_tsc (lv_lchan v)))
        (chunk (br_bid br * 116) 116 coded) (br_burst br), br_burst_len := GSM_NBITS_NB_GMSK_BURST\<rparr>, v')"
    using assms by (simp add: tx_data_fn_def)
  show ?thesis
    by (rule that [OF t]) (use assms in \<open>simp_all add: v'_def nb_set_bit_def bit_simps\<close>)
qed

lemma tx_data_first:
  assumes "lc_tx_prims (lv_lchan v) = m # q" "length (mb_l2 m) = 23" "prim_is_req (mb_prim m)"
    and "lc_tx_bursts (lv_lchan v) = Some bs" "length bs = 464" "br_bid br = 0"
    and "unat (lc_tsc (lv_lchan v)) < 8" "\<not> L1SCHED_CHAN_IS_SACCH L (lc_type (lv_lchan v))"
    and "gsm0503_xcch_encode L bs (mb_l2 m) = (0, coded)" "length coded = 464"
  obtains v' p where "tx_data_fn L v br = Some (0, br\<lparr>br_burst :=
      compose_nb (l1sched_nb_training_bits ! unat (lc_tsc (lv_lchan v)))
        (chunk 0 116 coded) (br_burst br), br_burst_len := GSM_NBITS_NB_GMSK_BURST\<rparr>, v')"
    and "lc_tx_bursts (lv_lchan v') = Some coded" and "bit (lc_tx_burst_mask (lv_lchan v')) 0"
    and "lc_tsc (lv_lchan v') = lc_tsc (lv_lchan v)" and "lc_tx_prims (lv_lchan v') = q"
    and "prim_to_cnf (br_fn br) (mb_prim m) = Some p"
    and "lv_out v' = lv_out v @ [m\<lparr>mb_prim := p\<rparr>]"
proof -
  define v2 where "v2 = upd_lchan (\<lambda>lc. lc\<lparr>lc_tx_bursts := Some coded\<rparr>)
    (upd_lchan (\<lambda>lc. lc\<lparr>lc_tx_prims := q\<rparr>)
      (upd_lchan (\<lambda>lc. lc\<lparr>lc_tx_burst_mask := push_bit 4 (lc_tx_burst_mask lc)\<rparr>) v))"
  obtain p where p: "prim_to_cnf (br_fn br) (mb_prim m) = Some p"
    "l1sched_lchan_emit_data_cnf L (Some m) (br_fn br) v2 =
      Some (prim_to_user_rc L, v2\<lparr>lv_out := lv_out v2 @ [m\<lparr>mb_prim := p\<rparr>]\<rparr>)"
    using emit_cnf_returns [OF assms(3)] by blast
  define v3 where "v3 = v2\<lparr>lv_out := lv_out v2 @ [m\<lparr>mb_prim := p\<rparr>]\<rparr>"
  have v3: "lc_tx_bursts (lv_lchan v3) = Some coded" "lc_tsc (lv_lchan v3) = lc_tsc (lv_lchan v)"
    "lc_tx_prims (lv_lchan v3) = q" "lv_out v3 = lv_out v @ [m\<lparr>mb_prim := p\<rparr>]"
    by (simp_all add: v3_def v2_def)
  define v' where "v' = upd_lchan (\<lambda>lc. lc\<lparr>lc_tx_burst_mask := nb_set_bit 0 (lc_tx_burst_mask lc)\<rparr>) v3"
  have "send_burst v3 br = Some (br\<lparr>br_burst :=
      compose_nb (l1sched_nb_training_bits ! unat (lc_tsc (lv_lchan v)))
        (chunk 0 116 coded) (br_burst br), br_burst_len := GSM_NBITS_NB_GMSK_BURST\<rparr>, v')"
    using send_burst_Some [OF v3(1), of br] assms(6,7,10) v3(2) by (simp add: v'_def)
  then have t: "tx_data_fn L v br = Some (0, br\<lparr>br_burst :=
      compose_nb (l1sched_nb_training_bits ! unat (lc_tsc (lv_lchan v)))
        (chunk 0 116 coded) (br_burst br), br_burst_len := GSM_NBITS_NB_GMSK_BURST\<rparr>, v')"
    using assms p(2) by (simp add: tx_data_fn_def prim_dequeue_xcch_def Let_def read_at_Some chunk_all
        l2_octets_full gsm_nbits v2_def [symmetric] v3_def [symmetric])
  show ?thesis
    by (rule that [OF t]) (simp_all add: v'_def nb_set_bit_def bit_simps v3 p(1))
qed

lemma mask_set_nonzero: "bid < 32 \<Longrightarrow> nb_set_bit bid mk \<noteq> 0"
  unfolding nb_set_bit_def by (rule word_or_bit_nonzero) simp

lemma rx_data_next:
  assumes "lc_rx_burst_mask (lv_lchan w) \<noteq> 0 \<or> bi_bid bi = 0" "bi_bid bi < 3" "bi_wf bi"
    and "lc_rx_bursts (lv_lchan w) = Some bs" "length bs = 464"
  obtains w' where "rx_data_fn L w bi = Some (0, w')" and "lc_rx_burst_mask (lv_lchan w') \<noteq> 0"
    and "lc_rx_bursts (lv_lchan w') = Some (take (bi_bid bi * 116) bs @ nb_payload (bi_burst bi) @
           drop (bi_bid bi * 116 + 116) bs)"
    and "lv_out w' = lv_out w"
proof -
  have "bi_bid bi * 116 + 116 \<le> length bs" using assms(2,5) by simp
  from store_burst_post [OF assms(4) this assms(3)] obtain w' where
    w': "store_burst (bi_bid bi) bi (note_burst bi w) = Some w'"
    "lc_rx_bursts (lv_lchan w') = Some (take (bi_bid bi * 116) bs @ nb_payload (bi_burst bi) @
           drop (bi_bid bi * 116 + 116) bs)"
    "lc_rx_burst_mask (lv_lchan w') = nb_set_bit (bi_bid bi) (lc_rx_burst_mask (lv_lchan w))"
    "lv_out w' = lv_out w"
    by metis
  show ?thesis
    by (rule that [of w']) (use assms w' in \<open>auto simp: rx_data_fn_def mask_set_nonzero\<close>)
qed

lemma rx_data_next_ex:
  assumes "lc_rx_burst_mask (lv_lchan w) \<noteq> 0 \<or> i = 0" "bi_bid bi = i" "i < 3" "bi_wf bi"
    and "lc_rx_bursts (lv_lchan w) = Some bs" "length bs = 464"
    and "take (i * 116) bs @ nb_payload (bi_burst bi) @ drop (i * 116 + 116) bs = bs'"
  shows "\<exists>w'. rx_data_fn L w bi = Some (0, w') \<and> lc_rx_burst_mask (lv_lchan w') \<noteq> 0 \<and>
    lc_rx_bursts (lv_lchan w') = Some bs' \<and> lv_out w' = lv_out w"
  using rx_data_next [of w bi bs L] assms by metis

lemma rx_data_last:
  assumes "lc_rx_burst_mask (lv_lchan w) \<noteq> 0" "bi_bid bi = 3" "bi_wf bi"
    and "lc_rx_bursts (lv_lchan w) = Some bs" "length bs = 464"
    and "gsm0503_xcch_decode L (take 348 bs @ nb_payload (bi_burst bi)) = (0, l2, e, n)" "length l2 = 23"
  obtains w' ind where "rx_data_fn L w bi = Some (prim_to_user_rc L, w')"
    and "lv_out w' = lv_out w @ [ind]" and "mb_l2 ind = l2"
proof -
  have "bi_bid bi * 116 + 116 \<le> length bs" using assms(2,5) by simp
  from store_burst_post [OF assms(4) this assms(3)] obtain w1 where
    w1: "store_burst (bi_bid bi) bi (note_burst bi w) = Some w1"
    "lc_rx_bursts (lv_lchan w1) = Some (take (bi_bid bi * 116) bs @ nb_payload (bi_burst bi) @
           drop (bi_bid bi * 116 + 116) bs)"
    "mh_head (lc_meas_hist (lv_lchan w1)) \<noteq> None" "lv_out w1 = lv_out w"
    by metis
  obtain a where w2: "meas_avg_view 4 w1 = Some (upd_lchan (\<lambda>lc. lc\<lparr>lc_meas_avg := a\<rparr>) w1)"
    using meas_avg_view_post [OF w1(3), of 4] by auto
  define w3 where "w3 = upd_lchan (\<lambda>lc. lc\<lparr>lc_rx_burst_mask := push_bit 4 (lc_rx_burst_mask lc)\<rparr>)
    (upd_lchan (\<lambda>lc. lc\<lparr>lc_meas_avg := a\<rparr>) w1)"
  have w1b: "lc_rx_bursts (lv_lchan w1) = Some (take 348 bs @ nb_payload (bi_burst bi))"
    using w1(2) assms(2,5) by simp
  have "length (take 348 bs @ nb_payload (bi_burst bi)) = 464"
    using assms by (simp add: length_nb_payload bi_wf_def gsm_nbits)
  then have r: "read_at 0 464 (take 348 bs @ nb_payload (bi_burst bi)) =
      Some (take 348 bs @ nb_payload (bi_burst bi))"
    by (simp only: read_at_Some chunk_all)
  obtain ind where em: "l1sched_lchan_emit_data_ind L l2 GSM_MACBLOCK_LEN e n False w3
      = Some (prim_to_user_rc L, w3\<lparr>lv_out := lv_out w3 @ [ind]\<rparr>)" "mb_l2 ind = l2"
    using emit_ind_returns [of GSM_MACBLOCK_LEN l2 L e n False w3] assms(7) by (auto simp: gsm_nbits)
  have t: "rx_data_fn L w bi = Some (prim_to_user_rc L, w3\<lparr>lv_out := lv_out w3 @ [ind]\<rparr>)"
    using assms(1,2,6) w1(1) w2 w1b r em(1)
    by (simp add: rx_data_fn_def w3_def [symmetric])
  show ?thesis
    by (rule that [OF t _ em(2)]) (simp add: w3_def w1(4))
qed

lemma xcch_tx_block:
  assumes "lc_tx_prims (lv_lchan v) = m # q" "length (mb_l2 m) = 23" "prim_is_req (mb_prim m)"
    and "lc_tx_bursts (lv_lchan v) = Some bs" "length bs = 464"
    and tsc: "unat (lc_tsc (lv_lchan v)) < 8" and "\<not> L1SCHED_CHAN_IS_SACCH L (lc_type (lv_lchan v))"
    and "gsm0503_xcch_encode L bs (mb_l2 m) = (0, coded)" and len: "length coded = 464"
  shows "\<exists>v' p. prim_to_cnf f0 (mb_prim m) = Some p \<and> lc_tx_prims (lv_lchan v') = q \<and>
    lv_out v' = lv_out v @ [m\<lparr>mb_prim := p\<rparr>] \<and>
    tx_run (tx_data_fn L) v [empty_req tn f0 0, empty_req tn f1 1, empty_req tn f2 2, empty_req tn f3 3] =
      Some (map (\<lambda>(bid, f). (empty_req tn f bid)\<lparr>br_burst :=
        compose_nb (l1sched_nb_training_bits ! unat (lc_tsc (lv_lchan v))) (chunk (bid * 116) 116 coded)
          (replicate GSM_NBITS_NB_8PSK_BURST 0), br_burst_len := GSM_NBITS_NB_GMSK_BURST\<rparr>)
        [(0, f0), (1, f1), (2, f2), (3, f3)], v')"
proof -
  have b: "br_bid (empty_req tn f i) = i" "br_fn (empty_req tn f i) = f"
    "br_burst (empty_req tn f i) = replicate GSM_NBITS_NB_8PSK_BURST 0" for f i
    by (simp_all add: empty_req_def)
  from tx_data_first [OF assms(1-5) b(1) tsc assms(7-9)] obtain v0 p where
    t0: "tx_data_fn L v (empty_req tn f0 0) = Some (0, (empty_req tn f0 0)\<lparr>br_burst :=
      compose_nb (l1sched_nb_training_bits ! unat (lc_tsc (lv_lchan v)))
        (chunk 0 116 coded) (replicate GSM_NBITS_NB_8PSK_BURST 0),
      br_burst_len := GSM_NBITS_NB_GMSK_BURST\<rparr>, v0)"
    and v0: "lc_tx_bursts (lv_lchan v0) = Some coded" "bit (lc_tx_burst_mask (lv_lchan v0)) 0"
      "lc_tsc (lv_lchan v0) = lc_tsc (lv_lchan v)" "lc_tx_prims (lv_lchan v0) = q"
      "prim_to_cnf f0 (mb_prim m) = Some p" "lv_out v0 = lv_out v @ [m\<lparr>mb_prim := p\<rparr>]"
    unfolding b by metis
  have step: "\<exists>v'. tx_data_fn L u (empty_req tn f i) = Some (0, (empty_req tn f i)\<lparr>br_burst :=
      compose_nb (l1sched_nb_training_bits ! unat (lc_tsc (lv_lchan v)))
        (chunk (i * 116) 116 coded) (replicate GSM_NBITS_NB_8PSK_BURST 0),
      br_burst_len := GSM_NBITS_NB_GMSK_BURST\<rparr>, v') \<and>
     lc_tx_bursts (lv_lchan v') = Some coded \<and> bit (lc_tx_burst_mask (lv_lchan v')) 0 \<and>
     lc_tsc (lv_lchan v') = lc_tsc (lv_lchan v) \<and> lc_tx_prims (lv_lchan v') = lc_tx_prims (lv_lchan u) \<and>
     lv_out v' = lv_out u"
    if "lc_tx_bursts (lv_lchan u) = Some coded" "bit (lc_tx_burst_mask (lv_lchan u)) 0"
      "lc_tsc (lv_lchan u) = lc_tsc (lv_lchan v)" "0 < i" "i < 4" for u i f
    using tx_data_next [of u coded "empty_req tn f i" L] that len tsc unfolding b by metis
  obtain v1 where t1: "tx_data_fn L v0 (empty_req tn f1 1) = Some (0, (empty_req tn f1 1)\<lparr>br_burst :=
      compose_nb (l1sched_nb_training_bits ! unat (lc_tsc (lv_lchan v)))
        (chunk (1 * 116) 116 coded) (replicate GSM_NBITS_NB_8PSK_BURST 0),
      br_burst_len := GSM_NBITS_NB_GMSK_BURST\<rparr>, v1)"
    and v1: "lc_tx_bursts (lv_lchan v1) = Some coded" "bit (lc_tx_burst_mask (lv_lchan v1)) 0"
      "lc_tsc (lv_lchan v1) = lc_tsc (lv_lchan v)" "lc_tx_prims (lv_lchan v1) = q" "lv_out v1 = lv_out v0"
    using step [OF v0(1-3), of 1 f1] v0(4) by auto
  obtain v2 where t2: "tx_data_fn L v1 (empty_req tn f2 2) = Some (0, (empty_req tn f2 2)\<lparr>br_burst :=
      compose_nb (l1sched_nb_training_bits ! unat (lc_tsc (lv_lchan v)))
        (chunk (2 * 116) 116 coded) (replicate GSM_NBITS_NB_8PSK_BURST 0),
      br_burst_len := GSM_NBITS_NB_GMSK_BURST\<rparr>, v2)"
    and v2: "lc_tx_bursts (lv_lchan v2) = Some coded" "bit (lc_tx_burst_mask (lv_lchan v2)) 0"
      "lc_tsc (lv_lchan v2) = lc_tsc (lv_lchan v)" "lc_tx_prims (lv_lchan v2) = q" "lv_out v2 = lv_out v0"
    using step [OF v1(1-3), of 2 f2] v1(4,5) by auto
  obtain v3 where t3: "tx_data_fn L v2 (empty_req tn f3 3) = Some (0, (empty_req tn f3 3)\<lparr>br_burst :=
      compose_nb (l1sched_nb_training_bits ! unat (lc_tsc (lv_lchan v)))
        (chunk (3 * 116) 116 coded) (replicate GSM_NBITS_NB_8PSK_BURST 0),
      br_burst_len := GSM_NBITS_NB_GMSK_BURST\<rparr>, v3)"
    and v3: "lc_tx_prims (lv_lchan v3) = q" "lv_out v3 = lv_out v0"
    using step [OF v2(1-3), of 3 f3] v2(4,5) by auto
  show ?thesis
    using t0 t1 t2 t3 v3 v0 by (intro exI [of _ v3] exI [of _ p]) simp
qed

lemma xcch_rx_block:
  assumes "lc_rx_bursts (lv_lchan w) = Some bs" "length bs = 464"
    and "bi_bid b0 = 0" "bi_bid b1 = 1" "bi_bid b2 = 2" "bi_bid b3 = 3"
    and "bi_wf b0" "bi_wf b1" "bi_wf b2" "bi_wf b3"
    and "gsm0503_xcch_decode L (nb_payload (bi_burst b0) @ nb_payload (bi_burst b1) @
           nb_payload (bi_burst b2) @ nb_payload (bi_burst b3)) = (0, l2, e, n)" "length l2 = 23"
  shows "\<exists>w' ind. rx_run (rx_data_fn L) w [b0, b1, b2, b3] = Some w' \<and>
    lv_out w' = lv_out w @ [ind] \<and> mb_l2 ind = l2"
proof -
  let ?p = "\<lambda>b. nb_payload (bi_burst b)"
  have len: "length (?p b0) = 116" "length (?p b1) = 116" "length (?p b2) = 116" "length (?p b3) = 116"
    using assms(7-10) by (simp_all add: length_nb_payload bi_wf_def gsm_nbits)
  obtain w0 where w0: "rx_data_fn L w b0 = Some (0, w0)" "lc_rx_burst_mask (lv_lchan w0) \<noteq> 0"
    "lc_rx_bursts (lv_lchan w0) = Some (?p b0 @ drop 116 bs)" "lv_out w0 = lv_out w"
    using rx_data_next_ex [of w 0 b0 bs "?p b0 @ drop 116 bs" L] assms by auto
  have "length (?p b0 @ drop 116 bs) = 464" using len assms(2) by simp
  then obtain w1 where
    w1: "rx_data_fn L w0 b1 = Some (0, w1)" "lc_rx_burst_mask (lv_lchan w1) \<noteq> 0"
    "lc_rx_bursts (lv_lchan w1) = Some (?p b0 @ ?p b1 @ drop 232 bs)" "lv_out w1 = lv_out w0"
    using rx_data_next_ex [of w0 1 b1 _ "?p b0 @ ?p b1 @ drop 232 bs" L, OF _ _ _ _ w0(3)]
      w0(2) assms len by auto
  have "length (?p b0 @ ?p b1 @ drop 232 bs) = 464" using len assms(2) by simp
  then obtain w2 where
    w2: "rx_data_fn L w1 b2 = Some (0, w2)" "lc_rx_burst_mask (lv_lchan w2) \<noteq> 0"
    "lc_rx_bursts (lv_lchan w2) = Some (?p b0 @ ?p b1 @ ?p b2 @ drop 348 bs)" "lv_out w2 = lv_out w1"
    using rx_data_next_ex [of w1 2 b2 _ "?p b0 @ ?p b1 @ ?p b2 @ drop 348 bs" L, OF _ _ _ _ w1(3)]
      w1(2) assms len by auto
  have "length (?p b0 @ ?p b1 @ ?p b2 @ drop 348 bs) = 464" using len assms(2) by simp
  from rx_data_last [OF w2(2) assms(6,10) w2(3) this, of L l2 e n] obtain w3 ind where
    w3: "rx_data_fn L w2 b3 = Some (prim_to_user_rc L, w3)" "lv_out w3 = lv_out w2 @ [ind]" "mb_l2 ind = l2"
    using assms(11,12) len by auto
  show ?thesis
    using w0 w1 w2 w3 by (intro exI [of _ w3] exI [of _ ind]) simp
qed

lemma xcch_buf_size:
  "ld_tx_fn (l1sched_lchan_desc L t) = Some TX_DATA_FN \<Longrightarrow> ld_burst_buf_size (l1sched_lchan_desc L t) = 464"
  "ld_rx_fn (l1sched_lchan_desc L t) = Some RX_DATA_FN \<Longrightarrow> ld_burst_buf_size (l1sched_lchan_desc L t) = 464"
  by (cases t; simp add: gsm_nbits)+

lemma xcch_tx_buf:
  "view_wf L v \<Longrightarrow> lc_active (lv_lchan v) \<Longrightarrow>
   ld_tx_fn (l1sched_lchan_desc L (lc_type (lv_lchan v))) = Some TX_DATA_FN \<Longrightarrow>
   \<exists>bs. lc_tx_bursts (lv_lchan v) = Some bs \<and> length bs = 464"
  by (auto simp: view_wf_def lchan_wf_def lchan_bufs_wf_def buf_ok_def Let_def xcch_buf_size
      split: option.splits)

lemma xcch_rx_buf:
  "view_wf L v \<Longrightarrow> lc_active (lv_lchan v) \<Longrightarrow>
   ld_rx_fn (l1sched_lchan_desc L (lc_type (lv_lchan v))) = Some RX_DATA_FN \<Longrightarrow>
   \<exists>bs. lc_rx_bursts (lv_lchan v) = Some bs \<and> length bs = 464"
  by (auto simp: view_wf_def lchan_wf_def lchan_bufs_wf_def buf_ok_def Let_def xcch_buf_size
      split: option.splits)

lemma xcch_codec_okD:
  assumes "xcch_codec_ok L" "length buf = 464" "length l2 = 23"
  shows "\<exists>coded e n. gsm0503_xcch_encode L buf l2 = (0, coded) \<and>
    gsm0503_xcch_decode L (map ubit2sbit coded) = (0, l2, e, n)"
proof -
  have "fst (gsm0503_xcch_encode L buf l2) = 0 \<and>
     fst (gsm0503_xcch_decode L (map ubit2sbit (snd (gsm0503_xcch_encode L buf l2)))) = 0 \<and>
     fst (snd (gsm0503_xcch_decode L (map ubit2sbit (snd (gsm0503_xcch_encode L buf l2))))) = l2"
    using assms by (simp add: xcch_codec_ok_def)
  then show ?thesis
    by (cases "gsm0503_xcch_encode L buf l2";
        cases "gsm0503_xcch_decode L (map ubit2sbit (snd (gsm0503_xcch_encode L buf l2)))") auto
qed

text \<open>C1. A block queued on a control channel arrives. The transmit handler,
  asked for the four bursts of a block in order, on an active channel in any well-formed state
  (whatever its masks and stale buffer), takes the primitive at the head of the queue, confirms
  it with the frame number of the first burst, and composes four bursts; an active control
  channel that gets these bursts over a channel without bit errors, in any well-formed state
  of its own, passes exactly one indication up, with the same 23 octets. The channel code is the
  external library's; that its decoder inverts its encoder is the hypothesis.\<close>

theorem xcch_end_to_end:
  assumes "xcch_codec_ok L" and "codec_len_ok L"
    and "view_wf L v" and "lc_active (lv_lchan v)"
    and "ld_tx_fn (l1sched_lchan_desc L (lc_type (lv_lchan v))) = Some TX_DATA_FN"
    and "\<not> L1SCHED_CHAN_IS_SACCH L (lc_type (lv_lchan v))"
    and "lc_tx_prims (lv_lchan v) = m # q" and "length (mb_l2 m) = GSM_MACBLOCK_LEN"
    and "view_wf L w" and "lc_active (lv_lchan w)"
    and "ld_rx_fn (l1sched_lchan_desc L (lc_type (lv_lchan w))) = Some RX_DATA_FN"
  shows "\<exists>brs v' w' p ind.
    tx_run (tx_data_fn L) v
      [empty_req tn f0 0, empty_req tn f1 1, empty_req tn f2 2, empty_req tn f3 3] = Some (brs, v') \<and>
    rx_run (rx_data_fn L) w (map (air toa rssi) brs) = Some w' \<and>
    prim_to_cnf f0 (mb_prim m) = Some p \<and>
    lc_tx_prims (lv_lchan v') = q \<and> lv_out v' = lv_out v @ [m\<lparr>mb_prim := p\<rparr>] \<and>
    lv_out w' = lv_out w @ [ind] \<and> mb_l2 ind = mb_l2 m"
proof -
  obtain bs where bs: "lc_tx_bursts (lv_lchan v) = Some bs" "length bs = 464"
    using xcch_tx_buf [OF assms(3-5)] by blast
  obtain cs where cs: "lc_rx_bursts (lv_lchan w) = Some cs" "length cs = 464"
    using xcch_rx_buf [OF assms(9-11)] by blast
  have m: "length (mb_l2 m) = 23" "prim_is_req (mb_prim m)"
    and tsc: "unat (lc_tsc (lv_lchan v)) < 8"
    using assms(3,7,8) by (simp_all add: gsm_nbits view_wf_def lchan_wf_def)
  obtain coded e n where enc: "gsm0503_xcch_encode L bs (mb_l2 m) = (0, coded)"
    and dec: "gsm0503_xcch_decode L (map ubit2sbit coded) = (0, mb_l2 m, e, n)"
    using xcch_codec_okD [OF assms(1) bs(2) m(1)] by blast
  have clen: "length coded = 464"
    using codec_len_okD(1) [OF assms(2), of bs "mb_l2 m"] bs(2) enc by simp
  obtain v' p where tx: "prim_to_cnf f0 (mb_prim m) = Some p" "lc_tx_prims (lv_lchan v') = q"
    "lv_out v' = lv_out v @ [m\<lparr>mb_prim := p\<rparr>]"
    "tx_run (tx_data_fn L) v [empty_req tn f0 0, empty_req tn f1 1, empty_req tn f2 2, empty_req tn f3 3] =
      Some (map (\<lambda>(bid, f). (empty_req tn f bid)\<lparr>br_burst :=
        compose_nb (l1sched_nb_training_bits ! unat (lc_tsc (lv_lchan v))) (chunk (bid * 116) 116 coded)
          (replicate GSM_NBITS_NB_8PSK_BURST 0), br_burst_len := GSM_NBITS_NB_GMSK_BURST\<rparr>)
        [(0, f0), (1, f1), (2, f2), (3, f3)], v')"
    using xcch_tx_block [OF assms(7) m bs tsc assms(6) enc clen, of f0 tn f1 f2 f3] by blast
  define bi where "bi i f = air toa rssi ((empty_req tn f i)\<lparr>br_burst :=
        compose_nb (l1sched_nb_training_bits ! unat (lc_tsc (lv_lchan v))) (chunk (i * 116) 116 coded)
          (replicate GSM_NBITS_NB_8PSK_BURST 0), br_burst_len := GSM_NBITS_NB_GMSK_BURST\<rparr>)" for i f
  have bid: "bi_bid (bi i f) = i" for i f
    by (simp add: bi_def air_def empty_req_def)
  have tlen: "length (l1sched_nb_training_bits ! unat (lc_tsc (lv_lchan v))) = 26"
    by (rule length_training_seq [OF tsc])
  have wf: "bi_wf (bi i f)" and pay: "nb_payload (bi_burst (bi i f)) = map ubit2sbit (chunk (i * 116) 116 coded)"
    if "i < 4" for i f
  proof -
    have l: "length (chunk (i * 116) 116 coded) = 116"
      using that clen by (simp add: length_chunk)
    show "bi_wf (bi i f)"
      by (simp add: bi_wf_def bi_def air_def length_compose_nb tlen l)
    show "nb_payload (bi_burst (bi i f)) = map ubit2sbit (chunk (i * 116) 116 coded)"
      by (simp add: bi_def air_def nb_payload_map nb_payload_compose tlen l)
  qed
  have "chunk 0 116 coded @ chunk 116 116 coded @ chunk 232 116 coded @ chunk 348 116 coded = coded"
    using clen chunk_join [of 0 116 coded 116] chunk_join [of 0 232 coded 116]
      chunk_join [of 0 348 coded 116] chunk_all [OF clen]
    by (simp add: append_assoc [symmetric] del: append_assoc)
  then have "map ubit2sbit (chunk 0 116 coded) @ map ubit2sbit (chunk 116 116 coded) @
      map ubit2sbit (chunk 232 116 coded) @ map ubit2sbit (chunk 348 116 coded) = map ubit2sbit coded"
    by (simp flip: map_append)
  then have "gsm0503_xcch_decode L (nb_payload (bi_burst (bi 0 f0)) @ nb_payload (bi_burst (bi 1 f1)) @
      nb_payload (bi_burst (bi 2 f2)) @ nb_payload (bi_burst (bi 3 f3))) = (0, mb_l2 m, e, n)"
    using dec by (simp add: pay)
  from xcch_rx_block [OF cs bid bid bid bid wf wf wf wf this m(1)] obtain w' ind where
    "rx_run (rx_data_fn L) w [bi 0 f0, bi 1 f1, bi 2 f2, bi 3 f3] = Some w'"
    "lv_out w' = lv_out w @ [ind]" "mb_l2 ind = mb_l2 m"
    by auto
  with tx show ?thesis
    by (auto simp: bi_def)
qed

definition demo_xcch :: "lchan_type \<Rightarrow> msgb list \<Rightarrow> lchan_view" where
  "demo_xcch t q = upd_lchan (\<lambda>lc. lc\<lparr>lc_rx_bursts := Some (replicate 464 0),
     lc_tx_bursts := Some (replicate 464 0)\<rparr>) (demo_view t q)"

lemma view_wf_demo_xcch:
  "ld_burst_buf_size (l1sched_lchan_desc toy_lib t) = 464 \<Longrightarrow> list_all (prim_is_req \<circ> mb_prim) q \<Longrightarrow>
   view_wf toy_lib (demo_xcch t q)"
  using sacch_wf_demo [of t q]
  by (simp add: view_wf_def demo_xcch_def demo_view_def lchan_wf_def lchan_bufs_wf_def buf_ok_def Let_def
      zero_lchan_def meas_hist_wf_def zero_a5_def zero_amr_def sacch_wf_def)

lemma demo_xcch_simps:
  "lc_active (lv_lchan (demo_xcch t q))" "lc_type (lv_lchan (demo_xcch t q)) = t"
  "lc_tx_prims (lv_lchan (demo_xcch t q)) = q" "lv_out (demo_xcch t q) = []"
  by (simp_all add: demo_xcch_def demo_view_def zero_lchan_def)

theorem xcch_end_to_end_witness:
  "\<exists>brs v' w' ind.
    tx_run (tx_data_fn toy_lib) (demo_xcch L1SCHED_SDCCH8_3 [demo_prim (map word_of_nat [1..<24])])
      [empty_req 0 15 0, empty_req 0 16 1, empty_req 0 17 2, empty_req 0 18 3] = Some (brs, v') \<and>
    rx_run (rx_data_fn toy_lib) (demo_xcch L1SCHED_SDCCH8_3 []) (map (air 0 (- 60)) brs) = Some w' \<and>
    lv_out w' = [ind] \<and> mb_l2 ind = map word_of_nat [1..<24]"
proof -
  let ?m = "demo_prim (map word_of_nat [1..<24])"
  have "view_wf toy_lib (demo_xcch L1SCHED_SDCCH8_3 [?m])" "view_wf toy_lib (demo_xcch L1SCHED_SDCCH8_3 [])"
    by (rule view_wf_demo_xcch; simp add: gsm_nbits demo_prim_def)+
  from xcch_end_to_end [OF xcch_codec_ok_toy codec_len_ok_toy this(1) _ _ _ _ _ this(2),
      where m = ?m and q = "[]" and ?f0.0 = 15 and ?f1.0 = 16 and ?f2.0 = 17 and ?f3.0 = 18
        and toa = 0 and rssi = "- 60" and tn = 0]
  show ?thesis
    by (auto simp: demo_xcch_simps demo_prim_def gsm_nbits L1SCHED_CHAN_IS_SACCH_def)
qed

end
