(* ===== verification/Sched_Rach.thy ===== *)
theory Sched_Rach
  imports Sched_Xcch
begin

text \<open>
  The access burst handler (\<^verbatim>\<open>sched_lchan_rach.c\<close>): the primitive at the head of the
  queue waits as many frames as its offset says, then becomes one access burst. The handler is
  called for whatever primitive is there, so it reads a data request through the union as a RACH
  request.
\<close>

section \<open>The handler\<close>

definition rach_ext_tail_bits :: "u8 list" where
  "rach_ext_tail_bits = [0, 0, 1, 1, 1, 0, 1, 0]"

definition rach_synch_seq_bits :: "string list" where
  "rach_synch_seq_bits =
    [''01001011011111111001100110101010001111000'',
     ''01010100111110001000011000101111001001101'',
     ''11101111001001110101011000001101101110111'']"

abbreviation (input) RACH_SYNCH_SEQ_NUM :: nat where "RACH_SYNCH_SEQ_NUM \<equiv> 3"

fun prim_set_rach_offset :: "u8 \<Rightarrow> prim \<Rightarrow> prim" where
  "prim_set_rach_offset ofs (RACH_REQ r) = RACH_REQ (r\<lparr>ra_offset := ofs\<rparr>)"
| "prim_set_rach_offset ofs (RACH_CNF r) = RACH_CNF (r\<lparr>ra_offset := ofs\<rparr>)"
| "prim_set_rach_offset ofs p = p"

definition compose_ab :: "string \<Rightarrow> u8 list \<Rightarrow> u8 list \<Rightarrow> u8 list" where
  "compose_ab synch payload burst =
     rach_ext_tail_bits @ map (\<lambda>c. if c = CHR ''1'' then 1 else 0) synch @ payload @
     replicate (GSM_NBITS_NB_GMSK_BURST - 8 - 41 - 36) 0 @ drop GSM_NBITS_NB_GMSK_BURST burst"

definition tx_rach_fn :: "libosmo \<Rightarrow> lchan_view \<Rightarrow> burst_req \<Rightarrow> (int \<times> burst_req \<times> lchan_view) option" where
  "tx_rach_fn L v br =
     (case lc_tx_prims (lv_lchan v) of
        [] \<Rightarrow> Some (0, br, v)
      | msg # q \<Rightarrow>
          (let rach = prim_rach_of (mb_prim msg);
               msg = msg\<lparr>mb_prim := prim_set_rach_offset (ra_offset rach - 1) (mb_prim msg)\<rparr>
           in if ra_offset rach > 0
              then Some (0, br, upd_lchan (\<lambda>lc. lc\<lparr>lc_tx_prims := msg # q\<rparr>) v)
              else
                (let v = upd_lchan (\<lambda>lc. lc\<lparr>lc_tx_prims := q\<rparr>) v
                 in if unat (ra_synch_seq rach) \<ge> RACH_SYNCH_SEQ_NUM then Some (- ENOTSUP, br, v)
                    else
                      (let (rc, payload) = gsm0503_rach_ext_encode L (ra_ra rach) (lv_bsic v) (ra_is_11bit rach)
                       in if rc \<noteq> 0 then Some (rc, br, v)
                          else do {
                            synch \<leftarrow> index_at rach_synch_seq_bits (unat (ra_synch_seq rach));
                            br \<leftarrow> Some (br\<lparr>br_burst := compose_ab synch payload (br_burst br),
                                         br_burst_len := GSM_NBITS_NB_GMSK_BURST\<rparr>);
                            (_, v) \<leftarrow> l1sched_lchan_emit_data_cnf L (Some msg) (br_fn br) v;
                            Some (0, br, v) }))))"

section \<open>The contract\<close>

text \<open>The three synchronisation sequences are different, 41 bits each.\<close>

theorem synch_sequences:
  "distinct rach_synch_seq_bits \<and> length rach_synch_seq_bits = RACH_SYNCH_SEQ_NUM \<and>
   list_all (\<lambda>s. length s = 41 \<and> list_all (\<lambda>c. c = CHR ''0'' \<or> c = CHR ''1'') s) rach_synch_seq_bits"
  by code_simp

lemma synch_seq_length: "i < 3 \<Longrightarrow> length (rach_synch_seq_bits ! i) = 41"
  by (auto simp: rach_synch_seq_bits_def less_Suc_eq numeral_eq_Suc)

lemma synch_seq_index: "i < 3 \<Longrightarrow> index_at rach_synch_seq_bits i = Some (rach_synch_seq_bits ! i)"
  by (simp add: index_at_def rach_synch_seq_bits_def)

lemma length_compose_ab:
  "length synch = 41 \<Longrightarrow> length payload = 36 \<Longrightarrow> length burst = GSM_NBITS_NB_8PSK_BURST \<Longrightarrow>
   length (compose_ab synch payload burst) = GSM_NBITS_NB_8PSK_BURST"
  by (simp add: compose_ab_def rach_ext_tail_bits_def gsm_nbits)

lemma prim_is_req_set_offset [simp]: "prim_is_req (prim_set_rach_offset ofs p) = prim_is_req p"
  by (cases p) simp_all

definition rach_tx_pre :: "libosmo \<Rightarrow> lchan_view \<Rightarrow> burst_req \<Rightarrow> bool" where
  "rach_tx_pre L v br \<longleftrightarrow> codec_len_ok L"

lemma keeps_prims [keeps_intros]:
  "(lchan_wf L (lv_lchan v) \<Longrightarrow> list_all (prim_is_req \<circ> mb_prim) q) \<Longrightarrow>
   keeps L v (upd_lchan (\<lambda>lc. lc\<lparr>lc_tx_prims := q\<rparr>) v)"
  by (rule keeps_upd) (auto simp: lchan_wf_def lchan_bufs_wf_def same_chan_def)

lemma tx_rach_fn_ok:
  assumes "rach_tx_pre L v br" "view_wf L v" "br_wf br"
  shows "tx_post L v br (tx_rach_fn L v br)"
proof (cases "lc_tx_prims (lv_lchan v)")
  case Nil
  then show ?thesis using assms by (simp add: tx_rach_fn_def tx_post_def same_req_def)
next
  case (Cons msg q)
  let ?r = "prim_rach_of (mb_prim msg)"
  define msg' where "msg' = msg\<lparr>mb_prim := prim_set_rach_offset (ra_offset ?r - 1) (mb_prim msg)\<rparr>"
  have req: "prim_is_req (mb_prim msg)" "list_all (prim_is_req \<circ> mb_prim) q"
    using assms(2) Cons by (simp_all add: view_wf_def lchan_wf_def)
  define v1 where "v1 = upd_lchan (\<lambda>lc. lc\<lparr>lc_tx_prims := q\<rparr>) v"
  have k: "keeps L v (upd_lchan (\<lambda>lc. lc\<lparr>lc_tx_prims := msg' # q\<rparr>) v)" and k1: "keeps L v v1"
    using req unfolding v1_def by (auto intro!: keeps_prims simp: msg'_def)
  obtain rc payload where e: "gsm0503_rach_ext_encode L (ra_ra ?r) (lv_bsic v) (ra_is_11bit ?r) = (rc, payload)"
    by (cases "gsm0503_rach_ext_encode L (ra_ra ?r) (lv_bsic v) (ra_is_11bit ?r)")
  have len: "length payload = 36"
    using codec_len_okD(3) [of L "ra_ra ?r" "lv_bsic v" "ra_is_11bit ?r"] assms(1) e
    by (simp add: rach_tx_pre_def)
  have req': "prim_is_req (mb_prim msg')"
    using req(1) by (simp add: msg'_def)
  obtain p where p: "l1sched_lchan_emit_data_cnf L (Some msg') (br_fn br) v1 =
      Some (prim_to_user_rc L, v1\<lparr>lv_out := lv_out v1 @ [msg'\<lparr>mb_prim := p\<rparr>]\<rparr>)"
    using emit_cnf_returns [OF req'] by blast
  have bsic: "lv_bsic v1 = lv_bsic v" by (simp add: v1_def)
  show ?thesis
  proof (cases "0 < ra_offset ?r \<or> unat (ra_synch_seq ?r) \<ge> 3 \<or> rc \<noteq> 0")
    case True
    then show ?thesis
      using Cons e bsic keepsD [OF k assms(2)] keepsD [OF k1 assms(2)] assms(3)
      by (auto simp: tx_rach_fn_def tx_post_def same_req_def Let_def msg'_def [symmetric] v1_def [symmetric])
  next
    case False
    let ?b = "compose_ab (rach_synch_seq_bits ! unat (ra_synch_seq ?r)) payload (br_burst br)"
    let ?v = "v1\<lparr>lv_out := lv_out v1 @ [msg'\<lparr>mb_prim := p\<rparr>]\<rparr>"
    have "tx_rach_fn L v br = Some (0, br\<lparr>br_burst := ?b, br_burst_len := GSM_NBITS_NB_GMSK_BURST\<rparr>, ?v)"
      using False Cons e p
      by (simp add: tx_rach_fn_def Let_def synch_seq_index msg'_def [symmetric] v1_def [symmetric] bsic)
    moreover have "length ?b = GSM_NBITS_NB_8PSK_BURST"
      using False assms(3) len by (intro length_compose_ab synch_seq_length) (simp_all add: br_wf_def)
    ultimately show ?thesis
      using keepsD [OF keeps_trans [OF k1 keeps_out] assms(2)]
      by (simp add: tx_post_def br_wf_def same_req_def)
  qed
qed

interpretation rach_tx: tx_handler tx_rach_fn rach_tx_pre
  by unfold_locales (rule tx_rach_fn_ok)

section \<open>The delay\<close>

text \<open>C27. A RACH request with offset \<open>k\<close> lets the handler pass \<open>k\<close> times without
  a burst and becomes an access burst the next time: extended tail bits, the synchronisation
  sequence it asks for, the 36 coded bits and the tail, 148 bits in all. It is confirmed with
  the frame number of that burst, and only it left the queue.\<close>

theorem rach_offset_delay:
  assumes "lc_tx_prims (lv_lchan v) = \<lparr>mb_prim = RACH_REQ r, mb_l2 = l2\<rparr> # q"
    and "unat (ra_synch_seq r) < RACH_SYNCH_SEQ_NUM" and "unat (ra_offset r) = length brs"
    and "gsm0503_rach_ext_encode L (ra_ra r) (lv_bsic v) (ra_is_11bit r) = (0, payload)"
  shows "\<exists>v' r'. tx_run (tx_rach_fn L) v (brs @ [br]) =
      Some (brs @ [br\<lparr>br_burst := compose_ab (rach_synch_seq_bits ! unat (ra_synch_seq r)) payload (br_burst br),
                       br_burst_len := GSM_NBITS_NB_GMSK_BURST\<rparr>], v') \<and>
    lc_tx_prims (lv_lchan v') = q \<and>
    lv_out v' = lv_out v @ [\<lparr>mb_prim = RACH_CNF r', mb_l2 = l2\<rparr>] \<and>
    ra_ra r' = ra_ra r \<and> ch_frame_nr (ra_chdr r') = br_fn br"
  using assms
proof (induction brs arbitrary: v r)
  case Nil
  then have "ra_offset r = 0" by (simp add: unat_eq_0)
  with Nil show ?case
    by (simp add: tx_rach_fn_def Let_def synch_seq_index l1sched_lchan_emit_data_cnf_def l1sched_prim_to_user_def)
next
  case (Cons b brs)
  let ?r = "r\<lparr>ra_offset := ra_offset r - 1\<rparr>"
  define v1 where "v1 = upd_lchan (\<lambda>lc. lc\<lparr>lc_tx_prims := \<lparr>mb_prim = RACH_REQ ?r, mb_l2 = l2\<rparr> # q\<rparr>) v"
  have pos: "0 < ra_offset r"
    using Cons.prems(3) by (simp add: word_less_nat_alt)
  then have "unat (ra_offset ?r) = length brs"
    using Cons.prems(3) by (simp add: unat_minus_one)
  then have IH: "\<exists>v' r'. tx_run (tx_rach_fn L) v1 (brs @ [br]) =
      Some (brs @ [br\<lparr>br_burst := compose_ab (rach_synch_seq_bits ! unat (ra_synch_seq r)) payload (br_burst br),
                       br_burst_len := GSM_NBITS_NB_GMSK_BURST\<rparr>], v') \<and>
    lc_tx_prims (lv_lchan v') = q \<and> lv_out v' = lv_out v @ [\<lparr>mb_prim = RACH_CNF r', mb_l2 = l2\<rparr>] \<and>
    ra_ra r' = ra_ra r \<and> ch_frame_nr (ra_chdr r') = br_fn br"
    using Cons.IH [of v1 ?r] Cons.prems by (simp add: v1_def)
  have "tx_rach_fn L v b = Some (0, b, v1)"
    using Cons.prems(1) pos by (simp add: tx_rach_fn_def Let_def v1_def)
  with IH show ?case by auto
qed

definition demo_rach :: "u8 \<Rightarrow> msgb" where
  "demo_rach ofs = \<lparr>mb_prim = RACH_REQ \<lparr>ra_chdr = \<lparr>ch_frame_nr = 0, ch_chan_nr = 0x88, ch_link_id = 0,
     ch_traffic = False\<rparr>, ra_synch_seq = 1, ra_offset = ofs, ra_is_11bit = True, ra_ra = 0x7d5\<rparr>, mb_l2 = []\<rparr>"

theorem rach_offset_delay_witness:
  "\<exists>v' r'. tx_run (tx_rach_fn toy_lib) (demo_view L1SCHED_RACH [demo_rach 2])
      ([empty_req 0 10 0, empty_req 0 11 0] @ [empty_req 0 12 0]) =
      Some ([empty_req 0 10 0, empty_req 0 11 0] @ [(empty_req 0 12 0)\<lparr>br_burst :=
          compose_ab (rach_synch_seq_bits ! 1) (replicate 36 1) (replicate GSM_NBITS_NB_8PSK_BURST 0),
        br_burst_len := GSM_NBITS_NB_GMSK_BURST\<rparr>], v') \<and>
    lv_out v' = [\<lparr>mb_prim = RACH_CNF r', mb_l2 = []\<rparr>] \<and> ch_frame_nr (ra_chdr r') = 12"
proof -
  let ?r = "\<lparr>ra_chdr = \<lparr>ch_frame_nr = 0, ch_chan_nr = 0x88, ch_link_id = 0,
     ch_traffic = False\<rparr>, ra_synch_seq = 1, ra_offset = 2, ra_is_11bit = True, ra_ra = 0x7d5\<rparr>"
  have q: "lc_tx_prims (lv_lchan (demo_view L1SCHED_RACH [demo_rach 2])) = \<lparr>mb_prim = RACH_REQ ?r, mb_l2 = []\<rparr> # []"
    by (simp add: demo_view_def demo_rach_def)
  have e: "gsm0503_rach_ext_encode toy_lib (ra_ra ?r) (lv_bsic (demo_view L1SCHED_RACH [demo_rach 2])) (ra_is_11bit ?r)
      = (0, replicate 36 1)"
    by (simp add: toy_lib_def)
  have out: "lv_out (demo_view L1SCHED_RACH [demo_rach 2]) = []"
    by (simp add: demo_view_def)
  show ?thesis
    using rach_offset_delay [OF q _ _ e, of "[empty_req 0 10 0, empty_req 0 11 0]" "empty_req 0 12 0"]
    by (simp only: out) (auto simp: empty_req_def simp del: tx_run.simps)
qed

end
