(* ===== verification/Sched_Tch.thy ===== *)
theory Sched_Tch
  imports Sched_Rach
begin

text \<open>
  What the handlers of the full-rate and half-rate traffic channels share: the buffer of 24
  bursts, shifted left by the bursts of a block before the new ones are stored at its end, so
  that blocks interleaved over many bursts can be decoded; the sliding window this makes, as a
  locale; and the encoding of circuit-switched data.
\<close>

section \<open>The burst buffer\<close>

definition BPLEN :: nat where "BPLEN = GSM_NBITS_NB_GMSK_PAYLOAD"
definition BUFMAX :: nat where "BUFMAX = 24"

text \<open>\<^verbatim>\<open>memmove\<close> of 20 bursts to the front and \<^verbatim>\<open>memset\<close> of the \<open>n\<close> bursts after them.\<close>

definition shift_bursts :: "nat \<Rightarrow> u8 list \<Rightarrow> u8 list option" where
  "shift_bursts n bursts =
     do { moved \<leftarrow> read_at (n * BPLEN) (20 * BPLEN) bursts;
          bursts \<leftarrow> write_at 0 moved bursts;
          write_at (20 * BPLEN) (replicate (n * BPLEN) 0) bursts }"

definition shift_rx :: "nat \<Rightarrow> lchan_view \<Rightarrow> lchan_view option" where
  "shift_rx n v =
     do { bursts \<leftarrow> lc_rx_bursts (lv_lchan v);
          bursts \<leftarrow> shift_bursts n bursts;
          Some (upd_lchan (\<lambda>lc. lc\<lparr>lc_rx_bursts := Some bursts,
                  lc_rx_burst_mask := push_bit n (lc_rx_burst_mask lc)\<rparr>) v) }"

definition shift_tx :: "nat \<Rightarrow> lchan_view \<Rightarrow> lchan_view option" where
  "shift_tx n v =
     do { bursts \<leftarrow> lc_tx_bursts (lv_lchan v);
          bursts \<leftarrow> shift_bursts n bursts;
          Some (upd_lchan (\<lambda>lc. lc\<lparr>lc_tx_bursts := Some bursts,
                  lc_tx_burst_mask := push_bit n (lc_tx_burst_mask lc)\<rparr>) v) }"

text \<open>The last eight bursts of the receive buffer (\<^verbatim>\<open>BUFTAIL8\<close>).\<close>

definition rx_tail8 :: "lchan_view \<Rightarrow> u8 list option" where
  "rx_tail8 v =
     do { bursts \<leftarrow> lc_rx_bursts (lv_lchan v);
          read_at ((BUFMAX - 8) * BPLEN) (8 * BPLEN) bursts }"

section \<open>Encoding into the transmit buffer\<close>

definition tx_encode :: "(u8 list \<Rightarrow> int \<times> u8 list) \<Rightarrow> lchan_view \<Rightarrow> (int \<times> lchan_view) option" where
  "tx_encode enc v =
     do { bursts \<leftarrow> lc_tx_bursts (lv_lchan v);
          let (rc, bursts) = enc bursts
          in Some (rc, upd_lchan (\<lambda>lc. lc\<lparr>lc_tx_bursts := Some bursts\<rparr>) v) }"

definition csd_code :: "libosmo \<Rightarrow> tch_codec \<Rightarrow> u8 list \<Rightarrow> u8 list \<Rightarrow> int \<times> u8 list" where
  "csd_code L k data bursts = (0, gsm0503_tch_encode L k bursts data)"

text \<open>Confirming, when there is something to confirm (\<^verbatim>\<open>NULL\<close> gives \<^verbatim>\<open>-ENODEV\<close>, which no
  caller looks at).\<close>

definition confirm :: "libosmo \<Rightarrow> msgb option \<Rightarrow> u32 \<Rightarrow> lchan_view \<Rightarrow> lchan_view option" where
  "confirm L msg fn v = do { (_, v) \<leftarrow> l1sched_lchan_emit_data_cnf L msg fn v; Some v }"

definition csd_tch :: "libosmo \<Rightarrow> tch_codec \<Rightarrow> nat \<Rightarrow> msgb option \<Rightarrow> u32 \<Rightarrow> lchan_view \<Rightarrow> lchan_view option" where
  "csd_tch L k len msg_tch fn v =
     (case msg_tch of
        Some msg \<Rightarrow>
          if length (mb_l2 msg) \<noteq> len then None
          else do { (_, v) \<leftarrow> tx_encode (csd_code L k (mb_l2 msg)) v; confirm L (Some msg) fn v }
      | None \<Rightarrow> do { (_, v) \<leftarrow> tx_encode (csd_code L k (replicate len 1)) v; Some v })"

definition csd_facch :: "libosmo \<Rightarrow> tch_codec \<Rightarrow> msgb option \<Rightarrow> u32 \<Rightarrow> lchan_view \<Rightarrow> lchan_view option" where
  "csd_facch L k msg_facch fn v =
     (case msg_facch of
        Some msg \<Rightarrow> do { (_, v) \<leftarrow> tx_encode (csd_code L k (mb_l2 msg)) v; confirm L (Some msg) fn v }
      | None \<Rightarrow> Some v)"

text \<open>The frame maps: a table of 26 octets whose non-zero indices are listed.\<close>

definition frame_map :: "nat list \<Rightarrow> u32 \<Rightarrow> bool" where
  "frame_map idx fn \<longleftrightarrow> unat fn mod 26 \<in> set idx"

section \<open>Decoded frames and AMR\<close>

text \<open>
  The decoding step of a mode either ends the handler with a return code, or leaves the return
  code of the decoder, the contents of \<^verbatim>\<open>tch_data\<close>, the offset \<^verbatim>\<open>amr\<close> and the bit error
  counts. The two octets before an AMR payload are uninitialised unless the header is encoded;
  they are never read then.
\<close>

datatype tch_decoded = TCH_RETURN int | TCH_FRAME int "u8 list" nat int int

definition tch_plain :: "int \<times> u8 list \<times> int \<times> int \<Rightarrow> tch_decoded" where
  "tch_plain r = (case r of (rc, data, n_errors, n_bits_total) \<Rightarrow> TCH_FRAME rc data 0 n_errors n_bits_total)"

text \<open>The AMR frame the decoder left, with its RTP header when it is a good speech frame. The same
  code is in the handlers of both rates.\<close>

definition amr_frame :: "libosmo \<Rightarrow> int \<times> u8 list \<times> int \<times> int \<times> u8 \<times> u8 \<times> u8 \<Rightarrow> lchan_view \<Rightarrow>
    (tch_decoded \<times> lchan_view) option" where
  "amr_frame L r v = (case r of (rc, data, n_errors, n_bits_total, dl_ft, dl_cmr, last_dtx) \<Rightarrow>
     (let v = upd_lchan (\<lambda>lc. lc\<lparr>lc_amr := (lc_amr lc)
                \<lparr>am_dl_ft := dl_ft, am_dl_cmr := dl_cmr, am_last_dtx := last_dtx\<rparr>\<rparr>) v;
          codec = am_codec (lc_amr (lv_lchan v))
      in if rc \<noteq> int GSM_MACBLOCK_LEN \<and> rc \<ge> 4 then do {
           ft \<leftarrow> (if last_dtx = AMR_OTHER L then index_at codec (unat dl_ft) else Some (AMR_SID L));
           cmr \<leftarrow> index_at codec (unat dl_cmr);
           let (rc, hdr) = osmo_amr_rtp_enc L cmr ft
           in Some (TCH_FRAME rc (hdr @ data) 2 n_errors n_bits_total, v) }
         else Some (TCH_FRAME rc (replicate 2 0 @ data) 2 n_errors n_bits_total, v)))"

text \<open>Both AMR transmit branches: a speech frame is checked and loses its header, an invalid one is
  dropped. (A payload shorter than its header is invalid, so the length never wraps.)\<close>

definition amr_speech :: "libosmo \<Rightarrow> msgb option \<Rightarrow> bool \<Rightarrow> bool \<Rightarrow> lchan_view \<Rightarrow>
    (msgb option \<times> nat \<times> lchan_view) option" where
  "amr_speech L msg is_facch amr_fn_is_cmr v =
     (case msg of
        None \<Rightarrow> Some (None, 0, v)
      | Some m \<Rightarrow>
          if is_facch then Some (msg, 0, v)
          else do { (valid, v) \<leftarrow> l1sched_lchan_amr_prim_is_valid L m amr_fn_is_cmr v;
                    Some (if valid then msg else None, 2, v) })"

section \<open>Lemmas\<close>

lemmas bplen = BPLEN_def BUFMAX_def gsm_nbits

lemma shift_bursts_Some:
  assumes "length b = 24 * 116" "n \<le> 4"
  shows "shift_bursts n b = Some (chunk (n * 116) (20 * 116) b @ replicate (n * 116) 0 @ drop ((20 + n) * 116) b)"
  using assms by (simp add: shift_bursts_def bplen read_at_Some write_at_Some length_chunk add.commute)

lemma shift_bursts_length:
  "shift_bursts n b = Some b' \<Longrightarrow> length b' = length b"
  by (auto simp: shift_bursts_def dest!: length_write_at)

lemma keeps_shift_rx [keeps_intros]:
  assumes "shift_rx n v = Some v'"
  shows "keeps L v v'"
proof -
  obtain b b' where "lc_rx_bursts (lv_lchan v) = Some b" "shift_bursts n b = Some b'"
    and v': "v' = upd_lchan (\<lambda>lc. lc\<lparr>lc_rx_burst_mask := push_bit n (lc_rx_burst_mask lc)\<rparr>)
      (upd_lchan (\<lambda>lc. lc\<lparr>lc_rx_bursts := Some b'\<rparr>) v)"
    using assms by (auto simp: shift_rx_def upd_lchan_def)
  then have "keeps L v (upd_lchan (\<lambda>lc. lc\<lparr>lc_rx_bursts := Some b'\<rparr>) v)"
    by (intro keeps_rx_bursts) (auto dest: shift_bursts_length)
  then show ?thesis
    unfolding v' by (rule keeps_trans) (rule keeps_masks(2))
qed

lemma keeps_shift_tx [keeps_intros]:
  assumes "shift_tx n v = Some v'"
  shows "keeps L v v'"
proof -
  obtain b b' where "lc_tx_bursts (lv_lchan v) = Some b" "shift_bursts n b = Some b'"
    and v': "v' = upd_lchan (\<lambda>lc. lc\<lparr>lc_tx_burst_mask := push_bit n (lc_tx_burst_mask lc)\<rparr>)
      (upd_lchan (\<lambda>lc. lc\<lparr>lc_tx_bursts := Some b'\<rparr>) v)"
    using assms by (auto simp: shift_tx_def upd_lchan_def)
  then have "keeps L v (upd_lchan (\<lambda>lc. lc\<lparr>lc_tx_bursts := Some b'\<rparr>) v)"
    by (intro keeps_tx_bursts) (auto dest: shift_bursts_length)
  then show ?thesis
    unfolding v' by (rule keeps_trans) (rule keeps_masks(1))
qed

text \<open>Every step from here on keeps the length of the transmit buffer; \<open>tx24\<close> says it holds 24 bursts.\<close>

definition tx24 :: "lchan_view \<Rightarrow> bool" where
  "tx24 v \<longleftrightarrow> (\<exists>b. lc_tx_bursts (lv_lchan v) = Some b \<and> length b = 24 * 116)"

definition rx24 :: "lchan_view \<Rightarrow> bool" where
  "rx24 v \<longleftrightarrow> (\<exists>b. lc_rx_bursts (lv_lchan v) = Some b \<and> length b = 24 * 116)"

lemma shift_tx_returns: "tx24 v \<Longrightarrow> n \<le> 4 \<Longrightarrow> \<exists>v'. shift_tx n v = Some v' \<and> tx24 v' \<and>
    lc_tx_prims (lv_lchan v') = lc_tx_prims (lv_lchan v)"
  by (auto simp: shift_tx_def tx24_def shift_bursts_Some length_chunk)

lemma shift_rx_returns: "rx24 v \<Longrightarrow> n \<le> 4 \<Longrightarrow> \<exists>v'. shift_rx n v = Some v' \<and> rx24 v'"
  by (auto simp: shift_rx_def rx24_def shift_bursts_Some length_chunk)

lemma rx_tail8_returns: "rx24 v \<Longrightarrow> \<exists>t. rx_tail8 v = Some t"
  by (auto simp: rx_tail8_def rx24_def bplen read_at_Some)

lemma tx_encode_returns:
  assumes "tx24 v" "\<And>b. length (snd (enc b)) = length b"
  shows "\<exists>rc v'. tx_encode enc v = Some (rc, v') \<and> keeps L v v' \<and> tx24 v'"
proof -
  obtain b where b: "lc_tx_bursts (lv_lchan v) = Some b" "length b = 24 * 116"
    using assms(1) by (auto simp: tx24_def)
  obtain rc b' where e: "enc b = (rc, b')" by (cases "enc b")
  then have "length b' = length b" using assms(2) [of b] by simp
  then have "keeps L v (upd_lchan (\<lambda>lc. lc\<lparr>lc_tx_bursts := Some b'\<rparr>) v)"
    using b by (intro keeps_tx_bursts) auto
  then show ?thesis
    using b e \<open>length b' = length b\<close> by (simp add: tx_encode_def tx24_def)
qed

lemma confirm_returns:
  assumes "tx24 v" "case msg of None \<Rightarrow> True | Some m \<Rightarrow> prim_is_req (mb_prim m)"
  shows "\<exists>v'. confirm L msg fn v = Some v' \<and> keeps L v v' \<and> tx24 v'"
proof (cases msg)
  case None
  then show ?thesis
    using assms(1) by (simp add: confirm_def l1sched_lchan_emit_data_cnf_def keeps_refl)
next
  case (Some m)
  then obtain p where "l1sched_lchan_emit_data_cnf L (Some m) fn v =
      Some (prim_to_user_rc L, v\<lparr>lv_out := lv_out v @ [m\<lparr>mb_prim := p\<rparr>]\<rparr>)"
    using emit_cnf_returns assms(2) by fastforce
  then show ?thesis
    using Some assms(1) keeps_out by (simp add: confirm_def tx24_def)
qed

lemma csd_code_length: "codec_len_ok L \<Longrightarrow> length (snd (csd_code L k d b)) = length b"
  by (simp add: csd_code_def codec_len_okD)

lemma csd_tch_returns:
  assumes "tx24 v" "codec_len_ok L"
    and "case msg of None \<Rightarrow> True | Some m \<Rightarrow> prim_is_req (mb_prim m) \<and> length (mb_l2 m) = len"
  shows "\<exists>v'. csd_tch L k len msg fn v = Some v' \<and> keeps L v v' \<and> tx24 v'"
proof -
  define d where "d = (case msg of None \<Rightarrow> replicate len 1 | Some m \<Rightarrow> mb_l2 m)"
  obtain rc v1 where v1: "tx_encode (csd_code L k d) v = Some (rc, v1)" "keeps L v v1" "tx24 v1"
    using tx_encode_returns [OF assms(1), of "csd_code L k d" L] csd_code_length [OF assms(2)] by blast
  show ?thesis
  proof (cases msg)
    case None
    then show ?thesis using v1 by (simp add: csd_tch_def d_def)
  next
    case (Some m)
    obtain v2 where "confirm L (Some m) fn v1 = Some v2" "keeps L v1 v2" "tx24 v2"
      using confirm_returns [OF v1(3), of "Some m"] assms(3) Some by auto
    then show ?thesis
      using Some v1 assms(3) by (auto simp: csd_tch_def d_def intro: keeps_trans)
  qed
qed

lemma csd_facch_returns:
  assumes "tx24 v" "codec_len_ok L" "case msg of None \<Rightarrow> True | Some m \<Rightarrow> prim_is_req (mb_prim m)"
  shows "\<exists>v'. csd_facch L k msg fn v = Some v' \<and> keeps L v v' \<and> tx24 v'"
proof (cases msg)
  case None
  then show ?thesis using assms(1) by (simp add: csd_facch_def keeps_refl)
next
  case (Some m)
  obtain rc v1 where v1: "tx_encode (csd_code L k (mb_l2 m)) v = Some (rc, v1)" "keeps L v v1" "tx24 v1"
    using tx_encode_returns [OF assms(1), of "csd_code L k (mb_l2 m)" L] csd_code_length [OF assms(2)] by blast
  obtain v2 where "confirm L (Some m) fn v1 = Some v2" "keeps L v1 v2" "tx24 v2"
    using confirm_returns [OF v1(3), of "Some m"] assms(3) Some by auto
  then show ?thesis
    using Some v1 by (auto simp: csd_facch_def intro: keeps_trans)
qed

lemma dequeue_tch_returns:
  assumes "view_wf L v" "l1sched_lchan_prim_dequeue_tch facch v = (r, v')"
  shows "keeps L v v' \<and> lc_tx_bursts (lv_lchan v') = lc_tx_bursts (lv_lchan v) \<and>
    set (lc_tx_prims (lv_lchan v')) \<subseteq> set (lc_tx_prims (lv_lchan v)) \<and>
    (case r of None \<Rightarrow> True | Some m \<Rightarrow> prim_is_req (mb_prim m) \<and> m \<in> set (lc_tx_prims (lv_lchan v)) \<and>
       (length (mb_l2 m) = GSM_MACBLOCK_LEN) = facch)"
proof -
  let ?P = "\<lambda>msg. (length (mb_l2 msg) = GSM_MACBLOCK_LEN) = facch" and ?q = "lc_tx_prims (lv_lchan v)"
  obtain q where q: "queue_take ?P ?q = (r, q)" and v': "v' = upd_lchan (\<lambda>lc. lc\<lparr>lc_tx_prims := q\<rparr>) v"
    using assms(2) by (auto simp: l1sched_lchan_prim_dequeue_tch_def split: prod.splits)
  have sub: "set q \<subseteq> set ?q"
    using set_mset_mono [OF subseq_mset [OF queue_take_subseq [OF q]]] by simp
  have r: "?P m \<and> m \<in> set ?q" if "r = Some m" for m
    using queue_take_SomeD q that by fast
  have "prim_is_req (mb_prim m)" if "m \<in> set ?q" for m
    using assms(1) that by (auto simp: view_wf_def lchan_wf_def list_all_iff)
  then show ?thesis
    using r sub keeps_dequeue [OF sub, of L] by (auto simp: v' split: option.split)
qed

section \<open>Receiving keeps the buffer\<close>

text \<open>What decoding and passing frames up leaves as it was.\<close>

definition rx_keeps :: "libosmo \<Rightarrow> lchan_view \<Rightarrow> lchan_view \<Rightarrow> bool" where
  "rx_keeps L v v' \<longleftrightarrow> keeps L v v' \<and> lc_rx_bursts (lv_lchan v') = lc_rx_bursts (lv_lchan v) \<and>
     lc_rx_burst_mask (lv_lchan v') = lc_rx_burst_mask (lv_lchan v) \<and>
     lc_meas_hist (lv_lchan v') = lc_meas_hist (lv_lchan v)"

lemma rx_keeps_refl: "rx_keeps L v v"
  by (simp add: rx_keeps_def keeps_refl)

lemma rx_keeps_trans: "rx_keeps L u v \<Longrightarrow> rx_keeps L v w \<Longrightarrow> rx_keeps L u w"
  by (auto simp: rx_keeps_def intro: keeps_trans)

lemma keeps_lchan_field:
  "keeps L v (upd_lchan (\<lambda>lc. lc\<lparr>lc_dl_ongoing_facch := b\<rparr>) v)"
  "keeps L v (upd_lchan (\<lambda>lc. lc\<lparr>lc_ul_facch_blocks := f lc\<rparr>) v)"
  by (rule keeps_upd; simp add: lchan_wf_def lchan_bufs_wf_def same_chan_def)+

lemma keeps_amr:
  assumes "\<And>amr. am_codec (f amr) = am_codec amr" "\<And>amr. am_codecs (f amr) = am_codecs amr"
  shows "keeps L v (upd_lchan (\<lambda>lc. lc\<lparr>lc_amr := f (lc_amr lc)\<rparr>) v)"
  using assms by (intro keeps_upd) (simp_all add: lchan_wf_def lchan_bufs_wf_def same_chan_def)

lemma rx_meas_avg:
  assumes "mh_head (lc_meas_hist (lv_lchan v)) \<noteq> None" "0 < n" "n \<le> 24"
  shows "\<exists>v'. meas_avg_view n v = Some v' \<and> rx_keeps L v v' \<and> lv_out v' = lv_out v \<and>
    lc_amr (lv_lchan v') = lc_amr (lv_lchan v) \<and>
    lc_dl_ongoing_facch (lv_lchan v') = lc_dl_ongoing_facch (lv_lchan v)"
  using meas_avg_view_returns [OF assms] keeps_meas_avg [of n v] by (auto simp: rx_keeps_def)

lemma rx_emit:
  assumes "n \<le> length d" "n \<le> 512"
  shows "\<exists>m v'. l1sched_lchan_emit_data_ind L d n e b t v = Some (prim_to_user_rc L, v') \<and> rx_keeps L v v' \<and>
    lv_out v' = lv_out v @ [m] \<and> mb_l2 m = take n d \<and> lc_amr (lv_lchan v') = lc_amr (lv_lchan v) \<and>
    ch_traffic (prim_chdr_of (mb_prim m)) = t"
  using emit_ind_returns [OF assms, of L e b t v] keeps_out [of L v] assms
  by (auto simp: rx_keeps_def l1sched_lchan_emit_data_ind_def l1sched_prim_to_user_def l1sched_prim_alloc_def
      read_at_Some chunk_def Let_def)

definition decoded_ok :: "tch_decoded \<Rightarrow> bool" where
  "decoded_ok r \<longleftrightarrow> (case r of TCH_RETURN rc \<Rightarrow> True
     | TCH_FRAME rc data amr e b \<Rightarrow> rc < 4 \<or> rc = 23 \<and> 23 + amr \<le> length data \<or>
         rc \<noteq> 23 \<and> nat rc \<le> length data \<and> nat rc \<le> 512)"

lemma decoded_plain: "dec_ok r \<Longrightarrow> decoded_ok (tch_plain r)"
  by (cases r) (auto simp: dec_ok_def decoded_ok_def tch_plain_def)

lemma amr_frame_returns:
  assumes "amr_dec_ok r" "decode_ok L" "length (am_codec (lc_amr (lv_lchan v))) = 4"
  shows "\<exists>d v'. amr_frame L r v = Some (d, v') \<and> rx_keeps L v v' \<and> decoded_ok d \<and> lv_out v' = lv_out v \<and>
    (\<forall>rc. d \<noteq> TCH_RETURN rc)"
proof -
  obtain rc data e b ft cmr dtx where r: "r = (rc, data, e, b, ft, cmr, dtx)" by (cases r)
  let ?v = "upd_lchan (\<lambda>lc. lc\<lparr>lc_amr := (lc_amr lc)\<lparr>am_dl_ft := ft, am_dl_cmr := cmr, am_last_dtx := dtx\<rparr>\<rparr>) v"
  have k: "rx_keeps L v ?v"
    using keeps_amr [of "\<lambda>a. a\<lparr>am_dl_ft := ft, am_dl_cmr := cmr, am_last_dtx := dtx\<rparr>"] by (simp add: rx_keeps_def)
  show ?thesis
  proof (cases "rc \<noteq> int GSM_MACBLOCK_LEN \<and> rc \<ge> 4")
    case True
    then have len: "31 \<le> length data" "unat ft < 4" "unat cmr < 4"
      using assms(1) by (auto simp: r amr_dec_ok_def gsm_nbits)
    have "decoded_ok (TCH_FRAME (fst (osmo_amr_rtp_enc L c f)) (snd (osmo_amr_rtp_enc L c f) @ data) 2 e b)"
      for c f
      using decode_okD(8,9) [OF assms(2), of c f] len by (auto simp: decoded_ok_def)
    then show ?thesis
      using True len k assms(3) by (auto simp: r amr_frame_def Let_def index_at_Some split_def)
  next
    case False
    then show ?thesis
      using k assms(1) by (auto simp: r amr_frame_def Let_def decoded_ok_def amr_dec_ok_def gsm_nbits)
  qed
qed

lemma amr_find_returns: "i + k \<le> length codec \<Longrightarrow> \<exists>r. amr_find codec w i k r0 = Some r"
  by (induction codec w i k r0 rule: amr_find.induct) (simp_all add: index_at_Some)

lemma amr_valid_returns:
  assumes "view_wf L v"
  shows "\<exists>b v'. l1sched_lchan_amr_prim_is_valid L m c v = Some (b, v') \<and> keeps L v v' \<and>
    lc_tx_bursts (lv_lchan v') = lc_tx_bursts (lv_lchan v) \<and> lv_out v' = lv_out v \<and>
    lc_tx_prims (lv_lchan v') = lc_tx_prims (lv_lchan v)"
proof -
  let ?amr = "lc_amr (lv_lchan v)"
  have n: "0 + unat (am_codecs ?amr) \<le> length (am_codec ?amr)"
    using assms by (simp add: view_wf_def lchan_wf_def)
  obtain len cm f where d: "osmo_amr_rtp_dec L (mb_l2 m) = (len, cm, f)"
    by (cases "osmo_amr_rtp_dec L (mb_l2 m)")
  obtain x y where x: "amr_find (am_codec ?amr) f 0 (unat (am_codecs ?amr)) (- 1) = Some x"
    and y: "amr_find (am_codec ?amr) cm 0 (unat (am_codecs ?amr)) (- 1) = Some y"
    using amr_find_returns [OF n] by blast
  have "keeps L v (upd_lchan (\<lambda>lc. lc\<lparr>lc_amr := (lc_amr lc)\<lparr>am_ul_ft := a, am_ul_cmr := e\<rparr>\<rparr>) v)" for a e
    using keeps_amr [of "\<lambda>amr. amr\<lparr>am_ul_ft := a, am_ul_cmr := e\<rparr>"] by simp
  then show ?thesis
    using d x y by (auto simp: l1sched_lchan_amr_prim_is_valid_def Let_def keeps_refl)
qed

lemma amr_speech_returns:
  assumes "view_wf L v" "tx24 v"
  shows "\<exists>msg' off v'. amr_speech L msg fa c v = Some (msg', off, v') \<and> keeps L v v' \<and> tx24 v' \<and>
    (msg' = None \<or> msg' = msg)"
proof (cases msg)
  case None
  then show ?thesis using assms(2) by (simp add: amr_speech_def keeps_refl)
next
  case (Some m)
  obtain b v' where "l1sched_lchan_amr_prim_is_valid L m c v = Some (b, v')" "keeps L v v'"
    "lc_tx_bursts (lv_lchan v') = lc_tx_bursts (lv_lchan v)"
    using amr_valid_returns [OF assms(1)] by blast
  then show ?thesis
    using Some assms(2) by (cases fa; cases b) (simp_all add: amr_speech_def keeps_refl tx24_def)
qed

text \<open>A block of a traffic channel that is wholly received, in the order of its bursts.\<close>

definition tch_block :: "nat \<Rightarrow> burst_ind list \<Rightarrow> bool" where
  "tch_block n bis \<longleftrightarrow> map bi_bid bis = [0..<n] \<and> list_all bi_wf bis"

definition payloads :: "burst_ind list \<Rightarrow> u8 list" where
  "payloads bis = concat (map (nb_payload \<circ> bi_burst) bis)"

lemma length_tch_block: "tch_block n bis \<Longrightarrow> length bis = n"
  by (metis length_map length_upt diff_zero tch_block_def)

lemma length_payloads: "tch_block n bis \<Longrightarrow> length (payloads bis) = n * 116"
proof -
  assume b: "tch_block n bis"
  then have "length bis = n" by (rule length_tch_block)
  moreover have "list_all bi_wf bis" using b by (simp add: tch_block_def)
  then have "length (payloads bis) = length bis * 116"
    by (induction bis) (simp_all add: payloads_def length_nb_payload bi_wf_def gsm_nbits)
  ultimately show ?thesis by simp
qed

section \<open>The sliding window\<close>

fun run_blocks :: "('c list \<Rightarrow> 's \<Rightarrow> 's option) \<Rightarrow> 'c list list \<Rightarrow> 's \<Rightarrow> 's option" where
  "run_blocks step [] s = Some s"
| "run_blocks step (b # bs) s = do { s \<leftarrow> step b s; run_blocks step bs s }"

text \<open>
  The interface of a buffer that takes one block at a time: \<open>win\<close> is its contents, and a step
  drops as much of the oldest part as it appends. After any number of blocks the contents are
  the end of everything that ever went in. An element of a block is what \<open>cells\<close> makes of it.
\<close>

locale slide_window =
  fixes step :: "'c list \<Rightarrow> 's \<Rightarrow> 's option"
    and win :: "'s \<Rightarrow> 'e list"
    and ok :: "'s \<Rightarrow> bool"
    and blk :: "'c list \<Rightarrow> bool"
    and cells :: "'c list \<Rightarrow> 'e list"
  assumes step_ok: "ok s \<Longrightarrow> blk b \<Longrightarrow> \<exists>s'. step b s = Some s' \<and> ok s' \<and>
      win s' = drop (length (cells b)) (win s @ cells b)"
begin

lemma blocks_window:
  "ok s \<Longrightarrow> list_all blk bs \<Longrightarrow> \<exists>s'. run_blocks step bs s = Some s' \<and> ok s' \<and>
     win s' = drop (length (concat (map cells bs))) (win s @ concat (map cells bs))"
proof (induction bs arbitrary: s)
  case (Cons b bs)
  from Cons.prems obtain s1 where s1: "step b s = Some s1" "ok s1"
    "win s1 = drop (length (cells b)) (win s @ cells b)"
    using step_ok [of s b] by auto
  let ?c = "concat (map cells bs)"
  have "win s1 @ ?c = drop (length (cells b)) (win s @ cells b @ ?c)"
    by (simp add: s1(3))
  then have "drop (length ?c) (win s1 @ ?c) = drop (length (cells b) + length ?c) (win s @ cells b @ ?c)"
    by (metis drop_drop add.commute)
  then show ?case
    using Cons.IH [of s1] Cons.prems(2) s1 by auto
qed simp

end

end
