(* ===== verification/Sched_Tchf.thy ===== *)
theory Sched_Tchf
  imports Sched_Tch
begin

text \<open>
  The handlers of the full-rate traffic channels (\<^verbatim>\<open>sched_lchan_tchf.c\<close>): speech,
  AMR speech with its in-band codec mode indications, and circuit-switched data, each with FACCH
  frames stealing from it.
\<close>

section \<open>The handlers\<close>

definition sched_tchf_dl_amr_cmi_h_map :: "u32 \<Rightarrow> bool" where
  "sched_tchf_dl_amr_cmi_h_map = frame_map [11, 20, 3]"

definition sched_tchf_ul_amr_cmi_a_map :: "u32 \<Rightarrow> bool" where
  "sched_tchf_ul_amr_cmi_a_map = frame_map [0, 8, 17]"

definition decode_fr_facch :: "libosmo \<Rightarrow> lchan_view \<Rightarrow> (int \<times> lchan_view) option" where
  "decode_fr_facch L v =
     do { tail \<leftarrow> rx_tail8 v;
          let (rc, data, n_errors, n_bits_total) = gsm0503_tch_decode L TCH_FR_FACCH tail
          in if rc \<noteq> int GSM_MACBLOCK_LEN then Some (rc, v)
             else do {
               v \<leftarrow> meas_avg_view 8 v;
               (_, v) \<leftarrow> l1sched_lchan_emit_data_ind L data GSM_MACBLOCK_LEN n_errors n_bits_total False v;
               Some (int GSM_MACBLOCK_LEN, v) } }"

definition tchf_decode :: "libosmo \<Rightarrow> u32 \<Rightarrow> lchan_view \<Rightarrow> (tch_decoded \<times> lchan_view) option" where
  "tchf_decode L fn v =
     do { tail \<leftarrow> rx_tail8 v;
          bursts \<leftarrow> lc_rx_bursts (lv_lchan v);
          let mode = lc_tch_mode (lv_lchan v); amr = lc_amr (lv_lchan v) in
          if mode = GSM48_CMODE_SIGN \<or> mode = GSM48_CMODE_SPEECH_V1 then
            Some (tch_plain (gsm0503_tch_fr_decode L tail False), v)
          else if mode = GSM48_CMODE_SPEECH_EFR then
            Some (tch_plain (gsm0503_tch_fr_decode L tail True), v)
          else if mode = GSM48_CMODE_SPEECH_AMR then
            amr_frame L (gsm0503_tch_afs_decode_dtx L tail (\<not> sched_tchf_dl_amr_cmi_h_map fn)
              (am_codec amr) (am_codecs amr) (am_dl_ft amr) (am_dl_cmr amr) (am_last_dtx amr)) v
          else if mode = GSM48_CMODE_DATA_14k5 then
            do { (_, v) \<leftarrow> decode_fr_facch L v; Some (tch_plain (gsm0503_tch_decode L TCH_FR144 bursts), v) }
          else if mode = GSM48_CMODE_DATA_12k0 then
            do { (_, v) \<leftarrow> decode_fr_facch L v; Some (tch_plain (gsm0503_tch_decode L TCH_FR96 bursts), v) }
          else if mode = GSM48_CMODE_DATA_6k0 then
            do { (_, v) \<leftarrow> decode_fr_facch L v; Some (tch_plain (gsm0503_tch_decode L TCH_FR48 bursts), v) }
          else if mode = GSM48_CMODE_DATA_3k6 then
            do { (rc, v) \<leftarrow> decode_fr_facch L v;
                 Some (if rc = int GSM_MACBLOCK_LEN then TCH_RETURN 0
                       else tch_plain (gsm0503_tch_decode L TCH_FR24 tail), v) }
          else Some (TCH_RETURN (- EINVAL), v) }"

text \<open>The end of both receive handlers: what a decoded frame makes them pass up.\<close>

definition tchf_emit :: "libosmo \<Rightarrow> tch_decoded \<Rightarrow> lchan_view \<Rightarrow> (int \<times> lchan_view) option" where
  "tchf_emit L r v = (case r of
       TCH_RETURN rc \<Rightarrow> Some (rc, v)
     | TCH_FRAME rc data amr n_errors n_bits_total \<Rightarrow>
         if rc < 4 then l1sched_lchan_emit_data_ind L data 0 n_errors n_bits_total True v
         else if rc = int GSM_MACBLOCK_LEN then do {
           (_, v) \<leftarrow> l1sched_lchan_emit_data_ind L (drop amr data) GSM_MACBLOCK_LEN n_errors n_bits_total False v;
           if lc_tch_mode (lv_lchan v) = GSM48_CMODE_SIGN then Some (0, v)
           else l1sched_lchan_emit_data_ind L data 0 n_errors n_bits_total True v }
         else l1sched_lchan_emit_data_ind L data (nat rc) n_errors n_bits_total True v)"

definition rx_tchf_fn :: "libosmo \<Rightarrow> lchan_view \<Rightarrow> burst_ind \<Rightarrow> (int \<times> lchan_view) option" where
  "rx_tchf_fn L v bi =
     (if bi_bid bi \<noteq> 0 \<and> lc_rx_burst_mask (lv_lchan v) = 0 then Some (0, v)
      else do {
        v \<leftarrow> (if bi_bid bi = 0 then shift_rx 4 v else Some v);
        v \<leftarrow> store_burst (20 + bi_bid bi) bi (note_burst bi v);
        if bi_bid bi \<noteq> 3 then Some (0, v)
        else do {
          v \<leftarrow> meas_avg_view 8 v;
          (r, v) \<leftarrow> tchf_decode L (bi_fn bi) v;
          tchf_emit L r v } })"

text \<open>
  Transmitting. \<open>speech_sent\<close> is what follows the encoding of a speech or signalling frame:
  confirm it when the encoder accepted it; the other primitive is dropped unconfirmed.
\<close>

definition speech_sent :: "libosmo \<Rightarrow> (u8 list \<Rightarrow> int \<times> u8 list) \<Rightarrow> msgb option \<Rightarrow> u32 \<Rightarrow> lchan_view \<Rightarrow>
    lchan_view option" where
  "speech_sent L enc msg fn v =
     do { (rc, v) \<leftarrow> tx_encode enc v;
          if rc = 0 then confirm L msg fn v else Some v }"

definition tchf_encode :: "libosmo \<Rightarrow> msgb option \<Rightarrow> msgb option \<Rightarrow> u32 \<Rightarrow> lchan_view \<Rightarrow> lchan_view option" where
  "tchf_encode L msg_tch msg_facch fn v =
     (let mode = lc_tch_mode (lv_lchan v);
          msg = (if msg_facch \<noteq> None then msg_facch else msg_tch) in
      if mode = GSM48_CMODE_SIGN \<or> mode = GSM48_CMODE_SPEECH_V1 \<or> mode = GSM48_CMODE_SPEECH_EFR then
        (let msg = (if mode = GSM48_CMODE_SIGN \<and> msg = None then l1sched_lchan_prim_dummy_lapdm L v else msg)
         in speech_sent L (\<lambda>b. gsm0503_tch_fr_encode L b (map_option mb_l2 msg)) msg fn v)
      else if mode = GSM48_CMODE_SPEECH_AMR then
        (let amr_fn_is_cmr = (\<not> sched_tchf_ul_amr_cmi_a_map fn) in do {
           (msg, offset, v) \<leftarrow> amr_speech L msg (msg_facch \<noteq> None) amr_fn_is_cmr v;
           let amr = lc_amr (lv_lchan v) in
           speech_sent L (\<lambda>b. gsm0503_tch_afs_encode L b (map_option (drop offset \<circ> mb_l2) msg)
             amr_fn_is_cmr (am_codec amr) (am_codecs amr) (am_ul_ft amr) (am_ul_cmr amr)) msg fn v })
      else if mode = GSM48_CMODE_DATA_14k5 then
        do { v \<leftarrow> csd_tch L TCH_FR144 290 msg_tch fn v; csd_facch L TCH_FR_FACCH msg_facch fn v }
      else if mode = GSM48_CMODE_DATA_12k0 then
        do { v \<leftarrow> csd_tch L TCH_FR96 (4 * 60) msg_tch fn v; csd_facch L TCH_FR_FACCH msg_facch fn v }
      else if mode = GSM48_CMODE_DATA_6k0 then
        do { v \<leftarrow> csd_tch L TCH_FR48 (2 * 60) msg_tch fn v; csd_facch L TCH_FR_FACCH msg_facch fn v }
      else if mode = GSM48_CMODE_DATA_3k6 then
        (if msg_facch \<noteq> None then csd_facch L TCH_FR_FACCH msg_facch fn v
         else csd_tch L TCH_FR24 (2 * 36) msg_tch fn v)
      else Some v)"

definition tx_tchf_fn :: "libosmo \<Rightarrow> lchan_view \<Rightarrow> burst_req \<Rightarrow> (int \<times> burst_req \<times> lchan_view) option" where
  "tx_tchf_fn L v br =
     (if br_bid br > 0 then
        if \<not> bit (lc_tx_burst_mask (lv_lchan v)) 0 then Some (- ENOENT, br, v)
        else do { (br, v) \<leftarrow> send_burst v br; Some (0, br, v) }
      else do {
        v \<leftarrow> shift_tx 4 v;
        let (msg_tch, v) = l1sched_lchan_prim_dequeue_tch False v;
            (msg_facch, v) = l1sched_lchan_prim_dequeue_tch True v
        in do {
          v \<leftarrow> tchf_encode L msg_tch msg_facch (br_fn br) v;
          (br, v) \<leftarrow> send_burst v br;
          Some (0, br, v) } })"

section \<open>Receiving\<close>

lemma decode_fr_facch_returns:
  assumes "rx24 v" "mh_head (lc_meas_hist (lv_lchan v)) \<noteq> None" "decode_ok L"
  shows "\<exists>rc v'. decode_fr_facch L v = Some (rc, v') \<and> rx_keeps L v v'"
proof -
  obtain tail where tail: "rx_tail8 v = Some tail" using rx_tail8_returns [OF assms(1)] by blast
  obtain rc d e b where d: "gsm0503_tch_decode L TCH_FR_FACCH tail = (rc, d, e, b)"
    by (cases "gsm0503_tch_decode L TCH_FR_FACCH tail")
  show ?thesis
  proof (cases "rc = 23")
    case False
    then show ?thesis using tail d by (simp add: decode_fr_facch_def gsm_nbits rx_keeps_refl)
  next
    case True
    then have len: "23 \<le> length d" using decode_okD(5) [OF assms(3), of TCH_FR_FACCH tail] d by (simp add: dec_ok_def)
    obtain v1 where v1: "meas_avg_view 8 v = Some v1" "rx_keeps L v v1" using rx_meas_avg [OF assms(2), of 8 L] by auto
    obtain v2 where "l1sched_lchan_emit_data_ind L d GSM_MACBLOCK_LEN e b False v1 = Some (prim_to_user_rc L, v2)"
      "rx_keeps L v1 v2"
      using rx_emit [of GSM_MACBLOCK_LEN d L e b False v1] len by (auto simp: gsm_nbits)
    then show ?thesis using True tail d v1 rx_keeps_trans by (auto simp: decode_fr_facch_def gsm_nbits)
  qed
qed

lemma tchf_decode_returns:
  assumes "view_wf L v" "rx24 v" "mh_head (lc_meas_hist (lv_lchan v)) \<noteq> None" "decode_ok L"
  shows "\<exists>r v'. tchf_decode L fn v = Some (r, v') \<and> rx_keeps L v v' \<and> decoded_ok r"
proof -
  obtain tail where tail: "rx_tail8 v = Some tail" using rx_tail8_returns [OF assms(2)] by blast
  obtain bs where bs: "lc_rx_bursts (lv_lchan v) = Some bs" using assms(2) by (auto simp: rx24_def)
  obtain rc v' where f: "decode_fr_facch L v = Some (rc, v')" "rx_keeps L v v'"
    using decode_fr_facch_returns [OF assms(2-4)] by blast
  have codec: "length (am_codec (lc_amr (lv_lchan v))) = 4"
    using assms(1) by (simp add: view_wf_def lchan_wf_def)
  note plain = decoded_plain [OF decode_okD(3) [OF assms(4)]] decoded_plain [OF decode_okD(5) [OF assms(4)]]
  have ret: "decoded_ok (TCH_RETURN x)" for x by (simp add: decoded_ok_def)
  let ?r = "\<lambda>x. gsm0503_tch_afs_decode_dtx L tail x (am_codec (lc_amr (lv_lchan v)))
    (am_codecs (lc_amr (lv_lchan v))) (am_dl_ft (lc_amr (lv_lchan v))) (am_dl_cmr (lc_amr (lv_lchan v)))
    (am_last_dtx (lc_amr (lv_lchan v)))"
  have amr: "\<exists>d v'. amr_frame L (?r x) v = Some (d, v') \<and> rx_keeps L v v' \<and> decoded_ok d" for x
    using amr_frame_returns [OF decode_okD(6) [OF assms(4)] assms(4) codec] by blast
  show ?thesis
    by (simp add: tchf_decode_def tail bs f plain ret amr Let_def rx_keeps_refl)
qed

lemma tchf_emit_returns:
  assumes "decoded_ok r"
  shows "\<exists>rc v'. tchf_emit L r v = Some (rc, v') \<and> rx_keeps L v v'"
proof (cases r)
  case (TCH_RETURN rc)
  then show ?thesis by (simp add: tchf_emit_def rx_keeps_refl)
next
  case (TCH_FRAME rc d amr e b)
  have bfi: "\<exists>v'. l1sched_lchan_emit_data_ind L d 0 e b True v = Some (prim_to_user_rc L, v') \<and> rx_keeps L v v'" for v
    using rx_emit [of 0 d L e b True v] by blast
  consider "rc < 4" | "rc = 23" "23 + amr \<le> length d" | "4 \<le> rc" "rc \<noteq> 23" "nat rc \<le> length d" "nat rc \<le> 512"
    using assms TCH_FRAME by (fastforce simp: decoded_ok_def)
  then show ?thesis
  proof cases
    case 1
    then show ?thesis using TCH_FRAME bfi [of v] by (simp add: tchf_emit_def) blast
  next
    case 2
    then have "GSM_MACBLOCK_LEN \<le> length (drop amr d)" "GSM_MACBLOCK_LEN \<le> 512" by (simp_all add: gsm_nbits)
    from rx_emit [OF this, of L e b False v] obtain v1 where
      v1: "l1sched_lchan_emit_data_ind L (drop amr d) GSM_MACBLOCK_LEN e b False v =
        Some (prim_to_user_rc L, v1)" "rx_keeps L v v1"
      by blast
    from bfi [of v1] obtain v2 where
      v2: "l1sched_lchan_emit_data_ind L d 0 e b True v1 = Some (prim_to_user_rc L, v2)" "rx_keeps L v1 v2"
      by blast
    have "rx_keeps L v v2" using v1(2) v2(2) by (rule rx_keeps_trans)
    then show ?thesis
      using TCH_FRAME 2(1) v1 v2(1)
      by (cases "lc_tch_mode (lv_lchan v1) = GSM48_CMODE_SIGN") (simp_all add: tchf_emit_def gsm_nbits)
  next
    case 3
    from rx_emit [OF 3(3,4), of L e b True v] 3(1,2) show ?thesis
      using TCH_FRAME by (auto simp: tchf_emit_def gsm_nbits)
  qed
qed

definition tchf_slot :: "burst_ind \<Rightarrow> u8 list \<Rightarrow> u8 list" where
  "tchf_slot bi bs = take ((20 + bi_bid bi) * 116) bs @ nb_payload (bi_burst bi) @
     drop ((20 + bi_bid bi) * 116 + 116) bs"

lemma tchf_store:
  assumes "view_wf L v" "lc_rx_bursts (lv_lchan v) = Some bs" "length bs = 2784" "bi_wf bi" "bi_bid bi < 4"
    and "decode_ok L"
  shows "\<exists>v1. store_burst (20 + bi_bid bi) bi (note_burst bi v) = Some v1 \<and> keeps L v v1 \<and>
    lc_rx_bursts (lv_lchan v1) = Some (tchf_slot bi bs) \<and> length (tchf_slot bi bs) = 2784 \<and>
    mh_head (lc_meas_hist (lv_lchan v1)) \<noteq> None \<and> lc_rx_burst_mask (lv_lchan v1) \<noteq> 0 \<and>
    lv_out v1 = lv_out v"
proof -
  have "(20 + bi_bid bi) * 116 + 116 \<le> length bs" using assms(3,5) by simp
  from store_burst_post [OF assms(2) this assms(4)] obtain v1 where v1:
    "store_burst (20 + bi_bid bi) bi (note_burst bi v) = Some v1" "keeps L v v1"
    "lc_rx_bursts (lv_lchan v1) = Some (tchf_slot bi bs)" "length (tchf_slot bi bs) = length bs"
    "mh_head (lc_meas_hist (lv_lchan v1)) \<noteq> None"
    "lc_rx_burst_mask (lv_lchan v1) = nb_set_bit (bi_bid bi) (lc_rx_burst_mask (lv_lchan v))"
    "lv_out v1 = lv_out v"
    unfolding tchf_slot_def [symmetric] by metis
  moreover have "lc_rx_burst_mask (lv_lchan v1) \<noteq> 0"
    unfolding v1(6) nb_set_bit_def by (rule word_or_bit_nonzero) (use assms(5) in simp)
  ultimately show ?thesis using assms(3) by auto
qed

lemma rx_tchf_step:
  assumes "view_wf L v" "lc_rx_bursts (lv_lchan v) = Some bs" "length bs = 2784" "bi_wf bi" "bi_bid bi < 4"
    and "decode_ok L" and "bi_bid bi = 0 \<or> lc_rx_burst_mask (lv_lchan v) \<noteq> 0"
  shows "\<exists>rc v' bs'. rx_tchf_fn L v bi = Some (rc, v') \<and> keeps L v v' \<and>
    bs' = tchf_slot bi (if bi_bid bi = 0 then drop 464 bs @ replicate 464 0 else bs) \<and>
    lc_rx_bursts (lv_lchan v') = Some bs' \<and> length bs' = 2784 \<and> lc_rx_burst_mask (lv_lchan v') \<noteq> 0"
proof -
  let ?bs = "if bi_bid bi = 0 then drop 464 bs @ replicate 464 0 else bs"
  obtain v0 where v0: "(if bi_bid bi = 0 then shift_rx 4 v else Some v) = Some v0" "keeps L v v0"
    "lc_rx_bursts (lv_lchan v0) = Some ?bs"
  proof (cases "bi_bid bi = 0")
    case True
    have "shift_bursts 4 bs = Some (drop 464 bs @ replicate 464 0)"
      using assms(3) shift_bursts_Some [of bs 4] by (simp add: chunk_def)
    then show ?thesis
      using that True assms(2) keeps_shift_rx by (fastforce simp: shift_rx_def)
  next
    case False
    then show ?thesis using that assms(2) keeps_refl by simp
  qed
  have wf0: "view_wf L v0" using keepsD [OF v0(2) assms(1)] by simp
  have len: "length ?bs = 2784" using assms(3) by simp
  obtain v1 where v1: "store_burst (20 + bi_bid bi) bi (note_burst bi v0) = Some v1" "keeps L v0 v1"
    "lc_rx_bursts (lv_lchan v1) = Some (tchf_slot bi ?bs)" "length (tchf_slot bi ?bs) = 2784"
    "mh_head (lc_meas_hist (lv_lchan v1)) \<noteq> None" "lc_rx_burst_mask (lv_lchan v1) \<noteq> 0"
    using tchf_store [OF wf0 v0(3) len assms(4,5,6)] by blast
  have k1: "keeps L v v1" using v0(2) v1(2) by (rule keeps_trans)
  show ?thesis
  proof (cases "bi_bid bi = 3")
    case False
    then show ?thesis
      using assms(7) v0(1) v1 k1 by (auto simp: rx_tchf_fn_def)
  next
    case True
    obtain v2 where v2: "meas_avg_view 8 v1 = Some v2" "rx_keeps L v1 v2"
      using rx_meas_avg [OF v1(5), of 8 L] by auto
    have wf2: "view_wf L v2" using v2(2) k1 assms(1) by (auto simp: rx_keeps_def keeps_def)
    have "rx24 v2" "mh_head (lc_meas_hist (lv_lchan v2)) \<noteq> None"
      using v1 v2(2) by (auto simp: rx_keeps_def rx24_def)
    then obtain r v3 where v3: "tchf_decode L (bi_fn bi) v2 = Some (r, v3)" "rx_keeps L v2 v3" "decoded_ok r"
      using tchf_decode_returns [OF wf2 _ _ assms(6)] by blast
    obtain rc v4 where v4: "tchf_emit L r v3 = Some (rc, v4)" "rx_keeps L v3 v4"
      using tchf_emit_returns [OF v3(3)] by blast
    have r4: "rx_keeps L v1 v4"
      using v2(2) v3(2) v4(2) rx_keeps_trans by blast
    then have "keeps L v v4" using k1 keeps_trans by (auto simp: rx_keeps_def)
    moreover have "rx_tchf_fn L v bi = Some (rc, v4)"
      using True assms(7) v0(1) v1(1) v2(1) v3(1) v4(1) by (simp add: rx_tchf_fn_def)
    ultimately show ?thesis
      using r4 v1(3,4,6) by (auto simp: rx_keeps_def)
  qed
qed

text \<open>The receive handler meets its contract.\<close>

definition tch_rx_pre :: "libosmo \<Rightarrow> lchan_state \<Rightarrow> burst_ind \<Rightarrow> bool" where
  "tch_rx_pre L lc bi \<longleftrightarrow> decode_ok L \<and> bi_bid bi < 4 \<and>
     (\<exists>bs. lc_rx_bursts lc = Some bs \<and> length bs = 24 * 116)"

interpretation tchf_rx: rx_handler rx_tchf_fn tch_rx_pre
proof
  fix L v bi assume pre: "tch_rx_pre L (lv_lchan v) bi" and wf: "view_wf L v" and bi: "bi_wf bi"
  show "rx_post L v (rx_tchf_fn L v bi)"
  proof (cases "bi_bid bi = 0 \<or> lc_rx_burst_mask (lv_lchan v) \<noteq> 0")
    case True
    obtain bs where "lc_rx_bursts (lv_lchan v) = Some bs" "length bs = 2784" "bi_bid bi < 4" "decode_ok L"
      using pre by (auto simp: tch_rx_pre_def)
    from rx_tchf_step [OF wf this(1,2) bi this(3,4) True] show ?thesis
      using wf by (auto simp: rx_post_def keeps_def)
  next
    case False
    then show ?thesis using wf by (simp add: rx_tchf_fn_def rx_post_def)
  qed
qed

text \<open>A whole block replaces the oldest four bursts of the buffer.\<close>

lemma tchf_slot_append:
  "length A = (20 + bi_bid bi) * 116 \<Longrightarrow> tchf_slot bi (A @ Z) = A @ nb_payload (bi_burst bi) @ drop 116 Z"
  by (simp add: tchf_slot_def)

lemma rx_tchf_three:
  assumes "view_wf L v" "lc_rx_bursts (lv_lchan v) = Some bs" "length bs = 2784" "decode_ok L"
    and "tch_block 4 [b0, b1, b2, b3]"
  shows "\<exists>u. rx_run (rx_tchf_fn L) v [b0, b1, b2] = Some u \<and> keeps L v u \<and> lc_rx_burst_mask (lv_lchan u) \<noteq> 0 \<and>
    lc_rx_bursts (lv_lchan u) = Some (drop 464 bs @ payloads [b0, b1, b2] @ replicate 116 0) \<and>
    length (payloads [b0, b1, b2]) = 348"
proof -
  have id: "bi_bid b0 = 0" "bi_bid b1 = 1" "bi_bid b2 = 2" and wf: "bi_wf b0" "bi_wf b1" "bi_wf b2"
    using assms(5) by (simp_all add: tch_block_def eval_nat_numeral)
  let ?p = "\<lambda>b. nb_payload (bi_burst b)" and ?D = "drop 464 bs" and ?Z = "replicate 464 (0 :: u8)"
  have len: "length (?p b0) = 116" "length (?p b1) = 116" "length (?p b2) = 116" "length ?D = 2320"
    using wf assms(3) by (simp_all add: length_nb_payload bi_wf_def gsm_nbits)
  obtain c0 v0 where s0: "rx_tchf_fn L v b0 = Some (c0, v0)" "keeps L v v0" "lc_rx_burst_mask (lv_lchan v0) \<noteq> 0"
    "lc_rx_bursts (lv_lchan v0) = Some (?D @ ?p b0 @ replicate 348 0)"
    using rx_tchf_step [OF assms(1-3) wf(1) _ assms(4)] tchf_slot_append [of ?D b0 ?Z] len id by auto
  have w0: "view_wf L v0" using keepsD [OF s0(2) assms(1)] by simp
  have l0: "length (?D @ ?p b0 @ replicate 348 0) = 2784" using len by simp
  obtain c1 v1 where s1: "rx_tchf_fn L v0 b1 = Some (c1, v1)" "keeps L v0 v1" "lc_rx_burst_mask (lv_lchan v1) \<noteq> 0"
    "lc_rx_bursts (lv_lchan v1) = Some (?D @ ?p b0 @ ?p b1 @ replicate 232 0)"
    using rx_tchf_step [OF w0 s0(4) l0 wf(2) _ assms(4)] tchf_slot_append [of "?D @ ?p b0" b1 "replicate 348 0"]
      len id s0(3) by auto
  have w1: "view_wf L v1" using keepsD [OF s1(2) w0] by simp
  have l1: "length (?D @ ?p b0 @ ?p b1 @ replicate 232 0) = 2784" using len by simp
  obtain c2 v2 where s2: "rx_tchf_fn L v1 b2 = Some (c2, v2)" "keeps L v1 v2" "lc_rx_burst_mask (lv_lchan v2) \<noteq> 0"
    "lc_rx_bursts (lv_lchan v2) = Some (?D @ ?p b0 @ ?p b1 @ ?p b2 @ replicate 116 0)"
    using rx_tchf_step [OF w1 s1(4) l1 wf(3) _ assms(4)] tchf_slot_append [of "?D @ ?p b0 @ ?p b1" b2 "replicate 232 0"]
      len id s1(3) by auto
  have "keeps L v v2" using s0(2) s1(2) s2(2) keeps_trans by blast
  then show ?thesis
    using s0(1) s1(1) s2(1,3,4) len by (simp add: payloads_def)
qed

lemma tch_block_4:
  assumes "tch_block 4 bis"
  obtains b0 b1 b2 b3 where "bis = [b0, b1, b2, b3]" and "bi_bid b3 = 3" and "bi_wf b3"
proof -
  obtain b0 b1 b2 b3 where b: "bis = [b0, b1, b2, b3]"
    using length_tch_block [OF assms] by (auto simp: eval_nat_numeral length_Suc_conv)
  moreover have "bi_bid b3 = 3" "bi_wf b3"
    using assms by (simp_all add: tch_block_def b eval_nat_numeral)
  ultimately show ?thesis using that by blast
qed

lemma rx_run_append: "rx_run rx v (xs @ ys) = do { v \<leftarrow> rx_run rx v xs; rx_run rx v ys }"
proof (induction xs arbitrary: v)
  case (Cons b xs)
  show ?case
  proof (cases "rx v b")
    case (Some r)
    then show ?thesis using Cons by (cases r) simp
  qed simp
qed simp

lemma rx_tchf_block:
  assumes "view_wf L v" "lc_rx_bursts (lv_lchan v) = Some bs" "length bs = 2784" "decode_ok L" "tch_block 4 bis"
  shows "\<exists>v'. rx_run (rx_tchf_fn L) v bis = Some v' \<and> keeps L v v' \<and>
    lc_rx_bursts (lv_lchan v') = Some (drop 464 bs @ payloads bis)"
proof -
  obtain b0 b1 b2 b3 where bis: "bis = [b0, b1, b2, b3]" and b3: "bi_bid b3 = 3" "bi_wf b3"
    using tch_block_4 [OF assms(5)] by blast
  obtain u where u: "rx_run (rx_tchf_fn L) v [b0, b1, b2] = Some u" "keeps L v u" "lc_rx_burst_mask (lv_lchan u) \<noteq> 0"
    "lc_rx_bursts (lv_lchan u) = Some (drop 464 bs @ payloads [b0, b1, b2] @ replicate 116 0)"
    "length (payloads [b0, b1, b2]) = 348"
    using rx_tchf_three [OF assms(1-4), of b0 b1 b2 b3] assms(5) bis by blast
  have w: "view_wf L u" using keepsD [OF u(2) assms(1)] by simp
  have l: "length (drop 464 bs @ payloads [b0, b1, b2] @ replicate 116 0) = 2784" using u(5) assms(3) by simp
  have slot: "tchf_slot b3 (drop 464 bs @ payloads [b0, b1, b2] @ replicate 116 0) = drop 464 bs @ payloads bis"
    using tchf_slot_append [of "drop 464 bs @ payloads [b0, b1, b2]" b3 "replicate 116 0"] u(5) assms(3) b3(1)
    by (simp add: bis payloads_def)
  obtain c v' where v': "rx_tchf_fn L u b3 = Some (c, v')" "keeps L u v'"
    "lc_rx_bursts (lv_lchan v') = Some (drop 464 bs @ payloads bis)"
    using rx_tchf_step [OF w u(4) l b3(2) _ assms(4)] slot b3(1) u(3) by auto
  have "keeps L v v'" using u(2) v'(2) by (rule keeps_trans)
  moreover have "rx_run (rx_tchf_fn L) v ([b0, b1, b2] @ [b3]) = Some v'"
    unfolding rx_run_append u(1) using v'(1) by simp
  ultimately show ?thesis using v'(3) unfolding bis append.simps by blast
qed

interpretation tchf_win: slide_window "\<lambda>bis v. rx_run (rx_tchf_fn L) v bis"
    "\<lambda>v. the (lc_rx_bursts (lv_lchan v))" "\<lambda>v. decode_ok L \<and> view_wf L v \<and> rx24 v" "tch_block 4" payloads for L
proof
  fix v bis assume ok: "decode_ok L \<and> view_wf L v \<and> rx24 v" and blk: "tch_block 4 bis"
  obtain bs where bs: "lc_rx_bursts (lv_lchan v) = Some bs" "length bs = 2784"
    using ok by (auto simp: rx24_def)
  obtain v' where v': "rx_run (rx_tchf_fn L) v bis = Some v'" "keeps L v v'"
    "lc_rx_bursts (lv_lchan v') = Some (drop 464 bs @ payloads bis)"
    using rx_tchf_block [OF _ bs _ blk] ok by blast
  have "length (payloads bis) = 464" using length_payloads [OF blk] by simp
  then show "\<exists>s'. rx_run (rx_tchf_fn L) v bis = Some s' \<and> (decode_ok L \<and> view_wf L s' \<and> rx24 s') \<and>
      the (lc_rx_bursts (lv_lchan s')) = drop (length (payloads bis)) (the (lc_rx_bursts (lv_lchan v)) @ payloads bis)"
    using v' bs ok by (simp add: keeps_def rx24_def)
qed

section \<open>Transmitting\<close>

definition tchf_csd_len :: "u8 \<Rightarrow> nat option" where
  "tchf_csd_len mode =
     (if mode = GSM48_CMODE_DATA_14k5 then Some 290 else if mode = GSM48_CMODE_DATA_12k0 then Some 240
      else if mode = GSM48_CMODE_DATA_6k0 then Some 120 else if mode = GSM48_CMODE_DATA_3k6 then Some 72
      else None)"

text \<open>The transmit handlers assert the length of the data frames of a CSD mode; the precondition says
  that the queue holds no others.\<close>

definition csd_queue_ok :: "nat option \<Rightarrow> lchan_view \<Rightarrow> bool" where
  "csd_queue_ok len v \<longleftrightarrow> (case len of None \<Rightarrow> True
     | Some n \<Rightarrow> list_all (\<lambda>m. length (mb_l2 m) = GSM_MACBLOCK_LEN \<or> length (mb_l2 m) = n)
         (lc_tx_prims (lv_lchan v)))"

definition tchf_tx_pre :: "libosmo \<Rightarrow> lchan_view \<Rightarrow> burst_req \<Rightarrow> bool" where
  "tchf_tx_pre L v br \<longleftrightarrow> codec_len_ok L \<and> br_bid br < 4 \<and> tx24 v \<and>
     \<not> L1SCHED_CHAN_IS_SACCH L (lc_type (lv_lchan v)) \<and> csd_queue_ok (tchf_csd_len (lc_tch_mode (lv_lchan v))) v"

lemma speech_sent_returns:
  assumes "tx24 v" "\<And>b. length (snd (enc b)) = length b"
    and "case msg of None \<Rightarrow> True | Some m \<Rightarrow> prim_is_req (mb_prim m)"
  shows "\<exists>v'. speech_sent L enc msg fn v = Some v' \<and> keeps L v v' \<and> tx24 v'"
proof -
  obtain rc v1 where v1: "tx_encode enc v = Some (rc, v1)" "keeps L v v1" "tx24 v1"
    using tx_encode_returns [OF assms(1), of enc L] assms(2) by blast
  obtain v2 where v2: "confirm L msg fn v1 = Some v2" "keeps L v1 v2" "tx24 v2"
    using confirm_returns [OF v1(3) assms(3)] by blast
  have "keeps L v v2" using v1(2) v2(2) by (rule keeps_trans)
  then show ?thesis using v1 v2 by (simp add: speech_sent_def)
qed

text \<open>What the primitives taken from the queue of a well-formed channel satisfy.\<close>

definition taken :: "nat option \<Rightarrow> msgb option \<Rightarrow> bool" where
  "taken len msg \<longleftrightarrow> (case msg of None \<Rightarrow> True
     | Some m \<Rightarrow> prim_is_req (mb_prim m) \<and> (\<forall>n. len = Some n \<longrightarrow> length (mb_l2 m) = n))"

lemma taken_None [simp]: "taken len None"
  by (simp add: taken_def)

lemma taken_req: "taken len msg \<Longrightarrow> case msg of None \<Rightarrow> True | Some m \<Rightarrow> prim_is_req (mb_prim m)"
  by (cases msg) (simp_all add: taken_def)

lemma csd_pair_returns:
  assumes "tx24 v" "codec_len_ok L" "taken (Some n) msg_tch" "taken None msg_facch"
  shows "\<exists>v'. do { v \<leftarrow> csd_tch L k n msg_tch fn v; csd_facch L k' msg_facch fn v } = Some v' \<and>
    keeps L v v' \<and> tx24 v'"
proof -
  have "case msg_tch of None \<Rightarrow> True | Some m \<Rightarrow> prim_is_req (mb_prim m) \<and> length (mb_l2 m) = n"
    using assms(3) by (cases msg_tch) (simp_all add: taken_def)
  then obtain v1 where v1: "csd_tch L k n msg_tch fn v = Some v1" "keeps L v v1" "tx24 v1"
    using csd_tch_returns [OF assms(1,2)] by blast
  obtain v2 where v2: "csd_facch L k' msg_facch fn v1 = Some v2" "keeps L v1 v2" "tx24 v2"
    using csd_facch_returns [OF v1(3) assms(2) taken_req [OF assms(4)]] by blast
  have "keeps L v v2" using v1(2) v2(2) by (rule keeps_trans)
  then show ?thesis using v1 v2 by simp
qed

lemma amr_branch_returns:
  assumes "view_wf L v" "tx24 v" "taken None msg"
    and enc: "\<And>off m amr b. length (snd (enc off m amr b)) = length b"
  shows "\<exists>v'. do { (msg, offset, v) \<leftarrow> amr_speech L msg is_facch c v;
      let amr = lc_amr (lv_lchan v) in speech_sent L (enc offset msg amr) msg fn v } = Some v' \<and>
    keeps L v v' \<and> tx24 v'"
proof -
  obtain msg' off v1 where v1: "amr_speech L msg is_facch c v = Some (msg', off, v1)" "keeps L v v1" "tx24 v1"
    "msg' = None \<or> msg' = msg"
    using amr_speech_returns [OF assms(1,2), of msg is_facch c] by blast
  have t: "taken None msg'" using v1(4) assms(3) by auto
  obtain v2 where v2: "speech_sent L (enc off msg' (lc_amr (lv_lchan v1))) msg' fn v1 = Some v2"
    "keeps L v1 v2" "tx24 v2"
    using speech_sent_returns [OF v1(3) enc [of off msg' "lc_amr (lv_lchan v1)"] taken_req [OF t]] by blast
  have "keeps L v v2" using v1(2) v2(2) by (rule keeps_trans)
  then show ?thesis using v1 v2 by simp
qed

lemma tchf_encode_returns:
  assumes "codec_len_ok L" "view_wf L v" "tx24 v" "\<not> L1SCHED_CHAN_IS_SACCH L (lc_type (lv_lchan v))"
    and "taken (tchf_csd_len (lc_tch_mode (lv_lchan v))) msg_tch" "taken None msg_facch"
  shows "\<exists>v'. tchf_encode L msg_tch msg_facch fn v = Some v' \<and> keeps L v v' \<and> tx24 v'"
proof -
  let ?mode = "lc_tch_mode (lv_lchan v)" and ?msg = "if msg_facch \<noteq> None then msg_facch else msg_tch"
  have plain: "taken None msg" if "taken len msg" for len msg
    using that by (cases msg) (simp_all add: taken_def)
  have msg: "taken None ?msg" using plain [OF assms(5)] assms(6) by simp
  have dummy: "taken None (if a \<and> ?msg = None then l1sched_lchan_prim_dummy_lapdm L v else ?msg)" for a
    using msg dummy_lapdm_returns [OF assms(4)] by (auto simp: taken_def)
  have speech: "\<exists>v'. speech_sent L (\<lambda>b. gsm0503_tch_fr_encode L b p) m fn v = Some v' \<and> keeps L v v' \<and> tx24 v'"
    if "taken None m" for p m
    using speech_sent_returns [OF assms(3) codec_len_okD(5) [OF assms(1)] taken_req [OF that]] .
  note amr = amr_branch_returns [OF assms(2,3) msg, of "\<lambda>off m amr b. gsm0503_tch_afs_encode L b
      (map_option (drop off \<circ> mb_l2) m) c (am_codec amr) (am_codecs amr) (am_ul_ft amr) (am_ul_cmr amr)" for c,
      OF codec_len_okD(8) [OF assms(1)]]
  note pair = csd_pair_returns [OF assms(3,1) _ assms(6)]
  consider "?mode = GSM48_CMODE_SIGN \<or> ?mode = GSM48_CMODE_SPEECH_V1 \<or> ?mode = GSM48_CMODE_SPEECH_EFR"
    | "?mode = GSM48_CMODE_SPEECH_AMR" | "?mode = GSM48_CMODE_DATA_14k5" | "?mode = GSM48_CMODE_DATA_12k0"
    | "?mode = GSM48_CMODE_DATA_6k0" | "?mode = GSM48_CMODE_DATA_3k6" | "?mode \<notin> {0, 1, 0x21, 0x41, 0x0f, 3, 0x0b, 0x13}"
    by blast
  then show ?thesis
  proof cases
    case 1
    show ?thesis
      unfolding tchf_encode_def Let_def if_P [OF 1] by (rule speech [OF dummy])
  next
    case 2
    then show ?thesis using amr by (simp add: tchf_encode_def Let_def)
  next
    case 3
    then show ?thesis using pair [of 290] assms(5) by (simp add: tchf_encode_def tchf_csd_len_def)
  next
    case 4
    then show ?thesis using pair [of 240] assms(5) by (simp add: tchf_encode_def tchf_csd_len_def)
  next
    case 5
    then show ?thesis using pair [of 120] assms(5) by (simp add: tchf_encode_def tchf_csd_len_def)
  next
    case 6
    have "case msg_tch of None \<Rightarrow> True | Some m \<Rightarrow> prim_is_req (mb_prim m) \<and> length (mb_l2 m) = 72"
      using 6 assms(5) by (cases msg_tch) (simp_all add: taken_def tchf_csd_len_def)
    from csd_tch_returns [OF assms(3,1) this] csd_facch_returns [OF assms(3,1) taken_req [OF assms(6)]]
    show ?thesis using 6 by (simp add: tchf_encode_def)
  next
    case 7
    then show ?thesis using assms(3) keeps_refl by (simp add: tchf_encode_def)
  qed
qed

lemma dequeue_pair:
  assumes "view_wf L v" "tx24 v" "csd_queue_ok len v"
    and "l1sched_lchan_prim_dequeue_tch False v = (msg_tch, v1)"
    and "l1sched_lchan_prim_dequeue_tch facch v1 = (msg_facch, v2)"
  shows "keeps L v v2" "tx24 v2" "taken len msg_tch" "taken None msg_facch"
proof -
  note d1 = dequeue_tch_returns [OF assms(1,4)]
  have wf1: "view_wf L v1" using d1 assms(1) by (simp add: keeps_def)
  note d2 = dequeue_tch_returns [OF wf1 assms(5)]
  show "keeps L v v2" using d1 d2 keeps_trans by blast
  show "tx24 v2" using d1 d2 assms(2) by (simp add: tx24_def)
  have "length (mb_l2 m) = n" if "msg_tch = Some m" "len = Some n" for m n
    using d1 that assms(3) by (auto simp: csd_queue_ok_def list_all_iff)
  then show "taken len msg_tch" using d1 by (cases msg_tch) (simp_all add: taken_def)
  show "taken None msg_facch" using d2 by (cases msg_facch) (simp_all add: taken_def)
qed

interpretation tchf_tx: tx_handler tx_tchf_fn tchf_tx_pre
proof
  fix L v br assume pre: "tchf_tx_pre L v br" and wf: "view_wf L v" and br: "br_wf br"
  have bid: "br_bid br < 4" and tx: "tx24 v" and cl: "codec_len_ok L"
    using pre by (simp_all add: tchf_tx_pre_def)
  have send: "\<exists>br' v'. send_burst u br = Some (br', v') \<and> view_wf L v' \<and> same_chan u v' \<and> br_wf br' \<and> same_req br br'"
    if "view_wf L u" "tx24 u" for u
  proof -
    note u = that
    obtain bs where "lc_tx_bursts (lv_lchan u) = Some bs" "br_bid br * 116 + 116 \<le> length bs"
      using u(2) bid by (auto simp: tx24_def)
    from send_burst_post [OF u(1) br this] show ?thesis by metis
  qed
  show "tx_post L v br (tx_tchf_fn L v br)"
  proof (cases "br_bid br > 0")
    case True
    then show ?thesis
      using send [OF wf tx] wf br by (auto simp: tx_tchf_fn_def tx_post_def same_req_def)
  next
    case False
    obtain v0 where v0: "shift_tx 4 v = Some v0" "tx24 v0" "lc_tx_prims (lv_lchan v0) = lc_tx_prims (lv_lchan v)"
      using shift_tx_returns [OF tx, of 4] by auto
    have k0: "keeps L v v0" using v0(1) by (rule keeps_shift_tx)
    have wf0: "view_wf L v0" using keepsD [OF k0 wf] by simp
    obtain msg_tch v1 where d1: "l1sched_lchan_prim_dequeue_tch False v0 = (msg_tch, v1)" by fastforce
    obtain msg_facch v2 where d2: "l1sched_lchan_prim_dequeue_tch True v1 = (msg_facch, v2)" by fastforce
    have q: "csd_queue_ok (tchf_csd_len (lc_tch_mode (lv_lchan v))) v0"
      using pre unfolding tchf_tx_pre_def csd_queue_ok_def v0(3) by blast
    note p = dequeue_pair [OF wf0 v0(2) q d1 d2]
    have k2: "keeps L v v2" using k0 p(1) by (rule keeps_trans)
    have same: "lc_tch_mode (lv_lchan v2) = lc_tch_mode (lv_lchan v)" "lc_type (lv_lchan v2) = lc_type (lv_lchan v)"
      using k2 by (simp_all add: keeps_def same_chan_def)
    have wf2: "view_wf L v2" using keepsD [OF k2 wf] by simp
    obtain v3 where v3: "tchf_encode L msg_tch msg_facch (br_fn br) v2 = Some v3" "keeps L v2 v3" "tx24 v3"
      using tchf_encode_returns [OF cl wf2 p(2), unfolded same, OF _ p(3,4)] pre by (auto simp: tchf_tx_pre_def)
    have k3: "keeps L v v3" using k2 v3(2) by (rule keeps_trans)
    then have v: "view_wf L v3" "same_chan v v3" using wf by (auto simp: keeps_def)
    obtain br' v' where s: "send_burst v3 br = Some (br', v')" "view_wf L v'" "same_chan v3 v'" "br_wf br'" "same_req br br'"
      using send [OF v(1) v3(3)] by blast
    moreover have "same_chan v v'" using v(2) s(3) by (rule same_chan_trans)
    ultimately show ?thesis
      using False v0(1) d1 d2 v3(1) by (simp add: tx_tchf_fn_def tx_post_def)
  qed
qed

section \<open>What reaches the decoders\<close>

lemma tchf_buf_size:
  "ld_tx_fn (l1sched_lchan_desc L t) = Some TX_TCHF_FN \<Longrightarrow> ld_burst_buf_size (l1sched_lchan_desc L t) = 2784"
  "ld_rx_fn (l1sched_lchan_desc L t) = Some RX_TCHF_FN \<Longrightarrow> ld_burst_buf_size (l1sched_lchan_desc L t) = 2784"
  by (cases t; simp add: gsm_nbits)+

lemma tchf_bufs:
  assumes "view_wf L v" "lc_active (lv_lchan v)"
  shows "ld_rx_fn (l1sched_lchan_desc L (lc_type (lv_lchan v))) = Some RX_TCHF_FN \<Longrightarrow> rx24 v"
    and "ld_tx_fn (l1sched_lchan_desc L (lc_type (lv_lchan v))) = Some TX_TCHF_FN \<Longrightarrow> tx24 v"
  using assms by (auto simp: view_wf_def lchan_wf_def lchan_bufs_wf_def buf_ok_def Let_def tchf_buf_size
      rx24_def tx24_def split: option.splits)

lemma drop_blocks:
  "list_all (\<lambda>b. length (f b) = n) bs \<Longrightarrow> drop (k * n) (concat (map f bs)) = concat (map f (drop k bs))"
proof (induction k arbitrary: bs)
  case (Suc k)
  then show ?case by (cases bs) (simp_all flip: drop_drop)
qed simp

lemma length_blocks: "list_all (\<lambda>b. length (f b) = n) bs \<Longrightarrow> length (concat (map f bs)) = n * length bs"
  by (induction bs) simp_all

text \<open>C37. On an active full-rate channel, in any mode and any well-formed state
  (whatever is left in the buffer, and wherever the mask stands), after any number of whole blocks
  of four bursts the handler has returned each time, the channel is well-formed, and the receive
  buffer holds exactly the payloads of the last six blocks, oldest first: the 24 bursts over which
  the data modes are interleaved.\<close>

theorem tchf_rx_window:
  assumes "decode_ok L" and "view_wf L v" and "lc_active (lv_lchan v)"
    and "ld_rx_fn (l1sched_lchan_desc L (lc_type (lv_lchan v))) = Some RX_TCHF_FN"
    and "list_all (tch_block 4) blks" and "6 \<le> length blks"
  shows "\<exists>v'. run_blocks (\<lambda>bis v. rx_run (rx_tchf_fn L) v bis) blks v = Some v' \<and> view_wf L v' \<and>
    lc_rx_bursts (lv_lchan v') = Some (concat (map payloads (drop (length blks - 6) blks)))"
proof -
  have ok: "decode_ok L \<and> view_wf L v \<and> rx24 v"
    using tchf_bufs(1) [OF assms(2-4)] assms(1,2) by simp
  let ?c = "concat (map payloads blks)"
  have lens: "list_all (\<lambda>b. length (payloads b) = 464) blks"
    using assms(5) length_payloads [of 4] by (auto simp: list_all_iff)
  note len = length_blocks [OF lens]
  obtain v' where v': "run_blocks (\<lambda>bis v. rx_run (rx_tchf_fn L) v bis) blks v = Some v'"
    "view_wf L v'" "rx24 v'"
    "the (lc_rx_bursts (lv_lchan v')) = drop (length ?c) (the (lc_rx_bursts (lv_lchan v)) @ ?c)"
    using tchf_win.blocks_window [OF ok assms(5)] by blast
  have "length (the (lc_rx_bursts (lv_lchan v))) = 2784" using ok by (auto simp: rx24_def)
  then have "drop (length ?c) (the (lc_rx_bursts (lv_lchan v)) @ ?c) = drop ((length blks - 6) * 464) ?c"
    using assms(6) by (simp add: len diff_mult_distrib mult.commute)
  then have "the (lc_rx_bursts (lv_lchan v')) = concat (map payloads (drop (length blks - 6) blks))"
    using v'(4) drop_blocks [OF lens, of "length blks - 6"] by simp
  then show ?thesis using v' by (auto simp: rx24_def)
qed

definition demo_tch :: "lchan_type \<Rightarrow> u8 \<Rightarrow> msgb list \<Rightarrow> lchan_view" where
  "demo_tch t mode q = upd_lchan (\<lambda>lc. lc\<lparr>lc_rx_bursts := Some (replicate 2784 0),
     lc_tx_bursts := Some (replicate 2784 0), lc_tch_mode := mode\<rparr>) (demo_view t q)"

lemma view_wf_demo_tch:
  "ld_burst_buf_size (l1sched_lchan_desc toy_lib t) = 2784 \<Longrightarrow> list_all (prim_is_req \<circ> mb_prim) q \<Longrightarrow>
   view_wf toy_lib (demo_tch t mode q)"
  using sacch_wf_demo [of t q]
  by (simp add: view_wf_def demo_tch_def demo_view_def lchan_wf_def lchan_bufs_wf_def buf_ok_def Let_def
      zero_lchan_def meas_hist_wf_def zero_a5_def zero_amr_def sacch_wf_def)

lemma demo_tch_simps:
  "lc_active (lv_lchan (demo_tch t mode q))" "lc_type (lv_lchan (demo_tch t mode q)) = t"
  "lc_tx_prims (lv_lchan (demo_tch t mode q)) = q" "lv_out (demo_tch t mode q) = []"
  "lc_tch_mode (lv_lchan (demo_tch t mode q)) = mode"
  "lc_tx_burst_mask (lv_lchan (demo_tch t mode q)) = 0"
  "lc_ul_facch_blocks (lv_lchan (demo_tch t mode q)) = 0"
  by (simp_all add: demo_tch_def demo_view_def zero_lchan_def)

definition demo_block :: "nat \<Rightarrow> burst_ind list" where
  "demo_block n = map (\<lambda>i. \<lparr>bi_fn = 0, bi_tn = 0, bi_toa256 = 0, bi_rssi = 0, bi_bid = i,
     bi_burst = replicate GSM_NBITS_NB_8PSK_BURST (word_of_nat i), bi_burst_len = 148\<rparr>) [0..<n]"

lemma demo_block_ok: "tch_block n (demo_block n)"
  by (simp add: tch_block_def demo_block_def list_all_iff bi_wf_def comp_def map_idI)

theorem tchf_rx_window_witness:
  "\<exists>v'. run_blocks (\<lambda>bis v. rx_run (rx_tchf_fn toy_lib) v bis) (replicate 7 (demo_block 4))
       (demo_tch L1SCHED_TCHF GSM48_CMODE_DATA_14k5 []) = Some v' \<and> view_wf toy_lib v' \<and>
     lc_rx_bursts (lv_lchan v') = Some (concat (replicate 6 (payloads (demo_block 4))))"
proof -
  have wf: "view_wf toy_lib (demo_tch L1SCHED_TCHF GSM48_CMODE_DATA_14k5 [])"
    by (rule view_wf_demo_tch) (simp_all add: gsm_nbits)
  have blks: "list_all (tch_block 4) (replicate 7 (demo_block 4))" "6 \<le> length (replicate 7 (demo_block 4))"
    by (simp_all add: demo_block_ok list_all_iff)
  show ?thesis
    using tchf_rx_window [OF decode_ok_toy wf _ _ blks] by (simp add: demo_tch_simps)
qed

text \<open>Full-rate speech: two consecutive whole blocks, received in any
  well-formed state, hand the decoder their eight payloads in order, and a good frame goes up once,
  as a traffic indication with the octets of the decoder, after whatever was passed up before.\<close>

theorem tchf_speech_received:
  assumes "decode_ok L" and "view_wf L v" and "lc_active (lv_lchan v)"
    and "ld_rx_fn (l1sched_lchan_desc L (lc_type (lv_lchan v))) = Some RX_TCHF_FN"
    and "lc_tch_mode (lv_lchan v) = GSM48_CMODE_SPEECH_V1"
    and "tch_block 4 as" and "tch_block 4 bs"
    and "gsm0503_tch_fr_decode L (payloads as @ payloads bs) False = (rc, d, e, n)"
    and "4 \<le> rc" and "rc \<noteq> 23"
  shows "\<exists>v' before ind. rx_run (rx_tchf_fn L) v (as @ bs) = Some v' \<and>
    lv_out v' = lv_out v @ before @ [ind] \<and> mb_l2 ind = take (nat rc) d \<and>
    ch_traffic (prim_chdr_of (mb_prim ind))"
proof -
  obtain xs where xs: "lc_rx_bursts (lv_lchan v) = Some xs" "length xs = 2784"
    using tchf_bufs(1) [OF assms(2-4)] by (auto simp: rx24_def)
  obtain u where u: "rx_run (rx_tchf_fn L) v as = Some u" "keeps L v u"
    "lc_rx_bursts (lv_lchan u) = Some (drop 464 xs @ payloads as)"
    using rx_tchf_block [OF assms(2) xs assms(1,6)] by blast
  obtain b0 b1 b2 b3 where bs: "bs = [b0, b1, b2, b3]" and b3: "bi_bid b3 = 3" "bi_wf b3"
    using tch_block_4 [OF assms(7)] by blast
  have wu: "view_wf L u" using keepsD [OF u(2) assms(2)] by simp
  have la: "length (payloads as) = 464" "length (payloads bs) = 464"
    using length_payloads [OF assms(6)] length_payloads [OF assms(7)] by simp_all
  let ?ys = "drop 464 (drop 464 xs @ payloads as) @ payloads [b0, b1, b2] @ replicate 116 0"
  obtain w where w: "rx_run (rx_tchf_fn L) u [b0, b1, b2] = Some w" "keeps L u w" "lc_rx_burst_mask (lv_lchan w) \<noteq> 0"
    "lc_rx_bursts (lv_lchan w) = Some ?ys" "length (payloads [b0, b1, b2]) = 348"
    using rx_tchf_three [OF wu u(3) _ assms(1), of b0 b1 b2 b3] assms(7) xs la bs by auto
  have ww: "view_wf L w" using keepsD [OF w(2) wu] by simp
  have ly: "length ?ys = 2784" using w(5) xs la by simp
  have slot: "tchf_slot b3 ?ys = drop 464 (drop 464 xs @ payloads as) @ payloads bs"
    using tchf_slot_append [of "drop 464 (drop 464 xs @ payloads as) @ payloads [b0, b1, b2]" b3 "replicate 116 0"]
      w(5) xs la b3(1) by (simp add: bs payloads_def)
  obtain v1 where v1: "store_burst (20 + bi_bid b3) b3 (note_burst b3 w) = Some v1" "keeps L w v1"
    "lc_rx_bursts (lv_lchan v1) = Some (drop 464 (drop 464 xs @ payloads as) @ payloads bs)"
    "mh_head (lc_meas_hist (lv_lchan v1)) \<noteq> None" "lv_out v1 = lv_out w"
    using tchf_store [OF ww w(4) ly b3(2) _ assms(1)] b3(1) slot by auto
  obtain v2 where v2: "meas_avg_view 8 v1 = Some v2" "rx_keeps L v1 v2" "lv_out v2 = lv_out v1"
    using rx_meas_avg [OF v1(4), of 8 L] by auto
  have kw: "keeps L v w" using u(2) w(2) by (rule keeps_trans)
  have "keeps L w v2" using v1(2) v2(2) keeps_trans by (auto simp: rx_keeps_def)
  with kw have k2: "keeps L v v2" by (rule keeps_trans)
  then have mode: "lc_tch_mode (lv_lchan v2) = GSM48_CMODE_SPEECH_V1"
    using assms(5) by (simp add: keeps_def same_chan_def)
  have buf: "lc_rx_bursts (lv_lchan v2) = Some (drop 464 (drop 464 xs @ payloads as) @ payloads bs)"
    using v1(3) v2(2) by (simp add: rx_keeps_def)
  have tail: "rx_tail8 v2 = Some (payloads as @ payloads bs)"
    using buf xs la by (simp add: rx_tail8_def bplen read_at_Some chunk_def)
  have dec: "tchf_decode L (bi_fn b3) v2 = Some (TCH_FRAME rc d 0 e n, v2)"
    using mode tail buf assms(8) by (simp add: tchf_decode_def tch_plain_def Let_def)
  have "nat rc \<le> length d" "nat rc \<le> 512"
    using decode_okD(3) [OF assms(1), of "payloads as @ payloads bs" False] assms(8) by (auto simp: dec_ok_def)
  then obtain m v3 where v3: "l1sched_lchan_emit_data_ind L d (nat rc) e n True v2 = Some (prim_to_user_rc L, v3)"
    "lv_out v3 = lv_out v2 @ [m]" "mb_l2 m = take (nat rc) d" "ch_traffic (prim_chdr_of (mb_prim m))"
    using rx_emit [of "nat rc" d L e n True v2] by auto
  have last: "rx_tchf_fn L w b3 = Some (prim_to_user_rc L, v3)"
    using w(3) b3(1) v1(1) v2(1) dec v3(1) assms(9,10) by (simp add: rx_tchf_fn_def tchf_emit_def gsm_nbits)
  have "rx_run (rx_tchf_fn L) v (as @ [b0, b1, b2] @ [b3]) = Some v3"
    unfolding rx_run_append u(1) bind.bind_lunit w(1) using last by simp
  then have run: "rx_run (rx_tchf_fn L) v (as @ bs) = Some v3" by (simp add: bs)
  obtain before where "lv_out w = lv_out v @ before"
    using kw by (auto simp: keeps_def same_chan_def elim: prefixE)
  then have "lv_out v3 = lv_out v @ before @ [m]" using v3(2) v2(3) v1(5) by simp
  then show ?thesis using run v3(3,4) by blast
qed

theorem tchf_speech_received_witness:
  "\<exists>v' before ind. rx_run (rx_tchf_fn toy_lib) (demo_tch L1SCHED_TCHF GSM48_CMODE_SPEECH_V1 [])
      (demo_block 4 @ demo_block 4) = Some v' \<and> lv_out v' = before @ [ind] \<and> mb_l2 ind = replicate 33 0 \<and>
      ch_traffic (prim_chdr_of (mb_prim ind))"
proof -
  have wf: "view_wf toy_lib (demo_tch L1SCHED_TCHF GSM48_CMODE_SPEECH_V1 [])"
    by (rule view_wf_demo_tch) (simp_all add: gsm_nbits)
  have dec: "gsm0503_tch_fr_decode toy_lib (payloads (demo_block 4) @ payloads (demo_block 4)) False =
      (33, replicate 33 0, 0, 456)"
    by (simp add: toy_lib_def)
  show ?thesis
    using tchf_speech_received [OF decode_ok_toy wf _ _ _ demo_block_ok demo_block_ok dec]
    by (simp add: demo_tch_simps)
qed

section \<open>Stealing\<close>

lemma queue_take_other:
  "fst (queue_take P (snd (queue_take (Not \<circ> P) q))) = fst (queue_take P q)"
  by (induction q) (auto split: prod.splits)

lemma dequeue_tch_eq:
  "l1sched_lchan_prim_dequeue_tch True v =
     (fst (queue_take (\<lambda>m. length (mb_l2 m) = GSM_MACBLOCK_LEN) (lc_tx_prims (lv_lchan v))),
      upd_lchan (\<lambda>lc. lc\<lparr>lc_tx_prims := snd (queue_take (\<lambda>m. length (mb_l2 m) = GSM_MACBLOCK_LEN)
        (lc_tx_prims (lv_lchan v)))\<rparr>) v)"
  "l1sched_lchan_prim_dequeue_tch False v =
     (fst (queue_take (\<lambda>m. length (mb_l2 m) \<noteq> GSM_MACBLOCK_LEN) (lc_tx_prims (lv_lchan v))),
      upd_lchan (\<lambda>lc. lc\<lparr>lc_tx_prims := snd (queue_take (\<lambda>m. length (mb_l2 m) \<noteq> GSM_MACBLOCK_LEN)
        (lc_tx_prims (lv_lchan v)))\<rparr>) v)"
  by (simp_all add: l1sched_lchan_prim_dequeue_tch_def split_def Let_def)

definition tch_rest :: "msgb list \<Rightarrow> msgb list" where
  "tch_rest q = snd (queue_take (\<lambda>m. length (mb_l2 m) = GSM_MACBLOCK_LEN)
     (snd (queue_take (\<lambda>m. length (mb_l2 m) \<noteq> GSM_MACBLOCK_LEN) q)))"

text \<open>A FACCH frame steals a speech block. On a full-rate channel in a speech
  mode, when the queue holds a FACCH frame and the encoder accepts it, the first burst of a block
  takes the first FACCH frame and the first speech frame from the queue and confirms the FACCH
  frame only: the speech frame is gone without a confirmation.\<close>

theorem tchf_facch_steals:
  assumes "codec_len_ok L" and "view_wf L v" and "lc_active (lv_lchan v)" and "br_wf br" and "br_bid br = 0"
    and "ld_tx_fn (l1sched_lchan_desc L (lc_type (lv_lchan v))) = Some TX_TCHF_FN"
    and "lc_tch_mode (lv_lchan v) = GSM48_CMODE_SPEECH_V1 \<or> lc_tch_mode (lv_lchan v) = GSM48_CMODE_SPEECH_EFR"
    and "fst (queue_take (\<lambda>m. length (mb_l2 m) = GSM_MACBLOCK_LEN) (lc_tx_prims (lv_lchan v))) = Some f"
    and "\<And>b. fst (gsm0503_tch_fr_encode L b (Some (mb_l2 f))) = 0"
  shows "\<exists>br' v' p. tx_tchf_fn L v br = Some (0, br', v') \<and> prim_to_cnf (br_fn br) (mb_prim f) = Some p \<and>
    lv_out v' = lv_out v @ [f\<lparr>mb_prim := p\<rparr>] \<and> lc_tx_prims (lv_lchan v') = tch_rest (lc_tx_prims (lv_lchan v))"
proof -
  let ?q = "lc_tx_prims (lv_lchan v)" and ?P = "\<lambda>m. length (mb_l2 m) = GSM_MACBLOCK_LEN"
  obtain bs where bs: "lc_tx_bursts (lv_lchan v) = Some bs" "length bs = 2784"
    using tchf_bufs(2) [OF assms(2,3,6)] by (auto simp: tx24_def)
  obtain bs' where sh: "shift_bursts 4 bs = Some bs'" "length bs' = 2784"
    using shift_bursts_Some [of bs 4] bs(2) by (simp add: length_chunk)
  have fac: "fst (queue_take ?P (snd (queue_take (\<lambda>m. \<not> ?P m) ?q))) = Some f"
    using queue_take_other [of ?P ?q] assms(8) by (simp add: comp_def)
  have "f \<in> set ?q"
    using queue_take_SomeD [of ?P ?q f] assms(8) by (cases "queue_take ?P ?q") simp
  then have req: "prim_is_req (mb_prim f)"
    using assms(2) by (auto simp: view_wf_def lchan_wf_def list_all_iff)
  obtain coded where enc: "gsm0503_tch_fr_encode L bs' (Some (mb_l2 f)) = (0, coded)"
    using assms(9) [of bs'] by (cases "gsm0503_tch_fr_encode L bs' (Some (mb_l2 f))") simp
  have clen: "length coded = 2784"
    using codec_len_okD(5) [OF assms(1), of bs' "Some (mb_l2 f)"] enc sh(2) by simp
  define u where "u = upd_lchan (\<lambda>lc. lc\<lparr>lc_tx_bursts := Some coded\<rparr>) (upd_lchan (\<lambda>lc. lc\<lparr>lc_tx_prims := tch_rest ?q\<rparr>)
    (upd_lchan (\<lambda>lc. lc\<lparr>lc_tx_bursts := Some bs', lc_tx_burst_mask := push_bit 4 (lc_tx_burst_mask lc)\<rparr>) v))"
  obtain p where p: "prim_to_cnf (br_fn br) (mb_prim f) = Some p"
    "l1sched_lchan_emit_data_cnf L (Some f) (br_fn br) u = Some (prim_to_user_rc L, u\<lparr>lv_out := lv_out u @ [f\<lparr>mb_prim := p\<rparr>]\<rparr>)"
    using emit_cnf_returns [OF req] by blast
  let ?w = "u\<lparr>lv_out := lv_out u @ [f\<lparr>mb_prim := p\<rparr>]\<rparr>"
  have "lc_tx_bursts (lv_lchan ?w) = Some coded" "br_bid br * 116 + 116 \<le> length coded" "unat (lc_tsc (lv_lchan ?w)) < 8"
    using clen assms(2,5) by (simp_all add: u_def view_wf_def lchan_wf_def)
  from send_burst_Some [OF this] obtain br' v' where
    s: "send_burst ?w br = Some (br', v')" "lv_out v' = lv_out ?w" "lc_tx_prims (lv_lchan v') = lc_tx_prims (lv_lchan ?w)"
    by auto
  have "tchf_encode L (fst (queue_take (\<lambda>m. \<not> ?P m) ?q)) (Some f) (br_fn br)
      (upd_lchan (\<lambda>lc. lc\<lparr>lc_tx_prims := tch_rest ?q\<rparr>)
        (upd_lchan (\<lambda>lc. lc\<lparr>lc_tx_bursts := Some bs', lc_tx_burst_mask := push_bit 4 (lc_tx_burst_mask lc)\<rparr>) v)) = Some ?w"
    using assms(7) enc p(2) by (auto simp: tchf_encode_def speech_sent_def tx_encode_def confirm_def u_def)
  then have "tx_tchf_fn L v br = Some (0, br', v')"
    using assms(5) bs(1) sh(1) fac s(1)
    by (simp add: tx_tchf_fn_def shift_tx_def dequeue_tch_eq tch_rest_def upd_lchan_def Let_def)
  then show ?thesis
    using p(1) s(2,3) by (simp add: u_def)
qed

definition tch_prim :: "nat \<Rightarrow> msgb" where
  "tch_prim n = demo_prim (replicate n 0x2b)"

lemma tch_prim_simps: "length (mb_l2 (tch_prim n)) = n" "prim_is_req (mb_prim (tch_prim n))"
  "prim_to_cnf fn (mb_prim (tch_prim n)) \<noteq> None"
  by (simp_all add: tch_prim_def demo_prim_def)

theorem tchf_facch_steals_witness:
  "\<exists>br' v' p. tx_tchf_fn toy_lib (demo_tch L1SCHED_TCHF GSM48_CMODE_SPEECH_V1 [tch_prim 33, tch_prim 33, tch_prim 23])
      (empty_req 1 8 0) = Some (0, br', v') \<and> lv_out v' = [(tch_prim 23)\<lparr>mb_prim := p\<rparr>] \<and>
    lc_tx_prims (lv_lchan v') = [tch_prim 33]"
proof -
  let ?q = "[tch_prim 33, tch_prim 33, tch_prim 23]"
  have wf: "view_wf toy_lib (demo_tch L1SCHED_TCHF GSM48_CMODE_SPEECH_V1 ?q)"
    by (rule view_wf_demo_tch) (simp_all add: gsm_nbits tch_prim_simps)
  have br: "br_wf (empty_req 1 8 0)" "br_bid (empty_req 1 8 0) = 0"
    by (simp_all add: br_wf_def empty_req_def)
  have q: "fst (queue_take (\<lambda>m. length (mb_l2 m) = GSM_MACBLOCK_LEN)
      (lc_tx_prims (lv_lchan (demo_tch L1SCHED_TCHF GSM48_CMODE_SPEECH_V1 ?q)))) = Some (tch_prim 23)"
    by (simp add: demo_tch_simps tch_prim_simps gsm_nbits)
  have rest: "tch_rest ?q = [tch_prim 33]"
    by (simp add: tch_rest_def tch_prim_simps gsm_nbits)
  have enc: "\<And>b. fst (gsm0503_tch_fr_encode toy_lib b (Some (mb_l2 (tch_prim 23)))) = 0"
    by (simp add: toy_lib_def)
  obtain br' v' p where
    "tx_tchf_fn toy_lib (demo_tch L1SCHED_TCHF GSM48_CMODE_SPEECH_V1 ?q) (empty_req 1 8 0) = Some (0, br', v')"
    "lv_out v' = lv_out (demo_tch L1SCHED_TCHF GSM48_CMODE_SPEECH_V1 ?q) @ [(tch_prim 23)\<lparr>mb_prim := p\<rparr>]"
    "lc_tx_prims (lv_lchan v') = tch_rest (lc_tx_prims (lv_lchan (demo_tch L1SCHED_TCHF GSM48_CMODE_SPEECH_V1 ?q)))"
    using tchf_facch_steals [OF codec_len_ok_toy wf _ br _ _ q enc] by (auto simp: demo_tch_simps)
  then show ?thesis by (auto simp: demo_tch_simps rest)
qed

text \<open>A data frame of the wrong length aborts the process: in a CSD mode,
  when the frame at the head of the queue is not of the length of the mode (and no FACCH frame is
  queued), asking the handler for the first burst of a block fails its assertion. The queue is
  filled by the upper layers, and nothing checks the length of a frame on its way there.\<close>

theorem tchf_csd_length_aborts:
  assumes "tchf_csd_len (lc_tch_mode (lv_lchan v)) = Some n" and "br_bid br = 0"
    and "lc_tx_prims (lv_lchan v) = m # q" and "length (mb_l2 m) \<noteq> n"
    and "list_all (\<lambda>m. length (mb_l2 m) \<noteq> GSM_MACBLOCK_LEN) (m # q)"
  shows "tx_tchf_fn L v br = None"
proof -
  have "queue_take (\<lambda>m. length (mb_l2 m) = GSM_MACBLOCK_LEN) q = (None, q)"
    using assms(5) by (simp add: queue_take_spec first_idx_None_iff list_all_iff split: option.splits)
  moreover have "csd_tch L k n (Some m) fn u = None" for k fn u
    using assms(4) by (simp add: csd_tch_def)
  ultimately have "tchf_encode L (Some m) None (br_fn br) u = None"
    if "lc_tch_mode (lv_lchan u) = lc_tch_mode (lv_lchan v)" for u
    using assms(1) that by (auto simp: tchf_encode_def tchf_csd_len_def split: if_splits)
  then show ?thesis
    using assms(2,3,5) \<open>queue_take _ q = _\<close>
    by (auto simp: tx_tchf_fn_def dequeue_tch_eq bind_eq_None_conv shift_tx_def)
qed

theorem tchf_csd_length_aborts_witness:
  "tx_tchf_fn toy_lib (demo_tch L1SCHED_TCHF GSM48_CMODE_DATA_14k5 [tch_prim 240]) (empty_req 1 8 0) = None"
  by (rule tchf_csd_length_aborts [where m = "tch_prim 240" and n = 290 and q = "[]"])
    (simp_all add: demo_tch_simps tchf_csd_len_def tch_prim_simps empty_req_def gsm_nbits)

end
