(* ===== verification/Sched_Tchh.thy ===== *)
theory Sched_Tchh
  imports Sched_Tchf
begin

text \<open>
  The handlers of the half-rate traffic channels (\<^verbatim>\<open>sched_lchan_tchh.c\<close>): two bursts
  per block, speech interleaved over four bursts, FACCH over six, data over 22. Which frames may
  start or end a FACCH or data block is fixed by tables over the frame number modulo 26. A FACCH
  frame steals two speech blocks in each direction: \<^verbatim>\<open>dl_ongoing_facch\<close> and
  \<^verbatim>\<open>ul_facch_blocks\<close> remember the second.
\<close>

section \<open>The tables\<close>

definition sched_tchh_dl_amr_cmi_f_map :: "u32 \<Rightarrow> bool" where
  "sched_tchh_dl_amr_cmi_f_map = frame_map [15, 23, 6, 16, 24, 7]"

definition sched_tchh_ul_amr_cmi_a_map :: "u32 \<Rightarrow> bool" where
  "sched_tchh_ul_amr_cmi_a_map = frame_map [0, 8, 17, 1, 9, 18]"

definition sched_tchh_dl_facch_f_map :: "u32 \<Rightarrow> bool" where
  "sched_tchh_dl_facch_f_map = frame_map [15, 16, 23, 24, 6, 7]"

definition sched_tchh_dl_facch_a_map :: "u32 \<Rightarrow> bool" where
  "sched_tchh_dl_facch_a_map = frame_map [4, 5, 13, 14, 21, 22]"

definition sched_tchh_ul_facch_a_map :: "u32 \<Rightarrow> bool" where
  "sched_tchh_ul_facch_a_map = frame_map [0, 1, 8, 9, 17, 18]"

definition sched_tchh_ul_csd_a_map :: "u32 \<Rightarrow> bool" where
  "sched_tchh_ul_csd_a_map = frame_map [0, 1, 8, 9, 17, 18]"

definition sched_tchh_dl_csd_v_map :: "u32 \<Rightarrow> bool" where
  "sched_tchh_dl_csd_v_map = frame_map [19, 20, 2, 3, 10, 11]"

section \<open>Receiving\<close>

definition decode_hr_facch :: "libosmo \<Rightarrow> lchan_view \<Rightarrow> (int \<times> lchan_view) option" where
  "decode_hr_facch L v =
     do { tail \<leftarrow> rx_tail8 v;
          let (rc, data, n_errors, n_bits_total) = gsm0503_tch_decode L TCH_HR_FACCH tail
          in if rc \<noteq> int GSM_MACBLOCK_LEN then Some (rc, v)
             else do {
               v \<leftarrow> meas_avg_view 6 v;
               (_, v) \<leftarrow> l1sched_lchan_emit_data_ind L data GSM_MACBLOCK_LEN n_errors n_bits_total False v;
               Some (int GSM_MACBLOCK_LEN, v) } }"

text \<open>The bits of the mask that a block of the mode needs.\<close>

definition tchh_complete :: "u8 \<Rightarrow> u32 \<Rightarrow> bool" where
  "tchh_complete mode mk =
     (if mode = GSM48_CMODE_SIGN then mk AND 0x3f = 0x3f
      else if mode = GSM48_CMODE_DATA_6k0 \<or> mode = GSM48_CMODE_DATA_3k6 then mk AND 0x3fffff = 0x3fffff
      else mk AND 0x0f = 0x0f)"

definition tchh_decode :: "libosmo \<Rightarrow> u32 \<Rightarrow> lchan_view \<Rightarrow> (tch_decoded \<times> lchan_view) option" where
  "tchh_decode L fn v =
     do { tail \<leftarrow> rx_tail8 v;
          bursts \<leftarrow> lc_rx_bursts (lv_lchan v);
          let mode = lc_tch_mode (lv_lchan v); amr = lc_amr (lv_lchan v) in
          if mode = GSM48_CMODE_SIGN \<or> mode = GSM48_CMODE_SPEECH_V1 then
            Some (tch_plain (gsm0503_tch_hr_decode L tail (\<not> sched_tchh_dl_facch_f_map fn)), v)
          else if mode = GSM48_CMODE_SPEECH_AMR then
            amr_frame L (gsm0503_tch_ahs_decode_dtx L tail (\<not> sched_tchh_dl_facch_f_map fn)
              (\<not> sched_tchh_dl_amr_cmi_f_map fn)
              (am_codec amr) (am_codecs amr) (am_dl_ft amr) (am_dl_cmr amr) (am_last_dtx amr)) v
          else if mode = GSM48_CMODE_DATA_6k0 \<or> mode = GSM48_CMODE_DATA_3k6 then do {
            (_, v) \<leftarrow> (if sched_tchh_dl_facch_f_map fn then decode_hr_facch L v else Some (0, v));
            Some (if \<not> sched_tchh_dl_csd_v_map fn then TCH_RETURN 0
                  else tch_plain (gsm0503_tch_decode L
                    (if mode = GSM48_CMODE_DATA_6k0 then TCH_HR48 else TCH_HR24) bursts), v) }
          else Some (TCH_RETURN (- EINVAL), v) }"

definition tchh_traffic :: "libosmo \<Rightarrow> u8 list \<Rightarrow> nat \<Rightarrow> int \<Rightarrow> int \<Rightarrow> lchan_view \<Rightarrow> (int \<times> lchan_view) option" where
  "tchh_traffic L data data_len n_errors n_bits_total v =
     do { v \<leftarrow> meas_avg_view 4 v;
          l1sched_lchan_emit_data_ind L data data_len n_errors n_bits_total True v }"

definition tchh_emit :: "libosmo \<Rightarrow> tch_decoded \<Rightarrow> lchan_view \<Rightarrow> (int \<times> lchan_view) option" where
  "tchh_emit L r v = (case r of
       TCH_RETURN rc \<Rightarrow> Some (rc, v)
     | TCH_FRAME rc data amr n_errors n_bits_total \<Rightarrow>
         if rc < 4 then tchh_traffic L data 0 n_errors n_bits_total v
         else if rc = int GSM_MACBLOCK_LEN then do {
           v \<leftarrow> meas_avg_view 6 (upd_lchan (\<lambda>lc. lc\<lparr>lc_dl_ongoing_facch := True\<rparr>) v);
           (_, v) \<leftarrow> l1sched_lchan_emit_data_ind L (drop amr data) GSM_MACBLOCK_LEN n_errors n_bits_total False v;
           if lc_tch_mode (lv_lchan v) = GSM48_CMODE_SIGN then Some (0, v)
           else tchh_traffic L data 0 n_errors n_bits_total v }
         else tchh_traffic L data (nat rc) n_errors n_bits_total v)"

definition rx_tchh_fn :: "libosmo \<Rightarrow> lchan_view \<Rightarrow> burst_ind \<Rightarrow> (int \<times> lchan_view) option" where
  "rx_tchh_fn L v bi =
     do { v \<leftarrow> (if bi_bid bi = 0 then shift_rx 2 v else Some v);
          if lc_rx_burst_mask (lv_lchan v) = 0 \<and>
             (bi_bid bi > 0 \<or> lc_tch_mode (lv_lchan v) = GSM48_CMODE_SIGN \<and> \<not> sched_tchh_dl_facch_a_map (bi_fn bi))
          then Some (0, v)
          else do {
            v \<leftarrow> store_burst (20 + bi_bid bi) bi (note_burst bi v);
            if bi_bid bi \<noteq> 1 then Some (0, v)
            else if \<not> tchh_complete (lc_tch_mode (lv_lchan v)) (lc_rx_burst_mask (lv_lchan v)) then Some (0, v)
            else if lc_dl_ongoing_facch (lv_lchan v) then do {
              (_, v) \<leftarrow> tchh_traffic L [] 0 0 0 v;
              Some (0, upd_lchan (\<lambda>lc. lc\<lparr>lc_dl_ongoing_facch := False\<rparr>) v) }
            else do {
              (r, v) \<leftarrow> tchh_decode L (bi_fn bi) v;
              tchh_emit L r v } } }"

section \<open>Transmitting\<close>

text \<open>The code after \<^verbatim>\<open>send_burst\<close> also counts the bursts of a FACCH frame down.\<close>

definition tchh_send :: "lchan_view \<Rightarrow> burst_req \<Rightarrow> (int \<times> burst_req \<times> lchan_view) option" where
  "tchh_send v br =
     do { (br, v) \<leftarrow> send_burst v br;
          Some (0, br, upd_lchan (\<lambda>lc. lc\<lparr>lc_ul_facch_blocks :=
            (if lc_ul_facch_blocks lc \<noteq> 0 then lc_ul_facch_blocks lc - 1 else lc_ul_facch_blocks lc)\<rparr>) v) }"

definition tchh_speech_sent :: "libosmo \<Rightarrow> (u8 list \<Rightarrow> int \<times> u8 list) \<Rightarrow> msgb option \<Rightarrow> u32 \<Rightarrow> lchan_view \<Rightarrow>
    lchan_view option" where
  "tchh_speech_sent L enc msg fn v =
     do { (rc, v) \<leftarrow> tx_encode enc v;
          if rc = 0 then
            confirm L msg fn
              (if (case msg of None \<Rightarrow> False | Some m \<Rightarrow> length (mb_l2 m) = GSM_MACBLOCK_LEN)
               then upd_lchan (\<lambda>lc. lc\<lparr>lc_ul_facch_blocks := 6\<rparr>) v else v)
          else Some v }"

definition tchh_encode :: "libosmo \<Rightarrow> msgb option \<Rightarrow> msgb option \<Rightarrow> u32 \<Rightarrow> lchan_view \<Rightarrow> lchan_view option" where
  "tchh_encode L msg_tch msg_facch fn v =
     (let mode = lc_tch_mode (lv_lchan v);
          msg = (if msg_facch \<noteq> None then msg_facch else msg_tch) in
      if mode = GSM48_CMODE_SIGN \<and> \<not> sched_tchh_ul_facch_a_map fn then Some v
      else if mode = GSM48_CMODE_SIGN \<or> mode = GSM48_CMODE_SPEECH_V1 then
        (let msg = (if mode = GSM48_CMODE_SIGN \<and> msg = None then l1sched_lchan_prim_dummy_lapdm L v else msg)
         in tchh_speech_sent L (\<lambda>b. gsm0503_tch_hr_encode L b (map_option mb_l2 msg)) msg fn v)
      else if mode = GSM48_CMODE_SPEECH_AMR then
        (let amr_fn_is_cmr = (\<not> sched_tchh_ul_amr_cmi_a_map fn) in do {
           (msg, offset, v) \<leftarrow> amr_speech L msg (msg_facch \<noteq> None) amr_fn_is_cmr v;
           let amr = lc_amr (lv_lchan v) in
           tchh_speech_sent L (\<lambda>b. gsm0503_tch_ahs_encode L b (map_option (drop offset \<circ> mb_l2) msg)
             amr_fn_is_cmr (am_codec amr) (am_codecs amr) (am_ul_ft amr) (am_ul_cmr amr)) msg fn v })
      else if mode = GSM48_CMODE_DATA_6k0 then
        do { v \<leftarrow> csd_tch L TCH_HR48 (4 * 60) msg_tch fn v; csd_facch L TCH_HR_FACCH msg_facch fn v }
      else if mode = GSM48_CMODE_DATA_3k6 then
        do { v \<leftarrow> csd_tch L TCH_HR24 (4 * 36) msg_tch fn v; csd_facch L TCH_HR_FACCH msg_facch fn v }
      else Some v)"

text \<open>Whether the first block ever sent has to wait, and whether a block has nothing to encode.\<close>

definition tchh_tx_wait :: "u8 \<Rightarrow> u32 \<Rightarrow> bool" where
  "tchh_tx_wait mode fn =
     (if mode = GSM48_CMODE_SIGN then \<not> sched_tchh_ul_facch_a_map fn
      else if mode = GSM48_CMODE_DATA_6k0 \<or> mode = GSM48_CMODE_DATA_3k6 then \<not> sched_tchh_ul_csd_a_map fn
      else False)"

definition tx_tchh_fn :: "libosmo \<Rightarrow> lchan_view \<Rightarrow> burst_req \<Rightarrow> (int \<times> burst_req \<times> lchan_view) option" where
  "tx_tchh_fn L v br =
     (let mode = lc_tch_mode (lv_lchan v); fn = br_fn br in
      if br_bid br > 0 then
        if \<not> bit (lc_tx_burst_mask (lv_lchan v)) 0 then Some (- ENOENT, br, v)
        else tchh_send v br
      else if lc_tx_burst_mask (lv_lchan v) = 0 \<and> tchh_tx_wait mode fn then Some (0, br, v)
      else do {
        v \<leftarrow> shift_tx 2 v;
        if lc_ul_facch_blocks (lv_lchan v) > 2 then
          (let (msg, v) = l1sched_lchan_prim_dequeue_tch False v in tchh_send v br)
        else if (mode = GSM48_CMODE_DATA_6k0 \<or> mode = GSM48_CMODE_DATA_3k6) \<and> \<not> sched_tchh_ul_csd_a_map fn then
          tchh_send v br
        else
          let (msg_tch, v) = l1sched_lchan_prim_dequeue_tch False v;
              (msg_facch, v) = (if sched_tchh_ul_facch_a_map fn then l1sched_lchan_prim_dequeue_tch True v
                                else (None, v))
          in do {
            v \<leftarrow> tchh_encode L msg_tch msg_facch fn v;
            tchh_send v br } })"

section \<open>The receive handler returns\<close>

lemma decode_hr_facch_returns:
  assumes "rx24 v" "mh_head (lc_meas_hist (lv_lchan v)) \<noteq> None" "decode_ok L"
  shows "\<exists>rc v'. decode_hr_facch L v = Some (rc, v') \<and> rx_keeps L v v'"
proof -
  obtain tail where tail: "rx_tail8 v = Some tail" using rx_tail8_returns [OF assms(1)] by blast
  obtain rc d e b where d: "gsm0503_tch_decode L TCH_HR_FACCH tail = (rc, d, e, b)"
    by (cases "gsm0503_tch_decode L TCH_HR_FACCH tail")
  show ?thesis
  proof (cases "rc = 23")
    case False
    then show ?thesis using tail d by (simp add: decode_hr_facch_def gsm_nbits rx_keeps_refl)
  next
    case True
    then have len: "23 \<le> length d" using decode_okD(5) [OF assms(3), of TCH_HR_FACCH tail] d by (simp add: dec_ok_def)
    obtain v1 where v1: "meas_avg_view 6 v = Some v1" "rx_keeps L v v1" using rx_meas_avg [OF assms(2), of 6 L] by auto
    obtain v2 where "l1sched_lchan_emit_data_ind L d GSM_MACBLOCK_LEN e b False v1 = Some (prim_to_user_rc L, v2)"
      "rx_keeps L v1 v2"
      using rx_emit [of GSM_MACBLOCK_LEN d L e b False v1] len by (auto simp: gsm_nbits)
    then show ?thesis using True tail d v1 rx_keeps_trans by (auto simp: decode_hr_facch_def gsm_nbits)
  qed
qed

lemma tchh_decode_returns:
  assumes "view_wf L v" "rx24 v" "mh_head (lc_meas_hist (lv_lchan v)) \<noteq> None" "decode_ok L"
  shows "\<exists>r v'. tchh_decode L fn v = Some (r, v') \<and> rx_keeps L v v' \<and> decoded_ok r"
proof -
  obtain tail where tail: "rx_tail8 v = Some tail" using rx_tail8_returns [OF assms(2)] by blast
  obtain bs where bs: "lc_rx_bursts (lv_lchan v) = Some bs" using assms(2) by (auto simp: rx24_def)
  obtain rc v' where f: "decode_hr_facch L v = Some (rc, v')" "rx_keeps L v v'"
    using decode_hr_facch_returns [OF assms(2-4)] by blast
  have codec: "length (am_codec (lc_amr (lv_lchan v))) = 4"
    using assms(1) by (simp add: view_wf_def lchan_wf_def)
  note plain = decoded_plain [OF decode_okD(4) [OF assms(4)]] decoded_plain [OF decode_okD(5) [OF assms(4)]]
  have ret: "decoded_ok (TCH_RETURN x)" for x by (simp add: decoded_ok_def)
  let ?r = "\<lambda>y x. gsm0503_tch_ahs_decode_dtx L tail y x (am_codec (lc_amr (lv_lchan v)))
    (am_codecs (lc_amr (lv_lchan v))) (am_dl_ft (lc_amr (lv_lchan v))) (am_dl_cmr (lc_amr (lv_lchan v)))
    (am_last_dtx (lc_amr (lv_lchan v)))"
  have amr: "\<exists>d v'. amr_frame L (?r y x) v = Some (d, v') \<and> rx_keeps L v v' \<and> decoded_ok d" for y x
    using amr_frame_returns [OF decode_okD(7) [OF assms(4)] assms(4) codec] by blast
  show ?thesis
    by (simp add: tchh_decode_def tail bs f plain ret amr Let_def rx_keeps_refl)
qed

lemma tchh_traffic_returns:
  assumes "n \<le> length d" "n \<le> 512" "mh_head (lc_meas_hist (lv_lchan v)) \<noteq> None"
  shows "\<exists>m v'. tchh_traffic L d n e b v = Some (prim_to_user_rc L, v') \<and> rx_keeps L v v' \<and>
    lv_out v' = lv_out v @ [m] \<and> mb_l2 m = take n d \<and> ch_traffic (prim_chdr_of (mb_prim m))"
proof -
  obtain v1 where v1: "meas_avg_view 4 v = Some v1" "rx_keeps L v v1" "lv_out v1 = lv_out v"
    using rx_meas_avg [OF assms(3), of 4 L] by auto
  obtain m v2 where v2: "l1sched_lchan_emit_data_ind L d n e b True v1 = Some (prim_to_user_rc L, v2)"
    "rx_keeps L v1 v2" "lv_out v2 = lv_out v1 @ [m]" "mb_l2 m = take n d" "ch_traffic (prim_chdr_of (mb_prim m))"
    using rx_emit [OF assms(1,2), of L e b True v1] by blast
  have "rx_keeps L v v2" using v1(2) v2(2) by (rule rx_keeps_trans)
  then show ?thesis using v1 v2 by (simp add: tchh_traffic_def)
qed

lemma rx_keeps_ongoing: "rx_keeps L v (upd_lchan (\<lambda>lc. lc\<lparr>lc_dl_ongoing_facch := b\<rparr>) v)"
  using keeps_lchan_field(1) by (simp add: rx_keeps_def)

lemma rx_keeps_head: "rx_keeps L v v' \<Longrightarrow> mh_head (lc_meas_hist (lv_lchan v)) \<noteq> None \<Longrightarrow>
    mh_head (lc_meas_hist (lv_lchan v')) \<noteq> None"
  by (simp add: rx_keeps_def)

lemma tchh_emit_returns:
  assumes "decoded_ok r" "mh_head (lc_meas_hist (lv_lchan v)) \<noteq> None"
  shows "\<exists>rc v'. tchh_emit L r v = Some (rc, v') \<and> rx_keeps L v v'"
proof (cases r)
  case (TCH_RETURN rc)
  then show ?thesis by (simp add: tchh_emit_def rx_keeps_refl)
next
  case (TCH_FRAME rc d amr e b)
  consider "rc < 4" | "rc = 23" "23 + amr \<le> length d" | "4 \<le> rc" "rc \<noteq> 23" "nat rc \<le> length d" "nat rc \<le> 512"
    using assms(1) TCH_FRAME by (fastforce simp: decoded_ok_def)
  then show ?thesis
  proof cases
    case 1
    then show ?thesis
      using TCH_FRAME tchh_traffic_returns [of 0 d v L e b] assms(2) by (auto simp: tchh_emit_def)
  next
    case 2
    let ?v = "upd_lchan (\<lambda>lc. lc\<lparr>lc_dl_ongoing_facch := True\<rparr>) v"
    obtain v1 where v1: "meas_avg_view 6 ?v = Some v1" "rx_keeps L ?v v1"
      using rx_meas_avg [of ?v 6 L] assms(2) by auto
    have k1: "rx_keeps L v v1" using rx_keeps_ongoing v1(2) by (rule rx_keeps_trans)
    from 2 have "GSM_MACBLOCK_LEN \<le> length (drop amr d)" "GSM_MACBLOCK_LEN \<le> 512" by (simp_all add: gsm_nbits)
    from rx_emit [OF this, of L e b False v1] obtain v2 where
      v2: "l1sched_lchan_emit_data_ind L (drop amr d) GSM_MACBLOCK_LEN e b False v1 = Some (prim_to_user_rc L, v2)"
        "rx_keeps L v1 v2" by blast
    have k2: "rx_keeps L v v2" using k1 v2(2) by (rule rx_keeps_trans)
    from tchh_traffic_returns [of 0 d v2 L e b] rx_keeps_head [OF k2 assms(2)] obtain v3 where
      v3: "tchh_traffic L d 0 e b v2 = Some (prim_to_user_rc L, v3)" "rx_keeps L v2 v3" by auto
    have "rx_keeps L v v3" using k2 v3(2) by (rule rx_keeps_trans)
    then show ?thesis
      using TCH_FRAME 2(1) v1(1) v2(1) v3(1) k2
      by (cases "lc_tch_mode (lv_lchan v2) = GSM48_CMODE_SIGN") (simp_all add: tchh_emit_def gsm_nbits)
  next
    case 3
    from tchh_traffic_returns [OF 3(3,4) assms(2), of L e b] 3(1,2) show ?thesis
      using TCH_FRAME by (auto simp: tchh_emit_def gsm_nbits)
  qed
qed

text \<open>Storing a burst never fails and never changes what a later step needs.\<close>

lemma rx_tchh_step:
  assumes "view_wf L v" "lc_rx_bursts (lv_lchan v) = Some bs" "length bs = 2784" "bi_wf bi" "bi_bid bi < 4"
    and "decode_ok L" and "bi_bid bi = 0 \<and> lc_tch_mode (lv_lchan v) \<noteq> GSM48_CMODE_SIGN \<or>
      bi_bid bi \<noteq> 0 \<and> lc_rx_burst_mask (lv_lchan v) \<noteq> 0"
  shows "\<exists>rc v' bs'. rx_tchh_fn L v bi = Some (rc, v') \<and> keeps L v v' \<and>
    bs' = tchf_slot bi (if bi_bid bi = 0 then drop 232 (take 2552 bs) @ replicate 232 0 @ drop 2552 bs else bs) \<and>
    lc_rx_bursts (lv_lchan v') = Some bs' \<and> length bs' = 2784 \<and> lc_rx_burst_mask (lv_lchan v') \<noteq> 0"
proof -
  let ?bs = "if bi_bid bi = 0 then drop 232 (take 2552 bs) @ replicate 232 0 @ drop 2552 bs else bs"
  obtain v0 where v0: "(if bi_bid bi = 0 then shift_rx 2 v else Some v) = Some v0" "keeps L v v0"
    "lc_rx_bursts (lv_lchan v0) = Some ?bs" "bi_bid bi \<noteq> 0 \<Longrightarrow> v0 = v"
  proof (cases "bi_bid bi = 0")
    case True
    have "shift_bursts 2 bs = Some (drop 232 (take 2552 bs) @ replicate 232 0 @ drop 2552 bs)"
      using assms(3) shift_bursts_Some [of bs 2] by (simp add: chunk_def take_drop)
    then show ?thesis
      using that True assms(2) keeps_shift_rx by (fastforce simp: shift_rx_def)
  next
    case False
    then show ?thesis using that assms(2) keeps_refl by simp
  qed
  have wf0: "view_wf L v0" using keepsD [OF v0(2) assms(1)] by simp
  have mode0: "lc_tch_mode (lv_lchan v0) = lc_tch_mode (lv_lchan v)"
    using v0(2) by (simp add: keeps_def same_chan_def)
  have len: "length ?bs = 2784" using assms(3) by simp
  obtain v1 where v1: "store_burst (20 + bi_bid bi) bi (note_burst bi v0) = Some v1" "keeps L v0 v1"
    "lc_rx_bursts (lv_lchan v1) = Some (tchf_slot bi ?bs)" "length (tchf_slot bi ?bs) = 2784"
    "mh_head (lc_meas_hist (lv_lchan v1)) \<noteq> None" "lc_rx_burst_mask (lv_lchan v1) \<noteq> 0"
    using tchf_store [OF wf0 v0(3) len assms(4,5,6)] by blast
  have k1: "keeps L v v1" using v0(2) v1(2) by (rule keeps_trans)
  have wf1: "view_wf L v1" using keepsD [OF k1 assms(1)] by simp
  have rx1: "rx24 v1" using v1(3,4) by (simp add: rx24_def)
  obtain v2 where v2: "tchh_traffic L [] 0 0 0 v1 = Some (prim_to_user_rc L, v2)" "rx_keeps L v1 v2"
    using tchh_traffic_returns [of 0 "[]" v1 L 0 0] v1(5) by auto
  let ?v2 = "upd_lchan (\<lambda>lc. lc\<lparr>lc_dl_ongoing_facch := False\<rparr>) v2"
  have r2: "rx_keeps L v1 ?v2" using v2(2) rx_keeps_ongoing by (rule rx_keeps_trans)
  obtain r v3 where v3: "tchh_decode L (bi_fn bi) v1 = Some (r, v3)" "rx_keeps L v1 v3" "decoded_ok r"
    using tchh_decode_returns [OF wf1 rx1 v1(5) assms(6)] by blast
  obtain rc v4 where v4: "tchh_emit L r v3 = Some (rc, v4)" "rx_keeps L v3 v4"
    using tchh_emit_returns [OF v3(3) rx_keeps_head [OF v3(2) v1(5)]] by blast
  have r4: "rx_keeps L v1 v4" using v3(2) v4(2) by (rule rx_keeps_trans)
  have go: "\<not> (lc_rx_burst_mask (lv_lchan v0) = 0 \<and>
      (bi_bid bi > 0 \<or> lc_tch_mode (lv_lchan v0) = GSM48_CMODE_SIGN \<and> \<not> sched_tchh_dl_facch_a_map (bi_fn bi)))"
    using assms(7) v0(4) mode0 by auto
  obtain rc' v' where res: "rx_tchh_fn L v bi = Some (rc', v')" "rx_keeps L v1 v'"
  proof (cases "bi_bid bi \<noteq> 1 \<or> \<not> tchh_complete (lc_tch_mode (lv_lchan v1)) (lc_rx_burst_mask (lv_lchan v1))")
    case True
    then have "rx_tchh_fn L v bi = Some (0, v1)"
      unfolding rx_tchh_fn_def using v0(1) v1(1) go by auto
    then show ?thesis using that rx_keeps_refl by blast
  next
    case False
    then have "rx_tchh_fn L v bi =
        (if lc_dl_ongoing_facch (lv_lchan v1) then Some (0, ?v2) else Some (rc, v4))"
      unfolding rx_tchh_fn_def using v0(1) v1(1) go v2(1) v3(1) v4(1) by auto
    then show ?thesis using that r2 r4 by (cases "lc_dl_ongoing_facch (lv_lchan v1)") auto
  qed
  have "keeps L v v'" using k1 res(2) keeps_trans by (auto simp: rx_keeps_def)
  then show ?thesis
    using res v1(3,4,6) by (auto simp: rx_keeps_def)
qed

interpretation tchh_rx: rx_handler rx_tchh_fn tch_rx_pre
proof
  fix L v bi assume pre: "tch_rx_pre L (lv_lchan v) bi" and wf: "view_wf L v" and bi: "bi_wf bi"
  obtain bs where bs: "lc_rx_bursts (lv_lchan v) = Some bs" "length bs = 2784" "bi_bid bi < 4" "decode_ok L"
    using pre by (auto simp: tch_rx_pre_def)
  show "rx_post L v (rx_tchh_fn L v bi)"
  proof (cases "bi_bid bi = 0 \<and> lc_tch_mode (lv_lchan v) \<noteq> GSM48_CMODE_SIGN \<or> bi_bid bi \<noteq> 0 \<and> lc_rx_burst_mask (lv_lchan v) \<noteq> 0")
    case True
    from rx_tchh_step [OF wf bs(1,2) bi bs(3,4) True] show ?thesis
      using wf by (auto simp: rx_post_def keeps_def)
  next
    case False
    show ?thesis
    proof (cases "bi_bid bi = 0")
      case bid: True
      obtain v0 where v0: "shift_rx 2 v = Some v0" "rx24 v0"
        using shift_rx_returns [of v 2] bs by (auto simp: rx24_def)
      have k0: "keeps L v v0" using v0(1) by (rule keeps_shift_rx)
      have wf0: "view_wf L v0" using keepsD [OF k0 wf] by simp
      obtain xs where xs: "lc_rx_bursts (lv_lchan v0) = Some xs" "length xs = 2784" using v0(2) by (auto simp: rx24_def)
      obtain v1 where v1: "store_burst (20 + bi_bid bi) bi (note_burst bi v0) = Some v1" "keeps L v0 v1"
        using tchf_store [OF wf0 xs bi bs(3,4)] by blast
      have "keeps L v v1" using k0 v1(2) by (rule keeps_trans)
      then show ?thesis
        using bid v0(1) v1(1) k0 wf by (auto simp: rx_tchh_fn_def rx_post_def keeps_def)
    next
      case bid: False
      then show ?thesis using False wf by (simp add: rx_tchh_fn_def rx_post_def)
    qed
  qed
qed

text \<open>Outside the signalling mode a block replaces the two oldest of the 22 bursts in use; the last
  two bursts of the buffer are never written.\<close>

lemma rx_tchh_block:
  assumes "view_wf L v" "lc_rx_bursts (lv_lchan v) = Some bs" "length bs = 2784" "decode_ok L" "tch_block 2 bis"
    and "lc_tch_mode (lv_lchan v) \<noteq> GSM48_CMODE_SIGN"
  shows "\<exists>v'. rx_run (rx_tchh_fn L) v bis = Some v' \<and> keeps L v v' \<and>
    lc_rx_bursts (lv_lchan v') = Some (drop 232 (take 2552 bs) @ payloads bis @ drop 2552 bs)"
proof -
  obtain b0 b1 where bis: "bis = [b0, b1]"
    using length_tch_block [OF assms(5)] by (auto simp: eval_nat_numeral length_Suc_conv)
  have id: "bi_bid b0 = 0" "bi_bid b1 = 1" and wf: "bi_wf b0" "bi_wf b1"
    using assms(5) by (simp_all add: tch_block_def bis eval_nat_numeral)
  let ?p = "\<lambda>b. nb_payload (bi_burst b)" and ?D = "drop 232 (take 2552 bs)" and ?E = "drop 2552 bs"
  have len: "length (?p b0) = 116" "length (?p b1) = 116" "length ?D = 2320" "length ?E = 232"
    using wf assms(3) by (simp_all add: length_nb_payload bi_wf_def gsm_nbits)
  have z: "replicate 232 (0 :: u8) = replicate 116 0 @ replicate 116 0" by (simp flip: replicate_add)
  obtain c0 v0 where s0: "rx_tchh_fn L v b0 = Some (c0, v0)" "keeps L v v0" "lc_rx_burst_mask (lv_lchan v0) \<noteq> 0"
    "lc_rx_bursts (lv_lchan v0) = Some (?D @ ?p b0 @ replicate 116 0 @ ?E)"
    using rx_tchh_step [OF assms(1-3) wf(1) _ assms(4)] assms(6)
      tchf_slot_append [of ?D b0 "replicate 232 0 @ ?E"] len id by auto
  have w0: "view_wf L v0" using keepsD [OF s0(2) assms(1)] by simp
  have l0: "length (?D @ ?p b0 @ replicate 116 0 @ ?E) = 2784" using len by simp
  obtain c1 v1 where s1: "rx_tchh_fn L v0 b1 = Some (c1, v1)" "keeps L v0 v1"
    "lc_rx_bursts (lv_lchan v1) = Some (?D @ ?p b0 @ ?p b1 @ ?E)"
    using rx_tchh_step [OF w0 s0(4) l0 wf(2) _ assms(4)] tchf_slot_append [of "?D @ ?p b0" b1 "replicate 116 0 @ ?E"]
      len id s0(3) by auto
  have "keeps L v v1" using s0(2) s1(2) by (rule keeps_trans)
  then show ?thesis
    using s0(1) s1(1,3) by (simp add: bis payloads_def)
qed

interpretation tchh_win: slide_window "\<lambda>bis v. rx_run (rx_tchh_fn L) v bis"
    "\<lambda>v. take 2552 (the (lc_rx_bursts (lv_lchan v)))"
    "\<lambda>v. decode_ok L \<and> view_wf L v \<and> rx24 v \<and> lc_tch_mode (lv_lchan v) \<noteq> GSM48_CMODE_SIGN"
    "tch_block 2" payloads for L
proof
  fix v bis
  assume ok: "decode_ok L \<and> view_wf L v \<and> rx24 v \<and> lc_tch_mode (lv_lchan v) \<noteq> GSM48_CMODE_SIGN"
    and blk: "tch_block 2 bis"
  obtain bs where bs: "lc_rx_bursts (lv_lchan v) = Some bs" "length bs = 2784"
    using ok by (auto simp: rx24_def)
  obtain v' where v': "rx_run (rx_tchh_fn L) v bis = Some v'" "keeps L v v'"
    "lc_rx_bursts (lv_lchan v') = Some (drop 232 (take 2552 bs) @ payloads bis @ drop 2552 bs)"
    using rx_tchh_block [OF _ bs _ blk] ok by blast
  have "length (payloads bis) = 232" using length_payloads [OF blk] by simp
  then show "\<exists>s'. rx_run (rx_tchh_fn L) v bis = Some s' \<and>
      (decode_ok L \<and> view_wf L s' \<and> rx24 s' \<and> lc_tch_mode (lv_lchan s') \<noteq> GSM48_CMODE_SIGN) \<and>
      take 2552 (the (lc_rx_bursts (lv_lchan s'))) =
        drop (length (payloads bis)) (take 2552 (the (lc_rx_bursts (lv_lchan v))) @ payloads bis)"
    using v' bs ok by (simp add: keeps_def rx24_def same_chan_def)
qed

section \<open>The transmit handler returns\<close>

definition tchh_csd_len :: "u8 \<Rightarrow> nat option" where
  "tchh_csd_len mode =
     (if mode = GSM48_CMODE_DATA_6k0 then Some 240 else if mode = GSM48_CMODE_DATA_3k6 then Some 144 else None)"

definition tchh_tx_pre :: "libosmo \<Rightarrow> lchan_view \<Rightarrow> burst_req \<Rightarrow> bool" where
  "tchh_tx_pre L v br \<longleftrightarrow> codec_len_ok L \<and> br_bid br < 4 \<and> tx24 v \<and>
     \<not> L1SCHED_CHAN_IS_SACCH L (lc_type (lv_lchan v)) \<and> csd_queue_ok (tchh_csd_len (lc_tch_mode (lv_lchan v))) v"

lemma tchh_speech_sent_returns:
  assumes "tx24 v" "\<And>b. length (snd (enc b)) = length b" "taken None msg"
  shows "\<exists>v'. tchh_speech_sent L enc msg fn v = Some v' \<and> keeps L v v' \<and> tx24 v'"
proof -
  obtain rc v1 where v1: "tx_encode enc v = Some (rc, v1)" "keeps L v v1" "tx24 v1"
    using tx_encode_returns [OF assms(1), of enc L] assms(2) by blast
  let ?u = "if (case msg of None \<Rightarrow> False | Some m \<Rightarrow> length (mb_l2 m) = GSM_MACBLOCK_LEN)
      then upd_lchan (\<lambda>lc. lc\<lparr>lc_ul_facch_blocks := 6\<rparr>) v1 else v1"
  have u: "keeps L v1 ?u" "tx24 ?u"
    using keeps_lchan_field(2) [of L v1] keeps_refl v1(3) by (simp_all add: tx24_def)
  obtain v2 where v2: "confirm L msg fn ?u = Some v2" "keeps L ?u v2" "tx24 v2"
    using confirm_returns [OF u(2) taken_req [OF assms(3)]] by blast
  have "keeps L v ?u" using v1(2) u(1) by (rule keeps_trans)
  then have "keeps L v v2" using v2(2) by (rule keeps_trans)
  then show ?thesis using v1 v2 by (simp add: tchh_speech_sent_def)
qed

lemma tchh_encode_returns:
  assumes "codec_len_ok L" "view_wf L v" "tx24 v" "\<not> L1SCHED_CHAN_IS_SACCH L (lc_type (lv_lchan v))"
    and "taken (tchh_csd_len (lc_tch_mode (lv_lchan v))) msg_tch" "taken None msg_facch"
  shows "\<exists>v'. tchh_encode L msg_tch msg_facch fn v = Some v' \<and> keeps L v v' \<and> tx24 v'"
proof -
  let ?mode = "lc_tch_mode (lv_lchan v)" and ?msg = "if msg_facch \<noteq> None then msg_facch else msg_tch"
  have plain: "taken None msg" if "taken len msg" for len msg
    using that by (cases msg) (simp_all add: taken_def)
  have msg: "taken None ?msg" using plain [OF assms(5)] assms(6) by simp
  have dummy: "taken None (if a \<and> ?msg = None then l1sched_lchan_prim_dummy_lapdm L v else ?msg)" for a
    using msg dummy_lapdm_returns [OF assms(4)] by (auto simp: taken_def)
  have speech: "\<exists>v'. tchh_speech_sent L (\<lambda>b. gsm0503_tch_hr_encode L b p) m fn v = Some v' \<and> keeps L v v' \<and> tx24 v'"
    if "taken None m" for p m
    using tchh_speech_sent_returns [OF assms(3) codec_len_okD(6) [OF assms(1)] that] .
  have skip: "\<exists>v'. Some v = Some v' \<and> keeps L v v' \<and> tx24 v'" using assms(3) keeps_refl by blast
  note pair = csd_pair_returns [OF assms(3,1) _ assms(6)]
  consider "?mode = GSM48_CMODE_SIGN \<and> \<not> sched_tchh_ul_facch_a_map fn"
    | "\<not> (?mode = GSM48_CMODE_SIGN \<and> \<not> sched_tchh_ul_facch_a_map fn)" "?mode = GSM48_CMODE_SIGN \<or> ?mode = GSM48_CMODE_SPEECH_V1"
    | "?mode = GSM48_CMODE_SPEECH_AMR" | "?mode = GSM48_CMODE_DATA_6k0" | "?mode = GSM48_CMODE_DATA_3k6"
    | "?mode \<notin> {0, 1, 0x41, 0x0b, 0x13}"
    by blast
  then show ?thesis
  proof cases
    case 1
    show ?thesis unfolding tchh_encode_def Let_def if_P [OF 1] by (rule skip)
  next
    case 2
    show ?thesis
      unfolding tchh_encode_def Let_def if_not_P [OF 2(1)] if_P [OF 2(2)] by (rule speech [OF dummy])
  next
    case 3
    obtain msg' off v1 where v1: "amr_speech L ?msg (msg_facch \<noteq> None) (\<not> sched_tchh_ul_amr_cmi_a_map fn) v =
        Some (msg', off, v1)" "keeps L v v1" "tx24 v1" "msg' = None \<or> msg' = ?msg"
      using amr_speech_returns [OF assms(2,3)] by blast
    have t: "taken None msg'" using v1(4) msg by auto
    let ?enc = "\<lambda>b. gsm0503_tch_ahs_encode L b (map_option (drop off \<circ> mb_l2) msg') (\<not> sched_tchh_ul_amr_cmi_a_map fn)
      (am_codec (lc_amr (lv_lchan v1))) (am_codecs (lc_amr (lv_lchan v1)))
      (am_ul_ft (lc_amr (lv_lchan v1))) (am_ul_cmr (lc_amr (lv_lchan v1)))"
    have e: "length (snd (?enc b)) = length b" for b by (rule codec_len_okD(9) [OF assms(1)])
    obtain v2 where v2: "tchh_speech_sent L ?enc msg' fn v1 = Some v2" "keeps L v1 v2" "tx24 v2"
      using tchh_speech_sent_returns [of v1 ?enc msg' L fn, OF v1(3) e t] by blast
    have "keeps L v v2" using v1(2) v2(2) by (rule keeps_trans)
    moreover have "tchh_encode L msg_tch msg_facch fn v = Some v2"
      unfolding tchh_encode_def Let_def v1(1) using 3 v2(1) by simp
    ultimately show ?thesis using v2(3) by blast
  next
    case 4
    then show ?thesis using pair [of 240] assms(5) by (simp add: tchh_encode_def tchh_csd_len_def)
  next
    case 5
    then show ?thesis using pair [of 144] assms(5) by (simp add: tchh_encode_def tchh_csd_len_def)
  next
    case 6
    then show ?thesis using skip by (simp add: tchh_encode_def)
  qed
qed

lemma tchh_send_returns:
  assumes "lc_tx_bursts (lv_lchan v) = Some bs" "length bs = 2784" "br_bid br < 4" "unat (lc_tsc (lv_lchan v)) < 8"
  shows "\<exists>br' v'. tchh_send v br = Some (0, br', v') \<and> keeps L v v' \<and> lc_tx_bursts (lv_lchan v') = Some bs \<and>
    (br_wf br \<longrightarrow> br_wf br' \<and> same_req br br') \<and> lv_out v' = lv_out v \<and>
    lc_tx_prims (lv_lchan v') = lc_tx_prims (lv_lchan v) \<and> lc_tsc (lv_lchan v') = lc_tsc (lv_lchan v) \<and>
    lc_tch_mode (lv_lchan v') = lc_tch_mode (lv_lchan v) \<and>
    lc_ul_facch_blocks (lv_lchan v') = (if lc_ul_facch_blocks (lv_lchan v) \<noteq> 0 then lc_ul_facch_blocks (lv_lchan v) - 1 else 0) \<and>
    lc_tx_burst_mask (lv_lchan v') = nb_set_bit (br_bid br) (lc_tx_burst_mask (lv_lchan v))"
proof -
  have "br_bid br * 116 + 116 \<le> length bs" using assms(2,3) by simp
  note s = send_burst_Some [OF assms(1) this assms(4)]
  let ?u = "upd_lchan (\<lambda>lc. lc\<lparr>lc_tx_burst_mask := nb_set_bit (br_bid br) (lc_tx_burst_mask lc)\<rparr>) v"
  let ?f = "\<lambda>lc. if lc_ul_facch_blocks lc \<noteq> 0 then lc_ul_facch_blocks lc - 1 else lc_ul_facch_blocks lc"
  have "keeps L ?u (upd_lchan (\<lambda>lc. lc\<lparr>lc_ul_facch_blocks := ?f lc\<rparr>) ?u)" by (rule keeps_lchan_field(2))
  with keeps_masks(1) have k: "keeps L v (upd_lchan (\<lambda>lc. lc\<lparr>lc_ul_facch_blocks := ?f lc\<rparr>) ?u)" by (rule keeps_trans)
  show ?thesis
    unfolding tchh_send_def s using k send_burst_wf [OF s] assms(1) by simp
qed

lemma tchh_send_post:
  assumes "view_wf L v" "tx24 v" "br_wf br" "br_bid br < 4" "keeps L u v" "view_wf L u"
  shows "tx_post L u br (tchh_send v br)"
proof -
  obtain bs where "lc_tx_bursts (lv_lchan v) = Some bs" "length bs = 2784" using assms(2) by (auto simp: tx24_def)
  moreover have "unat (lc_tsc (lv_lchan v)) < 8" using assms(1) by (simp add: view_wf_def lchan_wf_def)
  ultimately obtain br' v' where s: "tchh_send v br = Some (0, br', v')" "keeps L v v'" "br_wf br' \<and> same_req br br'"
    using tchh_send_returns [of v bs br L] assms(3,4) by blast
  have "keeps L u v'" using assms(5) s(2) by (rule keeps_trans)
  then show ?thesis using s assms(6) by (simp add: tx_post_def keeps_def)
qed

interpretation tchh_tx: tx_handler tx_tchh_fn tchh_tx_pre
proof
  fix L v br assume pre: "tchh_tx_pre L v br" and wf: "view_wf L v" and br: "br_wf br"
  have bid: "br_bid br < 4" and tx: "tx24 v" and cl: "codec_len_ok L"
    using pre by (simp_all add: tchh_tx_pre_def)
  let ?mode = "lc_tch_mode (lv_lchan v)" and ?fn = "br_fn br"
  obtain v0 where v0: "shift_tx 2 v = Some v0" "tx24 v0" "lc_tx_prims (lv_lchan v0) = lc_tx_prims (lv_lchan v)"
    using shift_tx_returns [OF tx, of 2] by auto
  have k0: "keeps L v v0" using v0(1) by (rule keeps_shift_tx)
  have wf0: "view_wf L v0" using keepsD [OF k0 wf] by simp
  obtain msg_tch v1 where d1: "l1sched_lchan_prim_dequeue_tch False v0 = (msg_tch, v1)" by fastforce
  note r1 = dequeue_tch_returns [OF wf0 d1]
  have k1: "keeps L v v1" using k0 r1 keeps_trans by blast
  have wf1: "view_wf L v1" and tx1: "tx24 v1" using keepsD [OF k1 wf] r1 v0(2) by (simp_all add: tx24_def)
  obtain msg_facch v2 where d2: "(if sched_tchh_ul_facch_a_map ?fn then l1sched_lchan_prim_dequeue_tch True v1
      else (None, v1)) = (msg_facch, v2)" by fastforce
  have q: "csd_queue_ok (tchh_csd_len ?mode) v0"
    using pre unfolding tchh_tx_pre_def csd_queue_ok_def v0(3) by blast
  have p: "keeps L v0 v2" "tx24 v2" "taken (tchh_csd_len ?mode) msg_tch" "taken None msg_facch"
  proof -
    obtain m' v' where "l1sched_lchan_prim_dequeue_tch True v1 = (m', v')" by fastforce
    note p = dequeue_pair [OF wf0 v0(2) q d1 this]
    show "keeps L v0 v2" "tx24 v2" "taken None msg_facch"
      using p d2 \<open>l1sched_lchan_prim_dequeue_tch True v1 = _\<close> r1 tx1 by (auto split: if_splits)
    show "taken (tchh_csd_len ?mode) msg_tch" by (rule p(3))
  qed
  have k2: "keeps L v v2" using k0 p(1) by (rule keeps_trans)
  have same: "lc_tch_mode (lv_lchan v2) = ?mode" "lc_type (lv_lchan v2) = lc_type (lv_lchan v)"
    using k2 by (simp_all add: keeps_def same_chan_def)
  have wf2: "view_wf L v2" using keepsD [OF k2 wf] by simp
  obtain v3 where v3: "tchh_encode L msg_tch msg_facch ?fn v2 = Some v3" "keeps L v2 v3" "tx24 v3"
    using tchh_encode_returns [OF cl wf2 p(2), unfolded same, OF _ p(3,4)] pre by (auto simp: tchh_tx_pre_def)
  have k3: "keeps L v v3" using k2 v3(2) by (rule keeps_trans)
  have wf3: "view_wf L v3" using keepsD [OF k3 wf] by simp
  note post = tchh_send_post [OF _ _ br bid _ wf]
  show "tx_post L v br (tx_tchh_fn L v br)"
    unfolding tx_tchh_fn_def Let_def v0(1) bind.bind_lunit d1 d2 prod.case v3(1)
    using post [OF wf tx keeps_refl] post [OF wf0 v0(2) k0] post [OF wf1 tx1 k1] post [OF wf3 v3(3) k3] wf br
    by (simp add: tx_post_def same_req_def)
qed

section \<open>The receive window\<close>

lemma tchh_buf_size:
  "ld_tx_fn (l1sched_lchan_desc L t) = Some TX_TCHH_FN \<Longrightarrow> ld_burst_buf_size (l1sched_lchan_desc L t) = 2784"
  "ld_rx_fn (l1sched_lchan_desc L t) = Some RX_TCHH_FN \<Longrightarrow> ld_burst_buf_size (l1sched_lchan_desc L t) = 2784"
  by (cases t; simp add: gsm_nbits)+

lemma tchh_bufs:
  assumes "view_wf L v" "lc_active (lv_lchan v)"
  shows "ld_rx_fn (l1sched_lchan_desc L (lc_type (lv_lchan v))) = Some RX_TCHH_FN \<Longrightarrow> rx24 v"
    and "ld_tx_fn (l1sched_lchan_desc L (lc_type (lv_lchan v))) = Some TX_TCHH_FN \<Longrightarrow> tx24 v"
  using assms by (auto simp: view_wf_def lchan_wf_def lchan_bufs_wf_def buf_ok_def Let_def tchh_buf_size
      rx24_def tx24_def split: option.splits)

text \<open>On an active half-rate channel in any mode but signalling, after any number of
  whole blocks of two bursts the handler has returned each time, the channel is well-formed, and the
  first 22 slots of the receive buffer hold exactly the payloads of the last eleven blocks, oldest
  first: the span over which the data modes are interleaved.\<close>

theorem tchh_rx_window:
  assumes "decode_ok L" and "view_wf L v" and "lc_active (lv_lchan v)"
    and "ld_rx_fn (l1sched_lchan_desc L (lc_type (lv_lchan v))) = Some RX_TCHH_FN"
    and "lc_tch_mode (lv_lchan v) \<noteq> GSM48_CMODE_SIGN"
    and "list_all (tch_block 2) blks" and "11 \<le> length blks"
  shows "\<exists>v' bs. run_blocks (\<lambda>bis v. rx_run (rx_tchh_fn L) v bis) blks v = Some v' \<and> view_wf L v' \<and>
    lc_rx_bursts (lv_lchan v') = Some bs \<and>
    take (22 * 116) bs = concat (map payloads (drop (length blks - 11) blks))"
proof -
  have ok: "decode_ok L \<and> view_wf L v \<and> rx24 v \<and> lc_tch_mode (lv_lchan v) \<noteq> GSM48_CMODE_SIGN"
    using tchh_bufs(1) [OF assms(2-4)] assms(1,2,5) by simp
  let ?c = "concat (map payloads blks)" and ?w = "take 2552 (the (lc_rx_bursts (lv_lchan v)))"
  have lens: "list_all (\<lambda>b. length (payloads b) = 232) blks"
    using assms(6) length_payloads [of 2] by (auto simp: list_all_iff)
  note len = length_blocks [OF lens]
  obtain v' where v': "run_blocks (\<lambda>bis v. rx_run (rx_tchh_fn L) v bis) blks v = Some v'"
    "view_wf L v'" "rx24 v'" "take 2552 (the (lc_rx_bursts (lv_lchan v'))) = drop (length ?c) (?w @ ?c)"
    using tchh_win.blocks_window [OF ok assms(6)] by blast
  have "length ?w = 2552" using ok by (auto simp: rx24_def)
  then have "drop (length ?c) (?w @ ?c) = drop ((length blks - 11) * 232) ?c"
    using assms(7) by (simp add: len diff_mult_distrib mult.commute)
  then show ?thesis
    using v' drop_blocks [OF lens, of "length blks - 11"] by (auto simp: rx24_def)
qed

theorem tchh_rx_window_witness:
  "\<exists>v' bs. run_blocks (\<lambda>bis v. rx_run (rx_tchh_fn toy_lib) v bis) (replicate 12 (demo_block 2))
       (demo_tch L1SCHED_TCHH_1 GSM48_CMODE_DATA_6k0 []) = Some v' \<and> view_wf toy_lib v' \<and>
     lc_rx_bursts (lv_lchan v') = Some bs \<and> take 2552 bs = concat (replicate 11 (payloads (demo_block 2)))"
proof -
  have wf: "view_wf toy_lib (demo_tch L1SCHED_TCHH_1 GSM48_CMODE_DATA_6k0 [])"
    by (rule view_wf_demo_tch) (simp_all add: gsm_nbits)
  have blks: "list_all (tch_block 2) (replicate 12 (demo_block 2))" "11 \<le> length (replicate 12 (demo_block 2))"
    by (simp_all add: demo_block_ok list_all_iff)
  show ?thesis
    using tchh_rx_window [OF decode_ok_toy wf _ _ _ blks] by (simp add: demo_tch_simps)
qed

section \<open>Stealing\<close>

lemma nb_set_bit_0: "bit (nb_set_bit 0 mk) 0"
  by (simp add: nb_set_bit_def bit_simps)

lemma tchh_speech_first:
  assumes "codec_len_ok L" and "lc_tx_bursts (lv_lchan v) = Some bs" and "length bs = 2784"
    and "unat (lc_tsc (lv_lchan v)) < 8" and "br_bid br = 0" and "sched_tchh_ul_facch_a_map (br_fn br)"
    and "lc_tch_mode (lv_lchan v) = GSM48_CMODE_SPEECH_V1" and "lc_ul_facch_blocks (lv_lchan v) \<le> 2"
    and "fst (queue_take (\<lambda>m. length (mb_l2 m) = GSM_MACBLOCK_LEN) (lc_tx_prims (lv_lchan v))) = Some f"
    and "prim_is_req (mb_prim f)" and "\<And>b. fst (gsm0503_tch_hr_encode L b (Some (mb_l2 f))) = 0"
  shows "\<exists>br' v' p bs'. tx_tchh_fn L v br = Some (0, br', v') \<and> prim_to_cnf (br_fn br) (mb_prim f) = Some p \<and>
    lv_out v' = lv_out v @ [f\<lparr>mb_prim := p\<rparr>] \<and> lc_tx_prims (lv_lchan v') = tch_rest (lc_tx_prims (lv_lchan v)) \<and>
    lc_ul_facch_blocks (lv_lchan v') = 5 \<and> lc_tx_bursts (lv_lchan v') = Some bs' \<and> length bs' = 2784 \<and>
    lc_tsc (lv_lchan v') = lc_tsc (lv_lchan v) \<and> bit (lc_tx_burst_mask (lv_lchan v')) 0 \<and>
    lc_tch_mode (lv_lchan v') = GSM48_CMODE_SPEECH_V1"
proof -
  let ?q = "lc_tx_prims (lv_lchan v)" and ?P = "\<lambda>m. length (mb_l2 m) = GSM_MACBLOCK_LEN"
  obtain bs' where sh: "shift_bursts 2 bs = Some bs'" "length bs' = 2784"
    using shift_bursts_Some [of bs 2] assms(3) by (simp add: length_chunk)
  have fac: "fst (queue_take ?P (snd (queue_take (\<lambda>m. \<not> ?P m) ?q))) = Some f"
    using queue_take_other [of ?P ?q] assms(9) by (simp add: comp_def)
  have f23: "length (mb_l2 f) = GSM_MACBLOCK_LEN"
    using queue_take_SomeD [of ?P ?q f] assms(9) by (cases "queue_take ?P ?q") simp
  obtain coded where enc: "gsm0503_tch_hr_encode L bs' (Some (mb_l2 f)) = (0, coded)"
    using assms(11) [of bs'] by (cases "gsm0503_tch_hr_encode L bs' (Some (mb_l2 f))") simp
  have clen: "length coded = 2784"
    using codec_len_okD(6) [OF assms(1), of bs' "Some (mb_l2 f)"] enc sh(2) by simp
  define u where "u = upd_lchan (\<lambda>lc. lc\<lparr>lc_ul_facch_blocks := 6\<rparr>)
    (upd_lchan (\<lambda>lc. lc\<lparr>lc_tx_bursts := Some coded\<rparr>) (upd_lchan (\<lambda>lc. lc\<lparr>lc_tx_prims := tch_rest ?q\<rparr>)
    (upd_lchan (\<lambda>lc. lc\<lparr>lc_tx_bursts := Some bs', lc_tx_burst_mask := push_bit 2 (lc_tx_burst_mask lc)\<rparr>) v)))"
  obtain p where p: "prim_to_cnf (br_fn br) (mb_prim f) = Some p"
    "l1sched_lchan_emit_data_cnf L (Some f) (br_fn br) u = Some (prim_to_user_rc L, u\<lparr>lv_out := lv_out u @ [f\<lparr>mb_prim := p\<rparr>]\<rparr>)"
    using emit_cnf_returns [OF assms(10)] by blast
  let ?w = "u\<lparr>lv_out := lv_out u @ [f\<lparr>mb_prim := p\<rparr>]\<rparr>"
  have w: "lc_tx_bursts (lv_lchan ?w) = Some coded" "br_bid br < 4" "unat (lc_tsc (lv_lchan ?w)) < 8"
    using assms(4,5) by (simp_all add: u_def)
  obtain br' v' where s: "tchh_send ?w br = Some (0, br', v')" "lc_tx_bursts (lv_lchan v') = Some coded"
    "lv_out v' = lv_out ?w" "lc_tx_prims (lv_lchan v') = lc_tx_prims (lv_lchan ?w)"
    "lc_tsc (lv_lchan v') = lc_tsc (lv_lchan ?w)" "lc_tch_mode (lv_lchan v') = lc_tch_mode (lv_lchan ?w)"
    "lc_ul_facch_blocks (lv_lchan v') = 5"
    "lc_tx_burst_mask (lv_lchan v') = nb_set_bit 0 (lc_tx_burst_mask (lv_lchan ?w))"
    using tchh_send_returns [OF w(1) clen w(2,3), of L] assms(5) by (auto simp: u_def)
  have "tchh_encode L (fst (queue_take (\<lambda>m. \<not> ?P m) ?q)) (Some f) (br_fn br)
      (upd_lchan (\<lambda>lc. lc\<lparr>lc_tx_prims := tch_rest ?q\<rparr>)
        (upd_lchan (\<lambda>lc. lc\<lparr>lc_tx_bursts := Some bs', lc_tx_burst_mask := push_bit 2 (lc_tx_burst_mask lc)\<rparr>) v)) = Some ?w"
    using assms(7) enc p(2) f23 by (simp add: tchh_encode_def tchh_speech_sent_def tx_encode_def confirm_def u_def)
  moreover have "\<not> 2 < lc_ul_facch_blocks (lv_lchan v)" using assms(8) by simp
  ultimately have "tx_tchh_fn L v br = Some (0, br', v')"
    using assms(2,5,6,7) sh(1) fac s(1)
    by (simp add: tx_tchh_fn_def tchh_tx_wait_def shift_tx_def dequeue_tch_eq tch_rest_def upd_lchan_def Let_def)
  then show ?thesis
    using p(1) s clen assms(7) by (simp add: u_def nb_set_bit_0)
qed

text \<open>A block whose second half is still owed to a FACCH frame drops one speech frame.\<close>

lemma tchh_owed_block:
  assumes "lc_tx_bursts (lv_lchan v) = Some bs" and "length bs = 2784" and "unat (lc_tsc (lv_lchan v)) < 8"
    and "br_bid br = 0" and "lc_tch_mode (lv_lchan v) = GSM48_CMODE_SPEECH_V1" and "lc_ul_facch_blocks (lv_lchan v) = 4"
  shows "\<exists>br' v' bs'. tx_tchh_fn L v br = Some (0, br', v') \<and> lv_out v' = lv_out v \<and>
    lc_tx_prims (lv_lchan v') = snd (queue_take (\<lambda>m. length (mb_l2 m) \<noteq> GSM_MACBLOCK_LEN) (lc_tx_prims (lv_lchan v))) \<and>
    lc_ul_facch_blocks (lv_lchan v') = 3 \<and> lc_tx_bursts (lv_lchan v') = Some bs' \<and> length bs' = 2784 \<and>
    lc_tsc (lv_lchan v') = lc_tsc (lv_lchan v) \<and> bit (lc_tx_burst_mask (lv_lchan v')) 0"
proof -
  obtain bs' where sh: "shift_bursts 2 bs = Some bs'" "length bs' = 2784"
    using shift_bursts_Some [of bs 2] assms(2) by (simp add: length_chunk)
  define w where "w = snd (l1sched_lchan_prim_dequeue_tch False
    (upd_lchan (\<lambda>lc. lc\<lparr>lc_tx_bursts := Some bs', lc_tx_burst_mask := push_bit 2 (lc_tx_burst_mask lc)\<rparr>) v))"
  have w: "lc_tx_bursts (lv_lchan w) = Some bs'" "br_bid br < 4" "unat (lc_tsc (lv_lchan w)) < 8"
    using assms(3,4) by (simp_all add: w_def dequeue_tch_eq)
  obtain br' v' where s: "tchh_send w br = Some (0, br', v')" "lc_tx_bursts (lv_lchan v') = Some bs'"
    "lv_out v' = lv_out w" "lc_tx_prims (lv_lchan v') = lc_tx_prims (lv_lchan w)"
    "lc_tsc (lv_lchan v') = lc_tsc (lv_lchan w)" "lc_ul_facch_blocks (lv_lchan v') = 3"
    "lc_tx_burst_mask (lv_lchan v') = nb_set_bit 0 (lc_tx_burst_mask (lv_lchan w))"
    using tchh_send_returns [OF w(1) sh(2) w(2,3), of L] assms(4,6) by (auto simp: w_def dequeue_tch_eq)
  have "tx_tchh_fn L v br = Some (0, br', v')"
    using assms(1,4,5,6) sh(1) s(1)
    by (simp add: tx_tchh_fn_def tchh_tx_wait_def shift_tx_def w_def split_def Let_def)
  then show ?thesis
    using s sh(2) by (simp add: w_def dequeue_tch_eq nb_set_bit_0)
qed

lemma tchh_next_burst:
  assumes "lc_tx_bursts (lv_lchan v) = Some bs" and "length bs = 2784" and "unat (lc_tsc (lv_lchan v)) < 8"
    and "br_bid br = 1" and "bit (lc_tx_burst_mask (lv_lchan v)) 0" and "lc_ul_facch_blocks (lv_lchan v) \<noteq> 0"
  shows "\<exists>br' v'. tx_tchh_fn L v br = Some (0, br', v') \<and> lv_out v' = lv_out v \<and>
    lc_tx_prims (lv_lchan v') = lc_tx_prims (lv_lchan v) \<and> lc_tx_bursts (lv_lchan v') = Some bs \<and>
    lc_ul_facch_blocks (lv_lchan v') = lc_ul_facch_blocks (lv_lchan v) - 1 \<and>
    lc_tsc (lv_lchan v') = lc_tsc (lv_lchan v) \<and> lc_tch_mode (lv_lchan v') = lc_tch_mode (lv_lchan v)"
proof -
  have "br_bid br < 4" using assms(4) by simp
  from tchh_send_returns [OF assms(1,2) this assms(3), of L] obtain br' v' where
    s: "tchh_send v br = Some (0, br', v')" "lv_out v' = lv_out v"
    "lc_tx_prims (lv_lchan v') = lc_tx_prims (lv_lchan v)" "lc_tx_bursts (lv_lchan v') = Some bs"
    "lc_ul_facch_blocks (lv_lchan v') = lc_ul_facch_blocks (lv_lchan v) - 1"
    "lc_tsc (lv_lchan v') = lc_tsc (lv_lchan v)" "lc_tch_mode (lv_lchan v') = lc_tch_mode (lv_lchan v)"
    using assms(6) by auto
  have "tx_tchh_fn L v br = Some (0, br', v')"
    using assms(4,5) s(1) by (simp add: tx_tchh_fn_def)
  then show ?thesis using s by blast
qed

text \<open>A FACCH frame steals two speech blocks. On a half-rate channel in the
  speech mode with no FACCH frame being sent, when a block starts at a frame where FACCH may start
  and the queue holds a FACCH frame the encoder accepts, the four bursts of this and the next block
  confirm that frame and nothing else, the queue loses that frame and its first two speech frames,
  and the last two bursts of the FACCH frame are left to the block after.\<close>

theorem tchh_facch_steals_two:
  assumes "codec_len_ok L" and "view_wf L v" and "lc_active (lv_lchan v)"
    and "ld_tx_fn (l1sched_lchan_desc L (lc_type (lv_lchan v))) = Some TX_TCHH_FN"
    and "lc_tch_mode (lv_lchan v) = GSM48_CMODE_SPEECH_V1" and "lc_ul_facch_blocks (lv_lchan v) \<le> 2"
    and "sched_tchh_ul_facch_a_map f0"
    and "fst (queue_take (\<lambda>m. length (mb_l2 m) = GSM_MACBLOCK_LEN) (lc_tx_prims (lv_lchan v))) = Some f"
    and "\<And>b. fst (gsm0503_tch_hr_encode L b (Some (mb_l2 f))) = 0"
  shows "\<exists>brs v' p. tx_run (tx_tchh_fn L) v
      [empty_req tn f0 0, empty_req tn f1 1, empty_req tn f2 0, empty_req tn f3 1] = Some (brs, v') \<and>
    prim_to_cnf f0 (mb_prim f) = Some p \<and> lv_out v' = lv_out v @ [f\<lparr>mb_prim := p\<rparr>] \<and>
    lc_tx_prims (lv_lchan v') = snd (queue_take (\<lambda>m. length (mb_l2 m) \<noteq> GSM_MACBLOCK_LEN)
      (tch_rest (lc_tx_prims (lv_lchan v)))) \<and>
    lc_ul_facch_blocks (lv_lchan v') = 2"
proof -
  have b: "br_bid (empty_req tn f i) = i" "br_fn (empty_req tn f i) = f" for f i
    by (simp_all add: empty_req_def)
  obtain bs where bs: "lc_tx_bursts (lv_lchan v) = Some bs" "length bs = 2784"
    using tchh_bufs(2) [OF assms(2-4)] by (auto simp: tx24_def)
  have tsc: "unat (lc_tsc (lv_lchan v)) < 8" using assms(2) by (simp add: view_wf_def lchan_wf_def)
  have "f \<in> set (lc_tx_prims (lv_lchan v))"
    using queue_take_SomeD [of "\<lambda>m. length (mb_l2 m) = GSM_MACBLOCK_LEN" "lc_tx_prims (lv_lchan v)" f] assms(8)
    by (cases "queue_take (\<lambda>m. length (mb_l2 m) = GSM_MACBLOCK_LEN) (lc_tx_prims (lv_lchan v))") simp
  then have req: "prim_is_req (mb_prim f)"
    using assms(2) by (auto simp: view_wf_def lchan_wf_def list_all_iff)
  obtain b0 v0 p cs where t0: "tx_tchh_fn L v (empty_req tn f0 0) = Some (0, b0, v0)"
    and v0: "prim_to_cnf f0 (mb_prim f) = Some p" "lv_out v0 = lv_out v @ [f\<lparr>mb_prim := p\<rparr>]"
      "lc_tx_prims (lv_lchan v0) = tch_rest (lc_tx_prims (lv_lchan v))" "lc_ul_facch_blocks (lv_lchan v0) = 5"
      "lc_tx_bursts (lv_lchan v0) = Some cs" "length cs = 2784" "lc_tsc (lv_lchan v0) = lc_tsc (lv_lchan v)"
      "bit (lc_tx_burst_mask (lv_lchan v0)) 0" "lc_tch_mode (lv_lchan v0) = GSM48_CMODE_SPEECH_V1"
    using tchh_speech_first [OF assms(1) bs tsc, of "empty_req tn f0 0" f, unfolded b, OF _ assms(7,5,6,8) req assms(9)]
    by auto
  have tsc0: "unat (lc_tsc (lv_lchan v0)) < 8" using tsc v0(7) by simp
  obtain b1 v1 where t1: "tx_tchh_fn L v0 (empty_req tn f1 1) = Some (0, b1, v1)"
    and v1: "lv_out v1 = lv_out v0" "lc_tx_prims (lv_lchan v1) = lc_tx_prims (lv_lchan v0)"
      "lc_tx_bursts (lv_lchan v1) = Some cs" "lc_ul_facch_blocks (lv_lchan v1) = 4"
      "lc_tsc (lv_lchan v1) = lc_tsc (lv_lchan v)" "lc_tch_mode (lv_lchan v1) = GSM48_CMODE_SPEECH_V1"
    using tchh_next_burst [where br = "empty_req tn f1 1" and L = L, OF v0(5,6) tsc0 b(1) v0(8)] v0(4,7,9) by auto
  have tsc1: "unat (lc_tsc (lv_lchan v1)) < 8" using tsc v1(5) by simp
  obtain b2 v2 ds where t2: "tx_tchh_fn L v1 (empty_req tn f2 0) = Some (0, b2, v2)"
    and v2: "lv_out v2 = lv_out v1" "lc_tx_prims (lv_lchan v2) = snd (queue_take (\<lambda>m. length (mb_l2 m) \<noteq> GSM_MACBLOCK_LEN)
        (lc_tx_prims (lv_lchan v1)))" "lc_ul_facch_blocks (lv_lchan v2) = 3" "lc_tx_bursts (lv_lchan v2) = Some ds"
      "length ds = 2784" "lc_tsc (lv_lchan v2) = lc_tsc (lv_lchan v)" "bit (lc_tx_burst_mask (lv_lchan v2)) 0"
    using tchh_owed_block [where br = "empty_req tn f2 0" and L = L, OF v1(3) v0(6) tsc1 b(1) v1(6,4)] v1(5) by auto
  have tsc2: "unat (lc_tsc (lv_lchan v2)) < 8" using tsc v2(6) by simp
  obtain b3 v3 where t3: "tx_tchh_fn L v2 (empty_req tn f3 1) = Some (0, b3, v3)"
    and v3: "lv_out v3 = lv_out v2" "lc_tx_prims (lv_lchan v3) = lc_tx_prims (lv_lchan v2)"
      "lc_ul_facch_blocks (lv_lchan v3) = 2"
    using tchh_next_burst [where br = "empty_req tn f3 1" and L = L, OF v2(4,5) tsc2 b(1) v2(7)] v2(3) by auto
  show ?thesis
    using t0 t1 t2 t3 v0(1-3) v1(1,2) v2(1,2) v3
    by (intro exI [of _ "[b0, b1, b2, b3]"] exI [of _ v3] exI [of _ p]) simp
qed

lemma ld_desc_tchh: "ld_tx_fn (l1sched_lchan_desc L L1SCHED_TCHH_0) = Some TX_TCHH_FN"
  by simp

lemma zero_facch: "(0 :: u8) \<le> 2"
  by simp

theorem tchh_facch_steals_two_witness:
  "\<exists>brs v' p. tx_run (tx_tchh_fn toy_lib)
      (demo_tch L1SCHED_TCHH_0 GSM48_CMODE_SPEECH_V1 [tch_prim 15, tch_prim 23, tch_prim 15, tch_prim 15])
      [empty_req 1 8 0, empty_req 1 10 1, empty_req 1 13 0, empty_req 1 15 1] = Some (brs, v') \<and>
    lv_out v' = [(tch_prim 23)\<lparr>mb_prim := p\<rparr>] \<and> lc_tx_prims (lv_lchan v') = [tch_prim 15]"
proof -
  let ?q = "[tch_prim 15, tch_prim 23, tch_prim 15, tch_prim 15]"
  let ?v = "demo_tch L1SCHED_TCHH_0 GSM48_CMODE_SPEECH_V1 ?q"
  have wf: "view_wf toy_lib ?v"
    by (rule view_wf_demo_tch) (simp_all add: gsm_nbits tch_prim_simps)
  have q: "fst (queue_take (\<lambda>m. length (mb_l2 m) = GSM_MACBLOCK_LEN) (lc_tx_prims (lv_lchan ?v))) = Some (tch_prim 23)"
    by (simp add: demo_tch_simps tch_prim_simps gsm_nbits)
  have rest: "snd (queue_take (\<lambda>m. length (mb_l2 m) \<noteq> GSM_MACBLOCK_LEN) (tch_rest ?q)) = [tch_prim 15]"
    by (simp add: tch_rest_def tch_prim_simps gsm_nbits)
  have enc: "\<And>b. fst (gsm0503_tch_hr_encode toy_lib b (Some (mb_l2 (tch_prim 23)))) = 0"
    by (simp add: toy_lib_def)
  have map8: "sched_tchh_ul_facch_a_map 8"
    by (simp add: sched_tchh_ul_facch_a_map_def frame_map_def)
  obtain brs v' p where "tx_run (tx_tchh_fn toy_lib) ?v
      [empty_req 1 8 0, empty_req 1 10 1, empty_req 1 13 0, empty_req 1 15 1] = Some (brs, v')"
    "lv_out v' = lv_out ?v @ [(tch_prim 23)\<lparr>mb_prim := p\<rparr>]"
    "lc_tx_prims (lv_lchan v') = snd (queue_take (\<lambda>m. length (mb_l2 m) \<noteq> GSM_MACBLOCK_LEN)
      (tch_rest (lc_tx_prims (lv_lchan ?v))))"
    using tchh_facch_steals_two [where tn = 1 and ?f1.0 = 10 and ?f2.0 = 13 and ?f3.0 = 15,
        OF codec_len_ok_toy wf demo_tch_simps(1) _ demo_tch_simps(5) _ map8 q enc]
    unfolding demo_tch_simps by (metis ld_desc_tchh zero_facch)
  then show ?thesis unfolding demo_tch_simps rest append_Nil by blast
qed

end
