(* ===== verification/Sched_Sch.thy ===== *)
theory Sched_Sch
  imports Sched_Burst "HOL-Library.Signed_Division"
begin

text \<open>
  The synchronisation burst handler (\<^verbatim>\<open>sched_lchan_sch.c\<close>): it decodes the BSIC and the
  reduced frame number from the four octets of an SCH block, checks the frame number against the
  one the burst arrived with and tells the user.
\<close>

section \<open>The handler\<close>

record gsm_time =
  gt_fn :: u32
  gt_t1 :: u16
  gt_t2 :: u8
  gt_t3 :: u8

text \<open>The operands are promoted to \<^verbatim>\<open>int\<close>, the remainder is C's.\<close>

definition gsm_gsmtime2fn :: "gsm_time \<Rightarrow> u32" where
  "gsm_gsmtime2fn t =
     word_of_int (51 * ((uint (gt_t3 t) - uint (gt_t2 t) + 26) smod 26) + uint (gt_t3 t)
       + 26 * 51 * uint (gt_t1 t))"

definition sb_word :: "u8 list \<Rightarrow> u32" where
  "sb_word sb_info =
     push_bit 24 (ucast (sb_info ! 3)) OR push_bit 16 (ucast (sb_info ! 2)) OR
     push_bit 8 (ucast (sb_info ! 1)) OR ucast (sb_info ! 0)"

definition decode_sb :: "u8 list \<Rightarrow> gsm_time \<times> u8" where
  "decode_sb sb_info =
     (let sb = sb_word sb_info;
          bsic = ucast (drop_bit 2 sb AND 0x3f);
          t1 = ucast ((drop_bit 23 sb AND 0x01) OR (drop_bit 7 sb AND 0x1fe) OR (push_bit 9 sb AND 0x600));
          t2 = ucast (drop_bit 18 sb AND 0x1f);
          t3p = ucast ((drop_bit 24 sb AND 0x01) OR (drop_bit 15 sb AND 0x06)) :: u8;
          time = \<lparr>gt_fn = 0, gt_t1 = t1, gt_t2 = t2, gt_t3 = t3p * 10 + 1\<rparr>
      in (time\<lparr>gt_fn := gsm_gsmtime2fn time\<rparr>, bsic))"

definition handle_sch_ind :: "libosmo \<Rightarrow> u32 \<Rightarrow> u8 \<Rightarrow> lchan_view \<Rightarrow> int \<times> lchan_view" where
  "handle_sch_ind L fn bsic v = l1sched_prim_to_user L (l1sched_prim_alloc (SCH_IND fn bsic)) v"

definition rx_sch_fn :: "libosmo \<Rightarrow> lchan_view \<Rightarrow> burst_ind \<Rightarrow> (int \<times> lchan_view) option" where
  "rx_sch_fn L v bi =
     do { p1 \<leftarrow> read_at 3 39 (bi_burst bi);
          p2 \<leftarrow> read_at (3 + 39 + 64) 39 (bi_burst bi);
          let (rc, sb_info) = gsm0503_sch_decode L (p1 @ p2)
          in if rc \<noteq> 0 then Some (rc, v)
             else (let (time, bsic) = decode_sb sb_info
                   in if gt_fn time \<noteq> bi_fn bi then Some (- EINVAL, v)
                      else Some (handle_sch_ind L (gt_fn time) bsic (v\<lparr>lv_bsic := bsic\<rparr>))) }"

section \<open>The contract\<close>

definition sch_rx_pre :: "libosmo \<Rightarrow> lchan_state \<Rightarrow> burst_ind \<Rightarrow> bool" where
  "sch_rx_pre L lc bi \<longleftrightarrow> True"

lemma keeps_bsic [keeps_intros]: "keeps L v (v\<lparr>lv_bsic := b\<rparr>)"
  by (simp add: keeps_def view_wf_def sacch_wf_def same_chan_def)

lemma rx_sch_fn_ok:
  assumes "view_wf L v" "bi_wf bi"
  shows "rx_post L v (rx_sch_fn L v bi)"
proof -
  have "keeps L v (v\<lparr>lv_bsic := b, lv_out := lv_out v @ ms\<rparr>)" for b ms
    using keeps_trans [OF keeps_bsic keeps_out, of L v b ms] by simp
  then show ?thesis
    using assms by (auto simp: rx_sch_fn_def rx_post_def bi_wf_def gsm_nbits read_at_Some handle_sch_ind_def
        l1sched_prim_to_user_def Let_def keeps_def split: prod.splits)
qed

interpretation sch_rx: rx_handler rx_sch_fn sch_rx_pre
  by unfold_locales (rule rx_sch_fn_ok)

section \<open>Decoding inverts the encoding of TS 44.018\<close>

text \<open>
  The specification's encoding of BSIC and reduced frame number: \<open>T1\<close> is split over three
  fields, \<open>T3'\<close> over two.
\<close>

definition sb_encode :: "u8 \<Rightarrow> u16 \<Rightarrow> u8 \<Rightarrow> u8 \<Rightarrow> u8 list" where
  "sb_encode bsic t1 t2 t3p =
     [ucast (drop_bit 9 t1) OR push_bit 2 bsic,
      ucast (drop_bit 1 t1),
      drop_bit 1 t3p OR push_bit 2 t2 OR push_bit 7 (ucast t1),
      t3p AND 1]"

lemma bit_beyond: "unat (x :: 'a::len word) < 2 ^ k \<Longrightarrow> k \<le> n \<Longrightarrow> \<not> bit x n"
proof
  assume x: "unat x < 2 ^ k" and n: "k \<le> n" and b: "bit x n"
  have "x = take_bit k x"
    using x by (simp add: word_unat_eq_iff unsigned_take_bit_eq take_bit_nat_eq_self)
  then have "bit (take_bit k x) n" using b by simp
  then show False using n by (simp add: bit_take_bit_iff)
qed

lemma sb_bits:
  "bit (sb_word (sb_encode bsic t1 t2 t3p)) n = (n < 32 \<and>
     (if n < 8 then bit (ucast (drop_bit 9 t1) OR push_bit 2 bsic) n
      else if n < 16 then bit (ucast (drop_bit 1 t1) :: u8) (n - 8)
      else if n < 24 then bit (drop_bit 1 t3p OR push_bit 2 t2 OR push_bit 7 (ucast t1)) (n - 16)
      else bit (t3p AND 1) (n - 24)))"
  by (auto simp: sb_word_def sb_encode_def bit_simps dest: bit_imp_le_length)

lemma upt_octet:
  "[0..<8] = [0, 1, 2, 3, 4, 5, 6, 7 :: nat]"
  "[0..<16] = [0, 1, 2, 3, 4, 5, 6, 7, 8, 9, 10, 11, 12, 13, 14, 15 :: nat]"
  by (simp_all add: upt_rec)

lemmas field_bits = bit_unsigned_iff bit_and_iff bit_drop_bit_eq bit_or_iff bit_push_bit_iff sb_bits

lemma decode_sb_fields:
  assumes "unat bsic < 2 ^ 6" "unat t1 < 2 ^ 11" "unat t2 < 2 ^ 5" "unat t3p < 2 ^ 3"
  shows "decode_sb (sb_encode bsic t1 t2 t3p) =
    (let time = \<lparr>gt_fn = 0, gt_t1 = t1, gt_t2 = t2, gt_t3 = t3p * 10 + 1\<rparr>
     in (time\<lparr>gt_fn := gsm_gsmtime2fn time\<rparr>, bsic))"
proof -
  let ?sb = "sb_word (sb_encode bsic t1 t2 t3p)"
  note out = bit_beyond [OF assms(1)] bit_beyond [OF assms(2)] bit_beyond [OF assms(3)] bit_beyond [OF assms(4)]
  have "list_all (\<lambda>n. bit (ucast (drop_bit 2 ?sb AND 0x3f) :: u8) n = bit bsic n) [0..<8]"
    by (simp add: upt_octet field_bits out)
  then have b: "ucast (drop_bit 2 ?sb AND 0x3f) = bsic"
    unfolding list_all_iff set_upt by (intro bit_word_eqI) simp
  have "list_all (\<lambda>n. bit (ucast (drop_bit 18 ?sb AND 0x1f) :: u8) n = bit t2 n) [0..<8]"
    by (simp add: upt_octet field_bits out)
  then have t2: "ucast (drop_bit 18 ?sb AND 0x1f) = t2"
    unfolding list_all_iff set_upt by (intro bit_word_eqI) simp
  have "list_all (\<lambda>n. bit (ucast ((drop_bit 24 ?sb AND 0x01) OR (drop_bit 15 ?sb AND 0x06)) :: u8) n = bit t3p n)
      [0..<8]"
    by (simp add: upt_octet field_bits out) (simp add: numeral_2_eq_2)
  then have t3: "ucast ((drop_bit 24 ?sb AND 0x01) OR (drop_bit 15 ?sb AND 0x06)) = t3p"
    unfolding list_all_iff set_upt by (intro bit_word_eqI) simp
  have "list_all (\<lambda>n. bit (ucast ((drop_bit 23 ?sb AND 0x01) OR (drop_bit 7 ?sb AND 0x1fe) OR
      (push_bit 9 ?sb AND 0x600)) :: u16) n = bit t1 n)
      [0..<16]"
    by (simp add: upt_octet field_bits out) (simp add: eval_nat_numeral)
  then have t1: "ucast ((drop_bit 23 ?sb AND 0x01) OR (drop_bit 7 ?sb AND 0x1fe) OR (push_bit 9 ?sb AND 0x600)) = t1"
    unfolding list_all_iff set_upt by (intro bit_word_eqI) simp
  show ?thesis
    by (simp only: decode_sb_def Let_def b t1 t2 t3 prod.case)
qed

lemma fn_crt:
  fixes fn :: int
  assumes "0 \<le> fn"
  shows "51 * ((fn mod 51 - fn mod 26 + 26) mod 26) + fn mod 51 + 1326 * (fn div 1326) = fn"
proof -
  let ?r = "fn mod 1326"
  have r: "?r mod 51 = fn mod 51" "?r mod 26 = fn mod 26"
    by (simp_all add: mod_mod_cancel)
  have q: "?r = 51 * (?r div 51) + fn mod 51" "0 \<le> ?r div 51" "?r div 51 < 26"
    using r(1) mult_div_mod_eq [of 51 ?r] by (simp_all add: div_less_iff_less_mult pos_imp_zdiv_nonneg_iff)
  have "(fn mod 51 - fn mod 26 + 26) mod 26 = (fn mod 51 - ?r) mod 26"
    by (simp add: r(2) [symmetric] mod_diff_right_eq)
  also have "\<dots> = (- 51 * (?r div 51)) mod 26"
    by (subst q(1)) simp
  also have "\<dots> = (?r div 51 + 26 * (- 2 * (?r div 51))) mod 26"
    by (simp add: algebra_simps)
  also have "\<dots> = ?r div 51"
    using q(2,3) by (simp only: mod_mult_self2 mod_pos_pos_trivial)
  finally have "(fn mod 51 - fn mod 26 + 26) mod 26 = ?r div 51" .
  then show ?thesis
    using q(1) mult_div_mod_eq [of 1326 fn] by simp
qed

lemma gsmtime2fn_correct:
  assumes "fn < GSM_TDMA_HYPERFRAME" "uint (gt_t1 t) = int fn div 1326" "uint (gt_t2 t) = int fn mod 26"
    and "uint (gt_t3 t) = int fn mod 51"
  shows "unat (gsm_gsmtime2fn t) = fn"
proof -
  have "0 \<le> int fn mod 51 - int fn mod 26 + 26"
    using pos_mod_bound [of 26 "int fn"] pos_mod_sign [of 51 "int fn"] by simp
  then have "(int fn mod 51 - int fn mod 26 + 26) smod 26 = (int fn mod 51 - int fn mod 26 + 26) mod 26"
    by (simp add: smod_int_alt_def sgn_if)
  then have "gsm_gsmtime2fn t = word_of_int (int fn)"
    using fn_crt [of "int fn"] assms(2-4) by (simp add: gsm_gsmtime2fn_def)
  then show ?thesis
    using assms(1) by (simp add: unat_of_nat GSM_TDMA_HYPERFRAME_def)
qed

text \<open>C26. When a synchronisation burst carries the block that encodes BSIC and the
  frame number \<open>fn\<close> (any of the frames of the hyperframe that carry an SCH: 1, 11, 21, 31 or 41
  modulo 51), the handler accepts it exactly when it arrived in frame \<open>fn\<close>: then the BSIC is stored
  and one indication with both is passed up; otherwise nothing changes.\<close>

theorem sch_synchronises:
  assumes "bi_wf bi" and "unat bsic < 64" and "fn < GSM_TDMA_HYPERFRAME" and "fn mod 51 mod 10 = 1"
    and "gsm0503_sch_decode L (chunk 3 39 (bi_burst bi) @ chunk 106 39 (bi_burst bi)) =
      (0, sb_encode bsic (word_of_nat (fn div 1326)) (word_of_nat (fn mod 26)) (word_of_nat (fn mod 51 div 10)))"
  shows "rx_sch_fn L v bi =
    (if unat (bi_fn bi) = fn
     then Some (prim_to_user_rc L, v\<lparr>lv_bsic := bsic,
            lv_out := lv_out v @ [\<lparr>mb_prim = SCH_IND (bi_fn bi) bsic, mb_l2 = []\<rparr>]\<rparr>)
     else Some (- EINVAL, v))"
proof -
  let ?t1 = "word_of_nat (fn div 1326) :: u16" and ?t2 = "word_of_nat (fn mod 26) :: u8"
    and ?t3p = "word_of_nat (fn mod 51 div 10) :: u8"
  have b: "fn div 1326 < 2048" "fn mod 26 < 26" "fn mod 51 div 10 < 6"
    using assms(3) by (auto simp: GSM_TDMA_HYPERFRAME_def intro: div_less_iff_less_mult [THEN iffD2])
  have u: "unat ?t1 = fn div 1326" "unat ?t2 = fn mod 26" "unat ?t3p = fn mod 51 div 10"
    using b by (simp_all add: unat_of_nat)
  define time where "time = \<lparr>gt_fn = 0, gt_t1 = ?t1, gt_t2 = ?t2, gt_t3 = ?t3p * 10 + 1\<rparr>"
  have "unat (?t3p * 10 + 1) = fn mod 51"
  proof -
    have "fn mod 51 = fn mod 51 div 10 * 10 + 1"
      using assms(4) div_mult_mod_eq [of "fn mod 51" 10] by simp
    moreover have "unat (?t3p * 10 + 1) = (unat ?t3p * 10 + 1) mod 256"
      by (simp add: unat_word_ariths mod_Suc_eq)
    ultimately show ?thesis
      using u(3) b(3) by simp
  qed
  then have "unat (gsm_gsmtime2fn time) = fn"
    using u by (intro gsmtime2fn_correct [OF assms(3)])
      (simp_all only: time_def gsm_time.simps uint_nat zdiv_int zmod_int of_nat_numeral)
  moreover have "decode_sb (sb_encode bsic ?t1 ?t2 ?t3p) = (time\<lparr>gt_fn := gsm_gsmtime2fn time\<rparr>, bsic)"
    using decode_sb_fields [of bsic ?t1 ?t2 ?t3p] assms(2) b u by (simp add: time_def Let_def)
  moreover have "length (bi_burst bi) = 444"
    using assms(1) by (simp add: bi_wf_def gsm_nbits)
  moreover have "(gsm_gsmtime2fn time = bi_fn bi) \<longleftrightarrow> (unat (bi_fn bi) = fn)"
    using calculation(1) by (metis word_unat_eq_iff)
  ultimately show ?thesis
    using assms(5) by (auto simp: rx_sch_fn_def read_at_Some handle_sch_ind_def l1sched_prim_to_user_def
        l1sched_prim_alloc_def Let_def)
qed

theorem sch_synchronises_witness:
  "\<exists>v'. rx_sch_fn (toy_lib\<lparr>gsm0503_sch_decode := \<lambda>_. (0, sb_encode 0x2a 700 5 3)\<rparr>)
      (demo_view L1SCHED_SCH []) (demo_burst 928231 0 0) = Some (0, v') \<and> lv_bsic v' = 0x2a \<and>
    lv_out v' = [\<lparr>mb_prim = SCH_IND 928231 0x2a, mb_l2 = []\<rparr>]"
proof -
  let ?L = "toy_lib\<lparr>gsm0503_sch_decode := \<lambda>_. (0, sb_encode 0x2a 700 5 3)\<rparr>"
  have "bi_wf (demo_burst 928231 0 0)"
    by (simp add: bi_wf_def demo_burst_def)
  moreover have "gsm0503_sch_decode ?L x = (0, sb_encode 0x2a (word_of_nat (928231 div 1326))
      (word_of_nat (928231 mod 26)) (word_of_nat (928231 mod 51 div 10)))" for x
    by simp
  ultimately show ?thesis
    using sch_synchronises [of "demo_burst 928231 0 0" "0x2a" 928231 ?L "demo_view L1SCHED_SCH []"]
    by (simp add: GSM_TDMA_HYPERFRAME_def demo_burst_def demo_view_def toy_lib_def)
qed

end
