(* ===== verification/Sched_Pdtch.thy ===== *)
theory Sched_Pdtch
  imports Sched_Xcch
begin

text \<open>
  The handlers of the packet data channels (\<^verbatim>\<open>sched_lchan_pdtch.c\<close>). The transmit
  queue is ordered by frame number: the dequeue operation returns the primitive of the current
  frame, drops what is too old and waits for what is too early. The primitive being sent is kept
  in \<^verbatim>\<open>lchan->prim\<close> until its fourth burst confirms it.
\<close>

section \<open>The handlers\<close>

definition rx_pdtch_fn :: "libosmo \<Rightarrow> lchan_view \<Rightarrow> burst_ind \<Rightarrow> (int \<times> lchan_view) option" where
  "rx_pdtch_fn L v bi =
     (if lc_rx_burst_mask (lv_lchan v) = 0 \<and> bi_bid bi \<noteq> 0 then Some (0, v)
      else do {
        v \<leftarrow> store_burst (bi_bid bi) bi (note_burst bi v);
        if bi_bid bi \<noteq> 3 then Some (0, v)
        else do {
          v \<leftarrow> meas_avg_view 4 v;
          v \<leftarrow> Some (upd_lchan (\<lambda>lc. lc\<lparr>lc_rx_burst_mask := push_bit 4 (lc_rx_burst_mask lc)\<rparr>) v);
          bursts \<leftarrow> lc_rx_bursts (lv_lchan v);
          let (rc, l2, n_errors, n_bits_total) = gsm0503_pdtch_decode L bursts
          in do {
            (_, v) \<leftarrow> l1sched_lchan_emit_data_ind L l2 (nat rc) n_errors n_bits_total True v;
            Some (0, v) } } })"

fun pdtch_queue_take :: "libosmo \<Rightarrow> u32 \<Rightarrow> msgb list \<Rightarrow> msgb option \<times> msgb list" where
  "pdtch_queue_take L fn [] = (None, [])"
| "pdtch_queue_take L fn (msg # q) =
     (let ret = gsm0502_fncmp L (ch_frame_nr (prim_chdr_of (mb_prim msg))) fn
      in if ret = 0 then (Some msg, q)
         else if ret > 0 then (None, msg # q)
         else pdtch_queue_take L fn q)"

definition prim_dequeue_pdtch :: "libosmo \<Rightarrow> u32 \<Rightarrow> lchan_view \<Rightarrow> msgb option \<times> lchan_view" where
  "prim_dequeue_pdtch L fn v =
     (let (r, q) = pdtch_queue_take L fn (lc_tx_prims (lv_lchan v))
      in (r, upd_lchan (\<lambda>lc. lc\<lparr>lc_tx_prims := q\<rparr>) v))"

definition pdtch_send :: "libosmo \<Rightarrow> lchan_view \<Rightarrow> burst_req \<Rightarrow> (int \<times> burst_req \<times> lchan_view) option" where
  "pdtch_send L v br =
     do { (br, v) \<leftarrow> send_burst v br;
          if br_bid br = 3
          then do {
            (_, v) \<leftarrow> l1sched_lchan_emit_data_cnf L (lc_prim (lv_lchan v)) (GSM_TDMA_FN_SUB L (br_fn br) 3) v;
            Some (0, br, upd_lchan (\<lambda>lc. lc\<lparr>lc_prim := None\<rparr>) v) }
          else Some (0, br, v) }"

definition tx_pdtch_fn :: "libosmo \<Rightarrow> lchan_view \<Rightarrow> burst_req \<Rightarrow> (int \<times> burst_req \<times> lchan_view) option" where
  "tx_pdtch_fn L v br =
     (if br_bid br > 0 then
        if \<not> bit (lc_tx_burst_mask (lv_lchan v)) 0 then Some (- ENOENT, br, v)
        else pdtch_send L v br
      else
        (let v = upd_lchan (\<lambda>lc. lc\<lparr>lc_tx_burst_mask := push_bit 4 (lc_tx_burst_mask lc)\<rparr>) v;
             (msg, v) = prim_dequeue_pdtch L (br_fn br) v
         in case msg of
              None \<Rightarrow> Some (- ENOENT, br, v)
            | Some m \<Rightarrow> do {
                bursts \<leftarrow> lc_tx_bursts (lv_lchan v);
                let (rc, bursts) = gsm0503_pdtch_encode L bursts (mb_l2 m);
                    v = upd_lchan (\<lambda>lc. lc\<lparr>lc_tx_bursts := Some bursts\<rparr>) v
                in if rc < 0 then Some (- EINVAL, br, v)
                   else if lc_prim (lv_lchan v) \<noteq> None then None
                   else pdtch_send L (upd_lchan (\<lambda>lc. lc\<lparr>lc_prim := Some m\<rparr>) v) br }))"

section \<open>The dequeue operation\<close>

lemma pdtch_queue_take_split:
  "pdtch_queue_take L fn q = (r, q') \<Longrightarrow> \<exists>stale. q = stale @ (case r of None \<Rightarrow> q' | Some m \<Rightarrow> m # q') \<and>
     list_all (\<lambda>m. gsm0502_fncmp L (ch_frame_nr (prim_chdr_of (mb_prim m))) fn < 0) stale \<and>
     (case r of
        Some m \<Rightarrow> gsm0502_fncmp L (ch_frame_nr (prim_chdr_of (mb_prim m))) fn = 0
      | None \<Rightarrow> (case q' of [] \<Rightarrow> True
          | m # _ \<Rightarrow> gsm0502_fncmp L (ch_frame_nr (prim_chdr_of (mb_prim m))) fn > 0))"
proof (induction L fn q rule: pdtch_queue_take.induct)
  case (2 L fn msg q)
  let ?ret = "gsm0502_fncmp L (ch_frame_nr (prim_chdr_of (mb_prim msg))) fn"
  show ?case
  proof (cases "?ret < 0")
    case True
    then obtain stale where "q = stale @ (case r of None \<Rightarrow> q' | Some m \<Rightarrow> m # q')"
      and "list_all (\<lambda>m. gsm0502_fncmp L (ch_frame_nr (prim_chdr_of (mb_prim m))) fn < 0) stale"
      and "case r of
        Some m \<Rightarrow> gsm0502_fncmp L (ch_frame_nr (prim_chdr_of (mb_prim m))) fn = 0
      | None \<Rightarrow> (case q' of [] \<Rightarrow> True
          | m # _ \<Rightarrow> gsm0502_fncmp L (ch_frame_nr (prim_chdr_of (mb_prim m))) fn > 0)"
      using 2 by (auto simp: Let_def)
    then show ?thesis
      using True by (intro exI [of _ "msg # stale"]) simp
  next
    case False
    then show ?thesis
      using 2(2) by (intro exI [of _ "[]"]) (auto simp: Let_def split: if_splits)
  qed
qed simp

text \<open>The dequeue operation of a packet channel splits the queue at the
  current frame: everything it drops is older than the frame, what it returns is for exactly this
  frame, and when it returns nothing the first primitive it leaves is for a later frame.\<close>

theorem pdtch_dequeue_on_time:
  assumes "prim_dequeue_pdtch L fn v = (r, v')"
  shows "\<exists>stale. lc_tx_prims (lv_lchan v) =
      stale @ (case r of None \<Rightarrow> [] | Some m \<Rightarrow> [m]) @ lc_tx_prims (lv_lchan v') \<and>
    list_all (\<lambda>m. gsm0502_fncmp L (ch_frame_nr (prim_chdr_of (mb_prim m))) fn < 0) stale \<and>
    (case r of
       Some m \<Rightarrow> gsm0502_fncmp L (ch_frame_nr (prim_chdr_of (mb_prim m))) fn = 0
     | None \<Rightarrow> (case lc_tx_prims (lv_lchan v') of [] \<Rightarrow> True
         | m # _ \<Rightarrow> gsm0502_fncmp L (ch_frame_nr (prim_chdr_of (mb_prim m))) fn > 0))"
  using assms pdtch_queue_take_split [of L fn "lc_tx_prims (lv_lchan v)" r]
  by (auto simp: prim_dequeue_pdtch_def split: prod.splits option.splits)

definition demo_prim_fn :: "u32 \<Rightarrow> msgb" where
  "demo_prim_fn fn = \<lparr>mb_prim = DATA_REQ \<lparr>ch_frame_nr = fn, ch_chan_nr = 0xc0, ch_link_id = 0,
     ch_traffic = False\<rparr>, mb_l2 = replicate 23 0x2b\<rparr>"

lemma demo_prim_fn_frame: "ch_frame_nr (prim_chdr_of (mb_prim (demo_prim_fn fn))) = fn"
  by (simp add: demo_prim_fn_def)

theorem pdtch_dequeue_on_time_witness:
  "\<exists>v'. prim_dequeue_pdtch toy_lib 100 (demo_view L1SCHED_PDTCH [demo_prim_fn 91, demo_prim_fn 104])
      = (None, v') \<and> lc_tx_prims (lv_lchan v') = [demo_prim_fn 104]"
proof -
  let ?v = "demo_view L1SCHED_PDTCH [demo_prim_fn 91, demo_prim_fn 104]"
  have cmp: "gsm0502_fncmp toy_lib 91 100 < 0" "gsm0502_fncmp toy_lib 104 100 > 0"
    by (simp_all add: toy_lib_def GSM_TDMA_HYPERFRAME_def)
  then have "fst (prim_dequeue_pdtch toy_lib 100 ?v) = None"
    by (simp add: prim_dequeue_pdtch_def demo_view_def demo_prim_fn_frame Let_def)
  then obtain v' where d: "prim_dequeue_pdtch toy_lib 100 ?v = (None, v')"
    by (cases "prim_dequeue_pdtch toy_lib 100 ?v") auto
  obtain stale where st: "[demo_prim_fn 91, demo_prim_fn 104] = stale @ lc_tx_prims (lv_lchan v')"
    "list_all (\<lambda>m. gsm0502_fncmp toy_lib (ch_frame_nr (prim_chdr_of (mb_prim m))) 100 < 0) stale"
    "case lc_tx_prims (lv_lchan v') of [] \<Rightarrow> True
       | m # _ \<Rightarrow> gsm0502_fncmp toy_lib (ch_frame_nr (prim_chdr_of (mb_prim m))) 100 > 0"
    using pdtch_dequeue_on_time [OF d] by (auto simp: demo_view_def)
  have "lc_tx_prims (lv_lchan v') = [demo_prim_fn 104]"
  proof (cases stale)
    case Nil
    then have "lc_tx_prims (lv_lchan v') = [demo_prim_fn 91, demo_prim_fn 104]" using st(1) by simp
    then show ?thesis using st(3) cmp(1) by (simp add: demo_prim_fn_frame)
  next
    case (Cons a rest)
    then show ?thesis
      using st(1,2) cmp(2) by (cases rest) (auto simp: demo_prim_fn_frame)
  qed
  with d show ?thesis by blast
qed

interpretation pdtch_src: prim_source "prim_dequeue_pdtch L fn" "\<lambda>v. lc_tx_prims (lv_lchan v)"
    "\<lambda>_. True" "\<lambda>_. False" for L fn
proof
  fix s s' :: lchan_view and r assume "prim_dequeue_pdtch L fn s = (r, s')"
  then obtain q where q: "pdtch_queue_take L fn (lc_tx_prims (lv_lchan s)) = (r, q)"
    and s': "lc_tx_prims (lv_lchan s') = q"
    by (auto simp: prim_dequeue_pdtch_def split: prod.splits)
  from pdtch_queue_take_split [OF q] obtain stale where
    split: "lc_tx_prims (lv_lchan s) = stale @ (case r of None \<Rightarrow> q | Some m \<Rightarrow> m # q)"
    by blast
  then show "subseq (lc_tx_prims (lv_lchan s')) (lc_tx_prims (lv_lchan s))"
    using s' by (cases r) (auto simp: subseq_drop_many list_emb_Cons)
  show "add_mset m (mset (lc_tx_prims (lv_lchan s'))) \<subseteq># mset (lc_tx_prims (lv_lchan s)) \<or> False"
    if "prim_dequeue_pdtch L fn s = (Some m, s')" for m
    using split s' that q by (auto simp: prim_dequeue_pdtch_def)
qed simp

section \<open>The contracts\<close>

text \<open>
  The transmit handler needs, at the first burst of a block, that no primitive is being sent:
  the code asserts it. At every other burst it needs nothing more than its buffer.
\<close>

definition pdtch_tx_pre :: "libosmo \<Rightarrow> lchan_view \<Rightarrow> burst_req \<Rightarrow> bool" where
  "pdtch_tx_pre L v br \<longleftrightarrow> xcch_tx_pre L v br \<and> (br_bid br = 0 \<longrightarrow> lc_prim (lv_lchan v) = None)"

definition pdtch_rx_pre :: "libosmo \<Rightarrow> lchan_state \<Rightarrow> burst_ind \<Rightarrow> bool" where
  "pdtch_rx_pre L lc bi \<longleftrightarrow> xcch_rx_pre L lc bi"

lemma keeps_prim [keeps_intros]:
  "(case p of None \<Rightarrow> True | Some m \<Rightarrow> prim_is_req (mb_prim m)) \<Longrightarrow>
   keeps L v (upd_lchan (\<lambda>lc. lc\<lparr>lc_prim := p\<rparr>) v)"
  by (rule keeps_upd) (auto simp: lchan_wf_def lchan_bufs_wf_def same_chan_def)

lemma pdtch_send_post:
  assumes "view_wf L v" "br_wf br" "lc_tx_bursts (lv_lchan v) = Some bs"
    and "br_bid br * 116 + 116 \<le> length bs"
  obtains br' v' where "pdtch_send L v br = Some (0, br', v')" "view_wf L v'" "same_chan v v'"
    "br_wf br'" "same_req br br'"
proof -
  obtain br1 v1 where s: "send_burst v br = Some (br1, v1)" "view_wf L v1" "same_chan v v1"
    "br_wf br1" "same_req br br1" "lc_tx_bursts (lv_lchan v1) = Some bs"
    using send_burst_post [OF assms] by blast
  have bid: "br_bid br1 = br_bid br"
    using s(5) by (simp add: same_req_def)
  show ?thesis
  proof (cases "br_bid br = 3")
    case False
    then have "pdtch_send L v br = Some (0, br1, v1)"
      using s(1) bid by (simp add: pdtch_send_def)
    with s show ?thesis using that by blast
  next
    case True
    have "\<exists>rc v2. l1sched_lchan_emit_data_cnf L (lc_prim (lv_lchan v1)) (GSM_TDMA_FN_SUB L (br_fn br1) 3) v1 = Some (rc, v2)"
    proof (cases "lc_prim (lv_lchan v1)")
      case None
      then show ?thesis by (simp add: l1sched_lchan_emit_data_cnf_def)
    next
      case (Some m)
      then have "prim_is_req (mb_prim m)"
        using s(2) by (simp add: view_wf_def lchan_wf_def)
      then show ?thesis
        using Some emit_cnf_returns by metis
    qed
    then obtain rc v2 where e: "l1sched_lchan_emit_data_cnf L (lc_prim (lv_lchan v1))
        (GSM_TDMA_FN_SUB L (br_fn br1) 3) v1 = Some (rc, v2)"
      by blast
    have "keeps L v1 (upd_lchan (\<lambda>lc. lc\<lparr>lc_prim := None\<rparr>) v2)"
      by (rule keeps_trans [OF keeps_emit_cnf [OF e] keeps_prim]) simp
    moreover have "pdtch_send L v br = Some (0, br1, upd_lchan (\<lambda>lc. lc\<lparr>lc_prim := None\<rparr>) v2)"
      using s(1) bid True e by (simp add: pdtch_send_def)
    ultimately show ?thesis
      using that s keepsD same_chan_trans by blast
  qed
qed

lemma tx_pdtch_fn_ok:
  assumes "pdtch_tx_pre L v br" "view_wf L v" "br_wf br"
  shows "tx_post L v br (tx_pdtch_fn L v br)"
proof -
  obtain bs where bs: "lc_tx_bursts (lv_lchan v) = Some bs" "464 \<le> length bs" and bid: "br_bid br < 4"
    and cl: "codec_len_ok L" and prim: "br_bid br = 0 \<longrightarrow> lc_prim (lv_lchan v) = None"
    using assms(1) by (auto simp: pdtch_tx_pre_def xcch_tx_pre_def)
  have pos: "br_bid br * 116 + 116 \<le> length bs" using bs(2) bid by simp
  show ?thesis
  proof (cases "br_bid br > 0")
    case True
    obtain br' v' where "pdtch_send L v br = Some (0, br', v')" "view_wf L v'" "same_chan v v'"
      "br_wf br'" "same_req br br'"
      using pdtch_send_post [OF assms(2,3) bs(1) pos] by blast
    then show ?thesis
      using True assms by (auto simp: tx_pdtch_fn_def tx_post_def same_req_def)
  next
    case False
    define v0 where "v0 = upd_lchan (\<lambda>lc. lc\<lparr>lc_tx_burst_mask := push_bit 4 (lc_tx_burst_mask lc)\<rparr>) v"
    obtain r v1 where d: "prim_dequeue_pdtch L (br_fn br) v0 = (r, v1)"
      by (cases "prim_dequeue_pdtch L (br_fn br) v0")
    have sub: "set (lc_tx_prims (lv_lchan v1)) \<subseteq> set (lc_tx_prims (lv_lchan v0))"
      using set_mset_mono [OF subseq_mset [OF pdtch_src.deq_order [OF _ d]]] by simp
    obtain q where q: "v1 = upd_lchan (\<lambda>lc. lc\<lparr>lc_tx_prims := q\<rparr>) v0"
      using d by (auto simp: prim_dequeue_pdtch_def split: prod.splits)
    have b1: "lc_tx_bursts (lv_lchan v1) = Some bs" "lc_prim (lv_lchan v1) = None"
      using bs(1) prim False by (simp_all add: q v0_def)
    have "keeps L v0 v1"
      using sub unfolding q by (intro keeps_dequeue) simp
    then have k1: "keeps L v v1"
      using keeps_trans [OF keeps_masks(1)] by (auto simp: v0_def)
    note wf1 = conjunct1 [OF keepsD [OF k1 assms(2)]]
    show ?thesis
    proof (cases r)
      case None
      then have "tx_pdtch_fn L v br = Some (- ENOENT, br, v1)"
        using False d by (simp add: tx_pdtch_fn_def v0_def [symmetric])
      then show ?thesis
        using keepsD [OF k1 assms(2)] assms(3) by (simp add: tx_post_def same_req_def)
    next
      case (Some m)
      have "m \<in> set (lc_tx_prims (lv_lchan v0))"
        using pdtch_src.deq_src [OF _ d [unfolded Some]] by (auto dest: mset_subset_eqD)
      then have m: "prim_is_req (mb_prim m)"
        using keepsD [OF keeps_masks(1) assms(2)] by (auto simp: v0_def view_wf_def lchan_wf_def list_all_iff)
      obtain rc coded where e: "gsm0503_pdtch_encode L bs (mb_l2 m) = (rc, coded)"
        by (cases "gsm0503_pdtch_encode L bs (mb_l2 m)")
      then have len: "length coded = length bs"
        using codec_len_okD(2) [OF cl, of bs "mb_l2 m"] by simp
      define v2 where "v2 = upd_lchan (\<lambda>lc. lc\<lparr>lc_tx_bursts := Some coded\<rparr>) v1"
      have k2: "keeps L v v2"
        unfolding v2_def using len b1(1) by (intro keeps_trans [OF k1] keeps_tx_bursts) auto
      define v3 where "v3 = upd_lchan (\<lambda>lc. lc\<lparr>lc_prim := Some m\<rparr>) v2"
      have k3: "keeps L v v3"
        unfolding v3_def using m by (intro keeps_trans [OF k2] keeps_prim) simp
      have "lc_tx_bursts (lv_lchan v3) = Some coded" "br_bid br * 116 + 116 \<le> length coded"
        using pos len by (simp_all add: v3_def v2_def)
      from pdtch_send_post [OF conjunct1 [OF keepsD [OF k3 assms(2)]] assms(3) this]
      obtain br' v' where s: "pdtch_send L v3 br = Some (0, br', v')" "view_wf L v'" "same_chan v3 v'"
        "br_wf br'" "same_req br br'" by blast
      have "tx_pdtch_fn L v br = (if rc < 0 then Some (- EINVAL, br, v2) else Some (0, br', v'))"
        using False d Some b1 e s(1)
        by (simp add: tx_pdtch_fn_def v0_def [symmetric] v2_def [symmetric] v3_def [symmetric])
          (simp add: v2_def)
      then show ?thesis
        using s keepsD [OF k2 assms(2)] keepsD [OF k3 assms(2)] assms(3)
        by (auto simp: tx_post_def same_req_def intro: same_chan_trans)
    qed
  qed
qed

interpretation pdtch_tx: tx_handler tx_pdtch_fn pdtch_tx_pre
  by unfold_locales (rule tx_pdtch_fn_ok)

lemma rx_pdtch_fn_ok:
  assumes "pdtch_rx_pre L (lv_lchan v) bi" "view_wf L v" "bi_wf bi"
  shows "rx_post L v (rx_pdtch_fn L v bi)"
proof (cases "lc_rx_burst_mask (lv_lchan v) = 0 \<and> bi_bid bi \<noteq> 0")
  case True
  then show ?thesis using assms by (simp add: rx_pdtch_fn_def rx_post_def)
next
  case False
  obtain bs where bs: "lc_rx_bursts (lv_lchan v) = Some bs" "464 \<le> length bs" and bid: "bi_bid bi < 4"
    and dec: "decode_ok L"
    using assms(1) by (auto simp: pdtch_rx_pre_def xcch_rx_pre_def)
  have "bi_bid bi * 116 + 116 \<le> length bs" using bs(2) bid by simp
  from store_burst_post [OF bs(1) this assms(3)] obtain v1 bs1 where
    v1: "store_burst (bi_bid bi) bi (note_burst bi v) = Some v1" "keeps L v v1"
    "mh_head (lc_meas_hist (lv_lchan v1)) \<noteq> None" "lc_rx_bursts (lv_lchan v1) = Some bs1"
    by metis
  show ?thesis
  proof (cases "bi_bid bi = 3")
    case False
    then show ?thesis
      using \<open>\<not> (_ \<and> _)\<close> v1 keepsD [OF v1(2) assms(2)] by (auto simp: rx_pdtch_fn_def rx_post_def)
  next
    case True
    obtain a where v2: "meas_avg_view 4 v1 = Some (upd_lchan (\<lambda>lc. lc\<lparr>lc_meas_avg := a\<rparr>) v1)"
      "keeps L v1 (upd_lchan (\<lambda>lc. lc\<lparr>lc_meas_avg := a\<rparr>) v1)"
      using meas_avg_view_post [OF v1(3), of 4] by auto
    define v3 where "v3 = upd_lchan (\<lambda>lc. lc\<lparr>lc_rx_burst_mask := push_bit 4 (lc_rx_burst_mask lc)\<rparr>)
      (upd_lchan (\<lambda>lc. lc\<lparr>lc_meas_avg := a\<rparr>) v1)"
    have v3: "keeps L v v3"
      using keeps_trans [OF keeps_trans [OF v1(2) v2(2)] keeps_masks(2)] by (simp add: v3_def)
    obtain rc l2 e n where d: "gsm0503_pdtch_decode L bs1 = (rc, l2, e, n)"
      by (cases "gsm0503_pdtch_decode L bs1")
    then have "nat rc \<le> length l2" "nat rc \<le> 512"
      using decode_okD(2) [OF dec, of bs1] by (auto simp: dec_ok_def)
    from emit_ind_returns [OF this] obtain m where
      em: "l1sched_lchan_emit_data_ind L l2 (nat rc) e n True v3
        = Some (prim_to_user_rc L, v3\<lparr>lv_out := lv_out v3 @ [m]\<rparr>)"
      by blast
    have "rx_pdtch_fn L v bi = Some (0, v3\<lparr>lv_out := lv_out v3 @ [m]\<rparr>)"
      using False True v1 v2(1) d em by (simp add: rx_pdtch_fn_def v3_def [symmetric])
    then show ?thesis
      using keepsD [OF keeps_trans [OF v3(1) keeps_out] assms(2)] by (simp add: rx_post_def)
  qed
qed

interpretation pdtch_rx: rx_handler rx_pdtch_fn pdtch_rx_pre
  by unfold_locales (rule rx_pdtch_fn_ok)

section \<open>The life of a block\<close>

lemma pdtch_send_eq:
  assumes "lc_tx_bursts (lv_lchan v) = Some bs" "br_bid br * 116 + 116 \<le> length bs"
    and "unat (lc_tsc (lv_lchan v)) < 8" "br_bid br \<noteq> 3"
  shows "\<exists>br' v'. pdtch_send L v br = Some (0, br', v') \<and> lc_prim (lv_lchan v') = lc_prim (lv_lchan v) \<and>
    lc_tx_bursts (lv_lchan v') = Some bs \<and> lc_tsc (lv_lchan v') = lc_tsc (lv_lchan v) \<and>
    lc_tx_prims (lv_lchan v') = lc_tx_prims (lv_lchan v) \<and> lv_out v' = lv_out v \<and>
    (bit (lc_tx_burst_mask (lv_lchan v)) 0 \<or> br_bid br = 0 \<longrightarrow> bit (lc_tx_burst_mask (lv_lchan v')) 0)"
  using send_burst_Some [OF assms(1-3)] assms
  by (auto simp: pdtch_send_def nb_set_bit_def bit_simps)

lemma pdtch_send_last:
  assumes "lc_tx_bursts (lv_lchan v) = Some bs" "464 \<le> length bs" "br_bid br = 3"
    and "unat (lc_tsc (lv_lchan v)) < 8" "lc_prim (lv_lchan v) = Some m" "prim_is_req (mb_prim m)"
  shows "\<exists>br' v' p. pdtch_send L v br = Some (0, br', v') \<and> lc_prim (lv_lchan v') = None \<and>
    prim_to_cnf (GSM_TDMA_FN_SUB L (br_fn br) 3) (mb_prim m) = Some p \<and>
    lc_tx_prims (lv_lchan v') = lc_tx_prims (lv_lchan v) \<and> lv_out v' = lv_out v @ [m\<lparr>mb_prim := p\<rparr>]"
proof -
  let ?fn = "GSM_TDMA_FN_SUB L (br_fn br) 3"
  define v1 where "v1 = upd_lchan (\<lambda>lc. lc\<lparr>lc_tx_burst_mask := nb_set_bit 3 (lc_tx_burst_mask lc)\<rparr>) v"
  obtain br' where s: "send_burst v br = Some (br', v1)" "br_bid br' = 3" "br_fn br' = br_fn br"
    using send_burst_Some [OF assms(1), of br] assms(2-4) by (auto simp: v1_def)
  obtain p where p: "prim_to_cnf ?fn (mb_prim m) = Some p"
    "l1sched_lchan_emit_data_cnf L (Some m) ?fn v1 =
      Some (prim_to_user_rc L, v1\<lparr>lv_out := lv_out v1 @ [m\<lparr>mb_prim := p\<rparr>]\<rparr>)"
    using emit_cnf_returns [OF assms(6)] by blast
  have "lc_prim (lv_lchan v1) = Some m" "lc_tx_prims (lv_lchan v1) = lc_tx_prims (lv_lchan v)"
    "lv_out v1 = lv_out v"
    using assms(5) by (simp_all add: v1_def)
  with s p show ?thesis
    by (auto simp: pdtch_send_def)
qed

lemma fn_block_start:
  assumes "fn_arith_ok L" "unat f < GSM_TDMA_HYPERFRAME"
  shows "GSM_TDMA_FN_SUB L (GSM_TDMA_FN_INC L (GSM_TDMA_FN_INC L (GSM_TDMA_FN_INC L f))) 3 = f"
proof -
  have inc: "unat (GSM_TDMA_FN_INC L x) = (unat x + 1) mod GSM_TDMA_HYPERFRAME" for x
    using assms(1) by (simp add: fn_arith_ok_def)
  have sub: "unat (GSM_TDMA_FN_SUB L a b) = (unat a + GSM_TDMA_HYPERFRAME - unat b) mod GSM_TDMA_HYPERFRAME"
    if "unat a < GSM_TDMA_HYPERFRAME" "unat b < GSM_TDMA_HYPERFRAME" for a b
    using assms(1) that by (simp add: fn_arith_ok_def)
  have h: "GSM_TDMA_HYPERFRAME = 2715648" by (simp add: GSM_TDMA_HYPERFRAME_def)
  let ?f3 = "GSM_TDMA_FN_INC L (GSM_TDMA_FN_INC L (GSM_TDMA_FN_INC L f))"
  have f3: "unat ?f3 = (unat f + 3) mod GSM_TDMA_HYPERFRAME"
    by (simp add: inc mod_Suc_eq numeral_eq_Suc)
  have "unat (GSM_TDMA_FN_SUB L ?f3 3) = (unat ?f3 + GSM_TDMA_HYPERFRAME - 3) mod GSM_TDMA_HYPERFRAME"
    using sub [of ?f3 3] f3 by (simp add: h)
  also have "\<dots> = unat f"
  proof (cases "unat f + 3 < 2715648")
    case True
    then have "unat ?f3 = unat f + 3" using f3 by (simp add: h)
    then show ?thesis using True by (simp add: h)
  next
    case False
    then have "unat ?f3 = unat f + 3 - 2715648" using f3 assms(2) by (simp add: h mod_if)
    then show ?thesis using False assms(2) by (simp add: h)
  qed
  finally show ?thesis by (simp add: word_unat_eq_iff)
qed

lemma tx_run_append:
  "tx_run tx v (xs @ ys) = do { (a, v) \<leftarrow> tx_run tx v xs; (b, v) \<leftarrow> tx_run tx v ys; Some (a @ b, v) }"
proof (induction xs arbitrary: v)
  case Nil
  then show ?case by (cases "tx_run tx v ys") auto
next
  case (Cons br xs)
  show ?case
  proof (cases "tx v br")
    case tx: (Some r)
    obtain rc b u where r: "r = (rc, b, u)" by (cases r)
    show ?thesis
    proof (cases "tx_run tx u xs")
      case None
      then show ?thesis using tx r Cons [of u] by simp
    next
      case (Some p)
      obtain a w where "p = (a, w)" by (cases p)
      then show ?thesis
        using tx r Cons [of u] Some by (cases "tx_run tx w ys") (simp_all split: prod.split)
    qed
  qed simp
qed

text \<open>The first three bursts of a block leave its primitive pending.\<close>

lemma pdtch_block_start:
  assumes "codec_len_ok L" and "view_wf L v"
    and "lc_tx_bursts (lv_lchan v) = Some bs" and "464 \<le> length bs" and "lc_prim (lv_lchan v) = None"
    and "pdtch_queue_take L f (lc_tx_prims (lv_lchan v)) = (Some m, q)"
    and "0 \<le> fst (gsm0503_pdtch_encode L bs (mb_l2 m))"
  shows "\<exists>brs u coded. tx_run (tx_pdtch_fn L) v [empty_req tn f 0, empty_req tn f1 1, empty_req tn f2 2] = Some (brs, u) \<and>
    lc_prim (lv_lchan u) = Some m \<and> prim_is_req (mb_prim m) \<and> lc_tx_bursts (lv_lchan u) = Some coded \<and>
    length coded = length bs \<and> unat (lc_tsc (lv_lchan u)) < 8 \<and> lc_tx_prims (lv_lchan u) = q \<and>
    lv_out u = lv_out v \<and> bit (lc_tx_burst_mask (lv_lchan u)) 0"
proof -
  have b: "br_bid (empty_req tn f i) = i" "br_fn (empty_req tn f i) = f" for f i
    by (simp_all add: empty_req_def)
  have tsc: "unat (lc_tsc (lv_lchan v)) < 8"
    using assms(2) by (simp add: view_wf_def lchan_wf_def)
  have "m \<in> set (lc_tx_prims (lv_lchan v))"
    using pdtch_queue_take_split [OF assms(6)] by auto
  then have req: "prim_is_req (mb_prim m)"
    using assms(2) by (auto simp: view_wf_def lchan_wf_def list_all_iff)
  obtain rc coded where enc: "gsm0503_pdtch_encode L bs (mb_l2 m) = (rc, coded)" "0 \<le> rc"
    using assms(7) by (cases "gsm0503_pdtch_encode L bs (mb_l2 m)") auto
  have len: "length coded = length bs"
    using codec_len_okD(2) [OF assms(1), of bs "mb_l2 m"] enc by simp
  define v0 where "v0 = upd_lchan (\<lambda>lc. lc\<lparr>lc_prim := Some m\<rparr>) (upd_lchan (\<lambda>lc. lc\<lparr>lc_tx_bursts := Some coded\<rparr>)
    (upd_lchan (\<lambda>lc. lc\<lparr>lc_tx_prims := q\<rparr>)
      (upd_lchan (\<lambda>lc. lc\<lparr>lc_tx_burst_mask := push_bit 4 (lc_tx_burst_mask lc)\<rparr>) v)))"
  have v0: "lc_prim (lv_lchan v0) = Some m" "lc_tx_bursts (lv_lchan v0) = Some coded"
    "lc_tsc (lv_lchan v0) = lc_tsc (lv_lchan v)" "lc_tx_prims (lv_lchan v0) = q" "lv_out v0 = lv_out v"
    by (simp_all add: v0_def)
  have first: "tx_pdtch_fn L v (empty_req tn f 0) = pdtch_send L v0 (empty_req tn f 0)"
    using assms(3,5,6) enc
    by (simp add: tx_pdtch_fn_def prim_dequeue_pdtch_def b v0_def Let_def)
  have later: "tx_pdtch_fn L u (empty_req tn g i) = pdtch_send L u (empty_req tn g i)"
    if "bit (lc_tx_burst_mask (lv_lchan u)) 0" "0 < i" for u g i
    using that by (simp add: tx_pdtch_fn_def b)
  from pdtch_send_eq [of v0 coded "empty_req tn f 0" L] obtain b1 v1 where
    s1: "pdtch_send L v0 (empty_req tn f 0) = Some (0, b1, v1)" and
    v1: "lc_prim (lv_lchan v1) = Some m" "lc_tx_bursts (lv_lchan v1) = Some coded"
      "lc_tsc (lv_lchan v1) = lc_tsc (lv_lchan v)" "lc_tx_prims (lv_lchan v1) = q" "lv_out v1 = lv_out v"
      "bit (lc_tx_burst_mask (lv_lchan v1)) 0"
    using v0 len assms(4) tsc by (auto simp: b)
  from pdtch_send_eq [of v1 coded "empty_req tn f1 1" L] obtain b2 v2 where
    s2: "pdtch_send L v1 (empty_req tn f1 1) = Some (0, b2, v2)" and
    v2: "lc_prim (lv_lchan v2) = Some m" "lc_tx_bursts (lv_lchan v2) = Some coded"
      "lc_tsc (lv_lchan v2) = lc_tsc (lv_lchan v)" "lc_tx_prims (lv_lchan v2) = q" "lv_out v2 = lv_out v"
      "bit (lc_tx_burst_mask (lv_lchan v2)) 0"
    using v1 len assms(4) tsc by (auto simp: b)
  from pdtch_send_eq [of v2 coded "empty_req tn f2 2" L] obtain b3 v3 where
    s3: "pdtch_send L v2 (empty_req tn f2 2) = Some (0, b3, v3)" and
    v3: "lc_prim (lv_lchan v3) = Some m" "lc_tx_bursts (lv_lchan v3) = Some coded"
      "lc_tsc (lv_lchan v3) = lc_tsc (lv_lchan v)" "lc_tx_prims (lv_lchan v3) = q" "lv_out v3 = lv_out v"
      "bit (lc_tx_burst_mask (lv_lchan v3)) 0"
    using v2 len assms(4) tsc by (auto simp: b)
  show ?thesis
    using first s1 later [OF v1(6)] s2 later [OF v2(6)] s3 v3 len tsc req
    by (intro exI [of _ "[b1, b2, b3]"] exI [of _ v3] exI [of _ coded]) simp
qed


definition demo_pdtch :: "msgb list \<Rightarrow> lchan_view" where
  "demo_pdtch q = upd_lchan (\<lambda>lc. lc\<lparr>lc_rx_bursts := Some (replicate (4 * 348) 0),
     lc_tx_bursts := Some (replicate (4 * 348) 0)\<rparr>) (demo_view L1SCHED_PDTCH q)"

lemma view_wf_demo_pdtch: "list_all (prim_is_req \<circ> mb_prim) q \<Longrightarrow> view_wf toy_lib (demo_pdtch q)"
  using sacch_wf_demo [of L1SCHED_PDTCH q]
  by (simp add: view_wf_def demo_pdtch_def demo_view_def lchan_wf_def lchan_bufs_wf_def buf_ok_def Let_def
      zero_lchan_def meas_hist_wf_def zero_a5_def zero_amr_def sacch_wf_def gsm_nbits)

lemma demo_pdtch_simps:
  "lc_tx_bursts (lv_lchan (demo_pdtch q)) = Some (replicate 1392 0)"
  "lc_prim (lv_lchan (demo_pdtch q)) = None" "lc_tx_prims (lv_lchan (demo_pdtch q)) = q"
  "lv_out (demo_pdtch q) = []"
  by (simp_all add: demo_pdtch_def demo_view_def zero_lchan_def)




end
