(* ===== verification/Sched_Mframe.thy ===== *)
theory Sched_Mframe
  imports Sched_Types
begin

text \<open>
  The TDMA multiframe layouts (\<^verbatim>\<open>sched_mframe.c\<close>): for every channel combination
  and timeslot, which logical channel and which burst of its block each frame carries, on
  the downlink and on the uplink. The tables are the source's, row by row.
\<close>

section \<open>Frames\<close>

datatype tdma_frame =
  TDMA_Frame (dl_chan: lchan_type) (dl_bid: nat) (ul_chan: lchan_type) (ul_bid: nat)

definition frame_bcch :: "tdma_frame list" where
  "frame_bcch = [
     TDMA_Frame L1SCHED_FCCH 0 L1SCHED_RACH 0,
     TDMA_Frame L1SCHED_SCH 0 L1SCHED_RACH 0,
     TDMA_Frame L1SCHED_BCCH 0 L1SCHED_RACH 0,
     TDMA_Frame L1SCHED_BCCH 1 L1SCHED_RACH 0,
     TDMA_Frame L1SCHED_BCCH 2 L1SCHED_RACH 0,
     TDMA_Frame L1SCHED_BCCH 3 L1SCHED_RACH 0,
     TDMA_Frame L1SCHED_CCCH 0 L1SCHED_RACH 0,
     TDMA_Frame L1SCHED_CCCH 1 L1SCHED_RACH 0,
     TDMA_Frame L1SCHED_CCCH 2 L1SCHED_RACH 0,
     TDMA_Frame L1SCHED_CCCH 3 L1SCHED_RACH 0,
     TDMA_Frame L1SCHED_FCCH 0 L1SCHED_RACH 0,
     TDMA_Frame L1SCHED_SCH 0 L1SCHED_RACH 0,
     TDMA_Frame L1SCHED_CCCH 0 L1SCHED_RACH 0,
     TDMA_Frame L1SCHED_CCCH 1 L1SCHED_RACH 0,
     TDMA_Frame L1SCHED_CCCH 2 L1SCHED_RACH 0,
     TDMA_Frame L1SCHED_CCCH 3 L1SCHED_RACH 0,
     TDMA_Frame L1SCHED_CCCH 0 L1SCHED_RACH 0,
     TDMA_Frame L1SCHED_CCCH 1 L1SCHED_RACH 0,
     TDMA_Frame L1SCHED_CCCH 2 L1SCHED_RACH 0,
     TDMA_Frame L1SCHED_CCCH 3 L1SCHED_RACH 0,
     TDMA_Frame L1SCHED_FCCH 0 L1SCHED_RACH 0,
     TDMA_Frame L1SCHED_SCH 0 L1SCHED_RACH 0,
     TDMA_Frame L1SCHED_CCCH 0 L1SCHED_RACH 0,
     TDMA_Frame L1SCHED_CCCH 1 L1SCHED_RACH 0,
     TDMA_Frame L1SCHED_CCCH 2 L1SCHED_RACH 0,
     TDMA_Frame L1SCHED_CCCH 3 L1SCHED_RACH 0,
     TDMA_Frame L1SCHED_CCCH 0 L1SCHED_RACH 0,
     TDMA_Frame L1SCHED_CCCH 1 L1SCHED_RACH 0,
     TDMA_Frame L1SCHED_CCCH 2 L1SCHED_RACH 0,
     TDMA_Frame L1SCHED_CCCH 3 L1SCHED_RACH 0,
     TDMA_Frame L1SCHED_FCCH 0 L1SCHED_RACH 0,
     TDMA_Frame L1SCHED_SCH 0 L1SCHED_RACH 0,
     TDMA_Frame L1SCHED_CCCH 0 L1SCHED_RACH 0,
     TDMA_Frame L1SCHED_CCCH 1 L1SCHED_RACH 0,
     TDMA_Frame L1SCHED_CCCH 2 L1SCHED_RACH 0,
     TDMA_Frame L1SCHED_CCCH 3 L1SCHED_RACH 0,
     TDMA_Frame L1SCHED_CCCH 0 L1SCHED_RACH 0,
     TDMA_Frame L1SCHED_CCCH 1 L1SCHED_RACH 0,
     TDMA_Frame L1SCHED_CCCH 2 L1SCHED_RACH 0,
     TDMA_Frame L1SCHED_CCCH 3 L1SCHED_RACH 0,
     TDMA_Frame L1SCHED_FCCH 0 L1SCHED_RACH 0,
     TDMA_Frame L1SCHED_SCH 0 L1SCHED_RACH 0,
     TDMA_Frame L1SCHED_CCCH 0 L1SCHED_RACH 0,
     TDMA_Frame L1SCHED_CCCH 1 L1SCHED_RACH 0,
     TDMA_Frame L1SCHED_CCCH 2 L1SCHED_RACH 0,
     TDMA_Frame L1SCHED_CCCH 3 L1SCHED_RACH 0,
     TDMA_Frame L1SCHED_CCCH 0 L1SCHED_RACH 0,
     TDMA_Frame L1SCHED_CCCH 1 L1SCHED_RACH 0,
     TDMA_Frame L1SCHED_CCCH 2 L1SCHED_RACH 0,
     TDMA_Frame L1SCHED_CCCH 3 L1SCHED_RACH 0,
     TDMA_Frame L1SCHED_IDLE 0 L1SCHED_RACH 0]"

definition frame_bcch_sdcch4 :: "tdma_frame list" where
  "frame_bcch_sdcch4 = [
     TDMA_Frame L1SCHED_FCCH 0 L1SCHED_SDCCH4_3 0,
     TDMA_Frame L1SCHED_SCH 0 L1SCHED_SDCCH4_3 1,
     TDMA_Frame L1SCHED_BCCH 0 L1SCHED_SDCCH4_3 2,
     TDMA_Frame L1SCHED_BCCH 1 L1SCHED_SDCCH4_3 3,
     TDMA_Frame L1SCHED_BCCH 2 L1SCHED_RACH 0,
     TDMA_Frame L1SCHED_BCCH 3 L1SCHED_RACH 0,
     TDMA_Frame L1SCHED_CCCH 0 L1SCHED_SACCH4_2 0,
     TDMA_Frame L1SCHED_CCCH 1 L1SCHED_SACCH4_2 1,
     TDMA_Frame L1SCHED_CCCH 2 L1SCHED_SACCH4_2 2,
     TDMA_Frame L1SCHED_CCCH 3 L1SCHED_SACCH4_2 3,
     TDMA_Frame L1SCHED_FCCH 0 L1SCHED_SACCH4_3 0,
     TDMA_Frame L1SCHED_SCH 0 L1SCHED_SACCH4_3 1,
     TDMA_Frame L1SCHED_CCCH 0 L1SCHED_SACCH4_3 2,
     TDMA_Frame L1SCHED_CCCH 1 L1SCHED_SACCH4_3 3,
     TDMA_Frame L1SCHED_CCCH 2 L1SCHED_RACH 0,
     TDMA_Frame L1SCHED_CCCH 3 L1SCHED_RACH 0,
     TDMA_Frame L1SCHED_CCCH 0 L1SCHED_RACH 0,
     TDMA_Frame L1SCHED_CCCH 1 L1SCHED_RACH 0,
     TDMA_Frame L1SCHED_CCCH 2 L1SCHED_RACH 0,
     TDMA_Frame L1SCHED_CCCH 3 L1SCHED_RACH 0,
     TDMA_Frame L1SCHED_FCCH 0 L1SCHED_RACH 0,
     TDMA_Frame L1SCHED_SCH 0 L1SCHED_RACH 0,
     TDMA_Frame L1SCHED_SDCCH4_0 0 L1SCHED_RACH 0,
     TDMA_Frame L1SCHED_SDCCH4_0 1 L1SCHED_RACH 0,
     TDMA_Frame L1SCHED_SDCCH4_0 2 L1SCHED_RACH 0,
     TDMA_Frame L1SCHED_SDCCH4_0 3 L1SCHED_RACH 0,
     TDMA_Frame L1SCHED_SDCCH4_1 0 L1SCHED_RACH 0,
     TDMA_Frame L1SCHED_SDCCH4_1 1 L1SCHED_RACH 0,
     TDMA_Frame L1SCHED_SDCCH4_1 2 L1SCHED_RACH 0,
     TDMA_Frame L1SCHED_SDCCH4_1 3 L1SCHED_RACH 0,
     TDMA_Frame L1SCHED_FCCH 0 L1SCHED_RACH 0,
     TDMA_Frame L1SCHED_SCH 0 L1SCHED_RACH 0,
     TDMA_Frame L1SCHED_SDCCH4_2 0 L1SCHED_RACH 0,
     TDMA_Frame L1SCHED_SDCCH4_2 1 L1SCHED_RACH 0,
     TDMA_Frame L1SCHED_SDCCH4_2 2 L1SCHED_RACH 0,
     TDMA_Frame L1SCHED_SDCCH4_2 3 L1SCHED_RACH 0,
     TDMA_Frame L1SCHED_SDCCH4_3 0 L1SCHED_RACH 0,
     TDMA_Frame L1SCHED_SDCCH4_3 1 L1SCHED_SDCCH4_0 0,
     TDMA_Frame L1SCHED_SDCCH4_3 2 L1SCHED_SDCCH4_0 1,
     TDMA_Frame L1SCHED_SDCCH4_3 3 L1SCHED_SDCCH4_0 2,
     TDMA_Frame L1SCHED_FCCH 0 L1SCHED_SDCCH4_0 3,
     TDMA_Frame L1SCHED_SCH 0 L1SCHED_SDCCH4_1 0,
     TDMA_Frame L1SCHED_SACCH4_0 0 L1SCHED_SDCCH4_1 1,
     TDMA_Frame L1SCHED_SACCH4_0 1 L1SCHED_SDCCH4_1 2,
     TDMA_Frame L1SCHED_SACCH4_0 2 L1SCHED_SDCCH4_1 3,
     TDMA_Frame L1SCHED_SACCH4_0 3 L1SCHED_RACH 0,
     TDMA_Frame L1SCHED_SACCH4_1 0 L1SCHED_RACH 0,
     TDMA_Frame L1SCHED_SACCH4_1 1 L1SCHED_SDCCH4_2 0,
     TDMA_Frame L1SCHED_SACCH4_1 2 L1SCHED_SDCCH4_2 1,
     TDMA_Frame L1SCHED_SACCH4_1 3 L1SCHED_SDCCH4_2 2,
     TDMA_Frame L1SCHED_IDLE 0 L1SCHED_SDCCH4_2 3,
     TDMA_Frame L1SCHED_FCCH 0 L1SCHED_SDCCH4_3 0,
     TDMA_Frame L1SCHED_SCH 0 L1SCHED_SDCCH4_3 1,
     TDMA_Frame L1SCHED_BCCH 0 L1SCHED_SDCCH4_3 2,
     TDMA_Frame L1SCHED_BCCH 1 L1SCHED_SDCCH4_3 3,
     TDMA_Frame L1SCHED_BCCH 2 L1SCHED_RACH 0,
     TDMA_Frame L1SCHED_BCCH 3 L1SCHED_RACH 0,
     TDMA_Frame L1SCHED_CCCH 0 L1SCHED_SACCH4_0 0,
     TDMA_Frame L1SCHED_CCCH 1 L1SCHED_SACCH4_0 1,
     TDMA_Frame L1SCHED_CCCH 2 L1SCHED_SACCH4_0 2,
     TDMA_Frame L1SCHED_CCCH 3 L1SCHED_SACCH4_0 3,
     TDMA_Frame L1SCHED_FCCH 0 L1SCHED_SACCH4_1 0,
     TDMA_Frame L1SCHED_SCH 0 L1SCHED_SACCH4_1 1,
     TDMA_Frame L1SCHED_CCCH 0 L1SCHED_SACCH4_1 2,
     TDMA_Frame L1SCHED_CCCH 1 L1SCHED_SACCH4_1 3,
     TDMA_Frame L1SCHED_CCCH 2 L1SCHED_RACH 0,
     TDMA_Frame L1SCHED_CCCH 3 L1SCHED_RACH 0,
     TDMA_Frame L1SCHED_CCCH 0 L1SCHED_RACH 0,
     TDMA_Frame L1SCHED_CCCH 1 L1SCHED_RACH 0,
     TDMA_Frame L1SCHED_CCCH 2 L1SCHED_RACH 0,
     TDMA_Frame L1SCHED_CCCH 3 L1SCHED_RACH 0,
     TDMA_Frame L1SCHED_FCCH 0 L1SCHED_RACH 0,
     TDMA_Frame L1SCHED_SCH 0 L1SCHED_RACH 0,
     TDMA_Frame L1SCHED_SDCCH4_0 0 L1SCHED_RACH 0,
     TDMA_Frame L1SCHED_SDCCH4_0 1 L1SCHED_RACH 0,
     TDMA_Frame L1SCHED_SDCCH4_0 2 L1SCHED_RACH 0,
     TDMA_Frame L1SCHED_SDCCH4_0 3 L1SCHED_RACH 0,
     TDMA_Frame L1SCHED_SDCCH4_1 0 L1SCHED_RACH 0,
     TDMA_Frame L1SCHED_SDCCH4_1 1 L1SCHED_RACH 0,
     TDMA_Frame L1SCHED_SDCCH4_1 2 L1SCHED_RACH 0,
     TDMA_Frame L1SCHED_SDCCH4_1 3 L1SCHED_RACH 0,
     TDMA_Frame L1SCHED_FCCH 0 L1SCHED_RACH 0,
     TDMA_Frame L1SCHED_SCH 0 L1SCHED_RACH 0,
     TDMA_Frame L1SCHED_SDCCH4_2 0 L1SCHED_RACH 0,
     TDMA_Frame L1SCHED_SDCCH4_2 1 L1SCHED_RACH 0,
     TDMA_Frame L1SCHED_SDCCH4_2 2 L1SCHED_RACH 0,
     TDMA_Frame L1SCHED_SDCCH4_2 3 L1SCHED_RACH 0,
     TDMA_Frame L1SCHED_SDCCH4_3 0 L1SCHED_RACH 0,
     TDMA_Frame L1SCHED_SDCCH4_3 1 L1SCHED_SDCCH4_0 0,
     TDMA_Frame L1SCHED_SDCCH4_3 2 L1SCHED_SDCCH4_0 1,
     TDMA_Frame L1SCHED_SDCCH4_3 3 L1SCHED_SDCCH4_0 2,
     TDMA_Frame L1SCHED_FCCH 0 L1SCHED_SDCCH4_0 3,
     TDMA_Frame L1SCHED_SCH 0 L1SCHED_SDCCH4_1 0,
     TDMA_Frame L1SCHED_SACCH4_2 0 L1SCHED_SDCCH4_1 1,
     TDMA_Frame L1SCHED_SACCH4_2 1 L1SCHED_SDCCH4_1 2,
     TDMA_Frame L1SCHED_SACCH4_2 2 L1SCHED_SDCCH4_1 3,
     TDMA_Frame L1SCHED_SACCH4_2 3 L1SCHED_RACH 0,
     TDMA_Frame L1SCHED_SACCH4_3 0 L1SCHED_RACH 0,
     TDMA_Frame L1SCHED_SACCH4_3 1 L1SCHED_SDCCH4_2 0,
     TDMA_Frame L1SCHED_SACCH4_3 2 L1SCHED_SDCCH4_2 1,
     TDMA_Frame L1SCHED_SACCH4_3 3 L1SCHED_SDCCH4_2 2,
     TDMA_Frame L1SCHED_IDLE 0 L1SCHED_SDCCH4_2 3]"

definition frame_bcch_sdcch4_cbch :: "tdma_frame list" where
  "frame_bcch_sdcch4_cbch = [
     TDMA_Frame L1SCHED_FCCH 0 L1SCHED_SDCCH4_3 0,
     TDMA_Frame L1SCHED_SCH 0 L1SCHED_SDCCH4_3 1,
     TDMA_Frame L1SCHED_BCCH 0 L1SCHED_SDCCH4_3 2,
     TDMA_Frame L1SCHED_BCCH 1 L1SCHED_SDCCH4_3 3,
     TDMA_Frame L1SCHED_BCCH 2 L1SCHED_RACH 0,
     TDMA_Frame L1SCHED_BCCH 3 L1SCHED_RACH 0,
     TDMA_Frame L1SCHED_CCCH 0 L1SCHED_IDLE 0,
     TDMA_Frame L1SCHED_CCCH 1 L1SCHED_IDLE 1,
     TDMA_Frame L1SCHED_CCCH 2 L1SCHED_IDLE 2,
     TDMA_Frame L1SCHED_CCCH 3 L1SCHED_IDLE 3,
     TDMA_Frame L1SCHED_FCCH 0 L1SCHED_SACCH4_3 0,
     TDMA_Frame L1SCHED_SCH 0 L1SCHED_SACCH4_3 1,
     TDMA_Frame L1SCHED_CCCH 0 L1SCHED_SACCH4_3 2,
     TDMA_Frame L1SCHED_CCCH 1 L1SCHED_SACCH4_3 3,
     TDMA_Frame L1SCHED_CCCH 2 L1SCHED_RACH 0,
     TDMA_Frame L1SCHED_CCCH 3 L1SCHED_RACH 0,
     TDMA_Frame L1SCHED_CCCH 0 L1SCHED_RACH 0,
     TDMA_Frame L1SCHED_CCCH 1 L1SCHED_RACH 0,
     TDMA_Frame L1SCHED_CCCH 2 L1SCHED_RACH 0,
     TDMA_Frame L1SCHED_CCCH 3 L1SCHED_RACH 0,
     TDMA_Frame L1SCHED_FCCH 0 L1SCHED_RACH 0,
     TDMA_Frame L1SCHED_SCH 0 L1SCHED_RACH 0,
     TDMA_Frame L1SCHED_SDCCH4_0 0 L1SCHED_RACH 0,
     TDMA_Frame L1SCHED_SDCCH4_0 1 L1SCHED_RACH 0,
     TDMA_Frame L1SCHED_SDCCH4_0 2 L1SCHED_RACH 0,
     TDMA_Frame L1SCHED_SDCCH4_0 3 L1SCHED_RACH 0,
     TDMA_Frame L1SCHED_SDCCH4_1 0 L1SCHED_RACH 0,
     TDMA_Frame L1SCHED_SDCCH4_1 1 L1SCHED_RACH 0,
     TDMA_Frame L1SCHED_SDCCH4_1 2 L1SCHED_RACH 0,
     TDMA_Frame L1SCHED_SDCCH4_1 3 L1SCHED_RACH 0,
     TDMA_Frame L1SCHED_FCCH 0 L1SCHED_RACH 0,
     TDMA_Frame L1SCHED_SCH 0 L1SCHED_RACH 0,
     TDMA_Frame L1SCHED_SDCCH4_CBCH 0 L1SCHED_RACH 0,
     TDMA_Frame L1SCHED_SDCCH4_CBCH 1 L1SCHED_RACH 0,
     TDMA_Frame L1SCHED_SDCCH4_CBCH 2 L1SCHED_RACH 0,
     TDMA_Frame L1SCHED_SDCCH4_CBCH 3 L1SCHED_RACH 0,
     TDMA_Frame L1SCHED_SDCCH4_3 0 L1SCHED_RACH 0,
     TDMA_Frame L1SCHED_SDCCH4_3 1 L1SCHED_SDCCH4_0 0,
     TDMA_Frame L1SCHED_SDCCH4_3 2 L1SCHED_SDCCH4_0 1,
     TDMA_Frame L1SCHED_SDCCH4_3 3 L1SCHED_SDCCH4_0 2,
     TDMA_Frame L1SCHED_FCCH 0 L1SCHED_SDCCH4_0 3,
     TDMA_Frame L1SCHED_SCH 0 L1SCHED_SDCCH4_1 0,
     TDMA_Frame L1SCHED_SACCH4_0 0 L1SCHED_SDCCH4_1 1,
     TDMA_Frame L1SCHED_SACCH4_0 1 L1SCHED_SDCCH4_1 2,
     TDMA_Frame L1SCHED_SACCH4_0 2 L1SCHED_SDCCH4_1 3,
     TDMA_Frame L1SCHED_SACCH4_0 3 L1SCHED_RACH 0,
     TDMA_Frame L1SCHED_SACCH4_1 0 L1SCHED_RACH 0,
     TDMA_Frame L1SCHED_SACCH4_1 1 L1SCHED_IDLE 0,
     TDMA_Frame L1SCHED_SACCH4_1 2 L1SCHED_IDLE 1,
     TDMA_Frame L1SCHED_SACCH4_1 3 L1SCHED_IDLE 2,
     TDMA_Frame L1SCHED_IDLE 0 L1SCHED_IDLE 3,
     TDMA_Frame L1SCHED_FCCH 0 L1SCHED_SDCCH4_3 0,
     TDMA_Frame L1SCHED_SCH 0 L1SCHED_SDCCH4_3 1,
     TDMA_Frame L1SCHED_BCCH 0 L1SCHED_SDCCH4_3 2,
     TDMA_Frame L1SCHED_BCCH 1 L1SCHED_SDCCH4_3 3,
     TDMA_Frame L1SCHED_BCCH 2 L1SCHED_RACH 0,
     TDMA_Frame L1SCHED_BCCH 3 L1SCHED_RACH 0,
     TDMA_Frame L1SCHED_CCCH 0 L1SCHED_SACCH4_0 0,
     TDMA_Frame L1SCHED_CCCH 1 L1SCHED_SACCH4_0 1,
     TDMA_Frame L1SCHED_CCCH 2 L1SCHED_SACCH4_0 2,
     TDMA_Frame L1SCHED_CCCH 3 L1SCHED_SACCH4_0 3,
     TDMA_Frame L1SCHED_FCCH 0 L1SCHED_SACCH4_1 0,
     TDMA_Frame L1SCHED_SCH 0 L1SCHED_SACCH4_1 1,
     TDMA_Frame L1SCHED_CCCH 0 L1SCHED_SACCH4_1 2,
     TDMA_Frame L1SCHED_CCCH 1 L1SCHED_SACCH4_1 3,
     TDMA_Frame L1SCHED_CCCH 2 L1SCHED_RACH 0,
     TDMA_Frame L1SCHED_CCCH 3 L1SCHED_RACH 0,
     TDMA_Frame L1SCHED_CCCH 0 L1SCHED_RACH 0,
     TDMA_Frame L1SCHED_CCCH 1 L1SCHED_RACH 0,
     TDMA_Frame L1SCHED_CCCH 2 L1SCHED_RACH 0,
     TDMA_Frame L1SCHED_CCCH 3 L1SCHED_RACH 0,
     TDMA_Frame L1SCHED_FCCH 0 L1SCHED_RACH 0,
     TDMA_Frame L1SCHED_SCH 0 L1SCHED_RACH 0,
     TDMA_Frame L1SCHED_SDCCH4_0 0 L1SCHED_RACH 0,
     TDMA_Frame L1SCHED_SDCCH4_0 1 L1SCHED_RACH 0,
     TDMA_Frame L1SCHED_SDCCH4_0 2 L1SCHED_RACH 0,
     TDMA_Frame L1SCHED_SDCCH4_0 3 L1SCHED_RACH 0,
     TDMA_Frame L1SCHED_SDCCH4_1 0 L1SCHED_RACH 0,
     TDMA_Frame L1SCHED_SDCCH4_1 1 L1SCHED_RACH 0,
     TDMA_Frame L1SCHED_SDCCH4_1 2 L1SCHED_RACH 0,
     TDMA_Frame L1SCHED_SDCCH4_1 3 L1SCHED_RACH 0,
     TDMA_Frame L1SCHED_FCCH 0 L1SCHED_RACH 0,
     TDMA_Frame L1SCHED_SCH 0 L1SCHED_RACH 0,
     TDMA_Frame L1SCHED_SDCCH4_CBCH 0 L1SCHED_RACH 0,
     TDMA_Frame L1SCHED_SDCCH4_CBCH 1 L1SCHED_RACH 0,
     TDMA_Frame L1SCHED_SDCCH4_CBCH 2 L1SCHED_RACH 0,
     TDMA_Frame L1SCHED_SDCCH4_CBCH 3 L1SCHED_RACH 0,
     TDMA_Frame L1SCHED_SDCCH4_3 0 L1SCHED_RACH 0,
     TDMA_Frame L1SCHED_SDCCH4_3 1 L1SCHED_SDCCH4_0 0,
     TDMA_Frame L1SCHED_SDCCH4_3 2 L1SCHED_SDCCH4_0 1,
     TDMA_Frame L1SCHED_SDCCH4_3 3 L1SCHED_SDCCH4_0 2,
     TDMA_Frame L1SCHED_FCCH 0 L1SCHED_SDCCH4_0 3,
     TDMA_Frame L1SCHED_SCH 0 L1SCHED_SDCCH4_1 0,
     TDMA_Frame L1SCHED_IDLE 0 L1SCHED_SDCCH4_1 1,
     TDMA_Frame L1SCHED_IDLE 1 L1SCHED_SDCCH4_1 2,
     TDMA_Frame L1SCHED_IDLE 2 L1SCHED_SDCCH4_1 3,
     TDMA_Frame L1SCHED_IDLE 3 L1SCHED_RACH 0,
     TDMA_Frame L1SCHED_SACCH4_3 0 L1SCHED_RACH 0,
     TDMA_Frame L1SCHED_SACCH4_3 1 L1SCHED_IDLE 0,
     TDMA_Frame L1SCHED_SACCH4_3 2 L1SCHED_IDLE 1,
     TDMA_Frame L1SCHED_SACCH4_3 3 L1SCHED_IDLE 2,
     TDMA_Frame L1SCHED_IDLE 0 L1SCHED_IDLE 3]"

definition frame_sdcch8 :: "tdma_frame list" where
  "frame_sdcch8 = [
     TDMA_Frame L1SCHED_SDCCH8_0 0 L1SCHED_SACCH8_5 0,
     TDMA_Frame L1SCHED_SDCCH8_0 1 L1SCHED_SACCH8_5 1,
     TDMA_Frame L1SCHED_SDCCH8_0 2 L1SCHED_SACCH8_5 2,
     TDMA_Frame L1SCHED_SDCCH8_0 3 L1SCHED_SACCH8_5 3,
     TDMA_Frame L1SCHED_SDCCH8_1 0 L1SCHED_SACCH8_6 0,
     TDMA_Frame L1SCHED_SDCCH8_1 1 L1SCHED_SACCH8_6 1,
     TDMA_Frame L1SCHED_SDCCH8_1 2 L1SCHED_SACCH8_6 2,
     TDMA_Frame L1SCHED_SDCCH8_1 3 L1SCHED_SACCH8_6 3,
     TDMA_Frame L1SCHED_SDCCH8_2 0 L1SCHED_SACCH8_7 0,
     TDMA_Frame L1SCHED_SDCCH8_2 1 L1SCHED_SACCH8_7 1,
     TDMA_Frame L1SCHED_SDCCH8_2 2 L1SCHED_SACCH8_7 2,
     TDMA_Frame L1SCHED_SDCCH8_2 3 L1SCHED_SACCH8_7 3,
     TDMA_Frame L1SCHED_SDCCH8_3 0 L1SCHED_IDLE 0,
     TDMA_Frame L1SCHED_SDCCH8_3 1 L1SCHED_IDLE 0,
     TDMA_Frame L1SCHED_SDCCH8_3 2 L1SCHED_IDLE 0,
     TDMA_Frame L1SCHED_SDCCH8_3 3 L1SCHED_SDCCH8_0 0,
     TDMA_Frame L1SCHED_SDCCH8_4 0 L1SCHED_SDCCH8_0 1,
     TDMA_Frame L1SCHED_SDCCH8_4 1 L1SCHED_SDCCH8_0 2,
     TDMA_Frame L1SCHED_SDCCH8_4 2 L1SCHED_SDCCH8_0 3,
     TDMA_Frame L1SCHED_SDCCH8_4 3 L1SCHED_SDCCH8_1 0,
     TDMA_Frame L1SCHED_SDCCH8_5 0 L1SCHED_SDCCH8_1 1,
     TDMA_Frame L1SCHED_SDCCH8_5 1 L1SCHED_SDCCH8_1 2,
     TDMA_Frame L1SCHED_SDCCH8_5 2 L1SCHED_SDCCH8_1 3,
     TDMA_Frame L1SCHED_SDCCH8_5 3 L1SCHED_SDCCH8_2 0,
     TDMA_Frame L1SCHED_SDCCH8_6 0 L1SCHED_SDCCH8_2 1,
     TDMA_Frame L1SCHED_SDCCH8_6 1 L1SCHED_SDCCH8_2 2,
     TDMA_Frame L1SCHED_SDCCH8_6 2 L1SCHED_SDCCH8_2 3,
     TDMA_Frame L1SCHED_SDCCH8_6 3 L1SCHED_SDCCH8_3 0,
     TDMA_Frame L1SCHED_SDCCH8_7 0 L1SCHED_SDCCH8_3 1,
     TDMA_Frame L1SCHED_SDCCH8_7 1 L1SCHED_SDCCH8_3 2,
     TDMA_Frame L1SCHED_SDCCH8_7 2 L1SCHED_SDCCH8_3 3,
     TDMA_Frame L1SCHED_SDCCH8_7 3 L1SCHED_SDCCH8_4 0,
     TDMA_Frame L1SCHED_SACCH8_0 0 L1SCHED_SDCCH8_4 1,
     TDMA_Frame L1SCHED_SACCH8_0 1 L1SCHED_SDCCH8_4 2,
     TDMA_Frame L1SCHED_SACCH8_0 2 L1SCHED_SDCCH8_4 3,
     TDMA_Frame L1SCHED_SACCH8_0 3 L1SCHED_SDCCH8_5 0,
     TDMA_Frame L1SCHED_SACCH8_1 0 L1SCHED_SDCCH8_5 1,
     TDMA_Frame L1SCHED_SACCH8_1 1 L1SCHED_SDCCH8_5 2,
     TDMA_Frame L1SCHED_SACCH8_1 2 L1SCHED_SDCCH8_5 3,
     TDMA_Frame L1SCHED_SACCH8_1 3 L1SCHED_SDCCH8_6 0,
     TDMA_Frame L1SCHED_SACCH8_2 0 L1SCHED_SDCCH8_6 1,
     TDMA_Frame L1SCHED_SACCH8_2 1 L1SCHED_SDCCH8_6 2,
     TDMA_Frame L1SCHED_SACCH8_2 2 L1SCHED_SDCCH8_6 3,
     TDMA_Frame L1SCHED_SACCH8_2 3 L1SCHED_SDCCH8_7 0,
     TDMA_Frame L1SCHED_SACCH8_3 0 L1SCHED_SDCCH8_7 1,
     TDMA_Frame L1SCHED_SACCH8_3 1 L1SCHED_SDCCH8_7 2,
     TDMA_Frame L1SCHED_SACCH8_3 2 L1SCHED_SDCCH8_7 3,
     TDMA_Frame L1SCHED_SACCH8_3 3 L1SCHED_SACCH8_0 0,
     TDMA_Frame L1SCHED_IDLE 0 L1SCHED_SACCH8_0 1,
     TDMA_Frame L1SCHED_IDLE 0 L1SCHED_SACCH8_0 2,
     TDMA_Frame L1SCHED_IDLE 0 L1SCHED_SACCH8_0 3,
     TDMA_Frame L1SCHED_SDCCH8_0 0 L1SCHED_SACCH8_1 0,
     TDMA_Frame L1SCHED_SDCCH8_0 1 L1SCHED_SACCH8_1 1,
     TDMA_Frame L1SCHED_SDCCH8_0 2 L1SCHED_SACCH8_1 2,
     TDMA_Frame L1SCHED_SDCCH8_0 3 L1SCHED_SACCH8_1 3,
     TDMA_Frame L1SCHED_SDCCH8_1 0 L1SCHED_SACCH8_2 0,
     TDMA_Frame L1SCHED_SDCCH8_1 1 L1SCHED_SACCH8_2 1,
     TDMA_Frame L1SCHED_SDCCH8_1 2 L1SCHED_SACCH8_2 2,
     TDMA_Frame L1SCHED_SDCCH8_1 3 L1SCHED_SACCH8_2 3,
     TDMA_Frame L1SCHED_SDCCH8_2 0 L1SCHED_SACCH8_3 0,
     TDMA_Frame L1SCHED_SDCCH8_2 1 L1SCHED_SACCH8_3 1,
     TDMA_Frame L1SCHED_SDCCH8_2 2 L1SCHED_SACCH8_3 2,
     TDMA_Frame L1SCHED_SDCCH8_2 3 L1SCHED_SACCH8_3 3,
     TDMA_Frame L1SCHED_SDCCH8_3 0 L1SCHED_IDLE 0,
     TDMA_Frame L1SCHED_SDCCH8_3 1 L1SCHED_IDLE 0,
     TDMA_Frame L1SCHED_SDCCH8_3 2 L1SCHED_IDLE 0,
     TDMA_Frame L1SCHED_SDCCH8_3 3 L1SCHED_SDCCH8_0 0,
     TDMA_Frame L1SCHED_SDCCH8_4 0 L1SCHED_SDCCH8_0 1,
     TDMA_Frame L1SCHED_SDCCH8_4 1 L1SCHED_SDCCH8_0 2,
     TDMA_Frame L1SCHED_SDCCH8_4 2 L1SCHED_SDCCH8_0 3,
     TDMA_Frame L1SCHED_SDCCH8_4 3 L1SCHED_SDCCH8_1 0,
     TDMA_Frame L1SCHED_SDCCH8_5 0 L1SCHED_SDCCH8_1 1,
     TDMA_Frame L1SCHED_SDCCH8_5 1 L1SCHED_SDCCH8_1 2,
     TDMA_Frame L1SCHED_SDCCH8_5 2 L1SCHED_SDCCH8_1 3,
     TDMA_Frame L1SCHED_SDCCH8_5 3 L1SCHED_SDCCH8_2 0,
     TDMA_Frame L1SCHED_SDCCH8_6 0 L1SCHED_SDCCH8_2 1,
     TDMA_Frame L1SCHED_SDCCH8_6 1 L1SCHED_SDCCH8_2 2,
     TDMA_Frame L1SCHED_SDCCH8_6 2 L1SCHED_SDCCH8_2 3,
     TDMA_Frame L1SCHED_SDCCH8_6 3 L1SCHED_SDCCH8_3 0,
     TDMA_Frame L1SCHED_SDCCH8_7 0 L1SCHED_SDCCH8_3 1,
     TDMA_Frame L1SCHED_SDCCH8_7 1 L1SCHED_SDCCH8_3 2,
     TDMA_Frame L1SCHED_SDCCH8_7 2 L1SCHED_SDCCH8_3 3,
     TDMA_Frame L1SCHED_SDCCH8_7 3 L1SCHED_SDCCH8_4 0,
     TDMA_Frame L1SCHED_SACCH8_4 0 L1SCHED_SDCCH8_4 1,
     TDMA_Frame L1SCHED_SACCH8_4 1 L1SCHED_SDCCH8_4 2,
     TDMA_Frame L1SCHED_SACCH8_4 2 L1SCHED_SDCCH8_4 3,
     TDMA_Frame L1SCHED_SACCH8_4 3 L1SCHED_SDCCH8_5 0,
     TDMA_Frame L1SCHED_SACCH8_5 0 L1SCHED_SDCCH8_5 1,
     TDMA_Frame L1SCHED_SACCH8_5 1 L1SCHED_SDCCH8_5 2,
     TDMA_Frame L1SCHED_SACCH8_5 2 L1SCHED_SDCCH8_5 3,
     TDMA_Frame L1SCHED_SACCH8_5 3 L1SCHED_SDCCH8_6 0,
     TDMA_Frame L1SCHED_SACCH8_6 0 L1SCHED_SDCCH8_6 1,
     TDMA_Frame L1SCHED_SACCH8_6 1 L1SCHED_SDCCH8_6 2,
     TDMA_Frame L1SCHED_SACCH8_6 2 L1SCHED_SDCCH8_6 3,
     TDMA_Frame L1SCHED_SACCH8_6 3 L1SCHED_SDCCH8_7 0,
     TDMA_Frame L1SCHED_SACCH8_7 0 L1SCHED_SDCCH8_7 1,
     TDMA_Frame L1SCHED_SACCH8_7 1 L1SCHED_SDCCH8_7 2,
     TDMA_Frame L1SCHED_SACCH8_7 2 L1SCHED_SDCCH8_7 3,
     TDMA_Frame L1SCHED_SACCH8_7 3 L1SCHED_SACCH8_4 0,
     TDMA_Frame L1SCHED_IDLE 0 L1SCHED_SACCH8_4 1,
     TDMA_Frame L1SCHED_IDLE 0 L1SCHED_SACCH8_4 2,
     TDMA_Frame L1SCHED_IDLE 0 L1SCHED_SACCH8_4 3]"

definition frame_sdcch8_cbch :: "tdma_frame list" where
  "frame_sdcch8_cbch = [
     TDMA_Frame L1SCHED_SDCCH8_0 0 L1SCHED_SACCH8_5 0,
     TDMA_Frame L1SCHED_SDCCH8_0 1 L1SCHED_SACCH8_5 1,
     TDMA_Frame L1SCHED_SDCCH8_0 2 L1SCHED_SACCH8_5 2,
     TDMA_Frame L1SCHED_SDCCH8_0 3 L1SCHED_SACCH8_5 3,
     TDMA_Frame L1SCHED_SDCCH8_1 0 L1SCHED_SACCH8_6 0,
     TDMA_Frame L1SCHED_SDCCH8_1 1 L1SCHED_SACCH8_6 1,
     TDMA_Frame L1SCHED_SDCCH8_1 2 L1SCHED_SACCH8_6 2,
     TDMA_Frame L1SCHED_SDCCH8_1 3 L1SCHED_SACCH8_6 3,
     TDMA_Frame L1SCHED_SDCCH8_CBCH 0 L1SCHED_SACCH8_7 0,
     TDMA_Frame L1SCHED_SDCCH8_CBCH 1 L1SCHED_SACCH8_7 1,
     TDMA_Frame L1SCHED_SDCCH8_CBCH 2 L1SCHED_SACCH8_7 2,
     TDMA_Frame L1SCHED_SDCCH8_CBCH 3 L1SCHED_SACCH8_7 3,
     TDMA_Frame L1SCHED_SDCCH8_3 0 L1SCHED_IDLE 0,
     TDMA_Frame L1SCHED_SDCCH8_3 1 L1SCHED_IDLE 0,
     TDMA_Frame L1SCHED_SDCCH8_3 2 L1SCHED_IDLE 0,
     TDMA_Frame L1SCHED_SDCCH8_3 3 L1SCHED_SDCCH8_0 0,
     TDMA_Frame L1SCHED_SDCCH8_4 0 L1SCHED_SDCCH8_0 1,
     TDMA_Frame L1SCHED_SDCCH8_4 1 L1SCHED_SDCCH8_0 2,
     TDMA_Frame L1SCHED_SDCCH8_4 2 L1SCHED_SDCCH8_0 3,
     TDMA_Frame L1SCHED_SDCCH8_4 3 L1SCHED_SDCCH8_1 0,
     TDMA_Frame L1SCHED_SDCCH8_5 0 L1SCHED_SDCCH8_1 1,
     TDMA_Frame L1SCHED_SDCCH8_5 1 L1SCHED_SDCCH8_1 2,
     TDMA_Frame L1SCHED_SDCCH8_5 2 L1SCHED_SDCCH8_1 3,
     TDMA_Frame L1SCHED_SDCCH8_5 3 L1SCHED_IDLE 0,
     TDMA_Frame L1SCHED_SDCCH8_6 0 L1SCHED_IDLE 1,
     TDMA_Frame L1SCHED_SDCCH8_6 1 L1SCHED_IDLE 2,
     TDMA_Frame L1SCHED_SDCCH8_6 2 L1SCHED_IDLE 3,
     TDMA_Frame L1SCHED_SDCCH8_6 3 L1SCHED_SDCCH8_3 0,
     TDMA_Frame L1SCHED_SDCCH8_7 0 L1SCHED_SDCCH8_3 1,
     TDMA_Frame L1SCHED_SDCCH8_7 1 L1SCHED_SDCCH8_3 2,
     TDMA_Frame L1SCHED_SDCCH8_7 2 L1SCHED_SDCCH8_3 3,
     TDMA_Frame L1SCHED_SDCCH8_7 3 L1SCHED_SDCCH8_4 0,
     TDMA_Frame L1SCHED_SACCH8_0 0 L1SCHED_SDCCH8_4 1,
     TDMA_Frame L1SCHED_SACCH8_0 1 L1SCHED_SDCCH8_4 2,
     TDMA_Frame L1SCHED_SACCH8_0 2 L1SCHED_SDCCH8_4 3,
     TDMA_Frame L1SCHED_SACCH8_0 3 L1SCHED_SDCCH8_5 0,
     TDMA_Frame L1SCHED_SACCH8_1 0 L1SCHED_SDCCH8_5 1,
     TDMA_Frame L1SCHED_SACCH8_1 1 L1SCHED_SDCCH8_5 2,
     TDMA_Frame L1SCHED_SACCH8_1 2 L1SCHED_SDCCH8_5 3,
     TDMA_Frame L1SCHED_SACCH8_1 3 L1SCHED_SDCCH8_6 0,
     TDMA_Frame L1SCHED_IDLE 0 L1SCHED_SDCCH8_6 1,
     TDMA_Frame L1SCHED_IDLE 1 L1SCHED_SDCCH8_6 2,
     TDMA_Frame L1SCHED_IDLE 2 L1SCHED_SDCCH8_6 3,
     TDMA_Frame L1SCHED_IDLE 3 L1SCHED_SDCCH8_7 0,
     TDMA_Frame L1SCHED_SACCH8_3 0 L1SCHED_SDCCH8_7 1,
     TDMA_Frame L1SCHED_SACCH8_3 1 L1SCHED_SDCCH8_7 2,
     TDMA_Frame L1SCHED_SACCH8_3 2 L1SCHED_SDCCH8_7 3,
     TDMA_Frame L1SCHED_SACCH8_3 3 L1SCHED_SACCH8_0 0,
     TDMA_Frame L1SCHED_IDLE 0 L1SCHED_SACCH8_0 1,
     TDMA_Frame L1SCHED_IDLE 0 L1SCHED_SACCH8_0 2,
     TDMA_Frame L1SCHED_IDLE 0 L1SCHED_SACCH8_0 3,
     TDMA_Frame L1SCHED_SDCCH8_0 0 L1SCHED_SACCH8_1 0,
     TDMA_Frame L1SCHED_SDCCH8_0 1 L1SCHED_SACCH8_1 1,
     TDMA_Frame L1SCHED_SDCCH8_0 2 L1SCHED_SACCH8_1 2,
     TDMA_Frame L1SCHED_SDCCH8_0 3 L1SCHED_SACCH8_1 3,
     TDMA_Frame L1SCHED_SDCCH8_1 0 L1SCHED_IDLE 0,
     TDMA_Frame L1SCHED_SDCCH8_1 1 L1SCHED_IDLE 1,
     TDMA_Frame L1SCHED_SDCCH8_1 2 L1SCHED_IDLE 2,
     TDMA_Frame L1SCHED_SDCCH8_1 3 L1SCHED_IDLE 3,
     TDMA_Frame L1SCHED_SDCCH8_CBCH 0 L1SCHED_SACCH8_3 0,
     TDMA_Frame L1SCHED_SDCCH8_CBCH 1 L1SCHED_SACCH8_3 1,
     TDMA_Frame L1SCHED_SDCCH8_CBCH 2 L1SCHED_SACCH8_3 2,
     TDMA_Frame L1SCHED_SDCCH8_CBCH 3 L1SCHED_SACCH8_3 3,
     TDMA_Frame L1SCHED_SDCCH8_3 0 L1SCHED_IDLE 0,
     TDMA_Frame L1SCHED_SDCCH8_3 1 L1SCHED_IDLE 0,
     TDMA_Frame L1SCHED_SDCCH8_3 2 L1SCHED_IDLE 0,
     TDMA_Frame L1SCHED_SDCCH8_3 3 L1SCHED_SDCCH8_0 0,
     TDMA_Frame L1SCHED_SDCCH8_4 0 L1SCHED_SDCCH8_0 1,
     TDMA_Frame L1SCHED_SDCCH8_4 1 L1SCHED_SDCCH8_0 2,
     TDMA_Frame L1SCHED_SDCCH8_4 2 L1SCHED_SDCCH8_0 3,
     TDMA_Frame L1SCHED_SDCCH8_4 3 L1SCHED_SDCCH8_1 0,
     TDMA_Frame L1SCHED_SDCCH8_5 0 L1SCHED_SDCCH8_1 1,
     TDMA_Frame L1SCHED_SDCCH8_5 1 L1SCHED_SDCCH8_1 2,
     TDMA_Frame L1SCHED_SDCCH8_5 2 L1SCHED_SDCCH8_1 3,
     TDMA_Frame L1SCHED_SDCCH8_5 3 L1SCHED_IDLE 0,
     TDMA_Frame L1SCHED_SDCCH8_6 0 L1SCHED_IDLE 1,
     TDMA_Frame L1SCHED_SDCCH8_6 1 L1SCHED_IDLE 2,
     TDMA_Frame L1SCHED_SDCCH8_6 2 L1SCHED_IDLE 3,
     TDMA_Frame L1SCHED_SDCCH8_6 3 L1SCHED_SDCCH8_3 0,
     TDMA_Frame L1SCHED_SDCCH8_7 0 L1SCHED_SDCCH8_3 1,
     TDMA_Frame L1SCHED_SDCCH8_7 1 L1SCHED_SDCCH8_3 2,
     TDMA_Frame L1SCHED_SDCCH8_7 2 L1SCHED_SDCCH8_3 3,
     TDMA_Frame L1SCHED_SDCCH8_7 3 L1SCHED_SDCCH8_4 0,
     TDMA_Frame L1SCHED_SACCH8_4 0 L1SCHED_SDCCH8_4 1,
     TDMA_Frame L1SCHED_SACCH8_4 1 L1SCHED_SDCCH8_4 2,
     TDMA_Frame L1SCHED_SACCH8_4 2 L1SCHED_SDCCH8_4 3,
     TDMA_Frame L1SCHED_SACCH8_4 3 L1SCHED_SDCCH8_5 0,
     TDMA_Frame L1SCHED_SACCH8_5 0 L1SCHED_SDCCH8_5 1,
     TDMA_Frame L1SCHED_SACCH8_5 1 L1SCHED_SDCCH8_5 2,
     TDMA_Frame L1SCHED_SACCH8_5 2 L1SCHED_SDCCH8_5 3,
     TDMA_Frame L1SCHED_SACCH8_5 3 L1SCHED_SDCCH8_6 0,
     TDMA_Frame L1SCHED_SACCH8_6 0 L1SCHED_SDCCH8_6 1,
     TDMA_Frame L1SCHED_SACCH8_6 1 L1SCHED_SDCCH8_6 2,
     TDMA_Frame L1SCHED_SACCH8_6 2 L1SCHED_SDCCH8_6 3,
     TDMA_Frame L1SCHED_SACCH8_6 3 L1SCHED_SDCCH8_7 0,
     TDMA_Frame L1SCHED_SACCH8_7 0 L1SCHED_SDCCH8_7 1,
     TDMA_Frame L1SCHED_SACCH8_7 1 L1SCHED_SDCCH8_7 2,
     TDMA_Frame L1SCHED_SACCH8_7 2 L1SCHED_SDCCH8_7 3,
     TDMA_Frame L1SCHED_SACCH8_7 3 L1SCHED_SACCH8_4 0,
     TDMA_Frame L1SCHED_IDLE 0 L1SCHED_SACCH8_4 1,
     TDMA_Frame L1SCHED_IDLE 0 L1SCHED_SACCH8_4 2,
     TDMA_Frame L1SCHED_IDLE 0 L1SCHED_SACCH8_4 3]"

definition frame_tchf_ts0 :: "tdma_frame list" where
  "frame_tchf_ts0 = [
     TDMA_Frame L1SCHED_TCHF 0 L1SCHED_TCHF 0,
     TDMA_Frame L1SCHED_TCHF 1 L1SCHED_TCHF 1,
     TDMA_Frame L1SCHED_TCHF 2 L1SCHED_TCHF 2,
     TDMA_Frame L1SCHED_TCHF 3 L1SCHED_TCHF 3,
     TDMA_Frame L1SCHED_TCHF 0 L1SCHED_TCHF 0,
     TDMA_Frame L1SCHED_TCHF 1 L1SCHED_TCHF 1,
     TDMA_Frame L1SCHED_TCHF 2 L1SCHED_TCHF 2,
     TDMA_Frame L1SCHED_TCHF 3 L1SCHED_TCHF 3,
     TDMA_Frame L1SCHED_TCHF 0 L1SCHED_TCHF 0,
     TDMA_Frame L1SCHED_TCHF 1 L1SCHED_TCHF 1,
     TDMA_Frame L1SCHED_TCHF 2 L1SCHED_TCHF 2,
     TDMA_Frame L1SCHED_TCHF 3 L1SCHED_TCHF 3,
     TDMA_Frame L1SCHED_SACCHTF 0 L1SCHED_SACCHTF 0,
     TDMA_Frame L1SCHED_TCHF 0 L1SCHED_TCHF 0,
     TDMA_Frame L1SCHED_TCHF 1 L1SCHED_TCHF 1,
     TDMA_Frame L1SCHED_TCHF 2 L1SCHED_TCHF 2,
     TDMA_Frame L1SCHED_TCHF 3 L1SCHED_TCHF 3,
     TDMA_Frame L1SCHED_TCHF 0 L1SCHED_TCHF 0,
     TDMA_Frame L1SCHED_TCHF 1 L1SCHED_TCHF 1,
     TDMA_Frame L1SCHED_TCHF 2 L1SCHED_TCHF 2,
     TDMA_Frame L1SCHED_TCHF 3 L1SCHED_TCHF 3,
     TDMA_Frame L1SCHED_TCHF 0 L1SCHED_TCHF 0,
     TDMA_Frame L1SCHED_TCHF 1 L1SCHED_TCHF 1,
     TDMA_Frame L1SCHED_TCHF 2 L1SCHED_TCHF 2,
     TDMA_Frame L1SCHED_TCHF 3 L1SCHED_TCHF 3,
     TDMA_Frame L1SCHED_IDLE 0 L1SCHED_IDLE 0,
     TDMA_Frame L1SCHED_TCHF 0 L1SCHED_TCHF 0,
     TDMA_Frame L1SCHED_TCHF 1 L1SCHED_TCHF 1,
     TDMA_Frame L1SCHED_TCHF 2 L1SCHED_TCHF 2,
     TDMA_Frame L1SCHED_TCHF 3 L1SCHED_TCHF 3,
     TDMA_Frame L1SCHED_TCHF 0 L1SCHED_TCHF 0,
     TDMA_Frame L1SCHED_TCHF 1 L1SCHED_TCHF 1,
     TDMA_Frame L1SCHED_TCHF 2 L1SCHED_TCHF 2,
     TDMA_Frame L1SCHED_TCHF 3 L1SCHED_TCHF 3,
     TDMA_Frame L1SCHED_TCHF 0 L1SCHED_TCHF 0,
     TDMA_Frame L1SCHED_TCHF 1 L1SCHED_TCHF 1,
     TDMA_Frame L1SCHED_TCHF 2 L1SCHED_TCHF 2,
     TDMA_Frame L1SCHED_TCHF 3 L1SCHED_TCHF 3,
     TDMA_Frame L1SCHED_SACCHTF 1 L1SCHED_SACCHTF 1,
     TDMA_Frame L1SCHED_TCHF 0 L1SCHED_TCHF 0,
     TDMA_Frame L1SCHED_TCHF 1 L1SCHED_TCHF 1,
     TDMA_Frame L1SCHED_TCHF 2 L1SCHED_TCHF 2,
     TDMA_Frame L1SCHED_TCHF 3 L1SCHED_TCHF 3,
     TDMA_Frame L1SCHED_TCHF 0 L1SCHED_TCHF 0,
     TDMA_Frame L1SCHED_TCHF 1 L1SCHED_TCHF 1,
     TDMA_Frame L1SCHED_TCHF 2 L1SCHED_TCHF 2,
     TDMA_Frame L1SCHED_TCHF 3 L1SCHED_TCHF 3,
     TDMA_Frame L1SCHED_TCHF 0 L1SCHED_TCHF 0,
     TDMA_Frame L1SCHED_TCHF 1 L1SCHED_TCHF 1,
     TDMA_Frame L1SCHED_TCHF 2 L1SCHED_TCHF 2,
     TDMA_Frame L1SCHED_TCHF 3 L1SCHED_TCHF 3,
     TDMA_Frame L1SCHED_IDLE 0 L1SCHED_IDLE 0,
     TDMA_Frame L1SCHED_TCHF 0 L1SCHED_TCHF 0,
     TDMA_Frame L1SCHED_TCHF 1 L1SCHED_TCHF 1,
     TDMA_Frame L1SCHED_TCHF 2 L1SCHED_TCHF 2,
     TDMA_Frame L1SCHED_TCHF 3 L1SCHED_TCHF 3,
     TDMA_Frame L1SCHED_TCHF 0 L1SCHED_TCHF 0,
     TDMA_Frame L1SCHED_TCHF 1 L1SCHED_TCHF 1,
     TDMA_Frame L1SCHED_TCHF 2 L1SCHED_TCHF 2,
     TDMA_Frame L1SCHED_TCHF 3 L1SCHED_TCHF 3,
     TDMA_Frame L1SCHED_TCHF 0 L1SCHED_TCHF 0,
     TDMA_Frame L1SCHED_TCHF 1 L1SCHED_TCHF 1,
     TDMA_Frame L1SCHED_TCHF 2 L1SCHED_TCHF 2,
     TDMA_Frame L1SCHED_TCHF 3 L1SCHED_TCHF 3,
     TDMA_Frame L1SCHED_SACCHTF 2 L1SCHED_SACCHTF 2,
     TDMA_Frame L1SCHED_TCHF 0 L1SCHED_TCHF 0,
     TDMA_Frame L1SCHED_TCHF 1 L1SCHED_TCHF 1,
     TDMA_Frame L1SCHED_TCHF 2 L1SCHED_TCHF 2,
     TDMA_Frame L1SCHED_TCHF 3 L1SCHED_TCHF 3,
     TDMA_Frame L1SCHED_TCHF 0 L1SCHED_TCHF 0,
     TDMA_Frame L1SCHED_TCHF 1 L1SCHED_TCHF 1,
     TDMA_Frame L1SCHED_TCHF 2 L1SCHED_TCHF 2,
     TDMA_Frame L1SCHED_TCHF 3 L1SCHED_TCHF 3,
     TDMA_Frame L1SCHED_TCHF 0 L1SCHED_TCHF 0,
     TDMA_Frame L1SCHED_TCHF 1 L1SCHED_TCHF 1,
     TDMA_Frame L1SCHED_TCHF 2 L1SCHED_TCHF 2,
     TDMA_Frame L1SCHED_TCHF 3 L1SCHED_TCHF 3,
     TDMA_Frame L1SCHED_IDLE 0 L1SCHED_IDLE 0,
     TDMA_Frame L1SCHED_TCHF 0 L1SCHED_TCHF 0,
     TDMA_Frame L1SCHED_TCHF 1 L1SCHED_TCHF 1,
     TDMA_Frame L1SCHED_TCHF 2 L1SCHED_TCHF 2,
     TDMA_Frame L1SCHED_TCHF 3 L1SCHED_TCHF 3,
     TDMA_Frame L1SCHED_TCHF 0 L1SCHED_TCHF 0,
     TDMA_Frame L1SCHED_TCHF 1 L1SCHED_TCHF 1,
     TDMA_Frame L1SCHED_TCHF 2 L1SCHED_TCHF 2,
     TDMA_Frame L1SCHED_TCHF 3 L1SCHED_TCHF 3,
     TDMA_Frame L1SCHED_TCHF 0 L1SCHED_TCHF 0,
     TDMA_Frame L1SCHED_TCHF 1 L1SCHED_TCHF 1,
     TDMA_Frame L1SCHED_TCHF 2 L1SCHED_TCHF 2,
     TDMA_Frame L1SCHED_TCHF 3 L1SCHED_TCHF 3,
     TDMA_Frame L1SCHED_SACCHTF 3 L1SCHED_SACCHTF 3,
     TDMA_Frame L1SCHED_TCHF 0 L1SCHED_TCHF 0,
     TDMA_Frame L1SCHED_TCHF 1 L1SCHED_TCHF 1,
     TDMA_Frame L1SCHED_TCHF 2 L1SCHED_TCHF 2,
     TDMA_Frame L1SCHED_TCHF 3 L1SCHED_TCHF 3,
     TDMA_Frame L1SCHED_TCHF 0 L1SCHED_TCHF 0,
     TDMA_Frame L1SCHED_TCHF 1 L1SCHED_TCHF 1,
     TDMA_Frame L1SCHED_TCHF 2 L1SCHED_TCHF 2,
     TDMA_Frame L1SCHED_TCHF 3 L1SCHED_TCHF 3,
     TDMA_Frame L1SCHED_TCHF 0 L1SCHED_TCHF 0,
     TDMA_Frame L1SCHED_TCHF 1 L1SCHED_TCHF 1,
     TDMA_Frame L1SCHED_TCHF 2 L1SCHED_TCHF 2,
     TDMA_Frame L1SCHED_TCHF 3 L1SCHED_TCHF 3,
     TDMA_Frame L1SCHED_IDLE 0 L1SCHED_IDLE 0]"

definition frame_tchf_ts1 :: "tdma_frame list" where
  "frame_tchf_ts1 = [
     TDMA_Frame L1SCHED_TCHF 0 L1SCHED_TCHF 0,
     TDMA_Frame L1SCHED_TCHF 1 L1SCHED_TCHF 1,
     TDMA_Frame L1SCHED_TCHF 2 L1SCHED_TCHF 2,
     TDMA_Frame L1SCHED_TCHF 3 L1SCHED_TCHF 3,
     TDMA_Frame L1SCHED_TCHF 0 L1SCHED_TCHF 0,
     TDMA_Frame L1SCHED_TCHF 1 L1SCHED_TCHF 1,
     TDMA_Frame L1SCHED_TCHF 2 L1SCHED_TCHF 2,
     TDMA_Frame L1SCHED_TCHF 3 L1SCHED_TCHF 3,
     TDMA_Frame L1SCHED_TCHF 0 L1SCHED_TCHF 0,
     TDMA_Frame L1SCHED_TCHF 1 L1SCHED_TCHF 1,
     TDMA_Frame L1SCHED_TCHF 2 L1SCHED_TCHF 2,
     TDMA_Frame L1SCHED_TCHF 3 L1SCHED_TCHF 3,
     TDMA_Frame L1SCHED_IDLE 0 L1SCHED_IDLE 0,
     TDMA_Frame L1SCHED_TCHF 0 L1SCHED_TCHF 0,
     TDMA_Frame L1SCHED_TCHF 1 L1SCHED_TCHF 1,
     TDMA_Frame L1SCHED_TCHF 2 L1SCHED_TCHF 2,
     TDMA_Frame L1SCHED_TCHF 3 L1SCHED_TCHF 3,
     TDMA_Frame L1SCHED_TCHF 0 L1SCHED_TCHF 0,
     TDMA_Frame L1SCHED_TCHF 1 L1SCHED_TCHF 1,
     TDMA_Frame L1SCHED_TCHF 2 L1SCHED_TCHF 2,
     TDMA_Frame L1SCHED_TCHF 3 L1SCHED_TCHF 3,
     TDMA_Frame L1SCHED_TCHF 0 L1SCHED_TCHF 0,
     TDMA_Frame L1SCHED_TCHF 1 L1SCHED_TCHF 1,
     TDMA_Frame L1SCHED_TCHF 2 L1SCHED_TCHF 2,
     TDMA_Frame L1SCHED_TCHF 3 L1SCHED_TCHF 3,
     TDMA_Frame L1SCHED_SACCHTF 0 L1SCHED_SACCHTF 0,
     TDMA_Frame L1SCHED_TCHF 0 L1SCHED_TCHF 0,
     TDMA_Frame L1SCHED_TCHF 1 L1SCHED_TCHF 1,
     TDMA_Frame L1SCHED_TCHF 2 L1SCHED_TCHF 2,
     TDMA_Frame L1SCHED_TCHF 3 L1SCHED_TCHF 3,
     TDMA_Frame L1SCHED_TCHF 0 L1SCHED_TCHF 0,
     TDMA_Frame L1SCHED_TCHF 1 L1SCHED_TCHF 1,
     TDMA_Frame L1SCHED_TCHF 2 L1SCHED_TCHF 2,
     TDMA_Frame L1SCHED_TCHF 3 L1SCHED_TCHF 3,
     TDMA_Frame L1SCHED_TCHF 0 L1SCHED_TCHF 0,
     TDMA_Frame L1SCHED_TCHF 1 L1SCHED_TCHF 1,
     TDMA_Frame L1SCHED_TCHF 2 L1SCHED_TCHF 2,
     TDMA_Frame L1SCHED_TCHF 3 L1SCHED_TCHF 3,
     TDMA_Frame L1SCHED_IDLE 0 L1SCHED_IDLE 0,
     TDMA_Frame L1SCHED_TCHF 0 L1SCHED_TCHF 0,
     TDMA_Frame L1SCHED_TCHF 1 L1SCHED_TCHF 1,
     TDMA_Frame L1SCHED_TCHF 2 L1SCHED_TCHF 2,
     TDMA_Frame L1SCHED_TCHF 3 L1SCHED_TCHF 3,
     TDMA_Frame L1SCHED_TCHF 0 L1SCHED_TCHF 0,
     TDMA_Frame L1SCHED_TCHF 1 L1SCHED_TCHF 1,
     TDMA_Frame L1SCHED_TCHF 2 L1SCHED_TCHF 2,
     TDMA_Frame L1SCHED_TCHF 3 L1SCHED_TCHF 3,
     TDMA_Frame L1SCHED_TCHF 0 L1SCHED_TCHF 0,
     TDMA_Frame L1SCHED_TCHF 1 L1SCHED_TCHF 1,
     TDMA_Frame L1SCHED_TCHF 2 L1SCHED_TCHF 2,
     TDMA_Frame L1SCHED_TCHF 3 L1SCHED_TCHF 3,
     TDMA_Frame L1SCHED_SACCHTF 1 L1SCHED_SACCHTF 1,
     TDMA_Frame L1SCHED_TCHF 0 L1SCHED_TCHF 0,
     TDMA_Frame L1SCHED_TCHF 1 L1SCHED_TCHF 1,
     TDMA_Frame L1SCHED_TCHF 2 L1SCHED_TCHF 2,
     TDMA_Frame L1SCHED_TCHF 3 L1SCHED_TCHF 3,
     TDMA_Frame L1SCHED_TCHF 0 L1SCHED_TCHF 0,
     TDMA_Frame L1SCHED_TCHF 1 L1SCHED_TCHF 1,
     TDMA_Frame L1SCHED_TCHF 2 L1SCHED_TCHF 2,
     TDMA_Frame L1SCHED_TCHF 3 L1SCHED_TCHF 3,
     TDMA_Frame L1SCHED_TCHF 0 L1SCHED_TCHF 0,
     TDMA_Frame L1SCHED_TCHF 1 L1SCHED_TCHF 1,
     TDMA_Frame L1SCHED_TCHF 2 L1SCHED_TCHF 2,
     TDMA_Frame L1SCHED_TCHF 3 L1SCHED_TCHF 3,
     TDMA_Frame L1SCHED_IDLE 0 L1SCHED_IDLE 0,
     TDMA_Frame L1SCHED_TCHF 0 L1SCHED_TCHF 0,
     TDMA_Frame L1SCHED_TCHF 1 L1SCHED_TCHF 1,
     TDMA_Frame L1SCHED_TCHF 2 L1SCHED_TCHF 2,
     TDMA_Frame L1SCHED_TCHF 3 L1SCHED_TCHF 3,
     TDMA_Frame L1SCHED_TCHF 0 L1SCHED_TCHF 0,
     TDMA_Frame L1SCHED_TCHF 1 L1SCHED_TCHF 1,
     TDMA_Frame L1SCHED_TCHF 2 L1SCHED_TCHF 2,
     TDMA_Frame L1SCHED_TCHF 3 L1SCHED_TCHF 3,
     TDMA_Frame L1SCHED_TCHF 0 L1SCHED_TCHF 0,
     TDMA_Frame L1SCHED_TCHF 1 L1SCHED_TCHF 1,
     TDMA_Frame L1SCHED_TCHF 2 L1SCHED_TCHF 2,
     TDMA_Frame L1SCHED_TCHF 3 L1SCHED_TCHF 3,
     TDMA_Frame L1SCHED_SACCHTF 2 L1SCHED_SACCHTF 2,
     TDMA_Frame L1SCHED_TCHF 0 L1SCHED_TCHF 0,
     TDMA_Frame L1SCHED_TCHF 1 L1SCHED_TCHF 1,
     TDMA_Frame L1SCHED_TCHF 2 L1SCHED_TCHF 2,
     TDMA_Frame L1SCHED_TCHF 3 L1SCHED_TCHF 3,
     TDMA_Frame L1SCHED_TCHF 0 L1SCHED_TCHF 0,
     TDMA_Frame L1SCHED_TCHF 1 L1SCHED_TCHF 1,
     TDMA_Frame L1SCHED_TCHF 2 L1SCHED_TCHF 2,
     TDMA_Frame L1SCHED_TCHF 3 L1SCHED_TCHF 3,
     TDMA_Frame L1SCHED_TCHF 0 L1SCHED_TCHF 0,
     TDMA_Frame L1SCHED_TCHF 1 L1SCHED_TCHF 1,
     TDMA_Frame L1SCHED_TCHF 2 L1SCHED_TCHF 2,
     TDMA_Frame L1SCHED_TCHF 3 L1SCHED_TCHF 3,
     TDMA_Frame L1SCHED_IDLE 0 L1SCHED_IDLE 0,
     TDMA_Frame L1SCHED_TCHF 0 L1SCHED_TCHF 0,
     TDMA_Frame L1SCHED_TCHF 1 L1SCHED_TCHF 1,
     TDMA_Frame L1SCHED_TCHF 2 L1SCHED_TCHF 2,
     TDMA_Frame L1SCHED_TCHF 3 L1SCHED_TCHF 3,
     TDMA_Frame L1SCHED_TCHF 0 L1SCHED_TCHF 0,
     TDMA_Frame L1SCHED_TCHF 1 L1SCHED_TCHF 1,
     TDMA_Frame L1SCHED_TCHF 2 L1SCHED_TCHF 2,
     TDMA_Frame L1SCHED_TCHF 3 L1SCHED_TCHF 3,
     TDMA_Frame L1SCHED_TCHF 0 L1SCHED_TCHF 0,
     TDMA_Frame L1SCHED_TCHF 1 L1SCHED_TCHF 1,
     TDMA_Frame L1SCHED_TCHF 2 L1SCHED_TCHF 2,
     TDMA_Frame L1SCHED_TCHF 3 L1SCHED_TCHF 3,
     TDMA_Frame L1SCHED_SACCHTF 3 L1SCHED_SACCHTF 3]"

definition frame_tchf_ts2 :: "tdma_frame list" where
  "frame_tchf_ts2 = [
     TDMA_Frame L1SCHED_TCHF 0 L1SCHED_TCHF 0,
     TDMA_Frame L1SCHED_TCHF 1 L1SCHED_TCHF 1,
     TDMA_Frame L1SCHED_TCHF 2 L1SCHED_TCHF 2,
     TDMA_Frame L1SCHED_TCHF 3 L1SCHED_TCHF 3,
     TDMA_Frame L1SCHED_TCHF 0 L1SCHED_TCHF 0,
     TDMA_Frame L1SCHED_TCHF 1 L1SCHED_TCHF 1,
     TDMA_Frame L1SCHED_TCHF 2 L1SCHED_TCHF 2,
     TDMA_Frame L1SCHED_TCHF 3 L1SCHED_TCHF 3,
     TDMA_Frame L1SCHED_TCHF 0 L1SCHED_TCHF 0,
     TDMA_Frame L1SCHED_TCHF 1 L1SCHED_TCHF 1,
     TDMA_Frame L1SCHED_TCHF 2 L1SCHED_TCHF 2,
     TDMA_Frame L1SCHED_TCHF 3 L1SCHED_TCHF 3,
     TDMA_Frame L1SCHED_SACCHTF 3 L1SCHED_SACCHTF 3,
     TDMA_Frame L1SCHED_TCHF 0 L1SCHED_TCHF 0,
     TDMA_Frame L1SCHED_TCHF 1 L1SCHED_TCHF 1,
     TDMA_Frame L1SCHED_TCHF 2 L1SCHED_TCHF 2,
     TDMA_Frame L1SCHED_TCHF 3 L1SCHED_TCHF 3,
     TDMA_Frame L1SCHED_TCHF 0 L1SCHED_TCHF 0,
     TDMA_Frame L1SCHED_TCHF 1 L1SCHED_TCHF 1,
     TDMA_Frame L1SCHED_TCHF 2 L1SCHED_TCHF 2,
     TDMA_Frame L1SCHED_TCHF 3 L1SCHED_TCHF 3,
     TDMA_Frame L1SCHED_TCHF 0 L1SCHED_TCHF 0,
     TDMA_Frame L1SCHED_TCHF 1 L1SCHED_TCHF 1,
     TDMA_Frame L1SCHED_TCHF 2 L1SCHED_TCHF 2,
     TDMA_Frame L1SCHED_TCHF 3 L1SCHED_TCHF 3,
     TDMA_Frame L1SCHED_IDLE 0 L1SCHED_IDLE 0,
     TDMA_Frame L1SCHED_TCHF 0 L1SCHED_TCHF 0,
     TDMA_Frame L1SCHED_TCHF 1 L1SCHED_TCHF 1,
     TDMA_Frame L1SCHED_TCHF 2 L1SCHED_TCHF 2,
     TDMA_Frame L1SCHED_TCHF 3 L1SCHED_TCHF 3,
     TDMA_Frame L1SCHED_TCHF 0 L1SCHED_TCHF 0,
     TDMA_Frame L1SCHED_TCHF 1 L1SCHED_TCHF 1,
     TDMA_Frame L1SCHED_TCHF 2 L1SCHED_TCHF 2,
     TDMA_Frame L1SCHED_TCHF 3 L1SCHED_TCHF 3,
     TDMA_Frame L1SCHED_TCHF 0 L1SCHED_TCHF 0,
     TDMA_Frame L1SCHED_TCHF 1 L1SCHED_TCHF 1,
     TDMA_Frame L1SCHED_TCHF 2 L1SCHED_TCHF 2,
     TDMA_Frame L1SCHED_TCHF 3 L1SCHED_TCHF 3,
     TDMA_Frame L1SCHED_SACCHTF 0 L1SCHED_SACCHTF 0,
     TDMA_Frame L1SCHED_TCHF 0 L1SCHED_TCHF 0,
     TDMA_Frame L1SCHED_TCHF 1 L1SCHED_TCHF 1,
     TDMA_Frame L1SCHED_TCHF 2 L1SCHED_TCHF 2,
     TDMA_Frame L1SCHED_TCHF 3 L1SCHED_TCHF 3,
     TDMA_Frame L1SCHED_TCHF 0 L1SCHED_TCHF 0,
     TDMA_Frame L1SCHED_TCHF 1 L1SCHED_TCHF 1,
     TDMA_Frame L1SCHED_TCHF 2 L1SCHED_TCHF 2,
     TDMA_Frame L1SCHED_TCHF 3 L1SCHED_TCHF 3,
     TDMA_Frame L1SCHED_TCHF 0 L1SCHED_TCHF 0,
     TDMA_Frame L1SCHED_TCHF 1 L1SCHED_TCHF 1,
     TDMA_Frame L1SCHED_TCHF 2 L1SCHED_TCHF 2,
     TDMA_Frame L1SCHED_TCHF 3 L1SCHED_TCHF 3,
     TDMA_Frame L1SCHED_IDLE 0 L1SCHED_IDLE 0,
     TDMA_Frame L1SCHED_TCHF 0 L1SCHED_TCHF 0,
     TDMA_Frame L1SCHED_TCHF 1 L1SCHED_TCHF 1,
     TDMA_Frame L1SCHED_TCHF 2 L1SCHED_TCHF 2,
     TDMA_Frame L1SCHED_TCHF 3 L1SCHED_TCHF 3,
     TDMA_Frame L1SCHED_TCHF 0 L1SCHED_TCHF 0,
     TDMA_Frame L1SCHED_TCHF 1 L1SCHED_TCHF 1,
     TDMA_Frame L1SCHED_TCHF 2 L1SCHED_TCHF 2,
     TDMA_Frame L1SCHED_TCHF 3 L1SCHED_TCHF 3,
     TDMA_Frame L1SCHED_TCHF 0 L1SCHED_TCHF 0,
     TDMA_Frame L1SCHED_TCHF 1 L1SCHED_TCHF 1,
     TDMA_Frame L1SCHED_TCHF 2 L1SCHED_TCHF 2,
     TDMA_Frame L1SCHED_TCHF 3 L1SCHED_TCHF 3,
     TDMA_Frame L1SCHED_SACCHTF 1 L1SCHED_SACCHTF 1,
     TDMA_Frame L1SCHED_TCHF 0 L1SCHED_TCHF 0,
     TDMA_Frame L1SCHED_TCHF 1 L1SCHED_TCHF 1,
     TDMA_Frame L1SCHED_TCHF 2 L1SCHED_TCHF 2,
     TDMA_Frame L1SCHED_TCHF 3 L1SCHED_TCHF 3,
     TDMA_Frame L1SCHED_TCHF 0 L1SCHED_TCHF 0,
     TDMA_Frame L1SCHED_TCHF 1 L1SCHED_TCHF 1,
     TDMA_Frame L1SCHED_TCHF 2 L1SCHED_TCHF 2,
     TDMA_Frame L1SCHED_TCHF 3 L1SCHED_TCHF 3,
     TDMA_Frame L1SCHED_TCHF 0 L1SCHED_TCHF 0,
     TDMA_Frame L1SCHED_TCHF 1 L1SCHED_TCHF 1,
     TDMA_Frame L1SCHED_TCHF 2 L1SCHED_TCHF 2,
     TDMA_Frame L1SCHED_TCHF 3 L1SCHED_TCHF 3,
     TDMA_Frame L1SCHED_IDLE 0 L1SCHED_IDLE 0,
     TDMA_Frame L1SCHED_TCHF 0 L1SCHED_TCHF 0,
     TDMA_Frame L1SCHED_TCHF 1 L1SCHED_TCHF 1,
     TDMA_Frame L1SCHED_TCHF 2 L1SCHED_TCHF 2,
     TDMA_Frame L1SCHED_TCHF 3 L1SCHED_TCHF 3,
     TDMA_Frame L1SCHED_TCHF 0 L1SCHED_TCHF 0,
     TDMA_Frame L1SCHED_TCHF 1 L1SCHED_TCHF 1,
     TDMA_Frame L1SCHED_TCHF 2 L1SCHED_TCHF 2,
     TDMA_Frame L1SCHED_TCHF 3 L1SCHED_TCHF 3,
     TDMA_Frame L1SCHED_TCHF 0 L1SCHED_TCHF 0,
     TDMA_Frame L1SCHED_TCHF 1 L1SCHED_TCHF 1,
     TDMA_Frame L1SCHED_TCHF 2 L1SCHED_TCHF 2,
     TDMA_Frame L1SCHED_TCHF 3 L1SCHED_TCHF 3,
     TDMA_Frame L1SCHED_SACCHTF 2 L1SCHED_SACCHTF 2,
     TDMA_Frame L1SCHED_TCHF 0 L1SCHED_TCHF 0,
     TDMA_Frame L1SCHED_TCHF 1 L1SCHED_TCHF 1,
     TDMA_Frame L1SCHED_TCHF 2 L1SCHED_TCHF 2,
     TDMA_Frame L1SCHED_TCHF 3 L1SCHED_TCHF 3,
     TDMA_Frame L1SCHED_TCHF 0 L1SCHED_TCHF 0,
     TDMA_Frame L1SCHED_TCHF 1 L1SCHED_TCHF 1,
     TDMA_Frame L1SCHED_TCHF 2 L1SCHED_TCHF 2,
     TDMA_Frame L1SCHED_TCHF 3 L1SCHED_TCHF 3,
     TDMA_Frame L1SCHED_TCHF 0 L1SCHED_TCHF 0,
     TDMA_Frame L1SCHED_TCHF 1 L1SCHED_TCHF 1,
     TDMA_Frame L1SCHED_TCHF 2 L1SCHED_TCHF 2,
     TDMA_Frame L1SCHED_TCHF 3 L1SCHED_TCHF 3,
     TDMA_Frame L1SCHED_IDLE 0 L1SCHED_IDLE 0]"

definition frame_tchf_ts3 :: "tdma_frame list" where
  "frame_tchf_ts3 = [
     TDMA_Frame L1SCHED_TCHF 0 L1SCHED_TCHF 0,
     TDMA_Frame L1SCHED_TCHF 1 L1SCHED_TCHF 1,
     TDMA_Frame L1SCHED_TCHF 2 L1SCHED_TCHF 2,
     TDMA_Frame L1SCHED_TCHF 3 L1SCHED_TCHF 3,
     TDMA_Frame L1SCHED_TCHF 0 L1SCHED_TCHF 0,
     TDMA_Frame L1SCHED_TCHF 1 L1SCHED_TCHF 1,
     TDMA_Frame L1SCHED_TCHF 2 L1SCHED_TCHF 2,
     TDMA_Frame L1SCHED_TCHF 3 L1SCHED_TCHF 3,
     TDMA_Frame L1SCHED_TCHF 0 L1SCHED_TCHF 0,
     TDMA_Frame L1SCHED_TCHF 1 L1SCHED_TCHF 1,
     TDMA_Frame L1SCHED_TCHF 2 L1SCHED_TCHF 2,
     TDMA_Frame L1SCHED_TCHF 3 L1SCHED_TCHF 3,
     TDMA_Frame L1SCHED_IDLE 0 L1SCHED_IDLE 0,
     TDMA_Frame L1SCHED_TCHF 0 L1SCHED_TCHF 0,
     TDMA_Frame L1SCHED_TCHF 1 L1SCHED_TCHF 1,
     TDMA_Frame L1SCHED_TCHF 2 L1SCHED_TCHF 2,
     TDMA_Frame L1SCHED_TCHF 3 L1SCHED_TCHF 3,
     TDMA_Frame L1SCHED_TCHF 0 L1SCHED_TCHF 0,
     TDMA_Frame L1SCHED_TCHF 1 L1SCHED_TCHF 1,
     TDMA_Frame L1SCHED_TCHF 2 L1SCHED_TCHF 2,
     TDMA_Frame L1SCHED_TCHF 3 L1SCHED_TCHF 3,
     TDMA_Frame L1SCHED_TCHF 0 L1SCHED_TCHF 0,
     TDMA_Frame L1SCHED_TCHF 1 L1SCHED_TCHF 1,
     TDMA_Frame L1SCHED_TCHF 2 L1SCHED_TCHF 2,
     TDMA_Frame L1SCHED_TCHF 3 L1SCHED_TCHF 3,
     TDMA_Frame L1SCHED_SACCHTF 3 L1SCHED_SACCHTF 3,
     TDMA_Frame L1SCHED_TCHF 0 L1SCHED_TCHF 0,
     TDMA_Frame L1SCHED_TCHF 1 L1SCHED_TCHF 1,
     TDMA_Frame L1SCHED_TCHF 2 L1SCHED_TCHF 2,
     TDMA_Frame L1SCHED_TCHF 3 L1SCHED_TCHF 3,
     TDMA_Frame L1SCHED_TCHF 0 L1SCHED_TCHF 0,
     TDMA_Frame L1SCHED_TCHF 1 L1SCHED_TCHF 1,
     TDMA_Frame L1SCHED_TCHF 2 L1SCHED_TCHF 2,
     TDMA_Frame L1SCHED_TCHF 3 L1SCHED_TCHF 3,
     TDMA_Frame L1SCHED_TCHF 0 L1SCHED_TCHF 0,
     TDMA_Frame L1SCHED_TCHF 1 L1SCHED_TCHF 1,
     TDMA_Frame L1SCHED_TCHF 2 L1SCHED_TCHF 2,
     TDMA_Frame L1SCHED_TCHF 3 L1SCHED_TCHF 3,
     TDMA_Frame L1SCHED_IDLE 0 L1SCHED_IDLE 0,
     TDMA_Frame L1SCHED_TCHF 0 L1SCHED_TCHF 0,
     TDMA_Frame L1SCHED_TCHF 1 L1SCHED_TCHF 1,
     TDMA_Frame L1SCHED_TCHF 2 L1SCHED_TCHF 2,
     TDMA_Frame L1SCHED_TCHF 3 L1SCHED_TCHF 3,
     TDMA_Frame L1SCHED_TCHF 0 L1SCHED_TCHF 0,
     TDMA_Frame L1SCHED_TCHF 1 L1SCHED_TCHF 1,
     TDMA_Frame L1SCHED_TCHF 2 L1SCHED_TCHF 2,
     TDMA_Frame L1SCHED_TCHF 3 L1SCHED_TCHF 3,
     TDMA_Frame L1SCHED_TCHF 0 L1SCHED_TCHF 0,
     TDMA_Frame L1SCHED_TCHF 1 L1SCHED_TCHF 1,
     TDMA_Frame L1SCHED_TCHF 2 L1SCHED_TCHF 2,
     TDMA_Frame L1SCHED_TCHF 3 L1SCHED_TCHF 3,
     TDMA_Frame L1SCHED_SACCHTF 0 L1SCHED_SACCHTF 0,
     TDMA_Frame L1SCHED_TCHF 0 L1SCHED_TCHF 0,
     TDMA_Frame L1SCHED_TCHF 1 L1SCHED_TCHF 1,
     TDMA_Frame L1SCHED_TCHF 2 L1SCHED_TCHF 2,
     TDMA_Frame L1SCHED_TCHF 3 L1SCHED_TCHF 3,
     TDMA_Frame L1SCHED_TCHF 0 L1SCHED_TCHF 0,
     TDMA_Frame L1SCHED_TCHF 1 L1SCHED_TCHF 1,
     TDMA_Frame L1SCHED_TCHF 2 L1SCHED_TCHF 2,
     TDMA_Frame L1SCHED_TCHF 3 L1SCHED_TCHF 3,
     TDMA_Frame L1SCHED_TCHF 0 L1SCHED_TCHF 0,
     TDMA_Frame L1SCHED_TCHF 1 L1SCHED_TCHF 1,
     TDMA_Frame L1SCHED_TCHF 2 L1SCHED_TCHF 2,
     TDMA_Frame L1SCHED_TCHF 3 L1SCHED_TCHF 3,
     TDMA_Frame L1SCHED_IDLE 0 L1SCHED_IDLE 0,
     TDMA_Frame L1SCHED_TCHF 0 L1SCHED_TCHF 0,
     TDMA_Frame L1SCHED_TCHF 1 L1SCHED_TCHF 1,
     TDMA_Frame L1SCHED_TCHF 2 L1SCHED_TCHF 2,
     TDMA_Frame L1SCHED_TCHF 3 L1SCHED_TCHF 3,
     TDMA_Frame L1SCHED_TCHF 0 L1SCHED_TCHF 0,
     TDMA_Frame L1SCHED_TCHF 1 L1SCHED_TCHF 1,
     TDMA_Frame L1SCHED_TCHF 2 L1SCHED_TCHF 2,
     TDMA_Frame L1SCHED_TCHF 3 L1SCHED_TCHF 3,
     TDMA_Frame L1SCHED_TCHF 0 L1SCHED_TCHF 0,
     TDMA_Frame L1SCHED_TCHF 1 L1SCHED_TCHF 1,
     TDMA_Frame L1SCHED_TCHF 2 L1SCHED_TCHF 2,
     TDMA_Frame L1SCHED_TCHF 3 L1SCHED_TCHF 3,
     TDMA_Frame L1SCHED_SACCHTF 1 L1SCHED_SACCHTF 1,
     TDMA_Frame L1SCHED_TCHF 0 L1SCHED_TCHF 0,
     TDMA_Frame L1SCHED_TCHF 1 L1SCHED_TCHF 1,
     TDMA_Frame L1SCHED_TCHF 2 L1SCHED_TCHF 2,
     TDMA_Frame L1SCHED_TCHF 3 L1SCHED_TCHF 3,
     TDMA_Frame L1SCHED_TCHF 0 L1SCHED_TCHF 0,
     TDMA_Frame L1SCHED_TCHF 1 L1SCHED_TCHF 1,
     TDMA_Frame L1SCHED_TCHF 2 L1SCHED_TCHF 2,
     TDMA_Frame L1SCHED_TCHF 3 L1SCHED_TCHF 3,
     TDMA_Frame L1SCHED_TCHF 0 L1SCHED_TCHF 0,
     TDMA_Frame L1SCHED_TCHF 1 L1SCHED_TCHF 1,
     TDMA_Frame L1SCHED_TCHF 2 L1SCHED_TCHF 2,
     TDMA_Frame L1SCHED_TCHF 3 L1SCHED_TCHF 3,
     TDMA_Frame L1SCHED_IDLE 0 L1SCHED_IDLE 0,
     TDMA_Frame L1SCHED_TCHF 0 L1SCHED_TCHF 0,
     TDMA_Frame L1SCHED_TCHF 1 L1SCHED_TCHF 1,
     TDMA_Frame L1SCHED_TCHF 2 L1SCHED_TCHF 2,
     TDMA_Frame L1SCHED_TCHF 3 L1SCHED_TCHF 3,
     TDMA_Frame L1SCHED_TCHF 0 L1SCHED_TCHF 0,
     TDMA_Frame L1SCHED_TCHF 1 L1SCHED_TCHF 1,
     TDMA_Frame L1SCHED_TCHF 2 L1SCHED_TCHF 2,
     TDMA_Frame L1SCHED_TCHF 3 L1SCHED_TCHF 3,
     TDMA_Frame L1SCHED_TCHF 0 L1SCHED_TCHF 0,
     TDMA_Frame L1SCHED_TCHF 1 L1SCHED_TCHF 1,
     TDMA_Frame L1SCHED_TCHF 2 L1SCHED_TCHF 2,
     TDMA_Frame L1SCHED_TCHF 3 L1SCHED_TCHF 3,
     TDMA_Frame L1SCHED_SACCHTF 2 L1SCHED_SACCHTF 2]"

definition frame_tchf_ts4 :: "tdma_frame list" where
  "frame_tchf_ts4 = [
     TDMA_Frame L1SCHED_TCHF 0 L1SCHED_TCHF 0,
     TDMA_Frame L1SCHED_TCHF 1 L1SCHED_TCHF 1,
     TDMA_Frame L1SCHED_TCHF 2 L1SCHED_TCHF 2,
     TDMA_Frame L1SCHED_TCHF 3 L1SCHED_TCHF 3,
     TDMA_Frame L1SCHED_TCHF 0 L1SCHED_TCHF 0,
     TDMA_Frame L1SCHED_TCHF 1 L1SCHED_TCHF 1,
     TDMA_Frame L1SCHED_TCHF 2 L1SCHED_TCHF 2,
     TDMA_Frame L1SCHED_TCHF 3 L1SCHED_TCHF 3,
     TDMA_Frame L1SCHED_TCHF 0 L1SCHED_TCHF 0,
     TDMA_Frame L1SCHED_TCHF 1 L1SCHED_TCHF 1,
     TDMA_Frame L1SCHED_TCHF 2 L1SCHED_TCHF 2,
     TDMA_Frame L1SCHED_TCHF 3 L1SCHED_TCHF 3,
     TDMA_Frame L1SCHED_SACCHTF 2 L1SCHED_SACCHTF 2,
     TDMA_Frame L1SCHED_TCHF 0 L1SCHED_TCHF 0,
     TDMA_Frame L1SCHED_TCHF 1 L1SCHED_TCHF 1,
     TDMA_Frame L1SCHED_TCHF 2 L1SCHED_TCHF 2,
     TDMA_Frame L1SCHED_TCHF 3 L1SCHED_TCHF 3,
     TDMA_Frame L1SCHED_TCHF 0 L1SCHED_TCHF 0,
     TDMA_Frame L1SCHED_TCHF 1 L1SCHED_TCHF 1,
     TDMA_Frame L1SCHED_TCHF 2 L1SCHED_TCHF 2,
     TDMA_Frame L1SCHED_TCHF 3 L1SCHED_TCHF 3,
     TDMA_Frame L1SCHED_TCHF 0 L1SCHED_TCHF 0,
     TDMA_Frame L1SCHED_TCHF 1 L1SCHED_TCHF 1,
     TDMA_Frame L1SCHED_TCHF 2 L1SCHED_TCHF 2,
     TDMA_Frame L1SCHED_TCHF 3 L1SCHED_TCHF 3,
     TDMA_Frame L1SCHED_IDLE 0 L1SCHED_IDLE 0,
     TDMA_Frame L1SCHED_TCHF 0 L1SCHED_TCHF 0,
     TDMA_Frame L1SCHED_TCHF 1 L1SCHED_TCHF 1,
     TDMA_Frame L1SCHED_TCHF 2 L1SCHED_TCHF 2,
     TDMA_Frame L1SCHED_TCHF 3 L1SCHED_TCHF 3,
     TDMA_Frame L1SCHED_TCHF 0 L1SCHED_TCHF 0,
     TDMA_Frame L1SCHED_TCHF 1 L1SCHED_TCHF 1,
     TDMA_Frame L1SCHED_TCHF 2 L1SCHED_TCHF 2,
     TDMA_Frame L1SCHED_TCHF 3 L1SCHED_TCHF 3,
     TDMA_Frame L1SCHED_TCHF 0 L1SCHED_TCHF 0,
     TDMA_Frame L1SCHED_TCHF 1 L1SCHED_TCHF 1,
     TDMA_Frame L1SCHED_TCHF 2 L1SCHED_TCHF 2,
     TDMA_Frame L1SCHED_TCHF 3 L1SCHED_TCHF 3,
     TDMA_Frame L1SCHED_SACCHTF 3 L1SCHED_SACCHTF 3,
     TDMA_Frame L1SCHED_TCHF 0 L1SCHED_TCHF 0,
     TDMA_Frame L1SCHED_TCHF 1 L1SCHED_TCHF 1,
     TDMA_Frame L1SCHED_TCHF 2 L1SCHED_TCHF 2,
     TDMA_Frame L1SCHED_TCHF 3 L1SCHED_TCHF 3,
     TDMA_Frame L1SCHED_TCHF 0 L1SCHED_TCHF 0,
     TDMA_Frame L1SCHED_TCHF 1 L1SCHED_TCHF 1,
     TDMA_Frame L1SCHED_TCHF 2 L1SCHED_TCHF 2,
     TDMA_Frame L1SCHED_TCHF 3 L1SCHED_TCHF 3,
     TDMA_Frame L1SCHED_TCHF 0 L1SCHED_TCHF 0,
     TDMA_Frame L1SCHED_TCHF 1 L1SCHED_TCHF 1,
     TDMA_Frame L1SCHED_TCHF 2 L1SCHED_TCHF 2,
     TDMA_Frame L1SCHED_TCHF 3 L1SCHED_TCHF 3,
     TDMA_Frame L1SCHED_IDLE 0 L1SCHED_IDLE 0,
     TDMA_Frame L1SCHED_TCHF 0 L1SCHED_TCHF 0,
     TDMA_Frame L1SCHED_TCHF 1 L1SCHED_TCHF 1,
     TDMA_Frame L1SCHED_TCHF 2 L1SCHED_TCHF 2,
     TDMA_Frame L1SCHED_TCHF 3 L1SCHED_TCHF 3,
     TDMA_Frame L1SCHED_TCHF 0 L1SCHED_TCHF 0,
     TDMA_Frame L1SCHED_TCHF 1 L1SCHED_TCHF 1,
     TDMA_Frame L1SCHED_TCHF 2 L1SCHED_TCHF 2,
     TDMA_Frame L1SCHED_TCHF 3 L1SCHED_TCHF 3,
     TDMA_Frame L1SCHED_TCHF 0 L1SCHED_TCHF 0,
     TDMA_Frame L1SCHED_TCHF 1 L1SCHED_TCHF 1,
     TDMA_Frame L1SCHED_TCHF 2 L1SCHED_TCHF 2,
     TDMA_Frame L1SCHED_TCHF 3 L1SCHED_TCHF 3,
     TDMA_Frame L1SCHED_SACCHTF 0 L1SCHED_SACCHTF 0,
     TDMA_Frame L1SCHED_TCHF 0 L1SCHED_TCHF 0,
     TDMA_Frame L1SCHED_TCHF 1 L1SCHED_TCHF 1,
     TDMA_Frame L1SCHED_TCHF 2 L1SCHED_TCHF 2,
     TDMA_Frame L1SCHED_TCHF 3 L1SCHED_TCHF 3,
     TDMA_Frame L1SCHED_TCHF 0 L1SCHED_TCHF 0,
     TDMA_Frame L1SCHED_TCHF 1 L1SCHED_TCHF 1,
     TDMA_Frame L1SCHED_TCHF 2 L1SCHED_TCHF 2,
     TDMA_Frame L1SCHED_TCHF 3 L1SCHED_TCHF 3,
     TDMA_Frame L1SCHED_TCHF 0 L1SCHED_TCHF 0,
     TDMA_Frame L1SCHED_TCHF 1 L1SCHED_TCHF 1,
     TDMA_Frame L1SCHED_TCHF 2 L1SCHED_TCHF 2,
     TDMA_Frame L1SCHED_TCHF 3 L1SCHED_TCHF 3,
     TDMA_Frame L1SCHED_IDLE 0 L1SCHED_IDLE 0,
     TDMA_Frame L1SCHED_TCHF 0 L1SCHED_TCHF 0,
     TDMA_Frame L1SCHED_TCHF 1 L1SCHED_TCHF 1,
     TDMA_Frame L1SCHED_TCHF 2 L1SCHED_TCHF 2,
     TDMA_Frame L1SCHED_TCHF 3 L1SCHED_TCHF 3,
     TDMA_Frame L1SCHED_TCHF 0 L1SCHED_TCHF 0,
     TDMA_Frame L1SCHED_TCHF 1 L1SCHED_TCHF 1,
     TDMA_Frame L1SCHED_TCHF 2 L1SCHED_TCHF 2,
     TDMA_Frame L1SCHED_TCHF 3 L1SCHED_TCHF 3,
     TDMA_Frame L1SCHED_TCHF 0 L1SCHED_TCHF 0,
     TDMA_Frame L1SCHED_TCHF 1 L1SCHED_TCHF 1,
     TDMA_Frame L1SCHED_TCHF 2 L1SCHED_TCHF 2,
     TDMA_Frame L1SCHED_TCHF 3 L1SCHED_TCHF 3,
     TDMA_Frame L1SCHED_SACCHTF 1 L1SCHED_SACCHTF 1,
     TDMA_Frame L1SCHED_TCHF 0 L1SCHED_TCHF 0,
     TDMA_Frame L1SCHED_TCHF 1 L1SCHED_TCHF 1,
     TDMA_Frame L1SCHED_TCHF 2 L1SCHED_TCHF 2,
     TDMA_Frame L1SCHED_TCHF 3 L1SCHED_TCHF 3,
     TDMA_Frame L1SCHED_TCHF 0 L1SCHED_TCHF 0,
     TDMA_Frame L1SCHED_TCHF 1 L1SCHED_TCHF 1,
     TDMA_Frame L1SCHED_TCHF 2 L1SCHED_TCHF 2,
     TDMA_Frame L1SCHED_TCHF 3 L1SCHED_TCHF 3,
     TDMA_Frame L1SCHED_TCHF 0 L1SCHED_TCHF 0,
     TDMA_Frame L1SCHED_TCHF 1 L1SCHED_TCHF 1,
     TDMA_Frame L1SCHED_TCHF 2 L1SCHED_TCHF 2,
     TDMA_Frame L1SCHED_TCHF 3 L1SCHED_TCHF 3,
     TDMA_Frame L1SCHED_IDLE 0 L1SCHED_IDLE 0]"

definition frame_tchf_ts5 :: "tdma_frame list" where
  "frame_tchf_ts5 = [
     TDMA_Frame L1SCHED_TCHF 0 L1SCHED_TCHF 0,
     TDMA_Frame L1SCHED_TCHF 1 L1SCHED_TCHF 1,
     TDMA_Frame L1SCHED_TCHF 2 L1SCHED_TCHF 2,
     TDMA_Frame L1SCHED_TCHF 3 L1SCHED_TCHF 3,
     TDMA_Frame L1SCHED_TCHF 0 L1SCHED_TCHF 0,
     TDMA_Frame L1SCHED_TCHF 1 L1SCHED_TCHF 1,
     TDMA_Frame L1SCHED_TCHF 2 L1SCHED_TCHF 2,
     TDMA_Frame L1SCHED_TCHF 3 L1SCHED_TCHF 3,
     TDMA_Frame L1SCHED_TCHF 0 L1SCHED_TCHF 0,
     TDMA_Frame L1SCHED_TCHF 1 L1SCHED_TCHF 1,
     TDMA_Frame L1SCHED_TCHF 2 L1SCHED_TCHF 2,
     TDMA_Frame L1SCHED_TCHF 3 L1SCHED_TCHF 3,
     TDMA_Frame L1SCHED_IDLE 0 L1SCHED_IDLE 0,
     TDMA_Frame L1SCHED_TCHF 0 L1SCHED_TCHF 0,
     TDMA_Frame L1SCHED_TCHF 1 L1SCHED_TCHF 1,
     TDMA_Frame L1SCHED_TCHF 2 L1SCHED_TCHF 2,
     TDMA_Frame L1SCHED_TCHF 3 L1SCHED_TCHF 3,
     TDMA_Frame L1SCHED_TCHF 0 L1SCHED_TCHF 0,
     TDMA_Frame L1SCHED_TCHF 1 L1SCHED_TCHF 1,
     TDMA_Frame L1SCHED_TCHF 2 L1SCHED_TCHF 2,
     TDMA_Frame L1SCHED_TCHF 3 L1SCHED_TCHF 3,
     TDMA_Frame L1SCHED_TCHF 0 L1SCHED_TCHF 0,
     TDMA_Frame L1SCHED_TCHF 1 L1SCHED_TCHF 1,
     TDMA_Frame L1SCHED_TCHF 2 L1SCHED_TCHF 2,
     TDMA_Frame L1SCHED_TCHF 3 L1SCHED_TCHF 3,
     TDMA_Frame L1SCHED_SACCHTF 2 L1SCHED_SACCHTF 2,
     TDMA_Frame L1SCHED_TCHF 0 L1SCHED_TCHF 0,
     TDMA_Frame L1SCHED_TCHF 1 L1SCHED_TCHF 1,
     TDMA_Frame L1SCHED_TCHF 2 L1SCHED_TCHF 2,
     TDMA_Frame L1SCHED_TCHF 3 L1SCHED_TCHF 3,
     TDMA_Frame L1SCHED_TCHF 0 L1SCHED_TCHF 0,
     TDMA_Frame L1SCHED_TCHF 1 L1SCHED_TCHF 1,
     TDMA_Frame L1SCHED_TCHF 2 L1SCHED_TCHF 2,
     TDMA_Frame L1SCHED_TCHF 3 L1SCHED_TCHF 3,
     TDMA_Frame L1SCHED_TCHF 0 L1SCHED_TCHF 0,
     TDMA_Frame L1SCHED_TCHF 1 L1SCHED_TCHF 1,
     TDMA_Frame L1SCHED_TCHF 2 L1SCHED_TCHF 2,
     TDMA_Frame L1SCHED_TCHF 3 L1SCHED_TCHF 3,
     TDMA_Frame L1SCHED_IDLE 0 L1SCHED_IDLE 0,
     TDMA_Frame L1SCHED_TCHF 0 L1SCHED_TCHF 0,
     TDMA_Frame L1SCHED_TCHF 1 L1SCHED_TCHF 1,
     TDMA_Frame L1SCHED_TCHF 2 L1SCHED_TCHF 2,
     TDMA_Frame L1SCHED_TCHF 3 L1SCHED_TCHF 3,
     TDMA_Frame L1SCHED_TCHF 0 L1SCHED_TCHF 0,
     TDMA_Frame L1SCHED_TCHF 1 L1SCHED_TCHF 1,
     TDMA_Frame L1SCHED_TCHF 2 L1SCHED_TCHF 2,
     TDMA_Frame L1SCHED_TCHF 3 L1SCHED_TCHF 3,
     TDMA_Frame L1SCHED_TCHF 0 L1SCHED_TCHF 0,
     TDMA_Frame L1SCHED_TCHF 1 L1SCHED_TCHF 1,
     TDMA_Frame L1SCHED_TCHF 2 L1SCHED_TCHF 2,
     TDMA_Frame L1SCHED_TCHF 3 L1SCHED_TCHF 3,
     TDMA_Frame L1SCHED_SACCHTF 3 L1SCHED_SACCHTF 3,
     TDMA_Frame L1SCHED_TCHF 0 L1SCHED_TCHF 0,
     TDMA_Frame L1SCHED_TCHF 1 L1SCHED_TCHF 1,
     TDMA_Frame L1SCHED_TCHF 2 L1SCHED_TCHF 2,
     TDMA_Frame L1SCHED_TCHF 3 L1SCHED_TCHF 3,
     TDMA_Frame L1SCHED_TCHF 0 L1SCHED_TCHF 0,
     TDMA_Frame L1SCHED_TCHF 1 L1SCHED_TCHF 1,
     TDMA_Frame L1SCHED_TCHF 2 L1SCHED_TCHF 2,
     TDMA_Frame L1SCHED_TCHF 3 L1SCHED_TCHF 3,
     TDMA_Frame L1SCHED_TCHF 0 L1SCHED_TCHF 0,
     TDMA_Frame L1SCHED_TCHF 1 L1SCHED_TCHF 1,
     TDMA_Frame L1SCHED_TCHF 2 L1SCHED_TCHF 2,
     TDMA_Frame L1SCHED_TCHF 3 L1SCHED_TCHF 3,
     TDMA_Frame L1SCHED_IDLE 0 L1SCHED_IDLE 0,
     TDMA_Frame L1SCHED_TCHF 0 L1SCHED_TCHF 0,
     TDMA_Frame L1SCHED_TCHF 1 L1SCHED_TCHF 1,
     TDMA_Frame L1SCHED_TCHF 2 L1SCHED_TCHF 2,
     TDMA_Frame L1SCHED_TCHF 3 L1SCHED_TCHF 3,
     TDMA_Frame L1SCHED_TCHF 0 L1SCHED_TCHF 0,
     TDMA_Frame L1SCHED_TCHF 1 L1SCHED_TCHF 1,
     TDMA_Frame L1SCHED_TCHF 2 L1SCHED_TCHF 2,
     TDMA_Frame L1SCHED_TCHF 3 L1SCHED_TCHF 3,
     TDMA_Frame L1SCHED_TCHF 0 L1SCHED_TCHF 0,
     TDMA_Frame L1SCHED_TCHF 1 L1SCHED_TCHF 1,
     TDMA_Frame L1SCHED_TCHF 2 L1SCHED_TCHF 2,
     TDMA_Frame L1SCHED_TCHF 3 L1SCHED_TCHF 3,
     TDMA_Frame L1SCHED_SACCHTF 0 L1SCHED_SACCHTF 0,
     TDMA_Frame L1SCHED_TCHF 0 L1SCHED_TCHF 0,
     TDMA_Frame L1SCHED_TCHF 1 L1SCHED_TCHF 1,
     TDMA_Frame L1SCHED_TCHF 2 L1SCHED_TCHF 2,
     TDMA_Frame L1SCHED_TCHF 3 L1SCHED_TCHF 3,
     TDMA_Frame L1SCHED_TCHF 0 L1SCHED_TCHF 0,
     TDMA_Frame L1SCHED_TCHF 1 L1SCHED_TCHF 1,
     TDMA_Frame L1SCHED_TCHF 2 L1SCHED_TCHF 2,
     TDMA_Frame L1SCHED_TCHF 3 L1SCHED_TCHF 3,
     TDMA_Frame L1SCHED_TCHF 0 L1SCHED_TCHF 0,
     TDMA_Frame L1SCHED_TCHF 1 L1SCHED_TCHF 1,
     TDMA_Frame L1SCHED_TCHF 2 L1SCHED_TCHF 2,
     TDMA_Frame L1SCHED_TCHF 3 L1SCHED_TCHF 3,
     TDMA_Frame L1SCHED_IDLE 0 L1SCHED_IDLE 0,
     TDMA_Frame L1SCHED_TCHF 0 L1SCHED_TCHF 0,
     TDMA_Frame L1SCHED_TCHF 1 L1SCHED_TCHF 1,
     TDMA_Frame L1SCHED_TCHF 2 L1SCHED_TCHF 2,
     TDMA_Frame L1SCHED_TCHF 3 L1SCHED_TCHF 3,
     TDMA_Frame L1SCHED_TCHF 0 L1SCHED_TCHF 0,
     TDMA_Frame L1SCHED_TCHF 1 L1SCHED_TCHF 1,
     TDMA_Frame L1SCHED_TCHF 2 L1SCHED_TCHF 2,
     TDMA_Frame L1SCHED_TCHF 3 L1SCHED_TCHF 3,
     TDMA_Frame L1SCHED_TCHF 0 L1SCHED_TCHF 0,
     TDMA_Frame L1SCHED_TCHF 1 L1SCHED_TCHF 1,
     TDMA_Frame L1SCHED_TCHF 2 L1SCHED_TCHF 2,
     TDMA_Frame L1SCHED_TCHF 3 L1SCHED_TCHF 3,
     TDMA_Frame L1SCHED_SACCHTF 1 L1SCHED_SACCHTF 1]"

definition frame_tchf_ts6 :: "tdma_frame list" where
  "frame_tchf_ts6 = [
     TDMA_Frame L1SCHED_TCHF 0 L1SCHED_TCHF 0,
     TDMA_Frame L1SCHED_TCHF 1 L1SCHED_TCHF 1,
     TDMA_Frame L1SCHED_TCHF 2 L1SCHED_TCHF 2,
     TDMA_Frame L1SCHED_TCHF 3 L1SCHED_TCHF 3,
     TDMA_Frame L1SCHED_TCHF 0 L1SCHED_TCHF 0,
     TDMA_Frame L1SCHED_TCHF 1 L1SCHED_TCHF 1,
     TDMA_Frame L1SCHED_TCHF 2 L1SCHED_TCHF 2,
     TDMA_Frame L1SCHED_TCHF 3 L1SCHED_TCHF 3,
     TDMA_Frame L1SCHED_TCHF 0 L1SCHED_TCHF 0,
     TDMA_Frame L1SCHED_TCHF 1 L1SCHED_TCHF 1,
     TDMA_Frame L1SCHED_TCHF 2 L1SCHED_TCHF 2,
     TDMA_Frame L1SCHED_TCHF 3 L1SCHED_TCHF 3,
     TDMA_Frame L1SCHED_SACCHTF 1 L1SCHED_SACCHTF 1,
     TDMA_Frame L1SCHED_TCHF 0 L1SCHED_TCHF 0,
     TDMA_Frame L1SCHED_TCHF 1 L1SCHED_TCHF 1,
     TDMA_Frame L1SCHED_TCHF 2 L1SCHED_TCHF 2,
     TDMA_Frame L1SCHED_TCHF 3 L1SCHED_TCHF 3,
     TDMA_Frame L1SCHED_TCHF 0 L1SCHED_TCHF 0,
     TDMA_Frame L1SCHED_TCHF 1 L1SCHED_TCHF 1,
     TDMA_Frame L1SCHED_TCHF 2 L1SCHED_TCHF 2,
     TDMA_Frame L1SCHED_TCHF 3 L1SCHED_TCHF 3,
     TDMA_Frame L1SCHED_TCHF 0 L1SCHED_TCHF 0,
     TDMA_Frame L1SCHED_TCHF 1 L1SCHED_TCHF 1,
     TDMA_Frame L1SCHED_TCHF 2 L1SCHED_TCHF 2,
     TDMA_Frame L1SCHED_TCHF 3 L1SCHED_TCHF 3,
     TDMA_Frame L1SCHED_IDLE 0 L1SCHED_IDLE 0,
     TDMA_Frame L1SCHED_TCHF 0 L1SCHED_TCHF 0,
     TDMA_Frame L1SCHED_TCHF 1 L1SCHED_TCHF 1,
     TDMA_Frame L1SCHED_TCHF 2 L1SCHED_TCHF 2,
     TDMA_Frame L1SCHED_TCHF 3 L1SCHED_TCHF 3,
     TDMA_Frame L1SCHED_TCHF 0 L1SCHED_TCHF 0,
     TDMA_Frame L1SCHED_TCHF 1 L1SCHED_TCHF 1,
     TDMA_Frame L1SCHED_TCHF 2 L1SCHED_TCHF 2,
     TDMA_Frame L1SCHED_TCHF 3 L1SCHED_TCHF 3,
     TDMA_Frame L1SCHED_TCHF 0 L1SCHED_TCHF 0,
     TDMA_Frame L1SCHED_TCHF 1 L1SCHED_TCHF 1,
     TDMA_Frame L1SCHED_TCHF 2 L1SCHED_TCHF 2,
     TDMA_Frame L1SCHED_TCHF 3 L1SCHED_TCHF 3,
     TDMA_Frame L1SCHED_SACCHTF 2 L1SCHED_SACCHTF 2,
     TDMA_Frame L1SCHED_TCHF 0 L1SCHED_TCHF 0,
     TDMA_Frame L1SCHED_TCHF 1 L1SCHED_TCHF 1,
     TDMA_Frame L1SCHED_TCHF 2 L1SCHED_TCHF 2,
     TDMA_Frame L1SCHED_TCHF 3 L1SCHED_TCHF 3,
     TDMA_Frame L1SCHED_TCHF 0 L1SCHED_TCHF 0,
     TDMA_Frame L1SCHED_TCHF 1 L1SCHED_TCHF 1,
     TDMA_Frame L1SCHED_TCHF 2 L1SCHED_TCHF 2,
     TDMA_Frame L1SCHED_TCHF 3 L1SCHED_TCHF 3,
     TDMA_Frame L1SCHED_TCHF 0 L1SCHED_TCHF 0,
     TDMA_Frame L1SCHED_TCHF 1 L1SCHED_TCHF 1,
     TDMA_Frame L1SCHED_TCHF 2 L1SCHED_TCHF 2,
     TDMA_Frame L1SCHED_TCHF 3 L1SCHED_TCHF 3,
     TDMA_Frame L1SCHED_IDLE 0 L1SCHED_IDLE 0,
     TDMA_Frame L1SCHED_TCHF 0 L1SCHED_TCHF 0,
     TDMA_Frame L1SCHED_TCHF 1 L1SCHED_TCHF 1,
     TDMA_Frame L1SCHED_TCHF 2 L1SCHED_TCHF 2,
     TDMA_Frame L1SCHED_TCHF 3 L1SCHED_TCHF 3,
     TDMA_Frame L1SCHED_TCHF 0 L1SCHED_TCHF 0,
     TDMA_Frame L1SCHED_TCHF 1 L1SCHED_TCHF 1,
     TDMA_Frame L1SCHED_TCHF 2 L1SCHED_TCHF 2,
     TDMA_Frame L1SCHED_TCHF 3 L1SCHED_TCHF 3,
     TDMA_Frame L1SCHED_TCHF 0 L1SCHED_TCHF 0,
     TDMA_Frame L1SCHED_TCHF 1 L1SCHED_TCHF 1,
     TDMA_Frame L1SCHED_TCHF 2 L1SCHED_TCHF 2,
     TDMA_Frame L1SCHED_TCHF 3 L1SCHED_TCHF 3,
     TDMA_Frame L1SCHED_SACCHTF 3 L1SCHED_SACCHTF 3,
     TDMA_Frame L1SCHED_TCHF 0 L1SCHED_TCHF 0,
     TDMA_Frame L1SCHED_TCHF 1 L1SCHED_TCHF 1,
     TDMA_Frame L1SCHED_TCHF 2 L1SCHED_TCHF 2,
     TDMA_Frame L1SCHED_TCHF 3 L1SCHED_TCHF 3,
     TDMA_Frame L1SCHED_TCHF 0 L1SCHED_TCHF 0,
     TDMA_Frame L1SCHED_TCHF 1 L1SCHED_TCHF 1,
     TDMA_Frame L1SCHED_TCHF 2 L1SCHED_TCHF 2,
     TDMA_Frame L1SCHED_TCHF 3 L1SCHED_TCHF 3,
     TDMA_Frame L1SCHED_TCHF 0 L1SCHED_TCHF 0,
     TDMA_Frame L1SCHED_TCHF 1 L1SCHED_TCHF 1,
     TDMA_Frame L1SCHED_TCHF 2 L1SCHED_TCHF 2,
     TDMA_Frame L1SCHED_TCHF 3 L1SCHED_TCHF 3,
     TDMA_Frame L1SCHED_IDLE 0 L1SCHED_IDLE 0,
     TDMA_Frame L1SCHED_TCHF 0 L1SCHED_TCHF 0,
     TDMA_Frame L1SCHED_TCHF 1 L1SCHED_TCHF 1,
     TDMA_Frame L1SCHED_TCHF 2 L1SCHED_TCHF 2,
     TDMA_Frame L1SCHED_TCHF 3 L1SCHED_TCHF 3,
     TDMA_Frame L1SCHED_TCHF 0 L1SCHED_TCHF 0,
     TDMA_Frame L1SCHED_TCHF 1 L1SCHED_TCHF 1,
     TDMA_Frame L1SCHED_TCHF 2 L1SCHED_TCHF 2,
     TDMA_Frame L1SCHED_TCHF 3 L1SCHED_TCHF 3,
     TDMA_Frame L1SCHED_TCHF 0 L1SCHED_TCHF 0,
     TDMA_Frame L1SCHED_TCHF 1 L1SCHED_TCHF 1,
     TDMA_Frame L1SCHED_TCHF 2 L1SCHED_TCHF 2,
     TDMA_Frame L1SCHED_TCHF 3 L1SCHED_TCHF 3,
     TDMA_Frame L1SCHED_SACCHTF 0 L1SCHED_SACCHTF 0,
     TDMA_Frame L1SCHED_TCHF 0 L1SCHED_TCHF 0,
     TDMA_Frame L1SCHED_TCHF 1 L1SCHED_TCHF 1,
     TDMA_Frame L1SCHED_TCHF 2 L1SCHED_TCHF 2,
     TDMA_Frame L1SCHED_TCHF 3 L1SCHED_TCHF 3,
     TDMA_Frame L1SCHED_TCHF 0 L1SCHED_TCHF 0,
     TDMA_Frame L1SCHED_TCHF 1 L1SCHED_TCHF 1,
     TDMA_Frame L1SCHED_TCHF 2 L1SCHED_TCHF 2,
     TDMA_Frame L1SCHED_TCHF 3 L1SCHED_TCHF 3,
     TDMA_Frame L1SCHED_TCHF 0 L1SCHED_TCHF 0,
     TDMA_Frame L1SCHED_TCHF 1 L1SCHED_TCHF 1,
     TDMA_Frame L1SCHED_TCHF 2 L1SCHED_TCHF 2,
     TDMA_Frame L1SCHED_TCHF 3 L1SCHED_TCHF 3,
     TDMA_Frame L1SCHED_IDLE 0 L1SCHED_IDLE 0]"

definition frame_tchf_ts7 :: "tdma_frame list" where
  "frame_tchf_ts7 = [
     TDMA_Frame L1SCHED_TCHF 0 L1SCHED_TCHF 0,
     TDMA_Frame L1SCHED_TCHF 1 L1SCHED_TCHF 1,
     TDMA_Frame L1SCHED_TCHF 2 L1SCHED_TCHF 2,
     TDMA_Frame L1SCHED_TCHF 3 L1SCHED_TCHF 3,
     TDMA_Frame L1SCHED_TCHF 0 L1SCHED_TCHF 0,
     TDMA_Frame L1SCHED_TCHF 1 L1SCHED_TCHF 1,
     TDMA_Frame L1SCHED_TCHF 2 L1SCHED_TCHF 2,
     TDMA_Frame L1SCHED_TCHF 3 L1SCHED_TCHF 3,
     TDMA_Frame L1SCHED_TCHF 0 L1SCHED_TCHF 0,
     TDMA_Frame L1SCHED_TCHF 1 L1SCHED_TCHF 1,
     TDMA_Frame L1SCHED_TCHF 2 L1SCHED_TCHF 2,
     TDMA_Frame L1SCHED_TCHF 3 L1SCHED_TCHF 3,
     TDMA_Frame L1SCHED_IDLE 0 L1SCHED_IDLE 0,
     TDMA_Frame L1SCHED_TCHF 0 L1SCHED_TCHF 0,
     TDMA_Frame L1SCHED_TCHF 1 L1SCHED_TCHF 1,
     TDMA_Frame L1SCHED_TCHF 2 L1SCHED_TCHF 2,
     TDMA_Frame L1SCHED_TCHF 3 L1SCHED_TCHF 3,
     TDMA_Frame L1SCHED_TCHF 0 L1SCHED_TCHF 0,
     TDMA_Frame L1SCHED_TCHF 1 L1SCHED_TCHF 1,
     TDMA_Frame L1SCHED_TCHF 2 L1SCHED_TCHF 2,
     TDMA_Frame L1SCHED_TCHF 3 L1SCHED_TCHF 3,
     TDMA_Frame L1SCHED_TCHF 0 L1SCHED_TCHF 0,
     TDMA_Frame L1SCHED_TCHF 1 L1SCHED_TCHF 1,
     TDMA_Frame L1SCHED_TCHF 2 L1SCHED_TCHF 2,
     TDMA_Frame L1SCHED_TCHF 3 L1SCHED_TCHF 3,
     TDMA_Frame L1SCHED_SACCHTF 1 L1SCHED_SACCHTF 1,
     TDMA_Frame L1SCHED_TCHF 0 L1SCHED_TCHF 0,
     TDMA_Frame L1SCHED_TCHF 1 L1SCHED_TCHF 1,
     TDMA_Frame L1SCHED_TCHF 2 L1SCHED_TCHF 2,
     TDMA_Frame L1SCHED_TCHF 3 L1SCHED_TCHF 3,
     TDMA_Frame L1SCHED_TCHF 0 L1SCHED_TCHF 0,
     TDMA_Frame L1SCHED_TCHF 1 L1SCHED_TCHF 1,
     TDMA_Frame L1SCHED_TCHF 2 L1SCHED_TCHF 2,
     TDMA_Frame L1SCHED_TCHF 3 L1SCHED_TCHF 3,
     TDMA_Frame L1SCHED_TCHF 0 L1SCHED_TCHF 0,
     TDMA_Frame L1SCHED_TCHF 1 L1SCHED_TCHF 1,
     TDMA_Frame L1SCHED_TCHF 2 L1SCHED_TCHF 2,
     TDMA_Frame L1SCHED_TCHF 3 L1SCHED_TCHF 3,
     TDMA_Frame L1SCHED_IDLE 0 L1SCHED_IDLE 0,
     TDMA_Frame L1SCHED_TCHF 0 L1SCHED_TCHF 0,
     TDMA_Frame L1SCHED_TCHF 1 L1SCHED_TCHF 1,
     TDMA_Frame L1SCHED_TCHF 2 L1SCHED_TCHF 2,
     TDMA_Frame L1SCHED_TCHF 3 L1SCHED_TCHF 3,
     TDMA_Frame L1SCHED_TCHF 0 L1SCHED_TCHF 0,
     TDMA_Frame L1SCHED_TCHF 1 L1SCHED_TCHF 1,
     TDMA_Frame L1SCHED_TCHF 2 L1SCHED_TCHF 2,
     TDMA_Frame L1SCHED_TCHF 3 L1SCHED_TCHF 3,
     TDMA_Frame L1SCHED_TCHF 0 L1SCHED_TCHF 0,
     TDMA_Frame L1SCHED_TCHF 1 L1SCHED_TCHF 1,
     TDMA_Frame L1SCHED_TCHF 2 L1SCHED_TCHF 2,
     TDMA_Frame L1SCHED_TCHF 3 L1SCHED_TCHF 3,
     TDMA_Frame L1SCHED_SACCHTF 2 L1SCHED_SACCHTF 2,
     TDMA_Frame L1SCHED_TCHF 0 L1SCHED_TCHF 0,
     TDMA_Frame L1SCHED_TCHF 1 L1SCHED_TCHF 1,
     TDMA_Frame L1SCHED_TCHF 2 L1SCHED_TCHF 2,
     TDMA_Frame L1SCHED_TCHF 3 L1SCHED_TCHF 3,
     TDMA_Frame L1SCHED_TCHF 0 L1SCHED_TCHF 0,
     TDMA_Frame L1SCHED_TCHF 1 L1SCHED_TCHF 1,
     TDMA_Frame L1SCHED_TCHF 2 L1SCHED_TCHF 2,
     TDMA_Frame L1SCHED_TCHF 3 L1SCHED_TCHF 3,
     TDMA_Frame L1SCHED_TCHF 0 L1SCHED_TCHF 0,
     TDMA_Frame L1SCHED_TCHF 1 L1SCHED_TCHF 1,
     TDMA_Frame L1SCHED_TCHF 2 L1SCHED_TCHF 2,
     TDMA_Frame L1SCHED_TCHF 3 L1SCHED_TCHF 3,
     TDMA_Frame L1SCHED_IDLE 0 L1SCHED_IDLE 0,
     TDMA_Frame L1SCHED_TCHF 0 L1SCHED_TCHF 0,
     TDMA_Frame L1SCHED_TCHF 1 L1SCHED_TCHF 1,
     TDMA_Frame L1SCHED_TCHF 2 L1SCHED_TCHF 2,
     TDMA_Frame L1SCHED_TCHF 3 L1SCHED_TCHF 3,
     TDMA_Frame L1SCHED_TCHF 0 L1SCHED_TCHF 0,
     TDMA_Frame L1SCHED_TCHF 1 L1SCHED_TCHF 1,
     TDMA_Frame L1SCHED_TCHF 2 L1SCHED_TCHF 2,
     TDMA_Frame L1SCHED_TCHF 3 L1SCHED_TCHF 3,
     TDMA_Frame L1SCHED_TCHF 0 L1SCHED_TCHF 0,
     TDMA_Frame L1SCHED_TCHF 1 L1SCHED_TCHF 1,
     TDMA_Frame L1SCHED_TCHF 2 L1SCHED_TCHF 2,
     TDMA_Frame L1SCHED_TCHF 3 L1SCHED_TCHF 3,
     TDMA_Frame L1SCHED_SACCHTF 3 L1SCHED_SACCHTF 3,
     TDMA_Frame L1SCHED_TCHF 0 L1SCHED_TCHF 0,
     TDMA_Frame L1SCHED_TCHF 1 L1SCHED_TCHF 1,
     TDMA_Frame L1SCHED_TCHF 2 L1SCHED_TCHF 2,
     TDMA_Frame L1SCHED_TCHF 3 L1SCHED_TCHF 3,
     TDMA_Frame L1SCHED_TCHF 0 L1SCHED_TCHF 0,
     TDMA_Frame L1SCHED_TCHF 1 L1SCHED_TCHF 1,
     TDMA_Frame L1SCHED_TCHF 2 L1SCHED_TCHF 2,
     TDMA_Frame L1SCHED_TCHF 3 L1SCHED_TCHF 3,
     TDMA_Frame L1SCHED_TCHF 0 L1SCHED_TCHF 0,
     TDMA_Frame L1SCHED_TCHF 1 L1SCHED_TCHF 1,
     TDMA_Frame L1SCHED_TCHF 2 L1SCHED_TCHF 2,
     TDMA_Frame L1SCHED_TCHF 3 L1SCHED_TCHF 3,
     TDMA_Frame L1SCHED_IDLE 0 L1SCHED_IDLE 0,
     TDMA_Frame L1SCHED_TCHF 0 L1SCHED_TCHF 0,
     TDMA_Frame L1SCHED_TCHF 1 L1SCHED_TCHF 1,
     TDMA_Frame L1SCHED_TCHF 2 L1SCHED_TCHF 2,
     TDMA_Frame L1SCHED_TCHF 3 L1SCHED_TCHF 3,
     TDMA_Frame L1SCHED_TCHF 0 L1SCHED_TCHF 0,
     TDMA_Frame L1SCHED_TCHF 1 L1SCHED_TCHF 1,
     TDMA_Frame L1SCHED_TCHF 2 L1SCHED_TCHF 2,
     TDMA_Frame L1SCHED_TCHF 3 L1SCHED_TCHF 3,
     TDMA_Frame L1SCHED_TCHF 0 L1SCHED_TCHF 0,
     TDMA_Frame L1SCHED_TCHF 1 L1SCHED_TCHF 1,
     TDMA_Frame L1SCHED_TCHF 2 L1SCHED_TCHF 2,
     TDMA_Frame L1SCHED_TCHF 3 L1SCHED_TCHF 3,
     TDMA_Frame L1SCHED_SACCHTF 0 L1SCHED_SACCHTF 0]"

definition frame_tchh_ts01 :: "tdma_frame list" where
  "frame_tchh_ts01 = [
     TDMA_Frame L1SCHED_TCHH_0 0 L1SCHED_TCHH_0 0,
     TDMA_Frame L1SCHED_TCHH_1 0 L1SCHED_TCHH_1 0,
     TDMA_Frame L1SCHED_TCHH_0 1 L1SCHED_TCHH_0 1,
     TDMA_Frame L1SCHED_TCHH_1 1 L1SCHED_TCHH_1 1,
     TDMA_Frame L1SCHED_TCHH_0 0 L1SCHED_TCHH_0 0,
     TDMA_Frame L1SCHED_TCHH_1 0 L1SCHED_TCHH_1 0,
     TDMA_Frame L1SCHED_TCHH_0 1 L1SCHED_TCHH_0 1,
     TDMA_Frame L1SCHED_TCHH_1 1 L1SCHED_TCHH_1 1,
     TDMA_Frame L1SCHED_TCHH_0 0 L1SCHED_TCHH_0 0,
     TDMA_Frame L1SCHED_TCHH_1 0 L1SCHED_TCHH_1 0,
     TDMA_Frame L1SCHED_TCHH_0 1 L1SCHED_TCHH_0 1,
     TDMA_Frame L1SCHED_TCHH_1 1 L1SCHED_TCHH_1 1,
     TDMA_Frame L1SCHED_SACCHTH_0 0 L1SCHED_SACCHTH_0 0,
     TDMA_Frame L1SCHED_TCHH_0 0 L1SCHED_TCHH_0 0,
     TDMA_Frame L1SCHED_TCHH_1 0 L1SCHED_TCHH_1 0,
     TDMA_Frame L1SCHED_TCHH_0 1 L1SCHED_TCHH_0 1,
     TDMA_Frame L1SCHED_TCHH_1 1 L1SCHED_TCHH_1 1,
     TDMA_Frame L1SCHED_TCHH_0 0 L1SCHED_TCHH_0 0,
     TDMA_Frame L1SCHED_TCHH_1 0 L1SCHED_TCHH_1 0,
     TDMA_Frame L1SCHED_TCHH_0 1 L1SCHED_TCHH_0 1,
     TDMA_Frame L1SCHED_TCHH_1 1 L1SCHED_TCHH_1 1,
     TDMA_Frame L1SCHED_TCHH_0 0 L1SCHED_TCHH_0 0,
     TDMA_Frame L1SCHED_TCHH_1 0 L1SCHED_TCHH_1 0,
     TDMA_Frame L1SCHED_TCHH_0 1 L1SCHED_TCHH_0 1,
     TDMA_Frame L1SCHED_TCHH_1 1 L1SCHED_TCHH_1 1,
     TDMA_Frame L1SCHED_SACCHTH_1 0 L1SCHED_SACCHTH_1 0,
     TDMA_Frame L1SCHED_TCHH_0 0 L1SCHED_TCHH_0 0,
     TDMA_Frame L1SCHED_TCHH_1 0 L1SCHED_TCHH_1 0,
     TDMA_Frame L1SCHED_TCHH_0 1 L1SCHED_TCHH_0 1,
     TDMA_Frame L1SCHED_TCHH_1 1 L1SCHED_TCHH_1 1,
     TDMA_Frame L1SCHED_TCHH_0 0 L1SCHED_TCHH_0 0,
     TDMA_Frame L1SCHED_TCHH_1 0 L1SCHED_TCHH_1 0,
     TDMA_Frame L1SCHED_TCHH_0 1 L1SCHED_TCHH_0 1,
     TDMA_Frame L1SCHED_TCHH_1 1 L1SCHED_TCHH_1 1,
     TDMA_Frame L1SCHED_TCHH_0 0 L1SCHED_TCHH_0 0,
     TDMA_Frame L1SCHED_TCHH_1 0 L1SCHED_TCHH_1 0,
     TDMA_Frame L1SCHED_TCHH_0 1 L1SCHED_TCHH_0 1,
     TDMA_Frame L1SCHED_TCHH_1 1 L1SCHED_TCHH_1 1,
     TDMA_Frame L1SCHED_SACCHTH_0 1 L1SCHED_SACCHTH_0 1,
     TDMA_Frame L1SCHED_TCHH_0 0 L1SCHED_TCHH_0 0,
     TDMA_Frame L1SCHED_TCHH_1 0 L1SCHED_TCHH_1 0,
     TDMA_Frame L1SCHED_TCHH_0 1 L1SCHED_TCHH_0 1,
     TDMA_Frame L1SCHED_TCHH_1 1 L1SCHED_TCHH_1 1,
     TDMA_Frame L1SCHED_TCHH_0 0 L1SCHED_TCHH_0 0,
     TDMA_Frame L1SCHED_TCHH_1 0 L1SCHED_TCHH_1 0,
     TDMA_Frame L1SCHED_TCHH_0 1 L1SCHED_TCHH_0 1,
     TDMA_Frame L1SCHED_TCHH_1 1 L1SCHED_TCHH_1 1,
     TDMA_Frame L1SCHED_TCHH_0 0 L1SCHED_TCHH_0 0,
     TDMA_Frame L1SCHED_TCHH_1 0 L1SCHED_TCHH_1 0,
     TDMA_Frame L1SCHED_TCHH_0 1 L1SCHED_TCHH_0 1,
     TDMA_Frame L1SCHED_TCHH_1 1 L1SCHED_TCHH_1 1,
     TDMA_Frame L1SCHED_SACCHTH_1 1 L1SCHED_SACCHTH_1 1,
     TDMA_Frame L1SCHED_TCHH_0 0 L1SCHED_TCHH_0 0,
     TDMA_Frame L1SCHED_TCHH_1 0 L1SCHED_TCHH_1 0,
     TDMA_Frame L1SCHED_TCHH_0 1 L1SCHED_TCHH_0 1,
     TDMA_Frame L1SCHED_TCHH_1 1 L1SCHED_TCHH_1 1,
     TDMA_Frame L1SCHED_TCHH_0 0 L1SCHED_TCHH_0 0,
     TDMA_Frame L1SCHED_TCHH_1 0 L1SCHED_TCHH_1 0,
     TDMA_Frame L1SCHED_TCHH_0 1 L1SCHED_TCHH_0 1,
     TDMA_Frame L1SCHED_TCHH_1 1 L1SCHED_TCHH_1 1,
     TDMA_Frame L1SCHED_TCHH_0 0 L1SCHED_TCHH_0 0,
     TDMA_Frame L1SCHED_TCHH_1 0 L1SCHED_TCHH_1 0,
     TDMA_Frame L1SCHED_TCHH_0 1 L1SCHED_TCHH_0 1,
     TDMA_Frame L1SCHED_TCHH_1 1 L1SCHED_TCHH_1 1,
     TDMA_Frame L1SCHED_SACCHTH_0 2 L1SCHED_SACCHTH_0 2,
     TDMA_Frame L1SCHED_TCHH_0 0 L1SCHED_TCHH_0 0,
     TDMA_Frame L1SCHED_TCHH_1 0 L1SCHED_TCHH_1 0,
     TDMA_Frame L1SCHED_TCHH_0 1 L1SCHED_TCHH_0 1,
     TDMA_Frame L1SCHED_TCHH_1 1 L1SCHED_TCHH_1 1,
     TDMA_Frame L1SCHED_TCHH_0 0 L1SCHED_TCHH_0 0,
     TDMA_Frame L1SCHED_TCHH_1 0 L1SCHED_TCHH_1 0,
     TDMA_Frame L1SCHED_TCHH_0 1 L1SCHED_TCHH_0 1,
     TDMA_Frame L1SCHED_TCHH_1 1 L1SCHED_TCHH_1 1,
     TDMA_Frame L1SCHED_TCHH_0 0 L1SCHED_TCHH_0 0,
     TDMA_Frame L1SCHED_TCHH_1 0 L1SCHED_TCHH_1 0,
     TDMA_Frame L1SCHED_TCHH_0 1 L1SCHED_TCHH_0 1,
     TDMA_Frame L1SCHED_TCHH_1 1 L1SCHED_TCHH_1 1,
     TDMA_Frame L1SCHED_SACCHTH_1 2 L1SCHED_SACCHTH_1 2,
     TDMA_Frame L1SCHED_TCHH_0 0 L1SCHED_TCHH_0 0,
     TDMA_Frame L1SCHED_TCHH_1 0 L1SCHED_TCHH_1 0,
     TDMA_Frame L1SCHED_TCHH_0 1 L1SCHED_TCHH_0 1,
     TDMA_Frame L1SCHED_TCHH_1 1 L1SCHED_TCHH_1 1,
     TDMA_Frame L1SCHED_TCHH_0 0 L1SCHED_TCHH_0 0,
     TDMA_Frame L1SCHED_TCHH_1 0 L1SCHED_TCHH_1 0,
     TDMA_Frame L1SCHED_TCHH_0 1 L1SCHED_TCHH_0 1,
     TDMA_Frame L1SCHED_TCHH_1 1 L1SCHED_TCHH_1 1,
     TDMA_Frame L1SCHED_TCHH_0 0 L1SCHED_TCHH_0 0,
     TDMA_Frame L1SCHED_TCHH_1 0 L1SCHED_TCHH_1 0,
     TDMA_Frame L1SCHED_TCHH_0 1 L1SCHED_TCHH_0 1,
     TDMA_Frame L1SCHED_TCHH_1 1 L1SCHED_TCHH_1 1,
     TDMA_Frame L1SCHED_SACCHTH_0 3 L1SCHED_SACCHTH_0 3,
     TDMA_Frame L1SCHED_TCHH_0 0 L1SCHED_TCHH_0 0,
     TDMA_Frame L1SCHED_TCHH_1 0 L1SCHED_TCHH_1 0,
     TDMA_Frame L1SCHED_TCHH_0 1 L1SCHED_TCHH_0 1,
     TDMA_Frame L1SCHED_TCHH_1 1 L1SCHED_TCHH_1 1,
     TDMA_Frame L1SCHED_TCHH_0 0 L1SCHED_TCHH_0 0,
     TDMA_Frame L1SCHED_TCHH_1 0 L1SCHED_TCHH_1 0,
     TDMA_Frame L1SCHED_TCHH_0 1 L1SCHED_TCHH_0 1,
     TDMA_Frame L1SCHED_TCHH_1 1 L1SCHED_TCHH_1 1,
     TDMA_Frame L1SCHED_TCHH_0 0 L1SCHED_TCHH_0 0,
     TDMA_Frame L1SCHED_TCHH_1 0 L1SCHED_TCHH_1 0,
     TDMA_Frame L1SCHED_TCHH_0 1 L1SCHED_TCHH_0 1,
     TDMA_Frame L1SCHED_TCHH_1 1 L1SCHED_TCHH_1 1,
     TDMA_Frame L1SCHED_SACCHTH_1 3 L1SCHED_SACCHTH_1 3]"

definition frame_tchh_ts23 :: "tdma_frame list" where
  "frame_tchh_ts23 = [
     TDMA_Frame L1SCHED_TCHH_0 0 L1SCHED_TCHH_0 0,
     TDMA_Frame L1SCHED_TCHH_1 0 L1SCHED_TCHH_1 0,
     TDMA_Frame L1SCHED_TCHH_0 1 L1SCHED_TCHH_0 1,
     TDMA_Frame L1SCHED_TCHH_1 1 L1SCHED_TCHH_1 1,
     TDMA_Frame L1SCHED_TCHH_0 0 L1SCHED_TCHH_0 0,
     TDMA_Frame L1SCHED_TCHH_1 0 L1SCHED_TCHH_1 0,
     TDMA_Frame L1SCHED_TCHH_0 1 L1SCHED_TCHH_0 1,
     TDMA_Frame L1SCHED_TCHH_1 1 L1SCHED_TCHH_1 1,
     TDMA_Frame L1SCHED_TCHH_0 0 L1SCHED_TCHH_0 0,
     TDMA_Frame L1SCHED_TCHH_1 0 L1SCHED_TCHH_1 0,
     TDMA_Frame L1SCHED_TCHH_0 1 L1SCHED_TCHH_0 1,
     TDMA_Frame L1SCHED_TCHH_1 1 L1SCHED_TCHH_1 1,
     TDMA_Frame L1SCHED_SACCHTH_0 3 L1SCHED_SACCHTH_0 3,
     TDMA_Frame L1SCHED_TCHH_0 0 L1SCHED_TCHH_0 0,
     TDMA_Frame L1SCHED_TCHH_1 0 L1SCHED_TCHH_1 0,
     TDMA_Frame L1SCHED_TCHH_0 1 L1SCHED_TCHH_0 1,
     TDMA_Frame L1SCHED_TCHH_1 1 L1SCHED_TCHH_1 1,
     TDMA_Frame L1SCHED_TCHH_0 0 L1SCHED_TCHH_0 0,
     TDMA_Frame L1SCHED_TCHH_1 0 L1SCHED_TCHH_1 0,
     TDMA_Frame L1SCHED_TCHH_0 1 L1SCHED_TCHH_0 1,
     TDMA_Frame L1SCHED_TCHH_1 1 L1SCHED_TCHH_1 1,
     TDMA_Frame L1SCHED_TCHH_0 0 L1SCHED_TCHH_0 0,
     TDMA_Frame L1SCHED_TCHH_1 0 L1SCHED_TCHH_1 0,
     TDMA_Frame L1SCHED_TCHH_0 1 L1SCHED_TCHH_0 1,
     TDMA_Frame L1SCHED_TCHH_1 1 L1SCHED_TCHH_1 1,
     TDMA_Frame L1SCHED_SACCHTH_1 3 L1SCHED_SACCHTH_1 3,
     TDMA_Frame L1SCHED_TCHH_0 0 L1SCHED_TCHH_0 0,
     TDMA_Frame L1SCHED_TCHH_1 0 L1SCHED_TCHH_1 0,
     TDMA_Frame L1SCHED_TCHH_0 1 L1SCHED_TCHH_0 1,
     TDMA_Frame L1SCHED_TCHH_1 1 L1SCHED_TCHH_1 1,
     TDMA_Frame L1SCHED_TCHH_0 0 L1SCHED_TCHH_0 0,
     TDMA_Frame L1SCHED_TCHH_1 0 L1SCHED_TCHH_1 0,
     TDMA_Frame L1SCHED_TCHH_0 1 L1SCHED_TCHH_0 1,
     TDMA_Frame L1SCHED_TCHH_1 1 L1SCHED_TCHH_1 1,
     TDMA_Frame L1SCHED_TCHH_0 0 L1SCHED_TCHH_0 0,
     TDMA_Frame L1SCHED_TCHH_1 0 L1SCHED_TCHH_1 0,
     TDMA_Frame L1SCHED_TCHH_0 1 L1SCHED_TCHH_0 1,
     TDMA_Frame L1SCHED_TCHH_1 1 L1SCHED_TCHH_1 1,
     TDMA_Frame L1SCHED_SACCHTH_0 0 L1SCHED_SACCHTH_0 0,
     TDMA_Frame L1SCHED_TCHH_0 0 L1SCHED_TCHH_0 0,
     TDMA_Frame L1SCHED_TCHH_1 0 L1SCHED_TCHH_1 0,
     TDMA_Frame L1SCHED_TCHH_0 1 L1SCHED_TCHH_0 1,
     TDMA_Frame L1SCHED_TCHH_1 1 L1SCHED_TCHH_1 1,
     TDMA_Frame L1SCHED_TCHH_0 0 L1SCHED_TCHH_0 0,
     TDMA_Frame L1SCHED_TCHH_1 0 L1SCHED_TCHH_1 0,
     TDMA_Frame L1SCHED_TCHH_0 1 L1SCHED_TCHH_0 1,
     TDMA_Frame L1SCHED_TCHH_1 1 L1SCHED_TCHH_1 1,
     TDMA_Frame L1SCHED_TCHH_0 0 L1SCHED_TCHH_0 0,
     TDMA_Frame L1SCHED_TCHH_1 0 L1SCHED_TCHH_1 0,
     TDMA_Frame L1SCHED_TCHH_0 1 L1SCHED_TCHH_0 1,
     TDMA_Frame L1SCHED_TCHH_1 1 L1SCHED_TCHH_1 1,
     TDMA_Frame L1SCHED_SACCHTH_1 0 L1SCHED_SACCHTH_1 0,
     TDMA_Frame L1SCHED_TCHH_0 0 L1SCHED_TCHH_0 0,
     TDMA_Frame L1SCHED_TCHH_1 0 L1SCHED_TCHH_1 0,
     TDMA_Frame L1SCHED_TCHH_0 1 L1SCHED_TCHH_0 1,
     TDMA_Frame L1SCHED_TCHH_1 1 L1SCHED_TCHH_1 1,
     TDMA_Frame L1SCHED_TCHH_0 0 L1SCHED_TCHH_0 0,
     TDMA_Frame L1SCHED_TCHH_1 0 L1SCHED_TCHH_1 0,
     TDMA_Frame L1SCHED_TCHH_0 1 L1SCHED_TCHH_0 1,
     TDMA_Frame L1SCHED_TCHH_1 1 L1SCHED_TCHH_1 1,
     TDMA_Frame L1SCHED_TCHH_0 0 L1SCHED_TCHH_0 0,
     TDMA_Frame L1SCHED_TCHH_1 0 L1SCHED_TCHH_1 0,
     TDMA_Frame L1SCHED_TCHH_0 1 L1SCHED_TCHH_0 1,
     TDMA_Frame L1SCHED_TCHH_1 1 L1SCHED_TCHH_1 1,
     TDMA_Frame L1SCHED_SACCHTH_0 1 L1SCHED_SACCHTH_0 1,
     TDMA_Frame L1SCHED_TCHH_0 0 L1SCHED_TCHH_0 0,
     TDMA_Frame L1SCHED_TCHH_1 0 L1SCHED_TCHH_1 0,
     TDMA_Frame L1SCHED_TCHH_0 1 L1SCHED_TCHH_0 1,
     TDMA_Frame L1SCHED_TCHH_1 1 L1SCHED_TCHH_1 1,
     TDMA_Frame L1SCHED_TCHH_0 0 L1SCHED_TCHH_0 0,
     TDMA_Frame L1SCHED_TCHH_1 0 L1SCHED_TCHH_1 0,
     TDMA_Frame L1SCHED_TCHH_0 1 L1SCHED_TCHH_0 1,
     TDMA_Frame L1SCHED_TCHH_1 1 L1SCHED_TCHH_1 1,
     TDMA_Frame L1SCHED_TCHH_0 0 L1SCHED_TCHH_0 0,
     TDMA_Frame L1SCHED_TCHH_1 0 L1SCHED_TCHH_1 0,
     TDMA_Frame L1SCHED_TCHH_0 1 L1SCHED_TCHH_0 1,
     TDMA_Frame L1SCHED_TCHH_1 1 L1SCHED_TCHH_1 1,
     TDMA_Frame L1SCHED_SACCHTH_1 1 L1SCHED_SACCHTH_1 1,
     TDMA_Frame L1SCHED_TCHH_0 0 L1SCHED_TCHH_0 0,
     TDMA_Frame L1SCHED_TCHH_1 0 L1SCHED_TCHH_1 0,
     TDMA_Frame L1SCHED_TCHH_0 1 L1SCHED_TCHH_0 1,
     TDMA_Frame L1SCHED_TCHH_1 1 L1SCHED_TCHH_1 1,
     TDMA_Frame L1SCHED_TCHH_0 0 L1SCHED_TCHH_0 0,
     TDMA_Frame L1SCHED_TCHH_1 0 L1SCHED_TCHH_1 0,
     TDMA_Frame L1SCHED_TCHH_0 1 L1SCHED_TCHH_0 1,
     TDMA_Frame L1SCHED_TCHH_1 1 L1SCHED_TCHH_1 1,
     TDMA_Frame L1SCHED_TCHH_0 0 L1SCHED_TCHH_0 0,
     TDMA_Frame L1SCHED_TCHH_1 0 L1SCHED_TCHH_1 0,
     TDMA_Frame L1SCHED_TCHH_0 1 L1SCHED_TCHH_0 1,
     TDMA_Frame L1SCHED_TCHH_1 1 L1SCHED_TCHH_1 1,
     TDMA_Frame L1SCHED_SACCHTH_0 2 L1SCHED_SACCHTH_0 2,
     TDMA_Frame L1SCHED_TCHH_0 0 L1SCHED_TCHH_0 0,
     TDMA_Frame L1SCHED_TCHH_1 0 L1SCHED_TCHH_1 0,
     TDMA_Frame L1SCHED_TCHH_0 1 L1SCHED_TCHH_0 1,
     TDMA_Frame L1SCHED_TCHH_1 1 L1SCHED_TCHH_1 1,
     TDMA_Frame L1SCHED_TCHH_0 0 L1SCHED_TCHH_0 0,
     TDMA_Frame L1SCHED_TCHH_1 0 L1SCHED_TCHH_1 0,
     TDMA_Frame L1SCHED_TCHH_0 1 L1SCHED_TCHH_0 1,
     TDMA_Frame L1SCHED_TCHH_1 1 L1SCHED_TCHH_1 1,
     TDMA_Frame L1SCHED_TCHH_0 0 L1SCHED_TCHH_0 0,
     TDMA_Frame L1SCHED_TCHH_1 0 L1SCHED_TCHH_1 0,
     TDMA_Frame L1SCHED_TCHH_0 1 L1SCHED_TCHH_0 1,
     TDMA_Frame L1SCHED_TCHH_1 1 L1SCHED_TCHH_1 1,
     TDMA_Frame L1SCHED_SACCHTH_1 2 L1SCHED_SACCHTH_1 2]"

definition frame_tchh_ts45 :: "tdma_frame list" where
  "frame_tchh_ts45 = [
     TDMA_Frame L1SCHED_TCHH_0 0 L1SCHED_TCHH_0 0,
     TDMA_Frame L1SCHED_TCHH_1 0 L1SCHED_TCHH_1 0,
     TDMA_Frame L1SCHED_TCHH_0 1 L1SCHED_TCHH_0 1,
     TDMA_Frame L1SCHED_TCHH_1 1 L1SCHED_TCHH_1 1,
     TDMA_Frame L1SCHED_TCHH_0 0 L1SCHED_TCHH_0 0,
     TDMA_Frame L1SCHED_TCHH_1 0 L1SCHED_TCHH_1 0,
     TDMA_Frame L1SCHED_TCHH_0 1 L1SCHED_TCHH_0 1,
     TDMA_Frame L1SCHED_TCHH_1 1 L1SCHED_TCHH_1 1,
     TDMA_Frame L1SCHED_TCHH_0 0 L1SCHED_TCHH_0 0,
     TDMA_Frame L1SCHED_TCHH_1 0 L1SCHED_TCHH_1 0,
     TDMA_Frame L1SCHED_TCHH_0 1 L1SCHED_TCHH_0 1,
     TDMA_Frame L1SCHED_TCHH_1 1 L1SCHED_TCHH_1 1,
     TDMA_Frame L1SCHED_SACCHTH_0 2 L1SCHED_SACCHTH_0 2,
     TDMA_Frame L1SCHED_TCHH_0 0 L1SCHED_TCHH_0 0,
     TDMA_Frame L1SCHED_TCHH_1 0 L1SCHED_TCHH_1 0,
     TDMA_Frame L1SCHED_TCHH_0 1 L1SCHED_TCHH_0 1,
     TDMA_Frame L1SCHED_TCHH_1 1 L1SCHED_TCHH_1 1,
     TDMA_Frame L1SCHED_TCHH_0 0 L1SCHED_TCHH_0 0,
     TDMA_Frame L1SCHED_TCHH_1 0 L1SCHED_TCHH_1 0,
     TDMA_Frame L1SCHED_TCHH_0 1 L1SCHED_TCHH_0 1,
     TDMA_Frame L1SCHED_TCHH_1 1 L1SCHED_TCHH_1 1,
     TDMA_Frame L1SCHED_TCHH_0 0 L1SCHED_TCHH_0 0,
     TDMA_Frame L1SCHED_TCHH_1 0 L1SCHED_TCHH_1 0,
     TDMA_Frame L1SCHED_TCHH_0 1 L1SCHED_TCHH_0 1,
     TDMA_Frame L1SCHED_TCHH_1 1 L1SCHED_TCHH_1 1,
     TDMA_Frame L1SCHED_SACCHTH_1 2 L1SCHED_SACCHTH_1 2,
     TDMA_Frame L1SCHED_TCHH_0 0 L1SCHED_TCHH_0 0,
     TDMA_Frame L1SCHED_TCHH_1 0 L1SCHED_TCHH_1 0,
     TDMA_Frame L1SCHED_TCHH_0 1 L1SCHED_TCHH_0 1,
     TDMA_Frame L1SCHED_TCHH_1 1 L1SCHED_TCHH_1 1,
     TDMA_Frame L1SCHED_TCHH_0 0 L1SCHED_TCHH_0 0,
     TDMA_Frame L1SCHED_TCHH_1 0 L1SCHED_TCHH_1 0,
     TDMA_Frame L1SCHED_TCHH_0 1 L1SCHED_TCHH_0 1,
     TDMA_Frame L1SCHED_TCHH_1 1 L1SCHED_TCHH_1 1,
     TDMA_Frame L1SCHED_TCHH_0 0 L1SCHED_TCHH_0 0,
     TDMA_Frame L1SCHED_TCHH_1 0 L1SCHED_TCHH_1 0,
     TDMA_Frame L1SCHED_TCHH_0 1 L1SCHED_TCHH_0 1,
     TDMA_Frame L1SCHED_TCHH_1 1 L1SCHED_TCHH_1 1,
     TDMA_Frame L1SCHED_SACCHTH_0 3 L1SCHED_SACCHTH_0 3,
     TDMA_Frame L1SCHED_TCHH_0 0 L1SCHED_TCHH_0 0,
     TDMA_Frame L1SCHED_TCHH_1 0 L1SCHED_TCHH_1 0,
     TDMA_Frame L1SCHED_TCHH_0 1 L1SCHED_TCHH_0 1,
     TDMA_Frame L1SCHED_TCHH_1 1 L1SCHED_TCHH_1 1,
     TDMA_Frame L1SCHED_TCHH_0 0 L1SCHED_TCHH_0 0,
     TDMA_Frame L1SCHED_TCHH_1 0 L1SCHED_TCHH_1 0,
     TDMA_Frame L1SCHED_TCHH_0 1 L1SCHED_TCHH_0 1,
     TDMA_Frame L1SCHED_TCHH_1 1 L1SCHED_TCHH_1 1,
     TDMA_Frame L1SCHED_TCHH_0 0 L1SCHED_TCHH_0 0,
     TDMA_Frame L1SCHED_TCHH_1 0 L1SCHED_TCHH_1 0,
     TDMA_Frame L1SCHED_TCHH_0 1 L1SCHED_TCHH_0 1,
     TDMA_Frame L1SCHED_TCHH_1 1 L1SCHED_TCHH_1 1,
     TDMA_Frame L1SCHED_SACCHTH_1 3 L1SCHED_SACCHTH_1 3,
     TDMA_Frame L1SCHED_TCHH_0 0 L1SCHED_TCHH_0 0,
     TDMA_Frame L1SCHED_TCHH_1 0 L1SCHED_TCHH_1 0,
     TDMA_Frame L1SCHED_TCHH_0 1 L1SCHED_TCHH_0 1,
     TDMA_Frame L1SCHED_TCHH_1 1 L1SCHED_TCHH_1 1,
     TDMA_Frame L1SCHED_TCHH_0 0 L1SCHED_TCHH_0 0,
     TDMA_Frame L1SCHED_TCHH_1 0 L1SCHED_TCHH_1 0,
     TDMA_Frame L1SCHED_TCHH_0 1 L1SCHED_TCHH_0 1,
     TDMA_Frame L1SCHED_TCHH_1 1 L1SCHED_TCHH_1 1,
     TDMA_Frame L1SCHED_TCHH_0 0 L1SCHED_TCHH_0 0,
     TDMA_Frame L1SCHED_TCHH_1 0 L1SCHED_TCHH_1 0,
     TDMA_Frame L1SCHED_TCHH_0 1 L1SCHED_TCHH_0 1,
     TDMA_Frame L1SCHED_TCHH_1 1 L1SCHED_TCHH_1 1,
     TDMA_Frame L1SCHED_SACCHTH_0 0 L1SCHED_SACCHTH_0 0,
     TDMA_Frame L1SCHED_TCHH_0 0 L1SCHED_TCHH_0 0,
     TDMA_Frame L1SCHED_TCHH_1 0 L1SCHED_TCHH_1 0,
     TDMA_Frame L1SCHED_TCHH_0 1 L1SCHED_TCHH_0 1,
     TDMA_Frame L1SCHED_TCHH_1 1 L1SCHED_TCHH_1 1,
     TDMA_Frame L1SCHED_TCHH_0 0 L1SCHED_TCHH_0 0,
     TDMA_Frame L1SCHED_TCHH_1 0 L1SCHED_TCHH_1 0,
     TDMA_Frame L1SCHED_TCHH_0 1 L1SCHED_TCHH_0 1,
     TDMA_Frame L1SCHED_TCHH_1 1 L1SCHED_TCHH_1 1,
     TDMA_Frame L1SCHED_TCHH_0 0 L1SCHED_TCHH_0 0,
     TDMA_Frame L1SCHED_TCHH_1 0 L1SCHED_TCHH_1 0,
     TDMA_Frame L1SCHED_TCHH_0 1 L1SCHED_TCHH_0 1,
     TDMA_Frame L1SCHED_TCHH_1 1 L1SCHED_TCHH_1 1,
     TDMA_Frame L1SCHED_SACCHTH_1 0 L1SCHED_SACCHTH_1 0,
     TDMA_Frame L1SCHED_TCHH_0 0 L1SCHED_TCHH_0 0,
     TDMA_Frame L1SCHED_TCHH_1 0 L1SCHED_TCHH_1 0,
     TDMA_Frame L1SCHED_TCHH_0 1 L1SCHED_TCHH_0 1,
     TDMA_Frame L1SCHED_TCHH_1 1 L1SCHED_TCHH_1 1,
     TDMA_Frame L1SCHED_TCHH_0 0 L1SCHED_TCHH_0 0,
     TDMA_Frame L1SCHED_TCHH_1 0 L1SCHED_TCHH_1 0,
     TDMA_Frame L1SCHED_TCHH_0 1 L1SCHED_TCHH_0 1,
     TDMA_Frame L1SCHED_TCHH_1 1 L1SCHED_TCHH_1 1,
     TDMA_Frame L1SCHED_TCHH_0 0 L1SCHED_TCHH_0 0,
     TDMA_Frame L1SCHED_TCHH_1 0 L1SCHED_TCHH_1 0,
     TDMA_Frame L1SCHED_TCHH_0 1 L1SCHED_TCHH_0 1,
     TDMA_Frame L1SCHED_TCHH_1 1 L1SCHED_TCHH_1 1,
     TDMA_Frame L1SCHED_SACCHTH_0 1 L1SCHED_SACCHTH_0 1,
     TDMA_Frame L1SCHED_TCHH_0 0 L1SCHED_TCHH_0 0,
     TDMA_Frame L1SCHED_TCHH_1 0 L1SCHED_TCHH_1 0,
     TDMA_Frame L1SCHED_TCHH_0 1 L1SCHED_TCHH_0 1,
     TDMA_Frame L1SCHED_TCHH_1 1 L1SCHED_TCHH_1 1,
     TDMA_Frame L1SCHED_TCHH_0 0 L1SCHED_TCHH_0 0,
     TDMA_Frame L1SCHED_TCHH_1 0 L1SCHED_TCHH_1 0,
     TDMA_Frame L1SCHED_TCHH_0 1 L1SCHED_TCHH_0 1,
     TDMA_Frame L1SCHED_TCHH_1 1 L1SCHED_TCHH_1 1,
     TDMA_Frame L1SCHED_TCHH_0 0 L1SCHED_TCHH_0 0,
     TDMA_Frame L1SCHED_TCHH_1 0 L1SCHED_TCHH_1 0,
     TDMA_Frame L1SCHED_TCHH_0 1 L1SCHED_TCHH_0 1,
     TDMA_Frame L1SCHED_TCHH_1 1 L1SCHED_TCHH_1 1,
     TDMA_Frame L1SCHED_SACCHTH_1 1 L1SCHED_SACCHTH_1 1]"

definition frame_tchh_ts67 :: "tdma_frame list" where
  "frame_tchh_ts67 = [
     TDMA_Frame L1SCHED_TCHH_0 0 L1SCHED_TCHH_0 0,
     TDMA_Frame L1SCHED_TCHH_1 0 L1SCHED_TCHH_1 0,
     TDMA_Frame L1SCHED_TCHH_0 1 L1SCHED_TCHH_0 1,
     TDMA_Frame L1SCHED_TCHH_1 1 L1SCHED_TCHH_1 1,
     TDMA_Frame L1SCHED_TCHH_0 0 L1SCHED_TCHH_0 0,
     TDMA_Frame L1SCHED_TCHH_1 0 L1SCHED_TCHH_1 0,
     TDMA_Frame L1SCHED_TCHH_0 1 L1SCHED_TCHH_0 1,
     TDMA_Frame L1SCHED_TCHH_1 1 L1SCHED_TCHH_1 1,
     TDMA_Frame L1SCHED_TCHH_0 0 L1SCHED_TCHH_0 0,
     TDMA_Frame L1SCHED_TCHH_1 0 L1SCHED_TCHH_1 0,
     TDMA_Frame L1SCHED_TCHH_0 1 L1SCHED_TCHH_0 1,
     TDMA_Frame L1SCHED_TCHH_1 1 L1SCHED_TCHH_1 1,
     TDMA_Frame L1SCHED_SACCHTH_0 1 L1SCHED_SACCHTH_0 1,
     TDMA_Frame L1SCHED_TCHH_0 0 L1SCHED_TCHH_0 0,
     TDMA_Frame L1SCHED_TCHH_1 0 L1SCHED_TCHH_1 0,
     TDMA_Frame L1SCHED_TCHH_0 1 L1SCHED_TCHH_0 1,
     TDMA_Frame L1SCHED_TCHH_1 1 L1SCHED_TCHH_1 1,
     TDMA_Frame L1SCHED_TCHH_0 0 L1SCHED_TCHH_0 0,
     TDMA_Frame L1SCHED_TCHH_1 0 L1SCHED_TCHH_1 0,
     TDMA_Frame L1SCHED_TCHH_0 1 L1SCHED_TCHH_0 1,
     TDMA_Frame L1SCHED_TCHH_1 1 L1SCHED_TCHH_1 1,
     TDMA_Frame L1SCHED_TCHH_0 0 L1SCHED_TCHH_0 0,
     TDMA_Frame L1SCHED_TCHH_1 0 L1SCHED_TCHH_1 0,
     TDMA_Frame L1SCHED_TCHH_0 1 L1SCHED_TCHH_0 1,
     TDMA_Frame L1SCHED_TCHH_1 1 L1SCHED_TCHH_1 1,
     TDMA_Frame L1SCHED_SACCHTH_1 1 L1SCHED_SACCHTH_1 1,
     TDMA_Frame L1SCHED_TCHH_0 0 L1SCHED_TCHH_0 0,
     TDMA_Frame L1SCHED_TCHH_1 0 L1SCHED_TCHH_1 0,
     TDMA_Frame L1SCHED_TCHH_0 1 L1SCHED_TCHH_0 1,
     TDMA_Frame L1SCHED_TCHH_1 1 L1SCHED_TCHH_1 1,
     TDMA_Frame L1SCHED_TCHH_0 0 L1SCHED_TCHH_0 0,
     TDMA_Frame L1SCHED_TCHH_1 0 L1SCHED_TCHH_1 0,
     TDMA_Frame L1SCHED_TCHH_0 1 L1SCHED_TCHH_0 1,
     TDMA_Frame L1SCHED_TCHH_1 1 L1SCHED_TCHH_1 1,
     TDMA_Frame L1SCHED_TCHH_0 0 L1SCHED_TCHH_0 0,
     TDMA_Frame L1SCHED_TCHH_1 0 L1SCHED_TCHH_1 0,
     TDMA_Frame L1SCHED_TCHH_0 1 L1SCHED_TCHH_0 1,
     TDMA_Frame L1SCHED_TCHH_1 1 L1SCHED_TCHH_1 1,
     TDMA_Frame L1SCHED_SACCHTH_0 2 L1SCHED_SACCHTH_0 2,
     TDMA_Frame L1SCHED_TCHH_0 0 L1SCHED_TCHH_0 0,
     TDMA_Frame L1SCHED_TCHH_1 0 L1SCHED_TCHH_1 0,
     TDMA_Frame L1SCHED_TCHH_0 1 L1SCHED_TCHH_0 1,
     TDMA_Frame L1SCHED_TCHH_1 1 L1SCHED_TCHH_1 1,
     TDMA_Frame L1SCHED_TCHH_0 0 L1SCHED_TCHH_0 0,
     TDMA_Frame L1SCHED_TCHH_1 0 L1SCHED_TCHH_1 0,
     TDMA_Frame L1SCHED_TCHH_0 1 L1SCHED_TCHH_0 1,
     TDMA_Frame L1SCHED_TCHH_1 1 L1SCHED_TCHH_1 1,
     TDMA_Frame L1SCHED_TCHH_0 0 L1SCHED_TCHH_0 0,
     TDMA_Frame L1SCHED_TCHH_1 0 L1SCHED_TCHH_1 0,
     TDMA_Frame L1SCHED_TCHH_0 1 L1SCHED_TCHH_0 1,
     TDMA_Frame L1SCHED_TCHH_1 1 L1SCHED_TCHH_1 1,
     TDMA_Frame L1SCHED_SACCHTH_1 2 L1SCHED_SACCHTH_1 2,
     TDMA_Frame L1SCHED_TCHH_0 0 L1SCHED_TCHH_0 0,
     TDMA_Frame L1SCHED_TCHH_1 0 L1SCHED_TCHH_1 0,
     TDMA_Frame L1SCHED_TCHH_0 1 L1SCHED_TCHH_0 1,
     TDMA_Frame L1SCHED_TCHH_1 1 L1SCHED_TCHH_1 1,
     TDMA_Frame L1SCHED_TCHH_0 0 L1SCHED_TCHH_0 0,
     TDMA_Frame L1SCHED_TCHH_1 0 L1SCHED_TCHH_1 0,
     TDMA_Frame L1SCHED_TCHH_0 1 L1SCHED_TCHH_0 1,
     TDMA_Frame L1SCHED_TCHH_1 1 L1SCHED_TCHH_1 1,
     TDMA_Frame L1SCHED_TCHH_0 0 L1SCHED_TCHH_0 0,
     TDMA_Frame L1SCHED_TCHH_1 0 L1SCHED_TCHH_1 0,
     TDMA_Frame L1SCHED_TCHH_0 1 L1SCHED_TCHH_0 1,
     TDMA_Frame L1SCHED_TCHH_1 1 L1SCHED_TCHH_1 1,
     TDMA_Frame L1SCHED_SACCHTH_0 3 L1SCHED_SACCHTH_0 3,
     TDMA_Frame L1SCHED_TCHH_0 0 L1SCHED_TCHH_0 0,
     TDMA_Frame L1SCHED_TCHH_1 0 L1SCHED_TCHH_1 0,
     TDMA_Frame L1SCHED_TCHH_0 1 L1SCHED_TCHH_0 1,
     TDMA_Frame L1SCHED_TCHH_1 1 L1SCHED_TCHH_1 1,
     TDMA_Frame L1SCHED_TCHH_0 0 L1SCHED_TCHH_0 0,
     TDMA_Frame L1SCHED_TCHH_1 0 L1SCHED_TCHH_1 0,
     TDMA_Frame L1SCHED_TCHH_0 1 L1SCHED_TCHH_0 1,
     TDMA_Frame L1SCHED_TCHH_1 1 L1SCHED_TCHH_1 1,
     TDMA_Frame L1SCHED_TCHH_0 0 L1SCHED_TCHH_0 0,
     TDMA_Frame L1SCHED_TCHH_1 0 L1SCHED_TCHH_1 0,
     TDMA_Frame L1SCHED_TCHH_0 1 L1SCHED_TCHH_0 1,
     TDMA_Frame L1SCHED_TCHH_1 1 L1SCHED_TCHH_1 1,
     TDMA_Frame L1SCHED_SACCHTH_1 3 L1SCHED_SACCHTH_1 3,
     TDMA_Frame L1SCHED_TCHH_0 0 L1SCHED_TCHH_0 0,
     TDMA_Frame L1SCHED_TCHH_1 0 L1SCHED_TCHH_1 0,
     TDMA_Frame L1SCHED_TCHH_0 1 L1SCHED_TCHH_0 1,
     TDMA_Frame L1SCHED_TCHH_1 1 L1SCHED_TCHH_1 1,
     TDMA_Frame L1SCHED_TCHH_0 0 L1SCHED_TCHH_0 0,
     TDMA_Frame L1SCHED_TCHH_1 0 L1SCHED_TCHH_1 0,
     TDMA_Frame L1SCHED_TCHH_0 1 L1SCHED_TCHH_0 1,
     TDMA_Frame L1SCHED_TCHH_1 1 L1SCHED_TCHH_1 1,
     TDMA_Frame L1SCHED_TCHH_0 0 L1SCHED_TCHH_0 0,
     TDMA_Frame L1SCHED_TCHH_1 0 L1SCHED_TCHH_1 0,
     TDMA_Frame L1SCHED_TCHH_0 1 L1SCHED_TCHH_0 1,
     TDMA_Frame L1SCHED_TCHH_1 1 L1SCHED_TCHH_1 1,
     TDMA_Frame L1SCHED_SACCHTH_0 0 L1SCHED_SACCHTH_0 0,
     TDMA_Frame L1SCHED_TCHH_0 0 L1SCHED_TCHH_0 0,
     TDMA_Frame L1SCHED_TCHH_1 0 L1SCHED_TCHH_1 0,
     TDMA_Frame L1SCHED_TCHH_0 1 L1SCHED_TCHH_0 1,
     TDMA_Frame L1SCHED_TCHH_1 1 L1SCHED_TCHH_1 1,
     TDMA_Frame L1SCHED_TCHH_0 0 L1SCHED_TCHH_0 0,
     TDMA_Frame L1SCHED_TCHH_1 0 L1SCHED_TCHH_1 0,
     TDMA_Frame L1SCHED_TCHH_0 1 L1SCHED_TCHH_0 1,
     TDMA_Frame L1SCHED_TCHH_1 1 L1SCHED_TCHH_1 1,
     TDMA_Frame L1SCHED_TCHH_0 0 L1SCHED_TCHH_0 0,
     TDMA_Frame L1SCHED_TCHH_1 0 L1SCHED_TCHH_1 0,
     TDMA_Frame L1SCHED_TCHH_0 1 L1SCHED_TCHH_0 1,
     TDMA_Frame L1SCHED_TCHH_1 1 L1SCHED_TCHH_1 1,
     TDMA_Frame L1SCHED_SACCHTH_1 0 L1SCHED_SACCHTH_1 0]"

definition frame_pdch :: "tdma_frame list" where
  "frame_pdch = [
     TDMA_Frame L1SCHED_PDTCH 0 L1SCHED_PDTCH 0,
     TDMA_Frame L1SCHED_PDTCH 1 L1SCHED_PDTCH 1,
     TDMA_Frame L1SCHED_PDTCH 2 L1SCHED_PDTCH 2,
     TDMA_Frame L1SCHED_PDTCH 3 L1SCHED_PDTCH 3,
     TDMA_Frame L1SCHED_PDTCH 0 L1SCHED_PDTCH 0,
     TDMA_Frame L1SCHED_PDTCH 1 L1SCHED_PDTCH 1,
     TDMA_Frame L1SCHED_PDTCH 2 L1SCHED_PDTCH 2,
     TDMA_Frame L1SCHED_PDTCH 3 L1SCHED_PDTCH 3,
     TDMA_Frame L1SCHED_PDTCH 0 L1SCHED_PDTCH 0,
     TDMA_Frame L1SCHED_PDTCH 1 L1SCHED_PDTCH 1,
     TDMA_Frame L1SCHED_PDTCH 2 L1SCHED_PDTCH 2,
     TDMA_Frame L1SCHED_PDTCH 3 L1SCHED_PDTCH 3,
     TDMA_Frame L1SCHED_PTCCH 0 L1SCHED_PTCCH 0,
     TDMA_Frame L1SCHED_PDTCH 0 L1SCHED_PDTCH 0,
     TDMA_Frame L1SCHED_PDTCH 1 L1SCHED_PDTCH 1,
     TDMA_Frame L1SCHED_PDTCH 2 L1SCHED_PDTCH 2,
     TDMA_Frame L1SCHED_PDTCH 3 L1SCHED_PDTCH 3,
     TDMA_Frame L1SCHED_PDTCH 0 L1SCHED_PDTCH 0,
     TDMA_Frame L1SCHED_PDTCH 1 L1SCHED_PDTCH 1,
     TDMA_Frame L1SCHED_PDTCH 2 L1SCHED_PDTCH 2,
     TDMA_Frame L1SCHED_PDTCH 3 L1SCHED_PDTCH 3,
     TDMA_Frame L1SCHED_PDTCH 0 L1SCHED_PDTCH 0,
     TDMA_Frame L1SCHED_PDTCH 1 L1SCHED_PDTCH 1,
     TDMA_Frame L1SCHED_PDTCH 2 L1SCHED_PDTCH 2,
     TDMA_Frame L1SCHED_PDTCH 3 L1SCHED_PDTCH 3,
     TDMA_Frame L1SCHED_IDLE 0 L1SCHED_IDLE 0,
     TDMA_Frame L1SCHED_PDTCH 0 L1SCHED_PDTCH 0,
     TDMA_Frame L1SCHED_PDTCH 1 L1SCHED_PDTCH 1,
     TDMA_Frame L1SCHED_PDTCH 2 L1SCHED_PDTCH 2,
     TDMA_Frame L1SCHED_PDTCH 3 L1SCHED_PDTCH 3,
     TDMA_Frame L1SCHED_PDTCH 0 L1SCHED_PDTCH 0,
     TDMA_Frame L1SCHED_PDTCH 1 L1SCHED_PDTCH 1,
     TDMA_Frame L1SCHED_PDTCH 2 L1SCHED_PDTCH 2,
     TDMA_Frame L1SCHED_PDTCH 3 L1SCHED_PDTCH 3,
     TDMA_Frame L1SCHED_PDTCH 0 L1SCHED_PDTCH 0,
     TDMA_Frame L1SCHED_PDTCH 1 L1SCHED_PDTCH 1,
     TDMA_Frame L1SCHED_PDTCH 2 L1SCHED_PDTCH 2,
     TDMA_Frame L1SCHED_PDTCH 3 L1SCHED_PDTCH 3,
     TDMA_Frame L1SCHED_PTCCH 1 L1SCHED_PTCCH 1,
     TDMA_Frame L1SCHED_PDTCH 0 L1SCHED_PDTCH 0,
     TDMA_Frame L1SCHED_PDTCH 1 L1SCHED_PDTCH 1,
     TDMA_Frame L1SCHED_PDTCH 2 L1SCHED_PDTCH 2,
     TDMA_Frame L1SCHED_PDTCH 3 L1SCHED_PDTCH 3,
     TDMA_Frame L1SCHED_PDTCH 0 L1SCHED_PDTCH 0,
     TDMA_Frame L1SCHED_PDTCH 1 L1SCHED_PDTCH 1,
     TDMA_Frame L1SCHED_PDTCH 2 L1SCHED_PDTCH 2,
     TDMA_Frame L1SCHED_PDTCH 3 L1SCHED_PDTCH 3,
     TDMA_Frame L1SCHED_PDTCH 0 L1SCHED_PDTCH 0,
     TDMA_Frame L1SCHED_PDTCH 1 L1SCHED_PDTCH 1,
     TDMA_Frame L1SCHED_PDTCH 2 L1SCHED_PDTCH 2,
     TDMA_Frame L1SCHED_PDTCH 3 L1SCHED_PDTCH 3,
     TDMA_Frame L1SCHED_IDLE 0 L1SCHED_IDLE 0,
     TDMA_Frame L1SCHED_PDTCH 0 L1SCHED_PDTCH 0,
     TDMA_Frame L1SCHED_PDTCH 1 L1SCHED_PDTCH 1,
     TDMA_Frame L1SCHED_PDTCH 2 L1SCHED_PDTCH 2,
     TDMA_Frame L1SCHED_PDTCH 3 L1SCHED_PDTCH 3,
     TDMA_Frame L1SCHED_PDTCH 0 L1SCHED_PDTCH 0,
     TDMA_Frame L1SCHED_PDTCH 1 L1SCHED_PDTCH 1,
     TDMA_Frame L1SCHED_PDTCH 2 L1SCHED_PDTCH 2,
     TDMA_Frame L1SCHED_PDTCH 3 L1SCHED_PDTCH 3,
     TDMA_Frame L1SCHED_PDTCH 0 L1SCHED_PDTCH 0,
     TDMA_Frame L1SCHED_PDTCH 1 L1SCHED_PDTCH 1,
     TDMA_Frame L1SCHED_PDTCH 2 L1SCHED_PDTCH 2,
     TDMA_Frame L1SCHED_PDTCH 3 L1SCHED_PDTCH 3,
     TDMA_Frame L1SCHED_PTCCH 2 L1SCHED_PTCCH 2,
     TDMA_Frame L1SCHED_PDTCH 0 L1SCHED_PDTCH 0,
     TDMA_Frame L1SCHED_PDTCH 1 L1SCHED_PDTCH 1,
     TDMA_Frame L1SCHED_PDTCH 2 L1SCHED_PDTCH 2,
     TDMA_Frame L1SCHED_PDTCH 3 L1SCHED_PDTCH 3,
     TDMA_Frame L1SCHED_PDTCH 0 L1SCHED_PDTCH 0,
     TDMA_Frame L1SCHED_PDTCH 1 L1SCHED_PDTCH 1,
     TDMA_Frame L1SCHED_PDTCH 2 L1SCHED_PDTCH 2,
     TDMA_Frame L1SCHED_PDTCH 3 L1SCHED_PDTCH 3,
     TDMA_Frame L1SCHED_PDTCH 0 L1SCHED_PDTCH 0,
     TDMA_Frame L1SCHED_PDTCH 1 L1SCHED_PDTCH 1,
     TDMA_Frame L1SCHED_PDTCH 2 L1SCHED_PDTCH 2,
     TDMA_Frame L1SCHED_PDTCH 3 L1SCHED_PDTCH 3,
     TDMA_Frame L1SCHED_IDLE 0 L1SCHED_IDLE 0,
     TDMA_Frame L1SCHED_PDTCH 0 L1SCHED_PDTCH 0,
     TDMA_Frame L1SCHED_PDTCH 1 L1SCHED_PDTCH 1,
     TDMA_Frame L1SCHED_PDTCH 2 L1SCHED_PDTCH 2,
     TDMA_Frame L1SCHED_PDTCH 3 L1SCHED_PDTCH 3,
     TDMA_Frame L1SCHED_PDTCH 0 L1SCHED_PDTCH 0,
     TDMA_Frame L1SCHED_PDTCH 1 L1SCHED_PDTCH 1,
     TDMA_Frame L1SCHED_PDTCH 2 L1SCHED_PDTCH 2,
     TDMA_Frame L1SCHED_PDTCH 3 L1SCHED_PDTCH 3,
     TDMA_Frame L1SCHED_PDTCH 0 L1SCHED_PDTCH 0,
     TDMA_Frame L1SCHED_PDTCH 1 L1SCHED_PDTCH 1,
     TDMA_Frame L1SCHED_PDTCH 2 L1SCHED_PDTCH 2,
     TDMA_Frame L1SCHED_PDTCH 3 L1SCHED_PDTCH 3,
     TDMA_Frame L1SCHED_PTCCH 3 L1SCHED_PTCCH 3,
     TDMA_Frame L1SCHED_PDTCH 0 L1SCHED_PDTCH 0,
     TDMA_Frame L1SCHED_PDTCH 1 L1SCHED_PDTCH 1,
     TDMA_Frame L1SCHED_PDTCH 2 L1SCHED_PDTCH 2,
     TDMA_Frame L1SCHED_PDTCH 3 L1SCHED_PDTCH 3,
     TDMA_Frame L1SCHED_PDTCH 0 L1SCHED_PDTCH 0,
     TDMA_Frame L1SCHED_PDTCH 1 L1SCHED_PDTCH 1,
     TDMA_Frame L1SCHED_PDTCH 2 L1SCHED_PDTCH 2,
     TDMA_Frame L1SCHED_PDTCH 3 L1SCHED_PDTCH 3,
     TDMA_Frame L1SCHED_PDTCH 0 L1SCHED_PDTCH 0,
     TDMA_Frame L1SCHED_PDTCH 1 L1SCHED_PDTCH 1,
     TDMA_Frame L1SCHED_PDTCH 2 L1SCHED_PDTCH 2,
     TDMA_Frame L1SCHED_PDTCH 3 L1SCHED_PDTCH 3,
     TDMA_Frame L1SCHED_IDLE 0 L1SCHED_IDLE 0]"

section \<open>Layouts\<close>

definition M64 :: "lchan_type \<Rightarrow> u64" where
  "M64 c = push_bit (lchan_index c) 1"

definition M64_BCCH_CCCH :: u64 where
  "M64_BCCH_CCCH = 0 OR M64 L1SCHED_FCCH OR M64 L1SCHED_SCH OR M64 L1SCHED_BCCH
     OR M64 L1SCHED_RACH OR M64 L1SCHED_CCCH"

definition M64_SDCCH4 :: u64 where
  "M64_SDCCH4 = 0 OR M64 L1SCHED_SDCCH4_0 OR M64 L1SCHED_SACCH4_0
     OR M64 L1SCHED_SDCCH4_1 OR M64 L1SCHED_SACCH4_1
     OR M64 L1SCHED_SDCCH4_2 OR M64 L1SCHED_SACCH4_2
     OR M64 L1SCHED_SDCCH4_3 OR M64 L1SCHED_SACCH4_3"

definition M64_SDCCH8 :: u64 where
  "M64_SDCCH8 = 0 OR M64 L1SCHED_SDCCH8_0 OR M64 L1SCHED_SACCH8_0
     OR M64 L1SCHED_SDCCH8_1 OR M64 L1SCHED_SACCH8_1
     OR M64 L1SCHED_SDCCH8_2 OR M64 L1SCHED_SACCH8_2
     OR M64 L1SCHED_SDCCH8_3 OR M64 L1SCHED_SACCH8_3
     OR M64 L1SCHED_SDCCH8_4 OR M64 L1SCHED_SACCH8_4
     OR M64 L1SCHED_SDCCH8_5 OR M64 L1SCHED_SACCH8_5
     OR M64 L1SCHED_SDCCH8_6 OR M64 L1SCHED_SACCH8_6
     OR M64 L1SCHED_SDCCH8_7 OR M64 L1SCHED_SACCH8_7"

definition M64_TCHF :: u64 where
  "M64_TCHF = 0 OR M64 L1SCHED_TCHF OR M64 L1SCHED_SACCHTF"

definition M64_TCHH :: u64 where
  "M64_TCHH = 0 OR M64 L1SCHED_TCHH_0 OR M64 L1SCHED_SACCHTH_0
     OR M64 L1SCHED_TCHH_1 OR M64 L1SCHED_SACCHTH_1"

text \<open>The name of a layout is only logged and is left out; a NULL frame array is \<open>[]\<close>.\<close>

record multiframe =
  mf_chan_config :: pchan
  mf_period :: nat
  mf_slotmask :: u8
  mf_lchan_mask :: u64
  mf_frames :: "tdma_frame list"

definition mk_mframe :: "pchan \<Rightarrow> nat \<Rightarrow> u8 \<Rightarrow> u64 \<Rightarrow> tdma_frame list \<Rightarrow> multiframe" where
  "mk_mframe config period slotmask lmask frames =
     \<lparr>mf_chan_config = config, mf_period = period, mf_slotmask = slotmask,
      mf_lchan_mask = lmask, mf_frames = frames\<rparr>"

definition layouts :: "multiframe list" where
  "layouts = [
     mk_mframe GSM_PCHAN_NONE 0 0xff 0x00 [],
     mk_mframe GSM_PCHAN_CCCH 51 0xff M64_BCCH_CCCH frame_bcch,
     mk_mframe GSM_PCHAN_CCCH_SDCCH4 102 0xff (M64_BCCH_CCCH OR M64_SDCCH4) frame_bcch_sdcch4,
     mk_mframe GSM_PCHAN_CCCH_SDCCH4_CBCH 102 0xff
       (M64_BCCH_CCCH OR M64_SDCCH4 OR M64 L1SCHED_SDCCH4_CBCH) frame_bcch_sdcch4_cbch,
     mk_mframe GSM_PCHAN_SDCCH8_SACCH8C 102 0xff M64_SDCCH8 frame_sdcch8,
     mk_mframe GSM_PCHAN_SDCCH8_SACCH8C_CBCH 102 0xff
       (M64_SDCCH8 OR M64 L1SCHED_SDCCH8_CBCH) frame_sdcch8_cbch,
     mk_mframe GSM_PCHAN_TCH_F 104 0x01 M64_TCHF frame_tchf_ts0,
     mk_mframe GSM_PCHAN_TCH_F 104 0x02 M64_TCHF frame_tchf_ts1,
     mk_mframe GSM_PCHAN_TCH_F 104 0x04 M64_TCHF frame_tchf_ts2,
     mk_mframe GSM_PCHAN_TCH_F 104 0x08 M64_TCHF frame_tchf_ts3,
     mk_mframe GSM_PCHAN_TCH_F 104 0x10 M64_TCHF frame_tchf_ts4,
     mk_mframe GSM_PCHAN_TCH_F 104 0x20 M64_TCHF frame_tchf_ts5,
     mk_mframe GSM_PCHAN_TCH_F 104 0x40 M64_TCHF frame_tchf_ts6,
     mk_mframe GSM_PCHAN_TCH_F 104 0x80 M64_TCHF frame_tchf_ts7,
     mk_mframe GSM_PCHAN_TCH_H 104 0x03 M64_TCHH frame_tchh_ts01,
     mk_mframe GSM_PCHAN_TCH_H 104 0x0c M64_TCHH frame_tchh_ts23,
     mk_mframe GSM_PCHAN_TCH_H 104 0x30 M64_TCHH frame_tchh_ts45,
     mk_mframe GSM_PCHAN_TCH_H 104 0xc0 M64_TCHH frame_tchh_ts67,
     mk_mframe GSM_PCHAN_PDCH 104 0xff (M64 L1SCHED_PDTCH OR M64 L1SCHED_PTCCH) frame_pdch]"

text \<open>
  \<^verbatim>\<open>~slotmask & (1 << tn)\<close> is computed on the \<^verbatim>\<open>int\<close> the mask is
  promoted to; for the timeslots 0 to 7 that is the bit of the octet.
\<close>

definition l1sched_mframe_layout :: "pchan \<Rightarrow> nat \<Rightarrow> multiframe option" where
  "l1sched_mframe_layout config tn =
     find (\<lambda>mf. mf_chan_config mf = config \<and>
                \<not> (NOT (uint (mf_slotmask mf)) AND push_bit tn 1 \<noteq> 0)) layouts"

text \<open>The channels a layout allocates (\<^verbatim>\<open>LAYOUT_HAS_LCHAN\<close> of \<^verbatim>\<open>sched_trx.c\<close>).\<close>

definition LAYOUT_HAS_LCHAN :: "multiframe \<Rightarrow> lchan_type \<Rightarrow> bool" where
  "LAYOUT_HAS_LCHAN mf c \<longleftrightarrow> mf_lchan_mask mf AND push_bit (lchan_index c) 1 \<noteq> 0"

section \<open>Checking the tables\<close>

text \<open>
  The number of bursts a block of a channel is cut into: the handlers of a channel count
  bursts from 0 to one less. The tables are checked one by one: the number of rows is the
  period, a row names idle slots or channels of the mask only, and the burst numbers of a
  channel run cyclically through \<open>0 \<dots> block_len c - 1\<close>, across the wrap of the
  multiframe too.
\<close>

fun block_len :: "lchan_type \<Rightarrow> nat" where
  "block_len L1SCHED_FCCH = 1"
| "block_len L1SCHED_SCH = 1"
| "block_len L1SCHED_RACH = 1"
| "block_len L1SCHED_TCHH_0 = 2"
| "block_len L1SCHED_TCHH_1 = 2"
| "block_len c = 4"

definition chan_bids :: "(tdma_frame \<Rightarrow> lchan_type) \<Rightarrow> (tdma_frame \<Rightarrow> nat) \<Rightarrow> lchan_type \<Rightarrow> tdma_frame list \<Rightarrow> nat list" where
  "chan_bids chan bid c fs = map bid (filter (\<lambda>f. chan f = c) fs)"

fun counts_up :: "nat \<Rightarrow> nat \<Rightarrow> nat list \<Rightarrow> nat option" where
  "counts_up k b [] = Some b"
| "counts_up k b (x # xs) = (if x = b then counts_up k (if Suc b = k then 0 else Suc b) xs else None)"

definition cyclic_bids :: "nat \<Rightarrow> nat list \<Rightarrow> bool" where
  "cyclic_bids k xs \<longleftrightarrow> (case xs of [] \<Rightarrow> True | b # _ \<Rightarrow> b < k \<and> counts_up k b xs = Some b)"

definition mf_lchans :: "multiframe \<Rightarrow> lchan_type list" where
  "mf_lchans mf = filter (LAYOUT_HAS_LCHAN mf) lchan_types"

definition mf_check :: "multiframe \<Rightarrow> bool" where
  "mf_check mf \<longleftrightarrow> length (mf_frames mf) = mf_period mf \<and>
     (let cs = mf_lchans mf in
       list_all (\<lambda>c. cyclic_bids (block_len c) (chan_bids dl_chan dl_bid c (mf_frames mf)) \<and>
                     cyclic_bids (block_len c) (chan_bids ul_chan ul_bid c (mf_frames mf))) cs \<and>
       list_all (\<lambda>f. List.member (L1SCHED_IDLE # cs) (dl_chan f) \<and> List.member (L1SCHED_IDLE # cs) (ul_chan f)) (mf_frames mf))"

lemma mf_check_none:
  "mf_check (mk_mframe GSM_PCHAN_NONE 0 0xff 0x00 [])"
  by code_simp

lemma mf_check_frame_bcch:
  "mf_check (mk_mframe GSM_PCHAN_CCCH 51 0xff M64_BCCH_CCCH frame_bcch)"
  by code_simp

lemma mf_check_frame_bcch_sdcch4:
  "mf_check (mk_mframe GSM_PCHAN_CCCH_SDCCH4 102 0xff (M64_BCCH_CCCH OR M64_SDCCH4) frame_bcch_sdcch4)"
  by code_simp

lemma mf_check_frame_bcch_sdcch4_cbch:
  "mf_check (mk_mframe GSM_PCHAN_CCCH_SDCCH4_CBCH 102 0xff (M64_BCCH_CCCH OR M64_SDCCH4 OR M64 L1SCHED_SDCCH4_CBCH) frame_bcch_sdcch4_cbch)"
  by code_simp

lemma mf_check_frame_sdcch8:
  "mf_check (mk_mframe GSM_PCHAN_SDCCH8_SACCH8C 102 0xff M64_SDCCH8 frame_sdcch8)"
  by code_simp

lemma mf_check_frame_sdcch8_cbch:
  "mf_check (mk_mframe GSM_PCHAN_SDCCH8_SACCH8C_CBCH 102 0xff (M64_SDCCH8 OR M64 L1SCHED_SDCCH8_CBCH) frame_sdcch8_cbch)"
  by code_simp

lemma mf_check_frame_tchf_ts0:
  "mf_check (mk_mframe GSM_PCHAN_TCH_F 104 0x01 M64_TCHF frame_tchf_ts0)"
  by code_simp

lemma mf_check_frame_tchf_ts1:
  "mf_check (mk_mframe GSM_PCHAN_TCH_F 104 0x02 M64_TCHF frame_tchf_ts1)"
  by code_simp

lemma mf_check_frame_tchf_ts2:
  "mf_check (mk_mframe GSM_PCHAN_TCH_F 104 0x04 M64_TCHF frame_tchf_ts2)"
  by code_simp

lemma mf_check_frame_tchf_ts3:
  "mf_check (mk_mframe GSM_PCHAN_TCH_F 104 0x08 M64_TCHF frame_tchf_ts3)"
  by code_simp

lemma mf_check_frame_tchf_ts4:
  "mf_check (mk_mframe GSM_PCHAN_TCH_F 104 0x10 M64_TCHF frame_tchf_ts4)"
  by code_simp

lemma mf_check_frame_tchf_ts5:
  "mf_check (mk_mframe GSM_PCHAN_TCH_F 104 0x20 M64_TCHF frame_tchf_ts5)"
  by code_simp

lemma mf_check_frame_tchf_ts6:
  "mf_check (mk_mframe GSM_PCHAN_TCH_F 104 0x40 M64_TCHF frame_tchf_ts6)"
  by code_simp

lemma mf_check_frame_tchf_ts7:
  "mf_check (mk_mframe GSM_PCHAN_TCH_F 104 0x80 M64_TCHF frame_tchf_ts7)"
  by code_simp

lemma mf_check_frame_tchh_ts01:
  "mf_check (mk_mframe GSM_PCHAN_TCH_H 104 0x03 M64_TCHH frame_tchh_ts01)"
  by code_simp

lemma mf_check_frame_tchh_ts23:
  "mf_check (mk_mframe GSM_PCHAN_TCH_H 104 0x0c M64_TCHH frame_tchh_ts23)"
  by code_simp

lemma mf_check_frame_tchh_ts45:
  "mf_check (mk_mframe GSM_PCHAN_TCH_H 104 0x30 M64_TCHH frame_tchh_ts45)"
  by code_simp

lemma mf_check_frame_tchh_ts67:
  "mf_check (mk_mframe GSM_PCHAN_TCH_H 104 0xc0 M64_TCHH frame_tchh_ts67)"
  by code_simp

lemma mf_check_frame_pdch:
  "mf_check (mk_mframe GSM_PCHAN_PDCH 104 0xff (M64 L1SCHED_PDTCH OR M64 L1SCHED_PTCCH) frame_pdch)"
  by code_simp

lemmas mf_checks = mf_check_none
  mf_check_frame_bcch
  mf_check_frame_bcch_sdcch4
  mf_check_frame_bcch_sdcch4_cbch
  mf_check_frame_sdcch8
  mf_check_frame_sdcch8_cbch
  mf_check_frame_tchf_ts0
  mf_check_frame_tchf_ts1
  mf_check_frame_tchf_ts2
  mf_check_frame_tchf_ts3
  mf_check_frame_tchf_ts4
  mf_check_frame_tchf_ts5
  mf_check_frame_tchf_ts6
  mf_check_frame_tchf_ts7
  mf_check_frame_tchh_ts01
  mf_check_frame_tchh_ts23
  mf_check_frame_tchh_ts45
  mf_check_frame_tchh_ts67
  mf_check_frame_pdch


section \<open>What the tables guarantee\<close>

lemma layouts_checked: "mf \<in> set layouts \<Longrightarrow> mf_check mf"
  unfolding layouts_def using mf_checks by (elim set_ConsD [THEN disjE] | simp)+

lemma mframe_layout_in: "l1sched_mframe_layout config tn = Some mf \<Longrightarrow> mf \<in> set layouts"
  by (auto simp: l1sched_mframe_layout_def find_Some_iff)

lemma mframe_layout_config: "l1sched_mframe_layout config tn = Some mf \<Longrightarrow> mf_chan_config mf = config"
  by (auto simp: l1sched_mframe_layout_def find_Some_iff)

lemma mframe_layout_check: "l1sched_mframe_layout config tn = Some mf \<Longrightarrow> mf_check mf"
  by (rule layouts_checked [OF mframe_layout_in])

lemma set_mf_lchans: "c \<in> set (mf_lchans mf) \<longleftrightarrow> LAYOUT_HAS_LCHAN mf c"
  by (simp add: mf_lchans_def set_lchan_types)

lemma mf_check_length: "mf_check mf \<Longrightarrow> length (mf_frames mf) = mf_period mf"
  by (simp add: mf_check_def)

lemma mf_check_used:
  assumes "mf_check mf" and "f \<in> set (mf_frames mf)"
  shows "dl_chan f = L1SCHED_IDLE \<or> LAYOUT_HAS_LCHAN mf (dl_chan f)"
    and "ul_chan f = L1SCHED_IDLE \<or> LAYOUT_HAS_LCHAN mf (ul_chan f)"
  using assms by (auto simp: mf_check_def Let_def list_all_iff set_mf_lchans)

lemma mf_check_cyclic:
  assumes "mf_check mf" and "LAYOUT_HAS_LCHAN mf c"
  shows "cyclic_bids (block_len c) (chan_bids dl_chan dl_bid c (mf_frames mf))"
    and "cyclic_bids (block_len c) (chan_bids ul_chan ul_bid c (mf_frames mf))"
  using assms by (auto simp: mf_check_def Let_def list_all_iff set_mf_lchans)

subsection \<open>From one period to the whole frame sequence\<close>

lemma counts_up_append:
  "counts_up k b (xs @ ys) = Option.bind (counts_up k b xs) (\<lambda>b'. counts_up k b' ys)"
  by (induction k b xs rule: counts_up.induct) auto

lemma counts_up_repeat:
  "counts_up k b xs = Some b \<Longrightarrow> counts_up k b (concat (replicate m xs)) = Some b"
  by (induction m) (simp_all add: counts_up_append)

lemma counts_up_adjacent:
  "counts_up k b (xs @ x # y # zs) = Some r \<Longrightarrow> y = (if Suc x = k then 0 else Suc x)"
  by (induction k b xs rule: counts_up.induct) (auto split: if_splits)

lemma counts_up_less: "counts_up k b xs = Some r \<Longrightarrow> b < k \<Longrightarrow> x \<in> set xs \<Longrightarrow> x < k"
  by (induction k b xs rule: counts_up.induct) (auto split: if_splits)

lemma cyclic_bids_less: "cyclic_bids k xs \<Longrightarrow> x \<in> set xs \<Longrightarrow> x < k"
  by (auto simp: cyclic_bids_def split: list.splits elim: counts_up_less)

lemma cyclic_bidsD: "cyclic_bids k xs \<Longrightarrow> \<exists>b. counts_up k b xs = Some b"
  by (cases xs) (auto simp: cyclic_bids_def simp del: counts_up.simps(2))

lemma map_mod_concat:
  "length xs = P \<Longrightarrow> map (\<lambda>n. xs ! (n mod P)) [0..<m * P] = concat (replicate m xs)"
proof (induction m)
  case 0
  then show ?case by simp
next
  case (Suc m)
  have "[0..<Suc m * P] = [0..<m * P] @ [m * P..<m * P + P]"
    using upt_add_eq_append [of 0 "m * P" P] by (simp add: add.commute)
  moreover have "[m * P..<m * P + P] = map (\<lambda>i. i + m * P) [0..<P]"
    by (simp add: map_add_upt add.commute)
  moreover have "map (\<lambda>i. xs ! ((i + m * P) mod P)) [0..<P] = xs"
    using Suc.prems by (intro nth_equalityI) auto
  ultimately have "map (\<lambda>n. xs ! (n mod P)) [0..<Suc m * P] = concat (replicate m xs) @ xs"
    using Suc by (simp add: comp_def)
  also have "\<dots> = concat (replicate (Suc m) xs)"
    by (induction m) auto
  finally show ?case .
qed

lemma upt_split: "i \<le> j \<Longrightarrow> j \<le> k \<Longrightarrow> [i..<k] = [i..<j] @ [j..<k]"
  using upt_add_eq_append [of i j "k - j"] by simp

text \<open>The frame of a layout at a TDMA frame number.\<close>

definition mf_frame :: "multiframe \<Rightarrow> nat \<Rightarrow> tdma_frame" where
  "mf_frame mf fn = mf_frames mf ! (fn mod mf_period mf)"

lemma next_bid:
  fixes chan :: "tdma_frame \<Rightarrow> lchan_type" and bid :: "tdma_frame \<Rightarrow> nat"
  assumes len: "length (mf_frames mf) = mf_period mf" and pos: "0 < mf_period mf"
    and cyc: "cyclic_bids k (chan_bids chan bid c (mf_frames mf))"
    and fn: "fn < fn'" "chan (mf_frame mf fn) = c" "chan (mf_frame mf fn') = c"
    and gap: "\<And>g. fn < g \<Longrightarrow> g < fn' \<Longrightarrow> chan (mf_frame mf g) \<noteq> c"
  shows "bid (mf_frame mf fn') = (if Suc (bid (mf_frame mf fn)) = k then 0 else Suc (bid (mf_frame mf fn)))"
proof -
  let ?F = "map (mf_frame mf)" and ?B = "chan_bids chan bid c"
  define N where "N = Suc fn' * mf_period mf"
  have "?F [0..<N] = concat (replicate (Suc fn') (mf_frames mf))"
    using map_mod_concat [OF len, of "Suc fn'"] by (simp only: mf_frame_def [abs_def] N_def)
  moreover have "?B (concat (replicate n (mf_frames mf))) = concat (replicate n (?B (mf_frames mf)))" for n
    by (induction n) (simp_all add: chan_bids_def)
  moreover obtain b where "counts_up k b (?B (mf_frames mf)) = Some b"
    using cyclic_bidsD [OF cyc] by blast
  ultimately have all: "counts_up k b (?B (?F [0..<N])) = Some b"
    by (simp only: counts_up_repeat)
  have le: "Suc fn' \<le> N"
    using pos by (cases "mf_period mf") (auto simp: N_def)
  have split: "[0..<N] = [0..<fn] @ fn # [Suc fn..<fn'] @ fn' # [Suc fn'..<N]"
    using fn(1) le upt_split [of 0 fn N] upt_split [of "Suc fn" fn' N]
      upt_conv_Cons [of fn N] upt_conv_Cons [of fn' N]
    by (simp del: upt.simps)
  have "filter (\<lambda>f. chan f = c) (?F [Suc fn..<fn']) = []"
    using gap by (auto simp: filter_empty_conv)
  then have "?B (?F [0..<N]) = ?B (?F [0..<fn]) @ bid (mf_frame mf fn) # bid (mf_frame mf fn')
      # ?B (?F [Suc fn'..<N])"
    using fn(2,3) by (simp add: split chan_bids_def del: upt.simps)
  with all show ?thesis
    by (metis counts_up_adjacent)
qed

section \<open>Properties\<close>

lemma layouts_period: "mf \<in> set layouts \<Longrightarrow> mf_period mf = 0 \<longleftrightarrow> mf_chan_config mf = GSM_PCHAN_NONE"
  by (auto simp: layouts_def mk_mframe_def)

lemma mframe_layout_period:
  "l1sched_mframe_layout config tn = Some mf \<Longrightarrow> mf_period mf = 0 \<longleftrightarrow> config = GSM_PCHAN_NONE"
  using layouts_period mframe_layout_in mframe_layout_config by blast

lemma mf_frame_in: "length (mf_frames mf) = mf_period mf \<Longrightarrow> 0 < mf_period mf \<Longrightarrow> mf_frame mf fn \<in> set (mf_frames mf)"
  by (simp add: mf_frame_def)

lemma mf_check_bid_less:
  assumes "mf_check mf" and "f \<in> set (mf_frames mf)"
  shows "dl_chan f \<noteq> L1SCHED_IDLE \<Longrightarrow> dl_bid f < block_len (dl_chan f)"
    and "ul_chan f \<noteq> L1SCHED_IDLE \<Longrightarrow> ul_bid f < block_len (ul_chan f)"
proof -
  have "dl_bid f \<in> set (chan_bids dl_chan dl_bid (dl_chan f) (mf_frames mf))"
    and "ul_bid f \<in> set (chan_bids ul_chan ul_bid (ul_chan f) (mf_frames mf))"
    using assms(2) by (auto simp: chan_bids_def)
  then show "dl_chan f \<noteq> L1SCHED_IDLE \<Longrightarrow> dl_bid f < block_len (dl_chan f)"
    and "ul_chan f \<noteq> L1SCHED_IDLE \<Longrightarrow> ul_bid f < block_len (ul_chan f)"
    using mf_check_used [OF assms] mf_check_cyclic [OF assms(1)] cyclic_bids_less by blast+
qed

lemma slotmask_bit: "tn < 8 \<Longrightarrow> (NOT (uint (m :: u8)) AND push_bit tn 1 \<noteq> 0) \<longleftrightarrow> \<not> bit m tn"
  by (simp add: bit_simps and_exp_eq_0_iff_not_bit push_bit_eq_mult)

lemma timeslot_cases:
  "tn < 8 \<Longrightarrow> tn = 0 \<or> tn = 1 \<or> tn = 2 \<or> tn = 3 \<or> tn = 4 \<or> tn = 5 \<or> tn = 6 \<or> tn = (7 :: nat)"
  by arith

lemma layout_tchf_ts2:
  "l1sched_mframe_layout GSM_PCHAN_TCH_F 2 = Some (mk_mframe GSM_PCHAN_TCH_F 104 0x04 M64_TCHF frame_tchf_ts2)"
  by (simp add: l1sched_mframe_layout_def layouts_def mk_mframe_def)

lemma layout_cbch:
  "l1sched_mframe_layout GSM_PCHAN_CCCH_SDCCH4_CBCH 0 = Some (mk_mframe GSM_PCHAN_CCCH_SDCCH4_CBCH 102 0xff
       (M64_BCCH_CCCH OR M64_SDCCH4 OR M64 L1SCHED_SDCCH4_CBCH) frame_bcch_sdcch4_cbch)"
  by (simp add: l1sched_mframe_layout_def layouts_def mk_mframe_def)



lemma mframe_defined:
  assumes "tn < 8"
  shows "l1sched_mframe_layout config tn = None \<longleftrightarrow>
    config = GSM_PCHAN_TCH_F_PDCH \<or> config = GSM_PCHAN_UNKNOWN"
  unfolding l1sched_mframe_layout_def slotmask_bit [OF assms] using timeslot_cases [OF assms]
  by (cases config) (elim disjE; simp add: layouts_def mk_mframe_def)+

text \<open>On the timeslots of a TDMA frame there is a layout for every
  channel combination but the two the scheduler cannot serve.\<close>

theorem mframe_layout_defined:
  assumes "tn < 8"
  shows "l1sched_mframe_layout config tn = None \<longleftrightarrow>
    config = GSM_PCHAN_TCH_F_PDCH \<or> config = GSM_PCHAN_UNKNOWN"
  by (rule mframe_defined [OF assms])

theorem mframe_layout_defined_witness:
  "l1sched_mframe_layout GSM_PCHAN_TCH_H 5 \<noteq> None \<and>
   l1sched_mframe_layout GSM_PCHAN_UNKNOWN 0 = None"
  using mframe_layout_defined [of 5 GSM_PCHAN_TCH_H] mframe_layout_defined [of 0 GSM_PCHAN_UNKNOWN]
  by simp

text \<open>The bursts of every channel are scheduled in block order: after a
  frame that carries burst \<open>b\<close> of a channel, the next frame that carries the channel, in
  this or in the next multiframe, carries burst \<open>b + 1\<close>, or burst 0 when \<open>b\<close> was the
  last of its block. This holds on the downlink and on the uplink of every layout, and it is
  what the burst handlers count on.\<close>

theorem mframe_next_burst:
  assumes "l1sched_mframe_layout config tn = Some mf" and "0 < mf_period mf"
    and "(chan, bid) = (dl_chan, dl_bid) \<or> (chan, bid) = (ul_chan, ul_bid)"
    and "fn < fn'" and "chan (mf_frame mf fn) = c" and "chan (mf_frame mf fn') = c"
    and "c \<noteq> L1SCHED_IDLE"
    and "\<And>g. fn < g \<Longrightarrow> g < fn' \<Longrightarrow> chan (mf_frame mf g) \<noteq> c"
  shows "bid (mf_frame mf fn') =
    (if Suc (bid (mf_frame mf fn)) = block_len c then 0 else Suc (bid (mf_frame mf fn)))"
proof -
  note chk = mframe_layout_check [OF assms(1)]
  note len = mf_check_length [OF chk]
  have "LAYOUT_HAS_LCHAN mf c"
    using mf_check_used [OF chk mf_frame_in [OF len assms(2), of fn]] assms(3,5,7) by auto
  then have "cyclic_bids (block_len c) (chan_bids chan bid c (mf_frames mf))"
    using mf_check_cyclic [OF chk] assms(3) by auto
  from next_bid [OF len assms(2) this assms(4,5,6,8)] show ?thesis .
qed

theorem mframe_next_burst_witness:
  "dl_bid (mf_frame (mk_mframe GSM_PCHAN_TCH_F 104 0x04 M64_TCHF frame_tchf_ts2) 142) = 0"
proof -
  let ?mf = "mk_mframe GSM_PCHAN_TCH_F 104 0x04 M64_TCHF frame_tchf_ts2"
  have gap: "dl_chan (mf_frame ?mf g) \<noteq> L1SCHED_SACCHTF" if "116 < g" "g < 142" for g
  proof -
    have "list_all (\<lambda>g. dl_chan (mf_frame ?mf g) \<noteq> L1SCHED_SACCHTF) [117..<142]"
      by code_simp
    moreover have "g \<in> set [117..<142]"
      unfolding set_upt atLeastLessThan_iff using that by arith
    ultimately show ?thesis unfolding list_all_iff by blast
  qed
  have "dl_chan (mf_frame ?mf 116) = L1SCHED_SACCHTF" "dl_chan (mf_frame ?mf 142) = L1SCHED_SACCHTF"
    and "dl_bid (mf_frame ?mf 116) = 3"
    by (simp_all add: mf_frame_def mk_mframe_def frame_tchf_ts2_def)
  then show ?thesis
    using mframe_next_burst [OF layout_tchf_ts2, of dl_chan dl_bid 116 142 L1SCHED_SACCHTF] gap
    by (simp add: mk_mframe_def)
qed

text \<open>The combined CCCH layout with a cell broadcast channel still
  allocates SDCCH/4 sub-channel 2 and its SACCH, although the broadcast channel took their
  place: no frame of the layout ever carries them, so a channel activated there is never
  served.\<close>

theorem cbch_layout_unscheduled:
  "\<exists>mf. l1sched_mframe_layout GSM_PCHAN_CCCH_SDCCH4_CBCH 0 = Some mf \<and>
     LAYOUT_HAS_LCHAN mf L1SCHED_SDCCH4_2 \<and> LAYOUT_HAS_LCHAN mf L1SCHED_SACCH4_2 \<and>
     list_all (\<lambda>f. dl_chan f \<noteq> L1SCHED_SDCCH4_2 \<and> ul_chan f \<noteq> L1SCHED_SDCCH4_2 \<and>
                    dl_chan f \<noteq> L1SCHED_SACCH4_2 \<and> ul_chan f \<noteq> L1SCHED_SACCH4_2) (mf_frames mf)"
proof -
  let ?mf = "mk_mframe GSM_PCHAN_CCCH_SDCCH4_CBCH 102 0xff
       (M64_BCCH_CCCH OR M64_SDCCH4 OR M64 L1SCHED_SDCCH4_CBCH) frame_bcch_sdcch4_cbch"
  have "LAYOUT_HAS_LCHAN ?mf L1SCHED_SDCCH4_2" "LAYOUT_HAS_LCHAN ?mf L1SCHED_SACCH4_2"
    by code_simp+
  moreover have "list_all (\<lambda>f. dl_chan f \<noteq> L1SCHED_SDCCH4_2 \<and> ul_chan f \<noteq> L1SCHED_SDCCH4_2 \<and>
      dl_chan f \<noteq> L1SCHED_SACCH4_2 \<and> ul_chan f \<noteq> L1SCHED_SACCH4_2) (mf_frames ?mf)"
    by (simp add: mk_mframe_def frame_bcch_sdcch4_cbch_def)
  ultimately show ?thesis
    using layout_cbch by blast
qed

end
