(* ===== verification/Sched_Core.thy ===== *)
theory Sched_Core
  imports Sched_Tchh Sched_Sch Sched_Pdtch Sched_Mframe
begin

text \<open>
  The state of the scheduler and its management (\<^verbatim>\<open>sched_trx.c\<close>): timeslots are added,
  configured with a multiframe layout, reset and deleted; logical channels are activated,
  deactivated, ciphered; primitives of the user find their channel.
\<close>

section \<open>State\<close>

text \<open>
  \<^verbatim>\<open>struct l1sched_ts\<close> without its index, which is its position in the array of the scheduler.
  The list of channels is a circular list whose head is inside the structure: a structure from
  \<^verbatim>\<open>talloc_zero\<close> has a head of NULL pointers, \<^term>\<open>None\<close> here, which no iteration
  survives. \<open>sc_out\<close> collects what is passed to the user, as \<open>lv_out\<close> does.
\<close>

record l1sched_ts =
  ts_mf_layout :: "multiframe option"
  ts_lchans :: "lchan_state list option"

record l1sched_state =
  sc_ts :: "l1sched_ts option list"
  sc_sacch_cache :: "u8 list"
  sc_bsic :: u8
  sc_out :: "msgb list"

abbreviation (input) TRX_TS_COUNT :: nat where "TRX_TS_COUNT \<equiv> 8"

definition meas_rep_dummy :: "u8 list" where
  "meas_rep_dummy = [0x0f, 0x00, 0x01, 0x03, 0x49, 0x06, 0x15, 0x36, 0x76, 0x01, 0xc0] @ replicate 12 0"

section \<open>Channels of a timeslot\<close>

definition l1sched_find_lchan_by_type :: "l1sched_ts \<Rightarrow> lchan_type \<Rightarrow> nat option option" where
  "l1sched_find_lchan_by_type ts t =
     do { lchans \<leftarrow> ts_lchans ts; Some (first_idx (\<lambda>lc. lc_type lc = t) lchans) }"

definition upd_nth :: "nat \<Rightarrow> (lchan_state \<Rightarrow> lchan_state) \<Rightarrow> l1sched_ts \<Rightarrow> l1sched_ts" where
  "upd_nth i f ts = ts\<lparr>ts_lchans := map_option (\<lambda>ls. ls[i := f (ls ! i)]) (ts_lchans ts)\<rparr>"

definition l1sched_activate_lchan :: "libosmo \<Rightarrow> l1sched_ts \<Rightarrow> lchan_type \<Rightarrow> (int \<times> l1sched_ts) option" where
  "l1sched_activate_lchan L ts chan =
     do { found \<leftarrow> l1sched_find_lchan_by_type ts chan;
          lchans \<leftarrow> ts_lchans ts;
          case found of
            None \<Rightarrow> Some (- EINVAL, ts)
          | Some i \<Rightarrow>
              if lc_active (lchans ! i) then Some (- EINVAL, ts)
              else (let d = l1sched_lchan_desc L chan;
                        n = ld_burst_buf_size d;
                        ts = (if ld_rx_fn d \<noteq> None \<and> n > 0
                              then upd_nth i (\<lambda>lc. lc\<lparr>lc_rx_bursts := Some (replicate n 0)\<rparr>) ts else ts);
                        ts = (if ld_tx_fn d \<noteq> None \<and> n > 0
                              then upd_nth i (\<lambda>lc. lc\<lparr>lc_tx_bursts := Some (replicate n 0)\<rparr>) ts else ts)
                    in Some (0, upd_nth i (\<lambda>lc. lc\<lparr>lc_active := True\<rparr>) ts)) }"

definition l1sched_reset_lchan :: "libosmo \<Rightarrow> lchan_state \<Rightarrow> lchan_state" where
  "l1sched_reset_lchan L lc =
     (let lc = lc\<lparr>lc_rx_burst_mask := 0, lc_tx_burst_mask := 0,
                  lc_rx_bursts := None, lc_tx_bursts := None, lc_tx_prims := []\<rparr>;
          lc = (if L1SCHED_CHAN_IS_TCH (lc_type lc) then
                  lc\<lparr>lc_dl_ongoing_facch := False, lc_ul_facch_blocks := 0,
                     lc_tch_mode := GSM48_CMODE_SIGN, lc_amr := zero_amr\<rparr>
                else if L1SCHED_CHAN_IS_SACCH L (lc_type lc) then lc\<lparr>lc_sacch := zero_sacch\<rparr>
                else lc)
      in lc\<lparr>lc_a5 := zero_a5, lc_tdma := zero_tdma\<rparr>)"

definition l1sched_deactivate_lchan :: "libosmo \<Rightarrow> l1sched_ts \<Rightarrow> lchan_type \<Rightarrow> (int \<times> l1sched_ts) option" where
  "l1sched_deactivate_lchan L ts chan =
     do { found \<leftarrow> l1sched_find_lchan_by_type ts chan;
          lchans \<leftarrow> ts_lchans ts;
          case found of
            None \<Rightarrow> Some (- EINVAL, ts)
          | Some i \<Rightarrow>
              if \<not> lc_active (lchans ! i) then Some (- EINVAL, ts)
              else Some (0, upd_nth i (\<lambda>lc. (l1sched_reset_lchan L lc)\<lparr>lc_active := False\<rparr>) ts) }"

definition deactivate_if_active :: "libosmo \<Rightarrow> lchan_state \<Rightarrow> lchan_state" where
  "deactivate_if_active L lc = (if lc_active lc then (l1sched_reset_lchan L lc)\<lparr>lc_active := False\<rparr> else lc)"

definition l1sched_deactivate_all_lchans :: "libosmo \<Rightarrow> l1sched_ts \<Rightarrow> l1sched_ts option" where
  "l1sched_deactivate_all_lchans L ts =
     do { lchans \<leftarrow> ts_lchans ts; Some (ts\<lparr>ts_lchans := Some (map (deactivate_if_active L) lchans)\<rparr>) }"

text \<open>The loop of \<^verbatim>\<open>l1sched_set_lchans()\<close>, over the position of the channel it looks at.\<close>

fun set_lchans_from :: "libosmo \<Rightarrow> u8 \<Rightarrow> bool \<Rightarrow> u8 \<Rightarrow> u8 \<Rightarrow> nat \<Rightarrow> nat \<Rightarrow> int \<Rightarrow> l1sched_ts \<Rightarrow>
    (int \<times> l1sched_ts) option" where
  "set_lchans_from L chan_nr active tch_mode tsc i 0 rc ts = Some (rc, ts)"
| "set_lchans_from L chan_nr active tch_mode tsc i (Suc n) rc ts =
     do { lchans \<leftarrow> ts_lchans ts;
          (rc, ts) \<leftarrow>
            (if ld_chan_nr (l1sched_lchan_desc L (lc_type (lchans ! i))) = chan_nr AND RSL_CHAN_NR_MASK then
               if active then do {
                 (r, ts) \<leftarrow> l1sched_activate_lchan L ts (lc_type (lchans ! i));
                 Some (rc OR r, upd_nth i (\<lambda>lc. lc\<lparr>lc_tch_mode := tch_mode, lc_tsc := tsc\<rparr>) ts) }
               else do {
                 (r, ts) \<leftarrow> l1sched_deactivate_lchan L ts (lc_type (lchans ! i));
                 Some (rc OR r, ts) }
             else Some (rc, ts));
          set_lchans_from L chan_nr active tch_mode tsc (Suc i) n rc ts }"

definition l1sched_set_lchans :: "libosmo \<Rightarrow> l1sched_ts option \<Rightarrow> u8 \<Rightarrow> bool \<Rightarrow> u8 \<Rightarrow> u8 \<Rightarrow>
    (int \<times> l1sched_ts) option" where
  "l1sched_set_lchans L ts chan_nr active tch_mode tsc =
     do { ts \<leftarrow> ts;
          lchans \<leftarrow> ts_lchans ts;
          set_lchans_from L chan_nr active tch_mode tsc 0 (length lchans) 0 ts }"

definition l1sched_start_ciphering :: "l1sched_ts option \<Rightarrow> u8 \<Rightarrow> u8 list \<Rightarrow> u8 \<Rightarrow> (int \<times> l1sched_ts option) option" where
  "l1sched_start_ciphering ts algo key key_len =
     (case ts of
        None \<Rightarrow> Some (- EINVAL, None)
      | Some t \<Rightarrow>
          if unat key_len > MAX_A5_KEY_LEN then Some (- ERANGE, ts)
          else do {
            lchans \<leftarrow> ts_lchans t;
            k \<leftarrow> (if list_all (\<lambda>lc. \<not> lc_active lc) lchans then Some [] else read_at 0 (unat key_len) key);
            Some (0, Some (t\<lparr>ts_lchans := Some (map (\<lambda>lc.
              if lc_active lc
              then lc\<lparr>lc_a5 := \<lparr>a5_key = k @ drop (unat key_len) (a5_key (lc_a5 lc)),
                                  a5_key_len = key_len, a5_algo = algo\<rparr>\<rparr>
              else lc) lchans)\<rparr>)) })"

section \<open>AMR configuration\<close>

text \<open>\<^verbatim>\<open>ffs\<close>: one more than the lowest bit set, 0 for no bit. The loop shifts the mask down past
  each bit it finds; the array of codecs has four elements.\<close>

definition ffs :: "u8 \<Rightarrow> nat" where
  "ffs x = (case find (bit x) [0..<8] of None \<Rightarrow> 0 | Some i \<Rightarrow> Suc i)"

lemma ffs_shift_less: "ffs x \<noteq> 0 \<Longrightarrow> unat (drop_bit (ffs x) x) < unat x"
proof -
  assume f: "ffs x \<noteq> 0"
  then obtain i where i: "ffs x = Suc i" "bit x i"
    by (auto simp: ffs_def find_Some_iff split: option.splits)
  then have "x \<noteq> 0" by auto
  then have pos: "0 < unat x" by (simp add: word_greater_zero_iff unat_gt_0)
  have "unat (drop_bit (Suc i) x) = unat x div 2 ^ Suc i"
    by (metis unat_drop_bit_eq drop_bit_eq_div)
  also have "\<dots> < unat x"
    using pos by (intro div_less_dividend one_less_power) simp_all
  finally show ?thesis by (simp add: i(1))
qed

function amr_codecs :: "u8 \<Rightarrow> nat \<Rightarrow> nat \<Rightarrow> u8 list \<Rightarrow> (nat \<times> u8 list) option" where
  "amr_codecs codecs_bitmask n acum codec =
     (if ffs codecs_bitmask = 0 then Some (n, codec)
      else (let pos = ffs codecs_bitmask; acum = acum + pos in
        if n < length codec
        then amr_codecs (drop_bit pos codecs_bitmask) (Suc n) acum (codec[n := word_of_nat (acum - 1)])
        else None))"
  by pat_completeness auto
termination
  by (relation "measure (\<lambda>(m, _). unat m)") (simp_all add: ffs_shift_less)

declare amr_codecs.simps [simp del]

definition l1sched_lchan_set_amr_cfg :: "lchan_state \<Rightarrow> u8 \<Rightarrow> u8 \<Rightarrow> (int \<times> lchan_state) option" where
  "l1sched_lchan_set_amr_cfg lc codecs_bitmask start_codec =
     do { (n, codec) \<leftarrow> amr_codecs codecs_bitmask 0 0 (am_codec (lc_amr lc));
          let lc = lc\<lparr>lc_amr := (lc_amr lc)\<lparr>am_codec := codec\<rparr>\<rparr> in
          if n = 0 then Some (- EINVAL, lc)
          else Some (0, lc\<lparr>lc_amr := (lc_amr lc)\<lparr>am_codecs := word_of_nat n, am_dl_ft := start_codec,
                 am_dl_cmr := start_codec, am_ul_ft := start_codec, am_ul_cmr := start_codec\<rparr>\<rparr>) }"

section \<open>Timeslots\<close>

definition l1sched_cfg_pchan_comb_ind :: "l1sched_state \<Rightarrow> nat \<Rightarrow> pchan \<Rightarrow> l1sched_state" where
  "l1sched_cfg_pchan_comb_ind sched tn pchan =
     sched\<lparr>sc_out := sc_out sched @ [l1sched_prim_alloc (PCHAN_COMB_IND (word_of_nat tn) pchan)]\<rparr>"

definition l1sched_alloc :: "l1sched_state" where
  "l1sched_alloc = \<lparr>sc_ts = replicate TRX_TS_COUNT None, sc_sacch_cache = meas_rep_dummy, sc_bsic = 0, sc_out = []\<rparr>"

definition set_ts :: "nat \<Rightarrow> l1sched_ts option \<Rightarrow> l1sched_state \<Rightarrow> l1sched_state" where
  "set_ts tn ts sched = sched\<lparr>sc_ts := (sc_ts sched)[tn := ts]\<rparr>"

definition l1sched_add_ts :: "l1sched_state \<Rightarrow> nat \<Rightarrow> (l1sched_ts option \<times> l1sched_state) option" where
  "l1sched_add_ts sched tn =
     do { slot \<leftarrow> index_at (sc_ts sched) tn;
          case slot of
            Some ts \<Rightarrow> Some (None, sched)
          | None \<Rightarrow> (let ts = \<lparr>ts_mf_layout = None, ts_lchans = None\<rparr> in Some (Some ts, set_ts tn (Some ts) sched)) }"

definition l1sched_del_ts :: "libosmo \<Rightarrow> l1sched_state \<Rightarrow> nat \<Rightarrow> l1sched_state option" where
  "l1sched_del_ts L sched tn =
     do { slot \<leftarrow> index_at (sc_ts sched) tn;
          case slot of
            None \<Rightarrow> Some sched
          | Some ts \<Rightarrow> do {
              ts \<leftarrow> l1sched_deactivate_all_lchans L ts;
              Some (l1sched_cfg_pchan_comb_ind (set_ts tn None sched) tn GSM_PCHAN_NONE) } }"

definition l1sched_reset_ts :: "libosmo \<Rightarrow> l1sched_state \<Rightarrow> nat \<Rightarrow> (int \<times> l1sched_state) option" where
  "l1sched_reset_ts L sched tn =
     do { slot \<leftarrow> index_at (sc_ts sched) tn;
          case slot of
            None \<Rightarrow> Some (- EINVAL, sched)
          | Some ts \<Rightarrow> do {
              ts \<leftarrow> l1sched_deactivate_all_lchans L (ts\<lparr>ts_mf_layout := None\<rparr>);
              Some (0, l1sched_cfg_pchan_comb_ind (set_ts tn (Some (ts\<lparr>ts_lchans := Some []\<rparr>)) sched) tn
                         GSM_PCHAN_NONE) } }"

text \<open>Deleting every timeslot, as \<^verbatim>\<open>l1sched_free()\<close> and \<^verbatim>\<open>l1sched_reset()\<close> do.\<close>

fun del_all_ts :: "libosmo \<Rightarrow> nat list \<Rightarrow> l1sched_state \<Rightarrow> l1sched_state option" where
  "del_all_ts L [] sched = Some sched"
| "del_all_ts L (tn # tns) sched = do { sched \<leftarrow> l1sched_del_ts L sched tn; del_all_ts L tns sched }"

definition l1sched_reset :: "libosmo \<Rightarrow> l1sched_state \<Rightarrow> l1sched_state option" where
  "l1sched_reset L sched =
     do { sched \<leftarrow> del_all_ts L [0..<TRX_TS_COUNT] sched; Some (sched\<lparr>sc_sacch_cache := meas_rep_dummy\<rparr>) }"

definition l1sched_free :: "libosmo \<Rightarrow> l1sched_state \<Rightarrow> l1sched_state option" where
  "l1sched_free L sched = del_all_ts L [0..<TRX_TS_COUNT] sched"

text \<open>The allocation loop of \<^verbatim>\<open>l1sched_configure_ts()\<close>.\<close>

fun alloc_lchans :: "libosmo \<Rightarrow> multiframe \<Rightarrow> lchan_type list \<Rightarrow> l1sched_ts \<Rightarrow> l1sched_ts option" where
  "alloc_lchans L mf [] ts = Some ts"
| "alloc_lchans L mf (t # types) ts =
     (if \<not> LAYOUT_HAS_LCHAN mf t then alloc_lchans L mf types ts
      else do {
        lchans \<leftarrow> ts_lchans ts;
        let ts = ts\<lparr>ts_lchans := Some (lchans @ [zero_lchan t])\<rparr> in
        if ld_flags (l1sched_lchan_desc L t) AND L1SCHED_CH_FLAG_AUTO \<noteq> 0 then do {
          (_, ts) \<leftarrow> l1sched_activate_lchan L ts t;
          alloc_lchans L mf types ts }
        else alloc_lchans L mf types ts })"

definition l1sched_configure_ts :: "libosmo \<Rightarrow> l1sched_state \<Rightarrow> nat \<Rightarrow> pchan \<Rightarrow> (int \<times> l1sched_state) option" where
  "l1sched_configure_ts L sched tn config =
     do { slot \<leftarrow> index_at (sc_ts sched) tn;
          sched \<leftarrow> (case slot of
              Some ts \<Rightarrow> do { (_, sched) \<leftarrow> l1sched_reset_ts L sched tn; Some sched }
            | None \<Rightarrow> do { (_, sched) \<leftarrow> l1sched_add_ts sched tn; Some sched });
          slot \<leftarrow> index_at (sc_ts sched) tn;
          ts \<leftarrow> slot;
          let ts = ts\<lparr>ts_mf_layout := l1sched_mframe_layout config tn\<rparr>; sched = set_ts tn (Some ts) sched in
          case ts_mf_layout ts of
            None \<Rightarrow> Some (- EINVAL, sched)
          | Some mf \<Rightarrow>
              if mf_chan_config mf \<noteq> config then Some (- EINVAL, sched)
              else do {
                ts \<leftarrow> alloc_lchans L mf lchan_types (ts\<lparr>ts_lchans := Some []\<rparr>);
                Some (0, l1sched_cfg_pchan_comb_ind (set_ts tn (Some ts) sched) tn config) } }"

definition l1sched_chan_nr2pchan_config :: "libosmo \<Rightarrow> u8 \<Rightarrow> pchan" where
  "l1sched_chan_nr2pchan_config L chan_nr =
     (let cbits = drop_bit 3 chan_nr in
      if cbits = 0x01 then GSM_PCHAN_TCH_F
      else if cbits AND 0x1e = 0x02 then GSM_PCHAN_TCH_H
      else if cbits AND 0x1c = 0x04 then GSM_PCHAN_CCCH_SDCCH4
      else if cbits AND 0x18 = 0x08 then GSM_PCHAN_SDCCH8_SACCH8C
      else if cbits AND 0x1f = drop_bit 3 (RSL_CHAN_OSMO_CBCH4 L) then GSM_PCHAN_CCCH_SDCCH4_CBCH
      else if cbits AND 0x1f = drop_bit 3 (RSL_CHAN_OSMO_CBCH8 L) then GSM_PCHAN_SDCCH8_SACCH8C_CBCH
      else if cbits AND 0x1f = drop_bit 3 (RSL_CHAN_OSMO_PDCH L) then GSM_PCHAN_PDCH
      else GSM_PCHAN_NONE)"

section \<open>Primitives of the user\<close>

definition l1sched_find_lchan_by_chan_nr :: "libosmo \<Rightarrow> l1sched_state \<Rightarrow> u8 \<Rightarrow> u8 \<Rightarrow> nat option option" where
  "l1sched_find_lchan_by_chan_nr L sched chan_nr link_id =
     do { slot \<leftarrow> index_at (sc_ts sched) (unat (chan_nr AND 0x07));
          case slot of
            None \<Rightarrow> Some None
          | Some ts \<Rightarrow> do {
              lchans \<leftarrow> ts_lchans ts;
              Some (first_idx (\<lambda>lc. ld_chan_nr (l1sched_lchan_desc L (lc_type lc)) = chan_nr AND RSL_CHAN_NR_MASK \<and>
                ld_link_id (l1sched_lchan_desc L (lc_type lc)) = link_id) lchans) } }"

definition prim_enqeue :: "libosmo \<Rightarrow> l1sched_state \<Rightarrow> msgb \<Rightarrow> prim_chdr \<Rightarrow> (int \<times> l1sched_state) option" where
  "prim_enqeue L sched msg chdr =
     do { found \<leftarrow> l1sched_find_lchan_by_chan_nr L sched (ch_chan_nr chdr) (ch_link_id chdr);
          let tn = unat (ch_chan_nr chdr AND 0x07) in
          case found of
            None \<Rightarrow> Some (- ENODEV, sched)
          | Some i \<Rightarrow> do {
              slot \<leftarrow> index_at (sc_ts sched) tn;
              ts \<leftarrow> slot;
              lchans \<leftarrow> ts_lchans ts;
              if \<not> lc_active (lchans ! i) then Some (- ENODEV, sched)
              else Some (0, set_ts tn (Some (upd_nth i
                     (\<lambda>lc. lc\<lparr>lc_tx_prims := lc_tx_prims lc @ [msg]\<rparr>) ts)) sched) } }"

definition l1sched_prim_from_user :: "libosmo \<Rightarrow> l1sched_state \<Rightarrow> msgb \<Rightarrow> (int \<times> l1sched_state) option" where
  "l1sched_prim_from_user L sched msg =
     (case mb_prim msg of
        DATA_REQ h \<Rightarrow> prim_enqeue L sched msg h
      | RACH_REQ r \<Rightarrow> prim_enqeue L sched msg (ra_chdr r)
      | _ \<Rightarrow> Some (- ENOTSUP, sched))"

section \<open>Invariant\<close>

text \<open>What \<^const>\<open>view_wf\<close> asks of a channel alone, and that an inactive channel has no burst memory.\<close>

definition lchan_good :: "libosmo \<Rightarrow> lchan_state \<Rightarrow> bool" where
  "lchan_good L lc \<longleftrightarrow> lchan_wf L lc \<and> length (sa_mr_cache (lc_sacch lc)) = GSM_MACBLOCK_LEN \<and>
     (mr_cached (lc_sacch lc) \<longrightarrow> is_mr_frame (sa_mr_cache (lc_sacch lc))) \<and>
     (\<not> lc_active lc \<longrightarrow> lc_rx_bursts lc = None \<and> lc_tx_bursts lc = None)"

definition cache_good :: "u8 list \<Rightarrow> bool" where
  "cache_good c \<longleftrightarrow> length c = GSM_MACBLOCK_LEN \<and> is_mr_frame c"

definition ts_wf :: "libosmo \<Rightarrow> nat \<Rightarrow> l1sched_ts \<Rightarrow> bool" where
  "ts_wf L tn ts \<longleftrightarrow> (case ts_lchans ts of None \<Rightarrow> False
     | Some ls \<Rightarrow> list_all (lchan_good L) ls \<and>
         (case ts_mf_layout ts of None \<Rightarrow> ls = []
          | Some mf \<Rightarrow> l1sched_mframe_layout (mf_chan_config mf) tn = Some mf \<and> map lc_type ls = mf_lchans mf))"

definition sched_wf :: "libosmo \<Rightarrow> l1sched_state \<Rightarrow> bool" where
  "sched_wf L s \<longleftrightarrow> length (sc_ts s) = TRX_TS_COUNT \<and> cache_good (sc_sacch_cache s) \<and>
     (\<forall>tn < TRX_TS_COUNT. case sc_ts s ! tn of None \<Rightarrow> True | Some ts \<Rightarrow> ts_wf L tn ts)"

lemma meas_rep_dummy_good: "cache_good meas_rep_dummy"
  by (simp add: cache_good_def meas_rep_dummy_def is_mr_frame_def gsm_nbits)

lemma sched_wf_alloc: "sched_wf L l1sched_alloc"
  by (simp add: sched_wf_def l1sched_alloc_def meas_rep_dummy_good)

lemma lchan_good_zero: "lchan_good L (zero_lchan t)"
  by (simp add: lchan_good_def lchan_wf_def lchan_bufs_wf_def zero_lchan_def meas_hist_wf_zero_lchan
      meas_hist_wf_def zero_a5_def zero_amr_def zero_sacch_def mr_cached_def gsm_nbits)

lemma reset_lchan_simps:
  "lc_type (l1sched_reset_lchan L lc) = lc_type lc" "lc_meas_hist (l1sched_reset_lchan L lc) = lc_meas_hist lc"
  "lc_tsc (l1sched_reset_lchan L lc) = lc_tsc lc" "lc_a5 (l1sched_reset_lchan L lc) = zero_a5"
  "lc_tx_prims (l1sched_reset_lchan L lc) = []" "lc_prim (l1sched_reset_lchan L lc) = lc_prim lc"
  "lc_rx_bursts (l1sched_reset_lchan L lc) = None" "lc_tx_bursts (l1sched_reset_lchan L lc) = None"
  by (simp_all add: l1sched_reset_lchan_def Let_def)

lemma reset_lchan_amr: "lc_amr (l1sched_reset_lchan L lc) = (if L1SCHED_CHAN_IS_TCH (lc_type lc) then zero_amr else lc_amr lc)"
  by (simp add: l1sched_reset_lchan_def Let_def)

lemma reset_lchan_sacch: "lc_sacch (l1sched_reset_lchan L lc) =
    (if \<not> L1SCHED_CHAN_IS_TCH (lc_type lc) \<and> L1SCHED_CHAN_IS_SACCH L (lc_type lc) then zero_sacch else lc_sacch lc)"
  by (simp add: l1sched_reset_lchan_def Let_def)

lemma lchan_good_reset:
  assumes "lchan_good L lc"
  shows "lchan_good L ((l1sched_reset_lchan L lc)\<lparr>lc_active := False\<rparr>)"
proof -
  have "length (am_codec zero_amr) = 4" "unat (am_codecs zero_amr) \<le> 4" "length (a5_key zero_a5) = MAX_A5_KEY_LEN"
    "length (sa_mr_cache zero_sacch) = GSM_MACBLOCK_LEN" "\<not> mr_cached zero_sacch"
    by (simp_all add: zero_amr_def zero_a5_def zero_sacch_def mr_cached_def gsm_nbits)
  then show ?thesis
    using assms by (simp add: lchan_good_def lchan_wf_def lchan_bufs_wf_def reset_lchan_simps reset_lchan_amr reset_lchan_sacch)
qed

lemma lchan_good_deactivate:
  "lchan_good L lc \<Longrightarrow> lchan_good L (deactivate_if_active L lc)"
  "lc_type (deactivate_if_active L lc) = lc_type lc" "\<not> lc_active (deactivate_if_active L lc)"
  by (cases "lc_active lc"; simp add: deactivate_if_active_def lchan_good_reset reset_lchan_simps)+

text \<open>What activating makes of an inactive channel.\<close>

definition activated :: "libosmo \<Rightarrow> lchan_state \<Rightarrow> lchan_state" where
  "activated L lc = (let d = l1sched_lchan_desc L (lc_type lc); n = ld_burst_buf_size d in
     lc\<lparr>lc_rx_bursts := (if ld_rx_fn d \<noteq> None \<and> n > 0 then Some (replicate n 0) else lc_rx_bursts lc),
        lc_tx_bursts := (if ld_tx_fn d \<noteq> None \<and> n > 0 then Some (replicate n 0) else lc_tx_bursts lc),
        lc_active := True\<rparr>)"

lemma lchan_good_activated:
  "lchan_good L lc \<Longrightarrow> \<not> lc_active lc \<Longrightarrow> lchan_good L (activated L lc)"
  by (auto simp: lchan_good_def activated_def lchan_wf_def lchan_bufs_wf_def buf_ok_def Let_def split: option.splits)

lemma activated_simps [simp]: "lc_type (activated L lc) = lc_type lc" "lc_active (activated L lc)"
  by (simp_all add: activated_def Let_def)

lemma first_idx_distinct:
  "distinct (map f xs) \<Longrightarrow> i < length xs \<Longrightarrow> f (xs ! i) = y \<Longrightarrow> first_idx (\<lambda>x. f x = y) xs = Some i"
proof (induction xs arbitrary: i)
  case (Cons x xs)
  then show ?case by (cases i) (auto simp: image_iff)
qed simp

lemma activate_nth:
  assumes "ts_lchans ts = Some ls" "distinct (map lc_type ls)" "i < length ls"
  shows "l1sched_activate_lchan L ts (lc_type (ls ! i)) =
    (if lc_active (ls ! i) then Some (- EINVAL, ts)
     else Some (0, ts\<lparr>ts_lchans := Some (ls[i := activated L (ls ! i)])\<rparr>))"
  using assms first_idx_distinct [OF assms(2,3) refl]
  by (auto simp: l1sched_activate_lchan_def l1sched_find_lchan_by_type_def upd_nth_def activated_def Let_def)

lemma deactivate_nth:
  assumes "ts_lchans ts = Some ls" "distinct (map lc_type ls)" "i < length ls"
  shows "l1sched_deactivate_lchan L ts (lc_type (ls ! i)) =
    (if \<not> lc_active (ls ! i) then Some (- EINVAL, ts)
     else Some (0, ts\<lparr>ts_lchans := Some (ls[i := (l1sched_reset_lchan L (ls ! i))\<lparr>lc_active := False\<rparr>])\<rparr>))"
  using assms first_idx_distinct [OF assms(2,3) refl]
  by (simp add: l1sched_deactivate_lchan_def l1sched_find_lchan_by_type_def upd_nth_def)

text \<open>The channels a configuration allocates.\<close>

definition fresh_lchan :: "libosmo \<Rightarrow> lchan_type \<Rightarrow> lchan_state" where
  "fresh_lchan L t = (if ld_flags (l1sched_lchan_desc L t) AND L1SCHED_CH_FLAG_AUTO \<noteq> 0
     then activated L (zero_lchan t) else zero_lchan t)"

lemma zero_lchan_simps: "lc_type (zero_lchan t) = t" "\<not> lc_active (zero_lchan t)"
  by (simp_all add: zero_lchan_def)

lemma fresh_lchan_simps:
  "lc_type (fresh_lchan L t) = t" "lchan_good L (fresh_lchan L t)"
  "lc_active (fresh_lchan L t) \<longleftrightarrow> ld_flags (l1sched_lchan_desc L t) AND L1SCHED_CH_FLAG_AUTO \<noteq> 0"
  by (simp_all add: fresh_lchan_def zero_lchan_simps lchan_good_zero lchan_good_activated)

lemma alloc_lchans_eq:
  assumes "ts_lchans ts = Some ls" "distinct (map lc_type ls @ types)"
  shows "alloc_lchans L mf types ts =
    Some (ts\<lparr>ts_lchans := Some (ls @ map (fresh_lchan L) (filter (LAYOUT_HAS_LCHAN mf) types))\<rparr>)"
  using assms
proof (induction types arbitrary: ts ls)
  case (Cons t types)
  show ?case
  proof (cases "LAYOUT_HAS_LCHAN mf t")
    case False
    then show ?thesis using Cons by simp
  next
    case True
    let ?ts = "ts\<lparr>ts_lchans := Some (ls @ [zero_lchan t])\<rparr>"
    have d: "distinct (map lc_type (ls @ [zero_lchan t]))" using Cons.prems(2) by (auto simp: zero_lchan_simps)
    have "l1sched_activate_lchan L ?ts t =
        Some (0, ts\<lparr>ts_lchans := Some (ls @ [activated L (zero_lchan t)])\<rparr>)"
      using activate_nth [of ?ts "ls @ [zero_lchan t]" "length ls" L] d
      by (simp add: nth_append zero_lchan_simps list_update_append)
    then show ?thesis
      using Cons.IH [of "ts\<lparr>ts_lchans := Some (ls @ [fresh_lchan L t])\<rparr>" "ls @ [fresh_lchan L t]"] Cons.prems True
      by (auto simp: fresh_lchan_simps fresh_lchan_def zero_lchan_simps)
  qed
qed (simp add: )

lemma deactivate_all_good:
  assumes "ts_lchans ts = Some ls"
  shows "l1sched_deactivate_all_lchans L ts = Some (ts\<lparr>ts_lchans := Some (map (deactivate_if_active L) ls)\<rparr>)"
  using assms by (simp add: l1sched_deactivate_all_lchans_def)

lemma sched_wf_ts:
  "sched_wf L s \<Longrightarrow> tn < 8 \<Longrightarrow> sc_ts s ! tn = Some ts \<Longrightarrow>
   \<exists>ls. ts_lchans ts = Some ls \<and> ts_wf L tn ts \<and> list_all (lchan_good L) ls"
proof -
  assume a: "sched_wf L s" "tn < 8" "sc_ts s ! tn = Some ts"
  then have "ts_wf L tn ts" by (fastforce simp: sched_wf_def)
  then show ?thesis by (cases "ts_lchans ts") (simp_all add: ts_wf_def)
qed

lemma sched_wf_set_ts:
  assumes "sched_wf L s" "tn < 8" "case ts of None \<Rightarrow> True | Some t \<Rightarrow> ts_wf L tn t"
  shows "sched_wf L (set_ts tn ts s)"
  using assms by (auto simp: sched_wf_def set_ts_def nth_list_update)

lemma sched_wf_out: "sched_wf L (l1sched_cfg_pchan_comb_ind s tn p) \<longleftrightarrow> sched_wf L s"
  by (simp add: l1sched_cfg_pchan_comb_ind_def sched_wf_def)

lemma sched_slot: "sched_wf L s \<Longrightarrow> tn < 8 \<Longrightarrow> index_at (sc_ts s) tn = Some (sc_ts s ! tn)"
  by (simp add: sched_wf_def index_at_Some)

lemma comb_ind_simps [simp]:
  "sc_ts (l1sched_cfg_pchan_comb_ind s tn p) = sc_ts s"
  "sc_sacch_cache (l1sched_cfg_pchan_comb_ind s tn p) = sc_sacch_cache s"
  by (simp_all add: l1sched_cfg_pchan_comb_ind_def)

lemma set_ts_simps [simp]:
  "sc_ts (set_ts tn ts s) = (sc_ts s)[tn := ts]" "sc_sacch_cache (set_ts tn ts s) = sc_sacch_cache s"
  "sc_bsic (set_ts tn ts s) = sc_bsic s" "sc_out (set_ts tn ts s) = sc_out s"
  by (simp_all add: set_ts_def)

lemma del_ts_wf:
  assumes "sched_wf L s" "tn < 8"
  shows "\<exists>s'. l1sched_del_ts L s tn = Some s' \<and> sched_wf L s' \<and> sc_ts s' = (sc_ts s)[tn := None]"
proof (cases "sc_ts s ! tn")
  case None
  then have "(sc_ts s)[tn := None] = sc_ts s" by (metis list_update_id)
  then show ?thesis using None assms sched_slot [OF assms] by (simp add: l1sched_del_ts_def)
next
  case (Some ts)
  obtain ls where "ts_lchans ts = Some ls" using sched_wf_ts [OF assms Some] by blast
  then show ?thesis
    using Some sched_slot [OF assms] sched_wf_set_ts [OF assms, of None]
    by (simp add: l1sched_del_ts_def deactivate_all_good sched_wf_out)
qed

lemma reset_ts_wf:
  assumes "sched_wf L s" "tn < 8" "sc_ts s ! tn = Some ts"
  shows "\<exists>s'. l1sched_reset_ts L s tn = Some (0, s') \<and> sched_wf L s' \<and>
    sc_ts s' = (sc_ts s)[tn := Some \<lparr>ts_mf_layout = None, ts_lchans = Some []\<rparr>]"
proof -
  obtain ls where ls: "ts_lchans ts = Some ls" using sched_wf_ts [OF assms] by blast
  have "sched_wf L (set_ts tn (Some \<lparr>ts_mf_layout = None, ts_lchans = Some []\<rparr>) s)"
    using assms(1,2) by (rule sched_wf_set_ts) (simp add: ts_wf_def)
  then show ?thesis
    using assms(3) ls sched_slot [OF assms(1,2)]
    by (cases ts) (simp add: l1sched_reset_ts_def deactivate_all_good sched_wf_out)
qed

lemma del_all_ts_wf:
  "sched_wf L s \<Longrightarrow> list_all (\<lambda>tn. tn < 8) tns \<Longrightarrow> \<exists>s'. del_all_ts L tns s = Some s' \<and> sched_wf L s' \<and>
     (\<forall>tn < 8. sc_ts s' ! tn = (if tn \<in> set tns then None else sc_ts s ! tn))"
proof (induction tns arbitrary: s)
  case (Cons tn tns)
  obtain s1 where s1: "l1sched_del_ts L s tn = Some s1" "sched_wf L s1" "sc_ts s1 = (sc_ts s)[tn := None]"
    using del_ts_wf [OF Cons.prems(1)] Cons.prems(2) by auto
  have "length (sc_ts s) = 8" using Cons.prems(1) by (simp add: sched_wf_def)
  then show ?case
    using Cons.IH [OF s1(2)] Cons.prems(2) s1 by (auto simp: nth_list_update)
qed simp

section \<open>Configuring a timeslot\<close>

lemma mf_lchans_sorted: "distinct (mf_lchans mf)"
  by (simp add: mf_lchans_def distinct_lchan_types)

lemma configure_slot:
  assumes "sched_wf L s" "tn < 8"
  shows "\<exists>s1 ts. (case sc_ts s ! tn of
        Some ts \<Rightarrow> do { (_, sched) \<leftarrow> l1sched_reset_ts L s tn; Some sched }
      | None \<Rightarrow> do { (_, sched) \<leftarrow> l1sched_add_ts s tn; Some sched }) = Some s1 \<and>
    index_at (sc_ts s1) tn = Some (Some ts) \<and> ts_mf_layout ts = None \<and>
    (sc_ts s ! tn = None \<longrightarrow> ts_lchans ts = None) \<and>
    length (sc_ts s1) = 8 \<and> sc_sacch_cache s1 = sc_sacch_cache s \<and>
    (\<forall>k < 8. k \<noteq> tn \<longrightarrow> sc_ts s1 ! k = sc_ts s ! k)"
proof -
  have len: "length (sc_ts s) = 8" using assms(1) by (simp add: sched_wf_def)
  show ?thesis
  proof (cases "sc_ts s ! tn")
    case None
    then show ?thesis
      using sched_slot [OF assms] assms(2) len by (auto simp: l1sched_add_ts_def index_at_Some Let_def)
  next
    case (Some ts)
    obtain ls where "ts_lchans ts = Some ls" using sched_wf_ts [OF assms Some] by blast
    then show ?thesis
      using Some sched_slot [OF assms] assms(2) len
      by (simp add: l1sched_reset_ts_def deactivate_all_good index_at_Some)
  qed
qed

lemma configure_ts_ok:
  assumes "sched_wf L s" and "tn < 8" and "config \<noteq> GSM_PCHAN_TCH_F_PDCH" and "config \<noteq> GSM_PCHAN_UNKNOWN"
  shows "\<exists>s' mf ls. l1sched_configure_ts L s tn config = Some (0, s') \<and> sched_wf L s' \<and>
    l1sched_mframe_layout config tn = Some mf \<and>
    sc_ts s' ! tn = Some \<lparr>ts_mf_layout = Some mf, ts_lchans = Some ls\<rparr> \<and>
    map lc_type ls = filter (LAYOUT_HAS_LCHAN mf) lchan_types \<and>
    list_all (\<lambda>lc. lc_active lc = (ld_flags (l1sched_lchan_desc L (lc_type lc)) AND L1SCHED_CH_FLAG_AUTO \<noteq> 0)) ls \<and>
    (\<forall>k < 8. k \<noteq> tn \<longrightarrow> sc_ts s' ! k = sc_ts s ! k)"
proof -
  obtain mf where mf: "l1sched_mframe_layout config tn = Some mf"
    using mframe_defined [OF assms(2), of config] assms(3,4) by (cases "l1sched_mframe_layout config tn") auto
  have cfg: "mf_chan_config mf = config" using mframe_layout_config [OF mf] .
  obtain s1 ts where s1: "(case sc_ts s ! tn of
        Some ts \<Rightarrow> do { (_, sched) \<leftarrow> l1sched_reset_ts L s tn; Some sched }
      | None \<Rightarrow> do { (_, sched) \<leftarrow> l1sched_add_ts s tn; Some sched }) = Some s1"
    "index_at (sc_ts s1) tn = Some (Some ts)" "length (sc_ts s1) = 8" "sc_sacch_cache s1 = sc_sacch_cache s"
    "\<forall>k < 8. k \<noteq> tn \<longrightarrow> sc_ts s1 ! k = sc_ts s ! k"
    using configure_slot [OF assms(1,2)] by blast
  let ?ls = "map (fresh_lchan L) (filter (LAYOUT_HAS_LCHAN mf) lchan_types)"
  let ?ts = "\<lparr>ts_mf_layout = Some mf, ts_lchans = Some ?ls\<rparr>"
  let ?s2 = "set_ts tn (Some (ts\<lparr>ts_mf_layout := Some mf\<rparr>)) s1"
  let ?s' = "l1sched_cfg_pchan_comb_ind (set_ts tn (Some ?ts) ?s2) tn config"
  have ts: "ts\<lparr>ts_mf_layout := Some mf, ts_lchans := Some xs\<rparr> = \<lparr>ts_mf_layout = Some mf, ts_lchans = Some xs\<rparr>" for xs
    by (cases ts) simp
  have alloc: "alloc_lchans L mf lchan_types (ts\<lparr>ts_mf_layout := Some mf, ts_lchans := Some []\<rparr>) = Some ?ts"
    using alloc_lchans_eq [of "ts\<lparr>ts_mf_layout := Some mf, ts_lchans := Some []\<rparr>" "[]" lchan_types L mf]
    by (simp add: distinct_lchan_types ts)
  have run: "l1sched_configure_ts L s tn config = Some (0, ?s')"
    unfolding l1sched_configure_ts_def sched_slot [OF assms(1,2)] bind.bind_lunit s1(1,2) Let_def mf
    using alloc cfg by simp
  have types: "map lc_type ?ls = filter (LAYOUT_HAS_LCHAN mf) lchan_types"
    by (simp add: comp_def fresh_lchan_simps)
  have wf: "ts_wf L tn ?ts"
    using mf cfg types by (simp add: ts_wf_def mf_lchans_def list_all_iff fresh_lchan_simps)
  have "sched_wf L ?s'"
    using assms(1,2) s1(3-5) wf by (auto simp: sched_wf_out sched_wf_def nth_list_update)
  moreover have "list_all (\<lambda>lc. lc_active lc = (ld_flags (l1sched_lchan_desc L (lc_type lc)) AND L1SCHED_CH_FLAG_AUTO \<noteq> 0)) ?ls"
    by (simp add: list_all_iff fresh_lchan_simps)
  ultimately show ?thesis
    using run mf types s1(3,5) assms(2) by (intro exI [of _ ?s'] exI [of _ mf] exI [of _ ?ls]) simp
qed

text \<open>C36. Configuring a timeslot of a well-formed scheduler for any combination but
  the two without a layout succeeds; afterwards the timeslot has the layout of the combination and
  exactly the channels of its mask, each once, those with the AUTO flag active with their burst
  memory and all others inactive; no other timeslot changes, and the scheduler stays well-formed.\<close>

theorem configure_ts_channels:
  assumes "sched_wf L s" and "tn < 8" and "config \<noteq> GSM_PCHAN_TCH_F_PDCH" and "config \<noteq> GSM_PCHAN_UNKNOWN"
  shows "\<exists>s' mf ls. l1sched_configure_ts L s tn config = Some (0, s') \<and> sched_wf L s' \<and>
    l1sched_mframe_layout config tn = Some mf \<and>
    sc_ts s' ! tn = Some \<lparr>ts_mf_layout = Some mf, ts_lchans = Some ls\<rparr> \<and>
    map lc_type ls = filter (LAYOUT_HAS_LCHAN mf) lchan_types \<and>
    list_all (\<lambda>lc. lc_active lc = (ld_flags (l1sched_lchan_desc L (lc_type lc)) AND L1SCHED_CH_FLAG_AUTO \<noteq> 0)) ls \<and>
    (\<forall>k < 8. k \<noteq> tn \<longrightarrow> sc_ts s' ! k = sc_ts s ! k)"
  using assms by (rule configure_ts_ok)

theorem configure_ts_channels_witness:
  "\<exists>s' mf ls. l1sched_configure_ts toy_lib l1sched_alloc 1 GSM_PCHAN_TCH_F = Some (0, s') \<and>
     sched_wf toy_lib s' \<and> sc_ts s' ! 1 = Some \<lparr>ts_mf_layout = Some mf, ts_lchans = Some ls\<rparr> \<and>
     sc_ts s' ! 0 = None"
proof -
  have none: "sc_ts l1sched_alloc ! 0 = None" by (simp add: l1sched_alloc_def)
  have z: "(0 :: nat) < 8" "(0 :: nat) \<noteq> 1" by simp_all
  have c: "(1 :: nat) < 8" "GSM_PCHAN_TCH_F \<noteq> GSM_PCHAN_TCH_F_PDCH" "GSM_PCHAN_TCH_F \<noteq> GSM_PCHAN_UNKNOWN" by simp_all
  show ?thesis
    using configure_ts_channels [OF sched_wf_alloc c, of toy_lib] none z by metis
qed

text \<open>A combination without a layout leaves a trap behind: configuring an
  unused timeslot for it is refused, but the timeslot stays allocated with a channel list that was
  never initialised, so resetting or freeing the scheduler, or configuring the timeslot again, runs
  into a NULL pointer.\<close>

theorem unconfigurable_ts_faults:
  assumes "sched_wf L s" and "tn < 8" and "sc_ts s ! tn = None"
    and "config = GSM_PCHAN_TCH_F_PDCH \<or> config = GSM_PCHAN_UNKNOWN"
  shows "\<exists>s'. l1sched_configure_ts L s tn config = Some (- EINVAL, s') \<and>
    l1sched_del_ts L s' tn = None \<and> l1sched_configure_ts L s' tn config' = None"
proof -
  have mf: "l1sched_mframe_layout config tn = None"
    using mframe_defined [OF assms(2), of config] assms(4) by blast
  have len: "length (sc_ts s) = 8" using assms(1) by (simp add: sched_wf_def)
  let ?s' = "set_ts tn (Some \<lparr>ts_mf_layout = None, ts_lchans = None\<rparr>) s"
  have run: "l1sched_configure_ts L s tn config = Some (- EINVAL, ?s')"
    using assms(2,3) len mf sched_slot [OF assms(1,2)]
    by (simp add: l1sched_configure_ts_def l1sched_add_ts_def Let_def index_at_Some set_ts_def)
  have all: "l1sched_deactivate_all_lchans L \<lparr>ts_mf_layout = None, ts_lchans = None\<rparr> = None"
    by (simp add: l1sched_deactivate_all_lchans_def)
  have slot: "index_at (sc_ts ?s') tn = Some (Some \<lparr>ts_mf_layout = None, ts_lchans = None\<rparr>)"
    using assms(2) len by (simp add: index_at_Some)
  show ?thesis
    using run all slot by (intro exI [of _ ?s']) (simp add: l1sched_del_ts_def l1sched_configure_ts_def l1sched_reset_ts_def)
qed

theorem unconfigurable_ts_faults_witness:
  "\<exists>s'. l1sched_configure_ts toy_lib l1sched_alloc 3 GSM_PCHAN_UNKNOWN = Some (- EINVAL, s') \<and>
     l1sched_del_ts toy_lib s' 3 = None \<and> l1sched_configure_ts toy_lib s' 3 GSM_PCHAN_TCH_F = None"
  by (rule unconfigurable_ts_faults [OF sched_wf_alloc]) (simp_all add: l1sched_alloc_def)

section \<open>AMR codec sets\<close>

definition mask_bits :: "u8 \<Rightarrow> nat list" where
  "mask_bits m = filter (bit m) [0..<8]"

lemma mask_bits_split:
  assumes "ffs m = Suc i"
  shows "mask_bits m = i # map (\<lambda>j. j + Suc i) (mask_bits (drop_bit (Suc i) m))"
proof -
  have i: "i < 8" "bit m i" "\<forall>j < i. \<not> bit m j"
    using assms by (auto simp: ffs_def find_Some_iff split: option.splits)
  have "[0..<8] = [0..<i] @ i # [Suc i..<8]"
    using i(1) upt_add_eq_append [of 0 i "8 - i"] by (simp add: upt_conv_Cons)
  then have "mask_bits m = i # filter (bit m) [Suc i..<8]"
    using i(2,3) by (simp add: mask_bits_def filter_empty_conv)
  moreover have "[Suc i..<8] = map (\<lambda>j. j + Suc i) [0..<8 - Suc i]"
    using i(1) by (simp only: map_add_upt) simp
  then have "filter (bit m) [Suc i..<8] = map (\<lambda>j. j + Suc i) (filter (bit (drop_bit (Suc i) m)) [0..<8 - Suc i])"
    by (simp add: filter_map comp_def bit_simps add.commute)
  moreover have "filter (bit (drop_bit (Suc i) m)) [0..<8] = filter (bit (drop_bit (Suc i) m)) [0..<8 - Suc i]"
  proof -
    have "[0..<8] = [0..<8 - Suc i] @ [8 - Suc i..<8]" 
      using upt_add_eq_append [of 0 "8 - Suc i" "Suc i"] i(1) by simp
    moreover have "filter (bit (drop_bit (Suc i) m)) [8 - Suc i..<8] = []"
      by (auto simp: filter_empty_conv bit_simps dest: bit_imp_le_length)
    ultimately show ?thesis by simp
  qed
  ultimately show ?thesis by (simp add: mask_bits_def)
qed

lemma mask_bits_none: "ffs m = 0 \<Longrightarrow> mask_bits m = []"
  by (auto simp: ffs_def mask_bits_def find_None_iff filter_empty_conv split: option.splits)

lemma amr_codecs_eq:
  "n \<le> length codec \<Longrightarrow> amr_codecs m n acum codec =
     (let bs = mask_bits m in
      if n + length bs \<le> length codec
      then Some (n + length bs, take n codec @ map (\<lambda>i. word_of_nat (acum + i)) bs @ drop (n + length bs) codec)
      else None)"
proof (induction m n acum codec rule: amr_codecs.induct)
  case (1 m n acum codec)
  show ?case
  proof (cases "ffs m")
    case 0
    then show ?thesis using 1(2) by (simp add: amr_codecs.simps [of m] mask_bits_none)
  next
    case (Suc i)
    note split = mask_bits_split [OF Suc]
    show ?thesis
    proof (cases "n < length codec")
      case False
      then show ?thesis using Suc split by (simp add: amr_codecs.simps [of m] Let_def)
    next
      case True
      have take: "take (Suc n) (codec[n := x]) = take n codec @ [x]" for x
        using True by (simp add: take_Suc_conv_app_nth)
      show ?thesis
        using 1(1) [OF _ refl refl True] True Suc split
        by (subst amr_codecs.simps) (auto simp: Let_def take comp_def ac_simps)
    qed
  qed
qed

text \<open>Configuring a channel with a set of AMR codecs. An empty set is refused; a set of
  up to four codecs is stored in increasing order, with their number and the start codec for both
  directions; a set of more writes past the end of the array of four.\<close>

theorem amr_cfg_codecs:
  assumes "length (am_codec (lc_amr lc)) = 4"
  shows "(case length (mask_bits m) of
      0 \<Rightarrow> l1sched_lchan_set_amr_cfg lc m start = Some (- EINVAL, lc)
    | Suc k \<Rightarrow>
        if k < 4 then \<exists>lc'. l1sched_lchan_set_amr_cfg lc m start = Some (0, lc') \<and>
          take (Suc k) (am_codec (lc_amr lc')) = map word_of_nat (mask_bits m) \<and>
          length (am_codec (lc_amr lc')) = 4 \<and> unat (am_codecs (lc_amr lc')) = Suc k \<and>
          am_dl_ft (lc_amr lc') = start \<and> am_ul_ft (lc_amr lc') = start
        else l1sched_lchan_set_amr_cfg lc m start = None)"
proof -
  note eq = amr_codecs_eq [of 0 "am_codec (lc_amr lc)" m 0]
  show ?thesis
  proof (cases "length (mask_bits m)")
    case 0
    then have "amr_codecs m 0 0 (am_codec (lc_amr lc)) = Some (0, am_codec (lc_amr lc))" using eq by simp
    then show ?thesis using 0 by (simp add: l1sched_lchan_set_amr_cfg_def)
  next
    case (Suc k)
    have "k < 4 \<Longrightarrow> unat (word_of_nat (Suc k) :: u8) = Suc k"
      by (simp add: unat_of_nat del: of_nat_Suc)
    then show ?thesis
      using Suc eq assms by (auto simp del: of_nat_Suc simp: l1sched_lchan_set_amr_cfg_def Let_def)
  qed
qed

theorem amr_cfg_codecs_witness:
  "(\<exists>lc'. l1sched_lchan_set_amr_cfg (zero_lchan L1SCHED_TCHF) 0x95 2 = Some (0, lc') \<and>
      take 4 (am_codec (lc_amr lc')) = [0, 2, 4, 7]) \<and>
   l1sched_lchan_set_amr_cfg (zero_lchan L1SCHED_TCHF) 0x1f 0 = None"
proof -
  have a: "length (am_codec (lc_amr (zero_lchan L1SCHED_TCHF))) = 4" by (simp add: zero_lchan_def zero_amr_def)
  have b: "mask_bits 0x95 = [0, 2, 4, 7]" "mask_bits 0x1f = [0, 1, 2, 3, 4]"
    by code_simp+
  show ?thesis
    using amr_cfg_codecs [OF a, of "0x95" 2] amr_cfg_codecs [OF a, of "0x1f" 0]
    unfolding b by (auto simp: eval_nat_numeral)
qed

section \<open>Where a primitive goes\<close>

definition prim_dest :: "libosmo \<Rightarrow> l1sched_state \<Rightarrow> prim_chdr \<Rightarrow> (nat \<times> lchan_state list) option" where
  "prim_dest L s h = (case sc_ts s ! unat (ch_chan_nr h AND 0x07) of None \<Rightarrow> None
     | Some ts \<Rightarrow> (let ls = the (ts_lchans ts) in map_option (\<lambda>i. (i, ls))
         (first_idx (\<lambda>lc. ld_chan_nr (l1sched_lchan_desc L (lc_type lc)) = ch_chan_nr h AND RSL_CHAN_NR_MASK \<and>
            ld_link_id (l1sched_lchan_desc L (lc_type lc)) = ch_link_id h) ls)))"

lemma tn_less: "unat (x AND 7 :: u8) < 8"
proof -
  have "unat (x AND 7) \<le> unat (7 :: u8)"
    unfolding word_le_nat_alt [symmetric] by (rule word_and_le1)
  then show ?thesis by simp
qed

lemma lchan_good_enqueue:
  "lchan_good L lc \<Longrightarrow> prim_is_req (mb_prim m) \<Longrightarrow> lchan_good L (lc\<lparr>lc_tx_prims := lc_tx_prims lc @ [m]\<rparr>)"
  by (auto simp: lchan_good_def lchan_wf_def lchan_bufs_wf_def)

lemma ts_wf_upd_nth:
  assumes "ts_wf L tn ts" "ts_lchans ts = Some ls" "i < length ls"
    and "lchan_good L (f (ls ! i))" "lc_type (f (ls ! i)) = lc_type (ls ! i)"
  shows "ts_wf L tn (upd_nth i f ts)"
proof -
  have "map lc_type (ls[i := f (ls ! i)]) = map lc_type ls"
    using assms(3,5) by (metis list_update_id map_update nth_map)
  moreover have "list_all (lchan_good L) (ls[i := f (ls ! i)])"
    using assms(1,2,4) set_update_subset_insert [of ls i] by (auto simp: ts_wf_def list_all_iff)
  ultimately show ?thesis
    using assms(1,2) by (auto simp: ts_wf_def upd_nth_def split: option.splits)
qed

lemma enqueue_eq:
  assumes "sched_wf L s"
  shows "prim_enqeue L s msg h = (case prim_dest L s h of
      None \<Rightarrow> Some (- ENODEV, s)
    | Some (i, ls) \<Rightarrow>
        if \<not> lc_active (ls ! i) then Some (- ENODEV, s)
        else Some (0, set_ts (unat (ch_chan_nr h AND 0x07)) (map_option
          (upd_nth i (\<lambda>lc. lc\<lparr>lc_tx_prims := lc_tx_prims lc @ [msg]\<rparr>)) (sc_ts s ! unat (ch_chan_nr h AND 0x07))) s))"
proof (cases "sc_ts s ! unat (ch_chan_nr h AND 7)")
  case None
  then show ?thesis
    using sched_slot [OF assms tn_less] by (simp add: prim_enqeue_def l1sched_find_lchan_by_chan_nr_def prim_dest_def)
next
  case (Some ts)
  obtain ls where "ts_lchans ts = Some ls" using sched_wf_ts [OF assms tn_less Some] by blast
  then show ?thesis
    using Some sched_slot [OF assms tn_less]
    by (auto simp: prim_enqeue_def l1sched_find_lchan_by_chan_nr_def prim_dest_def Let_def split: option.splits)
qed

lemma prim_from_user_ok:
  assumes "sched_wf L s"
  shows "\<exists>rc s'. l1sched_prim_from_user L s msg = Some (rc, s') \<and> sched_wf L s' \<and>
    (if \<not> prim_is_req (mb_prim msg) then rc = - ENOTSUP \<and> s' = s
     else case prim_dest L s (prim_chdr_of (mb_prim msg)) of
       None \<Rightarrow> rc = - ENODEV \<and> s' = s
     | Some (i, ls) \<Rightarrow>
         if \<not> lc_active (ls ! i) then rc = - ENODEV \<and> s' = s
         else rc = 0 \<and> (let tn = unat (ch_chan_nr (prim_chdr_of (mb_prim msg)) AND 0x07) in
           sc_ts s' = (sc_ts s)[tn := Some (the (sc_ts s ! tn)\<lparr>ts_lchans :=
             Some (ls[i := (ls ! i)\<lparr>lc_tx_prims := lc_tx_prims (ls ! i) @ [msg]\<rparr>])\<rparr>)]))"
proof (cases "prim_is_req (mb_prim msg)")
  case False
  then show ?thesis
    using assms by (cases "mb_prim msg") (simp_all add: l1sched_prim_from_user_def)
next
  case True
  let ?h = "prim_chdr_of (mb_prim msg)"
  let ?tn = "unat (ch_chan_nr ?h AND 0x07)"
  have run: "l1sched_prim_from_user L s msg = prim_enqeue L s msg ?h"
    using True by (cases "mb_prim msg") (simp_all add: l1sched_prim_from_user_def)
  show ?thesis
  proof (cases "prim_dest L s ?h")
    case None
    then show ?thesis using True assms run by (simp add: enqueue_eq [OF assms])
  next
    case (Some p)
    obtain i ls where p: "p = (i, ls)" by (cases p)
    obtain ts where ts: "sc_ts s ! ?tn = Some ts"
      using Some by (auto simp: prim_dest_def split: option.splits)
    obtain xs where xs: "ts_lchans ts = Some xs" "ts_wf L ?tn ts" "list_all (lchan_good L) xs"
      using sched_wf_ts [OF assms tn_less ts] by blast
    have ls: "ls = xs" "i < length ls"
      using Some ts xs(1) p by (auto simp: prim_dest_def Let_def dest!: first_idx_SomeD)
    have "lchan_good L (ls ! i)" using xs(3) ls by (simp add: list_all_length)
    then have "ts_wf L ?tn (upd_nth i (\<lambda>lc. lc\<lparr>lc_tx_prims := lc_tx_prims lc @ [msg]\<rparr>) ts)"
      using ts_wf_upd_nth [OF xs(2,1), of i "\<lambda>lc. lc\<lparr>lc_tx_prims := lc_tx_prims lc @ [msg]\<rparr>"]
        lchan_good_enqueue [OF _ True] ls by simp
    then have "sched_wf L (set_ts ?tn (Some (upd_nth i (\<lambda>lc. lc\<lparr>lc_tx_prims := lc_tx_prims lc @ [msg]\<rparr>) ts)) s)"
      using sched_wf_set_ts [OF assms tn_less] by simp
    then show ?thesis
      using True assms run Some p ts xs(1) ls
      by (cases "lc_active (ls ! i)") (simp_all add: enqueue_eq [OF assms] upd_nth_def Let_def)
  qed
qed

text \<open>A request of the user reaches a channel or is refused. In a well-formed
  scheduler a DATA or RACH request is appended to the queue of the first channel of the timeslot
  whose descriptor has its channel number and link identifier, when there is one and it is active,
  and refused with ENODEV otherwise, the scheduler unchanged; every other primitive is refused with
  ENOTSUP. The scheduler stays well-formed.\<close>

theorem prim_from_user_routes:
  assumes "sched_wf L s"
  shows "\<exists>rc s'. l1sched_prim_from_user L s msg = Some (rc, s') \<and> sched_wf L s' \<and>
    (if \<not> prim_is_req (mb_prim msg) then rc = - ENOTSUP \<and> s' = s
     else case prim_dest L s (prim_chdr_of (mb_prim msg)) of
       None \<Rightarrow> rc = - ENODEV \<and> s' = s
     | Some (i, ls) \<Rightarrow>
         if \<not> lc_active (ls ! i) then rc = - ENODEV \<and> s' = s
         else rc = 0 \<and> (let tn = unat (ch_chan_nr (prim_chdr_of (mb_prim msg)) AND 0x07) in
           sc_ts s' = (sc_ts s)[tn := Some (the (sc_ts s ! tn)\<lparr>ts_lchans :=
             Some (ls[i := (ls ! i)\<lparr>lc_tx_prims := lc_tx_prims (ls ! i) @ [msg]\<rparr>])\<rparr>)]))"
  using assms by (rule prim_from_user_ok)

theorem prim_from_user_routes_witness:
  "\<exists>s'. l1sched_prim_from_user toy_lib l1sched_alloc (demo_prim []) = Some (- ENODEV, s') \<and> sched_wf toy_lib s'"
proof -
  have "prim_is_req (mb_prim (demo_prim []))" by (simp add: demo_prim_def)
  moreover have "prim_dest toy_lib l1sched_alloc h = None" for h
    using tn_less [of "ch_chan_nr h"] by (simp add: prim_dest_def l1sched_alloc_def)
  ultimately show ?thesis
    using prim_from_user_routes [OF sched_wf_alloc, of toy_lib "demo_prim []"] by auto
qed

section \<open>What deactivating forgets\<close>

text \<open>Deactivating a channel frees its burst memory and flushes its queue,
  but a primitive being sent stays pending: when a packet channel is deactivated in the middle of a
  block and activated again, \<^verbatim>\<open>lchan->prim\<close> still holds the primitive of the old block, and the first
  block of the new activation that has something to send fails an assertion.\<close>

theorem deactivate_keeps_pending:
  assumes "ts_lchans ts = Some ls" and "distinct (map lc_type ls)" and "i < length ls"
    and "lc_type (ls ! i) = L1SCHED_PDTCH" and "lc_active (ls ! i)" and "lc_prim (ls ! i) = Some p"
    and "br_bid br = 0" and "pdtch_queue_take L (br_fn br) q = (Some m, q')"
    and "\<And>b d. 0 \<le> fst (gsm0503_pdtch_encode L b d)"
  shows "\<exists>ts1 ts2 lc. l1sched_deactivate_lchan L ts L1SCHED_PDTCH = Some (0, ts1) \<and>
    l1sched_activate_lchan L ts1 L1SCHED_PDTCH = Some (0, ts2) \<and> ts_lchans ts2 = Some (ls[i := lc]) \<and>
    lc_active lc \<and> lc_tx_prims lc = [] \<and> lc_prim lc = Some p \<and>
    (\<forall>v. lv_lchan v = lc\<lparr>lc_tx_prims := q\<rparr> \<longrightarrow> tx_pdtch_fn L v br = None)"
proof -
  let ?lc1 = "(l1sched_reset_lchan L (ls ! i))\<lparr>lc_active := False\<rparr>"
  let ?ls1 = "ls[i := ?lc1]" and ?lc2 = "activated L ?lc1"
  have d: "l1sched_deactivate_lchan L ts L1SCHED_PDTCH = Some (0, ts\<lparr>ts_lchans := Some ?ls1\<rparr>)"
    using deactivate_nth [OF assms(1-3), of L] assms(4,5) by simp
  have "map lc_type ?ls1 = map lc_type ls"
    using assms(3) by (metis (no_types, lifting) list_update_id map_update nth_map reset_lchan_simps(1)
        lchan_state.surjective lchan_state.update_convs(2) lchan_state.select_convs(1))
  then have "distinct (map lc_type ?ls1)" using assms(2) by simp
  then have a: "l1sched_activate_lchan L (ts\<lparr>ts_lchans := Some ?ls1\<rparr>) L1SCHED_PDTCH =
      Some (0, ts\<lparr>ts_lchans := Some (ls[i := ?lc2])\<rparr>)"
    using activate_nth [of "ts\<lparr>ts_lchans := Some ?ls1\<rparr>" ?ls1 i L] assms(3,4) by (simp add: reset_lchan_simps)
  have lc2: "lc_tx_prims ?lc2 = []" "lc_prim ?lc2 = Some p"
    using assms(6) by (simp_all add: activated_def Let_def reset_lchan_simps)
  have "tx_pdtch_fn L v br = None" if v: "lv_lchan v = ?lc2\<lparr>lc_tx_prims := q\<rparr>" for v
  proof (cases "lc_tx_bursts (lv_lchan v)")
    case None
    then show ?thesis
      using v assms(7,8) lc2(2) by (simp add: tx_pdtch_fn_def prim_dequeue_pdtch_def Let_def)
  next
    case (Some bs)
    then show ?thesis
      using v assms(7,8) lc2(2) assms(9) [of bs "mb_l2 m"]
      by (cases "gsm0503_pdtch_encode L bs (mb_l2 m)") (simp add: tx_pdtch_fn_def prim_dequeue_pdtch_def Let_def)
  qed
  then show ?thesis
    using d a lc2 by (intro exI [of _ "ts\<lparr>ts_lchans := Some ?ls1\<rparr>"] exI [of _ "ts\<lparr>ts_lchans := Some (ls[i := ?lc2])\<rparr>"]
        exI [of _ ?lc2]) simp
qed

theorem deactivate_keeps_pending_witness:
  "\<exists>ts1 ts2 lc. l1sched_deactivate_lchan toy_lib \<lparr>ts_mf_layout = None, ts_lchans =
       Some [(zero_lchan L1SCHED_PDTCH)\<lparr>lc_active := True, lc_prim := Some (demo_prim_fn 0)\<rparr>]\<rparr> L1SCHED_PDTCH = Some (0, ts1) \<and>
    l1sched_activate_lchan toy_lib ts1 L1SCHED_PDTCH = Some (0, ts2) \<and> ts_lchans ts2 = Some [lc] \<and>
    lc_prim lc = Some (demo_prim_fn 0)"
proof -
  have cmp: "gsm0502_fncmp toy_lib f f = 0" "0 \<le> fst (gsm0503_pdtch_encode toy_lib b d)" for f b d
    by (simp_all add: toy_lib_def)
  have t: "pdtch_queue_take toy_lib (br_fn (empty_req 7 4 0)) [demo_prim_fn 4] = (Some (demo_prim_fn 4), [])"
    by (simp add: demo_prim_fn_frame cmp empty_req_def)
  let ?ls = "[(zero_lchan L1SCHED_PDTCH)\<lparr>lc_active := True, lc_prim := Some (demo_prim_fn 0)\<rparr>]"
  have b: "br_bid (empty_req 7 4 0) = 0" by (simp add: empty_req_def)
  have l: "0 < length ?ls" "distinct (map lc_type ?ls)" "lc_type (?ls ! 0) = L1SCHED_PDTCH" "lc_active (?ls ! 0)"
    "lc_prim (?ls ! 0) = Some (demo_prim_fn 0)" by (simp_all add: zero_lchan_def)
  show ?thesis
    using deactivate_keeps_pending [where ts = "\<lparr>ts_mf_layout = None, ts_lchans = Some ?ls\<rparr>" and ls = ?ls and L = toy_lib,
        OF _ l(2,1,3-5) b t cmp(2)] by auto
qed

end
