(* ===== verification/Sched_Run.thy ===== *)
theory Sched_Run
  imports Sched_Core
begin

text \<open>
  Bursts through the scheduler (\<^verbatim>\<open>sched_trx.c\<close>): pulling an uplink burst, feeding a downlink
  burst with the compensation of lost frames, the probe, and the A5 cipher around the handlers.
\<close>

section \<open>Ciphering\<close>

text \<open>
  The keystream is applied to the 57 bits either side of the stealing flags: hard bits are
  exclusive-ored, soft bits negated.
\<close>

definition xor_ks :: "u8 list \<Rightarrow> u8 list \<Rightarrow> u8 list" where
  "xor_ks ks bits = map2 (XOR) bits ks"

definition neg_ks :: "u8 list \<Rightarrow> u8 list \<Rightarrow> u8 list" where
  "neg_ks ks bits = map2 (\<lambda>b k. if k \<noteq> 0 then - b else b) bits ks"

definition on_payload :: "(u8 list \<Rightarrow> u8 list \<Rightarrow> u8 list) \<Rightarrow> u8 list \<Rightarrow> u8 list \<Rightarrow> u8 list option" where
  "on_payload f ks burst =
     do { ks1 \<leftarrow> read_at 0 57 ks; ks2 \<leftarrow> read_at 57 57 ks;
          p1 \<leftarrow> read_at 3 57 burst; p2 \<leftarrow> read_at 88 57 burst;
          burst \<leftarrow> write_at 3 (f ks1 p1) burst;
          write_at 88 (f ks2 p2) burst }"

definition l1sched_a5_burst_dec :: "libosmo \<Rightarrow> lchan_state \<Rightarrow> burst_ind \<Rightarrow> burst_ind option" where
  "l1sched_a5_burst_dec L lc bi =
     do { burst \<leftarrow> on_payload neg_ks (osmo_a5_dl L (a5_algo (lc_a5 lc)) (a5_key (lc_a5 lc)) (bi_fn bi)) (bi_burst bi);
          Some (bi\<lparr>bi_burst := burst\<rparr>) }"

definition l1sched_a5_burst_enc :: "libosmo \<Rightarrow> lchan_state \<Rightarrow> burst_req \<Rightarrow> burst_req option" where
  "l1sched_a5_burst_enc L lc br =
     do { burst \<leftarrow> on_payload xor_ks (osmo_a5_ul L (a5_algo (lc_a5 lc)) (a5_key (lc_a5 lc)) (br_fn br)) (br_burst br);
          Some (br\<lparr>br_burst := burst\<rparr>) }"

section \<open>Frames and handlers\<close>

text \<open>The row of a frame; a layout of period 0 divides by zero.\<close>

definition frame_at :: "multiframe \<Rightarrow> u32 \<Rightarrow> tdma_frame option" where
  "frame_at mf fn = (if mf_period mf = 0 then None else index_at (mf_frames mf) (unat fn mod mf_period mf))"

fun call_rx :: "libosmo \<Rightarrow> rx_func \<Rightarrow> lchan_view \<Rightarrow> burst_ind \<Rightarrow> (int \<times> lchan_view) option" where
  "call_rx L RX_DATA_FN = rx_data_fn L"
| "call_rx L RX_SCH_FN = rx_sch_fn L"
| "call_rx L RX_PDTCH_FN = rx_pdtch_fn L"
| "call_rx L RX_TCHF_FN = rx_tchf_fn L"
| "call_rx L RX_TCHH_FN = rx_tchh_fn L"

fun call_tx :: "libosmo \<Rightarrow> tx_func \<Rightarrow> lchan_view \<Rightarrow> burst_req \<Rightarrow> (int \<times> burst_req \<times> lchan_view) option" where
  "call_tx L TX_DATA_FN = tx_data_fn L"
| "call_tx L TX_RACH_FN = tx_rach_fn L"
| "call_tx L TX_PDTCH_FN = tx_pdtch_fn L"
| "call_tx L TX_TCHF_FN = tx_tchf_fn L"
| "call_tx L TX_TCHH_FN = tx_tchh_fn L"

text \<open>What a handler sees of the scheduler, and what becomes of the scheduler after it.\<close>

definition view_of :: "l1sched_state \<Rightarrow> nat \<Rightarrow> lchan_state \<Rightarrow> lchan_view" where
  "view_of s tn lc = \<lparr>lv_lchan = lc, lv_tn = tn, lv_bsic = sc_bsic s, lv_sacch_cache = sc_sacch_cache s,
     lv_out = sc_out s\<rparr>"

definition put_view :: "nat \<Rightarrow> l1sched_ts \<Rightarrow> nat \<Rightarrow> lchan_view \<Rightarrow> l1sched_state \<Rightarrow> l1sched_state" where
  "put_view tn ts i v s = (set_ts tn (Some (upd_nth i (\<lambda>_. lv_lchan v) ts)) s)
     \<lparr>sc_bsic := lv_bsic v, sc_sacch_cache := lv_sacch_cache v, sc_out := lv_out v\<rparr>"

section \<open>Uplink\<close>

text \<open>The part behind the look-up of the channel: a RACH primitive at the head of the queue is sent by the
  access burst handler on any channel.\<close>

definition emit_burst :: "libosmo \<Rightarrow> tx_func \<Rightarrow> lchan_view \<Rightarrow> burst_req \<Rightarrow> (burst_req \<times> lchan_view) option" where
  "emit_burst L handler v br =
     do { handler \<leftarrow> (case lc_tx_prims (lv_lchan v) of
              [] \<Rightarrow> Some handler
            | msg # _ \<Rightarrow> if prim_is_rach (mb_prim msg) then ld_tx_fn (l1sched_lchan_desc L L1SCHED_RACH)
                        else Some handler);
          (_, br, v) \<leftarrow> call_tx L handler v br;
          br \<leftarrow> (if a5_algo (lc_a5 (lv_lchan v)) \<noteq> 0 then l1sched_a5_burst_enc L (lv_lchan v) br else Some br);
          Some (br, v) }"

definition l1sched_pull_burst :: "libosmo \<Rightarrow> l1sched_state \<Rightarrow> burst_req \<Rightarrow> (burst_req \<times> l1sched_state) option" where
  "l1sched_pull_burst L sched br =
     do { slot \<leftarrow> index_at (sc_ts sched) (br_tn br);
          case slot of None \<Rightarrow> Some (br, sched) | Some ts \<Rightarrow>
          case ts_mf_layout ts of None \<Rightarrow> Some (br, sched) | Some mf \<Rightarrow> do {
            frame \<leftarrow> frame_at mf (br_fn br);
            let br = br\<lparr>br_bid := ul_bid frame\<rparr> in
            case ld_tx_fn (l1sched_lchan_desc L (ul_chan frame)) of None \<Rightarrow> Some (br, sched) | Some handler \<Rightarrow> do {
              found \<leftarrow> l1sched_find_lchan_by_type ts (ul_chan frame);
              lchans \<leftarrow> ts_lchans ts;
              case found of None \<Rightarrow> Some (br, sched) | Some i \<Rightarrow>
                let lchan = lchans ! i in
                if \<not> lc_active lchan then Some (br, sched)
                else do {
                  (br', v) \<leftarrow> emit_burst L handler (view_of sched (br_tn br) lchan) br;
                  Some (br', put_view (br_tn br) ts i v sched) } } } }"

section \<open>Downlink\<close>

text \<open>
  The loop of \<^verbatim>\<open>subst_frame_loss()\<close>: \<^verbatim>\<open>GSM_TDMA_FN_INC\<close> advances the frame number of the dummy
  burst in place.
\<close>

fun subst_loop :: "libosmo \<Rightarrow> multiframe \<Rightarrow> rx_func \<Rightarrow> nat \<Rightarrow> burst_ind \<Rightarrow> lchan_view \<Rightarrow> lchan_view option" where
  "subst_loop L mf handler 0 bi v = Some v"
| "subst_loop L mf handler (Suc n) bi v =
     (let bi = bi\<lparr>bi_fn := GSM_TDMA_FN_INC L (bi_fn bi)\<rparr> in do {
        fp \<leftarrow> frame_at mf (bi_fn bi);
        if dl_chan fp \<noteq> lc_type (lv_lchan v) then subst_loop L mf handler n bi v
        else let bi = bi\<lparr>bi_bid := dl_bid fp\<rparr> in do {
          (_, v) \<leftarrow> call_rx L handler v bi;
          subst_loop L mf handler n bi (upd_lchan (\<lambda>lc. lc\<lparr>lc_tdma := (lc_tdma lc)
            \<lparr>td_last_proc := bi_fn bi, td_num_proc := td_num_proc (lc_tdma lc) + 1,
             td_num_lost := td_num_lost (lc_tdma lc) + 1\<rparr>\<rparr>) v) } })"

definition fn_elapsed :: "u32 \<Rightarrow> u32 \<Rightarrow> int" where
  "fn_elapsed fn last_proc =
     (let elapsed = sint (fn - last_proc); hyper = int GSM_TDMA_HYPERFRAME in
      if elapsed \<ge> hyper div 2 then elapsed - hyper
      else if elapsed < - (hyper div 2) then elapsed + hyper
      else elapsed)"

definition dummy_burst :: "u32 \<Rightarrow> nat \<Rightarrow> burst_ind" where
  "dummy_burst fn tn = \<lparr>bi_fn = fn, bi_tn = tn, bi_toa256 = 0, bi_rssi = - 120, bi_bid = 0,
     bi_burst = replicate GSM_NBITS_NB_8PSK_BURST 0, bi_burst_len = GSM_NBITS_NB_GMSK_BURST\<rparr>"

definition subst_frame_loss :: "libosmo \<Rightarrow> multiframe \<Rightarrow> rx_func \<Rightarrow> u32 \<Rightarrow> lchan_view \<Rightarrow> (int \<times> lchan_view) option" where
  "subst_frame_loss L mf handler fn v =
     (let tdma = lc_tdma (lv_lchan v); elapsed = fn_elapsed fn (td_last_proc tdma) in
      if td_num_proc tdma = 0 then Some (- EAGAIN, v)
      else if elapsed < 0 then Some (- EALREADY, v)
      else if elapsed > int (mf_period mf) then Some (- EIO, v)
      else if elapsed = 0 then Some (- EIO, v)
      else do {
        v \<leftarrow> subst_loop L mf handler (nat (elapsed - 1)) (dummy_burst (td_last_proc tdma) (lv_tn v)) v;
        Some (0, v) })"

text \<open>The part of the receive path behind the look-up of the channel.\<close>

definition deliver_burst :: "libosmo \<Rightarrow> multiframe \<Rightarrow> rx_func \<Rightarrow> lchan_view \<Rightarrow> burst_ind \<Rightarrow> (int \<times> lchan_view) option" where
  "deliver_burst L mf handler v bi =
     do { (rc, v) \<leftarrow> subst_frame_loss L mf handler (bi_fn bi) v;
          if rc = - EALREADY then Some (rc, v)
          else do {
            bi \<leftarrow> (if a5_algo (lc_a5 (lv_lchan v)) \<noteq> 0 then l1sched_a5_burst_dec L (lv_lchan v) bi else Some bi);
            (_, v) \<leftarrow> call_rx L handler v bi;
            Some (0, upd_lchan (\<lambda>lc. lc\<lparr>lc_tdma := (lc_tdma lc)\<lparr>td_last_proc := bi_fn bi,
                      td_num_proc := (if td_num_proc (lc_tdma lc) + 1 = 0 then 1
                                      else td_num_proc (lc_tdma lc) + 1)\<rparr>\<rparr>) v) } }"

text \<open>The indication the caller passed is also written to (its burst number and its decrypted bits);
  no caller reads it again.\<close>

definition l1sched_handle_rx_burst :: "libosmo \<Rightarrow> l1sched_state \<Rightarrow> burst_ind \<Rightarrow> (int \<times> l1sched_state) option" where
  "l1sched_handle_rx_burst L sched bi =
     do { slot \<leftarrow> index_at (sc_ts sched) (bi_tn bi);
          case slot of None \<Rightarrow> Some (- EINVAL, sched) | Some ts \<Rightarrow>
          case ts_mf_layout ts of None \<Rightarrow> Some (- EINVAL, sched) | Some mf \<Rightarrow> do {
            frame \<leftarrow> frame_at mf (bi_fn bi);
            let bi = bi\<lparr>bi_bid := dl_bid frame\<rparr> in
            case ld_rx_fn (l1sched_lchan_desc L (dl_chan frame)) of None \<Rightarrow> Some (- ENODEV, sched) | Some handler \<Rightarrow> do {
              found \<leftarrow> l1sched_find_lchan_by_type ts (dl_chan frame);
              lchans \<leftarrow> ts_lchans ts;
              case found of None \<Rightarrow> Some (- ENODEV, sched) | Some i \<Rightarrow>
                let lchan = lchans ! i in
                if \<not> lc_active lchan then Some (0, sched)
                else do {
                  (rc, v) \<leftarrow> deliver_burst L mf handler (view_of sched (bi_tn bi) lchan) bi;
                  Some (rc, put_view (bi_tn bi) ts i v sched) } } } }"

abbreviation (input) L1SCHED_PROBE_F_ACTIVE :: u32 where "L1SCHED_PROBE_F_ACTIVE \<equiv> 1"

record l1sched_probe =
  pb_flags :: u32
  pb_fn :: u32
  pb_tn :: nat

definition l1sched_handle_rx_probe :: "libosmo \<Rightarrow> l1sched_state \<Rightarrow> l1sched_probe \<Rightarrow> (int \<times> l1sched_probe) option" where
  "l1sched_handle_rx_probe L sched probe =
     do { slot \<leftarrow> index_at (sc_ts sched) (pb_tn probe);
          case slot of None \<Rightarrow> Some (- EINVAL, probe) | Some ts \<Rightarrow>
          case ts_mf_layout ts of None \<Rightarrow> Some (- EINVAL, probe) | Some mf \<Rightarrow> do {
            frame \<leftarrow> frame_at mf (pb_fn probe);
            if ld_rx_fn (l1sched_lchan_desc L (dl_chan frame)) = None then Some (- ENODEV, probe)
            else do {
              found \<leftarrow> l1sched_find_lchan_by_type ts (dl_chan frame);
              lchans \<leftarrow> ts_lchans ts;
              case found of None \<Rightarrow> Some (- ENODEV, probe) | Some i \<Rightarrow>
                Some (0, if lc_active (lchans ! i)
                         then probe\<lparr>pb_flags := pb_flags probe OR L1SCHED_PROBE_F_ACTIVE\<rparr> else probe) } } }"

section \<open>The cipher\<close>

lemma length_ks: "length (xor_ks ks b) = min (length b) (length ks)" "length (neg_ks ks b) = min (length b) (length ks)"
  by (simp_all add: xor_ks_def neg_ks_def)

lemma on_payload_parts:
  assumes "length ks = 114" "length H = 3" "length X = 57" "length M = 28" "length Y = 57"
    and "\<And>k p. length (f k p) = min (length p) (length k)"
  shows "on_payload f ks (H @ X @ M @ Y @ T) = Some (H @ f (take 57 ks) X @ M @ f (drop 57 ks) Y @ T)"
  using assms by (simp add: on_payload_def read_at_Some write_at_Some chunk_def)

lemma burst_parts:
  assumes "145 \<le> length b"
  obtains H X M Y T where "b = H @ X @ M @ Y @ T" "length H = 3" "length X = 57" "length M = 28" "length Y = 57"
proof
  have "take 57 (drop 88 b) @ drop 145 b = drop 88 b" using append_take_drop_id [of 57 "drop 88 b"] by simp
  moreover have "take 28 (drop 60 b) @ drop 88 b = drop 60 b" using append_take_drop_id [of 28 "drop 60 b"] by simp
  moreover have "take 57 (drop 3 b) @ drop 60 b = drop 3 b" using append_take_drop_id [of 57 "drop 3 b"] by simp
  ultimately show "b = take 3 b @ take 57 (drop 3 b) @ take 28 (drop 60 b) @ take 57 (drop 88 b) @ drop 145 b" by simp
qed (use assms in simp_all)

definition bits01 :: "u8 list \<Rightarrow> bool" where
  "bits01 = list_all (\<lambda>b. b = 0 \<or> b = 1)"

lemma neg_ks_soft:
  "bits01 b \<Longrightarrow> bits01 ks \<Longrightarrow> length b \<le> length ks \<Longrightarrow>
   neg_ks ks (map ubit2sbit (xor_ks ks b)) = map ubit2sbit b"
proof (induction b arbitrary: ks)
  case (Cons x b)
  then obtain k ks' where "ks = k # ks'" by (cases ks) auto
  then show ?case using Cons by (auto simp: bits01_def neg_ks_def xor_ks_def ubit2sbit_def)
qed (simp add: neg_ks_def xor_ks_def)

lemma bits01_parts: "bits01 b \<Longrightarrow> bits01 (take n b)" "bits01 b \<Longrightarrow> bits01 (drop n b)"
  by (auto simp: bits01_def list_all_iff dest: in_set_takeD in_set_dropD)

lemma bits01_append: "bits01 (a @ b) \<longleftrightarrow> bits01 a \<and> bits01 b"
  by (simp add: bits01_def)

text \<open>What the peer enciphers the receiver deciphers: a burst of hard bits the peer has
  enciphered (the peer running the same code with the keystream this side uses for reception)
  reaches the handler, after deciphering its soft bits, as the soft bits of the plain burst.\<close>

theorem a5_roundtrip:
  assumes "a5_ok L" and "a5_ok N" and "br_wf br" and "bits01 (br_burst br)"
    and "osmo_a5_ul N (a5_algo (lc_a5 lc)) (a5_key (lc_a5 lc)) (br_fn br) =
         osmo_a5_dl L (a5_algo (lc_a5 lc)) (a5_key (lc_a5 lc)) (br_fn br)"
    and "bits01 (osmo_a5_dl L (a5_algo (lc_a5 lc)) (a5_key (lc_a5 lc)) (br_fn br))"
  shows "\<exists>br'. l1sched_a5_burst_enc N lc br = Some br' \<and>
    l1sched_a5_burst_dec L lc (air toa rssi br') = Some (air toa rssi br)"
proof -
  let ?ks = "osmo_a5_dl L (a5_algo (lc_a5 lc)) (a5_key (lc_a5 lc)) (br_fn br)" and ?b = "br_burst br"
  have ks: "length ?ks = 114" using assms(1) by (simp add: a5_ok_def)
  have len: "length ?b = 444" using assms(3) by (simp add: br_wf_def gsm_nbits)
  have "145 \<le> length ?b" using len by simp
  from burst_parts [OF this] obtain H X M Y T where b: "?b = H @ X @ M @ Y @ T"
    and l: "length H = 3" "length X = 57" "length M = 28" "length Y = 57" by blast
  let ?X = "xor_ks (take 57 ?ks) X" and ?Y = "xor_ks (drop 57 ?ks) Y"
  have e: "on_payload xor_ks ?ks ?b = Some (H @ ?X @ M @ ?Y @ T)"
    unfolding b by (rule on_payload_parts [OF ks l]) (simp add: length_ks)
  have bits: "bits01 X" "bits01 Y" using assms(4) by (simp_all add: b bits01_append)
  have "length (map ubit2sbit ?X) = 57" "length (map ubit2sbit ?Y) = 57"
    using ks l by (simp_all add: length_ks)
  then have "on_payload neg_ks ?ks (map ubit2sbit H @ map ubit2sbit ?X @ map ubit2sbit M @ map ubit2sbit ?Y @ map ubit2sbit T) =
      Some (map ubit2sbit H @ neg_ks (take 57 ?ks) (map ubit2sbit ?X) @ map ubit2sbit M @
        neg_ks (drop 57 ?ks) (map ubit2sbit ?Y) @ map ubit2sbit T)"
    using l by (intro on_payload_parts [OF ks]) (simp_all add: length_ks)
  moreover have "neg_ks (take 57 ?ks) (map ubit2sbit ?X) = map ubit2sbit X"
    using bits(1) bits01_parts(1) [OF assms(6)] l(2) ks by (intro neg_ks_soft) simp_all
  moreover have "neg_ks (drop 57 ?ks) (map ubit2sbit ?Y) = map ubit2sbit Y"
    using bits(2) bits01_parts(2) [OF assms(6)] l(4) ks by (intro neg_ks_soft) simp_all
  ultimately have d: "on_payload neg_ks ?ks (map ubit2sbit (H @ ?X @ M @ ?Y @ T)) = Some (map ubit2sbit ?b)"
    by (simp add: b)
  show ?thesis
    using e d assms(5) by (simp add: l1sched_a5_burst_enc_def l1sched_a5_burst_dec_def air_def)
qed

theorem a5_roundtrip_witness:
  "\<exists>br'. l1sched_a5_burst_enc toy_lib (zero_lchan L1SCHED_TCHF) (empty_req 2 77 0) = Some br' \<and>
    l1sched_a5_burst_dec toy_lib (zero_lchan L1SCHED_TCHF) (air 0 0 br') = Some (air 0 0 (empty_req 2 77 0))"
proof -
  have b: "br_wf (empty_req 2 77 0)" "bits01 (br_burst (empty_req 2 77 0))"
    by (simp_all add: br_wf_def empty_req_def bits01_def list_all_iff)
  have k: "osmo_a5_ul toy_lib a key fn = osmo_a5_dl toy_lib a key fn" "bits01 (osmo_a5_dl toy_lib a key fn)" for a key fn
    by (simp_all add: toy_lib_def bits01_def list_all_iff)
  show ?thesis by (rule a5_roundtrip [OF a5_ok_toy a5_ok_toy b k])
qed

section \<open>What the handlers promise here\<close>

lemma view_of_wf: "view_wf L (view_of s tn lc) \<and> (\<not> lc_active lc \<longrightarrow> lc_rx_bursts lc = None \<and> lc_tx_bursts lc = None) \<longleftrightarrow>
    lchan_good L lc \<and> cache_good (sc_sacch_cache s) \<and> tn < 8"
  by (auto simp: view_of_def view_wf_def sacch_wf_def lchan_good_def cache_good_def)

lemma view_wf_parts:
  "view_wf L v \<Longrightarrow> lc_active (lv_lchan v) \<Longrightarrow>
   lchan_good L (lv_lchan v) \<and> cache_good (lv_sacch_cache v) \<and> lv_tn v < 8"
  by (simp add: view_wf_def sacch_wf_def lchan_good_def cache_good_def)

text \<open>What a handler keeps, its frame statistics apart.\<close>

definition same_id :: "lchan_view \<Rightarrow> lchan_view \<Rightarrow> bool" where
  "same_id v v' \<longleftrightarrow> lc_type (lv_lchan v') = lc_type (lv_lchan v) \<and>
     lc_active (lv_lchan v') = lc_active (lv_lchan v) \<and> lc_a5 (lv_lchan v') = lc_a5 (lv_lchan v) \<and>
     lv_tn v' = lv_tn v \<and> lv_sacch_cache v' = lv_sacch_cache v \<and> prefix (lv_out v) (lv_out v')"

lemma same_id_refl [simp]: "same_id v v"
  by (simp add: same_id_def)

lemma same_id_trans: "same_id u v \<Longrightarrow> same_id v w \<Longrightarrow> same_id u w"
  by (auto simp: same_id_def intro: prefix_order.trans)

lemma same_id_chan: "same_chan v v' \<Longrightarrow> same_id v v'"
  by (simp add: same_id_def same_chan_def)

lemma same_id_tdma: "same_id v (upd_lchan (\<lambda>lc. lc\<lparr>lc_tdma := f lc\<rparr>) v)"
  by (simp add: same_id_def)

lemma view_wf_tdma: "view_wf L v \<Longrightarrow> view_wf L (upd_lchan (\<lambda>lc. lc\<lparr>lc_tdma := f lc\<rparr>) v)"
  by (simp add: view_wf_def lchan_wf_def lchan_bufs_wf_def sacch_wf_def)

definition rx_ready :: "libosmo \<Rightarrow> rx_func \<Rightarrow> lchan_view \<Rightarrow> bool" where
  "rx_ready L handler v \<longleftrightarrow> view_wf L v \<and> lc_active (lv_lchan v) \<and>
     ld_rx_fn (l1sched_lchan_desc L (lc_type (lv_lchan v))) = Some handler"

lemma pdtch_buf_size:
  "ld_tx_fn (l1sched_lchan_desc L t) = Some TX_PDTCH_FN \<Longrightarrow> ld_burst_buf_size (l1sched_lchan_desc L t) = 1392 \<and> t = L1SCHED_PDTCH"
  "ld_rx_fn (l1sched_lchan_desc L t) = Some RX_PDTCH_FN \<Longrightarrow> 464 \<le> ld_burst_buf_size (l1sched_lchan_desc L t)"
  by (cases t; simp add: gsm_nbits)+

lemma pdtch_bufs:
  assumes "view_wf L v" "lc_active (lv_lchan v)"
  shows "ld_rx_fn (l1sched_lchan_desc L (lc_type (lv_lchan v))) = Some RX_PDTCH_FN \<Longrightarrow>
      \<exists>bs. lc_rx_bursts (lv_lchan v) = Some bs \<and> 4 * 116 \<le> length bs"
    and "ld_tx_fn (l1sched_lchan_desc L (lc_type (lv_lchan v))) = Some TX_PDTCH_FN \<Longrightarrow>
      \<exists>bs. lc_tx_bursts (lv_lchan v) = Some bs \<and> 4 * 116 \<le> length bs"
proof -
  have b: "buf_ok (ld_rx_fn (l1sched_lchan_desc L (lc_type (lv_lchan v))) \<noteq> None)
      (ld_burst_buf_size (l1sched_lchan_desc L (lc_type (lv_lchan v)))) (lc_rx_bursts (lv_lchan v))"
    "buf_ok (ld_tx_fn (l1sched_lchan_desc L (lc_type (lv_lchan v))) \<noteq> None)
      (ld_burst_buf_size (l1sched_lchan_desc L (lc_type (lv_lchan v)))) (lc_tx_bursts (lv_lchan v))"
    using assms by (simp_all add: view_wf_def lchan_wf_def lchan_bufs_wf_def Let_def)
  show "\<exists>bs. lc_rx_bursts (lv_lchan v) = Some bs \<and> 4 * 116 \<le> length bs"
    if "ld_rx_fn (l1sched_lchan_desc L (lc_type (lv_lchan v))) = Some RX_PDTCH_FN"
    using b(1) pdtch_buf_size(2) [OF that] that by (auto simp: buf_ok_def split: option.splits)
  show "\<exists>bs. lc_tx_bursts (lv_lchan v) = Some bs \<and> 4 * 116 \<le> length bs"
    if "ld_tx_fn (l1sched_lchan_desc L (lc_type (lv_lchan v))) = Some TX_PDTCH_FN"
    using b(2) pdtch_buf_size(1) [OF that] that by (auto simp: buf_ok_def split: option.splits)
qed

lemma call_rx_post:
  assumes "decode_ok L" "rx_ready L handler v" "bi_wf bi" "bi_bid bi < 4"
  shows "rx_post L v (call_rx L handler v bi)"
proof -
  have wf: "view_wf L v" "lc_active (lv_lchan v)"
    and fn: "ld_rx_fn (l1sched_lchan_desc L (lc_type (lv_lchan v))) = Some handler"
    using assms(2) by (simp_all add: rx_ready_def)
  show ?thesis
  proof (cases handler)
    case RX_DATA_FN
    then have "xcch_rx_pre L (lv_lchan v) bi"
      using xcch_rx_buf [OF wf] fn assms(1,4) by (auto simp: xcch_rx_pre_def)
    then show ?thesis using xcch_rx.rx_ok [OF _ wf(1) assms(3)] RX_DATA_FN by simp
  next
    case RX_SCH_FN
    then show ?thesis using sch_rx.rx_ok [OF _ wf(1) assms(3)] by (simp add: sch_rx_pre_def)
  next
    case RX_PDTCH_FN
    then have "pdtch_rx_pre L (lv_lchan v) bi"
      using pdtch_bufs(1) [OF wf] fn assms(1,4) by (simp add: xcch_rx_pre_def pdtch_rx_pre_def)
    then show ?thesis using pdtch_rx.rx_ok [OF _ wf(1) assms(3)] RX_PDTCH_FN by simp
  next
    case RX_TCHF_FN
    then have "tch_rx_pre L (lv_lchan v) bi"
      using tchf_bufs(1) [OF wf] fn assms(1,4) by (simp add: tch_rx_pre_def rx24_def)
    then show ?thesis using tchf_rx.rx_ok [OF _ wf(1) assms(3)] RX_TCHF_FN by simp
  next
    case RX_TCHH_FN
    then have "tch_rx_pre L (lv_lchan v) bi"
      using tchh_bufs(1) [OF wf] fn assms(1,4) by (simp add: tch_rx_pre_def rx24_def)
    then show ?thesis using tchh_rx.rx_ok [OF _ wf(1) assms(3)] RX_TCHH_FN by simp
  qed
qed

lemma call_rx_returns:
  assumes "decode_ok L" "rx_ready L handler v" "bi_wf bi" "bi_bid bi < 4"
  obtains rc v' where "call_rx L handler v bi = Some (rc, v')" "rx_ready L handler v'" "same_chan v v'"
proof -
  obtain rc v' where "call_rx L handler v bi = Some (rc, v')" "view_wf L v'" "same_chan v v'"
    using call_rx_post [OF assms] by (auto simp: rx_post_def split: option.splits)
  moreover from this have "rx_ready L handler v'"
    using assms(2) by (simp add: rx_ready_def same_chan_def)
  ultimately show ?thesis using that by blast
qed

text \<open>The row of a frame, and the burst numbers a layout has.\<close>

lemma frame_at_row:
  "mf_check mf \<Longrightarrow> 0 < mf_period mf \<Longrightarrow> frame_at mf fn = Some (mf_frame mf (unat fn)) \<and>
     mf_frame mf (unat fn) \<in> set (mf_frames mf)"
  using mf_check_length [of mf] by (simp add: frame_at_def index_at_Some mf_frame_def)

lemma block_len_le: "block_len c \<le> 4"
  by (cases c) simp_all

lemma row_bids:
  assumes "mf_check mf" "0 < mf_period mf"
  shows "dl_chan (mf_frame mf fn) \<noteq> L1SCHED_IDLE \<Longrightarrow> dl_bid (mf_frame mf fn) < 4"
    and "ul_chan (mf_frame mf fn) \<noteq> L1SCHED_IDLE \<Longrightarrow> ul_bid (mf_frame mf fn) < 4"
  using mf_check_bid_less [OF assms(1) mf_frame_in [OF mf_check_length [OF assms(1)] assms(2)], of fn]
    block_len_le [of "dl_chan (mf_frame mf fn)"] block_len_le [of "ul_chan (mf_frame mf fn)"]
  by linarith+

lemma desc_rx_idle: "ld_rx_fn (l1sched_lchan_desc L t) = Some h \<Longrightarrow> t \<noteq> L1SCHED_IDLE"
  by (cases t) simp_all

lemma desc_tx_idle: "ld_tx_fn (l1sched_lchan_desc L t) = Some h \<Longrightarrow> t \<noteq> L1SCHED_IDLE"
  by (cases t) simp_all

section \<open>Lost frames\<close>

text \<open>The frames of a channel among the \<open>n\<close> after \<open>fn\<close>.\<close>

fun lost_fns :: "libosmo \<Rightarrow> multiframe \<Rightarrow> lchan_type \<Rightarrow> nat \<Rightarrow> u32 \<Rightarrow> u32 list" where
  "lost_fns L mf t 0 fn = []"
| "lost_fns L mf t (Suc n) fn = (let fn = GSM_TDMA_FN_INC L fn in
     (if dl_chan (mf_frame mf (unat fn)) = t then [fn] else []) @ lost_fns L mf t n fn)"

lemma map_lost_fns:
  assumes "fn_arith_ok L"
  shows "map unat (lost_fns L mf t n fn) = filter (\<lambda>g. dl_chan (mf_frame mf g) = t)
    (map (\<lambda>k. (unat fn + k) mod GSM_TDMA_HYPERFRAME) [1..<Suc n])"
proof (induction n arbitrary: fn)
  case (Suc n)
  let ?fn = "GSM_TDMA_FN_INC L fn"
  have inc: "unat ?fn = (unat fn + 1) mod GSM_TDMA_HYPERFRAME" using assms by (simp add: fn_arith_ok_def)
  have shift: "(unat ?fn + k) mod GSM_TDMA_HYPERFRAME = (unat fn + Suc k) mod GSM_TDMA_HYPERFRAME" for k
    unfolding inc by (simp add: mod_simps)
  have "map (\<lambda>k. (unat fn + k) mod GSM_TDMA_HYPERFRAME) [1..<Suc (Suc n)] =
      unat ?fn # map (\<lambda>k. (unat fn + k) mod GSM_TDMA_HYPERFRAME) (map Suc [1..<Suc n])"
    unfolding inc map_Suc_upt by (subst upt_conv_Cons) simp_all
  also have "\<dots> = unat ?fn # map (\<lambda>k. (unat ?fn + k) mod GSM_TDMA_HYPERFRAME) [1..<Suc n]"
    by (simp add: shift del: upt_Suc)
  finally show ?case using Suc.IH [of ?fn] by (simp add: Let_def del: upt_Suc)
qed simp

text \<open>The loop: every such frame is handled once, in order, and counted.\<close>

lemma subst_loop_ok:
  assumes "decode_ok L" "mf_check mf" "0 < mf_period mf"
  shows "rx_ready L handler v \<Longrightarrow> bi_wf bi \<Longrightarrow> \<exists>v'. subst_loop L mf handler n bi v = Some v' \<and>
    rx_ready L handler v' \<and> same_id v v' \<and>
    (let lost = lost_fns L mf (lc_type (lv_lchan v)) n (bi_fn bi); t = lc_tdma (lv_lchan v) in
       lc_tdma (lv_lchan v') = \<lparr>td_last_proc = (if lost = [] then td_last_proc t else last lost),
         td_num_proc = td_num_proc t + of_nat (length lost), td_num_lost = td_num_lost t + of_nat (length lost)\<rparr>)"
proof (induction n arbitrary: bi v)
  case 0
  then show ?case by (cases "lc_tdma (lv_lchan v)") simp
next
  case (Suc n)
  let ?fn = "GSM_TDMA_FN_INC L (bi_fn bi)" and ?t = "lc_type (lv_lchan v)"
  let ?row = "mf_frame mf (unat ?fn)"
  have row: "frame_at mf ?fn = Some ?row" using frame_at_row [OF assms(2,3)] by blast
  show ?case
  proof (cases "dl_chan ?row = ?t")
    case False
    then show ?thesis
      using Suc.IH [of v "bi\<lparr>bi_fn := ?fn\<rparr>"] Suc.prems row by (simp add: Let_def bi_wf_def)
  next
    case True
    have idle: "?t \<noteq> L1SCHED_IDLE"
      using Suc.prems(1) desc_rx_idle by (auto simp: rx_ready_def)
    then have bid: "dl_bid ?row < 4" using row_bids(1) [OF assms(2,3)] True by simp
    let ?bi = "bi\<lparr>bi_fn := ?fn, bi_bid := dl_bid ?row\<rparr>"
    have bi: "bi_wf ?bi" "bi_bid ?bi < 4" using Suc.prems(2) bid by (simp_all add: bi_wf_def)
    obtain rc v1 where c: "call_rx L handler v ?bi = Some (rc, v1)" "rx_ready L handler v1" "same_chan v v1"
      using call_rx_returns [OF assms(1) Suc.prems(1) bi] by blast
    let ?f = "\<lambda>lc. (lc_tdma lc)\<lparr>td_last_proc := ?fn, td_num_proc := td_num_proc (lc_tdma lc) + 1,
        td_num_lost := td_num_lost (lc_tdma lc) + 1\<rparr>"
    let ?v2 = "upd_lchan (\<lambda>lc. lc\<lparr>lc_tdma := ?f lc\<rparr>) v1"
    have r2: "rx_ready L handler ?v2" using c(2) view_wf_tdma [of L v1 ?f] by (simp add: rx_ready_def)
    have i2: "same_id v ?v2" using same_id_trans [OF same_id_chan [OF c(3)] same_id_tdma] .
    have t2: "lc_type (lv_lchan ?v2) = ?t" "lc_tdma (lv_lchan ?v2) = ?f (lv_lchan v)"
      using c(3) by (simp_all add: same_chan_def)
    obtain v' where v': "subst_loop L mf handler n ?bi ?v2 = Some v'" "rx_ready L handler v'" "same_id ?v2 v'"
      "let lost = lost_fns L mf ?t n ?fn; t = lc_tdma (lv_lchan ?v2) in
       lc_tdma (lv_lchan v') = \<lparr>td_last_proc = (if lost = [] then td_last_proc t else last lost),
         td_num_proc = td_num_proc t + of_nat (length lost), td_num_lost = td_num_lost t + of_nat (length lost)\<rparr>"
      using Suc.IH [OF r2 bi(1)] t2(1) by auto
    have "subst_loop L mf handler (Suc n) bi v = Some v'"
      using row True c(1) v'(1) same_chan_def [of v v1] c(3) by (simp add: Let_def)
    moreover have "lc_tdma (lv_lchan v') = (let lost = lost_fns L mf ?t (Suc n) (bi_fn bi); t = lc_tdma (lv_lchan v) in
        \<lparr>td_last_proc = (if lost = [] then td_last_proc t else last lost),
         td_num_proc = td_num_proc t + of_nat (length lost), td_num_lost = td_num_lost t + of_nat (length lost)\<rparr>)"
      using v'(4) True unfolding t2(2) by (simp add: Let_def ac_simps)
    ultimately show ?thesis
      using v'(2) same_id_trans [OF i2 v'(3)] unfolding Let_def by (intro exI [of _ v']) blast
  qed
qed

lemma dummy_burst_wf: "bi_wf (dummy_burst fn tn)"
  by (simp add: dummy_burst_def bi_wf_def)

lemma subst_frame_loss_ok:
  assumes "decode_ok L" "mf_check mf" "0 < mf_period mf" "rx_ready L handler v"
  shows "\<exists>rc v'. subst_frame_loss L mf handler fn v = Some (rc, v') \<and> rx_ready L handler v' \<and> same_id v v' \<and>
    (rc = 0 \<or> rc \<in> {- EAGAIN, - EALREADY, - EIO} \<and> v' = v)"
proof -
  obtain v' where "subst_loop L mf handler (nat (fn_elapsed fn (td_last_proc (lc_tdma (lv_lchan v))) - 1))
      (dummy_burst (td_last_proc (lc_tdma (lv_lchan v))) (lv_tn v)) v = Some v'" "rx_ready L handler v'" "same_id v v'"
    using subst_loop_ok [OF assms dummy_burst_wf] by blast
  then show ?thesis using assms(4) by (auto simp: subst_frame_loss_def Let_def)
qed

text \<open>C38. The elapsed frames between two frame numbers of the hyperframe are their
  difference modulo the hyperframe, taken within half a hyperframe either way, although the
  subtraction is done on unsigned 32-bit integers and read as signed.\<close>

theorem fn_elapsed_nearest:
  assumes "unat fn < GSM_TDMA_HYPERFRAME" and "unat last_proc < GSM_TDMA_HYPERFRAME"
  shows "- (int GSM_TDMA_HYPERFRAME div 2) \<le> fn_elapsed fn last_proc \<and>
    fn_elapsed fn last_proc < int GSM_TDMA_HYPERFRAME div 2 \<and>
    (int (unat last_proc) + fn_elapsed fn last_proc) mod int GSM_TDMA_HYPERFRAME = int (unat fn)"
proof -
  have h: "GSM_TDMA_HYPERFRAME = 2715648" by (simp add: GSM_TDMA_HYPERFRAME_def)
  have u: "0 \<le> uint fn" "uint fn < 2715648" "0 \<le> uint last_proc" "uint last_proc < 2715648"
    using assms unfolding h unat_eq_nat_uint by (simp_all, arith+)
  then have r: "- 2147483648 \<le> uint fn - uint last_proc" "uint fn - uint last_proc < 2147483648" by linarith+
  have "sint (fn - last_proc) = signed_take_bit (LENGTH(32) - 1) (uint fn - uint last_proc)"
    using sint_sbintrunc' [where 'a = 32, of "uint fn - uint last_proc"] by simp
  then have d: "sint (fn - last_proc) = uint fn - uint last_proc"
    using r signed_take_bit_int_eq_self [of "LENGTH(32) - 1" "uint fn - uint last_proc"] by simp
  have e: "fn_elapsed fn last_proc = (if 1357824 \<le> uint fn - uint last_proc then uint fn - uint last_proc - 2715648
      else if uint fn - uint last_proc < - 1357824 then uint fn - uint last_proc + 2715648 else uint fn - uint last_proc)"
    unfolding fn_elapsed_def Let_def d h by simp
  then have m: "(uint last_proc + fn_elapsed fn last_proc) mod 2715648 = uint fn mod 2715648"
    by (auto simp: mod_simps)
  have near: "- 1357824 \<le> (if 1357824 \<le> a - b then a - b - 2715648 else if a - b < - 1357824 then a - b + 2715648 else a - b) \<and>
      (if 1357824 \<le> a - b then a - b - 2715648 else if a - b < - 1357824 then a - b + 2715648 else a - b) < 1357824"
    if "0 \<le> a" "a < 2715648" "0 \<le> b" "b < 2715648" for a b :: int
    using that by auto
  have "- 1357824 \<le> fn_elapsed fn last_proc \<and> fn_elapsed fn last_proc < 1357824"
    using near [OF u] unfolding e .
  then show ?thesis using u m by (simp add: h)
qed

theorem fn_elapsed_nearest_witness:
  "(int (unat (2715640 :: u32)) + fn_elapsed 5 2715640) mod int GSM_TDMA_HYPERFRAME = 5 \<and> fn_elapsed 5 2715640 = 13"
proof -
  have "unat (5 :: u32) < GSM_TDMA_HYPERFRAME" "unat (2715640 :: u32) < GSM_TDMA_HYPERFRAME"
    by (simp_all add: GSM_TDMA_HYPERFRAME_def)
  moreover have "fn_elapsed 5 2715640 = 13" by (simp add: fn_elapsed_def GSM_TDMA_HYPERFRAME_def)
  ultimately show ?thesis using fn_elapsed_nearest [of 5 2715640] by simp
qed

section \<open>The scheduler around a handler\<close>

lemma put_view_simps [simp]:
  "sc_ts (put_view tn ts i v s) = (sc_ts s)[tn := Some (upd_nth i (\<lambda>_. lv_lchan v) ts)]"
  "sc_sacch_cache (put_view tn ts i v s) = lv_sacch_cache v" "sc_out (put_view tn ts i v s) = lv_out v"
  by (simp_all add: put_view_def)

lemma sched_wf_put_view:
  assumes "sched_wf L s" "tn < 8" "sc_ts s ! tn = Some ts" "ts_lchans ts = Some ls" "i < length ls"
    and "view_wf L v" "lc_active (lv_lchan v)" "lc_type (lv_lchan v) = lc_type (ls ! i)"
  shows "sched_wf L (put_view tn ts i v s)"
proof -
  have "ts_wf L tn ts" using sched_wf_ts [OF assms(1-3)] by blast
  then have "ts_wf L tn (upd_nth i (\<lambda>_. lv_lchan v) ts)"
    using assms(4-8) view_wf_parts [OF assms(6,7)] by (intro ts_wf_upd_nth) simp_all
  then have "sched_wf L (set_ts tn (Some (upd_nth i (\<lambda>_. lv_lchan v) ts)) s)"
    using sched_wf_set_ts [OF assms(1,2)] by simp
  then show ?thesis
    using view_wf_parts [OF assms(6,7)] by (simp add: put_view_def sched_wf_def)
qed

text \<open>Where a frame leads: the timeslot, its layout, and the channel of the frame.\<close>

definition slot_mf :: "l1sched_state \<Rightarrow> nat \<Rightarrow> multiframe option" where
  "slot_mf s tn = do { ts \<leftarrow> sc_ts s ! tn; ts_mf_layout ts }"

definition mf_live :: "l1sched_state \<Rightarrow> nat \<Rightarrow> bool" where
  "mf_live s tn \<longleftrightarrow> slot_mf s tn \<noteq> None \<longrightarrow> 0 < mf_period (the (slot_mf s tn))"

lemma slot_facts:
  assumes "sched_wf L s" "tn < 8" "sc_ts s ! tn = Some ts" "ts_mf_layout ts = Some mf" "mf_live s tn"
  obtains ls where "ts_lchans ts = Some ls" "mf_check mf" "0 < mf_period mf" "list_all (lchan_good L) ls"
proof -
  obtain ls where ls: "ts_lchans ts = Some ls" "ts_wf L tn ts" "list_all (lchan_good L) ls"
    using sched_wf_ts [OF assms(1-3)] by blast
  have "l1sched_mframe_layout (mf_chan_config mf) tn = Some mf" using ls(1,2) assms(4) by (simp add: ts_wf_def)
  then have "mf_check mf" by (rule mframe_layout_check)
  moreover have "0 < mf_period mf" using assms(3-5) by (simp add: mf_live_def slot_mf_def)
  ultimately show ?thesis using that ls by blast
qed

lemma first_idx_found:
  "first_idx (\<lambda>lc. lc_type lc = t) ls = Some i \<Longrightarrow> i < length ls \<and> lc_type (ls ! i) = t"
  by (drule first_idx_SomeD) blast

lemma view_of_good:
  assumes "sched_wf L s" "tn < 8" "list_all (lchan_good L) ls" "i < length ls"
  shows "view_wf L (view_of s tn (ls ! i))"
  using view_of_wf [of L s tn "ls ! i"] assms by (simp add: sched_wf_def list_all_length)

lemma view_of_simps [simp]:
  "lv_lchan (view_of s tn lc) = lc" "lv_tn (view_of s tn lc) = tn" "lv_out (view_of s tn lc) = sc_out s"
  "lv_sacch_cache (view_of s tn lc) = sc_sacch_cache s"
  by (simp_all add: view_of_def)

lemma on_payload_Some:
  assumes "length ks = 114" "145 \<le> length b" "\<And>k p. length (f k p) = min (length p) (length k)"
  shows "\<exists>b'. on_payload f ks b = Some b' \<and> length b' = length b"
proof -
  from burst_parts [OF assms(2)] obtain H X M Y T where b: "b = H @ X @ M @ Y @ T"
    and l: "length H = 3" "length X = 57" "length M = 28" "length Y = 57" by blast
  show ?thesis
    unfolding b using on_payload_parts [OF assms(1) l assms(3)] assms(1,3) l by simp
qed

lemma a5_dec_returns:
  assumes "a5_ok L" "bi_wf bi"
  shows "\<exists>bi'. l1sched_a5_burst_dec L lc bi = Some bi' \<and> bi_wf bi' \<and> bi_bid bi' = bi_bid bi \<and> bi_fn bi' = bi_fn bi"
  using on_payload_Some [of "osmo_a5_dl L (a5_algo (lc_a5 lc)) (a5_key (lc_a5 lc)) (bi_fn bi)" "bi_burst bi" neg_ks]
    assms by (auto simp: a5_ok_def bi_wf_def gsm_nbits length_ks l1sched_a5_burst_dec_def)

lemma a5_enc_returns:
  assumes "a5_ok L" "br_wf br"
  shows "\<exists>b. l1sched_a5_burst_enc L lc br = Some (br\<lparr>br_burst := b\<rparr>) \<and> br_wf (br\<lparr>br_burst := b\<rparr>)"
  using on_payload_Some [of "osmo_a5_ul L (a5_algo (lc_a5 lc)) (a5_key (lc_a5 lc)) (br_fn br)" "br_burst br" xor_ks]
    assms by (auto simp: a5_ok_def br_wf_def gsm_nbits length_ks l1sched_a5_burst_enc_def)

lemma deliver_burst_ok:
  assumes "decode_ok L" "a5_ok L" "mf_check mf" "0 < mf_period mf" "rx_ready L handler v" "bi_wf bi" "bi_bid bi < 4"
  shows "\<exists>rc v'. deliver_burst L mf handler v bi = Some (rc, v') \<and> rx_ready L handler v' \<and> same_id v v' \<and>
    (rc = 0 \<or> rc = - EALREADY \<and> v' = v)"
proof -
  obtain rc v1 where v1: "subst_frame_loss L mf handler (bi_fn bi) v = Some (rc, v1)" "rx_ready L handler v1"
    "same_id v v1" "rc = 0 \<or> rc \<in> {- EAGAIN, - EALREADY, - EIO} \<and> v1 = v"
    using subst_frame_loss_ok [OF assms(1,3-5)] by blast
  show ?thesis
  proof (cases "rc = - EALREADY")
    case True
    then show ?thesis using v1 assms(5) by (auto simp: deliver_burst_def)
  next
    case False
    obtain bi' where bi': "(if a5_algo (lc_a5 (lv_lchan v1)) \<noteq> 0 then l1sched_a5_burst_dec L (lv_lchan v1) bi else Some bi)
        = Some bi'" "bi_wf bi'" "bi_bid bi' < 4"
      using a5_dec_returns [OF assms(2,6), of "lv_lchan v1"] assms(6,7)
      by (cases "a5_algo (lc_a5 (lv_lchan v1)) = 0") auto
    obtain rc2 v2 where v2: "call_rx L handler v1 bi' = Some (rc2, v2)" "rx_ready L handler v2" "same_chan v1 v2"
      using call_rx_returns [OF assms(1) v1(2) bi'(2,3)] by blast
    let ?f = "\<lambda>lc. (lc_tdma lc)\<lparr>td_last_proc := bi_fn bi', td_num_proc := (if td_num_proc (lc_tdma lc) + 1 = 0 then 1
                else td_num_proc (lc_tdma lc) + 1)\<rparr>"
    let ?v3 = "upd_lchan (\<lambda>lc. lc\<lparr>lc_tdma := ?f lc\<rparr>) v2"
    have "rx_ready L handler ?v3" using v2(2) view_wf_tdma [of L v2 ?f] by (simp add: rx_ready_def)
    moreover have "same_id v ?v3"
      using same_id_trans [OF same_id_trans [OF v1(3) same_id_chan [OF v2(3)]] same_id_tdma] .
    moreover have "deliver_burst L mf handler v bi = Some (0, ?v3)"
      using v1(1) False bi'(1) v2(1) by (simp add: deliver_burst_def)
    ultimately show ?thesis by blast
  qed
qed

lemma upd_nth_same: "ts_lchans ts = Some ls \<Longrightarrow> upd_nth i (\<lambda>_. ls ! i) ts = ts"
  by (cases ts) (simp add: upd_nth_def)

text \<open>C33. Feeding a downlink burst is safe: in a well-formed scheduler whose timeslot does not
  have the empty layout, with decoders and A5 that keep their documented bounds, handling a burst
  returns with one of its documented codes and leaves a well-formed scheduler that has only added
  to what it passed to the user and has touched no other timeslot; this covers the dummy bursts of
  lost frames, which go through the same handler.\<close>

theorem rx_burst_safe:
  assumes "sched_wf L s" and "bi_tn bi < 8" and "bi_wf bi" and "mf_live s (bi_tn bi)"
    and "decode_ok L" and "a5_ok L"
  shows "\<exists>rc s'. l1sched_handle_rx_burst L s bi = Some (rc, s') \<and> sched_wf L s' \<and>
    (rc = 0 \<or> rc = - EINVAL \<or> rc = - ENODEV \<or> rc = - EALREADY) \<and> (rc \<noteq> 0 \<longrightarrow> sc_ts s' = sc_ts s) \<and>
    prefix (sc_out s) (sc_out s') \<and>
    (\<forall>k. k \<noteq> bi_tn bi \<longrightarrow> sc_ts s' ! k = sc_ts s ! k)"
proof (cases "slot_mf s (bi_tn bi)")
  case None
  then show ?thesis
    using assms(1) sched_slot [OF assms(1,2)]
    by (cases "sc_ts s ! bi_tn bi") (simp_all add: l1sched_handle_rx_burst_def slot_mf_def)
next
  case (Some mf)
  let ?tn = "bi_tn bi" and ?row = "mf_frame mf (unat (bi_fn bi))"
  let ?t = "dl_chan ?row"
  obtain ts where ts: "sc_ts s ! ?tn = Some ts" "ts_mf_layout ts = Some mf"
    using Some by (auto simp: slot_mf_def)
  obtain ls where ls: "ts_lchans ts = Some ls" "mf_check mf" "0 < mf_period mf" "list_all (lchan_good L) ls"
    using slot_facts [OF assms(1,2) ts assms(4)] by blast
  have row: "frame_at mf (bi_fn bi) = Some ?row" using frame_at_row [OF ls(2,3)] by blast
  note start = sched_slot [OF assms(1,2)] ts ls(1) row
  show ?thesis
  proof (cases "ld_rx_fn (l1sched_lchan_desc L ?t)")
    case None
    then show ?thesis using start assms(1) by (simp add: l1sched_handle_rx_burst_def)
  next
    case (Some handler)
    show ?thesis
    proof (cases "first_idx (\<lambda>lc. lc_type lc = ?t) ls")
      case None
      then show ?thesis
        using start assms(1) Some by (simp add: l1sched_handle_rx_burst_def l1sched_find_lchan_by_type_def)
    next
      case found: (Some i)
      have i: "i < length ls" "lc_type (ls ! i) = ?t" using first_idx_found [OF found] by blast+
      show ?thesis
      proof (cases "lc_active (ls ! i)")
        case False
        then show ?thesis
          using start assms(1) Some found by (simp add: l1sched_handle_rx_burst_def l1sched_find_lchan_by_type_def)
      next
        case active: True
        have bid: "dl_bid ?row < 4" using row_bids(1) [OF ls(2,3)] desc_rx_idle [OF Some] by blast
        have ready: "rx_ready L handler (view_of s ?tn (ls ! i))"
          using view_of_good [OF assms(1,2) ls(4) i(1)] active Some i(2) by (simp add: rx_ready_def)
        obtain rc v where run: "deliver_burst L mf handler (view_of s ?tn (ls ! i)) (bi\<lparr>bi_bid := dl_bid ?row\<rparr>) = Some (rc, v)"
          "rx_ready L handler v" "same_id (view_of s ?tn (ls ! i)) v" "rc = 0 \<or> rc = - EALREADY \<and> v = view_of s ?tn (ls ! i)"
          using deliver_burst_ok [OF assms(5,6) ls(2,3) ready, of "bi\<lparr>bi_bid := dl_bid ?row\<rparr>"] bid assms(3)
          by (auto simp: bi_wf_def)
        have "l1sched_handle_rx_burst L s bi = Some (rc, put_view ?tn ts i v s)"
          using start Some found active run(1)
          by (simp add: l1sched_handle_rx_burst_def l1sched_find_lchan_by_type_def Let_def)
        moreover have "sched_wf L (put_view ?tn ts i v s)"
          using sched_wf_put_view [OF assms(1,2) ts(1) ls(1) i(1)] run(2,3) by (simp add: rx_ready_def same_id_def)
        moreover have "rc \<noteq> 0 \<Longrightarrow> sc_ts (put_view ?tn ts i v s) = sc_ts s"
          using run(4) upd_nth_same [OF ls(1), of i] ts(1) by (auto simp: list_update_same_conv) (metis list_update_id)
        ultimately show ?thesis using run(3,4) by (auto simp: same_id_def)
      qed
    qed
  qed
qed

section \<open>Pulling a burst\<close>

text \<open>
  What the transmit handlers cannot stand: a packet channel that starts a block while a primitive is
  still pending, and a circuit-switched data channel with a message of the wrong length queued.
\<close>

definition tx_ready :: "nat \<Rightarrow> lchan_view \<Rightarrow> bool" where
  "tx_ready bid v \<longleftrightarrow> (let lc = lv_lchan v in
     (lc_type lc = L1SCHED_PDTCH \<longrightarrow> bid = 0 \<longrightarrow> lc_prim lc = None) \<and>
     (lc_type lc = L1SCHED_TCHF \<longrightarrow> csd_queue_ok (tchf_csd_len (lc_tch_mode lc)) v) \<and>
     (lc_type lc = L1SCHED_TCHH_0 \<or> lc_type lc = L1SCHED_TCHH_1 \<longrightarrow> csd_queue_ok (tchh_csd_len (lc_tch_mode lc)) v))"

lemma desc_tch: "ld_tx_fn (l1sched_lchan_desc L t) = Some TX_TCHF_FN \<Longrightarrow> t = L1SCHED_TCHF"
  "ld_tx_fn (l1sched_lchan_desc L t) = Some TX_TCHH_FN \<Longrightarrow> t = L1SCHED_TCHH_0 \<or> t = L1SCHED_TCHH_1"
  by (cases t; simp)+

lemma tch_no_sacch: "\<not> L1SCHED_CHAN_IS_SACCH L L1SCHED_TCHF" "\<not> L1SCHED_CHAN_IS_SACCH L L1SCHED_TCHH_0"
  "\<not> L1SCHED_CHAN_IS_SACCH L L1SCHED_TCHH_1"
  by (simp_all add: L1SCHED_CHAN_IS_SACCH_def)

lemma call_tx_post:
  assumes "codec_len_ok L" "view_wf L v" "lc_active (lv_lchan v)" "br_wf br" "br_bid br < 4" "tx_ready (br_bid br) v"
    and "handler = TX_RACH_FN \<or> ld_tx_fn (l1sched_lchan_desc L (lc_type (lv_lchan v))) = Some handler"
  shows "tx_post L v br (call_tx L handler v br)"
proof (cases "handler = TX_RACH_FN")
  case True
  then show ?thesis using rach_tx.tx_ok [OF _ assms(2,4)] assms(1) by (simp add: rach_tx_pre_def)
next
  case False
  then have fn: "ld_tx_fn (l1sched_lchan_desc L (lc_type (lv_lchan v))) = Some handler" using assms(7) by blast
  show ?thesis
  proof (cases handler)
    case TX_DATA_FN
    then have "xcch_tx_pre L v br"
      using xcch_tx_buf [OF assms(2,3)] fn assms(1,5) by (auto simp: xcch_tx_pre_def)
    then show ?thesis using xcch_tx.tx_ok [OF _ assms(2,4)] TX_DATA_FN by simp
  next
    case TX_RACH_FN
    then show ?thesis using False by simp
  next
    case TX_PDTCH_FN
    then have "pdtch_tx_pre L v br"
      using pdtch_bufs(2) [OF assms(2,3)] pdtch_buf_size(1) [of L "lc_type (lv_lchan v)"] fn assms(1,5,6)
      by (simp add: xcch_tx_pre_def pdtch_tx_pre_def tx_ready_def Let_def)
    then show ?thesis using pdtch_tx.tx_ok [OF _ assms(2,4)] TX_PDTCH_FN by simp
  next
    case TX_TCHF_FN
    then have "tchf_tx_pre L v br"
      using tchf_bufs(2) [OF assms(2,3)] desc_tch(1) [of L "lc_type (lv_lchan v)"] fn assms(1,5,6)
      by (simp add: tchf_tx_pre_def tx_ready_def Let_def tch_no_sacch)
    then show ?thesis using tchf_tx.tx_ok [OF _ assms(2,4)] TX_TCHF_FN by simp
  next
    case TX_TCHH_FN
    then have "tchh_tx_pre L v br"
      using tchh_bufs(2) [OF assms(2,3)] desc_tch(2) [of L "lc_type (lv_lchan v)"] fn assms(1,5,6)
      by (auto simp: tchh_tx_pre_def tx_ready_def Let_def tch_no_sacch)
    then show ?thesis using tchh_tx.tx_ok [OF _ assms(2,4)] TX_TCHH_FN by simp
  qed
qed

lemma emit_burst_ok:
  assumes "codec_len_ok L" "a5_ok L" "view_wf L v" "lc_active (lv_lchan v)" "br_wf br" "br_bid br < 4" "tx_ready (br_bid br) v"
    and "ld_tx_fn (l1sched_lchan_desc L (lc_type (lv_lchan v))) = Some handler"
  shows "\<exists>br' v'. emit_burst L handler v br = Some (br', v') \<and> view_wf L v' \<and> same_chan v v' \<and> br_wf br' \<and>
    br_fn br' = br_fn br \<and> br_tn br' = br_tn br \<and> br_bid br' = br_bid br \<and>
    (br_burst_len br' = br_burst_len br \<or> br_burst_len br' = GSM_NBITS_NB_GMSK_BURST)"
proof -
  let ?h = "case lc_tx_prims (lv_lchan v) of [] \<Rightarrow> Some handler
     | msg # _ \<Rightarrow> if prim_is_rach (mb_prim msg) then ld_tx_fn (l1sched_lchan_desc L L1SCHED_RACH) else Some handler"
  obtain h where h: "?h = Some h" "h = TX_RACH_FN \<or> h = handler"
    by (cases "lc_tx_prims (lv_lchan v)"; cases "prim_is_rach (mb_prim (hd (lc_tx_prims (lv_lchan v))))") simp_all
  have "tx_post L v br (call_tx L h v br)"
    using h(2) assms(8) by (intro call_tx_post [OF assms(1,3-7)]) auto
  then obtain rc br1 v1 where c: "call_tx L h v br = Some (rc, br1, v1)" "view_wf L v1" "same_chan v v1"
    "br_wf br1" "same_req br br1"
    by (auto simp: tx_post_def split: option.splits)
  have q: "br_burst_len br1 = br_burst_len br \<or> br_burst_len br1 = GSM_NBITS_NB_GMSK_BURST"
    using c(5) by (auto simp: same_req_def)
  obtain b where b: "(if a5_algo (lc_a5 (lv_lchan v1)) \<noteq> 0 then l1sched_a5_burst_enc L (lv_lchan v1) br1 else Some br1)
      = Some (br1\<lparr>br_burst := b\<rparr>)" "br_wf (br1\<lparr>br_burst := b\<rparr>)"
  proof (cases "a5_algo (lc_a5 (lv_lchan v1)) = 0")
    case True
    then show ?thesis using that [of "br_burst br1"] c(4) by simp
  next
    case False
    then show ?thesis using that a5_enc_returns [OF assms(2) c(4), of "lv_lchan v1"] by auto
  qed
  then show ?thesis
    using h(1) c q by (auto simp: emit_burst_def same_req_def)
qed

definition pull_ready :: "l1sched_state \<Rightarrow> burst_req \<Rightarrow> bool" where
  "pull_ready s br \<longleftrightarrow> (case sc_ts s ! br_tn br of None \<Rightarrow> True | Some ts \<Rightarrow>
     case ts_mf_layout ts of None \<Rightarrow> True | Some mf \<Rightarrow>
       let f = mf_frame mf (unat (br_fn br)) in
       list_all (\<lambda>lc. lc_type lc = ul_chan f \<longrightarrow> tx_ready (ul_bid f) (view_of s (br_tn br) lc)) (the (ts_lchans ts)))"


section \<open>A configured scheduler\<close>

text \<open>Timeslot 0 carries a BCCH and CCCH, whose channels activate themselves.\<close>

definition demo_mf :: multiframe where
  "demo_mf = mk_mframe GSM_PCHAN_CCCH 51 0xff M64_BCCH_CCCH frame_bcch"

definition demo_sched :: l1sched_state where
  "demo_sched = set_ts 0 (Some \<lparr>ts_mf_layout = Some demo_mf,
     ts_lchans = Some (map (fresh_lchan toy_lib) (mf_lchans demo_mf))\<rparr>) l1sched_alloc"

lemma demo_mf_layout: "l1sched_mframe_layout (mf_chan_config demo_mf) 0 = Some demo_mf"
  by (simp add: demo_mf_def l1sched_mframe_layout_def layouts_def mk_mframe_def)

lemma demo_sched_wf: "sched_wf toy_lib demo_sched"
  unfolding demo_sched_def
  by (rule sched_wf_set_ts [OF sched_wf_alloc])
    (simp_all add: ts_wf_def demo_mf_layout list_all_iff fresh_lchan_simps comp_def)

lemma demo_sched_slot:
  "sc_ts demo_sched ! 0 = Some \<lparr>ts_mf_layout = Some demo_mf, ts_lchans = Some (map (fresh_lchan toy_lib) (mf_lchans demo_mf))\<rparr>"
  by (simp add: demo_sched_def l1sched_alloc_def)

lemma demo_sched_live: "mf_live demo_sched 0"
  by (simp add: mf_live_def slot_mf_def demo_sched_slot) (simp add: demo_mf_def mk_mframe_def)

theorem rx_burst_safe_witness:
  "\<exists>rc s'. l1sched_handle_rx_burst toy_lib demo_sched (dummy_burst 2 0) = Some (rc, s') \<and> sched_wf toy_lib s'"
proof -
  have b: "bi_tn (dummy_burst 2 0) < 8" "mf_live demo_sched (bi_tn (dummy_burst 2 0))"
    by (simp_all add: dummy_burst_def demo_sched_live)
  show ?thesis
    using rx_burst_safe [OF demo_sched_wf b(1) dummy_burst_wf b(2) decode_ok_toy a5_ok_toy] by blast
qed




end
