(* ===== verification/L1gprs.thy ===== *)
theory L1gprs
  imports Lib_Osmo "HOL-Library.Multiset"
begin

text \<open>
  The GPRS layer 1 state (\<^verbatim>\<open>src/src/shared/l1gprs.c\<close>): the packet channels of the eight timeslots
  with their counts of active and pending TBFs, the two lists of TBFs, the handlers of the
  configuration requests, and the filter for blocks on their way to and from the scheduler. The
  calls of \<^verbatim>\<open>pdch_changed_cb\<close> are collected in \<open>gp_events\<close>, oldest first.
\<close>

section \<open>State\<close>

text \<open>The DL TFI of an uplink TBF is never written: \<^term>\<open>None\<close> is uninitialised memory, which may be copied
  but not used.\<close>

record tbf_pending_req =
  pr_uplink :: bool
  pr_ref :: u8
  pr_slotmask :: u8
  pr_dl_tfi :: "u8 option"
  pr_start_fn :: u32

record l1gprs_tbf =
  tb_uplink :: bool
  tb_ref :: u8
  tb_slotmask :: u8
  tb_dl_tfi :: "u8 option"

record l1gprs_pdch =
  pd_tn :: nat
  pd_ul :: u8
  pd_dl :: u8
  pd_tfi_mask :: u32
  pd_pul :: u8
  pd_pdl :: u8

record l1gprs_state =
  gp_pdch :: "l1gprs_pdch list"
  gp_tbfs :: "l1gprs_tbf list"
  gp_pending :: "tbf_pending_req list"
  gp_events :: "(nat \<times> bool) list"

text \<open>The counts are promoted to \<^verbatim>\<open>int\<close> before they are added.\<close>

definition use_count :: "l1gprs_pdch \<Rightarrow> nat" where
  "use_count p = unat (pd_ul p) + unat (pd_dl p) + unat (pd_pul p) + unat (pd_pdl p)"

definition l1gprs_state_alloc :: l1gprs_state where
  "l1gprs_state_alloc = \<lparr>gp_pdch = map (\<lambda>tn. \<lparr>pd_tn = tn, pd_ul = 0, pd_dl = 0, pd_tfi_mask = 0, pd_pul = 0, pd_pdl = 0\<rparr>) [0..<8],
     gp_tbfs = [], gp_pending = [], gp_events = []\<rparr>"

text \<open>\<^verbatim>\<open>_l1gprs_find_tbf()\<close>: the first TBF of the list with the direction and reference.\<close>

fun find_tbf :: "bool \<Rightarrow> u8 \<Rightarrow> l1gprs_tbf list \<Rightarrow> nat option" where
  "find_tbf uplink ref [] = None"
| "find_tbf uplink ref (t # ts) =
     (if tb_uplink t = uplink \<and> tb_ref t = ref then Some 0 else map_option Suc (find_tbf uplink ref ts))"

section \<open>Walking the packet channels\<close>

text \<open>
  Every operation visits the packet channels in order and may change each and call back. A step
  that trips an assertion, or uses an uninitialised DL TFI, is \<^term>\<open>None\<close>.
\<close>

fun walk :: "(l1gprs_pdch \<Rightarrow> (l1gprs_pdch \<times> bool list) option) \<Rightarrow> l1gprs_pdch list \<Rightarrow>
    (l1gprs_pdch list \<times> (nat \<times> bool) list) option" where
  "walk f [] = Some ([], [])"
| "walk f (p # ps) = do { (p', es) \<leftarrow> f p; (ps', fs) \<leftarrow> walk f ps; Some (p' # ps', map (Pair (pd_tn p)) es @ fs) }"

definition walk_state :: "(l1gprs_pdch \<Rightarrow> (l1gprs_pdch \<times> bool list) option) \<Rightarrow> l1gprs_state \<Rightarrow> l1gprs_state option" where
  "walk_state f g = do { (ps, es) \<leftarrow> walk f (gp_pdch g); Some (g\<lparr>gp_pdch := ps, gp_events := gp_events g @ es\<rparr>) }"

definition tfi_bit :: "u8 option \<Rightarrow> u32 option" where
  "tfi_bit tfi = do { t \<leftarrow> tfi; if unat t < 32 then Some (push_bit (unat t) 1) else None }"

definition link_tbf :: "l1gprs_tbf \<Rightarrow> l1gprs_pdch \<Rightarrow> (l1gprs_pdch \<times> bool list) option" where
  "link_tbf t p = do {
     p \<leftarrow> (if tb_uplink t then Some (p\<lparr>pd_ul := pd_ul p + 1\<rparr>)
          else do { m \<leftarrow> tfi_bit (tb_dl_tfi t); Some (p\<lparr>pd_dl := pd_dl p + 1, pd_tfi_mask := pd_tfi_mask p OR m\<rparr>) });
     Some (p, if use_count p = 1 then [True] else []) }"

definition unlink_tbf :: "l1gprs_tbf \<Rightarrow> l1gprs_pdch \<Rightarrow> (l1gprs_pdch \<times> bool list) option" where
  "unlink_tbf t p = do {
     p \<leftarrow> (if tb_uplink t then if pd_ul p = 0 then None else Some (p\<lparr>pd_ul := pd_ul p - 1\<rparr>)
          else if pd_dl p = 0 then None
          else do { m \<leftarrow> tfi_bit (tb_dl_tfi t);
                    Some (p\<lparr>pd_dl := pd_dl p - 1, pd_tfi_mask := pd_tfi_mask p AND NOT m\<rparr>) });
     Some (p, if use_count p = 0 then [False] else []) }"

definition on_slots :: "u8 \<Rightarrow> (l1gprs_pdch \<Rightarrow> (l1gprs_pdch \<times> bool list) option) \<Rightarrow> l1gprs_pdch \<Rightarrow>
    (l1gprs_pdch \<times> bool list) option" where
  "on_slots slots f p = (if bit slots (pd_tn p) then f p else Some (p, []))"

definition retarget :: "l1gprs_tbf \<Rightarrow> u8 \<Rightarrow> l1gprs_pdch \<Rightarrow> (l1gprs_pdch \<times> bool list) option" where
  "retarget t slotmask p = (if bit (tb_slotmask t) (pd_tn p) = bit slotmask (pd_tn p) then Some (p, [])
     else if bit (tb_slotmask t) (pd_tn p) then unlink_tbf t p else link_tbf t p)"

section \<open>Operations on TBFs\<close>

definition l1gprs_register_tbf :: "l1gprs_state \<Rightarrow> l1gprs_tbf \<Rightarrow> l1gprs_state option" where
  "l1gprs_register_tbf g t =
     (if tb_slotmask t = 0 then None
      else do { g \<leftarrow> walk_state (on_slots (tb_slotmask t) (link_tbf t)) g; Some (g\<lparr>gp_tbfs := gp_tbfs g @ [t]\<rparr>) })"

definition l1gprs_update_tbf :: "l1gprs_state \<Rightarrow> nat \<Rightarrow> u8 \<Rightarrow> l1gprs_state option" where
  "l1gprs_update_tbf g i slotmask =
     (let t = gp_tbfs g ! i in
      if tb_slotmask t = 0 \<or> slotmask = 0 then None
      else if tb_slotmask t = slotmask then Some g
      else do {
        g \<leftarrow> walk_state (retarget t slotmask) g;
        Some (g\<lparr>gp_tbfs := (gp_tbfs g)[i := t\<lparr>tb_slotmask := slotmask\<rparr>]\<rparr>) })"

definition l1gprs_unregister_tbf :: "l1gprs_state \<Rightarrow> nat \<Rightarrow> l1gprs_state option" where
  "l1gprs_unregister_tbf g i =
     (let t = gp_tbfs g ! i in
      if tb_slotmask t = 0 then None
      else do { g \<leftarrow> walk_state (on_slots (tb_slotmask t) (unlink_tbf t)) g;
                Some (g\<lparr>gp_tbfs := take i (gp_tbfs g) @ drop (Suc i) (gp_tbfs g)\<rparr>) })"

definition link_pending :: "bool \<Rightarrow> l1gprs_pdch \<Rightarrow> (l1gprs_pdch \<times> bool list) option" where
  "link_pending uplink p =
     (let p = (if uplink then p\<lparr>pd_pul := pd_pul p + 1\<rparr> else p\<lparr>pd_pdl := pd_pdl p + 1\<rparr>) in
      Some (p, if use_count p = 1 then [True] else []))"

definition unlink_pending :: "bool \<Rightarrow> l1gprs_pdch \<Rightarrow> (l1gprs_pdch \<times> bool list) option" where
  "unlink_pending uplink p =
     (if uplink then if pd_pul p = 0 then None else Some (p\<lparr>pd_pul := pd_pul p - 1\<rparr>, [])
      else if pd_pdl p = 0 then None else Some (p\<lparr>pd_pdl := pd_pdl p - 1\<rparr>, []))"

definition l1gprs_add_tbf_pending_req :: "l1gprs_state \<Rightarrow> tbf_pending_req \<Rightarrow> l1gprs_state option" where
  "l1gprs_add_tbf_pending_req g r =
     (if pr_slotmask r = 0 then None
      else do { g \<leftarrow> walk_state (on_slots (pr_slotmask r) (link_pending (pr_uplink r))) g;
                Some (g\<lparr>gp_pending := gp_pending g @ [r]\<rparr>) })"

text \<open>\<^verbatim>\<open>llist_del\<close> takes out the entry the pointer points to. The caller goes through the list from its
  front and treats equal requests alike, so it is the first equal entry.\<close>

definition l1gprs_remove_tbf_pending_req :: "l1gprs_state \<Rightarrow> tbf_pending_req \<Rightarrow> l1gprs_state option" where
  "l1gprs_remove_tbf_pending_req g r =
     (if pr_slotmask r = 0 then None
      else do { g \<leftarrow> walk_state (on_slots (pr_slotmask r) (unlink_pending (pr_uplink r))) g;
                Some (g\<lparr>gp_pending := remove1 r (gp_pending g)\<rparr>) })"

definition activate_pending :: "l1gprs_state \<Rightarrow> tbf_pending_req \<Rightarrow> l1gprs_state option" where
  "activate_pending g r = do {
     g \<leftarrow> l1gprs_remove_tbf_pending_req g r;
     case find_tbf (pr_uplink r) (pr_ref r) (gp_tbfs g) of
       Some i \<Rightarrow> do {
         g \<leftarrow> l1gprs_update_tbf g i (pr_slotmask r);
         Some (g\<lparr>gp_tbfs := (gp_tbfs g)[i := (gp_tbfs g ! i)\<lparr>tb_dl_tfi := pr_dl_tfi r\<rparr>]\<rparr>) }
     | None \<Rightarrow> l1gprs_register_tbf g \<lparr>tb_uplink = pr_uplink r, tb_ref = pr_ref r, tb_slotmask = pr_slotmask r,
         tb_dl_tfi = pr_dl_tfi r\<rparr> }"

fun check_pending :: "libosmo \<Rightarrow> u32 \<Rightarrow> tbf_pending_req list \<Rightarrow> l1gprs_state \<Rightarrow> l1gprs_state option" where
  "check_pending L fn [] g = Some g"
| "check_pending L fn (r # rs) g =
     (if gsm0502_fncmp L fn (pr_start_fn r) < 0 then check_pending L fn rs g
      else do { g \<leftarrow> activate_pending g r; check_pending L fn rs g })"

definition l1gprs_check_pending_tbfs :: "libosmo \<Rightarrow> l1gprs_state \<Rightarrow> u32 \<Rightarrow> l1gprs_state option" where
  "l1gprs_check_pending_tbfs L g fn = check_pending L fn (gp_pending g) g"

section \<open>Configuration requests\<close>

abbreviation (input) TDMA_FN_INVALID :: u32 where "TDMA_FN_INVALID \<equiv> 0xffffffff"

text \<open>
  What both handlers do with the fields of a request. An existing downlink TBF keeps its old TFI
  when it is reconfigured at once: the code only looks at the new one when it allocates.
\<close>

definition tbf_cfg :: "l1gprs_state \<Rightarrow> bool \<Rightarrow> u8 \<Rightarrow> u8 \<Rightarrow> u8 option \<Rightarrow> u32 \<Rightarrow> (int \<times> l1gprs_state) option" where
  "tbf_cfg g uplink ref slotmask tfi start_fn =
     (if slotmask \<noteq> 0 then
        if start_fn \<noteq> TDMA_FN_INVALID then do {
          g \<leftarrow> l1gprs_add_tbf_pending_req g \<lparr>pr_uplink = uplink, pr_ref = ref, pr_slotmask = slotmask,
                 pr_dl_tfi = tfi, pr_start_fn = start_fn\<rparr>;
          Some (0, g) }
        else (case find_tbf uplink ref (gp_tbfs g) of
            Some i \<Rightarrow> do { g \<leftarrow> l1gprs_update_tbf g i slotmask; Some (0, g) }
          | None \<Rightarrow> do {
              g \<leftarrow> l1gprs_register_tbf g \<lparr>tb_uplink = uplink, tb_ref = ref, tb_slotmask = slotmask, tb_dl_tfi = tfi\<rparr>;
              Some (0, g) })
      else (case find_tbf uplink ref (gp_tbfs g) of
            None \<Rightarrow> Some (- ENOENT, g)
          | Some i \<Rightarrow> do { g \<leftarrow> l1gprs_unregister_tbf g i; Some (0, g) }))"

definition l1gprs_handle_ul_tbf_cfg_req :: "l1gprs_state \<Rightarrow> u8 list \<Rightarrow> (int \<times> l1gprs_state) option" where
  "l1gprs_handle_ul_tbf_cfg_req g msg =
     (if length msg < 8 then Some (- EINVAL, g)
      else tbf_cfg g True (octet 0 msg) (octet 1 msg) None (be32 4 msg))"

definition l1gprs_handle_dl_tbf_cfg_req :: "l1gprs_state \<Rightarrow> u8 list \<Rightarrow> (int \<times> l1gprs_state) option" where
  "l1gprs_handle_dl_tbf_cfg_req g msg =
     (if length msg < 8 then Some (- EINVAL, g)
      else if octet 2 msg > 31 then Some (- EINVAL, g)
      else tbf_cfg g False (octet 0 msg) (octet 1 msg) (Some (octet 2 msg)) (be32 4 msg))"

section \<open>Blocks\<close>

record ul_block_req =
  ub_fn :: u32
  ub_tn :: u8
  ub_data :: "u8 list"

record dl_block_ind =
  db_fn :: u32
  db_tn :: u8
  db_ber10k :: u16
  db_ci_cb :: u16
  db_rx_lev :: u8
  db_data :: "u8 list"

definition l1gprs_handle_ul_block_req :: "l1gprs_state \<Rightarrow> u8 list \<Rightarrow> (int \<times> ul_block_req option) option" where
  "l1gprs_handle_ul_block_req g msg =
     (if length msg < 8 then Some (- EINVAL, None)
      else let tn = octet 4 msg in
        if unat tn \<ge> length (gp_pdch g) then Some (- EINVAL, None)
        else let p = gp_pdch g ! unat tn in
          if pd_ul p = 0 \<and> pd_dl p = 0 then Some (- EINVAL, None)
          else Some (0, Some \<lparr>ub_fn = be32 0 msg, ub_tn = tn, ub_data = drop 8 msg\<rparr>))"

text \<open>A message to L1CTL: the header and, checked against the 224 octets of room, what is put after it.\<close>

definition l1gprs_l1ctl_msgb :: "u8 \<Rightarrow> u8 list \<Rightarrow> u8 list option" where
  "l1gprs_l1ctl_msgb msg_type payload =
     (if 4 + length payload \<le> 256 - 32 then Some ([msg_type, 0, 0, 0] @ payload) else None)"

definition no_tbfs :: "l1gprs_pdch \<Rightarrow> bool" where
  "no_tbfs p \<longleftrightarrow> unat (pd_ul p) + unat (pd_dl p) = 0"

definition l1gprs_handle_ul_block_cnf :: "l1gprs_state \<Rightarrow> u32 \<Rightarrow> u8 \<Rightarrow> u8 list \<Rightarrow> u8 list option option" where
  "l1gprs_handle_ul_block_cnf g fn tn data =
     do { p \<leftarrow> index_at (gp_pdch g) (unat tn);
          if no_tbfs p then Some None
          else do { m \<leftarrow> l1gprs_l1ctl_msgb 0x26 (be32_octets fn @ [tn] @ data); Some (Some m) } }"

definition BLOCK_IND_IS_PTCCH :: "u32 \<Rightarrow> bool" where
  "BLOCK_IND_IS_PTCCH fn \<longleftrightarrow> unat fn mod 104 = 12"

definition l1gprs_pdch_filter_dl_block :: "l1gprs_pdch \<Rightarrow> u8 list \<Rightarrow> bool" where
  "l1gprs_pdch_filter_dl_block p data =
     (let block_type = drop_bit 6 (octet 0 data);
          wanted = (\<lambda>o'. bit (pd_tfi_mask p) (unat (drop_bit 1 o' AND 0x1f))) in
      if block_type = 0 then wanted (octet 1 data)
      else if block_type = 2 then wanted (octet 2 data)
      else block_type = 1)"

definition dl_block_msg :: "dl_block_ind \<Rightarrow> u8 \<Rightarrow> u8 list \<Rightarrow> u8 list option" where
  "dl_block_msg ind usf payload =
     l1gprs_l1ctl_msgb 0x23 (be32_octets (db_fn ind) @ [db_tn ind, 0, 0, 0] @ be16_octets (db_ber10k ind) @
       be16_octets (db_ci_cb ind) @ [db_rx_lev ind, usf] @ payload)"

text \<open>The message and the USF stored through the pointer of the caller (\<^term>\<open>usf\<close> before the call).\<close>

definition l1gprs_handle_dl_block_ind :: "libosmo \<Rightarrow> l1gprs_state \<Rightarrow> dl_block_ind \<Rightarrow> u8 \<Rightarrow>
    (u8 list option \<times> u8 \<times> l1gprs_state) option" where
  "l1gprs_handle_dl_block_ind L g ind usf =
     (if unat (db_tn ind) \<ge> length (gp_pdch g) then Some (None, usf, g)
      else do {
        g \<leftarrow> l1gprs_check_pending_tbfs L g (db_fn ind);
        let p = gp_pdch g ! unat (db_tn ind); data = db_data ind in
        if no_tbfs p then Some (None, usf, g)
        else if data = [] then do { m \<leftarrow> dl_block_msg ind 0xff []; Some (Some m, usf, g) }
        else if BLOCK_IND_IS_PTCCH (db_fn ind) then do { m \<leftarrow> dl_block_msg ind 0xff data; Some (Some m, usf, g) }
        else let cs = osmo_gprs_dl_cs_by_block_bytes L (length data) in
          if cs = OSMO_GPRS_CS1 \<or> cs = OSMO_GPRS_CS2 \<or> cs = OSMO_GPRS_CS3 \<or> cs = OSMO_GPRS_CS4 then do {
            let usf = octet 0 data AND 0x07;
            m \<leftarrow> dl_block_msg ind usf (if l1gprs_pdch_filter_dl_block p data then data else []);
            Some (Some m, usf, g) }
          else do { m \<leftarrow> dl_block_msg ind 0xff []; Some (Some m, usf, g) } })"

definition l1gprs_handle_rts_ind :: "libosmo \<Rightarrow> l1gprs_state \<Rightarrow> u32 \<Rightarrow> u8 \<Rightarrow> u8 \<Rightarrow> (u8 list option \<times> l1gprs_state) option" where
  "l1gprs_handle_rts_ind L g fn tn usf =
     (if unat tn \<ge> length (gp_pdch g) then None
      else do {
        g \<leftarrow> l1gprs_check_pending_tbfs L g fn;
        if no_tbfs (gp_pdch g ! unat tn) then Some (None, g)
        else do { m \<leftarrow> l1gprs_l1ctl_msgb 0x25 (be32_octets fn @ [tn, usf]); Some (Some m, g) } })"

section \<open>What the counts and the callback mean\<close>

text \<open>
  \<open>told tn\<close> is what the callback last said about a timeslot. The counts of a packet channel are those
  of the TBFs of the lists that use it, and the callback has told whether there are any.
\<close>

definition told_from :: "bool \<Rightarrow> nat \<Rightarrow> (nat \<times> bool) list \<Rightarrow> bool" where
  "told_from s tn evs = fold (\<lambda>(k, a) s. if k = tn then a else s) evs s"

abbreviation told :: "nat \<Rightarrow> (nat \<times> bool) list \<Rightarrow> bool" where
  "told \<equiv> told_from False"

definition act_after :: "bool \<Rightarrow> bool list \<Rightarrow> bool" where
  "act_after s es = fold (\<lambda>a s. a) es s"

lemma act_after_simps [simp]: "act_after s [] = s" "act_after s (es @ [a]) = a" "act_after s [a] = a"
  by (simp_all add: act_after_def)

lemma told_append: "told_from s tn (xs @ ys) = told_from (told_from s tn xs) tn ys"
  by (simp add: told_from_def)

lemma told_own: "told_from s tn (map (Pair tn) es) = act_after s es"
  by (induction es arbitrary: s) (simp_all add: told_from_def act_after_def)

lemma told_other: "k \<noteq> tn \<Longrightarrow> told_from s tn (map (Pair k) es) = s"
  by (induction es) (simp_all add: told_from_def)

definition cnt :: "('a \<Rightarrow> bool) \<Rightarrow> 'a list \<Rightarrow> nat" where
  "cnt P xs = length (filter P xs)"

lemma cnt_simps [simp]: "cnt P [] = 0" "cnt P (x # xs) = (if P x then Suc (cnt P xs) else cnt P xs)"
  "cnt P (xs @ ys) = cnt P xs + cnt P ys"
  by (simp_all add: cnt_def)

lemma cnt_le: "cnt P xs \<le> length xs"
  by (simp add: cnt_def)

lemma cnt_split: "i < length xs \<Longrightarrow>
    cnt P xs = cnt P (take i xs) + (if P (xs ! i) then 1 else 0) + cnt P (drop (Suc i) xs)"
  by (subst (1) id_take_nth_drop [of i xs]) simp_all

lemma cnt_update: "i < length xs \<Longrightarrow>
    cnt P (xs[i := x]) + (if P (xs ! i) then 1 else 0) = cnt P xs + (if P x then 1 else 0)"
  using cnt_split [of i xs P] by (simp add: upd_conv_take_nth_drop)

lemma cnt_delete: "i < length xs \<Longrightarrow>
    cnt P (take i xs @ drop (Suc i) xs) + (if P (xs ! i) then 1 else 0) = cnt P xs"
  using cnt_split [of i xs P] by simp

lemma cnt_remove1: "x \<in> set xs \<Longrightarrow> cnt P (remove1 x xs) + (if P x then 1 else 0) = cnt P xs"
  by (induction xs) auto

lemma cnt_pos: "0 < cnt P xs \<longleftrightarrow> (\<exists>x \<in> set xs. P x)"
  by (induction xs) auto

definition on_slot :: "bool \<Rightarrow> nat \<Rightarrow> l1gprs_tbf \<Rightarrow> bool" where
  "on_slot uplink tn t \<longleftrightarrow> tb_uplink t = uplink \<and> bit (tb_slotmask t) tn"

definition due_on_slot :: "bool \<Rightarrow> nat \<Rightarrow> tbf_pending_req \<Rightarrow> bool" where
  "due_on_slot uplink tn r \<longleftrightarrow> pr_uplink r = uplink \<and> bit (pr_slotmask r) tn"

definition pd_ok :: "l1gprs_tbf list \<Rightarrow> tbf_pending_req list \<Rightarrow> l1gprs_pdch \<Rightarrow> bool" where
  "pd_ok ts rs p \<longleftrightarrow> unat (pd_ul p) = cnt (on_slot True (pd_tn p)) ts \<and> unat (pd_dl p) = cnt (on_slot False (pd_tn p)) ts \<and>
     unat (pd_pul p) = cnt (due_on_slot True (pd_tn p)) rs \<and> unat (pd_pdl p) = cnt (due_on_slot False (pd_tn p)) rs"

definition tfi_ok :: "bool \<Rightarrow> u8 option \<Rightarrow> bool" where
  "tfi_ok uplink tfi \<longleftrightarrow> uplink \<or> (case tfi of None \<Rightarrow> False | Some t \<Rightarrow> unat t < 32)"

definition tbf_ok :: "l1gprs_tbf \<Rightarrow> bool" where
  "tbf_ok t \<longleftrightarrow> tb_slotmask t \<noteq> 0 \<and> tfi_ok (tb_uplink t) (tb_dl_tfi t)"

definition pending_ok :: "tbf_pending_req \<Rightarrow> bool" where
  "pending_ok r \<longleftrightarrow> pr_slotmask r \<noteq> 0 \<and> tfi_ok (pr_uplink r) (pr_dl_tfi r)"

text \<open>The invariant is parametric in what is known of the callback.\<close>

definition gp_core :: "(l1gprs_pdch \<Rightarrow> bool \<Rightarrow> bool) \<Rightarrow> l1gprs_tbf list \<Rightarrow> tbf_pending_req list \<Rightarrow> l1gprs_state \<Rightarrow> bool" where
  "gp_core W ts rs g \<longleftrightarrow> map pd_tn (gp_pdch g) = [0..<8] \<and> list_all (\<lambda>e. fst e < 8) (gp_events g) \<and>
     list_all (\<lambda>p. pd_ok ts rs p \<and> W p (told (pd_tn p) (gp_events g))) (gp_pdch g)"

definition told_right :: "l1gprs_pdch \<Rightarrow> bool \<Rightarrow> bool" where
  "told_right p s \<longleftrightarrow> s = (0 < use_count p)"

definition told_but :: "u8 \<Rightarrow> l1gprs_pdch \<Rightarrow> bool \<Rightarrow> bool" where
  "told_but slots p s \<longleftrightarrow> (if bit slots (pd_tn p) then s else told_right p s)"

definition gprs_wf :: "l1gprs_state \<Rightarrow> bool" where
  "gprs_wf g \<longleftrightarrow> gp_core told_right (gp_tbfs g) (gp_pending g) g \<and> list_all tbf_ok (gp_tbfs g) \<and>
     list_all pending_ok (gp_pending g)"

lemma walk_ok:
  assumes "distinct (map pd_tn ps)"
    and "\<And>p. p \<in> set ps \<Longrightarrow> \<exists>p' es. f p = Some (p', es) \<and> pd_tn p' = pd_tn p \<and> Q p es p'"
  shows "\<exists>ps' new. walk f ps = Some (ps', new) \<and> map pd_tn ps' = map pd_tn ps \<and>
    list_all2 (\<lambda>p p'. \<exists>es. Q p es p' \<and> (\<forall>s. told_from s (pd_tn p) new = act_after s es)) ps ps' \<and>
    (\<forall>tn s. tn \<notin> pd_tn ` set ps \<longrightarrow> told_from s tn new = s)"
  using assms
proof (induction ps)
  case Nil
  then show ?case by (simp add: told_from_def)
next
  case (Cons p ps)
  obtain p' es where p': "f p = Some (p', es)" "pd_tn p' = pd_tn p" "Q p es p'" using Cons.prems(2) [of p] by auto
  obtain ps' new where r: "walk f ps = Some (ps', new)" "map pd_tn ps' = map pd_tn ps"
    "list_all2 (\<lambda>p p'. \<exists>es. Q p es p' \<and> (\<forall>s. told_from s (pd_tn p) new = act_after s es)) ps ps'"
    "\<forall>tn s. tn \<notin> pd_tn ` set ps \<longrightarrow> told_from s tn new = s"
    using Cons by (auto simp: image_iff)
  let ?new = "map (Pair (pd_tn p)) es @ new"
  have own: "told_from s (pd_tn p) ?new = act_after s es" for s
    using r(4) Cons.prems(1) by (simp add: told_append told_own)
  have other: "told_from s (pd_tn q) ?new = told_from s (pd_tn q) new" if "q \<in> set ps" for q s
    using that Cons.prems(1) by (auto simp: told_append told_other image_iff)
  have "list_all2 (\<lambda>p p'. \<exists>es. Q p es p' \<and> (\<forall>s. told_from s (pd_tn p) ?new = act_after s es)) ps ps'"
    using r(3) by (rule list.rel_mono_strong) (auto simp: other)
  then show ?case
    using p' r own by (auto simp: told_append told_other)
qed

lemma walk_events: "walk f ps = Some (ps', new) \<Longrightarrow> e \<in> set new \<Longrightarrow> fst e \<in> pd_tn ` set ps"
  by (induction ps arbitrary: ps' new) auto

lemma walk_state_core:
  assumes "gp_core W ts rs g"
    and "\<And>p s. pd_tn p < 8 \<Longrightarrow> pd_ok ts rs p \<Longrightarrow> W p s \<Longrightarrow> \<exists>p' es. f p = Some (p', es) \<and> pd_tn p' = pd_tn p \<and>
      pd_ok ts' rs' p' \<and> W' p' (act_after s es)"
  shows "\<exists>g'. walk_state f g = Some g' \<and> gp_core W' ts' rs' g' \<and> gp_tbfs g' = gp_tbfs g \<and> gp_pending g' = gp_pending g"
proof -
  let ?Q = "\<lambda>p es p'. pd_ok ts' rs' p' \<and> W' p' (act_after (told (pd_tn p) (gp_events g)) es)"
  have tns: "map pd_tn (gp_pdch g) = [0..<8]" using assms(1) by (simp add: gp_core_def)
  then have d: "distinct (map pd_tn (gp_pdch g))" by simp
  have lt: "p \<in> set (gp_pdch g) \<Longrightarrow> pd_tn p < 8" for p
    using tns by (metis atLeastLessThan_iff list.set_map imageI set_upt)
  obtain ps' new where w: "walk f (gp_pdch g) = Some (ps', new)" "map pd_tn ps' = map pd_tn (gp_pdch g)"
    "list_all2 (\<lambda>p p'. \<exists>es. ?Q p es p' \<and> (\<forall>s. told_from s (pd_tn p) new = act_after s es)) (gp_pdch g) ps'"
    using walk_ok [OF d, of f ?Q] assms lt unfolding gp_core_def list_all_iff by blast
  have "list_all (\<lambda>p. pd_ok ts' rs' p \<and> W' p (told (pd_tn p) (gp_events g @ new))) ps'"
    unfolding list_all_length
  proof (intro allI impI)
    fix i assume i: "i < length ps'"
    have len: "length ps' = length (gp_pdch g)" using w(3) by (simp add: list_all2_lengthD)
    then obtain es where "?Q (gp_pdch g ! i) es (ps' ! i)" "\<forall>s. told_from s (pd_tn (gp_pdch g ! i)) new = act_after s es"
      using list_all2_nthD2 [OF w(3) i] by blast
    moreover have "pd_tn (ps' ! i) = pd_tn (gp_pdch g ! i)" using w(2) i len by (metis nth_map)
    ultimately show "pd_ok ts' rs' (ps' ! i) \<and> W' (ps' ! i) (told (pd_tn (ps' ! i)) (gp_events g @ new))"
      by (simp add: told_append)
  qed
  moreover have "list_all (\<lambda>e. fst e < 8) new" using walk_events [OF w(1)] lt by (fastforce simp: list_all_iff)
  ultimately show ?thesis
    using w(1,2) tns assms(1) by (simp add: walk_state_def gp_core_def)
qed

section \<open>Each step on a packet channel\<close>

lemma inc8: "unat (x :: u8) < 255 \<Longrightarrow> unat (x + 1) = Suc (unat x)"
  by (simp add: unat_word_ariths)

lemma dec8: "(x :: u8) \<noteq> 0 \<Longrightarrow> unat (x - 1) = unat x - 1"
  by (rule unat_minus_one)

lemma tfi_bit_ok: "tfi_ok False tfi \<Longrightarrow> \<exists>m. tfi_bit tfi = Some m"
  by (auto simp: tfi_ok_def tfi_bit_def split: option.splits)

lemma link_tbf_ok:
  assumes "tfi_ok (tb_uplink t) (tb_dl_tfi t)" "unat (pd_ul p) < 255" "unat (pd_dl p) < 255"
  shows "\<exists>p'. link_tbf t p = Some (p', if use_count p = 0 then [True] else []) \<and> pd_tn p' = pd_tn p \<and>
    unat (pd_ul p') = unat (pd_ul p) + (if tb_uplink t then 1 else 0) \<and>
    unat (pd_dl p') = unat (pd_dl p) + (if tb_uplink t then 0 else 1) \<and>
    pd_pul p' = pd_pul p \<and> pd_pdl p' = pd_pdl p"
proof (cases "tb_uplink t")
  case True
  then show ?thesis using assms by (simp add: link_tbf_def use_count_def inc8)
next
  case False
  then obtain m where "tfi_bit (tb_dl_tfi t) = Some m" using assms(1) tfi_bit_ok by auto
  then show ?thesis using False assms by (simp add: link_tbf_def use_count_def inc8)
qed

lemma unlink_tbf_ok:
  assumes "tfi_ok (tb_uplink t) (tb_dl_tfi t)" "0 < unat (if tb_uplink t then pd_ul p else pd_dl p)"
  shows "\<exists>p'. unlink_tbf t p = Some (p', if use_count p = 1 then [False] else []) \<and> pd_tn p' = pd_tn p \<and>
    unat (pd_ul p') = unat (pd_ul p) - (if tb_uplink t then 1 else 0) \<and>
    unat (pd_dl p') = unat (pd_dl p) - (if tb_uplink t then 0 else 1) \<and>
    pd_pul p' = pd_pul p \<and> pd_pdl p' = pd_pdl p"
proof (cases "tb_uplink t")
  case True
  then have "pd_ul p \<noteq> 0" using assms(2) by auto
  then show ?thesis using True assms by (simp add: unlink_tbf_def use_count_def dec8)
next
  case False
  then obtain m where "tfi_bit (tb_dl_tfi t) = Some m" using assms(1) tfi_bit_ok by auto
  moreover have "pd_dl p \<noteq> 0" using assms(2) False by auto
  ultimately show ?thesis using False assms by (simp add: unlink_tbf_def use_count_def dec8)
qed

lemma link_pending_ok:
  assumes "unat (pd_pul p) < 255" "unat (pd_pdl p) < 255"
  shows "\<exists>p'. link_pending up p = Some (p', if use_count p = 0 then [True] else []) \<and> pd_tn p' = pd_tn p \<and>
    pd_ul p' = pd_ul p \<and> pd_dl p' = pd_dl p \<and>
    unat (pd_pul p') = unat (pd_pul p) + (if up then 1 else 0) \<and> unat (pd_pdl p') = unat (pd_pdl p) + (if up then 0 else 1)"
  using assms by (simp add: link_pending_def use_count_def inc8 Let_def)

lemma unlink_pending_ok:
  assumes "0 < unat (if up then pd_pul p else pd_pdl p)"
  shows "\<exists>p'. unlink_pending up p = Some (p', []) \<and> pd_tn p' = pd_tn p \<and> pd_ul p' = pd_ul p \<and> pd_dl p' = pd_dl p \<and>
    unat (pd_pul p') = unat (pd_pul p) - (if up then 1 else 0) \<and> unat (pd_pdl p') = unat (pd_pdl p) - (if up then 0 else 1)"
proof -
  have "(if up then pd_pul p else pd_pdl p) \<noteq> 0" using assms by auto
  then show ?thesis by (simp add: unlink_pending_def dec8 split: if_splits)
qed

lemma pd_ok_bounds:
  assumes "pd_ok ts rs p"
  shows "unat (pd_ul p) \<le> length ts" "unat (pd_dl p) \<le> length ts" "unat (pd_pul p) \<le> length rs" "unat (pd_pdl p) \<le> length rs"
  using assms by (simp_all add: pd_ok_def cnt_le)

text \<open>Registering, with the callback right everywhere or behind on the slots of the TBF.\<close>

lemma link_slots:
  assumes "pd_ok ts rs p" "tfi_ok (tb_uplink t) (tb_dl_tfi t)" "length ts < 255" "told_but (tb_slotmask t) p s"
  shows "\<exists>p' es. on_slots (tb_slotmask t) (link_tbf t) p = Some (p', es) \<and> pd_tn p' = pd_tn p \<and>
    pd_ok (ts @ [t]) rs p' \<and> told_right p' (act_after s es)"
proof (cases "bit (tb_slotmask t) (pd_tn p)")
  case False
  then show ?thesis using assms by (simp add: on_slots_def pd_ok_def on_slot_def told_but_def)
next
  case True
  obtain p' where "link_tbf t p = Some (p', if use_count p = 0 then [True] else [])" "pd_tn p' = pd_tn p"
    "unat (pd_ul p') = unat (pd_ul p) + (if tb_uplink t then 1 else 0)"
    "unat (pd_dl p') = unat (pd_dl p) + (if tb_uplink t then 0 else 1)"
    "pd_pul p' = pd_pul p" "pd_pdl p' = pd_pdl p"
    using link_tbf_ok [OF assms(2), of p] pd_ok_bounds [OF assms(1)] assms(3) by auto
  then show ?thesis
    using True assms by (auto simp: on_slots_def pd_ok_def on_slot_def told_but_def told_right_def use_count_def)
qed

lemma told_right_but: "told_right p s \<Longrightarrow> bit slots (pd_tn p) \<Longrightarrow> told_but slots p s \<longleftrightarrow> 0 < use_count p"
  by (simp add: told_right_def told_but_def)

lemma link_slots_right:
  assumes "pd_ok ts rs p" "tfi_ok (tb_uplink t) (tb_dl_tfi t)" "length ts < 255" "told_right p s"
  shows "\<exists>p' es. on_slots (tb_slotmask t) (link_tbf t) p = Some (p', es) \<and> pd_tn p' = pd_tn p \<and>
    pd_ok (ts @ [t]) rs p' \<and> told_right p' (act_after s es)"
proof (cases "bit (tb_slotmask t) (pd_tn p)")
  case False
  then show ?thesis using assms by (simp add: on_slots_def pd_ok_def on_slot_def)
next
  case True
  obtain p' where "link_tbf t p = Some (p', if use_count p = 0 then [True] else [])" "pd_tn p' = pd_tn p"
    "unat (pd_ul p') = unat (pd_ul p) + (if tb_uplink t then 1 else 0)"
    "unat (pd_dl p') = unat (pd_dl p) + (if tb_uplink t then 0 else 1)"
    "pd_pul p' = pd_pul p" "pd_pdl p' = pd_pdl p"
    using link_tbf_ok [OF assms(2), of p] pd_ok_bounds [OF assms(1)] assms(3) by auto
  then show ?thesis
    using True assms by (auto simp: on_slots_def pd_ok_def on_slot_def told_right_def use_count_def)
qed

text \<open>Changing the slots of the TBF at index \<open>i\<close>.\<close>

lemma retarget_slots:
  assumes "pd_ok ts rs p" "i < length ts" "tfi_ok (tb_uplink (ts ! i)) (tb_dl_tfi (ts ! i))" "length ts < 256"
    and "told_right p s \<or> told_but slotmask p s"
  shows "\<exists>p' es. retarget (ts ! i) slotmask p = Some (p', es) \<and> pd_tn p' = pd_tn p \<and>
    pd_ok (ts[i := (ts ! i)\<lparr>tb_slotmask := slotmask\<rparr>]) rs p' \<and> told_right p' (act_after s es)"
proof -
  let ?t = "ts ! i" and ?tn = "pd_tn p"
  let ?ts' = "ts[i := ?t\<lparr>tb_slotmask := slotmask\<rparr>]"
  have cnt: "cnt (on_slot u ?tn) ?ts' + (if on_slot u ?tn ?t then 1 else 0) =
      cnt (on_slot u ?tn) ts + (if tb_uplink ?t = u \<and> bit slotmask ?tn then 1 else 0)" for u
    using cnt_update [OF assms(2), of "on_slot u ?tn" "?t\<lparr>tb_slotmask := slotmask\<rparr>"] by (simp add: on_slot_def)
  have pos: "on_slot u ?tn ?t \<Longrightarrow> 0 < cnt (on_slot u ?tn) ts" for u
    using assms(2) by (auto simp: cnt_pos)
  have lt: "\<not> on_slot u ?tn ?t \<Longrightarrow> cnt (on_slot u ?tn) ts < length ts" for u
    unfolding cnt_def using assms(2) by (intro length_filter_less [of ?t]) auto
  consider "bit (tb_slotmask ?t) ?tn = bit slotmask ?tn" | "bit (tb_slotmask ?t) ?tn" "\<not> bit slotmask ?tn"
    | "\<not> bit (tb_slotmask ?t) ?tn" "bit slotmask ?tn" by blast
  then show ?thesis
  proof cases
    case 1
    then have "cnt (on_slot u ?tn) ?ts' = cnt (on_slot u ?tn) ts" for u
      using cnt [of u] by (auto simp: on_slot_def split: if_splits)
    moreover have "bit slotmask ?tn \<Longrightarrow> 0 < use_count p"
      using pos [of "tb_uplink ?t"] 1 assms(1) by (cases "tb_uplink ?t") (auto simp: pd_ok_def use_count_def on_slot_def)
    ultimately show ?thesis
      using 1 assms(1,5) by (auto simp: retarget_def pd_ok_def told_right_def told_but_def split: if_splits)
  next
    case 2
    have "0 < unat (if tb_uplink ?t then pd_ul p else pd_dl p)"
      using pos [of "tb_uplink ?t"] 2 assms(1) by (cases "tb_uplink ?t") (auto simp: pd_ok_def on_slot_def)
    from unlink_tbf_ok [OF assms(3) this] obtain p' where
      p': "unlink_tbf ?t p = Some (p', if use_count p = 1 then [False] else [])" "pd_tn p' = pd_tn p"
      "unat (pd_ul p') = unat (pd_ul p) - (if tb_uplink ?t then 1 else 0)"
      "unat (pd_dl p') = unat (pd_dl p) - (if tb_uplink ?t then 0 else 1)" "pd_pul p' = pd_pul p" "pd_pdl p' = pd_pdl p"
      by blast
    have "pd_ok ?ts' rs p'"
      using p' 2 cnt [of True] cnt [of False] assms(1) by (cases "tb_uplink ?t") (simp_all add: pd_ok_def on_slot_def)
    moreover have "told_right p' (act_after s (if use_count p = 1 then [False] else []))"
      using p' 2 assms(5) pos [of "tb_uplink ?t"] assms(1)
      by (cases "tb_uplink ?t") (auto simp: told_right_def told_but_def use_count_def pd_ok_def on_slot_def)
    ultimately show ?thesis using 2 p' by (simp add: retarget_def)
  next
    case 3
    have "unat (pd_ul p) < 255 \<or> \<not> tb_uplink ?t" "unat (pd_dl p) < 255 \<or> tb_uplink ?t"
      using lt [of True] lt [of False] assms(1,4) 3 by (auto simp: pd_ok_def on_slot_def)
    then obtain p' where
      p': "link_tbf ?t p = Some (p', if use_count p = 0 then [True] else [])" "pd_tn p' = pd_tn p"
      "unat (pd_ul p') = unat (pd_ul p) + (if tb_uplink ?t then 1 else 0)"
      "unat (pd_dl p') = unat (pd_dl p) + (if tb_uplink ?t then 0 else 1)" "pd_pul p' = pd_pul p" "pd_pdl p' = pd_pdl p"
      using link_tbf_ok [OF assms(3), of p] lt [of True] lt [of False] assms(1,4) 3
      by (auto simp: pd_ok_def on_slot_def)
    have "pd_ok ?ts' rs p'"
      using p' 3 cnt [of True] cnt [of False] assms(1) by (cases "tb_uplink ?t") (simp_all add: pd_ok_def on_slot_def)
    moreover have "told_right p' (act_after s (if use_count p = 0 then [True] else []))"
      using p' 3 assms(5) by (cases "tb_uplink ?t") (auto simp: told_right_def told_but_def use_count_def)
    ultimately show ?thesis using 3 p' by (simp add: retarget_def)
  qed
qed

lemma unlink_slots:
  assumes "pd_ok ts rs p" "i < length ts" "tfi_ok (tb_uplink (ts ! i)) (tb_dl_tfi (ts ! i))" "told_right p s"
  shows "\<exists>p' es. on_slots (tb_slotmask (ts ! i)) (unlink_tbf (ts ! i)) p = Some (p', es) \<and> pd_tn p' = pd_tn p \<and>
    pd_ok (take i ts @ drop (Suc i) ts) rs p' \<and> told_right p' (act_after s es)"
proof -
  let ?t = "ts ! i" and ?tn = "pd_tn p"
  note cnt = cnt_delete [OF assms(2), of "on_slot True ?tn"] cnt_delete [OF assms(2), of "on_slot False ?tn"]
  show ?thesis
  proof (cases "bit (tb_slotmask ?t) ?tn")
    case False
    then show ?thesis using cnt assms by (simp add: on_slots_def pd_ok_def on_slot_def)
  next
    case True
    then have "0 < unat (if tb_uplink ?t then pd_ul p else pd_dl p)"
      using cnt assms(1) by (cases "tb_uplink ?t") (auto simp: pd_ok_def on_slot_def)
    from unlink_tbf_ok [OF assms(3) this] obtain p' where
      p': "unlink_tbf ?t p = Some (p', if use_count p = 1 then [False] else [])" "pd_tn p' = pd_tn p"
      "unat (pd_ul p') = unat (pd_ul p) - (if tb_uplink ?t then 1 else 0)"
      "unat (pd_dl p') = unat (pd_dl p) - (if tb_uplink ?t then 0 else 1)" "pd_pul p' = pd_pul p" "pd_pdl p' = pd_pdl p"
      by blast
    then show ?thesis
      using True cnt assms(1,4)
      by (cases "tb_uplink ?t") (auto simp: on_slots_def pd_ok_def on_slot_def told_right_def use_count_def)
  qed
qed

lemma link_pending_slots:
  assumes "pd_ok ts rs p" "length rs < 255" "told_right p s"
  shows "\<exists>p' es. on_slots (pr_slotmask r) (link_pending (pr_uplink r)) p = Some (p', es) \<and> pd_tn p' = pd_tn p \<and>
    pd_ok ts (rs @ [r]) p' \<and> told_right p' (act_after s es)"
proof (cases "bit (pr_slotmask r) (pd_tn p)")
  case False
  then show ?thesis using assms by (simp add: on_slots_def pd_ok_def due_on_slot_def)
next
  case True
  obtain p' where "link_pending (pr_uplink r) p = Some (p', if use_count p = 0 then [True] else [])" "pd_tn p' = pd_tn p"
    "pd_ul p' = pd_ul p" "pd_dl p' = pd_dl p" "unat (pd_pul p') = unat (pd_pul p) + (if pr_uplink r then 1 else 0)"
    "unat (pd_pdl p') = unat (pd_pdl p) + (if pr_uplink r then 0 else 1)"
    using link_pending_ok [of p "pr_uplink r"] pd_ok_bounds [OF assms(1)] assms(2) by auto
  then show ?thesis
    using True assms by (auto simp: on_slots_def pd_ok_def due_on_slot_def told_right_def use_count_def)
qed

text \<open>Taking a request out of the pending ones says nothing to the callback, which is then behind on its
  slots: they may have no user left.\<close>

lemma unlink_pending_slots:
  assumes "pd_ok ts rs p" "r \<in> set rs" "told_right p s"
  shows "\<exists>p' es. on_slots (pr_slotmask r) (unlink_pending (pr_uplink r)) p = Some (p', es) \<and> pd_tn p' = pd_tn p \<and>
    pd_ok ts (remove1 r rs) p' \<and> told_but (pr_slotmask r) p' (act_after s es)"
proof -
  let ?tn = "pd_tn p"
  note cnt = cnt_remove1 [OF assms(2), of "due_on_slot True ?tn"] cnt_remove1 [OF assms(2), of "due_on_slot False ?tn"]
  show ?thesis
  proof (cases "bit (pr_slotmask r) ?tn")
    case False
    then show ?thesis using cnt assms by (simp add: on_slots_def pd_ok_def due_on_slot_def told_but_def)
  next
    case True
    then have pos: "0 < unat (if pr_uplink r then pd_pul p else pd_pdl p)"
      using cnt assms(1) by (cases "pr_uplink r") (auto simp: pd_ok_def due_on_slot_def)
    from unlink_pending_ok [OF this] obtain p' where
      "unlink_pending (pr_uplink r) p = Some (p', [])" "pd_tn p' = pd_tn p" "pd_ul p' = pd_ul p" "pd_dl p' = pd_dl p"
      "unat (pd_pul p') = unat (pd_pul p) - (if pr_uplink r then 1 else 0)"
      "unat (pd_pdl p') = unat (pd_pdl p) - (if pr_uplink r then 0 else 1)"
      by blast
    then show ?thesis
      using True pos cnt assms(1,3)
      by (cases "pr_uplink r") (auto simp: on_slots_def pd_ok_def due_on_slot_def told_right_def told_but_def use_count_def)
  qed
qed

section \<open>The operations keep the invariant\<close>

lemma gp_core_lists: "gp_core W ts rs (g\<lparr>gp_tbfs := a\<rparr>) = gp_core W ts rs g"
  "gp_core W ts rs (g\<lparr>gp_pending := b\<rparr>) = gp_core W ts rs g"
  by (simp_all add: gp_core_def)

lemma register_core:
  assumes "gp_core W (gp_tbfs g) (gp_pending g) g" "W = told_right \<or> W = told_but (tb_slotmask t)" "tbf_ok t"
    and "length (gp_tbfs g) < 255"
  shows "\<exists>g'. l1gprs_register_tbf g t = Some g' \<and> gp_core told_right (gp_tbfs g') (gp_pending g') g' \<and>
    gp_tbfs g' = gp_tbfs g @ [t] \<and> gp_pending g' = gp_pending g"
proof -
  have t: "tb_slotmask t \<noteq> 0" "tfi_ok (tb_uplink t) (tb_dl_tfi t)" using assms(3) by (simp_all add: tbf_ok_def)
  have "\<exists>p' es. on_slots (tb_slotmask t) (link_tbf t) p = Some (p', es) \<and> pd_tn p' = pd_tn p \<and>
      pd_ok (gp_tbfs g @ [t]) (gp_pending g) p' \<and> told_right p' (act_after s es)"
    if "pd_ok (gp_tbfs g) (gp_pending g) p" "W p s" for p s
    using assms(2) link_slots [OF that(1) t(2) assms(4), of s] link_slots_right [OF that(1) t(2) assms(4), of s] that(2)
    by blast
  from walk_state_core [OF assms(1) this] obtain g1 where
    "walk_state (on_slots (tb_slotmask t) (link_tbf t)) g = Some g1"
    "gp_core told_right (gp_tbfs g @ [t]) (gp_pending g) g1" "gp_tbfs g1 = gp_tbfs g" "gp_pending g1 = gp_pending g"
    by blast
  then show ?thesis using t(1) by (simp add: l1gprs_register_tbf_def gp_core_lists)
qed

lemma update_core:
  assumes "gp_core W (gp_tbfs g) (gp_pending g) g" "W = told_right \<or> W = told_but slotmask"
    and "i < length (gp_tbfs g)" "tbf_ok (gp_tbfs g ! i)" "slotmask \<noteq> 0" "length (gp_tbfs g) < 256"
  shows "\<exists>g'. l1gprs_update_tbf g i slotmask = Some g' \<and> gp_core told_right (gp_tbfs g') (gp_pending g') g' \<and>
    gp_tbfs g' = (gp_tbfs g)[i := (gp_tbfs g ! i)\<lparr>tb_slotmask := slotmask\<rparr>] \<and> gp_pending g' = gp_pending g"
proof -
  let ?t = "gp_tbfs g ! i" and ?ts' = "(gp_tbfs g)[i := (gp_tbfs g ! i)\<lparr>tb_slotmask := slotmask\<rparr>]"
  have t: "tb_slotmask ?t \<noteq> 0" "tfi_ok (tb_uplink ?t) (tb_dl_tfi ?t)" using assms(4) by (simp_all add: tbf_ok_def)
  have step: "\<exists>p' es. retarget ?t slotmask p = Some (p', es) \<and> pd_tn p' = pd_tn p \<and>
      pd_ok ?ts' (gp_pending g) p' \<and> told_right p' (act_after s es)"
    if "pd_ok (gp_tbfs g) (gp_pending g) p" "W p s" for p s
    using assms(2) that(2) by (intro retarget_slots [OF that(1) assms(3) t(2) assms(6)]) blast
  from walk_state_core [OF assms(1) this] obtain g1 where g1: "walk_state (retarget ?t slotmask) g = Some g1"
    "gp_core told_right ?ts' (gp_pending g) g1" "gp_tbfs g1 = gp_tbfs g" "gp_pending g1 = gp_pending g"
    by blast
  show ?thesis
  proof (cases "tb_slotmask ?t = slotmask")
    case False
    then show ?thesis using g1 t(1) assms(5) by (simp add: l1gprs_update_tbf_def gp_core_lists Let_def)
  next
    case True
    then have same: "?ts' = gp_tbfs g" by (simp add: list_update_same_conv assms(3))
    have "list_all (\<lambda>p. told_right p (told (pd_tn p) (gp_events g))) (gp_pdch g)"
      unfolding list_all_iff
    proof
      fix p assume p: "p \<in> set (gp_pdch g)"
      then have ok: "pd_ok (gp_tbfs g) (gp_pending g) p" "W p (told (pd_tn p) (gp_events g))"
        using assms(1) by (simp_all add: gp_core_def list_all_iff)
      from step [OF this] True show "told_right p (told (pd_tn p) (gp_events g))"
        by (simp add: retarget_def)
    qed
    then have "gp_core told_right (gp_tbfs g) (gp_pending g) g"
      using assms(1) by (simp add: gp_core_def list_all_iff)
    then show ?thesis using True same assms(5) by (simp add: l1gprs_update_tbf_def)
  qed
qed

lemma unregister_core:
  assumes "gprs_wf g" "i < length (gp_tbfs g)"
  shows "\<exists>g'. l1gprs_unregister_tbf g i = Some g' \<and> gprs_wf g' \<and> gp_pending g' = gp_pending g \<and>
    gp_tbfs g' = take i (gp_tbfs g) @ drop (Suc i) (gp_tbfs g)"
proof -
  let ?t = "gp_tbfs g ! i"
  have core: "gp_core told_right (gp_tbfs g) (gp_pending g) g" and t: "tbf_ok ?t"
    using assms by (simp_all add: gprs_wf_def list_all_length)
  have "\<exists>p' es. on_slots (tb_slotmask ?t) (unlink_tbf ?t) p = Some (p', es) \<and> pd_tn p' = pd_tn p \<and>
      pd_ok (take i (gp_tbfs g) @ drop (Suc i) (gp_tbfs g)) (gp_pending g) p' \<and> told_right p' (act_after s es)"
    if "pd_ok (gp_tbfs g) (gp_pending g) p" "told_right p s" for p s
    using t by (intro unlink_slots [OF that(1) assms(2) _ that(2)]) (simp add: tbf_ok_def)
  from walk_state_core [OF core this] obtain g1 where
    "walk_state (on_slots (tb_slotmask ?t) (unlink_tbf ?t)) g = Some g1"
    "gp_core told_right (take i (gp_tbfs g) @ drop (Suc i) (gp_tbfs g)) (gp_pending g) g1"
    "gp_tbfs g1 = gp_tbfs g" "gp_pending g1 = gp_pending g"
    by blast
  moreover have "list_all tbf_ok (take i (gp_tbfs g) @ drop (Suc i) (gp_tbfs g))"
    using assms(1) by (auto simp: gprs_wf_def list_all_iff dest: in_set_takeD in_set_dropD)
  ultimately show ?thesis
    using t assms(1) by (simp add: l1gprs_unregister_tbf_def gprs_wf_def gp_core_lists tbf_ok_def Let_def)
qed

lemma add_pending_core:
  assumes "gprs_wf g" "pending_ok r" "length (gp_pending g) < 255"
  shows "\<exists>g'. l1gprs_add_tbf_pending_req g r = Some g' \<and> gprs_wf g' \<and> gp_tbfs g' = gp_tbfs g \<and>
    gp_pending g' = gp_pending g @ [r]"
proof -
  have core: "gp_core told_right (gp_tbfs g) (gp_pending g) g" using assms(1) by (simp add: gprs_wf_def)
  from walk_state_core [OF core link_pending_slots [OF _ assms(3)]] obtain g1 where
    "walk_state (on_slots (pr_slotmask r) (link_pending (pr_uplink r))) g = Some g1"
    "gp_core told_right (gp_tbfs g) (gp_pending g @ [r]) g1" "gp_tbfs g1 = gp_tbfs g" "gp_pending g1 = gp_pending g"
    by blast
  then show ?thesis
    using assms(1,2) by (simp add: l1gprs_add_tbf_pending_req_def gprs_wf_def gp_core_lists pending_ok_def)
qed

lemma remove_pending_core:
  assumes "gprs_wf g" "r \<in> set (gp_pending g)"
  shows "\<exists>g'. l1gprs_remove_tbf_pending_req g r = Some g' \<and>
    gp_core (told_but (pr_slotmask r)) (gp_tbfs g') (gp_pending g') g' \<and> gp_tbfs g' = gp_tbfs g \<and>
    gp_pending g' = remove1 r (gp_pending g)"
proof -
  have core: "gp_core told_right (gp_tbfs g) (gp_pending g) g" and r: "pr_slotmask r \<noteq> 0"
    using assms by (auto simp: gprs_wf_def list_all_iff pending_ok_def)
  from walk_state_core [OF core unlink_pending_slots [OF _ assms(2)]] obtain g1 where
    "walk_state (on_slots (pr_slotmask r) (unlink_pending (pr_uplink r))) g = Some g1"
    "gp_core (told_but (pr_slotmask r)) (gp_tbfs g) (remove1 r (gp_pending g)) g1"
    "gp_tbfs g1 = gp_tbfs g" "gp_pending g1 = gp_pending g"
    by blast
  then show ?thesis using r by (simp add: l1gprs_remove_tbf_pending_req_def gp_core_lists)
qed

lemma find_tbf_SomeD: "find_tbf up r ts = Some i \<Longrightarrow> i < length ts \<and> tb_uplink (ts ! i) = up \<and> tb_ref (ts ! i) = r"
  by (induction ts arbitrary: i) (auto split: if_splits)

text \<open>The size of the two lists together, which no operation but a request for something new increases.\<close>

abbreviation gp_size :: "l1gprs_state \<Rightarrow> nat" where
  "gp_size g \<equiv> length (gp_tbfs g) + length (gp_pending g)"

lemma pd_ok_tfi: "pd_ok (ts[i := (ts ! i)\<lparr>tb_dl_tfi := x\<rparr>]) rs p \<longleftrightarrow> pd_ok ts rs p"
proof (cases "i < length ts")
  case True
  have "cnt (on_slot u k) (ts[i := (ts ! i)\<lparr>tb_dl_tfi := x\<rparr>]) = cnt (on_slot u k) ts" for u k
    using cnt_update [OF True, of "on_slot u k" "(ts ! i)\<lparr>tb_dl_tfi := x\<rparr>"] by (simp add: on_slot_def split: if_splits)
  then show ?thesis by (simp add: pd_ok_def)
qed (simp add: list_update_beyond)

lemma activate_pending_core:
  assumes "gprs_wf g" "r \<in> set (gp_pending g)" "gp_size g < 256"
  shows "\<exists>g'. activate_pending g r = Some g' \<and> gprs_wf g' \<and> gp_pending g' = remove1 r (gp_pending g) \<and> gp_size g' \<le> gp_size g"
proof -
  obtain g1 where g1: "l1gprs_remove_tbf_pending_req g r = Some g1"
    "gp_core (told_but (pr_slotmask r)) (gp_tbfs g1) (gp_pending g1) g1" "gp_tbfs g1 = gp_tbfs g"
    "gp_pending g1 = remove1 r (gp_pending g)"
    using remove_pending_core [OF assms(1,2)] by blast
  have r: "pending_ok r" and ts: "list_all tbf_ok (gp_tbfs g)" and rs: "list_all pending_ok (remove1 r (gp_pending g))"
    using assms(1,2) by (auto simp: gprs_wf_def list_all_iff dest: notin_set_remove1)
  have sz: "Suc (length (remove1 r (gp_pending g))) = length (gp_pending g)"
    using assms(2) by (simp add: length_remove1) (metis Suc_pred length_pos_if_in_set)
  show ?thesis
  proof (cases "find_tbf (pr_uplink r) (pr_ref r) (gp_tbfs g)")
    case None
    let ?t = "\<lparr>tb_uplink = pr_uplink r, tb_ref = pr_ref r, tb_slotmask = pr_slotmask r, tb_dl_tfi = pr_dl_tfi r\<rparr>"
    have t: "tbf_ok ?t" using r by (simp add: tbf_ok_def pending_ok_def)
    have "length (gp_tbfs g1) < 255" using assms(3) g1(3) sz by simp
    then obtain g2 where "l1gprs_register_tbf g1 ?t = Some g2" "gp_core told_right (gp_tbfs g2) (gp_pending g2) g2"
      "gp_tbfs g2 = gp_tbfs g1 @ [?t]" "gp_pending g2 = gp_pending g1"
      using register_core [OF g1(2) _ t] by auto
    then show ?thesis
      using None g1 t ts rs sz by (simp add: activate_pending_def gprs_wf_def)
  next
    case (Some i)
    note i = find_tbf_SomeD [OF Some]
    have ti: "tbf_ok (gp_tbfs g1 ! i)" using ts i g1(3) by (simp add: list_all_length)
    have "pr_slotmask r \<noteq> 0" "length (gp_tbfs g1) < 256" "i < length (gp_tbfs g1)"
      using r assms(3) g1(3) i by (simp_all add: pending_ok_def)
    with update_core [OF g1(2) _ _ ti] obtain g2 where g2: "l1gprs_update_tbf g1 i (pr_slotmask r) = Some g2"
      "gp_core told_right (gp_tbfs g2) (gp_pending g2) g2" "gp_pending g2 = gp_pending g1"
      "gp_tbfs g2 = (gp_tbfs g1)[i := (gp_tbfs g1 ! i)\<lparr>tb_slotmask := pr_slotmask r\<rparr>]"
      by blast
    let ?ts3 = "(gp_tbfs g2)[i := (gp_tbfs g2 ! i)\<lparr>tb_dl_tfi := pr_dl_tfi r\<rparr>]"
    have "gp_core told_right ?ts3 (gp_pending g2) g2"
      using g2(2) by (simp add: gp_core_def pd_ok_tfi)
    moreover have "list_all tbf_ok ?ts3"
      using ts r i g1(3) g2(4) set_update_subset_insert [of "gp_tbfs g"] 
      by (auto simp: list_all_length nth_list_update tbf_ok_def pending_ok_def)
    ultimately show ?thesis
      using Some g1 g2 rs sz by (simp add: activate_pending_def gprs_wf_def gp_core_lists)
  qed
qed

lemma check_pending_core:
  assumes "gprs_wf g" "mset rs \<subseteq># mset (gp_pending g)" "gp_size g < 256"
  shows "\<exists>g'. check_pending L fn rs g = Some g' \<and> gprs_wf g' \<and> gp_size g' \<le> gp_size g"
  using assms
proof (induction rs arbitrary: g)
  case (Cons r rs)
  have rs: "mset rs \<subseteq># mset (gp_pending g)"
    by (rule subset_mset.order_trans [OF _ Cons.prems(2)]) simp
  have r: "r \<in> set (gp_pending g)" using Cons.prems(2) by (metis insert_subset_eq_iff mset.simps(2) set_mset_mset)
  show ?case
  proof (cases "gsm0502_fncmp L fn (pr_start_fn r) < 0")
    case True
    then show ?thesis using Cons.IH [OF Cons.prems(1) rs Cons.prems(3)] by simp
  next
    case False
    obtain g1 where g1: "activate_pending g r = Some g1" "gprs_wf g1" "gp_pending g1 = remove1 r (gp_pending g)"
      "gp_size g1 \<le> gp_size g"
      using activate_pending_core [OF Cons.prems(1) r Cons.prems(3)] by blast
    have "mset rs \<subseteq># mset (gp_pending g1)"
      using Cons.prems(2) g1(3) by (simp add: insert_subset_eq_iff)
    from Cons.IH [OF g1(2) this] g1(4) Cons.prems(3) show ?thesis
      using False g1(1) by (auto intro: order_trans)
  qed
qed auto

section \<open>Runs\<close>

text \<open>What the user of the component may call, in any order.\<close>

datatype gprs_input =
    UL_TBF_CFG_REQ "u8 list" | DL_TBF_CFG_REQ "u8 list" | DL_BLOCK_IND dl_block_ind | RTS_IND u32 u8 u8

fun gprs_step :: "libosmo \<Rightarrow> gprs_input \<Rightarrow> l1gprs_state \<Rightarrow> l1gprs_state option" where
  "gprs_step L (UL_TBF_CFG_REQ msg) g = map_option snd (l1gprs_handle_ul_tbf_cfg_req g msg)"
| "gprs_step L (DL_TBF_CFG_REQ msg) g = map_option snd (l1gprs_handle_dl_tbf_cfg_req g msg)"
| "gprs_step L (DL_BLOCK_IND ind) g = map_option (snd \<circ> snd) (l1gprs_handle_dl_block_ind L g ind 0xff)"
| "gprs_step L (RTS_IND fn tn usf) g = map_option snd (l1gprs_handle_rts_ind L g fn tn usf)"

fun gprs_run :: "libosmo \<Rightarrow> gprs_input list \<Rightarrow> l1gprs_state \<Rightarrow> l1gprs_state option" where
  "gprs_run L [] g = Some g"
| "gprs_run L (i # is) g = do { g \<leftarrow> gprs_step L i g; gprs_run L is g }"

fun input_ok :: "gprs_input \<Rightarrow> bool" where
  "input_ok (DL_BLOCK_IND ind) = (length (db_data ind) \<le> 202)"
| "input_ok (RTS_IND fn tn usf) = (unat tn < 8)"
| "input_ok i = True"

lemma tbf_cfg_ok:
  assumes "gprs_wf g" "gp_size g < 255" "tfi_ok uplink tfi"
  shows "\<exists>rc g'. tbf_cfg g uplink ref slotmask tfi start_fn = Some (rc, g') \<and> gprs_wf g' \<and> gp_size g' \<le> Suc (gp_size g) \<and>
    (rc = 0 \<or> rc = - ENOENT)"
proof -
  have core: "gp_core told_right (gp_tbfs g) (gp_pending g) g" and ts: "list_all tbf_ok (gp_tbfs g)"
    and rs: "list_all pending_ok (gp_pending g)"
    using assms(1) by (simp_all add: gprs_wf_def)
  show ?thesis
  proof (cases "slotmask = 0")
    case True
    show ?thesis
    proof (cases "find_tbf uplink ref (gp_tbfs g)")
      case None
      then show ?thesis using True assms(1) by (simp add: tbf_cfg_def)
    next
      case (Some i)
      then show ?thesis
        using True unregister_core [OF assms(1), of i] find_tbf_SomeD [OF Some] by (auto simp: tbf_cfg_def)
    qed
  next
    case False
    show ?thesis
    proof (cases "start_fn = TDMA_FN_INVALID")
      case True
      show ?thesis
      proof (cases "find_tbf uplink ref (gp_tbfs g)")
        case None
        then show ?thesis
          using False True assms ts rs register_core [OF core _ _, of "\<lparr>tb_uplink = uplink, tb_ref = ref, tb_slotmask = slotmask, tb_dl_tfi = tfi\<rparr>"]
          by (auto simp: tbf_cfg_def tbf_ok_def gprs_wf_def)
      next
        case (Some i)
        note i = find_tbf_SomeD [OF Some]
        obtain g' where g': "l1gprs_update_tbf g i slotmask = Some g'" "gp_core told_right (gp_tbfs g') (gp_pending g') g'"
          "gp_tbfs g' = (gp_tbfs g)[i := (gp_tbfs g ! i)\<lparr>tb_slotmask := slotmask\<rparr>]" "gp_pending g' = gp_pending g"
          using update_core [OF core _ _ _ False, of i] i ts assms(2) by (auto simp: list_all_length)
        moreover have "list_all tbf_ok (gp_tbfs g')"
          using g'(3) ts i False by (auto simp: list_all_length nth_list_update tbf_ok_def)
        ultimately show ?thesis using False True Some rs by (simp add: tbf_cfg_def gprs_wf_def)
      qed
    next
      case fn: False
      then show ?thesis
        using False assms add_pending_core [OF assms(1), of "\<lparr>pr_uplink = uplink, pr_ref = ref, pr_slotmask = slotmask,
                 pr_dl_tfi = tfi, pr_start_fn = start_fn\<rparr>"]
        by (auto simp: tbf_cfg_def pending_ok_def)
    qed
  qed
qed

lemma gprs_wf_pdch: "gprs_wf g \<Longrightarrow> length (gp_pdch g) = 8"
  unfolding gprs_wf_def gp_core_def by (metis length_map length_upt diff_zero)

lemma block_msg_Some: "length d \<le> 202 \<Longrightarrow> \<exists>m. dl_block_msg ind u d = Some m"
  by (simp add: dl_block_msg_def l1gprs_l1ctl_msgb_def)

lemma gprs_step_ok:
  assumes "gprs_wf g" "gp_size g < 255" "input_ok i"
  shows "\<exists>g'. gprs_step L i g = Some g' \<and> gprs_wf g' \<and> gp_size g' \<le> Suc (gp_size g)"
proof (cases i)
  case (UL_TBF_CFG_REQ msg)
  then show ?thesis
    using tbf_cfg_ok [OF assms(1,2), of True None "octet 0 msg" "octet 1 msg" "be32 4 msg"] assms(1)
    by (auto simp: l1gprs_handle_ul_tbf_cfg_req_def tfi_ok_def)
next
  case (DL_TBF_CFG_REQ msg)
  have "\<not> octet 2 msg > 31 \<Longrightarrow> tfi_ok False (Some (octet 2 msg))"
    by (simp add: tfi_ok_def word_less_nat_alt)
  then show ?thesis
    using DL_TBF_CFG_REQ tbf_cfg_ok [OF assms(1,2), of False "Some (octet 2 msg)" "octet 0 msg" "octet 1 msg" "be32 4 msg"] assms(1)
    by (cases "octet 2 msg > 31") (auto simp: l1gprs_handle_dl_tbf_cfg_req_def)
next
  case (DL_BLOCK_IND ind)
  obtain g' where g': "l1gprs_check_pending_tbfs L g (db_fn ind) = Some g'" "gprs_wf g'" "gp_size g' \<le> gp_size g"
    using check_pending_core [OF assms(1), of "gp_pending g" L "db_fn ind"] assms(2) by (auto simp: l1gprs_check_pending_tbfs_def)
  have d: "length (db_data ind) \<le> 202" "length ([] :: u8 list) \<le> 202" using DL_BLOCK_IND assms(3) by simp_all
  obtain m1 where "dl_block_msg ind 0xff [] = Some m1" using block_msg_Some [OF d(2)] by blast
  moreover obtain m2 where "dl_block_msg ind 0xff (db_data ind) = Some m2" using block_msg_Some [OF d(1)] by blast
  moreover obtain m3 where "dl_block_msg ind (octet 0 (db_data ind) AND 7) (db_data ind) = Some m3"
    using block_msg_Some [OF d(1)] by blast
  moreover obtain m4 where "dl_block_msg ind (octet 0 (db_data ind) AND 7) [] = Some m4" using block_msg_Some [OF d(2)] by blast
  ultimately show ?thesis
    using DL_BLOCK_IND g' assms(1) by (auto simp: l1gprs_handle_dl_block_ind_def Let_def)
next
  case (RTS_IND fn tn usf)
  obtain g' where "l1gprs_check_pending_tbfs L g fn = Some g'" "gprs_wf g'" "gp_size g' \<le> gp_size g"
    using check_pending_core [OF assms(1), of "gp_pending g" L fn] assms(2) by (auto simp: l1gprs_check_pending_tbfs_def)
  then show ?thesis
    using RTS_IND gprs_wf_pdch [OF assms(1)] assms(3) by (auto simp: l1gprs_handle_rts_ind_def l1gprs_l1ctl_msgb_def)
qed

lemma gprs_run_ok:
  "gprs_wf g \<Longrightarrow> gp_size g + length is \<le> 255 \<Longrightarrow> list_all input_ok is \<Longrightarrow>
   \<exists>g'. gprs_run L is g = Some g' \<and> gprs_wf g'"
proof (induction "is" arbitrary: g)
  case (Cons i "is")
  then obtain g1 where "gprs_step L i g = Some g1" "gprs_wf g1" "gp_size g1 \<le> Suc (gp_size g)"
    using gprs_step_ok [of g i L] by auto
  then show ?case using Cons by auto
qed simp

lemma gprs_wf_alloc: "gprs_wf l1gprs_state_alloc"
  by (simp add: gprs_wf_def gp_core_def l1gprs_state_alloc_def list_all_iff pd_ok_def told_right_def told_from_def
      use_count_def comp_def)

lemma gprs_wf_told:
  assumes "gprs_wf g" "tn < 8"
  shows "told tn (gp_events g) \<longleftrightarrow> (\<exists>t \<in> set (gp_tbfs g). bit (tb_slotmask t) tn) \<or> (\<exists>r \<in> set (gp_pending g). bit (pr_slotmask r) tn)"
proof -
  have tns: "map pd_tn (gp_pdch g) = [0..<8]" using assms(1) by (simp add: gprs_wf_def gp_core_def)
  then have p: "gp_pdch g ! tn \<in> set (gp_pdch g)" "pd_tn (gp_pdch g ! tn) = tn"
    using assms(2) gprs_wf_pdch [OF assms(1)] by (simp, metis add_0 nth_map nth_upt diff_zero)
  then have "told tn (gp_events g) = (0 < use_count (gp_pdch g ! tn))" "pd_ok (gp_tbfs g) (gp_pending g) (gp_pdch g ! tn)"
    using assms(1) by (auto simp: gprs_wf_def gp_core_def list_all_iff told_right_def)
  then have "told tn (gp_events g) \<longleftrightarrow> 0 < cnt (on_slot True tn) (gp_tbfs g) \<or> 0 < cnt (on_slot False tn) (gp_tbfs g) \<or>
      0 < cnt (due_on_slot True tn) (gp_pending g) \<or> 0 < cnt (due_on_slot False tn) (gp_pending g)"
    using p(2) by (simp add: pd_ok_def use_count_def)
  then show ?thesis by (auto simp: cnt_pos on_slot_def due_on_slot_def)
qed



section \<open>Reconfiguring a downlink TBF\<close>

lemma update_same: "tb_slotmask (gp_tbfs g ! i) \<noteq> 0 \<Longrightarrow> l1gprs_update_tbf g i (tb_slotmask (gp_tbfs g ! i)) = Some g"
  by (simp add: l1gprs_update_tbf_def Let_def)

text \<open>A request that takes effect at once and gives an existing downlink TBF another TFI on the
  same timeslots is answered with success and changes nothing: the blocks of the new TFI go on being
  filtered out.\<close>

theorem dl_reconfig_keeps_tfi:
  assumes "gprs_wf g" and "find_tbf False ref (gp_tbfs g) = Some i" and "tfi \<le> 31"
  shows "l1gprs_handle_dl_tbf_cfg_req g ([ref, tb_slotmask (gp_tbfs g ! i), tfi, pad] @ be32_octets TDMA_FN_INVALID) = Some (0, g)"
proof -
  have "tb_slotmask (gp_tbfs g ! i) \<noteq> 0"
    using assms(1) find_tbf_SomeD [OF assms(2)] by (auto simp: gprs_wf_def list_all_length tbf_ok_def)
  moreover have "be32 4 ([ref, tb_slotmask (gp_tbfs g ! i), tfi, pad] @ be32_octets TDMA_FN_INVALID) = TDMA_FN_INVALID"
    by (simp add: be32_def be32_octets_def octet_def)
  ultimately show ?thesis
    using assms(2,3) by (simp add: l1gprs_handle_dl_tbf_cfg_req_def tbf_cfg_def update_same octet_def not_less be32_octets_def)
qed

text \<open>A downlink TBF with TFI 5 on timeslot 3.\<close>

definition one_dl_tbf :: l1gprs_state where
  "one_dl_tbf = \<lparr>gp_pdch = map (\<lambda>tn. if tn = 3 then \<lparr>pd_tn = tn, pd_ul = 0, pd_dl = 1, pd_tfi_mask = 0x20, pd_pul = 0, pd_pdl = 0\<rparr>
        else \<lparr>pd_tn = tn, pd_ul = 0, pd_dl = 0, pd_tfi_mask = 0, pd_pul = 0, pd_pdl = 0\<rparr>) [0..<8],
     gp_tbfs = [\<lparr>tb_uplink = False, tb_ref = 1, tb_slotmask = 8, tb_dl_tfi = Some 5\<rparr>], gp_pending = [], gp_events = [(3, True)]\<rparr>"

lemma one_dl_tbf_reached:
  "l1gprs_handle_dl_tbf_cfg_req l1gprs_state_alloc [1, 8, 5, 0, 255, 255, 255, 255] = Some (0, one_dl_tbf)"
  by code_simp

lemma one_dl_tbf_wf: "gprs_wf one_dl_tbf"
proof -
  have "tbf_cfg l1gprs_state_alloc False 1 8 (Some 5) 0xffffffff = Some (0, one_dl_tbf)"
    by code_simp
  then show ?thesis
    using tbf_cfg_ok [OF gprs_wf_alloc, of False "Some 5" 1 8 "0xffffffff"]
    by (auto simp: l1gprs_state_alloc_def tfi_ok_def)
qed

theorem dl_reconfig_keeps_tfi_witness:
  "l1gprs_handle_dl_tbf_cfg_req one_dl_tbf ([1, 8, 6, 0] @ be32_octets TDMA_FN_INVALID) = Some (0, one_dl_tbf) \<and>
   l1gprs_pdch_filter_dl_block (gp_pdch one_dl_tbf ! 3) [0, 0x0a] \<and>
   \<not> l1gprs_pdch_filter_dl_block (gp_pdch one_dl_tbf ! 3) [0, 0x0c]"
proof -
  have "find_tbf False 1 (gp_tbfs one_dl_tbf) = Some 0" "tb_slotmask (gp_tbfs one_dl_tbf ! 0) = 8" by code_simp+
  moreover have "l1gprs_pdch_filter_dl_block (gp_pdch one_dl_tbf ! 3) [0, 0x0a]"
    "\<not> l1gprs_pdch_filter_dl_block (gp_pdch one_dl_tbf ! 3) [0, 0x0c]" by code_simp+
  ultimately show ?thesis using dl_reconfig_keeps_tfi [OF one_dl_tbf_wf, of 1 0 6 0] by simp
qed

section \<open>Too many pending requests\<close>

text \<open>The packet channels after \<open>n\<close> pending uplink requests.\<close>

definition pul_count :: "u8 \<Rightarrow> nat \<Rightarrow> nat \<Rightarrow> l1gprs_pdch" where
  "pul_count slots n tn = \<lparr>pd_tn = tn, pd_ul = 0, pd_dl = 0, pd_tfi_mask = 0,
     pd_pul = (if bit slots tn then of_nat n else 0), pd_pdl = 0\<rparr>"

lemma walk_pul_count:
  "\<exists>es. walk (on_slots slots (link_pending True)) (map (pul_count slots n) xs) = Some (map (pul_count slots (Suc n)) xs, es)"
  by (induction xs) (auto simp: on_slots_def link_pending_def pul_count_def Let_def)

lemma walk_aborts: "p \<in> set ps \<Longrightarrow> f p = None \<Longrightarrow> walk f ps = None"
  by (induction ps) (auto split: Option.bind_splits)

lemma gprs_run_append: "gprs_run L (xs @ ys) g = do { g \<leftarrow> gprs_run L xs g; gprs_run L ys g }"
  by (induction xs arbitrary: g) (auto split: option.splits Option.bind_splits)

lemma replicate_snoc: "replicate (Suc n) x = replicate n x @ [x]"
  by (simp add: replicate_append_same)

lemma pending_ul_requests:
  assumes "slots \<noteq> 0" "fn \<noteq> TDMA_FN_INVALID"
  shows "\<exists>g. gprs_run L (replicate n (UL_TBF_CFG_REQ ([ref, slots, 0, 0] @ be32_octets fn))) l1gprs_state_alloc = Some g \<and>
    gp_pdch g = map (pul_count slots n) [0..<8] \<and>
    gp_pending g = replicate n \<lparr>pr_uplink = True, pr_ref = ref, pr_slotmask = slots, pr_dl_tfi = None, pr_start_fn = fn\<rparr>"
proof (induction n)
  case 0
  show ?case by (simp add: l1gprs_state_alloc_def pul_count_def)
next
  case (Suc n)
  let ?i = "UL_TBF_CFG_REQ ([ref, slots, 0, 0] @ be32_octets fn)"
  obtain g where g: "gprs_run L (replicate n ?i) l1gprs_state_alloc = Some g" "gp_pdch g = map (pul_count slots n) [0..<8]"
    "gp_pending g = replicate n \<lparr>pr_uplink = True, pr_ref = ref, pr_slotmask = slots, pr_dl_tfi = None, pr_start_fn = fn\<rparr>"
    using Suc.IH by blast
  obtain es where "walk (on_slots slots (link_pending True)) (gp_pdch g) = Some (map (pul_count slots (Suc n)) [0..<8], es)"
    using walk_pul_count g(2) by metis
  moreover have "be32 4 ([ref, slots, 0, 0] @ be32_octets fn) = fn"
    using be_append(2) [of "[ref, slots, 0, 0]" 0 "be32_octets fn"] be32_be32_octets [of fn "[]"] by (simp add: eval_nat_numeral)
  ultimately obtain g' where "gprs_step L ?i g = Some g'" "gp_pdch g' = map (pul_count slots (Suc n)) [0..<8]"
      "gp_pending g' = gp_pending g @ [\<lparr>pr_uplink = True, pr_ref = ref, pr_slotmask = slots, pr_dl_tfi = None, pr_start_fn = fn\<rparr>]"
    using assms by (simp add: l1gprs_handle_ul_tbf_cfg_req_def tbf_cfg_def l1gprs_add_tbf_pending_req_def walk_state_def
        octet_def length_be_octets)
  then show ?case unfolding replicate_snoc gprs_run_append using g by simp blast
qed

text \<open>Each packet channel counts its pending requests in eight bits. 256 pending uplink requests for
  a timeslot count as none, and when the first of them becomes due its removal fails an assertion.\<close>

theorem gprs_pending_overflow:
  assumes "slots \<noteq> 0" and "start_fn \<noteq> TDMA_FN_INVALID" and "0 \<le> gsm0502_fncmp L fn start_fn" and "unat tn < 8"
  shows "gprs_run L (replicate 256 (UL_TBF_CFG_REQ ([ref, slots, 0, 0] @ be32_octets start_fn)) @ [RTS_IND fn tn usf])
    l1gprs_state_alloc = None"
proof -
  let ?r = "\<lparr>pr_uplink = True, pr_ref = ref, pr_slotmask = slots, pr_dl_tfi = None, pr_start_fn = start_fn\<rparr>"
  let ?is = "replicate 256 (UL_TBF_CFG_REQ ([ref, slots, 0, 0] @ be32_octets start_fn))"
  obtain g where g: "gprs_run L ?is l1gprs_state_alloc = Some g" "gp_pdch g = map (pul_count slots 256) [0..<8]"
    "gp_pending g = replicate 256 ?r"
    using pending_ul_requests [OF assms(1,2)] by blast
  obtain k where k: "bit slots k" "k < 8"
    using assms(1) bit_imp_le_length [of slots] by (auto simp: bit_eq_iff not_le [symmetric])
  have z: "pd_pul (pul_count slots 256 k) = 0" by (simp add: pul_count_def)
  have "walk (on_slots slots (unlink_pending True)) (gp_pdch g) = None"
    by (rule walk_aborts [of "pul_count slots 256 k"])
      (use k z in \<open>auto simp: g(2) on_slots_def unlink_pending_def pul_count_def simp del: upt_Suc\<close>)
  then have "activate_pending g ?r = None"
    by (simp add: activate_pending_def l1gprs_remove_tbf_pending_req_def walk_state_def)
  moreover have "gp_pending g = ?r # replicate 255 ?r" using g(3) by (simp add: numeral_eq_Suc)
  ultimately have "l1gprs_check_pending_tbfs L g fn = None"
    using assms(3) by (simp add: l1gprs_check_pending_tbfs_def)
  then show ?thesis using g(1) by (simp add: gprs_run_append l1gprs_handle_rts_ind_def)
qed

theorem gprs_pending_overflow_witness:
  "gprs_run toy_lib (replicate 256 (UL_TBF_CFG_REQ ([1, 0x0c, 0, 0] @ be32_octets 50)) @ [RTS_IND 60 3 7]) l1gprs_state_alloc = None"
  by (rule gprs_pending_overflow) (simp_all add: toy_lib_def GSM_TDMA_HYPERFRAME_def)

end
