(* ===== verification/Sercomm.thy ===== *)
theory Sercomm
  imports Prelude "HOL-Library.Multiset"
begin

text \<open>
  The serial link between phone and host (\<^verbatim>\<open>src/src/target/firmware/comm/sercomm.c\<close>): messages for
  129 data links in queues by priority, put on the line as HDLC frames and taken off it octet by
  octet. The same file is built into the firmware (\<^verbatim>\<open>SERCOMM_RX_MSG_SIZE\<close> 256) and the host tools
  (2048); the size is the argument \<open>sz\<close> of the receiver here.
\<close>

section \<open>State\<close>

datatype hdlc_state = RX_ST_WAIT_START | RX_ST_ADDR | RX_ST_CTRL | RX_ST_DATA | RX_ST_ESCAPE

abbreviation (input) HDLC_FLAG :: u8 where "HDLC_FLAG \<equiv> 0x7E"
abbreviation (input) HDLC_ESCAPE :: u8 where "HDLC_ESCAPE \<equiv> 0x7D"
abbreviation (input) HDLC_C_UI :: u8 where "HDLC_C_UI \<equiv> 0x03"
abbreviation (input) SC_DLCI_ECHO :: u8 where "SC_DLCI_ECHO \<equiv> 128"
abbreviation (input) SC_DLCI_MAX :: nat where "SC_DLCI_MAX \<equiv> 129"

text \<open>A handler is \<^verbatim>\<open>sercomm_sendmsg\<close> itself or a callback of the application, whose calls are the
  events of the receiver.\<close>

datatype dlci_cb = Echo | User

text \<open>
  A queued message starts with its address and control octets. Of the message being sent,
  \<open>sc_tx_msg\<close> is what lies between \<^verbatim>\<open>next_char\<close> and the tail: the transmitter changes the octet it
  escapes in place. A receive buffer has 4 octets of headroom and room for \<open>sz\<close> octets.
\<close>

record sc_msgb =
  sm_headroom :: nat
  sm_data :: "u8 list"

record sercomm =
  sc_queues :: "u8 list list list"
  sc_tx_msg :: "u8 list option"
  sc_tx_state :: hdlc_state
  sc_handler :: "dlci_cb option list"
  sc_rx_msg :: "u8 list option"
  sc_rx_state :: hdlc_state
  sc_rx_dlci :: u8
  sc_rx_ctrl :: u8

definition sercomm_zero :: sercomm where
  "sercomm_zero = \<lparr>sc_queues = [], sc_tx_msg = None, sc_tx_state = RX_ST_WAIT_START,
     sc_handler = replicate SC_DLCI_MAX None, sc_rx_msg = None, sc_rx_state = RX_ST_WAIT_START,
     sc_rx_dlci = 0, sc_rx_ctrl = 0\<rparr>"

section \<open>Operations\<close>

definition sercomm_register_rx_cb :: "u8 \<Rightarrow> dlci_cb \<Rightarrow> sercomm \<Rightarrow> int \<times> sercomm" where
  "sercomm_register_rx_cb dlci cb s =
     (if unat dlci \<ge> length (sc_handler s) then (- EINVAL, s)
      else if sc_handler s ! unat dlci \<noteq> None then (- EBUSY, s)
      else (0, s\<lparr>sc_handler := (sc_handler s)[unat dlci := Some cb]\<rparr>))"

definition sercomm_init :: "sercomm \<Rightarrow> sercomm" where
  "sercomm_init s = snd (sercomm_register_rx_cb SC_DLCI_ECHO Echo
     (s\<lparr>sc_queues := replicate SC_DLCI_MAX [], sc_rx_msg := None\<rparr>))"

definition sercomm_sendmsg :: "u8 \<Rightarrow> sc_msgb \<Rightarrow> sercomm \<Rightarrow> sercomm option" where
  "sercomm_sendmsg dlci m s =
     (if sm_headroom m < 2 then None
      else do { q \<leftarrow> index_at (sc_queues s) (unat dlci);
                Some (s\<lparr>sc_queues := (sc_queues s)[unat dlci := q @ [[dlci, HDLC_C_UI] @ sm_data m]]\<rparr>) })"

definition sercomm_tx_queue_depth :: "u8 \<Rightarrow> sercomm \<Rightarrow> nat option" where
  "sercomm_tx_queue_depth dlci s = do { q \<leftarrow> index_at (sc_queues s) (unat dlci); Some (length q) }"

fun dequeue_first :: "u8 list list list \<Rightarrow> (u8 list \<times> u8 list list list) option" where
  "dequeue_first [] = None"
| "dequeue_first ((m # ms) # qs) = Some (m, ms # qs)"
| "dequeue_first ([] # qs) = do { (m, qs') \<leftarrow> dequeue_first qs; Some (m, [] # qs') }"

definition sercomm_drv_pull :: "sercomm \<Rightarrow> (u8 option \<times> sercomm) option" where
  "sercomm_drv_pull s = (case sc_tx_msg s of
     None \<Rightarrow> (case dequeue_first (sc_queues s) of
         Some (m, qs) \<Rightarrow> Some (Some HDLC_FLAG, s\<lparr>sc_queues := qs, sc_tx_msg := Some m\<rparr>)
       | None \<Rightarrow> Some (None, s))
   | Some octets \<Rightarrow>
       if sc_tx_state s = RX_ST_ESCAPE then (case octets of
           [] \<Rightarrow> None
         | c # r \<Rightarrow> Some (Some c, s\<lparr>sc_tx_msg := Some r, sc_tx_state := RX_ST_DATA\<rparr>))
       else (case octets of
           [] \<Rightarrow> Some (Some HDLC_FLAG, s\<lparr>sc_tx_msg := None\<rparr>)
         | c # r \<Rightarrow> if c = HDLC_FLAG \<or> c = HDLC_ESCAPE \<or> c = 0
             then Some (Some HDLC_ESCAPE, s\<lparr>sc_tx_msg := Some ((c XOR 0x20) # r), sc_tx_state := RX_ST_ESCAPE\<rparr>)
             else Some (Some c, s\<lparr>sc_tx_msg := Some r\<rparr>)))"

definition dispatch_rx_msg :: "u8 \<Rightarrow> u8 list \<Rightarrow> sercomm \<Rightarrow> ((u8 \<times> u8 list) list \<times> sercomm) option" where
  "dispatch_rx_msg dlci msg s =
     (if unat dlci \<ge> length (sc_handler s) then Some ([], s)
      else case sc_handler s ! unat dlci of
          None \<Rightarrow> Some ([], s)
        | Some Echo \<Rightarrow> do { s \<leftarrow> sercomm_sendmsg dlci \<lparr>sm_headroom = 4, sm_data = msg\<rparr> s; Some ([], s) }
        | Some User \<Rightarrow> Some ([(dlci, msg)], s))"

definition sc_put :: "nat \<Rightarrow> u8 list \<Rightarrow> u8 \<Rightarrow> u8 list option" where
  "sc_put sz msg ch = (if length msg < sz then Some (msg @ [ch]) else None)"

definition sercomm_drv_rx_char :: "nat \<Rightarrow> u8 \<Rightarrow> sercomm \<Rightarrow> (int \<times> (u8 \<times> u8 list) list \<times> sercomm) option" where
  "sercomm_drv_rx_char sz ch s =
     (let msg = (case sc_rx_msg s of None \<Rightarrow> [] | Some m \<Rightarrow> m);
          s = s\<lparr>sc_rx_msg := Some msg\<rparr> in
      if sz - length msg = 0 then Some (0, [], s\<lparr>sc_rx_msg := Some [], sc_rx_state := RX_ST_WAIT_START\<rparr>)
      else case sc_rx_state s of
          RX_ST_WAIT_START \<Rightarrow> Some (1, [], if ch = HDLC_FLAG then s\<lparr>sc_rx_state := RX_ST_ADDR\<rparr> else s)
        | RX_ST_ADDR \<Rightarrow> Some (1, [], s\<lparr>sc_rx_dlci := ch, sc_rx_state := RX_ST_CTRL\<rparr>)
        | RX_ST_CTRL \<Rightarrow> Some (1, [], s\<lparr>sc_rx_ctrl := ch, sc_rx_state := RX_ST_DATA\<rparr>)
        | RX_ST_DATA \<Rightarrow>
            if ch = HDLC_ESCAPE then Some (1, [], s\<lparr>sc_rx_state := RX_ST_ESCAPE\<rparr>)
            else if ch = HDLC_FLAG then do {
              (evs, s) \<leftarrow> dispatch_rx_msg (sc_rx_dlci s) msg s;
              Some (1, evs, s\<lparr>sc_rx_msg := None, sc_rx_state := RX_ST_WAIT_START\<rparr>) }
            else do { m \<leftarrow> sc_put sz msg ch; Some (1, [], s\<lparr>sc_rx_msg := Some m\<rparr>) }
        | RX_ST_ESCAPE \<Rightarrow> do {
            m \<leftarrow> sc_put sz msg (ch XOR 0x20);
            Some (1, [], s\<lparr>sc_rx_msg := Some m, sc_rx_state := RX_ST_DATA\<rparr>) })"

text \<open>The driver takes octets off the transmitter, and gives the octets of the line to the receiver.\<close>

fun sc_pulls :: "nat \<Rightarrow> sercomm \<Rightarrow> (u8 list \<times> sercomm) option" where
  "sc_pulls 0 s = Some ([], s)"
| "sc_pulls (Suc n) s = do {
     (c, s) \<leftarrow> sercomm_drv_pull s;
     (cs, s) \<leftarrow> sc_pulls n s;
     Some ((case c of None \<Rightarrow> [] | Some c \<Rightarrow> [c]) @ cs, s) }"

fun sc_feed :: "nat \<Rightarrow> u8 list \<Rightarrow> sercomm \<Rightarrow> ((u8 \<times> u8 list) list \<times> sercomm) option" where
  "sc_feed sz [] s = Some ([], s)"
| "sc_feed sz (c # cs) s = do {
     (rc, evs, s) \<leftarrow> sercomm_drv_rx_char sz c s;
     (evs', s) \<leftarrow> sc_feed sz cs s;
     Some (evs @ evs', s) }"

fun sc_send_all :: "(u8 \<times> u8 list) list \<Rightarrow> sercomm \<Rightarrow> sercomm option" where
  "sc_send_all [] s = Some s"
| "sc_send_all ((dlci, data) # ms) s = do {
     s \<leftarrow> sercomm_sendmsg dlci \<lparr>sm_headroom = 4, sm_data = data\<rparr> s; sc_send_all ms s }"

section \<open>Frames\<close>

definition esc :: "u8 \<Rightarrow> u8 list" where
  "esc c = (if c = HDLC_FLAG \<or> c = HDLC_ESCAPE \<or> c = 0 then [HDLC_ESCAPE, c XOR 0x20] else [c])"

definition frame :: "u8 list \<Rightarrow> u8 list" where
  "frame m = HDLC_FLAG # concat (map esc m) @ [HDLC_FLAG]"

lemma xor_move: "c XOR k = d \<longleftrightarrow> c = d XOR (k :: u8)"
  by (metis xor.assoc xor.right_neutral xor_self_eq)

lemma esc_no_flag: "HDLC_FLAG \<notin> set (esc c)" "0 \<notin> set (esc c)"
  by (auto simp: esc_def xor_move eq_commute [of _ "c XOR 0x20"])

section \<open>Sending\<close>

definition tx_idle :: "sercomm \<Rightarrow> bool" where
  "tx_idle s \<longleftrightarrow> sc_tx_msg s = None \<and> sc_tx_state s \<noteq> RX_ST_ESCAPE"

lemma sc_pulls_add: "sc_pulls (m + n) s = do { (cs, s) \<leftarrow> sc_pulls m s; (ds, s) \<leftarrow> sc_pulls n s; Some (cs @ ds, s) }"
  by (induction m arbitrary: s) (auto split: Option.bind_splits)

lemma pull_octet:
  assumes "sc_tx_msg s = Some (c # r)" "sc_tx_state s \<noteq> RX_ST_ESCAPE"
  shows "\<exists>st. st \<noteq> RX_ST_ESCAPE \<and> sc_pulls (length (esc c)) s = Some (esc c, s\<lparr>sc_tx_msg := Some r, sc_tx_state := st\<rparr>)"
proof (cases "c = HDLC_FLAG \<or> c = HDLC_ESCAPE \<or> c = 0")
  case True
  then show ?thesis
    using assms by (intro exI [of _ RX_ST_DATA]) (auto simp: sercomm_drv_pull_def esc_def)
next
  case False
  then show ?thesis
    using assms by (intro exI [of _ "sc_tx_state s"]) (cases s, auto simp: sercomm_drv_pull_def esc_def)
qed

lemma pull_body:
  "sc_tx_msg s = Some m \<Longrightarrow> sc_tx_state s \<noteq> RX_ST_ESCAPE \<Longrightarrow>
   \<exists>st. st \<noteq> RX_ST_ESCAPE \<and> sc_pulls (length (concat (map esc m))) s =
     Some (concat (map esc m), s\<lparr>sc_tx_msg := Some [], sc_tx_state := st\<rparr>)"
proof (induction m arbitrary: s)
  case Nil
  then show ?case by (intro exI [of _ "sc_tx_state s"]) (cases s, auto)
next
  case (Cons c r)
  obtain st where st: "st \<noteq> RX_ST_ESCAPE" "sc_pulls (length (esc c)) s = Some (esc c, s\<lparr>sc_tx_msg := Some r, sc_tx_state := st\<rparr>)"
    using pull_octet Cons.prems by blast
  obtain st' where "st' \<noteq> RX_ST_ESCAPE" "sc_pulls (length (concat (map esc r))) (s\<lparr>sc_tx_msg := Some r, sc_tx_state := st\<rparr>) =
      Some (concat (map esc r), s\<lparr>sc_tx_msg := Some [], sc_tx_state := st'\<rparr>)"
    using Cons.IH [of "s\<lparr>sc_tx_msg := Some r, sc_tx_state := st\<rparr>"] st(1) by auto
  then show ?case using st(2) by (auto simp: sc_pulls_add)
qed

lemma pull_frame:
  assumes "tx_idle s" "dequeue_first (sc_queues s) = Some (m, qs)"
  shows "\<exists>st. st \<noteq> RX_ST_ESCAPE \<and> sc_pulls (length (frame m)) s =
    Some (frame m, s\<lparr>sc_queues := qs, sc_tx_msg := None, sc_tx_state := st\<rparr>)"
proof -
  let ?s = "s\<lparr>sc_queues := qs, sc_tx_msg := Some m\<rparr>"
  obtain st where st: "st \<noteq> RX_ST_ESCAPE" "sc_pulls (length (concat (map esc m))) ?s =
      Some (concat (map esc m), ?s\<lparr>sc_tx_msg := Some [], sc_tx_state := st\<rparr>)"
    using pull_body [of ?s m] assms(1) by (auto simp: tx_idle_def)
  have "sc_pulls 1 (?s\<lparr>sc_tx_msg := Some [], sc_tx_state := st\<rparr>) =
      Some ([HDLC_FLAG], s\<lparr>sc_queues := qs, sc_tx_msg := None, sc_tx_state := st\<rparr>)"
    using st(1) by (simp add: sercomm_drv_pull_def)
  moreover have "sc_pulls 1 s = Some ([HDLC_FLAG], ?s)"
    using assms by (simp add: sercomm_drv_pull_def tx_idle_def)
  moreover have "length (frame m) = 1 + (length (concat (map esc m)) + 1)" by (simp add: frame_def)
  ultimately have "sc_pulls (length (frame m)) s =
      Some (frame m, s\<lparr>sc_queues := qs, sc_tx_msg := None, sc_tx_state := st\<rparr>)"
    using st(2) by (simp only: sc_pulls_add) (simp add: frame_def)
  then show ?thesis using st(1) by blast
qed

lemma dequeue_first_Some: "dequeue_first qs = Some (m, qs') \<Longrightarrow> concat qs = m # concat qs'"
proof (induction qs arbitrary: qs' rule: dequeue_first.induct)
  case (3 qs)
  then show ?case by (auto simp del: concat_eq_Nil_conv)
qed simp_all

lemma dequeue_first_None: "dequeue_first qs = None \<Longrightarrow> concat qs = []"
  by (induction qs rule: dequeue_first.induct) (simp_all only: dequeue_first.simps bind_None_iff split_paired_Ex prod.case, simp_all)

lemma pull_all:
  "tx_idle s \<Longrightarrow> concat (sc_queues s) = ms \<Longrightarrow>
   \<exists>s'. sc_pulls (length (concat (map frame ms))) s = Some (concat (map frame ms), s') \<and> tx_idle s' \<and> concat (sc_queues s') = []"
proof (induction ms arbitrary: s)
  case (Cons m ms)
  obtain qs where q: "dequeue_first (sc_queues s) = Some (m, qs)" "concat qs = ms"
    using dequeue_first_Some [of "sc_queues s"] dequeue_first_None [of "sc_queues s"] Cons.prems(2)
    by (cases "dequeue_first (sc_queues s)") (simp, metis list.inject prod.exhaust)
  obtain st where "st \<noteq> RX_ST_ESCAPE" "sc_pulls (length (frame m)) s =
      Some (frame m, s\<lparr>sc_queues := qs, sc_tx_msg := None, sc_tx_state := st\<rparr>)"
    using pull_frame [OF Cons.prems(1) q(1)] by blast
  moreover obtain s' where "sc_pulls (length (concat (map frame ms))) (s\<lparr>sc_queues := qs, sc_tx_msg := None, sc_tx_state := st\<rparr>) =
      Some (concat (map frame ms), s')" "tx_idle s'" "concat (sc_queues s') = []"
    using Cons.IH [of "s\<lparr>sc_queues := qs, sc_tx_msg := None, sc_tx_state := st\<rparr>"] q(2) calculation(1)
    by (auto simp: tx_idle_def)
  ultimately show ?case by (auto simp: sc_pulls_add)
qed auto

section \<open>Receiving\<close>

lemma sc_feed_append:
  "sc_feed sz (xs @ ys) s = do { (e, s) \<leftarrow> sc_feed sz xs s; (f, s) \<leftarrow> sc_feed sz ys s; Some (e @ f, s) }"
  by (induction xs arbitrary: s) (auto split: Option.bind_splits)

lemma sc_feed_parts:
  "sc_feed sz a s = Some ([], t) \<Longrightarrow> sc_feed sz b t = Some ([], u) \<Longrightarrow> sc_feed sz c u = Some (e, v) \<Longrightarrow>
   sc_feed sz (a @ b @ c) s = Some (e, v)"
  by (simp add: sc_feed_append)

abbreviation rx_empty :: "sercomm \<Rightarrow> bool" where
  "rx_empty s \<equiv> sc_rx_msg s = None \<or> sc_rx_msg s = Some []"

definition sc_wf :: "nat \<Rightarrow> sercomm \<Rightarrow> bool" where
  "sc_wf sz s \<longleftrightarrow> 0 < sz \<and> length (sc_queues s) = SC_DLCI_MAX \<and> length (sc_handler s) = SC_DLCI_MAX \<and>
     (sc_rx_state s \<in> {RX_ST_WAIT_START, RX_ST_ADDR, RX_ST_CTRL} \<and> rx_empty s \<or>
      sc_rx_state s \<in> {RX_ST_DATA, RX_ST_ESCAPE} \<and> (\<exists>m. sc_rx_msg s = Some m \<and> length m \<le> sz))"

lemma dispatch_ok:
  assumes "sc_wf sz s"
  shows "\<exists>evs q. dispatch_rx_msg d m s = Some (evs, s\<lparr>sc_queues := q\<rparr>) \<and> length q = SC_DLCI_MAX"
proof -
  have l: "length (sc_queues s) = SC_DLCI_MAX" "length (sc_handler s) = SC_DLCI_MAX" using assms by (simp_all add: sc_wf_def)
  have self: "s = s\<lparr>sc_queues := sc_queues s\<rparr>" by simp
  consider "unat d \<ge> SC_DLCI_MAX" | "unat d < SC_DLCI_MAX" "sc_handler s ! unat d = None"
    | "unat d < SC_DLCI_MAX" "sc_handler s ! unat d = Some Echo" | "unat d < SC_DLCI_MAX" "sc_handler s ! unat d = Some User"
    using dlci_cb.exhaust by (metis not_le option.exhaust)
  then show ?thesis
    using l by cases (auto simp: dispatch_rx_msg_def sercomm_sendmsg_def index_at_Some intro: exI [of _ "sc_queues s"])
qed

lemma same_rx_msg: "sc_rx_msg s = Some m \<Longrightarrow> s\<lparr>sc_rx_msg := Some m\<rparr> = s"
  by (cases s) simp

lemma sc_put_ok: "sc_put sz m c = Some m' \<longleftrightarrow> length m < sz \<and> m' = m @ [c]"
  by (auto simp: sc_put_def)

lemma rx_char_ok:
  assumes "sc_wf sz s"
  shows "\<exists>rc evs s'. sercomm_drv_rx_char sz ch s = Some (rc, evs, s') \<and> sc_wf sz s' \<and> sc_handler s' = sc_handler s"
proof (cases "sc_rx_state s = RX_ST_DATA \<and> ch = HDLC_FLAG \<and> (\<exists>m. sc_rx_msg s = Some m \<and> length m < sz)")
  case True
  then obtain m where m: "sc_rx_msg s = Some m" "length m < sz" by blast
  obtain evs q where "dispatch_rx_msg (sc_rx_dlci s) m s = Some (evs, s\<lparr>sc_queues := q\<rparr>)" "length q = SC_DLCI_MAX"
    using dispatch_ok [OF assms] by blast
  then show ?thesis
    using True m assms by (simp add: sercomm_drv_rx_char_def sc_wf_def Let_def same_rx_msg)
next
  case False
  then show ?thesis
    using assms unfolding sc_wf_def
    by (cases "sc_rx_state s") (auto simp: sercomm_drv_rx_char_def sc_wf_def Let_def sc_put_ok split: if_splits)
qed

lemma sc_feed_ok:
  "sc_wf sz s \<Longrightarrow> \<exists>evs s'. sc_feed sz cs s = Some (evs, s') \<and> sc_wf sz s' \<and> sc_handler s' = sc_handler s"
proof (induction cs arbitrary: s)
  case (Cons c cs)
  obtain rc evs s1 where "sercomm_drv_rx_char sz c s = Some (rc, evs, s1)" "sc_wf sz s1" "sc_handler s1 = sc_handler s"
    using rx_char_ok [OF Cons.prems] by blast
  moreover obtain evs' s2 where "sc_feed sz cs s1 = Some (evs', s2)" "sc_wf sz s2" "sc_handler s2 = sc_handler s1"
    using Cons.IH calculation(2) by blast
  ultimately show ?case by simp
qed simp

text \<open>An escaped octet, and a run of them, in the state \<^verbatim>\<open>RX_ST_DATA\<close>.\<close>

lemma rx_esc:
  assumes "sc_rx_state s = RX_ST_DATA" "sc_rx_msg s = Some m" "length m < sz"
  shows "sc_feed sz (esc c) s = Some ([], s\<lparr>sc_rx_msg := Some (m @ [c])\<rparr>)"
proof -
  have "c XOR 0x20 XOR 0x20 = c" by (simp add: xor.assoc)
  then show ?thesis
    using assms by (cases s) (auto simp: esc_def sercomm_drv_rx_char_def Let_def sc_put_def xor_move)
qed

lemma rx_body:
  "sc_rx_state s = RX_ST_DATA \<Longrightarrow> sc_rx_msg s = Some m \<Longrightarrow> length m + length data \<le> sz \<Longrightarrow>
   sc_feed sz (concat (map esc data)) s = Some ([], s\<lparr>sc_rx_msg := Some (m @ data)\<rparr>)"
proof (induction data arbitrary: m s)
  case (Cons c data)
  have "sc_feed sz (esc c) s = Some ([], s\<lparr>sc_rx_msg := Some (m @ [c])\<rparr>)"
    by (rule rx_esc) (use Cons.prems in auto)
  moreover have "sc_feed sz (concat (map esc data)) (s\<lparr>sc_rx_msg := Some (m @ [c])\<rparr>) =
      Some ([], s\<lparr>sc_rx_msg := Some (m @ c # data)\<rparr>)"
    using Cons.IH [of "s\<lparr>sc_rx_msg := Some (m @ [c])\<rparr>" "m @ [c]"] Cons.prems by simp
  ultimately show ?case by (simp add: sc_feed_append)
qed simp

text \<open>Waiting for a frame, the receiver ignores what is not a flag.\<close>

lemma rx_ignore:
  "sc_rx_state s = RX_ST_WAIT_START \<Longrightarrow> sc_rx_msg s = Some [] \<Longrightarrow> 0 < sz \<Longrightarrow> HDLC_FLAG \<notin> set cs \<Longrightarrow>
   sc_feed sz cs s = Some ([], s)"
  by (induction cs) (auto simp: sercomm_drv_rx_char_def Let_def same_rx_msg)

lemma rx_full:
  assumes "sc_rx_msg s = Some m" "length m = sz"
  shows "sercomm_drv_rx_char sz c s = Some (0, [], s\<lparr>sc_rx_msg := Some [], sc_rx_state := RX_ST_WAIT_START\<rparr>)"
  using assms by (simp add: sercomm_drv_rx_char_def Let_def)

text \<open>A run that does not fit leaves the receiver waiting.\<close>

lemma rx_body_overflow:
  assumes "sc_rx_state s = RX_ST_DATA" "sc_rx_msg s = Some m" "length m \<le> sz" "sz < length m + length data" "0 < sz"
  shows "sc_feed sz (concat (map esc data)) s = Some ([], s\<lparr>sc_rx_msg := Some [], sc_rx_state := RX_ST_WAIT_START\<rparr>)"
proof -
  let ?n = "sz - length m" and ?w = "s\<lparr>sc_rx_msg := Some [], sc_rx_state := RX_ST_WAIT_START\<rparr>"
  obtain c r where d: "data = take ?n data @ c # r"
    using assms(3,4) id_take_nth_drop [of ?n data] by force
  have "sc_feed sz (concat (map esc (take ?n data))) s = Some ([], s\<lparr>sc_rx_msg := Some (m @ take ?n data)\<rparr>)"
    using assms by (intro rx_body) auto
  moreover obtain e es where e: "esc c = e # es" by (cases "esc c") (auto simp: esc_def split: if_splits)
  moreover have "sercomm_drv_rx_char sz e (s\<lparr>sc_rx_msg := Some (m @ take ?n data)\<rparr>) = Some (0, [], ?w)"
    using assms rx_full [of "s\<lparr>sc_rx_msg := Some (m @ take ?n data)\<rparr>" "m @ take ?n data"] by simp
  moreover have "sc_feed sz (es @ concat (map esc r)) ?w = Some ([], ?w)"
    using esc_no_flag(1) [of c] esc_no_flag(1) e assms(5) by (intro rx_ignore) auto
  moreover have "concat (map esc data) = concat (map esc (take ?n data)) @ (e # (es @ concat (map esc r)))"
    using arg_cong [OF d, of "\<lambda>d. concat (map esc d)"] e by simp
  ultimately show ?thesis by (simp only: sc_feed_append sc_feed.simps) simp
qed

section \<open>Whole frames\<close>

definition plain :: "u8 \<Rightarrow> bool" where
  "plain c \<longleftrightarrow> c \<noteq> HDLC_FLAG \<and> c \<noteq> HDLC_ESCAPE \<and> c \<noteq> 0"

lemma esc_plain [simp]: "plain c \<Longrightarrow> esc c = [c]" "esc HDLC_C_UI = [HDLC_C_UI]"
  by (auto simp: plain_def esc_def)

text \<open>The frame of a message of \<^verbatim>\<open>sercomm_sendmsg\<close>.\<close>

definition ui_frame :: "u8 \<Rightarrow> u8 list \<Rightarrow> u8 list" where
  "ui_frame d data = frame ([d, HDLC_C_UI] @ data)"

lemma ui_frame: "plain d \<Longrightarrow> ui_frame d data = [HDLC_FLAG, d, HDLC_C_UI] @ concat (map esc data) @ [HDLC_FLAG]"
  by (simp add: ui_frame_def frame_def)

text \<open>A flag that ends a message.\<close>

lemma rx_end:
  assumes "sc_rx_state s = RX_ST_DATA" "sc_rx_msg s = Some m" "length m < sz"
    "dispatch_rx_msg (sc_rx_dlci s) m s = Some (evs, t)"
  shows "sercomm_drv_rx_char sz HDLC_FLAG s = Some (1, evs, t\<lparr>sc_rx_msg := None, sc_rx_state := RX_ST_WAIT_START\<rparr>)"
  using assms by (simp add: sercomm_drv_rx_char_def Let_def same_rx_msg)

lemma rx_head:
  assumes "sc_rx_state s = RX_ST_WAIT_START" "rx_empty s" "0 < sz"
  shows "sc_feed sz [HDLC_FLAG, d, c] s =
    Some ([], s\<lparr>sc_rx_msg := Some [], sc_rx_dlci := d, sc_rx_ctrl := c, sc_rx_state := RX_ST_DATA\<rparr>)"
  using assms by (cases s) (auto simp: sercomm_drv_rx_char_def Let_def)

text \<open>
  In step, a frame that fits is dispatched and leaves the receiver in step. Taking the closing flag
  of a frame for the opening one, it reads the next opening flag as the address.
\<close>

lemma rx_delivers:
  assumes "sc_wf sz s" "sc_rx_state s = RX_ST_WAIT_START" "length data < sz" "plain d"
    "unat d < SC_DLCI_MAX" "sc_handler s ! unat d = Some User"
  shows "\<exists>t. sc_feed sz (ui_frame d data) s = Some ([(d, data)], t) \<and> sc_wf sz t \<and> sc_handler t = sc_handler s \<and>
    sc_rx_state t = RX_ST_WAIT_START"
proof -
  let ?s = "s\<lparr>sc_rx_msg := Some [], sc_rx_dlci := d, sc_rx_ctrl := HDLC_C_UI, sc_rx_state := RX_ST_DATA\<rparr>"
  let ?t = "?s\<lparr>sc_rx_msg := Some data\<rparr>"
  have "sc_feed sz [HDLC_FLAG, d, HDLC_C_UI] s = Some ([], ?s)"
    using assms by (intro rx_head) (auto simp: sc_wf_def)
  moreover have "sc_feed sz (concat (map esc data)) ?s = Some ([], ?t)"
    using rx_body [of ?s "[]" data sz] assms by simp
  moreover have "dispatch_rx_msg (sc_rx_dlci ?t) data ?t = Some ([(d, data)], ?t)"
    using assms by (simp add: dispatch_rx_msg_def sc_wf_def)
  then have "sc_feed sz [HDLC_FLAG] ?t = Some ([(d, data)], ?t\<lparr>sc_rx_msg := None, sc_rx_state := RX_ST_WAIT_START\<rparr>)"
    using rx_end [of ?t data sz] assms by simp
  ultimately have "sc_feed sz (ui_frame d data) s = Some ([(d, data)], ?t\<lparr>sc_rx_msg := None, sc_rx_state := RX_ST_WAIT_START\<rparr>)"
    by (simp only: ui_frame [OF assms(4)] sc_feed_append) simp
  then show ?thesis using assms(1) by (simp add: sc_wf_def)
qed

text \<open>Whatever the receiver takes the octets of a frame for, after them it waits or has just seen a flag.\<close>

abbreviation in_step :: "sercomm \<Rightarrow> bool" where
  "in_step s \<equiv> sc_rx_state s = RX_ST_WAIT_START \<or> sc_rx_state s = RX_ST_ADDR"

lemma rx_wait_flag:
  assumes "sc_wf sz s" "sc_rx_state s = RX_ST_WAIT_START"
  shows "sc_feed sz [HDLC_FLAG] s = Some ([], s\<lparr>sc_rx_msg := Some [], sc_rx_state := RX_ST_ADDR\<rparr>)"
  using assms by (auto simp: sercomm_drv_rx_char_def Let_def sc_wf_def)

lemma rx_tail:
  assumes "sc_wf sz s" "sc_rx_state s = RX_ST_DATA"
  shows "\<exists>evs t. sc_feed sz (concat (map esc data) @ [HDLC_FLAG]) s = Some (evs, t) \<and> sc_wf sz t \<and> in_step t \<and>
    sc_handler t = sc_handler s \<and> (\<forall>m. sc_rx_msg s = Some m \<longrightarrow> length m + length data < sz \<longrightarrow> sc_rx_state t = RX_ST_WAIT_START)"
proof -
  obtain m where m: "sc_rx_msg s = Some m" "length m \<le> sz" "0 < sz" using assms by (auto simp: sc_wf_def)
  show ?thesis
  proof (cases "length m + length data \<le> sz")
    case True
    let ?s = "s\<lparr>sc_rx_msg := Some (m @ data)\<rparr>"
    have b: "sc_feed sz (concat (map esc data)) s = Some ([], ?s)" "sc_wf sz ?s"
      using rx_body [OF assms(2) m(1) True] assms True by (auto simp: sc_wf_def)
    show ?thesis
    proof (cases "length m + length data = sz")
      case True
      then have "sc_feed sz [HDLC_FLAG] ?s = Some ([], ?s\<lparr>sc_rx_msg := Some [], sc_rx_state := RX_ST_WAIT_START\<rparr>)"
        using rx_full [of ?s "m @ data"] by simp
      then show ?thesis using b True m(1) by (auto simp: sc_feed_append sc_wf_def)
    next
      case False
      obtain evs q where "dispatch_rx_msg (sc_rx_dlci ?s) (m @ data) ?s = Some (evs, ?s\<lparr>sc_queues := q\<rparr>)" "length q = SC_DLCI_MAX"
        using dispatch_ok [OF b(2)] by blast
      then have "sc_feed sz [HDLC_FLAG] ?s = Some (evs, ?s\<lparr>sc_queues := q, sc_rx_msg := None, sc_rx_state := RX_ST_WAIT_START\<rparr>)"
        using rx_end [of ?s "m @ data" sz] True False assms(2) by simp
      then show ?thesis using b \<open>length q = _\<close> by (auto simp: sc_feed_append sc_wf_def)
    qed
  next
    case False
    let ?w = "s\<lparr>sc_rx_msg := Some [], sc_rx_state := RX_ST_WAIT_START\<rparr>"
    have "sc_feed sz (concat (map esc data)) s = Some ([], ?w)"
      using rx_body_overflow [OF assms(2) m(1,2) _ m(3)] False by simp
    moreover have "sc_feed sz [HDLC_FLAG] ?w = Some ([], ?w\<lparr>sc_rx_state := RX_ST_ADDR\<rparr>)"
      using rx_wait_flag [of sz ?w] assms by (simp add: sc_wf_def)
    ultimately show ?thesis using False m(1) assms(1) by (auto simp: sc_feed_append sc_wf_def)
  qed
qed

lemma rx_misread:
  assumes "sc_wf sz s" "sc_rx_state s = RX_ST_ADDR" "plain d"
  shows "\<exists>evs t. sc_feed sz (ui_frame d data) s = Some (evs, t) \<and> sc_wf sz t \<and> in_step t \<and> sc_handler t = sc_handler s \<and>
    (Suc (length data) < sz \<longrightarrow> sc_rx_state t = RX_ST_WAIT_START)"
proof -
  let ?s = "s\<lparr>sc_rx_msg := Some [], sc_rx_dlci := HDLC_FLAG, sc_rx_ctrl := d, sc_rx_state := RX_ST_DATA\<rparr>"
  have "sc_feed sz [HDLC_FLAG, d] s = Some ([], ?s)"
    using assms by (cases s) (auto simp: sercomm_drv_rx_char_def Let_def sc_wf_def)
  moreover have "ui_frame d data = [HDLC_FLAG, d] @ concat (map esc (HDLC_C_UI # data)) @ [HDLC_FLAG]"
    using assms(3) by (simp add: ui_frame)
  moreover have "sc_wf sz ?s" using assms(1) by (simp add: sc_wf_def)
  ultimately show ?thesis
    using rx_tail [of sz ?s "HDLC_C_UI # data"] by (auto simp: sc_feed_append)
qed

lemma rx_any:
  assumes "sc_wf sz s" "plain d"
  shows "\<exists>evs t. sc_feed sz (ui_frame d data) s = Some (evs, t) \<and> sc_wf sz t \<and> in_step t \<and> sc_handler t = sc_handler s"
proof -
  have f: "ui_frame d data = [HDLC_FLAG] @ concat (map esc (d # HDLC_C_UI # data)) @ [HDLC_FLAG]"
    using assms(2) by (simp add: ui_frame)
  obtain evs t where t: "sc_feed sz [HDLC_FLAG] s = Some (evs, t)" "sc_wf sz t" "sc_handler t = sc_handler s"
    using sc_feed_ok [OF assms(1)] by blast
  consider "sc_rx_state s = RX_ST_WAIT_START" | "sc_rx_state s = RX_ST_ADDR" | "sc_rx_state t = RX_ST_DATA"
    | "sc_rx_state t = RX_ST_WAIT_START" "sc_rx_msg t = None \<or> sc_rx_msg t = Some []"
    using t(1) by (cases "sc_rx_state s") (auto simp: sercomm_drv_rx_char_def Let_def split: if_splits)
  then show ?thesis
  proof cases
    case 1
    let ?s = "s\<lparr>sc_rx_msg := Some [], sc_rx_dlci := d, sc_rx_ctrl := HDLC_C_UI, sc_rx_state := RX_ST_DATA\<rparr>"
    have "sc_feed sz [HDLC_FLAG, d, HDLC_C_UI] s = Some ([], ?s)"
      using assms(1) 1 by (intro rx_head) (auto simp: sc_wf_def)
    moreover have "sc_wf sz ?s" using assms(1) by (simp add: sc_wf_def)
    ultimately show ?thesis
      using rx_tail [of sz ?s data] unfolding ui_frame [OF assms(2)] sc_feed_append by auto
  next
    case 2
    then show ?thesis using rx_misread [OF assms(1) _ assms(2)] by blast
  next
    case 3
    then show ?thesis
      using t rx_tail [OF t(2) 3, of "d # HDLC_C_UI # data"] unfolding f sc_feed_append [of sz "[HDLC_FLAG]"] by auto
  next
    case 4
    let ?t = "t\<lparr>sc_rx_msg := Some []\<rparr>"
    have body: "HDLC_FLAG \<notin> set (concat (map esc (d # HDLC_C_UI # data)))"
      using esc_no_flag(1) by auto
    obtain c cs where c: "concat (map esc (d # HDLC_C_UI # data)) = c # cs" using assms(2) by simp
    have nf: "HDLC_FLAG \<notin> set (c # cs)" using body unfolding c .
    have "sc_feed sz (c # cs) t = sc_feed sz (c # cs) ?t"
      using 4 by (auto simp: sercomm_drv_rx_char_def Let_def)
    also have "\<dots> = Some ([], ?t)"
      by (rule rx_ignore) (use 4 t(2) nf in \<open>simp_all add: sc_wf_def\<close>)
    finally have "sc_feed sz (concat (map esc (d # HDLC_C_UI # data))) t = Some ([], ?t)" unfolding c .
    moreover have "sc_wf sz ?t" using t(2) 4 by (auto simp: sc_wf_def)
    then have "sc_feed sz [HDLC_FLAG] ?t = Some ([], ?t\<lparr>sc_rx_msg := Some [], sc_rx_state := RX_ST_ADDR\<rparr>)"
      using rx_wait_flag [of sz ?t] 4 by simp
    moreover have "sc_feed sz ([HDLC_FLAG] @ body @ [HDLC_FLAG]) s = Some (evs, v)"
      if "sc_feed sz body t = Some ([], u)" "sc_feed sz [HDLC_FLAG] u = Some ([], v)" for body u v
      using that t(1) by (simp only: sc_feed_append bind_Some_iff) simp
    ultimately have "sc_feed sz (ui_frame d data) s = Some (evs, ?t\<lparr>sc_rx_msg := Some [], sc_rx_state := RX_ST_ADDR\<rparr>)"
      unfolding f by blast
    then have "sc_feed sz (ui_frame d data) s = Some (evs, ?t\<lparr>sc_rx_state := RX_ST_ADDR\<rparr>)" by simp
    moreover have "sc_wf sz (?t\<lparr>sc_rx_state := RX_ST_ADDR\<rparr>)" using \<open>sc_wf sz ?t\<close> by (simp add: sc_wf_def)
    ultimately show ?thesis using t(3) by simp
  qed
qed

section \<open>The link\<close>

lemma init_state:
  "sercomm_init sercomm_zero = \<lparr>sc_queues = replicate 129 [], sc_tx_msg = None, sc_tx_state = RX_ST_WAIT_START,
     sc_handler = (replicate 129 None)[128 := Some Echo], sc_rx_msg = None, sc_rx_state = RX_ST_WAIT_START,
     sc_rx_dlci = 0, sc_rx_ctrl = 0\<rparr>"
  by (simp add: sercomm_init_def sercomm_register_rx_cb_def sercomm_zero_def)

lemma send_all_queues:
  "length (sc_queues s) = SC_DLCI_MAX \<Longrightarrow> list_all (\<lambda>(d, m). unat d < SC_DLCI_MAX) ms \<Longrightarrow>
   \<exists>q. sc_send_all ms s = Some (s\<lparr>sc_queues := q\<rparr>) \<and> length q = SC_DLCI_MAX \<and>
     (\<forall>k < SC_DLCI_MAX. q ! k = sc_queues s ! k @ map (\<lambda>(d, m). [d, HDLC_C_UI] @ m) (filter (\<lambda>(d, m). unat d = k) ms))"
proof (induction ms arbitrary: s)
  case Nil
  then show ?case by (intro exI [of _ "sc_queues s"]) simp
next
  case (Cons dm ms)
  obtain d m where dm: "dm = (d, m)" by (cases dm)
  let ?s = "s\<lparr>sc_queues := (sc_queues s)[unat d := sc_queues s ! unat d @ [[d, HDLC_C_UI] @ m]]\<rparr>"
  have step: "sercomm_sendmsg d \<lparr>sm_headroom = 4, sm_data = m\<rparr> s = Some ?s"
    using Cons.prems by (simp add: sercomm_sendmsg_def index_at_Some dm)
  obtain q where q: "sc_send_all ms ?s = Some (?s\<lparr>sc_queues := q\<rparr>)" "length q = SC_DLCI_MAX"
    "\<forall>k < SC_DLCI_MAX. q ! k = sc_queues ?s ! k @ map (\<lambda>(d, m). [d, HDLC_C_UI] @ m) (filter (\<lambda>(d, m). unat d = k) ms)"
    using Cons.IH [of ?s] Cons.prems by auto
  then show ?case
    using step Cons.prems by (intro exI [of _ q]) (auto simp: dm nth_list_update)
qed

lemma sort_key_buckets:
  assumes "list_all (\<lambda>x. f x < n) xs"
  shows "concat (map (\<lambda>k. filter (\<lambda>x. f x = k) xs) [0..<n]) = sort_key (f :: 'a \<Rightarrow> nat) xs"
proof (rule properties_for_sort_key [symmetric])
  have other: "filter (\<lambda>x. f x = k) (concat (map (\<lambda>j. filter (\<lambda>x. f x = j) xs) js)) =
      (if k \<in> set js then filter (\<lambda>x. f x = k) xs else [])" if "distinct js" for k js
    using that
  proof (induction js)
    case (Cons j js)
    have "filter (\<lambda>x. f x = k) (filter (\<lambda>x. f x = j) xs) = (if j = k then filter (\<lambda>x. f x = k) xs else [])"
      by (auto simp: filter_empty_conv intro: filter_cong)
    then show ?case using Cons by auto
  qed simp
  let ?ys = "concat (map (\<lambda>k. filter (\<lambda>x. f x = k) xs) [0..<n])"
  have "mset (concat (map (\<lambda>k. filter (\<lambda>x. f x = k) xs) [0..<m])) = filter_mset (\<lambda>x. f x < m) (mset xs)" for m
    by (induction m) (auto intro!: multiset_eqI simp: less_Suc_eq)
  then show "mset ?ys = mset xs"
    using assms by (simp add: list_all_iff filter_mset_eq_conv)
  show "filter (\<lambda>x. f k = f x) ?ys = filter (\<lambda>x. f k = f x) xs" if "k \<in> set ?ys" for k
    using other [of "[0..<n]" "f k"] that by (auto simp: eq_commute [of "f k"])
  have "sorted (map f (concat (map (\<lambda>k. filter (\<lambda>x. f x = k) xs) [m..<n])))" for m
  proof (induction "n - m" arbitrary: m)
    case (Suc i)
    then have "sorted (map f (concat (map (\<lambda>k. filter (\<lambda>x. f x = k) xs) [Suc m..<n])))" by simp
    moreover have "[m..<n] = m # [Suc m..<n]" using Suc by (simp add: upt_conv_Cons)
    moreover have "sorted (map f (filter (\<lambda>x. f x = m) xs))"
      by (rule sorted_map_same)
    ultimately show ?case by (auto simp: sorted_append)
  qed simp
  then show "sorted (map f ?ys)" .
qed

lemma init_wf: "0 < sz \<Longrightarrow> sc_wf sz (sercomm_init sercomm_zero)" "tx_idle (sercomm_init sercomm_zero)"
  by (simp_all add: init_state sc_wf_def tx_idle_def)

lemma feed_messages:
  "sc_wf sz s \<Longrightarrow> sc_rx_state s = RX_ST_WAIT_START \<Longrightarrow>
   list_all (\<lambda>(d, m). plain d \<and> unat d < SC_DLCI_MAX \<and> sc_handler s ! unat d = Some User \<and> length m < sz) ms \<Longrightarrow>
   \<exists>t. sc_feed sz (concat (map (\<lambda>(d, m). ui_frame d m) ms)) s = Some (ms, t) \<and> sc_wf sz t \<and>
     sc_rx_state t = RX_ST_WAIT_START"
proof (induction ms arbitrary: s)
  case (Cons dm ms)
  obtain d m where dm: "dm = (d, m)" by (cases dm)
  obtain t where t: "sc_feed sz (ui_frame d m) s = Some ([(d, m)], t)" "sc_wf sz t" "sc_handler t = sc_handler s"
    "sc_rx_state t = RX_ST_WAIT_START"
    using rx_delivers [OF Cons.prems(1,2), of m d] Cons.prems(3) by (auto simp: dm)
  then show ?case
    using Cons.IH [OF t(2,4)] Cons.prems(3) by (auto simp: dm sc_feed_append)
qed simp

lemma tx_stream:
  assumes "tx_idle s" "sc_queues s = replicate SC_DLCI_MAX []" "list_all (\<lambda>(d, m). unat d < SC_DLCI_MAX) ms"
  shows "\<exists>q s'. sc_send_all ms s = Some q \<and> (let line = concat (map (\<lambda>(d, m). ui_frame d m) (sort_key (\<lambda>(d, m). unat d) ms)) in
    sc_pulls (length line) q = Some (line, s') \<and> tx_idle s' \<and> concat (sc_queues s') = [])"
proof -
  obtain q where q: "sc_send_all ms s = Some (s\<lparr>sc_queues := q\<rparr>)" "length q = SC_DLCI_MAX"
    "\<forall>k < SC_DLCI_MAX. q ! k = map (\<lambda>(d, m). [d, HDLC_C_UI] @ m) (filter (\<lambda>(d, m). unat d = k) ms)"
    using send_all_queues [of s ms] assms(2,3) by auto
  have qs: "q = map (\<lambda>k. map (\<lambda>(d, m). [d, HDLC_C_UI] @ m) (filter (\<lambda>(d, m). unat d = k) ms)) [0..<SC_DLCI_MAX]"
    by (rule nth_equalityI) (use q(2,3) in \<open>simp_all del: upt_Suc\<close>)
  have "concat q = map (\<lambda>(d, m). [d, HDLC_C_UI] @ m) (concat (map (\<lambda>k. filter (\<lambda>(d, m). unat d = k) ms) [0..<SC_DLCI_MAX]))"
    unfolding qs map_concat by (simp add: comp_def case_prod_beta del: upt_Suc)
  also have "concat (map (\<lambda>k. filter (\<lambda>(d, m). unat d = k) ms) [0..<SC_DLCI_MAX]) = sort_key (\<lambda>(d, m). unat d) ms"
    using sort_key_buckets [of "\<lambda>(d, m). unat d" SC_DLCI_MAX ms] assms(3) by (simp add: case_prod_unfold del: upt_Suc)
  finally have c: "concat q = map (\<lambda>(d, m). [d, HDLC_C_UI] @ m) (sort_key (\<lambda>(d, m). unat d) ms)" .
  have "concat (map frame (concat q)) = concat (map (\<lambda>(d, m). ui_frame d m) (sort_key (\<lambda>(d, m). unat d) ms))"
    unfolding c by (simp add: comp_def ui_frame_def case_prod_unfold)
  moreover obtain s' where "sc_pulls (length (concat (map frame (concat q)))) (s\<lparr>sc_queues := q\<rparr>) =
      Some (concat (map frame (concat q)), s')" "tx_idle s'" "concat (sc_queues s') = []"
    using pull_all [of "s\<lparr>sc_queues := q\<rparr>" "concat q"] assms(1) by (auto simp: tx_idle_def)
  ultimately show ?thesis using q(1) by (simp add: Let_def)
qed

text \<open>C2. Messages queued on any data links reach the handlers of the other end once each, with
  the octets unchanged, the lower link first and in order on each link, and the line is idle after as many octets
  as the frames have. Excepted are link 0 and the links whose number is a control octet, and messages that
  fill the receive buffer.\<close>

theorem sercomm_delivers:
  assumes "list_all (\<lambda>(d, m). plain d \<and> unat d < SC_DLCI_MAX \<and> sc_handler r ! unat d = Some User \<and> length m < sz) ms"
    and "sc_wf sz r" and "sc_rx_state r = RX_ST_WAIT_START"
  shows "\<exists>s line s' r'. sc_send_all ms (sercomm_init sercomm_zero) = Some s \<and>
    sc_pulls (length line) s = Some (line, s') \<and> sercomm_drv_pull s' = Some (None, s') \<and>
    sc_feed sz line r = Some (sort_key (\<lambda>(d, m). unat d) ms, r') \<and> sc_rx_state r' = RX_ST_WAIT_START"
proof -
  let ?line = "concat (map (\<lambda>(d, m). ui_frame d m) (sort_key (\<lambda>(d, m). unat d) ms))"
  have reach: "list_all (\<lambda>(d, m). unat d < SC_DLCI_MAX) ms" using assms(1) by (auto simp: list_all_iff)
  obtain s s' where s: "sc_send_all ms (sercomm_init sercomm_zero) = Some s" "sc_pulls (length ?line) s = Some (?line, s')"
    "tx_idle s'" "concat (sc_queues s') = []"
    using tx_stream [OF init_wf(2) _ reach] by (simp add: init_state Let_def) blast
  have "dequeue_first (sc_queues s') = None"
    using s(4) dequeue_first_Some [of "sc_queues s'"] by (cases "dequeue_first (sc_queues s')") (auto simp del: concat_eq_Nil_conv)
  then have "sercomm_drv_pull s' = Some (None, s')" using s(3) by (simp add: sercomm_drv_pull_def tx_idle_def)
  moreover obtain r' where "sc_feed sz ?line r = Some (sort_key (\<lambda>(d, m). unat d) ms, r')" "sc_rx_state r' = RX_ST_WAIT_START"
    using feed_messages [OF assms(2,3), of "sort_key (\<lambda>(d, m). unat d) ms"] assms(1) by (auto simp: list_all_iff)
  ultimately show ?thesis using s(1,2) by blast
qed

text \<open>Whatever octets the receiver has been given, of three frames that follow, the third is
  delivered.\<close>

theorem sercomm_resyncs:
  assumes "sc_wf sz r" and "plain d1" and "plain d2" and "plain d3" and "Suc (length m2) < sz" and "length m3 < sz"
    and "unat d3 < SC_DLCI_MAX" and "sc_handler r ! unat d3 = Some User"
  shows "\<exists>evs r'. sc_feed sz (noise @ ui_frame d1 m1 @ ui_frame d2 m2 @ ui_frame d3 m3) r = Some (evs @ [(d3, m3)], r') \<and>
    sc_rx_state r' = RX_ST_WAIT_START"
proof -
  obtain e0 s0 where s0: "sc_feed sz noise r = Some (e0, s0)" "sc_wf sz s0" "sc_handler s0 = sc_handler r"
    using sc_feed_ok [OF assms(1)] by blast
  obtain e1 s1 where s1: "sc_feed sz (ui_frame d1 m1) s0 = Some (e1, s1)" "sc_wf sz s1" "in_step s1" "sc_handler s1 = sc_handler r"
    using rx_any [OF s0(2) assms(2)] s0(3) by metis
  have "\<exists>e2 s2. sc_feed sz (ui_frame d2 m2) s1 = Some (e2, s2) \<and> sc_wf sz s2 \<and> sc_handler s2 = sc_handler s1 \<and>
      sc_rx_state s2 = RX_ST_WAIT_START"
    using s1(3)
  proof
    assume w: "sc_rx_state s1 = RX_ST_WAIT_START"
    obtain e s where s: "sc_feed sz [HDLC_FLAG, d2, HDLC_C_UI] s1 = Some (e, s)" "sc_wf sz s" "sc_handler s = sc_handler s1"
      using sc_feed_ok [OF s1(2)] by blast
    have "sc_rx_state s = RX_ST_DATA" "sc_rx_msg s = Some []"
      using s(1) rx_head [OF w, of sz d2 HDLC_C_UI] s1(2) w by (auto simp: sc_wf_def)
    then show ?thesis
      using rx_tail [OF s(2), of m2] s assms(5) unfolding ui_frame [OF assms(3)] sc_feed_append [of sz "[_, _, _]"] by auto
  next
    assume "sc_rx_state s1 = RX_ST_ADDR"
    then show ?thesis using rx_misread [OF s1(2) _ assms(3)] assms(5) by blast
  qed
  then obtain e2 s2 where s2: "sc_feed sz (ui_frame d2 m2) s1 = Some (e2, s2)" "sc_wf sz s2" "sc_handler s2 = sc_handler r"
    "sc_rx_state s2 = RX_ST_WAIT_START" using s1(4) by auto
  obtain t where "sc_feed sz (ui_frame d3 m3) s2 = Some ([(d3, m3)], t)" "sc_rx_state t = RX_ST_WAIT_START"
    using rx_delivers [OF s2(2,4) assms(6,4,7)] assms(8) s2(3) by auto
  then show ?thesis using s0(1) s1(1) s2(1) by (auto simp: sc_feed_append)
qed

text \<open>A receiver that listens on links 5 (the layer 1 protocol) and 10 (the console).\<close>

definition demo_rx :: sercomm where
  "demo_rx = snd (sercomm_register_rx_cb 10 User (snd (sercomm_register_rx_cb 5 User (sercomm_init sercomm_zero))))"

lemma demo_rx: "demo_rx = (sercomm_init sercomm_zero)\<lparr>sc_handler := (replicate 129 None)[128 := Some Echo, 5 := Some User, 10 := Some User]\<rparr>"
  by (simp add: demo_rx_def init_state sercomm_register_rx_cb_def nth_list_update)

lemma demo_rx_wf: "0 < sz \<Longrightarrow> sc_wf sz demo_rx" "sc_rx_state demo_rx = RX_ST_WAIT_START"
    "sc_handler demo_rx ! 5 = Some User" "sc_handler demo_rx ! 10 = Some User"
  by (simp_all add: demo_rx init_state sc_wf_def)

theorem sercomm_delivers_witness:
  "\<exists>s line s' r'. sc_send_all [(10, [0x7E, 0]), (5, [1]), (10, [0x7D])] (sercomm_init sercomm_zero) = Some s \<and>
    sc_pulls (length line) s = Some (line, s') \<and> sercomm_drv_pull s' = Some (None, s') \<and>
    sc_feed 256 line demo_rx = Some ([(5, [1]), (10, [0x7E, 0]), (10, [0x7D])], r') \<and> sc_rx_state r' = RX_ST_WAIT_START"
  using sercomm_delivers [of demo_rx 256 "[(10, [0x7E, 0]), (5, [1]), (10, [0x7D])]"]
  by (simp add: demo_rx_wf plain_def)

theorem sercomm_resyncs_witness:
  "\<exists>evs r'. sc_feed 256 ([0x7E, 0x7D, 3] @ ui_frame 5 [1] @ ui_frame 5 [2] @ ui_frame 10 [3]) demo_rx = Some (evs @ [(10, [3])], r') \<and>
    sc_rx_state r' = RX_ST_WAIT_START"
  by (rule sercomm_resyncs) (simp_all add: demo_rx_wf plain_def)

text \<open>Link 0, \<^verbatim>\<open>SC_DLCI_HIGHEST\<close>, cannot be used: its address is sent escaped, the receiver
  takes the escape octet for the address, and the message goes to link 0x7D with its control octet in
  front.\<close>

theorem highest_dlci_misread:
  assumes "sc_wf sz r" and "sc_rx_state r = RX_ST_WAIT_START" and "Suc (length data) < sz"
  shows "\<exists>r'. sc_feed sz (ui_frame 0 data) r =
    Some ((if sc_handler r ! 0x7D = Some User then [(0x7D, HDLC_C_UI # data)] else []), r')"
proof -
  let ?s = "r\<lparr>sc_rx_msg := Some [], sc_rx_dlci := HDLC_ESCAPE, sc_rx_ctrl := 0x20, sc_rx_state := RX_ST_DATA\<rparr>"
  let ?t = "?s\<lparr>sc_rx_msg := Some (HDLC_C_UI # data)\<rparr>"
  have h: "sc_feed sz [HDLC_FLAG, HDLC_ESCAPE, 0x20] r = Some ([], ?s)"
    using assms by (intro rx_head) (auto simp: sc_wf_def)
  have b: "sc_feed sz (concat (map esc (HDLC_C_UI # data))) ?s = Some ([], ?t)"
    using rx_body [of ?s "[]" "HDLC_C_UI # data" sz] assms by simp
  have "sc_wf sz ?t" using assms by (auto simp: sc_wf_def)
  then obtain evs q where d: "dispatch_rx_msg HDLC_ESCAPE (HDLC_C_UI # data) ?t = Some (evs, ?t\<lparr>sc_queues := q\<rparr>)"
    using dispatch_ok by blast
  then have evs: "evs = (if sc_handler r ! 0x7D = Some User then [(0x7D, HDLC_C_UI # data)] else [])"
    using assms(1) by (auto simp: dispatch_rx_msg_def sc_wf_def split: option.splits dlci_cb.splits)
  have e: "sc_feed sz [HDLC_FLAG] ?t = Some (evs, (?t\<lparr>sc_queues := q\<rparr>)\<lparr>sc_rx_msg := None, sc_rx_state := RX_ST_WAIT_START\<rparr>)"
    using rx_end [of ?t "HDLC_C_UI # data" sz] assms d by simp
  have f: "ui_frame 0 data = [HDLC_FLAG, HDLC_ESCAPE, 0x20] @ concat (map esc (HDLC_C_UI # data)) @ [HDLC_FLAG]"
    by (simp add: ui_frame_def frame_def esc_def)
  show ?thesis using sc_feed_parts [OF h b e] unfolding f evs by blast
qed

theorem highest_dlci_misread_witness: "\<exists>r'. sc_feed 256 (ui_frame 0 [1, 2]) demo_rx = Some ([], r')"
  using highest_dlci_misread [of 256 demo_rx "[1, 2]"] by (simp add: demo_rx_wf) (simp add: demo_rx)

text \<open>A message that fills the receive buffer is lost, since its closing flag finds no room; a
  longer one takes the message after it along.\<close>

theorem overlong_message_lost:
  assumes "sc_wf sz r" and "sc_rx_state r = RX_ST_WAIT_START" and "sz \<le> length m1" and "plain d1" and "plain d2"
    and "Suc (length m2) < sz" and "unat d2 < SC_DLCI_MAX" and "sc_handler r ! unat d2 = Some User" and "sc_handler r ! 0x7E = None"
  shows "\<exists>r'. sc_feed sz (ui_frame d1 m1 @ ui_frame d2 m2) r = Some (if length m1 = sz then [(d2, m2)] else [], r')"
proof -
  let ?s = "r\<lparr>sc_rx_msg := Some [], sc_rx_dlci := d1, sc_rx_ctrl := HDLC_C_UI, sc_rx_state := RX_ST_DATA\<rparr>"
  let ?w = "?s\<lparr>sc_rx_state := RX_ST_WAIT_START\<rparr>"
  have h: "sc_feed sz [HDLC_FLAG, d1, HDLC_C_UI] r = Some ([], ?s)"
    using assms by (intro rx_head) (auto simp: sc_wf_def)
  have wf: "sc_wf sz ?w" using assms(1) by (simp add: sc_wf_def)
  show ?thesis
  proof (cases "length m1 = sz")
    case True
    have "sc_feed sz (concat (map esc m1)) ?s = Some ([], ?s\<lparr>sc_rx_msg := Some m1\<rparr>)"
      using rx_body [of ?s "[]" m1 sz] True by simp
    moreover have "sc_feed sz [HDLC_FLAG] (?s\<lparr>sc_rx_msg := Some m1\<rparr>) = Some ([], ?w)"
      using rx_full [of "?s\<lparr>sc_rx_msg := Some m1\<rparr>" m1 sz] True by simp
    ultimately have "sc_feed sz (ui_frame d1 m1) r = Some ([], ?w)"
      unfolding ui_frame [OF assms(4)] by (rule sc_feed_parts [OF h])
    moreover obtain t where "sc_feed sz (ui_frame d2 m2) ?w = Some ([(d2, m2)], t)"
      using rx_delivers [OF wf _ _ assms(5,7), of m2] assms(6,8) by auto
    ultimately show ?thesis using True by (simp add: sc_feed_append)
  next
    case False
    let ?a = "?w\<lparr>sc_rx_state := RX_ST_ADDR\<rparr>"
    let ?b = "?a\<lparr>sc_rx_dlci := HDLC_FLAG, sc_rx_ctrl := d2, sc_rx_state := RX_ST_DATA\<rparr>"
    let ?c = "?b\<lparr>sc_rx_msg := Some (HDLC_C_UI # m2)\<rparr>"
    have "sc_feed sz (concat (map esc m1)) ?s = Some ([], ?w)"
      using rx_body_overflow [of ?s "[]" sz m1] False assms(1,3) by (auto simp: sc_wf_def)
    moreover have "sc_feed sz [HDLC_FLAG] ?w = Some ([], ?a)"
      using assms(1) by (simp add: sercomm_drv_rx_char_def Let_def sc_wf_def)
    ultimately have "sc_feed sz (ui_frame d1 m1) r = Some ([], ?a)"
      unfolding ui_frame [OF assms(4)] by (rule sc_feed_parts [OF h])
    moreover have h2: "sc_feed sz [HDLC_FLAG, d2] ?a = Some ([], ?b)"
      using assms(1) by (auto simp: sercomm_drv_rx_char_def Let_def sc_wf_def)
    have b2: "sc_feed sz (concat (map esc (HDLC_C_UI # m2))) ?b = Some ([], ?c)"
      using rx_body [of ?b "[]" "HDLC_C_UI # m2" sz] assms(6) by simp
    have "dispatch_rx_msg HDLC_FLAG (HDLC_C_UI # m2) ?c = Some ([], ?c)"
      using assms(1,9) by (simp add: dispatch_rx_msg_def sc_wf_def)
    then have e2: "sc_feed sz [HDLC_FLAG] ?c = Some ([], ?c\<lparr>sc_rx_msg := None, sc_rx_state := RX_ST_WAIT_START\<rparr>)"
      using rx_end [of ?c "HDLC_C_UI # m2" sz] assms(6) by simp
    have f2: "ui_frame d2 m2 = [HDLC_FLAG, d2] @ concat (map esc (HDLC_C_UI # m2)) @ [HDLC_FLAG]"
      using assms(5) by (simp add: ui_frame)
    ultimately have "\<exists>r'. sc_feed sz (ui_frame d2 m2) ?a = Some ([], r')" "sc_feed sz (ui_frame d1 m1) r = Some ([], ?a)"
      using sc_feed_parts [OF h2 b2 e2] unfolding f2 by blast+
    then show ?thesis using False by (auto simp: sc_feed_append)
  qed
qed

theorem overlong_message_lost_witness:
  "\<exists>r'. sc_feed 4 (ui_frame 5 [1, 2, 3, 4] @ ui_frame 10 [5]) demo_rx = Some ([(10, [5])], r')"
  using overlong_message_lost [of 4 demo_rx "[1, 2, 3, 4]" 5 10 "[5]"] by (simp add: demo_rx_wf plain_def) (simp add: demo_rx)

end
