(* ===== verification/Trx_If.thy ===== *)
theory Trx_If
  imports Sched_Types
begin

text \<open>
  The transceiver interface of trxcon (\<^verbatim>\<open>src/src/host/trxcon/src/trx_if.c\<close>): the commands for the
  radio, queued and sent one at a time over the control socket, and the bursts of the data socket.
  Sockets are lists: what is sent is collected in \<open>ti_ctrl_out\<close> and \<open>ti_data_out\<close>, oldest first, and
  what a read yields is an argument. A NULL dereference, or the use of a variable \<^verbatim>\<open>sscanf\<close> did not
  set, is \<^term>\<open>None\<close>.
\<close>

section \<open>Text\<close>

text \<open>The conversions of \<^verbatim>\<open>printf\<close> and \<^verbatim>\<open>sscanf\<close> the file uses.\<close>

definition digit :: "nat \<Rightarrow> char" where
  "digit d = ''0123456789'' ! d"

fun dec :: "nat \<Rightarrow> string" where
  "dec n = (if n < 10 then [digit n] else dec (n div 10) @ [digit (n mod 10)])"

declare dec.simps [simp del]

definition dec_int :: "int \<Rightarrow> string" where
  "dec_int i = (if i < 0 then CHR ''-'' # dec (nat (- i)) else dec (nat i))"

definition is_digit :: "char \<Rightarrow> bool" where
  "is_digit c \<longleftrightarrow> 48 \<le> (of_char c :: nat) \<and> (of_char c :: nat) \<le> 57"

definition is_space :: "char \<Rightarrow> bool" where
  "is_space c \<longleftrightarrow> (of_char c :: nat) = 32 \<or> 9 \<le> (of_char c :: nat) \<and> (of_char c :: nat) \<le> 13"

definition num_of :: "string \<Rightarrow> nat" where
  "num_of s = fold (\<lambda>c n. 10 * n + (of_char c - 48)) s 0"

definition scan_int :: "string \<Rightarrow> (int \<times> string) option" where
  "scan_int s =
     (let s = dropWhile is_space s;
          neg = (s \<noteq> [] \<and> hd s = CHR ''-'');
          s = (if s \<noteq> [] \<and> (hd s = CHR ''-'' \<or> hd s = CHR ''+'') then tl s else s);
          ds = takeWhile is_digit s; v = int (num_of ds) in
      if ds = [] then None else Some (if neg then - v else v, dropWhile is_digit s))"

text \<open>\<^verbatim>\<open>%d\<close> and \<^verbatim>\<open>%u\<close>; a value outside the type is undefined.\<close>

definition scan_d :: "string \<Rightarrow> (int \<times> string) option" where
  "scan_d s = do { (v, r) \<leftarrow> scan_int s; if - (2 ^ 31) \<le> v \<and> v < 2 ^ 31 then Some (v, r) else None }"

definition scan_u :: "string \<Rightarrow> (u32 \<times> string) option" where
  "scan_u s = do { (v, r) \<leftarrow> scan_int s; if - (2 ^ 32) < v \<and> v < 2 ^ 32 then Some (word_of_int v, r) else None }"

section \<open>Commands of the PHY interface\<close>

text \<open>\<^verbatim>\<open>struct trxcon_phyif_cmd\<close> of \<^verbatim>\<open>phyif.h\<close>; the timing advance is signed.\<close>

datatype phyif_cmd =
    CMDT_RESET | CMDT_POWERON | CMDT_POWEROFF
  | CMDT_MEASURE u16 | CMDT_SETFREQ_H0 u16 | CMDT_SETFREQ_H1 u8 u8 "u16 list"
  | CMDT_SETSLOT u8 pchan | CMDT_SETTA u8

section \<open>State\<close>

datatype trx_state = TRX_STATE_OFFLINE | TRX_STATE_IDLE | TRX_STATE_ACTIVE | TRX_STATE_RSP_WAIT

record trx_ctrl_msg =
  tc_cmd :: string
  tc_retry_cnt :: int
  tc_critical :: bool
  tc_cmd_len :: nat

record trx_instance =
  ti_state :: trx_state
  ti_prev_state :: trx_state
  ti_ctrl_list :: "trx_ctrl_msg list"
  ti_powered_up :: bool
  ti_timer :: bool
  ti_fn_advance :: u32
  ti_closed :: bool
  ti_ctrl_out :: "string list"
  ti_data_out :: "u8 list list"

fun trx_out_states :: "trx_state \<Rightarrow> trx_state list" where
  "trx_out_states TRX_STATE_OFFLINE = [TRX_STATE_IDLE, TRX_STATE_RSP_WAIT]"
| "trx_out_states TRX_STATE_IDLE = [TRX_STATE_OFFLINE, TRX_STATE_IDLE, TRX_STATE_ACTIVE, TRX_STATE_RSP_WAIT]"
| "trx_out_states TRX_STATE_ACTIVE = [TRX_STATE_IDLE, TRX_STATE_RSP_WAIT]"
| "trx_out_states TRX_STATE_RSP_WAIT = [TRX_STATE_IDLE, TRX_STATE_ACTIVE, TRX_STATE_OFFLINE]"

text \<open>A transition the table does not permit is refused and logged.\<close>

definition trx_state_chg :: "trx_state \<Rightarrow> trx_instance \<Rightarrow> trx_instance" where
  "trx_state_chg st t = (if st \<in> set (trx_out_states (ti_state t)) then t\<lparr>ti_state := st\<rparr> else t)"

definition trx_if_open :: "u32 \<Rightarrow> trx_instance" where
  "trx_if_open fn_advance = \<lparr>ti_state = TRX_STATE_OFFLINE, ti_prev_state = TRX_STATE_OFFLINE, ti_ctrl_list = [],
     ti_powered_up = False, ti_timer = False, ti_fn_advance = fn_advance, ti_closed = False,
     ti_ctrl_out = [], ti_data_out = []\<rparr>"

section \<open>The control queue\<close>

definition trx_ctrl_send :: "trx_instance \<Rightarrow> trx_instance" where
  "trx_ctrl_send t = (case ti_ctrl_list t of
     [] \<Rightarrow> t
   | tcm # _ \<Rightarrow>
       let t = t\<lparr>ti_ctrl_out := ti_ctrl_out t @ [tc_cmd tcm]\<rparr>;
           t = (if ti_state t \<noteq> TRX_STATE_RSP_WAIT
                then trx_state_chg TRX_STATE_RSP_WAIT (t\<lparr>ti_prev_state := ti_state t\<rparr>) else t) in
       t\<lparr>ti_timer := True\<rparr>)"

text \<open>
  Termination runs the cleanup; the parent is told by its caller here. The flush asks for the state
  IDLE, which libosmocore refuses while an instance terminates.
\<close>

definition trx_if_flush_ctrl :: "trx_instance \<Rightarrow> trx_instance" where
  "trx_if_flush_ctrl t = t\<lparr>ti_ctrl_list := []\<rparr>"

definition trx_fsm_cleanup_cb :: "trx_instance \<Rightarrow> trx_instance" where
  "trx_fsm_cleanup_cb t =
     (let t = trx_if_flush_ctrl (t\<lparr>ti_timer := False\<rparr>) in
      t\<lparr>ti_closed := True,
        ti_ctrl_out := ti_ctrl_out t @ (if ti_powered_up t then [''CMD POWEROFF''] else [])\<rparr>)"

definition trx_if_close :: "trx_instance option \<Rightarrow> trx_instance option" where
  "trx_if_close t = map_option trx_fsm_cleanup_cb t"

definition trx_ctrl_timer_cb :: "trx_instance \<Rightarrow> trx_instance" where
  "trx_ctrl_timer_cb t =
     (let t = t\<lparr>ti_timer := False\<rparr> in
      case ti_ctrl_list t of
        [] \<Rightarrow> t
      | tcm # rest \<Rightarrow>
          let tcm = tcm\<lparr>tc_retry_cnt := tc_retry_cnt tcm + 1\<rparr>; t = t\<lparr>ti_ctrl_list := tcm # rest\<rparr> in
          if tc_retry_cnt tcm > 3 then trx_fsm_cleanup_cb (trx_state_chg TRX_STATE_OFFLINE t)
          else trx_ctrl_send t)"

text \<open>The command buffer has \<^verbatim>\<open>TRXC_BUF_SIZE\<close> = 1024 octets and each \<^verbatim>\<open>snprintf\<close> leaves out its last one.\<close>

definition cmd_text :: "string \<Rightarrow> string option \<Rightarrow> string" where
  "cmd_text verb args = (case args of
     None \<Rightarrow> take 1022 (''CMD '' @ verb)
   | Some a \<Rightarrow> let head = ''CMD '' @ verb @ '' '' in take 1022 head @ take (1024 - length head - 2) a)"

definition trx_ctrl_cmd :: "bool \<Rightarrow> string \<Rightarrow> string option \<Rightarrow> trx_instance \<Rightarrow> int \<times> trx_instance" where
  "trx_ctrl_cmd critical verb args t =
     (let pending = (ti_ctrl_list t \<noteq> []);
          tcm = \<lparr>tc_cmd = cmd_text verb args, tc_retry_cnt = 0, tc_critical = critical, tc_cmd_len = length verb\<rparr>;
          t = t\<lparr>ti_ctrl_list := ti_ctrl_list t @ [tcm]\<rparr> in
      (0, if pending then t else trx_ctrl_send t))"

fun setslot_type :: "pchan \<Rightarrow> nat" where
  "setslot_type GSM_PCHAN_UNKNOWN = 0"
| "setslot_type GSM_PCHAN_NONE = 0"
| "setslot_type GSM_PCHAN_CCCH = 4"
| "setslot_type GSM_PCHAN_CCCH_SDCCH4 = 5"
| "setslot_type GSM_PCHAN_CCCH_SDCCH4_CBCH = 5"
| "setslot_type GSM_PCHAN_TCH_F = 1"
| "setslot_type GSM_PCHAN_TCH_H = 3"
| "setslot_type GSM_PCHAN_SDCCH8_SACCH8C = 7"
| "setslot_type GSM_PCHAN_SDCCH8_SACCH8C_CBCH = 7"
| "setslot_type GSM_PCHAN_PDCH = 13"
| "setslot_type GSM_PCHAN_TCH_F_PDCH = 0"

definition trx_if_cmd_setslot :: "u8 \<Rightarrow> pchan \<Rightarrow> trx_instance \<Rightarrow> int \<times> trx_instance" where
  "trx_if_cmd_setslot tn pchan = trx_ctrl_cmd True ''SETSLOT'' (Some (dec (unat tn) @ '' '' @ dec (setslot_type pchan)))"

definition tune :: "libosmo \<Rightarrow> string \<Rightarrow> bool \<Rightarrow> u16 \<Rightarrow> trx_instance \<Rightarrow> int \<times> trx_instance" where
  "tune L verb uplink band_arfcn t =
     (let freq10 = gsm_arfcn2freq10 L band_arfcn uplink in
      if freq10 = 0xffff then (- ENOTSUP, t) else trx_ctrl_cmd True verb (Some (dec (unat freq10 * 100))) t)"

definition trx_if_cmd_rxtune :: "libosmo \<Rightarrow> u16 \<Rightarrow> trx_instance \<Rightarrow> int \<times> trx_instance" where
  "trx_if_cmd_rxtune L = tune L ''RXTUNE'' False"

definition trx_if_cmd_txtune :: "libosmo \<Rightarrow> u16 \<Rightarrow> trx_instance \<Rightarrow> int \<times> trx_instance" where
  "trx_if_cmd_txtune L = tune L ''TXTUNE'' True"

definition trx_if_cmd_measure :: "libosmo \<Rightarrow> u16 \<Rightarrow> trx_instance \<Rightarrow> int \<times> trx_instance" where
  "trx_if_cmd_measure L = tune L ''MEASURE'' False"

definition trx_if_cmd_setta :: "u8 \<Rightarrow> trx_instance \<Rightarrow> int \<times> trx_instance" where
  "trx_if_cmd_setta ta = trx_ctrl_cmd False ''SETTA'' (Some (dec_int (sint ta)))"

abbreviation (input) ENOSPC :: int where "ENOSPC \<equiv> 28"

text \<open>
  The list of frequencies is written into 1000 octets. \<open>room\<close> is \<^verbatim>\<open>ma_buf_len\<close>, and \<^verbatim>\<open>ptr\<close> is \<open>pos\<close>; a
  \<^verbatim>\<open>snprintf\<close> into \<open>room\<close> octets writes one less.
\<close>

definition ma_pair :: "u16 \<Rightarrow> u16 \<Rightarrow> string" where
  "ma_pair rx tx = dec (unat rx * 100) @ '' '' @ dec (unat tx * 100) @ '' ''"

fun ma_loop :: "libosmo \<Rightarrow> u16 list \<Rightarrow> nat \<Rightarrow> nat \<Rightarrow> string \<Rightarrow> int + nat \<times> string" where
  "ma_loop L [] room pos buf = Inr (pos, buf)"
| "ma_loop L (a # ma) room pos buf =
     (let rx = gsm_arfcn2freq10 L a False; tx = gsm_arfcn2freq10 L a True in
      if rx = 0xffff \<or> tx = 0xffff then Inl (- EINVAL)
      else let s = ma_pair rx tx in
        if length s > room then Inl (- ENOSPC)
        else ma_loop L ma (room - length s) (pos + length s) (take pos buf @ take (room - 1) s))"

definition trx_if_cmd_setfh :: "libosmo \<Rightarrow> u8 \<Rightarrow> u8 \<Rightarrow> u16 list \<Rightarrow> trx_instance \<Rightarrow> int \<times> trx_instance" where
  "trx_if_cmd_setfh L hsn maio ma t =
     (if ma = [] then (- EINVAL, t)
      else case ma_loop L ma 999 0 [] of
          Inl rc \<Rightarrow> (rc, t)
        | Inr (pos, buf) \<Rightarrow>
            trx_ctrl_cmd True ''SETFH'' (Some (dec (unat hsn) @ '' '' @ dec (unat maio) @ '' '' @ take (pos - 1) buf)) t)"

fun trx_if_handle_phyif_cmd :: "libosmo \<Rightarrow> phyif_cmd \<Rightarrow> trx_instance \<Rightarrow> int \<times> trx_instance" where
  "trx_if_handle_phyif_cmd L CMDT_RESET t =
     (let (rc, t) = trx_ctrl_cmd True ''POWEROFF'' None t in
      if rc \<noteq> 0 then (rc, t) else trx_ctrl_cmd True ''ECHO'' None t)"
| "trx_if_handle_phyif_cmd L CMDT_POWERON t = trx_ctrl_cmd True ''POWERON'' None t"
| "trx_if_handle_phyif_cmd L CMDT_POWEROFF t = trx_ctrl_cmd True ''POWEROFF'' None t"
| "trx_if_handle_phyif_cmd L (CMDT_MEASURE a) t = trx_if_cmd_measure L a t"
| "trx_if_handle_phyif_cmd L (CMDT_SETFREQ_H0 a) t =
     (let (rc, t) = trx_if_cmd_rxtune L a t in if rc \<noteq> 0 then (rc, t) else trx_if_cmd_txtune L a t)"
| "trx_if_handle_phyif_cmd L (CMDT_SETFREQ_H1 hsn maio ma) t = trx_if_cmd_setfh L hsn maio ma t"
| "trx_if_handle_phyif_cmd L (CMDT_SETSLOT tn pchan) t = trx_if_cmd_setslot tn pchan t"
| "trx_if_handle_phyif_cmd L (CMDT_SETTA ta) t = trx_if_cmd_setta ta t"

section \<open>Responses\<close>

text \<open>The indication to the PHY interface of a measurement, if the response has a known frequency.\<close>

definition trx_if_measure_rsp_cb :: "libosmo \<Rightarrow> string \<Rightarrow> (u16 \<times> int) option option" where
  "trx_if_measure_rsp_cb L resp = do {
     (freq, r) \<leftarrow> scan_u resp;
     (dbm, _) \<leftarrow> scan_d r;
     let band_arfcn = gsm_freq102arfcn L (ucast (freq div 100)) False in
     Some (if band_arfcn = 0xffff then None else Some (band_arfcn, dbm)) }"

text \<open>
  What a response does: nothing more (with the return code), the end of the interface, or success,
  with the measurement to pass up. The command is removed after that, by \<open>trx_ctrl_done\<close>. The comparison is
  over the length of the word of the response only.
\<close>

datatype ctrl_rsp = Rsp_Ignored int | Rsp_Fatal | Rsp_Done "(u16 \<times> int) option"

definition trx_ctrl_rsp :: "libosmo \<Rightarrow> string \<Rightarrow> trx_instance \<Rightarrow> (ctrl_rsp \<times> trx_instance) option" where
  "trx_ctrl_rsp L buf t =
     (if take 4 buf \<noteq> ''RSP '' then Some (Rsp_Ignored 0, t)
      else
        let word = takeWhile (\<lambda>c. c \<noteq> CHR '' '') (drop 4 buf);
            p = dropWhile (\<lambda>c. c \<noteq> CHR '' '') (drop 4 buf);
            t = t\<lparr>ti_timer := False\<rparr> in
        case ti_ctrl_list t of
          [] \<Rightarrow> Some (Rsp_Ignored (- EINVAL), t)
        | tcm # _ \<Rightarrow>
            let cmd = drop 4 (tc_cmd tcm) in
            if take (length word) cmd \<noteq> word then Some (Rsp_Fatal, t)
            else if p = [] then None
            else do {
              (resp, _) \<leftarrow> scan_d (tl p);
              if resp \<noteq> 0 \<and> tc_critical tcm then Some (Rsp_Fatal, t)
              else if take 7 cmd = ''POWERON'' then
                Some (Rsp_Done None, trx_state_chg TRX_STATE_ACTIVE (t\<lparr>ti_powered_up := True\<rparr>))
              else if take 8 cmd = ''POWEROFF'' then
                Some (Rsp_Done None, trx_state_chg TRX_STATE_IDLE (t\<lparr>ti_powered_up := False\<rparr>))
              else if take 7 cmd = ''MEASURE'' then do {
                m \<leftarrow> (if length buf < 14 then None else trx_if_measure_rsp_cb L (drop 14 buf));
                Some (Rsp_Done m, t) }
              else if take 4 cmd = ''ECHO'' then Some (Rsp_Done None, trx_state_chg TRX_STATE_IDLE t)
              else Some (Rsp_Done None, trx_state_chg (ti_prev_state t) t) })"

definition trx_ctrl_done :: "trx_instance \<Rightarrow> trx_instance" where
  "trx_ctrl_done t = trx_ctrl_send (t\<lparr>ti_ctrl_list := tl (ti_ctrl_list t)\<rparr>)"

text \<open>The whole callback, given what the PHY interface makes of a measurement. What is read is at most 1023
  octets, up to the first NUL.\<close>

definition trx_ctrl_read_cb :: "libosmo \<Rightarrow> (u16 \<Rightarrow> int \<Rightarrow> trx_instance \<Rightarrow> trx_instance option) \<Rightarrow> string \<Rightarrow> trx_instance \<Rightarrow>
    (int \<times> trx_instance) option" where
  "trx_ctrl_read_cb L handle_rsp data t = do {
     (r, t) \<leftarrow> trx_ctrl_rsp L (takeWhile (\<lambda>c. c \<noteq> CHR 0x00) (take 1023 data)) t;
     case r of
       Rsp_Ignored rc \<Rightarrow> Some (rc, t)
     | Rsp_Fatal \<Rightarrow> Some (- EIO, trx_fsm_cleanup_cb t)
     | Rsp_Done m \<Rightarrow> do {
         t \<leftarrow> (case m of None \<Rightarrow> Some t | Some (arfcn, dbm) \<Rightarrow> handle_rsp arfcn dbm t);
         Some (0, trx_ctrl_done t) } }"

section \<open>Bursts\<close>

text \<open>A datagram of the data socket, as a burst indication or the error the callback returns; \<^verbatim>\<open>read\<close> takes at
  most 512 octets.\<close>

definition trxd_soft :: "u8 \<Rightarrow> u8" where
  "trxd_soft b = (if b = 255 then - 127 else 127 - b)"

definition trx_data_rx :: "u8 list \<Rightarrow> int + burst_ind" where
  "trx_data_rx dgram =
     (let buf = take 512 dgram in
      if buf = [] then Inl 0
      else if length buf < 8 then Inl (- EINVAL)
      else if drop_bit 4 (octet 0 buf) \<noteq> 0 then Inl (- ENOTSUP)
      else
        let n = length buf - 8;
            len = (if n = GSM_NBITS_NB_GMSK_BURST + 2 \<or> n = GSM_NBITS_NB_8PSK_BURST + 2 then n - 2 else n) in
        if len \<noteq> GSM_NBITS_NB_GMSK_BURST \<and> len \<noteq> GSM_NBITS_NB_8PSK_BURST then Inl (- EINVAL)
        else if unat (be32 1 buf) \<ge> GSM_TDMA_HYPERFRAME then Inl (- EINVAL)
        else Inr \<lparr>bi_fn = be32 1 buf, bi_tn = unat (octet 0 buf AND 7), bi_toa256 = be16 6 buf, bi_rssi = - octet 5 buf,
               bi_bid = 0, bi_burst = map trxd_soft (chunk 8 len buf) @ replicate (GSM_NBITS_NB_8PSK_BURST - len) 0,
               bi_burst_len = len\<rparr>)"

text \<open>The level octet is the \<^verbatim>\<open>pwr\<close> of the request, which the scheduler leaves at 0.\<close>

definition trx_if_handle_phyif_burst_req :: "burst_req \<Rightarrow> trx_instance \<Rightarrow> (int \<times> trx_instance) option" where
  "trx_if_handle_phyif_burst_req br t = do {
     bits \<leftarrow> read_at 0 (br_burst_len br) (br_burst br);
     let pdu = [word_of_nat (br_tn br)] @ be32_octets (br_fn br) @ [0] @ bits in
     if length pdu \<le> 512 then Some (0, t\<lparr>ti_data_out := ti_data_out t @ [pdu]\<rparr>) else None }"

section \<open>Commands are sent in order\<close>

text \<open>The texts a PHY command puts in the queue.\<close>

definition tune_text :: "libosmo \<Rightarrow> string \<Rightarrow> bool \<Rightarrow> u16 \<Rightarrow> string list" where
  "tune_text L verb up a = (if gsm_arfcn2freq10 L a up = 0xffff then []
     else [cmd_text verb (Some (dec (unat (gsm_arfcn2freq10 L a up) * 100)))])"

fun cmd_texts :: "libosmo \<Rightarrow> phyif_cmd \<Rightarrow> string list" where
  "cmd_texts L CMDT_RESET = [cmd_text ''POWEROFF'' None, cmd_text ''ECHO'' None]"
| "cmd_texts L CMDT_POWERON = [cmd_text ''POWERON'' None]"
| "cmd_texts L CMDT_POWEROFF = [cmd_text ''POWEROFF'' None]"
| "cmd_texts L (CMDT_MEASURE a) = tune_text L ''MEASURE'' False a"
| "cmd_texts L (CMDT_SETFREQ_H0 a) = tune_text L ''RXTUNE'' False a @
     (if gsm_arfcn2freq10 L a False = 0xffff then [] else tune_text L ''TXTUNE'' True a)"
| "cmd_texts L (CMDT_SETFREQ_H1 hsn maio ma) =
     map tc_cmd (ti_ctrl_list (snd (trx_if_cmd_setfh L hsn maio ma (trx_if_open 0))))"
| "cmd_texts L (CMDT_SETSLOT tn pchan) = [cmd_text ''SETSLOT'' (Some (dec (unat tn) @ '' '' @ dec (setslot_type pchan)))]"
| "cmd_texts L (CMDT_SETTA ta) = [cmd_text ''SETTA'' (Some (dec_int (sint ta)))]"

datatype ctrl_event = Cmd phyif_cmd | Rsp string | Timeout

fun ctrl_step :: "libosmo \<Rightarrow> ctrl_event \<Rightarrow> trx_instance \<Rightarrow> trx_instance option" where
  "ctrl_step L (Cmd c) t = Some (snd (trx_if_handle_phyif_cmd L c t))"
| "ctrl_step L (Rsp buf) t = map_option snd (trx_ctrl_read_cb L (\<lambda>_ _ t. Some t) buf t)"
| "ctrl_step L Timeout t = Some (if ti_timer t then trx_ctrl_timer_cb t else t)"

text \<open>A closed interface is freed: nothing happens to it any more.\<close>

fun ctrl_run :: "libosmo \<Rightarrow> ctrl_event list \<Rightarrow> trx_instance \<Rightarrow> trx_instance option" where
  "ctrl_run L [] t = Some t"
| "ctrl_run L (e # es) t = (if ti_closed t then Some t else do { t \<leftarrow> ctrl_step L e t; ctrl_run L es t })"

fun issued :: "libosmo \<Rightarrow> ctrl_event list \<Rightarrow> string list" where
  "issued L [] = []"
| "issued L (Cmd c # es) = cmd_texts L c @ issued L es"
| "issued L (e # es) = issued L es"

text \<open>
  \<open>cs\<close> are the texts queued so far. Those answered have each been sent one to four times, the first of
  the others one to four times as its retry count says, and the rest not at all.
\<close>

definition sent_head :: "trx_ctrl_msg list \<Rightarrow> string list" where
  "sent_head ms = (case ms of [] \<Rightarrow> [] | m # _ \<Rightarrow> replicate (Suc (nat (tc_retry_cnt m))) (tc_cmd m))"

definition in_order :: "string list \<Rightarrow> trx_instance \<Rightarrow> bool" where
  "in_order cs t \<longleftrightarrow>
     (\<exists>ds ks. cs = ds @ map tc_cmd (ti_ctrl_list t) \<and> length ks = length ds \<and> (\<forall>k \<in> set ks. 1 \<le> k \<and> k \<le> 4) \<and>
        ti_ctrl_out t = concat (map2 replicate ks ds) @ sent_head (ti_ctrl_list t)) \<and>
     (\<forall>m \<in> set (ti_ctrl_list t). 0 \<le> tc_retry_cnt m \<and> tc_retry_cnt m \<le> 3) \<and>
     (\<forall>m \<in> set (tl (ti_ctrl_list t)). tc_retry_cnt m = 0)"

lemma in_orderI:
  "cs = ds @ map tc_cmd (ti_ctrl_list t) \<Longrightarrow> length ks = length ds \<Longrightarrow> \<forall>k \<in> set ks. 1 \<le> k \<and> k \<le> 4 \<Longrightarrow>
   ti_ctrl_out t = concat (map2 replicate ks ds) @ sent_head (ti_ctrl_list t) \<Longrightarrow>
   \<forall>m \<in> set (ti_ctrl_list t). 0 \<le> tc_retry_cnt m \<and> tc_retry_cnt m \<le> 3 \<Longrightarrow>
   \<forall>m \<in> set (tl (ti_ctrl_list t)). tc_retry_cnt m = 0 \<Longrightarrow> in_order cs t"
  unfolding in_order_def by blast

lemma state_chg_simps [simp]:
  "ti_ctrl_list (trx_state_chg st t) = ti_ctrl_list t" "ti_ctrl_out (trx_state_chg st t) = ti_ctrl_out t"
  "ti_closed (trx_state_chg st t) = ti_closed t"
  by (simp_all add: trx_state_chg_def)

lemma send_simps:
  "ti_ctrl_list (trx_ctrl_send t) = ti_ctrl_list t" "ti_closed (trx_ctrl_send t) = ti_closed t"
  "ti_ctrl_out (trx_ctrl_send t) = ti_ctrl_out t @ map tc_cmd (take 1 (ti_ctrl_list t))"
  by (simp_all add: trx_ctrl_send_def Let_def split: list.split)

lemma ctrl_cmd_rc: "fst (trx_ctrl_cmd critical verb args t) = 0"
  by (simp add: trx_ctrl_cmd_def Let_def)

lemma in_order_cmd:
  assumes "in_order cs t"
  shows "in_order (cs @ [cmd_text verb args]) (snd (trx_ctrl_cmd critical verb args t)) \<and>
    ti_closed (snd (trx_ctrl_cmd critical verb args t)) = ti_closed t"
proof -
  obtain ds ks where d: "cs = ds @ map tc_cmd (ti_ctrl_list t)" "length ks = length ds" "\<forall>k \<in> set ks. 1 \<le> k \<and> k \<le> 4"
    "ti_ctrl_out t = concat (map2 replicate ks ds) @ sent_head (ti_ctrl_list t)"
    "\<forall>m \<in> set (ti_ctrl_list t). 0 \<le> tc_retry_cnt m \<and> tc_retry_cnt m \<le> 3" "\<forall>m \<in> set (tl (ti_ctrl_list t)). tc_retry_cnt m = 0"
    using assms unfolding in_order_def by blast
  have "in_order (cs @ [cmd_text verb args]) (snd (trx_ctrl_cmd critical verb args t))"
    by (rule in_orderI [of _ ds _ ks])
      (use d in \<open>auto simp: trx_ctrl_cmd_def Let_def send_simps sent_head_def split: list.split\<close>)
  then show ?thesis by (simp add: trx_ctrl_cmd_def Let_def send_simps)
qed

lemma in_order_tune:
  "in_order cs t \<Longrightarrow> in_order (cs @ tune_text L verb up a) (snd (tune L verb up a t)) \<and>
     ti_closed (snd (tune L verb up a t)) = ti_closed t"
  using in_order_cmd by (simp add: tune_def tune_text_def Let_def)

lemma in_order_phyif_cmd:
  assumes "in_order cs t"
  shows "in_order (cs @ cmd_texts L c) (snd (trx_if_handle_phyif_cmd L c t)) \<and>
    ti_closed (snd (trx_if_handle_phyif_cmd L c t)) = ti_closed t"
proof (cases c)
  case CMDT_RESET
  have two: "in_order ((cs @ [cmd_text v a]) @ [cmd_text w b]) (snd (trx_ctrl_cmd True w b (snd (trx_ctrl_cmd True v a t)))) \<and>
      ti_closed (snd (trx_ctrl_cmd True w b (snd (trx_ctrl_cmd True v a t)))) = ti_closed t" for v a w b
    using in_order_cmd [OF assms] in_order_cmd by metis
  show ?thesis
    using two [of "''POWEROFF''" None "''ECHO''" None] CMDT_RESET
    by (simp add: case_prod_beta ctrl_cmd_rc)
next
  case (CMDT_SETFREQ_H0 a)
  have "in_order ((cs @ tune_text L v u a) @ tune_text L w x a) (snd (tune L w x a (snd (tune L v u a t)))) \<and>
      ti_closed (snd (tune L w x a (snd (tune L v u a t)))) = ti_closed t" for v u w x
    using in_order_tune [OF assms] in_order_tune by metis
  moreover have "fst (tune L v u a t) = (if gsm_arfcn2freq10 L a u = 0xffff then - ENOTSUP else 0)" for v u
    by (simp add: tune_def ctrl_cmd_rc Let_def)
  moreover have "snd (tune L v u a t) = t" "tune_text L v u a = []" if "gsm_arfcn2freq10 L a u = 0xffff" for v u
    using that by (simp_all add: tune_def tune_text_def Let_def)
  ultimately show ?thesis
    using CMDT_SETFREQ_H0 assms by (simp add: trx_if_cmd_rxtune_def trx_if_cmd_txtune_def case_prod_beta)
next
  case (CMDT_SETFREQ_H1 hsn maio ma)
  then show ?thesis
    using assms in_order_cmd [OF assms, of "''SETFH''"]
    by (auto simp: trx_if_cmd_setfh_def trx_if_open_def trx_ctrl_cmd_def Let_def send_simps split: sum.split prod.split)
next
  case (CMDT_MEASURE a)
  then show ?thesis using in_order_tune [OF assms] by (simp add: trx_if_cmd_measure_def)
qed (use in_order_cmd [OF assms] in \<open>simp_all add: trx_if_cmd_setslot_def trx_if_cmd_setta_def\<close>)

lemma ctrl_rsp_ok:
  assumes "trx_ctrl_rsp L buf t = Some (r, t')"
  shows "ti_ctrl_list t' = ti_ctrl_list t \<and> ti_ctrl_out t' = ti_ctrl_out t \<and> ti_closed t' = ti_closed t \<and>
    (\<forall>m. r = Rsp_Done m \<longrightarrow> ti_ctrl_list t \<noteq> [])"
  using assms by (auto simp: trx_ctrl_rsp_def Let_def split: if_splits list.splits)

lemma in_set_tlD: "x \<in> set (tl xs) \<Longrightarrow> x \<in> set xs"
  by (cases xs) simp_all

lemma in_order_done:
  assumes "in_order cs t" "ti_ctrl_list t \<noteq> []"
  shows "in_order cs (trx_ctrl_done t)"
proof -
  obtain m ms where l: "ti_ctrl_list t = m # ms" using assms(2) by (cases "ti_ctrl_list t") auto
  obtain ds ks where d: "cs = ds @ map tc_cmd (ti_ctrl_list t)" "length ks = length ds" "\<forall>k \<in> set ks. 1 \<le> k \<and> k \<le> 4"
    "ti_ctrl_out t = concat (map2 replicate ks ds) @ sent_head (ti_ctrl_list t)"
    "\<forall>m \<in> set (ti_ctrl_list t). 0 \<le> tc_retry_cnt m \<and> tc_retry_cnt m \<le> 3" "\<forall>m \<in> set (tl (ti_ctrl_list t)). tc_retry_cnt m = 0"
    using assms(1) unfolding in_order_def by blast
  have k: "nat (tc_retry_cnt m) \<le> 3" using d(5) l by (simp add: nat_le_iff)
  show ?thesis
    by (rule in_orderI [of _ "ds @ [tc_cmd m]" _ "ks @ [Suc (nat (tc_retry_cnt m))]"])
      (use d k l in \<open>auto simp: trx_ctrl_done_def send_simps sent_head_def dest: in_set_tlD split: list.split\<close>)
qed

lemma in_order_timeout:
  assumes "in_order cs t" "\<not> ti_closed (trx_ctrl_timer_cb t)"
  shows "in_order cs (trx_ctrl_timer_cb t)"
proof (cases "ti_ctrl_list t")
  case Nil
  then show ?thesis using assms(1) by (simp add: trx_ctrl_timer_cb_def in_order_def Let_def)
next
  case (Cons m ms)
  obtain ds ks where d: "cs = ds @ map tc_cmd (ti_ctrl_list t)" "length ks = length ds" "\<forall>k \<in> set ks. 1 \<le> k \<and> k \<le> 4"
    "ti_ctrl_out t = concat (map2 replicate ks ds) @ sent_head (ti_ctrl_list t)"
    "\<forall>m \<in> set (ti_ctrl_list t). 0 \<le> tc_retry_cnt m \<and> tc_retry_cnt m \<le> 3" "\<forall>m \<in> set (tl (ti_ctrl_list t)). tc_retry_cnt m = 0"
    using assms(1) unfolding in_order_def by blast
  let ?n = "tc_retry_cnt m"
  have n: "0 \<le> ?n" using d(5) Cons by simp
  then have r: "replicate (Suc (nat (?n + 1))) x = replicate (Suc (nat ?n)) x @ [x]" for x :: string
    by (simp add: nat_add_distrib replicate_append_same)
  have "\<not> ?n + 1 > 3"
    using assms(2) Cons by (auto simp: trx_ctrl_timer_cb_def trx_fsm_cleanup_cb_def trx_if_flush_ctrl_def Let_def)
  then show ?thesis
    by (intro in_orderI [of _ ds _ ks])
      (use d n Cons in \<open>auto simp: trx_ctrl_timer_cb_def send_simps sent_head_def Let_def r simp del: replicate_Suc\<close>)
qed

lemma in_order_step:
  assumes "in_order cs t" "\<not> ti_closed t" "ctrl_step L e t = Some t'" "\<not> ti_closed t'"
  shows "in_order (cs @ issued L [e]) t'"
proof (cases e)
  case (Cmd c)
  then show ?thesis using assms in_order_phyif_cmd [OF assms(1), of L c] by simp
next
  case Timeout
  then show ?thesis using assms in_order_timeout [OF assms(1)] by (auto split: if_splits)
next
  case (Rsp buf)
  let ?buf = "takeWhile (\<lambda>c. c \<noteq> CHR 0x00) (take 1023 buf)"
  obtain r t1 where r: "trx_ctrl_rsp L ?buf t = Some (r, t1)"
    using assms(3) Rsp by (auto simp: trx_ctrl_read_cb_def)
  note same = ctrl_rsp_ok [OF r]
  then have 1: "in_order cs t1" using assms(1) by (simp add: in_order_def)
  show ?thesis
  proof (cases r)
    case (Rsp_Done m)
    then have "t' = trx_ctrl_done t1" using assms(3) Rsp r by (cases m) (auto simp: trx_ctrl_read_cb_def)
    then show ?thesis using in_order_done [OF 1] same Rsp Rsp_Done by simp
  qed (use assms 1 same Rsp r in \<open>auto simp: trx_ctrl_read_cb_def trx_fsm_cleanup_cb_def trx_if_flush_ctrl_def Let_def\<close>)
qed

lemma ctrl_run_in_order:
  "in_order cs t \<Longrightarrow> ctrl_run L es t = Some t' \<Longrightarrow> \<not> ti_closed t' \<Longrightarrow> in_order (cs @ issued L es) t'"
proof (induction es arbitrary: cs t)
  case (Cons e es)
  have "issued L (e # es) = issued L [e] @ issued L es" by (cases e) simp_all
  moreover have "\<not> ti_closed t" using Cons.prems by (auto split: if_splits)
  moreover obtain t1 where "ctrl_step L e t = Some t1" "ctrl_run L es t1 = Some t'"
    using Cons.prems(2) calculation(2) by auto
  moreover have "\<not> ti_closed t1" using calculation(4) Cons.prems(3) by (cases es) (auto split: if_splits)
  ultimately show ?case
    using Cons.IH [of "cs @ issued L [e]" t1] in_order_step Cons.prems by (metis append.assoc)
qed simp

text \<open>C3. Whatever the transceiver answers and however often it does not, as long as the interface is
  up the commands reach the socket in the order they were given, each command one to four times in
  a row and none before the answer to the one before it.\<close>

theorem trx_commands_in_order:
  assumes "ctrl_run L es (trx_if_open adv) = Some t" and "\<not> ti_closed t"
  shows "\<exists>ds ks. issued L es = ds @ map tc_cmd (ti_ctrl_list t) \<and> length ks = length ds \<and>
    (\<forall>k \<in> set ks. 1 \<le> k \<and> k \<le> 4) \<and>
    ti_ctrl_out t = concat (map2 replicate ks ds) @ sent_head (ti_ctrl_list t) \<and> length (sent_head (ti_ctrl_list t)) \<le> 4"
proof -
  have "in_order [] (trx_if_open adv)"
    by (simp add: in_order_def trx_if_open_def sent_head_def)
  then have "in_order (issued L es) t" using ctrl_run_in_order [OF _ assms] by fastforce
  moreover then have "length (sent_head (ti_ctrl_list t)) \<le> 4"
    by (auto simp: in_order_def sent_head_def split: list.split)
  ultimately show ?thesis unfolding in_order_def by blast
qed

theorem trx_commands_in_order_witness:
  "\<exists>t. ctrl_run toy_lib [Cmd CMDT_RESET, Timeout, Rsp ''RSP POWEROFF 0'', Cmd CMDT_POWERON] (trx_if_open 2) = Some t \<and>
    ti_ctrl_out t = [''CMD POWEROFF'', ''CMD POWEROFF'', ''CMD ECHO''] \<and>
    (\<exists>ds ks. issued toy_lib [Cmd CMDT_RESET, Timeout, Rsp ''RSP POWEROFF 0'', Cmd CMDT_POWERON] = ds @ map tc_cmd (ti_ctrl_list t) \<and>
      length ks = length ds \<and> ti_ctrl_out t = concat (map2 replicate ks ds) @ sent_head (ti_ctrl_list t))"
proof -
  let ?es = "[Cmd CMDT_RESET, Timeout, Rsp ''RSP POWEROFF 0'', Cmd CMDT_POWERON]"
  obtain t where t: "ctrl_run toy_lib ?es (trx_if_open 2) = Some t" "\<not> ti_closed t"
    "ti_ctrl_out t = [''CMD POWEROFF'', ''CMD POWEROFF'', ''CMD ECHO'']"
    by (simp add: trx_if_open_def trx_ctrl_cmd_def trx_ctrl_send_def trx_ctrl_timer_cb_def trx_ctrl_read_cb_def
        trx_ctrl_rsp_def trx_ctrl_done_def trx_state_chg_def cmd_text_def scan_d_def scan_int_def is_digit_def is_space_def
        num_of_def Let_def)
  then show ?thesis using trx_commands_in_order [OF t(1,2)] by blast
qed

section \<open>A response without a status\<close>

text \<open>A response that names the pending command and stops there makes the interface read at the
  address after NULL.\<close>

theorem rsp_without_status_crashes:
  assumes "ti_ctrl_list t = m # ms" and "drop 4 (tc_cmd m) = verb @ args" and "CHR '' '' \<notin> set verb" and "CHR 0x00 \<notin> set verb"
    and "length verb < 1019"
  shows "trx_ctrl_read_cb L h (''RSP '' @ verb) t = None"
proof -
  have "takeWhile (\<lambda>c. c \<noteq> CHR 0x00) (take 1023 (''RSP '' @ verb)) = ''RSP '' @ verb"
    using assms(4,5) by (auto simp: takeWhile_eq_all_conv)
  moreover have "takeWhile (\<lambda>c. c \<noteq> CHR '' '') verb = verb" "dropWhile (\<lambda>c. c \<noteq> CHR '' '') verb = []"
    using assms(3) by (auto simp: takeWhile_eq_all_conv dropWhile_eq_Nil_conv)
  ultimately show ?thesis
    using assms(1,2) by (simp add: trx_ctrl_read_cb_def trx_ctrl_rsp_def Let_def del: takeWhile_eq_all_conv dropWhile_eq_Nil_conv)
qed

theorem rsp_without_status_crashes_witness:
  "trx_ctrl_read_cb toy_lib (\<lambda>_ _ t. Some t) ''RSP POWERON'' (snd (trx_if_handle_phyif_cmd toy_lib CMDT_POWERON (trx_if_open 2))) = None"
proof -
  let ?t = "snd (trx_if_handle_phyif_cmd toy_lib CMDT_POWERON (trx_if_open 2))"
  have l: "ti_ctrl_list ?t = [\<lparr>tc_cmd = ''CMD POWERON'', tc_retry_cnt = 0, tc_critical = True, tc_cmd_len = 7\<rparr>]"
    by (simp add: trx_ctrl_cmd_def trx_if_open_def cmd_text_def Let_def send_simps)
  show ?thesis
    using rsp_without_status_crashes [OF l, where verb = "''POWERON''" and args = "[]" and L = toy_lib and h = "\<lambda>_ _ t. Some t"]
    by simp
qed

section \<open>Hopping\<close>

lemma u8_lt: "unat (w :: u8) < 256"
proof -
  have "unat w < 2 ^ LENGTH(8)" by (rule unsigned_less)
  then show ?thesis by simp
qed

lemma digits_pos: "0 < length (dec n)"
  by (subst dec.simps) simp

definition dec_digits :: "nat \<Rightarrow> nat" where
  "dec_digits n = length (dec n)"

lemma dec_digits_octet: "n < 256 \<Longrightarrow> length (dec n) \<le> 3"
  by (subst dec.simps, subst dec.simps, subst dec.simps) auto

text \<open>What \<^verbatim>\<open>SETFH\<close> should say of the frequencies.\<close>

definition ma_text :: "libosmo \<Rightarrow> u16 list \<Rightarrow> string" where
  "ma_text L ma = concat (map (\<lambda>a. ma_pair (gsm_arfcn2freq10 L a False) (gsm_arfcn2freq10 L a True)) ma)"

definition ma_known :: "libosmo \<Rightarrow> u16 list \<Rightarrow> bool" where
  "ma_known L ma \<longleftrightarrow> list_all (\<lambda>a. gsm_arfcn2freq10 L a False \<noteq> 0xffff \<and> gsm_arfcn2freq10 L a True \<noteq> 0xffff) ma"

lemma ma_pair_pos: "0 < length (ma_pair rx tx)"
  by (simp add: ma_pair_def)

lemma ma_loop_ok:
  "ma_known L ma \<Longrightarrow> length buf = pos \<Longrightarrow> length (ma_text L ma) \<le> room \<Longrightarrow> ma \<noteq> [] \<Longrightarrow>
   \<exists>buf'. ma_loop L ma room pos buf = Inr (pos + length (ma_text L ma), buf') \<and>
     take (pos + length (ma_text L ma) - 1) buf' = buf @ butlast (ma_text L ma)"
proof (induction ma arbitrary: room pos buf)
  case (Cons a ma)
  let ?s = "ma_pair (gsm_arfcn2freq10 L a False) (gsm_arfcn2freq10 L a True)"
  have t: "ma_text L (a # ma) = ?s @ ma_text L ma" by (simp add: ma_text_def)
  have fit: "length ?s \<le> room" using Cons.prems(3) t by simp
  have step: "ma_loop L (a # ma) room pos buf = ma_loop L ma (room - length ?s) (pos + length ?s) (buf @ take (room - 1) ?s)"
    using Cons.prems(1,2) fit by (simp add: ma_known_def Let_def)
  show ?case
  proof (cases "ma = []")
    case True
    have "take (length ?s - 1) (take (room - 1) ?s) = butlast ?s"
      using fit by (simp add: butlast_conv_take min_def)
    moreover have "pos + length ?s - 1 = pos + (length ?s - 1)"
      using ma_pair_pos [of "gsm_arfcn2freq10 L a False" "gsm_arfcn2freq10 L a True"] by (simp del: length_greater_0_conv)
    ultimately show ?thesis
      using step True Cons.prems(2) by (simp add: ma_text_def del: One_nat_def)
  next
    case False
    then obtain b mb where "ma = b # mb" by (cases ma) auto
    then have pos: "0 < length (ma_text L ma)"
      using ma_pair_pos [of "gsm_arfcn2freq10 L b False" "gsm_arfcn2freq10 L b True"] by (simp add: ma_text_def)
    then have full: "take (room - 1) ?s = ?s" using Cons.prems(3) t by (simp del: length_greater_0_conv)
    have "\<exists>buf'. ma_loop L ma (room - length ?s) (pos + length ?s) (buf @ ?s) = Inr (pos + length ?s + length (ma_text L ma), buf') \<and>
        take (pos + length ?s + length (ma_text L ma) - 1) buf' = (buf @ ?s) @ butlast (ma_text L ma)"
      by (rule Cons.IH) (use Cons.prems False t in \<open>auto simp: ma_known_def\<close>)
    then show ?thesis using step full pos t by (auto simp: butlast_append add.assoc)
  qed
qed simp

lemma ma_loop_full:
  "ma_known L ma \<Longrightarrow> length buf = pos \<Longrightarrow> room < length (ma_text L ma) \<Longrightarrow> \<exists>r. ma_loop L ma room pos buf = Inl (- ENOSPC)"
proof (induction ma arbitrary: room pos buf)
  case Nil
  then show ?case by (simp add: ma_text_def)
next
  case (Cons a ma)
  let ?s = "ma_pair (gsm_arfcn2freq10 L a False) (gsm_arfcn2freq10 L a True)"
  have t: "ma_text L (a # ma) = ?s @ ma_text L ma" by (simp add: ma_text_def)
  show ?case
  proof (cases "length ?s \<le> room")
    case False
    then show ?thesis using Cons.prems(1) by (simp add: ma_known_def Let_def)
  next
    case True
    show ?thesis
    proof (cases "length ?s = room")
      case full: True
      then have "ma_text L ma \<noteq> []" using Cons.prems(3) t by auto
      then obtain b mb where "ma = b # mb" by (cases ma) (auto simp: ma_text_def)
      then show ?thesis using Cons.prems(1) full by (simp add: ma_known_def Let_def ma_pair_def)
    next
      case False
      then have "take (room - 1) ?s = ?s" using True by simp
      then show ?thesis
        using Cons.IH [of "buf @ ?s" "pos + length ?s" "room - length ?s"] Cons.prems True t by (auto simp: ma_known_def Let_def)
    qed
  qed
qed

text \<open>A mobile allocation is either sent whole, or refused when its text is longer than 999 octets:
  the bounded writes never cut a frequency.\<close>

theorem setfh_exact:
  assumes "ma_known L ma" and "ma \<noteq> []"
  shows "(length (ma_text L ma) \<le> 999 \<longrightarrow>
      (\<exists>t'. trx_if_cmd_setfh L hsn maio ma t = (0, t') \<and> map tc_cmd (ti_ctrl_list t') = map tc_cmd (ti_ctrl_list t) @
         [''CMD SETFH '' @ dec (unat hsn) @ '' '' @ dec (unat maio) @ '' '' @ butlast (ma_text L ma)])) \<and>
    (999 < length (ma_text L ma) \<longrightarrow> trx_if_cmd_setfh L hsn maio ma t = (- ENOSPC, t))"
proof (intro conjI impI)
  assume fit: "length (ma_text L ma) \<le> 999"
  obtain buf where b: "ma_loop L ma 999 0 [] = Inr (length (ma_text L ma), buf)" "take (length (ma_text L ma) - 1) buf = butlast (ma_text L ma)"
    using ma_loop_ok [OF assms(1) _ fit assms(2), of "[]" 0] by auto
  let ?a = "dec (unat hsn) @ '' '' @ dec (unat maio) @ '' '' @ butlast (ma_text L ma)"
  have "unat hsn < 256" "unat maio < 256" by (rule u8_lt)+
  then have "length (dec (unat hsn)) \<le> 3" "length (dec (unat maio)) \<le> 3" by (simp_all add: dec_digits_octet)
  then have "length ?a \<le> 1012" using fit by simp
  then have "cmd_text ''SETFH'' (Some ?a) = ''CMD SETFH '' @ ?a" by (simp add: cmd_text_def Let_def)
  then show "\<exists>t'. trx_if_cmd_setfh L hsn maio ma t = (0, t') \<and> map tc_cmd (ti_ctrl_list t') = map tc_cmd (ti_ctrl_list t) @
         [''CMD SETFH '' @ dec (unat hsn) @ '' '' @ dec (unat maio) @ '' '' @ butlast (ma_text L ma)]"
    using assms(2) b by (simp add: trx_if_cmd_setfh_def trx_ctrl_cmd_def Let_def send_simps)
next
  assume "999 < length (ma_text L ma)"
  then show "trx_if_cmd_setfh L hsn maio ma t = (- ENOSPC, t)"
    using ma_loop_full [OF assms(1), of "[]" 0 999] assms(2) by (auto simp: trx_if_cmd_setfh_def)
qed

theorem setfh_exact_witness:
  "\<exists>t'. trx_if_cmd_setfh toy_lib 5 1 [10, 20] (trx_if_open 2) = (0, t') \<and>
    map tc_cmd (ti_ctrl_list t') = [''CMD SETFH 5 1 937000 892000 939000 894000'']"
proof -
  have "ma_known toy_lib [10, 20]" "butlast (ma_text toy_lib [10, 20]) = ''937000 892000 939000 894000''"
      "length (ma_text toy_lib [10, 20]) \<le> 999"
    by (simp_all add: ma_known_def ma_text_def ma_pair_def toy_lib_def dec.simps digit_def)
  then show ?thesis
    using setfh_exact [of toy_lib "[10, 20]" 5 1 "trx_if_open 2"] by (simp add: trx_if_open_def dec.simps digit_def)
qed

section \<open>Burst indications\<close>

lemma sint_trxd_soft: "sint (trxd_soft b) = max (- 127) (127 - int (unat b))"
proof (cases "b = 255")
  case True
  then show ?thesis by (simp add: trxd_soft_def)
next
  case False
  have "uint b < 2 ^ LENGTH(8)" by (rule unsigned_less)
  then have b: "uint b < 255" "0 \<le> uint b" using False by (simp_all add: word_uint_eq_iff)
  have "127 - b = word_of_int (127 - uint b)" by simp
  then have "sint (127 - b) = signed_take_bit 7 (127 - uint b)" by (simp only: sint_sbintrunc') simp
  also have "\<dots> = 127 - uint b" by (rule signed_take_bit_int_eq_self) (use b in \<open>simp_all, linarith\<close>)
  finally show ?thesis using False b by (simp add: trxd_soft_def)
qed

text \<open>C40. A datagram of the radio is either dropped, or it is a TRXDv0 message of one of the four lengths, and
  the burst it carries is in the range the scheduler takes: a frame number of the hyperframe, a timeslot,
  and soft bits from -127 to 127 in the octets of the message.\<close>

theorem trxd_rx_sound:
  assumes "trx_data_rx d = Inr bi"
  shows "length d \<in> {156, 158, 452, 454} \<and> unat (bi_fn bi) < GSM_TDMA_HYPERFRAME \<and> bi_tn bi < 8 \<and>
    length (bi_burst bi) = GSM_NBITS_NB_8PSK_BURST \<and>
    bi_burst_len bi = (if length d < 200 then GSM_NBITS_NB_GMSK_BURST else GSM_NBITS_NB_8PSK_BURST) \<and>
    list_all (\<lambda>b. - 127 \<le> sint b \<and> sint b \<le> 127) (bi_burst bi) \<and>
    (\<forall>i < bi_burst_len bi. sint (bi_burst bi ! i) = max (- 127) (127 - int (unat (d ! (8 + i)))))"
proof -
  define n where "n = length (take 512 d) - 8"
  define len where "len = (if n = 150 \<or> n = 446 then n - 2 else n)"
  have r: "8 \<le> length (take 512 d)" "len = 148 \<or> len = 444" "unat (be32 1 (take 512 d)) < GSM_TDMA_HYPERFRAME"
    "bi = \<lparr>bi_fn = be32 1 (take 512 d), bi_tn = unat (octet 0 (take 512 d) AND 7), bi_toa256 = be16 6 (take 512 d),
       bi_rssi = - octet 5 (take 512 d), bi_bid = 0,
       bi_burst = map trxd_soft (chunk 8 len (take 512 d)) @ replicate (444 - len) 0, bi_burst_len = len\<rparr>"
    using assms by (auto simp: trx_data_rx_def Let_def gsm_nbits n_def len_def split: if_splits)
  have n: "n \<in> {148, 150, 444, 446}" using r(2) by (auto simp: len_def split: if_splits)
  then have d: "length d = n + 8" using r(1) by (auto simp: n_def min_def split: if_splits)
  then have t: "take 512 d = d" using n by auto
  have tn: "unat (w AND 7) < 8" for w :: u8
    using word_and_le1 [of w 7] by (simp add: word_le_nat_alt)
  have fit: "8 + len \<le> length d" using n d by (auto simp: len_def)
  have "length (chunk 8 len d) = len" using fit by (simp add: length_chunk)
  moreover have "list_all (\<lambda>b. - 127 \<le> sint b \<and> sint b \<le> 127) (map trxd_soft xs)" for xs
    by (simp add: list_all_iff sint_trxd_soft)
  moreover have "\<forall>i < len. chunk 8 len d ! i = d ! (8 + i)" using fit by (simp add: nth_chunk)
  ultimately show ?thesis
    using r(2,3) n d t tn by (auto simp: r(4) gsm_nbits nth_append sint_trxd_soft len_def list_all_iff split: if_splits)
qed

theorem trxd_rx_sound_witness:
  "\<exists>bi. trx_data_rx ([3, 0, 0, 0, 9, 60, 0, 0] @ replicate 148 255) = Inr bi \<and> bi_tn bi < 8 \<and> sint (bi_burst bi ! 7) = - 127"
proof -
  let ?d = "[3, 0, 0, 0, 9, 60, 0, 0] @ replicate 148 255 :: u8 list"
  obtain bi where bi: "trx_data_rx ?d = Inr bi"
    by (simp add: trx_data_rx_def Let_def gsm_nbits GSM_TDMA_HYPERFRAME_def be32_def octet_def)
  have "bi_burst_len bi = 148" using trxd_rx_sound [OF bi] by (simp add: gsm_nbits)
  then have "sint (bi_burst bi ! 7) = max (- 127) (127 - int (unat (?d ! (8 + 7))))" "bi_tn bi < 8"
    using trxd_rx_sound [OF bi] by simp_all
  then show ?thesis using bi by (simp add: nth_append)
qed

end
