(* ===== verification/Fw_Tdma.thy ===== *)
theory Fw_Tdma
  imports Prelude "HOL-Library.Multiset"
begin

text \<open>
  The TDMA scheduler of the firmware (\<^verbatim>\<open>src/src/target/firmware/layer1/tdma_sched.c\<close>,
  \<^verbatim>\<open>tdma_sched.h\<close>): a ring of 25 buckets, one per future TDMA frame, each with room for eight
  callbacks, which are run by priority when their frame comes. The second half is the abstract
  specification, an agenda of the coming frames, and the proof that the ring implements it.

  A callback may use the scheduler itself while it runs, so running one is a parameter: from the item
  and the state of the rest of the firmware it gives the return code, the calls of the scheduler it
  made, in order, and the new state of the rest.
\<close>

section \<open>State\<close>

abbreviation (input) TDMASCHED_NUM_FRAMES :: nat where "TDMASCHED_NUM_FRAMES \<equiv> 25"
abbreviation (input) TDMASCHED_NUM_CB :: nat where "TDMASCHED_NUM_CB \<equiv> 8"

text \<open>The callbacks the firmware schedules, by name; \<^term>\<open>None\<close> in an item is the NULL that ends a frame.\<close>

datatype tdma_cb = Tdma_end_set
  | L1s_nb_cmd | L1s_nb_resp | L1s_tx_cmd | L1s_tx_resp
  | L1s_tch_cmd | L1s_tch_resp | L1s_tch_d_cmd | L1s_tch_d_resp | L1s_tch_a_cmd | L1s_tch_a_resp
  | L1s_pm_cmd | L1s_pm_resp | L1s_neigh_pm_cmd | L1s_neigh_pm_resp
  | L1s_sbdet_cmd | L1s_sbdet_resp | L1s_fbdet_cmd | L1s_fbdet_resp
  | L1s_tx_rach_cmd | L1s_tx_rach_resp | L1s_freq_cmd | L1s_abort_cmd | Win_setup | Win_cleanup

record tdma_item =
  it_cb :: "tdma_cb option"
  it_p1 :: u8
  it_p2 :: u8
  it_p3 :: u16
  it_prio :: "16 word"
  it_flags :: u16

record tdma_bucket =
  bk_item :: "tdma_item list"
  bk_num :: u8

record tdma_scheduler =
  tq_bucket :: "tdma_bucket list"
  tq_cur :: u8

text \<open>The scheduler is part of a zeroed variable.\<close>

definition tdma_zero :: tdma_scheduler where
  "tdma_zero = \<lparr>tq_bucket = replicate TDMASCHED_NUM_FRAMES
     \<lparr>bk_item = replicate TDMASCHED_NUM_CB \<lparr>it_cb = None, it_p1 = 0, it_p2 = 0, it_p3 = 0, it_prio = 0, it_flags = 0\<rparr>,
      bk_num = 0\<rparr>, tq_cur = 0\<rparr>"

section \<open>Scheduling\<close>

definition wrap_bucket :: "tdma_scheduler \<Rightarrow> u8 \<Rightarrow> nat" where
  "wrap_bucket s offset = (unat (tq_cur s) + unat offset) mod TDMASCHED_NUM_FRAMES"

definition put_bucket :: "nat \<Rightarrow> tdma_bucket \<Rightarrow> tdma_scheduler \<Rightarrow> tdma_scheduler" where
  "put_bucket nr b s = s\<lparr>tq_bucket := (tq_bucket s)[nr := b]\<rparr>"

definition bucket_add :: "tdma_item \<Rightarrow> tdma_bucket \<Rightarrow> tdma_bucket" where
  "bucket_add it b = b\<lparr>bk_item := (bk_item b)[unat (bk_num b) := it], bk_num := bk_num b + 1\<rparr>"

text \<open>The flags of the slot the item is written to are not among the fields that are set.\<close>

definition tdma_schedule :: "u8 \<Rightarrow> tdma_cb \<Rightarrow> u8 \<Rightarrow> u8 \<Rightarrow> u16 \<Rightarrow> 16 word \<Rightarrow> tdma_scheduler \<Rightarrow> (int \<times> tdma_scheduler) option" where
  "tdma_schedule frame_offset cb p1 p2 p3 prio s =
     (let nr = wrap_bucket s frame_offset in do {
        b \<leftarrow> index_at (tq_bucket s) nr;
        if unat (bk_num b) \<ge> TDMASCHED_NUM_CB then Some (- 1, s)
        else do {
          it \<leftarrow> index_at (bk_item b) (unat (bk_num b));
          Some (0, put_bucket nr (bucket_add
            (it\<lparr>it_cb := Some cb, it_p1 := p1, it_p2 := p2, it_p3 := p3, it_prio := prio\<rparr>) b) s) } })"

text \<open>The loop over a set; running off the end of the array is \<^term>\<open>None\<close>.\<close>

fun schedule_items :: "u8 \<Rightarrow> nat \<Rightarrow> nat \<Rightarrow> tdma_item list \<Rightarrow> u16 \<Rightarrow> tdma_scheduler \<Rightarrow> (int \<times> tdma_scheduler) option" where
  "schedule_items frame_offset nr j [] p3 s = None"
| "schedule_items frame_offset nr j (it # rest) p3 s =
     (if it_cb it = Some Tdma_end_set then Some (int j, s)
      else if it_cb it = None then
        schedule_items (frame_offset + 1) (wrap_bucket s (frame_offset + 1)) (j + 1) rest p3 s
      else do {
        b \<leftarrow> index_at (tq_bucket s) nr;
        if unat (bk_num b) \<ge> TDMASCHED_NUM_CB then Some (- 1, s)
        else schedule_items frame_offset nr j rest p3 (put_bucket nr (bucket_add (it\<lparr>it_p3 := p3\<rparr>) b) s) })"

definition tdma_schedule_set :: "u8 \<Rightarrow> tdma_item list \<Rightarrow> u16 \<Rightarrow> tdma_scheduler \<Rightarrow> (int \<times> tdma_scheduler) option" where
  "tdma_schedule_set frame_offset item_set p3 s =
     schedule_items frame_offset (wrap_bucket s frame_offset) 0 item_set p3 s"

definition tdma_sched_advance :: "tdma_scheduler \<Rightarrow> tdma_scheduler" where
  "tdma_sched_advance s = s\<lparr>tq_cur := word_of_nat (wrap_bucket s 1)\<rparr>"

definition tdma_sched_reset :: "tdma_scheduler \<Rightarrow> tdma_scheduler" where
  "tdma_sched_reset s = s\<lparr>tq_bucket := map (\<lambda>(nr, b). if nr \<noteq> unat (tq_cur s) then b\<lparr>bk_num := 0\<rparr> else b)
     (enumerate 0 (tq_bucket s))\<rparr>"

section \<open>Running a frame\<close>

definition tdma_sched_flag_scan :: "tdma_scheduler \<Rightarrow> u16 option" where
  "tdma_sched_flag_scan s = do {
     b \<leftarrow> index_at (tq_bucket s) (unat (tq_cur s));
     items \<leftarrow> read_at 0 (unat (bk_num b)) (bk_item b);
     Some (fold (\<lambda>it flags. flags OR it_flags it) items 0) }"

text \<open>One comparison of the sort, with the item the outer loop holds, and the sort.\<close>

definition sort_swap :: "tdma_item list \<Rightarrow> nat \<Rightarrow> nat \<Rightarrow> tdma_item \<times> nat list \<Rightarrow> tdma_item \<times> nat list" where
  "sort_swap items i j st =
     (let (item_i, seq) = st; item_j = items ! (seq ! j) in
      if sint (it_prio item_i) > sint (it_prio item_j) then (item_j, seq[i := seq ! j, j := seq ! i]) else st)"

definition sort_pass :: "tdma_item list \<Rightarrow> nat \<Rightarrow> nat \<Rightarrow> nat list \<Rightarrow> nat list" where
  "sort_pass items n i seq = snd (fold (sort_swap items i) [i + 1..<n] (items ! (seq ! i), seq))"

definition tdma_sched_bucket_sort :: "tdma_bucket \<Rightarrow> nat list option" where
  "tdma_sched_bucket_sort b =
     (let n = unat (bk_num b) in
      if n > length (bk_item b) \<or> n > TDMASCHED_NUM_CB then None
      else Some (fold (sort_pass (bk_item b) n) [0..<n] [0..<TDMASCHED_NUM_CB]))"

datatype tdma_call =
    Call_schedule u8 tdma_cb u8 u8 u16 "16 word"
  | Call_schedule_set u8 "tdma_item list" u16
  | Call_reset

fun tdma_do_call :: "tdma_call \<Rightarrow> tdma_scheduler \<Rightarrow> tdma_scheduler option" where
  "tdma_do_call (Call_schedule off cb p1 p2 p3 prio) s = map_option snd (tdma_schedule off cb p1 p2 p3 prio s)"
| "tdma_do_call (Call_schedule_set off items p3) s = map_option snd (tdma_schedule_set off items p3 s)"
| "tdma_do_call Call_reset s = Some (tdma_sched_reset s)"

fun tdma_calls :: "tdma_call list \<Rightarrow> tdma_scheduler \<Rightarrow> tdma_scheduler option" where
  "tdma_calls [] s = Some s"
| "tdma_calls (c # cs) s = do { s \<leftarrow> tdma_do_call c s; tdma_calls cs s }"

type_synonym 'w tdma_run = "tdma_item \<Rightarrow> 'w \<Rightarrow> int \<times> tdma_call list \<times> 'w"

text \<open>
  The loop of \<^verbatim>\<open>tdma_sched_execute\<close>: the number of items is read again each time, the sequence is
  not. An item without a callback would be a call of NULL.
\<close>

function exec_items :: "'w tdma_run \<Rightarrow> nat \<Rightarrow> nat list \<Rightarrow> nat \<Rightarrow> int \<Rightarrow> 'w \<Rightarrow> tdma_scheduler \<Rightarrow>
    (int \<times> 'w \<times> tdma_scheduler) option" where
  "exec_items run nr seq i num_events w s =
     (case index_at (tq_bucket s) nr of
        None \<Rightarrow> None
      | Some b \<Rightarrow>
          if \<not> i < unat (bk_num b) then Some (num_events, w, put_bucket nr (b\<lparr>bk_num := 0\<rparr>) s)
          else if \<not> i < length seq then None
          else case index_at (bk_item b) (seq ! i) of
              None \<Rightarrow> None
            | Some it \<Rightarrow>
                if it_cb it = None then None
                else let (rc, calls, w) = run it w in
                  case tdma_calls calls s of
                    None \<Rightarrow> None
                  | Some s \<Rightarrow> if rc < 0 then Some (rc, w, s)
                      else exec_items run nr seq (i + 1) (num_events + 1) w s)"
  by pat_completeness auto
termination by (relation "measure (\<lambda>(run, nr, seq, i, _). length seq - i)") auto

declare exec_items.simps [simp del]

definition tdma_sched_execute :: "'w tdma_run \<Rightarrow> 'w \<Rightarrow> tdma_scheduler \<Rightarrow> (int \<times> 'w \<times> tdma_scheduler) option" where
  "tdma_sched_execute run w s = do {
     b \<leftarrow> index_at (tq_bucket s) (unat (tq_cur s));
     seq \<leftarrow> tdma_sched_bucket_sort b;
     exec_items run (unat (tq_cur s)) seq 0 0 w s }"

section \<open>The invariant\<close>

definition bucket_wf :: "tdma_bucket \<Rightarrow> bool" where
  "bucket_wf b \<longleftrightarrow> length (bk_item b) = TDMASCHED_NUM_CB \<and> unat (bk_num b) \<le> TDMASCHED_NUM_CB \<and>
     list_all (\<lambda>it. it_cb it \<noteq> None) (take (unat (bk_num b)) (bk_item b))"

definition tdma_wf :: "tdma_scheduler \<Rightarrow> bool" where
  "tdma_wf s \<longleftrightarrow> length (tq_bucket s) = TDMASCHED_NUM_FRAMES \<and> unat (tq_cur s) < TDMASCHED_NUM_FRAMES \<and>
     list_all bucket_wf (tq_bucket s)"

text \<open>A set that is closed by \<^verbatim>\<open>SCHED_END_SET\<close>, as all sets of the firmware are.\<close>

definition set_closed :: "tdma_item list \<Rightarrow> bool" where
  "set_closed items \<longleftrightarrow> list_ex (\<lambda>it. it_cb it = Some Tdma_end_set) items"

fun call_ok :: "tdma_call \<Rightarrow> bool" where
  "call_ok (Call_schedule_set off items p3) = set_closed items"
| "call_ok _ = True"

lemma wrap_less [simp]: "wrap_bucket s off < TDMASCHED_NUM_FRAMES"
  by (simp add: wrap_bucket_def)

lemma tdma_wf_bucket: "tdma_wf s \<Longrightarrow> nr < TDMASCHED_NUM_FRAMES \<Longrightarrow>
    index_at (tq_bucket s) nr = Some (tq_bucket s ! nr) \<and> bucket_wf (tq_bucket s ! nr)"
  by (auto simp: tdma_wf_def index_at_def list_all_length)

lemma tdma_wf_put: "tdma_wf s \<Longrightarrow> bucket_wf b \<Longrightarrow> tdma_wf (put_bucket nr b s)"
  by (cases "nr < length (tq_bucket s)")
     (auto simp: tdma_wf_def put_bucket_def list_all_length nth_list_update)

lemma unat_inc8: "unat (w :: u8) \<le> 8 \<Longrightarrow> unat (w + 1) = unat w + 1"
  by (simp add: unat_word_ariths)

lemma bucket_add_items: "bucket_wf b \<Longrightarrow> unat (bk_num b) < TDMASCHED_NUM_CB \<Longrightarrow>
    take (unat (bk_num (bucket_add it b))) (bk_item (bucket_add it b)) = take (unat (bk_num b)) (bk_item b) @ [it]"
  by (simp add: bucket_add_def unat_inc8 bucket_wf_def take_Suc_conv_app_nth)

lemma bucket_wf_add: "bucket_wf b \<Longrightarrow> unat (bk_num b) < TDMASCHED_NUM_CB \<Longrightarrow> it_cb it \<noteq> None \<Longrightarrow>
    bucket_wf (bucket_add it b)"
  using bucket_add_items [of b it] unfolding bucket_wf_def
  by (auto simp: bucket_add_def unat_inc8)

lemma bucket_wf_empty: "bucket_wf b \<Longrightarrow> bucket_wf (b\<lparr>bk_num := 0\<rparr>)"
  by (simp add: bucket_wf_def)

section \<open>The agenda\<close>

text \<open>
  The specification: what is due in this frame, in the next one, and so on for 25 frames. The flags
  an item carries are left out: they are only read by \<^verbatim>\<open>tdma_sched_flag_scan\<close>.
\<close>

type_synonym agenda = "tdma_item list list"

definition core :: "tdma_item \<Rightarrow> tdma_item" where
  "core it = it\<lparr>it_flags := 0\<rparr>"

definition bucket_items :: "tdma_bucket \<Rightarrow> tdma_item list" where
  "bucket_items b = map core (take (unat (bk_num b)) (bk_item b))"

definition due :: "tdma_scheduler \<Rightarrow> agenda" where
  "due s = map bucket_items (rotate (unat (tq_cur s)) (tq_bucket s))"

definition ag_add :: "nat \<Rightarrow> tdma_item \<Rightarrow> agenda \<Rightarrow> bool \<times> agenda" where
  "ag_add d it A = (let d = d mod TDMASCHED_NUM_FRAMES in
     if length (A ! d) < TDMASCHED_NUM_CB then (True, A[d := A ! d @ [it]]) else (False, A))"

fun ag_add_set :: "u8 \<Rightarrow> tdma_item list \<Rightarrow> u16 \<Rightarrow> agenda \<Rightarrow> agenda" where
  "ag_add_set off [] p3 A = A"
| "ag_add_set off (it # rest) p3 A =
     (if it_cb it = Some Tdma_end_set then A
      else if it_cb it = None then ag_add_set (off + 1) rest p3 A
      else let (ok, A) = ag_add (unat off) (core (it\<lparr>it_p3 := p3\<rparr>)) A in
        if ok then ag_add_set off rest p3 A else A)"

definition ag_advance :: "agenda \<Rightarrow> agenda" where
  "ag_advance A = rotate1 A"

definition ag_execute :: "agenda \<Rightarrow> agenda" where
  "ag_execute A = A[0 := []]"

definition ag_reset :: "agenda \<Rightarrow> agenda" where
  "ag_reset A = hd A # replicate (TDMASCHED_NUM_FRAMES - 1) []"

lemma due_length [simp]: "length (due s) = length (tq_bucket s)"
  by (simp add: due_def)

lemma due_nth: "tdma_wf s \<Longrightarrow> d < TDMASCHED_NUM_FRAMES \<Longrightarrow>
    due s ! d = bucket_items (tq_bucket s ! ((unat (tq_cur s) + d) mod TDMASCHED_NUM_FRAMES))"
  by (simp add: due_def tdma_wf_def nth_rotate)

lemma wrap_due: "tdma_wf s \<Longrightarrow> due s ! (unat off mod TDMASCHED_NUM_FRAMES) = bucket_items (tq_bucket s ! wrap_bucket s off)"
  by (simp add: due_nth wrap_bucket_def mod_add_right_eq)

lemma mod_add_cancel: "d < n \<Longrightarrow> e < n \<Longrightarrow> (c + d) mod n = (c + e) mod n \<longleftrightarrow> d = (e :: nat)"
proof
  have *: "d = e" if "d \<le> e" "e < n" "(c + d) mod n = (c + e) mod n" for d e
    using mod_eq_dvd_iff_nat [of "c + d" "c + e" n] that by (auto dest: dvd_imp_le)
  assume "d < n" "e < n" "(c + d) mod n = (c + e) mod n"
  then show "d = e" using * [of d e] * [of e d] by (cases "d \<le> e") auto
qed simp

section \<open>The ring implements the agenda\<close>

lemma put_bucket_simps [simp]: "tq_cur (put_bucket nr b s) = tq_cur s" "wrap_bucket (put_bucket nr b s) = wrap_bucket s"
  by (simp_all add: put_bucket_def wrap_bucket_def fun_eq_iff)

lemma due_put:
  assumes "tdma_wf s"
  shows "due (put_bucket (wrap_bucket s off) b s) = (due s)[unat off mod TDMASCHED_NUM_FRAMES := bucket_items b]"
proof (rule nth_equalityI)
  let ?d = "unat off mod TDMASCHED_NUM_FRAMES" and ?nr = "wrap_bucket s off"
  have len: "length (tq_bucket s) = TDMASCHED_NUM_FRAMES" using assms by (simp add: tdma_wf_def)
  show "length (due (put_bucket ?nr b s)) = length ((due s)[?d := bucket_items b])"
    by (simp add: put_bucket_def)
  fix e assume "e < length (due (put_bucket ?nr b s))"
  then have e: "e < TDMASCHED_NUM_FRAMES" using len by (simp add: put_bucket_def)
  have "?nr = (unat (tq_cur s) + e) mod TDMASCHED_NUM_FRAMES \<longleftrightarrow> ?d = e"
    using mod_add_cancel [of ?d TDMASCHED_NUM_FRAMES e "unat (tq_cur s)"] e
    by (simp add: wrap_bucket_def mod_add_right_eq)
  then show "due (put_bucket ?nr b s) ! e = (due s)[?d := bucket_items b] ! e"
    using e len by (auto simp: due_def put_bucket_def nth_rotate nth_list_update)
qed

lemma bucket_items_add: "bucket_wf b \<Longrightarrow> unat (bk_num b) < TDMASCHED_NUM_CB \<Longrightarrow>
    bucket_items (bucket_add it b) = bucket_items b @ [core it]"
  by (simp add: bucket_items_def bucket_add_items)

lemma length_bucket_items: "bucket_wf b \<Longrightarrow> length (bucket_items b) = unat (bk_num b)"
  by (simp add: bucket_items_def bucket_wf_def)

lemma item_fields: "(it :: tdma_item)\<lparr>it_cb := c, it_p1 := p1, it_p2 := p2, it_p3 := p3, it_prio := prio, it_flags := f\<rparr> =
    \<lparr>it_cb = c, it_p1 = p1, it_p2 = p2, it_p3 = p3, it_prio = prio, it_flags = f\<rparr>"
  by (cases it) simp

abbreviation new_item :: "tdma_cb \<Rightarrow> u8 \<Rightarrow> u8 \<Rightarrow> u16 \<Rightarrow> 16 word \<Rightarrow> tdma_item" where
  "new_item cb p1 p2 p3 prio \<equiv> \<lparr>it_cb = Some cb, it_p1 = p1, it_p2 = p2, it_p3 = p3, it_prio = prio, it_flags = 0\<rparr>"

lemma schedule_refines:
  assumes "tdma_wf s"
  shows "\<exists>s'. tdma_schedule off cb p1 p2 p3 prio s =
      Some (if fst (ag_add (unat off) (new_item cb p1 p2 p3 prio) (due s)) then 0 else - 1, s') \<and>
      tdma_wf s' \<and> tq_cur s' = tq_cur s \<and> due s' = snd (ag_add (unat off) (new_item cb p1 p2 p3 prio) (due s))"
proof -
  let ?nr = "wrap_bucket s off"
  let ?b = "tq_bucket s ! ?nr"
  have b: "index_at (tq_bucket s) ?nr = Some ?b" "bucket_wf ?b" using tdma_wf_bucket [OF assms, of ?nr] by auto
  have len: "length (due s ! (unat off mod TDMASCHED_NUM_FRAMES)) = unat (bk_num ?b)"
    using b(2) by (simp add: wrap_due [OF assms] length_bucket_items)
  show ?thesis
  proof (cases "unat (bk_num ?b) < TDMASCHED_NUM_CB")
    case True
    then have "index_at (bk_item ?b) (unat (bk_num ?b)) = Some (bk_item ?b ! unat (bk_num ?b))"
      using b(2) by (simp add: bucket_wf_def index_at_def)
    then show ?thesis
      using True b assms len
      by (simp add: tdma_schedule_def ag_add_def due_put bucket_items_add tdma_wf_put bucket_wf_add
          wrap_due core_def Let_def item_fields)
  next
    case False
    then show ?thesis using b assms len by (simp add: tdma_schedule_def ag_add_def Let_def)
  qed
qed

lemma schedule_items_refines:
  "tdma_wf s \<Longrightarrow> set_closed items \<Longrightarrow>
   \<exists>rc s'. schedule_items off (wrap_bucket s off) j items p3 s = Some (rc, s') \<and> tdma_wf s' \<and> tq_cur s' = tq_cur s \<and>
     due s' = ag_add_set off items p3 (due s)"
proof (induction items arbitrary: off j s)
  case Nil
  then show ?case by (simp add: set_closed_def)
next
  case (Cons it rest)
  let ?nr = "wrap_bucket s off"
  let ?b = "tq_bucket s ! ?nr"
  let ?it = "it\<lparr>it_p3 := p3\<rparr>"
  have b: "index_at (tq_bucket s) ?nr = Some ?b" "bucket_wf ?b" using tdma_wf_bucket [OF Cons.prems(1), of ?nr] by auto
  have len: "length (due s ! (unat off mod TDMASCHED_NUM_FRAMES)) = unat (bk_num ?b)"
    using b(2) by (simp add: wrap_due [OF Cons.prems(1)] length_bucket_items)
  consider (stop) "it_cb it = Some Tdma_end_set" | (frame) "it_cb it = None"
    | (full) "it_cb it \<noteq> Some Tdma_end_set" "it_cb it \<noteq> None" "\<not> unat (bk_num ?b) < TDMASCHED_NUM_CB"
    | (room) "it_cb it \<noteq> Some Tdma_end_set" "it_cb it \<noteq> None" "unat (bk_num ?b) < TDMASCHED_NUM_CB" by blast
  then show ?case
  proof cases
    case stop
    then show ?thesis using Cons.prems by simp
  next
    case frame
    then show ?thesis using Cons.prems Cons.IH [of s "off + 1" "j + 1"] by (auto simp: set_closed_def)
  next
    case full
    then show ?thesis using b len Cons.prems by (auto simp: ag_add_def Let_def)
  next
    case room
    let ?s = "put_bucket ?nr (bucket_add ?it ?b) s"
    have wf: "tdma_wf ?s" using Cons.prems(1) b(2) room by (auto intro!: tdma_wf_put bucket_wf_add)
    have d: "due ?s = snd (ag_add (unat off) (core ?it) (due s))" "fst (ag_add (unat off) (core ?it) (due s))"
      using room(3) len b(2) Cons.prems(1) by (simp_all add: ag_add_def Let_def due_put bucket_items_add wrap_due)
    obtain rc s' where "schedule_items off (wrap_bucket ?s off) j rest p3 ?s = Some (rc, s')" "tdma_wf s'" "tq_cur s' = tq_cur s"
        "due s' = ag_add_set off rest p3 (due ?s)"
      using Cons.IH [OF wf, of off j] Cons.prems(2) room(1) by (auto simp: set_closed_def)
    then show ?thesis using room b d by (auto simp: Let_def split: prod.splits)
  qed
qed

lemma advance_refines: "tdma_wf s \<Longrightarrow> tdma_wf (tdma_sched_advance s) \<and> due (tdma_sched_advance s) = ag_advance (due s)"
proof -
  assume wf: "tdma_wf s"
  have cur: "unat (word_of_nat (wrap_bucket s 1) :: u8) = (unat (tq_cur s) + 1) mod TDMASCHED_NUM_FRAMES"
    by (simp add: wrap_bucket_def unat_of_nat)
  have "rotate ((unat (tq_cur s) + 1) mod TDMASCHED_NUM_FRAMES) (tq_bucket s) = rotate1 (rotate (unat (tq_cur s)) (tq_bucket s))"
    using wf rotate_conv_mod [of "unat (tq_cur s) + 1" "tq_bucket s"] by (simp add: tdma_wf_def)
  then show ?thesis using wf cur
    by (simp add: tdma_wf_def tdma_sched_advance_def due_def ag_advance_def rotate1_map)
qed

lemma reset_nth: "nr < length (tq_bucket s) \<Longrightarrow> tq_bucket (tdma_sched_reset s) ! nr =
    (if nr \<noteq> unat (tq_cur s) then (tq_bucket s ! nr)\<lparr>bk_num := 0\<rparr> else tq_bucket s ! nr)"
  by (simp add: tdma_sched_reset_def nth_enumerate_eq)

lemma reset_wf: "tdma_wf s \<Longrightarrow> tdma_wf (tdma_sched_reset s)"
proof -
  assume wf: "tdma_wf s"
  have "tq_cur (tdma_sched_reset s) = tq_cur s" "length (tq_bucket (tdma_sched_reset s)) = length (tq_bucket s)"
    by (simp_all add: tdma_sched_reset_def)
  then show ?thesis using wf by (auto simp: tdma_wf_def list_all_length reset_nth bucket_wf_empty)
qed

lemma reset_refines:
  assumes "tdma_wf s"
  shows "due (tdma_sched_reset s) = ag_reset (due s)"
proof (rule nth_equalityI)
  have len: "length (tq_bucket s) = TDMASCHED_NUM_FRAMES" and cur: "unat (tq_cur s) < TDMASCHED_NUM_FRAMES"
    using assms by (simp_all add: tdma_wf_def)
  have len': "length (tq_bucket (tdma_sched_reset s)) = TDMASCHED_NUM_FRAMES" using len by (simp add: tdma_sched_reset_def)
  then show "length (due (tdma_sched_reset s)) = length (ag_reset (due s))" by (simp add: ag_reset_def)
  fix d assume "d < length (due (tdma_sched_reset s))"
  then have d: "d < TDMASCHED_NUM_FRAMES" using len' by simp
  have "(unat (tq_cur s) + d) mod TDMASCHED_NUM_FRAMES = (unat (tq_cur s) + 0) mod TDMASCHED_NUM_FRAMES \<longleftrightarrow> d = 0"
    by (rule mod_add_cancel) (use d in simp_all)
  then have "(unat (tq_cur s) + d) mod TDMASCHED_NUM_FRAMES = unat (tq_cur s) \<longleftrightarrow> d = 0" using cur by simp
  moreover have "hd (due s) = due s ! 0" using len by (intro hd_conv_nth) (metis due_length list.size(3) zero_neq_numeral)
  ultimately show "due (tdma_sched_reset s) ! d = ag_reset (due s) ! d"
    using d len by (auto simp: due_nth [OF reset_wf [OF assms]] due_nth [OF assms] ag_reset_def nth_Cons' reset_nth
        tdma_sched_reset_def [of s, THEN arg_cong [of _ _ tq_cur]] bucket_items_def)
qed

fun ag_call :: "tdma_call \<Rightarrow> agenda \<Rightarrow> agenda" where
  "ag_call (Call_schedule off cb p1 p2 p3 prio) A = snd (ag_add (unat off) (new_item cb p1 p2 p3 prio) A)"
| "ag_call (Call_schedule_set off items p3) A = ag_add_set off items p3 A"
| "ag_call Call_reset A = ag_reset A"

lemma call_refines:
  assumes "tdma_wf s" "call_ok c"
  shows "\<exists>s'. tdma_do_call c s = Some s' \<and> tdma_wf s' \<and> tq_cur s' = tq_cur s \<and> due s' = ag_call c (due s)"
proof (cases c)
  case (Call_schedule off cb p1 p2 p3 prio)
  then show ?thesis
    using schedule_refines [OF assms(1), of off cb p1 p2 p3 prio] by auto
next
  case (Call_schedule_set off items p3)
  then show ?thesis
    using schedule_items_refines [OF assms(1), of items off 0 p3] assms(2) by (auto simp: tdma_schedule_set_def)
next
  case Call_reset
  moreover have "tq_cur (tdma_sched_reset s) = tq_cur s" by (simp add: tdma_sched_reset_def)
  ultimately show ?thesis using reset_wf [OF assms(1)] reset_refines [OF assms(1)] by simp
qed

text \<open>A call only appends to what is due in the current frame.\<close>

lemma ag_add_frame: "length A = TDMASCHED_NUM_FRAMES \<Longrightarrow> \<exists>ext. snd (ag_add d it A) ! 0 = A ! 0 @ ext"
  by (auto simp: ag_add_def Let_def nth_list_update)

lemma length_ag_add: "length (snd (ag_add d it A)) = length A"
  by (simp add: ag_add_def Let_def)

lemma ag_add_set_frame: "length A = TDMASCHED_NUM_FRAMES \<Longrightarrow> \<exists>ext. ag_add_set off items p3 A ! 0 = A ! 0 @ ext"
proof (induction off items p3 A rule: ag_add_set.induct)
  case (2 off it rest p3 A)
  obtain ok B where B: "ag_add (unat off) (core (it\<lparr>it_p3 := p3\<rparr>)) A = (ok, B)" by fastforce
  then obtain ext where l: "length B = TDMASCHED_NUM_FRAMES" "B ! 0 = A ! 0 @ ext"
    using length_ag_add [of "unat off" "core (it\<lparr>it_p3 := p3\<rparr>)" A] ag_add_frame [OF "2.prems", of "unat off" "core (it\<lparr>it_p3 := p3\<rparr>)"]
      "2.prems" by auto
  have "\<exists>ext'. ag_add_set off rest p3 B ! 0 = A ! 0 @ ext'" if "ok" "it_cb it \<noteq> None" "it_cb it \<noteq> Some Tdma_end_set"
    using "2.IH"(2) [of "(ok, B)" ok B] that B l by auto
  then show ?case using 2 B l by (auto simp: Let_def)
qed simp

lemma ag_call_frame: "length A = TDMASCHED_NUM_FRAMES \<Longrightarrow> \<exists>ext. ag_call c A ! 0 = A ! 0 @ ext"
proof (cases c)
  case Call_reset
  assume "length A = TDMASCHED_NUM_FRAMES"
  then have "hd A = A ! 0" by (intro hd_conv_nth) auto
  then show ?thesis using Call_reset by (simp add: ag_reset_def)
qed (auto simp: ag_add_frame ag_add_set_frame)

lemma calls_refine: "tdma_wf s \<Longrightarrow> list_all call_ok cs \<Longrightarrow>
    \<exists>s' ext. tdma_calls cs s = Some s' \<and> tdma_wf s' \<and> tq_cur s' = tq_cur s \<and> due s' = fold ag_call cs (due s) \<and>
      due s' ! 0 = due s ! 0 @ ext"
proof (induction cs arbitrary: s)
  case (Cons c cs)
  have len: "length (due s) = TDMASCHED_NUM_FRAMES" using Cons.prems(1) by (simp add: tdma_wf_def)
  obtain t ext where t: "tdma_do_call c s = Some t" "tdma_wf t" "tq_cur t = tq_cur s" "due t = ag_call c (due s)"
      "due t ! 0 = due s ! 0 @ ext"
    using call_refines [OF Cons.prems(1), of c] Cons.prems(2) ag_call_frame [OF len, of c] by auto
  then show ?case using Cons.IH [OF t(2)] Cons.prems(2) by fastforce
qed simp

section \<open>The sort\<close>

definition pr :: "tdma_item \<Rightarrow> int" where
  "pr it = sint (it_prio it)"

text \<open>What the passes keep: a permutation whose first \<open>k\<close> places are right.\<close>

definition placed :: "tdma_item list \<Rightarrow> nat \<Rightarrow> nat \<Rightarrow> nat list \<Rightarrow> bool" where
  "placed items n k seq \<longleftrightarrow> mset seq = mset [0..<TDMASCHED_NUM_CB] \<and> mset (take n seq) = mset [0..<n] \<and>
     drop n seq = [n..<TDMASCHED_NUM_CB] \<and>
     (\<forall>a b. a < k \<longrightarrow> a < b \<longrightarrow> b < n \<longrightarrow> pr (items ! (seq ! a)) \<le> pr (items ! (seq ! b)))"

lemma mset_take_swap: "i < n \<Longrightarrow> j < n \<Longrightarrow> n \<le> length xs \<Longrightarrow> mset (take n (xs[i := xs ! j, j := xs ! i])) = mset (take n xs)"
  using mset_swap [of j "take n xs" i] by (simp add: take_update_swap)

lemma sort_swap_placed:
  assumes "placed items n i seq" "i < j" "j < n" "n \<le> TDMASCHED_NUM_CB" "item_i = items ! (seq ! i)"
    and "\<forall>b. i < b \<and> b < j \<longrightarrow> pr (items ! (seq ! i)) \<le> pr (items ! (seq ! b))"
    and "sort_swap items i j (item_i, seq) = (item_i', seq')"
  shows "placed items n i seq' \<and> item_i' = items ! (seq' ! i) \<and>
    (\<forall>b. i < b \<and> b < j + 1 \<longrightarrow> pr (items ! (seq' ! i)) \<le> pr (items ! (seq' ! b)))"
proof -
  have len: "length seq = TDMASCHED_NUM_CB" using assms(1) by (metis placed_def size_mset length_upt diff_zero)
  show ?thesis
  proof (cases "pr item_i > pr (items ! (seq ! j))")
    case False
    then have "item_i' = item_i" "seq' = seq" using assms(7) by (simp_all add: sort_swap_def pr_def Let_def)
    then show ?thesis using assms False by (auto simp: less_Suc_eq)
  next
    case True
    let ?t = "seq[i := seq ! j, j := seq ! i]"
    have s: "item_i' = items ! (seq ! j)" "seq' = ?t" using assms(7) True by (simp_all add: sort_swap_def pr_def Let_def)
    have "mset ?t = mset seq" using mset_swap [of j seq i] assms(2-4) len by simp
    moreover have "mset (take n ?t) = mset (take n seq)" using mset_take_swap [of i n j seq] assms(2-4) len by simp
    moreover have "drop n ?t = drop n seq" using assms(2,3) by (simp add: drop_update_cancel)
    moreover have "pr (items ! (?t ! a)) \<le> pr (items ! (?t ! b))" if "a < i" "a < b" "b < n" for a b
      using assms(1-4) that len unfolding placed_def by (auto simp: nth_list_update)
    ultimately have "placed items n i ?t" using assms(1) by (auto simp: placed_def)
    then show ?thesis using s assms(2-6) True len by (auto simp: nth_list_update less_Suc_eq)
  qed
qed

lemma sort_pass_placed:
  assumes "placed items n i seq" "i < n" "n \<le> TDMASCHED_NUM_CB"
  shows "placed items n (Suc i) (sort_pass items n i seq)"
proof -
  have "placed items n i (snd st) \<and> fst st = items ! (snd st ! i) \<and>
      (\<forall>b. i < b \<and> b < m \<longrightarrow> pr (items ! (snd st ! i)) \<le> pr (items ! (snd st ! b)))"
    if "st = fold (sort_swap items i) [i + 1..<m] (items ! (seq ! i), seq)" "i < m" "m \<le> n" for m st
    using that
  proof (induction m arbitrary: st)
    case (Suc m)
    show ?case
    proof (cases "i < m")
      case True
      let ?st = "fold (sort_swap items i) [i + 1..<m] (items ! (seq ! i), seq)"
      obtain item_i t where t: "?st = (item_i, t)" by fastforce
      have "st = sort_swap items i m (item_i, t)" using Suc.prems(1) True t by simp
      then show ?thesis
        using sort_swap_placed [of items n i t m item_i "fst st" "snd st"] Suc.IH [OF refl True] Suc.prems(3) True t assms(3)
        by auto
    next
      case False
      then have "m = i" using Suc.prems(2) by simp
      then show ?thesis using Suc.prems(1) assms(1) by simp
    qed
  qed simp
  from this [OF refl assms(2) le_refl]
  show ?thesis by (auto simp: placed_def sort_pass_def less_Suc_eq)
qed

lemma bucket_sort_placed:
  assumes "bucket_wf b"
  shows "\<exists>seq. tdma_sched_bucket_sort b = Some seq \<and> placed (bk_item b) (unat (bk_num b)) (unat (bk_num b)) seq"
proof -
  have n: "unat (bk_num b) \<le> TDMASCHED_NUM_CB" "length (bk_item b) = TDMASCHED_NUM_CB"
    using assms by (auto simp: bucket_wf_def)
  have "k \<le> unat (bk_num b) \<Longrightarrow> placed (bk_item b) (unat (bk_num b)) k
      (fold (sort_pass (bk_item b) (unat (bk_num b))) [0..<k] [0..<TDMASCHED_NUM_CB])" for k
  proof (induction k)
    case 0
    have "take (unat (bk_num b)) [0..<TDMASCHED_NUM_CB] = [0..<unat (bk_num b)]" using n(1) by (simp add: take_upt)
    then show ?case by (simp add: placed_def)
  next
    case (Suc k)
    then show ?case using n(1) sort_pass_placed [of "bk_item b" "unat (bk_num b)" k] by simp
  qed
  then show ?thesis using n by (simp add: tdma_sched_bucket_sort_def Let_def)
qed

lemma placed_length: "placed items n k seq \<Longrightarrow> length seq = TDMASCHED_NUM_CB"
  by (metis placed_def size_mset length_upt diff_zero)

lemma placed_items:
  assumes "placed items n n seq" "n \<le> length items" "n \<le> TDMASCHED_NUM_CB"
  shows "mset (map ((!) items) (take n seq)) = mset (take n items)"
    and "sorted (map pr (map ((!) items) (take n seq)))"
proof -
  have "mset (map ((!) items) (take n seq)) = image_mset ((!) items) (mset [0..<n])"
    using assms(1) unfolding placed_def by (metis mset_map)
  also have "\<dots> = mset (map ((!) items) [0..<n])" by simp
  also have "map ((!) items) [0..<n] = take n items"
    using assms(2) by (intro nth_equalityI) auto
  finally show "mset (map ((!) items) (take n seq)) = mset (take n items)" .
  show "sorted (map pr (map ((!) items) (take n seq)))"
    using assms placed_length [OF assms(1)] by (auto simp: sorted_iff_nth_mono_less placed_def)
qed

section \<open>A frame is run in bounded time\<close>

lemma placed_index:
  assumes "placed items n k seq" "n \<le> m" "i < m" "m \<le> TDMASCHED_NUM_CB"
  shows "seq ! i < m"
proof (cases "i < n")
  case True
  have "set (take n seq) = set [0..<n]" using assms(1) by (metis placed_def set_mset_mset)
  moreover have "seq ! i \<in> set (take n seq)" using True assms placed_length [OF assms(1)]
    by (metis in_set_conv_nth length_take min.absorb2 nth_take le_trans)
  ultimately show ?thesis using assms(2) by auto
next
  case False
  then have "seq ! i = drop n seq ! (i - n)" using assms placed_length [OF assms(1)] by simp
  also have "\<dots> = i" using assms False by (simp add: placed_def)
  finally show ?thesis using assms(3) by simp
qed

lemma due_0: "tdma_wf s \<Longrightarrow> due s ! 0 = bucket_items (tq_bucket s ! unat (tq_cur s))"
  using due_nth [of s 0] by (simp add: tdma_wf_def)

lemma due_clear:
  "tdma_wf s \<Longrightarrow> b = tq_bucket s ! unat (tq_cur s) \<Longrightarrow>
   tdma_wf (put_bucket (unat (tq_cur s)) (b\<lparr>bk_num := 0\<rparr>) s) \<and> due (put_bucket (unat (tq_cur s)) (b\<lparr>bk_num := 0\<rparr>) s) = ag_execute (due s)"
  using due_put [of s 0 "b\<lparr>bk_num := 0\<rparr>"] tdma_wf_bucket [of s "unat (tq_cur s)"] tdma_wf_put [of s "b\<lparr>bk_num := 0\<rparr>"]
    bucket_wf_empty [of b]
  by (simp add: wrap_bucket_def ag_execute_def bucket_items_def) (simp add: tdma_wf_def)

definition run_ok :: "'w tdma_run \<Rightarrow> bool" where
  "run_ok run \<longleftrightarrow> (\<forall>it w. list_all call_ok (fst (snd (run it w))))"

lemma exec_items_returns:
  assumes run: "run_ok run" and seq: "placed items n k seq"
  shows "tdma_wf s \<Longrightarrow> n \<le> length (due s ! 0) \<Longrightarrow> i \<le> TDMASCHED_NUM_CB \<Longrightarrow>
    \<exists>rc w' s'. exec_items run (unat (tq_cur s)) seq i m w s = Some (rc, w', s') \<and> tdma_wf s' \<and>
      tq_cur s' = tq_cur s \<and> rc \<le> max (m + int (TDMASCHED_NUM_CB - i)) 0 \<and> (0 \<le> rc \<longrightarrow> due s' ! 0 = [])"
proof (induction "TDMASCHED_NUM_CB - i" arbitrary: i m w s)
  case (0 i m w s)
  let ?b = "tq_bucket s ! unat (tq_cur s)"
  have b: "index_at (tq_bucket s) (unat (tq_cur s)) = Some ?b" "bucket_wf ?b"
    using tdma_wf_bucket [of s "unat (tq_cur s)"] 0 by (auto simp: tdma_wf_def)
  then have "\<not> i < unat (bk_num ?b)" using 0 by (simp add: bucket_wf_def)
  then show ?case using b due_clear [OF 0(2) refl] 0 by (simp add: exec_items.simps ag_execute_def tdma_wf_def)
next
  case (Suc x i m w s)
  let ?b = "tq_bucket s ! unat (tq_cur s)"
  have b: "index_at (tq_bucket s) (unat (tq_cur s)) = Some ?b" "bucket_wf ?b"
    using tdma_wf_bucket [of s "unat (tq_cur s)"] Suc.prems by (auto simp: tdma_wf_def)
  show ?case
  proof (cases "i < unat (bk_num ?b)")
    case False
    then show ?thesis using b due_clear [OF Suc.prems(1) refl] Suc.prems by (simp add: exec_items.simps ag_execute_def tdma_wf_def)
  next
    case True
    have num: "unat (bk_num ?b) \<le> TDMASCHED_NUM_CB" "n \<le> unat (bk_num ?b)"
      using b Suc.prems by (auto simp: bucket_wf_def due_0 length_bucket_items)
    then have q: "seq ! i < unat (bk_num ?b)" "i < length seq"
      using placed_index [OF seq, of "unat (bk_num ?b)" i] True placed_length [OF seq] by auto
    let ?it = "bk_item ?b ! (seq ! i)"
    have it: "index_at (bk_item ?b) (seq ! i) = Some ?it" "it_cb ?it \<noteq> None"
      using q b(2) num by (auto simp: bucket_wf_def index_at_def list_all_length)
    obtain rc cs w1 where r: "run ?it w = (rc, cs, w1)" by (metis prod_cases3)
    have "list_all call_ok cs" using run r by (metis run_ok_def fst_conv snd_conv)
    from calls_refine [OF Suc.prems(1) this] obtain t ext where t: "tdma_calls cs s = Some t" "tdma_wf t" "tq_cur t = tq_cur s"
        "due t ! 0 = due s ! 0 @ ext" by blast
    show ?thesis
    proof (cases "rc < 0")
      case True
      then show ?thesis using b it q r t \<open>i < unat (bk_num ?b)\<close> by (simp add: exec_items.simps)
    next
      case False
      have "x = TDMASCHED_NUM_CB - (i + 1)" "n \<le> length (due t ! 0)" "i + 1 \<le> TDMASCHED_NUM_CB"
        using Suc.hyps(2) Suc.prems t by simp_all
      from Suc.hyps(1) [OF this(1) t(2) this(2,3), of "m + 1" w1]
      obtain rc' w' s' where "exec_items run (unat (tq_cur s)) seq (i + 1) (m + 1) w1 t = Some (rc', w', s')" "tdma_wf s'"
          "tq_cur s' = tq_cur s" "rc' \<le> max (m + 1 + int (TDMASCHED_NUM_CB - (i + 1))) 0" "0 \<le> rc' \<longrightarrow> due s' ! 0 = []"
        by (metis t(3))
      moreover have "m + 1 + int (TDMASCHED_NUM_CB - (i + 1)) = m + int (TDMASCHED_NUM_CB - i)"
        using \<open>i + 1 \<le> TDMASCHED_NUM_CB\<close> by simp
      ultimately show ?thesis using b it q r t True False by (simp add: exec_items.simps [of run _ seq i])
    qed
  qed
qed

lemma execute_returns:
  assumes "tdma_wf s" and "run_ok run"
  shows "\<exists>rc w' s'. tdma_sched_execute run w s = Some (rc, w', s') \<and> tdma_wf s' \<and> tq_cur s' = tq_cur s \<and>
     rc \<le> int TDMASCHED_NUM_CB \<and> (0 \<le> rc \<longrightarrow> due s' ! 0 = [])"
proof -
  let ?b = "tq_bucket s ! unat (tq_cur s)"
  have b: "index_at (tq_bucket s) (unat (tq_cur s)) = Some ?b" "bucket_wf ?b"
    using tdma_wf_bucket [of s "unat (tq_cur s)"] assms(1) by (auto simp: tdma_wf_def)
  obtain seq where seq: "tdma_sched_bucket_sort ?b = Some seq" "placed (bk_item ?b) (unat (bk_num ?b)) (unat (bk_num ?b)) seq"
    using bucket_sort_placed [OF b(2)] by blast
  have "unat (bk_num ?b) \<le> length (due s ! 0)" using b(2) by (simp add: due_0 [OF assms(1)] length_bucket_items)
  from exec_items_returns [OF assms(2) seq(2) assms(1) this, of 0 0 w] show ?thesis
    using b(1) seq(1) by (simp add: tdma_sched_execute_def)
qed

section \<open>What a frame runs\<close>

text \<open>Callbacks that leave the scheduler alone and succeed; the rest of the firmware is the log of what ran.\<close>

definition log_run :: "tdma_item list tdma_run" where
  "log_run it w = (0, [], w @ [core it])"

lemma exec_items_log:
  assumes wf: "tdma_wf s" and b: "b = tq_bucket s ! unat (tq_cur s)"
    and seq: "placed (bk_item b) (unat (bk_num b)) (unat (bk_num b)) seq"
  shows "i \<le> unat (bk_num b) \<Longrightarrow> exec_items log_run (unat (tq_cur s)) seq i m w s =
    Some (m + int (unat (bk_num b) - i),
          w @ drop i (map core (map ((!) (bk_item b)) (take (unat (bk_num b)) seq))),
          put_bucket (unat (tq_cur s)) (b\<lparr>bk_num := 0\<rparr>) s)"
proof (induction "unat (bk_num b) - i" arbitrary: i m w)
  case 0
  have "index_at (tq_bucket s) (unat (tq_cur s)) = Some b"
    using tdma_wf_bucket [OF wf, of "unat (tq_cur s)"] wf b by (auto simp: tdma_wf_def)
  then show ?case using 0 by (simp add: exec_items.simps)
next
  case (Suc x)
  have bk: "index_at (tq_bucket s) (unat (tq_cur s)) = Some b" "bucket_wf b"
    using tdma_wf_bucket [OF wf, of "unat (tq_cur s)"] wf b by (auto simp: tdma_wf_def)
  have i: "i < unat (bk_num b)" using Suc.hyps(2) by simp
  have num: "unat (bk_num b) \<le> TDMASCHED_NUM_CB" using bk(2) by (simp add: bucket_wf_def)
  have q: "seq ! i < unat (bk_num b)" "i < length seq"
    using placed_index [OF seq, of "unat (bk_num b)" i] i num placed_length [OF seq] by auto
  have it: "index_at (bk_item b) (seq ! i) = Some (bk_item b ! (seq ! i))" "it_cb (bk_item b ! (seq ! i)) \<noteq> None"
    using q bk(2) num by (auto simp: bucket_wf_def index_at_def list_all_length)
  let ?l = "map core (map ((!) (bk_item b)) (take (unat (bk_num b)) seq))"
  have "i < length ?l" "?l ! i = core (bk_item b ! (seq ! i))" using i q num placed_length [OF seq] by simp_all
  then have "drop i ?l = core (bk_item b ! (seq ! i)) # drop (i + 1) ?l" using Cons_nth_drop_Suc [of i ?l] by simp
  moreover have "m + 1 + int (unat (bk_num b) - (i + 1)) = m + int (unat (bk_num b) - i)" using i by simp
  ultimately show ?case
    using Suc.hyps(1) [of "i + 1" "m + 1" "w @ [core (bk_item b ! (seq ! i))]"] Suc.hyps(2) bk(1) it i q(2)
    by (simp add: exec_items.simps [of log_run _ seq i] log_run_def)
qed

lemma execute_log:
  assumes "tdma_wf s"
  shows "\<exists>l s'. tdma_sched_execute log_run w s = Some (int (length l), w @ l, s') \<and> tdma_wf s' \<and>
     due s' = ag_execute (due s) \<and> mset l = mset (due s ! 0) \<and> sorted (map pr l)"
proof -
  let ?b = "tq_bucket s ! unat (tq_cur s)"
  let ?n = "unat (bk_num ?b)"
  have b: "index_at (tq_bucket s) (unat (tq_cur s)) = Some ?b" "bucket_wf ?b"
    using tdma_wf_bucket [of s "unat (tq_cur s)"] assms by (auto simp: tdma_wf_def)
  have n: "?n \<le> length (bk_item ?b)" "?n \<le> TDMASCHED_NUM_CB" using b(2) by (simp_all add: bucket_wf_def)
  obtain seq where seq: "tdma_sched_bucket_sort ?b = Some seq" "placed (bk_item ?b) ?n ?n seq"
    using bucket_sort_placed [OF b(2)] by blast
  let ?l = "map core (map ((!) (bk_item ?b)) (take ?n seq))"
  have "mset ?l = mset (due s ! 0)" unfolding due_0 [OF assms] bucket_items_def
    by (metis mset_map placed_items(1) [OF seq(2) n])
  moreover have "map pr ?l = map pr (map ((!) (bk_item ?b)) (take ?n seq))" by (simp add: pr_def core_def)
  then have "sorted (map pr ?l)" using placed_items(2) [OF seq(2) n] by (simp only:)
  moreover have "length ?l = ?n" using placed_length [OF seq(2)] n by simp
  ultimately show ?thesis
    using exec_items_log [OF assms refl seq(2), of 0 0 w] due_clear [OF assms refl] b(1) seq(1)
    by (auto simp: tdma_sched_execute_def)
qed

section \<open>Refinement\<close>

datatype tdma_op = Op_call tdma_call | Op_execute | Op_advance

fun op_ok :: "tdma_op \<Rightarrow> bool" where
  "op_ok (Op_call c) = call_ok c"
| "op_ok _ = True"

text \<open>A run of the ring, and of the agenda, with what each execution ran.\<close>

fun tdma_ops :: "tdma_op list \<Rightarrow> tdma_scheduler \<Rightarrow> (tdma_item list list \<times> tdma_scheduler) option" where
  "tdma_ops [] s = Some ([], s)"
| "tdma_ops (Op_call c # ops) s = do { s \<leftarrow> tdma_do_call c s; tdma_ops ops s }"
| "tdma_ops (Op_execute # ops) s = do {
     (_, l, s) \<leftarrow> tdma_sched_execute log_run [] s;
     (ls, s) \<leftarrow> tdma_ops ops s;
     Some (l # ls, s) }"
| "tdma_ops (Op_advance # ops) s = tdma_ops ops (tdma_sched_advance s)"

fun ag_ops :: "tdma_op list \<Rightarrow> agenda \<Rightarrow> tdma_item list list \<times> agenda" where
  "ag_ops [] A = ([], A)"
| "ag_ops (Op_call c # ops) A = ag_ops ops (ag_call c A)"
| "ag_ops (Op_execute # ops) A = (let (ls, B) = ag_ops ops (ag_execute A) in (A ! 0 # ls, B))"
| "ag_ops (Op_advance # ops) A = ag_ops ops (ag_advance A)"

definition by_priority :: "tdma_item list \<Rightarrow> tdma_item list \<Rightarrow> bool" where
  "by_priority l due_items \<longleftrightarrow> mset l = mset due_items \<and> sorted (map pr l)"

lemma tdma_ops_refine:
  "tdma_wf s \<Longrightarrow> list_all op_ok ops \<Longrightarrow>
   \<exists>ls s'. tdma_ops ops s = Some (ls, s') \<and> tdma_wf s' \<and> due s' = snd (ag_ops ops (due s)) \<and>
     list_all2 by_priority ls (fst (ag_ops ops (due s)))"
proof (induction ops arbitrary: s)
  case (Cons x ops)
  show ?case
  proof (cases x)
    case (Op_call c)
    obtain t where "tdma_do_call c s = Some t" "tdma_wf t" "due t = ag_call c (due s)"
      using call_refines [OF Cons.prems(1), of c] Cons.prems(2) Op_call by auto
    then show ?thesis using Cons.IH [of t] Cons.prems(2) Op_call by auto
  next
    case Op_execute
    obtain l t where t: "tdma_sched_execute log_run [] s = Some (int (length l), l, t)" "tdma_wf t" "due t = ag_execute (due s)"
        "by_priority l (due s ! 0)"
      using execute_log [OF Cons.prems(1), of "[]"] by (auto simp: by_priority_def)
    obtain ls s' where "tdma_ops ops t = Some (ls, s')" "tdma_wf s'" "due s' = snd (ag_ops ops (due t))"
        "list_all2 by_priority ls (fst (ag_ops ops (due t)))"
      using Cons.IH [OF t(2)] Cons.prems(2) by auto
    then show ?thesis using t Op_execute by (auto simp: split: prod.splits)
  next
    case Op_advance
    then show ?thesis using Cons.IH [of "tdma_sched_advance s"] advance_refines [OF Cons.prems(1)] Cons.prems(2) by simp
  qed
qed simp

lemma tdma_wf_zero: "tdma_wf tdma_zero" "due tdma_zero = replicate TDMASCHED_NUM_FRAMES []"
  by (simp_all add: tdma_wf_def tdma_zero_def bucket_wf_def due_def bucket_items_def list_all_iff)

text \<open>C17. The ring of the firmware implements an agenda of 25 frames: from power-on, whatever is scheduled, reset,
  advanced and executed, no access leaves an array, what is due in each coming frame is what the agenda
  says (up to eight items a frame, a set cut off at the first frame that is full), and each execution
  runs exactly the items due, in the order of their priorities.\<close>

theorem tdma_refines_agenda:
  assumes "list_all op_ok ops"
  shows "\<exists>ls s'. tdma_ops ops tdma_zero = Some (ls, s') \<and>
     due s' = snd (ag_ops ops (replicate TDMASCHED_NUM_FRAMES [])) \<and>
     list_all2 by_priority ls (fst (ag_ops ops (replicate TDMASCHED_NUM_FRAMES [])))"
  using tdma_ops_refine [OF tdma_wf_zero(1) assms] unfolding tdma_wf_zero(2) by blast

text \<open>The sets for a power measurement and for an access burst, one frame and two frames ahead, and the frames until then.\<close>

definition demo_set :: "tdma_cb \<Rightarrow> 16 word \<Rightarrow> tdma_cb \<Rightarrow> tdma_item list" where
  "demo_set cmd prio resp =
     [\<lparr>it_cb = Some cmd, it_p1 = 1, it_p2 = 0, it_p3 = 0, it_prio = prio, it_flags = 3\<rparr>,
      \<lparr>it_cb = None, it_p1 = 0, it_p2 = 0, it_p3 = 0, it_prio = 0, it_flags = 0\<rparr>,
      \<lparr>it_cb = None, it_p1 = 0, it_p2 = 0, it_p3 = 0, it_prio = 0, it_flags = 0\<rparr>,
      \<lparr>it_cb = Some resp, it_p1 = 1, it_p2 = 0, it_p3 = 0, it_prio = - 4, it_flags = 0\<rparr>,
      \<lparr>it_cb = None, it_p1 = 0, it_p2 = 0, it_p3 = 0, it_prio = 0, it_flags = 0\<rparr>,
      \<lparr>it_cb = Some Tdma_end_set, it_p1 = 0, it_p2 = 0, it_p3 = 0, it_prio = 0, it_flags = 0\<rparr>]"

definition demo_ops :: "tdma_op list" where
  "demo_ops = [Op_call (Call_schedule_set 1 (demo_set L1s_pm_cmd 0 L1s_pm_resp) 20),
     Op_call (Call_schedule_set 3 (demo_set L1s_tx_rach_cmd 3 L1s_tx_rach_resp) 0),
     Op_advance, Op_execute, Op_advance, Op_execute, Op_advance, Op_execute]"

theorem tdma_refines_agenda_witness:
  "\<exists>ls s'. tdma_ops demo_ops tdma_zero = Some (ls, s') \<and>
     due s' = snd (ag_ops demo_ops (replicate TDMASCHED_NUM_FRAMES [])) \<and>
     list_all2 by_priority ls (fst (ag_ops demo_ops (replicate TDMASCHED_NUM_FRAMES [])))"
  by (rule tdma_refines_agenda) (simp add: demo_ops_def demo_set_def set_closed_def)

text \<open>C28. Running a frame ends whatever its callbacks do, also when they keep scheduling for the frame
  that runs: every access is in bounds, a frame that succeeds has run at most eight callbacks, and after
  success nothing is left in it.\<close>

theorem tdma_frame_terminates:
  assumes "tdma_wf s" and "run_ok run"
  shows "\<exists>rc w' s'. tdma_sched_execute run w s = Some (rc, w', s') \<and> tdma_wf s' \<and>
     rc \<le> int TDMASCHED_NUM_CB \<and> (0 \<le> rc \<longrightarrow> due s' ! 0 = [])"
  using execute_returns [OF assms] by blast

text \<open>A callback that schedules itself again for the same frame, and counts its calls.\<close>

definition greedy_run :: "nat tdma_run" where
  "greedy_run it w = (0, [Call_schedule 0 L1s_abort_cmd 0 0 0 10], w + 1)"

definition greedy :: tdma_scheduler where
  "greedy = snd (the (tdma_schedule 0 L1s_abort_cmd 0 0 0 10 tdma_zero))"

lemma greedy_wf: "tdma_wf greedy"
  using schedule_refines [OF tdma_wf_zero(1), of 0 L1s_abort_cmd 0 0 0 10] by (auto simp: greedy_def)

theorem tdma_frame_terminates_witness:
  "\<exists>rc w' s'. tdma_sched_execute greedy_run 0 greedy = Some (rc, w', s') \<and> tdma_wf s' \<and>
     rc \<le> int TDMASCHED_NUM_CB \<and> (0 \<le> rc \<longrightarrow> due s' ! 0 = [])"
  by (rule tdma_frame_terminates [OF greedy_wf]) (simp add: run_ok_def greedy_run_def)

end
