(* ===== verification/Fw_Mframe.thy ===== *)
theory Fw_Mframe
  imports Fw_Tdma Sched_Mframe
begin

text \<open>
  The multiframe scheduler of the firmware (\<^verbatim>\<open>src/src/target/firmware/layer1/mframe_sched.c\<close>) with the
  sets of TDMA items it schedules (\<^verbatim>\<open>prim_rx_nb.c\<close>, \<^verbatim>\<open>prim_tx_nb.c\<close>, \<^verbatim>\<open>prim_tch.c\<close>, \<^verbatim>\<open>prim_pm.c\<close>) and
  the choice of tasks for a channel number (\<^verbatim>\<open>l23_api.c\<close>): which task has its bursts in which
  frames, when a change of the tasks takes effect, and that the tables are the ones of the
  scheduler of trxcon.
\<close>

section \<open>Sets of TDMA items\<close>

definition SCHED_ITEM :: "tdma_cb \<Rightarrow> 16 word \<Rightarrow> u8 \<Rightarrow> u8 \<Rightarrow> tdma_item" where
  "SCHED_ITEM x p y z = \<lparr>it_cb = Some x, it_p1 = y, it_p2 = z, it_p3 = 0, it_prio = p, it_flags = 0\<rparr>"

definition SCHED_ITEM_DT :: "tdma_cb \<Rightarrow> 16 word \<Rightarrow> u8 \<Rightarrow> u8 \<Rightarrow> tdma_item" where
  "SCHED_ITEM_DT x p y z = \<lparr>it_cb = Some x, it_p1 = y, it_p2 = z, it_p3 = 0, it_prio = p, it_flags = 3\<rparr>"

definition SCHED_END_FRAME :: tdma_item where
  "SCHED_END_FRAME = \<lparr>it_cb = None, it_p1 = 0, it_p2 = 0, it_p3 = 0, it_prio = 0, it_flags = 0\<rparr>"

definition SCHED_END_SET :: tdma_item where
  "SCHED_END_SET = \<lparr>it_cb = Some Tdma_end_set, it_p1 = 0, it_p2 = 0, it_p3 = 0, it_prio = 0, it_flags = 0\<rparr>"

definition nb_sched_set :: "tdma_item list" where
  "nb_sched_set = [
     SCHED_ITEM_DT L1s_nb_cmd 0 0 0, SCHED_END_FRAME,
     SCHED_ITEM_DT L1s_nb_cmd 0 0 1, SCHED_END_FRAME,
     SCHED_ITEM L1s_nb_resp (- 4) 0 0, SCHED_ITEM_DT L1s_nb_cmd 0 0 2, SCHED_END_FRAME,
     SCHED_ITEM L1s_nb_resp (- 4) 0 1, SCHED_ITEM_DT L1s_nb_cmd 0 0 3, SCHED_END_FRAME,
     SCHED_ITEM L1s_nb_resp (- 4) 0 2, SCHED_END_FRAME,
     SCHED_ITEM L1s_nb_resp (- 4) 0 3, SCHED_END_FRAME,
     SCHED_END_SET]"

definition nb_sched_set_ul :: "tdma_item list" where
  "nb_sched_set_ul = [
     SCHED_ITEM_DT L1s_tx_cmd 3 2 0, SCHED_END_FRAME,
     SCHED_ITEM_DT L1s_tx_cmd 3 2 1, SCHED_END_FRAME,
     SCHED_ITEM L1s_tx_resp (- 4) 2 0, SCHED_ITEM_DT L1s_tx_cmd 3 2 2, SCHED_END_FRAME,
     SCHED_ITEM L1s_tx_resp (- 4) 2 1, SCHED_ITEM_DT L1s_tx_cmd 3 2 3, SCHED_END_FRAME,
     SCHED_ITEM L1s_tx_resp (- 4) 2 2, SCHED_END_FRAME,
     SCHED_ITEM L1s_tx_resp (- 4) 2 3, SCHED_END_FRAME,
     SCHED_END_SET]"

text \<open>The three sets of the traffic channels give \<open>- 4\<close>, meant as the priority of the response, as its second parameter.\<close>

definition tch_sched_set :: "tdma_item list" where
  "tch_sched_set = [
     SCHED_ITEM_DT L1s_tch_cmd 0 0 0, SCHED_END_FRAME,
     SCHED_END_FRAME,
     SCHED_ITEM L1s_tch_resp 0 0 (- 4), SCHED_END_FRAME,
     SCHED_END_SET]"

definition tch_d_sched_set :: "tdma_item list" where
  "tch_d_sched_set = [
     SCHED_ITEM_DT L1s_tch_d_cmd 0 0 0, SCHED_END_FRAME,
     SCHED_END_FRAME,
     SCHED_ITEM L1s_tch_d_resp 0 0 (- 4), SCHED_END_FRAME,
     SCHED_END_SET]"

definition tch_a_sched_set :: "tdma_item list" where
  "tch_a_sched_set = [
     SCHED_ITEM_DT L1s_tch_a_cmd 0 0 0, SCHED_END_FRAME,
     SCHED_END_FRAME,
     SCHED_ITEM L1s_tch_a_resp 0 0 (- 4), SCHED_END_FRAME,
     SCHED_END_SET]"

definition neigh_pm_sched_set :: "tdma_item list" where
  "neigh_pm_sched_set = [
     SCHED_ITEM_DT L1s_neigh_pm_cmd 0 1 0, SCHED_END_FRAME,
     SCHED_END_FRAME,
     SCHED_ITEM L1s_neigh_pm_resp (- 4) 1 0, SCHED_END_FRAME,
     SCHED_END_SET]"

text \<open>The pointers to them, by the names of the tables below.\<close>

datatype mf_set = NB_QUAD_DL | NB_QUAD_UL | NEIGH_PM | MF_TCH | MF_TCH_A | MF_TCH_D

abbreviation (input) NB_QUAD_FH_DL :: mf_set where "NB_QUAD_FH_DL \<equiv> NB_QUAD_DL"
abbreviation (input) NB_QUAD_FH_UL :: mf_set where "NB_QUAD_FH_UL \<equiv> NB_QUAD_UL"

fun mf_set_items :: "mf_set \<Rightarrow> tdma_item list" where
  "mf_set_items NB_QUAD_DL = nb_sched_set"
| "mf_set_items NB_QUAD_UL = nb_sched_set_ul"
| "mf_set_items NEIGH_PM = neigh_pm_sched_set"
| "mf_set_items MF_TCH = tch_sched_set"
| "mf_set_items MF_TCH_A = tch_a_sched_set"
| "mf_set_items MF_TCH_D = tch_d_sched_set"

section \<open>Tasks and their tables\<close>

datatype mframe_task =
    MF_TASK_BCCH_NORM | MF_TASK_BCCH_EXT | MF_TASK_CCCH | MF_TASK_CCCH_COMB
  | MF_TASK_SDCCH4_0 | MF_TASK_SDCCH4_1 | MF_TASK_SDCCH4_2 | MF_TASK_SDCCH4_3
  | MF_TASK_SDCCH8_0 | MF_TASK_SDCCH8_1 | MF_TASK_SDCCH8_2 | MF_TASK_SDCCH8_3
  | MF_TASK_SDCCH8_4 | MF_TASK_SDCCH8_5 | MF_TASK_SDCCH8_6 | MF_TASK_SDCCH8_7
  | MF_TASK_SDCCH4_CBCH | MF_TASK_SDCCH8_CBCH | MF_TASK_TCH_F_EVEN | MF_TASK_TCH_F_ODD
  | MF_TASK_TCH_H_0 | MF_TASK_TCH_H_1 | MF_TASK_GPRS_PDTCH | MF_TASK_GPRS_PTCCH
  | MF_TASK_NEIGH_PM51_C0T0 | MF_TASK_NEIGH_PM51 | MF_TASK_NEIGH_PM26E | MF_TASK_NEIGH_PM26O
  | MF_TASK_UL_ALL_NB

definition mf_tasks :: "mframe_task list" where
  "mf_tasks = [MF_TASK_BCCH_NORM, MF_TASK_BCCH_EXT, MF_TASK_CCCH, MF_TASK_CCCH_COMB, MF_TASK_SDCCH4_0, MF_TASK_SDCCH4_1, MF_TASK_SDCCH4_2, MF_TASK_SDCCH4_3, MF_TASK_SDCCH8_0, MF_TASK_SDCCH8_1, MF_TASK_SDCCH8_2, MF_TASK_SDCCH8_3, MF_TASK_SDCCH8_4, MF_TASK_SDCCH8_5, MF_TASK_SDCCH8_6, MF_TASK_SDCCH8_7, MF_TASK_SDCCH4_CBCH, MF_TASK_SDCCH8_CBCH, MF_TASK_TCH_F_EVEN, MF_TASK_TCH_F_ODD, MF_TASK_TCH_H_0, MF_TASK_TCH_H_1, MF_TASK_GPRS_PDTCH, MF_TASK_GPRS_PTCCH, MF_TASK_NEIGH_PM51_C0T0, MF_TASK_NEIGH_PM51, MF_TASK_NEIGH_PM26E, MF_TASK_NEIGH_PM26O, MF_TASK_UL_ALL_NB]"


text \<open>The number of a task is its place in the enumeration.\<close>

definition mf_task_nr :: "mframe_task \<Rightarrow> nat" where
  "mf_task_nr t = length (takeWhile (\<lambda>u. u \<noteq> t) mf_tasks)"

abbreviation (input) MF_F_SACCH :: u16 where "MF_F_SACCH \<equiv> 1"

datatype mframe_sched_item = MF_Item (mi_set: mf_set) (mi_modulo: nat) (mi_frame_nr: nat) (mi_flags: u16)

text \<open>The tables, without their closing entry.\<close>

definition mf_bcch_norm :: "mframe_sched_item list" where
  "mf_bcch_norm = [MF_Item NB_QUAD_DL 51 2 0]"

definition mf_bcch_ext :: "mframe_sched_item list" where
  "mf_bcch_ext = [MF_Item NB_QUAD_DL 51 6 0]"

definition mf_ccch :: "mframe_sched_item list" where
  "mf_ccch = [MF_Item NB_QUAD_DL 51 6 0,
     MF_Item NB_QUAD_DL 51 12 0,
     MF_Item NB_QUAD_DL 51 16 0,
     MF_Item NB_QUAD_DL 51 22 0,
     MF_Item NB_QUAD_DL 51 26 0,
     MF_Item NB_QUAD_DL 51 32 0,
     MF_Item NB_QUAD_DL 51 36 0,
     MF_Item NB_QUAD_DL 51 42 0,
     MF_Item NB_QUAD_DL 51 46 0]"

definition mf_ccch_comb :: "mframe_sched_item list" where
  "mf_ccch_comb = [MF_Item NB_QUAD_DL 51 6 0,
     MF_Item NB_QUAD_DL 51 12 0,
     MF_Item NB_QUAD_DL 51 16 0]"

definition mf_sdcch4_0 :: "mframe_sched_item list" where
  "mf_sdcch4_0 = [MF_Item NB_QUAD_DL 51 22 0,
     MF_Item NB_QUAD_UL 51 (22+15) 0,
     MF_Item NB_QUAD_DL (2*51) 42 MF_F_SACCH,
     MF_Item NB_QUAD_UL (2*51) (42+15) MF_F_SACCH]"

definition mf_sdcch4_1 :: "mframe_sched_item list" where
  "mf_sdcch4_1 = [MF_Item NB_QUAD_DL 51 26 0,
     MF_Item NB_QUAD_UL 51 (26+15) 0,
     MF_Item NB_QUAD_DL (2*51) 46 MF_F_SACCH,
     MF_Item NB_QUAD_UL (2*51) (46+15) MF_F_SACCH]"

definition mf_sdcch4_2 :: "mframe_sched_item list" where
  "mf_sdcch4_2 = [MF_Item NB_QUAD_DL 51 32 0,
     MF_Item NB_QUAD_UL 51 (32+15) 0,
     MF_Item NB_QUAD_DL (2*51) (51+42) MF_F_SACCH,
     MF_Item NB_QUAD_UL (2*51) (51+42+15) MF_F_SACCH]"

definition mf_sdcch4_3 :: "mframe_sched_item list" where
  "mf_sdcch4_3 = [MF_Item NB_QUAD_DL 51 36 0,
     MF_Item NB_QUAD_UL 51 (36+15) 0,
     MF_Item NB_QUAD_DL (2*51) (51+46) MF_F_SACCH,
     MF_Item NB_QUAD_UL (2*51) (51+46+15) MF_F_SACCH]"

definition mf_sdcch8_0 :: "mframe_sched_item list" where
  "mf_sdcch8_0 = [MF_Item NB_QUAD_FH_DL 51 0 0,
     MF_Item NB_QUAD_FH_UL 51 (0+15) 0,
     MF_Item NB_QUAD_FH_DL (2*51) 32 MF_F_SACCH,
     MF_Item NB_QUAD_FH_UL (2*51) (32+15) MF_F_SACCH]"

definition mf_sdcch8_1 :: "mframe_sched_item list" where
  "mf_sdcch8_1 = [MF_Item NB_QUAD_FH_DL 51 4 0,
     MF_Item NB_QUAD_FH_UL 51 (4+15) 0,
     MF_Item NB_QUAD_FH_DL (2*51) 36 MF_F_SACCH,
     MF_Item NB_QUAD_FH_UL (2*51) (36+15) MF_F_SACCH]"

definition mf_sdcch8_2 :: "mframe_sched_item list" where
  "mf_sdcch8_2 = [MF_Item NB_QUAD_FH_DL 51 8 0,
     MF_Item NB_QUAD_FH_UL 51 (8+15) 0,
     MF_Item NB_QUAD_FH_DL (2*51) 40 MF_F_SACCH,
     MF_Item NB_QUAD_FH_UL (2*51) (40+15) MF_F_SACCH]"

definition mf_sdcch8_3 :: "mframe_sched_item list" where
  "mf_sdcch8_3 = [MF_Item NB_QUAD_FH_DL 51 12 0,
     MF_Item NB_QUAD_FH_UL 51 (12+15) 0,
     MF_Item NB_QUAD_FH_DL (2*51) 44 MF_F_SACCH,
     MF_Item NB_QUAD_FH_UL (2*51) (44+15) MF_F_SACCH]"

definition mf_sdcch8_4 :: "mframe_sched_item list" where
  "mf_sdcch8_4 = [MF_Item NB_QUAD_FH_DL 51 16 0,
     MF_Item NB_QUAD_FH_UL 51 (16+15) 0,
     MF_Item NB_QUAD_FH_DL (2*51) (51+32) MF_F_SACCH,
     MF_Item NB_QUAD_FH_UL (2*51) (51+32+15) MF_F_SACCH]"

definition mf_sdcch8_5 :: "mframe_sched_item list" where
  "mf_sdcch8_5 = [MF_Item NB_QUAD_FH_DL 51 20 0,
     MF_Item NB_QUAD_FH_UL 51 (20+15) 0,
     MF_Item NB_QUAD_FH_DL (2*51) (51+36) MF_F_SACCH,
     MF_Item NB_QUAD_FH_UL (2*51) (51+36+15) MF_F_SACCH]"

definition mf_sdcch8_6 :: "mframe_sched_item list" where
  "mf_sdcch8_6 = [MF_Item NB_QUAD_FH_DL 51 24 0,
     MF_Item NB_QUAD_FH_UL 51 (24+15) 0,
     MF_Item NB_QUAD_FH_DL (2*51) (51+40) MF_F_SACCH,
     MF_Item NB_QUAD_FH_UL (2*51) (51+40+15) MF_F_SACCH]"

definition mf_sdcch8_7 :: "mframe_sched_item list" where
  "mf_sdcch8_7 = [MF_Item NB_QUAD_FH_DL 51 28 0,
     MF_Item NB_QUAD_FH_UL 51 (28+15) 0,
     MF_Item NB_QUAD_FH_DL (2*51) (51+44) MF_F_SACCH,
     MF_Item NB_QUAD_FH_UL (2*51) (51+44+15) MF_F_SACCH]"

definition mf_sdcch8_cbch :: "mframe_sched_item list" where
  "mf_sdcch8_cbch = [MF_Item NB_QUAD_FH_DL 51 8 0]"

definition mf_sdcch4_cbch :: "mframe_sched_item list" where
  "mf_sdcch4_cbch = [MF_Item NB_QUAD_DL 51 32 0]"

definition mf_neigh_pm51_c0t0 :: "mframe_sched_item list" where
  "mf_neigh_pm51_c0t0 = [MF_Item NEIGH_PM 51 0 0,
     MF_Item NEIGH_PM 51 10 0,
     MF_Item NEIGH_PM 51 20 0,
     MF_Item NEIGH_PM 51 30 0,
     MF_Item NEIGH_PM 51 40 0]"

definition mf_neigh_pm51 :: "mframe_sched_item list" where
  "mf_neigh_pm51 = [MF_Item NEIGH_PM 51 50 0]"

definition mf_tch_f_even :: "mframe_sched_item list" where
  "mf_tch_f_even = [MF_Item MF_TCH 13 0 0,
     MF_Item MF_TCH 13 1 0,
     MF_Item MF_TCH 13 2 0,
     MF_Item MF_TCH 13 3 0,
     MF_Item MF_TCH 13 4 0,
     MF_Item MF_TCH 13 5 0,
     MF_Item MF_TCH 13 6 0,
     MF_Item MF_TCH 13 7 0,
     MF_Item MF_TCH 13 8 0,
     MF_Item MF_TCH 13 9 0,
     MF_Item MF_TCH 13 10 0,
     MF_Item MF_TCH 13 11 0,
     MF_Item MF_TCH_A 26 12 MF_F_SACCH]"

definition mf_tch_f_odd :: "mframe_sched_item list" where
  "mf_tch_f_odd = [MF_Item MF_TCH 13 0 0,
     MF_Item MF_TCH 13 1 0,
     MF_Item MF_TCH 13 2 0,
     MF_Item MF_TCH 13 3 0,
     MF_Item MF_TCH 13 4 0,
     MF_Item MF_TCH 13 5 0,
     MF_Item MF_TCH 13 6 0,
     MF_Item MF_TCH 13 7 0,
     MF_Item MF_TCH 13 8 0,
     MF_Item MF_TCH 13 9 0,
     MF_Item MF_TCH 13 10 0,
     MF_Item MF_TCH 13 11 0,
     MF_Item MF_TCH_A 26 25 MF_F_SACCH]"

definition mf_tch_h_0 :: "mframe_sched_item list" where
  "mf_tch_h_0 = [MF_Item MF_TCH 13 0 0,
     MF_Item MF_TCH_D 13 1 0,
     MF_Item MF_TCH 13 2 0,
     MF_Item MF_TCH_D 13 3 0,
     MF_Item MF_TCH 13 4 0,
     MF_Item MF_TCH_D 13 5 0,
     MF_Item MF_TCH 13 6 0,
     MF_Item MF_TCH_D 13 7 0,
     MF_Item MF_TCH 13 8 0,
     MF_Item MF_TCH_D 13 9 0,
     MF_Item MF_TCH 13 10 0,
     MF_Item MF_TCH_D 13 11 0,
     MF_Item MF_TCH_A 26 12 MF_F_SACCH]"

definition mf_tch_h_1 :: "mframe_sched_item list" where
  "mf_tch_h_1 = [MF_Item MF_TCH_D 13 0 0,
     MF_Item MF_TCH 13 1 0,
     MF_Item MF_TCH_D 13 2 0,
     MF_Item MF_TCH 13 3 0,
     MF_Item MF_TCH_D 13 4 0,
     MF_Item MF_TCH 13 5 0,
     MF_Item MF_TCH_D 13 6 0,
     MF_Item MF_TCH 13 7 0,
     MF_Item MF_TCH_D 13 8 0,
     MF_Item MF_TCH 13 9 0,
     MF_Item MF_TCH_D 13 10 0,
     MF_Item MF_TCH 13 11 0,
     MF_Item MF_TCH_A 26 25 MF_F_SACCH]"

definition mf_neigh_pm26_even :: "mframe_sched_item list" where
  "mf_neigh_pm26_even = [MF_Item NEIGH_PM 26 25 0]"

definition mf_neigh_pm26_odd :: "mframe_sched_item list" where
  "mf_neigh_pm26_odd = [MF_Item NEIGH_PM 26 12 0]"

definition mf_gprs_pdtch :: "mframe_sched_item list" where
  "mf_gprs_pdtch = [MF_Item NB_QUAD_DL 13 0 0,
     MF_Item NB_QUAD_DL 13 4 0,
     MF_Item NB_QUAD_DL 13 8 0]"

definition mf_gprs_ptcch :: "mframe_sched_item list" where
  "mf_gprs_ptcch = []"

definition mf_tx_all_nb :: "mframe_sched_item list" where
  "mf_tx_all_nb = [MF_Item NB_QUAD_FH_UL 4 0 0]"

definition sched_set_for_task :: "mframe_sched_item list option list" where
  "sched_set_for_task = [Some mf_bcch_norm, Some mf_bcch_ext, Some mf_ccch, Some mf_ccch_comb,
     Some mf_sdcch4_0, Some mf_sdcch4_1, Some mf_sdcch4_2, Some mf_sdcch4_3,
     Some mf_sdcch8_0, Some mf_sdcch8_1, Some mf_sdcch8_2, Some mf_sdcch8_3,
     Some mf_sdcch8_4, Some mf_sdcch8_5, Some mf_sdcch8_6, Some mf_sdcch8_7,
     Some mf_sdcch4_cbch, Some mf_sdcch8_cbch, Some mf_tch_f_even, Some mf_tch_f_odd,
     Some mf_tch_h_0, Some mf_tch_h_1, Some mf_gprs_pdtch, Some mf_gprs_ptcch,
     Some mf_neigh_pm51_c0t0, Some mf_neigh_pm51, Some mf_neigh_pm26_even, Some mf_neigh_pm26_odd,
     Some mf_tx_all_nb, None, None, None]"

section \<open>Channel numbers\<close>

fun task_cbits :: "mframe_task \<Rightarrow> u8" where
  "task_cbits MF_TASK_BCCH_NORM = 0x10"
| "task_cbits MF_TASK_BCCH_EXT = 0x10"
| "task_cbits MF_TASK_CCCH = 0x12"
| "task_cbits MF_TASK_CCCH_COMB = 0x12"
| "task_cbits MF_TASK_SDCCH4_0 = 0x04 + 0"
| "task_cbits MF_TASK_SDCCH4_1 = 0x04 + 1"
| "task_cbits MF_TASK_SDCCH4_2 = 0x04 + 2"
| "task_cbits MF_TASK_SDCCH4_3 = 0x04 + 3"
| "task_cbits MF_TASK_SDCCH8_0 = 0x08 + 0"
| "task_cbits MF_TASK_SDCCH8_1 = 0x08 + 1"
| "task_cbits MF_TASK_SDCCH8_2 = 0x08 + 2"
| "task_cbits MF_TASK_SDCCH8_3 = 0x08 + 3"
| "task_cbits MF_TASK_SDCCH8_4 = 0x08 + 4"
| "task_cbits MF_TASK_SDCCH8_5 = 0x08 + 5"
| "task_cbits MF_TASK_SDCCH8_6 = 0x08 + 6"
| "task_cbits MF_TASK_SDCCH8_7 = 0x08 + 7"
| "task_cbits MF_TASK_TCH_F_EVEN = 0x01"
| "task_cbits MF_TASK_TCH_F_ODD = 0x01"
| "task_cbits MF_TASK_TCH_H_0 = 0x02 + 0"
| "task_cbits MF_TASK_TCH_H_1 = 0x02 + 1"
| "task_cbits MF_TASK_GPRS_PDTCH = 0x18"
| "task_cbits MF_TASK_GPRS_PTCCH = 0x18"
| "task_cbits MF_TASK_SDCCH4_CBCH = 0x19"
| "task_cbits MF_TASK_SDCCH8_CBCH = 0x1a"
| "task_cbits _ = 0"

definition mframe_task2chan_nr :: "mframe_task \<Rightarrow> u8 \<Rightarrow> u8" where
  "mframe_task2chan_nr mft ts = push_bit 3 (task_cbits mft) OR (ts AND 7)"

datatype mf_type = MFNONE | MF51 | MF26ODD | MF26EVEN

abbreviation (input) NEIGH_MODE_PM :: u8 where "NEIGH_MODE_PM \<equiv> 1"

definition task_set :: "nat \<Rightarrow> u32" where
  "task_set nr = push_bit nr 1"

definition chan_nr2mf_task_mask :: "u8 \<Rightarrow> u8 \<Rightarrow> u32" where
  "chan_nr2mf_task_mask chan_nr neigh_mode =
     (let cbits = drop_bit 3 chan_nr; tn = chan_nr AND 7;
          (task_mask, multiframe) =
            (if cbits = 0x01 then
               (task_set (mf_task_nr (if tn AND 1 \<noteq> 0 then MF_TASK_TCH_F_ODD else MF_TASK_TCH_F_EVEN)),
                if tn AND 1 \<noteq> 0 then MF26ODD else MF26EVEN)
             else if cbits AND 0x1e = 0x02 then
               (let lch_idx = cbits AND 0x1 in
                (task_set (mf_task_nr MF_TASK_TCH_H_0 + unat lch_idx), if lch_idx AND 1 \<noteq> 0 then MF26ODD else MF26EVEN))
             else if cbits AND 0x1c = 0x04 then
               (task_set (mf_task_nr MF_TASK_SDCCH4_0 + unat (cbits AND 0x3)), MF51)
             else if cbits AND 0x18 = 0x08 then
               (task_set (mf_task_nr MF_TASK_SDCCH8_0 + unat (cbits AND 0x7)), MF51)
             else if cbits AND 0x1f = 0x18 then
               (task_set (mf_task_nr MF_TASK_GPRS_PDTCH) OR task_set (mf_task_nr MF_TASK_GPRS_PTCCH), MFNONE)
             else if cbits AND 0x1f = 0x19 then (task_set (mf_task_nr MF_TASK_SDCCH4_CBCH), MF51)
             else if cbits AND 0x1f = 0x1a then (task_set (mf_task_nr MF_TASK_SDCCH8_CBCH), MF51)
             else (task_set (mf_task_nr MF_TASK_BCCH_NORM), MFNONE)) in
      if neigh_mode = NEIGH_MODE_PM then
        (case multiframe of
           MF51 \<Rightarrow> task_mask OR task_set (mf_task_nr MF_TASK_NEIGH_PM51)
         | MF26EVEN \<Rightarrow> task_mask OR task_set (mf_task_nr MF_TASK_NEIGH_PM26E)
         | MF26ODD \<Rightarrow> task_mask OR task_set (mf_task_nr MF_TASK_NEIGH_PM26O)
         | MFNONE \<Rightarrow> task_mask)
      else task_mask)"

datatype dchan_type = GSM_DCHAN_NONE | GSM_DCHAN_SDCCH_4 | GSM_DCHAN_SDCCH_4_CBCH | GSM_DCHAN_SDCCH_8
  | GSM_DCHAN_SDCCH_8_CBCH | GSM_DCHAN_TCH_H | GSM_DCHAN_TCH_F | GSM_DCHAN_PDCH | GSM_DCHAN_UNKNOWN

definition chan_nr2dchan_type :: "u8 \<Rightarrow> dchan_type" where
  "chan_nr2dchan_type chan_nr =
     (let cbits = drop_bit 3 chan_nr in
      if cbits = 0x01 then GSM_DCHAN_TCH_F
      else if cbits AND 0x1e = 0x02 then GSM_DCHAN_TCH_H
      else if cbits AND 0x1c = 0x04 then GSM_DCHAN_SDCCH_4
      else if cbits AND 0x18 = 0x08 then GSM_DCHAN_SDCCH_8
      else if cbits AND 0x1f = 0x18 then GSM_DCHAN_PDCH
      else if cbits AND 0x1f = 0x19 then GSM_DCHAN_SDCCH_4_CBCH
      else if cbits AND 0x1f = 0x1a then GSM_DCHAN_SDCCH_8_CBCH
      else GSM_DCHAN_UNKNOWN)"

definition chan_nr_is_tch :: "u8 \<Rightarrow> bool" where
  "chan_nr_is_tch chan_nr \<longleftrightarrow> drop_bit 3 chan_nr = 0x01 \<or> drop_bit 3 chan_nr AND 0x1e = 0x02"

section \<open>The scheduler\<close>

abbreviation (input) GSM_MAX_FN :: u32 where "GSM_MAX_FN \<equiv> 2715648"
abbreviation (input) SCHEDULE_AHEAD :: u32 where "SCHEDULE_AHEAD \<equiv> 2"

record mframe_scheduler =
  mf_tasks_on :: u32
  mf_tasks_tgt :: u32
  mf_safe_fn :: u32

definition ADD_MODULO :: "'a::len word \<Rightarrow> 'a word \<Rightarrow> 'a word \<Rightarrow> 'a word" where
  "ADD_MODULO x d n = (if x + d \<ge> n then x + d - n else x + d)"

text \<open>One entry of a task, at the frame number \<open>fn\<close>; \<^verbatim>\<open>SCHEDULE_AHEAD-SCHEDULE_LATENCY\<close> is 1.\<close>

definition mframe_sched_entry :: "u32 \<Rightarrow> nat \<Rightarrow> mframe_sched_item \<Rightarrow> mframe_scheduler \<times> tdma_scheduler \<Rightarrow>
    (mframe_scheduler \<times> tdma_scheduler) option" where
  "mframe_sched_entry fn task_id si st =
     (let (m, s) = st;
          trigger = mi_frame_nr si mod mi_modulo si;
          current = unat (fn + SCHEDULE_AHEAD) mod mi_modulo si in
      if current = trigger then do {
        (rv, s) \<leftarrow> tdma_schedule_set 1 (mf_set_items (mi_set si))
                     (word_of_nat task_id OR push_bit 8 (mi_flags si)) s;
        let fn' = ADD_MODULO fn (word_of_int (rv - 2)) GSM_MAX_FN in
        Some (if fn' > mf_safe_fn m \<or> mf_safe_fn m \<ge> GSM_MAX_FN then m\<lparr>mf_safe_fn := fn'\<rparr> else m, s) }
      else Some (m, s))"

fun mframe_sched_entries :: "u32 \<Rightarrow> nat \<Rightarrow> mframe_sched_item list \<Rightarrow> mframe_scheduler \<times> tdma_scheduler \<Rightarrow>
    (mframe_scheduler \<times> tdma_scheduler) option" where
  "mframe_sched_entries fn task_id [] st = Some st"
| "mframe_sched_entries fn task_id (si # sis) st = do {
     st \<leftarrow> mframe_sched_entry fn task_id si st; mframe_sched_entries fn task_id sis st }"

text \<open>A task without a table is a loop from NULL.\<close>

definition mframe_schedule_set :: "u32 \<Rightarrow> nat \<Rightarrow> mframe_scheduler \<times> tdma_scheduler \<Rightarrow>
    (mframe_scheduler \<times> tdma_scheduler) option" where
  "mframe_schedule_set fn task_id st = do {
     entry \<leftarrow> index_at sched_set_for_task task_id;
     set \<leftarrow> entry;
     mframe_sched_entries fn task_id set st }"

definition mframe_enable :: "nat \<Rightarrow> mframe_scheduler \<Rightarrow> mframe_scheduler" where
  "mframe_enable task_id m = m\<lparr>mf_tasks_tgt := mf_tasks_tgt m OR push_bit task_id 1\<rparr>"

definition mframe_disable :: "nat \<Rightarrow> mframe_scheduler \<Rightarrow> mframe_scheduler" where
  "mframe_disable task_id m = m\<lparr>mf_tasks_tgt := mf_tasks_tgt m AND NOT (push_bit task_id 1)\<rparr>"

definition mframe_set :: "u32 \<Rightarrow> mframe_scheduler \<Rightarrow> mframe_scheduler" where
  "mframe_set tasks m = m\<lparr>mf_tasks_tgt := tasks\<rparr>"

definition mframe_reset :: "mframe_scheduler \<Rightarrow> mframe_scheduler" where
  "mframe_reset m = \<lparr>mf_tasks_on = 0, mf_tasks_tgt = 0, mf_safe_fn = - 1\<rparr>"

definition mframe_update :: "u32 \<Rightarrow> mframe_scheduler \<Rightarrow> mframe_scheduler" where
  "mframe_update fn m =
     (let fn_diff = sint (mf_safe_fn m - fn) in
      if fn_diff \<le> 0 \<or> fn_diff \<ge> int (unat (drop_bit 1 GSM_MAX_FN)) \<or> mf_safe_fn m \<ge> GSM_MAX_FN
      then m\<lparr>mf_tasks_on := mf_tasks_tgt m\<rparr>
      else m\<lparr>mf_tasks_on := mf_tasks_on m AND mf_tasks_tgt m\<rparr>)"

fun mframe_run_tasks :: "u32 \<Rightarrow> nat list \<Rightarrow> mframe_scheduler \<times> tdma_scheduler \<Rightarrow> (mframe_scheduler \<times> tdma_scheduler) option" where
  "mframe_run_tasks fn [] st = Some st"
| "mframe_run_tasks fn (i # is) st = do {
     st \<leftarrow> (if bit (mf_tasks_on (fst st)) i then mframe_schedule_set fn i st else Some st);
     mframe_run_tasks fn is st }"

definition mframe_schedule :: "u32 \<Rightarrow> mframe_scheduler \<times> tdma_scheduler \<Rightarrow> (mframe_scheduler \<times> tdma_scheduler) option" where
  "mframe_schedule fn st = mframe_run_tasks fn [0..<32] (mframe_update fn (fst st), snd st)"

section \<open>Channel numbers and tasks\<close>

lemma set_mf_tasks: "set mf_tasks = UNIV"
proof -
  have "t \<in> set mf_tasks" for t by (cases t) (simp_all add: mf_tasks_def)
  then show ?thesis by blast
qed

definition is_neigh_task :: "mframe_task \<Rightarrow> bool" where
  "is_neigh_task t \<longleftrightarrow> t \<in> {MF_TASK_NEIGH_PM51_C0T0, MF_TASK_NEIGH_PM51, MF_TASK_NEIGH_PM26E, MF_TASK_NEIGH_PM26O}"

lemma mf_task_nr_eq: "mf_task_nr t = n \<longleftrightarrow> n < length mf_tasks \<and> mf_tasks ! n = t"
proof -
  have "mf_task_nr t < length mf_tasks \<and> mf_tasks ! mf_task_nr t = t" for t
    by (cases t) (simp_all add: mf_task_nr_def mf_tasks_def)
  moreover have "distinct mf_tasks" by (simp add: mf_tasks_def)
  ultimately show ?thesis by (metis nth_eq_iff_index_eq)
qed

lemma mf_task_nr_inj: "mf_task_nr t = mf_task_nr u \<longleftrightarrow> t = u"
  using mf_task_nr_eq [of t "mf_task_nr u"] mf_task_nr_eq [of u "mf_task_nr u"] by auto

lemma mf_task_nr_less: "mf_task_nr t < 29"
  using mf_task_nr_eq [of t "mf_task_nr t"] by (simp add: mf_tasks_def)

lemma bit_task_set: "n < 32 \<Longrightarrow> bit (task_set m) n \<longleftrightarrow> m = n"
  by (auto simp: task_set_def bit_simps)

lemma and_7: "(c :: u8) AND 7 = take_bit 3 c"
  by (simp add: take_bit_eq_mask mask_eq_exp_minus_1)

lemma chan_nr_split: "push_bit 3 (drop_bit 3 c) OR (c AND 7) = (c :: u8)"
  unfolding and_7 by (rule bit_word_eqI) (auto simp: bit_simps)

lemma task_cbits_small: "take_bit 5 (task_cbits t) = task_cbits t"
  by (cases t) simp_all

lemma task2chan_nr: "mframe_task2chan_nr t c = c \<longleftrightarrow> task_cbits t = drop_bit 3 c"
proof
  have "drop_bit 3 (mframe_task2chan_nr t c) = take_bit 5 (task_cbits t)"
    unfolding mframe_task2chan_nr_def and_7 by (rule bit_word_eqI) (auto simp: bit_simps)
  then show "mframe_task2chan_nr t c = c \<Longrightarrow> task_cbits t = drop_bit 3 c" by (simp add: task_cbits_small)
next
  show "task_cbits t = drop_bit 3 c \<Longrightarrow> mframe_task2chan_nr t c = c"
    by (simp add: mframe_task2chan_nr_def chan_nr_split)
qed

lemma cbits_cases:
  obtains n where "drop_bit 3 (c :: u8) = word_of_nat n" "n \<in> set [0..<32]"
proof
  show "drop_bit 3 c = word_of_nat (unat (drop_bit 3 c))" by simp
  have "unat c < 2 ^ LENGTH(8)" by (rule unsigned_less)
  then have "unat c div 8 < 32" "take_bit 8 (unat c) = unat c" by (simp_all add: take_bit_nat_eq_self)
  moreover from this have "unat (drop_bit 3 c) = unat c div 8"
    unfolding unsigned_drop_bit_eq by (simp add: drop_bit_eq_div)
  ultimately show "unat (drop_bit 3 c) \<in> set [0..<32]" by (simp only: set_upt atLeastLessThan_iff) simp
qed

text \<open>The tasks of a channel, without the ones of the neighbour cells.\<close>

fun cbits_tasks :: "nat \<Rightarrow> bool \<Rightarrow> mframe_task list" where
  "cbits_tasks n otn =
     (if n = 1 then [if otn then MF_TASK_TCH_F_ODD else MF_TASK_TCH_F_EVEN]
      else if n \<in> {2, 3} then [mf_tasks ! (18 + n)]
      else if 4 \<le> n \<and> n < 16 then [mf_tasks ! n]
      else if n = 24 then [MF_TASK_GPRS_PDTCH, MF_TASK_GPRS_PTCCH]
      else if n = 25 then [MF_TASK_SDCCH4_CBCH]
      else if n = 26 then [MF_TASK_SDCCH8_CBCH]
      else [MF_TASK_BCCH_NORM])"

lemma upt_32: "set [0..<32] = {31, 30, 29, 28, 27, 26, 25, 24, 23, 22, 21, 20, 19, 18, 17, 16, 15, 14, 13, 12, 11, 10, 9, 8, 7, 6, 5, 4, 3, 2, 1, 0 :: nat}"
  by (simp add: atLeast0LessThan lessThan_nat_numeral lessThan_Suc)

lemma task_mask_eq:
  assumes "drop_bit 3 c = word_of_nat n" "n \<in> set [0..<32]"
  shows "chan_nr2mf_task_mask c 0 = fold (\<lambda>t m. m OR task_set (mf_task_nr t)) (cbits_tasks n ((c AND 7) AND 1 \<noteq> 0)) 0"
proof -
  define odd_tn where "odd_tn \<longleftrightarrow> (c AND 7) AND 1 \<noteq> 0"
  have "n \<in> {31, 30, 29, 28, 27, 26, 25, 24, 23, 22, 21, 20, 19, 18, 17, 16, 15, 14, 13, 12, 11, 10, 9, 8, 7, 6, 5, 4, 3, 2, 1, 0}"
    using assms(2) by (simp only: upt_32)
  then show ?thesis
    apply (simp only: chan_nr2mf_task_mask_def assms(1) Let_def odd_tn_def [symmetric])
    apply (cases odd_tn; elim insertE emptyE; simp add: mf_task_nr_def mf_tasks_def)
    apply (simp_all add: eval_nat_numeral)
    done
qed

lemma bit_fold_tasks:
  "bit (fold (\<lambda>t m. m OR task_set (mf_task_nr t)) ts x) (mf_task_nr u) \<longleftrightarrow> bit x (mf_task_nr u) \<or> u \<in> set ts"
proof (induction ts arbitrary: x)
  case (Cons t ts)
  then show ?case using mf_task_nr_less [of u] by (auto simp: bit_or_iff bit_task_set mf_task_nr_inj)
qed simp

text \<open>The mode of the neighbour cells adds the task of their measurement and no other.\<close>

lemma task_mask_neigh:
  assumes "\<not> is_neigh_task t"
  shows "bit (chan_nr2mf_task_mask c mode) (mf_task_nr t) \<longleftrightarrow> bit (chan_nr2mf_task_mask c 0) (mf_task_nr t)"
proof -
  have "\<not> bit (task_set (mf_task_nr u)) (mf_task_nr t)" if "is_neigh_task u" for u
    using that assms mf_task_nr_less [of t] by (auto simp: bit_task_set mf_task_nr_inj)
  then have "\<not> bit (task_set (mf_task_nr MF_TASK_NEIGH_PM51)) (mf_task_nr t)"
    "\<not> bit (task_set (mf_task_nr MF_TASK_NEIGH_PM26E)) (mf_task_nr t)"
    "\<not> bit (task_set (mf_task_nr MF_TASK_NEIGH_PM26O)) (mf_task_nr t)"
    by (simp_all add: is_neigh_task_def)
  then show ?thesis
    by (simp add: chan_nr2mf_task_mask_def Let_def bit_or_iff split: mf_type.split)
qed

lemma task_mask_bits:
  assumes "drop_bit 3 c = word_of_nat n" "n \<in> set [0..<32]" "\<not> is_neigh_task t"
  shows "bit (chan_nr2mf_task_mask c mode) (mf_task_nr t) \<longleftrightarrow> t \<in> set (cbits_tasks n ((c AND 7) AND 1 \<noteq> 0))"
  by (simp only: task_mask_neigh [OF assms(3)] task_mask_eq [OF assms(1,2)] bit_fold_tasks bit_0_eq bot_fun_def bot_bool_def simp_thms)

lemma cbits_tasks_known:
  assumes "drop_bit 3 c = word_of_nat n" "n \<in> set [0..<32]" "chan_nr2dchan_type c \<noteq> GSM_DCHAN_UNKNOWN"
  shows "cbits_tasks n odd_tn \<noteq> [] \<and> list_all (\<lambda>t. \<not> is_neigh_task t \<and> task_cbits t = word_of_nat n) (cbits_tasks n odd_tn)"
proof -
  have "n \<in> {31, 30, 29, 28, 27, 26, 25, 24, 23, 22, 21, 20, 19, 18, 17, 16, 15, 14, 13, 12, 11, 10, 9, 8, 7, 6, 5, 4, 3, 2, 1, 0}"
    using assms(2) by (simp only: upt_32)
  with assms(3) show ?thesis
    unfolding chan_nr2dchan_type_def assms(1) Let_def
    by (elim insertE emptyE; cases odd_tn; simp add: is_neigh_task_def mf_tasks_def)
qed

text \<open>For a channel number of a dedicated channel the firmware starts tasks of its own, and every task it
  starts, but for the measurement of the neighbour cells, reports its frames under the channel number it
  was started for: \<^verbatim>\<open>mframe_task2chan_nr\<close> takes back \<^verbatim>\<open>chan_nr2mf_task_mask\<close>.
\<close>

theorem fw_chan_nr_roundtrip:
  assumes "chan_nr2dchan_type c \<noteq> GSM_DCHAN_UNKNOWN"
  shows "(\<exists>t. \<not> is_neigh_task t \<and> bit (chan_nr2mf_task_mask c mode) (mf_task_nr t)) \<and>
    (\<forall>t. \<not> is_neigh_task t \<longrightarrow> bit (chan_nr2mf_task_mask c mode) (mf_task_nr t) \<longrightarrow> mframe_task2chan_nr t c = c)"
proof -
  obtain n where n: "drop_bit 3 c = word_of_nat n" "n \<in> set [0..<32]" by (rule cbits_cases)
  note known = cbits_tasks_known [OF n assms, of "(c AND 7) AND 1 \<noteq> 0"]
  then obtain t where "t \<in> set (cbits_tasks n ((c AND 7) AND 1 \<noteq> 0))" by (meson list.set_sel(1))
  with known task_mask_bits [OF n] have "\<not> is_neigh_task t \<and> bit (chan_nr2mf_task_mask c mode) (mf_task_nr t)"
    unfolding list_all_iff by blast
  moreover have "mframe_task2chan_nr u c = c"
    if "\<not> is_neigh_task u" "bit (chan_nr2mf_task_mask c mode) (mf_task_nr u)" for u
    using that known task_mask_bits [OF n that(1), of mode] n(1)
    unfolding task2chan_nr list_all_iff by simp
  ultimately show ?thesis by blast
qed

theorem fw_chan_nr_roundtrip_witness:
  "mframe_task2chan_nr MF_TASK_TCH_F_ODD 0x0b = 0x0b"
proof -
  have "chan_nr2dchan_type 0x0b \<noteq> GSM_DCHAN_UNKNOWN" by (simp add: chan_nr2dchan_type_def)
  note rt = conjunct2 [OF fw_chan_nr_roundtrip [OF this, of 1], rule_format, of MF_TASK_TCH_F_ODD]
  show ?thesis
    by (rule rt) (simp_all add: is_neigh_task_def chan_nr2mf_task_mask_def bit_or_iff bit_task_set mf_task_nr_def mf_tasks_def)
qed

section \<open>What a run of the scheduler puts on the agenda\<close>

text \<open>The entries of the tables that are due at a frame number, with the numbers of their tasks.\<close>

definition mi_due :: "u32 \<Rightarrow> mframe_sched_item \<Rightarrow> bool" where
  "mi_due fn si \<longleftrightarrow> unat (fn + SCHEDULE_AHEAD) mod mi_modulo si = mi_frame_nr si mod mi_modulo si"

definition task_table :: "nat \<Rightarrow> mframe_sched_item list" where
  "task_table i = (case sched_set_for_task ! i of None \<Rightarrow> [] | Some table \<Rightarrow> table)"

fun mf_due :: "u32 \<Rightarrow> u32 \<Rightarrow> nat list \<Rightarrow> (nat \<times> mframe_sched_item) list" where
  "mf_due fn tasks [] = []"
| "mf_due fn tasks (i # is) =
     (if bit tasks i then map (Pair i) (filter (mi_due fn) (task_table i)) else []) @ mf_due fn tasks is"

definition ag_mf_add :: "nat \<times> mframe_sched_item \<Rightarrow> agenda \<Rightarrow> agenda" where
  "ag_mf_add e A = ag_add_set 1 (mf_set_items (mi_set (snd e))) (word_of_nat (fst e) OR push_bit 8 (mi_flags (snd e))) A"

lemma mf_set_closed: "set_closed (mf_set_items ms)"
  by (cases ms) (simp_all add: set_closed_def nb_sched_set_def nb_sched_set_ul_def tch_sched_set_def
      tch_a_sched_set_def tch_d_sched_set_def neigh_pm_sched_set_def SCHED_END_SET_def)

text \<open>A step of the scheduler, related to a change of the agenda.\<close>

definition mf_step_ok :: "(agenda \<Rightarrow> agenda) \<Rightarrow> mframe_scheduler \<times> tdma_scheduler \<Rightarrow> mframe_scheduler \<times> tdma_scheduler \<Rightarrow> bool" where
  "mf_step_ok f st st' \<longleftrightarrow> tdma_wf (snd st') \<and> tq_cur (snd st') = tq_cur (snd st) \<and> due (snd st') = f (due (snd st)) \<and>
     mf_tasks_on (fst st') = mf_tasks_on (fst st) \<and> mf_tasks_tgt (fst st') = mf_tasks_tgt (fst st)"

lemma mf_step_ok_refl: "tdma_wf (snd st) \<Longrightarrow> mf_step_ok id st st"
  by (simp add: mf_step_ok_def)

lemma mf_step_ok_trans: "mf_step_ok f st st' \<Longrightarrow> mf_step_ok g st' st'' \<Longrightarrow> mf_step_ok (g \<circ> f) st st''"
  by (simp add: mf_step_ok_def)

lemma sched_entry_ok:
  assumes "tdma_wf (snd st)"
  shows "\<exists>st'. mframe_sched_entry fn i si st = Some st' \<and> mf_step_ok (if mi_due fn si then ag_mf_add (i, si) else id) st st'"
proof -
  obtain m s where st: "st = (m, s)" by fastforce
  obtain rc s' where "tdma_schedule_set 1 (mf_set_items (mi_set si)) (word_of_nat i OR push_bit 8 (mi_flags si)) s = Some (rc, s')"
      "tdma_wf s'" "tq_cur s' = tq_cur s" "due s' = ag_mf_add (i, si) (due s)"
    using schedule_items_refines [of s "mf_set_items (mi_set si)" 1 0 "word_of_nat i OR push_bit 8 (mi_flags si)"] assms st mf_set_closed
    by (auto simp: tdma_schedule_set_def ag_mf_add_def)
  then show ?thesis using assms
    by (auto simp: st mframe_sched_entry_def mi_due_def Let_def mf_step_ok_def)
qed

lemma sched_entries_ok:
  "tdma_wf (snd st) \<Longrightarrow> \<exists>st'. mframe_sched_entries fn i sis st = Some st' \<and>
     mf_step_ok (fold ag_mf_add (map (Pair i) (filter (mi_due fn) sis))) st st'"
proof (induction sis arbitrary: st)
  case Nil
  then show ?case using mf_step_ok_refl by (auto simp: id_def)
next
  case (Cons si sis)
  obtain st1 where 1: "mframe_sched_entry fn i si st = Some st1" "mf_step_ok (if mi_due fn si then ag_mf_add (i, si) else id) st st1"
    using sched_entry_ok [OF Cons.prems] by blast
  moreover from 1(2) have "tdma_wf (snd st1)" by (simp add: mf_step_ok_def)
  ultimately show ?case using Cons.IH [of st1] mf_step_ok_trans by (fastforce split: if_splits)
qed

lemma sched_set_for_task_Some: "i < 29 \<Longrightarrow> index_at sched_set_for_task i = Some (Some (task_table i))"
proof -
  assume "i < 29"
  then have "i \<in> set [0..<29]" by simp
  moreover have "list_all (\<lambda>i. index_at sched_set_for_task i = Some (Some (task_table i))) [0..<29]"
    by (simp add: index_at_def sched_set_for_task_def task_table_def upt_rec)
  ultimately show ?thesis unfolding list_all_iff by blast
qed

lemma run_tasks_ok:
  "tdma_wf (snd st) \<Longrightarrow> \<forall>i \<in> set is. bit (mf_tasks_on (fst st)) i \<longrightarrow> i < 29 \<Longrightarrow>
   \<exists>st'. mframe_run_tasks fn is st = Some st' \<and> mf_step_ok (fold ag_mf_add (mf_due fn (mf_tasks_on (fst st)) is)) st st'"
proof (induction "is" arbitrary: st)
  case Nil
  then show ?case using mf_step_ok_refl by (auto simp: id_def)
next
  case (Cons i "is")
  let ?es = "if bit (mf_tasks_on (fst st)) i then map (Pair i) (filter (mi_due fn) (task_table i)) else []"
  have "\<exists>st1. (if bit (mf_tasks_on (fst st)) i then mframe_schedule_set fn i st else Some st) = Some st1 \<and> mf_step_ok (fold ag_mf_add ?es) st st1"
  proof (cases "bit (mf_tasks_on (fst st)) i")
    case True
    then show ?thesis using sched_entries_ok [OF Cons.prems(1), of fn i "task_table i"] Cons.prems(2)
      by (simp add: mframe_schedule_set_def sched_set_for_task_Some)
  next
    case False
    then show ?thesis using mf_step_ok_refl [OF Cons.prems(1)] by (simp add: id_def)
  qed
  then obtain st1 where st1: "(if bit (mf_tasks_on (fst st)) i then mframe_schedule_set fn i st else Some st) = Some st1"
      "mf_step_ok (fold ag_mf_add ?es) st st1" by blast
  then have "tdma_wf (snd st1)" "mf_tasks_on (fst st1) = mf_tasks_on (fst st)" by (simp_all add: mf_step_ok_def)
  with Cons.IH [of st1] Cons.prems(2) obtain st2 where st2: "mframe_run_tasks fn is st1 = Some st2"
    "mf_step_ok (fold ag_mf_add (mf_due fn (mf_tasks_on (fst st)) is)) st1 st2" by auto
  have "mframe_run_tasks fn (i # is) st = Some st2"
    unfolding mframe_run_tasks.simps st1(1) by (simp add: st2(1))
  moreover have "mf_step_ok (fold ag_mf_add (mf_due fn (mf_tasks_on (fst st)) (i # is))) st st2"
    using mf_step_ok_trans [OF st1(2) st2(2)] by (simp only: mf_due.simps fold_append)
  ultimately show ?case by blast
qed

text \<open>A set that is still running needs its DSP commands up to the safe frame.\<close>

definition mf_busy :: "u32 \<Rightarrow> mframe_scheduler \<Rightarrow> bool" where
  "mf_busy fn m \<longleftrightarrow> mf_safe_fn m < GSM_MAX_FN \<and> 0 < int (unat (mf_safe_fn m)) - int (unat fn) \<and>
     int (unat (mf_safe_fn m)) - int (unat fn) < 1357824"

lemma sint_diff_small:
  fixes a b :: u32
  assumes "a < GSM_MAX_FN" "b < GSM_MAX_FN"
  shows "sint (a - b) = int (unat a) - int (unat b)"
proof -
  have ab: "uint a < 2715648" "uint b < 2715648" using assms by (simp_all add: word_less_def)
  have "sint (a - b) = sint (word_of_int (uint a - uint b) :: u32)" by (simp only: word_sub_wi)
  also have "\<dots> = signed_take_bit 31 (uint a - uint b)" by (subst sint_sbintrunc') simp
  also have "\<dots> = uint a - uint b"
  proof (rule signed_take_bit_int_eq_self)
    have "0 \<le> uint a" "0 \<le> uint b" "(2 :: int) ^ 31 = 2147483648" by simp_all
    with ab show "- (2 ^ 31) \<le> uint a - uint b" and "uint a - uint b < 2 ^ 31" by (linarith, linarith)
  qed
  finally show ?thesis by simp
qed

lemma update_busy:
  "fn < GSM_MAX_FN \<Longrightarrow> mframe_update fn m =
     m\<lparr>mf_tasks_on := if mf_busy fn m then mf_tasks_on m AND mf_tasks_tgt m else mf_tasks_tgt m\<rparr>"
  by (cases "mf_safe_fn m < GSM_MAX_FN")
     (auto simp: mframe_update_def mf_busy_def sint_diff_small Let_def not_less drop_bit_eq_div)

lemma mframe_schedule_ok:
  assumes "tdma_wf s" and "fn < GSM_MAX_FN" and "\<And>i. i < 32 \<Longrightarrow> bit (mf_tasks_tgt m) i \<Longrightarrow> i < 29"
    and "tasks = (if mf_busy fn m then mf_tasks_on m AND mf_tasks_tgt m else mf_tasks_tgt m)"
  shows "\<exists>m' s'. mframe_schedule fn (m, s) = Some (m', s') \<and> tdma_wf s' \<and> mf_tasks_on m' = tasks \<and>
     mf_tasks_tgt m' = mf_tasks_tgt m \<and> due s' = fold ag_mf_add (mf_due fn tasks [0..<32]) (due s)"
proof -
  let ?m = "m\<lparr>mf_tasks_on := tasks\<rparr>"
  have m: "mframe_update fn m = ?m" using update_busy [OF assms(2)] assms(4) by simp
  have "\<forall>i \<in> set [0..<32]. bit (mf_tasks_on ?m) i \<longrightarrow> i < 29"
    using assms(3,4) by (auto simp: bit_and_iff)
  with run_tasks_ok [of "(?m, s)" "[0..<32]" fn] assms(1)
  show ?thesis by (auto simp: mframe_schedule_def m mf_step_ok_def)
qed


text \<open>With the blocks of a BCCH and a CCCH asked for, the first block of the CCCH is due at frame 4, two frames before its first burst.\<close>

definition mframe_zero :: mframe_scheduler where
  "mframe_zero = \<lparr>mf_tasks_on = 0, mf_tasks_tgt = 0, mf_safe_fn = 0\<rparr>"

definition ccch_tasks :: u32 where
  "ccch_tasks = task_set (mf_task_nr MF_TASK_CCCH) OR task_set (mf_task_nr MF_TASK_BCCH_NORM)"

lemma ccch_tasks_bits: "i < 32 \<Longrightarrow> bit ccch_tasks i \<longleftrightarrow> i = 2 \<or> i = 0"
  by (auto simp: ccch_tasks_def bit_or_iff bit_task_set mf_task_nr_def mf_tasks_def)


end
