(* ===== verification/Fw_Trxcon.thy ===== *)
theory Fw_Trxcon
  imports Fw_Mframe
begin

text \<open>
  The multiframe tables of the firmware against those of trxcon. The two schedulers were written
  apart, the one for the DSP of a phone, the other for a transceiver, and serve the same channels of the
  same cells, so they have to agree on the frames of every channel. This theory says which logical
  channel the sets of a task serve in a channel combination and proves that they do.
\<close>

section \<open>The channels of the tasks\<close>

text \<open>The entries of one set and one flag of a task, with the logical channel of trxcon they serve.\<close>

datatype fw_row = Fw_Row (fr_task: mframe_task) (fr_set: mf_set) (fr_flags: u16) (fr_lchan: lchan_type)

definition sdcch_rows :: "mframe_task \<Rightarrow> lchan_type \<Rightarrow> lchan_type \<Rightarrow> fw_row list" where
  "sdcch_rows t c a = [Fw_Row t NB_QUAD_DL 0 c, Fw_Row t NB_QUAD_UL 0 c,
     Fw_Row t NB_QUAD_DL MF_F_SACCH a, Fw_Row t NB_QUAD_UL MF_F_SACCH a]"

definition sdcch4_rows :: "fw_row list" where
  "sdcch4_rows = sdcch_rows MF_TASK_SDCCH4_0 L1SCHED_SDCCH4_0 L1SCHED_SACCH4_0
     @ sdcch_rows MF_TASK_SDCCH4_1 L1SCHED_SDCCH4_1 L1SCHED_SACCH4_1
     @ sdcch_rows MF_TASK_SDCCH4_3 L1SCHED_SDCCH4_3 L1SCHED_SACCH4_3"

definition sdcch8_rows :: "fw_row list" where
  "sdcch8_rows = sdcch_rows MF_TASK_SDCCH8_0 L1SCHED_SDCCH8_0 L1SCHED_SACCH8_0
     @ sdcch_rows MF_TASK_SDCCH8_1 L1SCHED_SDCCH8_1 L1SCHED_SACCH8_1
     @ sdcch_rows MF_TASK_SDCCH8_3 L1SCHED_SDCCH8_3 L1SCHED_SACCH8_3
     @ sdcch_rows MF_TASK_SDCCH8_4 L1SCHED_SDCCH8_4 L1SCHED_SACCH8_4
     @ sdcch_rows MF_TASK_SDCCH8_5 L1SCHED_SDCCH8_5 L1SCHED_SACCH8_5
     @ sdcch_rows MF_TASK_SDCCH8_6 L1SCHED_SDCCH8_6 L1SCHED_SACCH8_6
     @ sdcch_rows MF_TASK_SDCCH8_7 L1SCHED_SDCCH8_7 L1SCHED_SACCH8_7"

text \<open>
  The rows of a channel combination, on a timeslot with an odd number or not. A half rate task also
  has to take the frames of the other subchannel, with the dummy set.
\<close>

fun fw_rows :: "pchan \<Rightarrow> bool \<Rightarrow> fw_row list" where
  "fw_rows GSM_PCHAN_CCCH odd_tn =
     [Fw_Row MF_TASK_BCCH_NORM NB_QUAD_DL 0 L1SCHED_BCCH, Fw_Row MF_TASK_CCCH NB_QUAD_DL 0 L1SCHED_CCCH]"
| "fw_rows GSM_PCHAN_CCCH_SDCCH4 odd_tn =
     [Fw_Row MF_TASK_BCCH_NORM NB_QUAD_DL 0 L1SCHED_BCCH, Fw_Row MF_TASK_CCCH_COMB NB_QUAD_DL 0 L1SCHED_CCCH]
     @ sdcch4_rows @ sdcch_rows MF_TASK_SDCCH4_2 L1SCHED_SDCCH4_2 L1SCHED_SACCH4_2"
| "fw_rows GSM_PCHAN_CCCH_SDCCH4_CBCH odd_tn =
     [Fw_Row MF_TASK_BCCH_NORM NB_QUAD_DL 0 L1SCHED_BCCH, Fw_Row MF_TASK_CCCH_COMB NB_QUAD_DL 0 L1SCHED_CCCH]
     @ sdcch4_rows @ [Fw_Row MF_TASK_SDCCH4_CBCH NB_QUAD_DL 0 L1SCHED_SDCCH4_CBCH]"
| "fw_rows GSM_PCHAN_SDCCH8_SACCH8C odd_tn =
     sdcch8_rows @ sdcch_rows MF_TASK_SDCCH8_2 L1SCHED_SDCCH8_2 L1SCHED_SACCH8_2"
| "fw_rows GSM_PCHAN_SDCCH8_SACCH8C_CBCH odd_tn =
     sdcch8_rows @ [Fw_Row MF_TASK_SDCCH8_CBCH NB_QUAD_DL 0 L1SCHED_SDCCH8_CBCH]"
| "fw_rows GSM_PCHAN_TCH_F odd_tn =
     (let t = if odd_tn then MF_TASK_TCH_F_ODD else MF_TASK_TCH_F_EVEN in
      [Fw_Row t MF_TCH 0 L1SCHED_TCHF, Fw_Row t MF_TCH_A MF_F_SACCH L1SCHED_SACCHTF])"
| "fw_rows GSM_PCHAN_TCH_H odd_tn =
     [Fw_Row MF_TASK_TCH_H_0 MF_TCH 0 L1SCHED_TCHH_0, Fw_Row MF_TASK_TCH_H_0 MF_TCH_D 0 L1SCHED_TCHH_1,
      Fw_Row MF_TASK_TCH_H_0 MF_TCH_A MF_F_SACCH L1SCHED_SACCHTH_0,
      Fw_Row MF_TASK_TCH_H_1 MF_TCH 0 L1SCHED_TCHH_1, Fw_Row MF_TASK_TCH_H_1 MF_TCH_D 0 L1SCHED_TCHH_0,
      Fw_Row MF_TASK_TCH_H_1 MF_TCH_A MF_F_SACCH L1SCHED_SACCHTH_1]"
| "fw_rows GSM_PCHAN_PDCH odd_tn = [Fw_Row MF_TASK_GPRS_PDTCH NB_QUAD_DL 0 L1SCHED_PDTCH]"
| "fw_rows _ odd_tn = []"

text \<open>A set of four frames begins with the first burst of a block; a set of one frame takes any burst, in both directions.\<close>

fun set_dirs :: "mf_set \<Rightarrow> bool list" where
  "set_dirs NB_QUAD_DL = [False]"
| "set_dirs NB_QUAD_UL = [True]"
| "set_dirs _ = [False, True]"

definition carries :: "fw_row \<Rightarrow> bool \<Rightarrow> tdma_frame \<Rightarrow> bool" where
  "carries r ul f \<longleftrightarrow> (if ul then ul_chan f else dl_chan f) = fr_lchan r \<and>
     (if fr_set r = NB_QUAD_DL \<or> fr_set r = NB_QUAD_UL then (if ul then ul_bid f else dl_bid f) = 0 else True)"

definition fr_entries :: "fw_row \<Rightarrow> mframe_sched_item list" where
  "fr_entries r = filter (\<lambda>si. mi_set si = fr_set r \<and> mi_flags si = fr_flags r) (task_table (mf_task_nr (fr_task r)))"

section \<open>One period of a layout\<close>

text \<open>The check of one row: all its entries have one period, which divides the one of the layout, and list the frames of the channel.\<close>

fun positions :: "(tdma_frame \<Rightarrow> bool) \<Rightarrow> nat \<Rightarrow> tdma_frame list \<Rightarrow> nat list" where
  "positions P n [] = []"
| "positions P n (f # fs) = (if P f then n # positions P (Suc n) fs else positions P (Suc n) fs)"

definition entry_frames :: "nat \<Rightarrow> nat \<Rightarrow> mframe_sched_item list \<Rightarrow> nat list" where
  "entry_frames m P es = concat (map (\<lambda>k. map (\<lambda>si. k * m + mi_frame_nr si mod m) es) [0..<P div m])"

definition entries_ok :: "nat \<Rightarrow> mframe_sched_item list \<Rightarrow> nat list list \<Rightarrow> nat \<Rightarrow> bool" where
  "entries_ok m es ps P \<longleftrightarrow> 0 < m \<and> P mod m = 0 \<and> list_all (\<lambda>si. mi_modulo si = m) es \<and>
     list_all ((=) (entry_frames m P es)) ps"

definition row_ok :: "tdma_frame list \<Rightarrow> fw_row \<Rightarrow> bool" where
  "row_ok frames r \<longleftrightarrow> (case fr_entries r of [] \<Rightarrow> False
     | si # sis \<Rightarrow> entries_ok (mi_modulo si) (si # sis) (map (\<lambda>ul. positions (carries r ul) 0 frames) (set_dirs (fr_set r)))
         (length frames))"

lemma rows_ccch: "list_all (row_ok frame_bcch) (fw_rows GSM_PCHAN_CCCH odd_tn)"
  unfolding fw_rows.simps by code_simp

lemma rows_ccch_sdcch4: "list_all (row_ok frame_bcch_sdcch4) (fw_rows GSM_PCHAN_CCCH_SDCCH4 odd_tn)"
  unfolding fw_rows.simps by code_simp

lemma rows_ccch_cbch: "list_all (row_ok frame_bcch_sdcch4_cbch) (fw_rows GSM_PCHAN_CCCH_SDCCH4_CBCH odd_tn)"
  unfolding fw_rows.simps by code_simp

lemma rows_sdcch8: "list_all (row_ok frame_sdcch8) (fw_rows GSM_PCHAN_SDCCH8_SACCH8C odd_tn)"
  unfolding fw_rows.simps by code_simp

lemma rows_sdcch8_cbch: "list_all (row_ok frame_sdcch8_cbch) (fw_rows GSM_PCHAN_SDCCH8_SACCH8C_CBCH odd_tn)"
  unfolding fw_rows.simps by code_simp

lemma rows_tchf_ts0: "list_all (row_ok frame_tchf_ts0) (fw_rows GSM_PCHAN_TCH_F False)"
  by code_simp

lemma rows_tchf_ts1: "list_all (row_ok frame_tchf_ts1) (fw_rows GSM_PCHAN_TCH_F True)"
  by code_simp

lemma rows_tchf_ts2: "list_all (row_ok frame_tchf_ts2) (fw_rows GSM_PCHAN_TCH_F False)"
  by code_simp

lemma rows_tchf_ts3: "list_all (row_ok frame_tchf_ts3) (fw_rows GSM_PCHAN_TCH_F True)"
  by code_simp

lemma rows_tchf_ts4: "list_all (row_ok frame_tchf_ts4) (fw_rows GSM_PCHAN_TCH_F False)"
  by code_simp

lemma rows_tchf_ts5: "list_all (row_ok frame_tchf_ts5) (fw_rows GSM_PCHAN_TCH_F True)"
  by code_simp

lemma rows_tchf_ts6: "list_all (row_ok frame_tchf_ts6) (fw_rows GSM_PCHAN_TCH_F False)"
  by code_simp

lemma rows_tchf_ts7: "list_all (row_ok frame_tchf_ts7) (fw_rows GSM_PCHAN_TCH_F True)"
  by code_simp

lemma rows_tchh_ts01: "list_all (row_ok frame_tchh_ts01) (fw_rows GSM_PCHAN_TCH_H odd_tn)"
  unfolding fw_rows.simps by code_simp

lemma rows_tchh_ts23: "list_all (row_ok frame_tchh_ts23) (fw_rows GSM_PCHAN_TCH_H odd_tn)"
  unfolding fw_rows.simps by code_simp

lemma rows_tchh_ts45: "list_all (row_ok frame_tchh_ts45) (fw_rows GSM_PCHAN_TCH_H odd_tn)"
  unfolding fw_rows.simps by code_simp

lemma rows_tchh_ts67: "list_all (row_ok frame_tchh_ts67) (fw_rows GSM_PCHAN_TCH_H odd_tn)"
  unfolding fw_rows.simps by code_simp

lemma rows_pdch: "list_all (row_ok frame_pdch) (fw_rows GSM_PCHAN_PDCH odd_tn)"
  unfolding fw_rows.simps by code_simp

lemmas rows_checks = rows_ccch rows_ccch_sdcch4 rows_ccch_cbch rows_sdcch8 rows_sdcch8_cbch rows_tchf_ts0 rows_tchf_ts1 rows_tchf_ts2 rows_tchf_ts3 rows_tchf_ts4 rows_tchf_ts5 rows_tchf_ts6 rows_tchf_ts7 rows_tchh_ts01 rows_tchh_ts23 rows_tchh_ts45 rows_tchh_ts67 rows_pdch

lemma rows_none: "list_all (row_ok fs) (fw_rows GSM_PCHAN_NONE odd_tn)"
  by simp

lemma layout_rows:
  assumes "l1sched_mframe_layout config tn = Some mf" "tn < 8"
  shows "list_all (row_ok (mf_frames mf)) (fw_rows config (odd tn))"
  using assms(1) unfolding l1sched_mframe_layout_def slotmask_bit [OF assms(2)] using timeslot_cases [OF assms(2)]
  by (cases config) (elim disjE; clarsimp simp: layouts_def mk_mframe_def rows_checks rows_none simp del: fw_rows.simps)+

section \<open>Every frame\<close>

lemma positions_iff: "n \<in> set (positions P k fs) \<longleftrightarrow> k \<le> n \<and> n < k + length fs \<and> P (fs ! (n - k))"
proof (induction fs arbitrary: k)
  case (Cons f fs)
  have "n \<in> set (positions P (Suc k) fs) \<longleftrightarrow> k < n \<and> n < k + length (f # fs) \<and> P ((f # fs) ! (n - k))"
    using Cons.IH [of "Suc k"] by (auto simp: nth_Cons' Suc_le_eq diff_Suc_eq_diff_pred [symmetric])
  then show ?case by (cases "n = k") auto
qed simp

lemma entry_frames_iff:
  assumes "0 < m" "P mod m = 0" "list_all (\<lambda>si. mi_modulo si = m) es" "n < P"
  shows "n \<in> set (entry_frames m P es) \<longleftrightarrow> (\<exists>si \<in> set es. n mod mi_modulo si = mi_frame_nr si mod mi_modulo si)"
proof
  assume "n \<in> set (entry_frames m P es)"
  then show "\<exists>si \<in> set es. n mod mi_modulo si = mi_frame_nr si mod mi_modulo si"
    using assms(3) by (auto simp: entry_frames_def list_all_iff)
next
  assume "\<exists>si \<in> set es. n mod mi_modulo si = mi_frame_nr si mod mi_modulo si"
  then obtain si where "si \<in> set es" "n mod m = mi_frame_nr si mod m" using assms(3) by (auto simp: list_all_iff)
  moreover have "n div m < P div m"
    using assms(1,2,4) less_mult_imp_div_less [of n "P div m" m] mult_div_mod_eq [of m P] by (simp add: mult.commute)
  moreover have "n = n div m * m + n mod m" by simp
  ultimately show "n \<in> set (entry_frames m P es)"
    by (auto simp: entry_frames_def intro!: bexI [of _ "n div m"] bexI [of _ si])
qed

lemma row_frames:
  assumes "row_ok frames r" "ul \<in> set (set_dirs (fr_set r))" "n < length frames"
  shows "(\<exists>si \<in> set (fr_entries r). n mod mi_modulo si = mi_frame_nr si mod mi_modulo si) \<longleftrightarrow> carries r ul (frames ! n)"
    and "si \<in> set (fr_entries r) \<Longrightarrow> length frames mod mi_modulo si = 0"
proof -
  obtain m where ok: "entries_ok m (fr_entries r) (map (\<lambda>ul. positions (carries r ul) 0 frames) (set_dirs (fr_set r))) (length frames)"
    using assms(1) by (auto simp: row_ok_def split: list.splits)
  then have "entry_frames m (length frames) (fr_entries r) = positions (carries r ul) 0 frames"
    using assms(2) by (auto simp: entries_ok_def list_all_iff)
  then show "(\<exists>si \<in> set (fr_entries r). n mod mi_modulo si = mi_frame_nr si mod mi_modulo si) \<longleftrightarrow> carries r ul (frames ! n)"
    using entry_frames_iff [of m "length frames" "fr_entries r" n] positions_iff [of n "carries r ul" 0 frames] ok assms(3)
    by (simp add: entries_ok_def)
  show "si \<in> set (fr_entries r) \<Longrightarrow> length frames mod mi_modulo si = 0"
    using ok by (auto simp: entries_ok_def list_all_iff)
qed

text \<open>
  The firmware is two frames ahead of the air and does not wrap the frame number it looks at, trxcon
  gets the frame number of the burst; a hyperframe is a whole number of periods.
\<close>

lemma fw_frame_number: "fn < (GSM_MAX_FN :: u32) \<Longrightarrow> unat (fn + SCHEDULE_AHEAD) = unat fn + 2"
  by (simp add: unat_word_ariths word_less_nat_alt)

lemma layout_periods: "mf \<in> set layouts \<Longrightarrow> mf_period mf = 0 \<or> 2715648 mod mf_period mf = 0"
  by (auto simp: layouts_def mk_mframe_def)

lemma row_due:
  assumes "l1sched_mframe_layout config tn = Some mf" "tn < 8" "r \<in> set (fw_rows config (odd tn))"
    and "ul \<in> set (set_dirs (fr_set r))" "fn < GSM_MAX_FN"
  shows "(\<exists>si \<in> set (fr_entries r). mi_due fn si) \<longleftrightarrow> carries r ul (mf_frame mf ((unat fn + 2) mod 2715648))"
proof -
  have ok: "row_ok (mf_frames mf) r" using layout_rows [OF assms(1,2)] assms(3) by (simp add: list_all_iff)
  note len = mf_check_length [OF mframe_layout_check [OF assms(1)]]
  have "config \<noteq> GSM_PCHAN_NONE" using assms(3) by (cases config) auto
  then have pos: "0 < mf_period mf" using mframe_layout_period [OF assms(1)] by simp
  let ?n = "(unat fn + 2) mod mf_period mf"
  have wrap: "(unat fn + 2) mod 2715648 mod mf_period mf = ?n"
    using layout_periods [OF mframe_layout_in [OF assms(1)]] pos by (auto intro: mod_mod_cancel)
  have "mi_due fn si \<longleftrightarrow> ?n mod mi_modulo si = mi_frame_nr si mod mi_modulo si" if "si \<in> set (fr_entries r)" for si
    using row_frames(2) [OF ok assms(4) _ that, of 0] pos len
    by (simp add: mi_due_def fw_frame_number [OF assms(5)] mod_mod_cancel mod_eq_0_iff_dvd)
  then show ?thesis
    using row_frames(1) [OF ok assms(4), of ?n] pos len unfolding mf_frame_def wrap by simp
qed



end
