(* ===== verification/Trxcon.thy ===== *)
theory Trxcon
  imports Sched_Run L1gprs Trx_If "HOL-Library.Signed_Division"
begin

text \<open>
  The state machine of trxcon (\<^verbatim>\<open>src/src/host/trxcon/src/trxcon_fsm.c\<close>), the layer between the scheduler and
  its users (\<^verbatim>\<open>trxcon_shim.c\<close>) and the messages trxcon sends to layer 2/3 (the first half of \<^verbatim>\<open>l1ctl.c\<close>).
  Here the components meet: an event of the machine changes the scheduler, the GPRS state and the
  transceiver interface, and what these report comes back as events.
\<close>

section \<open>State\<close>

datatype trxcon_state = TRXCON_ST_RESET | TRXCON_ST_FULL_POWER_SCAN | TRXCON_ST_FBSB_SEARCH
  | TRXCON_ST_BCCH_CCCH | TRXCON_ST_DEDICATED | TRXCON_ST_PACKET_DATA

text \<open>
  The instance, with what the state machine library keeps for it: the state and the timer, with its
  timeout in milliseconds. The L2 connection is there or not, and collects the messages sent; a
  terminated instance is freed. A request for a full power scan is its first and last ARFCN.
\<close>

record trxcon_inst =
  tr_state :: trxcon_state
  tr_timer :: "nat option"
  tr_sched :: l1sched_state
  tr_gprs :: "l1gprs_state option"
  tr_phyif :: "trx_instance option"
  tr_l2if :: bool
  tr_fi_data :: "(u16 \<times> u16) option"
  tr_band_arfcn :: u16
  tr_tx_power :: u8
  tr_tsc :: u8
  tr_ta :: u8
  tr_fbsb_extend_fns :: nat
  tr_l1ctl_out :: "u8 list list"
  tr_freed :: bool

definition trxcon_inst_alloc :: "trx_instance \<Rightarrow> trxcon_inst" where
  "trxcon_inst_alloc phyif = \<lparr>tr_state = TRXCON_ST_RESET, tr_timer = None, tr_sched = l1sched_alloc, tr_gprs = None,
     tr_phyif = Some phyif, tr_l2if = True, tr_fi_data = None, tr_band_arfcn = 0, tr_tx_power = 0, tr_tsc = 0, tr_ta = 0,
     tr_fbsb_extend_fns = 0, tr_l1ctl_out = [], tr_freed = False\<rparr>"

section \<open>Events\<close>

record data_req_param =
  dr_traffic :: bool
  dr_chan_nr :: u8
  dr_link_id :: u8
  dr_data_len :: u32
  dr_data :: "u8 list"

record data_cnf_param =
  dc_traffic :: bool
  dc_chan_nr :: u8
  dc_link_id :: u8
  dc_band_arfcn :: u16
  dc_frame_nr :: u32
  dc_data :: "u8 list"

record data_ind_param =
  dd_traffic :: bool
  dd_chan_nr :: u8
  dd_link_id :: u8
  dd_band_arfcn :: u16
  dd_frame_nr :: u32
  dd_toa256 :: u16
  dd_rssi :: u8
  dd_n_errors :: int
  dd_n_bits_total :: int
  dd_data :: "u8 list"

record ab_req_param =
  ab_chan_nr :: u8
  ab_link_id :: u8
  ab_offset :: u8
  ab_synch_seq :: u8
  ab_ra :: u16
  ab_is_11bit :: bool

datatype dch_freq = H0 u16 | H1 (h1_hsn: u8) (h1_maio: u8) (h1_ma: "u16 list")

record dch_est_param =
  de_chan_nr :: u8
  de_tch_mode :: u8
  de_tsc :: u8
  de_freq :: dch_freq

datatype phy_config = CFGT_PCHAN_COMB u8 pchan | CFGT_TX_PARAMS u8 u8

datatype trxcon_event =
    TRXCON_EV_PHYIF_FAILURE | TRXCON_EV_L2IF_FAILURE
  | TRXCON_EV_RESET_FULL_REQ | TRXCON_EV_RESET_SCHED_REQ
  | TRXCON_EV_FULL_POWER_SCAN_REQ u16 u16 | TRXCON_EV_FULL_POWER_SCAN_RES u16 int
  | TRXCON_EV_FBSB_SEARCH_REQ u16 u16 pchan | TRXCON_EV_FBSB_SEARCH_RES
  | TRXCON_EV_SET_CCCH_MODE_REQ pchan | TRXCON_EV_SET_TCH_MODE_REQ u8 u8 u8
  | TRXCON_EV_SET_PHY_CONFIG_REQ phy_config
  | TRXCON_EV_TX_ACCESS_BURST_REQ ab_req_param | TRXCON_EV_TX_ACCESS_BURST_CNF u16 u32
  | TRXCON_EV_UPDATE_SACCH_CACHE_REQ data_req_param
  | TRXCON_EV_DCH_EST_REQ dch_est_param | TRXCON_EV_DCH_REL_REQ
  | TRXCON_EV_TX_DATA_REQ data_req_param | TRXCON_EV_TX_DATA_CNF data_cnf_param
  | TRXCON_EV_RX_DATA_IND data_ind_param
  | TRXCON_EV_CRYPTO_REQ u8 u8 u8 "u8 list"
  | TRXCON_EV_GPRS_UL_TBF_CFG_REQ "u8 list" | TRXCON_EV_GPRS_DL_TBF_CFG_REQ "u8 list"
  | TRXCON_EV_GPRS_UL_BLOCK_REQ "u8 list"

text \<open>The tables of the machine: the states a state may change to, and the events it takes.\<close>

fun trxcon_out_states :: "trxcon_state \<Rightarrow> trxcon_state list" where
  "trxcon_out_states TRXCON_ST_RESET = [TRXCON_ST_FBSB_SEARCH, TRXCON_ST_FULL_POWER_SCAN]"
| "trxcon_out_states TRXCON_ST_FULL_POWER_SCAN = [TRXCON_ST_RESET, TRXCON_ST_FULL_POWER_SCAN]"
| "trxcon_out_states TRXCON_ST_FBSB_SEARCH = [TRXCON_ST_RESET, TRXCON_ST_BCCH_CCCH]"
| "trxcon_out_states TRXCON_ST_BCCH_CCCH = [TRXCON_ST_RESET, TRXCON_ST_FBSB_SEARCH, TRXCON_ST_DEDICATED, TRXCON_ST_PACKET_DATA]"
| "trxcon_out_states TRXCON_ST_DEDICATED = [TRXCON_ST_RESET, TRXCON_ST_FBSB_SEARCH, TRXCON_ST_DEDICATED, TRXCON_ST_PACKET_DATA]"
| "trxcon_out_states TRXCON_ST_PACKET_DATA = [TRXCON_ST_RESET, TRXCON_ST_FBSB_SEARCH, TRXCON_ST_DEDICATED, TRXCON_ST_PACKET_DATA]"

fun trxcon_allstate :: "trxcon_event \<Rightarrow> bool" where
  "trxcon_allstate TRXCON_EV_PHYIF_FAILURE = True"
| "trxcon_allstate TRXCON_EV_L2IF_FAILURE = True"
| "trxcon_allstate TRXCON_EV_RESET_FULL_REQ = True"
| "trxcon_allstate TRXCON_EV_RESET_SCHED_REQ = True"
| "trxcon_allstate (TRXCON_EV_SET_PHY_CONFIG_REQ c) = True"
| "trxcon_allstate (TRXCON_EV_UPDATE_SACCH_CACHE_REQ d) = True"
| "trxcon_allstate _ = False"

fun trxcon_in_event :: "trxcon_state \<Rightarrow> trxcon_event \<Rightarrow> bool" where
  "trxcon_in_event TRXCON_ST_RESET ev \<longleftrightarrow> (case ev of
     TRXCON_EV_FBSB_SEARCH_REQ _ _ _ \<Rightarrow> True | TRXCON_EV_FULL_POWER_SCAN_REQ _ _ \<Rightarrow> True | _ \<Rightarrow> False)"
| "trxcon_in_event TRXCON_ST_FULL_POWER_SCAN ev \<longleftrightarrow> (case ev of
     TRXCON_EV_FULL_POWER_SCAN_RES _ _ \<Rightarrow> True | TRXCON_EV_FULL_POWER_SCAN_REQ _ _ \<Rightarrow> True | _ \<Rightarrow> False)"
| "trxcon_in_event TRXCON_ST_FBSB_SEARCH ev \<longleftrightarrow> (case ev of TRXCON_EV_FBSB_SEARCH_RES \<Rightarrow> True | _ \<Rightarrow> False)"
| "trxcon_in_event TRXCON_ST_BCCH_CCCH ev \<longleftrightarrow> (case ev of
     TRXCON_EV_RX_DATA_IND _ \<Rightarrow> True | TRXCON_EV_SET_CCCH_MODE_REQ _ \<Rightarrow> True | TRXCON_EV_TX_ACCESS_BURST_REQ _ \<Rightarrow> True
   | TRXCON_EV_TX_ACCESS_BURST_CNF _ _ \<Rightarrow> True | TRXCON_EV_DCH_EST_REQ _ \<Rightarrow> True | _ \<Rightarrow> False)"
| "trxcon_in_event TRXCON_ST_DEDICATED ev \<longleftrightarrow> (case ev of
     TRXCON_EV_DCH_REL_REQ \<Rightarrow> True | TRXCON_EV_DCH_EST_REQ _ \<Rightarrow> True | TRXCON_EV_TX_ACCESS_BURST_REQ _ \<Rightarrow> True
   | TRXCON_EV_TX_ACCESS_BURST_CNF _ _ \<Rightarrow> True | TRXCON_EV_SET_TCH_MODE_REQ _ _ _ \<Rightarrow> True | TRXCON_EV_TX_DATA_REQ _ \<Rightarrow> True
   | TRXCON_EV_TX_DATA_CNF _ \<Rightarrow> True | TRXCON_EV_RX_DATA_IND _ \<Rightarrow> True | TRXCON_EV_CRYPTO_REQ _ _ _ _ \<Rightarrow> True | _ \<Rightarrow> False)"
| "trxcon_in_event TRXCON_ST_PACKET_DATA ev \<longleftrightarrow> (case ev of
     TRXCON_EV_DCH_REL_REQ \<Rightarrow> True | TRXCON_EV_DCH_EST_REQ _ \<Rightarrow> True | TRXCON_EV_TX_ACCESS_BURST_REQ _ \<Rightarrow> True
   | TRXCON_EV_TX_ACCESS_BURST_CNF _ _ \<Rightarrow> True | TRXCON_EV_GPRS_UL_TBF_CFG_REQ _ \<Rightarrow> True | TRXCON_EV_GPRS_DL_TBF_CFG_REQ _ \<Rightarrow> True
   | TRXCON_EV_GPRS_UL_BLOCK_REQ _ \<Rightarrow> True | TRXCON_EV_RX_DATA_IND _ \<Rightarrow> True | TRXCON_EV_TX_DATA_CNF _ \<Rightarrow> True | _ \<Rightarrow> False)"

section \<open>Messages to layer 2/3\<close>

text \<open>A message is built in a buffer of \<^verbatim>\<open>L1CTL_LENGTH\<close> = 512 octets; \<^verbatim>\<open>msgb_put\<close> aborts when it is full.\<close>

definition trxcon_l1ctl_send :: "u8 list \<Rightarrow> trxcon_inst \<Rightarrow> trxcon_inst option" where
  "trxcon_l1ctl_send msg tr = (if tr_l2if tr then Some (tr\<lparr>tr_l1ctl_out := tr_l1ctl_out tr @ [msg]\<rparr>) else None)"

definition l1ctl_alloc_msg :: "u8 \<Rightarrow> u8 list" where
  "l1ctl_alloc_msg msg_type = [msg_type, 0, 0, 0]"

definition l1ctl_tx_pm_conf :: "libosmo \<Rightarrow> u16 \<Rightarrow> int \<Rightarrow> bool \<Rightarrow> trxcon_inst \<Rightarrow> trxcon_inst option" where
  "l1ctl_tx_pm_conf L band_arfcn dbm is_last tr =
     (let msg = l1ctl_alloc_msg 0x09 @ be16_octets band_arfcn @ [dbm2rxlev L dbm, 0];
          msg = (if is_last then msg[1 := 0x01] else msg) in
      trxcon_l1ctl_send msg tr)"

definition l1ctl_tx_reset_ind :: "u8 \<Rightarrow> trxcon_inst \<Rightarrow> trxcon_inst option" where
  "l1ctl_tx_reset_ind type tr = trxcon_l1ctl_send (l1ctl_alloc_msg 0x07 @ [type, 0, 0, 0]) tr"

definition l1ctl_tx_reset_conf :: "u8 \<Rightarrow> trxcon_inst \<Rightarrow> trxcon_inst option" where
  "l1ctl_tx_reset_conf type tr = trxcon_l1ctl_send (l1ctl_alloc_msg 0x0e @ [type, 0, 0, 0]) tr"

record info_dl =
  dl_chan_nr :: u8
  dl_link_id :: u8
  dl_band_arfcn :: u16
  dl_frame_nr :: u32
  dl_rx_level :: u8
  dl_num_biterr :: u8
  dl_fire_crc :: u8

definition zero_info_dl :: info_dl where
  "zero_info_dl = \<lparr>dl_chan_nr = 0, dl_link_id = 0, dl_band_arfcn = 0, dl_frame_nr = 0, dl_rx_level = 0, dl_num_biterr = 0, dl_fire_crc = 0\<rparr>"

definition put_dl_info_hdr :: "info_dl \<Rightarrow> u8 list" where
  "put_dl_info_hdr d = [dl_chan_nr d, dl_link_id d] @ be16_octets (dl_band_arfcn d) @ be32_octets (dl_frame_nr d) @
     [dl_rx_level d, 0, dl_num_biterr d, dl_fire_crc d]"

definition fbsb_conf_make :: "u8 \<Rightarrow> u8 \<Rightarrow> u8 list" where
  "fbsb_conf_make result bsic = [0, 0, result, bsic]"

definition l1ctl_tx_fbsb_fail :: "u16 \<Rightarrow> trxcon_inst \<Rightarrow> trxcon_inst option" where
  "l1ctl_tx_fbsb_fail band_arfcn tr = trxcon_l1ctl_send
     (l1ctl_alloc_msg 0x02 @ put_dl_info_hdr (zero_info_dl\<lparr>dl_band_arfcn := band_arfcn\<rparr>) @ fbsb_conf_make 255 0) tr"

definition l1ctl_tx_fbsb_conf :: "u16 \<Rightarrow> u8 \<Rightarrow> trxcon_inst \<Rightarrow> trxcon_inst option" where
  "l1ctl_tx_fbsb_conf band_arfcn bsic tr = trxcon_l1ctl_send
     (l1ctl_alloc_msg 0x02 @ put_dl_info_hdr (zero_info_dl\<lparr>dl_band_arfcn := band_arfcn\<rparr>) @ fbsb_conf_make 0 bsic) tr"

definition l1ctl_tx_ccch_mode_conf :: "u8 \<Rightarrow> trxcon_inst \<Rightarrow> trxcon_inst option" where
  "l1ctl_tx_ccch_mode_conf mode tr = trxcon_l1ctl_send (l1ctl_alloc_msg 0x11 @ [mode, 0, 0, 0]) tr"

definition l1ctl_tx_dt_ind :: "libosmo \<Rightarrow> data_ind_param \<Rightarrow> trxcon_inst \<Rightarrow> trxcon_inst option" where
  "l1ctl_tx_dt_ind L ind tr =
     (let hdr = \<lparr>dl_chan_nr = dd_chan_nr ind, dl_link_id = dd_link_id ind, dl_band_arfcn = dd_band_arfcn ind,
                 dl_frame_nr = dd_frame_nr ind, dl_rx_level = dbm2rxlev L (sint (dd_rssi ind)),
                 dl_num_biterr = word_of_int (dd_n_errors ind), dl_fire_crc = if dd_data ind \<noteq> [] then 0 else 2\<rparr>;
          msg = l1ctl_alloc_msg (if dd_traffic ind then 0x1e else 0x03) @ put_dl_info_hdr hdr @ dd_data ind in
      if length msg > 512 then None else trxcon_l1ctl_send msg tr)"

definition l1ctl_tx_rach_conf :: "u16 \<Rightarrow> u32 \<Rightarrow> trxcon_inst \<Rightarrow> trxcon_inst option" where
  "l1ctl_tx_rach_conf band_arfcn frame_nr tr = trxcon_l1ctl_send
     (l1ctl_alloc_msg 0x0c @ put_dl_info_hdr (zero_info_dl\<lparr>dl_band_arfcn := band_arfcn, dl_frame_nr := frame_nr\<rparr>)) tr"

definition l1ctl_tx_dt_conf :: "data_cnf_param \<Rightarrow> trxcon_inst \<Rightarrow> trxcon_inst option" where
  "l1ctl_tx_dt_conf cnf tr = trxcon_l1ctl_send
     (l1ctl_alloc_msg (if dc_traffic cnf then 0x1d else 0x0f) @
      put_dl_info_hdr (zero_info_dl\<lparr>dl_chan_nr := dc_chan_nr cnf, dl_link_id := dc_link_id cnf,
        dl_frame_nr := dc_frame_nr cnf, dl_band_arfcn := dc_band_arfcn cnf\<rparr>)) tr"

section \<open>Changing state\<close>

text \<open>A command to the transceiver interface, which is gone after a failure of it.\<close>

definition trxcon_phyif_handle_cmd :: "libosmo \<Rightarrow> phyif_cmd \<Rightarrow> trxcon_inst \<Rightarrow> (int \<times> trxcon_inst) option" where
  "trxcon_phyif_handle_cmd L c tr = do {
     t \<leftarrow> tr_phyif tr;
     let (rc, t) = trx_if_handle_phyif_cmd L c t in Some (rc, tr\<lparr>tr_phyif := Some t\<rparr>) }"

definition trxcon_st_full_power_scan_onenter :: "libosmo \<Rightarrow> trxcon_inst \<Rightarrow> trxcon_inst option" where
  "trxcon_st_full_power_scan_onenter L tr = do {
     (start, stop) \<leftarrow> tr_fi_data tr;
     map_option snd (trxcon_phyif_handle_cmd L (CMDT_MEASURE start) tr) }"

definition trxcon_st_packet_data_onenter :: "trxcon_inst \<Rightarrow> trxcon_inst option" where
  "trxcon_st_packet_data_onenter tr =
     (if tr_gprs tr \<noteq> None then None else Some (tr\<lparr>tr_gprs := Some l1gprs_state_alloc\<rparr>))"

definition trxcon_st_packet_data_onleave :: "trxcon_inst \<Rightarrow> trxcon_inst" where
  "trxcon_st_packet_data_onleave tr = tr\<lparr>tr_gprs := None\<rparr>"

text \<open>
  A change of state: refused unless the table has it; the old state is left, its timer deleted, the
  new one started if there is a timeout, and the new state entered.
\<close>

definition trxcon_state_chg :: "libosmo \<Rightarrow> trxcon_state \<Rightarrow> nat \<Rightarrow> trxcon_inst \<Rightarrow> trxcon_inst option" where
  "trxcon_state_chg L st timeout_ms tr =
     (if st \<notin> set (trxcon_out_states (tr_state tr)) then Some tr
      else let tr = (if tr_state tr = TRXCON_ST_PACKET_DATA then trxcon_st_packet_data_onleave tr else tr);
               tr = tr\<lparr>tr_timer := if timeout_ms = 0 then None else Some timeout_ms, tr_state := st\<rparr> in
        if st = TRXCON_ST_FULL_POWER_SCAN then trxcon_st_full_power_scan_onenter L tr
        else if st = TRXCON_ST_PACKET_DATA then trxcon_st_packet_data_onenter tr
        else Some tr)"

text \<open>
  What the operations of the scheduler tell the user on the way is the channel combination of a
  timeslot, which goes to the transceiver at once (\<^verbatim>\<open>l1sched_prim_to_user()\<close>).
\<close>

fun comb_inds :: "libosmo \<Rightarrow> msgb list \<Rightarrow> trxcon_inst \<Rightarrow> trxcon_inst option" where
  "comb_inds L [] tr = Some tr"
| "comb_inds L (m # ms) tr = (case mb_prim m of
     PCHAN_COMB_IND tn pchan \<Rightarrow> do {
       (_, tr) \<leftarrow> trxcon_phyif_handle_cmd L (CMDT_SETSLOT tn pchan) tr;
       comb_inds L ms tr }
   | _ \<Rightarrow> None)"

definition with_sched :: "libosmo \<Rightarrow> (l1sched_state \<Rightarrow> ('a \<times> l1sched_state) option) \<Rightarrow> trxcon_inst \<Rightarrow> ('a \<times> trxcon_inst) option" where
  "with_sched L f tr = do {
     (a, s) \<leftarrow> f (tr_sched tr);
     tr \<leftarrow> comb_inds L (sc_out s) (tr\<lparr>tr_sched := s\<lparr>sc_out := []\<rparr>\<rparr>);
     Some (a, tr) }"

definition sched_reset :: "libosmo \<Rightarrow> trxcon_inst \<Rightarrow> trxcon_inst option" where
  "sched_reset L tr = map_option snd (with_sched L (\<lambda>s. map_option (Pair ()) (l1sched_reset L s)) tr)"

definition with_ts :: "nat \<Rightarrow> (l1sched_ts \<Rightarrow> ('a \<times> l1sched_ts) option) \<Rightarrow> trxcon_inst \<Rightarrow> ('a \<times> trxcon_inst) option" where
  "with_ts tn f tr = do {
     slot \<leftarrow> index_at (sc_ts (tr_sched tr)) tn;
     ts \<leftarrow> slot;
     (a, ts) \<leftarrow> f ts;
     Some (a, tr\<lparr>tr_sched := set_ts tn (Some ts) (tr_sched tr)\<rparr>) }"

text \<open>Termination frees the scheduler, the GPRS state, the connections and the instance; events of the scheduler are refused meanwhile.\<close>

definition trxcon_fsm_pre_term_cb :: "libosmo \<Rightarrow> trxcon_inst \<Rightarrow> trxcon_inst option" where
  "trxcon_fsm_pre_term_cb L tr = do {
     s \<leftarrow> l1sched_free L (tr_sched tr);
     Some (tr\<lparr>tr_sched := s\<lparr>sc_out := []\<rparr>, tr_gprs := None, tr_l2if := False, tr_phyif := trx_if_close (tr_phyif tr), tr_freed := True\<rparr>) }"

section \<open>Actions\<close>

text \<open>Each returns whether the request was applied, for the two that are asked. A branch the code asserts away is \<^term>\<open>None\<close>.\<close>

fun trxcon_allstate_action :: "libosmo \<Rightarrow> trxcon_event \<Rightarrow> trxcon_inst \<Rightarrow> trxcon_inst option" where
  "trxcon_allstate_action L TRXCON_EV_PHYIF_FAILURE tr = trxcon_fsm_pre_term_cb L (tr\<lparr>tr_phyif := None\<rparr>)"
| "trxcon_allstate_action L TRXCON_EV_L2IF_FAILURE tr = trxcon_fsm_pre_term_cb L (tr\<lparr>tr_l2if := False\<rparr>)"
| "trxcon_allstate_action L TRXCON_EV_RESET_FULL_REQ tr = do {
     tr \<leftarrow> (let tr = tr\<lparr>tr_fi_data := None\<rparr> in
           if tr_state tr \<noteq> TRXCON_ST_RESET then trxcon_state_chg L TRXCON_ST_RESET 0 tr else Some tr);
     tr \<leftarrow> sched_reset L tr;
     map_option snd (trxcon_phyif_handle_cmd L CMDT_RESET (tr\<lparr>tr_band_arfcn := 0xffff, tr_tx_power := 0, tr_ta := 0\<rparr>)) }"
| "trxcon_allstate_action L TRXCON_EV_RESET_SCHED_REQ tr = sched_reset L tr"
| "trxcon_allstate_action L (TRXCON_EV_SET_PHY_CONFIG_REQ (CFGT_PCHAN_COMB tn pchan)) tr =
     map_option snd (trxcon_phyif_handle_cmd L (CMDT_SETSLOT tn pchan) tr)"
| "trxcon_allstate_action L (TRXCON_EV_SET_PHY_CONFIG_REQ (CFGT_TX_PARAMS ta tx_power)) tr = do {
     tr \<leftarrow> (if sint (tr_ta tr) \<noteq> int (unat ta) then map_option snd (trxcon_phyif_handle_cmd L (CMDT_SETTA ta) tr) else Some tr);
     Some (tr\<lparr>tr_tx_power := tx_power, tr_ta := ta\<rparr>) }"
| "trxcon_allstate_action L (TRXCON_EV_UPDATE_SACCH_CACHE_REQ req) tr =
     (if dr_link_id req \<noteq> L1SCHED_CH_LID_SACCH then Some tr
      else if unat (dr_data_len req) \<noteq> GSM_MACBLOCK_LEN then Some tr
      else do { data \<leftarrow> read_at 0 (unat (dr_data_len req)) (dr_data req);
                Some (tr\<lparr>tr_sched := (tr_sched tr)\<lparr>sc_sacch_cache := data\<rparr>\<rparr>) })"
| "trxcon_allstate_action L _ tr = None"

text \<open>The timer of a state, which is deleted by firing.\<close>

definition trxcon_timer_cb :: "libosmo \<Rightarrow> trxcon_inst \<Rightarrow> trxcon_inst option" where
  "trxcon_timer_cb L tr =
     (let tr = tr\<lparr>tr_timer := None\<rparr> in
      if tr_state tr = TRXCON_ST_FBSB_SEARCH then do {
        tr \<leftarrow> l1ctl_tx_fbsb_fail (tr_band_arfcn tr) tr;
        trxcon_state_chg L TRXCON_ST_RESET 0 tr }
      else None)"

definition handle_full_power_scan_req :: "libosmo \<Rightarrow> u16 \<Rightarrow> u16 \<Rightarrow> trxcon_inst \<Rightarrow> trxcon_inst option" where
  "handle_full_power_scan_req L start stop tr =
     (if tr_fi_data tr \<noteq> None then Some tr
      else if gsm_arfcn2band_rc L start = None \<or> gsm_arfcn2band_rc L stop = None \<or> gsm_arfcn2band_rc L start \<noteq> gsm_arfcn2band_rc L stop
      then Some tr
      else trxcon_state_chg L TRXCON_ST_FULL_POWER_SCAN 0 (tr\<lparr>tr_fi_data := Some (start, stop)\<rparr>))"

text \<open>A TDMA frame lasts \<^verbatim>\<open>GSM_TDMA_FN_DURATION_uS\<close> = 4615 microseconds.\<close>

fun trxcon_st_reset_action :: "libosmo \<Rightarrow> trxcon_event \<Rightarrow> trxcon_inst \<Rightarrow> trxcon_inst option" where
  "trxcon_st_reset_action L (TRXCON_EV_FBSB_SEARCH_REQ band_arfcn timeout_fns pchan_config) tr = do {
     let timeout_ms = (unat timeout_fns + tr_fbsb_extend_fns tr) * 4615 div 1000;
     tr \<leftarrow> trxcon_state_chg L TRXCON_ST_FBSB_SEARCH timeout_ms tr;
     (_, tr) \<leftarrow> with_sched L (\<lambda>s. l1sched_configure_ts L s 0 pchan_config) tr;
     tr \<leftarrow> (if tr_band_arfcn tr \<noteq> band_arfcn
           then map_option snd (trxcon_phyif_handle_cmd L (CMDT_SETFREQ_H0 band_arfcn) (tr\<lparr>tr_band_arfcn := band_arfcn\<rparr>))
           else Some tr);
     map_option snd (trxcon_phyif_handle_cmd L CMDT_POWERON tr) }"
| "trxcon_st_reset_action L (TRXCON_EV_FULL_POWER_SCAN_REQ start stop) tr = handle_full_power_scan_req L start stop tr"
| "trxcon_st_reset_action L _ tr = None"

fun trxcon_st_full_power_scan_action :: "libosmo \<Rightarrow> trxcon_event \<Rightarrow> trxcon_inst \<Rightarrow> trxcon_inst option" where
  "trxcon_st_full_power_scan_action L (TRXCON_EV_FULL_POWER_SCAN_RES band_arfcn dbm) tr = (case tr_fi_data tr of
     None \<Rightarrow> Some tr
   | Some (start, stop) \<Rightarrow>
       if band_arfcn \<noteq> start then Some tr
       else if band_arfcn < stop then do {
         tr \<leftarrow> l1ctl_tx_pm_conf L band_arfcn dbm False tr;
         trxcon_state_chg L TRXCON_ST_FULL_POWER_SCAN 0 (tr\<lparr>tr_fi_data := Some (band_arfcn + 1, stop)\<rparr>) }
       else do {
         tr \<leftarrow> l1ctl_tx_pm_conf L band_arfcn dbm True tr;
         Some (tr\<lparr>tr_fi_data := None\<rparr>) })"
| "trxcon_st_full_power_scan_action L (TRXCON_EV_FULL_POWER_SCAN_REQ start stop) tr = handle_full_power_scan_req L start stop tr"
| "trxcon_st_full_power_scan_action L _ tr = None"

fun trxcon_st_fbsb_search_action :: "libosmo \<Rightarrow> trxcon_event \<Rightarrow> trxcon_inst \<Rightarrow> trxcon_inst option" where
  "trxcon_st_fbsb_search_action L TRXCON_EV_FBSB_SEARCH_RES tr = do {
     tr \<leftarrow> trxcon_state_chg L TRXCON_ST_BCCH_CCCH 0 tr;
     l1ctl_tx_fbsb_conf (tr_band_arfcn tr) (sc_bsic (tr_sched tr)) tr }"
| "trxcon_st_fbsb_search_action L _ tr = None"

definition handle_tx_access_burst_req :: "libosmo \<Rightarrow> ab_req_param \<Rightarrow> trxcon_inst \<Rightarrow> trxcon_inst option" where
  "handle_tx_access_burst_req L req tr =
     (let msg = l1sched_prim_alloc (RACH_REQ \<lparr>ra_chdr = \<lparr>ch_frame_nr = 0, ch_chan_nr = ab_chan_nr req, ch_link_id = ab_link_id req,
                  ch_traffic = False\<rparr>, ra_synch_seq = ab_synch_seq req, ra_offset = ab_offset req,
                  ra_is_11bit = ab_is_11bit req, ra_ra = ab_ra req\<rparr>) in
      map_option snd (with_sched L (\<lambda>s. l1sched_prim_from_user L s msg) tr))"

text \<open>Tuning, with the return code of the last command of the transceiver interface.\<close>

fun dch_tune :: "libosmo \<Rightarrow> dch_freq \<Rightarrow> trxcon_inst \<Rightarrow> (bool \<times> trxcon_inst) option" where
  "dch_tune L (H1 hsn maio ma) tr = do {
     (rc, tr) \<leftarrow> trxcon_phyif_handle_cmd L (CMDT_SETFREQ_H1 hsn maio ma) tr;
     if rc \<noteq> 0 then Some (False, tr) else Some (True, tr\<lparr>tr_band_arfcn := 0xffff\<rparr>) }"
| "dch_tune L (H0 band_arfcn) tr = do {
     (rc, tr) \<leftarrow> trxcon_phyif_handle_cmd L (CMDT_SETFREQ_H0 band_arfcn) tr;
     if rc \<noteq> 0 then Some (False, tr) else Some (True, tr\<lparr>tr_band_arfcn := band_arfcn\<rparr>) }"

definition handle_dch_est_req :: "libosmo \<Rightarrow> dch_est_param \<Rightarrow> trxcon_inst \<Rightarrow> trxcon_inst option" where
  "handle_dch_est_req L req tr =
     (let config = l1sched_chan_nr2pchan_config L (de_chan_nr req); tn = unat (de_chan_nr req AND 0x07) in
      if config = GSM_PCHAN_NONE then Some tr
      else do {
        (ok, tr) \<leftarrow> dch_tune L (de_freq req) tr;
        if \<not> ok then Some tr
        else do {
          tr \<leftarrow> sched_reset L tr;
          (rc, tr) \<leftarrow> with_sched L (\<lambda>s. l1sched_configure_ts L s tn config) tr;
          if rc \<noteq> 0 then Some tr
          else do {
            (_, tr) \<leftarrow> with_ts tn (\<lambda>ts. map_option (Pair ()) (l1sched_deactivate_all_lchans L ts)) tr;
            (rc, tr) \<leftarrow> with_ts tn (\<lambda>ts. l1sched_set_lchans L (Some ts) (de_chan_nr req) True (de_tch_mode req) (de_tsc req)) tr;
            if rc \<noteq> 0 then Some tr
            else let tr = tr\<lparr>tr_tsc := de_tsc req\<rparr> in
              trxcon_state_chg L (if config = GSM_PCHAN_PDCH then TRXCON_ST_PACKET_DATA else TRXCON_ST_DEDICATED) 0 tr } } })"

fun trxcon_st_bcch_ccch_action :: "libosmo \<Rightarrow> trxcon_event \<Rightarrow> trxcon_inst \<Rightarrow> (bool \<times> trxcon_inst) option" where
  "trxcon_st_bcch_ccch_action L (TRXCON_EV_TX_ACCESS_BURST_REQ req) tr = map_option (Pair False) (handle_tx_access_burst_req L req tr)"
| "trxcon_st_bcch_ccch_action L (TRXCON_EV_TX_ACCESS_BURST_CNF band_arfcn frame_nr) tr =
     map_option (Pair False) (l1ctl_tx_rach_conf band_arfcn frame_nr tr)"
| "trxcon_st_bcch_ccch_action L (TRXCON_EV_SET_CCCH_MODE_REQ chan_config) tr = do {
     slot \<leftarrow> index_at (sc_ts (tr_sched tr)) 0;
     case Option.bind slot ts_mf_layout of
       None \<Rightarrow> Some (False, tr)
     | Some mf \<Rightarrow> do {
         (_, tr) \<leftarrow> (if mf_chan_config mf \<noteq> chan_config then with_sched L (\<lambda>s. l1sched_configure_ts L s 0 chan_config) tr
                    else Some (0, tr));
         Some (True, tr) } }"
| "trxcon_st_bcch_ccch_action L (TRXCON_EV_DCH_EST_REQ req) tr = map_option (Pair False) (handle_dch_est_req L req tr)"
| "trxcon_st_bcch_ccch_action L (TRXCON_EV_RX_DATA_IND ind) tr = map_option (Pair False) (l1ctl_tx_dt_ind L ind tr)"
| "trxcon_st_bcch_ccch_action L _ tr = None"

text \<open>The mode of the traffic channels, over the channels of a timeslot, and over the timeslots.\<close>

fun tch_mode_lchans :: "u8 \<Rightarrow> u8 \<Rightarrow> u8 \<Rightarrow> lchan_state list \<Rightarrow> (bool \<times> lchan_state list) option" where
  "tch_mode_lchans mode bitmask start [] = Some (False, [])"
| "tch_mode_lchans mode bitmask start (lc # lcs) = do {
     (done1, lc) \<leftarrow> (if \<not> lc_active lc then Some (False, lc)
        else do {
          (rc, lc) \<leftarrow> (if mode = GSM48_CMODE_SPEECH_AMR then l1sched_lchan_set_amr_cfg lc bitmask start else Some (0, lc));
          if rc \<noteq> 0 then Some (False, lc) else Some (True, lc\<lparr>lc_tch_mode := mode\<rparr>) });
     (done2, lcs) \<leftarrow> tch_mode_lchans mode bitmask start lcs;
     Some (done1 \<or> done2, lc # lcs) }"

fun tch_mode_slots :: "u8 \<Rightarrow> u8 \<Rightarrow> u8 \<Rightarrow> l1sched_ts option list \<Rightarrow> (bool \<times> l1sched_ts option list) option" where
  "tch_mode_slots mode bitmask start [] = Some (False, [])"
| "tch_mode_slots mode bitmask start (slot # slots) = do {
     (done1, slot) \<leftarrow> (case slot of
         None \<Rightarrow> Some (False, slot)
       | Some ts \<Rightarrow>
           if ts_mf_layout ts = None then Some (False, slot)
           else do {
             lchans \<leftarrow> ts_lchans ts;
             (d, lchans) \<leftarrow> tch_mode_lchans mode bitmask start lchans;
             Some (d, Some (ts\<lparr>ts_lchans := Some lchans\<rparr>)) });
     (done2, slots) \<leftarrow> tch_mode_slots mode bitmask start slots;
     Some (done1 \<or> done2, slot # slots) }"

text \<open>A block of the user, put into a primitive, which has room for 512 octets.\<close>

definition send_data_req :: "libosmo \<Rightarrow> prim_chdr \<Rightarrow> nat \<Rightarrow> u8 list \<Rightarrow> trxcon_inst \<Rightarrow> trxcon_inst option" where
  "send_data_req L chdr len data tr =
     (if len > 512 then None
      else do {
        payload \<leftarrow> read_at 0 len data;
        map_option snd (with_sched L (\<lambda>s. l1sched_prim_from_user L s ((l1sched_prim_alloc (DATA_REQ chdr))\<lparr>mb_l2 := payload\<rparr>)) tr) })"

fun trxcon_st_dedicated_action :: "libosmo \<Rightarrow> trxcon_event \<Rightarrow> trxcon_inst \<Rightarrow> (bool \<times> trxcon_inst) option" where
  "trxcon_st_dedicated_action L (TRXCON_EV_TX_ACCESS_BURST_REQ req) tr = map_option (Pair False) (handle_tx_access_burst_req L req tr)"
| "trxcon_st_dedicated_action L (TRXCON_EV_TX_ACCESS_BURST_CNF band_arfcn frame_nr) tr =
     map_option (Pair False) (l1ctl_tx_rach_conf band_arfcn frame_nr tr)"
| "trxcon_st_dedicated_action L (TRXCON_EV_DCH_EST_REQ req) tr = map_option (Pair False) (handle_dch_est_req L req tr)"
| "trxcon_st_dedicated_action L TRXCON_EV_DCH_REL_REQ tr = map_option (Pair False) (sched_reset L tr)"
| "trxcon_st_dedicated_action L (TRXCON_EV_SET_TCH_MODE_REQ mode start_codec codecs_bitmask) tr = do {
     (applied, slots) \<leftarrow> tch_mode_slots mode codecs_bitmask start_codec (sc_ts (tr_sched tr));
     Some (applied, tr\<lparr>tr_sched := (tr_sched tr)\<lparr>sc_ts := slots\<rparr>\<rparr>) }"
| "trxcon_st_dedicated_action L (TRXCON_EV_CRYPTO_REQ chan_nr algo key_len key) tr = do {
     let tn = unat (chan_nr AND 0x07);
     slot \<leftarrow> index_at (sc_ts (tr_sched tr)) tn;
     if Option.bind slot ts_mf_layout = None then Some (False, tr)
     else do {
       (_, slot) \<leftarrow> l1sched_start_ciphering slot algo key key_len;
       Some (False, tr\<lparr>tr_sched := set_ts tn slot (tr_sched tr)\<rparr>) } }"
| "trxcon_st_dedicated_action L (TRXCON_EV_TX_DATA_REQ req) tr =
     map_option (Pair False) (send_data_req L \<lparr>ch_frame_nr = 0, ch_chan_nr = dr_chan_nr req, ch_link_id = dr_link_id req,
       ch_traffic = dr_traffic req\<rparr> (unat (dr_data_len req)) (dr_data req) tr)"
| "trxcon_st_dedicated_action L (TRXCON_EV_TX_DATA_CNF cnf) tr = map_option (Pair False) (l1ctl_tx_dt_conf cnf tr)"
| "trxcon_st_dedicated_action L (TRXCON_EV_RX_DATA_IND ind) tr = map_option (Pair False) (l1ctl_tx_dt_ind L ind tr)"
| "trxcon_st_dedicated_action L _ tr = None"

section \<open>Packet data\<close>

text \<open>
  The GPRS state tells when a timeslot gets its first and loses its last TBF, and the scheduler
  configures or deletes it. \<open>busy\<close> is the timeslot whose burst is being handled, if any: its
  channel is used after the indication that may delete it.
\<close>

definition handle_tbf_cfg_req :: "libosmo \<Rightarrow> nat option \<Rightarrow> nat \<Rightarrow> bool \<Rightarrow> trxcon_inst \<Rightarrow> trxcon_inst option" where
  "handle_tbf_cfg_req L busy tn active tr =
     (if active then do {
        slot \<leftarrow> index_at (sc_ts (tr_sched tr)) tn;
        if slot \<noteq> None then Some tr
        else do {
          (rc, tr) \<leftarrow> with_sched L (\<lambda>s. l1sched_configure_ts L s tn GSM_PCHAN_PDCH) tr;
          if rc \<noteq> 0 then Some tr
          else do {
            (_, tr) \<leftarrow> with_ts tn (\<lambda>ts. l1sched_activate_lchan L ts L1SCHED_PDTCH) tr;
            (_, tr) \<leftarrow> with_ts tn (\<lambda>ts. l1sched_activate_lchan L ts L1SCHED_PTCCH) tr;
            map_option snd (with_ts tn (\<lambda>ts. do {
              lchans \<leftarrow> ts_lchans ts;
              Some ((), ts\<lparr>ts_lchans := Some (map (\<lambda>lc. lc\<lparr>lc_tsc := tr_tsc tr\<rparr>) lchans)\<rparr>) }) tr) } } }
      else if busy = Some tn then None
      else map_option snd (with_sched L (\<lambda>s. map_option (Pair ()) (l1sched_del_ts L s tn)) tr))"

fun tbf_cfg_reqs :: "libosmo \<Rightarrow> nat option \<Rightarrow> (nat \<times> bool) list \<Rightarrow> trxcon_inst \<Rightarrow> trxcon_inst option" where
  "tbf_cfg_reqs L busy [] tr = Some tr"
| "tbf_cfg_reqs L busy ((tn, active) # evs) tr = do {
     tr \<leftarrow> handle_tbf_cfg_req L busy tn active tr;
     tbf_cfg_reqs L busy evs tr }"

definition with_gprs :: "libosmo \<Rightarrow> nat option \<Rightarrow> (l1gprs_state \<Rightarrow> ('a \<times> l1gprs_state) option) \<Rightarrow> trxcon_inst \<Rightarrow> ('a \<times> trxcon_inst) option" where
  "with_gprs L busy f tr = do {
     g \<leftarrow> tr_gprs tr;
     (a, g') \<leftarrow> f g;
     tr \<leftarrow> tbf_cfg_reqs L busy (drop (length (gp_events g)) (gp_events g')) (tr\<lparr>tr_gprs := Some g'\<rparr>);
     Some (a, tr) }"

definition l1ctl_send_opt :: "u8 list option \<Rightarrow> trxcon_inst \<Rightarrow> trxcon_inst option" where
  "l1ctl_send_opt msg tr = (case msg of None \<Rightarrow> Some tr | Some m \<Rightarrow> trxcon_l1ctl_send m tr)"

text \<open>The first frame of the next block: frame 12 of 13 is idle or belongs to the timing advance channel.\<close>

definition rts_frame :: "libosmo \<Rightarrow> u32 \<Rightarrow> u32" where
  "rts_frame L fn = GSM_TDMA_FN_SUM L fn (if fn mod 13 = 8 then 5 else 4)"

definition dl_block_of :: "libosmo \<Rightarrow> data_ind_param \<Rightarrow> dl_block_ind" where
  "dl_block_of L ind = \<lparr>db_fn = dd_frame_nr ind, db_tn = dd_chan_nr ind AND 0x07,
     db_ber10k = (if dd_n_bits_total ind = 0 then 10000
                  else word_of_int (10000 * dd_n_errors ind sdiv dd_n_bits_total ind)),
     db_ci_cb = 180, db_rx_lev = dbm2rxlev L (sint (dd_rssi ind)), db_data = dd_data ind\<rparr>"

fun trxcon_st_packet_data_action :: "libosmo \<Rightarrow> nat option \<Rightarrow> trxcon_event \<Rightarrow> trxcon_inst \<Rightarrow> trxcon_inst option" where
  "trxcon_st_packet_data_action L busy (TRXCON_EV_TX_ACCESS_BURST_REQ req) tr = handle_tx_access_burst_req L req tr"
| "trxcon_st_packet_data_action L busy (TRXCON_EV_TX_ACCESS_BURST_CNF band_arfcn frame_nr) tr = l1ctl_tx_rach_conf band_arfcn frame_nr tr"
| "trxcon_st_packet_data_action L busy (TRXCON_EV_GPRS_UL_TBF_CFG_REQ msg) tr =
     map_option snd (with_gprs L busy (\<lambda>g. l1gprs_handle_ul_tbf_cfg_req g msg) tr)"
| "trxcon_st_packet_data_action L busy (TRXCON_EV_GPRS_DL_TBF_CFG_REQ msg) tr =
     map_option snd (with_gprs L busy (\<lambda>g. l1gprs_handle_dl_tbf_cfg_req g msg) tr)"
| "trxcon_st_packet_data_action L busy (TRXCON_EV_GPRS_UL_BLOCK_REQ msg) tr = do {
     g \<leftarrow> tr_gprs tr;
     (rc, req) \<leftarrow> l1gprs_handle_ul_block_req g msg;
     case req of
       None \<Rightarrow> Some tr
     | Some req \<Rightarrow>
         if rc \<noteq> 0 then Some tr
         else send_data_req L \<lparr>ch_frame_nr = ub_fn req, ch_chan_nr = RSL_CHAN_OSMO_PDCH L OR ub_tn req, ch_link_id = 0,
           ch_traffic = False\<rparr> (length (ub_data req)) (ub_data req) tr }"
| "trxcon_st_packet_data_action L busy (TRXCON_EV_TX_DATA_CNF cnf) tr = do {
     g \<leftarrow> tr_gprs tr;
     msg \<leftarrow> l1gprs_handle_ul_block_cnf g (dc_frame_nr cnf) (dc_chan_nr cnf AND 0x07) (dc_data cnf);
     l1ctl_send_opt msg tr }"
| "trxcon_st_packet_data_action L busy (TRXCON_EV_RX_DATA_IND ind) tr = do {
     ((msg, usf), tr) \<leftarrow> with_gprs L busy (\<lambda>g. do {
       (msg, usf, g) \<leftarrow> l1gprs_handle_dl_block_ind L g (dl_block_of L ind) 0xff; Some ((msg, usf), g) }) tr;
     tr \<leftarrow> l1ctl_send_opt msg tr;
     (msg, tr) \<leftarrow> with_gprs L busy (\<lambda>g. l1gprs_handle_rts_ind L g (rts_frame L (dd_frame_nr ind)) (dd_chan_nr ind AND 0x07) usf) tr;
     l1ctl_send_opt msg tr }"
| "trxcon_st_packet_data_action L busy (TRXCON_EV_DCH_EST_REQ req) tr = handle_dch_est_req L req tr"
| "trxcon_st_packet_data_action L busy TRXCON_EV_DCH_REL_REQ tr = sched_reset L tr"
| "trxcon_st_packet_data_action L busy _ tr = None"

section \<open>Dispatch\<close>

text \<open>The return code, whether the request was applied, and the instance; a freed instance takes no event.\<close>

definition trxcon_dispatch :: "libosmo \<Rightarrow> nat option \<Rightarrow> trxcon_event \<Rightarrow> trxcon_inst \<Rightarrow> (int \<times> bool \<times> trxcon_inst) option" where
  "trxcon_dispatch L busy ev tr =
     (if tr_freed tr then None
      else if trxcon_allstate ev then map_option (\<lambda>tr. (0, False, tr)) (trxcon_allstate_action L ev tr)
      else if \<not> trxcon_in_event (tr_state tr) ev then Some (- 1, False, tr)
      else map_option (Pair 0) (case tr_state tr of
          TRXCON_ST_RESET \<Rightarrow> map_option (Pair False) (trxcon_st_reset_action L ev tr)
        | TRXCON_ST_FULL_POWER_SCAN \<Rightarrow> map_option (Pair False) (trxcon_st_full_power_scan_action L ev tr)
        | TRXCON_ST_FBSB_SEARCH \<Rightarrow> map_option (Pair False) (trxcon_st_fbsb_search_action L ev tr)
        | TRXCON_ST_BCCH_CCCH \<Rightarrow> trxcon_st_bcch_ccch_action L ev tr
        | TRXCON_ST_DEDICATED \<Rightarrow> trxcon_st_dedicated_action L ev tr
        | TRXCON_ST_PACKET_DATA \<Rightarrow> map_option (Pair False) (trxcon_st_packet_data_action L busy ev tr)))"

definition dispatch_ev :: "libosmo \<Rightarrow> nat option \<Rightarrow> trxcon_event \<Rightarrow> trxcon_inst \<Rightarrow> (int \<times> trxcon_inst) option" where
  "dispatch_ev L busy ev tr = map_option (\<lambda>(rc, _, tr). (rc, tr)) (trxcon_dispatch L busy ev tr)"

section \<open>The layer below the machine\<close>

text \<open>Without a GSMTAP sink, which is optional and only logs.\<close>

fun trxcon_prim_to_user :: "libosmo \<Rightarrow> nat option \<Rightarrow> msgb \<Rightarrow> trxcon_inst \<Rightarrow> (int \<times> trxcon_inst) option" where
  "trxcon_prim_to_user L busy m tr = (case mb_prim m of
     DATA_IND i \<Rightarrow> dispatch_ev L busy (TRXCON_EV_RX_DATA_IND \<lparr>dd_traffic = ch_traffic (di_chdr i), dd_chan_nr = ch_chan_nr (di_chdr i),
       dd_link_id = ch_link_id (di_chdr i), dd_band_arfcn = tr_band_arfcn tr, dd_frame_nr = ch_frame_nr (di_chdr i),
       dd_toa256 = di_toa256 i, dd_rssi = di_rssi i, dd_n_errors = di_n_errors i, dd_n_bits_total = di_n_bits_total i,
       dd_data = mb_l2 m\<rparr>) tr
   | DATA_CNF h \<Rightarrow> dispatch_ev L busy (TRXCON_EV_TX_DATA_CNF \<lparr>dc_traffic = ch_traffic h, dc_chan_nr = ch_chan_nr h,
       dc_link_id = ch_link_id h, dc_band_arfcn = tr_band_arfcn tr, dc_frame_nr = ch_frame_nr h, dc_data = mb_l2 m\<rparr>) tr
   | RACH_CNF r \<Rightarrow> dispatch_ev L busy (TRXCON_EV_TX_ACCESS_BURST_CNF (tr_band_arfcn tr) (ch_frame_nr (ra_chdr r))) tr
   | SCH_IND fn bsic \<Rightarrow> if tr_state tr = TRXCON_ST_FBSB_SEARCH then dispatch_ev L busy TRXCON_EV_FBSB_SEARCH_RES tr else Some (0, tr)
   | PCHAN_COMB_IND tn pchan \<Rightarrow> dispatch_ev L busy (TRXCON_EV_SET_PHY_CONFIG_REQ (CFGT_PCHAN_COMB tn pchan)) tr
   | _ \<Rightarrow> Some (- ENOTSUP, tr))"

fun prims_to_user :: "libosmo \<Rightarrow> nat option \<Rightarrow> msgb list \<Rightarrow> trxcon_inst \<Rightarrow> trxcon_inst option" where
  "prims_to_user L busy [] tr = Some tr"
| "prims_to_user L busy (m # ms) tr = do {
     (_, tr) \<leftarrow> trxcon_prim_to_user L busy m tr;
     prims_to_user L busy ms tr }"

definition trxcon_phyif_handle_rts_ind :: "libosmo \<Rightarrow> u32 \<Rightarrow> nat \<Rightarrow> trxcon_inst \<Rightarrow> (int \<times> trxcon_inst) option" where
  "trxcon_phyif_handle_rts_ind L fn tn tr = do {
     (br, s) \<leftarrow> l1sched_pull_burst L (tr_sched tr) \<lparr>br_fn = fn, br_tn = tn, br_bid = 0, br_burst = [], br_burst_len = 0\<rparr>;
     tr \<leftarrow> prims_to_user L (Some tn) (sc_out s) (tr\<lparr>tr_sched := s\<lparr>sc_out := []\<rparr>\<rparr>);
     t \<leftarrow> tr_phyif tr;
     (rc, t) \<leftarrow> trx_if_handle_phyif_burst_req br t;
     Some (rc, tr\<lparr>tr_phyif := Some t\<rparr>) }"

definition trxcon_phyif_handle_rtr_ind :: "libosmo \<Rightarrow> u32 \<Rightarrow> nat \<Rightarrow> trxcon_inst \<Rightarrow> bool option" where
  "trxcon_phyif_handle_rtr_ind L fn tn tr = do {
     (_, probe) \<leftarrow> l1sched_handle_rx_probe L (tr_sched tr) \<lparr>pb_flags = 0, pb_fn = fn, pb_tn = tn\<rparr>;
     Some (pb_flags probe AND 1 \<noteq> 0) }"

definition trxcon_phyif_handle_burst_ind :: "libosmo \<Rightarrow> burst_ind \<Rightarrow> trxcon_inst \<Rightarrow> (int \<times> trxcon_inst) option" where
  "trxcon_phyif_handle_burst_ind L bi tr = do {
     (rc, s) \<leftarrow> l1sched_handle_rx_burst L (tr_sched tr) bi;
     tr \<leftarrow> prims_to_user L (Some (bi_tn bi)) (sc_out s) (tr\<lparr>tr_sched := s\<lparr>sc_out := []\<rparr>\<rparr>);
     Some (rc, tr) }"

text \<open>The measurement response of the transceiver interface, the only one.\<close>

definition trxcon_phyif_handle_rsp :: "libosmo \<Rightarrow> u16 \<Rightarrow> int \<Rightarrow> trxcon_inst \<Rightarrow> (int \<times> trxcon_inst) option" where
  "trxcon_phyif_handle_rsp L band_arfcn dbm tr = dispatch_ev L None (TRXCON_EV_FULL_POWER_SCAN_RES band_arfcn dbm) tr"

end
