(* ===== verification/Sched_Manage.thy ===== *)
theory Sched_Manage
  imports Sched_Run
begin

text \<open>
  The management operations of the scheduler (\<^verbatim>\<open>sched_trx.c\<close>) as their user sees them: each returns on a
  well-formed scheduler and leaves a well-formed one, and all it reports on the way are channel
  combinations of timeslots.
\<close>

section \<open>What the operations report\<close>

definition is_comb :: "msgb \<Rightarrow> bool" where
  "is_comb m \<longleftrightarrow> (case mb_prim m of PCHAN_COMB_IND _ _ \<Rightarrow> True | _ \<Rightarrow> False)"

definition combs :: "l1sched_state \<Rightarrow> l1sched_state \<Rightarrow> bool" where
  "combs s s' \<longleftrightarrow> (\<exists>ms. sc_out s' = sc_out s @ ms \<and> list_all is_comb ms)"

named_theorems combs_intros "operations that report channel combinations only"

lemma combs_same [simp]: "combs s s" "combs s (set_ts tn ts s1) = combs s s1"
  by (simp_all add: combs_def)

lemma combs_trans: "combs s1 s2 \<Longrightarrow> combs s2 s3 \<Longrightarrow> combs s1 s3"
  by (auto simp: combs_def)

lemma combs_ind [simp]: "combs s s1 \<Longrightarrow> combs s (l1sched_cfg_pchan_comb_ind s1 tn p)"
  by (auto simp: combs_def l1sched_cfg_pchan_comb_ind_def is_comb_def l1sched_prim_alloc_def)

lemma combs_del_ts [combs_intros]: "l1sched_del_ts L s tn = Some s' \<Longrightarrow> combs s s'"
  by (auto simp: l1sched_del_ts_def split: option.splits)

lemma combs_del_all_ts [combs_intros]: "del_all_ts L tns s = Some s' \<Longrightarrow> combs s s'"
  by (induction tns arbitrary: s) (auto intro: combs_intros combs_trans)

lemma combs_reset [combs_intros]: "l1sched_reset L s = Some s' \<Longrightarrow> combs s s'"
  by (auto simp: l1sched_reset_def combs_def dest!: combs_del_all_ts)

lemma combs_reset_ts [combs_intros]: "l1sched_reset_ts L s tn = Some (rc, s') \<Longrightarrow> combs s s'"
  by (auto simp: l1sched_reset_ts_def split: option.splits)

lemma combs_add_ts [combs_intros]: "l1sched_add_ts s tn = Some (ts, s') \<Longrightarrow> combs s s'"
  by (auto simp: l1sched_add_ts_def Let_def split: option.splits)

lemma combs_configure [combs_intros]: "l1sched_configure_ts L s tn config = Some (rc, s') \<Longrightarrow> combs s s'"
  unfolding l1sched_configure_ts_def
  by (auto simp: Let_def dest!: combs_reset_ts combs_add_ts split: option.splits if_splits)

lemma prim_from_user_out: "l1sched_prim_from_user L s m = Some (rc, s') \<Longrightarrow> sc_out s' = sc_out s"
  by (auto simp: l1sched_prim_from_user_def prim_enqeue_def Let_def split: prim.splits option.splits if_splits)

section \<open>The whole scheduler\<close>

lemma upto_8: "list_all (\<lambda>tn. tn < 8) [0..<8]"
  by (simp add: list_all_iff)

lemma reset_ok:
  assumes "sched_wf L s"
  shows "\<exists>s'. l1sched_reset L s = Some s' \<and> sched_wf L s' \<and> (\<forall>tn < 8. sc_ts s' ! tn = None) \<and>
    sc_sacch_cache s' = meas_rep_dummy"
proof -
  obtain s1 where s1: "del_all_ts L [0..<8] s = Some s1" "sched_wf L s1"
    "\<forall>tn < 8. sc_ts s1 ! tn = (if tn \<in> set [0..<8] then None else sc_ts s ! tn)"
    using del_all_ts_wf [OF assms upto_8] by blast
  then show ?thesis by (simp add: l1sched_reset_def sched_wf_def meas_rep_dummy_good)
qed

lemma free_ok: "sched_wf L s \<Longrightarrow> \<exists>s'. l1sched_free L s = Some s' \<and> sched_wf L s'"
  using del_all_ts_wf [OF _ upto_8] by (fastforce simp: l1sched_free_def)

lemma sched_wf_sc_out [simp]: "sched_wf L (s\<lparr>sc_out := ms\<rparr>) = sched_wf L s"
  by (simp add: sched_wf_def)

lemma sched_wf_cache: "sched_wf L s \<Longrightarrow> cache_good c \<Longrightarrow> sched_wf L (s\<lparr>sc_sacch_cache := c\<rparr>)"
  by (simp add: sched_wf_def)

section \<open>One timeslot\<close>

lemma ts_wf_lchans:
  assumes "ts_wf L tn ts"
  obtains ls where "ts_lchans ts = Some ls" "list_all (lchan_good L) ls" "distinct (map lc_type ls)"
  using assms that by (cases "ts_lchans ts"; cases "ts_mf_layout ts") (auto simp: ts_wf_def mf_lchans_sorted)

lemma ts_wf_put:
  assumes "ts_wf L tn ts" "ts_lchans ts = Some ls" "list_all (lchan_good L) ls'" "map lc_type ls' = map lc_type ls"
  shows "ts_wf L tn (ts\<lparr>ts_lchans := Some ls'\<rparr>)"
  using assms by (auto simp: ts_wf_def split: option.splits)

lemma ts_wf_map:
  assumes "ts_wf L tn ts" "ts_lchans ts = Some ls"
    and "\<And>lc. lchan_good L lc \<Longrightarrow> lchan_good L (f lc) \<and> lc_type (f lc) = lc_type lc"
  shows "ts_wf L tn (ts\<lparr>ts_lchans := Some (map f ls)\<rparr>)"
proof (rule ts_wf_put [OF assms(1,2)])
  have good: "list_all (lchan_good L) ls" using assms(1,2) by (auto simp: ts_wf_def)
  then show "list_all (lchan_good L) (map f ls)" using assms(3) by (simp add: list_all_iff)
  show "map lc_type (map f ls) = map lc_type ls" using good assms(3) by (simp add: list_all_iff)
qed

lemma deactivate_all_ok:
  assumes "ts_wf L tn ts"
  shows "\<exists>ts'. l1sched_deactivate_all_lchans L ts = Some ts' \<and> ts_wf L tn ts'"
proof -
  obtain ls where ls: "ts_lchans ts = Some ls" using ts_wf_lchans [OF assms] .
  then show ?thesis
    using ts_wf_map [OF assms ls, of "deactivate_if_active L"] lchan_good_deactivate by (simp add: deactivate_all_good)
qed

lemma activate_ok:
  assumes "ts_wf L tn ts"
  shows "\<exists>rc ts'. l1sched_activate_lchan L ts t = Some (rc, ts') \<and> ts_wf L tn ts'"
proof -
  obtain ls where ls: "ts_lchans ts = Some ls" "list_all (lchan_good L) ls" "distinct (map lc_type ls)"
    using ts_wf_lchans [OF assms] .
  show ?thesis
  proof (cases "first_idx (\<lambda>lc. lc_type lc = t) ls")
    case None
    then show ?thesis using assms ls(1) by (simp add: l1sched_activate_lchan_def l1sched_find_lchan_by_type_def)
  next
    case (Some i)
    then have i: "i < length ls" "lc_type (ls ! i) = t" using first_idx_found by blast+
    have good: "lchan_good L (ls ! i)" using ls(2) i(1) by (simp add: list_all_length)
    have "ts_wf L tn (upd_nth i (activated L) ts)" if "\<not> lc_active (ls ! i)"
      using ts_wf_upd_nth [OF assms ls(1) i(1)] lchan_good_activated [OF good that] by simp
    then show ?thesis
      using activate_nth [OF ls(1,3) i(1), of L] i(2) assms ls(1) by (auto simp: upd_nth_def)
  qed
qed

lemma lchan_good_tsc: "lchan_good L lc \<Longrightarrow> unat tsc < 8 \<Longrightarrow> lchan_good L (lc\<lparr>lc_tsc := tsc\<rparr>)"
  by (auto simp: lchan_good_def lchan_wf_def lchan_bufs_wf_def)

lemma lchan_good_mode: "lchan_good L lc \<Longrightarrow> lchan_good L (lc\<lparr>lc_tch_mode := mode\<rparr>)"
  by (auto simp: lchan_good_def lchan_wf_def lchan_bufs_wf_def)

lemma set_lchans_from_ok:
  assumes "unat tsc < 8"
  shows "ts_wf L tn ts \<Longrightarrow> i + n = length (the (ts_lchans ts)) \<Longrightarrow>
    \<exists>rc' ts'. set_lchans_from L chan_nr True mode tsc i n rc ts = Some (rc', ts') \<and> ts_wf L tn ts'"
proof (induction n arbitrary: i rc ts)
  case (Suc n)
  obtain ls where ls: "ts_lchans ts = Some ls" "list_all (lchan_good L) ls" "distinct (map lc_type ls)"
    using ts_wf_lchans [OF Suc.prems(1)] .
  have i: "i < length ls" using Suc.prems(2) ls(1) by simp
  show ?case
  proof (cases "ld_chan_nr (l1sched_lchan_desc L (lc_type (ls ! i))) = chan_nr AND RSL_CHAN_NR_MASK")
    case False
    then show ?thesis using Suc.IH [OF Suc.prems(1), of "Suc i" rc] Suc.prems(2) ls(1) by simp
  next
    case True
    obtain r ts1 where ts1: "l1sched_activate_lchan L ts (lc_type (ls ! i)) = Some (r, ts1)" "ts_wf L tn ts1"
      using activate_ok [OF Suc.prems(1)] by blast
    let ?set = "\<lambda>lc. lc\<lparr>lc_tch_mode := mode, lc_tsc := tsc\<rparr>"
    obtain ls1 where ls1: "ts_lchans ts1 = Some ls1" "length ls1 = length ls"
      using ts1(1) activate_nth [OF ls(1,3) i, of L] ls(1) by (auto split: if_splits)
    have "list_all (lchan_good L) ls1" using ts1(2) ls1(1) by (auto simp: ts_wf_def)
    then have "lchan_good L (ls1 ! i)" using i ls1(2) by (simp add: list_all_length)
    then have "lchan_good L (?set (ls1 ! i))" using lchan_good_tsc [OF lchan_good_mode assms] by simp
    then have wf: "ts_wf L tn (upd_nth i ?set ts1)"
      using ts_wf_upd_nth [OF ts1(2) ls1(1)] i ls1(2) by simp
    have "Suc i + n = length (the (ts_lchans (upd_nth i ?set ts1)))"
      using Suc.prems(2) ls(1) ls1 by (simp add: upd_nth_def)
    from Suc.IH [OF wf this, of "rc OR r"] show ?thesis using True ls(1) ts1(1) by simp
  qed
qed simp

text \<open>On channels that are all inactive: those of the channel number become active, and only those.\<close>

definition taken :: "libosmo \<Rightarrow> u8 \<Rightarrow> u8 \<Rightarrow> u8 \<Rightarrow> lchan_state \<Rightarrow> lchan_state" where
  "taken L chan_nr mode tsc lc =
     (if ld_chan_nr (l1sched_lchan_desc L (lc_type lc)) = chan_nr AND RSL_CHAN_NR_MASK
      then (activated L lc)\<lparr>lc_tch_mode := mode, lc_tsc := tsc\<rparr> else lc)"

lemma taken_type [simp]: "lc_type (taken L chan_nr mode tsc lc) = lc_type lc"
  by (simp add: taken_def)

lemma set_lchans_from_eq:
  "ts_lchans ts = Some ls \<Longrightarrow> distinct (map lc_type ls) \<Longrightarrow> i + n = length ls \<Longrightarrow>
   (\<forall>k < length ls. i \<le> k \<longrightarrow> \<not> lc_active (ls ! k)) \<Longrightarrow>
   set_lchans_from L chan_nr True mode tsc i n 0 ts =
     Some (0, ts\<lparr>ts_lchans := Some (take i ls @ map (taken L chan_nr mode tsc) (drop i ls))\<rparr>)"
proof (induction n arbitrary: i ts ls)
  case (Suc n)
  let ?f = "taken L chan_nr mode tsc" and ?ls = "ls[i := taken L chan_nr mode tsc (ls ! i)]"
  have i: "i < length ls" "\<not> lc_active (ls ! i)" using Suc.prems(3,4) by auto
  have types: "map lc_type ?ls = map lc_type ls" using i(1) by (metis list_update_id map_update nth_map taken_type)
  have eq: "take (Suc i) ?ls @ map ?f (drop (Suc i) ?ls) = take i ls @ map ?f (drop i ls)"
    using i(1) by (simp add: take_Suc_conv_app_nth Cons_nth_drop_Suc [symmetric])
  have rest: "set_lchans_from L chan_nr True mode tsc (Suc i) n 0 (ts\<lparr>ts_lchans := Some ?ls\<rparr>) =
      Some (0, ts\<lparr>ts_lchans := Some (take i ls @ map ?f (drop i ls))\<rparr>)"
    using Suc.IH [of "ts\<lparr>ts_lchans := Some ?ls\<rparr>" ?ls "Suc i"] Suc.prems(2-4) types eq by simp
  show ?case
  proof (cases "ld_chan_nr (l1sched_lchan_desc L (lc_type (ls ! i))) = chan_nr AND RSL_CHAN_NR_MASK")
    case True
    have "upd_nth i (\<lambda>lc. lc\<lparr>lc_tch_mode := mode, lc_tsc := tsc\<rparr>) (ts\<lparr>ts_lchans := Some (ls[i := activated L (ls ! i)])\<rparr>) =
        ts\<lparr>ts_lchans := Some ?ls\<rparr>"
      using i(1) True by (simp add: upd_nth_def taken_def)
    then show ?thesis
      using True rest i(2) Suc.prems(1) activate_nth [OF Suc.prems(1,2) i(1), of L] by simp
  next
    case False
    then have "ts\<lparr>ts_lchans := Some ?ls\<rparr> = ts" using Suc.prems(1) by (cases ts) (simp add: taken_def)
    then show ?thesis using False rest Suc.prems(1) by simp
  qed
next
  case 0
  then show ?case by (cases ts) simp
qed

lemma set_lchans_eq:
  assumes "ts_lchans ts = Some ls" "distinct (map lc_type ls)" "list_all (\<lambda>lc. \<not> lc_active lc) ls"
  shows "l1sched_set_lchans L (Some ts) chan_nr True mode tsc = Some (0, ts\<lparr>ts_lchans := Some (map (taken L chan_nr mode tsc) ls)\<rparr>)"
  using set_lchans_from_eq [OF assms(1,2), of 0 "length ls" L chan_nr mode tsc] assms(1,3)
  by (simp add: l1sched_set_lchans_def list_all_length)

lemma set_lchans_ok:
  assumes "ts_wf L tn ts" "unat tsc < 8"
  shows "\<exists>rc ts'. l1sched_set_lchans L (Some ts) chan_nr True mode tsc = Some (rc, ts') \<and> ts_wf L tn ts'"
proof -
  obtain ls where "ts_lchans ts = Some ls" using ts_wf_lchans [OF assms(1)] .
  then show ?thesis
    using set_lchans_from_ok [OF assms(2,1), of 0 "length ls" chan_nr mode 0] by (simp add: l1sched_set_lchans_def)
qed

lemma lchan_good_key:
  "lchan_good L lc \<Longrightarrow> length k = n \<Longrightarrow> n \<le> MAX_A5_KEY_LEN \<Longrightarrow>
   lchan_good L (lc\<lparr>lc_a5 := \<lparr>a5_key = k @ drop n (a5_key (lc_a5 lc)), a5_key_len = l, a5_algo = a\<rparr>\<rparr>)"
  by (auto simp: lchan_good_def lchan_wf_def lchan_bufs_wf_def)

lemma start_ciphering_ok:
  assumes "ts_wf L tn ts" "MAX_A5_KEY_LEN \<le> length key"
  shows "\<exists>rc ts'. l1sched_start_ciphering (Some ts) algo key key_len = Some (rc, Some ts') \<and> ts_wf L tn ts'"
proof (cases "unat key_len > MAX_A5_KEY_LEN")
  case True
  then show ?thesis using assms(1) by (simp add: l1sched_start_ciphering_def)
next
  case False
  obtain ls where ls: "ts_lchans ts = Some ls" using ts_wf_lchans [OF assms(1)] .
  let ?n = "unat key_len"
  have key: "read_at 0 ?n key = Some (chunk 0 ?n key)" "length (chunk 0 ?n key) = ?n"
    using False assms(2) by (simp_all add: buf_simps)
  let ?f = "\<lambda>k lc. if lc_active lc
    then lc\<lparr>lc_a5 := \<lparr>a5_key = k @ drop ?n (a5_key (lc_a5 lc)), a5_key_len = key_len, a5_algo = algo\<rparr>\<rparr> else lc"
  have idle: "list_all (\<lambda>lc. \<not> lc_active lc) ls \<Longrightarrow> map (?f k) ls = map id ls" for k
    by (rule map_cong) (auto simp: list_all_iff)
  show ?thesis
  proof (cases "list_all (\<lambda>lc. \<not> lc_active lc) ls")
    case True
    then show ?thesis
      using False ls assms(1) idle [OF True] ts_wf_map [OF assms(1) ls, of id] by (simp add: l1sched_start_ciphering_def)
  next
    case active: False
    have "ts_wf L tn (ts\<lparr>ts_lchans := Some (map (?f (chunk 0 ?n key)) ls)\<rparr>)"
      using lchan_good_key [OF _ key(2)] False by (intro ts_wf_map [OF assms(1) ls]) auto
    then show ?thesis using False active ls key(1) by (simp add: l1sched_start_ciphering_def)
  qed
qed

lemma set_amr_ok:
  assumes "lchan_good L lc" "length (mask_bits m) \<le> 4"
  shows "\<exists>rc lc'. l1sched_lchan_set_amr_cfg lc m start = Some (rc, lc') \<and> lchan_good L lc' \<and> lc_type lc' = lc_type lc"
proof -
  have len: "length (am_codec (lc_amr lc)) = 4" using assms(1) by (simp add: lchan_good_def lchan_wf_def)
  let ?n = "length (mask_bits m)"
  have n: "unat (word_of_nat ?n :: u8) = ?n" using assms(2) by (simp add: unat_of_nat)
  obtain codec where "amr_codecs m 0 0 (am_codec (lc_amr lc)) = Some (?n, codec)" "length codec = 4"
    using amr_codecs_eq [of 0 "am_codec (lc_amr lc)" m 0] len assms(2) by (simp add: Let_def)
  then show ?thesis
    using assms n by (auto simp: l1sched_lchan_set_amr_cfg_def lchan_good_def lchan_wf_def lchan_bufs_wf_def Let_def)
qed

end
