(* ===== verification/Runs.thy ===== *)
theory Runs
  imports Prelude
begin

text \<open>
  Total correctness in the option monad: \<open>runs P r\<close> says that an operation returns and its result has the
  property, with one rule per construct; and the interface of an event loop, whose inputs are handled
  one after another, with a budget some of them use up.
\<close>

definition runs :: "('a \<Rightarrow> bool) \<Rightarrow> 'a option \<Rightarrow> bool" where
  "runs P r \<longleftrightarrow> (\<exists>x. r = Some x \<and> P x)"

lemma runs_simps [simp]: "runs P (Some x) = P x" "runs P None = False"
  by (simp_all add: runs_def)

lemma runs_bind: "runs Q m \<Longrightarrow> (\<And>x. Q x \<Longrightarrow> runs P (f x)) \<Longrightarrow> runs P (Option.bind m f)"
  by (auto simp: runs_def)

lemma runs_map [simp]: "runs P (map_option f m) = runs (\<lambda>x. P (f x)) m"
  by (auto simp: runs_def)

lemma runs_mono: "runs P m \<Longrightarrow> (\<And>x. P x \<Longrightarrow> Q x) \<Longrightarrow> runs Q m"
  by (auto simp: runs_def)

lemma runs_if: "(b \<Longrightarrow> runs P x) \<Longrightarrow> (\<not> b \<Longrightarrow> runs P y) \<Longrightarrow> runs P (if b then x else y)"
  by simp

lemma runsD: "runs P r \<Longrightarrow> \<exists>x. r = Some x \<and> P x"
  by (simp add: runs_def)

section \<open>Event loops\<close>

fun run_all :: "('i \<Rightarrow> 's \<Rightarrow> 's option) \<Rightarrow> 'i list \<Rightarrow> 's \<Rightarrow> 's option" where
  "run_all step [] s = Some s"
| "run_all step (i # is) s = do { s \<leftarrow> step i s; run_all step is s }"

lemma run_all_append: "run_all step (xs @ ys) s = do { s \<leftarrow> run_all step xs s; run_all step ys s }"
proof (induction xs arbitrary: s)
  case (Cons x xs)
  then show ?case by (cases "step x s") simp_all
qed simp

locale event_loop =
  fixes step :: "'i \<Rightarrow> 's \<Rightarrow> 's option"
    and inv :: "nat \<Rightarrow> 's \<Rightarrow> bool"
    and fit :: "'i \<Rightarrow> bool"
    and cost :: "'i \<Rightarrow> nat"
    and budget :: nat
  assumes step_runs: "inv n s \<Longrightarrow> fit i \<Longrightarrow> n + cost i \<le> budget \<Longrightarrow> runs (inv (n + cost i)) (step i s)"
begin

lemma loop_runs:
  "inv n s \<Longrightarrow> list_all fit is \<Longrightarrow> n + sum_list (map cost is) \<le> budget \<Longrightarrow>
   runs (inv (n + sum_list (map cost is))) (run_all step is s)"
proof (induction "is" arbitrary: n s)
  case (Cons i "is")
  have "runs (inv (n + cost i)) (step i s)" using Cons.prems by (intro step_runs) simp_all
  then show ?case
    using Cons.IH [of "n + cost i"] Cons.prems by (auto simp: runs_def add.assoc)
qed simp

end

end
