(* ===== verification/Trxcon_Safe.thy ===== *)
theory Trxcon_Safe
  imports Trxcon Sched_Manage Runs
begin

text \<open>
  The invariant of trxcon, over the state machine, the scheduler, the GPRS state and the transceiver
  interface together, and that the actions of the state machine keep it.
\<close>

section \<open>Invariant\<close>

text \<open>
  The GPRS state exists in the packet data state only, with at most \<open>n\<close> TBFs in it; the timer runs in
  the search state only, and a scan is in progress in the scan state only.
\<close>

definition gprs_fits :: "nat \<Rightarrow> trxcon_state \<Rightarrow> l1gprs_state option \<Rightarrow> bool" where
  "gprs_fits n st gprs \<longleftrightarrow> (case gprs of None \<Rightarrow> st \<noteq> TRXCON_ST_PACKET_DATA
     | Some g \<Rightarrow> st = TRXCON_ST_PACKET_DATA \<and> gprs_wf g \<and> gp_size g \<le> n)"

definition trxcon_wf :: "libosmo \<Rightarrow> nat \<Rightarrow> trxcon_inst \<Rightarrow> bool" where
  "trxcon_wf L n tr \<longleftrightarrow> \<not> tr_freed tr \<and> sched_wf L (tr_sched tr) \<and> sc_out (tr_sched tr) = [] \<and>
     tr_phyif tr \<noteq> None \<and> tr_l2if tr \<and> unat (tr_tsc tr) < 8 \<and>
     (tr_timer tr \<noteq> None \<longrightarrow> tr_state tr = TRXCON_ST_FBSB_SEARCH) \<and>
     (tr_fi_data tr \<noteq> None \<longrightarrow> tr_state tr = TRXCON_ST_FULL_POWER_SCAN) \<and>
     gprs_fits n (tr_state tr) (tr_gprs tr)"

lemma trxcon_wf_upd [simp]:
  "trxcon_wf L n (tr\<lparr>tr_l1ctl_out := x1\<rparr>) = trxcon_wf L n tr"
  "trxcon_wf L n (tr\<lparr>tr_band_arfcn := x2\<rparr>) = trxcon_wf L n tr"
  "trxcon_wf L n (tr\<lparr>tr_tx_power := x3\<rparr>) = trxcon_wf L n tr"
  "trxcon_wf L n (tr\<lparr>tr_ta := x4\<rparr>) = trxcon_wf L n tr"
  by (simp_all add: trxcon_wf_def)

lemma trxcon_wf_phyif [simp]: "trxcon_wf L n tr \<Longrightarrow> trxcon_wf L n (tr\<lparr>tr_phyif := Some t\<rparr>)"
  by (simp add: trxcon_wf_def)

lemma trxcon_wf_sched [simp]:
  "trxcon_wf L n tr \<Longrightarrow> sched_wf L s \<Longrightarrow> sc_out s = [] \<Longrightarrow> trxcon_wf L n (tr\<lparr>tr_sched := s\<rparr>)"
  by (simp add: trxcon_wf_def)

lemma trxcon_wf_tsc [simp]: "trxcon_wf L n tr \<Longrightarrow> unat tsc < 8 \<Longrightarrow> trxcon_wf L n (tr\<lparr>tr_tsc := tsc\<rparr>)"
  by (simp add: trxcon_wf_def)

lemma trxcon_wf_mono: "trxcon_wf L n tr \<Longrightarrow> n \<le> m \<Longrightarrow> trxcon_wf L m tr"
  by (auto simp: trxcon_wf_def gprs_fits_def split: option.splits)

lemma trxcon_wfD:
  assumes "trxcon_wf L n tr"
  shows "sched_wf L (tr_sched tr)" "sc_out (tr_sched tr) = []" "\<exists>t. tr_phyif tr = Some t" "tr_l2if tr"
    "unat (tr_tsc tr) < 8" "\<not> tr_freed tr"
  using assms by (auto simp: trxcon_wf_def)

section \<open>Messages, commands and the scheduler\<close>

named_theorems tr_runs "operations that return and keep the invariant"

lemma l1ctl_send_runs [tr_runs]: "trxcon_wf L n tr \<Longrightarrow> runs (trxcon_wf L n) (trxcon_l1ctl_send msg tr)"
  by (simp add: trxcon_l1ctl_send_def trxcon_wfD)

lemma tx_runs [tr_runs]:
  assumes "trxcon_wf L n tr"
  shows "runs (trxcon_wf L n) (l1ctl_tx_pm_conf L band_arfcn dbm is_last tr)"
    "runs (trxcon_wf L n) (l1ctl_tx_reset_conf type tr)"
    "runs (trxcon_wf L n) (l1ctl_tx_fbsb_fail band_arfcn tr)"
    "runs (trxcon_wf L n) (l1ctl_tx_ccch_mode_conf mode tr)"
  using assms by (simp_all add: l1ctl_tx_pm_conf_def l1ctl_tx_reset_conf_def l1ctl_tx_fbsb_fail_def
      l1ctl_tx_ccch_mode_conf_def l1ctl_send_runs Let_def)

lemma phyif_cmd_eq:
  "tr_phyif tr = Some t \<Longrightarrow> trxcon_phyif_handle_cmd L c tr =
     Some (fst (trx_if_handle_phyif_cmd L c t), tr\<lparr>tr_phyif := Some (snd (trx_if_handle_phyif_cmd L c t))\<rparr>)"
  by (simp add: trxcon_phyif_handle_cmd_def case_prod_beta Let_def)

lemma phyif_cmd_runs [tr_runs]:
  assumes "trxcon_wf L n tr"
  shows "runs (\<lambda>(_, tr'). trxcon_wf L n tr' \<and> (\<exists>t. tr' = tr\<lparr>tr_phyif := Some t\<rparr>)) (trxcon_phyif_handle_cmd L c tr)"
proof -
  obtain t where "tr_phyif tr = Some t" using trxcon_wfD(3) [OF assms] by blast
  then show ?thesis using assms by (auto simp: phyif_cmd_eq)
qed

lemma comb_inds_eq:
  "list_all is_comb ms \<Longrightarrow> tr_phyif tr = Some t \<Longrightarrow> \<exists>t'. comb_inds L ms tr = Some (tr\<lparr>tr_phyif := Some t'\<rparr>)"
proof (induction ms arbitrary: tr t)
  case Nil
  then show ?case by (intro exI [of _ t]) (cases tr; simp)
next
  case (Cons m ms)
  then obtain tn p where m: "mb_prim m = PCHAN_COMB_IND tn p" by (auto simp: is_comb_def split: prim.splits)
  let ?t = "snd (trx_if_handle_phyif_cmd L (CMDT_SETSLOT tn p) t)"
  from Cons.IH [of "tr\<lparr>tr_phyif := Some ?t\<rparr>" ?t] Cons.prems show ?case
    by (simp add: m phyif_cmd_eq)
qed

text \<open>An operation of the scheduler, whose reports reach the transceiver.\<close>

lemma with_sched_runs:
  assumes "trxcon_wf L n tr" "f (tr_sched tr) = Some (a, s)" "sched_wf L s" "combs (tr_sched tr) s"
  shows "\<exists>t tr'. with_sched L f tr = Some (a, tr') \<and> trxcon_wf L n tr' \<and>
    tr' = tr\<lparr>tr_sched := s\<lparr>sc_out := []\<rparr>, tr_phyif := Some t\<rparr>"
proof -
  obtain t where t: "tr_phyif tr = Some t" using trxcon_wfD(3) [OF assms(1)] by blast
  have "list_all is_comb (sc_out s)" using assms(4) trxcon_wfD(2) [OF assms(1)] by (auto simp: combs_def)
  then obtain t' where "comb_inds L (sc_out s) (tr\<lparr>tr_sched := s\<lparr>sc_out := []\<rparr>\<rparr>) =
      Some (tr\<lparr>tr_sched := s\<lparr>sc_out := []\<rparr>, tr_phyif := Some t'\<rparr>)"
    using comb_inds_eq [of "sc_out s" "tr\<lparr>tr_sched := s\<lparr>sc_out := []\<rparr>\<rparr>" t L] t by auto
  then show ?thesis using assms(1-3) by (intro exI [of _ t']) (simp add: with_sched_def)
qed

lemma with_ts_runs:
  assumes "trxcon_wf L n tr" "tn < 8" "sc_ts (tr_sched tr) ! tn = Some ts" "f ts = Some (a, ts')" "ts_wf L tn ts'"
  shows "with_ts tn f tr = Some (a, tr\<lparr>tr_sched := set_ts tn (Some ts') (tr_sched tr)\<rparr>) \<and>
    trxcon_wf L n (tr\<lparr>tr_sched := set_ts tn (Some ts') (tr_sched tr)\<rparr>)"
  using assms trxcon_wfD(1,2) [OF assms(1)]
  by (auto simp: with_ts_def sched_slot sched_wf_set_ts)

definition tr_slot :: "trxcon_inst \<Rightarrow> nat \<Rightarrow> l1sched_ts option" where
  "tr_slot tr tn = sc_ts (tr_sched tr) ! tn"

lemma sched_reset_runs [tr_runs]:
  assumes "trxcon_wf L n tr"
  shows "runs (\<lambda>tr'. trxcon_wf L n tr' \<and> tr_state tr' = tr_state tr \<and> (\<forall>tn < 8. tr_slot tr' tn = None)) (sched_reset L tr)"
proof -
  obtain s where s: "l1sched_reset L (tr_sched tr) = Some s" "sched_wf L s" "\<forall>tn < 8. sc_ts s ! tn = None"
    using reset_ok [OF trxcon_wfD(1) [OF assms]] by blast
  from with_sched_runs [OF assms _ s(2) combs_reset [OF s(1)], of "\<lambda>s. map_option (Pair ()) (l1sched_reset L s)" "()"]
  show ?thesis using s by (auto simp: sched_reset_def tr_slot_def)
qed

definition configurable :: "pchan \<Rightarrow> bool" where
  "configurable c \<longleftrightarrow> c \<noteq> GSM_PCHAN_TCH_F_PDCH \<and> c \<noteq> GSM_PCHAN_UNKNOWN"

lemma configure_runs:
  assumes "trxcon_wf L n tr" "tn < 8" "configurable config"
  shows "\<exists>tr' mf ls. with_sched L (\<lambda>s. l1sched_configure_ts L s tn config) tr = Some (0, tr') \<and> trxcon_wf L n tr' \<and>
    l1sched_mframe_layout config tn = Some mf \<and>
    tr_slot tr' tn = Some \<lparr>ts_mf_layout = Some mf, ts_lchans = Some ls\<rparr> \<and> map lc_type ls = mf_lchans mf \<and>
    tr_state tr' = tr_state tr \<and> tr_tsc tr' = tr_tsc tr \<and> (\<forall>k < 8. k \<noteq> tn \<longrightarrow> tr_slot tr' k = tr_slot tr k)"
proof -
  obtain s mf ls where s: "l1sched_configure_ts L (tr_sched tr) tn config = Some (0, s)" "sched_wf L s"
    "l1sched_mframe_layout config tn = Some mf" "sc_ts s ! tn = Some \<lparr>ts_mf_layout = Some mf, ts_lchans = Some ls\<rparr>"
    "map lc_type ls = filter (LAYOUT_HAS_LCHAN mf) lchan_types" "\<forall>k < 8. k \<noteq> tn \<longrightarrow> sc_ts s ! k = sc_ts (tr_sched tr) ! k"
    using configure_ts_ok [OF trxcon_wfD(1) [OF assms(1)] assms(2), of config] assms(3) unfolding configurable_def by blast
  from with_sched_runs [where f = "\<lambda>s. l1sched_configure_ts L s tn config", OF assms(1) s(1,2) combs_configure [OF s(1)]] show ?thesis
    using s(3-6) by (auto simp: tr_slot_def mf_lchans_def)
qed

lemma prim_from_user_runs [tr_runs]:
  assumes "trxcon_wf L n tr"
  shows "runs (\<lambda>(_, tr'). trxcon_wf L n tr') (with_sched L (\<lambda>s. l1sched_prim_from_user L s msg) tr)"
proof -
  obtain rc s where s: "l1sched_prim_from_user L (tr_sched tr) msg = Some (rc, s)" "sched_wf L s"
    using prim_from_user_ok [OF trxcon_wfD(1) [OF assms]] by blast
  have "combs (tr_sched tr) s" using prim_from_user_out [OF s(1)] by (simp add: combs_def)
  from with_sched_runs [where f = "\<lambda>s. l1sched_prim_from_user L s msg", OF assms s this] show ?thesis by auto
qed

section \<open>Changing state\<close>

lemma phyif_state_runs:
  assumes "trxcon_wf L n tr"
  shows "runs (trxcon_wf L n) (map_option snd (trxcon_phyif_handle_cmd L c tr))"
  using phyif_cmd_runs [OF assms, of c] by (auto elim!: runs_mono)

lemma state_chg_runs:
  assumes "trxcon_wf L n tr" "st \<noteq> TRXCON_ST_FULL_POWER_SCAN" "timeout = 0 \<or> st = TRXCON_ST_FBSB_SEARCH"
    "tr_fi_data tr = None"
  shows "runs (\<lambda>tr'. trxcon_wf L n tr' \<and> tr_sched tr' = tr_sched tr \<and>
    (st \<in> set (trxcon_out_states (tr_state tr)) \<longrightarrow> tr_state tr' = st)) (trxcon_state_chg L st timeout tr)"
proof -
  have "gprs_wf l1gprs_state_alloc" "gp_size l1gprs_state_alloc = 0"
    by (simp_all add: gprs_wf_alloc) (simp add: l1gprs_state_alloc_def)
  then show ?thesis
    using assms by (cases "tr_gprs tr") (auto simp: trxcon_state_chg_def Let_def trxcon_wf_def gprs_fits_def
        trxcon_st_packet_data_onleave_def trxcon_st_packet_data_onenter_def)
qed

lemma reset_state_runs:
  assumes "trxcon_wf L n tr" "tr_fi_data tr = None"
  shows "runs (trxcon_wf L n) (trxcon_state_chg L TRXCON_ST_RESET 0 tr)"
  using state_chg_runs [OF assms(1) _ _ assms(2), of TRXCON_ST_RESET 0] by (auto elim!: runs_mono)

lemma scan_state_runs:
  assumes "trxcon_wf L n tr" "tr_state tr = TRXCON_ST_RESET \<or> tr_state tr = TRXCON_ST_FULL_POWER_SCAN"
  shows "runs (\<lambda>tr'. trxcon_wf L n tr' \<and> tr_state tr' = TRXCON_ST_FULL_POWER_SCAN \<and> tr_fi_data tr' = Some (start, stop))
    (trxcon_state_chg L TRXCON_ST_FULL_POWER_SCAN 0 (tr\<lparr>tr_fi_data := Some (start, stop)\<rparr>))"
proof -
  obtain t where "tr_phyif tr = Some t" using trxcon_wfD(3) [OF assms(1)] by blast
  then show ?thesis
    using assms by (cases "tr_gprs tr") (auto simp: trxcon_state_chg_def Let_def trxcon_wf_def gprs_fits_def phyif_cmd_eq
        trxcon_st_full_power_scan_onenter_def)
qed

lemma full_power_scan_req_runs:
  assumes "trxcon_wf L n tr" "tr_state tr = TRXCON_ST_RESET \<or> tr_state tr = TRXCON_ST_FULL_POWER_SCAN"
  shows "runs (trxcon_wf L n) (handle_full_power_scan_req L start stop tr)"
  using assms(1) scan_state_runs [OF assms, of start stop] by (auto simp: handle_full_power_scan_req_def elim!: runs_mono)

section \<open>Actions\<close>

lemma wf_scan_state: "trxcon_wf L n tr \<Longrightarrow> tr_state tr \<noteq> TRXCON_ST_FULL_POWER_SCAN \<Longrightarrow> tr_fi_data tr = None"
  by (cases "tr_fi_data tr") (auto simp: trxcon_wf_def)

lemma reset_full_runs:
  assumes "trxcon_wf L n tr"
  shows "runs (trxcon_wf L n) (trxcon_allstate_action L TRXCON_EV_RESET_FULL_REQ tr)"
proof -
  let ?tr = "tr\<lparr>tr_fi_data := None\<rparr>"
  have wf: "trxcon_wf L n ?tr" using assms by (simp add: trxcon_wf_def)
  have rest: "runs (trxcon_wf L n) (do { tr \<leftarrow> sched_reset L tr1;
     map_option snd (trxcon_phyif_handle_cmd L CMDT_RESET (tr\<lparr>tr_band_arfcn := 0xffff, tr_tx_power := 0, tr_ta := 0\<rparr>)) })"
    if "trxcon_wf L n tr1" for tr1
    by (rule runs_bind [OF sched_reset_runs [OF that]], rule phyif_state_runs) simp
  have "runs (trxcon_wf L n) (if tr_state ?tr \<noteq> TRXCON_ST_RESET then trxcon_state_chg L TRXCON_ST_RESET 0 ?tr else Some ?tr)"
    using wf reset_state_runs [OF wf] by simp
  then show ?thesis
    unfolding trxcon_allstate_action.simps Let_def by (rule runs_bind) (rule rest)
qed

lemma tx_params_runs:
  assumes "trxcon_wf L n tr"
  shows "runs (trxcon_wf L n) (trxcon_allstate_action L (TRXCON_EV_SET_PHY_CONFIG_REQ (CFGT_TX_PARAMS ta p)) tr)"
  using phyif_state_runs [OF assms] assms by (auto intro!: runs_bind simp del: runs_map)

definition sacch_req_ok :: "data_req_param \<Rightarrow> bool" where
  "sacch_req_ok req \<longleftrightarrow> unat (dr_data_len req) = length (dr_data req) \<and>
     (length (dr_data req) = GSM_MACBLOCK_LEN \<longrightarrow> is_mr_frame (dr_data req))"

lemma sacch_cache_runs:
  assumes "trxcon_wf L n tr" "sacch_req_ok req"
  shows "runs (trxcon_wf L n) (trxcon_allstate_action L (TRXCON_EV_UPDATE_SACCH_CACHE_REQ req) tr)"
  using assms trxcon_wfD(1,2) [OF assms(1)]
  by (auto simp: sacch_req_ok_def buf_simps cache_good_def intro!: trxcon_wf_sched sched_wf_cache)

lemma fbsb_search_req_runs:
  assumes "trxcon_wf L n tr" "tr_state tr = TRXCON_ST_RESET" "configurable config"
  shows "runs (trxcon_wf L n) (trxcon_st_reset_action L (TRXCON_EV_FBSB_SEARCH_REQ band_arfcn timeout_fns config) tr)"
proof -
  have fi: "tr_fi_data tr = None" using wf_scan_state [OF assms(1)] assms(2) by simp
  let ?t = "(unat timeout_fns + tr_fbsb_extend_fns tr) * 4615 div 1000"
  have chg: "runs (trxcon_wf L n) (trxcon_state_chg L TRXCON_ST_FBSB_SEARCH ?t tr)"
    by (rule runs_mono [OF state_chg_runs [OF assms(1) _ _ fi]]) auto
  have freq: "runs (trxcon_wf L n) (if tr_band_arfcn tr' \<noteq> band_arfcn
           then map_option snd (trxcon_phyif_handle_cmd L (CMDT_SETFREQ_H0 band_arfcn) (tr'\<lparr>tr_band_arfcn := band_arfcn\<rparr>))
           else Some tr')" if "trxcon_wf L n tr'" for tr'
    using phyif_state_runs [of L n "tr'\<lparr>tr_band_arfcn := band_arfcn\<rparr>"] that by simp
  have rest: "runs (trxcon_wf L n) (do {
       (_, tr) \<leftarrow> with_sched L (\<lambda>s. l1sched_configure_ts L s 0 config) tr1;
       tr \<leftarrow> (if tr_band_arfcn tr \<noteq> band_arfcn
             then map_option snd (trxcon_phyif_handle_cmd L (CMDT_SETFREQ_H0 band_arfcn) (tr\<lparr>tr_band_arfcn := band_arfcn\<rparr>))
             else Some tr);
       map_option snd (trxcon_phyif_handle_cmd L CMDT_POWERON tr) })" if tr1: "trxcon_wf L n tr1" for tr1
  proof -
    obtain tr2 where "with_sched L (\<lambda>s. l1sched_configure_ts L s 0 config) tr1 = Some (0, tr2)" "trxcon_wf L n tr2"
      using configure_runs [OF tr1 _ assms(3), of 0] by auto
    then show ?thesis
      using runs_bind [OF freq phyif_state_runs] by (simp del: runs_map)
  qed
  show ?thesis
    unfolding trxcon_st_reset_action.simps Let_def by (rule runs_bind [OF chg]) (rule rest)
qed

lemma timer_runs:
  assumes "trxcon_wf L n tr" "tr_timer tr \<noteq> None"
  shows "runs (\<lambda>tr'. trxcon_wf L n tr' \<and> tr_state tr' = TRXCON_ST_RESET) (trxcon_timer_cb L tr)"
proof -
  have st: "tr_state tr = TRXCON_ST_FBSB_SEARCH" using assms by (auto simp: trxcon_wf_def)
  have fi: "tr_fi_data tr = None" using wf_scan_state [OF assms(1)] st by simp
  show ?thesis
    using assms(1) st fi by (cases "tr_gprs tr") (auto simp: trxcon_timer_cb_def l1ctl_tx_fbsb_fail_def trxcon_l1ctl_send_def trxcon_state_chg_def
        trxcon_wf_def gprs_fits_def Let_def)
qed

section \<open>Dedicated channels\<close>

definition wf_st :: "libosmo \<Rightarrow> nat \<Rightarrow> trxcon_state \<Rightarrow> trxcon_inst \<Rightarrow> bool" where
  "wf_st L n st tr \<longleftrightarrow> trxcon_wf L n tr \<and> tr_state tr = st"

lemma dch_tune_runs:
  assumes "wf_st L n st tr"
  shows "runs (\<lambda>(_, tr'). wf_st L n st tr') (dch_tune L freq tr)"
proof -
  obtain t where "tr_phyif tr = Some t" using trxcon_wfD(3) assms unfolding wf_st_def by blast
  then show ?thesis using assms by (cases freq) (auto simp: phyif_cmd_eq wf_st_def)
qed

lemma chan_nr_configurable: "configurable (l1sched_chan_nr2pchan_config L chan_nr)"
  by (simp add: configurable_def l1sched_chan_nr2pchan_config_def Let_def)

lemma with_ts_st:
  assumes "wf_st L n st tr" "tn < 8" "tr_slot tr tn = Some ts" "f ts = Some (a, ts')" "ts_wf L tn ts'"
  shows "\<exists>tr'. with_ts tn f tr = Some (a, tr') \<and> wf_st L n st tr' \<and> tr_slot tr' tn = Some ts' \<and> tr_tsc tr' = tr_tsc tr \<and>
    (\<forall>k. k \<noteq> tn \<longrightarrow> tr_slot tr' k = tr_slot tr k)"
proof -
  have "length (sc_ts (tr_sched tr)) = 8" using assms(1) by (simp add: wf_st_def trxcon_wf_def sched_wf_def)
  then show ?thesis
    using with_ts_runs [of L n tr tn ts f a ts'] assms by (auto simp: wf_st_def tr_slot_def)
qed

lemma slot_wf: "wf_st L n st tr \<Longrightarrow> tn < 8 \<Longrightarrow> tr_slot tr tn = Some ts \<Longrightarrow> ts_wf L tn ts"
  using sched_wf_ts [of L "tr_sched tr" tn ts] by (auto simp: wf_st_def trxcon_wf_def tr_slot_def)

text \<open>
  The timeslot of a new dedicated channel, from the scheduler reset on: the only one, with the layout
  of its combination, and of its channels those of the channel number active.
\<close>

definition dch_slot :: "libosmo \<Rightarrow> dch_est_param \<Rightarrow> l1sched_ts \<Rightarrow> bool" where
  "dch_slot L req ts \<longleftrightarrow> (\<exists>mf ls. ts = \<lparr>ts_mf_layout = Some mf, ts_lchans = Some ls\<rparr> \<and>
     l1sched_mframe_layout (l1sched_chan_nr2pchan_config L (de_chan_nr req)) (unat (de_chan_nr req AND 0x07)) = Some mf \<and>
     map lc_type ls = mf_lchans mf \<and>
     list_all (\<lambda>lc. lc_active lc = (ld_chan_nr (l1sched_lchan_desc L (lc_type lc)) = de_chan_nr req AND RSL_CHAN_NR_MASK) \<and>
       (lc_active lc \<longrightarrow> lc_tch_mode lc = de_tch_mode req \<and> lc_tsc lc = de_tsc req)) ls)"

lemma dch_slot_runs:
  assumes "wf_st L n st tr" "unat (de_tsc req) < 8"
    and "config = l1sched_chan_nr2pchan_config L (de_chan_nr req)" "tn = unat (de_chan_nr req AND 0x07)"
  shows "\<exists>tr1 tr2 tr3 tr4 ts. sched_reset L tr = Some tr1 \<and>
    with_sched L (\<lambda>s. l1sched_configure_ts L s tn config) tr1 = Some (0, tr2) \<and>
    with_ts tn (\<lambda>ts. map_option (Pair ()) (l1sched_deactivate_all_lchans L ts)) tr2 = Some ((), tr3) \<and>
    with_ts tn (\<lambda>ts. l1sched_set_lchans L (Some ts) (de_chan_nr req) True (de_tch_mode req) (de_tsc req)) tr3 = Some (0, tr4) \<and>
    wf_st L n st tr4 \<and> tr_slot tr4 tn = Some ts \<and> dch_slot L req ts \<and> (\<forall>k < 8. k \<noteq> tn \<longrightarrow> tr_slot tr4 k = None)"
proof -
  have tn: "tn < 8" and conf: "configurable config" using assms(3,4) tn_less chan_nr_configurable by simp_all
  obtain tr1 where tr1: "sched_reset L tr = Some tr1" "wf_st L n st tr1" "\<forall>k < 8. tr_slot tr1 k = None"
    using sched_reset_runs [of L n tr] assms(1) by (auto simp: wf_st_def runs_def)
  obtain tr2 mf ls where tr2: "with_sched L (\<lambda>s. l1sched_configure_ts L s tn config) tr1 = Some (0, tr2)" "wf_st L n st tr2"
    "tr_slot tr2 tn = Some \<lparr>ts_mf_layout = Some mf, ts_lchans = Some ls\<rparr>" "l1sched_mframe_layout config tn = Some mf"
    "map lc_type ls = mf_lchans mf" "\<forall>k < 8. k \<noteq> tn \<longrightarrow> tr_slot tr2 k = None"
    using configure_runs [OF _ tn conf, of L n tr1] tr1(2,3) by (auto simp: wf_st_def)
  let ?ls3 = "map (deactivate_if_active L) ls"
  let ?ts3 = "\<lparr>ts_mf_layout = Some mf, ts_lchans = Some ?ls3\<rparr>"
  let ?deact = "\<lambda>ts. map_option (Pair ()) (l1sched_deactivate_all_lchans L ts)"
  have "ts_wf L tn ?ts3"
    using deactivate_all_ok [OF slot_wf [OF tr2(2) tn tr2(3)]] by (simp add: deactivate_all_good)
  then obtain tr3 where tr3: "with_ts tn ?deact tr2 = Some ((), tr3)" "wf_st L n st tr3" "tr_slot tr3 tn = Some ?ts3"
    "\<forall>k. k \<noteq> tn \<longrightarrow> tr_slot tr3 k = tr_slot tr2 k"
    using with_ts_st [OF tr2(2) tn tr2(3), of ?deact "()" ?ts3] by (auto simp: deactivate_all_good)
  let ?ls4 = "map (taken L (de_chan_nr req) (de_tch_mode req) (de_tsc req)) ?ls3"
  let ?ts4 = "\<lparr>ts_mf_layout = Some mf, ts_lchans = Some ?ls4\<rparr>"
  have types: "map lc_type ?ls3 = mf_lchans mf" using tr2(5) by (simp add: comp_def lchan_good_deactivate)
  have set4: "l1sched_set_lchans L (Some ?ts3) (de_chan_nr req) True (de_tch_mode req) (de_tsc req) = Some (0, ?ts4)"
    using set_lchans_eq [of ?ts3 ?ls3 L] types mf_lchans_sorted [of mf] by (simp add: list_all_iff lchan_good_deactivate)
  then have "ts_wf L tn ?ts4"
    using set_lchans_ok [OF slot_wf [OF tr3(2) tn tr3(3)] assms(2), of "de_chan_nr req" "de_tch_mode req"] by auto
  then obtain tr4 where tr4: "with_ts tn (\<lambda>ts. l1sched_set_lchans L (Some ts) (de_chan_nr req) True (de_tch_mode req) (de_tsc req)) tr3 = Some (0, tr4)"
    "wf_st L n st tr4" "tr_slot tr4 tn = Some ?ts4" "\<forall>k. k \<noteq> tn \<longrightarrow> tr_slot tr4 k = tr_slot tr3 k"
    using with_ts_st [OF tr3(2) tn tr3(3), of "\<lambda>ts. l1sched_set_lchans L (Some ts) (de_chan_nr req) True (de_tch_mode req) (de_tsc req)" 0 ?ts4] set4
    by auto
  have "map lc_type ?ls4 = mf_lchans mf" using types by (simp add: comp_def)
  moreover have "list_all (\<lambda>lc. lc_active lc = (ld_chan_nr (l1sched_lchan_desc L (lc_type lc)) = de_chan_nr req AND RSL_CHAN_NR_MASK) \<and>
       (lc_active lc \<longrightarrow> lc_tch_mode lc = de_tch_mode req \<and> lc_tsc lc = de_tsc req)) ?ls4"
    by (auto simp: list_all_iff taken_def lchan_good_deactivate)
  ultimately have "dch_slot L req ?ts4" using tr2(4) assms(3,4) unfolding dch_slot_def by blast
  then show ?thesis using tr1(1) tr2(1,6) tr3(1,4) tr4 by auto
qed

lemma dch_est_req_ok:
  assumes "trxcon_wf L n tr" "tr_state tr \<noteq> TRXCON_ST_FULL_POWER_SCAN" "unat (de_tsc req) < 8"
    and "dch_tune L (de_freq req) tr = Some (ok, tr0)"
    and "config = l1sched_chan_nr2pchan_config L (de_chan_nr req)" "config \<noteq> GSM_PCHAN_NONE"
    and "st = (if config = GSM_PCHAN_PDCH then TRXCON_ST_PACKET_DATA else TRXCON_ST_DEDICATED)"
  shows "\<exists>tr'. handle_dch_est_req L req tr = Some tr' \<and> trxcon_wf L n tr' \<and>
    (if \<not> ok then tr' = tr0
     else (\<exists>ts. tr_slot tr' (unat (de_chan_nr req AND 0x07)) = Some ts \<and> dch_slot L req ts) \<and>
       (\<forall>k < 8. k \<noteq> unat (de_chan_nr req AND 0x07) \<longrightarrow> tr_slot tr' k = None) \<and>
       (st \<in> set (trxcon_out_states (tr_state tr)) \<longrightarrow> tr_state tr' = st))"
proof -
  let ?tn = "unat (de_chan_nr req AND 0x07)"
  have "wf_st L n (tr_state tr) tr" using assms(1) by (simp add: wf_st_def)
  from dch_tune_runs [OF this, of "de_freq req"] have tune: "wf_st L n (tr_state tr) tr0" by (simp add: assms(4))
  obtain tr1 tr2 tr3 tr4 ts where slot: "sched_reset L tr0 = Some tr1"
    "with_sched L (\<lambda>s. l1sched_configure_ts L s ?tn config) tr1 = Some (0, tr2)"
    "with_ts ?tn (\<lambda>ts. map_option (Pair ()) (l1sched_deactivate_all_lchans L ts)) tr2 = Some ((), tr3)"
    "with_ts ?tn (\<lambda>ts. l1sched_set_lchans L (Some ts) (de_chan_nr req) True (de_tch_mode req) (de_tsc req)) tr3 = Some (0, tr4)"
    "wf_st L n (tr_state tr) tr4" "tr_slot tr4 ?tn = Some ts" "dch_slot L req ts" "\<forall>k < 8. k \<noteq> ?tn \<longrightarrow> tr_slot tr4 k = None"
    using dch_slot_runs [OF tune assms(3,5) refl] by blast
  let ?tr = "tr4\<lparr>tr_tsc := de_tsc req\<rparr>"
  have wf: "trxcon_wf L n ?tr" "tr_fi_data ?tr = None"
    using slot(5) assms(2,3) wf_scan_state [of L n tr4] by (auto simp: wf_st_def)
  have "st \<noteq> TRXCON_ST_FULL_POWER_SCAN" using assms(7) by simp
  from state_chg_runs [OF wf(1) this _ wf(2), of 0] obtain tr5 where tr5: "trxcon_state_chg L st 0 ?tr = Some tr5"
    "trxcon_wf L n tr5" "tr_sched tr5 = tr_sched tr4"
    "st \<in> set (trxcon_out_states (tr_state tr4)) \<longrightarrow> tr_state tr5 = st" by (auto simp: runs_def)
  show ?thesis
  proof (cases ok)
    case False
    then show ?thesis using assms(4-6) tune by (simp add: handle_dch_est_req_def wf_st_def)
  next
    case True
    have "handle_dch_est_req L req tr = Some tr5"
      using True assms(4-7) slot(1-4) tr5(1) by (simp add: handle_dch_est_req_def)
    then show ?thesis using True tr5 slot(5-8) by (simp add: tr_slot_def wf_st_def)
  qed
qed

lemma dch_est_req_runs:
  assumes "trxcon_wf L n tr" "tr_state tr \<noteq> TRXCON_ST_FULL_POWER_SCAN" "unat (de_tsc req) < 8"
  shows "runs (trxcon_wf L n) (handle_dch_est_req L req tr)"
proof (cases "l1sched_chan_nr2pchan_config L (de_chan_nr req) = GSM_PCHAN_NONE")
  case True
  then show ?thesis using assms(1) by (simp add: handle_dch_est_req_def)
next
  case False
  have "wf_st L n (tr_state tr) tr" using assms(1) by (simp add: wf_st_def)
  then obtain ok tr0 where "dch_tune L (de_freq req) tr = Some (ok, tr0)"
    using dch_tune_runs [of L n "tr_state tr" tr "de_freq req"] by (auto simp: runs_def)
  from dch_est_req_ok [OF assms this refl False refl] show ?thesis by (auto simp: runs_def)
qed

section \<open>Traffic channels\<close>

lemma tch_mode_lchans_ok:
  assumes "mode = GSM48_CMODE_SPEECH_AMR \<longrightarrow> length (mask_bits bitmask) \<le> 4"
  shows "list_all (lchan_good L) ls \<Longrightarrow> runs (\<lambda>(_, ls'). list_all (lchan_good L) ls' \<and> map lc_type ls' = map lc_type ls)
    (tch_mode_lchans mode bitmask start ls)"
proof (induction ls)
  case (Cons lc ls)
  obtain d ls' where r: "tch_mode_lchans mode bitmask start ls = Some (d, ls')" "list_all (lchan_good L) ls'"
    "map lc_type ls' = map lc_type ls" using Cons by (auto simp: runs_def)
  have good: "lchan_good L lc" using Cons.prems by simp
  show ?case
  proof (cases "lc_active lc \<and> mode = GSM48_CMODE_SPEECH_AMR")
    case True
    then obtain rc lc' where "l1sched_lchan_set_amr_cfg lc bitmask start = Some (rc, lc')" "lchan_good L lc'" "lc_type lc' = lc_type lc"
      using set_amr_ok [OF good, of bitmask start] assms by blast
    then show ?thesis using True r lchan_good_mode by (cases "rc = 0") auto
  next
    case False
    then show ?thesis using r good lchan_good_mode [OF good, of mode] by auto
  qed
qed simp

definition slot_ok :: "libosmo \<Rightarrow> nat \<Rightarrow> l1sched_ts option \<Rightarrow> bool" where
  "slot_ok L tn slot \<longleftrightarrow> (case slot of None \<Rightarrow> True | Some ts \<Rightarrow> ts_wf L tn ts)"

lemma tch_mode_slots_ok:
  assumes "mode = GSM48_CMODE_SPEECH_AMR \<longrightarrow> length (mask_bits bitmask) \<le> 4"
  shows "\<forall>i < length slots. slot_ok L (k + i) (slots ! i) \<Longrightarrow>
    runs (\<lambda>(_, slots'). length slots' = length slots \<and> (\<forall>i < length slots'. slot_ok L (k + i) (slots' ! i)))
      (tch_mode_slots mode bitmask start slots)"
proof (induction slots arbitrary: k)
  case (Cons slot slots)
  have "\<forall>i < length slots. slot_ok L (Suc k + i) (slots ! i)" using Cons.prems by auto
  from Cons.IH [OF this] obtain d slots' where r: "tch_mode_slots mode bitmask start slots = Some (d, slots')"
    "length slots' = length slots" "\<forall>i < length slots'. slot_ok L (Suc k + i) (slots' ! i)" by (auto simp: runs_def)
  have keep: "slot_ok L k s \<Longrightarrow> \<forall>i < length (s # slots'). slot_ok L (k + i) ((s # slots') ! i)" for s
    using r(3) by (auto simp: nth_Cons split: nat.splits)
  have ok: "slot_ok L k slot" using Cons.prems by force
  show ?case
  proof (cases slot)
    case None
    then show ?thesis using r keep [OF ok] by simp
  next
    case (Some ts)
    then have wf: "ts_wf L k ts" using ok by (simp add: slot_ok_def)
    show ?thesis
    proof (cases "ts_mf_layout ts")
      case None
      then show ?thesis using Some r keep [OF ok] by simp
    next
      case layout: (Some mf)
      obtain ls where ls: "ts_lchans ts = Some ls" "list_all (lchan_good L) ls" using ts_wf_lchans [OF wf] .
      obtain d' ls' where ls': "tch_mode_lchans mode bitmask start ls = Some (d', ls')" "list_all (lchan_good L) ls'"
        "map lc_type ls' = map lc_type ls" using tch_mode_lchans_ok [OF assms ls(2), of start] by (auto simp: runs_def)
      have "slot_ok L k (Some (ts\<lparr>ts_lchans := Some ls'\<rparr>))" using ts_wf_put [OF wf ls(1) ls'(2,3)] by (simp add: slot_ok_def)
      then show ?thesis using Some layout ls(1) ls'(1) r keep by simp
    qed
  qed
qed simp

lemma tch_mode_runs:
  assumes "trxcon_wf L n tr" "mode = GSM48_CMODE_SPEECH_AMR \<longrightarrow> length (mask_bits bitmask) \<le> 4"
  shows "runs (\<lambda>(_, tr'). trxcon_wf L n tr') (trxcon_st_dedicated_action L (TRXCON_EV_SET_TCH_MODE_REQ mode start bitmask) tr)"
proof -
  have s: "sched_wf L (tr_sched tr)" "sc_out (tr_sched tr) = []" using trxcon_wfD [OF assms(1)] by blast+
  then have "\<forall>i < length (sc_ts (tr_sched tr)). slot_ok L (0 + i) (sc_ts (tr_sched tr) ! i)"
    by (simp add: sched_wf_def slot_ok_def)
  from tch_mode_slots_ok [OF assms(2) this, of start] obtain d slots where d: "tch_mode_slots mode bitmask start (sc_ts (tr_sched tr)) = Some (d, slots)"
    "length slots = length (sc_ts (tr_sched tr))" "\<forall>i < length slots. slot_ok L i (slots ! i)" by (auto simp: runs_def)
  then have "sched_wf L ((tr_sched tr)\<lparr>sc_ts := slots\<rparr>)" using s(1) by (simp add: sched_wf_def slot_ok_def)
  then show ?thesis using d(1) assms(1) s(2) by simp
qed

lemma crypto_runs:
  assumes "trxcon_wf L n tr" "MAX_A5_KEY_LEN \<le> length key"
  shows "runs (\<lambda>(_, tr'). trxcon_wf L n tr') (trxcon_st_dedicated_action L (TRXCON_EV_CRYPTO_REQ chan_nr algo key_len key) tr)"
proof -
  let ?tn = "unat (chan_nr AND 7)"
  have s: "sched_wf L (tr_sched tr)" "sc_out (tr_sched tr) = []" using trxcon_wfD [OF assms(1)] by blast+
  show ?thesis
  proof (cases "sc_ts (tr_sched tr) ! ?tn")
    case None
    then show ?thesis using sched_slot [OF s(1) tn_less] assms(1) by simp
  next
    case (Some ts)
    have "ts_wf L ?tn ts" using sched_wf_ts [OF s(1) tn_less Some] by blast
    from start_ciphering_ok [OF this assms(2)] obtain rc ts' where "l1sched_start_ciphering (Some ts) algo key key_len = Some (rc, Some ts')"
      "ts_wf L ?tn ts'" by blast
    then show ?thesis
      using Some sched_slot [OF s(1) tn_less] assms(1) s by (simp add: sched_wf_set_ts tn_less)
  qed
qed

lemma send_data_runs:
  assumes "trxcon_wf L n tr" "len \<le> 512" "len \<le> length data"
  shows "runs (trxcon_wf L n) (send_data_req L chdr len data tr)"
  using prim_from_user_runs [OF assms(1), of "(l1sched_prim_alloc (DATA_REQ chdr))\<lparr>mb_l2 := chunk 0 len data\<rparr>"] assms(2,3)
  by (auto simp: send_data_req_def buf_simps elim!: runs_mono)

lemma access_burst_runs:
  assumes "trxcon_wf L n tr"
  shows "runs (trxcon_wf L n) (handle_tx_access_burst_req L req tr)"
  unfolding handle_tx_access_burst_req_def Let_def runs_map by (rule runs_mono [OF prim_from_user_runs [OF assms]]) auto

section \<open>Packet data\<close>

lemma tbf_cfg_req_runs:
  assumes "wf_st L n st tr" "tn < 8"
  shows "runs (wf_st L n st) (handle_tbf_cfg_req L None tn active tr)"
proof (cases active)
  case False
  have s: "trxcon_wf L n tr" "sched_wf L (tr_sched tr)" using assms(1) by (auto simp: wf_st_def trxcon_wf_def)
  obtain s' where s': "l1sched_del_ts L (tr_sched tr) tn = Some s'" "sched_wf L s'" using del_ts_wf [OF s(2) assms(2)] by blast
  then obtain tr' where "with_sched L (\<lambda>s. map_option (Pair ()) (l1sched_del_ts L s tn)) tr = Some ((), tr')" "wf_st L n st tr'"
    using with_sched_runs [OF s(1) _ s'(2) combs_del_ts [OF s'(1)], of "\<lambda>s. map_option (Pair ()) (l1sched_del_ts L s tn)" "()"]
      assms(1) by (auto simp: wf_st_def)
  then show ?thesis using False by (simp add: handle_tbf_cfg_req_def)
next
  case True
  have s: "trxcon_wf L n tr" "index_at (sc_ts (tr_sched tr)) tn = Some (tr_slot tr tn)"
    using assms sched_slot [of L "tr_sched tr"] by (auto simp: wf_st_def trxcon_wf_def tr_slot_def)
  obtain tr1 ts1 where tr1: "with_sched L (\<lambda>s. l1sched_configure_ts L s tn GSM_PCHAN_PDCH) tr = Some (0, tr1)"
    "wf_st L n st tr1" "tr_slot tr1 tn = Some ts1" "tr_tsc tr1 = tr_tsc tr"
    using configure_runs [OF s(1) assms(2), of GSM_PCHAN_PDCH] assms(1) by (auto simp: wf_st_def configurable_def)
  obtain r2 ts2 where "l1sched_activate_lchan L ts1 L1SCHED_PDTCH = Some (r2, ts2)" "ts_wf L tn ts2"
    using activate_ok [OF slot_wf [OF tr1(2) assms(2) tr1(3)]] by blast
  then obtain tr2 where tr2: "with_ts tn (\<lambda>ts. l1sched_activate_lchan L ts L1SCHED_PDTCH) tr1 = Some (r2, tr2)"
    "wf_st L n st tr2" "tr_slot tr2 tn = Some ts2"
    using with_ts_st [OF tr1(2) assms(2) tr1(3), of "\<lambda>ts. l1sched_activate_lchan L ts L1SCHED_PDTCH"] by blast
  obtain r3 ts3 where "l1sched_activate_lchan L ts2 L1SCHED_PTCCH = Some (r3, ts3)" "ts_wf L tn ts3"
    using activate_ok [OF slot_wf [OF tr2(2) assms(2) tr2(3)]] by blast
  then obtain tr3 where tr3: "with_ts tn (\<lambda>ts. l1sched_activate_lchan L ts L1SCHED_PTCCH) tr2 = Some (r3, tr3)"
    "wf_st L n st tr3" "tr_slot tr3 tn = Some ts3"
    using with_ts_st [OF tr2(2) assms(2) tr2(3), of "\<lambda>ts. l1sched_activate_lchan L ts L1SCHED_PTCCH"] by blast
  obtain ls where ls: "ts_lchans ts3 = Some ls" using ts_wf_lchans [OF slot_wf [OF tr3(2) assms(2) tr3(3)]] .
  have tsc: "unat (tr_tsc tr3) < 8" using tr3(2) by (simp add: wf_st_def trxcon_wf_def)
  let ?f = "\<lambda>ts. do { lchans \<leftarrow> ts_lchans ts; Some ((), ts\<lparr>ts_lchans := Some (map (\<lambda>lc. lc\<lparr>lc_tsc := tr_tsc tr3\<rparr>) lchans)\<rparr>) }"
  have "ts_wf L tn (ts3\<lparr>ts_lchans := Some (map (\<lambda>lc. lc\<lparr>lc_tsc := tr_tsc tr3\<rparr>) ls)\<rparr>)"
    using lchan_good_tsc [OF _ tsc] by (intro ts_wf_map [OF slot_wf [OF tr3(2) assms(2) tr3(3)] ls]) simp
  then obtain tr4 where "with_ts tn ?f tr3 = Some ((), tr4)" "wf_st L n st tr4"
    using with_ts_st [OF tr3(2) assms(2) tr3(3), of ?f "()"] ls by auto
  then show ?thesis
    using True s(2) tr1(1) tr2(1) tr3(1) assms(1) by (simp add: handle_tbf_cfg_req_def)
qed

lemma tbf_cfg_reqs_runs:
  "wf_st L n st tr \<Longrightarrow> list_all (\<lambda>e. fst e < 8) evs \<Longrightarrow> runs (wf_st L n st) (tbf_cfg_reqs L None evs tr)"
proof (induction evs arbitrary: tr)
  case (Cons e evs)
  obtain tn active where e: "e = (tn, active)" by (cases e)
  have "runs (wf_st L n st) (handle_tbf_cfg_req L None tn active tr)"
    using tbf_cfg_req_runs [OF Cons.prems(1)] Cons.prems(2) e by simp
  then show ?case using Cons.IH Cons.prems(2) by (auto simp: e intro: runs_bind)
qed simp

lemma gprs_wf_events: "gprs_wf g \<Longrightarrow> list_all (\<lambda>e. fst e < 8) (gp_events g)"
  by (simp add: gprs_wf_def gp_core_def)

lemma with_gprs_runs:
  assumes "trxcon_wf L n tr" "tr_gprs tr = Some g" "f g = Some (a, g')" "gprs_wf g'" "gp_size g' \<le> m" "n \<le> m"
  shows "runs (\<lambda>(a', tr'). a' = a \<and> trxcon_wf L m tr') (with_gprs L None f tr)"
proof -
  have st: "wf_st L m TRXCON_ST_PACKET_DATA (tr\<lparr>tr_gprs := Some g'\<rparr>)"
    using assms by (auto simp: wf_st_def trxcon_wf_def gprs_fits_def)
  have ev: "list_all (\<lambda>e. fst e < 8) (drop (length (gp_events g)) (gp_events g'))"
    using gprs_wf_events [OF assms(4)] by (auto simp: list_all_iff dest: in_set_dropD)
  have "runs (wf_st L m TRXCON_ST_PACKET_DATA) (tbf_cfg_reqs L None (drop (length (gp_events g)) (gp_events g')) (tr\<lparr>tr_gprs := Some g'\<rparr>))"
    by (rule tbf_cfg_reqs_runs [OF st ev])
  then show ?thesis using assms(2,3) by (auto simp: with_gprs_def wf_st_def runs_def)
qed

lemma tbf_req_runs:
  assumes "trxcon_wf L n tr" "tr_state tr = TRXCON_ST_PACKET_DATA" "n < 255"
  shows "runs (trxcon_wf L (Suc n)) (trxcon_st_packet_data_action L None (TRXCON_EV_GPRS_UL_TBF_CFG_REQ msg) tr)"
    "runs (trxcon_wf L (Suc n)) (trxcon_st_packet_data_action L None (TRXCON_EV_GPRS_DL_TBF_CFG_REQ msg) tr)"
proof -
  obtain g where g: "tr_gprs tr = Some g" "gprs_wf g" "gp_size g \<le> n"
    using assms(1,2) by (auto simp: trxcon_wf_def gprs_fits_def split: option.splits)
  have sz: "gp_size g < 255" using g(3) assms(3) by simp
  obtain rc g1 where g1: "l1gprs_handle_ul_tbf_cfg_req g msg = Some (rc, g1)" "gprs_wf g1" "gp_size g1 \<le> Suc (gp_size g)"
    using gprs_step_ok [OF g(2) sz, of "UL_TBF_CFG_REQ msg" L] by auto
  obtain rc' g2 where g2: "l1gprs_handle_dl_tbf_cfg_req g msg = Some (rc', g2)" "gprs_wf g2" "gp_size g2 \<le> Suc (gp_size g)"
    using gprs_step_ok [OF g(2) sz, of "DL_TBF_CFG_REQ msg" L] by auto
  have "gp_size g1 \<le> Suc n" "gp_size g2 \<le> Suc n" using g(3) g1(3) g2(3) by simp_all
  from with_gprs_runs [where f = "\<lambda>g. l1gprs_handle_ul_tbf_cfg_req g msg", OF assms(1) g(1) g1(1,2) this(1)]
    with_gprs_runs [where f = "\<lambda>g. l1gprs_handle_dl_tbf_cfg_req g msg", OF assms(1) g(1) g2(1,2) this(2)]
  show "runs (trxcon_wf L (Suc n)) (trxcon_st_packet_data_action L None (TRXCON_EV_GPRS_UL_TBF_CFG_REQ msg) tr)"
    "runs (trxcon_wf L (Suc n)) (trxcon_st_packet_data_action L None (TRXCON_EV_GPRS_DL_TBF_CFG_REQ msg) tr)"
    by (auto elim!: runs_mono)
qed

lemma ul_block_runs:
  assumes "trxcon_wf L n tr" "tr_state tr = TRXCON_ST_PACKET_DATA" "length msg \<le> 512"
  shows "runs (trxcon_wf L n) (trxcon_st_packet_data_action L None (TRXCON_EV_GPRS_UL_BLOCK_REQ msg) tr)"
proof -
  obtain g where g: "tr_gprs tr = Some g" using assms(1,2) by (auto simp: trxcon_wf_def gprs_fits_def split: option.splits)
  have "length (drop 8 msg) \<le> 512" using assms(3) by simp
  from send_data_runs [OF assms(1) this] show ?thesis
    using assms(1) by (auto simp: g l1gprs_handle_ul_block_req_def Let_def)
qed

section \<open>Requests\<close>

lemma scan_res_runs:
  assumes "trxcon_wf L n tr" "tr_state tr = TRXCON_ST_FULL_POWER_SCAN"
  shows "runs (trxcon_wf L n) (trxcon_st_full_power_scan_action L (TRXCON_EV_FULL_POWER_SCAN_RES band_arfcn dbm) tr)"
proof (cases "tr_fi_data tr")
  case None
  then show ?thesis using assms(1) by simp
next
  case (Some p)
  obtain start stop where p: "p = (start, stop)" by (cases p)
  have pm: "runs (wf_st L n TRXCON_ST_FULL_POWER_SCAN) (l1ctl_tx_pm_conf L band_arfcn dbm is_last tr)" for is_last
    using assms trxcon_wfD(4) [OF assms(1)] by (simp add: l1ctl_tx_pm_conf_def trxcon_l1ctl_send_def Let_def wf_st_def)
  have next_scan: "runs (trxcon_wf L n) (trxcon_state_chg L TRXCON_ST_FULL_POWER_SCAN 0 (tr'\<lparr>tr_fi_data := Some (band_arfcn + 1, stop)\<rparr>))"
    if "wf_st L n TRXCON_ST_FULL_POWER_SCAN tr'" for tr'
    using scan_state_runs [of L n tr' "band_arfcn + 1" stop] that by (auto simp: wf_st_def elim!: runs_mono)
  have stop_scan: "trxcon_wf L n (tr'\<lparr>tr_fi_data := None\<rparr>)" if "wf_st L n TRXCON_ST_FULL_POWER_SCAN tr'" for tr'
    using that by (auto simp: wf_st_def trxcon_wf_def)
  have "runs (trxcon_wf L n) (do { tr \<leftarrow> l1ctl_tx_pm_conf L band_arfcn dbm False tr;
      trxcon_state_chg L TRXCON_ST_FULL_POWER_SCAN 0 (tr\<lparr>tr_fi_data := Some (band_arfcn + 1, stop)\<rparr>) })"
    "runs (trxcon_wf L n) (do { tr \<leftarrow> l1ctl_tx_pm_conf L band_arfcn dbm True tr; Some (tr\<lparr>tr_fi_data := None\<rparr>) })"
    by (rule runs_bind [OF pm], simp add: next_scan stop_scan)+
  then show ?thesis using Some p assms(1) by auto
qed

lemma ccch_mode_runs:
  assumes "trxcon_wf L n tr" "configurable config"
  shows "runs (\<lambda>(_, tr'). trxcon_wf L n tr') (trxcon_st_bcch_ccch_action L (TRXCON_EV_SET_CCCH_MODE_REQ config) tr)"
proof -
  have slot: "index_at (sc_ts (tr_sched tr)) 0 = Some (tr_slot tr 0)"
    using sched_slot [OF trxcon_wfD(1) [OF assms(1)], of 0] by (simp add: tr_slot_def)
  obtain tr' where "with_sched L (\<lambda>s. l1sched_configure_ts L s 0 config) tr = Some (0, tr')" "trxcon_wf L n tr'"
    using configure_runs [OF assms(1) _ assms(2), of 0] by auto
  then show ?thesis
    using slot assms(1) by (auto simp: split: option.splits)
qed

text \<open>What the fields of a request must satisfy, and the TBF it may add.\<close>

fun req_ok :: "trxcon_event \<Rightarrow> bool" where
  "req_ok (TRXCON_EV_FBSB_SEARCH_REQ _ _ config) = configurable config"
| "req_ok (TRXCON_EV_SET_CCCH_MODE_REQ config) = configurable config"
| "req_ok (TRXCON_EV_SET_TCH_MODE_REQ mode _ bitmask) = (mode = GSM48_CMODE_SPEECH_AMR \<longrightarrow> length (mask_bits bitmask) \<le> 4)"
| "req_ok (TRXCON_EV_UPDATE_SACCH_CACHE_REQ req) = sacch_req_ok req"
| "req_ok (TRXCON_EV_DCH_EST_REQ req) = (unat (de_tsc req) < 8)"
| "req_ok (TRXCON_EV_TX_DATA_REQ req) = (unat (dr_data_len req) \<le> 512 \<and> unat (dr_data_len req) \<le> length (dr_data req))"
| "req_ok (TRXCON_EV_CRYPTO_REQ _ _ _ key) = (MAX_A5_KEY_LEN \<le> length key)"
| "req_ok (TRXCON_EV_GPRS_UL_BLOCK_REQ msg) = (length msg \<le> 512)"
| "req_ok TRXCON_EV_RESET_FULL_REQ = True"
| "req_ok TRXCON_EV_RESET_SCHED_REQ = True"
| "req_ok (TRXCON_EV_FULL_POWER_SCAN_REQ _ _) = True"
| "req_ok (TRXCON_EV_FULL_POWER_SCAN_RES _ _) = True"
| "req_ok (TRXCON_EV_SET_PHY_CONFIG_REQ _) = True"
| "req_ok (TRXCON_EV_TX_ACCESS_BURST_REQ _) = True"
| "req_ok TRXCON_EV_DCH_REL_REQ = True"
| "req_ok (TRXCON_EV_GPRS_UL_TBF_CFG_REQ _) = True"
| "req_ok (TRXCON_EV_GPRS_DL_TBF_CFG_REQ _) = True"
| "req_ok _ = False"

fun req_cost :: "trxcon_event \<Rightarrow> nat" where
  "req_cost (TRXCON_EV_GPRS_UL_TBF_CFG_REQ _) = 1"
| "req_cost (TRXCON_EV_GPRS_DL_TBF_CFG_REQ _) = 1"
| "req_cost _ = 0"

lemma allstate_runs:
  assumes "trxcon_wf L n tr" "trxcon_allstate ev" "req_ok ev"
  shows "runs (trxcon_wf L n) (trxcon_allstate_action L ev tr)"
proof (cases ev)
  case TRXCON_EV_RESET_FULL_REQ
  then show ?thesis using reset_full_runs [OF assms(1)] by (simp only:)
next
  case TRXCON_EV_RESET_SCHED_REQ
  then show ?thesis using sched_reset_runs [OF assms(1)] by (auto elim!: runs_mono)
next
  case (TRXCON_EV_SET_PHY_CONFIG_REQ c)
  then show ?thesis
    using tx_params_runs [OF assms(1)] phyif_state_runs [OF assms(1)]
    by (cases c) (simp_all del: trxcon_allstate_action.simps(6) runs_map)
next
  case (TRXCON_EV_UPDATE_SACCH_CACHE_REQ req)
  then show ?thesis using sacch_cache_runs [OF assms(1), of req] assms(3) by (simp only: req_ok.simps)
qed (use assms in simp_all)

lemma runs_applied: "runs P r \<Longrightarrow> runs (\<lambda>(_, tr). P tr) (map_option (Pair False) r)"
  by simp

lemma state_action_runs:
  assumes "trxcon_wf L n tr" "\<not> trxcon_allstate ev" "trxcon_in_event (tr_state tr) ev" "req_ok ev" "n + req_cost ev \<le> 255"
  shows "runs (\<lambda>(_, tr'). trxcon_wf L (n + req_cost ev) tr') (case tr_state tr of
          TRXCON_ST_RESET \<Rightarrow> map_option (Pair False) (trxcon_st_reset_action L ev tr)
        | TRXCON_ST_FULL_POWER_SCAN \<Rightarrow> map_option (Pair False) (trxcon_st_full_power_scan_action L ev tr)
        | TRXCON_ST_FBSB_SEARCH \<Rightarrow> map_option (Pair False) (trxcon_st_fbsb_search_action L ev tr)
        | TRXCON_ST_BCCH_CCCH \<Rightarrow> trxcon_st_bcch_ccch_action L ev tr
        | TRXCON_ST_DEDICATED \<Rightarrow> trxcon_st_dedicated_action L ev tr
        | TRXCON_ST_PACKET_DATA \<Rightarrow> map_option (Pair False) (trxcon_st_packet_data_action L None ev tr))"
proof (cases "tr_state tr")
  case TRXCON_ST_RESET
  then show ?thesis
    using assms full_power_scan_req_runs [OF assms(1)] fbsb_search_req_runs [OF assms(1)]
    by (cases ev) (simp_all del: trxcon_st_reset_action.simps(1))
next
  case TRXCON_ST_FULL_POWER_SCAN
  then show ?thesis
    using assms full_power_scan_req_runs [OF assms(1)] scan_res_runs [OF assms(1)]
    by (cases ev) (simp_all del: trxcon_st_full_power_scan_action.simps(1))
next
  case TRXCON_ST_FBSB_SEARCH
  then show ?thesis using assms by (cases ev) simp_all
next
  case TRXCON_ST_BCCH_CCCH
  then show ?thesis
    using assms access_burst_runs [OF assms(1)] ccch_mode_runs [OF assms(1)] dch_est_req_runs [OF assms(1)]
    by (cases ev) (simp_all del: trxcon_st_bcch_ccch_action.simps(3))
next
  case TRXCON_ST_DEDICATED
  have "runs (trxcon_wf L n) (sched_reset L tr)" using sched_reset_runs [OF assms(1)] by (auto elim!: runs_mono)
  then show ?thesis
    using TRXCON_ST_DEDICATED assms access_burst_runs [OF assms(1)] tch_mode_runs [OF assms(1)] crypto_runs [OF assms(1)] dch_est_req_runs [OF assms(1)]
      send_data_runs [OF assms(1)]
    by (cases ev) (simp_all del: trxcon_st_dedicated_action.simps(5,6))
next
  case TRXCON_ST_PACKET_DATA
  have "runs (trxcon_wf L n) (sched_reset L tr)" using sched_reset_runs [OF assms(1)] by (auto elim!: runs_mono)
  then show ?thesis
    using TRXCON_ST_PACKET_DATA assms access_burst_runs [OF assms(1)] dch_est_req_runs [OF assms(1)]
      tbf_req_runs [OF assms(1)] ul_block_runs [OF assms(1)]
    by (cases ev) (simp_all del: trxcon_st_packet_data_action.simps(3-5))
qed

lemma dispatch_runs:
  assumes "trxcon_wf L n tr" "req_ok ev" "n + req_cost ev \<le> 255"
  shows "runs (\<lambda>(_, _, tr'). trxcon_wf L (n + req_cost ev) tr') (trxcon_dispatch L None ev tr)"
proof -
  have free: "\<not> tr_freed tr" using trxcon_wfD [OF assms(1)] by blast
  show ?thesis
  proof (cases "trxcon_allstate ev")
    case True
    then have "req_cost ev = 0" by (cases ev) simp_all
    then show ?thesis using allstate_runs [OF assms(1) True assms(2)] True free by (simp add: trxcon_dispatch_def)
  next
    case False
    show ?thesis
    proof (cases "trxcon_in_event (tr_state tr) ev")
      case True
      then show ?thesis
        using state_action_runs [OF assms(1) False True assms(2,3)] False free by (simp add: trxcon_dispatch_def case_prod_unfold)
    next
      case refused: False
      then show ?thesis using False free trxcon_wf_mono [OF assms(1)] by (simp add: trxcon_dispatch_def)
    qed
  qed
qed

section \<open>A dedicated channel is established\<close>

definition demo_tr :: trxcon_inst where
  "demo_tr = (trxcon_inst_alloc (trx_if_open 7))\<lparr>tr_state := TRXCON_ST_DEDICATED, tr_sched := demo_sched\<rparr>"

lemma demo_tr_wf: "trxcon_wf toy_lib 0 demo_tr"
  by (simp add: demo_tr_def trxcon_wf_def trxcon_inst_alloc_def gprs_fits_def demo_sched_wf)
    (simp add: demo_sched_def l1sched_alloc_def)

text \<open>C9. A request for a dedicated channel, once the transceiver took the frequency, leaves exactly that
  channel: its timeslot is the only one configured, with the multiframe of the channel's combination, and of the
  logical channels of the multiframe those with the requested channel number are active, with the
  requested mode and training sequence, and no others; the state is packet data for a PDCH and dedicated otherwise,
  whatever was active before.\<close>

theorem dch_established:
  assumes "trxcon_wf L n tr" and "unat (de_tsc req) < 8"
    and "tr_state tr = TRXCON_ST_BCCH_CCCH \<or> tr_state tr = TRXCON_ST_DEDICATED \<or> tr_state tr = TRXCON_ST_PACKET_DATA"
    and "dch_tune L (de_freq req) tr = Some (True, tr0)"
    and "config = l1sched_chan_nr2pchan_config L (de_chan_nr req)" and "config \<noteq> GSM_PCHAN_NONE"
    and "tn = unat (de_chan_nr req AND 0x07)"
  shows "\<exists>tr' mf ls. trxcon_dispatch L busy (TRXCON_EV_DCH_EST_REQ req) tr = Some (0, False, tr') \<and>
    tr_state tr' = (if config = GSM_PCHAN_PDCH then TRXCON_ST_PACKET_DATA else TRXCON_ST_DEDICATED) \<and>
    (\<forall>k < 8. k \<noteq> tn \<longrightarrow> tr_slot tr' k = None) \<and>
    tr_slot tr' tn = Some \<lparr>ts_mf_layout = Some mf, ts_lchans = Some ls\<rparr> \<and>
    l1sched_mframe_layout config tn = Some mf \<and> map lc_type ls = mf_lchans mf \<and>
    list_all (\<lambda>lc. lc_active lc = (ld_chan_nr (l1sched_lchan_desc L (lc_type lc)) = de_chan_nr req AND RSL_CHAN_NR_MASK) \<and>
      (lc_active lc \<longrightarrow> lc_tch_mode lc = de_tch_mode req \<and> lc_tsc lc = de_tsc req)) ls"
proof -
  let ?st = "if config = GSM_PCHAN_PDCH then TRXCON_ST_PACKET_DATA else TRXCON_ST_DEDICATED"
  have st: "tr_state tr \<noteq> TRXCON_ST_FULL_POWER_SCAN" "?st \<in> set (trxcon_out_states (tr_state tr))" using assms(3) by auto
  obtain tr' ts where tr': "handle_dch_est_req L req tr = Some tr'" "tr_slot tr' tn = Some ts" "dch_slot L req ts"
    "\<forall>k < 8. k \<noteq> tn \<longrightarrow> tr_slot tr' k = None" "tr_state tr' = ?st"
    using dch_est_req_ok [OF assms(1) st(1) assms(2,4-6) refl] st(2) unfolding assms(7) [symmetric] by auto
  have "trxcon_dispatch L busy (TRXCON_EV_DCH_EST_REQ req) tr = Some (0, False, tr')"
    using assms(3) tr'(1) trxcon_wfD(6) [OF assms(1)] by (auto simp: trxcon_dispatch_def)
  then show ?thesis using tr'(2-5) unfolding dch_slot_def assms(5,7) [symmetric] by blast
qed

theorem dch_established_witness:
  "\<exists>tr' mf ls. trxcon_dispatch toy_lib None (TRXCON_EV_DCH_EST_REQ \<lparr>de_chan_nr = 0x09, de_tch_mode = 1, de_tsc = 3, de_freq = H0 42\<rparr>)
      demo_tr = Some (0, False, tr') \<and> tr_state tr' = TRXCON_ST_DEDICATED \<and> tr_slot tr' 0 = None \<and>
    tr_slot tr' 1 = Some \<lparr>ts_mf_layout = Some mf, ts_lchans = Some ls\<rparr> \<and> l1sched_mframe_layout GSM_PCHAN_TCH_F 1 = Some mf"
proof -
  let ?req = "\<lparr>de_chan_nr = 0x09, de_tch_mode = 1, de_tsc = 3, de_freq = H0 42\<rparr> :: dch_est_param"
  have c: "GSM_PCHAN_TCH_F = l1sched_chan_nr2pchan_config toy_lib (de_chan_nr ?req)" "GSM_PCHAN_TCH_F \<noteq> GSM_PCHAN_NONE"
    "(1 :: nat) = unat (de_chan_nr ?req AND 0x07)" "unat (de_tsc ?req) < 8"
    by (simp_all add: l1sched_chan_nr2pchan_config_def) 
  have s: "tr_state demo_tr = TRXCON_ST_BCCH_CCCH \<or> tr_state demo_tr = TRXCON_ST_DEDICATED \<or> tr_state demo_tr = TRXCON_ST_PACKET_DATA"
    by (simp add: demo_tr_def)
  have "tr_phyif demo_tr = Some (trx_if_open 7)" by (simp add: demo_tr_def trxcon_inst_alloc_def)
  moreover have "fst (trx_if_handle_phyif_cmd toy_lib (CMDT_SETFREQ_H0 42) (trx_if_open 7)) = 0"
    by (simp add: trx_if_cmd_rxtune_def trx_if_cmd_txtune_def tune_def ctrl_cmd_rc case_prod_beta Let_def) (simp add: toy_lib_def)
  ultimately obtain tr0 where t: "dch_tune toy_lib (de_freq ?req) demo_tr = Some (True, tr0)" by (simp add: phyif_cmd_eq)
  show ?thesis
    using dch_established [OF demo_tr_wf c(4) s t c(1-3), of None] by auto
qed

end
