(* ===== verification/L1ctl.thy ===== *)
theory L1ctl
  imports Trxcon_Safe
begin

text \<open>
  The L1CTL link of trxcon: the framing of the socket (\<^verbatim>\<open>src/src/host/trxcon/src/l1ctl_server.c\<close>) and
  the messages received on it (the second half of \<^verbatim>\<open>l1ctl.c\<close>), down to the events of the state
  machine. A message is its octets from the header on; the buffer it is received into is zeroed and large enough that
  a field beyond the end of a short message reads as zero.
\<close>

section \<open>Framing\<close>

definition l1ctl_client_send :: "u8 list \<Rightarrow> u8 list" where
  "l1ctl_client_send msg = be16_octets (word_of_nat (length msg)) @ msg"

text \<open>What one call of the read callback makes of what is in the socket: the connection is closed, an error leaves
  the rest, or a message is passed on.\<close>

datatype l1ctl_read = Rd_Closed | Rd_Error int "u8 list" | Rd_Msg "u8 list" "u8 list"

definition l1ctl_client_read_cb :: "u8 list \<Rightarrow> l1ctl_read" where
  "l1ctl_client_read_cb stream =
     (if length stream < 2 then Rd_Closed
      else let len = unat (be16 0 stream); rest = drop 2 stream in
        if len > 512 then Rd_Error (- EINVAL) rest
        else if length rest < len then Rd_Error (int (length rest)) []
        else Rd_Msg (take len rest) (drop len rest))"

section \<open>Requests\<close>

text \<open>The length of what follows the header, in the unsigned arithmetic of \<^verbatim>\<open>msgb_l1len()\<close>.\<close>

definition l1len :: "u8 list \<Rightarrow> u32" where
  "l1len msg = word_of_nat (length msg) - 4"

abbreviation (input) l1data :: "u8 list \<Rightarrow> u8 list" where
  "l1data msg \<equiv> drop 4 msg"

definition l1ctl_ccch_mode2pchan_config :: "u8 \<Rightarrow> pchan" where
  "l1ctl_ccch_mode2pchan_config mode =
     (if mode = 2 then GSM_PCHAN_CCCH_SDCCH4 else if mode = 3 then GSM_PCHAN_CCCH_SDCCH4_CBCH else GSM_PCHAN_CCCH)"

definition l1ctl_rx_fbsb_req :: "libosmo \<Rightarrow> u8 list \<Rightarrow> trxcon_inst \<Rightarrow> (int \<times> trxcon_inst) option" where
  "l1ctl_rx_fbsb_req L msg tr =
     (if l1len msg < 13 then Some (- EINVAL, tr)
      else let b = l1data msg in do {
        (_, tr) \<leftarrow> dispatch_ev L None (TRXCON_EV_FBSB_SEARCH_REQ (be16 0 b) (be16 2 b) (l1ctl_ccch_mode2pchan_config (octet 11 b))) tr;
        Some (0, tr) })"

definition l1ctl_rx_pm_req :: "libosmo \<Rightarrow> u8 list \<Rightarrow> trxcon_inst \<Rightarrow> (int \<times> trxcon_inst) option" where
  "l1ctl_rx_pm_req L msg tr =
     (if l1len msg < 8 then Some (- EINVAL, tr)
      else let b = l1data msg in do {
        (_, tr) \<leftarrow> dispatch_ev L None (TRXCON_EV_FULL_POWER_SCAN_REQ (be16 4 b) (be16 6 b)) tr;
        Some (0, tr) })"

definition l1ctl_rx_reset_req :: "libosmo \<Rightarrow> u8 list \<Rightarrow> trxcon_inst \<Rightarrow> (int \<times> trxcon_inst) option" where
  "l1ctl_rx_reset_req L msg tr =
     (if l1len msg < 4 then Some (- EINVAL, tr)
      else let type = octet 0 (l1data msg) in
        if type = 1 then do {
          (_, tr) \<leftarrow> dispatch_ev L None TRXCON_EV_RESET_FULL_REQ tr;
          map_option (Pair 0) (l1ctl_tx_reset_conf type tr) }
        else if type = 2 then do {
          (_, tr) \<leftarrow> dispatch_ev L None TRXCON_EV_RESET_SCHED_REQ tr;
          map_option (Pair 0) (l1ctl_tx_reset_conf type tr) }
        else Some (0, tr))"

text \<open>
  The answer is written over what follows the header and sent from there on, with the length of the
  whole message.
\<close>

definition echo_reply :: "u8 list \<Rightarrow> u8 list" where
  "echo_reply msg = take (length msg) ((l1data msg @ replicate 4 0)[0 := 0x0b])"

definition l1ctl_rx_echo_req :: "u8 list \<Rightarrow> trxcon_inst \<Rightarrow> (int \<times> trxcon_inst) option" where
  "l1ctl_rx_echo_req msg tr = map_option (Pair 0) (trxcon_l1ctl_send (echo_reply msg) tr)"

definition l1ctl_rx_ccch_mode_req :: "libosmo \<Rightarrow> u8 list \<Rightarrow> trxcon_inst \<Rightarrow> (int \<times> trxcon_inst) option" where
  "l1ctl_rx_ccch_mode_req L msg tr =
     (if l1len msg < 4 then Some (- EINVAL, tr)
      else let mode = octet 0 (l1data msg) in do {
        (rc, applied, tr) \<leftarrow> trxcon_dispatch L None (TRXCON_EV_SET_CCCH_MODE_REQ (l1ctl_ccch_mode2pchan_config mode)) tr;
        tr \<leftarrow> (if rc = 0 \<and> applied then l1ctl_tx_ccch_mode_conf mode tr else Some tr);
        Some (rc, tr) })"

definition l1ctl_rx_rach_req :: "libosmo \<Rightarrow> bool \<Rightarrow> u8 list \<Rightarrow> trxcon_inst \<Rightarrow> (int \<times> trxcon_inst) option" where
  "l1ctl_rx_rach_req L is_11bit msg tr =
     (let b = l1data msg;
          (chan_nr, link_id) = (if octet 0 b = 0x00 then (RSL_CHAN_RACH, 0x00) else (octet 0 b, octet 1 b));
          req = (if is_11bit
                 then \<lparr>ab_chan_nr = chan_nr, ab_link_id = link_id, ab_offset = ucast (be16 8 b), ab_synch_seq = octet 6 b,
                       ab_ra = be16 4 b, ab_is_11bit = True\<rparr>
                 else \<lparr>ab_chan_nr = chan_nr, ab_link_id = link_id, ab_offset = ucast (be16 6 b), ab_synch_seq = 0,
                       ab_ra = ucast (octet 4 b), ab_is_11bit = False\<rparr>) in do {
        (_, tr) \<leftarrow> dispatch_ev L None (TRXCON_EV_TX_ACCESS_BURST_REQ req) tr;
        Some (0, tr) })"

definition l1ctl_proc_est_req_h0 :: "u8 list \<Rightarrow> dch_freq" where
  "l1ctl_proc_est_req_h0 b = H0 (be16 6 b)"

definition l1ctl_proc_est_req_h1 :: "u8 list \<Rightarrow> dch_freq option" where
  "l1ctl_proc_est_req_h1 b =
     (let n = unat (octet 8 b) in
      if n = 0 then None
      else if n > 64 then None
      else Some (H1 (octet 6 b) (octet 7 b) (map (\<lambda>i. be16 (10 + 2 * i) b) [0..<n])))"

definition l1ctl_rx_dm_est_req :: "libosmo \<Rightarrow> u8 list \<Rightarrow> trxcon_inst \<Rightarrow> (int \<times> trxcon_inst) option" where
  "l1ctl_rx_dm_est_req L msg tr =
     (let b = l1data msg in
      case (if octet 5 b \<noteq> 0 then l1ctl_proc_est_req_h1 b else Some (l1ctl_proc_est_req_h0 b)) of
        None \<Rightarrow> Some (- EINVAL, tr)
      | Some freq \<Rightarrow> do {
          (_, tr) \<leftarrow> dispatch_ev L None (TRXCON_EV_DCH_EST_REQ
             \<lparr>de_chan_nr = octet 0 b, de_tch_mode = octet 138 b, de_tsc = octet 4 b, de_freq = freq\<rparr>) tr;
          Some (0, tr) })"

definition l1ctl_rx_dm_rel_req :: "libosmo \<Rightarrow> trxcon_inst \<Rightarrow> (int \<times> trxcon_inst) option" where
  "l1ctl_rx_dm_rel_req L tr = do { (_, tr) \<leftarrow> dispatch_ev L None TRXCON_EV_DCH_REL_REQ tr; Some (0, tr) }"

definition dt_req_param :: "bool \<Rightarrow> u8 list \<Rightarrow> data_req_param" where
  "dt_req_param traffic msg = (let b = l1data msg in
     \<lparr>dr_traffic = traffic, dr_chan_nr = octet 0 b, dr_link_id = octet 1 b AND 0x40,
      dr_data_len = word_of_nat (length msg) - 8, dr_data = drop 8 msg\<rparr>)"

definition l1ctl_rx_dt_req :: "libosmo \<Rightarrow> bool \<Rightarrow> u8 list \<Rightarrow> trxcon_inst \<Rightarrow> (int \<times> trxcon_inst) option" where
  "l1ctl_rx_dt_req L traffic msg tr =
     (let req = dt_req_param traffic msg in do {
        tr \<leftarrow> (if tr_state tr = TRXCON_ST_DEDICATED then map_option snd (dispatch_ev L None (TRXCON_EV_TX_DATA_REQ req) tr)
              else if \<not> traffic \<and> dr_link_id req = 0x40
              then map_option snd (dispatch_ev L None (TRXCON_EV_UPDATE_SACCH_CACHE_REQ req) tr)
              else Some tr);
        Some (0, tr) })"

definition l1ctl_rx_param_req :: "libosmo \<Rightarrow> u8 list \<Rightarrow> trxcon_inst \<Rightarrow> (int \<times> trxcon_inst) option" where
  "l1ctl_rx_param_req L msg tr =
     (let b = l1data msg in do {
        (_, tr) \<leftarrow> dispatch_ev L None (TRXCON_EV_SET_PHY_CONFIG_REQ (CFGT_TX_PARAMS (octet 4 b) (octet 5 b))) tr;
        Some (0, tr) })"

definition l1ctl_rx_tch_mode_req :: "libosmo \<Rightarrow> u8 list \<Rightarrow> trxcon_inst \<Rightarrow> (int \<times> trxcon_inst) option" where
  "l1ctl_rx_tch_mode_req L msg tr =
     (let b = l1data msg; mode = octet 0 b; amr = mode = GSM48_CMODE_SPEECH_AMR in do {
        (rc, applied, tr) \<leftarrow> trxcon_dispatch L None (TRXCON_EV_SET_TCH_MODE_REQ mode
           (if amr then octet 3 b else 0) (if amr then octet 4 b else 0)) tr;
        if rc \<noteq> 0 \<or> \<not> applied then Some (rc, tr)
        else map_option (Pair 0) (trxcon_l1ctl_send (msg[0 := 0x19]) tr) })"

definition l1ctl_rx_crypto_req :: "libosmo \<Rightarrow> u8 list \<Rightarrow> trxcon_inst \<Rightarrow> (int \<times> trxcon_inst) option" where
  "l1ctl_rx_crypto_req L msg tr =
     (let b = l1data msg in do {
        (_, tr) \<leftarrow> dispatch_ev L None (TRXCON_EV_CRYPTO_REQ (octet 0 b) (octet 4 b) (octet 5 b)
           (map (\<lambda>i. octet (6 + i) b) [0..<255])) tr;
        Some (0, tr) })"

definition trxcon_l1ctl_receive :: "libosmo \<Rightarrow> u8 list \<Rightarrow> trxcon_inst \<Rightarrow> (int \<times> trxcon_inst) option" where
  "trxcon_l1ctl_receive L msg tr =
     (let t = octet 0 msg in
      if t = 0x01 then l1ctl_rx_fbsb_req L msg tr
      else if t = 0x08 then l1ctl_rx_pm_req L msg tr
      else if t = 0x0d then l1ctl_rx_reset_req L msg tr
      else if t = 0x0a then l1ctl_rx_echo_req msg tr
      else if t = 0x10 then l1ctl_rx_ccch_mode_req L msg tr
      else if t = 0x04 then l1ctl_rx_rach_req L False msg tr
      else if t = 0x24 then l1ctl_rx_rach_req L True msg tr
      else if t = 0x05 then l1ctl_rx_dm_est_req L msg tr
      else if t = 0x12 then l1ctl_rx_dm_rel_req L tr
      else if t = 0x06 then l1ctl_rx_dt_req L False msg tr
      else if t = 0x1c then l1ctl_rx_dt_req L True msg tr
      else if t = 0x13 then l1ctl_rx_param_req L msg tr
      else if t = 0x18 then l1ctl_rx_tch_mode_req L msg tr
      else if t = 0x15 then l1ctl_rx_crypto_req L msg tr
      else if t = 0x20 then dispatch_ev L None (TRXCON_EV_GPRS_UL_TBF_CFG_REQ (l1data msg)) tr
      else if t = 0x21 then dispatch_ev L None (TRXCON_EV_GPRS_DL_TBF_CFG_REQ (l1data msg)) tr
      else if t = 0x22 then dispatch_ev L None (TRXCON_EV_GPRS_UL_BLOCK_REQ (l1data msg)) tr
      else if t = 0x1a \<or> t = 0x14 \<or> t = 0x16 then Some (- ENOTSUP, tr)
      else Some (- EINVAL, tr))"

section \<open>Every request is served\<close>

lemma dispatch_ev_runs:
  assumes "trxcon_wf L n tr" "req_ok ev" "n + req_cost ev \<le> 255"
  shows "runs (\<lambda>(_, tr'). trxcon_wf L (n + req_cost ev) tr') (dispatch_ev L None ev tr)"
  using dispatch_runs [OF assms] by (simp add: dispatch_ev_def case_prod_unfold)

lemma free_ev_runs:
  assumes "trxcon_wf L n tr" "req_ok ev" "req_cost ev = 0" "n \<le> 255"
  shows "runs (\<lambda>(_, tr'). trxcon_wf L n tr') (do { (_, tr') \<leftarrow> dispatch_ev L None ev tr; Some (rc, tr') })"
  by (rule runs_bind [OF dispatch_ev_runs [OF assms(1,2)]]) (use assms in auto)

lemma ccch_configurable: "configurable (l1ctl_ccch_mode2pchan_config mode)"
  by (simp add: configurable_def l1ctl_ccch_mode2pchan_config_def)

text \<open>
  What is asked of a message: it fits the buffer; the training sequence of a new channel is one of
  the eight; a set of AMR codecs has at most four; a block for the SACCH outside a dedicated channel is a measurement
  report; and a data request is at least as long as its headers.
\<close>

definition msg_ok :: "u8 list \<Rightarrow> bool" where
  "msg_ok msg \<longleftrightarrow> length msg \<le> 512 \<and>
     (octet 0 msg = 0x05 \<longrightarrow> unat (octet 8 msg) < 8) \<and>
     (octet 0 msg = 0x18 \<and> octet 4 msg = GSM48_CMODE_SPEECH_AMR \<longrightarrow> length (mask_bits (octet 8 msg)) \<le> 4) \<and>
     (octet 0 msg \<in> {0x06, 0x1c} \<longrightarrow> 8 \<le> length msg) \<and>
     (octet 0 msg = 0x06 \<and> length msg = 31 \<longrightarrow> is_mr_frame (drop 8 msg))"

definition msg_cost :: "u8 list \<Rightarrow> nat" where
  "msg_cost msg = (if octet 0 msg \<in> {0x20, 0x21} then 1 else 0)"

lemma octet_drop: "octet i (drop n xs) = octet (n + i) xs"
  by (auto simp: octet_def)

lemma dt_req_ok:
  assumes "8 \<le> length msg" "length msg \<le> 512"
  shows "unat (dr_data_len (dt_req_param traffic msg)) = length (dr_data (dt_req_param traffic msg))"
    "length (dr_data (dt_req_param traffic msg)) = length msg - 8"
proof -
  have "(word_of_nat (length msg) - 8 :: u32) = word_of_nat (length msg - 8)" using assms(1) by simp
  moreover have "unat (word_of_nat (length msg - 8) :: u32) = length msg - 8" using assms(2) by (simp add: unat_of_nat)
  ultimately show "unat (dr_data_len (dt_req_param traffic msg)) = length (dr_data (dt_req_param traffic msg))"
    by (simp add: dt_req_param_def Let_def)
qed (simp add: dt_req_param_def Let_def)

lemma reset_req_runs:
  assumes "trxcon_wf L n tr" "n \<le> 255"
  shows "runs (\<lambda>(_, tr'). trxcon_wf L n tr') (l1ctl_rx_reset_req L msg tr)"
proof -
  have a: "runs (\<lambda>(_, tr'). trxcon_wf L n tr') (do { (_, tr) \<leftarrow> dispatch_ev L None ev tr; map_option (Pair 0) (l1ctl_tx_reset_conf type tr) })"
    if "req_ok ev" "req_cost ev = 0" for ev and type :: u8
    by (rule runs_bind [OF dispatch_ev_runs [OF assms(1) that(1)]]) (use assms(2) that tx_runs(2) in auto)
  show ?thesis using assms(1) by (simp add: l1ctl_rx_reset_req_def Let_def a del: runs_map)
qed

lemma applied_runs:
  assumes "trxcon_wf L n tr" "n \<le> 255" "req_ok ev" "req_cost ev = 0"
    and "\<And>rc applied tr'. trxcon_wf L n tr' \<Longrightarrow> runs P (f (rc, applied, tr'))"
  shows "runs P (Option.bind (trxcon_dispatch L None ev tr) f)"
  by (rule runs_bind [OF dispatch_runs [OF assms(1,3)]]) (use assms in auto)

lemma dt_req_runs:
  assumes "trxcon_wf L n tr" "n \<le> 255" "8 \<le> length msg" "length msg \<le> 512" "\<not> traffic \<and> length msg = 31 \<longrightarrow> is_mr_frame (drop 8 msg)"
  shows "runs (\<lambda>(_, tr'). trxcon_wf L n tr') (l1ctl_rx_dt_req L traffic msg tr)"
proof -
  let ?req = "dt_req_param traffic msg"
  have snd: "runs (trxcon_wf L n) (map_option snd (dispatch_ev L None ev tr))" if "req_ok ev" "req_cost ev = 0" for ev
    using dispatch_ev_runs [OF assms(1) that(1)] assms(2) that(2) by (simp add: case_prod_unfold)
  have data: "req_ok (TRXCON_EV_TX_DATA_REQ ?req)"
    using dt_req_ok [OF assms(3,4), of traffic] assms(4) by simp
  have sacch: "\<not> traffic \<Longrightarrow> req_ok (TRXCON_EV_UPDATE_SACCH_CACHE_REQ ?req)"
    using dt_req_ok [OF assms(3,4), of traffic] assms(3,5) by (auto simp: sacch_req_ok_def gsm_nbits dt_req_param_def Let_def)
  have "runs (trxcon_wf L n) (if tr_state tr = TRXCON_ST_DEDICATED then map_option snd (dispatch_ev L None (TRXCON_EV_TX_DATA_REQ ?req) tr)
              else if \<not> traffic \<and> dr_link_id ?req = 0x40
              then map_option snd (dispatch_ev L None (TRXCON_EV_UPDATE_SACCH_CACHE_REQ ?req) tr)
              else Some tr)"
    using snd [OF data] snd [OF sacch] assms(1) by (simp del: runs_map)
  then show ?thesis unfolding l1ctl_rx_dt_req_def Let_def by (rule runs_bind) simp
qed

lemma est_req_runs:
  assumes "trxcon_wf L n tr" "n \<le> 255" "unat (octet 8 msg) < 8"
  shows "runs (\<lambda>(_, tr'). trxcon_wf L n tr') (l1ctl_rx_dm_est_req L msg tr)"
  using assms by (auto simp: l1ctl_rx_dm_est_req_def Let_def octet_drop intro!: free_ev_runs split: option.splits)

lemma tch_mode_req_runs:
  assumes "trxcon_wf L n tr" "n \<le> 255" "octet 4 msg = GSM48_CMODE_SPEECH_AMR \<longrightarrow> length (mask_bits (octet 8 msg)) \<le> 4"
  shows "runs (\<lambda>(_, tr'). trxcon_wf L n tr') (l1ctl_rx_tch_mode_req L msg tr)"
  unfolding l1ctl_rx_tch_mode_req_def Let_def
  by (rule applied_runs [OF assms(1,2)]) (use assms(3) l1ctl_send_runs in \<open>auto simp: octet_drop\<close>)

lemma ccch_mode_req_runs:
  assumes "trxcon_wf L n tr" "n \<le> 255"
  shows "runs (\<lambda>(_, tr'). trxcon_wf L n tr') (l1ctl_rx_ccch_mode_req L msg tr)"
proof -
  have "runs (\<lambda>(_, tr'). trxcon_wf L n tr') (do { tr \<leftarrow> (if b then l1ctl_tx_ccch_mode_conf mode tr' else Some tr'); Some (rc, tr) })"
    if "trxcon_wf L n tr'" for tr' b mode and rc :: int
    by (rule runs_bind [where Q = "trxcon_wf L n"]) (use that tx_runs(4) in auto)
  then show ?thesis
    using assms(1) unfolding l1ctl_rx_ccch_mode_req_def Let_def
    by (intro runs_if applied_runs [OF assms]) (simp_all add: ccch_configurable)
qed

lemma plain_req_runs:
  assumes "trxcon_wf L n tr" "n \<le> 255"
  shows "runs (\<lambda>(_, tr'). trxcon_wf L n tr') (l1ctl_rx_fbsb_req L msg tr)"
    "runs (\<lambda>(_, tr'). trxcon_wf L n tr') (l1ctl_rx_pm_req L msg tr)"
    "runs (\<lambda>(_, tr'). trxcon_wf L n tr') (l1ctl_rx_rach_req L b msg tr)"
    "runs (\<lambda>(_, tr'). trxcon_wf L n tr') (l1ctl_rx_dm_rel_req L tr)"
    "runs (\<lambda>(_, tr'). trxcon_wf L n tr') (l1ctl_rx_param_req L msg tr)"
    "runs (\<lambda>(_, tr'). trxcon_wf L n tr') (l1ctl_rx_crypto_req L msg tr)"
    "runs (\<lambda>(_, tr'). trxcon_wf L n tr') (l1ctl_rx_echo_req msg tr)"
  unfolding l1ctl_rx_fbsb_req_def l1ctl_rx_pm_req_def l1ctl_rx_rach_req_def l1ctl_rx_dm_rel_req_def l1ctl_rx_param_req_def
    l1ctl_rx_crypto_req_def Let_def
  by (auto intro!: runs_if free_ev_runs [OF assms(1) _ _ assms(2)] simp: assms(1) ccch_configurable l1ctl_rx_echo_req_def
      l1ctl_send_runs [OF assms(1)] MAX_A5_KEY_LEN_def)

lemma receive_runs:
  assumes "trxcon_wf L n tr" "msg_ok msg" "n + msg_cost msg \<le> 255"
  shows "runs (\<lambda>(_, tr'). trxcon_wf L (n + msg_cost msg) tr') (trxcon_l1ctl_receive L msg tr)"
proof -
  have n: "n \<le> 255" and len: "length (drop 4 msg) \<le> 512" using assms(2,3) by (auto simp: msg_ok_def)
  have gprs: "octet 0 msg \<in> {0x20, 0x21, 0x22} \<Longrightarrow> ?thesis"
    using dispatch_ev_runs [OF assms(1), of "TRXCON_EV_GPRS_UL_TBF_CFG_REQ (drop 4 msg)"]
      dispatch_ev_runs [OF assms(1), of "TRXCON_EV_GPRS_DL_TBF_CFG_REQ (drop 4 msg)"]
      dispatch_ev_runs [OF assms(1), of "TRXCON_EV_GPRS_UL_BLOCK_REQ (drop 4 msg)"] assms(3) len n
    by (auto simp: trxcon_l1ctl_receive_def msg_cost_def Let_def)
  have other: "octet 0 msg \<notin> {0x20, 0x21, 0x22} \<Longrightarrow> runs (\<lambda>(_, tr'). trxcon_wf L n tr') (trxcon_l1ctl_receive L msg tr)"
    using assms(1,2) reset_req_runs [OF assms(1) n] ccch_mode_req_runs [OF assms(1) n] plain_req_runs [OF assms(1) n]
      est_req_runs [OF assms(1) n] dt_req_runs [OF assms(1) n] tch_mode_req_runs [OF assms(1) n]
    by (simp add: trxcon_l1ctl_receive_def Let_def msg_ok_def)
  show ?thesis
    using gprs other by (cases "octet 0 msg \<in> {0x20, 0x21, 0x22}") (auto simp: msg_cost_def)
qed

section \<open>The life of an instance\<close>

text \<open>What reaches trxcon from its sides: a message of layer 2/3, a measurement of the transceiver, the timer.\<close>

datatype trxcon_input = From_L2 "u8 list" | Measured u16 int | Timer

fun trxcon_step :: "libosmo \<Rightarrow> trxcon_input \<Rightarrow> trxcon_inst \<Rightarrow> trxcon_inst option" where
  "trxcon_step L (From_L2 msg) tr = map_option snd (trxcon_l1ctl_receive L msg tr)"
| "trxcon_step L (Measured band_arfcn dbm) tr = map_option snd (trxcon_phyif_handle_rsp L band_arfcn dbm tr)"
| "trxcon_step L Timer tr = (if tr_timer tr = None then Some tr else trxcon_timer_cb L tr)"

fun trxcon_input_ok :: "trxcon_input \<Rightarrow> bool" where
  "trxcon_input_ok (From_L2 msg) = msg_ok msg"
| "trxcon_input_ok _ = True"

fun trxcon_input_cost :: "trxcon_input \<Rightarrow> nat" where
  "trxcon_input_cost (From_L2 msg) = msg_cost msg"
| "trxcon_input_cost _ = 0"

interpretation trxcon: event_loop "trxcon_step L" "trxcon_wf L" trxcon_input_ok trxcon_input_cost 255
proof
  fix n tr i
  assume a: "trxcon_wf L n tr" "trxcon_input_ok i" "n + trxcon_input_cost i \<le> 255"
  show "runs (trxcon_wf L (n + trxcon_input_cost i)) (trxcon_step L i tr)"
  proof (cases i)
    case (From_L2 msg)
    then show ?thesis using receive_runs [OF a(1), of msg] a(2,3) by (simp add: case_prod_unfold)
  next
    case (Measured band_arfcn dbm)
    then show ?thesis
      using dispatch_ev_runs [OF a(1), of "TRXCON_EV_FULL_POWER_SCAN_RES band_arfcn dbm"] a(3)
      by (simp add: trxcon_phyif_handle_rsp_def case_prod_unfold)
  next
    case Timer
    then show ?thesis using timer_runs [OF a(1)] a(1) by (auto elim!: runs_mono)
  qed
qed

lemma trxcon_wf_alloc: "trxcon_wf L 0 (trxcon_inst_alloc phyif)"
  by (simp add: trxcon_wf_def trxcon_inst_alloc_def sched_wf_alloc gprs_fits_def) (simp add: l1sched_alloc_def)



section \<open>The stream of the socket\<close>

fun l1ctl_read_n :: "nat \<Rightarrow> u8 list \<Rightarrow> u8 list list option \<times> u8 list" where
  "l1ctl_read_n 0 stream = (Some [], stream)"
| "l1ctl_read_n (Suc n) stream = (case l1ctl_client_read_cb stream of
     Rd_Msg msg rest \<Rightarrow> (let (ms, rest) = l1ctl_read_n n rest in (map_option ((#) msg) ms, rest))
   | _ \<Rightarrow> (None, stream))"

lemma read_cb_send:
  assumes "length msg \<le> 512"
  shows "l1ctl_client_read_cb (l1ctl_client_send msg @ rest) = Rd_Msg msg rest"
proof -
  have "unat (word_of_nat (length msg) :: u16) = length msg" using assms by (simp add: unat_of_nat)
  then show ?thesis
    using assms by (simp add: l1ctl_client_read_cb_def l1ctl_client_send_def be16_be16_octets Let_def)
qed

text \<open>The messages one side sends, each of at most 512 octets, empty ones included, come
  out of the stream at the other as they were sent, in order, however they follow each other, and the octets after
  the last are left.\<close>

theorem l1ctl_stream_roundtrip:
  assumes "list_all (\<lambda>m. length m \<le> 512) msgs"
  shows "l1ctl_read_n (length msgs) (concat (map l1ctl_client_send msgs) @ rest) = (Some msgs, rest)"
  using assms by (induction msgs) (simp_all add: read_cb_send)

theorem l1ctl_stream_roundtrip_witness:
  "l1ctl_read_n 3 (concat (map l1ctl_client_send [[0x0d, 0, 0, 0], [], [0x12, 0, 0, 0]]) @ [0]) =
     (Some [[0x0d, 0, 0, 0], [], [0x12, 0, 0, 0]], [0])"
  using l1ctl_stream_roundtrip [of "[[0x0d, 0, 0, 0], [], [0x12, 0, 0, 0]]" "[0]"] by (simp add: eval_nat_numeral)

section \<open>Single requests\<close>

text \<open>The answer to an echo request is not the echo: of the same length, it starts four octets
  into the request, so its header is made of the first octets of the payload, its type written
  over the first of them, and the four octets at its end are zero.\<close>

theorem echo_loses_header:
  assumes "tr_l2if tr" and "4 < length msg"
  shows "\<exists>r. l1ctl_rx_echo_req msg tr = Some (0, tr\<lparr>tr_l1ctl_out := tr_l1ctl_out tr @ [r]\<rparr>) \<and>
    length r = length msg \<and> r = 0x0b # drop 5 msg @ [0, 0, 0, 0]"
proof -
  obtain x xs where d: "drop 4 msg = x # xs" using assms(2) by (cases "drop 4 msg") auto
  have "drop 5 msg = drop 1 (drop 4 msg)" by simp
  then have xs: "drop 5 msg = xs" by (simp only: d) simp
  have len: "length msg = Suc (length xs) + 4" using arg_cong [OF d, of length] assms(2) by simp
  have "echo_reply msg = 0x0b # xs @ [0, 0, 0, 0]"
    unfolding echo_reply_def d by (simp add: len eval_nat_numeral)
  then show ?thesis using assms(1) xs len by (simp add: l1ctl_rx_echo_req_def trxcon_l1ctl_send_def)
qed

theorem echo_loses_header_witness:
  "\<exists>r. l1ctl_rx_echo_req [0x0a, 0, 0, 0, 1, 2, 3] (trxcon_inst_alloc (trx_if_open 7)) =
      Some (0, (trxcon_inst_alloc (trx_if_open 7))\<lparr>tr_l1ctl_out := [r]\<rparr>) \<and> r = [0x0b, 2, 3, 0, 0, 0, 0]"
  using echo_loses_header [of "trxcon_inst_alloc (trx_if_open 7)" "[0x0a, 0, 0, 0, 1, 2, 3]"] by (simp add: trxcon_inst_alloc_def)

text \<open>A data request shorter than its headers kills trxcon in a dedicated channel: the length
  of its data wraps around below zero, and no primitive has room for four billion octets.\<close>

theorem short_data_req_aborts:
  assumes "tr_state tr = TRXCON_ST_DEDICATED" and "octet 0 msg = 0x06 \<or> octet 0 msg = 0x1c" and "length msg < 8"
  shows "trxcon_l1ctl_receive L msg tr = None"
proof -
  have len: "unat (dr_data_len (dt_req_param traffic msg)) > 512" for traffic
  proof -
    have "n < 8 \<Longrightarrow> n = 0 \<or> n = 1 \<or> n = 2 \<or> n = 3 \<or> n = 4 \<or> n = 5 \<or> n = 6 \<or> n = 7" for n :: nat by arith
    from this [OF assms(3)] show ?thesis by (auto simp: dt_req_param_def Let_def unsigned_minus_1_eq_mask mask_eq_exp_minus_1)
  qed
  have "trxcon_dispatch L None (TRXCON_EV_TX_DATA_REQ (dt_req_param traffic msg)) tr = None" for traffic
    using len assms(1) by (simp add: trxcon_dispatch_def send_data_req_def)
  then show ?thesis
    using assms(1,2) by (auto simp: trxcon_l1ctl_receive_def l1ctl_rx_dt_req_def dispatch_ev_def Let_def)
qed

theorem short_data_req_aborts_witness:
  "trxcon_l1ctl_receive toy_lib [0x06, 0, 0, 0, 8] ((trxcon_inst_alloc (trx_if_open 7))\<lparr>tr_state := TRXCON_ST_DEDICATED\<rparr>) = None"
  by (rule short_data_req_aborts) (simp_all add: octet_def)

text \<open>C10. A data request of layer 2/3 travels through trxcon unchanged: in a dedicated channel it
  becomes one primitive with the octets after its headers and its channel number and link, queued last on the active channel it
  names, and nothing is answered yet.\<close>

theorem data_req_reaches_queue:
  assumes "trxcon_wf L n tr" and "tr_state tr = TRXCON_ST_DEDICATED"
    and "octet 0 msg = 0x06" and "8 \<le> length msg" and "length msg \<le> 512"
    and "h = \<lparr>ch_frame_nr = 0, ch_chan_nr = octet 4 msg, ch_link_id = octet 5 msg AND 0x40, ch_traffic = False\<rparr>"
    and "prim_dest L (tr_sched tr) h = Some (i, ls)" and "lc_active (ls ! i)"
  shows "\<exists>tr'. trxcon_l1ctl_receive L msg tr = Some (0, tr') \<and> tr_l1ctl_out tr' = tr_l1ctl_out tr \<and>
    (let tn = unat (octet 4 msg AND 0x07) in
     sc_ts (tr_sched tr') = (sc_ts (tr_sched tr))[tn := Some (the (sc_ts (tr_sched tr) ! tn)\<lparr>ts_lchans :=
       Some (ls[i := (ls ! i)\<lparr>lc_tx_prims := lc_tx_prims (ls ! i) @ [(l1sched_prim_alloc (DATA_REQ h))\<lparr>mb_l2 := drop 8 msg\<rparr>]\<rparr>])\<rparr>)])"
proof -
  let ?m = "(l1sched_prim_alloc (DATA_REQ h))\<lparr>mb_l2 := drop 8 msg\<rparr>" and ?req = "dt_req_param False msg"
  have m: "prim_is_req (mb_prim ?m)" "prim_chdr_of (mb_prim ?m) = h" by (simp_all add: l1sched_prim_alloc_def)
  obtain s where s: "l1sched_prim_from_user L (tr_sched tr) ?m = Some (0, s)" "sched_wf L s"
    "let tn = unat (octet 4 msg AND 0x07) in
     sc_ts s = (sc_ts (tr_sched tr))[tn := Some (the (sc_ts (tr_sched tr) ! tn)\<lparr>ts_lchans :=
       Some (ls[i := (ls ! i)\<lparr>lc_tx_prims := lc_tx_prims (ls ! i) @ [?m]\<rparr>])\<rparr>)]"
    using prim_from_user_ok [OF trxcon_wfD(1) [OF assms(1)], of ?m] assms(6-8) m by auto
  have "combs (tr_sched tr) s" using prim_from_user_out [OF s(1)] by (simp add: combs_def)
  from with_sched_runs [where f = "\<lambda>s. l1sched_prim_from_user L s ?m", OF assms(1) s(1,2) this] obtain t where
    t: "with_sched L (\<lambda>s. l1sched_prim_from_user L s ?m) tr = Some (0, tr\<lparr>tr_sched := s\<lparr>sc_out := []\<rparr>, tr_phyif := Some t\<rparr>)"
    by blast
  have "unat (dr_data_len ?req) = length (drop 8 msg)" "dr_data ?req = drop 8 msg"
    using dt_req_ok [OF assms(4,5), of False] by (simp_all add: dt_req_param_def Let_def)
  then have "send_data_req L h (unat (dr_data_len ?req)) (dr_data ?req) tr = Some (tr\<lparr>tr_sched := s\<lparr>sc_out := []\<rparr>, tr_phyif := Some t\<rparr>)"
    using assms(5) t by (simp add: send_data_req_def buf_simps)
  moreover have "h = \<lparr>ch_frame_nr = 0, ch_chan_nr = dr_chan_nr ?req, ch_link_id = dr_link_id ?req, ch_traffic = dr_traffic ?req\<rparr>"
    using assms(6) by (simp add: dt_req_param_def Let_def octet_drop)
  ultimately show ?thesis
    using assms(2,3) s(3) trxcon_wfD(6) [OF assms(1)]
    by (simp add: trxcon_l1ctl_receive_def l1ctl_rx_dt_req_def dispatch_ev_def trxcon_dispatch_def Let_def)
qed

lemma demo_mf_lchans: "mf_lchans demo_mf = [L1SCHED_FCCH, L1SCHED_SCH, L1SCHED_BCCH, L1SCHED_RACH, L1SCHED_CCCH]"
  by code_simp

theorem data_req_reaches_queue_witness:
  "\<exists>tr' ts ls. trxcon_l1ctl_receive toy_lib [0x06, 0, 0, 0, 0x88, 0, 0, 0, 1, 2, 3] demo_tr = Some (0, tr') \<and>
     sc_ts (tr_sched tr') ! 0 = Some ts \<and> ts_lchans ts = Some ls \<and> map mb_l2 (lc_tx_prims (ls ! 3)) = [[1, 2, 3]]"
proof -
  let ?msg = "[0x06, 0, 0, 0, 0x88, 0, 0, 0, 1, 2, 3] :: u8 list"
  let ?h = "\<lparr>ch_frame_nr = 0, ch_chan_nr = 0x88, ch_link_id = 0, ch_traffic = False\<rparr>"
  let ?ls = "map (fresh_lchan toy_lib) (mf_lchans demo_mf)"
  have slot: "sc_ts (tr_sched demo_tr) ! 0 = Some \<lparr>ts_mf_layout = Some demo_mf, ts_lchans = Some ?ls\<rparr>"
    "length (sc_ts (tr_sched demo_tr)) = 8"
    using demo_sched_slot demo_tr_wf by (simp_all add: demo_tr_def trxcon_wf_def sched_wf_def)
  have dest: "prim_dest toy_lib (tr_sched demo_tr) ?h = Some (3, ?ls)"
    using slot(1) by (simp add: prim_dest_def demo_mf_lchans fresh_lchan_simps Let_def)
  have act: "lc_active (?ls ! 3)" "lc_tx_prims (?ls ! 3) = []"
    by (simp_all add: demo_mf_lchans fresh_lchan_simps, simp add: fresh_lchan_def activated_def zero_lchan_def Let_def)
  have p: "tr_state demo_tr = TRXCON_ST_DEDICATED" "octet 0 ?msg = 0x06" "8 \<le> length ?msg" "length ?msg \<le> 512"
    "?h = \<lparr>ch_frame_nr = 0, ch_chan_nr = octet 4 ?msg, ch_link_id = octet 5 ?msg AND 0x40, ch_traffic = False\<rparr>"
    "unat (octet 4 ?msg AND 0x07) = 0"
    by (simp_all add: demo_tr_def octet_def)
  have len: "3 < length ?ls" by (simp add: demo_mf_lchans)
  show ?thesis
    using data_req_reaches_queue [OF demo_tr_wf p(1-5) dest act(1)] slot act(2) len unfolding p(6) Let_def by fastforce
qed

section \<open>The full power scan\<close>

definition pm_conf :: "libosmo \<Rightarrow> u16 \<Rightarrow> int \<Rightarrow> bool \<Rightarrow> u8 list" where
  "pm_conf L band_arfcn dbm is_last = [0x09, if is_last then 1 else 0, 0, 0] @ be16_octets band_arfcn @ [dbm2rxlev L dbm, 0]"

fun scan_in :: "u16 \<Rightarrow> int list \<Rightarrow> trxcon_input list" where
  "scan_in band_arfcn [] = []"
| "scan_in band_arfcn (d # ds) = Measured band_arfcn d # scan_in (band_arfcn + 1) ds"

fun scan_out :: "libosmo \<Rightarrow> u16 \<Rightarrow> int list \<Rightarrow> u8 list list" where
  "scan_out L band_arfcn [] = []"
| "scan_out L band_arfcn (d # ds) = pm_conf L band_arfcn d (ds = []) # scan_out L (band_arfcn + 1) ds"

lemma tx_pm_conf_eq:
  "tr_l2if tr \<Longrightarrow> l1ctl_tx_pm_conf L band_arfcn dbm is_last tr =
     Some (tr\<lparr>tr_l1ctl_out := tr_l1ctl_out tr @ [pm_conf L band_arfcn dbm is_last]\<rparr>)"
  by (simp add: l1ctl_tx_pm_conf_def trxcon_l1ctl_send_def pm_conf_def l1ctl_alloc_msg_def Let_def)

lemma scan_state_eq:
  assumes "trxcon_wf L n tr" "tr_state tr = TRXCON_ST_RESET \<or> tr_state tr = TRXCON_ST_FULL_POWER_SCAN"
  shows "\<exists>tr'. trxcon_state_chg L TRXCON_ST_FULL_POWER_SCAN 0 (tr\<lparr>tr_fi_data := Some (start, stop)\<rparr>) = Some tr' \<and>
    wf_st L n TRXCON_ST_FULL_POWER_SCAN tr' \<and> tr_fi_data tr' = Some (start, stop) \<and> tr_l1ctl_out tr' = tr_l1ctl_out tr"
proof -
  obtain t where "tr_phyif tr = Some t" using trxcon_wfD(3) [OF assms(1)] by blast
  then show ?thesis
    using assms scan_state_runs [OF assms, of start stop] by (auto simp: trxcon_state_chg_def Let_def phyif_cmd_eq wf_st_def
        trxcon_st_full_power_scan_onenter_def)
qed

lemma measured_eq:
  assumes "wf_st L n TRXCON_ST_FULL_POWER_SCAN tr" "tr_fi_data tr = Some (start, stop)"
  shows "\<exists>tr'. trxcon_step L (Measured start dbm) tr = Some tr' \<and> wf_st L n TRXCON_ST_FULL_POWER_SCAN tr' \<and>
    tr_l1ctl_out tr' = tr_l1ctl_out tr @ [pm_conf L start dbm (\<not> start < stop)] \<and>
    tr_fi_data tr' = (if start < stop then Some (start + 1, stop) else None)"
proof -
  have wf: "trxcon_wf L n tr" and st: "tr_state tr = TRXCON_ST_FULL_POWER_SCAN" using assms(1) by (simp_all add: wf_st_def)
  let ?tr = "tr\<lparr>tr_l1ctl_out := tr_l1ctl_out tr @ [pm_conf L start dbm (\<not> start < stop)]\<rparr>"
  have step: "trxcon_step L (Measured start dbm) tr =
      (if start < stop then trxcon_state_chg L TRXCON_ST_FULL_POWER_SCAN 0 (?tr\<lparr>tr_fi_data := Some (start + 1, stop)\<rparr>)
       else Some (?tr\<lparr>tr_fi_data := None\<rparr>))"
    using assms(2) st trxcon_wfD(4,6) [OF wf]
    by (auto simp: trxcon_phyif_handle_rsp_def dispatch_ev_def trxcon_dispatch_def tx_pm_conf_eq option.map_comp comp_def
        option.map_ident split: option.splits)
  have wf': "trxcon_wf L n ?tr" "tr_state ?tr = TRXCON_ST_FULL_POWER_SCAN" using wf st by simp_all
  show ?thesis
  proof (cases "start < stop")
    case True
    then show ?thesis using scan_state_eq [OF wf'(1), of "start + 1" stop] wf'(2) step by auto
  next
    case False
    have "trxcon_wf L n (?tr\<lparr>tr_fi_data := None\<rparr>)" using wf'(1) by (auto simp: trxcon_wf_def)
    then show ?thesis using False step st by (simp add: wf_st_def del: trxcon_step.simps)
  qed
qed

lemma scan_run:
  "wf_st L n TRXCON_ST_FULL_POWER_SCAN tr \<Longrightarrow> tr_fi_data tr = Some (start, stop) \<Longrightarrow> ds \<noteq> [] \<Longrightarrow>
   unat stop + 1 = unat start + length ds \<Longrightarrow>
   \<exists>tr'. run_all (trxcon_step L) (scan_in start ds) tr = Some tr' \<and> tr_l1ctl_out tr' = tr_l1ctl_out tr @ scan_out L start ds \<and>
     wf_st L n TRXCON_ST_FULL_POWER_SCAN tr' \<and> tr_fi_data tr' = None"
proof (induction ds arbitrary: tr start)
  case (Cons d ds)
  have more: "start < stop \<longleftrightarrow> ds \<noteq> []" using Cons.prems(4) by (auto simp: word_less_nat_alt neq_Nil_conv)
  obtain tr1 where tr1: "trxcon_step L (Measured start d) tr = Some tr1" "wf_st L n TRXCON_ST_FULL_POWER_SCAN tr1"
    "tr_l1ctl_out tr1 = tr_l1ctl_out tr @ [pm_conf L start d (ds = [])]"
    "tr_fi_data tr1 = (if ds \<noteq> [] then Some (start + 1, stop) else None)"
    using measured_eq [OF Cons.prems(1,2), of d] more by auto
  show ?case
  proof (cases "ds = []")
    case True
    then show ?thesis using tr1 by (simp del: trxcon_step.simps)
  next
    case False
    then have "start \<noteq> - 1" using more by (metis word_n1_ge linorder_not_le)
    then have "unat (start + 1) = Suc (unat start)" by (metis add.commute unatSuc add_eq_0_iff)
    then show ?thesis
      using Cons.IH [OF tr1(2), of "start + 1"] False tr1 Cons.prems(4) by auto
  qed
qed simp

lemma scan_request_ok:
  assumes "trxcon_wf L n tr" and "tr_state tr = TRXCON_ST_RESET"
    and "gsm_arfcn2band_rc L start = Some band" and "gsm_arfcn2band_rc L stop = Some band"
    and "unat stop + 1 = unat start + length ds" and "ds \<noteq> []"
    and "msg = [0x08, 0, 0, 0, 1, 0, 0, 0] @ be16_octets start @ be16_octets stop"
  shows "\<exists>tr'. run_all (trxcon_step L) (From_L2 msg # scan_in start ds) tr = Some tr' \<and>
    tr_l1ctl_out tr' = tr_l1ctl_out tr @ scan_out L start ds \<and> tr_fi_data tr' = None"
proof -
  have "drop 4 msg = [1, 0, 0, 0] @ be16_octets start @ be16_octets stop" using assms(7) by simp
  moreover have "be16 4 ([1, 0, 0, 0] @ be16_octets start @ be16_octets stop) = start"
    using be_append(1) [of "[1, 0, 0, 0]" 0] be16_be16_octets by (simp add: eval_nat_numeral)
  moreover have "be16 6 ([1, 0, 0, 0] @ be16_octets start @ be16_octets stop) = stop"
    using be_append(1) [of "[1, 0, 0, 0] @ be16_octets start" 0 "be16_octets stop"] be16_be16_octets [of stop "[]"] by (simp add: eval_nat_numeral)
  ultimately have b: "be16 4 (drop 4 msg) = start" "be16 6 (drop 4 msg) = stop" by simp_all
  have "octet 0 msg = 8" "\<not> l1len msg < 8" using assms(7) by (simp_all add: octet_def l1len_def)
  moreover have "tr_fi_data tr = None" using wf_scan_state [OF assms(1)] assms(2) by simp
  ultimately have disp: "trxcon_l1ctl_receive L msg tr = do { (_, tr') \<leftarrow> dispatch_ev L None (TRXCON_EV_FULL_POWER_SCAN_REQ start stop) tr; Some (0, tr') }"
    and scan: "handle_full_power_scan_req L start stop tr = trxcon_state_chg L TRXCON_ST_FULL_POWER_SCAN 0 (tr\<lparr>tr_fi_data := Some (start, stop)\<rparr>)"
    using assms(3,4) b by (simp_all add: trxcon_l1ctl_receive_def l1ctl_rx_pm_req_def handle_full_power_scan_req_def Let_def)
  have "trxcon_step L (From_L2 msg) tr = handle_full_power_scan_req L start stop tr"
    using assms(2) trxcon_wfD(6) [OF assms(1)]
    by (cases "handle_full_power_scan_req L start stop tr") (simp_all add: disp dispatch_ev_def trxcon_dispatch_def)
  then have req: "trxcon_step L (From_L2 msg) tr = trxcon_state_chg L TRXCON_ST_FULL_POWER_SCAN 0 (tr\<lparr>tr_fi_data := Some (start, stop)\<rparr>)"
    by (simp only: scan)
  obtain tr1 where tr1: "trxcon_step L (From_L2 msg) tr = Some tr1" "wf_st L n TRXCON_ST_FULL_POWER_SCAN tr1"
    "tr_fi_data tr1 = Some (start, stop)" "tr_l1ctl_out tr1 = tr_l1ctl_out tr"
    using scan_state_eq [OF assms(1), of start stop] assms(2) req by auto
  show ?thesis using scan_run [OF tr1(2,3) assms(6,5)] tr1(1,4) by auto
qed

end
