(* ===== verification/L23_L1ctl.thy ===== *)
theory L23_L1ctl
  imports L1ctl
begin

text \<open>
  The other end of the L1CTL link, in the layer 2/3 programs: the messages they send and what they
  make of those they receive (\<^verbatim>\<open>src/src/host/layer23/src/common/l1ctl.c\<close>), and their socket
  (\<^verbatim>\<open>l1l2_interface.c\<close>). With the model of trxcon, what one side sends can be followed into the other.
\<close>

section \<open>The socket\<close>

text \<open>The message with its length in front, as it is queued for the socket.\<close>

definition osmo_send_l1 :: "u8 list \<Rightarrow> u8 list" where
  "osmo_send_l1 msg = be16_octets (word_of_nat (length msg)) @ msg"

text \<open>One call of the read callback. A failure on the length ends the program; a length too big leaves
  what follows it in the socket.\<close>

datatype layer2_read = L2_Exit | L2_Error int "u8 list" | L2_Msg "u8 list" "u8 list"

definition layer2_read :: "u8 list \<Rightarrow> layer2_read" where
  "layer2_read stream =
     (if length stream < 2 then L2_Exit
      else let len = unat (be16 0 stream); rest = drop 2 stream in
        if len > 256 then L2_Error (- EINVAL) rest
        else if length rest < len then L2_Error (int (length rest)) []
        else L2_Msg (take len rest) (drop len rest))"

section \<open>Requests\<close>

text \<open>
  A message is built in 252 octets, zero at first; \<^verbatim>\<open>msgb_put\<close> aborts when they are used up. A
  message the caller brings has headroom for the headers put in front of it.
\<close>

definition osmo_l1_alloc :: "u8 \<Rightarrow> u8 list" where
  "osmo_l1_alloc msg_type = [msg_type, 0, 0, 0]"

definition put :: "u8 list \<Rightarrow> u8 list \<Rightarrow> u8 list option" where
  "put msg payload = (if length msg + length payload > 252 then None else Some (msg @ payload))"

definition info_ul :: "u8 \<Rightarrow> u8 \<Rightarrow> u8 list" where
  "info_ul chan_nr link_id = [chan_nr, link_id, 0, 0]"

definition l1ctl_tx_data_req :: "u8 list \<Rightarrow> u8 \<Rightarrow> u8 \<Rightarrow> int + u8 list" where
  "l1ctl_tx_data_req l2 chan_nr link_id =
     (if length l2 \<noteq> 23 then Inl (- EINVAL) else Inr ([0x06, 0, 0, 0] @ info_ul chan_nr link_id @ l2))"

definition l1ctl_tx_fbsb_req :: "u16 \<Rightarrow> u8 \<Rightarrow> u16 \<Rightarrow> u8 \<Rightarrow> u8 \<Rightarrow> u8 \<Rightarrow> u8 list option" where
  "l1ctl_tx_fbsb_req arfcn flags timeout sync_info_idx ccch_mode rxlev_exp =
     put (osmo_l1_alloc 0x01) (be16_octets arfcn @ be16_octets timeout @ be16_octets (11000 - 1000) @ be16_octets (1000 - 200) @
       [3, flags, sync_info_idx, ccch_mode, rxlev_exp])"

definition l1ctl_tx_ccch_mode_req :: "u8 \<Rightarrow> u8 list option" where
  "l1ctl_tx_ccch_mode_req ccch_mode = put (osmo_l1_alloc 0x10) [ccch_mode, 0, 0, 0]"

definition l1ctl_tx_tch_mode_req :: "u8 \<Rightarrow> u8 \<Rightarrow> u8 \<Rightarrow> u8 \<Rightarrow> u8 list option" where
  "l1ctl_tx_tch_mode_req tch_mode audio_mode tch_flags tch_loop_mode =
     put (osmo_l1_alloc 0x18) [tch_mode, audio_mode, tch_loop_mode, 0, 0, tch_flags]"

definition l1ctl_tx_param_req :: "u8 \<Rightarrow> u8 \<Rightarrow> u8 list option" where
  "l1ctl_tx_param_req ta tx_power = do {
     msg \<leftarrow> put (osmo_l1_alloc 0x13) (info_ul 0 0);
     put msg [ta, tx_power, 0, 0] }"

definition l1ctl_tx_crypto_req :: "u8 \<Rightarrow> u8 \<Rightarrow> u8 list \<Rightarrow> u8 \<Rightarrow> u8 list option" where
  "l1ctl_tx_crypto_req chan_nr algo key len = do {
     msg \<leftarrow> put (osmo_l1_alloc 0x15) (info_ul chan_nr 0);
     k \<leftarrow> read_at 0 (unat len) key;
     put msg ([algo, len] @ k) }"

definition l1ctl_tx_rach_req :: "u8 \<Rightarrow> u8 \<Rightarrow> u8 \<Rightarrow> u16 \<Rightarrow> u8 \<Rightarrow> u8 \<Rightarrow> u8 list option" where
  "l1ctl_tx_rach_req chan_nr link_id ra offset combined uic = do {
     msg \<leftarrow> put (osmo_l1_alloc 0x04) (info_ul chan_nr link_id);
     put msg ([ra, combined] @ be16_octets offset @ [uic]) }"

text \<open>The union of one frequency and a hopping sequence takes 132 octets; the sequence has room for 64.\<close>

definition h0_octets :: "u16 \<Rightarrow> u8 list" where
  "h0_octets band_arfcn = be16_octets band_arfcn @ replicate 130 0"

definition h1_octets :: "u8 \<Rightarrow> u8 \<Rightarrow> u16 list \<Rightarrow> u8 \<Rightarrow> u8 list option" where
  "h1_octets maio hsn ma ma_len = do {
     fs \<leftarrow> read_at 0 (unat ma_len) ma;
     if unat ma_len > 64 then None
     else Some ([hsn, maio, ma_len, 0] @ concat (map be16_octets fs) @ replicate (128 - 2 * unat ma_len) 0) }"

definition l1ctl_tx_dm_est_req_h0 :: "u16 \<Rightarrow> u8 \<Rightarrow> u8 \<Rightarrow> u8 \<Rightarrow> u8 \<Rightarrow> u8 \<Rightarrow> u8 list option" where
  "l1ctl_tx_dm_est_req_h0 band_arfcn chan_nr tsc tch_mode audio_mode tch_flags = do {
     msg \<leftarrow> put (osmo_l1_alloc 0x05) (info_ul chan_nr 0);
     put msg ([tsc, 0] @ h0_octets band_arfcn @ [tch_mode, audio_mode, tch_flags]) }"

definition l1ctl_tx_dm_est_req_h1 :: "u8 \<Rightarrow> u8 \<Rightarrow> u16 list \<Rightarrow> u8 \<Rightarrow> u8 \<Rightarrow> u8 \<Rightarrow> u8 \<Rightarrow> u8 \<Rightarrow> u8 \<Rightarrow> u8 list option" where
  "l1ctl_tx_dm_est_req_h1 maio hsn ma ma_len chan_nr tsc tch_mode audio_mode tch_flags = do {
     msg \<leftarrow> put (osmo_l1_alloc 0x05) (info_ul chan_nr 0);
     h1 \<leftarrow> h1_octets maio hsn ma ma_len;
     put msg ([tsc, 1] @ h1 @ [tch_mode, audio_mode, tch_flags]) }"

definition l1ctl_tx_dm_freq_req_h0 :: "u16 \<Rightarrow> u8 \<Rightarrow> u16 \<Rightarrow> u8 list option" where
  "l1ctl_tx_dm_freq_req_h0 band_arfcn tsc fn = do {
     msg \<leftarrow> put (osmo_l1_alloc 0x14) (info_ul 0 0);
     put msg (be16_octets fn @ [tsc, 0] @ h0_octets band_arfcn) }"

definition l1ctl_tx_dm_freq_req_h1 :: "u8 \<Rightarrow> u8 \<Rightarrow> u16 list \<Rightarrow> u8 \<Rightarrow> u8 \<Rightarrow> u16 \<Rightarrow> u8 list option" where
  "l1ctl_tx_dm_freq_req_h1 maio hsn ma ma_len tsc fn = do {
     msg \<leftarrow> put (osmo_l1_alloc 0x14) (info_ul 0 0);
     h1 \<leftarrow> h1_octets maio hsn ma ma_len;
     put msg (be16_octets fn @ [tsc, 1] @ h1) }"

definition l1ctl_tx_dm_rel_req :: "u8 list option" where
  "l1ctl_tx_dm_rel_req = put (osmo_l1_alloc 0x12) (info_ul 0 0)"

definition l1ctl_tx_echo_req :: "nat \<Rightarrow> u8 list option" where
  "l1ctl_tx_echo_req len = put (osmo_l1_alloc 0x0a) (map (\<lambda>i. word_of_nat (i mod 8)) [0..<len])"

definition l1ctl_tx_sim_req :: "u8 list \<Rightarrow> u16 \<Rightarrow> u8 list option" where
  "l1ctl_tx_sim_req data len = do {
     d \<leftarrow> read_at 0 (unat len) data;
     put (osmo_l1_alloc 0x16) d }"

definition l1ctl_tx_pm_req_range :: "u16 \<Rightarrow> u16 \<Rightarrow> u8 list option" where
  "l1ctl_tx_pm_req_range arfcn_from arfcn_to =
     put (osmo_l1_alloc 0x08) ([1, 0, 0, 0] @ be16_octets arfcn_from @ be16_octets arfcn_to)"

definition l1ctl_tx_reset_req :: "u8 \<Rightarrow> u8 list option" where
  "l1ctl_tx_reset_req type = put (osmo_l1_alloc 0x0d) [type, 0, 0, 0]"

definition l1ctl_tx_traffic_req :: "u8 list \<Rightarrow> u8 \<Rightarrow> u8 \<Rightarrow> u8 list" where
  "l1ctl_tx_traffic_req l2 chan_nr link_id = [0x1c, 0, 0, 0] @ info_ul chan_nr link_id @ l2"

text \<open>The two arrays of the request have 64 elements.\<close>

definition l1ctl_tx_neigh_pm_req :: "nat \<Rightarrow> u16 list \<Rightarrow> u8 list option" where
  "l1ctl_tx_neigh_pm_req num arfcn = do {
     fs \<leftarrow> read_at 0 num arfcn;
     if num > 64 then None
     else put (osmo_l1_alloc 0x1a) ([word_of_nat num, 0] @ concat (map be16_octets fs) @ replicate (128 - 2 * num) 0 @ replicate 64 0) }"

definition l1ctl_tx_gprs_ul_block_req :: "u32 \<Rightarrow> u8 \<Rightarrow> u8 list \<Rightarrow> u8 list option" where
  "l1ctl_tx_gprs_ul_block_req fn tn data = do {
     msg \<leftarrow> put (osmo_l1_alloc 0x22) (be32_octets fn @ [tn, 0, 0, 0]);
     put msg data }"

definition l1ctl_tx_gprs_ul_tbf_cfg_req :: "u8 \<Rightarrow> u8 \<Rightarrow> u32 \<Rightarrow> u8 list option" where
  "l1ctl_tx_gprs_ul_tbf_cfg_req tbf_ref slotmask start_fn =
     put (osmo_l1_alloc 0x20) ([tbf_ref, slotmask, 0, 0] @ be32_octets start_fn)"

definition l1ctl_tx_gprs_dl_tbf_cfg_req :: "u8 \<Rightarrow> u8 \<Rightarrow> u32 \<Rightarrow> u8 \<Rightarrow> u8 list option" where
  "l1ctl_tx_gprs_dl_tbf_cfg_req tbf_ref slotmask start_fn dl_tfi =
     put (osmo_l1_alloc 0x21) ([tbf_ref, slotmask, dl_tfi, 0] @ be32_octets start_fn)"

section \<open>Indications and confirmations\<close>

text \<open>
  What the state of the mobile has that is used here: the measurement counters, the number of blocks
  reserved for access grants if a cell is known, and which of the traffic and packet handlers are installed. What is
  told to the rest, the signals, the primitives to LAPDm and the calls of the handlers, is collected in order.
\<close>

datatype lapdm_ent = LAPDM_DCCH | LAPDM_ACCH

datatype l23_out =
    S_L1CTL_FBSB_ERR u16 | S_L1CTL_FBSB_RESP u8 u8 u16 | S_L1CTL_RESET | S_L1CTL_PM_RES u16 u8 | S_L1CTL_PM_DONE
  | S_L1CTL_CCCH_MODE_CONF u8 | S_L1CTL_TCH_MODE_CONF u8 u8 u8 | S_L1CTL_LOSS_IND | S_L1CTL_NEIGH_PM_IND u16 u8
  | PH_RACH_CONF lapdm_ent u32 | PH_DATA_IND lapdm_ent u8 u8 u32 "u8 list" | PH_RTS_IND lapdm_ent
  | Sim_Conf "u8 list" | Traffic_Ind "u8 list" | Gprs_Ul_Block_Cnf u32 u8 "u8 list" | Gprs_Dl_Block_Ind "u8 list" | Gprs_Rts_Ind u32 u8 u8

record rx_meas_stat =
  ms_last_fn :: u32
  ms_frames :: u32
  ms_snr :: u32
  ms_berr :: u32
  ms_rxlev :: u32
  ms_dsc :: u16
  ms_ds_fail :: u16
  ms_s :: u16
  ms_rl_fail :: u16

record l23_ms =
  l23_meas :: rx_meas_stat
  l23_traffic_cb :: bool
  l23_ul_cnf_cb :: bool
  l23_dl_ind_cb :: bool
  l23_rts_cb :: bool
  l23_out :: "l23_out list"

text \<open>What the code uses of libosmogsm: the decoder of channel numbers, whether a channel type is logged as the paging
  channel, and the CCCH block of a frame, negative for a frame of no block.\<close>

record l23_lib =
  rsl_dec_chan_nr :: "u8 \<Rightarrow> (u8 \<times> u8 \<times> u8) option"
  chantype_is_pch :: "u8 \<Rightarrow> u8 \<Rightarrow> bool"
  gsm0502_fn2ccch_block :: "u32 \<Rightarrow> int"

definition tell :: "l23_out \<Rightarrow> l23_ms \<Rightarrow> l23_ms" where
  "tell e ms = ms\<lparr>l23_out := l23_out ms @ [e]\<rparr>"

text \<open>Each handler is given what follows the header, and returns its code.\<close>

definition rx_l1_fbsb_conf :: "u8 list \<Rightarrow> l23_ms \<Rightarrow> int \<times> l23_ms" where
  "rx_l1_fbsb_conf b ms =
     (if length b < 16 then (- 1, ms)
      else if octet 14 b \<noteq> 0 then (0, tell (S_L1CTL_FBSB_ERR (be16 2 b)) ms)
      else (0, tell (S_L1CTL_FBSB_RESP (octet 9 b) (octet 15 b) (be16 2 b)) ms))"

definition rx_l1_rach_conf :: "u8 list \<Rightarrow> l23_ms \<Rightarrow> int \<times> l23_ms" where
  "rx_l1_rach_conf b ms =
     (if length b < 12 then (- 1, ms) else (0, tell (PH_RACH_CONF LAPDM_DCCH (be32 4 b)) ms))"

text \<open>The counters of the loss criteria: the downlink signalling counter and the radio link counter.\<close>

definition count_loss :: "u16 \<Rightarrow> u16 \<Rightarrow> u16 \<Rightarrow> u16 \<Rightarrow> bool \<Rightarrow> u16 \<times> u16 \<times> bool" where
  "count_loss down up counter fail bad =
     (if fail = 0 then (counter, fail, False)
      else let n = (if bad then counter - down else counter + up);
               n = (if sint n > sint fail then fail else n) in
        if sint n > 0 then (n, fail, False) else (n, 0, True))"

definition loss_criteria :: "u8 \<Rightarrow> u8 \<Rightarrow> bool \<Rightarrow> l23_ms \<Rightarrow> l23_ms" where
  "loss_criteria chan_type link_id bad ms =
     (let m = l23_meas ms in
      if link_id AND 0x40 = 0 then
        if chan_type = RSL_CHAN_PCH_AGCH \<and> ms_last_fn m mod 51 = 6 then
          let (dsc, ds_fail, lost) = count_loss 4 1 (ms_dsc m) (ms_ds_fail m) bad;
              ms = ms\<lparr>l23_meas := m\<lparr>ms_dsc := dsc, ms_ds_fail := ds_fail\<rparr>\<rparr> in
          if lost then tell S_L1CTL_LOSS_IND ms else ms
        else ms
      else
        if chan_type = RSL_CHAN_Bm_ACCHs \<or> chan_type = RSL_CHAN_Lm_ACCHs \<or> chan_type = RSL_CHAN_SDCCH4_ACCH \<or>
           chan_type = RSL_CHAN_SDCCH8_ACCH then
          let (s, rl_fail, lost) = count_loss 1 2 (ms_s m) (ms_rl_fail m) bad;
              ms = ms\<lparr>l23_meas := m\<lparr>ms_s := s, ms_rl_fail := rl_fail\<rparr>\<rparr> in
          if lost then tell S_L1CTL_LOSS_IND ms else ms
        else ms)"

definition lapdm_of :: "u8 \<Rightarrow> lapdm_ent" where
  "lapdm_of link_id = (if link_id AND 0x40 \<noteq> 0 then LAPDM_ACCH else LAPDM_DCCH)"

definition rx_ph_data_ind :: "libosmo \<Rightarrow> l23_lib \<Rightarrow> u8 list \<Rightarrow> l23_ms \<Rightarrow> (int \<times> l23_ms) option" where
  "rx_ph_data_ind L G b ms =
     (if length b < 12 then Some (- 1, ms)
      else case rsl_dec_chan_nr G (octet 0 b) of
        None \<Rightarrow> Some (- EINVAL, ms)
      | Some (chan_type, chan_ss, chan_ts) \<Rightarrow>
          let fn = be32 4 b; m = l23_meas ms;
              ms = ms\<lparr>l23_meas := m\<lparr>ms_last_fn := fn, ms_frames := ms_frames m + 1, ms_snr := ms_snr m + ucast (octet 9 b),
                     ms_berr := ms_berr m + ucast (octet 10 b), ms_rxlev := ms_rxlev m + ucast (octet 8 b)\<rparr>\<rparr>;
              ms = loss_criteria chan_type (octet 1 b) (octet 11 b \<ge> 2) ms in
          if octet 11 b \<ge> 2 then Some (0, ms)
          else if chantype_is_pch G chan_type (octet 1 b) \<and> gsm0502_fn2ccch_block G fn < 0 then None
          else if chan_type = RSL_CHAN_OSMO_PDCH L \<or> chan_type = RSL_CHAN_OSMO_CBCH4 L \<or> chan_type = RSL_CHAN_OSMO_CBCH8 L
          then Some (0, ms)
          else Some (0, tell (PH_DATA_IND (lapdm_of (octet 1 b)) (octet 0 b) (octet 1 b) fn (drop 12 b)) ms))"

definition rx_ph_data_conf :: "u8 list \<Rightarrow> l23_ms \<Rightarrow> int \<times> l23_ms" where
  "rx_ph_data_conf b ms =
     (if length b < 12 then (- 1, ms) else (0, tell (PH_RTS_IND (lapdm_of (octet 1 b))) ms))"

text \<open>The results, of four or six octets each; the last is read in full when the message ends in it.\<close>

definition rx_l1_pm_conf :: "u8 list \<Rightarrow> l23_ms \<Rightarrow> int \<times> l23_ms" where
  "rx_l1_pm_conf b ms =
     (if length b < 4 then (- 1, ms)
      else (0, fold (\<lambda>k. tell (S_L1CTL_PM_RES (be16 (4 * k) b) (octet (4 * k + 2) b))) [0..<(length b + 3) div 4] ms))"

definition rx_l1_neigh_pm_ind :: "u8 list \<Rightarrow> l23_ms \<Rightarrow> int \<times> l23_ms" where
  "rx_l1_neigh_pm_ind b ms =
     (if length b < 6 then (- 1, ms)
      else (0, fold (\<lambda>k. tell (S_L1CTL_NEIGH_PM_IND (be16 (6 * k) b) (octet (6 * k + 2) b))) [0..<(length b + 5) div 6] ms))"

definition rx_l1_ccch_mode_conf :: "u8 list \<Rightarrow> l23_ms \<Rightarrow> int \<times> l23_ms" where
  "rx_l1_ccch_mode_conf b ms =
     (if length b < 4 then (- 1, ms) else (0, tell (S_L1CTL_CCCH_MODE_CONF (octet 0 b)) ms))"

definition rx_l1_tch_mode_conf :: "u8 list \<Rightarrow> l23_ms \<Rightarrow> int \<times> l23_ms" where
  "rx_l1_tch_mode_conf b ms =
     (if length b < 6 then (- 1, ms) else (0, tell (S_L1CTL_TCH_MODE_CONF (octet 0 b) (octet 1 b) (octet 5 b)) ms))"

definition rx_l1_traffic_ind :: "u8 list \<Rightarrow> l23_ms \<Rightarrow> int \<times> l23_ms" where
  "rx_l1_traffic_ind b ms =
     (if length b < 12 then (- 1, ms) else (0, if l23_traffic_cb ms then tell (Traffic_Ind b) ms else ms))"

definition rx_l1_gprs_ul_block_cnf :: "u8 list \<Rightarrow> l23_ms \<Rightarrow> int \<times> l23_ms" where
  "rx_l1_gprs_ul_block_cnf b ms =
     (if length b < 5 then (- EINVAL, ms)
      else if octet 4 b \<ge> 8 then (- EINVAL, ms)
      else (0, if l23_ul_cnf_cb ms then tell (Gprs_Ul_Block_Cnf (be32 0 b) (octet 4 b) (drop 5 b)) ms else ms))"

definition rx_l1_gprs_dl_block_ind :: "u8 list \<Rightarrow> l23_ms \<Rightarrow> int \<times> l23_ms" where
  "rx_l1_gprs_dl_block_ind b ms =
     (if length b < 14 then (- EINVAL, ms)
      else if octet 4 b \<ge> 8 then (- EINVAL, ms)
      else (0, if l23_dl_ind_cb ms then tell (Gprs_Dl_Block_Ind b) ms else ms))"

definition rx_l1_gprs_rts_ind :: "u8 list \<Rightarrow> l23_ms \<Rightarrow> int \<times> l23_ms" where
  "rx_l1_gprs_rts_ind b ms =
     (if length b < 6 then (- EINVAL, ms)
      else if octet 4 b \<ge> 8 then (- EINVAL, ms)
      else (0, if l23_rts_cb ms then tell (Gprs_Rts_Ind (be32 0 b) (octet 4 b) (octet 5 b)) ms else ms))"

definition l1ctl_recv :: "libosmo \<Rightarrow> l23_lib \<Rightarrow> u8 list \<Rightarrow> l23_ms \<Rightarrow> (int \<times> l23_ms) option" where
  "l1ctl_recv L G msg ms =
     (if length msg < 4 then Some (- 1, ms)
      else let t = octet 0 msg; b = drop 4 msg in
        if t = 0x02 then Some (rx_l1_fbsb_conf b ms)
        else if t = 0x03 then rx_ph_data_ind L G b ms
        else if t = 0x0f then Some (rx_ph_data_conf b ms)
        else if t = 0x07 \<or> t = 0x0e then Some (0, tell S_L1CTL_RESET ms)
        else if t = 0x09 then
          let (rc, ms) = rx_l1_pm_conf b ms in
          Some (rc, if octet 1 msg AND 0x01 \<noteq> 0 then tell S_L1CTL_PM_DONE ms else ms)
        else if t = 0x0c then Some (rx_l1_rach_conf b ms)
        else if t = 0x11 then Some (rx_l1_ccch_mode_conf b ms)
        else if t = 0x19 then Some (rx_l1_tch_mode_conf b ms)
        else if t = 0x17 then Some (0, tell (Sim_Conf b) ms)
        else if t = 0x1b then Some (rx_l1_neigh_pm_ind b ms)
        else if t = 0x1e then Some (rx_l1_traffic_ind b ms)
        else if t = 0x26 then Some (rx_l1_gprs_ul_block_cnf b ms)
        else if t = 0x23 then Some (rx_l1_gprs_dl_block_ind b ms)
        else if t = 0x25 then Some (rx_l1_gprs_rts_ind b ms)
        else Some (0, ms))"

section \<open>What layer 2/3 asks is what trxcon does\<close>

definition asks :: "libosmo \<Rightarrow> trxcon_event \<Rightarrow> trxcon_inst \<Rightarrow> (int \<times> trxcon_inst) option" where
  "asks L ev tr = do { (_, tr) \<leftarrow> dispatch_ev L None ev tr; Some (0, tr) }"

lemma be16_join: "push_bit 8 (ucast (ucast (drop_bit 8 w) :: u8)) OR ucast (ucast w :: u8) = (w :: u16)"
  using be16_be16_octets [of w "[]"] by (simp add: be16_def be16_octets_def octet_def)

lemma octet_Cons: "octet 0 (x # xs) = x" "octet (Suc n) (x # xs) = octet n xs"
  by (simp_all add: octet_def)

lemma octet_num: "octet (numeral k) (x # xs) = octet (pred_numeral k) xs"
  by (simp add: octet_Cons numeral_eq_Suc)

lemmas msg_simps = octet_Cons octet_num be16_octets_def be16_join be16_def octet_drop

text \<open>Cell selection as layer 2/3 asks for it is what trxcon is told: the frequency
  and the timeout of a search with the CCCH configuration of its mode, the range of a power measurement, a reset, a
  change of the CCCH mode and new transmit parameters arrive as the event with exactly these
  values, whatever the other fields of the messages hold.\<close>

theorem l23_setup_reaches_trxcon:
  "Option.bind (l1ctl_tx_fbsb_req arfcn flags timeout idx mode rxlev) (\<lambda>m. trxcon_l1ctl_receive L m tr) =
     asks L (TRXCON_EV_FBSB_SEARCH_REQ arfcn timeout (l1ctl_ccch_mode2pchan_config mode)) tr \<and>
   Option.bind (l1ctl_tx_pm_req_range start stop) (\<lambda>m. trxcon_l1ctl_receive L m tr) =
     asks L (TRXCON_EV_FULL_POWER_SCAN_REQ start stop) tr \<and>
   Option.bind (l1ctl_tx_reset_req 1) (\<lambda>m. trxcon_l1ctl_receive L m tr) =
     do { (_, tr) \<leftarrow> dispatch_ev L None TRXCON_EV_RESET_FULL_REQ tr; map_option (Pair 0) (l1ctl_tx_reset_conf 1 tr) } \<and>
   Option.bind (l1ctl_tx_ccch_mode_req mode) (\<lambda>m. trxcon_l1ctl_receive L m tr) =
     do { (rc, applied, tr) \<leftarrow> trxcon_dispatch L None (TRXCON_EV_SET_CCCH_MODE_REQ (l1ctl_ccch_mode2pchan_config mode)) tr;
          tr \<leftarrow> (if rc = 0 \<and> applied then l1ctl_tx_ccch_mode_conf mode tr else Some tr); Some (rc, tr) } \<and>
   Option.bind (l1ctl_tx_param_req ta tx_power) (\<lambda>m. trxcon_l1ctl_receive L m tr) =
     asks L (TRXCON_EV_SET_PHY_CONFIG_REQ (CFGT_TX_PARAMS ta tx_power)) tr"
proof (intro conjI)
  show "Option.bind (l1ctl_tx_fbsb_req arfcn flags timeout idx mode rxlev) (\<lambda>m. trxcon_l1ctl_receive L m tr) =
     asks L (TRXCON_EV_FBSB_SEARCH_REQ arfcn timeout (l1ctl_ccch_mode2pchan_config mode)) tr"
    by (simp add: l1ctl_tx_fbsb_req_def put_def osmo_l1_alloc_def trxcon_l1ctl_receive_def l1ctl_rx_fbsb_req_def l1len_def asks_def msg_simps)
  show "Option.bind (l1ctl_tx_pm_req_range start stop) (\<lambda>m. trxcon_l1ctl_receive L m tr) =
     asks L (TRXCON_EV_FULL_POWER_SCAN_REQ start stop) tr"
    by (simp add: l1ctl_tx_pm_req_range_def put_def osmo_l1_alloc_def trxcon_l1ctl_receive_def l1ctl_rx_pm_req_def l1len_def asks_def msg_simps)
  show "Option.bind (l1ctl_tx_reset_req 1) (\<lambda>m. trxcon_l1ctl_receive L m tr) =
     do { (_, tr) \<leftarrow> dispatch_ev L None TRXCON_EV_RESET_FULL_REQ tr; map_option (Pair 0) (l1ctl_tx_reset_conf 1 tr) }"
    by (simp add: l1ctl_tx_reset_req_def put_def osmo_l1_alloc_def trxcon_l1ctl_receive_def l1ctl_rx_reset_req_def l1len_def msg_simps)
  show "Option.bind (l1ctl_tx_ccch_mode_req mode) (\<lambda>m. trxcon_l1ctl_receive L m tr) =
     do { (rc, applied, tr) \<leftarrow> trxcon_dispatch L None (TRXCON_EV_SET_CCCH_MODE_REQ (l1ctl_ccch_mode2pchan_config mode)) tr;
          tr \<leftarrow> (if rc = 0 \<and> applied then l1ctl_tx_ccch_mode_conf mode tr else Some tr); Some (rc, tr) }"
    by (simp add: l1ctl_tx_ccch_mode_req_def put_def osmo_l1_alloc_def trxcon_l1ctl_receive_def l1ctl_rx_ccch_mode_req_def l1len_def msg_simps)
  show "Option.bind (l1ctl_tx_param_req ta tx_power) (\<lambda>m. trxcon_l1ctl_receive L m tr) =
     asks L (TRXCON_EV_SET_PHY_CONFIG_REQ (CFGT_TX_PARAMS ta tx_power)) tr"
    by (simp add: l1ctl_tx_param_req_def put_def osmo_l1_alloc_def info_ul_def trxcon_l1ctl_receive_def l1ctl_rx_param_req_def l1len_def asks_def msg_simps)
qed

lemma be16_concat: "i < length ma \<Longrightarrow> be16 (2 * i) (concat (map be16_octets ma) @ rest) = ma ! i"
proof (induction ma arbitrary: i)
  case (Cons a ma)
  show ?case
  proof (cases i)
    case 0
    then show ?thesis using be16_be16_octets [of a] by simp
  next
    case (Suc j)
    then show ?thesis using Cons be_append(1) [of "be16_octets a" "2 * j"] by simp
  qed
qed simp

lemma h1_decoded:
  assumes "length h = 10" "octet 6 h = hsn" "octet 7 h = maio" "octet 8 h = word_of_nat (length ma)" "ma \<noteq> []" "length ma \<le> 64"
  shows "l1ctl_proc_est_req_h1 (h @ concat (map be16_octets ma) @ rest) = Some (H1 hsn maio ma)"
proof -
  have n: "unat (word_of_nat (length ma) :: u8) = length ma" using assms(6) by (simp add: unat_of_nat)
  have h: "octet 6 (h @ xs) = hsn" "octet 7 (h @ xs) = maio" "octet 8 (h @ xs) = word_of_nat (length ma)" for xs
    using assms(1-4) by (simp_all add: octet_append)
  have "be16 (10 + 2 * i) (h @ concat (map be16_octets ma) @ rest) = ma ! i" if "i < length ma" for i
    using be_append(1) [of h "2 * i"] be16_concat [OF that] assms(1) by simp
  then have "map (\<lambda>i. be16 (10 + 2 * i) (h @ concat (map be16_octets ma) @ rest)) [0..<length ma] = ma"
    by (intro nth_equalityI) simp_all
  then show ?thesis using assms(5,6) by (simp add: l1ctl_proc_est_req_h1_def h n)
qed

lemma asks_cong: "ev = ev' \<Longrightarrow> asks L ev tr = asks L ev' tr"
  by simp



lemma be32_join: "push_bit 24 (ucast (ucast (drop_bit 24 w) :: u8)) OR push_bit 16 (ucast (ucast (drop_bit 16 w) :: u8)) OR
    push_bit 8 (ucast (ucast (drop_bit 8 w) :: u8)) OR ucast (ucast w :: u8) = (w :: u32)"
  using be32_be32_octets [of w "[]"] by (simp add: be32_def be32_octets_def octet_def)

lemmas msg_simps32 = msg_simps be32_octets_def be32_def be32_join



section \<open>What trxcon answers is what layer 2/3 sees\<close>

lemma loss_outs:
  "l23_out (loss_criteria chan_type link_id bad ms) = l23_out ms \<or>
   l23_out (loss_criteria chan_type link_id bad ms) = l23_out ms @ [S_L1CTL_LOSS_IND]"
  by (simp add: loss_criteria_def tell_def Let_def split: prod.split)

lemma l1ctl_send_eq: "length m \<le> 512 \<Longrightarrow> (if length m > 512 then None else trxcon_l1ctl_send m tr) = trxcon_l1ctl_send m tr"
  by simp

text \<open>What trxcon tells layer 2/3 is what layer 2/3 sees: the outcome of a search with the frequency and
  the base station identity, each measured level and the end of the measurements, the frame of an access burst, the CCCH mode
  and a reset are signalled with the values trxcon put in.\<close>

theorem trxcon_answers_reach_l23:
  "(\<exists>m. l1ctl_tx_fbsb_conf arfcn bsic tr = trxcon_l1ctl_send m tr \<and>
      l1ctl_recv L G m ms = Some (0, tell (S_L1CTL_FBSB_RESP 0 bsic arfcn) ms)) \<and>
   (\<exists>m. l1ctl_tx_fbsb_fail arfcn tr = trxcon_l1ctl_send m tr \<and> l1ctl_recv L G m ms = Some (0, tell (S_L1CTL_FBSB_ERR arfcn) ms)) \<and>
   (\<exists>m. l1ctl_tx_pm_conf L arfcn dbm is_last tr = trxcon_l1ctl_send m tr \<and>
      l1ctl_recv L G m ms = Some (0, (if is_last then tell S_L1CTL_PM_DONE else id) (tell (S_L1CTL_PM_RES arfcn (dbm2rxlev L dbm)) ms))) \<and>
   (\<exists>m. l1ctl_tx_rach_conf arfcn fn tr = trxcon_l1ctl_send m tr \<and> l1ctl_recv L G m ms = Some (0, tell (PH_RACH_CONF LAPDM_DCCH fn) ms)) \<and>
   (\<exists>m. l1ctl_tx_ccch_mode_conf mode tr = trxcon_l1ctl_send m tr \<and> l1ctl_recv L G m ms = Some (0, tell (S_L1CTL_CCCH_MODE_CONF mode) ms)) \<and>
   (\<exists>m. l1ctl_tx_reset_conf type tr = trxcon_l1ctl_send m tr \<and> l1ctl_recv L G m ms = Some (0, tell S_L1CTL_RESET ms))"
proof (intro conjI)
  show "\<exists>m. l1ctl_tx_fbsb_conf arfcn bsic tr = trxcon_l1ctl_send m tr \<and> l1ctl_recv L G m ms = Some (0, tell (S_L1CTL_FBSB_RESP 0 bsic arfcn) ms)"
    by (rule exI, rule conjI [OF l1ctl_tx_fbsb_conf_def])
      (simp add: l1ctl_alloc_msg_def put_dl_info_hdr_def zero_info_dl_def fbsb_conf_make_def l1ctl_recv_def rx_l1_fbsb_conf_def msg_simps32)
  show "\<exists>m. l1ctl_tx_fbsb_fail arfcn tr = trxcon_l1ctl_send m tr \<and> l1ctl_recv L G m ms = Some (0, tell (S_L1CTL_FBSB_ERR arfcn) ms)"
    by (rule exI, rule conjI [OF l1ctl_tx_fbsb_fail_def])
      (simp add: l1ctl_alloc_msg_def put_dl_info_hdr_def zero_info_dl_def fbsb_conf_make_def l1ctl_recv_def rx_l1_fbsb_conf_def msg_simps32)
  have "l1ctl_tx_pm_conf L arfcn dbm is_last tr = trxcon_l1ctl_send (pm_conf L arfcn dbm is_last) tr"
    by (simp add: l1ctl_tx_pm_conf_def pm_conf_def l1ctl_alloc_msg_def Let_def)
  moreover have "l1ctl_recv L G (pm_conf L arfcn dbm is_last) ms =
      Some (0, (if is_last then tell S_L1CTL_PM_DONE else id) (tell (S_L1CTL_PM_RES arfcn (dbm2rxlev L dbm)) ms))"
    by (cases is_last) (simp_all add: pm_conf_def l1ctl_recv_def rx_l1_pm_conf_def msg_simps32)
  ultimately show "\<exists>m. l1ctl_tx_pm_conf L arfcn dbm is_last tr = trxcon_l1ctl_send m tr \<and>
      l1ctl_recv L G m ms = Some (0, (if is_last then tell S_L1CTL_PM_DONE else id) (tell (S_L1CTL_PM_RES arfcn (dbm2rxlev L dbm)) ms))"
    by blast
  show "\<exists>m. l1ctl_tx_rach_conf arfcn fn tr = trxcon_l1ctl_send m tr \<and> l1ctl_recv L G m ms = Some (0, tell (PH_RACH_CONF LAPDM_DCCH fn) ms)"
    by (rule exI, rule conjI [OF l1ctl_tx_rach_conf_def])
      (simp add: l1ctl_alloc_msg_def put_dl_info_hdr_def zero_info_dl_def l1ctl_recv_def rx_l1_rach_conf_def msg_simps32)
  show "\<exists>m. l1ctl_tx_ccch_mode_conf mode tr = trxcon_l1ctl_send m tr \<and> l1ctl_recv L G m ms = Some (0, tell (S_L1CTL_CCCH_MODE_CONF mode) ms)"
    by (rule exI, rule conjI [OF l1ctl_tx_ccch_mode_conf_def])
      (simp add: l1ctl_alloc_msg_def l1ctl_recv_def rx_l1_ccch_mode_conf_def msg_simps32)
  show "\<exists>m. l1ctl_tx_reset_conf type tr = trxcon_l1ctl_send m tr \<and> l1ctl_recv L G m ms = Some (0, tell S_L1CTL_RESET ms)"
    by (rule exI, rule conjI [OF l1ctl_tx_reset_conf_def]) (simp add: l1ctl_alloc_msg_def l1ctl_recv_def msg_simps32)
qed

lemma layer2_read_send:
  assumes "length msg \<le> 256"
  shows "layer2_read (l1ctl_client_send msg @ rest) = L2_Msg msg rest"
proof -
  have "unat (word_of_nat (length msg) :: u16) = length msg" using assms by (simp add: unat_of_nat)
  then show ?thesis
    using assms by (simp add: layer2_read_def l1ctl_client_send_def be16_be16_octets Let_def)
qed


definition toy_ms :: l23_ms where
  "toy_ms = \<lparr>l23_meas = \<lparr>ms_last_fn = 0, ms_frames = 0, ms_snr = 0, ms_berr = 0, ms_rxlev = 0, ms_dsc = 0, ms_ds_fail = 0, ms_s = 0, ms_rl_fail = 0\<rparr>,
     l23_traffic_cb = True, l23_ul_cnf_cb = True, l23_dl_ind_cb = True, l23_rts_cb = True, l23_out = []\<rparr>"

definition toy_gsm :: l23_lib where
  "toy_gsm = \<lparr>rsl_dec_chan_nr = (\<lambda>_. Some (0x20, 0, 1)), chantype_is_pch = (\<lambda>_ _. False), gsm0502_fn2ccch_block = (\<lambda>_. 0)\<rparr>"

definition toy_ind :: "bool \<Rightarrow> nat \<Rightarrow> data_ind_param" where
  "toy_ind traffic n = \<lparr>dd_traffic = traffic, dd_chan_nr = 0x21, dd_link_id = 0x40, dd_band_arfcn = 7, dd_frame_nr = 1000,
     dd_toa256 = 0, dd_rssi = - 60, dd_n_errors = 0, dd_n_bits_total = 456, dd_data = replicate n 0x2b\<rparr>"

lemma toy_gsm_simps [simp]:
  "rsl_dec_chan_nr toy_gsm c = Some (0x20, 0, 1)" "chantype_is_pch toy_gsm c l = False" "gsm0502_fn2ccch_block toy_gsm fn = 0"
  by (simp_all add: toy_gsm_def)

lemma toy_ind_simps [simp]:
  "dd_traffic (toy_ind t n) = t" "dd_chan_nr (toy_ind t n) = 0x21" "dd_link_id (toy_ind t n) = 0x40"
  "dd_frame_nr (toy_ind t n) = 1000" "dd_data (toy_ind t n) = replicate n 0x2b"
  by (simp_all add: toy_ind_def)


text \<open>C31. A frame of a data call at 14.4 kbit/s, 290 bits in as many octets, is more than the socket of
  layer 2/3 takes: its length is refused, but the message is left in the stream, so that what is read
  next is not a message: its type and flags are taken for a length, which is refused again.\<close>

theorem traffic_144_breaks_link:
  assumes "dd_traffic ind" and "length (dd_data ind) = 290"
  shows "\<exists>m. l1ctl_tx_dt_ind L ind tr = trxcon_l1ctl_send m tr \<and> layer2_read (l1ctl_client_send m @ rest) = L2_Error (- EINVAL) (m @ rest) \<and>
    layer2_read (m @ rest) = L2_Error (- EINVAL) (drop 2 m @ rest)"
proof -
  let ?b = "[dd_chan_nr ind, dd_link_id ind] @ be16_octets (dd_band_arfcn ind) @ be32_octets (dd_frame_nr ind) @
     [dbm2rxlev L (sint (dd_rssi ind)), 0, word_of_int (dd_n_errors ind), if dd_data ind \<noteq> [] then 0 else 2] @ dd_data ind"
  let ?m = "[0x1e, 0, 0, 0] @ ?b"
  have tx: "l1ctl_tx_dt_ind L ind tr = trxcon_l1ctl_send ?m tr"
    using assms by (simp add: l1ctl_tx_dt_ind_def l1ctl_alloc_msg_def put_dl_info_hdr_def)
  have len: "length ?m = 306" using assms(2) by simp
  have "layer2_read (l1ctl_client_send ?m @ rest) = L2_Error (- EINVAL) (?m @ rest)"
    unfolding layer2_read_def l1ctl_client_send_def len by (simp add: be16_be16_octets Let_def)
  moreover have "layer2_read (?m @ rest) = L2_Error (- EINVAL) (drop 2 ?m @ rest)"
    by (simp add: layer2_read_def msg_simps)
  ultimately show ?thesis using tx by blast
qed

theorem traffic_144_breaks_link_witness:
  "\<exists>m. l1ctl_tx_dt_ind toy_lib (toy_ind True 290) demo_tr = trxcon_l1ctl_send m demo_tr \<and>
    layer2_read (l1ctl_client_send m) = L2_Error (- EINVAL) m"
proof -
  have a: "dd_traffic (toy_ind True 290)" "length (dd_data (toy_ind True 290)) = 290" by simp_all
  show ?thesis using traffic_144_breaks_link [OF a, of toy_lib demo_tr "[]"] by auto
qed

section \<open>A scan, end to end\<close>

text \<open>The program reads the stream as long as there is something in it, and receives each message.\<close>

function l23_read_all :: "libosmo \<Rightarrow> l23_lib \<Rightarrow> u8 list \<Rightarrow> l23_ms \<Rightarrow> l23_ms option" where
  "l23_read_all L G stream ms =
     (case layer2_read stream of
        L2_Msg msg rest \<Rightarrow> do { (_, ms) \<leftarrow> l1ctl_recv L G msg ms; if rest = [] then Some ms else l23_read_all L G rest ms }
      | L2_Error rc rest \<Rightarrow> if rest = [] then Some ms else l23_read_all L G rest ms
      | L2_Exit \<Rightarrow> None)"
  by pat_completeness auto
termination
  by (relation "measure (\<lambda>(L, G, stream, ms). length stream)") (auto simp: layer2_read_def Let_def split: if_splits)

declare l23_read_all.simps [simp del]

lemma l23_read_msg:
  "length m \<le> 256 \<Longrightarrow> l1ctl_recv L G m ms = Some (rc, ms') \<Longrightarrow>
   l23_read_all L G (l1ctl_client_send m @ rest) ms = (if rest = [] then Some ms' else l23_read_all L G rest ms')"
  by (subst l23_read_all.simps) (simp add: layer2_read_send)

fun pm_results :: "libosmo \<Rightarrow> u16 \<Rightarrow> int list \<Rightarrow> l23_out list" where
  "pm_results L band_arfcn [] = [S_L1CTL_PM_DONE]"
| "pm_results L band_arfcn (d # ds) = S_L1CTL_PM_RES band_arfcn (dbm2rxlev L d) # pm_results L (band_arfcn + 1) ds"

lemma recv_pm_conf:
  "l1ctl_recv L G (pm_conf L arfcn dbm is_last) ms =
     Some (0, (if is_last then tell S_L1CTL_PM_DONE else id) (tell (S_L1CTL_PM_RES arfcn (dbm2rxlev L dbm)) ms))"
  by (cases is_last) (simp_all add: pm_conf_def l1ctl_recv_def rx_l1_pm_conf_def msg_simps32)

lemma read_scan:
  "ds \<noteq> [] \<Longrightarrow> \<exists>ms'. l23_read_all L G (concat (map l1ctl_client_send (scan_out L arfcn ds))) ms = Some ms' \<and>
     l23_out ms' = l23_out ms @ pm_results L arfcn ds"
proof (induction ds arbitrary: arfcn ms)
  case (Cons d ds)
  have len: "length (pm_conf L arfcn d b) \<le> 256" for b by (simp add: pm_conf_def)
  have step: "l23_read_all L G (l1ctl_client_send (pm_conf L arfcn d b) @ rest) ms =
      (let ms' = (if b then tell S_L1CTL_PM_DONE else id) (tell (S_L1CTL_PM_RES arfcn (dbm2rxlev L d)) ms) in
       if rest = [] then Some ms' else l23_read_all L G rest ms')" for b rest
    unfolding Let_def by (rule l23_read_msg [OF len recv_pm_conf])
  show ?case
  proof (cases "ds = []")
    case True
    then show ?thesis using step [of True "[]"] by (simp add: tell_def)
  next
    case False
    then obtain e es where "ds = e # es" by (cases ds) auto
    then have "concat (map l1ctl_client_send (scan_out L (arfcn + 1) ds)) \<noteq> []"
      by (simp add: l1ctl_client_send_def be16_octets_def)
    then show ?thesis
      using Cons.IH [OF False, of "arfcn + 1" "tell (S_L1CTL_PM_RES arfcn (dbm2rxlev L d)) ms"] False
        step [of False "concat (map l1ctl_client_send (scan_out L (arfcn + 1) ds))"]
      by (auto simp add: tell_def Let_def simp del: concat_eq_Nil_conv)
  qed
qed simp

text \<open>C8. A power measurement layer 2/3 asks for, through both programs and the sockets: the message it sends
  and the measurements of the transceiver make trxcon queue the answers that, read from the stream, signal
  the level of each ARFCN of the range, in order and once, and the end of the measurements after the last.\<close>

theorem scan_end_to_end:
  assumes "trxcon_wf L n tr" and "tr_state tr = TRXCON_ST_RESET"
    and "gsm_arfcn2band_rc L start = Some band" and "gsm_arfcn2band_rc L stop = Some band"
    and "unat stop + 1 = unat start + length ds" and "ds \<noteq> []"
  shows "\<exists>msg tr' new ms'. l1ctl_tx_pm_req_range start stop = Some msg \<and>
    l1ctl_client_read_cb (osmo_send_l1 msg) = Rd_Msg msg [] \<and>
    run_all (trxcon_step L) (From_L2 msg # scan_in start ds) tr = Some tr' \<and> tr_l1ctl_out tr' = tr_l1ctl_out tr @ new \<and>
    l23_read_all L G (concat (map l1ctl_client_send new)) ms = Some ms' \<and> l23_out ms' = l23_out ms @ pm_results L start ds"
proof -
  let ?msg = "[0x08, 0, 0, 0, 1, 0, 0, 0] @ be16_octets start @ be16_octets stop"
  have tx: "l1ctl_tx_pm_req_range start stop = Some ?msg"
    by (simp add: l1ctl_tx_pm_req_range_def put_def osmo_l1_alloc_def)
  have rd: "l1ctl_client_read_cb (osmo_send_l1 ?msg) = Rd_Msg ?msg []"
    using read_cb_send [of ?msg "[]"] by (simp add: osmo_send_l1_def l1ctl_client_send_def)
  obtain tr' where "run_all (trxcon_step L) (From_L2 ?msg # scan_in start ds) tr = Some tr'"
    "tr_l1ctl_out tr' = tr_l1ctl_out tr @ scan_out L start ds"
    using scan_request_ok [OF assms refl] by blast
  then show ?thesis using tx rd read_scan [OF assms(6), of L G start ms] by blast
qed

theorem scan_end_to_end_witness:
  "\<exists>msg tr' new ms'. l1ctl_tx_pm_req_range 10 12 = Some msg \<and> l1ctl_client_read_cb (osmo_send_l1 msg) = Rd_Msg msg [] \<and>
    run_all (trxcon_step toy_lib) (From_L2 msg # [Measured 10 (- 60), Measured 11 (- 70), Measured 12 (- 80)])
      (trxcon_inst_alloc (trx_if_open 7)) = Some tr' \<and>
    tr_l1ctl_out tr' = tr_l1ctl_out (trxcon_inst_alloc (trx_if_open 7)) @ new \<and>
    l23_read_all toy_lib toy_gsm (concat (map l1ctl_client_send new)) toy_ms = Some ms' \<and>
    l23_out ms' = [S_L1CTL_PM_RES 10 (dbm2rxlev toy_lib (- 60)), S_L1CTL_PM_RES 11 (dbm2rxlev toy_lib (- 70)),
      S_L1CTL_PM_RES 12 (dbm2rxlev toy_lib (- 80)), S_L1CTL_PM_DONE]"
proof -
  obtain b where b: "gsm_arfcn2band_rc toy_lib 10 = Some b" "gsm_arfcn2band_rc toy_lib 12 = Some b" by (simp add: toy_lib_def)
  have s: "tr_state (trxcon_inst_alloc (trx_if_open 7)) = TRXCON_ST_RESET" by (simp add: trxcon_inst_alloc_def)
  have d: "unat (12 :: u16) + 1 = unat (10 :: u16) + length [- 60, - 70, - 80 :: int]" "[- 60, - 70, - 80 :: int] \<noteq> []" by simp_all
  have i: "scan_in 10 [- 60, - 70, - 80] = [Measured 10 (- 60), Measured 11 (- 70), Measured 12 (- 80)]" by simp
  have o: "l23_out toy_ms = []" by (simp add: toy_ms_def)
  show ?thesis
    using scan_end_to_end [OF trxcon_wf_alloc s b d, of toy_gsm toy_ms] unfolding i o by simp
qed

end
