(* ===== verification/Fw_Time.thy ===== *)
theory Fw_Time
  imports Fw_Mframe "HOL-Library.Log_Nat"
begin

text \<open>
  The GSM time of the firmware and the radio channel at a time: the clock that is advanced frame by frame
  (\<^verbatim>\<open>l1s_time_inc\<close> of \<^verbatim>\<open>src/src/target/firmware/layer1/sync.c\<close>, with \<^verbatim>\<open>gsm_fn2gsmtime\<close> of the libosmocore in the
  repository, which the firmware is linked with) and the hopping sequence (\<^verbatim>\<open>layer1/rfch.c\<close>), each against the definition
  it has to implement.
\<close>

section \<open>The clock\<close>

record fw_time =
  ft_fn :: u32
  ft_t1 :: u16
  ft_t2 :: u8
  ft_t3 :: u8
  ft_tc :: u8

definition gsm_fn2gsmtime :: "u32 \<Rightarrow> fw_time" where
  "gsm_fn2gsmtime fn = \<lparr>ft_fn = fn, ft_t1 = ucast (fn div (26 * 51)), ft_t2 = ucast (fn mod 26), ft_t3 = ucast (fn mod 51),
     ft_tc = ucast (fn div 51 mod 8)\<rparr>"

definition l1s_time_inc :: "fw_time \<Rightarrow> u32 \<Rightarrow> fw_time" where
  "l1s_time_inc time delta_fn =
     (let time = time\<lparr>ft_fn := ADD_MODULO (ft_fn time) delta_fn GSM_MAX_FN\<rparr> in
      if delta_fn = 1 then
        let time = time\<lparr>ft_t2 := ADD_MODULO (ft_t2 time) 1 26, ft_t3 := ADD_MODULO (ft_t3 time) 1 51\<rparr> in
        if ft_t3 time = 0 then
          let time = time\<lparr>ft_tc := ADD_MODULO (ft_tc time) 1 8\<rparr> in
          if ft_t2 time = 0 then time\<lparr>ft_t1 := ADD_MODULO (ft_t1 time) 1 2048\<rparr> else time
        else time
      else gsm_fn2gsmtime (ft_fn time))"

abbreviation HYPER :: nat where "HYPER \<equiv> 2715648"

text \<open>The time of a frame number, over the natural numbers.\<close>

definition time_of :: "nat \<Rightarrow> fw_time" where
  "time_of n = \<lparr>ft_fn = word_of_nat n, ft_t1 = word_of_nat (n div 1326), ft_t2 = word_of_nat (n mod 26), ft_t3 = word_of_nat (n mod 51),
     ft_tc = word_of_nat (n div 51 mod 8)\<rparr>"

lemma time_of_eq: "gsm_fn2gsmtime fn = time_of (unat fn)"
proof -
  have "unat fn div 1326 = unat (fn div 1326)" "unat fn mod 26 = unat (fn mod 26)" "unat fn mod 51 = unat (fn mod 51)"
    "unat fn div 51 mod 8 = unat (fn div 51 mod 8)"
    by (simp_all add: unat_div unat_mod)
  then show ?thesis by (simp add: gsm_fn2gsmtime_def time_of_def of_nat_unat)
qed

lemma add_modulo_Suc:
  assumes "k < m" "m < 2 ^ LENGTH('a)"
  shows "ADD_MODULO (word_of_nat k :: 'a::len word) 1 (word_of_nat m) = word_of_nat (Suc k mod m)"
proof -
  have "unat (word_of_nat k + 1 :: 'a word) = Suc k" "unat (word_of_nat m :: 'a word) = m"
    using assms by (simp_all add: unat_word_ariths unat_of_nat take_bit_nat_eq_self)
  then have "word_of_nat m \<le> (word_of_nat k + 1 :: 'a word) \<longleftrightarrow> m \<le> Suc k" by (simp add: word_le_nat_alt)
  moreover have "m \<le> Suc k \<longleftrightarrow> Suc k = m" using assms(1) by auto
  ultimately show ?thesis
    using assms(1) by (cases "Suc k = m") (auto simp: ADD_MODULO_def add.commute)
qed

lemma word_zero_nat: "k < 2 ^ LENGTH('a) \<Longrightarrow> (word_of_nat k = (0 :: 'a::len word)) = (k = 0)"
  by (simp add: word_of_nat_eq_0_iff nat_dvd_not_less) (metis dvd_0_right gr0I nat_dvd_not_less)

lemma hyper_fields:
  assumes "m \<le> HYPER"
  shows "m mod HYPER mod 26 = m mod 26" "m mod HYPER mod 51 = m mod 51" "m mod HYPER div 51 mod 8 = m div 51 mod 8"
    "m mod HYPER div 1326 = m div 1326 mod 2048"
proof -
  show "m mod HYPER mod 26 = m mod 26" "m mod HYPER mod 51 = m mod 51" by (simp_all add: mod_mod_cancel)
  have "m < HYPER \<or> m = HYPER" using assms by auto
  then show "m mod HYPER div 51 mod 8 = m div 51 mod 8" "m mod HYPER div 1326 = m div 1326 mod 2048"
    by (auto simp: div_less_iff_less_mult)
qed

lemma t3_t2_zero: "Suc n mod 51 = 0 \<Longrightarrow> Suc n mod 26 = 0 \<longleftrightarrow> Suc n mod 1326 = 0"
proof -
  assume "Suc n mod 51 = 0"
  moreover have "coprime (26 :: nat) 51" by (simp add: coprime_iff_gcd_eq_1 gcd_non_0_nat)
  ultimately have "26 dvd Suc n \<longleftrightarrow> 26 * 51 dvd Suc n"
    by (metis divides_mult dvd_eq_mod_eq_0 dvd_mult_left)
  then show ?thesis by (simp add: dvd_eq_mod_eq_0)
qed

lemma time_step:
  assumes "n < HYPER"
  shows "l1s_time_inc (time_of n) 1 = time_of (Suc n mod HYPER)"
proof -
  have inc: "ADD_MODULO (word_of_nat n) 1 (2715648 :: u32) = word_of_nat (Suc n mod HYPER)"
    "ADD_MODULO (word_of_nat (n mod 26)) 1 (26 :: u8) = word_of_nat (Suc n mod 26)"
    "ADD_MODULO (word_of_nat (n mod 51)) 1 (51 :: u8) = word_of_nat (Suc n mod 51)"
    "ADD_MODULO (word_of_nat (n div 51 mod 8)) 1 (8 :: u8) = word_of_nat (Suc (n div 51) mod 8)"
    "ADD_MODULO (word_of_nat (n div 1326)) 1 (2048 :: u16) = word_of_nat (Suc (n div 1326) mod 2048)"
    using add_modulo_Suc [where 'a = 32, of n 2715648] add_modulo_Suc [where 'a = 8, of "n mod 26" 26]
      add_modulo_Suc [where 'a = 8, of "n mod 51" 51] add_modulo_Suc [where 'a = 8, of "n div 51 mod 8" 8]
      add_modulo_Suc [where 'a = 16, of "n div 1326" 2048] assms
    by (simp_all add: mod_Suc_eq div_less_iff_less_mult)
  note f = hyper_fields [of "Suc n"]
  have z: "(word_of_nat (Suc n mod 51) = (0 :: u8)) = (Suc n mod 51 = 0)" "(word_of_nat (Suc n mod 26) = (0 :: u8)) = (Suc n mod 26 = 0)"
    by (subst word_zero_nat; simp add: less_trans [OF mod_less_divisor])+
  have tc: "Suc n div 51 = (if Suc n mod 51 = 0 then Suc (n div 51) else n div 51)"
    and t1: "Suc n div 1326 = (if Suc n mod 1326 = 0 then Suc (n div 1326) else n div 1326)"
    by (simp_all only: div_Suc)
  have t1': "Suc n mod 1326 = 0 \<Longrightarrow> Suc n mod 51 = 0" "n div 1326 mod 2048 = n div 1326"
    using assms mod_mod_cancel [of 51 1326 "Suc n"] by (simp_all add: div_less_iff_less_mult)
  show ?thesis
    using assms t3_t2_zero [of n] t1'
    by (cases "Suc n mod 51 = 0"; cases "Suc n mod 26 = 0")
      (auto simp: l1s_time_inc_def time_of_def inc f z tc t1 Let_def simp del: of_nat_Suc)
qed

lemma time_steps: "n < HYPER \<Longrightarrow> ((\<lambda>t. l1s_time_inc t 1) ^^ k) (time_of n) = time_of ((n + k) mod HYPER)"
proof (induction k)
  case (Suc k)
  then show ?case using time_step [of "(n + k) mod HYPER"] by (simp add: mod_Suc_eq)
qed simp

lemma unat_add_modulo:
  assumes "fn < GSM_MAX_FN" "d < GSM_MAX_FN"
  shows "unat (ADD_MODULO fn d GSM_MAX_FN) = (unat fn + unat d) mod HYPER"
proof -
  have b: "unat fn < HYPER" "unat d < HYPER" using assms by (simp_all add: word_less_nat_alt)
  then have s: "unat (fn + d) = unat fn + unat d" by (simp add: unat_word_ariths)
  show ?thesis
  proof (cases "unat fn + unat d < HYPER")
    case True
    then show ?thesis using s by (simp add: ADD_MODULO_def word_le_nat_alt)
  next
    case False
    then have "GSM_MAX_FN \<le> fn + d" using s by (simp add: word_le_nat_alt)
    moreover from this have "unat (fn + d - GSM_MAX_FN) = unat fn + unat d - HYPER" using s by (simp add: unat_sub)
    moreover have "(unat fn + unat d) mod HYPER = unat fn + unat d - HYPER" using False b by (simp add: le_mod_geq)
    ultimately show ?thesis by (simp add: ADD_MODULO_def)
  qed
qed

lemma time_jump:
  assumes "fn < GSM_MAX_FN" "d < GSM_MAX_FN"
  shows "l1s_time_inc (gsm_fn2gsmtime fn) d = gsm_fn2gsmtime (word_of_nat ((unat fn + unat d) mod HYPER))"
proof (cases "d = 1")
  case True
  then show ?thesis using time_step [of "unat fn"] assms(1) by (simp add: time_of_eq word_less_nat_alt unat_of_nat)
next
  case False
  have "ADD_MODULO fn d GSM_MAX_FN = word_of_nat ((unat fn + unat d) mod HYPER)"
    unfolding unat_add_modulo [OF assms, symmetric] by simp
  then show ?thesis using False by (simp add: l1s_time_inc_def) (simp add: gsm_fn2gsmtime_def)
qed

text \<open>C20. The clock of the firmware, whose counters are advanced one by one from frame to frame, always shows the
  time its frame number has by definition: after any number of frames, over the ends of multiframes, superframes and the
  hyperframe; and so it does after a jump forward.\<close>

theorem fw_clock:
  assumes "fn < GSM_MAX_FN" and "d < GSM_MAX_FN"
  shows "((\<lambda>t. l1s_time_inc t 1) ^^ k) (gsm_fn2gsmtime fn) = gsm_fn2gsmtime (word_of_nat ((unat fn + k) mod HYPER)) \<and>
    l1s_time_inc (gsm_fn2gsmtime fn) d = gsm_fn2gsmtime (word_of_nat ((unat fn + unat d) mod HYPER))"
proof
  show "((\<lambda>t. l1s_time_inc t 1) ^^ k) (gsm_fn2gsmtime fn) = gsm_fn2gsmtime (word_of_nat ((unat fn + k) mod HYPER))"
    using time_steps [of "unat fn" k] assms(1) by (simp add: time_of_eq word_less_nat_alt unat_of_nat)
  show "l1s_time_inc (gsm_fn2gsmtime fn) d = gsm_fn2gsmtime (word_of_nat ((unat fn + unat d) mod HYPER))"
    by (rule time_jump [OF assms])
qed

theorem fw_clock_witness:
  "((\<lambda>t. l1s_time_inc t 1) ^^ 3) (gsm_fn2gsmtime 2715647) = gsm_fn2gsmtime 2 \<and>
   l1s_time_inc (gsm_fn2gsmtime 2715600) 100 = gsm_fn2gsmtime 52"
  using fw_clock [of 2715647 0 3] fw_clock [of 2715600 100 0] by simp

section \<open>The hopping sequence\<close>

definition rn_table :: "nat list" where
  "rn_table = [
     48,  98,  63,   1,  36,  95,  78, 102,  94,  73,
      0,  64,  25,  81,  76,  59, 124,  23, 104, 100,
    101,  47, 118,  85,  18,  56,  96,  86,  54,   2,
     80,  34, 127,  13,   6,  89,  57, 103,  12,  74,
     55, 111,  75,  38, 109,  71, 112,  29,  11,  88,
     87,  19,   3,  68, 110,  26,  33,  31,   8,  45,
     82,  58,  40, 107,  32,   5, 106,  92,  62,  67,
     77, 108, 122,  37,  60,  66, 121,  42,  51, 126,
    117, 114,   4,  90,  43,  52,  53, 113, 120,  72,
     16,  49,   7,  79, 119,  61,  22,  84,   9,  97,
     91,  15,  21,  24,  46,  39,  93, 105,  65,  70,
    125,  99,  17, 123]"

definition pow_nbin_mask :: "nat \<Rightarrow> nat" where
  "pow_nbin_mask n = n OR drop_bit 1 n OR drop_bit 2 n OR drop_bit 3 n OR drop_bit 4 n OR drop_bit 5 n OR drop_bit 6 n"

text \<open>The frequency at a time; a table of no frequencies is a division by zero.\<close>

definition rfch_hop_seq_gen :: "fw_time \<Rightarrow> u8 \<Rightarrow> u8 \<Rightarrow> u8 \<Rightarrow> u16 list option \<Rightarrow> u16 option" where
  "rfch_hop_seq_gen t hsn maio n arfcn_tbl =
     (if n = 0 then None
      else do {
        mai \<leftarrow> (if hsn = 0 then Some (unat (ft_fn t + ucast maio) mod unat n)
               else do {
                 r \<leftarrow> index_at rn_table (unat (ucast hsn XOR (ft_t1 t AND 63)) + unat (ft_t3 t));
                 let pnm = pow_nbin_mask (unat n);
                     mp = (unat (ft_t2 t) + r) AND pnm;
                     s = (if mp < unat n then mp else (mp + (unat (ft_t3 t) AND pnm)) mod unat n) in
                 Some ((s + unat maio) mod unat n) });
        case arfcn_tbl of None \<Rightarrow> Some (word_of_nat mai) | Some tbl \<Rightarrow> index_at tbl mai })"

text \<open>The index into the mobile allocation as 3GPP TS 45.002, 6.2.3 defines it: from the frame number, the hopping sequence
  number, the index offset and the number of frequencies.\<close>

definition hop_mai :: "nat \<Rightarrow> nat \<Rightarrow> nat \<Rightarrow> nat \<Rightarrow> nat" where
  "hop_mai fn hsn maio n =
     (if hsn = 0 then (fn + maio) mod n
      else let t1r = fn div 1326 mod 64; t2 = fn mod 26; t3 = fn mod 51; nbin = floorlog 2 n;
               m = t2 + rn_table ! ((hsn XOR t1r) + t3); m' = m mod 2 ^ nbin; t' = t3 mod 2 ^ nbin;
               s = (if m' < n then m' else (m' + t') mod n) in
        (s + maio) mod n)"

lemma nbin_mask:
  assumes "0 < n" "n < 128"
  shows "pow_nbin_mask n = mask (floorlog 2 n)"
proof (rule bit_eqI)
  fix j
  define h where "h = floorlog 2 n - 1"
  have b: "2 ^ h \<le> n" "n < 2 ^ floorlog 2 n" "floorlog 2 n \<noteq> 0"
    using floorlog_bounds [of n 2] assms(1) by (auto simp: h_def floorlog_eq_zero_iff)
  then have h: "floorlog 2 n = Suc h" by (simp add: h_def)
  have "(2 :: nat) ^ h < 2 ^ 7" using b(1) assms(2) by simp
  then have h6: "h < 7" by (subst (asm) power_strict_increasing_iff) simp_all
  have "n div 2 ^ h = 1" using b(1,2) unfolding h by (intro div_nat_eqI) simp_all
  then have top: "bit n h" by (simp add: bit_iff_odd)
  have above: "\<not> bit n k" if "h < k" for k
  proof -
    have "(2 :: nat) ^ Suc h \<le> 2 ^ k" using that by (intro power_increasing) simp_all
    then have "n < 2 ^ k" using b(2) unfolding h by linarith
    then show ?thesis by (simp add: bit_iff_odd)
  qed
  have "bit (pow_nbin_mask n) j \<longleftrightarrow> (\<exists>i \<in> {0, 1, 2, 3, 4, 5, 6}. bit n (i + j))"
    by (simp add: pow_nbin_mask_def bit_or_iff bit_drop_bit_eq disj_assoc)
  also have "\<dots> \<longleftrightarrow> j \<le> h"
  proof
    assume "j \<le> h"
    then have "bit n ((h - j) + j)" "h - j \<in> {0, 1, 2, 3, 4, 5, 6}" using top h6 by auto
    then show "\<exists>i \<in> {0, 1, 2, 3, 4, 5, 6}. bit n (i + j)" by blast
  next
    assume "\<exists>i \<in> {0, 1, 2, 3, 4, 5, 6}. bit n (i + j)"
    then show "j \<le> h" using above by (metis add.commute le_add1 le_trans not_le)
  qed
  finally show "bit (pow_nbin_mask n) j = bit (mask (floorlog 2 n) :: nat) j"
    by (simp add: bit_mask_iff h less_Suc_eq_le)
qed

lemma xor_6_bits: "a < 64 \<Longrightarrow> b < 64 \<Longrightarrow> (a XOR b :: nat) < 64"
proof -
  assume "a < 64" "b < 64"
  then have "take_bit 6 a = a" "take_bit 6 b = b" by (simp_all add: take_bit_nat_eq_self)
  then have "a XOR b = take_bit 6 (a XOR b)" by (simp add: take_bit_xor)
  then show ?thesis using take_bit_nat_less_exp [of 6 "a XOR b"] by simp
qed

lemma hop_seq_ok:
  assumes "fn < GSM_MAX_FN" and "hsn < 64" and "n \<noteq> 0" and "n \<le> 64" and "unat n \<le> length ma"
  shows "rfch_hop_seq_gen (gsm_fn2gsmtime fn) hsn maio n (Some ma) = Some (ma ! hop_mai (unat fn) (unat hsn) (unat maio) (unat n)) \<and>
    hop_mai (unat fn) (unat hsn) (unat maio) (unat n) < unat n"
proof
  let ?f = "unat fn" and ?n = "unat n" and ?mai = "hop_mai (unat fn) (unat hsn) (unat maio) (unat n)"
  have n: "0 < ?n" "?n < 128" using assms(3,4) by (auto simp: word_le_nat_alt unat_gt_0)
  show lt: "?mai < ?n" using n(1) by (simp add: hop_mai_def Let_def)
  have fn: "?f < HYPER" using assms(1) by (simp add: word_less_nat_alt)
  have t: "unat (ft_t1 (gsm_fn2gsmtime fn)) = ?f div 1326" "unat (ft_t2 (gsm_fn2gsmtime fn)) = ?f mod 26" "unat (ft_t3 (gsm_fn2gsmtime fn)) = ?f mod 51"
    "ft_fn (gsm_fn2gsmtime fn) = fn"
    using fn by (simp_all add: time_of_eq time_of_def unat_of_nat div_less_iff_less_mult less_mult_imp_div_less)
  show "rfch_hop_seq_gen (gsm_fn2gsmtime fn) hsn maio n (Some ma) = Some (ma ! ?mai)"
  proof (cases "hsn = 0")
    case True
    have maio: "unat maio < 2 ^ 8" using unsigned_less [of maio] by simp
    then have "unat (ucast maio :: u32) = unat maio" by (simp add: unsigned_ucast_eq take_bit_nat_eq_self)
    then have "unat (fn + ucast maio) = ?f + unat maio" using fn maio by (simp add: unat_word_ariths)
    then show ?thesis using True lt assms(3,5) by (simp add: rfch_hop_seq_gen_def t hop_mai_def index_at_def)
  next
    case False
    have "unat hsn < 2 ^ 16" using assms(2) by (simp add: word_less_nat_alt)
    then have hsn: "take_bit 16 (unat hsn) = unat hsn" by (rule take_bit_nat_eq_self)
    have and63: "x AND 63 = x mod 64" for x :: nat using take_bit_eq_mask [of 6 x] by (simp add: take_bit_eq_mod mask_eq_exp_minus_1)
    have t1: "unat (ucast hsn XOR (ft_t1 (gsm_fn2gsmtime fn) AND 63)) = unat hsn XOR (?f div 1326 mod 64)"
      by (simp add: unsigned_xor_eq unsigned_and_eq unsigned_ucast_eq t and63 hsn)
    have "unat hsn < 64" using assms(2) by (simp add: word_less_nat_alt)
    then have "unat hsn XOR (?f div 1326 mod 64) < 64" by (intro xor_6_bits) simp_all
    moreover have "?f mod 51 < 51" by simp
    ultimately have idx: "(unat hsn XOR (?f div 1326 mod 64)) + ?f mod 51 < length rn_table" unfolding rn_table_def by simp
    have m: "x AND pow_nbin_mask ?n = x mod 2 ^ floorlog 2 ?n" for x
      by (simp add: nbin_mask [OF n] take_bit_eq_mod flip: take_bit_eq_mask)
    have r: "index_at rn_table ((unat hsn XOR (?f div 1326 mod 64)) + ?f mod 51) = Some (rn_table ! ((unat hsn XOR (?f div 1326 mod 64)) + ?f mod 51))"
      using idx by (simp only: index_at_def if_True)
    have "unat hsn \<noteq> 0" using False by (simp add: unat_eq_0)
    then have "rfch_hop_seq_gen (gsm_fn2gsmtime fn) hsn maio n (Some ma) = index_at ma ?mai"
      using False assms(3)
      by (simp only: rfch_hop_seq_gen_def hop_mai_def t t1 m r Let_def if_False option.case Option.bind.simps)
    then show ?thesis using lt assms(5) by (simp add: index_at_def)
  qed
qed

text \<open>C19. The frequency the firmware tunes to in a frame is the one the standard gives for it: for every frame
  number, hopping sequence number, offset and mobile allocation of up to 64 frequencies the sequence
  generator, with its masks and its table, returns the frequency at the index of the standard, which is always
  one of the allocation.\<close>

theorem fw_hopping:
  assumes "fn < GSM_MAX_FN" and "hsn < 64" and "n \<noteq> 0" and "n \<le> 64" and "unat n \<le> length ma"
  shows "rfch_hop_seq_gen (gsm_fn2gsmtime fn) hsn maio n (Some ma) = Some (ma ! hop_mai (unat fn) (unat hsn) (unat maio) (unat n)) \<and>
    hop_mai (unat fn) (unat hsn) (unat maio) (unat n) < unat n"
  using assms by (rule hop_seq_ok)

theorem fw_hopping_witness:
  "rfch_hop_seq_gen (gsm_fn2gsmtime 123456) 21 3 5 (Some [10, 20, 30, 40, 50]) = Some ([10, 20, 30, 40, 50] ! hop_mai 123456 21 3 5) \<and>
   hop_mai 123456 21 3 5 < 5"
  using fw_hopping [of 123456 21 5 "[10, 20, 30, 40, 50]" 3] by simp

end
