(* ===== verification/Fw_Events.thy ===== *)
theory Fw_Events
  imports Fw_Time
begin

text \<open>
  The one-shot events of the firmware (\<^verbatim>\<open>src/src/target/firmware/layer1/sched_gsmtime.c\<close>) and the frame interrupt
  (\<^verbatim>\<open>l1_sync\<close> of \<^verbatim>\<open>layer1/sync.c\<close>), in which the clock, the TDMA scheduler, the multiframe scheduler and the
  events work together. The events implement a calendar, which says for each frame number what was
  scheduled for it.
\<close>

section \<open>One-shot events\<close>

text \<open>Of the sixteen events those in use are a list ordered by frame number; of the others only their number matters.\<close>

record sched_gsmtime_event =
  ge_si :: "tdma_item list"
  ge_fn :: u32
  ge_p3 :: u16

record gsmtime_sched =
  ev_active :: "sched_gsmtime_event list"
  ev_inactive :: nat

definition sched_gsmtime_init :: gsmtime_sched where
  "sched_gsmtime_init = \<lparr>ev_active = [], ev_inactive = 16\<rparr>"

fun insert_event :: "sched_gsmtime_event \<Rightarrow> sched_gsmtime_event list \<Rightarrow> sched_gsmtime_event list" where
  "insert_event evt [] = [evt]"
| "insert_event evt (cur # rest) = (if ge_fn cur > ge_fn evt then evt # cur # rest else cur # insert_event evt rest)"

definition sched_gsmtime :: "tdma_item list \<Rightarrow> u32 \<Rightarrow> u16 \<Rightarrow> gsmtime_sched \<Rightarrow> int \<times> gsmtime_sched" where
  "sched_gsmtime si fn p3 ev =
     (if ev_inactive ev = 0 then (- EBUSY, ev)
      else (0, \<lparr>ev_active = insert_event \<lparr>ge_si = si, ge_fn = fn, ge_p3 = p3\<rparr> (ev_active ev), ev_inactive = ev_inactive ev - 1\<rparr>))"

text \<open>The walk over the events, with the number of those that were executed and the ones that are left;
  \<^verbatim>\<open>SCHEDULE_AHEAD-SCHEDULE_LATENCY\<close> is 1. What the TDMA scheduler returns is not looked at.\<close>

fun walk_events :: "u32 \<Rightarrow> sched_gsmtime_event list \<Rightarrow> tdma_scheduler \<Rightarrow> (nat \<times> sched_gsmtime_event list \<times> tdma_scheduler) option" where
  "walk_events fn [] s = Some (0, [], s)"
| "walk_events fn (evt # rest) s =
     (if ge_fn evt = fn + SCHEDULE_AHEAD then do {
        (_, s) \<leftarrow> tdma_schedule_set 1 (ge_si evt) (ge_p3 evt) s;
        (num, kept, s) \<leftarrow> walk_events fn rest s;
        Some (num + 1, kept, s) }
      else if ge_fn evt > fn + SCHEDULE_AHEAD then Some (0, evt # rest, s)
      else do {
        (num, kept, s) \<leftarrow> walk_events fn rest s;
        Some (num, evt # kept, s) })"

definition sched_gsmtime_execute :: "u32 \<Rightarrow> gsmtime_sched \<Rightarrow> tdma_scheduler \<Rightarrow> (nat \<times> gsmtime_sched \<times> tdma_scheduler) option" where
  "sched_gsmtime_execute fn ev s = do {
     (num, kept, s) \<leftarrow> walk_events fn (ev_active ev) s;
     Some (num, \<lparr>ev_active = kept, ev_inactive = ev_inactive ev + num\<rparr>, s) }"

definition sched_gsmtime_reset :: "gsmtime_sched \<Rightarrow> gsmtime_sched" where
  "sched_gsmtime_reset ev = \<lparr>ev_active = [], ev_inactive = ev_inactive ev + length (ev_active ev)\<rparr>"

section \<open>The calendar\<close>

type_synonym event_calendar = "u32 \<Rightarrow> (tdma_item list \<times> u16) list"

definition calendar :: "gsmtime_sched \<Rightarrow> event_calendar" where
  "calendar ev f = map (\<lambda>e. (ge_si e, ge_p3 e)) (filter (\<lambda>e. ge_fn e = f) (ev_active ev))"

definition ag_event :: "tdma_item list \<times> u16 \<Rightarrow> agenda \<Rightarrow> agenda" where
  "ag_event e A = ag_add_set 1 (fst e) (snd e) A"

definition events_wf :: "gsmtime_sched \<Rightarrow> bool" where
  "events_wf ev \<longleftrightarrow> sorted (map ge_fn (ev_active ev)) \<and> list_all (\<lambda>e. set_closed (ge_si e)) (ev_active ev) \<and>
     length (ev_active ev) + ev_inactive ev = 16"

lemma events_wf_init: "events_wf sched_gsmtime_init"
  by (simp add: events_wf_def sched_gsmtime_init_def)

lemma insert_event_props:
  "sorted (map ge_fn es) \<Longrightarrow> sorted (map ge_fn (insert_event e es))"
  "set (insert_event e es) = insert e (set es)"
  "length (insert_event e es) = Suc (length es)"
  by (induction es) auto

lemma filter_insert_event:
  "sorted (map ge_fn es) \<Longrightarrow> filter (\<lambda>x. ge_fn x = f) (insert_event e es) = filter (\<lambda>x. ge_fn x = f) es @ (if ge_fn e = f then [e] else [])"
proof (induction es)
  case (Cons c es)
  have "filter (\<lambda>x. ge_fn x = ge_fn e) (c # es) = []" if "ge_fn c > ge_fn e"
    using that Cons.prems by (auto simp: filter_empty_conv)
  then show ?case using Cons by auto
qed simp

lemma sched_gsmtime_ok:
  assumes "events_wf ev" "set_closed si" "sched_gsmtime si fn p3 ev = (rc, ev')"
  shows "events_wf ev' \<and> (rc = 0 \<longleftrightarrow> length (ev_active ev) < 16) \<and>
    calendar ev' = (if rc = 0 then (calendar ev)(fn := calendar ev fn @ [(si, p3)]) else calendar ev)"
proof (cases "ev_inactive ev = 0")
  case True
  then show ?thesis using assms by (auto simp: sched_gsmtime_def events_wf_def)
next
  case False
  then have "rc = 0" "ev_active ev' = insert_event \<lparr>ge_si = si, ge_fn = fn, ge_p3 = p3\<rparr> (ev_active ev)" "ev_inactive ev' = ev_inactive ev - 1"
    using assms(3) by (auto simp: sched_gsmtime_def)
  then show ?thesis using assms(1,2) False
    by (auto simp: events_wf_def calendar_def fun_eq_iff insert_event_props filter_insert_event list_all_iff)
qed

lemma walk_events_ok:
  "sorted (map ge_fn es) \<Longrightarrow> list_all (\<lambda>e. set_closed (ge_si e)) es \<Longrightarrow> tdma_wf s \<Longrightarrow>
   \<exists>s'. walk_events fn es s = Some (length (filter (\<lambda>e. ge_fn e = fn + SCHEDULE_AHEAD) es), filter (\<lambda>e. ge_fn e \<noteq> fn + SCHEDULE_AHEAD) es, s') \<and>
     tdma_wf s' \<and> due s' = fold ag_event (map (\<lambda>e. (ge_si e, ge_p3 e)) (filter (\<lambda>e. ge_fn e = fn + SCHEDULE_AHEAD) es)) (due s)"
proof (induction es arbitrary: s)
  case (Cons e es)
  consider "ge_fn e = fn + SCHEDULE_AHEAD" | "ge_fn e > fn + SCHEDULE_AHEAD" | "ge_fn e < fn + SCHEDULE_AHEAD" by fastforce
  then show ?case
  proof cases
    case 1
    obtain rc t where t: "tdma_schedule_set 1 (ge_si e) (ge_p3 e) s = Some (rc, t)" "tdma_wf t" "due t = ag_event (ge_si e, ge_p3 e) (due s)"
      using schedule_items_refines [OF Cons.prems(3), of "ge_si e" 1 0 "ge_p3 e"] Cons.prems(2)
      by (auto simp: tdma_schedule_set_def ag_event_def)
    show ?thesis using Cons.IH [OF _ _ t(2)] Cons.prems t 1 by auto
  next
    case 2
    then have "\<forall>x \<in> set es. ge_fn x \<noteq> fn + SCHEDULE_AHEAD" using Cons.prems(1) by auto
    then show ?thesis using 2 Cons.prems(3) by (auto simp: filter_empty_conv filter_id_conv)
  next
    case 3
    then show ?thesis using Cons.IH [OF _ _ Cons.prems(3)] Cons.prems by (auto simp: not_less)
  qed
qed simp

lemma execute_events_ok:
  assumes "events_wf ev" "tdma_wf s"
  shows "\<exists>num ev' s'. sched_gsmtime_execute fn ev s = Some (num, ev', s') \<and> events_wf ev' \<and> tdma_wf s' \<and>
    calendar ev' = (calendar ev)(fn + SCHEDULE_AHEAD := []) \<and> due s' = fold ag_event (calendar ev (fn + SCHEDULE_AHEAD)) (due s)"
proof -
  have sorted: "sorted (map ge_fn (filter P (ev_active ev)))" for P
    using assms(1) by (simp add: events_wf_def sorted_filter)
  let ?kept = "filter (\<lambda>e. ge_fn e \<noteq> fn + SCHEDULE_AHEAD) (ev_active ev)" and ?due = "filter (\<lambda>e. ge_fn e = fn + SCHEDULE_AHEAD) (ev_active ev)"
  let ?ev = "\<lparr>ev_active = ?kept, ev_inactive = ev_inactive ev + length ?due\<rparr>"
  obtain s' where s': "walk_events fn (ev_active ev) s = Some (length ?due, ?kept, s')" "tdma_wf s'"
    "due s' = fold ag_event (calendar ev (fn + SCHEDULE_AHEAD)) (due s)"
    using walk_events_ok [of "ev_active ev" s fn] assms by (auto simp: events_wf_def calendar_def)
  have "calendar ?ev f = ((calendar ev)(fn + SCHEDULE_AHEAD := [])) f" for f
    unfolding calendar_def filter_filter fun_upd_apply
    by (cases "f = fn + SCHEDULE_AHEAD") (auto simp: filter_empty_conv intro!: arg_cong [where f = "map _"] filter_cong)
  moreover have "events_wf ?ev"
    using assms(1) sorted sum_length_filter_compl [of "\<lambda>e. ge_fn e = fn + SCHEDULE_AHEAD" "ev_active ev"]
    by (auto simp: events_wf_def list_all_iff)
  ultimately show ?thesis using s' by (auto simp: sched_gsmtime_execute_def)
qed

text \<open>C21. The sixteen events implement a calendar. Scheduling a set for a frame number enters it there,
  after what was scheduled for it before, unless sixteen events are pending; executing the events of a
  frame puts on the agenda of the next frame, in their order, exactly the sets entered for two frames
  later, and strikes them out; every other entry stays.\<close>

theorem gsmtime_calendar:
  assumes "events_wf ev" and "tdma_wf s" and "set_closed si"
  shows "(\<exists>rc ev'. sched_gsmtime si f p3 ev = (rc, ev') \<and> events_wf ev' \<and> (rc = 0) = (length (ev_active ev) < 16) \<and>
      calendar ev' = (if rc = 0 then (calendar ev)(f := calendar ev f @ [(si, p3)]) else calendar ev)) \<and>
    (\<exists>num ev' s'. sched_gsmtime_execute fn ev s = Some (num, ev', s') \<and> events_wf ev' \<and> tdma_wf s' \<and>
      calendar ev' = (calendar ev)(fn + 2 := []) \<and> due s' = fold ag_event (calendar ev (fn + 2)) (due s))"
proof
  obtain rc ev' where "sched_gsmtime si f p3 ev = (rc, ev')" by fastforce
  then show "\<exists>rc ev'. sched_gsmtime si f p3 ev = (rc, ev') \<and> events_wf ev' \<and> (rc = 0) = (length (ev_active ev) < 16) \<and>
      calendar ev' = (if rc = 0 then (calendar ev)(f := calendar ev f @ [(si, p3)]) else calendar ev)"
    using sched_gsmtime_ok [OF assms(1,3)] by blast
qed (rule execute_events_ok [OF assms(1,2)])

theorem gsmtime_calendar_witness:
  "\<exists>num ev' s'. sched_gsmtime_execute 40 (snd (sched_gsmtime nb_sched_set 42 7 sched_gsmtime_init)) tdma_zero = Some (num, ev', s') \<and>
     calendar ev' 42 = [] \<and> due s' = ag_event (nb_sched_set, 7) (due tdma_zero)"
proof -
  have c: "set_closed nb_sched_set" using mf_set_closed [of NB_QUAD_DL] by simp
  have "events_wf (snd (sched_gsmtime nb_sched_set 42 7 sched_gsmtime_init))"
    and cal: "calendar (snd (sched_gsmtime nb_sched_set 42 7 sched_gsmtime_init)) 42 = [(nb_sched_set, 7)]"
    using sched_gsmtime_ok [OF events_wf_init c, of 42 7]
    by (auto simp: sched_gsmtime_def sched_gsmtime_init_def calendar_def)
  from conjunct2 [OF gsmtime_calendar [OF this(1) tdma_wf_zero(1) c], of 40] show ?thesis
    by (auto simp: cal)
qed

section \<open>The frame interrupt\<close>

text \<open>
  What the schedulers share with the rest of layer 1, whose variables extend the record. A callback of the TDMA
  scheduler may change all of it: the clock when a cell is found, the tasks, the events. The DSP, the radio and the timer
  of the frame are left out.
\<close>

record fw_l1 =
  l1_current_time :: fw_time
  l1_next_time :: fw_time
  l1_mframe :: mframe_scheduler
  l1_events :: gsmtime_sched

definition l1_sync :: "('w fw_l1_scheme) tdma_run \<Rightarrow> 'w fw_l1_scheme \<times> tdma_scheduler \<Rightarrow> ('w fw_l1_scheme \<times> tdma_scheduler) option" where
  "l1_sync run st =
     (let (w, s) = st;
          w = w\<lparr>l1_current_time := l1_next_time w, l1_next_time := l1s_time_inc (l1_next_time w) 1\<rparr> in do {
        _ \<leftarrow> tdma_sched_flag_scan s;
        (_, w, s) \<leftarrow> tdma_sched_execute run w s;
        (m, s) \<leftarrow> mframe_schedule (ft_fn (l1_current_time w)) (l1_mframe w, s);
        (_, ev, s) \<leftarrow> sched_gsmtime_execute (ft_fn (l1_current_time w)) (l1_events w) s;
        Some (w\<lparr>l1_mframe := m, l1_events := ev\<rparr>, tdma_sched_advance s) })"

definition clock_ok :: "fw_time \<Rightarrow> fw_time \<Rightarrow> bool" where
  "clock_ok c n \<longleftrightarrow> (\<exists>m < HYPER. c = time_of m \<and> n = time_of (Suc m mod HYPER))"

definition l1_wf :: "'w fw_l1_scheme \<Rightarrow> bool" where
  "l1_wf w \<longleftrightarrow> clock_ok (l1_current_time w) (l1_next_time w) \<and>
     (\<forall>i < 32. bit (mf_tasks_tgt (l1_mframe w)) i \<longrightarrow> i < 29) \<and> events_wf (l1_events w)"

lemma time_of_fn: "n < HYPER \<Longrightarrow> ft_fn (time_of n) = word_of_nat n \<and> unat (ft_fn (time_of n)) = n \<and> ft_fn (time_of n) < GSM_MAX_FN"
  by (simp add: time_of_def unat_of_nat word_less_nat_alt)

lemma clock_ok_fn: "clock_ok c n \<Longrightarrow> ft_fn c < GSM_MAX_FN"
  using time_of_fn by (auto simp: clock_ok_def)

lemma clock_ok_next: "clock_ok c n \<Longrightarrow> \<exists>m < HYPER. n = time_of m"
proof -
  assume "clock_ok c n"
  then obtain m where "n = time_of (Suc m mod HYPER)" by (auto simp: clock_ok_def)
  moreover have "Suc m mod HYPER < HYPER" by simp
  ultimately show ?thesis by blast
qed

lemma clock_okI: "m < HYPER \<Longrightarrow> clock_ok (time_of m) (time_of (Suc m mod HYPER))"
  by (auto simp: clock_ok_def)

lemma l1_wf_fn: "l1_wf w \<Longrightarrow> ft_fn (l1_current_time w) < GSM_MAX_FN"
  unfolding l1_wf_def by (blast intro: clock_ok_fn)

lemma l1_wf_next: "l1_wf w \<Longrightarrow> \<exists>m < HYPER. l1_next_time w = time_of m"
  unfolding l1_wf_def by (blast intro: clock_ok_next)

text \<open>What is asked of the callbacks: they schedule closed sets and keep the variables in order, with a condition of
  their own on the rest of the state; \<open>steady\<close> ones leave the clock, the tasks and the events alone.\<close>

definition clock_free :: "('w fw_l1_scheme \<Rightarrow> bool) \<Rightarrow> bool" where
  "clock_free Q \<longleftrightarrow> (\<forall>w c n m e. Q (w\<lparr>l1_current_time := c, l1_next_time := n, l1_mframe := m, l1_events := e\<rparr>) = Q w)"

definition cbs_ok :: "('w fw_l1_scheme \<Rightarrow> bool) \<Rightarrow> ('w fw_l1_scheme) tdma_run \<Rightarrow> bool" where
  "cbs_ok Q run \<longleftrightarrow> run_ok run \<and> clock_free Q \<and>
     (\<forall>it w. l1_wf w \<and> Q w \<longrightarrow> l1_wf (snd (snd (run it w))) \<and> Q (snd (snd (run it w))))"

definition same_clock :: "'w fw_l1_scheme \<Rightarrow> 'w fw_l1_scheme \<Rightarrow> bool" where
  "same_clock w w' \<longleftrightarrow> l1_current_time w' = l1_current_time w \<and> l1_next_time w' = l1_next_time w \<and> l1_mframe w' = l1_mframe w \<and>
     l1_events w' = l1_events w"

definition steady :: "('w fw_l1_scheme) tdma_run \<Rightarrow> bool" where
  "steady run \<longleftrightarrow> (\<forall>it w. same_clock w (snd (snd (run it w))))"

lemma exec_items_inv:
  "exec_items run nr seq i m w s = Some (rc, w', s') \<Longrightarrow> (\<And>it w. P w \<Longrightarrow> P (snd (snd (run it w)))) \<Longrightarrow> P w \<Longrightarrow> P w'"
proof (induction run nr seq i m w s rule: exec_items.induct)
  case (1 run nr seq i m w s)
  show ?case
  proof (cases "index_at (tq_bucket s) nr")
    case None
    then show ?thesis using "1.prems"(1) by (subst (asm) exec_items.simps) simp
  next
    case (Some b)
    note b = Some
    show ?thesis
    proof (cases "i < unat (bk_num b) \<and> i < length seq")
      case False
      then show ?thesis using "1.prems" b by (subst (asm) exec_items.simps) (auto split: if_splits)
    next
      case True
      then obtain it where it: "index_at (bk_item b) (seq ! i) = Some it" "it_cb it \<noteq> None"
        using "1.prems"(1) b by (subst (asm) exec_items.simps) (auto split: option.splits if_splits)
      obtain rc1 cs w1 where r: "run it w = (rc1, cs, w1)" by (metis prod_cases3)
      then obtain t where t: "tdma_calls cs s = Some t"
        using "1.prems"(1) b True it by (subst (asm) exec_items.simps) (auto split: option.splits)
      have w1: "P w1" using "1.prems"(2) [OF "1.prems"(3), of it] r by simp
      show ?thesis
      proof (cases "rc1 < 0")
        case True
        then show ?thesis using "1.prems"(1) b \<open>i < unat (bk_num b) \<and> i < length seq\<close> it r t w1 by (subst (asm) exec_items.simps) simp
      next
        case False
        then have "exec_items run nr seq (i + 1) (m + 1) w1 t = Some (rc, w', s')"
          using "1.prems"(1) b True it r t by (subst (asm) exec_items.simps) simp
        then show ?thesis using "1.IH" [OF b _ _ it(1) it(2) r [symmetric] refl refl t False] True "1.prems"(2) w1 by blast
      qed
    qed
  qed
qed

lemma execute_inv:
  "tdma_sched_execute run w s = Some (rc, w', s') \<Longrightarrow> (\<And>it w. P w \<Longrightarrow> P (snd (snd (run it w)))) \<Longrightarrow> P w \<Longrightarrow> P w'"
  unfolding tdma_sched_execute_def by (auto dest: exec_items_inv [where P = P])

lemma flag_scan_ok: "tdma_wf s \<Longrightarrow> \<exists>f. tdma_sched_flag_scan s = Some f"
proof -
  assume wf: "tdma_wf s"
  then have "index_at (tq_bucket s) (unat (tq_cur s)) = Some (tq_bucket s ! unat (tq_cur s))" "bucket_wf (tq_bucket s ! unat (tq_cur s))"
    using tdma_wf_bucket [of s "unat (tq_cur s)"] by (auto simp: tdma_wf_def)
  then show ?thesis by (simp add: tdma_sched_flag_scan_def bucket_wf_def read_at_def)
qed

text \<open>One frame: the clock has moved on, callbacks have run, and the frame two ahead is on the agenda.\<close>

lemma clock_freeD:
  assumes "clock_free Q"
  shows "Q (w\<lparr>l1_current_time := c, l1_next_time := n\<rparr>) = Q w" "Q (w\<lparr>l1_mframe := m, l1_events := e\<rparr>) = Q w"
proof -
  have *: "Q (w\<lparr>l1_current_time := c, l1_next_time := n, l1_mframe := m, l1_events := e\<rparr>) = Q w" for c n m e
    using assms by (simp add: clock_free_def)
  show "Q (w\<lparr>l1_current_time := c, l1_next_time := n\<rparr>) = Q w" using * [where c = c and n = n and m = "l1_mframe w" and e = "l1_events w"] by simp
  show "Q (w\<lparr>l1_mframe := m, l1_events := e\<rparr>) = Q w" using * [where c = "l1_current_time w" and n = "l1_next_time w" and m = m and e = e] by simp
qed

lemma l1_sync_ok:
  assumes "tdma_wf s" and "l1_wf w" and "Q w" and "cbs_ok Q run"
  shows "\<exists>w' s'. l1_sync run (w, s) = Some (w', s') \<and> l1_wf w' \<and> Q w' \<and> tdma_wf s'"
proof -
  let ?w = "w\<lparr>l1_current_time := l1_next_time w, l1_next_time := l1s_time_inc (l1_next_time w) 1\<rparr>"
  have free: "clock_free Q" using assms(4) by (simp add: cbs_ok_def)
  obtain n where n: "n < HYPER" "l1_next_time w = time_of n" using l1_wf_next [OF assms(2)] by blast
  have "l1_wf ?w \<and> Q ?w" using assms(2,3) n time_step [OF n(1)] time_of_fn [OF n(1)] clock_freeD(1) [OF free]
    by (simp add: l1_wf_def clock_okI)
  moreover obtain rc w1 s1 where x: "tdma_sched_execute run ?w s = Some (rc, w1, s1)" "tdma_wf s1"
    using execute_returns [OF assms(1), of run ?w] assms(4) by (auto simp: cbs_ok_def)
  ultimately have "l1_wf w1 \<and> Q w1" using execute_inv [OF x(1), of "\<lambda>w. l1_wf w \<and> Q w"] assms(4) by (simp add: cbs_ok_def)
  then have w1: "l1_wf w1" "Q w1" by simp_all
  then obtain m s2 where m: "mframe_schedule (ft_fn (l1_current_time w1)) (l1_mframe w1, s1) = Some (m, s2)" "tdma_wf s2"
    "mf_tasks_tgt m = mf_tasks_tgt (l1_mframe w1)"
    using mframe_schedule_ok [OF x(2), of "ft_fn (l1_current_time w1)" "l1_mframe w1"] l1_wf_fn [OF w1(1)] w1(1) by (auto simp: l1_wf_def)
  obtain num ev s3 where ev: "sched_gsmtime_execute (ft_fn (l1_current_time w1)) (l1_events w1) s2 = Some (num, ev, s3)" "events_wf ev" "tdma_wf s3"
    using execute_events_ok [of "l1_events w1" s2 "ft_fn (l1_current_time w1)"] w1 m(2) by (auto simp: l1_wf_def)
  obtain f where "tdma_sched_flag_scan s = Some f" using flag_scan_ok [OF assms(1)] by blast
  then have "l1_sync run (w, s) = Some (w1\<lparr>l1_mframe := m, l1_events := ev\<rparr>, tdma_sched_advance s3)"
    using x m ev by (simp add: l1_sync_def Let_def)
  moreover have "l1_wf (w1\<lparr>l1_mframe := m, l1_events := ev\<rparr>)" using w1 m(3) ev(2) by (simp add: l1_wf_def)
  ultimately show ?thesis using advance_refines [OF ev(3)] clock_freeD(2) [OF free] w1(2) by blast
qed

text \<open>With steady callbacks.\<close>

lemma same_clock_trans: "same_clock w w1 \<Longrightarrow> same_clock w1 w2 \<Longrightarrow> same_clock w w2"
  by (simp add: same_clock_def)

lemma steady_wf: "same_clock w w' \<Longrightarrow> l1_wf w' = l1_wf w"
  by (simp add: same_clock_def l1_wf_def)

lemma l1_sync_steady:
  assumes "tdma_wf s" and "l1_wf w" and "run_ok run" and "steady run" and "n < HYPER" and "l1_next_time w = time_of n"
  shows "\<exists>w' s' A. l1_sync run (w, s) = Some (w', s') \<and> l1_wf w' \<and> tdma_wf s' \<and> l1_current_time w' = time_of n \<and>
    l1_next_time w' = time_of (Suc n mod HYPER) \<and> calendar (l1_events w') = (calendar (l1_events w))(word_of_nat n + 2 := []) \<and>
    length A = TDMASCHED_NUM_FRAMES \<and> due s' = ag_advance (fold ag_event (calendar (l1_events w) (word_of_nat n + 2)) A)"
proof -
  let ?w = "w\<lparr>l1_current_time := l1_next_time w, l1_next_time := l1s_time_inc (l1_next_time w) 1\<rparr>"
  have wf: "l1_wf ?w" using assms(2,5,6) time_step [OF assms(5)] time_of_fn [OF assms(5)] by (simp add: l1_wf_def clock_okI)
  obtain rc w1 s1 where x: "tdma_sched_execute run ?w s = Some (rc, w1, s1)" "tdma_wf s1"
    using execute_returns [OF assms(1,3), of ?w] by auto
  have "same_clock ?w w1"
    using execute_inv [OF x(1), of "same_clock ?w"] assms(4) by (auto simp: steady_def intro: same_clock_trans) (simp add: same_clock_def)
  then have w1: "l1_wf w1" "l1_current_time w1 = time_of n" "l1_next_time w1 = time_of (Suc n mod HYPER)" "l1_events w1 = l1_events w"
    using steady_wf [of ?w w1] wf assms(6) time_step [OF assms(5)] by (simp_all add: same_clock_def)
  then obtain m s2 where m: "mframe_schedule (word_of_nat n) (l1_mframe w1, s1) = Some (m, s2)" "tdma_wf s2"
    "mf_tasks_tgt m = mf_tasks_tgt (l1_mframe w1)"
    using mframe_schedule_ok [OF x(2), of "word_of_nat n" "l1_mframe w1"] time_of_fn [OF assms(5)] by (auto simp: l1_wf_def)
  obtain num ev s3 where ev: "sched_gsmtime_execute (word_of_nat n) (l1_events w1) s2 = Some (num, ev, s3)" "events_wf ev" "tdma_wf s3"
    "calendar ev = (calendar (l1_events w))(word_of_nat n + 2 := [])" "due s3 = fold ag_event (calendar (l1_events w) (word_of_nat n + 2)) (due s2)"
    using execute_events_ok [of "l1_events w1" s2 "word_of_nat n"] w1 m(2) by (auto simp: l1_wf_def)
  obtain f where "tdma_sched_flag_scan s = Some f" using flag_scan_ok [OF assms(1)] by blast
  then have "l1_sync run (w, s) = Some (w1\<lparr>l1_mframe := m, l1_events := ev\<rparr>, tdma_sched_advance s3)"
    using x m ev w1(2) time_of_fn [OF assms(5)] by (simp add: l1_sync_def Let_def)
  moreover have "l1_wf (w1\<lparr>l1_mframe := m, l1_events := ev\<rparr>)" using w1 m(3) ev(2) by (simp add: l1_wf_def)
  moreover have "length (due s2) = TDMASCHED_NUM_FRAMES" using m(2) by (simp add: tdma_wf_def)
  ultimately show ?thesis using advance_refines [OF ev(3)] ev(4,5) w1(2,3)
    by (intro exI [of _ "w1\<lparr>l1_mframe := m, l1_events := ev\<rparr>"] exI [of _ "tdma_sched_advance s3"] exI [of _ "due s2"]) simp
qed

fun run_frames :: "('w fw_l1_scheme) tdma_run \<Rightarrow> nat \<Rightarrow> 'w fw_l1_scheme \<times> tdma_scheduler \<Rightarrow> ('w fw_l1_scheme \<times> tdma_scheduler) option" where
  "run_frames run 0 st = Some st"
| "run_frames run (Suc k) st = do { st \<leftarrow> l1_sync run st; run_frames run k st }"

lemma run_frames_snoc: "run_frames run (Suc k) st = do { st \<leftarrow> run_frames run k st; l1_sync run st }"
proof (induction k arbitrary: st)
  case 0
  show ?case by (cases "l1_sync run st") simp_all
next
  case (Suc k)
  have "run_frames run (Suc (Suc k)) st = do { st \<leftarrow> l1_sync run st; run_frames run (Suc k) st }" by (rule run_frames.simps)
  also have "\<dots> = do { st \<leftarrow> run_frames run (Suc k) st; l1_sync run st }" by (cases "l1_sync run st") (simp_all add: Suc.IH [unfolded run_frames.simps(2)])
  finally show ?case .
qed

lemma run_frames_ok:
  "tdma_wf s \<Longrightarrow> l1_wf w \<Longrightarrow> Q w \<Longrightarrow> cbs_ok Q run \<Longrightarrow>
   \<exists>w' s'. run_frames run k (w, s) = Some (w', s') \<and> l1_wf w' \<and> Q w' \<and> tdma_wf s'"
proof (induction k arbitrary: w s)
  case (Suc k)
  obtain w1 s1 where "l1_sync run (w, s) = Some (w1, s1)" "l1_wf w1" "Q w1" "tdma_wf s1" using l1_sync_ok [where Q = Q, OF Suc.prems] by blast
  then show ?case using Suc.IH [of s1 w1] Suc.prems(4) by simp
qed simp

lemma run_steady:
  assumes "tdma_wf s" and "l1_wf w" and "run_ok run" and "steady run" and "n < HYPER" and "l1_next_time w = time_of n"
  shows "\<exists>w' s'. run_frames run k (w, s) = Some (w', s') \<and> l1_wf w' \<and> tdma_wf s' \<and> l1_next_time w' = time_of ((n + k) mod HYPER) \<and>
    (\<forall>f. (\<forall>i < k. word_of_nat ((n + i) mod HYPER) + 2 \<noteq> f) \<longrightarrow> calendar (l1_events w') f = calendar (l1_events w) f)"
proof (induction k)
  case 0
  then show ?case using assms by simp
next
  case (Suc k)
  then obtain w1 s1 where 1: "run_frames run k (w, s) = Some (w1, s1)" "l1_wf w1" "tdma_wf s1" "l1_next_time w1 = time_of ((n + k) mod HYPER)"
    "\<forall>f. (\<forall>i < k. word_of_nat ((n + i) mod HYPER) + 2 \<noteq> f) \<longrightarrow> calendar (l1_events w1) f = calendar (l1_events w) f" by blast
  have "(n + k) mod HYPER < HYPER" by simp
  then obtain w2 s2 where 2: "l1_sync run (w1, s1) = Some (w2, s2)" "l1_wf w2" "tdma_wf s2" "l1_next_time w2 = time_of (Suc ((n + k) mod HYPER) mod HYPER)"
    "calendar (l1_events w2) = (calendar (l1_events w1))(word_of_nat ((n + k) mod HYPER) + 2 := [])"
    using l1_sync_steady [OF 1(3,2) assms(3,4) _ 1(4)] by blast
  have "Suc ((n + k) mod HYPER) mod HYPER = (n + Suc k) mod HYPER" by (simp only: mod_Suc_eq add_Suc_right)
  then show ?case using 1(1,5) 2 by (auto simp: run_frames_snoc simp del: run_frames.simps(2))
qed

text \<open>Whatever closed sets the callbacks schedule, and whatever events they enter, the frame interrupt returns at
  every frame: it reads and writes inside the tables, the clock stays on the hyperframe, and the variables stay in order,
  with whatever condition the callbacks keep.\<close>

theorem fw_frames_run:
  assumes "tdma_wf s" and "l1_wf w" and "Q w" and "cbs_ok Q run"
  shows "\<exists>w' s'. run_frames run k (w, s) = Some (w', s') \<and> l1_wf w' \<and> Q w' \<and> tdma_wf s'"
  using assms by (rule run_frames_ok)

definition fw_l1_zero :: fw_l1 where
  "fw_l1_zero = \<lparr>l1_current_time = time_of 0, l1_next_time = time_of 1, l1_mframe = \<lparr>mf_tasks_on = 0, mf_tasks_tgt = 0, mf_safe_fn = 0\<rparr>, l1_events = sched_gsmtime_init\<rparr>"

lemma nb_set_closed: "set_closed nb_sched_set"
  using mf_set_closed [of NB_QUAD_DL] by simp

abbreviation idle_run :: "'w tdma_run" where
  "idle_run \<equiv> \<lambda>it w. (0, [], w)"

lemma fw_l1_zero_wf: "l1_wf fw_l1_zero"
  using clock_okI [of 0] by (simp add: l1_wf_def fw_l1_zero_def events_wf_init)

lemma idle_run_ok: "run_ok idle_run" "steady idle_run" "cbs_ok (\<lambda>_. True) idle_run"
  by (simp_all add: run_ok_def steady_def same_clock_def cbs_ok_def clock_free_def)

theorem fw_frames_run_witness: "\<exists>w' s'. run_frames idle_run 100 (fw_l1_zero, tdma_zero) = Some (w', s') \<and> l1_wf w' \<and> tdma_wf s'"
  using fw_frames_run [OF tdma_wf_zero(1) fw_l1_zero_wf _ idle_run_ok(3), of 100] by simp

lemma frame_ahead:
  "i < HYPER \<Longrightarrow> word_of_nat i + (2 :: u32) = word_of_nat (i + 2) \<and> unat (word_of_nat i + (2 :: u32)) = i + 2"
proof -
  assume i: "i < HYPER"
  have eq: "word_of_nat i + (2 :: u32) = word_of_nat (i + 2)" by simp
  have "unat (word_of_nat (i + 2) :: u32) = i + 2" using i by (simp only: unat_of_nat) simp
  then show ?thesis unfolding eq by simp
qed

lemma event_on_time_raw:
  assumes "tdma_wf s" and "l1_wf w" and "run_ok run" and "steady run" and "n < HYPER" and "l1_next_time w = time_of n"
    and "n + 2 \<le> f" and "f < HYPER"
  shows "\<exists>w' s' A. run_frames run (f - 1 - n) (w, s) = Some (w', s') \<and> l1_current_time w' = time_of (f - 2) \<and>
    calendar (l1_events w') (word_of_nat f) = [] \<and> length A = TDMASCHED_NUM_FRAMES \<and>
    due s' = ag_advance (fold ag_event (calendar (l1_events w) (word_of_nat f)) A)"
proof -
  have k: "f - 1 - n = Suc (f - 2 - n)" "n + (f - 2 - n) = f - 2" "f - 2 < HYPER" "f - 2 + 2 = f" using assms(7,8) by auto
  have ne: "word_of_nat ((n + i) mod HYPER) + 2 \<noteq> (word_of_nat f :: u32)" if "i < f - 2 - n" for i
  proof -
    have "n + i < HYPER" "n + i + 2 < f" using that assms(7,8) by auto
    then show ?thesis using frame_ahead [of "n + i"] assms(8) by (metis mod_less nat_neq_iff time_of_fn)
  qed
  obtain w1 s1 where 1: "run_frames run (f - 2 - n) (w, s) = Some (w1, s1)" "l1_wf w1" "tdma_wf s1" "l1_next_time w1 = time_of (f - 2)"
    "calendar (l1_events w1) (word_of_nat f) = calendar (l1_events w) (word_of_nat f)"
    using run_steady [OF assms(1-6), of "f - 2 - n"] ne k(2,3) by auto
  have "word_of_nat (f - 2) + (2 :: u32) = word_of_nat f" using frame_ahead [OF k(3)] k(4) by simp
  then show ?thesis using l1_sync_steady [OF 1(3,2) assms(3,4) k(3) 1(4)] 1(1,5) unfolding k(1) run_frames_snoc by auto
qed

text \<open>Among callbacks that leave clock, tasks and events alone, what the calendar holds for a frame stays there
  until the interrupt two frames before it; that interrupt puts it, in the order in which it was entered, on the agenda
  beginning with the next frame, and takes it off the calendar.\<close>

theorem event_on_time:
  assumes "tdma_wf s" and "l1_wf w" and "run_ok run" and "steady run" and "n < HYPER" and "l1_next_time w = time_of n"
    and "n + 2 \<le> f" and "f < HYPER"
  shows "\<exists>w' s' A. run_frames run (f - 1 - n) (w, s) = Some (w', s') \<and> l1_current_time w' = time_of (f - 2) \<and>
    calendar (l1_events w') (word_of_nat f) = [] \<and> length A = TDMASCHED_NUM_FRAMES \<and>
    due s' = ag_advance (fold ag_event (calendar (l1_events w) (word_of_nat f)) A)"
  using assms by (rule event_on_time_raw)

text \<open>C25. The comparison is with the current frame number plus two, without reduction to the hyperframe: an event for frame
  0 or 1 of the hyperframe is never found, for as many frames as the interrupt runs, and keeps its place in the table.\<close>

theorem event_wrap_lost:
  assumes "tdma_wf s" and "l1_wf w" and "run_ok run" and "steady run" and "f < 2"
  shows "\<exists>w' s'. run_frames run k (w, s) = Some (w', s') \<and> calendar (l1_events w') f = calendar (l1_events w) f"
proof -
  obtain n where n: "n < HYPER" "l1_next_time w = time_of n" using l1_wf_next [OF assms(2)] by blast
  have "word_of_nat ((n + i) mod HYPER) + 2 \<noteq> f" for i
  proof -
    have "unat (word_of_nat ((n + i) mod HYPER) + (2 :: u32)) = (n + i) mod HYPER + 2" using frame_ahead [of "(n + i) mod HYPER"] by simp
    moreover have "unat f < 2" using assms(5) by (simp add: word_less_nat_alt)
    ultimately show ?thesis by auto
  qed
  then show ?thesis using run_steady [OF assms(1-4) n, of k] by blast
qed

theorem event_wrap_lost_witness:
  "\<exists>w' s'. run_frames idle_run HYPER (fw_l1_zero\<lparr>l1_events := snd (sched_gsmtime nb_sched_set 1 7 sched_gsmtime_init)\<rparr>, tdma_zero) = Some (w', s') \<and>
     calendar (l1_events w') 1 = [(nb_sched_set, 7)]"
proof -
  let ?ev = "snd (sched_gsmtime nb_sched_set 1 7 sched_gsmtime_init)"
  have ev: "events_wf ?ev" "calendar ?ev 1 = [(nb_sched_set, 7)]"
    using sched_gsmtime_ok [OF events_wf_init nb_set_closed, of 1 7] by (auto simp: sched_gsmtime_def sched_gsmtime_init_def calendar_def)
  then have "l1_wf (fw_l1_zero\<lparr>l1_events := ?ev\<rparr>)" using fw_l1_zero_wf by (simp add: l1_wf_def)
  from event_wrap_lost [OF tdma_wf_zero(1) this idle_run_ok(1,2), of 1 HYPER] show ?thesis using ev(2) by simp
qed

theorem event_on_time_witness:
  "\<exists>w' s' A. run_frames idle_run 39 (fw_l1_zero\<lparr>l1_events := snd (sched_gsmtime nb_sched_set 41 7 sched_gsmtime_init)\<rparr>, tdma_zero) = Some (w', s') \<and>
     l1_current_time w' = time_of 39 \<and> length A = TDMASCHED_NUM_FRAMES \<and> due s' = ag_advance (ag_event (nb_sched_set, 7) A)"
proof -
  let ?ev = "snd (sched_gsmtime nb_sched_set 41 7 sched_gsmtime_init)"
  have ev: "events_wf ?ev" "calendar ?ev 41 = [(nb_sched_set, 7)]"
    using sched_gsmtime_ok [OF events_wf_init nb_set_closed, of 41 7] by (auto simp: sched_gsmtime_def sched_gsmtime_init_def calendar_def)
  then have "l1_wf (fw_l1_zero\<lparr>l1_events := ?ev\<rparr>)" using fw_l1_zero_wf by (simp add: l1_wf_def)
  moreover have "l1_next_time (fw_l1_zero\<lparr>l1_events := ?ev\<rparr>) = time_of 1" by (simp add: fw_l1_zero_def)
  ultimately show ?thesis using event_on_time [OF tdma_wf_zero(1) _ idle_run_ok(1,2), of "fw_l1_zero\<lparr>l1_events := ?ev\<rparr>" 1 41] ev(2) by auto
qed

end
