(* ===== verification/Fw_L1s.thy ===== *)
theory Fw_L1s
  imports Fw_Events
begin

text \<open>
  The state of the firmware's layer 1 and the callbacks of its frame interrupt that send access bursts
  (\<^verbatim>\<open>layer1/prim_rach.c\<close>), measure power (\<^verbatim>\<open>layer1/prim_pm.c\<close>), change frequency (\<^verbatim>\<open>layer1/prim_freq.c\<close>) and send normal
  bursts (\<^verbatim>\<open>layer1/prim_tx_nb.c\<close>), with the messages they make for layer 2/3 and their completions (\<^verbatim>\<open>layer1/async.c\<close>), all in
  \<^verbatim>\<open>src/src/target/firmware\<close>.
\<close>

section \<open>State\<close>

text \<open>The channel, with one frequency or a hopping sequence: HSN, MAIO, number of frequencies, and the mobile allocation.\<close>

datatype fw_freq = FH0 u16 | FH1 u8 u8 u8 "u16 list"

text \<open>What the callbacks make the hardware do, as far as it matters here: the windows of the receiver and the transmitter,
  the access burst and the block given to the DSP, the cipher, the audio units, the SIM, and the resets.\<close>

datatype hw_op =
    Hw_rx_pm u16 u8 | Hw_tx_rach u16 u16 | Hw_block "u8 list" | Hw_tx_nb u8 u16 u8 u8
  | Hw_abort | Hw_reset_hw | Hw_ciph u8 "u16 list" | Hw_audio bool bool | Hw_sim "u8 list"

text \<open>
  The power the DSP has measured in this frame, on two windows, and the total gain of the receiver, in 1/8 dBm, are
  inputs. \<open>l1_out\<close> are the messages queued for layer 2/3, \<open>l1_rxq\<close> those received from it; \<open>l1_fault\<close> records an
  access outside an array or a division by zero in a callback.
\<close>

record dsp_read =
  dr_pm0 :: u16
  dr_pm1 :: u16
  dr_gain8 :: "16 word"

record fbsb_req =
  fr_arfcn :: u16
  fr_timeout :: u16
  fr_thresh1 :: u16
  fr_thresh2 :: u16
  fr_avg :: u8
  fr_flags :: u8
  fr_info_idx :: u8
  fr_rxlev :: u8

record l1s = fw_l1 +
  sv_arfcn :: u16
  sv_bsic :: u8
  sv_ccch_mode :: u8
  l1_ta :: u8
  l1_tx_power :: u8
  l1_tch_mode :: u8
  l1_tch_sync :: bool
  l1_audio_mode :: u8
  l1_tch_flags :: u8
  l1_tch_loop :: u8
  txq_main :: "u8 list list"
  txq_sacch :: "u8 list list"
  txq_traffic :: "u8 list list"
  l1_tx_meas :: "u8 list option"
  l1_ub_meas :: "u8 list"
  l1_compl :: u32
  l1_fb_mode :: u8
  fbs_req :: fbsb_req
  fbs_fb_retries :: u8
  fbs_afc_retries :: u8
  fbs_initial_err :: "16 word"
  pm_mode :: u32
  pm_start :: u16
  pm_next :: u16
  pm_end :: u16
  pm_msg :: "u8 list option"
  rach_ra :: u8
  rach_uic :: u8
  last_rach_fn :: u32
  last_rach_arfcn :: u16
  last_txnb_fn :: u32
  ded_type :: dchan_type
  ded_tsc :: u8
  ded_tn :: u8
  ded_freq :: fw_freq
  ded_st_tsc :: u8
  ded_st_freq :: fw_freq
  np_n :: u8
  np_second :: u8
  np_pos :: u8
  np_running :: bool
  np_arfcn :: "u16 list"
  np_tn :: "u8 list"
  np_level :: "u8 list"
  l1_dsp :: dsp_read
  l1_rxq :: "u8 list list"
  l1_out :: "u8 list list"
  l1_hw :: "hw_op list"
  l1_fault :: bool

section \<open>Messages for layer 2/3\<close>

text \<open>A message is built behind four octets of headroom in 208; \<^verbatim>\<open>msgb_tailroom\<close> is what is left of the 204.\<close>

definition l1_queue_for_l2 :: "u8 list \<Rightarrow> l1s \<Rightarrow> l1s" where
  "l1_queue_for_l2 msg w = w\<lparr>l1_out := l1_out w @ [msg]\<rparr>"

definition l1ctl_msgb_alloc :: "u8 \<Rightarrow> u8 list" where
  "l1ctl_msgb_alloc msg_type = [msg_type, 0, 0, 0]"

definition tailroom :: "u8 list \<Rightarrow> nat" where
  "tailroom msg = 204 - length msg"

definition l1_create_l2_msg :: "u8 \<Rightarrow> u32 \<Rightarrow> u16 \<Rightarrow> u16 \<Rightarrow> u8 list" where
  "l1_create_l2_msg msg_type fn snr arfcn =
     l1ctl_msgb_alloc msg_type @ [0, 0] @ be16_octets arfcn @ be32_octets fn @ [0, ucast snr, 0, 0]"

definition hw :: "hw_op \<Rightarrow> l1s \<Rightarrow> l1s" where
  "hw h w = w\<lparr>l1_hw := l1_hw w @ [h]\<rparr>"

definition l1s_compl_sched :: "nat \<Rightarrow> l1s \<Rightarrow> l1s" where
  "l1s_compl_sched c w = w\<lparr>l1_compl := l1_compl w OR push_bit c 1\<rparr>"

abbreviation (input) L1_COMPL_FB :: nat where "L1_COMPL_FB \<equiv> 0"
abbreviation (input) L1_COMPL_RACH :: nat where "L1_COMPL_RACH \<equiv> 1"
abbreviation (input) L1_COMPL_TX_NB :: nat where "L1_COMPL_TX_NB \<equiv> 2"
abbreviation (input) L1_COMPL_TX_TCH :: nat where "L1_COMPL_TX_TCH \<equiv> 3"

section \<open>Radio channel parameters\<close>

definition rfch_get_params :: "fw_time \<Rightarrow> l1s \<Rightarrow> (u16 \<times> u8 \<times> u8) option" where
  "rfch_get_params t w =
     (if ded_type w = GSM_DCHAN_NONE then Some (sv_arfcn w, sv_bsic w AND 0x7, 0)
      else do {
        arfcn \<leftarrow> (case ded_freq w of FH1 hsn maio n ma \<Rightarrow> rfch_hop_seq_gen t hsn maio n (Some ma) | FH0 arfcn \<Rightarrow> Some arfcn);
        Some (arfcn, ded_tsc w, ded_tn w) })"

section \<open>Access bursts\<close>

definition rach_sched_set_ul :: "tdma_item list" where
  "rach_sched_set_ul = [
     SCHED_ITEM_DT L1s_tx_rach_cmd 3 1 0, SCHED_END_FRAME,
     SCHED_END_FRAME,
     SCHED_ITEM L1s_tx_rach_resp (- 4) 1 0, SCHED_END_FRAME,
     SCHED_END_SET]"

definition l1s_tx_rach_cmd :: "l1s \<Rightarrow> int \<times> tdma_call list \<times> l1s" where
  "l1s_tx_rach_cmd w =
     (let data0 = push_bit 2 (if rach_uic w > 0x3f then sv_bsic w else rach_uic w); data1 = rach_ra w in
      (0, [], hw (Hw_tx_rach (ucast data0 OR push_bit 8 (ucast data1)) (sv_arfcn w)) w))"

definition l1s_tx_rach_resp :: "l1s \<Rightarrow> int \<times> tdma_call list \<times> l1s" where
  "l1s_tx_rach_resp w =
     (0, [], l1s_compl_sched L1_COMPL_RACH (w\<lparr>last_rach_fn := ft_fn (l1_current_time w) - 1, last_rach_arfcn := sv_arfcn w\<rparr>))"

definition l1a_rach_compl :: "l1s \<Rightarrow> l1s" where
  "l1a_rach_compl w = l1_queue_for_l2 (l1_create_l2_msg 0x0c (last_rach_fn w) 0 (last_rach_arfcn w)) w"

definition t3_to_rach_comb :: "nat list" where
  "t3_to_rach_comb = [
     0, 0, 0, 0,
     0, 1,
     2, 2, 2, 2, 2, 2, 2, 2,
     2, 3, 4, 5, 6, 7, 8, 9, 10, 11, 12,
     13, 14, 15, 16, 17, 18, 19, 20, 21, 22, 23, 24,
     25, 25, 25, 25, 25, 25, 25, 25,
     25, 26,
     27, 27, 27, 27]"

definition rach_to_t3_comb :: "nat list" where
  "rach_to_t3_comb = [
     4, 5,
     14, 15, 16, 17, 18, 19, 20, 21, 22, 23, 24,
     25, 26, 27, 28, 29, 30, 31, 32, 33, 34, 35, 36,
     45, 46]"

text \<open>The frame an access burst is scheduled for; the table is indexed with the counter of the clock.\<close>

definition rach_fn :: "u16 \<Rightarrow> u8 \<Rightarrow> l1s \<Rightarrow> u32 option" where
  "rach_fn offset combined w =
     (let offset = offset + 3; fn = ft_fn (l1_current_time w); t3 = ft_t3 (l1_current_time w) in
      if ded_type w = GSM_DCHAN_TCH_F then
        let fn_sched = fn + ucast offset in
        Some ((if fn_sched mod 13 = 12 then fn_sched + 1 else fn_sched) mod GSM_MAX_FN)
      else if ded_type w = GSM_DCHAN_TCH_H then
        let fn_sched = fn + ucast offset;
            fn_sched = (if fn_sched mod 13 = 12 then fn_sched + 1 else fn_sched);
            fn_sched = (if ucast (ded_tn w AND 1) \<noteq> (fn_sched mod 13) AND 1 then fn_sched + 1 else fn_sched) in
        Some (fn_sched mod GSM_MAX_FN)
      else if combined \<noteq> 0 then do {
        slots \<leftarrow> index_at t3_to_rach_comb (unat t3);
        let offset = offset + word_of_nat slots;
        t3' \<leftarrow> index_at rach_to_t3_comb (unat (offset mod 27));
        Some ((fn - ucast t3 + ucast (offset div 27) * 51 + word_of_nat t3') mod GSM_MAX_FN) }
      else Some ((fn + ucast offset) mod GSM_MAX_FN))"

definition l1a_rach_req :: "u16 \<Rightarrow> u8 \<Rightarrow> u8 \<Rightarrow> u8 \<Rightarrow> l1s \<Rightarrow> l1s option" where
  "l1a_rach_req offset combined ra uic w = do {
     fn_sched \<leftarrow> rach_fn offset combined w;
     Some (w\<lparr>rach_ra := ra, rach_uic := uic, l1_events := snd (sched_gsmtime rach_sched_set_ul fn_sched 0 (l1_events w)),
       last_rach_fn := 0, last_rach_arfcn := 0\<rparr>) }"

section \<open>Change of frequency at a starting time\<close>

definition freq_sched_set :: "tdma_item list" where
  "freq_sched_set = [SCHED_ITEM L1s_freq_cmd (- 3) 1 0, SCHED_END_SET]"

definition l1s_freq_cmd :: "l1s \<Rightarrow> int \<times> tdma_call list \<times> l1s" where
  "l1s_freq_cmd w = (0, [], w\<lparr>ded_tsc := ded_st_tsc w, ded_freq := ded_st_freq w\<rparr>)"

text \<open>\<open>diff\<close> is the signed difference; 42432 is the period of the starting time.\<close>

definition l1a_freq_req :: "u32 \<Rightarrow> l1s \<Rightarrow> l1s" where
  "l1a_freq_req fn_sched w =
     (let fn = ft_fn (l1_current_time w);
          diff = sint (fn_sched - fn mod 42432);
          diff = (if diff < 0 then diff + 42432 else diff) in
      if diff = 5 \<or> diff \<ge> 32024 then snd (snd (l1s_freq_cmd w))
      else
        let fn_sched = fn + word_of_int diff;
            fn_sched = (if fn_sched \<ge> GSM_MAX_FN then fn_sched - GSM_MAX_FN else fn_sched) in
        w\<lparr>l1_events := snd (sched_gsmtime freq_sched_set fn_sched 0 (l1_events w))\<rparr>)"

section \<open>Power measurements\<close>

definition quot8 :: "int \<Rightarrow> int" where
  "quot8 x = (if x \<ge> 0 then x div 8 else - ((- x) div 8))"

definition agc_inp_dbm8_by_pm :: "dsp_read \<Rightarrow> u16 \<Rightarrow> 16 word" where
  "agc_inp_dbm8_by_pm d pm = pm - dr_gain8 d"

definition fw_dbm2rxlev :: "int \<Rightarrow> u8" where
  "fw_dbm2rxlev dbm = (let rxlev = dbm + 110 in word_of_int (if rxlev > 63 then 63 else if rxlev < 0 then 0 else rxlev))"

definition pm_rxlev :: "dsp_read \<Rightarrow> u16 \<Rightarrow> u8" where
  "pm_rxlev d a_pm = fw_dbm2rxlev (quot8 (sint (agc_inp_dbm8_by_pm d (drop_bit 3 a_pm))))"

definition pm_sched_set :: "tdma_item list" where
  "pm_sched_set = [
     SCHED_ITEM_DT L1s_pm_cmd 0 1 0, SCHED_END_FRAME,
     SCHED_END_FRAME,
     SCHED_ITEM L1s_pm_resp (- 4) 1 0, SCHED_END_FRAME,
     SCHED_END_SET]"

definition l1s_pm_cmd :: "u16 \<Rightarrow> l1s \<Rightarrow> int \<times> tdma_call list \<times> l1s" where
  "l1s_pm_cmd arfcn w = (0, [], hw (Hw_rx_pm arfcn 0) w)"

text \<open>The result is appended to the message, which is sent when it is full and when the range has been measured.
  One measurement is asked for by the set, and two fit the array.\<close>

definition pm_append :: "u8 \<Rightarrow> u16 \<Rightarrow> l1s \<Rightarrow> u8 list \<times> l1s" where
  "pm_append num_meas arfcn w =
     (let msg = (case pm_msg w of None \<Rightarrow> l1ctl_msgb_alloc 0x09 | Some m \<Rightarrow> m);
          (msg, w) = (if tailroom msg < 4 then (l1ctl_msgb_alloc 0x09, l1_queue_for_l2 msg w) else (msg, w)) in
      (msg @ be16_octets arfcn @ [pm_rxlev (l1_dsp w) (dr_pm0 (l1_dsp w)),
         if num_meas > 1 then pm_rxlev (l1_dsp w) (dr_pm1 (l1_dsp w)) else 0], w))"

definition l1s_pm_resp :: "u8 \<Rightarrow> u16 \<Rightarrow> l1s \<Rightarrow> int \<times> tdma_call list \<times> l1s" where
  "l1s_pm_resp num_meas arfcn w =
     (let (msg, w) = pm_append num_meas arfcn w;
          w = w\<lparr>pm_msg := Some msg\<rparr> in
      if pm_mode w = 1 then
        if pm_next w \<noteq> pm_end w then
          let w = w\<lparr>pm_next := (pm_next w + 1) AND 0xfbff\<rparr> in
          (0, [Call_schedule_set 1 pm_sched_set (pm_next w)], w)
        else (0, [], (l1_queue_for_l2 (msg[1 := msg ! 1 OR 0x01]) w)\<lparr>pm_msg := None\<rparr>)
      else (0, [], w))"

section \<open>Neighbour cells\<close>

definition l1s_neigh_pm_cmd :: "l1s \<Rightarrow> int \<times> tdma_call list \<times> l1s" where
  "l1s_neigh_pm_cmd w =
     (case (index_at (np_arfcn w) (unat (np_pos w)), index_at (np_tn w) (unat (np_pos w))) of
        (Some arfcn, Some tn) \<Rightarrow> (0, [], (hw (Hw_rx_pm (if np_n w \<noteq> 0 then arfcn else 0) tn) w)\<lparr>np_running := True\<rparr>)
      | _ \<Rightarrow> (0, [], w\<lparr>l1_fault := True\<rparr>))"

definition neigh_append :: "u16 \<times> u8 \<times> u8 \<Rightarrow> u8 list \<times> l1s \<Rightarrow> u8 list \<times> l1s" where
  "neigh_append e st =
     (let (arfcn, tn, level) = e;
          (msg, w) = (if tailroom (fst st) < 6 then (l1ctl_msgb_alloc 0x1b, l1_queue_for_l2 (fst st) (snd st)) else st) in
      (msg @ be16_octets arfcn @ [level, 0, tn, 0], w))"

definition l1s_neigh_pm_resp :: "l1s \<Rightarrow> int \<times> tdma_call list \<times> l1s" where
  "l1s_neigh_pm_resp w =
     (if np_n w = 0 \<or> \<not> np_running w then (0, [], w\<lparr>np_running := False\<rparr>)
      else if unat (np_pos w) \<ge> length (np_level w) then (0, [], w\<lparr>l1_fault := True\<rparr>)
      else
        let w = w\<lparr>np_level := (np_level w)[unat (np_pos w) := pm_rxlev (l1_dsp w) (dr_pm0 (l1_dsp w))], np_pos := np_pos w + 1\<rparr> in
        if np_pos w \<ge> np_n w then
          let w = w\<lparr>np_pos := 0\<rparr>; n = unat (np_n w) in
          if n > 64 then (0, [], w\<lparr>l1_fault := True\<rparr>)
          else
            let (msg, w) = fold neigh_append (zip (take n (np_arfcn w)) (zip (take n (np_tn w)) (take n (np_level w))))
                  (l1ctl_msgb_alloc 0x1b, w) in
            (0, [], (l1_queue_for_l2 msg w)\<lparr>np_running := False\<rparr>)
        else (0, [], w\<lparr>np_running := False\<rparr>))"

section \<open>Normal bursts\<close>

text \<open>The block of a message in the queue is what \<^verbatim>\<open>l3h\<close> points to, behind the two headers; the frame sent when
  there is none is the measurement report, or a dummy.\<close>

definition l3_block :: "u8 list \<Rightarrow> u8 list" where
  "l3_block msg = map (\<lambda>i. octet i msg) [8..<31]"

definition pu_get_idle_frame :: "u8 list" where
  "pu_get_idle_frame = [0x01, 0x03, 0x01] @ replicate 20 0x2b"

definition pu_get_meas_frame :: "l1s \<Rightarrow> u8 list \<times> l1s" where
  "pu_get_meas_frame w =
     (case l1_tx_meas w of
        Some msg \<Rightarrow> (l3_block msg, w)
      | None \<Rightarrow> let m = (l1_ub_meas w)[0 := l1_tx_power w, 1 := l1_ta w] in (m, w\<lparr>l1_ub_meas := m\<rparr>))"

definition tx_block :: "bool \<Rightarrow> l1s \<Rightarrow> u8 list \<times> l1s" where
  "tx_block sacch w =
     (if sacch then
        case txq_sacch w of msg # rest \<Rightarrow> (l3_block msg, w\<lparr>txq_sacch := rest\<rparr>) | [] \<Rightarrow> pu_get_meas_frame w
      else
        case txq_main w of msg # rest \<Rightarrow> (l3_block msg, w\<lparr>txq_main := rest\<rparr>) | [] \<Rightarrow> (pu_get_idle_frame, w))"

definition l1s_tx_cmd :: "u8 \<Rightarrow> u16 \<Rightarrow> l1s \<Rightarrow> int \<times> tdma_call list \<times> l1s" where
  "l1s_tx_cmd burst_id p3 w =
     (let w = (if burst_id = 0 then
                 let (block, w) = tx_block (drop_bit 8 p3 AND MF_F_SACCH \<noteq> 0) w in hw (Hw_block block) w
               else w) in
      case rfch_get_params (l1_next_time w) w of
        None \<Rightarrow> (0, [], w\<lparr>l1_fault := True\<rparr>)
      | Some (arfcn, tsc, tn) \<Rightarrow> (0, [], hw (Hw_tx_nb burst_id arfcn tsc tn) w))"

definition l1s_tx_resp :: "u8 \<Rightarrow> l1s \<Rightarrow> int \<times> tdma_call list \<times> l1s" where
  "l1s_tx_resp burst_id w =
     (0, [], if burst_id = 3 then l1s_compl_sched L1_COMPL_TX_NB (w\<lparr>last_txnb_fn := ft_fn (l1_current_time w) - 4\<rparr>) else w)"

definition l1a_tx_nb_compl :: "l1s \<Rightarrow> l1s" where
  "l1a_tx_nb_compl w = l1_queue_for_l2 (l1_create_l2_msg 0x0f (last_txnb_fn w) 0 0) w"

section \<open>The callbacks together\<close>

text \<open>The callbacks not modelled here, those of the receiver and of the traffic channels, are a parameter.\<close>

definition l1_run :: "l1s tdma_run \<Rightarrow> l1s tdma_run" where
  "l1_run other it w =
     (case it_cb it of
        Some L1s_tx_rach_cmd \<Rightarrow> l1s_tx_rach_cmd w
      | Some L1s_tx_rach_resp \<Rightarrow> l1s_tx_rach_resp w
      | Some L1s_freq_cmd \<Rightarrow> l1s_freq_cmd w
      | Some L1s_pm_cmd \<Rightarrow> l1s_pm_cmd (it_p3 it) w
      | Some L1s_pm_resp \<Rightarrow> l1s_pm_resp (it_p1 it) (it_p3 it) w
      | Some L1s_neigh_pm_cmd \<Rightarrow> l1s_neigh_pm_cmd w
      | Some L1s_neigh_pm_resp \<Rightarrow> l1s_neigh_pm_resp w
      | Some L1s_tx_cmd \<Rightarrow> l1s_tx_cmd (it_p2 it) (it_p3 it) w
      | Some L1s_tx_resp \<Rightarrow> l1s_tx_resp (it_p2 it) w
      | Some L1s_abort_cmd \<Rightarrow> (0, [], hw Hw_abort w)
      | _ \<Rightarrow> other it w)"

text \<open>The completions that are scheduled, in the order of their bits; the first four have a handler, of which those for
  the synchronisation and for the traffic channels are parameters.\<close>

type_synonym l1_compls = "l1s \<Rightarrow> l1s"

definition completion :: "l1_compls \<Rightarrow> l1_compls \<Rightarrow> nat \<Rightarrow> l1s \<Rightarrow> l1s option" where
  "completion fb_compl tch_compl i w =
     (if i = L1_COMPL_FB then Some (fb_compl w)
      else if i = L1_COMPL_RACH then Some (l1a_rach_compl w)
      else if i = L1_COMPL_TX_NB then Some (l1a_tx_nb_compl w)
      else if i = L1_COMPL_TX_TCH then Some (tch_compl w)
      else None)"

fun compl_loop :: "l1_compls \<Rightarrow> l1_compls \<Rightarrow> u32 \<Rightarrow> nat list \<Rightarrow> l1s \<Rightarrow> l1s option" where
  "compl_loop fb_compl tch_compl scheduled [] w = Some w"
| "compl_loop fb_compl tch_compl scheduled (i # is) w = do {
     w \<leftarrow> (if bit scheduled i then completion fb_compl tch_compl i w else Some w);
     compl_loop fb_compl tch_compl scheduled is w }"

definition l1a_compl_execute :: "l1_compls \<Rightarrow> l1_compls \<Rightarrow> l1s \<Rightarrow> l1s option" where
  "l1a_compl_execute fb_compl tch_compl w = compl_loop fb_compl tch_compl (l1_compl w) [0..<32] (w\<lparr>l1_compl := 0\<rparr>)"

section \<open>The invariant\<close>

text \<open>A hopping sequence has a number in the range of the standard and one to 64 frequencies; the tables of the neighbour cells
  have 64 places, of which the measurement is at one; only completions with a handler are scheduled; and a message fits its
  buffer.\<close>

fun freq_ok :: "fw_freq \<Rightarrow> bool" where
  "freq_ok (FH0 arfcn) = True"
| "freq_ok (FH1 hsn maio n ma) = (hsn < 64 \<and> n \<noteq> 0 \<and> n \<le> 64 \<and> length ma = unat n)"

text \<open>What is asked of a message of layer 2/3: that it fits the buffer, and that the hopping sequence or the list of neighbour cells in
  it is of a size the firmware has room for.\<close>

definition seq_fits :: "nat \<Rightarrow> u8 list \<Rightarrow> bool" where
  "seq_fits off msg \<longleftrightarrow> octet (off + 1) msg = 0 \<or> octet (off + 2) msg < 64 \<and> octet (off + 4) msg \<noteq> 0 \<and> octet (off + 4) msg \<le> 64"

definition l23_fits :: "u8 list \<Rightarrow> bool" where
  "l23_fits msg \<longleftrightarrow> length msg \<le> 256 \<and>
     (if octet 0 msg = 0x05 then seq_fits 8 msg else if octet 0 msg = 0x14 then seq_fits 10 msg
      else if octet 0 msg = 0x1a then octet 4 msg \<le> 64 else True)"

definition l1s_ok :: "l1s \<Rightarrow> bool" where
  "l1s_ok w \<longleftrightarrow> \<not> l1_fault w \<and> freq_ok (ded_freq w) \<and> freq_ok (ded_st_freq w) \<and>
     length (np_arfcn w) = 64 \<and> length (np_tn w) = 64 \<and> length (np_level w) = 64 \<and> np_n w \<le> 64 \<and> np_pos w < 64 \<and>
     (\<forall>i. bit (l1_compl w) i \<longrightarrow> i < 4) \<and> length (txq_traffic w) \<le> 4 \<and>
     (\<forall>m. pm_msg w = Some m \<longrightarrow> 4 \<le> length m \<and> length m \<le> 204) \<and> list_all (\<lambda>m. length m \<le> 204) (l1_out w) \<and>
     list_all l23_fits (l1_rxq w)"

lemma l1s_ok_clock_free: "clock_free l1s_ok"
  by (simp add: clock_free_def l1s_ok_def)

lemma l1_wf_cong: "l1_current_time w' = l1_current_time w \<Longrightarrow> l1_next_time w' = l1_next_time w \<Longrightarrow> l1_mframe w' = l1_mframe w \<Longrightarrow>
    l1_events w' = l1_events w \<Longrightarrow> l1_wf w' = l1_wf w"
  by (simp add: l1_wf_def)

lemma length_alloc [simp]: "length (l1ctl_msgb_alloc t) = 4"
  by (simp add: l1ctl_msgb_alloc_def)

lemma create_msg_length: "length (l1_create_l2_msg t fn snr arfcn) = 16"
  by (simp add: l1_create_l2_msg_def l1ctl_msgb_alloc_def)

lemma compl_sched_ok: "l1s_ok w \<Longrightarrow> c < 4 \<Longrightarrow> l1s_ok (l1s_compl_sched c w)" "same_clock w (l1s_compl_sched c w)"
  by (auto simp: l1s_compl_sched_def l1s_ok_def same_clock_def bit_or_iff bit_push_bit_iff bit_1_iff simp del: push_bit_of_1)

lemma compl_sched_steady: "same_clock w (l1s_compl_sched c w') = same_clock w w'"
  by (simp add: l1s_compl_sched_def same_clock_def)

text \<open>The radio channel has parameters at every frame.\<close>

lemma rfch_get_params_ok:
  assumes "freq_ok (ded_freq w)" and "n < HYPER"
  shows "\<exists>p. rfch_get_params (time_of n) w = Some p"
proof (cases "ded_freq w")
  case (FH1 hsn maio k ma)
  have "time_of n = gsm_fn2gsmtime (word_of_nat n)" using assms(2) by (simp add: time_of_eq time_of_def unat_of_nat)
  moreover have "(word_of_nat n :: u32) < GSM_MAX_FN" using time_of_fn [OF assms(2)] by (simp add: time_of_def)
  ultimately show ?thesis using hop_seq_ok [of "word_of_nat n" hsn k ma maio] assms(1) FH1 by (auto simp: rfch_get_params_def)
qed (simp add: rfch_get_params_def)

text \<open>Every callback keeps the invariant, with the clock, the tasks and the events.\<close>

definition cb_ok :: "(l1s \<Rightarrow> int \<times> tdma_call list \<times> l1s) \<Rightarrow> bool" where
  "cb_ok f \<longleftrightarrow> (\<forall>w. l1_wf w \<and> l1s_ok w \<longrightarrow> same_clock w (snd (snd (f w))) \<and> l1s_ok (snd (snd (f w)))) \<and>
     (\<forall>w. list_all call_ok (fst (snd (f w))) \<and> same_clock w (snd (snd (f w))))"

lemmas l1s_cb_defs = cb_ok_def same_clock_def l1s_ok_def hw_def l1_queue_for_l2_def

lemma rach_cbs_ok: "cb_ok l1s_tx_rach_cmd"
  by (simp add: l1s_cb_defs l1s_tx_rach_cmd_def Let_def)

lemma rach_resp_ok: "cb_ok l1s_tx_rach_resp"
proof -
  have "l1s_ok w \<Longrightarrow> l1s_ok (w\<lparr>last_rach_fn := a, last_rach_arfcn := b\<rparr>)" "same_clock w (w\<lparr>last_rach_fn := a, last_rach_arfcn := b\<rparr>)" for w a b
    by (simp_all add: l1s_ok_def same_clock_def)
  then show ?thesis by (simp add: cb_ok_def l1s_tx_rach_resp_def compl_sched_ok(1) compl_sched_steady)
qed

lemma freq_cb_ok: "cb_ok l1s_freq_cmd"
  by (simp add: l1s_cb_defs l1s_freq_cmd_def)

lemma tx_resp_ok: "cb_ok (l1s_tx_resp b)"
proof -
  have "l1s_ok w \<Longrightarrow> l1s_ok (w\<lparr>last_txnb_fn := a\<rparr>)" "same_clock w (w\<lparr>last_txnb_fn := a\<rparr>)" "same_clock w w" for w a
    by (simp_all add: l1s_ok_def same_clock_def)
  then show ?thesis by (simp add: cb_ok_def l1s_tx_resp_def compl_sched_ok(1) compl_sched_steady)
qed

lemma pm_cmd_ok: "cb_ok (l1s_pm_cmd a)"
  by (simp add: l1s_cb_defs l1s_pm_cmd_def)

lemma abort_ok: "cb_ok (\<lambda>w. (0, [], hw Hw_abort w))"
  by (simp add: l1s_cb_defs)

lemma tx_block_shape: "\<exists>m q r. snd (tx_block b w) = w\<lparr>l1_ub_meas := m, txq_sacch := q, txq_main := r\<rparr>"
proof -
  have meas: "\<exists>m. snd (pu_get_meas_frame w) = w\<lparr>l1_ub_meas := m\<rparr>"
    by (cases "l1_tx_meas w") (auto simp: pu_get_meas_frame_def Let_def intro: exI [of _ "l1_ub_meas w"])
  have id: "w = w\<lparr>l1_ub_meas := l1_ub_meas w, txq_sacch := txq_sacch w, txq_main := txq_main w\<rparr>" by simp
  show ?thesis
  proof (cases b)
    case True
    show ?thesis
    proof (cases "txq_sacch w")
      case Nil
      from meas obtain m where "snd (pu_get_meas_frame w) = w\<lparr>l1_ub_meas := m\<rparr>" by blast
      then have "snd (tx_block b w) = w\<lparr>l1_ub_meas := m, txq_sacch := txq_sacch w, txq_main := txq_main w\<rparr>"
        using True Nil by (simp add: tx_block_def)
      then show ?thesis by blast
    next
      case (Cons msg rest)
      then have "snd (tx_block b w) = w\<lparr>l1_ub_meas := l1_ub_meas w, txq_sacch := rest, txq_main := txq_main w\<rparr>"
        using True by (simp add: tx_block_def)
      then show ?thesis by blast
    qed
  next
    case False
    then have "snd (tx_block b w) = w\<lparr>l1_ub_meas := l1_ub_meas w, txq_sacch := txq_sacch w, txq_main := tl (txq_main w)\<rparr>"
      by (cases "txq_main w") (simp_all add: tx_block_def)
    then show ?thesis by blast
  qed
qed

lemma tx_block_ok:
  assumes "snd (tx_block b w) = w'"
  shows "same_clock w w' \<and> (l1s_ok w \<longrightarrow> l1s_ok w') \<and> ded_type w' = ded_type w \<and> ded_freq w' = ded_freq w"
  using tx_block_shape [of b w] assms by (auto simp: same_clock_def l1s_ok_def)

lemma tx_cmd_ok: "cb_ok (l1s_tx_cmd b p3)"
proof -
  define f where "f w = (if b = 0 then let (block, w) = tx_block (drop_bit 8 p3 AND MF_F_SACCH \<noteq> 0) w in hw (Hw_block block) w else w)" for w
  have f: "same_clock w (f w)" "l1s_ok w \<Longrightarrow> l1s_ok (f w)" for w
    using tx_block_ok [of "drop_bit 8 p3 AND MF_F_SACCH \<noteq> 0" w, OF refl]
    by (auto simp: f_def case_prod_beta hw_def same_clock_def l1s_ok_def)
  have eq: "l1s_tx_cmd b p3 w = (case rfch_get_params (l1_next_time (f w)) (f w) of
        None \<Rightarrow> (0, [], (f w)\<lparr>l1_fault := True\<rparr>)
      | Some (arfcn, tsc, tn) \<Rightarrow> (0, [], hw (Hw_tx_nb b arfcn tsc tn) (f w)))" for w
    by (simp only: l1s_tx_cmd_def f_def Let_def)
  have some: "\<exists>p. rfch_get_params (l1_next_time (f w)) (f w) = Some p" if "l1_wf w" "l1s_ok w" for w
    using rfch_get_params_ok [of "f w"] f(1) [of w] f(2) [OF that(2)] l1_wf_next [OF that(1)] by (auto simp: same_clock_def l1s_ok_def)
  have a: "same_clock w (snd (snd (l1s_tx_cmd b p3 w))) \<and> fst (snd (l1s_tx_cmd b p3 w)) = []" for w
    using f(1) [of w] by (auto simp: eq hw_def same_clock_def split: option.splits prod.splits)
  have b: "l1s_ok (snd (snd (l1s_tx_cmd b p3 w)))" if "l1_wf w" "l1s_ok w" for w
    using f(2) [OF that(2)] some [OF that] by (auto simp: eq hw_def l1s_ok_def split: prod.splits)
  show ?thesis using a b by (simp add: cb_ok_def)
qed

text \<open>A message under construction, with the state.\<close>

definition building :: "l1s \<Rightarrow> u8 list \<times> l1s \<Rightarrow> bool" where
  "building w st \<longleftrightarrow> 4 \<le> length (fst st) \<and> length (fst st) \<le> 204 \<and> same_clock w (snd st) \<and> (l1s_ok w \<longrightarrow> l1s_ok (snd st)) \<and>
     np_arfcn (snd st) = np_arfcn w \<and> np_n (snd st) = np_n w \<and> pm_msg (snd st) = pm_msg w \<and> pm_mode (snd st) = pm_mode w"

lemma queue_ok: "length m \<le> 204 \<Longrightarrow> l1s_ok w \<Longrightarrow> l1s_ok (l1_queue_for_l2 m w)" "same_clock w (l1_queue_for_l2 m w') = same_clock w w'"
  by (simp_all add: l1_queue_for_l2_def l1s_ok_def same_clock_def)

lemma building_flush: "building w (msg, v) \<Longrightarrow> building w (l1ctl_msgb_alloc t, l1_queue_for_l2 msg v)"
  using queue_ok(1) [of msg v] by (auto simp: building_def queue_ok(2)) (simp_all add: l1_queue_for_l2_def)

lemma building_grow: "building w (msg, v) \<Longrightarrow> length msg + length x \<le> 204 \<Longrightarrow> building w (msg @ x, v)"
  by (simp add: building_def)

lemma neigh_append_ok: "building w st \<Longrightarrow> building w (neigh_append e st)"
proof -
  obtain arfcn tn level where e: "e = (arfcn, tn, level)" by (metis prod_cases3)
  obtain msg v where st: "st = (msg, v)" by fastforce
  assume b: "building w st"
  show ?thesis
  proof (cases "tailroom msg < 6")
    case True
    then have "building w (l1ctl_msgb_alloc 0x1b @ be16_octets arfcn @ [level, 0, tn, 0], l1_queue_for_l2 msg v)"
      by (intro building_grow building_flush) (use b st in simp_all)
    then show ?thesis using True by (simp add: neigh_append_def e st)
  next
    case False
    then have "length msg + 6 \<le> 204" using b st by (auto simp: tailroom_def building_def)
    then have "building w (msg @ be16_octets arfcn @ [level, 0, tn, 0], v)"
      by (intro building_grow) (use b st in simp_all)
    then show ?thesis using False by (simp add: neigh_append_def e st)
  qed
qed

lemma neigh_fold_ok: "building w st \<Longrightarrow> building w (fold neigh_append es st)"
  by (induction es arbitrary: st) (simp_all add: neigh_append_ok)

lemma pm_append_ok: "l1s_ok w \<Longrightarrow> building w (pm_append num_meas arfcn w)"
proof -
  assume ok: "l1s_ok w"
  let ?m = "case pm_msg w of None \<Rightarrow> l1ctl_msgb_alloc 0x09 | Some m \<Rightarrow> m"
  have b: "building w (?m, w)"
    using ok by (auto simp: building_def l1ctl_msgb_alloc_def l1s_ok_def same_clock_def split: option.splits)
  show ?thesis
  proof (cases "tailroom ?m < 4")
    case True
    have "building w (l1ctl_msgb_alloc 0x09, l1_queue_for_l2 ?m w)" using b by (rule building_flush)
    then show ?thesis using True by (auto simp: pm_append_def Let_def intro: building_grow)
  next
    case False
    then have "length ?m + 4 \<le> 204" using b by (auto simp: tailroom_def building_def)
    then show ?thesis using False b by (auto simp: pm_append_def Let_def intro: building_grow)
  qed
qed

lemma pm_append_clock: "same_clock w (snd (pm_append num_meas arfcn w))"
  by (simp add: pm_append_def Let_def l1_queue_for_l2_def same_clock_def)

lemma pm_set_closed: "set_closed pm_sched_set" "set_closed rach_sched_set_ul" "set_closed freq_sched_set"
  by (simp_all add: set_closed_def pm_sched_set_def rach_sched_set_ul_def freq_sched_set_def SCHED_END_SET_def)

lemma pm_resp_ok: "cb_ok (l1s_pm_resp num_meas arfcn)"
proof -
  have clock: "same_clock w (snd (snd (l1s_pm_resp num_meas arfcn w))) \<and> list_all call_ok (fst (snd (l1s_pm_resp num_meas arfcn w)))" for w
    using pm_append_clock [of w num_meas arfcn] pm_set_closed
    by (auto simp: l1s_pm_resp_def case_prod_beta Let_def same_clock_def l1_queue_for_l2_def)
  have "l1s_ok (snd (snd (l1s_pm_resp num_meas arfcn w)))" if "l1s_ok w" for w
  proof -
    obtain msg v where v: "pm_append num_meas arfcn w = (msg, v)" by fastforce
    then have "4 \<le> length msg" "length msg \<le> 204" "l1s_ok v" using pm_append_ok [OF that, of num_meas arfcn] that by (auto simp: building_def)
    then show ?thesis by (auto simp: l1s_pm_resp_def v Let_def l1s_ok_def l1_queue_for_l2_def)
  qed
  with clock show ?thesis by (simp add: cb_ok_def)
qed

lemma neigh_cmd_ok: "cb_ok l1s_neigh_pm_cmd"
  by (auto simp: l1s_cb_defs l1s_neigh_pm_cmd_def index_at_def word_less_nat_alt)

lemma neigh_resp_ok: "cb_ok l1s_neigh_pm_resp"
proof -
  define v where "v w = w\<lparr>np_level := (np_level w)[unat (np_pos w) := pm_rxlev (l1_dsp w) (dr_pm0 (l1_dsp w))], np_pos := np_pos w + 1\<rparr>" for w :: l1s
  define f where "f w = fold neigh_append (zip (take (unat (np_n w)) (np_arfcn w)) (zip (take (unat (np_n w)) (np_tn w))
      (take (unat (np_n w)) (np_level w)))) (l1ctl_msgb_alloc 0x1b, w)" for w
  have eq: "l1s_neigh_pm_resp w =
     (if np_n w = 0 \<or> \<not> np_running w then (0, [], w\<lparr>np_running := False\<rparr>)
      else if unat (np_pos w) \<ge> length (np_level w) then (0, [], w\<lparr>l1_fault := True\<rparr>)
      else if np_pos (v w) \<ge> np_n (v w) then
          if unat (np_n (v w)) > 64 then (0, [], (v w)\<lparr>np_pos := 0, l1_fault := True\<rparr>)
          else (0, [], (l1_queue_for_l2 (fst (f ((v w)\<lparr>np_pos := 0\<rparr>))) (snd (f ((v w)\<lparr>np_pos := 0\<rparr>))))\<lparr>np_running := False\<rparr>)
        else (0, [], (v w)\<lparr>np_running := False\<rparr>))" for w
    by (simp add: l1s_neigh_pm_resp_def v_def f_def Let_def case_prod_beta)
  have f: "same_clock w (snd (f w))" "l1s_ok w \<Longrightarrow> l1s_ok (snd (f w))" "length (fst (f w)) \<le> 204" for w
    using neigh_fold_ok [of w "(l1ctl_msgb_alloc 0x1b, w)"]
    by (auto simp: f_def building_def l1ctl_msgb_alloc_def same_clock_def)
  have vz: "same_clock w ((v w)\<lparr>np_pos := 0\<rparr>)" "l1s_ok w \<Longrightarrow> l1s_ok ((v w)\<lparr>np_pos := 0\<rparr>)" for w
    by (simp_all add: v_def same_clock_def l1s_ok_def)
  have run: "same_clock w (v\<lparr>np_running := b\<rparr>) = same_clock w v" "l1s_ok (v\<lparr>np_running := b\<rparr>) = l1s_ok v" for w v :: l1s and b
    by (simp_all add: same_clock_def l1s_ok_def)
  have sent: "same_clock w (l1_queue_for_l2 (fst (f ((v w)\<lparr>np_pos := 0\<rparr>))) (snd (f ((v w)\<lparr>np_pos := 0\<rparr>))))" for w
    using f(1) [of "(v w)\<lparr>np_pos := 0\<rparr>"] vz(1) [of w] by (auto simp: queue_ok(2) intro: same_clock_trans)
  have sent_ok: "l1s_ok (l1_queue_for_l2 (fst (f ((v w)\<lparr>np_pos := 0\<rparr>))) (snd (f ((v w)\<lparr>np_pos := 0\<rparr>))))" if "l1s_ok w" for w
    using f(2,3) [of "(v w)\<lparr>np_pos := 0\<rparr>"] vz(2) [OF that] by (intro queue_ok(1)) auto
  have "same_clock w (snd (snd (l1s_neigh_pm_resp w))) \<and> fst (snd (l1s_neigh_pm_resp w)) = []" for w
    unfolding eq using sent [of w] by (simp add: run(1)) (simp add: same_clock_def v_def)
  moreover have "l1s_ok (snd (snd (l1s_neigh_pm_resp w)))" if ok: "l1s_ok w" for w
  proof -
    have n: "np_pos w < 64" "np_n w \<le> 64" "length (np_level w) = 64" using ok by (simp_all add: l1s_ok_def)
    have "l1s_ok ((v w)\<lparr>np_running := False\<rparr>)" if "\<not> np_pos (v w) \<ge> np_n (v w)"
      using ok that by (auto simp: v_def l1s_ok_def)
    then show ?thesis unfolding eq using sent_ok [OF ok] n ok
      by (auto simp: run(2) word_less_nat_alt word_le_nat_alt v_def)
  qed
  ultimately show ?thesis by (simp add: cb_ok_def)
qed

lemmas l1_cbs_ok = rach_cbs_ok rach_resp_ok freq_cb_ok pm_cmd_ok pm_resp_ok neigh_cmd_ok neigh_resp_ok tx_cmd_ok tx_resp_ok abort_ok

lemma l1_run_eqs:
  "it_cb it = Some L1s_tx_rach_cmd \<Longrightarrow> l1_run other it = l1s_tx_rach_cmd"
  "it_cb it = Some L1s_tx_rach_resp \<Longrightarrow> l1_run other it = l1s_tx_rach_resp"
  "it_cb it = Some L1s_freq_cmd \<Longrightarrow> l1_run other it = l1s_freq_cmd"
  "it_cb it = Some L1s_pm_cmd \<Longrightarrow> l1_run other it = l1s_pm_cmd (it_p3 it)"
  "it_cb it = Some L1s_pm_resp \<Longrightarrow> l1_run other it = l1s_pm_resp (it_p1 it) (it_p3 it)"
  "it_cb it = Some L1s_neigh_pm_cmd \<Longrightarrow> l1_run other it = l1s_neigh_pm_cmd"
  "it_cb it = Some L1s_neigh_pm_resp \<Longrightarrow> l1_run other it = l1s_neigh_pm_resp"
  "it_cb it = Some L1s_tx_cmd \<Longrightarrow> l1_run other it = l1s_tx_cmd (it_p2 it) (it_p3 it)"
  "it_cb it = Some L1s_tx_resp \<Longrightarrow> l1_run other it = l1s_tx_resp (it_p2 it)"
  "it_cb it = Some L1s_abort_cmd \<Longrightarrow> l1_run other it = (\<lambda>w. (0, [], hw Hw_abort w))"
  by (simp_all add: l1_run_def fun_eq_iff)

lemma l1_run_modelled: "cb_ok (l1_run other it) \<or> l1_run other it = other it"
proof (cases "it_cb it")
  case (Some cb)
  then show ?thesis
    by (cases cb) (simp_all add: l1_run_eqs l1_cbs_ok, simp_all add: l1_run_def fun_eq_iff)
qed (simp add: l1_run_def fun_eq_iff)

lemma l1_run_ok:
  assumes "cbs_ok l1s_ok other"
  shows "cbs_ok l1s_ok (l1_run other)"
proof -
  have "list_all call_ok (fst (snd (l1_run other it w))) \<and>
    (l1_wf w \<and> l1s_ok w \<longrightarrow> l1_wf (snd (snd (l1_run other it w))) \<and> l1s_ok (snd (snd (l1_run other it w))))" for it w
    using l1_run_modelled [of other it]
  proof
    assume "cb_ok (l1_run other it)"
    then show ?thesis using steady_wf by (auto simp: cb_ok_def)
  next
    assume "l1_run other it = other it"
    then show ?thesis using assms by (simp add: cbs_ok_def run_ok_def)
  qed
  then show ?thesis using l1s_ok_clock_free by (simp add: cbs_ok_def run_ok_def)
qed

lemma l1_run_steady: "steady other \<Longrightarrow> steady (l1_run other)"
  unfolding steady_def
proof (intro allI)
  fix it w assume "\<forall>it w. same_clock w (snd (snd (other it w)))"
  then show "same_clock w (snd (snd (l1_run other it w)))" using l1_run_modelled [of other it] by (auto simp: cb_ok_def)
qed

text \<open>The completions.\<close>

definition compls_ok :: "l1_compls \<Rightarrow> bool" where
  "compls_ok f \<longleftrightarrow> (\<forall>w. l1_wf w \<and> l1s_ok w \<longrightarrow> l1_wf (f w) \<and> l1s_ok (f w))"

lemma queue_wf: "l1_wf (l1_queue_for_l2 m w) = l1_wf w"
  by (rule l1_wf_cong) (simp_all add: l1_queue_for_l2_def)

lemma compl_loop_ok:
  assumes "compls_ok fb_compl" and "compls_ok tch_compl" and "\<forall>i. bit sch i \<longrightarrow> i < 4"
  shows "l1_wf w \<Longrightarrow> l1s_ok w \<Longrightarrow> \<exists>w'. compl_loop fb_compl tch_compl sch is w = Some w' \<and> l1_wf w' \<and> l1s_ok w'"
proof (induction "is" arbitrary: w)
  case (Cons i "is")
  have "\<exists>w1. (if bit sch i then completion fb_compl tch_compl i w else Some w) = Some w1 \<and> l1_wf w1 \<and> l1s_ok w1"
  proof (cases "bit sch i")
    case True
    then have "i < 4" using assms(3) by blast
    then consider "i = 0" | "i = 1" | "i = 2" | "i = 3" by linarith
    then show ?thesis
      by cases (use True Cons.prems assms(1,2) in \<open>auto simp: completion_def compls_ok_def l1a_rach_compl_def l1a_tx_nb_compl_def
        queue_wf create_msg_length intro: queue_ok(1)\<close>)
  qed (use Cons.prems in simp)
  then show ?case using Cons.IH by fastforce
qed simp

lemma compl_execute_ok:
  assumes "compls_ok fb_compl" and "compls_ok tch_compl" and "l1_wf w" and "l1s_ok w"
  shows "\<exists>w'. l1a_compl_execute fb_compl tch_compl w = Some w' \<and> l1_wf w' \<and> l1s_ok w'"
proof -
  have "l1_wf (w\<lparr>l1_compl := 0\<rparr>)" "l1s_ok (w\<lparr>l1_compl := 0\<rparr>)" "\<forall>i. bit (l1_compl w) i \<longrightarrow> i < 4"
    using assms(3,4) l1_wf_cong [of "w\<lparr>l1_compl := 0\<rparr>" w] by (simp_all add: l1s_ok_def)
  then show ?thesis unfolding l1a_compl_execute_def using compl_loop_ok [OF assms(1,2)] by blast
qed

end
