(* ===== verification/Fw_L23api.thy ===== *)
theory Fw_L23api
  imports Fw_L1s Runs
begin

text \<open>
  What the firmware does with the L1CTL messages of layer 2/3 (\<^verbatim>\<open>layer1/l23_api.c\<close>, with the operations of
  \<^verbatim>\<open>layer1/async.c\<close> it uses, all in \<^verbatim>\<open>src/src/target/firmware\<close>), and the firmware as a whole: frame interrupts, messages and
  completions in any order.
\<close>

section \<open>Operations\<close>

text \<open>The state is the variables of layer 1 and the TDMA scheduler. A message is read from a zeroed buffer of 256 octets.\<close>

type_synonym fw_state = "l1s \<times> tdma_scheduler"

definition l1a_mftask_set :: "u32 \<Rightarrow> l1s \<Rightarrow> l1s" where
  "l1a_mftask_set tasks w = w\<lparr>l1_mframe := mframe_set tasks (l1_mframe w)\<rparr>"

definition mftask_enable :: "mframe_task \<Rightarrow> l1s \<Rightarrow> l1s" where
  "mftask_enable t w = w\<lparr>l1_mframe := mframe_enable (mf_task_nr t) (l1_mframe w)\<rparr>"

definition mftask_disable :: "mframe_task \<Rightarrow> l1s \<Rightarrow> l1s" where
  "mftask_disable t w = w\<lparr>l1_mframe := mframe_disable (mf_task_nr t) (l1_mframe w)\<rparr>"

definition l1a_tch_mode_set :: "u8 \<Rightarrow> l1s \<Rightarrow> l1s" where
  "l1a_tch_mode_set mode w = w\<lparr>l1_tch_mode := if mode \<in> {0x01, 0x21, 0x0f, 0x03, 0x0b, 0x13} then mode else 0\<rparr>"

definition audio_set_enabled :: "u8 \<Rightarrow> u8 \<Rightarrow> l1s \<Rightarrow> l1s" where
  "audio_set_enabled tch_mode audio_mode w =
     hw (if tch_mode = 0 then Hw_audio False False else Hw_audio (audio_mode AND 0x01 \<noteq> 0) (audio_mode AND 0x04 \<noteq> 0)) w"

text \<open>The key is loaded backwards, as four words, when there is an algorithm.\<close>

definition dsp_load_ciph_param :: "u8 \<Rightarrow> u8 list \<Rightarrow> l1s \<Rightarrow> l1s" where
  "dsp_load_ciph_param mode key w =
     hw (Hw_ciph mode (if mode = 0 then [] else map (\<lambda>i. be16 i key) [6, 4, 2, 0])) w"

definition fb_sched_set :: "tdma_item list" where
  "fb_sched_set = [SCHED_ITEM_DT L1s_fbdet_cmd 0 0 0, SCHED_END_FRAME, SCHED_END_FRAME] @
     concat (map (\<lambda>k. [SCHED_ITEM L1s_fbdet_resp (- 4) 0 (word_of_nat k), SCHED_END_FRAME]) [1..<13]) @ [SCHED_END_SET]"

definition sb_sched_set :: "tdma_item list" where
  "sb_sched_set = [
     SCHED_ITEM_DT L1s_sbdet_cmd 0 0 1, SCHED_END_FRAME,
     SCHED_ITEM_DT L1s_sbdet_cmd 0 0 2, SCHED_END_FRAME,
     SCHED_END_FRAME,
     SCHED_ITEM L1s_sbdet_resp (- 4) 0 1, SCHED_END_FRAME,
     SCHED_ITEM L1s_sbdet_resp (- 4) 0 2, SCHED_END_FRAME,
     SCHED_END_SET]"

definition l1s_reset :: "fw_state \<Rightarrow> fw_state option" where
  "l1s_reset st = do {
     let (w, s) = st;
     let w = w\<lparr>l1_fb_mode := 0, l1_tx_power := 7, ded_type := GSM_DCHAN_NONE, l1_events := sched_gsmtime_reset (l1_events w),
               l1_mframe := mframe_reset (l1_mframe w)\<rparr>;
     (_, s) \<leftarrow> tdma_schedule 0 L1s_abort_cmd 0 0 0 10 (tdma_sched_reset s);
     Some (dsp_load_ciph_param 0 [] w, s) }"

text \<open>The request for a frequency and synchronisation burst: what it asks is noted, and the first search scheduled.\<close>

definition l1s_fbsb_req :: "u8 \<Rightarrow> fbsb_req \<Rightarrow> fw_state \<Rightarrow> fw_state option" where
  "l1s_fbsb_req base_fn req st = do {
     let (w, s) = st;
     let w = w\<lparr>fbs_req := req, fbs_initial_err := 0, fbs_fb_retries := 0, fbs_afc_retries := 0\<rparr>;
     (_, s) \<leftarrow> (if fr_flags req AND 0x03 \<noteq> 0 then tdma_schedule_set base_fn fb_sched_set 0 s
       else if fr_flags req AND 0x04 \<noteq> 0 then tdma_schedule_set base_fn sb_sched_set 0 s
       else Some (0, s));
     Some (w, s) }"

definition l1s_pm_test :: "u8 \<Rightarrow> u16 \<Rightarrow> fw_state \<Rightarrow> fw_state option" where
  "l1s_pm_test base_fn arfcn st = do {
     (_, s) \<leftarrow> tdma_schedule_set base_fn pm_sched_set arfcn (snd st);
     Some (fst st, s) }"

section \<open>Handlers\<close>

text \<open>The fields are where the packed structures of \<^verbatim>\<open>l1ctl_proto.h\<close> have them. A hopping sequence with more than 64
  frequencies, and more than 64 neighbour cells, are written past the end of the arrays.\<close>

definition est_freq :: "nat \<Rightarrow> u8 list \<Rightarrow> fw_freq option" where
  "est_freq off msg =
     (if octet (off + 1) msg \<noteq> 0 then
        let n = octet (off + 4) msg in
        if unat n > 64 then None
        else Some (FH1 (octet (off + 2) msg) (octet (off + 3) msg) n (map (\<lambda>i. be16 (off + 6 + 2 * i) msg) [0..<unat n]))
      else Some (FH0 (be16 (off + 2) msg)))"

definition fw_rx_fbsb_req :: "u8 list \<Rightarrow> fw_state \<Rightarrow> fw_state option" where
  "fw_rx_fbsb_req msg st =
     (if 13 > length msg then Some st
      else do {
        (w, s) \<leftarrow> l1s_reset st;
        l1s_fbsb_req 1 \<lparr>fr_arfcn = be16 4 msg, fr_timeout = be16 6 msg, fr_thresh1 = be16 8 msg, fr_thresh2 = be16 10 msg,
            fr_avg = octet 12 msg, fr_flags = octet 13 msg, fr_info_idx = octet 14 msg, fr_rxlev = octet 16 msg\<rparr>
          (w\<lparr>sv_ccch_mode := octet 15 msg\<rparr>, s) })"

definition fw_rx_dm_est_req :: "u8 list \<Rightarrow> l1s \<Rightarrow> l1s option" where
  "fw_rx_dm_est_req msg w = do {
     let chan_nr = octet 4 msg;
     let w = mftask_disable MF_TASK_NEIGH_PM51_C0T0 w;
     let w = w\<lparr>ded_type := chan_nr2dchan_type chan_nr, ded_tsc := octet 8 msg, ded_tn := chan_nr AND 0x7\<rparr>;
     freq \<leftarrow> est_freq 8 msg;
     let w = w\<lparr>ded_freq := freq\<rparr>;
     let tch_mode = octet 142 msg;
     let audio_mode = octet 143 msg;
     let tch_flags = octet 144 msg;
     let w = (if chan_nr_is_tch chan_nr then
                audio_set_enabled tch_mode audio_mode
                  ((l1a_tch_mode_set tch_mode w)\<lparr>l1_audio_mode := audio_mode, l1_tch_flags := tch_flags, l1_tch_sync := True\<rparr>)
              else w);
     Some (l1a_mftask_set (chan_nr2mf_task_mask chan_nr NEIGH_MODE_PM) w) }"

definition fw_rx_dm_freq_req :: "u8 list \<Rightarrow> l1s \<Rightarrow> l1s option" where
  "fw_rx_dm_freq_req msg w = do {
     let w = w\<lparr>ded_st_tsc := octet 10 msg\<rparr>;
     freq \<leftarrow> est_freq 10 msg;
     Some (l1a_freq_req (ucast (be16 8 msg)) (w\<lparr>ded_st_freq := freq\<rparr>)) }"

definition fw_rx_crypto_req :: "u8 list \<Rightarrow> l1s \<Rightarrow> l1s" where
  "fw_rx_crypto_req msg w =
     (if octet 8 msg \<noteq> 0 \<and> octet 9 msg \<noteq> 8 then w
      else dsp_load_ciph_param (octet 8 msg) (map (\<lambda>i. octet i msg) [10..<18]) w)"

definition fw_rx_dm_rel_req :: "l1s \<Rightarrow> l1s" where
  "fw_rx_dm_rel_req w =
     (let w = l1a_mftask_set 0 w;
          w = w\<lparr>ded_type := GSM_DCHAN_NONE, txq_main := [], txq_sacch := [], txq_traffic := [], l1_tx_meas := None\<rparr>;
          w = l1a_tch_mode_set 0 (dsp_load_ciph_param 0 [] w) in
      (audio_set_enabled 0 0 w)\<lparr>l1_tch_loop := 0, np_n := 0\<rparr>)"

definition fw_rx_param_req :: "u8 list \<Rightarrow> l1s \<Rightarrow> l1s" where
  "fw_rx_param_req msg w = w\<lparr>l1_ta := octet 8 msg, l1_tx_power := octet 9 msg\<rparr>"

definition fw_rx_rach_req :: "u8 list \<Rightarrow> l1s \<Rightarrow> l1s option" where
  "fw_rx_rach_req msg w = l1a_rach_req (be16 10 msg) (octet 9 msg) (octet 8 msg) (octet 12 msg) w"

text \<open>A measurement report on the SACCH is kept to be repeated; all else is queued for its channel.\<close>

definition fw_rx_data_req :: "u8 list \<Rightarrow> l1s \<Rightarrow> l1s" where
  "fw_rx_data_req msg w =
     (if octet 5 msg AND 0x40 \<noteq> 0 then
        if octet 13 msg = 0x06 \<and> octet 14 msg = 0x15 then w\<lparr>l1_tx_meas := Some msg\<rparr>
        else w\<lparr>txq_sacch := txq_sacch w @ [msg]\<rparr>
      else w\<lparr>txq_main := txq_main w @ [msg]\<rparr>)"

definition fw_rx_pm_req :: "u8 list \<Rightarrow> fw_state \<Rightarrow> fw_state option" where
  "fw_rx_pm_req msg st =
     (let (w, s) = st;
          w = (if octet 4 msg = 1 then w\<lparr>pm_mode := 1, pm_start := be16 8 msg, pm_next := be16 8 msg, pm_end := be16 10 msg\<rparr> else w);
          w = hw Hw_reset_hw w in
      l1s_pm_test 1 (pm_next w) (w, s))"

definition fw_tx_reset :: "u8 \<Rightarrow> u8 \<Rightarrow> l1s \<Rightarrow> l1s" where
  "fw_tx_reset msg_type reset_type w = l1_queue_for_l2 (l1ctl_msgb_alloc msg_type @ [reset_type, 0, 0, 0]) w"

definition fw_rx_reset_req :: "u8 list \<Rightarrow> fw_state \<Rightarrow> fw_state option" where
  "fw_rx_reset_req msg st =
     (if octet 4 msg = 1 then do {
        (w, s) \<leftarrow> l1s_reset st;
        Some (fw_tx_reset 0x0e (octet 4 msg) (audio_set_enabled 0 0 (hw Hw_reset_hw w)), s) }
      else if octet 4 msg = 2 then
        let w = fw_tx_reset 0x0e (octet 4 msg) (fst st) in
        Some (w\<lparr>l1_events := sched_gsmtime_reset (l1_events w)\<rparr>, snd st)
      else Some st)"

definition fw_rx_ccch_mode_req :: "u8 list \<Rightarrow> l1s \<Rightarrow> l1s" where
  "fw_rx_ccch_mode_req msg w =
     (let ccch_mode = octet 4 msg;
          w = mftask_disable MF_TASK_CCCH (mftask_disable MF_TASK_CCCH_COMB (w\<lparr>sv_ccch_mode := ccch_mode\<rparr>));
          w = (if ccch_mode = 2 then mftask_enable MF_TASK_CCCH_COMB w
               else if ccch_mode = 1 then mftask_enable MF_TASK_CCCH w
               else if ccch_mode = 3 then mftask_enable MF_TASK_SDCCH4_CBCH (mftask_enable MF_TASK_CCCH_COMB w)
               else w) in
      l1_queue_for_l2 (l1ctl_msgb_alloc 0x11 @ [ccch_mode, 0, 0, 0]) w)"

definition fw_rx_tch_mode_req :: "u8 list \<Rightarrow> l1s \<Rightarrow> l1s" where
  "fw_rx_tch_mode_req msg w =
     (let audio_mode = octet 5 msg;
          w = (l1a_tch_mode_set (octet 4 msg) w)\<lparr>l1_audio_mode := audio_mode, l1_tch_flags := octet 9 msg\<rparr>;
          tch_mode = l1_tch_mode w;
          w = (audio_set_enabled tch_mode audio_mode w)\<lparr>l1_tch_sync := True, l1_tch_loop := octet 6 msg\<rparr> in
      l1_queue_for_l2 (l1ctl_msgb_alloc 0x19 @ [tch_mode, audio_mode, l1_tch_loop w, 0, 0, l1_tch_flags w]) w)"

definition fw_rx_neigh_pm_req :: "u8 list \<Rightarrow> l1s \<Rightarrow> l1s option" where
  "fw_rx_neigh_pm_req msg w =
     (let n = unat (octet 4 msg) in
      if n > 64 then None
      else
        let w = w\<lparr>np_second := 0, np_pos := 0, np_running := False,
                  np_arfcn := map (\<lambda>i. be16 (6 + 2 * i) msg) [0..<n] @ drop n (np_arfcn w),
                  np_tn := map (\<lambda>i. octet (134 + i) msg) [0..<n] @ drop n (np_tn w), np_n := octet 4 msg\<rparr> in
        Some (if ded_type w = GSM_DCHAN_NONE then mftask_enable MF_TASK_NEIGH_PM51_C0T0 w else w))"

definition fw_rx_traffic_req :: "u8 list \<Rightarrow> l1s \<Rightarrow> l1s" where
  "fw_rx_traffic_req msg w = (if length (txq_traffic w) \<ge> 4 then w else w\<lparr>txq_traffic := txq_traffic w @ [msg]\<rparr>)"

definition fw_sim_req :: "u8 list \<Rightarrow> l1s \<Rightarrow> l1s" where
  "fw_sim_req msg w = hw (Hw_sim (drop 4 msg)) w"

section \<open>The main loop\<close>

definition l1a_l23_rx :: "u8 list \<Rightarrow> fw_state \<Rightarrow> fw_state" where
  "l1a_l23_rx msg st = ((fst st)\<lparr>l1_rxq := l1_rxq (fst st) @ [msg]\<rparr>, snd st)"

definition on_l1s :: "(l1s \<Rightarrow> l1s option) \<Rightarrow> fw_state \<Rightarrow> fw_state option" where
  "on_l1s f st = do { w \<leftarrow> f (fst st); Some (w, snd st) }"

definition fw_dispatch :: "u8 list \<Rightarrow> fw_state \<Rightarrow> fw_state option" where
  "fw_dispatch msg =
     (let t = octet 0 msg in
      if length msg < 4 then Some
      else if t = 0x01 then fw_rx_fbsb_req msg
      else if t = 0x05 then on_l1s (fw_rx_dm_est_req msg)
      else if t = 0x12 then on_l1s (Some \<circ> fw_rx_dm_rel_req)
      else if t = 0x13 then on_l1s (Some \<circ> fw_rx_param_req msg)
      else if t = 0x14 then on_l1s (fw_rx_dm_freq_req msg)
      else if t = 0x15 then on_l1s (Some \<circ> fw_rx_crypto_req msg)
      else if t = 0x04 then on_l1s (fw_rx_rach_req msg)
      else if t = 0x06 then on_l1s (Some \<circ> fw_rx_data_req msg)
      else if t = 0x08 then fw_rx_pm_req msg
      else if t = 0x0d then fw_rx_reset_req msg
      else if t = 0x10 then on_l1s (Some \<circ> fw_rx_ccch_mode_req msg)
      else if t = 0x18 then on_l1s (Some \<circ> fw_rx_tch_mode_req msg)
      else if t = 0x1a then on_l1s (fw_rx_neigh_pm_req msg)
      else if t = 0x1c then on_l1s (Some \<circ> fw_rx_traffic_req msg)
      else if t = 0x16 then on_l1s (Some \<circ> fw_sim_req msg)
      else Some)"

definition l1a_l23_handler :: "fw_state \<Rightarrow> fw_state option" where
  "l1a_l23_handler st =
     (case l1_rxq (fst st) of
        [] \<Rightarrow> Some st
      | msg # rest \<Rightarrow> fw_dispatch msg ((fst st)\<lparr>l1_rxq := rest\<rparr>, snd st))"

text \<open>What happens to the firmware: a frame interrupt, with what the DSP has measured; a message from the serial line; and
  in the main loop a turn of the completions and of the message handler.\<close>

datatype fw_input = Frame dsp_read | Serial_Rx "u8 list" | Main_Compl | Main_L23

fun fw_step :: "l1s tdma_run \<Rightarrow> l1_compls \<Rightarrow> l1_compls \<Rightarrow> fw_input \<Rightarrow> fw_state \<Rightarrow> fw_state option" where
  "fw_step other fb_compl tch_compl (Frame d) st = l1_sync (l1_run other) ((fst st)\<lparr>l1_dsp := d\<rparr>, snd st)"
| "fw_step other fb_compl tch_compl (Serial_Rx msg) st = Some (l1a_l23_rx msg st)"
| "fw_step other fb_compl tch_compl Main_Compl st = on_l1s (l1a_compl_execute fb_compl tch_compl) st"
| "fw_step other fb_compl tch_compl Main_L23 st = l1a_l23_handler st"

section \<open>Every handler keeps the invariant\<close>

definition w_ok :: "l1s \<Rightarrow> bool" where
  "w_ok w \<longleftrightarrow> l1_wf w \<and> l1s_ok w"

lemma fold_tasks_bit:
  "bit (fold (\<lambda>t m. m OR task_set (mf_task_nr t)) ts x) i \<Longrightarrow> bit x i \<or> i < 29"
proof (induction ts arbitrary: x)
  case (Cons t ts)
  then have "bit (x OR task_set (mf_task_nr t)) i \<or> i < 29" by simp
  then show ?case using mf_task_nr_less [of t] by (auto simp: bit_or_iff task_set_def bit_push_bit_iff bit_1_iff simp del: push_bit_of_1)
qed simp

lemma task_set_less: "bit (task_set (mf_task_nr t)) i \<Longrightarrow> i < 29"
  using mf_task_nr_less [of t] by (auto simp: task_set_def bit_push_bit_iff bit_1_iff simp del: push_bit_of_1)

lemma task_mask_less: "bit (chan_nr2mf_task_mask c mode) i \<Longrightarrow> i < 29"
proof -
  obtain n where n: "drop_bit 3 c = word_of_nat n" "n \<in> set [0..<32]" by (rule cbits_cases)
  have zero: "bit (chan_nr2mf_task_mask c 0) i \<Longrightarrow> i < 29"
    unfolding task_mask_eq [OF n] using fold_tasks_bit [of _ 0 i] by auto
  have "bit (chan_nr2mf_task_mask c mode) i \<Longrightarrow> bit (chan_nr2mf_task_mask c 0) i \<or> i < 29"
    unfolding chan_nr2mf_task_mask_def Let_def case_prod_beta
    using task_set_less [of MF_TASK_NEIGH_PM51 i] task_set_less [of MF_TASK_NEIGH_PM26E i] task_set_less [of MF_TASK_NEIGH_PM26O i]
    by (simp only: bit_or_iff split: if_split_asm mf_type.split_asm) (blast | simp)+
  then show "bit (chan_nr2mf_task_mask c mode) i \<Longrightarrow> i < 29" using zero by blast
qed

lemma w_ok_mftask_set: "w_ok w \<Longrightarrow> (\<And>i. bit tasks i \<Longrightarrow> i < 29) \<Longrightarrow> w_ok (l1a_mftask_set tasks w)"
  by (auto simp: w_ok_def l1_wf_def l1s_ok_def l1a_mftask_set_def mframe_set_def)

lemma w_ok_mftask_enable: "w_ok w \<Longrightarrow> w_ok (mftask_enable t w)"
  using mf_task_nr_less [of t]
  by (auto simp: w_ok_def l1_wf_def l1s_ok_def mftask_enable_def mframe_enable_def bit_or_iff bit_push_bit_iff bit_1_iff simp del: push_bit_of_1)

lemma w_ok_mftask_disable: "w_ok w \<Longrightarrow> w_ok (mftask_disable t w)"
  by (auto simp: w_ok_def l1_wf_def l1s_ok_def mftask_disable_def mframe_disable_def bit_and_iff)

lemma w_ok_hw: "w_ok (hw h w) = w_ok w"
  by (simp add: w_ok_def l1_wf_def l1s_ok_def hw_def)

lemma w_ok_queue: "w_ok w \<Longrightarrow> length m \<le> 204 \<Longrightarrow> w_ok (l1_queue_for_l2 m w)"
  by (simp add: w_ok_def queue_wf queue_ok(1))

lemma w_ok_events: "w_ok w \<Longrightarrow> events_wf ev \<Longrightarrow> w_ok (w\<lparr>l1_events := ev\<rparr>)"
  by (simp add: w_ok_def l1_wf_def l1s_ok_def)

lemma w_ok_freq: "w_ok w \<Longrightarrow> freq_ok f \<Longrightarrow> w_ok (w\<lparr>ded_freq := f\<rparr>) \<and> w_ok (w\<lparr>ded_st_freq := f\<rparr>)"
  by (simp add: w_ok_def l1_wf_def l1s_ok_def)

text \<open>The variables the invariant does not speak of.\<close>

lemma w_ok_free:
  "w_ok (w\<lparr>ded_type := a\<rparr>) = w_ok w" "w_ok (w\<lparr>ded_tsc := b\<rparr>) = w_ok w" "w_ok (w\<lparr>ded_tn := b\<rparr>) = w_ok w"
  "w_ok (w\<lparr>ded_st_tsc := b\<rparr>) = w_ok w" "w_ok (w\<lparr>l1_tch_mode := b\<rparr>) = w_ok w" "w_ok (w\<lparr>l1_audio_mode := b\<rparr>) = w_ok w"
  "w_ok (w\<lparr>l1_tch_flags := b\<rparr>) = w_ok w" "w_ok (w\<lparr>l1_tch_sync := c\<rparr>) = w_ok w" "w_ok (w\<lparr>l1_tch_loop := b\<rparr>) = w_ok w"
  "w_ok (w\<lparr>l1_ta := b\<rparr>) = w_ok w" "w_ok (w\<lparr>l1_tx_power := b\<rparr>) = w_ok w" "w_ok (w\<lparr>l1_fb_mode := b\<rparr>) = w_ok w"
  "w_ok (w\<lparr>sv_ccch_mode := b\<rparr>) = w_ok w" "w_ok (w\<lparr>rach_ra := b\<rparr>) = w_ok w" "w_ok (w\<lparr>rach_uic := b\<rparr>) = w_ok w"
  "w_ok (w\<lparr>last_rach_fn := d\<rparr>) = w_ok w" "w_ok (w\<lparr>last_rach_arfcn := e\<rparr>) = w_ok w" "w_ok (w\<lparr>l1_tx_meas := f\<rparr>) = w_ok w"
  "w_ok (w\<lparr>txq_main := q\<rparr>) = w_ok w" "w_ok (w\<lparr>txq_sacch := q\<rparr>) = w_ok w" "w_ok (w\<lparr>pm_mode := d\<rparr>) = w_ok w"
  "w_ok (w\<lparr>pm_start := e\<rparr>) = w_ok w" "w_ok (w\<lparr>pm_next := e\<rparr>) = w_ok w" "w_ok (w\<lparr>pm_end := e\<rparr>) = w_ok w"
  "w_ok (w\<lparr>np_second := b\<rparr>) = w_ok w" "w_ok (w\<lparr>np_running := c\<rparr>) = w_ok w" "w_ok (w\<lparr>fbs_req := r\<rparr>) = w_ok w"
  "w_ok (w\<lparr>fbs_initial_err := e\<rparr>) = w_ok w" "w_ok (w\<lparr>fbs_fb_retries := b\<rparr>) = w_ok w" "w_ok (w\<lparr>fbs_afc_retries := b\<rparr>) = w_ok w"
  "w_ok (w\<lparr>l1_dsp := dr\<rparr>) = w_ok w"
  by (simp_all add: w_ok_def l1_wf_def l1s_ok_def)

lemma events_ok: "w_ok w \<Longrightarrow> set_closed si \<Longrightarrow> events_wf (snd (sched_gsmtime si fn p3 (l1_events w)))"
  using sched_gsmtime_ok [of "l1_events w" si fn p3 "fst (sched_gsmtime si fn p3 (l1_events w))"] by (simp add: w_ok_def l1_wf_def)

lemma events_reset_ok: "events_wf ev \<Longrightarrow> events_wf (sched_gsmtime_reset ev)"
  by (simp add: events_wf_def sched_gsmtime_reset_def)

lemma est_freq_ok: "seq_fits off msg \<Longrightarrow> runs freq_ok (est_freq off msg)"
  by (auto simp: est_freq_def seq_fits_def word_le_nat_alt Let_def)

lemma audio_ok: "w_ok (audio_set_enabled m a w) = w_ok w"
  by (simp add: audio_set_enabled_def w_ok_hw)

lemma tch_mode_ok: "w_ok (l1a_tch_mode_set m w) = w_ok w"
  by (simp only: l1a_tch_mode_set_def w_ok_free)

lemma ciph_ok: "w_ok (dsp_load_ciph_param m k w) = w_ok w"
  by (simp add: dsp_load_ciph_param_def w_ok_hw)

lemmas w_ok_simps = w_ok_free w_ok_hw audio_ok tch_mode_ok ciph_ok

lemma dm_est_ok: "w_ok w \<Longrightarrow> seq_fits 8 msg \<Longrightarrow> runs w_ok (fw_rx_dm_est_req msg w)"
proof -
  assume w: "w_ok w" and fits: "seq_fits 8 msg"
  obtain f where f: "est_freq 8 msg = Some f" "freq_ok f" using est_freq_ok [OF fits] by (auto simp: runs_def)
  let ?v = "(mftask_disable MF_TASK_NEIGH_PM51_C0T0 w)\<lparr>ded_type := chan_nr2dchan_type (octet 4 msg), ded_tsc := octet 8 msg,
      ded_tn := octet 4 msg AND 0x7\<rparr>\<lparr>ded_freq := f\<rparr>"
  have "w_ok ?v" using w_ok_freq [OF _ f(2)] w_ok_mftask_disable [OF w] by (simp only: w_ok_free)
  then show ?thesis
    unfolding fw_rx_dm_est_req_def Let_def f(1) Option.bind.simps runs_simps
    by (intro w_ok_mftask_set task_mask_less) (auto simp only: w_ok_simps if_split)
qed

lemma freq_req_ok: "w_ok w \<Longrightarrow> w_ok (l1a_freq_req fn w)"
proof -
  assume w: "w_ok w"
  have "w_ok (w\<lparr>ded_tsc := a, ded_freq := ded_st_freq w\<rparr>)" for a
    using w by (simp add: w_ok_def l1_wf_def l1s_ok_def)
  then show ?thesis using w_ok_events [OF w events_ok [OF w pm_set_closed(3)]]
    by (simp add: l1a_freq_req_def l1s_freq_cmd_def Let_def)
qed

lemma dm_freq_ok: "w_ok w \<Longrightarrow> seq_fits 10 msg \<Longrightarrow> runs w_ok (fw_rx_dm_freq_req msg w)"
  using est_freq_ok [of 10 msg] w_ok_freq [of "w\<lparr>ded_st_tsc := octet 10 msg\<rparr>"]
  by (auto simp: fw_rx_dm_freq_req_def runs_def w_ok_free freq_req_ok)

lemma dm_rel_ok: "w_ok w \<Longrightarrow> w_ok (fw_rx_dm_rel_req w)"
proof -
  assume w: "w_ok w"
  have "w_ok (l1a_mftask_set 0 w)" by (rule w_ok_mftask_set [OF w]) simp
  then have "w_ok (v\<lparr>ded_type := GSM_DCHAN_NONE, txq_main := [], txq_sacch := [], txq_traffic := [], l1_tx_meas := None\<rparr>)"
    if "v = l1a_mftask_set 0 w" for v
    using that by (simp only: w_ok_free) (simp add: w_ok_def l1_wf_def l1s_ok_def)
  moreover have "w_ok v \<Longrightarrow> w_ok (v\<lparr>np_n := 0\<rparr>)" for v by (simp add: w_ok_def l1_wf_def l1s_ok_def)
  ultimately show ?thesis by (simp add: fw_rx_dm_rel_req_def Let_def w_ok_simps)
qed

lemma rach_req_ok: "w_ok w \<Longrightarrow> runs w_ok (l1a_rach_req offset combined ra uic w)"
proof -
  assume w: "w_ok w"
  obtain n where n: "n < HYPER" "l1_current_time w = time_of n" using w by (auto simp: w_ok_def l1_wf_def clock_ok_def)
  have "unat (ft_t3 (time_of n)) = n mod 51" by (simp add: time_of_def unat_of_nat less_trans [OF mod_less_divisor])
  then have "index_at t3_to_rach_comb (unat (ft_t3 (l1_current_time w))) \<noteq> None"
    unfolding n(2) by (simp add: index_at_def t3_to_rach_comb_def)
  moreover have "index_at rach_to_t3_comb (unat (x mod 27)) \<noteq> None" for x :: u16
    using mod_less_divisor [of 27 "unat x"] by (simp add: index_at_def rach_to_t3_comb_def unat_mod)
  ultimately have "\<exists>fn. rach_fn offset combined w = Some fn"
    by (fastforce simp: rach_fn_def Let_def)
  moreover have "w_ok (w\<lparr>l1_events := snd (sched_gsmtime rach_sched_set_ul fn 0 (l1_events w))\<rparr>)" for fn
    by (rule w_ok_events [OF w events_ok [OF w pm_set_closed(2)]])
  ultimately show ?thesis
    by (auto simp: l1a_rach_req_def) (simp only: w_ok_def l1_wf_def l1s_ok_def, simp)
qed

lemma data_req_ok: "w_ok w \<Longrightarrow> w_ok (fw_rx_data_req msg w)"
  by (simp add: fw_rx_data_req_def w_ok_free)

lemma ccch_mode_ok: "w_ok w \<Longrightarrow> w_ok (fw_rx_ccch_mode_req msg w)"
  unfolding fw_rx_ccch_mode_req_def Let_def
  by (intro w_ok_queue) (auto simp: w_ok_free intro!: w_ok_mftask_enable w_ok_mftask_disable)

lemma tch_mode_req_ok: "w_ok w \<Longrightarrow> w_ok (fw_rx_tch_mode_req msg w)"
  unfolding fw_rx_tch_mode_req_def Let_def by (intro w_ok_queue) (simp_all add: w_ok_simps)

lemma neigh_req_ok:
  assumes w: "w_ok w" and n: "octet 4 msg \<le> 64"
  shows "runs w_ok (fw_rx_neigh_pm_req msg w)"
proof -
  let ?n = "unat (octet 4 msg)"
  have 64: "?n \<le> 64" using n by (simp add: word_le_nat_alt)
  let ?v = "w\<lparr>np_second := 0, np_pos := 0, np_running := False, np_arfcn := map (\<lambda>i. be16 (6 + 2 * i) msg) [0..<?n] @ drop ?n (np_arfcn w),
      np_tn := map (\<lambda>i. octet (134 + i) msg) [0..<?n] @ drop ?n (np_tn w), np_n := octet 4 msg\<rparr>"
  have "w_ok ?v" using w n 64 by (simp add: w_ok_def l1_wf_def l1s_ok_def)
  then show ?thesis using 64 w_ok_mftask_enable [of ?v] by (simp add: fw_rx_neigh_pm_req_def Let_def)
qed

lemma traffic_ok: "w_ok w \<Longrightarrow> w_ok (fw_rx_traffic_req msg w)"
  by (auto simp: fw_rx_traffic_req_def w_ok_def l1_wf_def l1s_ok_def)

section \<open>The firmware serves whatever comes\<close>

definition fw_wf :: "fw_state \<Rightarrow> bool" where
  "fw_wf st \<longleftrightarrow> w_ok (fst st) \<and> tdma_wf (snd st)"

lemma on_l1s_ok: "fw_wf st \<Longrightarrow> (\<And>w. w_ok w \<Longrightarrow> runs w_ok (f w)) \<Longrightarrow> runs fw_wf (on_l1s f st)"
  unfolding on_l1s_def by (rule runs_bind [of w_ok]) (simp_all add: fw_wf_def)

lemma l1s_reset_ok: "fw_wf st \<Longrightarrow> runs fw_wf (l1s_reset st)"
proof -
  assume st: "fw_wf st"
  obtain w s where ws: "st = (w, s)" by fastforce
  let ?v = "w\<lparr>l1_fb_mode := 0, l1_tx_power := 7, ded_type := GSM_DCHAN_NONE, l1_events := sched_gsmtime_reset (l1_events w),
               l1_mframe := mframe_reset (l1_mframe w)\<rparr>"
  have "w_ok ?v" using st events_reset_ok [of "l1_events w"] by (simp add: ws fw_wf_def w_ok_def l1_wf_def l1s_ok_def mframe_reset_def)
  moreover obtain rc s' where "tdma_schedule 0 L1s_abort_cmd 0 0 0 10 (tdma_sched_reset s) = Some (rc, s')" "tdma_wf s'"
    using schedule_refines [OF reset_wf, of s 0 L1s_abort_cmd 0 0 0 10] st by (auto simp: ws fw_wf_def)
  ultimately show ?thesis by (simp add: ws l1s_reset_def ciph_ok fw_wf_def)
qed

lemma set_ok: "tdma_wf s \<Longrightarrow> set_closed items \<Longrightarrow> \<exists>rc s'. tdma_schedule_set off items p3 s = Some (rc, s') \<and> tdma_wf s' \<and>
    due s' = ag_add_set off items p3 (due s)"
  using schedule_items_refines [of s items off 0 p3] by (auto simp: tdma_schedule_set_def)

lemma fbsb_sets_closed: "set_closed fb_sched_set" "set_closed sb_sched_set"
  by (simp_all add: set_closed_def fb_sched_set_def sb_sched_set_def SCHED_END_SET_def)

lemma fbsb_ok: "fw_wf st \<Longrightarrow> runs fw_wf (l1s_fbsb_req b req st)"
proof -
  assume st: "fw_wf st"
  obtain w s where ws: "st = (w, s)" by fastforce
  show ?thesis
    using set_ok [OF _ fbsb_sets_closed(1), of s b 0] set_ok [OF _ fbsb_sets_closed(2), of s b 0] st
    by (auto simp: l1s_fbsb_req_def ws fw_wf_def w_ok_free)
qed

lemma fbsb_req_ok: "fw_wf st \<Longrightarrow> runs fw_wf (fw_rx_fbsb_req msg st)"
  unfolding fw_rx_fbsb_req_def
proof (rule runs_if, simp)
  assume "fw_wf st"
  then show "runs fw_wf (do {
        (w, s) \<leftarrow> l1s_reset st;
        l1s_fbsb_req 1 \<lparr>fr_arfcn = be16 4 msg, fr_timeout = be16 6 msg, fr_thresh1 = be16 8 msg, fr_thresh2 = be16 10 msg,
            fr_avg = octet 12 msg, fr_flags = octet 13 msg, fr_info_idx = octet 14 msg, fr_rxlev = octet 16 msg\<rparr>
          (w\<lparr>sv_ccch_mode := octet 15 msg\<rparr>, s) })"
    by (intro runs_bind [OF l1s_reset_ok]) (auto intro!: fbsb_ok simp: fw_wf_def w_ok_free split: prod.split)
qed

lemma pm_test_ok: "fw_wf st \<Longrightarrow> runs fw_wf (l1s_pm_test b a st)"
  using set_ok [OF _ pm_set_closed(1), of "snd st" b a] by (auto simp: l1s_pm_test_def fw_wf_def)

lemma pm_req_ok: "fw_wf st \<Longrightarrow> runs fw_wf (fw_rx_pm_req msg st)"
  unfolding fw_rx_pm_req_def Let_def case_prod_beta
  by (rule pm_test_ok) (simp add: fw_wf_def w_ok_hw w_ok_free)

lemma reset_req_ok: "fw_wf st \<Longrightarrow> runs fw_wf (fw_rx_reset_req msg st)"
proof -
  assume st: "fw_wf st"
  have tx: "w_ok w \<Longrightarrow> w_ok (fw_tx_reset a b w)" for a b w
    unfolding fw_tx_reset_def by (rule w_ok_queue) simp_all
  have "runs fw_wf (do { (w, s) \<leftarrow> l1s_reset st; Some (fw_tx_reset 0x0e b (audio_set_enabled 0 0 (hw Hw_reset_hw w)), s) })" for b
    by (rule runs_bind [OF l1s_reset_ok [OF st]]) (auto simp: fw_wf_def audio_ok w_ok_hw intro: tx split: prod.split)
  moreover have "w_ok ((fw_tx_reset 0x0e b (fst st))\<lparr>l1_events := sched_gsmtime_reset (l1_events (fw_tx_reset 0x0e b (fst st)))\<rparr>)" for b
  proof (rule w_ok_events)
    show "w_ok (fw_tx_reset 0x0e b (fst st))" using st tx by (simp add: fw_wf_def)
    then show "events_wf (sched_gsmtime_reset (l1_events (fw_tx_reset 0x0e b (fst st))))"
      by (intro events_reset_ok) (simp add: w_ok_def l1_wf_def)
  qed
  ultimately show ?thesis using st by (simp add: fw_rx_reset_req_def Let_def fw_wf_def)
qed

lemma fw_dispatch_ok: "fw_wf st \<Longrightarrow> l23_fits msg \<Longrightarrow> runs fw_wf (fw_dispatch msg st)"
  by (simp add: fw_dispatch_def Let_def l23_fits_def fbsb_req_ok pm_req_ok reset_req_ok on_l1s_ok dm_est_ok dm_freq_ok rach_req_ok
      fw_rx_rach_req_def neigh_req_ok dm_rel_ok data_req_ok ccch_mode_ok tch_mode_req_ok traffic_ok fw_rx_param_req_def w_ok_simps
      fw_rx_crypto_req_def fw_sim_req_def split: if_splits)

lemma handler_ok: "fw_wf st \<Longrightarrow> runs fw_wf (l1a_l23_handler st)"
proof (cases "l1_rxq (fst st)")
  case (Cons msg rest)
  assume st: "fw_wf st"
  then have "l23_fits msg" "fw_wf ((fst st)\<lparr>l1_rxq := rest\<rparr>, snd st)"
    using Cons by (simp_all add: fw_wf_def w_ok_def l1_wf_def l1s_ok_def)
  then show ?thesis using Cons fw_dispatch_ok by (simp add: l1a_l23_handler_def)
qed (simp add: l1a_l23_handler_def)

fun fw_input_fits :: "fw_input \<Rightarrow> bool" where
  "fw_input_fits (Serial_Rx msg) = l23_fits msg"
| "fw_input_fits _ = True"

text \<open>The callbacks and completions that are not modelled are asked to keep the invariant too.\<close>

definition l1_rest_ok :: "l1s tdma_run \<Rightarrow> l1_compls \<Rightarrow> l1_compls \<Rightarrow> bool" where
  "l1_rest_ok other fb_compl tch_compl \<longleftrightarrow> cbs_ok l1s_ok other \<and> compls_ok fb_compl \<and> compls_ok tch_compl"

lemma fw_frame_ok: "cbs_ok l1s_ok other \<Longrightarrow> fw_wf st \<Longrightarrow> runs fw_wf (l1_sync (l1_run other) st)"
  using l1_sync_ok [of "snd st" "fst st" l1s_ok "l1_run other"] l1_run_ok [of other]
  by (auto simp: fw_wf_def w_ok_def runs_def)

lemma fw_step_ok:
  assumes "l1_rest_ok other fb_compl tch_compl" and st: "fw_wf st" and "fw_input_fits i"
  shows "runs fw_wf (fw_step other fb_compl tch_compl i st)"
proof (cases i)
  case (Frame d)
  have "fw_wf ((fst st)\<lparr>l1_dsp := d\<rparr>, snd st)" using st by (simp add: fw_wf_def w_ok_free)
  then show ?thesis using Frame fw_frame_ok assms(1) by (simp add: l1_rest_ok_def)
next
  case (Serial_Rx msg)
  then show ?thesis using st assms(3) by (simp add: l1a_l23_rx_def fw_wf_def w_ok_def l1_wf_def l1s_ok_def)
next
  case Main_Compl
  then show ?thesis using on_l1s_ok [OF st, of "l1a_compl_execute fb_compl tch_compl"] compl_execute_ok [of fb_compl tch_compl] assms(1)
    by (fastforce simp: w_ok_def runs_def l1_rest_ok_def)
next
  case Main_L23
  then show ?thesis using handler_ok [OF st] by simp
qed

lemma fw_loop:
  "l1_rest_ok other fb_compl tch_compl \<Longrightarrow>
   event_loop (fw_step other fb_compl tch_compl) (\<lambda>_. fw_wf) fw_input_fits (\<lambda>_. 0) 0"
  by unfold_locales (rule fw_step_ok)


definition l1s_zero :: l1s where
  "l1s_zero = fw_l1.extend fw_l1_zero (l1s.fields 0 0 0 0 7 0 False 0 0 0 [] [] [] None
     ([0x0f, 0x00, 0x01, 0x03, 0x49, 0x06, 0x15, 0x36, 0x76, 0x01, 0xc0] @ replicate 12 0) 0 0
     \<lparr>fr_arfcn = 0, fr_timeout = 0, fr_thresh1 = 0, fr_thresh2 = 0, fr_avg = 0, fr_flags = 0, fr_info_idx = 0, fr_rxlev = 0\<rparr> 0 0 0
     0 0 0 0 None 0 0 0 0 0 GSM_DCHAN_NONE 0 0 (FH0 0) 0 (FH0 0) 0 0 0 False (replicate 64 0) (replicate 64 0) (replicate 64 0)
     \<lparr>dr_pm0 = 0, dr_pm1 = 0, dr_gain8 = 0\<rparr> [] [] [] False)"

lemma l1s_zero_ok: "fw_wf (l1s_zero, tdma_zero)"
  using fw_l1_zero_wf tdma_wf_zero(1)
  by (simp add: fw_wf_def w_ok_def l1_wf_def l1s_ok_def l1s_zero_def fw_l1.defs l1s.defs)

lemma idle_rest_ok: "l1_rest_ok idle_run id id"
  by (simp add: l1_rest_ok_def cbs_ok_def idle_run_ok compls_ok_def l1s_ok_clock_free)

text \<open>A channel with a hopping sequence of two frequencies is asked for, between frames.\<close>

definition fw_demo :: "fw_input list" where
  "fw_demo = [Frame \<lparr>dr_pm0 = 800, dr_pm1 = 0, dr_gain8 = 100\<rparr>,
     Serial_Rx [0x05, 0, 0, 0, 0x0b, 0, 0, 0, 7, 1, 21, 3, 2, 0, 0, 10, 0, 20], Main_L23,
     Frame \<lparr>dr_pm0 = 0, dr_pm1 = 0, dr_gain8 = 100\<rparr>, Main_Compl]"


end
