(* ===== verification/Fw_L1req.thy ===== *)
theory Fw_L1req
  imports Fw_L23api
begin

text \<open>
  Requests of layer 2/3 that take effect at a frame: access bursts and changes of frequency. What the firmware schedules for
  them is compared with the frame structure of the standard, and followed through the calendar of events and the TDMA scheduler
  to the frame in which it is done.
\<close>

section \<open>The slots of a combined control channel\<close>

definition is_rach_slot :: "nat \<Rightarrow> bool" where
  "is_rach_slot f \<longleftrightarrow> f mod 51 \<in> set rach_to_t3_comb"

text \<open>The number of slots in the frames before one.\<close>

definition slots_before :: "nat \<Rightarrow> nat" where
  "slots_before f = 27 * (f div 51) + t3_to_rach_comb ! (f mod 51)"

lemma slot_tables:
  "list_all (\<lambda>r. t3_to_rach_comb ! (Suc r) = t3_to_rach_comb ! r + (if r \<in> set rach_to_t3_comb then 1 else 0)) [0..<50]"
  "t3_to_rach_comb ! 0 = 0" "t3_to_rach_comb ! 50 = 27" "50 \<notin> set rach_to_t3_comb"
  "list_all (\<lambda>k. t3_to_rach_comb ! (rach_to_t3_comb ! k) = k \<and> rach_to_t3_comb ! k < 51) [0..<27]"
  "length rach_to_t3_comb = 27" "length t3_to_rach_comb = 51"
  by (simp_all add: t3_to_rach_comb_def rach_to_t3_comb_def upt_rec)

lemma slots_before_Suc: "slots_before (Suc f) = slots_before f + (if is_rach_slot f then 1 else 0)"
proof (cases "f mod 51 = 50")
  case True
  then have "Suc f mod 51 = 0" "Suc f div 51 = Suc (f div 51)" by (simp_all add: mod_Suc div_Suc)
  then show ?thesis using True slot_tables(2,3,4) by (simp add: slots_before_def is_rach_slot_def)
next
  case False
  then have less: "f mod 51 < 50" using mod_less_divisor [of 51 f] by linarith
  then have "Suc f mod 51 = Suc (f mod 51)" "Suc f div 51 = f div 51" by (simp_all add: mod_Suc div_Suc)
  moreover have "f mod 51 \<in> set [0..<50]" using less by simp
  ultimately show ?thesis using slot_tables(1) by (simp add: slots_before_def is_rach_slot_def list_all_iff)
qed

lemma slots_between: "n \<le> f \<Longrightarrow> card {g. n \<le> g \<and> g < f \<and> is_rach_slot g} = slots_before f - slots_before n \<and> slots_before n \<le> slots_before f"
proof (induction f rule: dec_induct)
  case (step f)
  have "{g. n \<le> g \<and> g < Suc f \<and> is_rach_slot g} = (if is_rach_slot f then insert f {g. n \<le> g \<and> g < f \<and> is_rach_slot g} else {g. n \<le> g \<and> g < f \<and> is_rach_slot g})"
    using step.hyps by (auto simp: less_Suc_eq)
  then show ?case using step by (simp add: slots_before_Suc Suc_diff_le)
qed simp

section \<open>Access bursts\<close>

lemma ucast_nat: "ucast x = word_of_nat (unat x)"
  by (simp add: of_nat_unat)

lemma time_of_t3: "unat (ft_t3 (time_of n)) = n mod 51" "ucast (ft_t3 (time_of n)) = (word_of_nat (n mod 51) :: u32)"
proof -
  have "n mod 51 < 256" by (rule less_trans [OF mod_less_divisor]) simp_all
  then show "unat (ft_t3 (time_of n)) = n mod 51" by (simp add: time_of_def unat_of_nat)
  then show "ucast (ft_t3 (time_of n)) = (word_of_nat (n mod 51) :: u32)" by (simp only: ucast_nat)
qed

lemma word_mod_hyper: "x < 2 ^ 32 \<Longrightarrow> (word_of_nat x :: u32) mod GSM_MAX_FN = word_of_nat (x mod HYPER)"
proof -
  assume x: "x < 2 ^ 32"
  have "unat ((word_of_nat x :: u32) mod GSM_MAX_FN) = x mod HYPER" using x by (simp add: unat_mod unat_of_nat)
  moreover have "x mod HYPER < 2 ^ 32" by (rule less_trans [OF mod_less_divisor]) simp_all
  ultimately show ?thesis by (simp add: word_unat_eq_iff unat_of_nat)
qed

lemma slot_frame:
  assumes "slots = slots_before n + k"
  defines "f \<equiv> n - n mod 51 + (slots - 27 * (n div 51)) div 27 * 51 + rach_to_t3_comb ! ((slots - 27 * (n div 51)) mod 27)"
  shows "slots_before f = slots \<and> is_rach_slot f"
proof -
  let ?o = "slots - 27 * (n div 51)"
  have o: "27 * (n div 51) + ?o = slots" using assms(1) by (simp add: slots_before_def)
  have r: "rach_to_t3_comb ! (?o mod 27) < 51" "t3_to_rach_comb ! (rach_to_t3_comb ! (?o mod 27)) = ?o mod 27"
    using slot_tables(5) by (simp_all add: list_all_iff)
  have "f = 51 * (n div 51 + ?o div 27) + rach_to_t3_comb ! (?o mod 27)" by (simp add: f_def minus_mod_eq_mult_div)
  then have f: "f div 51 = n div 51 + ?o div 27" "f mod 51 = rach_to_t3_comb ! (?o mod 27)" 
    using div_mult_self2 [of 51 "rach_to_t3_comb ! (?o mod 27)" "n div 51 + ?o div 27"] mod_mult_self2 [of "rach_to_t3_comb ! (?o mod 27)" 51 "n div 51 + ?o div 27"] r(1)
    by (simp_all only: add.commute [of "51 * _"] div_less mod_less)
  have "slots_before f = 27 * (n div 51) + (27 * (?o div 27) + ?o mod 27)" by (simp add: slots_before_def f r(2) distrib_left)
  also have "\<dots> = slots" using o by simp
  finally show ?thesis using f(2) slot_tables(6) by (simp add: is_rach_slot_def)
qed

lemma rach_fn_combined:
  assumes "n < HYPER" and "l1_current_time w = time_of n" and "ded_type w \<notin> {GSM_DCHAN_TCH_F, GSM_DCHAN_TCH_H}" and "combined \<noteq> 0"
    and "unat offset \<le> 65000"
  shows "\<exists>f. rach_fn offset combined w = Some (word_of_nat (f mod HYPER)) \<and> is_rach_slot f \<and> n \<le> f \<and>
    card {g. n \<le> g \<and> g < f \<and> is_rach_slot g} = unat offset + 3"
proof -
  let ?k = "unat offset + 3" and ?t = "t3_to_rach_comb ! (n mod 51)"
  define f where "f = n - n mod 51 + (?k + ?t) div 27 * 51 + rach_to_t3_comb ! ((?k + ?t) mod 27)"
  have t: "?t \<le> 27"
  proof -
    have "list_all (\<lambda>x. x \<le> 27) t3_to_rach_comb" by (simp add: t3_to_rach_comb_def)
    then show ?thesis using slot_tables(7) by (simp add: list_all_length)
  qed
  have "slots_before n + ?k - 27 * (n div 51) = ?k + ?t" by (simp add: slots_before_def)
  then have f: "slots_before f = slots_before n + ?k" "is_rach_slot f" using slot_frame [OF refl, of n ?k] by (simp_all add: f_def)
  then have nf: "n \<le> f" using slots_between [of f n] by (cases "n \<le> f") auto
  have t3: "index_at t3_to_rach_comb (n mod 51) = Some ?t" using slot_tables(7) by (simp add: index_at_def)
  have off: "unat (offset + 3 + word_of_nat ?t) = ?k + ?t"
    using assms(5) t by (simp add: unat_word_ariths unat_of_nat)
  then have o27: "unat ((offset + 3 + word_of_nat ?t) mod 27) = (?k + ?t) mod 27" "unat ((offset + 3 + word_of_nat ?t) div 27) = (?k + ?t) div 27"
    by (simp_all only: unat_mod unat_div) simp_all
  then have d: "ucast ((offset + 3 + word_of_nat ?t) div 27) = (word_of_nat ((?k + ?t) div 27) :: u32)" by (simp only: ucast_nat)
  have r: "index_at rach_to_t3_comb ((?k + ?t) mod 27) = Some (rach_to_t3_comb ! ((?k + ?t) mod 27))" "rach_to_t3_comb ! ((?k + ?t) mod 27) < 51"
    using slot_tables(5,6) by (simp_all add: index_at_def list_all_iff)
  have "(?k + ?t) div 27 \<le> 65030 div 27" using assms(5) t by (intro div_le_mono) simp
  then have "(?k + ?t) div 27 * 51 \<le> 122808" by simp
  moreover have "n - n mod 51 < HYPER" using assms(1) by (rule le_less_trans [OF diff_le_self])
  ultimately have "f < 4294967296" using r(2) unfolding f_def by linarith
  then have "f < 2 ^ 32" by simp
  have "rach_fn offset combined w = Some ((ft_fn (time_of n) - word_of_nat (n mod 51) + word_of_nat ((?k + ?t) div 27) * 51 +
      word_of_nat (rach_to_t3_comb ! ((?k + ?t) mod 27))) mod GSM_MAX_FN)"
    using assms(3,4) by (simp add: rach_fn_def Let_def assms(2) time_of_t3 t3 o27 d r(1))
  also have "\<dots> = Some (word_of_nat f mod GSM_MAX_FN)" using time_of_fn [OF assms(1)]
    by (simp only: f_def of_nat_add of_nat_diff [OF mod_less_eq_dividend] of_nat_mult of_nat_numeral)
  also have "\<dots> = Some (word_of_nat (f mod HYPER))" using \<open>f < 2 ^ 32\<close> by (simp only: word_mod_hyper)
  finally show ?thesis using f nf slots_between [OF nf] by auto
qed

text \<open>C24. On a combined control channel an access burst asked for with an offset is scheduled for a slot of the
  random access channel, the one with the offset and three more slots before it, counted from the current frame, for every frame
  of the hyperframe.\<close>

theorem rach_combined_slot:
  assumes "n < HYPER" and "l1_current_time w = time_of n" and "ded_type w \<notin> {GSM_DCHAN_TCH_F, GSM_DCHAN_TCH_H}" and "combined \<noteq> 0"
    and "unat offset \<le> 65000"
  shows "\<exists>f. rach_fn offset combined w = Some (word_of_nat (f mod HYPER)) \<and> is_rach_slot f \<and> n \<le> f \<and>
    card {g. n \<le> g \<and> g < f \<and> is_rach_slot g} = unat offset + 3"
  using assms by (rule rach_fn_combined)

theorem rach_combined_slot_witness:
  "\<exists>f. rach_fn 2 1 (l1s_zero\<lparr>l1_current_time := time_of 2715640\<rparr>) = Some (word_of_nat (f mod HYPER)) \<and> is_rach_slot f \<and>
     card {g. 2715640 \<le> g \<and> g < f \<and> is_rach_slot g} = 5"
  using rach_combined_slot [of 2715640 "l1s_zero\<lparr>l1_current_time := time_of 2715640\<rparr>" 1 2]
  by (auto simp: l1s_zero_def fw_l1.defs l1s.defs)

text \<open>On a traffic channel, whose twelfth frame of thirteen is not one of the channel.\<close>

lemma unat_u32: "k < 2 ^ 32 \<Longrightarrow> unat (word_of_nat k :: u32) = k"
  by (simp add: unat_of_nat)

lemma mod_13_small: "k mod 13 < (2 :: nat) ^ 32"
  by (rule less_trans [OF mod_less_divisor]) simp_all

lemma mod_13_word: "m < 2 ^ 32 \<Longrightarrow> (word_of_nat m :: u32) mod 13 = word_of_nat (m mod 13)"
  by (simp only: word_unat_eq_iff unat_mod unat_u32 mod_13_small) simp

lemma mod_13_hyper: "m < 2 ^ 32 \<Longrightarrow> unat ((word_of_nat m :: u32) mod GSM_MAX_FN) mod 13 = m mod 13"
proof -
  assume "m < 2 ^ 32"
  then have "unat ((word_of_nat m :: u32) mod GSM_MAX_FN) = m mod HYPER" by (simp only: unat_mod unat_u32) simp
  then show ?thesis by (simp add: mod_mod_cancel)
qed

lemma rach_sum:
  assumes "n < HYPER"
  shows "ft_fn (time_of n) + ucast (x :: u16) = word_of_nat (n + unat x)" "n + unat x + 1 < 2 ^ 32"
proof -
  show "ft_fn (time_of n) + ucast x = word_of_nat (n + unat x)" using time_of_fn [OF assms] by (simp only: ucast_nat of_nat_add)
  have "unat x < 2 ^ 16" using unsigned_less [of x] by simp
  then have "n + unat x + 1 < 4294967296" using assms by simp
  then show "n + unat x + 1 < 2 ^ 32" by simp
qed

text \<open>In dedicated mode on a TCH/F an access burst is never put in the frame the channel does not have, frame 12 of
  thirteen; on a TCH/H in an even timeslot it is put there when the frame it was to be sent in is frame 11: the frame is left for its
  parity after the test for frame 12.\<close>

theorem rach_tchh_sacch:
  assumes "n < HYPER" and "l1_current_time w = time_of n"
  shows "(ded_type w = GSM_DCHAN_TCH_F \<longrightarrow> (\<exists>f. rach_fn offset combined w = Some f \<and> unat f mod 13 \<noteq> 12)) \<and>
    (ded_type w = GSM_DCHAN_TCH_H \<and> ded_tn w AND 1 = 0 \<and> (n + unat (offset + 3)) mod 13 = 11 \<longrightarrow>
      (\<exists>f. rach_fn offset combined w = Some f \<and> unat f mod 13 = 12))"
proof -
  let ?m = "n + unat (offset + 3)"
  note sum = rach_sum [OF assms(1), of "offset + 3"]
  have m: "?m < 2 ^ 32" using sum(2) by simp
  have 13: "(word_of_nat ?m :: u32) mod 13 = word_of_nat (?m mod 13)" using m by (rule mod_13_word)
  have eq12: "(word_of_nat (?m mod 13) :: u32) = 12 \<longleftrightarrow> ?m mod 13 = 12"
    by (simp only: word_unat_eq_iff unat_u32 mod_13_small) simp
  have Suc_m: "word_of_nat ?m + (1 :: u32) = word_of_nat (?m + 1)" by simp
  have f: "rach_fn offset combined w = Some ((if ?m mod 13 = 12 then word_of_nat (?m + 1) else word_of_nat ?m) mod GSM_MAX_FN)"
    if "ded_type w = GSM_DCHAN_TCH_F"
    using that by (simp only: rach_fn_def Let_def assms(2) sum(1) 13 eq12 Suc_m if_True simp_thms)
  have F: "unat ((if ?m mod 13 = 12 then word_of_nat (?m + 1) else word_of_nat ?m :: u32) mod GSM_MAX_FN) mod 13 \<noteq> 12"
  proof (cases "?m mod 13 = 12")
    case True
    then have "(?m + 1) mod 13 \<noteq> 12" by (simp add: mod_Suc)
    then show ?thesis unfolding if_P [OF True] mod_13_hyper [OF sum(2)] .
  next
    case False
    then show ?thesis unfolding if_not_P [OF False] mod_13_hyper [OF m] .
  qed
  have H: "rach_fn offset combined w = Some (word_of_nat (?m + 1) mod GSM_MAX_FN)"
    if "ded_type w = GSM_DCHAN_TCH_H" "ded_tn w AND 1 = 0" "?m mod 13 = 11"
  proof -
    have "?m mod 13 \<noteq> 12" using that(3) by simp
    then have "rach_fn offset combined w = Some ((if ucast (ded_tn w AND 1) \<noteq> (word_of_nat (?m mod 13) :: u32) AND 1
        then word_of_nat ?m + 1 else word_of_nat ?m) mod GSM_MAX_FN)"
      using that(1) by (simp only: rach_fn_def Let_def assms(2) sum(1) 13 eq12 dchan_type.distinct if_False if_True simp_thms)
    moreover have "ucast (ded_tn w AND 1) \<noteq> (word_of_nat (?m mod 13) :: u32) AND 1" unfolding that(2,3) by simp
    ultimately show ?thesis by (simp only: if_True Suc_m not_False_eq_True)
  qed
  have "(?m + 1) mod 13 = 12" if "?m mod 13 = 11" using that by (simp add: mod_Suc)
  then show ?thesis using f F H mod_13_hyper [OF sum(2)] by auto
qed

theorem rach_tchh_sacch_witness:
  "\<exists>f. rach_fn 0 0 (l1s_zero\<lparr>l1_current_time := time_of 8, ded_type := GSM_DCHAN_TCH_H\<rparr>) = Some f \<and> unat f mod 13 = 12"
  using conjunct2 [OF rach_tchh_sacch [of 8 "l1s_zero\<lparr>l1_current_time := time_of 8, ded_type := GSM_DCHAN_TCH_H\<rparr>" 0 0]]
  by (simp add: l1s_zero_def fw_l1.defs l1s.defs)

section \<open>What is on the agenda of a frame is run\<close>

text \<open>An item that is due brings about what its callback does, and what no callback undoes, whatever is due besides.\<close>

definition brings :: "'w tdma_run \<Rightarrow> tdma_item \<Rightarrow> ('w \<Rightarrow> bool) \<Rightarrow> bool" where
  "brings run c P \<longleftrightarrow> run_ok run \<and> (\<forall>it w. 0 \<le> fst (run it w) \<and> (P w \<longrightarrow> P (snd (snd (run it w)))) \<and>
     (core it = c \<longrightarrow> P (snd (snd (run it w)))))"

lemma exec_items_reach:
  assumes br: "brings run c P" and seq: "placed items n k seq" and n: "n \<le> TDMASCHED_NUM_CB"
  shows "exec_items run (unat (tq_cur s)) seq i m w s = Some (rc, w', s') \<Longrightarrow> tdma_wf s \<Longrightarrow> n \<le> length (due s ! 0) \<Longrightarrow>
    take n (due s ! 0) = xs \<Longrightarrow> P w \<or> (\<exists>j. i \<le> j \<and> j < n \<and> xs ! (seq ! j) = c) \<Longrightarrow> P w'"
proof (induction "TDMASCHED_NUM_CB - i" arbitrary: i m w s rule: less_induct)
  case (less i m w s)
  let ?b = "tq_bucket s ! unat (tq_cur s)"
  have b: "index_at (tq_bucket s) (unat (tq_cur s)) = Some ?b" "bucket_wf ?b"
    using tdma_wf_bucket [of s "unat (tq_cur s)"] less.prems(2) by (auto simp: tdma_wf_def)
  have num: "unat (bk_num ?b) \<le> TDMASCHED_NUM_CB" "n \<le> unat (bk_num ?b)"
    using b less.prems(2,3) by (auto simp: bucket_wf_def due_0 length_bucket_items)
  show ?case
  proof (cases "i < unat (bk_num ?b) \<and> i < length seq")
    case False
    then have "w' = w" "\<not> i < n" using less.prems(1) b num placed_length [OF seq]
      by (auto simp: exec_items.simps [of run _ seq i] split: if_splits)
    then show ?thesis using less.prems(5) by auto
  next
    case True
    then obtain it where it: "index_at (bk_item ?b) (seq ! i) = Some it" "it_cb it \<noteq> None"
      using less.prems(1) b by (auto simp: exec_items.simps [of run _ seq i] split: option.splits if_splits)
    obtain rc1 cs w1 where r: "run it w = (rc1, cs, w1)" by (metis prod_cases3)
    have rc1: "0 \<le> rc1" and keep: "P w \<longrightarrow> P w1" and bring: "core it = c \<longrightarrow> P w1" and cs: "list_all call_ok cs"
      using br r by (metis brings_def run_ok_def fst_conv snd_conv)+
    from calls_refine [OF less.prems(2) cs] obtain t ext where t: "tdma_calls cs s = Some t" "tdma_wf t" "tq_cur t = tq_cur s"
        "due t ! 0 = due s ! 0 @ ext" by blast
    have rec: "exec_items run (unat (tq_cur t)) seq (i + 1) (m + 1) w1 t = Some (rc, w', s')"
      using less.prems(1) b True it r t(1,3) rc1 by (simp add: exec_items.simps [of run _ seq i])
    have hit: "core it = xs ! (seq ! i)" if "i < n"
    proof -
      have q: "seq ! i < n" using placed_index [OF seq order.refl that n] .
      then have "due s ! 0 ! (seq ! i) = core it"
        using it(1) num b by (auto simp: due_0 [OF less.prems(2)] bucket_items_def index_at_def bucket_wf_def split: if_splits)
      then show ?thesis using q less.prems(4) by auto
    qed
    have "P w1 \<or> (\<exists>j. i + 1 \<le> j \<and> j < n \<and> xs ! (seq ! j) = c)"
      using less.prems(5) keep bring hit by (metis Suc_eq_plus1 Suc_leI le_neq_implies_less)
    then show ?thesis
      using less.hyps [of "i + 1", OF _ rec t(2)] less.prems(3,4) t(4) True num by auto
  qed
qed

lemma execute_reach:
  assumes "brings run c P" and "tdma_wf s" and "c \<in> set (due s ! 0)"
    and "tdma_sched_execute run w s = Some (rc, w', s')"
  shows "P w'"
proof -
  let ?b = "tq_bucket s ! unat (tq_cur s)"
  have b: "index_at (tq_bucket s) (unat (tq_cur s)) = Some ?b" "bucket_wf ?b"
    using tdma_wf_bucket [of s "unat (tq_cur s)"] assms(2) by (auto simp: tdma_wf_def)
  obtain seq where seq: "tdma_sched_bucket_sort ?b = Some seq" "placed (bk_item ?b) (unat (bk_num ?b)) (unat (bk_num ?b)) seq"
    using bucket_sort_placed [OF b(2)] by blast
  have len: "length (due s ! 0) = unat (bk_num ?b)" "unat (bk_num ?b) \<le> TDMASCHED_NUM_CB"
    using b(2) by (simp_all add: due_0 [OF assms(2)] length_bucket_items bucket_wf_def)
  obtain p where p: "p < unat (bk_num ?b)" "due s ! 0 ! p = c" using assms(3) len(1) by (metis in_set_conv_nth)
  have "set (take (unat (bk_num ?b)) seq) = {0..<unat (bk_num ?b)}"
    using seq(2) by (metis placed_def mset_eq_setD set_upt)
  then have "p \<in> set (take (unat (bk_num ?b)) seq)" using p(1) by simp
  then obtain j where j: "j < unat (bk_num ?b)" "seq ! j = p" by (auto simp: in_set_conv_nth)
  have "exec_items run (unat (tq_cur s)) seq 0 0 w s = Some (rc, w', s')"
    using assms(4) b(1) seq(1) by (simp add: tdma_sched_execute_def)
  then show ?thesis
    using exec_items_reach [OF assms(1) seq(2) len(2), of s 0 0 w rc w' s' "due s ! 0"] assms(2) len(1) j p by auto
qed

lemma ag_add_grows:
  "length (snd (ag_add d it A)) = length A \<and> (\<exists>ext. snd (ag_add d it A) ! e = A ! e @ ext)"
  by (cases "e < length A"; cases "e = d mod TDMASCHED_NUM_FRAMES") (auto simp: ag_add_def Let_def list_update_beyond not_less)

lemma ag_add_set_grows: "length (ag_add_set off items p3 A) = length A \<and> (\<exists>ext. ag_add_set off items p3 A ! e = A ! e @ ext)"
proof (induction off items p3 A rule: ag_add_set.induct)
  case (2 off it rest p3 A)
  obtain ok B where B: "ag_add (unat off) (core (it\<lparr>it_p3 := p3\<rparr>)) A = (ok, B)" by fastforce
  then obtain ext where l: "length B = length A" "B ! e = A ! e @ ext"
    using ag_add_grows [of "unat off" "core (it\<lparr>it_p3 := p3\<rparr>)" A e] by auto
  have "length (ag_add_set off rest p3 B) = length A \<and> (\<exists>ext'. ag_add_set off rest p3 B ! e = A ! e @ ext')"
    if "ok" "it_cb it \<noteq> None" "it_cb it \<noteq> Some Tdma_end_set"
    using "2.IH"(2) [of "(ok, B)" ok B] that B l by auto
  then show ?case using 2 B l by (auto simp: Let_def)
qed simp

lemma events_grow: "length (fold ag_event es A) = length A \<and> (\<exists>ext. fold ag_event es A ! e = A ! e @ ext)"
proof (induction es arbitrary: A)
  case (Cons x es)
  obtain ext where 1: "length (ag_event x A) = length A" "ag_event x A ! e = A ! e @ ext"
    using ag_add_set_grows [of 1 "fst x" "snd x" A e] by (auto simp: ag_event_def)
  obtain ext' where "length (fold ag_event es (ag_event x A)) = length (ag_event x A)" "fold ag_event es (ag_event x A) ! e = ag_event x A ! e @ ext'"
    using Cons by blast
  then show ?case using 1 by simp
qed simp

text \<open>An event with one item is in the frame, unless the frame is full.\<close>

lemma event_in_frame:
  assumes "length A = TDMASCHED_NUM_FRAMES" and "([it, SCHED_END_SET], p3) \<in> set es"
    and "it_cb it \<noteq> None" and "it_cb it \<noteq> Some Tdma_end_set"
  shows "core (it\<lparr>it_p3 := p3\<rparr>) \<in> set (fold ag_event es A ! 1) \<or> TDMASCHED_NUM_CB \<le> length (fold ag_event es A ! 1)"
proof -
  obtain xs ys where es: "es = xs @ ([it, SCHED_END_SET], p3) # ys" using assms(2) by (meson split_list)
  let ?B = "fold ag_event xs A"
  have B: "length ?B = TDMASCHED_NUM_FRAMES" using events_grow [of xs A] assms(1) by simp
  have "core (it\<lparr>it_p3 := p3\<rparr>) \<in> set (ag_event ([it, SCHED_END_SET], p3) ?B ! 1) \<or> TDMASCHED_NUM_CB \<le> length (ag_event ([it, SCHED_END_SET], p3) ?B ! 1)"
    using B assms(3,4) by (auto simp: ag_event_def ag_add_def Let_def SCHED_END_SET_def)
  moreover obtain ext where "fold ag_event es A ! 1 = ag_event ([it, SCHED_END_SET], p3) ?B ! 1 @ ext"
    using events_grow [of ys "ag_event ([it, SCHED_END_SET], p3) ?B" 1] by (auto simp: es)
  ultimately show ?thesis by auto
qed

lemma advance_nth: "length A = TDMASCHED_NUM_FRAMES \<Longrightarrow> ag_advance A ! 0 = A ! 1"
  using nth_rotate1 [of 0 A] by (simp add: ag_advance_def)

text \<open>What a frame does to the state besides the clock, the tasks and the events is done by the callbacks.\<close>

lemma l1_sync_cases:
  assumes "l1_sync run (w, s) = Some (w', s')"
  obtains rc w1 s1 m e where
    "tdma_sched_execute run (w\<lparr>l1_current_time := l1_next_time w, l1_next_time := l1s_time_inc (l1_next_time w) 1\<rparr>) s = Some (rc, w1, s1)"
    "w' = w1\<lparr>l1_mframe := m, l1_events := e\<rparr>"
  using assms by (auto simp: l1_sync_def Let_def bind_eq_Some_conv)

lemma l1_sync_inv:
  assumes "l1_sync run (w, s) = Some (w', s')" and "clock_free P" and "\<And>it w. P w \<Longrightarrow> P (snd (snd (run it w)))" and "P w"
  shows "P w'"
proof -
  obtain rc w1 s1 m e where x:
    "tdma_sched_execute run (w\<lparr>l1_current_time := l1_next_time w, l1_next_time := l1s_time_inc (l1_next_time w) 1\<rparr>) s = Some (rc, w1, s1)"
    "w' = w1\<lparr>l1_mframe := m, l1_events := e\<rparr>" by (rule l1_sync_cases [OF assms(1)])
  have "P w1" using execute_inv [OF x(1), of P] assms(3,4) clock_freeD(1) [OF assms(2)] by simp
  then show ?thesis using x(2) clock_freeD(2) [OF assms(2)] by simp
qed

lemma run_frames_inv:
  assumes "clock_free P" and "\<And>it w. P w \<Longrightarrow> P (snd (snd (run it w)))"
  shows "run_frames run k (w, s) = Some (w', s') \<Longrightarrow> P w \<Longrightarrow> P w'"
proof (induction k arbitrary: w s)
  case (Suc k)
  then obtain w1 s1 where 1: "l1_sync run (w, s) = Some (w1, s1)" "run_frames run k (w1, s1) = Some (w', s')"
    by (auto simp: bind_eq_Some_conv)
  then show ?case using Suc.IH l1_sync_inv [OF 1(1) assms Suc.prems(2)] by blast
qed simp

lemma l1_sync_reach:
  assumes "l1_sync run (w, s) = Some (w', s')" and "clock_free P" and "brings run c P" and "tdma_wf s" and "c \<in> set (due s ! 0)"
  shows "P w'"
proof -
  obtain rc w1 s1 m e where x:
    "tdma_sched_execute run (w\<lparr>l1_current_time := l1_next_time w, l1_next_time := l1s_time_inc (l1_next_time w) 1\<rparr>) s = Some (rc, w1, s1)"
    "w' = w1\<lparr>l1_mframe := m, l1_events := e\<rparr>" by (rule l1_sync_cases [OF assms(1)])
  then show ?thesis using execute_reach [OF assms(3-5) x(1)] clock_freeD(2) [OF assms(2)] by simp
qed

section \<open>Change of frequency\<close>

definition ded_same :: "l1s \<Rightarrow> l1s \<Rightarrow> bool" where
  "ded_same w w' \<longleftrightarrow> ded_type w' = ded_type w \<and> ded_tsc w' = ded_tsc w \<and> ded_tn w' = ded_tn w \<and> ded_freq w' = ded_freq w \<and>
     ded_st_tsc w' = ded_st_tsc w \<and> ded_st_freq w' = ded_st_freq w"

text \<open>The callbacks that are not modelled succeed, and leave the clock, tasks and events and the dedicated channel alone.\<close>

definition rest_plain :: "l1s tdma_run \<Rightarrow> bool" where
  "rest_plain other \<longleftrightarrow> run_ok other \<and> steady other \<and> (\<forall>it w. 0 \<le> fst (other it w) \<and> ded_same w (snd (snd (other it w))))"

lemma ded_same_refl: "ded_same w w"
  by (simp add: ded_same_def)

lemma ded_same_append: "ded_same w (snd st) \<Longrightarrow> ded_same w (snd (neigh_append e st))"
  by (cases e; cases st) (auto simp: neigh_append_def ded_same_def l1_queue_for_l2_def)

lemma ded_same_fold: "ded_same w (snd st) \<Longrightarrow> ded_same w (snd (fold neigh_append es st))"
  by (induction es arbitrary: st) (simp_all add: ded_same_append)

lemma ded_same_neigh: "ded_same w (snd (snd (l1s_neigh_pm_resp w))) \<and> 0 \<le> fst (l1s_neigh_pm_resp w)"
proof -
  have f: "ded_same w (snd (fold neigh_append es (m, w\<lparr>np_level := l, np_pos := p\<rparr>)))" for es m l p
    by (rule ded_same_fold) (simp add: ded_same_def)
  show ?thesis
    using f by (simp add: l1s_neigh_pm_resp_def Let_def case_prod_beta l1_queue_for_l2_def) (simp add: ded_same_def)
qed

lemma ded_same_pm: "ded_same w (snd (snd (l1s_pm_resp k a w))) \<and> 0 \<le> fst (l1s_pm_resp k a w)"
  by (simp add: l1s_pm_resp_def pm_append_def Let_def case_prod_beta l1_queue_for_l2_def ded_same_def)

lemma ded_same_tx: "ded_same w (snd (snd (l1s_tx_cmd b p3 w))) \<and> 0 \<le> fst (l1s_tx_cmd b p3 w)"
proof -
  define v where "v = (if b = 0 then let (block, w) = tx_block (drop_bit 8 p3 AND MF_F_SACCH \<noteq> 0) w in hw (Hw_block block) w else w)"
  have v: "ded_same w v"
    using tx_block_shape [of "drop_bit 8 p3 AND MF_F_SACCH \<noteq> 0" w] by (auto simp: v_def ded_same_def hw_def case_prod_beta)
  have "l1s_tx_cmd b p3 w = (case rfch_get_params (l1_next_time v) v of
        None \<Rightarrow> (0, [], v\<lparr>l1_fault := True\<rparr>)
      | Some (arfcn, tsc, tn) \<Rightarrow> (0, [], hw (Hw_tx_nb b arfcn tsc tn) v))"
    by (simp only: l1s_tx_cmd_def v_def Let_def)
  then show ?thesis using v by (auto simp: ded_same_def hw_def split: option.splits)
qed

lemma run_ded:
  assumes "rest_plain other"
  shows "0 \<le> fst (l1_run other it w) \<and> (it_cb it = Some L1s_freq_cmd \<or> ded_same w (snd (snd (l1_run other it w))))"
proof -
  have o: "0 \<le> fst (other it w)" "ded_same w (snd (snd (other it w)))" using assms by (simp_all add: rest_plain_def)
  show ?thesis
  proof (cases "it_cb it")
    case (Some cb)
    then show ?thesis using o
      by (cases cb) (simp_all add: l1_run_eqs ded_same_pm ded_same_tx ded_same_neigh,
        simp_all add: l1_run_def l1s_tx_rach_cmd_def l1s_tx_rach_resp_def l1s_freq_cmd_def l1s_pm_cmd_def l1s_neigh_pm_cmd_def l1s_tx_resp_def
          l1s_compl_sched_def hw_def Let_def ded_same_def split: option.split)
  qed (use o in \<open>simp add: l1_run_def\<close>)
qed

text \<open>The frames until the starting time, which repeats after 42432 frames.\<close>

definition frames_until :: "nat \<Rightarrow> nat \<Rightarrow> nat" where
  "frames_until n start = (start + 42432 - n mod 42432) mod 42432"

lemma frames_until_int: "start < 42432 \<Longrightarrow> int (frames_until n start) =
    (let d = int start - int (n mod 42432) in if d < 0 then d + 42432 else d)"
proof -
  assume s: "start < 42432"
  define r where "r = n mod 42432"
  have m: "r < 42432" by (simp add: r_def)
  have eq: "frames_until n start = (start + 42432 - r) mod 42432" by (simp only: frames_until_def r_def)
  have "int (frames_until n start) = (if start < r then int start - int r + 42432 else int start - int r)"
  proof (cases "start < r")
    case True
    then have "start + 42432 - r < 42432" by simp
    then have "frames_until n start = start + 42432 - r" by (simp only: eq mod_less)
    then show ?thesis using True m by (simp add: of_nat_diff)
  next
    case False
    then have "start + 42432 - r = start - r + 42432" by simp
    moreover have "start - r < 42432" using s by simp
    ultimately have "frames_until n start = start - r" by (simp only: eq mod_add_self2 mod_less)
    then show ?thesis using False by (simp add: of_nat_diff)
  qed
  then show ?thesis by (simp add: Let_def flip: r_def)
qed

lemma freq_req_eq:
  assumes "n < HYPER" and "l1_current_time w = time_of n" and "start < 42432"
  shows "l1a_freq_req (word_of_nat start) w =
    (if frames_until n start = 5 \<or> 32024 \<le> frames_until n start then w\<lparr>ded_tsc := ded_st_tsc w, ded_freq := ded_st_freq w\<rparr>
     else w\<lparr>l1_events := snd (sched_gsmtime freq_sched_set (word_of_nat ((n + frames_until n start) mod HYPER)) 0 (l1_events w))\<rparr>)"
proof -
  let ?d = "frames_until n start"
  have fn: "ft_fn (l1_current_time w) = word_of_nat n" "unat (word_of_nat n :: u32) = n"
    using time_of_fn [OF assms(1)] unat_u32 [of n] assms(1) by (simp_all add: assms(2))
  have a: "unat (word_of_nat start :: u32) = start" using assms(3) by (intro unat_u32) simp
  have b: "unat ((word_of_nat n :: u32) mod 42432) = n mod 42432" by (simp only: unat_mod fn(2)) simp
  have "n mod 42432 < 42432" by simp
  then have "sint ((word_of_nat start :: u32) - word_of_nat n mod 42432) = int start - int (n mod 42432)"
    using sint_diff_small [of "word_of_nat start" "word_of_nat n mod 42432"] assms(3) by (simp only: word_less_nat_alt a b) simp
  then have d: "(let diff = sint ((word_of_nat start :: u32) - word_of_nat n mod 42432) in if diff < 0 then diff + 42432 else diff) = int ?d"
    using frames_until_int [OF assms(3), of n] by (simp only:)
  have small: "?d < 42432" by (simp add: frames_until_def)
  have f: "(if (word_of_nat n :: u32) + word_of_int (int ?d) \<ge> GSM_MAX_FN then word_of_nat n + word_of_int (int ?d) - GSM_MAX_FN
      else word_of_nat n + word_of_int (int ?d)) = word_of_nat ((n + ?d) mod HYPER)"
  proof -
    have w: "(word_of_nat n :: u32) + word_of_int (int ?d) = word_of_nat (n + ?d)" by simp
    have u: "unat (word_of_nat (n + ?d) :: u32) = n + ?d" using assms(1) small by (intro unat_u32) simp
    show ?thesis
    proof (cases "n + ?d < HYPER")
      case True
      then show ?thesis by (simp only: w word_le_nat_alt u) simp
    next
      case False
      then have "(n + ?d) mod HYPER = n + ?d - HYPER" using assms(1) small by (simp add: le_mod_geq)
      moreover have "word_of_nat (n + ?d) - GSM_MAX_FN = (word_of_nat (n + ?d - HYPER) :: u32)" using False by (simp add: of_nat_diff)
      ultimately show ?thesis using False by (simp only: w word_le_nat_alt u) simp
    qed
  qed
  have e: "int ?d = 5 \<or> int ?d \<ge> 32024 \<longleftrightarrow> ?d = 5 \<or> 32024 \<le> ?d" by linarith
  show ?thesis
    using d f e by (simp only: l1a_freq_req_def fn(1) Let_def l1s_freq_cmd_def snd_conv)
qed

text \<open>The request, when there is room for an event, is on the calendar.\<close>

lemma freq_req_waits:
  assumes "n < HYPER" and "l1_current_time w = time_of n" and "start < 42432" and "l1_wf w" and "length (ev_active (l1_events w)) < 16"
    and "frames_until n start \<noteq> 5" and "frames_until n start < 32024"
  defines "w0 \<equiv> l1a_freq_req (word_of_nat start) w"
  shows "l1_wf w0 \<and> l1_current_time w0 = time_of n \<and> l1_next_time w0 = time_of (Suc n mod HYPER) \<and> ded_same w w0 \<and>
    (freq_sched_set, 0) \<in> set (calendar (l1_events w0) (word_of_nat ((n + frames_until n start) mod HYPER)))"
proof -
  let ?f = "word_of_nat ((n + frames_until n start) mod HYPER) :: u32"
  let ?e = "sched_gsmtime freq_sched_set ?f 0 (l1_events w)"
  have ev: "events_wf (l1_events w)" using assms(4) by (simp add: l1_wf_def)
  have w0: "w0 = w\<lparr>l1_events := snd ?e\<rparr>" unfolding w0_def freq_req_eq [OF assms(1-3)] using assms(6,7) by simp
  have e: "events_wf (snd ?e)" "calendar (snd ?e) = (calendar (l1_events w))(?f := calendar (l1_events w) ?f @ [(freq_sched_set, 0)])"
    using sched_gsmtime_ok [OF ev pm_set_closed(3), of ?f 0 "fst ?e" "snd ?e"] assms(5) by (auto split: if_splits)
  obtain m where m: "m < HYPER" "time_of n = time_of m" "l1_next_time w = time_of (Suc m mod HYPER)"
    using assms(4) by (auto simp: l1_wf_def clock_ok_def assms(2))
  then have "m = n" using time_of_fn [OF m(1)] time_of_fn [OF assms(1)] by metis
  then show ?thesis using w0 e m(3) assms(2,4) by (simp add: l1_wf_def ded_same_def)
qed

definition freq_reached :: "l1s \<Rightarrow> bool" where
  "freq_reached w \<longleftrightarrow> ded_freq w = ded_st_freq w \<and> ded_tsc w = ded_st_tsc w"

lemma freq_reached_brings: "rest_plain other \<Longrightarrow> brings (l1_run other) (new_item L1s_freq_cmd 1 0 0 (- 3)) freq_reached"
proof -
  assume r: "rest_plain other"
  then have ok: "run_ok (l1_run other)"
    using l1_run_modelled [of other] by (auto simp: run_ok_def rest_plain_def cb_ok_def) metis
  have cmd: "freq_reached (snd (snd (l1_run other it w)))" if "it_cb it = Some L1s_freq_cmd" for it w
    using that by (simp add: l1_run_eqs l1s_freq_cmd_def freq_reached_def)
  have keep: "freq_reached (snd (snd (l1_run other it w)))" if "freq_reached w" for it w
    using run_ded [OF r, of it w] cmd [of it w] that by (auto simp: freq_reached_def ded_same_def)
  have "it_cb it = Some L1s_freq_cmd" if "core it = new_item L1s_freq_cmd 1 0 0 (- 3)" for it
    using arg_cong [OF that, of it_cb] by (simp add: core_def)
  then show ?thesis using ok run_ded [OF r] cmd keep by (auto simp: brings_def)
qed

lemma clock_free_ded: "clock_free freq_reached" "clock_free (\<lambda>w. ded_st_freq w = F \<and> ded_st_tsc w = T)"
  by (simp_all add: clock_free_def freq_reached_def)

lemma st_kept: "rest_plain other \<Longrightarrow> ded_st_freq w = F \<and> ded_st_tsc w = T \<Longrightarrow>
    ded_st_freq (snd (snd (l1_run other it w))) = F \<and> ded_st_tsc (snd (snd (l1_run other it w))) = T"
  using run_ded [of other it w] by (auto simp: ded_same_def l1_run_eqs l1s_freq_cmd_def)

lemma freq_change:
  assumes "rest_plain other" and "tdma_wf s" and "l1_wf w" and "length (ev_active (l1_events w)) < 16"
    and "n < HYPER" and "l1_current_time w = time_of n" and "start < 42432"
    and "3 \<le> frames_until n start" and "frames_until n start \<noteq> 5" and "frames_until n start < 32024" and "n + frames_until n start < HYPER"
  shows "\<exists>w1 s1 w2 s2. run_frames (l1_run other) (frames_until n start - 2) (l1a_freq_req (word_of_nat start) w, s) = Some (w1, s1) \<and>
    l1_sync (l1_run other) (w1, s1) = Some (w2, s2) \<and> l1_next_time w2 = time_of (n + frames_until n start) \<and>
    (length (due s1 ! 0) = TDMASCHED_NUM_CB \<or> ded_freq w2 = ded_st_freq w \<and> ded_tsc w2 = ded_st_tsc w)"
proof -
  let ?run = "l1_run other" and ?d = "frames_until n start" and ?w0 = "l1a_freq_req (word_of_nat start) w"
  have run: "run_ok ?run" "steady ?run"
    using freq_reached_brings [OF assms(1)] l1_run_steady assms(1) by (auto simp: brings_def rest_plain_def)
  have "(n + ?d) mod HYPER = n + ?d" "Suc n mod HYPER = n + 1" "n + 1 < HYPER" using assms(8,11) by simp_all
  with freq_req_waits [OF assms(5-7,3,4,9,10)]
  have w0: "l1_wf ?w0" "l1_next_time ?w0 = time_of (n + 1)" "n + 1 < HYPER" "ded_same w ?w0"
    "(freq_sched_set, 0) \<in> set (calendar (l1_events ?w0) (word_of_nat (n + ?d)))" by simp_all
  have k: "n + ?d - 1 - (n + 1) = ?d - 2" "n + 1 + 2 \<le> n + ?d" using assms(8) by simp_all
  obtain w1 s1 A where 1: "run_frames ?run (?d - 2) (?w0, s) = Some (w1, s1)" "length A = TDMASCHED_NUM_FRAMES"
    "due s1 = ag_advance (fold ag_event (calendar (l1_events ?w0) (word_of_nat (n + ?d))) A)"
    using event_on_time_raw [OF assms(2) w0(1) run w0(3,2) k(2) assms(11)] unfolding k(1) by blast
  obtain w1' s1' where "run_frames ?run (?d - 2) (?w0, s) = Some (w1', s1')" "l1_wf w1'" "tdma_wf s1'"
    "l1_next_time w1' = time_of ((n + 1 + (?d - 2)) mod HYPER)"
    using run_steady [OF assms(2) w0(1) run w0(3,2), of "?d - 2"] by blast
  moreover have "(n + 1 + (?d - 2)) mod HYPER = n + ?d - 1" using assms(8,11) by simp
  ultimately have wf: "l1_wf w1" "tdma_wf s1" "l1_next_time w1 = time_of (n + ?d - 1)" using 1(1) by simp_all
  have less: "n + ?d - 1 < HYPER" and Suc: "Suc (n + ?d - 1) mod HYPER = n + ?d" using assms(8,11) by simp_all
  obtain w2 s2 where 2: "l1_sync ?run (w1, s1) = Some (w2, s2)" "l1_next_time w2 = time_of (n + ?d)"
    using l1_sync_steady [OF wf(2,1) run less wf(3)] unfolding Suc by blast
  let ?P = "\<lambda>v. ded_st_freq v = ded_st_freq w \<and> ded_st_tsc v = ded_st_tsc w"
  have "?P ?w0" using w0(4) by (simp add: ded_same_def)
  then have "?P w1" using run_frames_inv [OF clock_free_ded(2) st_kept [OF assms(1)] 1(1)] by blast
  then have st: "?P w2" using l1_sync_inv [OF 2(1) clock_free_ded(2) st_kept [OF assms(1)]] by blast
  have le8: "length (due s1 ! 0) \<le> TDMASCHED_NUM_CB"
    using tdma_wf_bucket [OF wf(2), of "unat (tq_cur s1)"] wf(2) by (auto simp: due_0 length_bucket_items bucket_wf_def tdma_wf_def)
  let ?c = "new_item L1s_freq_cmd 1 0 0 (- 3)"
  have "core (SCHED_ITEM L1s_freq_cmd (- 3) 1 0\<lparr>it_p3 := 0\<rparr>) = ?c" by (simp add: core_def SCHED_ITEM_def)
  with event_in_frame [of A "SCHED_ITEM L1s_freq_cmd (- 3) 1 0" 0 "calendar (l1_events ?w0) (word_of_nat (n + ?d))"] 1(2) w0(5)
  have "?c \<in> set (due s1 ! 0) \<or> TDMASCHED_NUM_CB \<le> length (due s1 ! 0)"
    using events_grow [of "calendar (l1_events ?w0) (word_of_nat (n + ?d))" A 0]
    by (simp add: 1(3) advance_nth freq_sched_set_def SCHED_ITEM_def)
  then have "freq_reached w2 \<or> length (due s1 ! 0) = TDMASCHED_NUM_CB"
    using l1_sync_reach [OF 2(1) clock_free_ded(1) freq_reached_brings [OF assms(1)] wf(2)] le8 by (auto intro: le_antisym)
  then show ?thesis using 1(1) 2 st by (auto simp: freq_reached_def)
qed


lemma idle_plain: "rest_plain idle_run"
  by (simp add: rest_plain_def idle_run_ok ded_same_def)

lemma l1s_zero_wf: "l1_wf l1s_zero" "l1_current_time l1s_zero = time_of 0" "l1_events l1s_zero = sched_gsmtime_init"
  using fw_l1_zero_wf by (simp_all add: l1_wf_def l1s_zero_def fw_l1.defs l1s.defs fw_l1_zero_def)


lemma freq_waits:
  assumes "rest_plain other" and "tdma_wf s" and "l1_wf w" and "length (ev_active (l1_events w)) < 16"
    and "n < HYPER" and "l1_current_time w = time_of n" and "start < 42432"
    and "frames_until n start < 3" and "k + 3 \<le> HYPER"
  shows "\<exists>w' s'. run_frames (l1_run other) k (l1a_freq_req (word_of_nat start) w, s) = Some (w', s') \<and>
    (freq_sched_set, 0) \<in> set (calendar (l1_events w') (word_of_nat ((n + frames_until n start) mod HYPER)))"
proof -
  let ?run = "l1_run other" and ?d = "frames_until n start" and ?w0 = "l1a_freq_req (word_of_nat start) w"
  let ?f = "(n + ?d) mod HYPER" and ?n = "Suc n mod HYPER"
  have run: "run_ok ?run" "steady ?run"
    using freq_reached_brings [OF assms(1)] l1_run_steady assms(1) by (auto simp: brings_def rest_plain_def)
  have "?d \<noteq> 5" "?d < 32024" using assms(8) by simp_all
  with freq_req_waits [OF assms(5-7,3,4)] have w0: "l1_wf ?w0" "l1_next_time ?w0 = time_of ?n"
    "(freq_sched_set, 0) \<in> set (calendar (l1_events ?w0) (word_of_nat ?f))" by simp_all
  have n: "?n < HYPER" "?f < HYPER" by simp_all
  have ne: "word_of_nat ((?n + i) mod HYPER) + 2 \<noteq> (word_of_nat ?f :: u32)" if "i < k" for i
  proof
    assume "word_of_nat ((?n + i) mod HYPER) + 2 = (word_of_nat ?f :: u32)"
    then have "unat (word_of_nat ((?n + i) mod HYPER) + (2 :: u32)) = unat (word_of_nat ?f :: u32)" by simp
    moreover have "unat (word_of_nat ?f :: u32) = ?f" by (rule unat_u32, rule less_trans [OF n(2)]) simp
    moreover have "unat (word_of_nat ((?n + i) mod HYPER) + (2 :: u32)) = (?n + i) mod HYPER + 2"
      by (rule conjunct2 [OF frame_ahead]) simp
    ultimately have eq: "(?n + i) mod HYPER + 2 = ?f" by (simp only:)
    have "?f = ((?n + i) mod HYPER + 2) mod HYPER" using eq n(2) by (metis mod_less)
    also have "\<dots> = (n + (i + 3)) mod HYPER" by (simp add: mod_simps ac_simps)
    finally have "(n + ?d) mod HYPER = (n + (i + 3)) mod HYPER" .
    moreover have "?d < HYPER" "i + 3 < HYPER" using that assms(8,9) by simp_all
    ultimately have "?d = i + 3" using mod_add_cancel [of ?d HYPER "i + 3" n] by blast
    then show False using assms(8) by simp
  qed
  obtain w1 s1 where 1: "run_frames ?run k (?w0, s) = Some (w1, s1)"
    "calendar (l1_events w1) (word_of_nat ?f) = calendar (l1_events ?w0) (word_of_nat ?f)"
    using run_steady [OF assms(2) w0(1) run n(1) w0(2), of k] ne by blast
  then show ?thesis using w0(3) by auto
qed

text \<open>C23. A starting time that is reached in this frame or in one of the next two is missed: the change is neither made at once nor
  run by the interrupts of the frames that follow, and still waits when all frames of the hyperframe but three have gone by.\<close>

theorem freq_missed:
  assumes "rest_plain other" and "tdma_wf s" and "l1_wf w" and "length (ev_active (l1_events w)) < 16"
    and "n < HYPER" and "l1_current_time w = time_of n" and "start < 42432"
    and "frames_until n start < 3" and "k + 3 \<le> HYPER"
  shows "\<exists>w' s'. run_frames (l1_run other) k (l1a_freq_req (word_of_nat start) w, s) = Some (w', s') \<and>
    (freq_sched_set, 0) \<in> set (calendar (l1_events w') (word_of_nat ((n + frames_until n start) mod HYPER)))"
  using assms by (rule freq_waits)

theorem freq_missed_witness:
  "\<exists>w' s'. run_frames (l1_run idle_run) 2715645 (l1a_freq_req 2 l1s_zero, tdma_zero) = Some (w', s') \<and>
    (freq_sched_set, 0) \<in> set (calendar (l1_events w') 2)"
proof -
  have "frames_until 0 2 = 2" by (simp add: frames_until_def)
  then show ?thesis
    using freq_missed [OF idle_plain tdma_wf_zero(1), of l1s_zero 0 2 2715645] by (simp add: l1s_zero_wf sched_gsmtime_init_def)
qed

end
