(* ===== verification/Fw_Link.thy ===== *)
theory Fw_Link
  imports Fw_L1req L23_L1ctl
begin

text \<open>
  Layer 2/3 and the firmware together: what \<^verbatim>\<open>src/src/host/layer23/src/common/l1ctl.c\<close> asks for in a message is what
  the firmware of the phone does, and what it answers is what layer 2/3 is told.
\<close>

section \<open>A dedicated channel\<close>

lemma chan_type_known: "chan_nr2dchan_type c \<noteq> GSM_DCHAN_NONE"
  by (simp add: chan_nr2dchan_type_def Let_def)

lemma est_freq_read:
  assumes "length h = off + 6" "octet (off + 1) h \<noteq> 0" "octet (off + 2) h = hsn" "octet (off + 3) h = maio"
    "octet (off + 4) h = word_of_nat (length ma)" "length ma \<le> 64"
  shows "est_freq off (h @ concat (map be16_octets ma) @ rest) = Some (FH1 hsn maio (word_of_nat (length ma)) ma)"
proof -
  have n: "unat (word_of_nat (length ma) :: u8) = length ma" using assms(6) by (simp add: unat_of_nat)
  have h: "octet (off + k) (h @ xs) = octet (off + k) h" if "k < 6" for k xs
    using that assms(1) by (simp add: octet_append)
  have "be16 (off + 6 + 2 * i) (h @ concat (map be16_octets ma) @ rest) = ma ! i" if "i < length ma" for i
    using be_append(1) [of h "2 * i"] be16_concat [OF that] assms(1) by simp
  then have "map (\<lambda>i. be16 (off + 6 + 2 * i) (h @ concat (map be16_octets ma) @ rest)) [0..<length ma] = ma"
    by (intro nth_equalityI) simp_all
  then show ?thesis
    using assms(2-6) h [of 1] h [of 2] h [of 3] h [of 4] by (simp add: est_freq_def Let_def n)
qed

text \<open>The channel the firmware is on after a message.\<close>

definition est_result :: "u8 \<Rightarrow> u8 \<Rightarrow> fw_freq \<Rightarrow> u8 \<Rightarrow> u8 \<Rightarrow> u8 \<Rightarrow> l1s \<Rightarrow> bool" where
  "est_result chan_nr tsc freq mode audio flags w \<longleftrightarrow>
     ded_type w = chan_nr2dchan_type chan_nr \<and> ded_tsc w = tsc \<and> ded_tn w = chan_nr AND 7 \<and> ded_freq w = freq \<and>
     mf_tasks_tgt (l1_mframe w) = chan_nr2mf_task_mask chan_nr NEIGH_MODE_PM \<and>
     (chan_nr_is_tch chan_nr \<longrightarrow> l1_tch_mode w = (if mode \<in> {0x01, 0x21, 0x0f, 0x03, 0x0b, 0x13} then mode else 0) \<and>
        l1_audio_mode w = audio \<and> l1_tch_flags w = flags)"

lemma dm_est_result:
  assumes "est_freq 8 msg = Some freq" "octet 4 msg = chan_nr" "octet 8 msg = tsc" "octet 142 msg = mode" "octet 143 msg = audio" "octet 144 msg = flags"
  shows "\<exists>w'. fw_rx_dm_est_req msg w = Some w' \<and> est_result chan_nr tsc freq mode audio flags w'"
  using assms
  by (simp add: fw_rx_dm_est_req_def est_result_def Let_def l1a_mftask_set_def mframe_set_def mftask_disable_def mframe_disable_def
      audio_set_enabled_def hw_def l1a_tch_mode_set_def)

lemma h0_msg:
  "\<exists>m. l1ctl_tx_dm_est_req_h0 arfcn chan_nr tsc mode audio flags = Some m \<and> l23_fits m \<and> octet 0 m = 0x05 \<and> 4 \<le> length m \<and>
     est_freq 8 m = Some (FH0 arfcn) \<and> octet 4 m = chan_nr \<and> octet 8 m = tsc \<and> octet 142 m = mode \<and> octet 143 m = audio \<and> octet 144 m = flags"
  by (simp add: l1ctl_tx_dm_est_req_h0_def put_def osmo_l1_alloc_def info_ul_def h0_octets_def l23_fits_def seq_fits_def est_freq_def
      octet_append msg_simps)

lemma h1_msg:
  assumes "length ma \<le> 64" and "ma \<noteq> []" and "hsn < 64"
  shows "\<exists>m. l1ctl_tx_dm_est_req_h1 maio hsn ma (word_of_nat (length ma)) chan_nr tsc mode audio flags = Some m \<and> l23_fits m \<and>
     octet 0 m = 0x05 \<and> 4 \<le> length m \<and> est_freq 8 m = Some (FH1 hsn maio (word_of_nat (length ma)) ma) \<and> octet 4 m = chan_nr \<and>
     octet 8 m = tsc \<and> octet 142 m = mode \<and> octet 143 m = audio \<and> octet 144 m = flags"
proof -
  have n: "unat (word_of_nat (length ma) :: u8) = length ma" using assms(1) by (simp add: unat_of_nat)
  then have n': "(word_of_nat (length ma) :: u8) \<noteq> 0" "(word_of_nat (length ma) :: u8) \<le> 64"
    using assms(1,2) by (auto simp: word_le_nat_alt simp flip: unat_eq_0)
  let ?h = "[0x05, 0, 0, 0, chan_nr, 0, 0, 0, tsc, 1, hsn, maio, word_of_nat (length ma), 0]"
  let ?z = "replicate (128 - 2 * length ma) 0" and ?ma = "concat (map be16_octets ma)"
  let ?m = "?h @ ?ma @ ?z @ [mode, audio, flags]"
  have len: "length ?ma = 2 * length ma" by (induction ma) simp_all
  have tx: "l1ctl_tx_dm_est_req_h1 maio hsn ma (word_of_nat (length ma)) chan_nr tsc mode audio flags = Some ?m"
    using assms(1) len by (simp add: l1ctl_tx_dm_est_req_h1_def h1_octets_def put_def osmo_l1_alloc_def info_ul_def n buf_simps)
  have "length (?h @ ?ma @ ?z) = 142" using assms(1) len by simp
  moreover have "octet (length q + k) (q @ r) = octet k r" for q r k by (simp add: octet_append)
  ultimately have tail: "octet (142 + k) ?m = octet k [mode, audio, flags]" for k
    by (metis append_assoc)
  have freq: "est_freq 8 ?m = Some (FH1 hsn maio (word_of_nat (length ma)) ma)"
    by (rule est_freq_read) (simp_all add: octet_num octet_Cons assms(1))
  have "length ?m = 145" using assms(1) len by simp
  then have "l23_fits ?m" using n' assms(3) by (simp add: l23_fits_def seq_fits_def octet_num octet_Cons)
  then show ?thesis using tx freq tail [of 0] tail [of 1] tail [of 2] by (simp add: octet_num octet_Cons)
qed

lemma dispatch_est: "octet 0 m = 0x05 \<Longrightarrow> 4 \<le> length m \<Longrightarrow> fw_dispatch m (w, s) = map_option (\<lambda>w'. (w', s)) (fw_rx_dm_est_req m w)"
  by (cases "fw_rx_dm_est_req m w") (simp_all add: fw_dispatch_def Let_def on_l1s_def)

text \<open>C6. A dedicated channel as layer 2/3 asks for it is the channel the firmware works on: its message is one the firmware has room for,
  and after it the firmware is on the type of channel, the timeslot and the training sequence asked for, with the tasks of that channel
  and no others to be run, with the modes of a traffic channel, and in every frame on the one frequency, or on
  the one the standard gives for the hopping sequence asked for.\<close>

theorem fw_channel_as_asked:
  assumes "ma \<noteq> []" and "length ma \<le> 64" and "hsn < 64" and "fn < GSM_MAX_FN"
  shows "(\<exists>m w'. l1ctl_tx_dm_est_req_h0 arfcn chan_nr tsc mode audio flags = Some m \<and> l23_fits m \<and> fw_dispatch m (w, s) = Some (w', s) \<and>
     est_result chan_nr tsc (FH0 arfcn) mode audio flags w' \<and>
     rfch_get_params (gsm_fn2gsmtime fn) w' = Some (arfcn, tsc, chan_nr AND 7)) \<and>
   (\<exists>m w'. l1ctl_tx_dm_est_req_h1 maio hsn ma (word_of_nat (length ma)) chan_nr tsc mode audio flags = Some m \<and> l23_fits m \<and>
     fw_dispatch m (w, s) = Some (w', s) \<and> est_result chan_nr tsc (FH1 hsn maio (word_of_nat (length ma)) ma) mode audio flags w' \<and>
     rfch_get_params (gsm_fn2gsmtime fn) w' =
       Some (ma ! hop_mai (unat fn) (unat hsn) (unat maio) (length ma), tsc, chan_nr AND 7))"
proof
  obtain m where m: "l1ctl_tx_dm_est_req_h0 arfcn chan_nr tsc mode audio flags = Some m" "l23_fits m" "octet 0 m = 0x05" "4 \<le> length m"
    "est_freq 8 m = Some (FH0 arfcn)" "octet 4 m = chan_nr" "octet 8 m = tsc" "octet 142 m = mode" "octet 143 m = audio" "octet 144 m = flags"
    using h0_msg by blast
  obtain w' where "fw_rx_dm_est_req m w = Some w'" "est_result chan_nr tsc (FH0 arfcn) mode audio flags w'"
    using dm_est_result [OF m(5-10)] by blast
  then show "\<exists>m w'. l1ctl_tx_dm_est_req_h0 arfcn chan_nr tsc mode audio flags = Some m \<and> l23_fits m \<and> fw_dispatch m (w, s) = Some (w', s) \<and>
     est_result chan_nr tsc (FH0 arfcn) mode audio flags w' \<and>
     rfch_get_params (gsm_fn2gsmtime fn) w' = Some (arfcn, tsc, chan_nr AND 7)"
    using m(1-4) chan_type_known by (auto simp: dispatch_est rfch_get_params_def est_result_def)
next
  obtain m where m: "l1ctl_tx_dm_est_req_h1 maio hsn ma (word_of_nat (length ma)) chan_nr tsc mode audio flags = Some m" "l23_fits m"
    "octet 0 m = 0x05" "4 \<le> length m" "est_freq 8 m = Some (FH1 hsn maio (word_of_nat (length ma)) ma)" "octet 4 m = chan_nr"
    "octet 8 m = tsc" "octet 142 m = mode" "octet 143 m = audio" "octet 144 m = flags"
    using h1_msg [OF assms(2,1,3)] by blast
  obtain w' where w': "fw_rx_dm_est_req m w = Some w'" "est_result chan_nr tsc (FH1 hsn maio (word_of_nat (length ma)) ma) mode audio flags w'"
    using dm_est_result [OF m(5-10)] by blast
  have n: "unat (word_of_nat (length ma) :: u8) = length ma" using assms(2) by (simp add: unat_of_nat)
  then have n': "(word_of_nat (length ma) :: u8) \<noteq> 0" "(word_of_nat (length ma) :: u8) \<le> 64"
    using assms(1,2) by (auto simp: word_le_nat_alt simp flip: unat_eq_0)
  have "rfch_get_params (gsm_fn2gsmtime fn) w' = Some (ma ! hop_mai (unat fn) (unat hsn) (unat maio) (length ma), tsc, chan_nr AND 7)"
    using hop_seq_ok [OF assms(4,3) n', of ma maio] n w'(2) chan_type_known by (auto simp: rfch_get_params_def est_result_def)
  then show "\<exists>m w'. l1ctl_tx_dm_est_req_h1 maio hsn ma (word_of_nat (length ma)) chan_nr tsc mode audio flags = Some m \<and> l23_fits m \<and>
     fw_dispatch m (w, s) = Some (w', s) \<and> est_result chan_nr tsc (FH1 hsn maio (word_of_nat (length ma)) ma) mode audio flags w' \<and>
     rfch_get_params (gsm_fn2gsmtime fn) w' =
       Some (ma ! hop_mai (unat fn) (unat hsn) (unat maio) (length ma), tsc, chan_nr AND 7)"
    using m(1-4) w' by (auto simp: dispatch_est)
qed

theorem fw_channel_as_asked_witness:
  "\<exists>m w'. l1ctl_tx_dm_est_req_h1 3 21 [10, 20, 30, 40, 50] 5 0x0b 7 1 0 0 = Some m \<and> fw_dispatch m (l1s_zero, tdma_zero) = Some (w', tdma_zero) \<and>
     rfch_get_params (gsm_fn2gsmtime 123456) w' = Some ([10, 20, 30, 40, 50] ! hop_mai 123456 21 3 (length [10, 20, 30, 40, 50 :: u16]), 7, 0x0b AND 7)"
  using conjunct2 [OF fw_channel_as_asked [of "[10, 20, 30, 40, 50]" 21 123456 0 "0x0b" 7 1 0 0 l1s_zero tdma_zero 3]] by auto

end
