(* ===== verification/Fw_Scan.thy ===== *)
theory Fw_Scan
  imports Fw_Link
begin

text \<open>
  A power measurement of a range of frequencies, as layer 2/3 asks the firmware for it: through the message handler, the TDMA
  scheduler, the callbacks of the frame interrupt and the messages, back to layer 2/3.
\<close>

section \<open>Frames with nothing else to do\<close>

definition quiet :: "l1s \<Rightarrow> bool" where
  "quiet w \<longleftrightarrow> l1_wf w \<and> mf_tasks_tgt (l1_mframe w) = 0 \<and> ev_active (l1_events w) = []"

lemma mf_due_none: "mf_due fn 0 is = []"
  by (induction "is") simp_all

text \<open>What a frame leaves alone, besides the clock and what a callback does.\<close>

lemma quiet_frame:
  assumes "quiet w" and "tdma_wf s" and "run_ok (l1_run other)"
    and x: "\<And>c n. \<exists>rc w1 s1. tdma_sched_execute (l1_run other) (w\<lparr>l1_current_time := c, l1_next_time := n\<rparr>) s = Some (rc, w1, s1) \<and>
      tdma_wf s1 \<and> due s1 = A \<and> w1 = (f w)\<lparr>l1_current_time := c, l1_next_time := n\<rparr>"
    and f: "\<And>w. same_clock w (f w)"
  shows "\<exists>w' s'. l1_sync (l1_run other) (w, s) = Some (w', s') \<and> quiet w' \<and> tdma_wf s' \<and> due s' = ag_advance A \<and>
    (\<exists>c n m e. w' = (f w)\<lparr>l1_current_time := c, l1_next_time := n, l1_mframe := m, l1_events := e\<rparr>)"
proof -
  let ?c = "l1_next_time w" and ?n = "l1s_time_inc (l1_next_time w) 1"
  obtain m where m: "m < HYPER" "l1_next_time w = time_of m" using assms(1) l1_wf_next [of w] by (auto simp: quiet_def)
  have c: "clock_ok ?c ?n" using time_step [OF m(1)] clock_okI [OF m(1)] by (simp add: m(2))
  obtain rc w1 s1 where 1: "tdma_sched_execute (l1_run other) (w\<lparr>l1_current_time := ?c, l1_next_time := ?n\<rparr>) s = Some (rc, w1, s1)"
    "tdma_wf s1" "due s1 = A" "w1 = (f w)\<lparr>l1_current_time := ?c, l1_next_time := ?n\<rparr>" using x by blast
  have fw: "l1_mframe w1 = l1_mframe w" "l1_events w1 = l1_events w" "l1_current_time w1 = ?c" "l1_next_time w1 = ?n"
    using f [of w] by (simp_all add: 1(4) same_clock_def)
  have fn: "ft_fn ?c < GSM_MAX_FN" using c by (rule clock_ok_fn)
  have tgt: "mf_tasks_tgt (l1_mframe w) = 0" using assms(1) by (simp add: quiet_def)
  have z: "0 = (if mf_busy (ft_fn ?c) (l1_mframe w) then mf_tasks_on (l1_mframe w) AND mf_tasks_tgt (l1_mframe w) else mf_tasks_tgt (l1_mframe w))"
    by (simp add: tgt)
  obtain mf s2 where 2: "mframe_schedule (ft_fn ?c) (l1_mframe w, s1) = Some (mf, s2)" "tdma_wf s2" "mf_tasks_tgt mf = 0" "due s2 = A"
    using mframe_schedule_ok [OF 1(2) fn _ z] by (auto simp: tgt mf_due_none 1(3))
  let ?ev = "\<lparr>ev_active = [], ev_inactive = ev_inactive (l1_events w)\<rparr>"
  have ev: "sched_gsmtime_execute (ft_fn ?c) (l1_events w) s2 = Some (0, ?ev, s2)"
    using assms(1) by (simp add: sched_gsmtime_execute_def quiet_def)
  obtain fl where "tdma_sched_flag_scan s = Some fl" using flag_scan_ok [OF assms(2)] by blast
  then have sync: "l1_sync (l1_run other) (w, s) = Some (w1\<lparr>l1_mframe := mf, l1_events := ?ev\<rparr>, tdma_sched_advance s2)"
    using 1(1) 2(1) ev fw by (simp add: l1_sync_def Let_def)
  moreover have "quiet (w1\<lparr>l1_mframe := mf, l1_events := ?ev\<rparr>)"
    using assms(1) c fw 2(3) by (auto simp: quiet_def l1_wf_def events_wf_def)
  moreover have "tdma_wf (tdma_sched_advance s2)" "due (tdma_sched_advance s2) = ag_advance A" using advance_refines [OF 2(2)] 2(4) by auto
  moreover have "\<exists>c n m e. w1\<lparr>l1_mframe := mf, l1_events := ?ev\<rparr> = (f w)\<lparr>l1_current_time := c, l1_next_time := n, l1_mframe := m, l1_events := e\<rparr>"
    unfolding 1(4) by blast
  ultimately show ?thesis by blast
qed

text \<open>A frame with no item, and one with one item.\<close>

lemma execute_none:
  assumes "tdma_wf s" and "due s ! 0 = []"
  shows "\<exists>s'. tdma_sched_execute run w s = Some (0, w, s') \<and> tdma_wf s' \<and> due s' = due s"
proof -
  let ?b = "tq_bucket s ! unat (tq_cur s)"
  have b: "index_at (tq_bucket s) (unat (tq_cur s)) = Some ?b" "bucket_wf ?b"
    using tdma_wf_bucket [of s "unat (tq_cur s)"] assms(1) by (auto simp: tdma_wf_def)
  obtain seq where seq: "tdma_sched_bucket_sort ?b = Some seq" using bucket_sort_placed [OF b(2)] by blast
  have "unat (bk_num ?b) = 0" using assms(2) b(2) by (simp add: due_0 [OF assms(1)] flip: length_bucket_items)
  then have "tdma_sched_execute run w s = Some (0, w, put_bucket (unat (tq_cur s)) (?b\<lparr>bk_num := 0\<rparr>) s)"
    by (simp add: tdma_sched_execute_def b(1) seq exec_items.simps)
  moreover have "(due s)[0 := []] = due s" using assms(2) by (metis list_update_id)
  ultimately show ?thesis using due_clear [OF assms(1) refl] by (simp add: ag_execute_def)
qed

lemma execute_one:
  assumes "tdma_wf s" and "due s ! 0 = [c]" and "\<And>it. core it = c \<Longrightarrow> run it w = (0, cs, w1)" and "list_all call_ok cs"
    and "fold ag_call cs (due s) ! 0 = [c]"
  shows "\<exists>s'. tdma_sched_execute run w s = Some (1, w1, s') \<and> tdma_wf s' \<and> due s' = (fold ag_call cs (due s))[0 := []]"
proof -
  let ?b = "tq_bucket s ! unat (tq_cur s)"
  have b: "index_at (tq_bucket s) (unat (tq_cur s)) = Some ?b" "bucket_wf ?b"
    using tdma_wf_bucket [of s "unat (tq_cur s)"] assms(1) by (auto simp: tdma_wf_def)
  obtain seq where seq: "tdma_sched_bucket_sort ?b = Some seq" "placed (bk_item ?b) (unat (bk_num ?b)) (unat (bk_num ?b)) seq"
    using bucket_sort_placed [OF b(2)] by blast
  have num: "unat (bk_num ?b) = 1" using assms(2) b(2) by (simp add: due_0 [OF assms(1)] flip: length_bucket_items)
  have len: "length seq = 8" using placed_length [OF seq(2)] by simp
  have "seq ! 0 < 1" using placed_index [OF seq(2), of 1 0] num by simp
  then have s0: "seq ! 0 = 0" by simp
  have l8: "length (bk_item ?b) = 8" using b(2) by (simp add: bucket_wf_def)
  have it: "index_at (bk_item ?b) (seq ! 0) = Some (bk_item ?b ! 0)" using l8 by (simp add: s0 index_at_def)
  have "bucket_items ?b = [core (bk_item ?b ! 0)]" using l8 by (cases "bk_item ?b") (simp_all add: bucket_items_def num)
  then have c: "core (bk_item ?b ! 0) = c" using assms(2) by (simp add: due_0 [OF assms(1)])
  have cb: "it_cb (bk_item ?b ! 0) \<noteq> None" using b(2) l8 num by (cases "bk_item ?b") (simp_all add: bucket_wf_def)
  from calls_refine [OF assms(1,4)] obtain t where t: "tdma_calls cs s = Some t" "tdma_wf t" "tq_cur t = tq_cur s" "due t = fold ag_call cs (due s)"
    by blast
  let ?bt = "tq_bucket t ! unat (tq_cur t)"
  have bt: "index_at (tq_bucket t) (unat (tq_cur t)) = Some ?bt" "bucket_wf ?bt"
    using tdma_wf_bucket [of t "unat (tq_cur t)"] t(2) by (auto simp: tdma_wf_def)
  have "due t ! 0 = [c]" using assms(5) t(4) by simp
  then have "length (bucket_items ?bt) = 1" unfolding due_0 [OF t(2)] by simp
  then have "unat (bk_num ?bt) = 1" using length_bucket_items [OF bt(2)] by simp
  then have "exec_items run (unat (tq_cur s)) seq 1 1 w1 t = Some (1, w1, put_bucket (unat (tq_cur t)) (?bt\<lparr>bk_num := 0\<rparr>) t)"
    using bt(1) t(3) by (subst exec_items.simps) simp
  then have "tdma_sched_execute run w s = Some (1, w1, put_bucket (unat (tq_cur t)) (?bt\<lparr>bk_num := 0\<rparr>) t)"
    using b(1) seq(1) num len it cb assms(3) [OF c] t(1) by (simp add: tdma_sched_execute_def exec_items.simps [of run _ seq 0])
  then show ?thesis using due_clear [OF t(2) refl] t(4) by (simp add: ag_execute_def)
qed

section \<open>One measurement\<close>

abbreviation no_items :: agenda where
  "no_items \<equiv> replicate TDMASCHED_NUM_FRAMES []"

abbreviation pm_cmd_item :: "u16 \<Rightarrow> tdma_item" where
  "pm_cmd_item a \<equiv> new_item L1s_pm_cmd 1 0 a 0"

abbreviation pm_resp_item :: "u16 \<Rightarrow> tdma_item" where
  "pm_resp_item a \<equiv> new_item L1s_pm_resp 1 0 a (- 4)"

lemma advance_update: "Suc i < length A \<Longrightarrow> ag_advance (A[Suc i := x]) = (ag_advance A)[i := x]"
  by (cases A) (simp_all add: ag_advance_def list_update_append1)

lemma advance_empty: "ag_advance no_items = no_items"
  by (simp add: ag_advance_def rotate1_replicate)

lemma pm_set_agenda: "A ! 1 = [] \<Longrightarrow> A ! 3 = [] \<Longrightarrow> length A = TDMASCHED_NUM_FRAMES \<Longrightarrow>
    ag_add_set 1 pm_sched_set a A = A[1 := [pm_cmd_item a], 3 := [pm_resp_item a]]"
  by (simp add: pm_sched_set_def SCHED_ITEM_DT_def SCHED_ITEM_def SCHED_END_FRAME_def SCHED_END_SET_def ag_add_def core_def Let_def)

lemma core_cb: "core it = c \<Longrightarrow> it_cb it = it_cb c \<and> it_p1 it = it_p1 c \<and> it_p3 it = it_p3 c"
  by (auto simp: core_def)

lemma dsp_quiet: "quiet (w\<lparr>l1_dsp := d\<rparr>) = quiet w"
  by (simp add: quiet_def l1_wf_def)

text \<open>The messages of results, with four octets each.\<close>

type_synonym pm_entry = "u16 \<times> u8"

definition pm_octets :: "pm_entry list \<Rightarrow> u8 list" where
  "pm_octets es = concat (map (\<lambda>(a, l). be16_octets a @ [l, 0]) es)"

definition pm_message :: "u8 \<Rightarrow> pm_entry list \<Rightarrow> u8 list" where
  "pm_message flags es = [0x09, flags, 0, 0] @ pm_octets es"

definition pm_collect :: "u8 list list \<times> pm_entry list \<Rightarrow> pm_entry \<Rightarrow> u8 list list \<times> pm_entry list" where
  "pm_collect st e = (if length (snd st) = 50 then (fst st @ [pm_message 0 (snd st)], [e]) else (fst st, snd st @ [e]))"

definition scanning :: "u16 \<Rightarrow> u16 \<Rightarrow> u8 list list \<times> pm_entry list \<Rightarrow> l1s \<Rightarrow> bool" where
  "scanning stop a st w \<longleftrightarrow> pm_mode w = 1 \<and> pm_end w = stop \<and> pm_next w = a \<and> l1_out w = fst st \<and> length (snd st) \<le> 50 \<and>
     pm_msg w = (if snd st = [] then None else Some (pm_message 0 (snd st)))"

definition pm_entry :: "u16 \<Rightarrow> dsp_read \<Rightarrow> pm_entry" where
  "pm_entry a d = (a, pm_rxlev d (dr_pm0 d))"

lemma length_pm_octets [simp]: "length (pm_octets es) = 4 * length es"
  by (induction es) (auto simp: pm_octets_def)

lemma pm_append_collects:
  assumes "scanning stop a st w"
  shows "pm_append 1 a w = (pm_message 0 (snd (pm_collect st (pm_entry a (l1_dsp w)))), w\<lparr>l1_out := fst (pm_collect st (pm_entry a (l1_dsp w)))\<rparr>)"
proof -
  obtain out pend where st: "st = (out, pend)" by fastforce
  have msg: "(case pm_msg w of None \<Rightarrow> l1ctl_msgb_alloc 9 | Some m \<Rightarrow> m) = pm_message 0 pend"
    using assms by (auto simp: scanning_def st pm_message_def pm_octets_def l1ctl_msgb_alloc_def)
  have room: "tailroom (pm_message 0 pend) < 4 \<longleftrightarrow> length pend = 50"
    using assms by (auto simp: scanning_def st tailroom_def pm_message_def)
  have out: "l1_out w = out" using assms by (simp add: scanning_def st)
  have msg': "l1ctl_msgb_alloc 9 @ x = pm_message 0 [] @ x" "pm_message 0 es @ pm_octets [e] = pm_message 0 (es @ [e])" for x es e
    by (simp_all add: l1ctl_msgb_alloc_def pm_message_def pm_octets_def)
  have e: "be16_octets a @ [pm_rxlev (l1_dsp w) (dr_pm0 (l1_dsp w)), 0] = pm_octets [pm_entry a (l1_dsp w)]"
    by (simp add: pm_octets_def pm_entry_def)
  show ?thesis
  proof (cases "length pend = 50")
    case True
    then show ?thesis
      using room e by (simp add: pm_append_def Let_def msg l1_queue_for_l2_def out st pm_collect_def msg')
  next
    case False
    then show ?thesis
      using room e out by (simp add: pm_append_def Let_def msg st pm_collect_def msg')
  qed
qed

lemma pm_collect_pend: "length (snd st) \<le> 50 \<Longrightarrow> length (snd (pm_collect st e)) \<le> 50 \<and> snd (pm_collect st e) \<noteq> []"
  by (auto simp: pm_collect_def)

lemma pm_resp_scans:
  assumes "scanning stop a st w"
  defines "st' \<equiv> pm_collect st (pm_entry a (l1_dsp w))" and "a' \<equiv> (a + 1) AND 0xfbff"
  shows "l1s_pm_resp 1 a w =
    (if a \<noteq> stop then (0, [Call_schedule_set 1 pm_sched_set a'], w\<lparr>l1_out := fst st', pm_msg := Some (pm_message 0 (snd st')), pm_next := a'\<rparr>)
     else (0, [], w\<lparr>l1_out := fst st' @ [pm_message 1 (snd st')], pm_msg := None\<rparr>))"
  using assms(1) pm_append_collects [OF assms(1)]
  by (simp add: l1s_pm_resp_def Let_def scanning_def st'_def a'_def l1_queue_for_l2_def pm_message_def)

lemma scanning_free:
  "scanning stop a st (w\<lparr>l1_current_time := c, l1_next_time := n, l1_mframe := m, l1_events := e\<rparr>) = scanning stop a st w"
  "scanning stop a st (w\<lparr>l1_dsp := d\<rparr>) = scanning stop a st w" "scanning stop a st (hw h w) = scanning stop a st w"
  "scanning stop a st (w\<lparr>l1_current_time := c, l1_next_time := n\<rparr>) = scanning stop a st w"
  by (simp_all add: scanning_def hw_def)

section \<open>The three frames of a measurement\<close>

definition pm_planned :: "u16 \<Rightarrow> agenda" where
  "pm_planned a = no_items[0 := [pm_cmd_item a], 2 := [pm_resp_item a]]"

lemma scan_idle_frame:
  assumes "quiet w" and "tdma_wf s" and "run_ok (l1_run other)" and "due s ! 0 = []"
  shows "\<exists>w' s'. fw_step other fb_compl tch_compl (Frame d) (w, s) = Some (w', s') \<and> quiet w' \<and> tdma_wf s' \<and> due s' = ag_advance (due s) \<and>
    (\<exists>c n m e. w' = w\<lparr>l1_dsp := d, l1_current_time := c, l1_next_time := n, l1_mframe := m, l1_events := e\<rparr>)"
proof -
  have "\<exists>rc w1 s1. tdma_sched_execute (l1_run other) ((w\<lparr>l1_dsp := d\<rparr>)\<lparr>l1_current_time := c, l1_next_time := n\<rparr>) s = Some (rc, w1, s1) \<and>
      tdma_wf s1 \<and> due s1 = due s \<and> w1 = (w\<lparr>l1_dsp := d\<rparr>)\<lparr>l1_current_time := c, l1_next_time := n\<rparr>" for c n
    using execute_none [OF assms(2,4), of "l1_run other" "w\<lparr>l1_dsp := d, l1_current_time := c, l1_next_time := n\<rparr>"] by auto
  moreover have "quiet (w\<lparr>l1_dsp := d\<rparr>)" using assms(1) by (simp only: dsp_quiet)
  moreover have "same_clock v v" for v by (simp add: same_clock_def)
  ultimately have "\<exists>w' s'. l1_sync (l1_run other) (w\<lparr>l1_dsp := d\<rparr>, s) = Some (w', s') \<and> quiet w' \<and> tdma_wf s' \<and> due s' = ag_advance (due s) \<and>
      (\<exists>c n m e. w' = (w\<lparr>l1_dsp := d\<rparr>)\<lparr>l1_current_time := c, l1_next_time := n, l1_mframe := m, l1_events := e\<rparr>)"
    using quiet_frame [of "w\<lparr>l1_dsp := d\<rparr>" s other "due s" "\<lambda>w. w"] assms(2,3) by blast
  then show ?thesis by (simp only: fw_step.simps fst_conv snd_conv)
qed

lemma scan_cmd_frame:
  assumes "quiet w" and "tdma_wf s" and "run_ok (l1_run other)" and "due s = pm_planned a" and "scanning stop a st w"
  shows "\<exists>w' s'. fw_step other fb_compl tch_compl (Frame d) (w, s) = Some (w', s') \<and> quiet w' \<and> tdma_wf s' \<and>
    due s' = no_items[1 := [pm_resp_item a]] \<and> scanning stop a st w'"
proof -
  let ?w = "w\<lparr>l1_dsp := d\<rparr>" and ?h = "Hw_rx_pm a 0"
  have d0: "due s ! 0 = [pm_cmd_item a]" by (simp add: assms(4) pm_planned_def)
  have run: "l1_run other it v = (0, [], hw ?h v)" if "core it = pm_cmd_item a" for it v
    using core_cb [OF that] by (simp add: l1_run_eqs l1s_pm_cmd_def)
  have adv: "ag_advance ((due s)[0 := []]) = no_items[1 := [pm_resp_item a]]"
    by (simp add: assms(4) pm_planned_def ag_advance_def eval_nat_numeral)
  have "\<exists>rc w1 s1. tdma_sched_execute (l1_run other) (?w\<lparr>l1_current_time := c, l1_next_time := n\<rparr>) s = Some (rc, w1, s1) \<and>
      tdma_wf s1 \<and> due s1 = (due s)[0 := []] \<and> w1 = (hw ?h ?w)\<lparr>l1_current_time := c, l1_next_time := n\<rparr>" for c n
  proof -
    have "hw ?h (?w\<lparr>l1_current_time := c, l1_next_time := n\<rparr>) = (hw ?h ?w)\<lparr>l1_current_time := c, l1_next_time := n\<rparr>" by (simp add: hw_def)
    then show ?thesis
      using execute_one [of s "pm_cmd_item a" "l1_run other" "?w\<lparr>l1_current_time := c, l1_next_time := n\<rparr>" "[]", OF assms(2) d0 run] d0
      by auto
  qed
  moreover have "same_clock v (hw ?h v)" for v by (simp add: same_clock_def hw_def)
  ultimately have "\<exists>w' s'. l1_sync (l1_run other) (?w, s) = Some (w', s') \<and> quiet w' \<and> tdma_wf s' \<and> due s' = ag_advance ((due s)[0 := []]) \<and>
      (\<exists>c n m e. w' = (hw ?h ?w)\<lparr>l1_current_time := c, l1_next_time := n, l1_mframe := m, l1_events := e\<rparr>)"
    using assms(1) by (intro quiet_frame [where f = "hw ?h", OF _ assms(2,3)]) (simp_all add: dsp_quiet)
  then obtain w' s' c n m e where "l1_sync (l1_run other) (?w, s) = Some (w', s')" "quiet w'" "tdma_wf s'"
    "due s' = ag_advance ((due s)[0 := []])" "w' = (hw ?h ?w)\<lparr>l1_current_time := c, l1_next_time := n, l1_mframe := m, l1_events := e\<rparr>"
    by blast
  then show ?thesis using assms(5) adv by (intro exI [of _ w'] exI [of _ s']) (simp add: scanning_free)
qed

lemma scan_resp_frame:
  assumes "quiet w" and "tdma_wf s" and "run_ok (l1_run other)" and "due s = no_items[0 := [pm_resp_item a]]" and "scanning stop a st w"
    and st': "st' = pm_collect st (pm_entry a d)" and a': "a' = (a + 1) AND 0xfbff"
  shows "\<exists>w' s'. fw_step other fb_compl tch_compl (Frame d) (w, s) = Some (w', s') \<and> quiet w' \<and> tdma_wf s' \<and>
    (if a \<noteq> stop then due s' = pm_planned a' \<and> scanning stop a' st' w'
     else due s' = no_items \<and> l1_out w' = fst st' @ [pm_message 1 (snd st')])"
proof -
  let ?w = "w\<lparr>l1_dsp := d\<rparr>" and ?cs = "if a \<noteq> stop then [Call_schedule_set 1 pm_sched_set a'] else []"
  define f where "f v = snd (snd (l1s_pm_resp 1 a v))" for v
  have d0: "due s ! 0 = [pm_resp_item a]" by (simp add: assms(4))
  have sc: "scanning stop a st ?w" "\<And>c n. scanning stop a st (?w\<lparr>l1_current_time := c, l1_next_time := n\<rparr>)"
    using assms(5) by (simp_all add: scanning_def)
  have run: "l1_run other it (?w\<lparr>l1_current_time := c, l1_next_time := n\<rparr>) = (0, ?cs, (f ?w)\<lparr>l1_current_time := c, l1_next_time := n\<rparr>)"
    if "core it = pm_resp_item a" for it c n
    using core_cb [OF that] pm_resp_scans [OF sc(1)] pm_resp_scans [OF sc(2) [of n c]]
    by (cases "a = stop") (simp_all add: l1_run_eqs f_def a')
  have cs: "list_all call_ok ?cs" using pm_set_closed by simp
  have A: "fold ag_call ?cs (due s) = (if a \<noteq> stop then (due s)[1 := [pm_cmd_item a'], 3 := [pm_resp_item a']] else due s)"
    by (simp add: pm_set_agenda assms(4))
  have A0: "fold ag_call ?cs (due s) ! 0 = [pm_resp_item a]" using d0 by (simp add: A)
  have adv: "ag_advance ((fold ag_call ?cs (due s))[0 := []]) = (if a \<noteq> stop then pm_planned a' else no_items)"
    unfolding A by (cases "a = stop") (simp_all add: assms(4) pm_planned_def ag_advance_def eval_nat_numeral)
  have "\<exists>rc w1 s1. tdma_sched_execute (l1_run other) (?w\<lparr>l1_current_time := c, l1_next_time := n\<rparr>) s = Some (rc, w1, s1) \<and>
      tdma_wf s1 \<and> due s1 = (fold ag_call ?cs (due s))[0 := []] \<and> w1 = (f ?w)\<lparr>l1_current_time := c, l1_next_time := n\<rparr>" for c n
    using execute_one [of s "pm_resp_item a" "l1_run other" "?w\<lparr>l1_current_time := c, l1_next_time := n\<rparr>" ?cs, OF assms(2) d0 run cs A0]
    by blast
  moreover have "same_clock v (f v)" for v using pm_resp_ok [of 1 a] by (simp add: cb_ok_def f_def)
  ultimately have "\<exists>w' s'. l1_sync (l1_run other) (?w, s) = Some (w', s') \<and> quiet w' \<and> tdma_wf s' \<and>
      due s' = ag_advance ((fold ag_call ?cs (due s))[0 := []]) \<and>
      (\<exists>c n m e. w' = (f ?w)\<lparr>l1_current_time := c, l1_next_time := n, l1_mframe := m, l1_events := e\<rparr>)"
    using assms(1) by (intro quiet_frame [where f = f, OF _ assms(2,3)]) (simp_all add: dsp_quiet)
  then obtain w' s' c n m e where w': "l1_sync (l1_run other) (?w, s) = Some (w', s')" "quiet w'" "tdma_wf s'"
    "due s' = (if a \<noteq> stop then pm_planned a' else no_items)"
    "w' = (f ?w)\<lparr>l1_current_time := c, l1_next_time := n, l1_mframe := m, l1_events := e\<rparr>"
    unfolding adv by blast
  have "length (snd st') \<le> 50 \<and> snd st' \<noteq> []" using pm_collect_pend assms(5) by (simp add: scanning_def st')
  then have "(if a \<noteq> stop then scanning stop a' st' w' else l1_out w' = fst st' @ [pm_message 1 (snd st')])"
    using pm_resp_scans [OF sc(1)] assms(5) by (cases "a = stop") (simp_all add: w'(5) f_def scanning_def st' a')
  then show ?thesis using w'(1-4) by (intro exI [of _ w'] exI [of _ s']) simp
qed

section \<open>What layer 2/3 reads of it\<close>

definition pm_told :: "pm_entry \<Rightarrow> l23_ms \<Rightarrow> l23_ms" where
  "pm_told e = tell (S_L1CTL_PM_RES (fst e) (snd e))"

definition l23_reads :: "libosmo \<Rightarrow> l23_lib \<Rightarrow> u8 list \<Rightarrow> l23_ms \<Rightarrow> l23_ms option" where
  "l23_reads L G msg ms = map_option snd (l1ctl_recv L G msg ms)"

lemma pm_octets_Cons: "pm_octets (e # es) = (be16_octets (fst e) @ [snd e, 0]) @ pm_octets es"
  by (simp add: pm_octets_def case_prod_beta)

lemma pm_octets_read:
  "k < length es \<Longrightarrow> be16 (4 * k) (pm_octets es) = fst (es ! k) \<and> octet (4 * k + 2) (pm_octets es) = snd (es ! k)"
proof (induction es arbitrary: k)
  case (Cons e es)
  let ?h = "be16_octets (fst e) @ [snd e, 0]"
  have h: "length ?h = 4" by simp
  show ?case
  proof (cases k)
    case 0
    then show ?thesis using be16_be16_octets [of "fst e" "snd e # 0 # pm_octets es"] by (simp add: pm_octets_Cons octet_append octet_Cons(1))
  next
    case (Suc j)
    have eq: "4 * k = length ?h + 4 * j" "4 * k + 2 = length ?h + (4 * j + 2)" unfolding h Suc by simp_all
    have "be16 (4 * k) (pm_octets (e # es)) = be16 (4 * j) (pm_octets es)" unfolding eq(1) pm_octets_Cons be_append(1) ..
    moreover have "octet (4 * k + 2) (pm_octets (e # es)) = octet (4 * j + 2) (pm_octets es)"
      unfolding eq(2) pm_octets_Cons by (simp only: octet_append not_add_less1 if_False add_diff_cancel_left')
    ultimately show ?thesis using Cons.IH [of j] Cons.prems Suc by simp
  qed
qed simp

lemma recv_pm_message:
  assumes "es \<noteq> []"
  shows "l23_reads L G (pm_message fl es) ms = Some ((if fl AND 1 \<noteq> 0 then tell S_L1CTL_PM_DONE else id) (fold pm_told es ms))"
proof -
  have n: "(length (pm_octets es) + 3) div 4 = length es" by simp
  have "fold (\<lambda>k. tell (S_L1CTL_PM_RES (be16 (4 * k) (pm_octets es)) (octet (4 * k + 2) (pm_octets es)))) [0..<length es] ms =
      fold (\<lambda>k. pm_told (es ! k)) [0..<length es] ms"
    by (rule fold_cong) (auto simp: pm_told_def pm_octets_read simp del: add_2_eq_Suc')
  also have "\<dots> = fold pm_told (map ((!) es) [0..<length es]) ms" by (simp add: fold_map comp_def)
  also have "\<dots> = fold pm_told es ms" by (simp only: map_nth)
  finally have "rx_l1_pm_conf (pm_octets es) ms = (0, fold pm_told es ms)"
    using assms unfolding rx_l1_pm_conf_def n by simp
  then show ?thesis by (simp add: l23_reads_def l1ctl_recv_def pm_message_def octet_num octet_Cons)
qed

text \<open>The messages sent so far and the one that is being filled hold the results so far.\<close>

definition collected :: "libosmo \<Rightarrow> l23_lib \<Rightarrow> u8 list list \<Rightarrow> pm_entry list \<Rightarrow> u8 list list \<times> pm_entry list \<Rightarrow> bool" where
  "collected L G old es st \<longleftrightarrow> (\<exists>new. fst st = old @ new \<and>
     (\<forall>ms. \<exists>ms'. run_all (l23_reads L G) new ms = Some ms' \<and> fold pm_told (snd st) ms' = fold pm_told es ms))"

lemma collected_none: "collected L G old [] (old, [])"
  by (auto simp: collected_def)

lemma collected_one:
  assumes "collected L G old es st"
  shows "collected L G old (es @ [e]) (pm_collect st e)"
proof (cases "length (snd st) = 50")
  case True
  obtain new where new: "fst st = old @ new"
    "\<And>ms. \<exists>ms'. run_all (l23_reads L G) new ms = Some ms' \<and> fold pm_told (snd st) ms' = fold pm_told es ms"
    using assms by (auto simp: collected_def)
  have "snd st \<noteq> []" using True by auto
  then have "\<exists>ms'. run_all (l23_reads L G) (new @ [pm_message 0 (snd st)]) ms = Some ms' \<and> fold pm_told [e] ms' = fold pm_told (es @ [e]) ms" for ms
    using new(2) [of ms] by (auto simp: run_all_append recv_pm_message)
  moreover have "pm_collect st e = (old @ (new @ [pm_message 0 (snd st)]), [e])" using True new(1) by (simp add: pm_collect_def)
  ultimately show ?thesis unfolding collected_def by (metis fst_conv snd_conv)
next
  case False
  then show ?thesis using assms by (fastforce simp: collected_def pm_collect_def)
qed

lemma fold_pm_told: "l23_out (fold pm_told es ms) = l23_out ms @ map (\<lambda>e. S_L1CTL_PM_RES (fst e) (snd e)) es"
  by (induction es arbitrary: ms) (simp_all add: pm_told_def tell_def)

section \<open>A range of frequencies\<close>

text \<open>Each frequency takes three frames, in the third of which its power is read.\<close>

fun scan_levels :: "u16 \<Rightarrow> dsp_read list \<Rightarrow> pm_entry list" where
  "scan_levels a (d1 # d2 # d3 # ds) = pm_entry a d3 # scan_levels (a + 1) ds"
| "scan_levels a _ = []"

lemma next_arfcn: "a < 1023 \<Longrightarrow> (a + 1) AND 0xfbff = (a + 1 :: u16)"
proof -
  assume "a < 1023"
  then have "unat (a + 1) < 2 ^ 10" by (auto simp: word_less_nat_alt unat_word_ariths)
  then have "take_bit 10 (a + 1) = a + 1" by (metis take_bit_nat_eq_self_iff unsigned_take_bit_eq unsigned_word_eqI)
  then have "(a + 1) AND 0x3ff = a + 1" by (simp add: take_bit_eq_mask mask_eq_exp_minus_1)
  moreover have "((a + 1) AND 0x3ff) AND 0xfbff = (a + 1) AND 0x3ff" by (simp add: and.assoc)
  ultimately show ?thesis by simp
qed

lemma scan_three:
  assumes "quiet w" and "tdma_wf s" and "run_ok (l1_run other)" and "due s = pm_planned a" and "scanning stop a st w"
  shows "\<exists>w' s'. run_all (fw_step other fb_compl tch_compl) [Frame d1, Frame d2, Frame d3] (w, s) = Some (w', s') \<and> quiet w' \<and> tdma_wf s' \<and>
    (if a \<noteq> stop then due s' = pm_planned ((a + 1) AND 0xfbff) \<and> scanning stop ((a + 1) AND 0xfbff) (pm_collect st (pm_entry a d3)) w'
     else due s' = no_items \<and> l1_out w' = fst (pm_collect st (pm_entry a d3)) @ [pm_message 1 (snd (pm_collect st (pm_entry a d3)))])"
proof -
  obtain w1 s1 where 1: "fw_step other fb_compl tch_compl (Frame d1) (w, s) = Some (w1, s1)" "quiet w1" "tdma_wf s1"
    "due s1 = no_items[1 := [pm_resp_item a]]" "scanning stop a st w1"
    using scan_cmd_frame [OF assms] by blast
  obtain w2 s2 c n m e where 2: "fw_step other fb_compl tch_compl (Frame d2) (w1, s1) = Some (w2, s2)" "quiet w2" "tdma_wf s2"
    "due s2 = ag_advance (due s1)" "w2 = w1\<lparr>l1_dsp := d2, l1_current_time := c, l1_next_time := n, l1_mframe := m, l1_events := e\<rparr>"
    using scan_idle_frame [OF 1(2,3) assms(3), of fb_compl tch_compl d2] 1(4) by fastforce
  have "due s2 = no_items[0 := [pm_resp_item a]]" by (simp add: 2(4) 1(4) ag_advance_def eval_nat_numeral)
  moreover have "scanning stop a st w2" using 1(5) by (simp add: 2(5) scanning_def)
  ultimately show ?thesis
    using scan_resp_frame [OF 2(2,3) assms(3) _ _ refl refl, of a stop st] 1(1) 2(1) by auto
qed

lemma scan_range:
  assumes "run_ok (l1_run other)"
  shows "quiet w \<Longrightarrow> tdma_wf s \<Longrightarrow> due s = pm_planned a \<Longrightarrow> scanning stop a st w \<Longrightarrow> collected L G old es st \<Longrightarrow>
    a \<le> stop \<Longrightarrow> stop < 1024 \<Longrightarrow> length ds = 3 * (unat stop + 1 - unat a) \<Longrightarrow>
    \<exists>w' s' st'. run_all (fw_step other fb_compl tch_compl) (map Frame ds) (w, s) = Some (w', s') \<and> quiet w' \<and> tdma_wf s' \<and> due s' = no_items \<and>
      collected L G old (es @ scan_levels a ds) st' \<and> snd st' \<noteq> [] \<and> l1_out w' = fst st' @ [pm_message 1 (snd st')]"
proof (induction a ds arbitrary: w s st es rule: scan_levels.induct)
  case (1 a d1 d2 d3 ds)
  let ?st = "pm_collect st (pm_entry a d3)"
  have st: "length (snd ?st) \<le> 50 \<and> snd ?st \<noteq> []" using 1(5) pm_collect_pend by (simp add: scanning_def)
  have coll: "collected L G old (es @ [pm_entry a d3]) ?st" using 1(6) by (rule collected_one)
  obtain w1 s1 where 3: "run_all (fw_step other fb_compl tch_compl) (map Frame [d1, d2, d3]) (w, s) = Some (w1, s1)" "quiet w1" "tdma_wf s1"
    "if a \<noteq> stop then due s1 = pm_planned ((a + 1) AND 0xfbff) \<and> scanning stop ((a + 1) AND 0xfbff) ?st w1
     else due s1 = no_items \<and> l1_out w1 = fst ?st @ [pm_message 1 (snd ?st)]"
    using scan_three [OF 1(2,3) assms 1(4,5), of fb_compl tch_compl d1 d2 d3] unfolding list.map by blast
  have split: "run_all (fw_step other fb_compl tch_compl) (map Frame (d1 # d2 # d3 # ds)) (w, s) =
      run_all (fw_step other fb_compl tch_compl) (map Frame ds) (w1, s1)"
  proof -
    have eq: "map Frame (d1 # d2 # d3 # ds) = map Frame [d1, d2, d3] @ map Frame ds" by simp
    show ?thesis unfolding eq run_all_append 3(1) Option.bind.simps ..
  qed
  show ?case
  proof (cases "a = stop")
    case True
    then have "ds = []" using 1(9) by simp
    then show ?thesis unfolding split using 3(2-4) coll st True by (intro exI [of _ w1] exI [of _ s1] exI [of _ ?st]) simp
  next
    case False
    then have less: "a < stop" using 1(7) by simp
    then have "a < 1023" using 1(8) by (simp add: word_less_nat_alt)
    then have a: "(a + 1) AND 0xfbff = a + 1" "unat (a + 1) = unat a + 1"
      using next_arfcn less by (auto simp: word_less_nat_alt unat_word_ariths)
    have "a + 1 \<le> stop" "length ds = 3 * (unat stop + 1 - unat (a + 1))"
      using less 1(9) a(2) by (simp_all add: word_less_nat_alt word_le_nat_alt)
    from 1(1) [OF 3(2,3) _ _ coll this(1) 1(8) this(2)] 3(4) False a(1) show ?thesis unfolding split by simp
  qed
qed (auto simp: word_le_nat_alt)

section \<open>The measurement as layer 2/3 sees it\<close>

lemma pm_req_plans:
  assumes "tdma_wf s" and "due s = no_items" and "pm_msg w = None"
  shows "\<exists>w' s'. fw_dispatch ([0x08, 0, 0, 0, 1, 0, 0, 0] @ be16_octets start @ be16_octets stop) (w, s) = Some (w', s') \<and> tdma_wf s' \<and>
    due s' = no_items[1 := [pm_cmd_item start], 3 := [pm_resp_item start]] \<and> scanning stop start (l1_out w, []) w' \<and> quiet w' = quiet w"
proof -
  let ?m = "[0x08, 0, 0, 0, 1, 0, 0, 0] @ be16_octets start @ be16_octets stop"
  have m: "octet 0 ?m = 0x08" "octet 4 ?m = 1" "be16 8 ?m = start" "be16 10 ?m = stop" "4 \<le> length ?m"
    by (simp_all add: msg_simps)
  obtain rc s' where "tdma_schedule_set 1 pm_sched_set start s = Some (rc, s')" "tdma_wf s'" "due s' = ag_add_set 1 pm_sched_set start (due s)"
    using schedule_items_refines [OF assms(1) pm_set_closed(1)] unfolding tdma_schedule_set_def by blast
  then show ?thesis
    using m assms(2,3) by (simp add: fw_dispatch_def fw_rx_pm_req_def Let_def l1s_pm_test_def pm_set_agenda scanning_def hw_def quiet_def l1_wf_def)
qed

text \<open>C7. A power measurement of a range of frequencies, from layer 2/3 through the firmware and back: on a firmware with nothing else to do,
  the message of layer 2/3 is handled, the frame interrupts that follow, three for each frequency after one for the start, measure
  every frequency of the range once and in order, and the messages they send, fifty results in each, make layer 2/3
  signal the level of each, as read in its third frame, in order, and the end after the last; and the firmware has nothing to do again.\<close>

theorem fw_scan_end_to_end:
  assumes "run_ok (l1_run other)" and "quiet w" and "tdma_wf s" and "due s = no_items" and "pm_msg w = None" and "l1_rxq w = []"
    and "start \<le> stop" and "stop < 1024" and "length ds = 3 * (unat stop + 1 - unat start)"
  shows "\<exists>msg w' s' new ms'. l1ctl_tx_pm_req_range start stop = Some msg \<and> l23_fits msg \<and>
    run_all (fw_step other fb_compl tch_compl) (Serial_Rx msg # Main_L23 # Frame d0 # map Frame ds) (w, s) = Some (w', s') \<and>
    quiet w' \<and> due s' = no_items \<and> l1_out w' = l1_out w @ new \<and> run_all (l23_reads L G) new ms = Some ms' \<and>
    l23_out ms' = l23_out ms @ map (\<lambda>(a, level). S_L1CTL_PM_RES a level) (scan_levels start ds) @ [S_L1CTL_PM_DONE]"
proof -
  let ?m = "[0x08, 0, 0, 0, 1, 0, 0, 0] @ be16_octets start @ be16_octets stop" and ?step = "fw_step other fb_compl tch_compl"
  have tx: "l1ctl_tx_pm_req_range start stop = Some ?m" "l23_fits ?m"
    by (simp_all add: l1ctl_tx_pm_req_range_def put_def osmo_l1_alloc_def l23_fits_def octet_num octet_Cons)
  obtain w1 s1 where 1: "fw_dispatch ?m (w\<lparr>l1_rxq := []\<rparr>, s) = Some (w1, s1)" "tdma_wf s1" "quiet w1"
    "due s1 = no_items[1 := [pm_cmd_item start], 3 := [pm_resp_item start]]" "scanning stop start (l1_out w, []) w1"
    using pm_req_plans [OF assms(3,4), of "w\<lparr>l1_rxq := []\<rparr>" start stop] assms(2,5) by (auto simp: quiet_def l1_wf_def)
  then have d0: "due s1 ! 0 = []" by simp
  obtain w2 s2 c n m e where 2: "?step (Frame d0) (w1, s1) = Some (w2, s2)" "quiet w2" "tdma_wf s2" "due s2 = ag_advance (due s1)"
    "w2 = w1\<lparr>l1_dsp := d0, l1_current_time := c, l1_next_time := n, l1_mframe := m, l1_events := e\<rparr>"
    using scan_idle_frame [OF 1(3,2) assms(1) d0, of fb_compl tch_compl d0] by fastforce
  have plan: "due s2 = pm_planned start" by (simp add: 2(4) 1(4) pm_planned_def ag_advance_def eval_nat_numeral)
  have scan: "scanning stop start (l1_out w, []) w2" using 1(5) by (simp add: 2(5) scanning_def)
  obtain w3 s3 st where 3: "run_all ?step (map Frame ds) (w2, s2) = Some (w3, s3)" "quiet w3" "due s3 = no_items"
    "collected L G (l1_out w) ([] @ scan_levels start ds) st" "snd st \<noteq> []" "l1_out w3 = fst st @ [pm_message 1 (snd st)]"
    using scan_range [OF assms(1) 2(2,3) plan scan collected_none assms(7-9), of fb_compl tch_compl L G] by blast
  obtain new ms1 where new: "fst st = l1_out w @ new" "run_all (l23_reads L G) new ms = Some ms1"
    "fold pm_told (snd st) ms1 = fold pm_told (scan_levels start ds) ms"
    using 3(4) unfolding collected_def append_Nil by blast
  have "run_all (l23_reads L G) (new @ [pm_message 1 (snd st)]) ms = Some (tell S_L1CTL_PM_DONE (fold pm_told (scan_levels start ds) ms))"
    using new(2,3) 3(5) by (simp add: run_all_append recv_pm_message)
  moreover have "l23_out (tell S_L1CTL_PM_DONE (fold pm_told (scan_levels start ds) ms)) =
      l23_out ms @ map (\<lambda>(a, level). S_L1CTL_PM_RES a level) (scan_levels start ds) @ [S_L1CTL_PM_DONE]"
    by (simp add: tell_def fold_pm_told case_prod_beta)
  moreover have "run_all ?step (Serial_Rx ?m # Main_L23 # Frame d0 # map Frame ds) (w, s) = Some (w3, s3)"
    using 1(1) 2(1) 3(1) assms(6) by (simp add: l1a_l23_rx_def l1a_l23_handler_def)
  ultimately show ?thesis
    using tx 3(2,3,6) new(1) by (intro exI [of _ ?m] exI [of _ w3] exI [of _ s3] exI [of _ "new @ [pm_message 1 (snd st)]"]) auto
qed

theorem fw_scan_end_to_end_witness:
  "let d = \<lambda>pm. \<lparr>dr_pm0 = pm, dr_pm1 = 0, dr_gain8 = 800\<rparr> in
   \<exists>msg w' s' new ms'. l1ctl_tx_pm_req_range 10 11 = Some msg \<and>
     run_all (fw_step idle_run id id) (Serial_Rx msg # Main_L23 # Frame (d 0) # map (Frame \<circ> d) [0, 0, 320, 0, 0, 640]) (l1s_zero, tdma_zero) =
       Some (w', s') \<and> due s' = no_items \<and> l1_out w' = new \<and> run_all (l23_reads toy_lib toy_gsm) new toy_ms = Some ms' \<and>
     l23_out ms' = [S_L1CTL_PM_RES 10 15, S_L1CTL_PM_RES 11 20, S_L1CTL_PM_DONE]"
proof -
  define d where "d pm = \<lparr>dr_pm0 = pm, dr_pm1 = 0, dr_gain8 = 800\<rparr>" for pm :: u16
  have run: "run_ok (l1_run idle_run)" using l1_run_ok [of idle_run] idle_rest_ok by (simp add: l1_rest_ok_def cbs_ok_def)
  have w: "quiet l1s_zero" "pm_msg l1s_zero = None" "l1_rxq l1s_zero = []" "l1_out l1s_zero = []" "l23_out toy_ms = []"
    using fw_l1_zero_wf
    by (simp_all add: quiet_def l1_wf_def l1s_zero_def fw_l1.defs l1s.defs toy_ms_def fw_l1_zero_def sched_gsmtime_init_def)
  have lv: "scan_levels 10 (map d [0, 0, 320, 0, 0, 640]) = [(10, 15), (11, 20)]"
    by (simp add: pm_entry_def pm_rxlev_def d_def fw_dbm2rxlev_def quot8_def agc_inp_dbm8_by_pm_def)
  show ?thesis unfolding Let_def d_def [symmetric]
    using fw_scan_end_to_end [OF run w(1) tdma_wf_zero(1) tdma_wf_zero(2) w(2,3), of 10 11 "map d [0, 0, 320, 0, 0, 640]" id id "d 0" toy_lib toy_gsm toy_ms]
    unfolding lv w(4,5) by (simp add: comp_def) blast
qed

end
